(* ===== verification/Prelude.thy ===== *)
theory Prelude
  imports Main "HOL-Library.Multiset" "HOL-Library.List_Lexorder" "HOL-Library.Char_ord"
    "HOL-Library.Code_Target_Nat"
begin

text \<open>
  What every component theory shares: results that may be errors and the way they are
  threaded, TypeScript's \<open>bigint\<close> division, JavaScript string helpers (decimal rendering,
  padding, trimming, joining), JSON values, and the lemmas on tables of rows (lists of
  records with an \<open>id\<close>) that the database operations need.
\<close>

named_theorems res_elims \<open>inversion of a successful computation\<close>
named_theorems table_simps \<open>lookup after update, insert or filter on a table of rows\<close>

section \<open>Results\<close>

text \<open>
  A computation of the source that may throw is a value of \<open>'e + 'a\<close>; \<open>bind_res\<close> is
  sequencing (\<open>await\<close>), \<open>require\<close> is \<open>if (!b) throw e\<close>, and \<open>the_or\<close> is
  \<open>if (!x) throw e\<close> on a possibly absent value.
\<close>

definition bind_res :: "'e + 'a \<Rightarrow> ('a \<Rightarrow> 'e + 'b) \<Rightarrow> 'e + 'b" where
  "bind_res m f = (case m of Inl e \<Rightarrow> Inl e | Inr x \<Rightarrow> f x)"

definition require :: "bool \<Rightarrow> 'e \<Rightarrow> 'e + unit" where
  "require b e = (if b then Inr () else Inl e)"

definition the_or :: "'a option \<Rightarrow> 'e \<Rightarrow> 'e + 'a" where
  "the_or x e = (case x of None \<Rightarrow> Inl e | Some y \<Rightarrow> Inr y)"

lemma bind_res_simps [simp]:
  "bind_res (Inl e) f = Inl e"
  "bind_res (Inr x) f = f x"
  by (simp_all add: bind_res_def)

lemma bind_res_Inr_iff [res_elims]:
  "bind_res m f = Inr y \<longleftrightarrow> (\<exists>x. m = Inr x \<and> f x = Inr y)"
  by (cases m) auto

lemma bind_res_Inl_iff:
  "bind_res m f = Inl e \<longleftrightarrow> m = Inl e \<or> (\<exists>x. m = Inr x \<and> f x = Inl e)"
  by (cases m) auto

lemma bind_resE [elim]:
  assumes "bind_res m f = Inr y"
  obtains x where "m = Inr x" and "f x = Inr y"
  using assms by (cases m) auto

lemma bind_res_cong [fundef_cong]:
  "m = m' \<Longrightarrow> (\<And>x. m' = Inr x \<Longrightarrow> f x = g x) \<Longrightarrow> bind_res m f = bind_res m' g"
  by (cases m') auto

text \<open>A run that evaluates to a result has one.\<close>

lemma run_result:
  "(case r of Inl e \<Rightarrow> False | Inr (a, s) \<Rightarrow> P a s) \<Longrightarrow> \<exists>a s. r = Inr (a, s) \<and> P a s"
  by (cases r) auto

lemma require_simps [simp]:
  "require True e = Inr ()"
  "require False e = Inl e"
  by (simp_all add: require_def)

lemma require_Inr_iff [simp]: "require b e = Inr u \<longleftrightarrow> b"
  by (cases b) auto

lemma require_Inl_iff [simp]: "require b e = Inl e' \<longleftrightarrow> \<not> b \<and> e' = e"
  by (cases b) auto

lemma the_or_simps [simp]:
  "the_or None e = Inl e"
  "the_or (Some x) e = Inr x"
  by (simp_all add: the_or_def)

lemma the_or_Inr_iff [simp]: "the_or x e = Inr y \<longleftrightarrow> x = Some y"
  by (cases x) auto

lemma the_or_Inl_iff [simp]: "the_or x e = Inl e' \<longleftrightarrow> x = None \<and> e' = e"
  by (cases x) auto

section \<open>Integers of the source\<close>

text \<open>
  \<open>bigint\<close> is unbounded: \<open>int\<close>. Its \<open>/\<close> truncates towards zero and \<open>%\<close> takes the
  sign of the dividend; division by zero throws, so callers check it. PostgreSQL's
  \<open>BIGINT\<close> columns hold 64 bits: \<open>in_int8\<close>.
\<close>

definition big_div :: "int \<Rightarrow> int \<Rightarrow> int" where
  "big_div a b = sgn a * sgn b * (\<bar>a\<bar> div \<bar>b\<bar>)"

definition big_mod :: "int \<Rightarrow> int \<Rightarrow> int" where
  "big_mod a b = sgn a * (\<bar>a\<bar> mod \<bar>b\<bar>)"

lemma big_div_nonneg: "0 \<le> a \<Longrightarrow> 0 \<le> b \<Longrightarrow> big_div a b = a div b"
  by (cases "a = 0"; cases "b = 0") (auto simp: big_div_def)

lemma big_mod_nonneg: "0 \<le> a \<Longrightarrow> 0 \<le> b \<Longrightarrow> big_mod a b = a mod b"
  by (cases "a = 0") (auto simp: big_mod_def)

definition in_int8 :: "int \<Rightarrow> bool" where
  "in_int8 x \<longleftrightarrow> - 9223372036854775808 \<le> x \<and> x \<le> 9223372036854775807"

lemma div_mult_le: "0 < b \<Longrightarrow> a div b * b \<le> (a::int)"
  using div_mult_mod_eq [of a b] pos_mod_sign [of b a] by linarith

lemma less_succ_div_mult: "0 < b \<Longrightarrow> a < (a div b + 1) * (b::int)"
  using div_mult_mod_eq [of a b] pos_mod_bound [of b a] unfolding distrib_right by linarith

lemma div_less_iff: "0 < b \<Longrightarrow> a < k * b \<Longrightarrow> a div b < (k::int)"
  using div_mult_le [of b a] by (metis le_less_trans mult_less_cancel_right_pos)

lemma le_div_iff_mult_le: "0 < b \<Longrightarrow> k \<le> a div b \<longleftrightarrow> k * b \<le> (a::int)"
proof
  assume b: "0 < b" and "k \<le> a div b"
  then have "k * b \<le> a div b * b" by (intro mult_right_mono) auto
  with div_mult_le [OF b, of a] show "k * b \<le> a" by linarith
next
  assume b: "0 < b" and "k * b \<le> a"
  then have "k * b < (a div b + 1) * b" using less_succ_div_mult [OF b, of a] by linarith
  then show "k \<le> a div b" using b by (simp add: mult_less_cancel_right)
qed

text \<open>\<open>(a + b - 1n) / b\<close>, the rounding-up division of the money modules.\<close>

lemma ceil_div_le_iff: "0 < (b::int) \<Longrightarrow> (a + b - 1) div b \<le> k \<longleftrightarrow> a \<le> k * b"
proof -
  assume b: "0 < b"
  define q r where "q = (a + b - 1) div b" and "r = (a + b - 1) mod b"
  have eq: "a + b - 1 = b * q + r" and r: "0 \<le> r" "r < b"
    using b by (simp_all add: q_def r_def)
  have "q \<le> k" if "a \<le> k * b"
  proof -
    have "b * q < b * (k + 1)" using eq r that by (simp add: algebra_simps)
    then show ?thesis using b by simp
  qed
  moreover have "a \<le> k * b" if "q \<le> k"
  proof -
    have "b * q \<le> b * k" using b that by simp
    then show ?thesis using eq r mult.commute [of k b] by linarith
  qed
  ultimately show ?thesis by (auto simp: q_def)
qed

lemma ceil_div_mono: "0 < (b::int) \<Longrightarrow> a \<le> a' \<Longrightarrow> (a + b - 1) div b \<le> (a' + b - 1) div b"
  by (intro zdiv_mono1) auto

section \<open>Strings\<close>

text \<open>
  JavaScript strings as char lists. Decimal rendering of \<open>BigInt.toString\<close> and
  \<open>padStart\<close>/\<open>padEnd\<close>, \<open>trim\<close> (the white space among the first 256 code points),
  \<open>join\<close> and \<open>split\<close>.
\<close>

definition digit_char :: "nat \<Rightarrow> char" where
  "digit_char d = ''0123456789'' ! d"

fun show_nat :: "nat \<Rightarrow> string" where
  "show_nat n = (if n < 10 then [digit_char n] else show_nat (n div 10) @ [digit_char (n mod 10)])"

declare show_nat.simps [simp del]

definition show_int :: "int \<Rightarrow> string" where
  "show_int i = (if i < 0 then CHR ''-'' # show_nat (nat (- i)) else show_nat (nat i))"

definition is_digit :: "char \<Rightarrow> bool" where
  "is_digit c \<longleftrightarrow> c \<in> set ''0123456789''"

definition digit_value :: "char \<Rightarrow> nat" where
  "digit_value c = of_char c - 48"

text \<open>\<open>BigInt(s)\<close> on a string of decimal digits.\<close>

definition read_nat :: "string \<Rightarrow> nat" where
  "read_nat s = foldl (\<lambda>n c. 10 * n + digit_value c) 0 s"

definition pad_start :: "nat \<Rightarrow> char \<Rightarrow> string \<Rightarrow> string" where
  "pad_start n c s = replicate (n - length s) c @ s"

definition pad_end :: "nat \<Rightarrow> char \<Rightarrow> string \<Rightarrow> string" where
  "pad_end n c s = s @ replicate (n - length s) c"

definition is_space :: "char \<Rightarrow> bool" where
  "is_space c \<longleftrightarrow> of_char c \<in> {9, 10, 11, 12, 13, 32, 160 :: nat}"

definition trim_start :: "string \<Rightarrow> string" where
  "trim_start s = dropWhile is_space s"

definition trim_end :: "(char \<Rightarrow> bool) \<Rightarrow> string \<Rightarrow> string" where
  "trim_end p s = rev (dropWhile p (rev s))"

definition trim :: "string \<Rightarrow> string" where
  "trim s = trim_end is_space (trim_start s)"

fun join :: "string \<Rightarrow> string list \<Rightarrow> string" where
  "join sep [] = []"
| "join sep [s] = s"
| "join sep (s # t # ts) = s @ sep @ join sep (t # ts)"

subsection \<open>Decimal rendering and reading\<close>

lemma digit_char_inj: "a < 10 \<Longrightarrow> b < 10 \<Longrightarrow> digit_char a = digit_char b \<longleftrightarrow> a = b"
proof -
  have "distinct ''0123456789''" by simp
  moreover assume "a < 10" "b < 10"
  ultimately show ?thesis
    unfolding digit_char_def by (subst nth_eq_iff_index_eq) auto
qed

lemma less_10_cases:
  assumes "(d::nat) < 10"
  shows "d = 0 \<or> d = 1 \<or> d = 2 \<or> d = 3 \<or> d = 4 \<or> d = 5 \<or> d = 6 \<or> d = 7 \<or> d = 8 \<or> d = 9"
  using assms by presburger

lemma digit_value_char: "d < 10 \<Longrightarrow> digit_value (digit_char d) = d"
  using less_10_cases [of d] by (auto simp: digit_value_def digit_char_def)

lemma is_digit_char: "d < 10 \<Longrightarrow> is_digit (digit_char d)"
  using less_10_cases [of d] by (auto simp: is_digit_def digit_char_def)

lemma digit_char_of_value: "is_digit c \<Longrightarrow> digit_char (digit_value c) = c"
  by (auto simp: is_digit_def digit_value_def digit_char_def)

lemma digit_value_less: "is_digit c \<Longrightarrow> digit_value c < 10"
  by (auto simp: is_digit_def digit_value_def)

lemma show_nat_nonempty [simp]: "show_nat n \<noteq> []"
  by (subst show_nat.simps) simp

lemma show_nat_digits: "c \<in> set (show_nat n) \<Longrightarrow> is_digit c"
proof (induction n rule: show_nat.induct)
  case (1 n)
  then show ?case
    by (subst (asm) show_nat.simps) (auto simp: is_digit_char split: if_splits)
qed

lemma read_nat_snoc: "read_nat (s @ [c]) = 10 * read_nat s + digit_value c"
  by (simp add: read_nat_def)

lemma read_nat_Nil [simp]: "read_nat [] = 0"
  by (simp add: read_nat_def)

lemma read_show_nat [simp]: "read_nat (show_nat n) = n"
proof (induction n rule: show_nat.induct)
  case (1 n)
  show ?case
  proof (cases "n < 10")
    case True
    then show ?thesis
      by (subst show_nat.simps) (simp add: digit_value_char read_nat_def)
  next
    case False
    with 1 show ?thesis
      by (subst show_nat.simps) (simp add: read_nat_snoc digit_value_char)
  qed
qed

lemma show_nat_inj [simp]: "show_nat m = show_nat n \<longleftrightarrow> m = n"
  by (metis read_show_nat)

lemma read_nat_append: "read_nat (s @ t) = read_nat s * 10 ^ length t + read_nat t"
proof (induction t rule: rev_induct)
  case Nil
  show ?case by simp
next
  case (snoc c t)
  then show ?case
    using read_nat_snoc [of "s @ t" c] read_nat_snoc [of t c] by (simp add: algebra_simps)
qed

lemma read_nat_zeros [simp]: "read_nat (replicate n (CHR ''0'')) = 0"
proof (induction n)
  case 0
  show ?case by simp
next
  case (Suc n)
  have "read_nat (replicate (Suc n) (CHR ''0'')) = read_nat (replicate n (CHR ''0'') @ [CHR ''0''])"
    by (simp add: replicate_append_same)
  with Suc show ?case by (simp only: read_nat_snoc) (simp add: digit_value_def)
qed

lemma read_nat_pad_start [simp]: "read_nat (pad_start n (CHR ''0'') s) = read_nat s"
  by (simp add: pad_start_def read_nat_append)

lemma read_nat_pad_end: "read_nat (pad_end n (CHR ''0'') s) = read_nat s * 10 ^ (n - length s)"
  by (simp add: pad_end_def read_nat_append)

lemma length_show_nat_le: "n < 10 ^ k \<Longrightarrow> 0 < k \<Longrightarrow> length (show_nat n) \<le> k"
proof (induction n arbitrary: k rule: show_nat.induct)
  case (1 n)
  show ?case
  proof (cases "n < 10")
    case True
    with 1 show ?thesis by (subst show_nat.simps) simp
  next
    case False
    then obtain k' where k: "k = Suc k'" "0 < k'"
      using 1 by (cases k; cases "k - 1") auto
    with 1 have "n div 10 < 10 ^ k'" by (simp add: less_mult_imp_div_less mult.commute)
    with 1 False k show ?thesis by (subst show_nat.simps) simp
  qed
qed

lemma show_int_inj [simp]: "show_int i = show_int j \<longleftrightarrow> i = j"
proof -
  have minus: "CHR ''-'' \<notin> set (show_nat n)" for n
    using show_nat_digits [of "CHR ''-''" n] by (auto simp: is_digit_def)
  have neq: "CHR ''-'' # s \<noteq> show_nat n" for s n
    using minus [of n] by (metis list.set_intros(1))
  have nat: "nat (- i) = nat (- j) \<longleftrightarrow> i = j" if "i < 0" "j < 0" using that by linarith
  show ?thesis
    using neq neq [symmetric] by (auto simp: show_int_def nat eq_nat_nat_iff)
qed

lemma show_int_chars: "c \<in> set (show_int i) \<Longrightarrow> is_digit c \<or> c = CHR ''-''"
  by (auto simp: show_int_def split: if_splits dest: show_nat_digits)

section \<open>JSON values\<close>

text \<open>
  \<open>metadata\<close>, event payloads and audit details are JSON documents. Ids are UUIDs of
  the database; a model uses the number of the row, rendered in decimal where the source
  puts an id into a string.
\<close>

type_synonym uuid = nat

datatype json =
    JNull
  | JBool bool
  | JNum int
  | JStr string
  | JArr "json list"
  | JObj "(string \<times> json) list"

type_synonym json_object = "(string \<times> json) list"

definition uuid_str :: "uuid \<Rightarrow> string" where
  "uuid_str i = show_nat i"

definition j_id :: "uuid \<Rightarrow> json" where
  "j_id i = JStr (uuid_str i)"

definition j_opt :: "('a \<Rightarrow> json) \<Rightarrow> 'a option \<Rightarrow> json" where
  "j_opt f x = (case x of None \<Rightarrow> JNull | Some y \<Rightarrow> f y)"

text \<open>\<open>amount.toString()\<close> in a payload.\<close>

definition j_amount :: "int \<Rightarrow> json" where
  "j_amount a = JStr (show_int a)"

lemma uuid_str_inj [simp]: "uuid_str i = uuid_str j \<longleftrightarrow> i = j"
  by (simp add: uuid_str_def)

section \<open>Tables\<close>

text \<open>
  A table is the list of its rows in insertion order. \<open>row_by key k\<close> is
  \<open>findOneBy({key: k})\<close>, \<open>set_row key k f\<close> is \<open>UPDATE ... WHERE key = k\<close>.
\<close>

definition row_by :: "('r \<Rightarrow> 'k) \<Rightarrow> 'k \<Rightarrow> 'r list \<Rightarrow> 'r option" where
  "row_by key k rows = find (\<lambda>r. key r = k) rows"

definition set_row :: "('r \<Rightarrow> 'k) \<Rightarrow> 'k \<Rightarrow> ('r \<Rightarrow> 'r) \<Rightarrow> 'r list \<Rightarrow> 'r list" where
  "set_row key k f rows = map (\<lambda>r. if key r = k then f r else r) rows"

lemma row_by_Nil [simp, table_simps]: "row_by key k [] = None"
  by (simp add: row_by_def)

lemma row_by_Cons [table_simps]:
  "row_by key k (r # rows) = (if key r = k then Some r else row_by key k rows)"
  by (simp add: row_by_def)

lemma row_by_append [table_simps]:
  "row_by key k (rows @ rows') =
     (case row_by key k rows of None \<Rightarrow> row_by key k rows' | Some r \<Rightarrow> Some r)"
  by (induction rows) (auto simp: row_by_Cons)

lemma row_by_Some: "row_by key k rows = Some r \<Longrightarrow> r \<in> set rows \<and> key r = k"
  by (induction rows) (auto simp: row_by_Cons split: if_splits)

lemma row_by_None_iff: "row_by key k rows = None \<longleftrightarrow> k \<notin> key ` set rows"
  by (induction rows) (auto simp: row_by_Cons)

lemma row_by_distinct:
  "distinct (map key rows) \<Longrightarrow> r \<in> set rows \<Longrightarrow> row_by key (key r) rows = Some r"
  by (induction rows) (auto simp: row_by_Cons rev_image_eqI)

lemma set_row_Nil [simp, table_simps]: "set_row key k f [] = []"
  by (simp add: set_row_def)

lemma set_row_Cons [table_simps]:
  "set_row key k f (r # rows) = (if key r = k then f r else r) # set_row key k f rows"
  by (simp add: set_row_def)

lemma set_row_append [table_simps]:
  "set_row key k f (rows @ rows') = set_row key k f rows @ set_row key k f rows'"
  by (simp add: set_row_def)

lemma map_set_row: "(\<And>r. g (f r) = g r) \<Longrightarrow> map g (set_row key k f rows) = map g rows"
  by (simp add: set_row_def)

lemma length_set_row [simp]: "length (set_row key k f rows) = length rows"
  by (simp add: set_row_def)

lemma set_row_id: "k \<notin> key ` set rows \<Longrightarrow> set_row key k f rows = rows"
  by (induction rows) (auto simp: set_row_Cons)

lemma row_by_set_row [table_simps]:
  assumes "\<And>r. key (f r) = key r"
  shows "row_by key j (set_row key k f rows) =
    (if j = k then map_option f (row_by key j rows) else row_by key j rows)"
  using assms by (induction rows) (auto simp: row_by_Cons set_row_Cons)

lemma in_set_row:
  "r \<in> set (set_row key k f rows) \<Longrightarrow>
     (\<exists>r0 \<in> set rows. key r0 = k \<and> r = f r0) \<or> (r \<in> set rows \<and> key r \<noteq> k)"
  by (auto simp: set_row_def split: if_splits)

text \<open>A sum over a table changes by the change of the one row that is updated.\<close>

lemma sum_list_set_row:
  fixes g :: "'r \<Rightarrow> int"
  assumes "distinct (map key rows)" and "row_by key k rows = Some r"
  shows "sum_list (map g (set_row key k f rows)) = sum_list (map g rows) + g (f r) - g r"
  using assms
proof (induction rows)
  case Nil
  then show ?case by simp
next
  case (Cons x rows)
  show ?case
  proof (cases "key x = k")
    case True
    with Cons.prems have "k \<notin> key ` set rows" and "x = r"
      by (auto simp: row_by_Cons)
    then show ?thesis using True by (simp add: set_row_Cons set_row_id)
  next
    case False
    with Cons show ?thesis by (auto simp: set_row_Cons row_by_Cons)
  qed
qed

lemma distinct_set_row:
  "(\<And>r. g (f r) = g r) \<Longrightarrow> distinct (map g (set_row key k f rows)) = distinct (map g rows)"
  by (simp add: map_set_row)

lemma sum_list_nonneg_int: "(\<And>x. x \<in> set xs \<Longrightarrow> 0 \<le> g x) \<Longrightarrow> 0 \<le> sum_list (map g (xs :: 'a list) :: int list)"
  by (induction xs) auto

lemma sum_list_map_filter_add:
  fixes g :: "'a \<Rightarrow> int"
  shows "sum_list (map g (filter p (xs @ ys))) = sum_list (map g (filter p xs)) + sum_list (map g (filter p ys))"
  by simp

text \<open>Summing over the rows that refer to each key gives the sum over all rows.\<close>

lemma sum_single_key:
  fixes x :: int
  shows "distinct (map key ts) \<Longrightarrow> k \<in> key ` set ts \<Longrightarrow> sum_list (map (\<lambda>t. if k = key t then x else 0) ts) = x"
proof (induction ts)
  case (Cons t ts)
  show ?case
  proof (cases "k = key t")
    case True
    with Cons.prems have "\<forall>t' \<in> set ts. k \<noteq> key t'" by auto
    then have "sum_list (map (\<lambda>t. if k = key t then x else 0) ts) = 0" by (induction ts) auto
    with True show ?thesis by simp
  next
    case False
    with Cons show ?thesis by auto
  qed
qed simp

lemma sum_by_key:
  fixes g :: "'e \<Rightarrow> int"
  assumes "distinct (map key ts)" and "\<forall>e \<in> set es. fk e \<in> key ` set ts"
  shows "sum_list (map (\<lambda>t. sum_list (map g (filter (\<lambda>e. fk e = key t) es))) ts) = sum_list (map g es)"
  using assms(2)
proof (induction es)
  case Nil
  show ?case by (simp add: sum_list_0)
next
  case (Cons e es)
  have "sum_list (map (\<lambda>t. sum_list (map g (filter (\<lambda>e. fk e = key t) (e # es)))) ts) =
      sum_list (map (\<lambda>t. (if fk e = key t then g e else 0) + sum_list (map g (filter (\<lambda>e. fk e = key t) es))) ts)"
    by (intro arg_cong [where f = sum_list] map_cong) auto
  also have "\<dots> = g e + sum_list (map g es)"
    using Cons assms(1) by (simp add: sum_list_addf sum_single_key)
  finally show ?case by simp
qed

end
