(* ===== verification/App_Errors.thy ===== *)
theory App_Errors
  imports Prelude
begin

text \<open>
  The errors the services throw, one datatype per module of the source
  (\<open>src/<module>/<module>.errors.ts\<close>) and one constructor per exception class, with what
  the class was constructed from. \<open>classify\<close> is the HTTP status and the stable code a
  client sees (\<open>common/http/to-problem-details.ts\<close>). Database errors are the violations
  the services distinguish (\<open>database/postgres-errors.ts\<close>) and the ones that end as 500.
\<close>

datatype ledger_error =
    Insufficient_Funds
  | Currency_Mismatch string
  | Ledger_Reference_Conflict
  | Transaction_Already_Reversed
  | Invalid_Posting string
  | Ledger_Account_Not_Found "uuid list"

datatype fx_error =
    Fx_Rate_Unavailable string string
  | Fx_Rate_Stale string string
  | Same_Currency_Conversion
  | Conversion_Amount_Too_Small
  | Fx_Quote_Not_Found
  | Fx_Quote_Expired
  | Fx_Quote_Already_Used

datatype fee_error =
    Amount_Below_Fee string
  | Fee_Rule_Not_Found
  | Fee_Rule_Already_Retired

datatype limit_error =
    Limit_Exceeded string
  | Limit_Rule_Not_Found
  | Limit_Rule_Already_Retired

datatype wallet_error =
    Wallet_Not_Found string
  | Wallet_Already_Exists string
  | Wallet_Not_Active
  | Wallet_Currency_Not_Allowed "string list"

datatype transfer_error =
    Recipient_Not_Found
  | Self_Transfer
  | No_Wallet_In_Currency string
  | Recipient_Cannot_Receive string

datatype payment_error =
    Payment_Not_Found
  | Payment_Provider_Unavailable
  | Customer_Email_Required

datatype refund_error =
    Refund_Not_Found
  | Payment_Not_Refundable string
  | Refund_Exceeds_Remaining int string
  | Payment_Already_Refunded

datatype payout_error =
    Payout_Not_Found
  | Payout_Destination_Not_Found
  | Payout_Destination_Already_Exists
  | Payout_Destination_Rejected string
  | Payout_Destination_Cooling_Off int

datatype provider_error =
    Provider_Not_Allowed_For_Currency string string
  | Currency_Not_Supported_By_Provider string string
  | Unknown_Payment_Provider string
  | Payouts_Not_Supported string

datatype transaction_error =
    Transaction_Not_Found
  | Invalid_Transaction_State string string

datatype idempotency_error =
    Idempotency_Key_Required
  | Idempotency_Key_Reused
  | Idempotency_Request_In_Progress

datatype proposal_error =
    Proposal_Not_Found
  | Proposal_Already_Decided string
  | Proposal_Expired

datatype db_error =
    Unique_Violation string
  | Check_Violation string
  | Foreign_Key_Violation string
  | Numeric_Out_Of_Range
  | Entity_Not_Found
  | Trigger_Raised string

datatype app_error =
    Ledger_Err ledger_error
  | Fx_Err fx_error
  | Fee_Err fee_error
  | Limit_Err limit_error
  | Wallet_Err wallet_error
  | Transfer_Err transfer_error
  | Payment_Err payment_error
  | Refund_Err refund_error
  | Payout_Err payout_error
  | Provider_Err provider_error
  | Transaction_Err transaction_error
  | Idempotency_Err idempotency_error
  | Proposal_Err proposal_error
  | Db_Err db_error
  | Range_Error string
  | Invalid_Rate string
  | Plain_Error string

type_synonym 'a res = "app_error + 'a"

section \<open>What the client sees\<close>

type_synonym problem = "string \<times> nat"

fun ledger_problem :: "ledger_error \<Rightarrow> problem option" where
  "ledger_problem Insufficient_Funds = Some (''INSUFFICIENT_FUNDS'', 422)"
| "ledger_problem (Currency_Mismatch d) = Some (''CURRENCY_MISMATCH'', 422)"
| "ledger_problem Ledger_Reference_Conflict = Some (''LEDGER_REFERENCE_CONFLICT'', 409)"
| "ledger_problem Transaction_Already_Reversed = Some (''TRANSACTION_ALREADY_REVERSED'', 409)"
| "ledger_problem (Invalid_Posting r) = None"
| "ledger_problem (Ledger_Account_Not_Found ids) = None"

fun fx_problem :: "fx_error \<Rightarrow> problem" where
  "fx_problem (Fx_Rate_Unavailable s t) = (''FX_RATE_UNAVAILABLE'', 422)"
| "fx_problem (Fx_Rate_Stale s t) = (''FX_RATE_STALE'', 503)"
| "fx_problem Same_Currency_Conversion = (''SAME_CURRENCY'', 422)"
| "fx_problem Conversion_Amount_Too_Small = (''AMOUNT_TOO_SMALL'', 422)"
| "fx_problem Fx_Quote_Not_Found = (''FX_QUOTE_NOT_FOUND'', 404)"
| "fx_problem Fx_Quote_Expired = (''FX_QUOTE_EXPIRED'', 422)"
| "fx_problem Fx_Quote_Already_Used = (''FX_QUOTE_ALREADY_USED'', 409)"

fun fee_problem :: "fee_error \<Rightarrow> problem" where
  "fee_problem (Amount_Below_Fee f) = (''AMOUNT_TOO_SMALL'', 422)"
| "fee_problem Fee_Rule_Not_Found = (''FEE_RULE_NOT_FOUND'', 404)"
| "fee_problem Fee_Rule_Already_Retired = (''FEE_RULE_ALREADY_RETIRED'', 409)"

fun limit_problem :: "limit_error \<Rightarrow> problem" where
  "limit_problem (Limit_Exceeded d) = (''LIMIT_EXCEEDED'', 422)"
| "limit_problem Limit_Rule_Not_Found = (''LIMIT_RULE_NOT_FOUND'', 404)"
| "limit_problem Limit_Rule_Already_Retired = (''LIMIT_RULE_ALREADY_RETIRED'', 409)"

fun wallet_problem :: "wallet_error \<Rightarrow> problem" where
  "wallet_problem (Wallet_Not_Found d) = (''WALLET_NOT_FOUND'', 404)"
| "wallet_problem (Wallet_Already_Exists d) = (''WALLET_ALREADY_EXISTS'', 409)"
| "wallet_problem Wallet_Not_Active = (''WALLET_NOT_ACTIVE'', 422)"
| "wallet_problem (Wallet_Currency_Not_Allowed a) = (''WALLET_CURRENCY_NOT_ALLOWED'', 422)"

fun transfer_problem :: "transfer_error \<Rightarrow> problem" where
  "transfer_problem Recipient_Not_Found = (''RECIPIENT_NOT_FOUND'', 422)"
| "transfer_problem Self_Transfer = (''SELF_TRANSFER'', 422)"
| "transfer_problem (No_Wallet_In_Currency c) = (''NO_WALLET_IN_CURRENCY'', 422)"
| "transfer_problem (Recipient_Cannot_Receive c) = (''RECIPIENT_CANNOT_RECEIVE_CURRENCY'', 422)"

fun payment_problem :: "payment_error \<Rightarrow> problem" where
  "payment_problem Payment_Not_Found = (''PAYMENT_NOT_FOUND'', 404)"
| "payment_problem Payment_Provider_Unavailable = (''PAYMENT_PROVIDER_UNAVAILABLE'', 503)"
| "payment_problem Customer_Email_Required = (''CUSTOMER_EMAIL_REQUIRED'', 422)"

fun refund_problem :: "refund_error \<Rightarrow> problem" where
  "refund_problem Refund_Not_Found = (''REFUND_NOT_FOUND'', 404)"
| "refund_problem (Payment_Not_Refundable s) = (''PAYMENT_NOT_REFUNDABLE'', 422)"
| "refund_problem (Refund_Exceeds_Remaining r c) = (''REFUND_EXCEEDS_REMAINING'', 422)"
| "refund_problem Payment_Already_Refunded = (''PAYMENT_ALREADY_REFUNDED'', 422)"

fun payout_problem :: "payout_error \<Rightarrow> problem" where
  "payout_problem Payout_Not_Found = (''PAYOUT_NOT_FOUND'', 404)"
| "payout_problem Payout_Destination_Not_Found = (''PAYOUT_DESTINATION_NOT_FOUND'', 404)"
| "payout_problem Payout_Destination_Already_Exists = (''PAYOUT_DESTINATION_ALREADY_EXISTS'', 409)"
| "payout_problem (Payout_Destination_Rejected d) = (''PAYOUT_DESTINATION_REJECTED'', 422)"
| "payout_problem (Payout_Destination_Cooling_Off t) = (''PAYOUT_DESTINATION_COOLING_OFF'', 422)"

fun provider_problem :: "provider_error \<Rightarrow> problem" where
  "provider_problem (Provider_Not_Allowed_For_Currency c r) = (''PROVIDER_NOT_ALLOWED_FOR_CURRENCY'', 422)"
| "provider_problem (Currency_Not_Supported_By_Provider p c) = (''CURRENCY_NOT_SUPPORTED_BY_PROVIDER'', 422)"
| "provider_problem (Unknown_Payment_Provider n) = (''UNKNOWN_PAYMENT_PROVIDER'', 422)"
| "provider_problem (Payouts_Not_Supported d) = (''PAYOUTS_NOT_SUPPORTED'', 422)"

fun transaction_problem :: "transaction_error \<Rightarrow> problem" where
  "transaction_problem Transaction_Not_Found = (''TRANSACTION_NOT_FOUND'', 404)"
| "transaction_problem (Invalid_Transaction_State f t) = (''INVALID_TRANSACTION_STATE'', 409)"

fun idempotency_problem :: "idempotency_error \<Rightarrow> problem" where
  "idempotency_problem Idempotency_Key_Required = (''IDEMPOTENCY_KEY_REQUIRED'', 400)"
| "idempotency_problem Idempotency_Key_Reused = (''IDEMPOTENCY_KEY_REUSED'', 422)"
| "idempotency_problem Idempotency_Request_In_Progress = (''IDEMPOTENCY_REQUEST_IN_PROGRESS'', 409)"

fun proposal_problem :: "proposal_error \<Rightarrow> problem" where
  "proposal_problem Proposal_Not_Found = (''PROPOSAL_NOT_FOUND'', 404)"
| "proposal_problem (Proposal_Already_Decided s) = (''PROPOSAL_ALREADY_DECIDED'', 409)"
| "proposal_problem Proposal_Expired = (''PROPOSAL_EXPIRED'', 409)"

definition internal_error :: problem where
  "internal_error = (''INTERNAL_ERROR'', 500)"

text \<open>\<open>classify\<close>: an \<open>AppException\<close> keeps its code, everything else is a generic 500.\<close>

fun classify :: "app_error \<Rightarrow> problem" where
  "classify (Ledger_Err e) = (case ledger_problem e of Some p \<Rightarrow> p | None \<Rightarrow> internal_error)"
| "classify (Fx_Err e) = fx_problem e"
| "classify (Fee_Err e) = fee_problem e"
| "classify (Limit_Err e) = limit_problem e"
| "classify (Wallet_Err e) = wallet_problem e"
| "classify (Transfer_Err e) = transfer_problem e"
| "classify (Payment_Err e) = payment_problem e"
| "classify (Refund_Err e) = refund_problem e"
| "classify (Payout_Err e) = payout_problem e"
| "classify (Provider_Err e) = provider_problem e"
| "classify (Transaction_Err e) = transaction_problem e"
| "classify (Idempotency_Err e) = idempotency_problem e"
| "classify (Proposal_Err e) = proposal_problem e"
| "classify (Db_Err e) = internal_error"
| "classify (Range_Error d) = internal_error"
| "classify (Invalid_Rate d) = internal_error"
| "classify (Plain_Error d) = internal_error"

text \<open>\<open>isUniqueViolation(error, constraint)\<close> with a list of constraint names.\<close>

fun is_unique_violation :: "app_error \<Rightarrow> string list \<Rightarrow> bool" where
  "is_unique_violation (Db_Err (Unique_Violation c)) cs = (c \<in> set cs)"
| "is_unique_violation e cs = False"

end
