(* ===== verification/Money.thy ===== *)
theory Money
  imports App_Errors
begin

text \<open>
  \<open>src/common/money\<close> and \<open>src/common/owner\<close>: the supported currencies and their minor
  units, the boundary between JSON numbers and minor units, exact decimal conversion to
  and from the major units some providers use, and the display format. All arithmetic is
  on integers.
\<close>

section \<open>Currencies (currency.ts)\<close>

definition CURRENCIES :: "(string \<times> nat) list" where
  "CURRENCIES =
     [(''NGN'', 2), (''USD'', 2), (''EUR'', 2), (''GBP'', 2),
      (''GHS'', 2), (''KES'', 2), (''ZAR'', 2), (''JPY'', 0)]"

definition SUPPORTED_CURRENCIES :: "string list" where
  "SUPPORTED_CURRENCIES = map fst CURRENCIES"

definition is_supported_currency :: "string \<Rightarrow> bool" where
  "is_supported_currency c \<longleftrightarrow> c \<in> set SUPPORTED_CURRENCIES"

definition to_currency_code :: "string \<Rightarrow> string res" where
  "to_currency_code c =
     (if is_supported_currency c then Inr c
      else Inl (Plain_Error (''Unsupported currency '' @ c)))"

text \<open>\<open>CURRENCIES[c].minorUnits\<close> for a supported \<open>c\<close>.\<close>

definition minor_units :: "string \<Rightarrow> nat" where
  "minor_units c = (case map_of CURRENCIES c of Some n \<Rightarrow> n | None \<Rightarrow> 0)"

section \<open>Minor units and JSON numbers (money.ts)\<close>

text \<open>
  A JavaScript number either holds an integer exactly or is something else (a fraction,
  \<open>NaN\<close>, an infinity); only the first can pass \<open>Number.isSafeInteger\<close>.
\<close>

datatype js_number = Whole int | Not_Whole

definition MAX_SAFE_INTEGER :: int where
  "MAX_SAFE_INTEGER = 9007199254740991"

definition MAX_API_AMOUNT :: int where
  "MAX_API_AMOUNT = MAX_SAFE_INTEGER"

fun is_safe_integer :: "js_number \<Rightarrow> bool" where
  "is_safe_integer (Whole i) = (- MAX_SAFE_INTEGER \<le> i \<and> i \<le> MAX_SAFE_INTEGER)"
| "is_safe_integer Not_Whole = False"

fun to_minor_units :: "js_number \<Rightarrow> int res" where
  "to_minor_units (Whole i) =
     (if is_safe_integer (Whole i) then Inr i else Inl (Range_Error ''not a safe integer''))"
| "to_minor_units Not_Whole = Inl (Range_Error ''not a safe integer'')"

definition to_api_amount :: "int \<Rightarrow> js_number res" where
  "to_api_amount a =
     (if a > MAX_SAFE_INTEGER \<or> a < - MAX_SAFE_INTEGER
      then Inl (Range_Error ''exceeds the safe integer range'')
      else Inr (Whole a))"

section \<open>Major units (major-units.ts)\<close>

definition exponent_of :: "string \<Rightarrow> nat res" where
  "exponent_of c =
     (if is_supported_currency c then Inr (minor_units c)
      else Inl (Range_Error ''Unsupported currency''))"

definition to_major_unit_string :: "int \<Rightarrow> string \<Rightarrow> string res" where
  "to_major_unit_string minor c =
     (if minor < 0 then Inl (Range_Error ''Amounts must not be negative'')
      else bind_res (exponent_of c) (\<lambda>exponent.
        if exponent = 0 then Inr (show_int minor)
        else
          (let scale = 10 ^ exponent;
               fraction = pad_start exponent (CHR ''0'') (show_int (big_mod minor scale))
           in Inr (show_int (big_div minor scale) @ ''.'' @ fraction))))"

text \<open>
  \<open>toMajorUnitNumber\<close> hands the decimal string to \<open>Number\<close>; the model returns the
  string that is converted, after the guard.
\<close>

definition to_major_unit_number :: "int \<Rightarrow> string \<Rightarrow> string res" where
  "to_major_unit_number minor c =
     (if minor > MAX_SAFE_INTEGER then Inl (Range_Error ''Amount too large to send in major units'')
      else to_major_unit_string minor c)"

text \<open>
  A provider's amount: a finite number (given by its \<open>String(value)\<close>), a string, or
  anything else.
\<close>

datatype amount_value = Amount_Number string | Amount_Text string | Amount_Other

text \<open>\<open>/^(\d+)(?:\.(\d+))?$/\<close>: the digits before and after the point.\<close>

definition match_decimal :: "string \<Rightarrow> (string \<times> string) option" where
  "match_decimal s =
     (let whole = takeWhile is_digit s; rest = dropWhile is_digit s in
      if whole = [] then None
      else case rest of
        [] \<Rightarrow> Some (whole, [])
      | c # fraction \<Rightarrow>
          if c = CHR ''.'' \<and> fraction \<noteq> [] \<and> list_all is_digit fraction
          then Some (whole, fraction) else None)"

fun amount_text :: "amount_value \<Rightarrow> string" where
  "amount_text (Amount_Number s) = s"
| "amount_text (Amount_Text s) = trim s"
| "amount_text Amount_Other = []"

text \<open>\<open>replace(/0+$/, '')\<close>.\<close>

definition strip_zeros :: "string \<Rightarrow> string" where
  "strip_zeros s = trim_end (\<lambda>c. c = CHR ''0'') s"

definition from_major_units :: "amount_value \<Rightarrow> string \<Rightarrow> int res" where
  "from_major_units v c =
     bind_res (exponent_of c) (\<lambda>exponent.
       case match_decimal (amount_text v) of
         None \<Rightarrow> Inl (Range_Error ''Not a valid amount'')
       | Some (whole, frac) \<Rightarrow>
           (let fraction = strip_zeros frac in
            if length fraction > exponent
            then Inl (Range_Error ''has more decimals than the currency allows'')
            else Inr (int (read_nat whole) * 10 ^ exponent
                      + int (read_nat (pad_end exponent (CHR ''0'') fraction)))))"

section \<open>Display (format.ts)\<close>

text \<open>\<open>toLocaleString('en-US')\<close> on a non-negative integer: groups of three digits.\<close>

fun group_rev :: "string \<Rightarrow> string" where
  "group_rev (a # b # c # d # s) = a # b # c # CHR '','' # group_rev (d # s)"
| "group_rev s = s"

definition to_locale_string :: "int \<Rightarrow> string" where
  "to_locale_string n = rev (group_rev (rev (show_int n)))"

definition format_money :: "int \<Rightarrow> string \<Rightarrow> string" where
  "format_money value c =
     (let exponent = (if is_supported_currency c then minor_units c else 2);
          negative = value < 0;
          abs_value = (if negative then - value else value);
          scale = 10 ^ exponent;
          whole = to_locale_string (big_div abs_value scale);
          fraction = (if exponent > 0
                      then ''.'' @ pad_start exponent (CHR ''0'') (show_int (big_mod abs_value scale))
                      else '''')
      in c @ '' '' @ (if negative then ''-'' else '''') @ whole @ fraction)"

section \<open>Owners (owner.ts)\<close>

datatype owner = User_Owner uuid | Organization_Owner uuid

text \<open>A bare id is a user's id.\<close>

datatype owner_ref = Bare_User uuid | Owner_Of owner

fun to_owner :: "owner_ref \<Rightarrow> owner" where
  "to_owner (Bare_User u) = User_Owner u"
| "to_owner (Owner_Of o1) = o1"

text \<open>\<open>ownerColumns\<close>: \<open>(userId, organizationId)\<close>, exactly one set.\<close>

fun owner_columns :: "owner \<Rightarrow> uuid option \<times> uuid option" where
  "owner_columns (User_Owner u) = (Some u, None)"
| "owner_columns (Organization_Owner g) = (None, Some g)"

fun owner_user_id :: "owner \<Rightarrow> uuid option" where
  "owner_user_id (User_Owner u) = Some u"
| "owner_user_id (Organization_Owner g) = None"

text \<open>\<open>ownerWhere\<close> as a filter over a row's two owner columns.\<close>

fun owner_where :: "owner \<Rightarrow> uuid option \<Rightarrow> uuid option \<Rightarrow> bool" where
  "owner_where (User_Owner u) user_id organization_id = (user_id = Some u)"
| "owner_where (Organization_Owner g) user_id organization_id = (organization_id = Some g)"

lemma owner_where_columns [simp]:
  "owner_where o1 (fst (owner_columns o1)) (snd (owner_columns o1))"
  by (cases o1) auto

text \<open>The CHECK \<open>num_nonnulls("user_id", "organization_id") = 1\<close> of the owned tables.\<close>

definition one_owner :: "uuid option \<Rightarrow> uuid option \<Rightarrow> bool" where
  "one_owner u g \<longleftrightarrow> (u = None) \<noteq> (g = None)"

lemma one_owner_columns [simp]: "one_owner (fst (owner_columns o1)) (snd (owner_columns o1))"
  by (cases o1) (auto simp: one_owner_def)

section \<open>Facts\<close>

lemma minor_units_pos_or_zero: "is_supported_currency c \<Longrightarrow> minor_units c = 2 \<or> minor_units c = 0"
  by (auto simp: is_supported_currency_def SUPPORTED_CURRENCIES_def CURRENCIES_def minor_units_def)

lemma trim_end_decomp: "s = trim_end p s @ rev (takeWhile p (rev s))"
  unfolding trim_end_def by (metis rev_append rev_rev_ident takeWhile_dropWhile_id)

lemma takeWhile_eq_replicate: "takeWhile (\<lambda>c. c = a) s = replicate (length (takeWhile (\<lambda>c. c = a) s)) a"
  by (induction s) auto

lemma strip_zeros_decomp: "\<exists>k. s = strip_zeros s @ replicate k (CHR ''0'')"
proof -
  obtain k where "takeWhile (\<lambda>c. c = CHR ''0'') (rev s) = replicate k (CHR ''0'')"
    using takeWhile_eq_replicate by metis
  then have "s = strip_zeros s @ replicate k (CHR ''0'')"
    using trim_end_decomp [of s "\<lambda>c. c = CHR ''0''"] by (simp add: strip_zeros_def)
  then show ?thesis ..
qed

lemma length_strip_zeros_le: "length (strip_zeros s) \<le> length s"
  using strip_zeros_decomp [of s] by (metis le_add1 length_append)

lemma pad_end_strip_zeros: "length s = n \<Longrightarrow> pad_end n (CHR ''0'') (strip_zeros s) = s"
proof -
  assume n: "length s = n"
  obtain k where k: "s = strip_zeros s @ replicate k (CHR ''0'')"
    using strip_zeros_decomp by blast
  then have "n - length (strip_zeros s) = k"
    using n by (metis add_diff_cancel_left' length_append length_replicate)
  with k show ?thesis by (simp add: pad_end_def)
qed

lemma match_decimal_whole: "s \<noteq> [] \<Longrightarrow> list_all is_digit s \<Longrightarrow> match_decimal s = Some (s, [])"
  by (simp add: match_decimal_def list_all_iff Let_def takeWhile_eq_all_conv [THEN iffD2]
      dropWhile_eq_Nil_conv [THEN iffD2])

lemma match_decimal_point:
  assumes "w \<noteq> []" and "list_all is_digit w" and "f \<noteq> []" and "list_all is_digit f"
  shows "match_decimal (w @ CHR ''.'' # f) = Some (w, f)"
proof -
  have dot: "\<not> is_digit (CHR ''.'')" by (simp add: is_digit_def)
  have "takeWhile is_digit (w @ CHR ''.'' # f) = w" "dropWhile is_digit (w @ CHR ''.'' # f) = CHR ''.'' # f"
    using assms(2) dot by (auto simp: list_all_iff takeWhile_append dropWhile_append)
  with assms show ?thesis by (simp add: match_decimal_def)
qed

lemma match_decimal_Some:
  "match_decimal s = Some (w, f) \<Longrightarrow>
     w \<noteq> [] \<and> list_all is_digit w \<and> list_all is_digit f \<and> (f = [] \<and> s = w \<or> f \<noteq> [] \<and> s = w @ CHR ''.'' # f)"
proof -
  assume a: "match_decimal s = Some (w, f)"
  define t d where "t = takeWhile is_digit s" and "d = dropWhile is_digit s"
  have s: "s = t @ d" by (simp add: t_def d_def)
  have "list_all is_digit t"
    by (auto simp: t_def list_all_iff dest: set_takeWhileD)
  moreover have "(if t = [] then None else case d of [] \<Rightarrow> Some (t, [])
      | c # r \<Rightarrow> if c = CHR ''.'' \<and> r \<noteq> [] \<and> list_all is_digit r then Some (t, r) else None) = Some (w, f)"
    using a unfolding match_decimal_def Let_def t_def d_def .
  ultimately show ?thesis
    unfolding s by (auto split: if_splits list.splits)
qed

lemma show_int_nonneg: "0 \<le> i \<Longrightarrow> show_int i = show_nat (nat i)"
  by (simp add: show_int_def)

lemma all_digits_show_nat: "list_all is_digit (show_nat n)"
  by (auto simp: list_all_iff dest: show_nat_digits)

lemma is_digit_not_space: "is_digit c \<Longrightarrow> \<not> is_space c"
  by (auto simp: is_digit_def is_space_def)

lemma dropWhile_none: "list_all (\<lambda>c. \<not> p c) s \<Longrightarrow> dropWhile p s = s"
  by (cases s) auto

lemma trim_nonspace: "list_all (\<lambda>c. \<not> is_space c) s \<Longrightarrow> trim s = s"
  by (simp add: trim_def trim_start_def trim_end_def dropWhile_none)

section \<open>Properties\<close>

lemma big_div_show: "0 \<le> m \<Longrightarrow> 0 < k \<Longrightarrow> show_int (big_div m k) = show_nat (nat (m div k))"
  by (simp add: big_div_nonneg show_int_nonneg pos_imp_zdiv_nonneg_iff)

lemma big_mod_show: "0 \<le> m \<Longrightarrow> 0 < k \<Longrightarrow> show_int (big_mod m k) = show_nat (nat (m mod k))"
  by (simp add: big_mod_nonneg show_int_nonneg)

lemma is_digit_zero [simp]: "is_digit (CHR ''0'')"
  by (simp add: is_digit_def)

lemma list_all_digit_pad: "list_all is_digit s \<Longrightarrow> list_all is_digit (pad_start n (CHR ''0'') s)"
  by (auto simp: pad_start_def list_all_iff set_replicate_conv_if split: if_splits)

text \<open>The fraction digits the renderer writes have exactly the currency's exponent.\<close>

lemma length_fraction:
  assumes "0 \<le> m" and "0 < e"
  shows "length (pad_start e (CHR ''0'') (show_int (big_mod m (10 ^ e)))) = e"
proof -
  have "nat (m mod 10 ^ e) < 10 ^ e"
    by (simp add: nat_less_iff)
  then have "length (show_nat (nat (m mod 10 ^ e))) \<le> e"
    using assms(2) by (rule length_show_nat_le)
  with assms show ?thesis
    by (simp add: pad_start_def big_mod_show)
qed

lemma to_major_unit_string_text:
  assumes "0 \<le> m" and "is_supported_currency c"
  obtains (whole) "minor_units c = 0" "to_major_unit_string m c = Inr (show_nat (nat m))"
  | (frac) f where "minor_units c = 2" "list_all is_digit f" "length f = 2"
      "to_major_unit_string m c = Inr (show_nat (nat (m div 100)) @ CHR ''.'' # f)"
      "int (read_nat f) = m mod 100"
proof (cases "minor_units c = 0")
  case True
  with assms that(1) show ?thesis
    by (simp add: to_major_unit_string_def exponent_of_def show_int_nonneg)
next
  case False
  with minor_units_pos_or_zero [OF assms(2)] have e: "minor_units c = 2" by simp
  define f where "f = pad_start 2 (CHR ''0'') (show_int (big_mod m 100))"
  have f: "f = pad_start 2 (CHR ''0'') (show_nat (nat (m mod 100)))"
    using assms(1) by (simp add: f_def big_mod_show)
  have "length f = 2" using length_fraction [OF assms(1), of 2] by (simp add: f_def)
  moreover have "list_all is_digit f"
    unfolding f by (intro list_all_digit_pad all_digits_show_nat)
  moreover have "int (read_nat f) = m mod 100"
    unfolding f by simp
  moreover have "to_major_unit_string m c = Inr (show_nat (nat (m div 100)) @ CHR ''.'' # f)"
    using assms e by (simp add: to_major_unit_string_def exponent_of_def Let_def f_def big_div_show)
  ultimately show ?thesis using that(2) e by blast
qed

lemma from_major_units_text:
  assumes "is_supported_currency c" and "match_decimal (amount_text v) = Some (w, f)"
    and "length f \<le> minor_units c"
  shows "from_major_units v c =
    Inr (int (read_nat w) * 10 ^ minor_units c
         + int (read_nat (pad_end (minor_units c) (CHR ''0'') (strip_zeros f))))"
  using assms length_strip_zeros_le [of f]
  by (simp add: from_major_units_def exponent_of_def Let_def)

lemma amount_text_digits:
  assumes "list_all (\<lambda>x. is_digit x \<or> x = CHR ''.'') s"
  shows "amount_text (Amount_Text s) = s"
proof -
  have "\<not> is_space (CHR ''.'')" by (simp add: is_space_def)
  then have "list_all (\<lambda>x. \<not> is_space x) s"
    using assms by (auto simp: list_all_iff is_digit_not_space)
  then show ?thesis by (simp add: trim_nonspace)
qed

text \<open>
  Round trip of the major-unit conversion: the decimal string sent to a provider for
  any non-negative amount in a supported currency reads back as exactly that amount.
\<close>

theorem major_units_round_trip:
  assumes "0 \<le> m" and "is_supported_currency c"
  shows "\<exists>s. to_major_unit_string m c = Inr s \<and> from_major_units (Amount_Text s) c = Inr m"
  using assms
proof (cases rule: to_major_unit_string_text)
  case whole
  have "amount_text (Amount_Text (show_nat (nat m))) = show_nat (nat m)"
    by (intro amount_text_digits) (auto simp: list_all_iff dest: show_nat_digits)
  then have "match_decimal (amount_text (Amount_Text (show_nat (nat m)))) = Some (show_nat (nat m), [])"
    using match_decimal_whole all_digits_show_nat by simp
  from from_major_units_text [OF assms(2) this] whole assms(1) show ?thesis
    by (simp add: strip_zeros_def trim_end_def pad_end_def)
next
  case (frac f)
  define s where "s = show_nat (nat (m div 100)) @ CHR ''.'' # f"
  have "amount_text (Amount_Text s) = s"
    using frac(2) all_digits_show_nat [of "nat (m div 100)"]
    by (intro amount_text_digits) (auto simp: s_def list_all_iff)
  moreover have "match_decimal s = Some (show_nat (nat (m div 100)), f)"
    unfolding s_def using frac by (intro match_decimal_point all_digits_show_nat) auto
  ultimately have "from_major_units (Amount_Text s) c =
      Inr (int (read_nat (show_nat (nat (m div 100)))) * 10 ^ minor_units c + int (read_nat f))"
    using from_major_units_text [OF assms(2), of "Amount_Text s"] frac pad_end_strip_zeros [of f 2]
    by simp
  also have "\<dots> = Inr m"
    using assms(1) frac(1,5) by (simp add: pos_imp_zdiv_nonneg_iff)
  finally show ?thesis using frac(4) unfolding s_def by blast
qed

theorem major_units_round_trip_witness:
  "\<exists>s. to_major_unit_string 150050 ''NGN'' = Inr s \<and> from_major_units (Amount_Text s) ''NGN'' = Inr 150050"
  by (rule major_units_round_trip)
    (simp_all add: is_supported_currency_def SUPPORTED_CURRENCIES_def CURRENCIES_def)

end
