(* ===== verification/Posting.thy ===== *)
theory Posting
  imports Money
begin

text \<open>
  \<open>src/ledger/ledger.types.ts\<close>, \<open>posting.ts\<close> and \<open>system-accounts.ts\<close>: account types and
  their normal side, the validation every posting passes before the database is touched,
  the order-insensitive fingerprint that recognises a repeated posting, and the platform's
  own accounts. The lemmas show what validation establishes and that the fingerprint
  identifies the entries up to their order.
\<close>

section \<open>Account types and directions\<close>

datatype account_type = Asset | Liability | Equity | Revenue | Expense

datatype direction = Debit | Credit

definition normal_balance_for :: "account_type \<Rightarrow> direction" where
  "normal_balance_for t = (if t = Asset \<or> t = Expense then Debit else Credit)"

fun opposite :: "direction \<Rightarrow> direction" where
  "opposite Debit = Credit"
| "opposite Credit = Debit"

fun direction_str :: "direction \<Rightarrow> string" where
  "direction_str Debit = ''debit''"
| "direction_str Credit = ''credit''"

lemma direction_str_inj [simp]: "direction_str a = direction_str b \<longleftrightarrow> a = b"
  by (cases a; cases b) auto

lemma opposite_neq [simp]: "opposite d \<noteq> d" "d \<noteq> opposite d"
  by (cases d; simp)+

lemma opposite_opposite [simp]: "opposite (opposite d) = d"
  by (cases d) auto

lemma direction_cases: "d = Debit \<or> d = Credit"
  by (cases d) auto

section \<open>Postings\<close>

record posting_entry =
  pe_account :: uuid
  pe_direction :: direction
  pe_amount :: int

record posting_input =
  pi_reference :: string
  pi_description :: string
  pi_currency :: string
  pi_entries :: "posting_entry list"
  pi_metadata :: json_object
  pi_reversal_of :: "uuid option"

text \<open>The accumulating loop of \<open>validatePosting\<close>: total debits and credits.\<close>

fun posting_totals :: "posting_entry list \<Rightarrow> int \<Rightarrow> int \<Rightarrow> (int \<times> int) res" where
  "posting_totals [] debits credits = Inr (debits, credits)"
| "posting_totals (e # es) debits credits =
     (if pe_amount e \<le> 0
      then Inl (Ledger_Err (Invalid_Posting ''entry amounts must be positive bigints''))
      else if pe_direction e = Debit
      then posting_totals es (debits + pe_amount e) credits
      else posting_totals es debits (credits + pe_amount e))"

definition validate_posting :: "posting_input \<Rightarrow> int res" where
  "validate_posting inp =
     (if trim (pi_reference inp) = [] \<or> length (pi_reference inp) > 255
      then Inl (Ledger_Err (Invalid_Posting ''reference must be 1-255 characters''))
      else if \<not> is_supported_currency (pi_currency inp)
      then Inl (Ledger_Err (Invalid_Posting (''unsupported currency '' @ pi_currency inp)))
      else if length (pi_entries inp) < 2
      then Inl (Ledger_Err (Invalid_Posting ''at least two entries are required''))
      else bind_res (posting_totals (pi_entries inp) 0 0) (\<lambda>(debits, credits).
        if debits = 0 \<or> credits = 0
        then Inl (Ledger_Err (Invalid_Posting ''a posting needs both debit and credit entries''))
        else if debits \<noteq> credits
        then Inl (Ledger_Err (Invalid_Posting
          (''debits ('' @ show_int debits @ '') must equal credits ('' @ show_int credits @ '')'')))
        else Inr debits))"

definition entry_fingerprint :: "posting_entry \<Rightarrow> string" where
  "entry_fingerprint e =
     uuid_str (pe_account e) @ '':'' @ direction_str (pe_direction e) @ '':'' @ show_int (pe_amount e)"

definition entries_fingerprint :: "posting_entry list \<Rightarrow> string" where
  "entries_fingerprint es = join ''|'' (sort (map entry_fingerprint es))"

section \<open>System accounts\<close>

record system_account =
  sa_code :: string
  sa_name :: string
  sa_type :: account_type
  sa_currency :: string
  sa_allow_negative :: bool

definition external_clearing :: "string \<Rightarrow> system_account" where
  "external_clearing c =
     \<lparr>sa_code = ''system:external-clearing:'' @ c, sa_name = ''External clearing ('' @ c @ '')'',
      sa_type = Asset, sa_currency = c, sa_allow_negative = True\<rparr>"

definition fx_position :: "string \<Rightarrow> system_account" where
  "fx_position c =
     \<lparr>sa_code = ''system:fx-position:'' @ c, sa_name = ''FX position ('' @ c @ '')'',
      sa_type = Asset, sa_currency = c, sa_allow_negative = True\<rparr>"

definition fee_revenue :: "string \<Rightarrow> system_account" where
  "fee_revenue c =
     \<lparr>sa_code = ''system:fee-revenue:'' @ c, sa_name = ''Fee revenue ('' @ c @ '')'',
      sa_type = Revenue, sa_currency = c, sa_allow_negative = False\<rparr>"

definition fx_revenue :: "string \<Rightarrow> system_account" where
  "fx_revenue c =
     \<lparr>sa_code = ''system:fx-revenue:'' @ c, sa_name = ''FX revenue ('' @ c @ '')'',
      sa_type = Revenue, sa_currency = c, sa_allow_negative = False\<rparr>"

lemmas system_account_defs = external_clearing_def fx_position_def fee_revenue_def fx_revenue_def

section \<open>What validation establishes\<close>

definition side_sum :: "direction \<Rightarrow> posting_entry list \<Rightarrow> int" where
  "side_sum d es = sum_list (map pe_amount (filter (\<lambda>e. pe_direction e = d) es))"

lemma side_sum_simps [simp]:
  "side_sum d [] = 0"
  "side_sum d (e # es) = (if pe_direction e = d then pe_amount e else 0) + side_sum d es"
  by (simp_all add: side_sum_def)

lemma posting_totals_Inr:
  "posting_totals es d c = Inr (d', c') \<longleftrightarrow>
     (\<forall>e \<in> set es. 0 < pe_amount e) \<and> d' = d + side_sum Debit es \<and> c' = c + side_sum Credit es"
proof (induction es arbitrary: d c)
  case Nil
  then show ?case by auto
next
  case (Cons e es)
  show ?case using Cons [of "d + pe_amount e" c] Cons [of d "c + pe_amount e"]
    by (cases "pe_direction e") auto
qed

lemma validate_posting_Inr:
  "validate_posting inp = Inr a \<longleftrightarrow>
     trim (pi_reference inp) \<noteq> [] \<and> length (pi_reference inp) \<le> 255 \<and>
     is_supported_currency (pi_currency inp) \<and> 2 \<le> length (pi_entries inp) \<and>
     (\<forall>e \<in> set (pi_entries inp). 0 < pe_amount e) \<and>
     a = side_sum Debit (pi_entries inp) \<and> a = side_sum Credit (pi_entries inp) \<and> a \<noteq> 0"
  by (auto simp: validate_posting_def bind_res_Inr_iff posting_totals_Inr)

lemma side_sum_nonneg: "\<forall>e \<in> set es. 0 < pe_amount e \<Longrightarrow> 0 \<le> side_sum d es"
  by (induction es) auto

lemma validate_posting_pos: "validate_posting inp = Inr a \<Longrightarrow> 0 < a"
  using side_sum_nonneg [of "pi_entries inp" Debit] by (auto simp: validate_posting_Inr)

section \<open>The fingerprint\<close>

lemma colon_split:
  assumes "CHR '':'' \<notin> set s" and "CHR '':'' \<notin> set t" and "s @ CHR '':'' # x = t @ CHR '':'' # y"
  shows "s = t \<and> x = y"
  using assms
proof (induction s arbitrary: t)
  case Nil
  then show ?case by (cases t) auto
next
  case (Cons c s)
  then show ?case by (cases t) auto
qed

lemma no_sep_uuid: "CHR '':'' \<notin> set (uuid_str i)" "CHR ''|'' \<notin> set (uuid_str i)"
  using show_nat_digits [of "CHR '':''" i] show_nat_digits [of "CHR ''|''" i]
  by (auto simp: uuid_str_def is_digit_def)

lemma no_sep_int: "CHR ''|'' \<notin> set (show_int i)"
  using show_int_chars [of "CHR ''|''" i] by (auto simp: is_digit_def)

lemma no_sep_direction: "CHR '':'' \<notin> set (direction_str d)" "CHR ''|'' \<notin> set (direction_str d)"
  by (cases d; simp)+

lemma entry_fingerprint_inj: "entry_fingerprint e = entry_fingerprint e' \<longleftrightarrow> e = e'"
proof
  assume eq: "entry_fingerprint e = entry_fingerprint e'"
  have "uuid_str (pe_account e) = uuid_str (pe_account e') \<and>
      direction_str (pe_direction e) @ '':'' @ show_int (pe_amount e) =
      direction_str (pe_direction e') @ '':'' @ show_int (pe_amount e')"
    using eq by (intro colon_split no_sep_uuid) (simp add: entry_fingerprint_def)
  moreover from this have "direction_str (pe_direction e) = direction_str (pe_direction e') \<and>
      show_int (pe_amount e) = show_int (pe_amount e')"
    by (intro colon_split no_sep_direction) simp
  ultimately show "e = e'" by simp
qed simp

lemma entry_fingerprint_no_bar: "CHR ''|'' \<notin> set (entry_fingerprint e)"
  by (auto simp: entry_fingerprint_def no_sep_uuid no_sep_int no_sep_direction)

lemma entry_fingerprint_nonempty: "entry_fingerprint e \<noteq> []"
  by (simp add: entry_fingerprint_def)

lemma bar_split:
  assumes "CHR ''|'' \<notin> set s" and "CHR ''|'' \<notin> set t" and "s @ CHR ''|'' # x = t @ CHR ''|'' # y"
  shows "s = t \<and> x = y"
  using assms
proof (induction s arbitrary: t)
  case Nil
  then show ?case by (cases t) auto
next
  case (Cons c s)
  then show ?case by (cases t) auto
qed

lemma join_bar_inj:
  assumes "\<forall>s \<in> set xs \<union> set ys. CHR ''|'' \<notin> set s \<and> s \<noteq> []"
    and "join ''|'' xs = join ''|'' ys"
  shows "xs = ys"
  using assms
proof (induction xs arbitrary: ys)
  case Nil
  show ?case
  proof (cases ys)
    case (Cons s ys')
    with Nil show ?thesis by (cases ys') auto
  qed simp
next
  case (Cons s xs)
  show ?case
  proof (cases ys)
    case Nil
    with Cons.prems show ?thesis by (cases xs) auto
  next
    case ys: (Cons s' ys')
    show ?thesis
    proof (cases xs; cases ys')
      fix t ts t' ts'
      assume xs: "xs = t # ts" "ys' = t' # ts'"
      with Cons.prems ys have "s = s' \<and> join ''|'' xs = join ''|'' ys'"
        by (intro bar_split) auto
      with Cons ys show ?thesis by auto
    qed (use Cons.prems ys in auto)
  qed
qed

lemma fingerprint_mset:
  "entries_fingerprint es = entries_fingerprint es' \<longleftrightarrow> mset es = mset es'"
proof
  assume "mset es = mset es'"
  then have "mset (map entry_fingerprint es) = mset (map entry_fingerprint es')" by simp
  then have "sort (map entry_fingerprint es) = sort (map entry_fingerprint es')"
    by (intro properties_for_sort) (simp_all add: sorted_sort)
  then show "entries_fingerprint es = entries_fingerprint es'" by (simp add: entries_fingerprint_def)
next
  assume "entries_fingerprint es = entries_fingerprint es'"
  then have "sort (map entry_fingerprint es) = sort (map entry_fingerprint es')"
    unfolding entries_fingerprint_def
    by (rule join_bar_inj [rotated]) (auto simp: entry_fingerprint_no_bar entry_fingerprint_nonempty)
  then have "mset (map entry_fingerprint es) = mset (map entry_fingerprint es')"
    by (metis mset_sort)
  then have "image_mset entry_fingerprint (mset es) = image_mset entry_fingerprint (mset es')"
    by simp
  then show "mset es = mset es'"
    using multiset.inj_map [of entry_fingerprint] entry_fingerprint_inj
    by (auto simp: inj_def)
qed

text \<open>
  The fingerprint of \<open>entriesFingerprint\<close> is exact: two lists of entries have the same
  fingerprint if and only if one is a reordering of the other, so a replay is recognised
  in any order and two different postings are never taken for each other.
\<close>

theorem fingerprint_iff_mset:
  "entries_fingerprint es = entries_fingerprint es' \<longleftrightarrow> mset es = mset es'"
  by (rule fingerprint_mset)

end
