(* ===== verification/Ledger.thy ===== *)
theory Ledger
  imports Posting "HOL-Library.AList"
begin

text \<open>
  \<open>src/ledger/ledger.service.ts\<close>, its three entities and the triggers of
  \<open>AddLedgerIntegrityTriggers\<close>: the double-entry ledger. The state is the three tables.
  An operation takes the current time and the state and returns an error (the database
  transaction rolls back: the old state stays) or its result with the new state. The
  trigger that maintains \<open>balance\<close> runs entry by entry inside the insertion, with the
  \<open>CHECK\<close> on non-negative balances; the deferred one runs at commit.
\<close>

section \<open>Tables\<close>

record ledger_account =
  la_id :: uuid
  la_code :: "string option"
  la_name :: string
  la_type :: account_type
  la_normal :: direction
  la_currency :: string
  la_balance :: int
  la_allow_negative :: bool

record ledger_txn =
  lt_id :: uuid
  lt_reference :: string
  lt_description :: string
  lt_currency :: string
  lt_amount :: int
  lt_reversal_of :: "uuid option"
  lt_metadata :: json_object
  lt_created_at :: int

record ledger_entry =
  le_id :: uuid
  le_txn :: uuid
  le_account :: uuid
  le_direction :: direction
  le_amount :: int
  le_currency :: string
  le_created_at :: int

record ledger_state =
  accounts :: "ledger_account list"
  ledger_txns :: "ledger_txn list"
  ledger_entries :: "ledger_entry list"
  ledger_next_id :: uuid

definition empty_ledger :: ledger_state where
  "empty_ledger = \<lparr>accounts = [], ledger_txns = [], ledger_entries = [], ledger_next_id = 0\<rparr>"

abbreviation account_of :: "ledger_state \<Rightarrow> uuid \<Rightarrow> ledger_account option" where
  "account_of l i \<equiv> row_by la_id i (accounts l)"

abbreviation txn_by_reference :: "ledger_state \<Rightarrow> string \<Rightarrow> ledger_txn option" where
  "txn_by_reference l r \<equiv> row_by lt_reference r (ledger_txns l)"

definition entries_of :: "ledger_state \<Rightarrow> uuid \<Rightarrow> ledger_entry list" where
  "entries_of l t = filter (\<lambda>e. le_txn e = t) (ledger_entries l)"

section \<open>Accounts\<close>

record account_input =
  ai_code :: "string option"
  ai_name :: string
  ai_type :: account_type
  ai_currency :: string
  ai_allow_negative :: bool

text \<open>\<open>CHECK (currency ~ '^[A-Z]{3}$')\<close>\<close>

definition currency_format :: "string \<Rightarrow> bool" where
  "currency_format c \<longleftrightarrow> length c = 3 \<and> list_all (\<lambda>ch. CHR ''A'' \<le> ch \<and> ch \<le> CHR ''Z'') c"

definition new_account :: "account_input \<Rightarrow> uuid \<Rightarrow> ledger_account" where
  "new_account inp i =
     \<lparr>la_id = i, la_code = ai_code inp, la_name = ai_name inp, la_type = ai_type inp,
      la_normal = normal_balance_for (ai_type inp), la_currency = ai_currency inp,
      la_balance = 0, la_allow_negative = ai_allow_negative inp\<rparr>"

definition add_account :: "ledger_account \<Rightarrow> ledger_state \<Rightarrow> ledger_state" where
  "add_account a l = l\<lparr>accounts := accounts l @ [a], ledger_next_id := Suc (ledger_next_id l)\<rparr>"

definition code_taken :: "string option \<Rightarrow> ledger_state \<Rightarrow> bool" where
  "code_taken code l \<longleftrightarrow> code \<noteq> None \<and> code \<in> la_code ` set (accounts l)"

definition create_account :: "account_input \<Rightarrow> ledger_state \<Rightarrow> (ledger_account \<times> ledger_state) res" where
  "create_account inp l =
     (if \<not> currency_format (ai_currency inp)
      then Inl (Db_Err (Check_Violation ''chk_ledger_accounts_currency''))
      else if code_taken (ai_code inp) l
      then Inl (Db_Err (Unique_Violation ''uq_ledger_accounts_code''))
      else let a = new_account inp (ledger_next_id l) in Inr (a, add_account a l))"

definition system_input :: "system_account \<Rightarrow> account_input" where
  "system_input sa =
     \<lparr>ai_code = Some (sa_code sa), ai_name = sa_name sa, ai_type = sa_type sa,
      ai_currency = sa_currency sa, ai_allow_negative = sa_allow_negative sa\<rparr>"

text \<open>\<open>INSERT ... ON CONFLICT DO NOTHING\<close>, then the row with that code.\<close>

definition ensure_system_account :: "system_account \<Rightarrow> ledger_state \<Rightarrow> (ledger_account \<times> ledger_state) res" where
  "ensure_system_account sa l =
     (if \<not> currency_format (sa_currency sa)
      then Inl (Db_Err (Check_Violation ''chk_ledger_accounts_currency''))
      else let l' = (if code_taken (Some (sa_code sa)) l then l
                     else add_account (new_account (system_input sa) (ledger_next_id l)) l) in
        bind_res (the_or (row_by la_code (Some (sa_code sa)) (accounts l')) (Db_Err Entity_Not_Found))
          (\<lambda>a. Inr (a, l')))"

definition get_transaction_within :: "ledger_state \<Rightarrow> uuid \<Rightarrow> ledger_txn res" where
  "get_transaction_within l i = the_or (row_by lt_id i (ledger_txns l)) (Db_Err Entity_Not_Found)"

definition get_accounts :: "ledger_state \<Rightarrow> uuid list \<Rightarrow> ledger_account list" where
  "get_accounts l ids = filter (\<lambda>a. la_id a \<in> set ids) (accounts l)"

section \<open>Checks made before the insertion\<close>

text \<open>\<open>SELECT ... WHERE id IN (...) ORDER BY id FOR UPDATE\<close>\<close>

definition lock_accounts :: "uuid list \<Rightarrow> ledger_state \<Rightarrow> ledger_account list res" where
  "lock_accounts ids l =
     (let unique = sort (remdups ids);
          found = List.map_filter (account_of l) unique in
      if length found \<noteq> length unique
      then Inl (Ledger_Err (Ledger_Account_Not_Found (filter (\<lambda>i. i \<notin> la_id ` set found) unique)))
      else Inr found)"

definition assert_currency :: "ledger_account list \<Rightarrow> string \<Rightarrow> unit res" where
  "assert_currency accts c =
     require (list_all (\<lambda>a. la_currency a = c) accts)
       (Ledger_Err (Currency_Mismatch ''All accounts in a posting must share its currency''))"

definition signed_amount :: "direction \<Rightarrow> direction \<Rightarrow> int \<Rightarrow> int" where
  "signed_amount normal d amount = (if d = normal then amount else - amount)"

text \<open>The \<open>deltas\<close> map, an association list in insertion order.\<close>

definition delta_at :: "(uuid \<times> int) list \<Rightarrow> uuid \<Rightarrow> int" where
  "delta_at ds i = (case map_of ds i of None \<Rightarrow> 0 | Some d \<Rightarrow> d)"

fun collect_deltas :: "ledger_account list \<Rightarrow> posting_entry list \<Rightarrow> (uuid \<times> int) list \<Rightarrow> (uuid \<times> int) list res" where
  "collect_deltas accts [] ds = Inr ds"
| "collect_deltas accts (e # es) ds =
     (case row_by la_id (pe_account e) accts of
        None \<Rightarrow> Inl (Ledger_Err (Ledger_Account_Not_Found [pe_account e]))
      | Some a \<Rightarrow> collect_deltas accts es
          (AList.update (la_id a)
             (delta_at ds (la_id a) + signed_amount (la_normal a) (pe_direction e) (pe_amount e)) ds))"

definition overdrawn :: "ledger_account list \<Rightarrow> uuid \<times> int \<Rightarrow> bool" where
  "overdrawn accts d =
     (case row_by la_id (fst d) accts of
        None \<Rightarrow> False
      | Some a \<Rightarrow> \<not> la_allow_negative a \<and> la_balance a + snd d < 0)"

definition assert_sufficient_funds :: "ledger_account list \<Rightarrow> posting_input \<Rightarrow> unit res" where
  "assert_sufficient_funds accts inp =
     bind_res (collect_deltas accts (pi_entries inp) []) (\<lambda>ds.
       require (\<not> list_ex (overdrawn accts) ds) (Ledger_Err Insufficient_Funds))"

text \<open>Only a posting with \<open>reversalOfId\<close> is checked.\<close>

definition assert_not_reversed :: "uuid option \<Rightarrow> ledger_state \<Rightarrow> unit res" where
  "assert_not_reversed orig l =
     require (orig = None \<or> orig \<notin> lt_reversal_of ` set (ledger_txns l))
       (Ledger_Err Transaction_Already_Reversed)"

section \<open>The insertion and its triggers\<close>

fun new_entries :: "uuid \<Rightarrow> uuid \<Rightarrow> string \<Rightarrow> int \<Rightarrow> posting_entry list \<Rightarrow> ledger_entry list" where
  "new_entries i t c now [] = []"
| "new_entries i t c now (e # es) =
     \<lparr>le_id = i, le_txn = t, le_account = pe_account e, le_direction = pe_direction e,
      le_amount = pe_amount e, le_currency = c, le_created_at = now\<rparr> # new_entries (Suc i) t c now es"

text \<open>\<open>ledger_entries_check_currency\<close>, before each row is inserted.\<close>

definition check_entry_currency :: "ledger_account list \<Rightarrow> ledger_txn \<Rightarrow> ledger_entry \<Rightarrow> bool" where
  "check_entry_currency accts t e \<longleftrightarrow>
     map_option la_currency (row_by la_id (le_account e) accts) = Some (le_currency e) \<and>
     lt_currency t = le_currency e"

text \<open>\<open>ledger_entries_apply_balance\<close>, after each row, with the \<open>CHECK\<close> of the table.\<close>

definition apply_balance :: "ledger_entry \<Rightarrow> ledger_account list \<Rightarrow> ledger_account list res" where
  "apply_balance e accts =
     (case row_by la_id (le_account e) accts of
        None \<Rightarrow> Inr accts
      | Some a \<Rightarrow>
          let b = la_balance a + signed_amount (la_normal a) (le_direction e) (le_amount e) in
          if \<not> in_int8 b then Inl (Db_Err Numeric_Out_Of_Range)
          else if \<not> la_allow_negative a \<and> b < 0
          then Inl (Db_Err (Check_Violation ''chk_ledger_accounts_non_negative''))
          else Inr (set_row la_id (le_account e) (\<lambda>r. r\<lparr>la_balance := b\<rparr>) accts))"

fun apply_balances :: "ledger_entry list \<Rightarrow> ledger_account list \<Rightarrow> ledger_account list res" where
  "apply_balances [] accts = Inr accts"
| "apply_balances (e # es) accts = bind_res (apply_balance e accts) (apply_balances es)"

definition insert_entries :: "ledger_txn \<Rightarrow> ledger_entry list \<Rightarrow> ledger_state \<Rightarrow> ledger_state res" where
  "insert_entries t es l =
     bind_res (require (list_all (\<lambda>e. in_int8 (le_amount e)) es) (Db_Err Numeric_Out_Of_Range)) (\<lambda>_.
     bind_res (require (list_all (check_entry_currency (accounts l) t) es)
       (Db_Err (Trigger_Raised ''ledger entry currency does not match''))) (\<lambda>_.
     bind_res (require (list_all (\<lambda>e. 0 < le_amount e) es)
       (Db_Err (Check_Violation ''chk_ledger_entries_amount_positive''))) (\<lambda>_.
     bind_res (apply_balances es (accounts l)) (\<lambda>accts.
       Inr (l\<lparr>accounts := accts, ledger_entries := ledger_entries l @ es,
              ledger_next_id := ledger_next_id l + length es\<rparr>)))))"

definition new_txn :: "uuid \<Rightarrow> int \<Rightarrow> posting_input \<Rightarrow> int \<Rightarrow> ledger_txn" where
  "new_txn i now inp amount =
     \<lparr>lt_id = i, lt_reference = pi_reference inp, lt_description = pi_description inp,
      lt_currency = pi_currency inp, lt_amount = amount, lt_reversal_of = pi_reversal_of inp,
      lt_metadata = pi_metadata inp, lt_created_at = now\<rparr>"

definition insert_txn :: "ledger_txn \<Rightarrow> ledger_state \<Rightarrow> ledger_state res" where
  "insert_txn t l =
     (if \<not> in_int8 (lt_amount t) then Inl (Db_Err Numeric_Out_Of_Range)
      else if \<not> currency_format (lt_currency t)
      then Inl (Db_Err (Check_Violation ''chk_ledger_transactions_currency''))
      else if lt_amount t \<le> 0
      then Inl (Db_Err (Check_Violation ''chk_ledger_transactions_amount_positive''))
      else if lt_reference t \<in> lt_reference ` set (ledger_txns l)
      then Inl (Db_Err (Unique_Violation ''uq_ledger_transactions_reference''))
      else if lt_reversal_of t \<noteq> None \<and> lt_reversal_of t \<in> lt_reversal_of ` set (ledger_txns l)
      then Inl (Db_Err (Unique_Violation ''uq_ledger_transactions_reversal_of_id''))
      else if lt_reversal_of t \<noteq> None \<and> lt_reversal_of t \<notin> (Some \<circ> lt_id) ` set (ledger_txns l)
      then Inl (Db_Err (Foreign_Key_Violation ''fk_ledger_transactions_reversal_of''))
      else Inr (l\<lparr>ledger_txns := ledger_txns l @ [t], ledger_next_id := Suc (ledger_next_id l)\<rparr>))"

section \<open>Posting\<close>

record posted =
  ps_txn :: ledger_txn
  ps_entries :: "ledger_entry list"
  ps_replayed :: bool

definition as_posting_entry :: "ledger_entry \<Rightarrow> posting_entry" where
  "as_posting_entry e =
     \<lparr>pe_account = le_account e, pe_direction = le_direction e, pe_amount = le_amount e\<rparr>"

definition replay :: "posting_input \<Rightarrow> ledger_state \<Rightarrow> posted res" where
  "replay inp l =
     bind_res (the_or (txn_by_reference l (pi_reference inp)) (Db_Err Entity_Not_Found)) (\<lambda>t.
       let es = entries_of l (lt_id t);
           same = entries_fingerprint (map as_posting_entry es) = entries_fingerprint (pi_entries inp) in
       if lt_currency t \<noteq> pi_currency inp \<or> lt_description t \<noteq> pi_description inp \<or> \<not> same
       then Inl (Ledger_Err Ledger_Reference_Conflict)
       else if es = []
       then Inl (Ledger_Err (Invalid_Posting ''existing transaction has no entries''))
       else Inr \<lparr>ps_txn = t, ps_entries = es, ps_replayed = True\<rparr>)"

definition insert_posting :: "int \<Rightarrow> posting_input \<Rightarrow> int \<Rightarrow> ledger_state \<Rightarrow> (posted \<times> ledger_state) res" where
  "insert_posting now inp amount l =
     (let t = new_txn (ledger_next_id l) now inp amount in
      bind_res (insert_txn t l) (\<lambda>l1.
        let es = new_entries (ledger_next_id l1) (lt_id t) (pi_currency inp) now (pi_entries inp) in
        bind_res (insert_entries t es l1) (\<lambda>l2.
          Inr (\<lparr>ps_txn = t, ps_entries = es, ps_replayed = False\<rparr>, l2))))"

text \<open>
  \<open>postWithin\<close>. The look-ups by reference and by reversal run before the accounts are
  locked, so another transaction may commit in between: \<open>seen\<close> is the state those look-ups
  read, \<open>l\<close> the one under the locks. Alone (\<open>post_within\<close>) they are the same.
\<close>

definition post_within_at :: "ledger_state \<Rightarrow> int \<Rightarrow> posting_input \<Rightarrow> ledger_state \<Rightarrow> (posted \<times> ledger_state) res" where
  "post_within_at seen now inp l =
     bind_res (validate_posting inp) (\<lambda>amount.
       if txn_by_reference seen (pi_reference inp) \<noteq> None
       then bind_res (replay inp l) (\<lambda>p. Inr (p, l))
       else bind_res (assert_not_reversed (pi_reversal_of inp) seen) (\<lambda>_.
         bind_res (lock_accounts (map pe_account (pi_entries inp)) l) (\<lambda>accts.
         bind_res (assert_currency accts (pi_currency inp)) (\<lambda>_.
         bind_res (assert_sufficient_funds accts inp) (\<lambda>_.
           insert_posting now inp amount l)))))"

definition post_within :: "int \<Rightarrow> posting_input \<Rightarrow> ledger_state \<Rightarrow> (posted \<times> ledger_state) res" where
  "post_within now inp l = post_within_at l now inp l"

text \<open>\<open>ledger_check_transaction_balanced\<close>, deferred to the commit.\<close>

definition txn_balanced :: "ledger_state \<Rightarrow> ledger_txn \<Rightarrow> bool" where
  "txn_balanced l t \<longleftrightarrow>
     (let es = map as_posting_entry (entries_of l (lt_id t)) in
      2 \<le> length es \<and> side_sum Debit es = side_sum Credit es \<and> side_sum Debit es = lt_amount t)"

definition commit_check :: "posted \<times> ledger_state \<Rightarrow> (posted \<times> ledger_state) res" where
  "commit_check r =
     (if ps_replayed (fst r) \<or> txn_balanced (snd r) (ps_txn (fst r)) then Inr r
      else Inl (Db_Err (Trigger_Raised ''ledger transaction is unbalanced'')))"

text \<open>
  \<open>post\<close>: its own database transaction, the \<open>beforePost\<close> hook first. The unique index
  stops the loser of a race between two first postings; it then replays.
\<close>

definition post_at :: "ledger_state \<Rightarrow> int \<Rightarrow> posting_input \<Rightarrow> unit res \<Rightarrow> ledger_state \<Rightarrow> (posted \<times> ledger_state) res" where
  "post_at seen now inp before_post l =
     bind_res (validate_posting inp) (\<lambda>_.
       case bind_res before_post (\<lambda>_. bind_res (post_within_at seen now inp l) commit_check) of
         Inr r \<Rightarrow> Inr r
       | Inl e \<Rightarrow>
           if is_unique_violation e [''uq_ledger_transactions_reference'']
           then bind_res (replay inp l) (\<lambda>p. Inr (p, l))
           else if is_unique_violation e [''uq_ledger_transactions_reversal_of_id'']
           then Inl (Ledger_Err Transaction_Already_Reversed)
           else Inl e)"

definition post :: "int \<Rightarrow> posting_input \<Rightarrow> unit res \<Rightarrow> ledger_state \<Rightarrow> (posted \<times> ledger_state) res" where
  "post now inp before_post l = post_at l now inp before_post l"

section \<open>Reversal\<close>

definition mirror :: "ledger_entry \<Rightarrow> posting_entry" where
  "mirror e =
     \<lparr>pe_account = le_account e,
      pe_direction = (if le_direction e = Debit then Credit else Debit),
      pe_amount = le_amount e\<rparr>"

definition reversal_input :: "ledger_txn \<Rightarrow> ledger_entry list \<Rightarrow> string \<Rightarrow> string \<Rightarrow> posting_input" where
  "reversal_input t es reference description =
     \<lparr>pi_reference = reference, pi_description = description, pi_currency = lt_currency t,
      pi_entries = map mirror es, pi_metadata = [], pi_reversal_of = Some (lt_id t)\<rparr>"

definition reverse_txn :: "int \<Rightarrow> uuid \<Rightarrow> string \<Rightarrow> string \<Rightarrow> ledger_state \<Rightarrow> (posted \<times> ledger_state) res" where
  "reverse_txn now i reference description l =
     bind_res (the_or (row_by lt_id i (ledger_txns l)) (Db_Err Entity_Not_Found)) (\<lambda>t.
       post now (reversal_input t (entries_of l i) reference description) (Inr ()) l)"

end
