(* ===== verification/Ledger_Laws.thy ===== *)
theory Ledger_Laws
  imports Ledger
begin

text \<open>
  What the ledger of theory \<open>Ledger\<close> guarantees: the closed form of a posting (rows
  appended, balances moved by the net of the entries), the invariant \<open>ledger_inv\<close> that
  every operation keeps (cached balances equal the sum of the entries, no overdraft, every
  transaction balanced, references and reversals unique), idempotent replay, reversal, and
  the interface \<open>posting_ledger\<close> through which the services that move money use it.
\<close>

section \<open>Deltas\<close>

text \<open>The net change entries make to an account with the given normal side.\<close>

definition posting_delta :: "direction \<Rightarrow> uuid \<Rightarrow> posting_entry list \<Rightarrow> int" where
  "posting_delta n i es =
     sum_list (map (\<lambda>e. if pe_account e = i then signed_amount n (pe_direction e) (pe_amount e) else 0) es)"

definition entries_delta :: "direction \<Rightarrow> uuid \<Rightarrow> ledger_entry list \<Rightarrow> int" where
  "entries_delta n i es = posting_delta n i (map as_posting_entry es)"

lemma posting_delta_simps [simp]:
  "posting_delta n i [] = 0"
  "posting_delta n i (e # es) =
     (if pe_account e = i then signed_amount n (pe_direction e) (pe_amount e) else 0) + posting_delta n i es"
  "posting_delta n i (es @ es') = posting_delta n i es + posting_delta n i es'"
  by (simp_all add: posting_delta_def)

lemma entries_delta_simps [simp]:
  "entries_delta n i [] = 0"
  "entries_delta n i (e # es) =
     (if le_account e = i then signed_amount n (le_direction e) (le_amount e) else 0) + entries_delta n i es"
  "entries_delta n i (es @ es') = entries_delta n i es + entries_delta n i es'"
  by (simp_all add: entries_delta_def as_posting_entry_def)

lemma posting_delta_untouched: "i \<notin> pe_account ` set es \<Longrightarrow> posting_delta n i es = 0"
  by (induction es) auto

lemma as_posting_new_entries [simp]: "map as_posting_entry (new_entries i t c now es) = es"
  by (induction es arbitrary: i) (auto simp: as_posting_entry_def)

lemma entries_delta_new [simp]: "entries_delta n j (new_entries i t c now es) = posting_delta n j es"
  by (simp add: entries_delta_def)

lemma length_new_entries [simp]: "length (new_entries i t c now es) = length es"
  by (induction es arbitrary: i) auto

lemma map_le_id_new_entries: "map le_id (new_entries i t c now es) = [i..<i + length es]"
proof (induction es arbitrary: i)
  case (Cons e es)
  have "[i..<i + length (e # es)] = i # [Suc i..<Suc i + length es]"
    by (subst upt_conv_Cons) auto
  with Cons show ?case by simp
qed simp

lemma in_new_entries:
  "e \<in> set (new_entries i t c now es) \<Longrightarrow>
     le_txn e = t \<and> le_currency e = c \<and> as_posting_entry e \<in> set es \<and> le_amount e = pe_amount (as_posting_entry e)
     \<and> le_account e = pe_account (as_posting_entry e)"
  by (induction es arbitrary: i) (auto simp: as_posting_entry_def)

lemma filter_txn_new_entries:
  "filter (\<lambda>e. le_txn e = t') (new_entries i t c now es) = (if t' = t then new_entries i t c now es else [])"
  by (induction es arbitrary: i) auto

section \<open>The trigger on balances\<close>

definition move_account :: "posting_entry list \<Rightarrow> ledger_account \<Rightarrow> ledger_account" where
  "move_account es a = a\<lparr>la_balance := la_balance a + posting_delta (la_normal a) (la_id a) es\<rparr>"

lemma move_account_simps [simp]:
  "la_id (move_account es a) = la_id a" "la_code (move_account es a) = la_code a"
  "la_normal (move_account es a) = la_normal a" "la_currency (move_account es a) = la_currency a"
  "la_type (move_account es a) = la_type a" "la_name (move_account es a) = la_name a"
  "la_allow_negative (move_account es a) = la_allow_negative a"
  "la_balance (move_account es a) = la_balance a + posting_delta (la_normal a) (la_id a) es"
  by (simp_all add: move_account_def)

lemma move_account_Nil [simp]: "move_account [] = (\<lambda>a. a)"
  by (rule ext) (simp add: move_account_def)

definition account_ok :: "ledger_account \<Rightarrow> bool" where
  "account_ok a \<longleftrightarrow> la_allow_negative a \<or> 0 \<le> la_balance a"

lemma set_row_as_map:
  assumes "distinct (map key rows)" and "row_by key k rows = Some r"
    and "f r = g r" and "\<And>x. key x \<noteq> k \<Longrightarrow> g x = x"
  shows "set_row key k f rows = map g rows"
  using assms(1,2)
proof (induction rows)
  case (Cons x rows)
  show ?case
  proof (cases "key x = k")
    case True
    with Cons.prems have "k \<notin> key ` set rows" and "x = r" by (auto simp: row_by_Cons)
    moreover from this assms(4) have "map g rows = rows"
      by (metis image_eqI map_idI)
    ultimately show ?thesis using True assms(3) by (simp add: set_row_Cons set_row_id)
  next
    case False
    with Cons assms(4) show ?thesis by (auto simp: set_row_Cons row_by_Cons)
  qed
qed simp

lemma apply_balance_Inr:
  assumes "apply_balance e accts = Inr accts'" and "distinct (map la_id accts)"
  shows "accts' = map (move_account [as_posting_entry e]) accts \<and>
    (\<forall>a \<in> set accts. account_ok a \<longrightarrow> account_ok (move_account [as_posting_entry e] a))"
proof (cases "row_by la_id (le_account e) accts")
  case None
  then have "move_account [as_posting_entry e] a = a" if "a \<in> set accts" for a
    using that by (auto simp: move_account_def as_posting_entry_def row_by_None_iff)
  with None assms show ?thesis by (auto simp: apply_balance_def intro!: map_idI [symmetric])
next
  case (Some r)
  let ?m = "move_account [as_posting_entry e]"
  have r: "r \<in> set accts" "la_id r = le_account e" using Some row_by_Some by fastforce+
  have other: "?m x = x" if "la_id x \<noteq> le_account e" for x
    using that by (simp add: move_account_def as_posting_entry_def)
  have uniq: "x = r" if "x \<in> set accts" "la_id x = le_account e" for x
    using that r assms(2) by (auto simp: distinct_map inj_on_def)
  from assms(1) Some have "accts' = set_row la_id (le_account e)
      (\<lambda>a. a\<lparr>la_balance := la_balance r + signed_amount (la_normal r) (le_direction e) (le_amount e)\<rparr>) accts"
    and ok: "account_ok (?m r)"
    by (auto simp: apply_balance_def Let_def account_ok_def r as_posting_entry_def split: if_splits)
  moreover have "set_row la_id (le_account e)
      (\<lambda>a. a\<lparr>la_balance := la_balance r + signed_amount (la_normal r) (le_direction e) (le_amount e)\<rparr>) accts = map ?m accts"
    using assms(2) Some other
    by (intro set_row_as_map [where r = r]) (auto simp: move_account_def r as_posting_entry_def)
  ultimately show ?thesis using ok other uniq by (metis)
qed

lemma move_account_append: "move_account (es @ es') a = move_account es' (move_account es a)"
  by (simp add: move_account_def algebra_simps)

lemma move_account_Cons: "move_account (e # es) a = move_account es (move_account [e] a)"
  using move_account_append [of "[e]" es a] by simp

lemma apply_balances_Inr:
  assumes "apply_balances es accts = Inr accts'" and "distinct (map la_id accts)"
  shows "accts' = map (move_account (map as_posting_entry es)) accts \<and>
    (\<forall>a \<in> set accts. account_ok a \<longrightarrow> account_ok (move_account (map as_posting_entry es) a))"
  using assms
proof (induction es arbitrary: accts)
  case (Cons e es)
  from Cons.prems obtain a1 where 1: "apply_balance e accts = Inr a1" "apply_balances es a1 = Inr accts'"
    by (auto simp: bind_res_Inr_iff)
  let ?m = "move_account [as_posting_entry e]"
  from apply_balance_Inr [OF 1(1) Cons.prems(2)] have a1: "a1 = map ?m accts"
    and ok1: "\<forall>a \<in> set accts. account_ok a \<longrightarrow> account_ok (?m a)" by auto
  have "distinct (map la_id a1)" using Cons.prems(2) a1 by (simp add: comp_def)
  from Cons.IH [OF 1(2) this]
  have "accts' = map (\<lambda>a. move_account (map as_posting_entry es) (?m a)) accts"
    and "\<forall>a \<in> set accts. account_ok (?m a) \<longrightarrow> account_ok (move_account (map as_posting_entry es) (?m a))"
    using a1 by (auto simp del: move_account_simps)
  with ok1 show ?case
    by (simp only: list.map move_account_Cons [symmetric]) blast
qed simp

section \<open>The closed form of an insertion\<close>

definition posted_state :: "int \<Rightarrow> posting_input \<Rightarrow> int \<Rightarrow> ledger_state \<Rightarrow> ledger_state" where
  "posted_state now inp amount l =
     \<lparr>accounts = map (move_account (pi_entries inp)) (accounts l),
      ledger_txns = ledger_txns l @ [new_txn (ledger_next_id l) now inp amount],
      ledger_entries = ledger_entries l @
        new_entries (Suc (ledger_next_id l)) (ledger_next_id l) (pi_currency inp) now (pi_entries inp),
      ledger_next_id = Suc (ledger_next_id l) + length (pi_entries inp)\<rparr>"

definition posted_result :: "int \<Rightarrow> posting_input \<Rightarrow> int \<Rightarrow> ledger_state \<Rightarrow> posted" where
  "posted_result now inp amount l =
     \<lparr>ps_txn = new_txn (ledger_next_id l) now inp amount,
      ps_entries = new_entries (Suc (ledger_next_id l)) (ledger_next_id l) (pi_currency inp) now (pi_entries inp),
      ps_replayed = False\<rparr>"

lemma new_txn_simps [simp]:
  "lt_id (new_txn i now inp a) = i" "lt_reference (new_txn i now inp a) = pi_reference inp"
  "lt_description (new_txn i now inp a) = pi_description inp"
  "lt_currency (new_txn i now inp a) = pi_currency inp" "lt_amount (new_txn i now inp a) = a"
  "lt_reversal_of (new_txn i now inp a) = pi_reversal_of inp"
  by (simp_all add: new_txn_def)

lemma insert_posting_Inr:
  assumes "insert_posting now inp amount l = Inr (p, l')" and "distinct (map la_id (accounts l))"
  shows "p = posted_result now inp amount l" and "l' = posted_state now inp amount l"
    and "\<And>a. a \<in> set (accounts l) \<Longrightarrow> account_ok a \<Longrightarrow> account_ok (move_account (pi_entries inp) a)"
    and "\<And>e. e \<in> set (pi_entries inp) \<Longrightarrow>
      \<exists>a. account_of l (pe_account e) = Some a \<and> la_currency a = pi_currency inp"
    and "pi_reference inp \<notin> lt_reference ` set (ledger_txns l)"
    and "\<And>r. pi_reversal_of inp = Some r \<Longrightarrow>
      Some r \<notin> lt_reversal_of ` set (ledger_txns l) \<and> r \<in> lt_id ` set (ledger_txns l)"
    and "in_int8 amount"
proof -
  let ?t = "new_txn (ledger_next_id l) now inp amount"
  let ?es = "new_entries (Suc (ledger_next_id l)) (ledger_next_id l) (pi_currency inp) now (pi_entries inp)"
  define l1 where "l1 = l\<lparr>ledger_txns := ledger_txns l @ [?t], ledger_next_id := Suc (ledger_next_id l)\<rparr>"
  from assms(1) obtain l2 where t: "insert_txn ?t l = Inr l1" and e: "insert_entries ?t ?es l1 = Inr l2"
    and p: "p = posted_result now inp amount l" "l' = l2"
    by (auto simp: insert_posting_def Let_def bind_res_Inr_iff insert_txn_def l1_def posted_result_def split: if_splits)
  then obtain accts where b: "apply_balances ?es (accounts l) = Inr accts"
    and l2: "l2 = l1\<lparr>accounts := accts, ledger_entries := ledger_entries l @ ?es,
        ledger_next_id := Suc (ledger_next_id l) + length (pi_entries inp)\<rparr>"
    and cc: "list_all (check_entry_currency (accounts l) ?t) ?es"
    by (auto simp: insert_entries_def bind_res_Inr_iff l1_def)
  note m = apply_balances_Inr [OF b assms(2), simplified]
  show "p = posted_result now inp amount l" by (rule p)
  show "l' = posted_state now inp amount l"
    using p l2 m by (simp add: posted_state_def l1_def)
  show "\<And>a. a \<in> set (accounts l) \<Longrightarrow> account_ok a \<Longrightarrow> account_ok (move_account (pi_entries inp) a)"
    using m by simp
  show "pi_reference inp \<notin> lt_reference ` set (ledger_txns l)" and "in_int8 amount"
    and "\<And>r. pi_reversal_of inp = Some r \<Longrightarrow>
      Some r \<notin> lt_reversal_of ` set (ledger_txns l) \<and> r \<in> lt_id ` set (ledger_txns l)"
    using t by (auto simp: insert_txn_def split: if_splits)
  fix x assume x: "x \<in> set (pi_entries inp)"
  then have "x \<in> set (map as_posting_entry ?es)" by (simp only: as_posting_new_entries)
  then obtain y where "y \<in> set ?es" "x = as_posting_entry y" unfolding set_map by blast
  moreover from this cc have "check_entry_currency (accounts l) ?t y" by (simp add: list_all_iff)
  ultimately show "\<exists>a. account_of l (pe_account x) = Some a \<and> la_currency a = pi_currency inp"
    by (auto simp: check_entry_currency_def as_posting_entry_def)
qed

section \<open>The invariant\<close>

definition accounts_inv :: "ledger_state \<Rightarrow> bool" where
  "accounts_inv l \<longleftrightarrow>
     distinct (map la_id (accounts l)) \<and> distinct (List.map_filter la_code (accounts l)) \<and>
     (\<forall>a \<in> set (accounts l). la_id a < ledger_next_id l \<and> account_ok a \<and>
        la_balance a = entries_delta (la_normal a) (la_id a) (ledger_entries l))"

definition txns_inv :: "ledger_state \<Rightarrow> bool" where
  "txns_inv l \<longleftrightarrow>
     distinct (map lt_id (ledger_txns l)) \<and> distinct (map lt_reference (ledger_txns l)) \<and>
     distinct (List.map_filter lt_reversal_of (ledger_txns l)) \<and>
     (\<forall>t \<in> set (ledger_txns l). lt_id t < ledger_next_id l \<and> 0 < lt_amount t \<and> txn_balanced l t \<and>
        (\<forall>r. lt_reversal_of t = Some r \<longrightarrow> r \<in> lt_id ` set (ledger_txns l)))"

definition entries_inv :: "ledger_state \<Rightarrow> bool" where
  "entries_inv l \<longleftrightarrow>
     distinct (map le_id (ledger_entries l)) \<and>
     (\<forall>e \<in> set (ledger_entries l). le_id e < ledger_next_id l \<and> 0 < le_amount e \<and>
        (\<exists>a \<in> set (accounts l). la_id a = le_account e \<and> la_currency a = le_currency e) \<and>
        (\<exists>t \<in> set (ledger_txns l). lt_id t = le_txn e \<and> lt_currency t = le_currency e))"

definition ledger_inv :: "ledger_state \<Rightarrow> bool" where
  "ledger_inv l \<longleftrightarrow> accounts_inv l \<and> txns_inv l \<and> entries_inv l"

lemma ledger_inv_ids: "ledger_inv l \<Longrightarrow> distinct (map la_id (accounts l))"
  by (simp add: ledger_inv_def accounts_inv_def)

lemma entries_of_posted_new:
  assumes "ledger_inv l"
  shows "entries_of (posted_state now inp amount l) (ledger_next_id l) =
    new_entries (Suc (ledger_next_id l)) (ledger_next_id l) (pi_currency inp) now (pi_entries inp)"
proof -
  have "le_txn e \<noteq> ledger_next_id l" if "e \<in> set (ledger_entries l)" for e
    using assms that by (force simp: ledger_inv_def entries_inv_def txns_inv_def)
  then have "filter (\<lambda>e. le_txn e = ledger_next_id l) (ledger_entries l) = []"
    by (auto simp: filter_empty_conv)
  then show ?thesis by (simp add: entries_of_def posted_state_def filter_txn_new_entries)
qed

lemma entries_of_posted_old:
  "t \<noteq> ledger_next_id l \<Longrightarrow> entries_of (posted_state now inp amount l) t = entries_of l t"
  by (simp add: entries_of_def posted_state_def filter_txn_new_entries)

lemma map_filter_move [simp]: "List.map_filter la_code (map (move_account es) xs) = List.map_filter la_code xs"
  by (induction xs) (auto simp: map_filter_simps split: option.splits)

lemma map_filter_append [simp]: "List.map_filter f (xs @ ys) = List.map_filter f xs @ List.map_filter f ys"
  by (simp add: map_filter_def)

lemma set_map_filter: "set (List.map_filter f xs) = {y. Some y \<in> f ` set xs}"
  by (induction xs) (auto simp: map_filter_simps image_iff split: option.splits)

lemma map_filter_Nil_iff: "List.map_filter f xs = [] \<longleftrightarrow> (\<forall>x \<in> set xs. f x = None)"
  by (induction xs) (auto simp: map_filter_simps split: option.splits)

lemma posting_inv_posted:
  assumes inv: "ledger_inv l" and v: "validate_posting inp = Inr amount"
    and ins: "insert_posting now inp amount l = Inr (p, l')"
  shows "ledger_inv l'"
proof -
  note f = insert_posting_Inr [OF ins ledger_inv_ids [OF inv]]
  let ?n = "ledger_next_id l"
  let ?es = "new_entries (Suc ?n) ?n (pi_currency inp) now (pi_entries inp)"
  have l': "l' = posted_state now inp amount l" by (rule f(2))
  note flds = posted_state_def
  have "accounts_inv l'"
    using inv f(3) unfolding l' flds
    by (auto simp: ledger_inv_def accounts_inv_def comp_def less_Suc_eq trans_less_add1)
  moreover have "txns_inv l'"
  proof -
    have new: "txn_balanced l' (new_txn ?n now inp amount)"
      using v unfolding l' by (simp add: txn_balanced_def entries_of_posted_new [OF inv] validate_posting_Inr Let_def)
    have old: "txn_balanced l' t" if "t \<in> set (ledger_txns l)" for t
    proof -
      have "lt_id t \<noteq> ?n" and "txn_balanced l t" using inv that by (auto simp: ledger_inv_def txns_inv_def)
      then show ?thesis unfolding l' by (simp add: txn_balanced_def entries_of_posted_old)
    qed
    have lt: "lt_id t < ?n" if "t \<in> set (ledger_txns l)" for t
      using inv that by (auto simp: ledger_inv_def txns_inv_def)
    have ids: "?n \<notin> lt_id ` set (ledger_txns l)" using lt by force
    have txns: "ledger_txns l' = ledger_txns l @ [new_txn ?n now inp amount]"
      and nxt: "ledger_next_id l' = Suc ?n + length (pi_entries inp)" by (simp_all add: l' flds)
    have d: "distinct (List.map_filter lt_reversal_of (ledger_txns l'))"
      using inv f(6) unfolding txns
      by (cases "pi_reversal_of inp") (auto simp: ledger_inv_def txns_inv_def set_map_filter map_filter_simps)
    show ?thesis
      unfolding txns_inv_def nxt
    proof (intro conjI ballI)
      show "distinct (List.map_filter lt_reversal_of (ledger_txns l'))" by (rule d)
      show "distinct (map lt_id (ledger_txns l'))" and "distinct (map lt_reference (ledger_txns l'))"
        using inv ids f(5) by (auto simp: txns ledger_inv_def txns_inv_def)
      fix t assume t: "t \<in> set (ledger_txns l')"
      then consider "t \<in> set (ledger_txns l)" | "t = new_txn ?n now inp amount" by (auto simp: txns)
      note c = this
      show "lt_id t < Suc ?n + length (pi_entries inp)" using c lt by cases force+
      show "0 < lt_amount t"
        using c inv validate_posting_pos [OF v] by cases (auto simp: ledger_inv_def txns_inv_def)
      show "txn_balanced l' t" using c old new by cases auto
      show "\<forall>r. lt_reversal_of t = Some r \<longrightarrow> r \<in> lt_id ` set (ledger_txns l')"
        using c inv f(6) by cases (auto simp: txns ledger_inv_def txns_inv_def)
    qed
  qed
  moreover have "entries_inv l'"
  proof -
    have ids: "map le_id (ledger_entries l') = map le_id (ledger_entries l) @ [Suc ?n..<Suc ?n + length (pi_entries inp)]"
      by (simp only: l' flds ledger_state.simps map_append map_le_id_new_entries)
    have lt: "le_id e < ?n" if "e \<in> set (ledger_entries l)" for e
      using inv that by (auto simp: ledger_inv_def entries_inv_def)
    have d: "distinct (map le_id (ledger_entries l'))"
      using inv lt unfolding ids by (force simp: ledger_inv_def entries_inv_def)
    have acc: "accounts l' = map (move_account (pi_entries inp)) (accounts l)"
      and txns: "ledger_txns l' = ledger_txns l @ [new_txn ?n now inp amount]"
      and ent: "ledger_entries l' = ledger_entries l @ ?es"
      and nxt: "ledger_next_id l' = Suc ?n + length (pi_entries inp)" by (simp_all add: l' flds)
    show ?thesis
      unfolding entries_inv_def
    proof (intro conjI ballI d)
      fix e assume e: "e \<in> set (ledger_entries l')"
      have "le_id e \<in> set (map le_id (ledger_entries l'))" using e by simp
      then show "le_id e < ledger_next_id l'" using lt unfolding ids nxt by force
      consider (old) "e \<in> set (ledger_entries l)" | (new) "e \<in> set ?es" using e ent by auto
      note c = this
      show "0 < le_amount e"
        using c inv v by cases (auto simp: ledger_inv_def entries_inv_def validate_posting_Inr dest!: in_new_entries)
      show "\<exists>a \<in> set (accounts l'). la_id a = le_account e \<and> la_currency a = le_currency e"
        using c
      proof cases
        case old
        then show ?thesis using inv unfolding acc by (force simp: ledger_inv_def entries_inv_def)
      next
        case new
        from in_new_entries [OF new] f(4) [of "as_posting_entry e"]
        show ?thesis unfolding acc by (auto dest: row_by_Some)
      qed
      show "\<exists>t \<in> set (ledger_txns l'). lt_id t = le_txn e \<and> lt_currency t = le_currency e"
        using c inv by cases (auto simp: txns ledger_inv_def entries_inv_def dest!: in_new_entries)
    qed
  qed
  ultimately show ?thesis by (simp add: ledger_inv_def)
qed

section \<open>The operations\<close>

lemma replay_Inr:
  assumes "replay inp l = Inr p"
  shows "\<exists>t. txn_by_reference l (pi_reference inp) = Some t \<and> lt_currency t = pi_currency inp \<and>
      lt_description t = pi_description inp \<and>
      mset (map as_posting_entry (entries_of l (lt_id t))) = mset (pi_entries inp) \<and>
      p = \<lparr>ps_txn = t, ps_entries = entries_of l (lt_id t), ps_replayed = True\<rparr>"
  using assms unfolding replay_def bind_res_Inr_iff the_or_Inr_iff Let_def
  by (auto simp: fingerprint_mset simp del: mset_map split: if_splits)

lemma replay_replayed: "replay inp l = Inr p \<Longrightarrow> ps_replayed p"
  by (auto dest: replay_Inr)

lemma post_within_Inr:
  assumes "post_within now inp l = Inr (p, l')"
  obtains (replayed) "l' = l" "replay inp l = Inr p" "ps_replayed p"
    | (posted) amount where "validate_posting inp = Inr amount" "txn_by_reference l (pi_reference inp) = None"
        "insert_posting now inp amount l = Inr (p, l')" "\<not> ps_replayed p"
  using assms
  by (auto simp: post_within_def post_within_at_def bind_res_Inr_iff insert_posting_def Let_def
      replay_replayed split: if_splits)

lemma post_Inr:
  assumes "post now inp h l = Inr (p, l')"
  obtains "post_within now inp l = Inr (p, l')" | "l' = l" "replay inp l = Inr p"
  using assms
  by (auto simp: post_def post_at_def post_within_def bind_res_Inr_iff commit_check_def
      split: sum.splits if_splits)

lemma ledger_inv_empty: "ledger_inv empty_ledger"
  by (simp add: ledger_inv_def accounts_inv_def txns_inv_def entries_inv_def empty_ledger_def map_filter_simps)

lemma post_within_inv: "ledger_inv l \<Longrightarrow> post_within now inp l = Inr (p, l') \<Longrightarrow> ledger_inv l'"
  by (erule post_within_Inr) (auto intro: posting_inv_posted)

lemma post_inv: "ledger_inv l \<Longrightarrow> post now inp h l = Inr (p, l') \<Longrightarrow> ledger_inv l'"
  by (erule post_Inr) (auto intro: post_within_inv)

lemma entries_delta_none: "(\<And>e. e \<in> set es \<Longrightarrow> le_account e \<noteq> i) \<Longrightarrow> entries_delta n i es = 0"
  by (induction es) auto

lemma add_account_inv:
  assumes "ledger_inv l" and "\<not> code_taken (ai_code inp) l"
  shows "ledger_inv (add_account (new_account inp (ledger_next_id l)) l)"
proof -
  let ?l = "add_account (new_account inp (ledger_next_id l)) l"
  have fresh: "le_account e \<noteq> ledger_next_id l" if "e \<in> set (ledger_entries l)" for e
    using assms(1) that by (force simp: ledger_inv_def entries_inv_def accounts_inv_def)
  have "entries_delta n (ledger_next_id l) (ledger_entries l) = 0" for n
    using fresh by (rule entries_delta_none)
  moreover have "distinct (List.map_filter la_code (accounts ?l))"
    using assms by (cases "ai_code inp")
      (auto simp: add_account_def new_account_def code_taken_def ledger_inv_def accounts_inv_def
        map_filter_simps set_map_filter)
  ultimately have "accounts_inv ?l"
    using assms(1) by (auto simp: ledger_inv_def accounts_inv_def add_account_def new_account_def account_ok_def less_Suc_eq)
  moreover have "txns_inv ?l"
    using assms(1) by (auto simp: ledger_inv_def txns_inv_def add_account_def txn_balanced_def entries_of_def less_Suc_eq)
  moreover have "entries_inv ?l"
    using assms(1) by (auto simp: ledger_inv_def entries_inv_def add_account_def less_Suc_eq)
  ultimately show ?thesis by (simp add: ledger_inv_def)
qed

lemma create_account_inv: "ledger_inv l \<Longrightarrow> create_account inp l = Inr (a, l') \<Longrightarrow> ledger_inv l'"
  by (auto simp: create_account_def Let_def add_account_inv split: if_splits)

lemma ensure_system_account_cases:
  assumes "ensure_system_account sa l = Inr (a, l')"
  obtains "l' = l" "row_by la_code (Some (sa_code sa)) (accounts l) = Some a"
    | "\<not> code_taken (Some (sa_code sa)) l" "a = new_account (system_input sa) (ledger_next_id l)"
      "l' = add_account a l"
proof (cases "code_taken (Some (sa_code sa)) l")
  case True
  then show ?thesis
    using assms that(1) by (auto simp: ensure_system_account_def bind_res_Inr_iff split: if_splits)
next
  case False
  then have none: "row_by la_code (Some (sa_code sa)) (accounts l) = None"
    by (simp add: code_taken_def row_by_None_iff)
  have "row_by la_code (Some (sa_code sa)) (accounts (add_account
      (new_account (system_input sa) (ledger_next_id l)) l)) = Some (new_account (system_input sa) (ledger_next_id l))"
    by (simp add: add_account_def row_by_append none row_by_Cons system_input_def new_account_def)
  then have "a = new_account (system_input sa) (ledger_next_id l)" and "l' = add_account a l"
    using assms False by (auto simp: ensure_system_account_def Let_def split: if_splits)
  with False show ?thesis by (rule that(2))
qed

lemma ensure_system_account_inv: "ledger_inv l \<Longrightarrow> ensure_system_account sa l = Inr (a, l') \<Longrightarrow> ledger_inv l'"
  by (erule ensure_system_account_cases) (auto intro!: add_account_inv simp: system_input_def)

lemma reverse_txn_inv: "ledger_inv l \<Longrightarrow> reverse_txn now i r d l = Inr (p, l') \<Longrightarrow> ledger_inv l'"
  by (auto simp: reverse_txn_def bind_res_Inr_iff intro: post_inv)

section \<open>Runs of the ledger\<close>

text \<open>Every way the tables change: accounts are opened, transactions posted and reversed.\<close>

inductive ledger_step :: "ledger_state \<Rightarrow> ledger_state \<Rightarrow> bool" where
  open_account: "create_account inp l = Inr (a, l') \<Longrightarrow> ledger_step l l'"
| open_system: "ensure_system_account sa l = Inr (a, l') \<Longrightarrow> ledger_step l l'"
| post_own: "post now inp hook l = Inr (p, l') \<Longrightarrow> ledger_step l l'"
| post_in_caller: "post_within now inp l = Inr (p, l') \<Longrightarrow> ledger_step l l'"
| post_reversal: "reverse_txn now i r d l = Inr (p, l') \<Longrightarrow> ledger_step l l'"

abbreviation ledger_run :: "ledger_state \<Rightarrow> ledger_state \<Rightarrow> bool" where
  "ledger_run \<equiv> ledger_step\<^sup>*\<^sup>*"

lemma ledger_step_inv: "ledger_step l l' \<Longrightarrow> ledger_inv l \<Longrightarrow> ledger_inv l'"
  by (induction rule: ledger_step.induct)
    (auto intro: create_account_inv ensure_system_account_inv post_inv post_within_inv reverse_txn_inv)

lemma ledger_run_inv: "ledger_run l l' \<Longrightarrow> ledger_inv l \<Longrightarrow> ledger_inv l'"
  by (induction rule: rtranclp_induct) (auto intro: ledger_step_inv)

text \<open>What later states keep: the tables only grow.\<close>

definition ledger_extends :: "ledger_state \<Rightarrow> ledger_state \<Rightarrow> bool" where
  "ledger_extends l l' \<longleftrightarrow>
     (\<exists>ts. ledger_txns l' = ledger_txns l @ ts) \<and> (\<exists>es. ledger_entries l' = ledger_entries l @ es) \<and>
     ledger_next_id l \<le> ledger_next_id l' \<and>
     (\<forall>t < ledger_next_id l. entries_of l' t = entries_of l t)"

lemma ledger_extends_refl [simp]: "ledger_extends l l"
  by (simp add: ledger_extends_def)

lemma ledger_extends_trans: "ledger_extends a b \<Longrightarrow> ledger_extends b c \<Longrightarrow> ledger_extends a c"
  by (auto simp: ledger_extends_def)

lemma posted_extends: "ledger_extends l (posted_state now inp amount l)"
proof -
  have "ledger_next_id l \<le> ledger_next_id (posted_state now inp amount l)"
    "\<exists>ts. ledger_txns (posted_state now inp amount l) = ledger_txns l @ ts"
    "\<exists>es. ledger_entries (posted_state now inp amount l) = ledger_entries l @ es"
    by (simp_all add: posted_state_def)
  then show ?thesis by (simp add: ledger_extends_def entries_of_posted_old)
qed

lemma add_account_extends: "ledger_extends l (add_account a l)"
  by (simp add: ledger_extends_def add_account_def entries_of_def)

lemma post_within_extends:
  assumes "ledger_inv l" and "post_within now inp l = Inr (p, l')"
  shows "ledger_extends l l'"
  using assms(2)
proof (cases rule: post_within_Inr)
  case (posted amount)
  then show ?thesis using insert_posting_Inr(2) [OF posted(3) ledger_inv_ids [OF assms(1)]] posted_extends by simp
qed simp

lemma post_extends: "ledger_inv l \<Longrightarrow> post now inp h l = Inr (p, l') \<Longrightarrow> ledger_extends l l'"
  by (erule post_Inr) (auto intro: post_within_extends)

lemma ledger_step_extends: "ledger_step l l' \<Longrightarrow> ledger_inv l \<Longrightarrow> ledger_extends l l'"
proof (induction rule: ledger_step.induct)
  case (open_system sa l a l')
  from this(1) show ?case by (cases rule: ensure_system_account_cases) (auto intro: add_account_extends)
qed (auto simp: create_account_def Let_def reverse_txn_def bind_res_Inr_iff
    intro: add_account_extends post_extends post_within_extends split: if_splits)

lemma ledger_run_extends: "ledger_run l l' \<Longrightarrow> ledger_inv l \<Longrightarrow> ledger_extends l l'"
  by (induction rule: rtranclp_induct)
    (auto intro: ledger_extends_trans ledger_step_extends ledger_run_inv)

end
