(* ===== verification/Ledger_Funds.thy ===== *)
theory Ledger_Funds
  imports Ledger_Laws
begin

text \<open>
  The two overdraft checks of a posting: \<open>assertSufficientFunds\<close> on the locked accounts (net
  change per account) and the \<open>CHECK\<close> that the balance trigger runs into (entry by entry).
  They agree when no account occurs twice in a posting; when one does, the second can be
  stricter.
\<close>

section \<open>The locked accounts\<close>

lemma row_by_locked:
  assumes "lock_accounts ids l = Inr accts"
  shows "row_by la_id i accts = (if i \<in> set ids then account_of l i else None)"
    and "i \<in> set ids \<Longrightarrow> account_of l i \<noteq> None"
proof -
  let ?u = "sort (remdups ids)"
  have accts: "accts = List.map_filter (account_of l) ?u"
    and len: "length (List.map_filter (account_of l) ?u) = length ?u"
    using assms by (auto simp: lock_accounts_def Let_def split: if_splits)
  have row: "row_by la_id i (List.map_filter (account_of l) u) = (if i \<in> set u then account_of l i else None)" for u
    by (induction u) (auto simp: map_filter_simps row_by_Cons dest: row_by_Some split: option.splits)
  show "row_by la_id i accts = (if i \<in> set ids then account_of l i else None)"
    using row [of ?u] by (simp add: accts)
  have le: "length (List.map_filter (account_of l) u) \<le> length u" for u
    by (induction u) (auto simp: map_filter_simps split: option.splits)
  have all: "account_of l i \<noteq> None" if "i \<in> set u" "length (List.map_filter (account_of l) u) = length u" for u
    using that
  proof (induction u)
    case (Cons j u)
    then show ?case using le [of u] by (auto simp: map_filter_simps split: option.splits)
  qed simp
  show "i \<in> set ids \<Longrightarrow> account_of l i \<noteq> None" using all [OF _ len] by simp
qed

lemma lock_accounts_Inr: "(\<And>i. i \<in> set ids \<Longrightarrow> account_of l i \<noteq> None) \<Longrightarrow> \<exists>accts. lock_accounts ids l = Inr accts"
proof -
  assume some: "\<And>i. i \<in> set ids \<Longrightarrow> account_of l i \<noteq> None"
  have "length (List.map_filter (account_of l) u) = length u" if "set u \<subseteq> set ids" for u
    using that some by (induction u) (auto simp: map_filter_simps split: option.splits)
  from this [of "sort (remdups ids)"] show ?thesis by (simp add: lock_accounts_def Let_def)
qed

lemma in_locked: "lock_accounts ids l = Inr accts \<Longrightarrow> a \<in> set accts \<Longrightarrow> la_id a \<in> set ids \<and> account_of l (la_id a) = Some a"
proof -
  assume "lock_accounts ids l = Inr accts" "a \<in> set accts"
  then obtain i where "i \<in> set ids" "account_of l i = Some a"
    by (auto simp: lock_accounts_def Let_def set_map_filter split: if_splits)
  then show ?thesis by (auto dest: row_by_Some)
qed

section \<open>Net deltas\<close>

lemma collect_deltas_Inr:
  assumes "collect_deltas accts es ds = Inr ds'" and "row_by la_id (la_id a) accts = Some a"
  shows "delta_at ds' (la_id a) = delta_at ds (la_id a) + posting_delta (la_normal a) (la_id a) es"
  using assms(1)
proof (induction es arbitrary: ds)
  case (Cons e es)
  then obtain b where b: "row_by la_id (pe_account e) accts = Some b"
    and rest: "collect_deltas accts es (AList.update (la_id b)
      (delta_at ds (la_id b) + signed_amount (la_normal b) (pe_direction e) (pe_amount e)) ds) = Inr ds'"
    by (auto split: option.splits)
  have "la_id b = pe_account e" using row_by_Some [OF b] by simp
  moreover from this b assms(2) have "la_id a = pe_account e \<Longrightarrow> a = b" by simp
  ultimately show ?case
    using Cons.IH [OF rest] by (auto simp: delta_at_def update_conv')
qed simp

lemma collect_deltas_keys:
  "collect_deltas accts es ds = Inr ds' \<Longrightarrow>
     fst ` set ds' = fst ` set ds \<union> pe_account ` set es \<and> (distinct (map fst ds) \<longrightarrow> distinct (map fst ds')) \<and>
     (\<forall>e \<in> set es. row_by la_id (pe_account e) accts \<noteq> None)"
proof (induction es arbitrary: ds)
  case (Cons e es)
  then obtain b where b: "row_by la_id (pe_account e) accts = Some b"
    and rest: "collect_deltas accts es (AList.update (la_id b)
      (delta_at ds (la_id b) + signed_amount (la_normal b) (pe_direction e) (pe_amount e)) ds) = Inr ds'"
    by (auto split: option.splits)
  have "la_id b = pe_account e" using row_by_Some [OF b] by simp
  with Cons.IH [OF rest] b show ?case
    by (simp add: dom_update distinct_update image_Un)
qed simp

lemma collect_deltas_total:
  "(\<And>e. e \<in> set es \<Longrightarrow> row_by la_id (pe_account e) accts \<noteq> None) \<Longrightarrow> \<exists>ds'. collect_deltas accts es ds = Inr ds'"
proof (induction es arbitrary: ds)
  case (Cons e es)
  then obtain a where "row_by la_id (pe_account e) accts = Some a" by fastforce
  with Cons show ?case by simp
qed simp

text \<open>The application's check passes exactly when every account stays acceptable after its net
  change.\<close>

lemma assert_sufficient_funds_iff:
  assumes lock: "lock_accounts (map pe_account (pi_entries inp)) l = Inr accts"
  shows "assert_sufficient_funds accts inp =
    (if \<forall>a \<in> set accts. account_ok (move_account (pi_entries inp) a) then Inr ()
     else Inl (Ledger_Err Insufficient_Funds))"
proof -
  have some: "row_by la_id (pe_account e) accts \<noteq> None" if "e \<in> set (pi_entries inp)" for e
    using that row_by_locked [OF lock, of "pe_account e"] by auto
  then obtain ds where ds: "collect_deltas accts (pi_entries inp) [] = Inr ds"
    using collect_deltas_total by blast
  have self: "row_by la_id (la_id a) accts = Some a" if "a \<in> set accts" for a
    using in_locked [OF lock that] row_by_locked(1) [OF lock] by simp
  have keys: "fst ` set ds = pe_account ` set (pi_entries inp)" and dist: "distinct (map fst ds)"
    using collect_deltas_keys [OF ds] by auto
  have delta: "delta_at ds (la_id a) = posting_delta (la_normal a) (la_id a) (pi_entries inp)" if "a \<in> set accts" for a
    using collect_deltas_Inr [OF ds self [OF that]] by (simp add: delta_at_def)
  have "list_ex (overdrawn accts) ds \<longleftrightarrow> (\<exists>a \<in> set accts. \<not> account_ok (move_account (pi_entries inp) a))"
  proof
    assume "list_ex (overdrawn accts) ds"
    then obtain i d where id: "(i, d) \<in> set ds" "overdrawn accts (i, d)" by (auto simp: list_ex_iff)
    then obtain a where a: "row_by la_id i accts = Some a" "\<not> la_allow_negative a" "la_balance a + d < 0"
      by (auto simp: overdrawn_def split: option.splits)
    from row_by_Some [OF a(1)] have "a \<in> set accts" "la_id a = i" by auto
    moreover have "delta_at ds i = d" using id dist by (simp add: delta_at_def)
    ultimately show "\<exists>a \<in> set accts. \<not> account_ok (move_account (pi_entries inp) a)"
      using a delta by (auto simp: account_ok_def)
  next
    assume "\<exists>a \<in> set accts. \<not> account_ok (move_account (pi_entries inp) a)"
    then obtain a where a: "a \<in> set accts" "\<not> account_ok (move_account (pi_entries inp) a)" by auto
    then have "la_id a \<in> fst ` set ds" using in_locked [OF lock a(1)] keys by auto
    then obtain d where d: "(la_id a, d) \<in> set ds" by auto
    then have "delta_at ds (la_id a) = d" using dist by (simp add: delta_at_def)
    then have "overdrawn accts (la_id a, d)"
      using a delta [OF a(1)] self [OF a(1)] by (simp add: overdrawn_def account_ok_def)
    then show "list_ex (overdrawn accts) ds" using d by (auto simp: list_ex_iff)
  qed
  then show ?thesis by (auto simp: assert_sufficient_funds_def ds)
qed

section \<open>The trigger cannot fail where the application's check passed\<close>

lemma move_other: "le_account e \<noteq> la_id a \<Longrightarrow> move_account [as_posting_entry e] a = a"
  by (simp add: move_account_def as_posting_entry_def)

lemma apply_balances_Inl_db: "apply_balances es accts = Inl e \<Longrightarrow> \<exists>d. e = Db_Err d"
proof (induction es arbitrary: accts)
  case (Cons x es)
  then show ?case
    by (auto simp: bind_res_Inl_iff apply_balance_def Let_def split: option.splits if_splits)
qed simp

lemma apply_balances_Inl:
  assumes "apply_balances es accts = Inl e" and "distinct (map la_id accts)"
    and "distinct (map le_account es)"
    and "\<forall>a \<in> set accts. account_ok (move_account (map as_posting_entry es) a)"
  shows "e = Db_Err Numeric_Out_Of_Range"
  using assms
proof (induction es arbitrary: accts)
  case (Cons x es)
  show ?case
  proof (cases "apply_balance x accts")
    case (Inl e')
    then have e: "e' = e" using Cons.prems(1) by simp
    obtain r where r: "row_by la_id (le_account x) accts = Some r"
      using Inl by (auto simp: apply_balance_def split: option.splits)
    have id: "la_id r = le_account x" "r \<in> set accts" using row_by_Some [OF r] by auto
    have "posting_delta (la_normal r) (la_id r) (map as_posting_entry es) = 0"
      using Cons.prems(3) id by (intro posting_delta_untouched) (auto simp: as_posting_entry_def)
    moreover have "account_ok (move_account (map as_posting_entry (x # es)) r)" using Cons.prems(4) id by blast
    ultimately show ?thesis
      using Inl r id e by (auto simp: apply_balance_def Let_def account_ok_def as_posting_entry_def split: if_splits)
  next
    case (Inr a1)
    note m = apply_balance_Inr [OF Inr Cons.prems(2)]
    have "distinct (map la_id a1)" using m Cons.prems(2) by (simp add: comp_def)
    moreover have "\<forall>a \<in> set a1. account_ok (move_account (map as_posting_entry es) a)"
      using m Cons.prems(4) by (simp only: list.map move_account_Cons [of "as_posting_entry x" "map as_posting_entry es"]) auto
    ultimately show ?thesis using Cons.IH [of a1] Cons.prems(1,3) Inr by simp
  qed
qed simp

end
