(* ===== verification/Pagination.thy ===== *)
theory Pagination
  imports Prelude "HOL-Library.Product_Lexorder"
begin

text \<open>
  \<open>src/common/pagination/keyset-page.ts\<close>: a page of a table, newest first by
  \<open>(created_at, id)\<close>, starting below a cursor, with one extra row fetched to know whether
  another page follows. A client walks the list by passing each page's \<open>next\<close> back; the
  table may change between two pages, so a walk is run over a list of snapshots. The locale
  \<open>keyset_list\<close> is what a listing operation promises to its walks.
\<close>

section \<open>One page\<close>

type_synonym cursor = "int \<times> uuid"

text \<open>\<open>ORDER BY created_at DESC, id DESC\<close>, for rows with the key \<open>key\<close>.\<close>

definition newest_first :: "('r \<Rightarrow> 'k::linorder) \<Rightarrow> 'r list \<Rightarrow> 'r list" where
  "newest_first key rows = rev (sort_key key rows)"

definition below :: "('r \<Rightarrow> 'k::linorder) \<Rightarrow> 'k option \<Rightarrow> 'r \<Rightarrow> bool" where
  "below key before r = (case before of None \<Rightarrow> True | Some c \<Rightarrow> key r < c)"

definition keyset_page :: "('r \<Rightarrow> 'k::linorder) \<Rightarrow> nat \<Rightarrow> 'k option \<Rightarrow> 'r list \<Rightarrow> 'r list \<times> 'k option" where
  "keyset_page key limit before table =
     (let rows = take (limit + 1) (newest_first key (filter (below key before) table));
          items = take limit rows in
      (items, if limit < length rows \<and> items \<noteq> [] then Some (key (last items)) else None))"

text \<open>A walk: page after page, each on the table as it is then; the flag says that the last
  page had no \<open>next\<close>.\<close>

fun walk :: "(nat \<Rightarrow> 'k option \<Rightarrow> 's \<Rightarrow> 'r list \<times> 'k option) \<Rightarrow> nat \<Rightarrow> 'k option \<Rightarrow> 's list \<Rightarrow> 'r list \<times> bool" where
  "walk page limit before [] = ([], False)"
| "walk page limit before (s # ss) =
     (case page limit before s of
        (items, None) \<Rightarrow> (items, True)
      | (items, Some c) \<Rightarrow> (let (more, done) = walk page limit (Some c) ss in (items @ more, done)))"

section \<open>Lemmas\<close>

abbreviation descending :: "('r \<Rightarrow> 'k::linorder) \<Rightarrow> 'r list \<Rightarrow> bool" where
  "descending key \<equiv> sorted_wrt (\<lambda>a b. key b < key a)"

lemma set_newest_first [simp]: "set (newest_first key rows) = set rows"
  by (simp add: newest_first_def)

lemma length_newest_first [simp]: "length (newest_first key rows) = length rows"
  by (simp add: newest_first_def)

lemma strict_sorted_keys:
  "sorted xs \<Longrightarrow> distinct xs \<Longrightarrow> sorted_wrt (<) (xs :: 'k::linorder list)"
  by (simp add: strict_sorted_iff)

lemma descending_distinct: "descending key xs \<Longrightarrow> distinct (map key xs)"
  by (induction xs) auto

lemma descending_newest_first:
  assumes "distinct (map key rows)"
  shows "descending key (newest_first key rows)"
proof -
  have "mset (map key (sort_key key rows)) = mset (map key rows)" by simp
  then have "distinct (map key (sort_key key rows))"
    using assms mset_eq_imp_distinct_iff by blast
  then have "sorted_wrt (<) (map key (sort_key key rows))"
    by (intro strict_sorted_keys) simp_all
  then show ?thesis by (simp add: newest_first_def sorted_wrt_rev sorted_wrt_map)
qed

lemma descending_unique:
  "descending key xs \<Longrightarrow> descending key ys \<Longrightarrow> set xs = set ys \<Longrightarrow> xs = ys"
proof (induction xs arbitrary: ys)
  case (Cons x xs)
  then obtain y ys' where ys: "ys = y # ys'" by (cases ys) auto
  have "x \<in> set (y # ys')" "y \<in> set (x # xs)" using Cons.prems(3) ys by auto
  then have "x = y" using Cons.prems(1,2) ys by (auto dest: less_asym)
  moreover have "x \<notin> set xs" "y \<notin> set ys'" using Cons.prems ys by auto
  ultimately have "set xs = set ys'" using Cons.prems(3) ys by auto
  with Cons ys \<open>x = y\<close> show ?case by auto
qed simp

lemma below_trans: "below key (Some (key x)) r \<Longrightarrow> below key c x \<Longrightarrow> below key c r"
  by (cases c) (auto simp: below_def)

text \<open>What one page returns: the newest rows under the cursor; all of them when there is no
  \<open>next\<close>, and otherwise exactly those not under the \<open>next\<close> cursor.\<close>

lemma keyset_page_spec:
  assumes d: "distinct (map key table)" and n: "0 < limit"
    and p: "keyset_page key limit before table = (items, next)"
  shows "descending key items"
    and "set items = {r \<in> set table. below key before r \<and> (case next of None \<Rightarrow> True | Some c \<Rightarrow> c \<le> key r)}"
    and "next = Some c \<Longrightarrow> items \<noteq> [] \<and> length items = limit \<and> c = key (last items)"
proof -
  let ?all = "newest_first key (filter (below key before) table)"
  have desc: "descending key ?all"
    using d by (intro descending_newest_first) (simp add: distinct_map_filter)
  have items: "items = take limit ?all" using p by (auto simp: keyset_page_def Let_def min_def)
  then show "descending key items" using desc by (simp add: sorted_wrt_take)
  have nxt: "next = (if limit < length ?all then Some (key (last items)) else None)"
  proof -
    have "items = [] \<longleftrightarrow> ?all = []" using items n by simp
    moreover have "next = (if limit < length (take (limit + 1) ?all) \<and> items \<noteq> [] then Some (key (last items)) else None)"
      using p items by (auto simp: keyset_page_def Let_def min_def)
    moreover have "length ?all = 0 \<longleftrightarrow> ?all = []" by (simp only: length_0_conv)
    ultimately show ?thesis by (auto simp del: length_newest_first)
  qed
  then show "next = Some c \<Longrightarrow> items \<noteq> [] \<and> length items = limit \<and> c = key (last items)"
    using n items by (auto simp del: length_newest_first split: if_splits)
  have split: "?all = items @ drop limit ?all" using items by simp
  have set_all: "set ?all = {r \<in> set table. below key before r}" by auto
  show "set items = {r \<in> set table. below key before r \<and> (case next of None \<Rightarrow> True | Some c \<Rightarrow> c \<le> key r)}"
  proof (cases "limit < length ?all")
    case False
    then show ?thesis using nxt items set_all by simp
  next
    case True
    then have ne: "items \<noteq> []" using items n by (auto simp del: length_newest_first)
    define rest where "rest = drop limit ?all"
    have desc': "descending key (items @ rest)" using desc split by (simp add: rest_def)
    have "key (last items) \<le> key r" if "r \<in> set items" for r
    proof (cases "r = last items")
      case False
      have "items = butlast items @ [last items]" using ne by simp
      with that False have "r \<in> set (butlast items)" by (metis append_butlast_last_id rotate1.simps(2) set_ConsD set_rotate1)
      moreover have "descending key (butlast items @ [last items])" using desc' ne by (simp add: sorted_wrt_append)
      ultimately show ?thesis by (auto simp: sorted_wrt_append)
    qed simp
    moreover have "key r < key (last items)" if "r \<in> set rest" for r
      using desc' that ne by (auto simp: sorted_wrt_append)
    moreover have "set ?all = set items \<union> set rest" using split by (metis rest_def set_append)
    ultimately show ?thesis using nxt True set_all by force
  qed
qed

section \<open>The contract of a listing\<close>

locale keyset_list =
  fixes page :: "nat \<Rightarrow> 'k::linorder option \<Rightarrow> 's \<Rightarrow> 'r list \<times> 'k option"
    and key :: "'r \<Rightarrow> 'k"
    and rows :: "'s \<Rightarrow> 'r list"
    and ok :: "'s \<Rightarrow> bool"
  assumes page_is: "page limit before s = keyset_page key limit before (rows s)"
    and rows_distinct: "ok s \<Longrightarrow> distinct (map key (rows s))"
begin

text \<open>A walk lists in strictly descending order, below its cursor, and only rows that were
  there; a row present in every snapshot is listed if the walk finishes.\<close>

lemma walk_spec:
  assumes "0 < limit" and "\<forall>s \<in> set ss. ok s" and "walk page limit before ss = (out, fin)"
  shows "descending key out \<and> set out \<subseteq> (\<Union>s \<in> set ss. {r \<in> set (rows s). below key before r}) \<and>
    (fin \<longrightarrow> (\<forall>r. below key before r \<and> (\<forall>s \<in> set ss. r \<in> set (rows s)) \<longrightarrow> r \<in> set out))"
  using assms
proof (induction ss arbitrary: before out fin)
  case (Cons s ss)
  obtain items nxt where p: "page limit before s = (items, nxt)" by force
  have d: "distinct (map key (rows s))" using Cons.prems(2) rows_distinct by simp
  note pg = keyset_page_spec [OF d Cons.prems(1), of before items nxt, OF p [unfolded page_is]]
  show ?case
  proof (cases nxt)
    case None
    with Cons.prems(3) p have "out = items" "fin" by simp_all
    then show ?thesis using pg(1,2) None by auto
  next
    case (Some c)
    obtain more fin' where w: "walk page limit (Some c) ss = (more, fin')" by force
    with Cons.prems(3) p Some have out: "out = items @ more" "fin = fin'" by simp_all
    note ih = Cons.IH [OF Cons.prems(1) _ w]
    have more_lt: "key r < c" if "r \<in> set more" for r
      using ih Cons.prems(2) that by (auto simp: below_def)
    have items_ge: "c \<le> key r" if "r \<in> set items" for r using pg(2) Some that by auto
    have c: "c = key (last items)" "last items \<in> set items" using pg(3) Some by auto
    have "below key before r" if "key r < c" for r
      using c pg(2) that below_trans [of key "last items" r before] by (auto simp: below_def)
    then have "set more \<subseteq> (\<Union>s \<in> set ss. {r \<in> set (rows s). below key before r})"
      using ih Cons.prems(2) by (fastforce simp: below_def)
    moreover have "descending key out"
      using pg(1) ih Cons.prems(2) more_lt items_ge by (fastforce simp: out sorted_wrt_append)
    moreover have "r \<in> set out"
      if "fin" "below key before r" "\<forall>s' \<in> set (s # ss). r \<in> set (rows s')" for r
    proof (cases "c \<le> key r")
      case True
      then show ?thesis using pg(2) Some that by (simp add: out)
    next
      case False
      then show ?thesis using ih Cons.prems(2) that by (simp add: out below_def)
    qed
    ultimately show ?thesis using pg(2) by (auto simp: out)
  qed
qed simp

text \<open>On a table that does not change the walk ends: one page per row is more than enough.\<close>

lemma walk_finishes:
  assumes "0 < limit" and "ok s"
    and "length (filter (below key before) (rows s)) < n"
  shows "snd (walk page limit before (replicate n s))"
  using assms(3)
proof (induction n arbitrary: before)
  case (Suc n)
  obtain items nxt where p: "page limit before s = (items, nxt)" by force
  have d: "distinct (map key (rows s))" using assms(2) rows_distinct by simp
  note pg = keyset_page_spec [OF d assms(1), of before items nxt, OF p [unfolded page_is]]
  show ?case
  proof (cases nxt)
    case None
    with p show ?thesis by simp
  next
    case (Some c)
    have last: "last items \<in> set items" "c = key (last items)" using pg(3) Some by auto
    let ?lt = "filter (below key (Some c)) (rows s)" and ?le = "filter (below key before) (rows s)"
    have sub: "set ?lt \<subset> set ?le"
    proof
      show "set ?lt \<subseteq> set ?le"
        using last pg(2) below_trans [of key "last items" _ before] by auto
      show "set ?lt \<noteq> set ?le" using last pg(2) by (auto simp: below_def)
    qed
    have "distinct (rows s)" using d by (simp add: distinct_map)
    then have "card (set ?lt) = length ?lt" "card (set ?le) = length ?le"
      by (simp_all only: distinct_card distinct_filter)
    then have "length ?lt < length ?le" using psubset_card_mono [OF _ sub] by simp
    then have "snd (walk page limit (Some c) (replicate n s))" using Suc by (intro Suc.IH) simp
    then show ?thesis using p Some by (auto simp: split_beta)
  qed
qed simp

lemma walk_static:
  assumes "0 < limit" and "ok s" and "length (rows s) < n"
  shows "walk page limit None (replicate n s) = (newest_first key (rows s), True)"
proof -
  obtain out fin where w: "walk page limit None (replicate n s) = (out, fin)" by force
  have all: "filter (below key None) (rows s) = rows s" by (simp add: below_def)
  have "snd (walk page limit None (replicate n s))"
    using assms by (intro walk_finishes) (simp_all only: all)
  then have fin: fin using w by simp
  note sp = walk_spec [OF assms(1) _ w]
  have "\<forall>s' \<in> set (replicate n s). ok s'" and "n \<noteq> 0" using assms by auto
  with sp have desc: "descending key out" and "set out = set (rows s)"
    using fin by (auto simp: below_def)
  then have "out = newest_first key (rows s)"
    using rows_distinct [OF assms(2)] by (intro descending_unique [of key]) (auto intro: descending_newest_first)
  then show ?thesis using w fin by simp
qed

end

end
