(* ===== verification/Ledger_Theorems.thy ===== *)
theory Ledger_Theorems
  imports Ledger_Interface
begin

text \<open>
  The guarantees of the ledger as theorems, each with a concrete instance: a customer's
  wallet account and the clearing account of NGN, a deposit, its replay and its reversal.
\<close>

section \<open>A small ledger\<close>

definition demo_clearing :: ledger_account where
  "demo_clearing =
     \<lparr>la_id = 0, la_code = Some ''clearing'', la_name = ''Clearing'', la_type = Asset, la_normal = Debit,
      la_currency = ''NGN'', la_balance = 0, la_allow_negative = True\<rparr>"

definition demo_wallet :: ledger_account where
  "demo_wallet =
     \<lparr>la_id = 1, la_code = None, la_name = ''Wallet'', la_type = Liability, la_normal = Credit,
      la_currency = ''NGN'', la_balance = 0, la_allow_negative = False\<rparr>"

definition demo_ledger :: ledger_state where
  "demo_ledger = \<lparr>accounts = [demo_clearing, demo_wallet], ledger_txns = [], ledger_entries = [], ledger_next_id = 2\<rparr>"

definition demo_deposit :: posting_input where
  "demo_deposit =
     \<lparr>pi_reference = ''dep-1'', pi_description = ''Deposit'', pi_currency = ''NGN'',
      pi_entries = [leg 0 Debit 500, leg 1 Credit 500], pi_metadata = [], pi_reversal_of = None\<rparr>"

definition demo_withdrawal :: posting_input where
  "demo_withdrawal =
     \<lparr>pi_reference = ''wd-1'', pi_description = ''Withdrawal'', pi_currency = ''NGN'',
      pi_entries = [leg 1 Debit 500, leg 0 Credit 500], pi_metadata = [], pi_reversal_of = None\<rparr>"

definition demo_posted :: posted where
  "demo_posted = posted_result 7 demo_deposit 500 demo_ledger"

definition demo_after :: ledger_state where
  "demo_after = posted_state 7 demo_deposit 500 demo_ledger"

definition demo_withdrawn :: ledger_state where
  "demo_withdrawn = posted_state 8 demo_withdrawal 500 demo_after"

lemma demo_inv: "ledger_inv demo_ledger"
  by (simp add: ledger_inv_def accounts_inv_def txns_inv_def entries_inv_def demo_ledger_def
      demo_clearing_def demo_wallet_def account_ok_def map_filter_simps)

lemma demo_deposit_posts: "post_within 7 demo_deposit demo_ledger = Inr (demo_posted, demo_after)"
  by code_simp

lemma demo_deposit_posts_own: "post 7 demo_deposit (Inr ()) demo_ledger = Inr (demo_posted, demo_after)"
  by code_simp

lemma demo_posted_new: "\<not> ps_replayed demo_posted"
  by code_simp

lemma demo_opened:
  "create_account \<lparr>ai_code = Some ''clearing'', ai_name = ''Clearing'', ai_type = Asset,
     ai_currency = ''NGN'', ai_allow_negative = True\<rparr> empty_ledger =
   Inr (demo_clearing, add_account demo_clearing empty_ledger)"
  "create_account \<lparr>ai_code = None, ai_name = ''Wallet'', ai_type = Liability,
     ai_currency = ''NGN'', ai_allow_negative = False\<rparr> (add_account demo_clearing empty_ledger) =
   Inr (demo_wallet, demo_ledger)"
  by code_simp+

lemma demo_run: "ledger_run empty_ledger demo_after"
proof -
  have "ledger_step empty_ledger (add_account demo_clearing empty_ledger)"
    by (rule open_account) (rule demo_opened(1))
  moreover have "ledger_step (add_account demo_clearing empty_ledger) demo_ledger"
    by (rule open_account) (rule demo_opened(2))
  moreover have "ledger_step demo_ledger demo_after"
    by (rule post_in_caller) (rule demo_deposit_posts)
  ultimately show ?thesis by (meson converse_rtranclp_into_rtranclp rtranclp.rtrancl_refl)
qed

section \<open>Soundness of every run\<close>

lemma ledger_inv_no_discrepancy: "ledger_inv l \<Longrightarrow> find_balance_discrepancies l = []"
  by (auto simp: find_balance_discrepancies_def filter_empty_conv ledger_inv_balance)

text \<open>
  C10. Double entry holds after any sequence of operations from the empty ledger: the integrity
  report finds no balance that differs from its entries, the trial balance of every currency
  is level, no account that may not go negative is negative, every transaction is balanced
  and no reference is used twice.
\<close>

theorem ledger_runs_sound:
  assumes "ledger_run empty_ledger l"
  shows "find_balance_discrepancies l = [] \<and>
    (\<forall>c. fst (trial_balance c l) = snd (trial_balance c l)) \<and>
    (\<forall>a \<in> set (accounts l). la_allow_negative a \<or> 0 \<le> la_balance a) \<and>
    (\<forall>t \<in> set (ledger_txns l). txn_balanced l t) \<and>
    distinct (map lt_reference (ledger_txns l))"
proof -
  have inv: "ledger_inv l" using assms ledger_inv_empty by (rule ledger_run_inv)
  then show ?thesis
    using ledger_inv_no_discrepancy [OF inv] trial_balance_equal [OF inv]
    by (auto simp: ledger_inv_def accounts_inv_def txns_inv_def account_ok_def)
qed

theorem ledger_runs_sound_witness:
  "trial_balance ''NGN'' demo_after = (500, 500) \<and>
   fst (trial_balance ''NGN'' demo_after) = snd (trial_balance ''NGN'' demo_after) \<and>
   length (ledger_txns demo_after) = 1"
proof -
  have "trial_balance ''NGN'' demo_after = (500, 500)" "length (ledger_txns demo_after) = 1" by code_simp+
  then show ?thesis using ledger_runs_sound [OF demo_run] by auto
qed

section \<open>The effect of a posting\<close>

text \<open>
  C11. A first posting records its transaction and its entries, moves every account by exactly
  the net of the entries on it, on the account's normal side, and touches nothing else; the
  transaction then passes the check that is deferred to the commit.
\<close>

theorem post_exact_effect:
  assumes "ledger_inv l" and "post_within now inp l = Inr (p, l')" and "\<not> ps_replayed p"
  shows "accounts l' = map (\<lambda>a. a\<lparr>la_balance := la_balance a + posting_delta (la_normal a) (la_id a) (pi_entries inp)\<rparr>) (accounts l) \<and>
    ledger_txns l' = ledger_txns l @ [ps_txn p] \<and> ledger_entries l' = ledger_entries l @ ps_entries p \<and>
    lt_reference (ps_txn p) = pi_reference inp \<and> map as_posting_entry (ps_entries p) = pi_entries inp \<and>
    (\<forall>e \<in> set (ps_entries p). le_txn e = lt_id (ps_txn p) \<and> le_currency e = pi_currency inp) \<and>
    ledger_inv l' \<and> commit_check (p, l') = Inr (p, l')"
proof -
  from post_within_posted [OF assms] obtain amount
    where p: "p = posted_result now inp amount l" and l': "l' = posted_state now inp amount l" .
  have inv: "ledger_inv l'" by (rule post_within_inv [OF assms(1,2)])
  then have "txn_balanced l' (ps_txn p)"
    by (simp add: ledger_inv_def txns_inv_def l' p posted_state_def posted_result_def)
  then show ?thesis
    using inv by (auto simp: l' p posted_state_def posted_result_def commit_check_def move_account_def
        dest: in_new_entries)
qed

theorem post_exact_effect_witness:
  "accounts demo_after = [demo_clearing\<lparr>la_balance := 500\<rparr>, demo_wallet\<lparr>la_balance := 500\<rparr>] \<and>
   ledger_entries demo_after = ledger_entries demo_ledger @ ps_entries demo_posted"
proof -
  have "accounts demo_after = [demo_clearing\<lparr>la_balance := 500\<rparr>, demo_wallet\<lparr>la_balance := 500\<rparr>]" by code_simp
  then show ?thesis using post_exact_effect [OF demo_inv demo_deposit_posts demo_posted_new] by simp
qed

section \<open>Idempotence\<close>

lemma replay_in_extension:
  assumes "ledger_inv l" and "post_within now inp l = Inr (p, l1)" and "\<not> ps_replayed p" and "ledger_run l1 l2"
    and ref: "pi_reference inp' = pi_reference inp"
  shows "replay inp' l2 = (if pi_currency inp' = pi_currency inp \<and> pi_description inp' = pi_description inp \<and>
      mset (pi_entries inp') = mset (pi_entries inp)
    then Inr (p\<lparr>ps_replayed := True\<rparr>) else Inl (Ledger_Err Ledger_Reference_Conflict))"
    and "txn_by_reference l2 (pi_reference inp) = Some (ps_txn p)"
proof -
  from post_within_posted [OF assms(1-3)] obtain amount where
    v: "validate_posting inp = Inr amount"
    and p: "p = posted_result now inp amount l" and l1: "l1 = posted_state now inp amount l" .
  have inv1: "ledger_inv l1" by (rule post_within_inv [OF assms(1,2)])
  have ext: "ledger_extends l1 l2" by (rule ledger_run_extends [OF assms(4) inv1])
  have inv2: "ledger_inv l2" by (rule ledger_run_inv [OF assms(4) inv1])
  have "ps_txn p \<in> set (ledger_txns l2)" using ext by (auto simp: ledger_extends_def l1 p posted_state_def posted_result_def)
  moreover have r: "lt_reference (ps_txn p) = pi_reference inp" by (simp add: p posted_result_def)
  ultimately show t: "txn_by_reference l2 (pi_reference inp) = Some (ps_txn p)"
    using row_by_distinct [of lt_reference "ledger_txns l2" "ps_txn p"] inv2 by (simp add: ledger_inv_def txns_inv_def)
  have lt: "lt_id (ps_txn p) < ledger_next_id l1" by (simp add: p l1 posted_result_def posted_state_def)
  have "entries_of l2 (lt_id (ps_txn p)) = entries_of l1 (lt_id (ps_txn p))"
    using ext lt by (simp add: ledger_extends_def)
  also have "\<dots> = ps_entries p"
    using entries_of_posted_new [OF assms(1)] by (simp add: l1 p posted_result_def)
  finally have es: "entries_of l2 (lt_id (ps_txn p)) = ps_entries p" .
  have map_es: "map as_posting_entry (ps_entries p) = pi_entries inp" by (simp add: p posted_result_def)
  have ne: "ps_entries p \<noteq> []" using v map_es by (auto simp: validate_posting_Inr)
  have cur: "lt_currency (ps_txn p) = pi_currency inp" "lt_description (ps_txn p) = pi_description inp"
    by (simp_all add: p posted_result_def)
  have fp: "entries_fingerprint (pi_entries inp) = entries_fingerprint (pi_entries inp') \<longleftrightarrow>
      mset (pi_entries inp') = mset (pi_entries inp)"
    by (metis fingerprint_mset)
  have "p\<lparr>ps_replayed := True\<rparr> = \<lparr>ps_txn = ps_txn p, ps_entries = ps_entries p, ps_replayed = True\<rparr>" by simp
  then show "replay inp' l2 = (if pi_currency inp' = pi_currency inp \<and> pi_description inp' = pi_description inp \<and>
      mset (pi_entries inp') = mset (pi_entries inp)
    then Inr (p\<lparr>ps_replayed := True\<rparr>) else Inl (Ledger_Err Ledger_Reference_Conflict))"
    by (auto simp: replay_def ref t es map_es ne cur fp Let_def)
qed

text \<open>
  C12. A reference is posted once, for ever. Whatever happens to the ledger after a posting,
  posting its reference again either returns the original transaction and entries and
  changes nothing (same currency and description, the same entries in any order), or is
  refused as a conflict.
\<close>

theorem posting_idempotent_forever:
  assumes "ledger_inv l" and "post_within now inp l = Inr (p, l1)" and "\<not> ps_replayed p"
    and "ledger_run l1 l2"
    and "validate_posting inp' = Inr amount" and "pi_reference inp' = pi_reference inp"
  shows "post_within now' inp' l2 =
    (if pi_currency inp' = pi_currency inp \<and> pi_description inp' = pi_description inp \<and>
        mset (pi_entries inp') = mset (pi_entries inp)
     then Inr (p\<lparr>ps_replayed := True\<rparr>, l2) else Inl (Ledger_Err Ledger_Reference_Conflict))"
  using replay_in_extension [OF assms(1-4,6)] assms(5,6)
  by (simp add: post_within_def post_within_at_def)

theorem posting_idempotent_forever_witness:
  "post_within 9 (demo_deposit\<lparr>pi_entries := [leg 1 Credit 500, leg 0 Debit 500]\<rparr>) demo_withdrawn =
     Inr (demo_posted\<lparr>ps_replayed := True\<rparr>, demo_withdrawn)"
proof -
  have "ledger_step demo_after demo_withdrawn"
    by (rule post_in_caller [of 8 demo_withdrawal _ "posted_result 8 demo_withdrawal 500 demo_after"]) code_simp
  then have "ledger_run demo_after demo_withdrawn" by simp
  moreover have "validate_posting (demo_deposit\<lparr>pi_entries := [leg 1 Credit 500, leg 0 Debit 500]\<rparr>) = Inr 500"
    by code_simp
  ultimately show ?thesis
    using posting_idempotent_forever [OF demo_inv demo_deposit_posts demo_posted_new, of demo_withdrawn
        "demo_deposit\<lparr>pi_entries := [leg 1 Credit 500, leg 0 Debit 500]\<rparr>" 500 9]
    by (simp add: demo_deposit_def)
qed

section \<open>Reversal\<close>

lemma signed_mirror: "signed_amount n (if d = Debit then Credit else Debit) x = - signed_amount n d x"
  by (cases d; cases n) (simp_all add: signed_amount_def)

lemma posting_delta_mirror: "posting_delta n i (map mirror es) = - entries_delta n i es"
proof (induction es)
  case (Cons e es)
  then show ?case using signed_mirror [of n "le_direction e"] by (simp add: mirror_def)
qed simp

lemma side_sum_mirror:
  "side_sum Debit (map mirror es) = side_sum Credit (map as_posting_entry es)"
  "side_sum Credit (map mirror es) = side_sum Debit (map as_posting_entry es)"
proof (induction es)
  case (Cons e es)
  {
    case 1 then show ?case using Cons by (cases "le_direction e") (simp_all add: mirror_def as_posting_entry_def)
  next
    case 2 then show ?case using Cons by (cases "le_direction e") (simp_all add: mirror_def as_posting_entry_def)
  }
qed simp_all

lemma reversal_input_simps [simp]:
  "pi_reference (reversal_input t es r d) = r" "pi_entries (reversal_input t es r d) = map mirror es"
  "pi_reversal_of (reversal_input t es r d) = Some (lt_id t)" "pi_currency (reversal_input t es r d) = lt_currency t"
  by (simp_all add: reversal_input_def)

lemma reverse_txn_posted:
  assumes "ledger_inv l" and "reverse_txn now i r d l = Inr (q, l')" and "\<not> ps_replayed q"
  obtains t where "row_by lt_id i (ledger_txns l) = Some t" and "lt_id t = i"
    and "post_within now (reversal_input t (entries_of l i) r d) l = Inr (q, l')"
proof -
  from assms(2) obtain t where t: "row_by lt_id i (ledger_txns l) = Some t"
    and post: "post now (reversal_input t (entries_of l i) r d) (Inr ()) l = Inr (q, l')"
    by (auto simp: reverse_txn_def bind_res_Inr_iff)
  from post have "post_within now (reversal_input t (entries_of l i) r d) l = Inr (q, l')"
    using assms(3) by (elim post_Inr) (auto dest: replay_replayed)
  with t row_by_Some [OF t] that show ?thesis by auto
qed

text \<open>
  C13. A reversal takes back exactly what its transaction moved, on every account, and it
  happens once: in every later state another reversal of the same transaction, under a new
  and acceptable reference, is refused.
\<close>

theorem reversal_exact_and_once:
  assumes "ledger_inv l" and "reverse_txn now i r d l = Inr (q, l')" and "\<not> ps_replayed q"
    and "ledger_run l' l''" and "trim r' \<noteq> []" and "length r' \<le> 255"
    and "r' \<notin> lt_reference ` set (ledger_txns l'')"
  shows "accounts l' = map (\<lambda>a. a\<lparr>la_balance := la_balance a -
        entries_delta (la_normal a) (la_id a) (entries_of l i)\<rparr>) (accounts l) \<and>
    reverse_txn now' i r' d' l'' = Inl (Ledger_Err Transaction_Already_Reversed)"
proof -
  from reverse_txn_posted [OF assms(1-3)] obtain t where t: "row_by lt_id i (ledger_txns l) = Some t" "lt_id t = i"
    and post: "post_within now (reversal_input t (entries_of l i) r d) l = Inr (q, l')" .
  let ?inp = "reversal_input t (entries_of l i) r d"
  from post_within_posted [OF assms(1) post assms(3)] obtain amount where
    v: "validate_posting ?inp = Inr amount" and q: "q = posted_result now ?inp amount l"
    and l': "l' = posted_state now ?inp amount l" .
  have moved: "accounts l' = map (\<lambda>a. a\<lparr>la_balance := la_balance a -
      entries_delta (la_normal a) (la_id a) (entries_of l i)\<rparr>) (accounts l)"
    by (simp add: l' posted_state_def move_account_def posting_delta_mirror)
  have inv': "ledger_inv l'" by (rule post_within_inv [OF assms(1) post])
  have inv'': "ledger_inv l''" by (rule ledger_run_inv [OF assms(4) inv'])
  have "ledger_extends l l''"
    using ledger_extends_trans [OF post_within_extends [OF assms(1) post] ledger_run_extends [OF assms(4) inv']] .
  moreover have "i < ledger_next_id l"
    using row_by_Some [OF t(1)] assms(1) by (auto simp: ledger_inv_def txns_inv_def)
  ultimately have es: "entries_of l'' i = entries_of l i" and "t \<in> set (ledger_txns l'')"
    using row_by_Some [OF t(1)] by (auto simp: ledger_extends_def)
  then have t'': "row_by lt_id i (ledger_txns l'') = Some t"
    using row_by_distinct [of lt_id "ledger_txns l''" t] inv'' t(2) by (simp add: ledger_inv_def txns_inv_def)
  have rev: "Some i \<in> lt_reversal_of ` set (ledger_txns l'')"
  proof -
    have "ps_txn q \<in> set (ledger_txns l'')" and "lt_reversal_of (ps_txn q) = Some i"
      using ledger_run_extends [OF assms(4) inv'] t(2)
      by (auto simp: ledger_extends_def l' q posted_state_def posted_result_def)
    then show ?thesis by force
  qed
  let ?inp' = "reversal_input t (entries_of l i) r' d'"
  have v': "validate_posting ?inp' = Inr amount"
    using v assms(5,6) by (auto simp: validate_posting_Inr)
  have "txn_by_reference l'' r' = None" using assms(7) by (simp add: row_by_None_iff)
  then have "post_within_at l'' now' ?inp' l'' = Inl (Ledger_Err Transaction_Already_Reversed)"
    using v' rev t(2) by (simp add: post_within_at_def assert_not_reversed_def)
  then have "reverse_txn now' i r' d' l'' = Inl (Ledger_Err Transaction_Already_Reversed)"
    using v' by (simp add: reverse_txn_def t'' es post_def post_at_def)
  with moved show ?thesis by blast
qed

definition demo_reversed :: ledger_state where
  "demo_reversed = posted_state 9 (reversal_input (ps_txn demo_posted) (ps_entries demo_posted) ''rev-1'' ''Undo'') 500 demo_after"

theorem reversal_exact_and_once_witness:
  "accounts demo_reversed = accounts demo_ledger \<and>
   reverse_txn 10 2 ''rev-2'' ''Again'' demo_reversed = Inl (Ledger_Err Transaction_Already_Reversed)"
proof -
  let ?q = "posted_result 9 (reversal_input (ps_txn demo_posted) (ps_entries demo_posted) ''rev-1'' ''Undo'') 500 demo_after"
  have inv: "ledger_inv demo_after" by (rule post_within_inv [OF demo_inv demo_deposit_posts])
  have rev: "reverse_txn 9 2 ''rev-1'' ''Undo'' demo_after = Inr (?q, demo_reversed)" by code_simp
  have new: "\<not> ps_replayed ?q" by (simp add: posted_result_def)
  have ref: "trim ''rev-2'' \<noteq> []" "length ''rev-2'' \<le> 255"
    "''rev-2'' \<notin> lt_reference ` set (ledger_txns demo_reversed)" by code_simp+
  have "accounts demo_reversed = accounts demo_ledger" by code_simp
  then show ?thesis
    using reversal_exact_and_once [OF inv rev new rtranclp.rtrancl_refl ref] by blast
qed

section \<open>Concurrent duplicates\<close>

text \<open>
  C14. Two callers post the same input at the same time. Both find the reference unused, the
  locks let one through, the other then runs on the winner's state. It never moves the money
  a second time: it returns the winner's transaction as a replay, or fails.
\<close>

theorem concurrent_duplicate_moves_once:
  assumes "ledger_inv l" and "post now inp (Inr ()) l = Inr (p, l1)" and "\<not> ps_replayed p"
  shows "post_at l now' inp (Inr ()) l1 \<in>
    {Inr (p\<lparr>ps_replayed := True\<rparr>, l1), Inl (Ledger_Err Insufficient_Funds)}"
proof -
  from assms(2,3) have pw: "post_within now inp l = Inr (p, l1)"
    by (elim post_Inr) (auto dest: replay_replayed)
  from post_within_posted [OF assms(1) pw assms(3)] obtain amount where
    v: "validate_posting inp = Inr amount" and ins: "insert_posting now inp amount l = Inr (p, l1)"
    and p: "p = posted_result now inp amount l" and l1: "l1 = posted_state now inp amount l" .
  note f = insert_posting_Inr [OF ins ledger_inv_ids [OF assms(1)]]
  have none: "txn_by_reference l (pi_reference inp) = None" using f(5) by (simp add: row_by_None_iff)
  have nrev: "assert_not_reversed (pi_reversal_of inp) l = Inr ()"
    using f(6) by (cases "pi_reversal_of inp") (auto simp: assert_not_reversed_def)
  have acct: "\<exists>a. account_of l1 (pe_account e) = Some a \<and> la_currency a = pi_currency inp"
    if "e \<in> set (pi_entries inp)" for e
    using f(4) [OF that] by (auto simp: l1 account_of_posted)
  then obtain accts where lock: "lock_accounts (map pe_account (pi_entries inp)) l1 = Inr accts"
    using lock_accounts_Inr [of "map pe_account (pi_entries inp)" l1] by fastforce
  have cur: "assert_currency accts (pi_currency inp) = Inr ()"
    using in_locked [OF lock] acct by (fastforce simp: assert_currency_def list_all_iff)
  have fmt: "currency_format (pi_currency inp)" and pos: "0 < amount"
    using ins validate_posting_pos [OF v]
    by (auto simp: insert_posting_def insert_txn_def Let_def bind_res_Inr_iff split: if_splits)
  have "insert_posting now' inp amount l1 = Inl (Db_Err (Unique_Violation ''uq_ledger_transactions_reference''))"
    using f(7) fmt pos by (simp add: insert_posting_def insert_txn_def Let_def l1 posted_state_def)
  then have "post_within_at l now' inp l1 \<in>
      {Inl (Db_Err (Unique_Violation ''uq_ledger_transactions_reference'')), Inl (Ledger_Err Insufficient_Funds)}"
    using v none nrev lock cur assert_sufficient_funds_iff [OF lock] by (simp add: post_within_at_def)
  moreover have "replay inp l1 = Inr (p\<lparr>ps_replayed := True\<rparr>)"
    using replay_in_extension(1) [OF assms(1) pw assms(3) rtranclp.rtrancl_refl refl] by simp
  ultimately show ?thesis using v by (auto simp: post_at_def)
qed

theorem concurrent_duplicate_moves_once_witness:
  "post_at demo_ledger 8 demo_deposit (Inr ()) demo_after = Inr (demo_posted\<lparr>ps_replayed := True\<rparr>, demo_after)"
proof -
  have "post_at demo_ledger 8 demo_deposit (Inr ()) demo_after \<noteq> Inl (Ledger_Err Insufficient_Funds)" by code_simp
  then show ?thesis
    using concurrent_duplicate_moves_once [OF demo_inv demo_deposit_posts_own demo_posted_new, of 8] by auto
qed

text \<open>
  The loser of that race does not always replay, as the comment on \<open>post\<close> says: when the
  winner's withdrawal emptied the account, the loser's check of the locked balances fails
  first and the caller is told the funds are insufficient, although the posting was made and
  a later retry replays it.
\<close>

theorem concurrent_duplicate_can_fail:
  "post_at demo_after 9 demo_withdrawal (Inr ()) demo_withdrawn = Inl (Ledger_Err Insufficient_Funds) \<and>
   post 9 demo_withdrawal (Inr ()) demo_withdrawn =
     Inr (posted_result 8 demo_withdrawal 500 demo_after\<lparr>ps_replayed := True\<rparr>, demo_withdrawn)"
  by code_simp

section \<open>The two overdraft checks\<close>

lemma new_entries_checks:
  assumes "\<And>e. e \<in> set es \<Longrightarrow> row_by la_id (pe_account e) accts \<noteq> None \<and>
      (\<forall>a. row_by la_id (pe_account e) accts = Some a \<longrightarrow> la_currency a = c)"
  shows "list_all (check_entry_currency accts t) (new_entries i j c now es) \<longleftrightarrow> es = [] \<or> lt_currency t = c"
  using assms
proof (induction es arbitrary: i)
  case (Cons e es)
  then obtain a where "row_by la_id (pe_account e) accts = Some a" "la_currency a = c" by fastforce
  with Cons show ?case by (auto simp: check_entry_currency_def)
qed simp

lemma map_le_account_new_entries: "map le_account (new_entries i t c now es) = map pe_account es"
  by (induction es arbitrary: i) auto

lemma supported_format: "is_supported_currency c \<Longrightarrow> currency_format c"
  by (auto simp: is_supported_currency_def SUPPORTED_CURRENCIES_def CURRENCIES_def currency_format_def)

lemma posting_totals_not_db: "posting_totals es a b \<noteq> Inl (Db_Err d)"
  by (induction es arbitrary: a b) auto

lemma validate_posting_not_db: "validate_posting inp \<noteq> Inl (Db_Err d)"
  using posting_totals_not_db by (auto simp: validate_posting_def bind_res_Inl_iff)

lemma post_within_db_error:
  assumes "post_within now inp l = Inl (Db_Err d)"
  obtains amount accts where "validate_posting inp = Inr amount"
    and "txn_by_reference l (pi_reference inp) = None"
    and "assert_not_reversed (pi_reversal_of inp) l = Inr ()"
    and "lock_accounts (map pe_account (pi_entries inp)) l = Inr accts"
    and "assert_currency accts (pi_currency inp) = Inr ()"
    and "assert_sufficient_funds accts inp = Inr ()"
    and "insert_posting now inp amount l = Inl (Db_Err d)"
proof -
  from assms obtain amount where v: "validate_posting inp = Inr amount"
    using validate_posting_not_db by (auto simp: post_within_def post_within_at_def bind_res_Inl_iff)
  have not_db: "replay inp l \<noteq> Inl (Db_Err d)" if "txn_by_reference l (pi_reference inp) = Some t" for t
    using that by (auto simp: replay_def Let_def)
  have none: "txn_by_reference l (pi_reference inp) = None"
  proof (rule ccontr)
    assume "txn_by_reference l (pi_reference inp) \<noteq> None"
    then obtain t where t: "txn_by_reference l (pi_reference inp) = Some t" by auto
    then have "replay inp l = Inl (Db_Err d)"
      using assms v by (simp add: post_within_def post_within_at_def bind_res_Inl_iff)
    with not_db [OF t] show False by simp
  qed
  have rev: "assert_not_reversed (pi_reversal_of inp) l = Inr ()"
    using assms v none
    by (cases "assert_not_reversed (pi_reversal_of inp) l")
      (auto simp: post_within_def post_within_at_def, auto simp: assert_not_reversed_def)
  obtain accts where lock: "lock_accounts (map pe_account (pi_entries inp)) l = Inr accts"
    using assms v none rev
    by (cases "lock_accounts (map pe_account (pi_entries inp)) l")
      (auto simp: post_within_def post_within_at_def, auto simp: lock_accounts_def Let_def split: if_splits)
  have cur: "assert_currency accts (pi_currency inp) = Inr ()"
    using assms v none rev lock
    by (cases "assert_currency accts (pi_currency inp)")
      (auto simp: post_within_def post_within_at_def, auto simp: assert_currency_def)
  have "assert_sufficient_funds accts inp = Inr ()"
    using assms v none rev lock cur assert_sufficient_funds_iff [OF lock]
    by (auto simp: post_within_def post_within_at_def split: if_splits)
  with assms v none rev lock cur that show ?thesis
    by (auto simp: post_within_def post_within_at_def)
qed

lemma database_errors_only:
  assumes "ledger_inv l" and "distinct (map pe_account (pi_entries inp))"
    and "post_within now inp l = Inl (Db_Err d)"
  shows "d = Numeric_Out_Of_Range \<or>
    (d = Foreign_Key_Violation ''fk_ledger_transactions_reversal_of'' \<and> pi_reversal_of inp \<noteq> None)"
proof -
  from post_within_db_error [OF assms(3)] obtain amount accts where
    v: "validate_posting inp = Inr amount" and none: "txn_by_reference l (pi_reference inp) = None"
    and rev: "assert_not_reversed (pi_reversal_of inp) l = Inr ()"
    and lock: "lock_accounts (map pe_account (pi_entries inp)) l = Inr accts"
    and cur: "assert_currency accts (pi_currency inp) = Inr ()"
    and funds: "assert_sufficient_funds accts inp = Inr ()"
    and ins: "insert_posting now inp amount l = Inl (Db_Err d)" .
  let ?t = "new_txn (ledger_next_id l) now inp amount"
  let ?es = "new_entries (Suc (ledger_next_id l)) (ledger_next_id l) (pi_currency inp) now (pi_entries inp)"
  have amount: "0 < amount" and fmt: "currency_format (pi_currency inp)"
    using validate_posting_pos [OF v] v by (auto simp: validate_posting_Inr intro: supported_format)
  have ref: "pi_reference inp \<notin> lt_reference ` set (ledger_txns l)" using none by (simp add: row_by_None_iff)
  have row: "row_by la_id (pe_account e) accts \<noteq> None \<and>
      (\<forall>a. row_by la_id (pe_account e) accts = Some a \<longrightarrow> la_currency a = pi_currency inp)"
    if "e \<in> set (pi_entries inp)" for e
    using that row_by_locked [OF lock, of "pe_account e"] cur
    by (auto simp: assert_currency_def list_all_iff) (metis row_by_Some)
  have row': "row_by la_id (pe_account e) (accounts l) \<noteq> None \<and>
      (\<forall>a. row_by la_id (pe_account e) (accounts l) = Some a \<longrightarrow> la_currency a = pi_currency inp)"
    if "e \<in> set (pi_entries inp)" for e
    using row [OF that] that row_by_locked(1) [OF lock, of "pe_account e"] by simp
  have curs: "list_all (check_entry_currency (accounts l) ?t) ?es"
    using new_entries_checks [OF row'] by simp
  have posamt: "list_all (\<lambda>e. 0 < le_amount e) ?es"
    using v by (auto simp: list_all_iff validate_posting_Inr dest!: in_new_entries)
  have ok: "\<forall>a \<in> set (accounts l). account_ok (move_account (map as_posting_entry ?es) a)"
  proof
    fix a assume a: "a \<in> set (accounts l)"
    have self: "account_of l (la_id a) = Some a" using row_by_distinct [OF ledger_inv_ids [OF assms(1)] a] .
    show "account_ok (move_account (map as_posting_entry ?es) a)"
    proof (cases "la_id a \<in> pe_account ` set (pi_entries inp)")
      case True
      then have "row_by la_id (la_id a) accts = Some a" using row_by_locked(1) [OF lock] self by simp
      then have "a \<in> set accts" by (auto dest: row_by_Some)
      then show ?thesis using funds assert_sufficient_funds_iff [OF lock] by (auto split: if_splits)
    next
      case False
      then have "move_account (pi_entries inp) a = a"
        by (simp add: move_account_def posting_delta_untouched)
      then show ?thesis using a assms(1) by (simp add: ledger_inv_def accounts_inv_def)
    qed
  qed
  have "map le_account ?es = map pe_account (pi_entries inp)"
    by (rule map_le_account_new_entries)
  then have dist: "distinct (map le_account ?es)" using assms(2) by simp
  show ?thesis
  proof (cases "insert_txn ?t l")
    case (Inl e)
    then show ?thesis
      using ins amount fmt ref rev
      by (auto simp: insert_posting_def insert_txn_def Let_def assert_not_reversed_def split: if_splits)
  next
    case (Inr l1)
    then have l1: "accounts l1 = accounts l" "ledger_next_id l1 = Suc (ledger_next_id l)"
      by (auto simp: insert_txn_def split: if_splits)
    have "insert_entries ?t ?es l1 = Inl (Db_Err d)"
      using ins Inr l1 by (auto simp: insert_posting_def Let_def bind_res_Inl_iff)
    then have "d = Numeric_Out_Of_Range \<or> apply_balances ?es (accounts l) = Inl (Db_Err d)"
      using curs posamt by (auto simp: insert_entries_def bind_res_Inl_iff l1)
    then show ?thesis
      using apply_balances_Inl [OF _ ledger_inv_ids [OF assms(1)] dist ok] by auto
  qed
qed

text \<open>So a posting with a fresh reference, accounts in its currency and enough funds goes
  through, unless a 64-bit column overflows.\<close>

lemma post_within_goes:
  assumes "ledger_inv l" and "validate_posting inp = Inr amount" and "txn_by_reference l (pi_reference inp) = None"
    and "pi_reversal_of inp = None" and "distinct (map pe_account (pi_entries inp))"
    and "\<And>e. e \<in> set (pi_entries inp) \<Longrightarrow> \<exists>a. account_of l (pe_account e) = Some a \<and>
      la_currency a = pi_currency inp \<and> account_ok (move_account (pi_entries inp) a)"
  shows "(\<exists>p l'. post_within now inp l = Inr (p, l') \<and> \<not> ps_replayed p) \<or>
    post_within now inp l = Inl (Db_Err Numeric_Out_Of_Range)"
proof -
  obtain accts where lock: "lock_accounts (map pe_account (pi_entries inp)) l = Inr accts"
    using lock_accounts_Inr [of "map pe_account (pi_entries inp)" l] assms(6) by fastforce
  have ok: "la_currency a = pi_currency inp \<and> account_ok (move_account (pi_entries inp) a)" if "a \<in> set accts" for a
    using in_locked [OF lock that] assms(6) by fastforce
  have eq: "post_within now inp l = insert_posting now inp amount l"
    using assms(2-4) lock ok assert_sufficient_funds_iff [OF lock]
    by (simp add: post_within_def post_within_at_def assert_not_reversed_def assert_currency_def list_all_iff)
  show ?thesis
  proof (cases "insert_posting now inp amount l")
    case (Inr r)
    then obtain p l' where "insert_posting now inp amount l = Inr (p, l')" by (cases r) simp
    with insert_posting_Inr(1) [OF this ledger_inv_ids [OF assms(1)]] show ?thesis by (simp add: eq posted_result_def)
  next
    case (Inl e)
    obtain d where "e = Db_Err d"
      using Inl by (auto simp: insert_posting_def insert_txn_def insert_entries_def Let_def bind_res_Inl_iff
          require_def dest: apply_balances_Inl_db split: if_splits)
    then show ?thesis using database_errors_only [OF assms(1,5), of now d] assms(4) Inl by (simp add: eq)
  qed
qed

text \<open>
  In a posting that names no account twice the application's own checks are complete:
  the only errors left to the database are a value beyond 64 bits and a reversal of an
  unknown transaction. In particular its overdraft \<open>CHECK\<close>, its unique indexes and the
  currency trigger never stop such a posting.
\<close>

theorem database_checks_are_backstops:
  assumes "ledger_inv l" and "distinct (map pe_account (pi_entries inp))"
    and "post_within now inp l = Inl (Db_Err d)"
  shows "d = Numeric_Out_Of_Range \<or>
    (d = Foreign_Key_Violation ''fk_ledger_transactions_reversal_of'' \<and> pi_reversal_of inp \<noteq> None)"
  by (rule database_errors_only [OF assms])

theorem database_checks_are_backstops_witness:
  "post_within 7 (demo_deposit\<lparr>pi_entries := [leg 0 Debit (2^63), leg 1 Credit (2^63)]\<rparr>) demo_ledger
     = Inl (Db_Err Numeric_Out_Of_Range) \<and> Numeric_Out_Of_Range \<noteq> Unique_Violation ''uq_ledger_transactions_reference''"
proof -
  let ?inp = "demo_deposit\<lparr>pi_entries := [leg 0 Debit (2^63), leg 1 Credit (2^63)]\<rparr>"
  have "distinct (map pe_account (pi_entries ?inp))"
    and e: "post_within 7 ?inp demo_ledger = Inl (Db_Err Numeric_Out_Of_Range)" by code_simp+
  from database_checks_are_backstops [OF demo_inv this] e show ?thesis by simp
qed

section \<open>Statements\<close>

text \<open>The rows of a statement, in one-to-one correspondence with the account's entries.\<close>

lemma account_entries_rows:
  assumes "ledger_inv l"
  shows "map ae_id (account_entries i l) = map le_id (filter (\<lambda>e. le_account e = i) (ledger_entries l))"
    and "map (\<lambda>e. (ae_direction e, ae_amount e)) (account_entries i l) =
      map (\<lambda>e. (le_direction e, le_amount e)) (filter (\<lambda>e. le_account e = i) (ledger_entries l))"
proof -
  have row: "\<exists>t. row_by lt_id (le_txn e) (ledger_txns l) = Some t" if "e \<in> set (ledger_entries l)" for e
  proof -
    obtain t where "t \<in> set (ledger_txns l)" "lt_id t = le_txn e"
      using assms \<open>e \<in> set (ledger_entries l)\<close> unfolding ledger_inv_def entries_inv_def by blast
    then show ?thesis using row_by_None_iff [of lt_id "le_txn e" "ledger_txns l"] by force
  qed
  have "map ae_id (List.map_filter (\<lambda>e. map_option (account_entry_of e) (row_by lt_id (le_txn e) (ledger_txns l)))
        (filter (\<lambda>e. le_account e = i) es)) = map le_id (filter (\<lambda>e. le_account e = i) es) \<and>
      map (\<lambda>e. (ae_direction e, ae_amount e)) (List.map_filter (\<lambda>e. map_option (account_entry_of e)
        (row_by lt_id (le_txn e) (ledger_txns l))) (filter (\<lambda>e. le_account e = i) es)) =
      map (\<lambda>e. (le_direction e, le_amount e)) (filter (\<lambda>e. le_account e = i) es)"
    if "set es \<subseteq> set (ledger_entries l)" for es
    using that
  proof (induction es)
    case (Cons e es)
    obtain t where "row_by lt_id (le_txn e) (ledger_txns l) = Some t" using row Cons.prems by auto
    with Cons show ?case by (simp add: map_filter_simps account_entry_of_def)
  qed (simp add: map_filter_simps)
  from this [of "ledger_entries l"]
  show "map ae_id (account_entries i l) = map le_id (filter (\<lambda>e. le_account e = i) (ledger_entries l))"
    and "map (\<lambda>e. (ae_direction e, ae_amount e)) (account_entries i l) =
      map (\<lambda>e. (le_direction e, le_amount e)) (filter (\<lambda>e. le_account e = i) (ledger_entries l))"
    by (simp_all add: account_entries_def)
qed

lemma in_account_entries:
  "x \<in> set (account_entries i l) \<longleftrightarrow>
     (\<exists>e \<in> set (ledger_entries l). \<exists>t. le_account e = i \<and> row_by lt_id (le_txn e) (ledger_txns l) = Some t \<and>
        x = account_entry_of e t)"
proof -
  have "Some x = map_option f y \<longleftrightarrow> (\<exists>t. y = Some t \<and> x = f t)" for y and f :: "ledger_txn \<Rightarrow> account_entry"
    by (cases y) auto
  then show ?thesis by (auto simp: account_entries_def set_map_filter image_iff)
qed

lemma account_entries_distinct:
  assumes "ledger_inv l"
  shows "distinct (map entry_key (account_entries i l))"
proof -
  have "distinct (map le_id (filter (\<lambda>e. le_account e = i) (ledger_entries l)))"
    using assms by (simp add: ledger_inv_def entries_inv_def distinct_map_filter)
  then have "distinct (map ae_id (account_entries i l))" using account_entries_rows(1) [OF assms] by simp
  then have "distinct (map (snd \<circ> entry_key) (account_entries i l))"
    by (simp add: comp_def entry_key_def)
  then show ?thesis by (metis distinct_map map_map)
qed

interpretation statement: keyset_list "\<lambda>limit before l. list_account_entries i limit before l" entry_key
  "account_entries i" ledger_inv for i
  by unfold_locales (auto simp: list_account_entries_def account_entries_distinct)

definition entry_value :: "direction \<Rightarrow> account_entry \<Rightarrow> int" where
  "entry_value n e = signed_amount n (ae_direction e) (ae_amount e)"

lemma sum_newest_first:
  fixes g :: "'r \<Rightarrow> int"
  shows "sum_list (map g (newest_first key rows)) = sum_list (map g rows)"
proof -
  have "mset (map g (newest_first key rows)) = mset (map g rows)" by (simp add: newest_first_def)
  then show ?thesis by (metis sum_mset_sum_list)
qed

lemma statement_total:
  assumes "ledger_inv l" and "account_of l i = Some a"
  shows "sum_list (map (entry_value (la_normal a)) (account_entries i l)) = la_balance a"
proof -
  have id: "la_id a = i" "a \<in> set (accounts l)" using row_by_Some [OF assms(2)] by auto
  let ?v = "\<lambda>(d, x). signed_amount (la_normal a) d x"
  have "sum_list (map (entry_value (la_normal a)) (account_entries i l)) =
      sum_list (map ?v (map (\<lambda>e. (ae_direction e, ae_amount e)) (account_entries i l)))"
    by (simp add: comp_def entry_value_def [abs_def])
  also have "\<dots> = computed_balance a (ledger_entries l)"
    by (simp add: account_entries_rows(2) [OF assms(1)] comp_def computed_balance_def signed_amount_def id)
  also have "\<dots> = la_balance a" using ledger_inv_balance [OF assms(1) id(2)] by simp
  finally show ?thesis .
qed

text \<open>
  C15. Following a statement's \<open>next\<close> cursors page by page, with any page size, ends after at
  most one page more than there are entries and lists every entry of the account exactly
  once, newest first; the entries listed add up to the account's balance.
\<close>

theorem statement_lists_balance:
  assumes "ledger_inv l" and "account_of l i = Some a" and "0 < limit"
  shows "\<exists>out. walk (list_account_entries i) limit None (replicate (Suc (length (ledger_entries l))) l) = (out, True) \<and>
    mset (map ae_id out) = mset (map le_id (filter (\<lambda>e. le_account e = i) (ledger_entries l))) \<and>
    descending entry_key out \<and> sum_list (map (entry_value (la_normal a)) out) = la_balance a"
proof -
  have "length (account_entries i l) = length (map ae_id (account_entries i l))" by simp
  also have "\<dots> \<le> length (ledger_entries l)" by (simp add: account_entries_rows(1) [OF assms(1)])
  finally have len: "length (account_entries i l) < Suc (length (ledger_entries l))" by simp
  have "mset (map ae_id (newest_first entry_key (account_entries i l))) = mset (map ae_id (account_entries i l))"
    by (simp add: newest_first_def)
  then show ?thesis
    using statement.walk_static [OF assms(3,1) len] account_entries_rows(1) [OF assms(1), of i]
      descending_newest_first [OF account_entries_distinct [OF assms(1), of i]]
      statement_total [OF assms(1,2)] by (simp add: sum_newest_first)
qed

theorem statement_lists_balance_witness:
  "\<exists>out. walk (list_account_entries 1) 2 None (replicate 5 demo_withdrawn) = (out, True) \<and>
    length out = 2 \<and> sum_list (map (entry_value Credit) out) = 0"
proof -
  have step: "post_within 8 demo_withdrawal demo_after = Inr (posted_result 8 demo_withdrawal 500 demo_after, demo_withdrawn)"
    by code_simp
  have inv: "ledger_inv demo_withdrawn"
    by (rule post_within_inv [OF post_within_inv [OF demo_inv demo_deposit_posts] step])
  have acct: "account_of demo_withdrawn 1 = Some demo_wallet" by code_simp
  have len: "Suc (length (ledger_entries demo_withdrawn)) = 5"
    "length (filter (\<lambda>e. le_account e = 1) (ledger_entries demo_withdrawn)) = 2"
    "la_normal demo_wallet = Credit" "la_balance demo_wallet = 0" by code_simp+
  from statement_lists_balance [OF inv acct, of 2] obtain out where
    out: "walk (list_account_entries 1) 2 None (replicate 5 demo_withdrawn) = (out, True)"
      "mset (map ae_id out) = mset (map le_id (filter (\<lambda>e. le_account e = 1) (ledger_entries demo_withdrawn)))"
      "sum_list (map (entry_value Credit) out) = 0"
    unfolding len by auto
  have "length out = 2" using arg_cong [OF out(2), of size] len(2) by (simp only: size_mset length_map)
  with out show ?thesis by blast
qed

text \<open>
  Postings that arrive while a client walks a statement never make it miss or repeat an
  entry: if each page is read on a later state of the ledger and the walk comes to its end,
  every entry the account had at the start is listed, and none is listed twice.
\<close>

theorem statement_stable_under_postings:
  assumes "ledger_inv l" and "\<forall>s \<in> set pages. ledger_run l s" and "0 < limit"
    and "walk (list_account_entries i) limit None pages = (out, True)" and "pages \<noteq> []"
  shows "set (account_entries i l) \<subseteq> set out \<and> distinct (map entry_key out)"
proof -
  have inv: "\<forall>s \<in> set pages. ledger_inv s" using assms(1,2) by (auto intro: ledger_run_inv)
  have sub: "set (account_entries i l) \<subseteq> set (account_entries i s)" if s: "s \<in> set pages" for s
  proof
    fix x assume "x \<in> set (account_entries i l)"
    then obtain e t where e: "e \<in> set (ledger_entries l)" "le_account e = i"
      and t: "row_by lt_id (le_txn e) (ledger_txns l) = Some t" "x = account_entry_of e t"
      unfolding in_account_entries by blast
    have ext: "ledger_extends l s" using assms(1,2) s by (auto intro: ledger_run_extends)
    then have "row_by lt_id (le_txn e) (ledger_txns s) = Some t"
      using t(1) by (auto simp: ledger_extends_def row_by_append)
    moreover have "e \<in> set (ledger_entries s)" using ext e by (auto simp: ledger_extends_def)
    ultimately show "x \<in> set (account_entries i s)"
      using e t unfolding in_account_entries by blast
  qed
  note w = statement.walk_spec [OF assms(3) inv assms(4)]
  have "set (account_entries i l) \<subseteq> set out"
  proof
    fix x assume "x \<in> set (account_entries i l)"
    then have "\<forall>s \<in> set pages. x \<in> set (account_entries i s)" using sub by blast
    then show "x \<in> set out" using w by (simp add: below_def)
  qed
  moreover have "distinct (map entry_key out)"
    using w by (intro descending_distinct) blast
  ultimately show ?thesis by blast
qed

theorem statement_stable_under_postings_witness:
  "walk (list_account_entries 1) 1 None [demo_after, demo_withdrawn] = (account_entries 1 demo_after, True) \<and>
   distinct (map entry_key (account_entries 1 demo_after))"
proof -
  have "ledger_step demo_after demo_withdrawn"
    by (rule post_in_caller [of 8 demo_withdrawal _ "posted_result 8 demo_withdrawal 500 demo_after"]) code_simp
  then have runs: "\<forall>s \<in> set [demo_after, demo_withdrawn]. ledger_run demo_after s" by simp
  have w: "walk (list_account_entries 1) 1 None [demo_after, demo_withdrawn] = (account_entries 1 demo_after, True)"
    by code_simp
  from statement_stable_under_postings [OF post_within_inv [OF demo_inv demo_deposit_posts] runs _ w] w
  show ?thesis by simp
qed

end
