(* ===== verification/Fx_Math.thy ===== *)
theory Fx_Math
  imports Money
begin

text \<open>
  \<open>src/fx/fx-math.ts\<close>: exact conversion between currencies on \<open>bigint\<close>s. A rate is a decimal
  string held as an integer scaled by \<open>10 ^ 10\<close>. The theorems bound what the customer is
  credited, show that a conversion to a target amount charges the least that yields it, and
  that a rate survives parsing and formatting.
\<close>

section \<open>Rates\<close>

definition RATE_DECIMALS :: nat where
  "RATE_DECIMALS = 10"

definition RATE_SCALE :: int where
  "RATE_SCALE = 10 ^ RATE_DECIMALS"

definition BPS :: int where
  "BPS = 10000"

definition InvalidRate :: "string \<Rightarrow> app_error" where
  "InvalidRate s = Invalid_Rate (''Invalid rate '' @ s)"

text \<open>\<open>/^(\d{1,14})(?:\.(\d{1,10}))?$/\<close>: the whole part and the fraction, if there is one.\<close>

definition rate_pattern :: "string \<Rightarrow> (string \<times> string) option" where
  "rate_pattern s =
     (let whole = takeWhile is_digit s; rest = dropWhile is_digit s in
      if whole = [] \<or> 14 < length whole then None
      else case rest of
             [] \<Rightarrow> Some (whole, [])
           | c # fraction \<Rightarrow>
               if c = CHR ''.'' \<and> fraction \<noteq> [] \<and> length fraction \<le> 10 \<and> list_all is_digit fraction
               then Some (whole, fraction) else None)"

definition parse_rate :: "string \<Rightarrow> int res" where
  "parse_rate value =
     (case rate_pattern (trim value) of
        None \<Rightarrow> Inl (InvalidRate value)
      | Some (whole, fraction) \<Rightarrow>
          let scaled = int (read_nat whole) * RATE_SCALE + int (read_nat (pad_end RATE_DECIMALS (CHR ''0'') fraction)) in
          if scaled \<le> 0 then Inl (Invalid_Rate ''Rate must be greater than zero'') else Inr scaled)"

definition format_rate :: "int \<Rightarrow> string" where
  "format_rate scaled =
     (let whole = big_div scaled RATE_SCALE;
          fraction = strip_zeros (pad_start RATE_DECIMALS (CHR ''0'') (show_int (big_mod scaled RATE_SCALE))) in
      if fraction \<noteq> [] then show_int whole @ ''.'' @ fraction else show_int whole)"

section \<open>Conversion\<close>

record pair_rate =
  rate_base :: string
  rate_quote :: string
  rate_scaled :: int

text \<open>The conversion factor from source to target minor units, as a fraction.\<close>

definition factor :: "pair_rate \<Rightarrow> string \<Rightarrow> string \<Rightarrow> (int \<times> int) res" where
  "factor rate source target =
     (let es = 10 ^ minor_units source; et = 10 ^ minor_units target in
      if source = rate_base rate \<and> target = rate_quote rate
      then Inr (rate_scaled rate * et, RATE_SCALE * es)
      else if source = rate_quote rate \<and> target = rate_base rate
      then Inr (RATE_SCALE * et, rate_scaled rate * es)
      else Inl (Invalid_Rate (''Rate '' @ rate_base rate @ ''/'' @ rate_quote rate @ '' cannot convert '' @ source @ '' to '' @ target)))"

record conversion =
  cv_source :: int
  cv_target :: int
  cv_gross :: int
  cv_spread :: int

definition ceil_div :: "int \<Rightarrow> int \<Rightarrow> int" where
  "ceil_div a b = big_div (a + b - 1) b"

text \<open>A spread is an integer number of basis points here; the source also rejects a
  non-integer \<open>number\<close>.\<close>

definition validate_spread :: "int \<Rightarrow> int res" where
  "validate_spread bps =
     (if bps < 0 \<or> 10000 \<le> bps then Inl (Range_Error (''Invalid spread '' @ show_int bps @ '' bps'')) else Inr bps)"

definition convert_from_source :: "pair_rate \<Rightarrow> string \<Rightarrow> string \<Rightarrow> int \<Rightarrow> int \<Rightarrow> conversion res" where
  "convert_from_source rate source target amount bps =
     bind_res (validate_spread bps) (\<lambda>spread.
       if amount \<le> 0 then Inl (Range_Error ''Amount must be positive'')
       else bind_res (factor rate source target) (\<lambda>(n, d).
         let gross = big_div (amount * n) d;
             net = big_div (amount * n * (BPS - spread)) (d * BPS) in
         Inr \<lparr>cv_source = amount, cv_target = net, cv_gross = gross, cv_spread = gross - net\<rparr>))"

definition convert_to_target :: "pair_rate \<Rightarrow> string \<Rightarrow> string \<Rightarrow> int \<Rightarrow> int \<Rightarrow> conversion res" where
  "convert_to_target rate source target amount bps =
     bind_res (validate_spread bps) (\<lambda>spread.
       if amount \<le> 0 then Inl (Range_Error ''Amount must be positive'')
       else bind_res (factor rate source target) (\<lambda>(n, d).
         convert_from_source rate source target (ceil_div (amount * d * BPS) (n * (BPS - spread))) bps))"

section \<open>Bounds\<close>

lemma factor_pos: "factor rate s t = Inr (n, d) \<Longrightarrow> 0 < rate_scaled rate \<Longrightarrow> 0 < n \<and> 0 < d"
  by (auto simp: factor_def RATE_SCALE_def Let_def split: if_splits)

lemma validate_spread_Inr: "validate_spread bps = Inr s \<longleftrightarrow> s = bps \<and> 0 \<le> bps \<and> bps < 10000"
  by (auto simp: validate_spread_def)

lemma convert_from_source_Inr:
  assumes "convert_from_source rate s t amount bps = Inr c" and "0 < rate_scaled rate"
  obtains n d where "factor rate s t = Inr (n, d)" "0 < n" "0 < d" "0 < amount" "0 \<le> bps" "bps < 10000"
    "cv_source c = amount" "cv_gross c = (amount * n) div d"
    "cv_target c = (amount * n * (10000 - bps)) div (d * 10000)" "cv_spread c = cv_gross c - cv_target c"
proof -
  from assms(1) obtain n d where f: "factor rate s t = Inr (n, d)" "0 < amount" "0 \<le> bps" "bps < 10000"
    and c: "c = \<lparr>cv_source = amount, cv_target = big_div (amount * n * (BPS - bps)) (d * BPS),
      cv_gross = big_div (amount * n) d,
      cv_spread = big_div (amount * n) d - big_div (amount * n * (BPS - bps)) (d * BPS)\<rparr>"
    by (auto simp: convert_from_source_def bind_res_Inr_iff validate_spread_Inr Let_def split: if_splits)
  from factor_pos [OF f(1) assms(2)] f c that show ?thesis
    by (simp add: big_div_nonneg BPS_def)
qed

lemma spread_le_gross:
  fixes x d b :: int
  assumes "0 \<le> x" and "0 < d" and "0 \<le> b" and "b < 10000"
  shows "x * (10000 - b) div (d * 10000) \<le> x div d"
proof -
  have "x * (10000 - b) div (d * 10000) \<le> x * 10000 div (d * 10000)"
    using assms by (intro zdiv_mono1 mult_left_mono) auto
  then show ?thesis by simp
qed

text \<open>
  A conversion never credits more than the customer's money is worth: between 0 and the
  value at the mid rate, which is itself rounded down, the spread kept being the difference;
  and it loses less than one minor unit against the exact net value.
\<close>

theorem conversion_bounds:
  assumes "convert_from_source rate s t amount bps = Inr c" and "0 < rate_scaled rate"
    and "factor rate s t = Inr (n, d)"
  shows "0 \<le> cv_target c \<and> cv_target c \<le> cv_gross c \<and> cv_spread c = cv_gross c - cv_target c \<and>
    cv_gross c * d \<le> amount * n \<and> cv_target c * (d * 10000) \<le> amount * n * (10000 - bps) \<and>
    amount * n * (10000 - bps) < (cv_target c + 1) * (d * 10000)"
  using assms(1,2)
proof (rule convert_from_source_Inr)
  fix n' d' assume f: "factor rate s t = Inr (n', d')" "0 < n'" "0 < d'" "0 < amount" "0 \<le> bps" "bps < 10000"
    and c: "cv_source c = amount" "cv_gross c = (amount * n') div d'"
    "cv_target c = (amount * n' * (10000 - bps)) div (d' * 10000)" "cv_spread c = cv_gross c - cv_target c"
  have eq: "n' = n" "d' = d" using assms(3) f(1) by auto
  have "cv_target c \<le> cv_gross c"
    using f spread_le_gross [of "amount * n'" d' bps] by (simp add: c)
  moreover have "amount * n' div d' * d' \<le> amount * n'" using f(3) by (rule div_mult_le)
  moreover have "amount * n' * (10000 - bps) div (d' * 10000) * (d' * 10000) \<le> amount * n' * (10000 - bps)"
    using f(3) by (intro div_mult_le) simp
  moreover have "amount * n' * (10000 - bps) < (amount * n' * (10000 - bps) div (d' * 10000) + 1) * (d' * 10000)"
    using f(3) by (intro less_succ_div_mult) simp
  moreover have "0 \<le> cv_target c" using f by (simp add: c pos_imp_zdiv_nonneg_iff)
  ultimately show ?thesis using c eq by simp
qed

definition demo_rate :: pair_rate where
  "demo_rate = \<lparr>rate_base = ''USD'', rate_quote = ''NGN'', rate_scaled = 15502500000000\<rparr>"

theorem conversion_bounds_witness:
  "convert_from_source demo_rate ''NGN'' ''USD'' 1550250 150 =
     Inr \<lparr>cv_source = 1550250, cv_target = 985, cv_gross = 1000, cv_spread = 15\<rparr> \<and> (985::int) \<le> 1000"
proof -
  have c: "convert_from_source demo_rate ''NGN'' ''USD'' 1550250 150 =
      Inr \<lparr>cv_source = 1550250, cv_target = 985, cv_gross = 1000, cv_spread = 15\<rparr>"
    and f: "factor demo_rate ''NGN'' ''USD'' = Inr (1000000000000, 1550250000000000)"
    and p: "0 < rate_scaled demo_rate" by code_simp+
  from conversion_bounds [OF c p f] c show ?thesis by simp
qed

section \<open>Charging for a target amount\<close>

lemma convert_to_target_Inr:
  assumes "convert_to_target rate s t amount bps = Inr c" and "0 < rate_scaled rate"
  obtains n d where "factor rate s t = Inr (n, d)" "0 < n" "0 < d" "0 < amount" "0 \<le> bps" "bps < 10000"
    "convert_from_source rate s t ((amount * d * 10000 + n * (10000 - bps) - 1) div (n * (10000 - bps))) bps = Inr c"
proof -
  from assms(1) obtain n d where f: "factor rate s t = Inr (n, d)" "0 < amount" "0 \<le> bps" "bps < 10000"
    and c: "convert_from_source rate s t (ceil_div (amount * d * BPS) (n * (BPS - bps))) bps = Inr c"
    by (auto simp: convert_to_target_def bind_res_Inr_iff validate_spread_Inr Let_def split: if_splits)
  have "0 < n" "0 < d" using factor_pos [OF f(1) assms(2)] by auto
  moreover from this f have "0 < amount * d * 10000" "0 < n * (10000 - bps)" by simp_all
  moreover from this have "ceil_div (amount * d * BPS) (n * (BPS - bps)) =
      (amount * d * 10000 + n * (10000 - bps) - 1) div (n * (10000 - bps))"
    unfolding ceil_div_def BPS_def by (intro big_div_nonneg) auto
  ultimately show ?thesis using f c that by simp
qed

text \<open>
  A conversion to a target amount credits at least that amount and charges the least
  source amount that does: any other source amount is credited the target amount or more
  exactly when it is at least the one charged.
\<close>

theorem convert_to_target_least:
  assumes "convert_to_target rate s t amount bps = Inr c" and "0 < rate_scaled rate"
    and "convert_from_source rate s t k bps = Inr c'"
  shows "amount \<le> cv_target c \<and> (amount \<le> cv_target c' \<longleftrightarrow> cv_source c \<le> k)"
proof -
  from convert_to_target_Inr [OF assms(1,2)] obtain n d where
    f: "factor rate s t = Inr (n, d)" "0 < n" "0 < d" "0 < amount" "0 \<le> bps" "bps < 10000"
    and conv: "convert_from_source rate s t ((amount * d * 10000 + n * (10000 - bps) - 1) div (n * (10000 - bps))) bps = Inr c" .
  let ?k = "(amount * d * 10000 + n * (10000 - bps) - 1) div (n * (10000 - bps))"
  have b: "0 < n * (10000 - bps)" using f by simp
  have iff: "amount \<le> cv_target x \<longleftrightarrow> ?k \<le> j" if x: "convert_from_source rate s t j bps = Inr x" for j x
  proof -
    from convert_from_source_Inr [OF x assms(2)] f(1)
    have t: "cv_target x = (j * n * (10000 - bps)) div (d * 10000)" by fastforce
    have "amount \<le> cv_target x \<longleftrightarrow> amount * (d * 10000) \<le> j * n * (10000 - bps)"
      unfolding t using f(3) by (intro le_div_iff_mult_le) simp
    also have "\<dots> \<longleftrightarrow> amount * d * 10000 \<le> j * (n * (10000 - bps))" by (simp add: mult.assoc)
    also have "\<dots> \<longleftrightarrow> ?k \<le> j" using ceil_div_le_iff [OF b] by simp
    finally show ?thesis .
  qed
  have "cv_source c = ?k" by (rule convert_from_source_Inr [OF conv assms(2)])
  then show ?thesis using iff [OF conv] iff [OF assms(3)] by simp
qed

theorem convert_to_target_least_witness:
  "\<exists>c. convert_to_target demo_rate ''NGN'' ''USD'' 1000 150 = Inr c \<and> cv_source c = 1573858 \<and>
     \<not> cv_source c \<le> 1573857 \<and> 1000 \<le> cv_target c"
proof -
  have c: "convert_to_target demo_rate ''NGN'' ''USD'' 1000 150 =
      Inr \<lparr>cv_source = 1573858, cv_target = 1000, cv_gross = 1015, cv_spread = 15\<rparr>"
    and c': "convert_from_source demo_rate ''NGN'' ''USD'' 1573857 150 =
      Inr \<lparr>cv_source = 1573857, cv_target = 999, cv_gross = 1015, cv_spread = 16\<rparr>"
    and p: "0 < rate_scaled demo_rate" by code_simp+
  from convert_to_target_least [OF c p c'] c show ?thesis by simp
qed

section \<open>Rates as text\<close>

lemma rate_pattern_whole:
  "w \<noteq> [] \<Longrightarrow> length w \<le> 14 \<Longrightarrow> list_all is_digit w \<Longrightarrow> rate_pattern w = Some (w, [])"
  by (simp add: rate_pattern_def list_all_iff Let_def takeWhile_eq_all_conv [THEN iffD2]
      dropWhile_eq_Nil_conv [THEN iffD2])

lemma rate_pattern_point:
  assumes "w \<noteq> []" and "length w \<le> 14" and "list_all is_digit w"
    and "f \<noteq> []" and "length f \<le> 10" and "list_all is_digit f"
  shows "rate_pattern (w @ CHR ''.'' # f) = Some (w, f)"
proof -
  have dot: "\<not> is_digit (CHR ''.'')" by (simp add: is_digit_def)
  have "takeWhile is_digit (w @ CHR ''.'' # f) = w" "dropWhile is_digit (w @ CHR ''.'' # f) = CHR ''.'' # f"
    using assms(3) dot by (auto simp: list_all_iff takeWhile_append dropWhile_append)
  with assms show ?thesis by (simp add: rate_pattern_def)
qed

lemma trim_digits_dot: "list_all (\<lambda>x. is_digit x \<or> x = CHR ''.'') s \<Longrightarrow> trim s = s"
proof -
  assume "list_all (\<lambda>x. is_digit x \<or> x = CHR ''.'') s"
  moreover have "\<not> is_space (CHR ''.'')" by (simp add: is_space_def)
  ultimately have "list_all (\<lambda>x. \<not> is_space x) s" by (auto simp: list_all_iff is_digit_not_space)
  then show ?thesis by (rule trim_nonspace)
qed

lemma strip_zeros_digits: "list_all is_digit s \<Longrightarrow> list_all is_digit (strip_zeros s)"
  using strip_zeros_decomp [of s] by (metis list_all_append)

text \<open>
  Rates survive the trip through their text: formatting any positive scaled rate whose
  whole part has at most 14 digits and parsing the result gives the rate back.
\<close>

theorem rate_round_trip:
  assumes "0 < r" and "r < 10 ^ 24"
  shows "parse_rate (format_rate r) = Inr r"
proof -
  define w where "w = show_nat (nat (r div RATE_SCALE))"
  define p where "p = pad_start 10 (CHR ''0'') (show_nat (nat (r mod RATE_SCALE)))"
  define f where "f = strip_zeros p"
  have scale: "RATE_SCALE = 10 ^ 10" by (simp add: RATE_SCALE_def RATE_DECIMALS_def)
  have lenp: "length p = 10"
    using length_fraction [of r 10] assms(1) by (simp add: p_def scale big_mod_show)
  have digits: "list_all is_digit p" unfolding p_def by (intro list_all_digit_pad all_digits_show_nat)
  then have fd: "list_all is_digit f" unfolding f_def by (rule strip_zeros_digits)
  have fl: "length f \<le> 10" using length_strip_zeros_le [of p] lenp by (simp add: f_def)
  have "nat (r div RATE_SCALE) < 10 ^ 14"
    using assms by (simp add: scale nat_less_iff pos_imp_zdiv_nonneg_iff div_less_iff)
  then have w: "w \<noteq> []" "length w \<le> 14" "list_all is_digit w"
    by (simp_all add: w_def length_show_nat_le all_digits_show_nat)
  have shape: "format_rate r = (if f \<noteq> [] then w @ CHR ''.'' # f else w)"
    using assms(1) by (simp add: format_rate_def Let_def big_div_show big_mod_show scale RATE_DECIMALS_def w_def f_def p_def)
  then have "list_all (\<lambda>x. is_digit x \<or> x = CHR ''.'') (format_rate r)"
    using w(3) fd by (auto simp: list_all_iff)
  then have "trim (format_rate r) = format_rate r" by (rule trim_digits_dot)
  moreover have "rate_pattern (format_rate r) = Some (w, f)"
    using shape rate_pattern_whole [OF w] rate_pattern_point [OF w _ fl fd] by auto
  moreover have "pad_end 10 (CHR ''0'') f = p" unfolding f_def by (rule pad_end_strip_zeros [OF lenp])
  moreover have "int (read_nat w) * RATE_SCALE + int (read_nat p) = r"
    using assms(1) by (simp add: w_def p_def scale pos_imp_zdiv_nonneg_iff)
  ultimately show ?thesis using assms(1) by (simp add: parse_rate_def RATE_DECIMALS_def)
qed

theorem rate_round_trip_witness: "parse_rate (format_rate 15502500000000) = Inr 15502500000000"
  by (rule rate_round_trip) simp_all

end
