(* ===== verification/Entities.thy ===== *)
theory Entities
  imports Ledger_Theorems
begin

text \<open>
  The rows of the application's tables (the TypeORM entities under \<open>src/*/*.entity.ts\<close>) and
  the database state \<open>db\<close> that the services act on. A service operation takes the request
  context and the current time, and returns an error (the database transaction rolls back)
  or its result with the new state. \<open>on_ledger\<close> runs a ledger operation inside \<open>db\<close>: it can
  change nothing but the ledger tables.
\<close>

section \<open>Enumerations\<close>

datatype wallet_status = Wallet_Active | Wallet_Frozen | Wallet_Closed

datatype txn_type =
  Ty_Transfer | Ty_Deposit | Ty_Withdrawal | Ty_Payment | Ty_Refund | Ty_Fee | Ty_Reversal | Ty_Conversion

datatype txn_status =
  Pending | Processing | Successful | Failed | Reversed | Cancelled | Expired

fun txn_status_str :: "txn_status \<Rightarrow> string" where
  "txn_status_str Pending = ''pending''"
| "txn_status_str Processing = ''processing''"
| "txn_status_str Successful = ''successful''"
| "txn_status_str Failed = ''failed''"
| "txn_status_str Reversed = ''reversed''"
| "txn_status_str Cancelled = ''cancelled''"
| "txn_status_str Expired = ''expired''"

datatype fee_operation = Fee_Payment | Fee_Payout | Fee_Transfer

datatype limit_operation = Limit_Payment | Limit_Payout | Limit_Transfer

datatype destination_kind = Bank_Account | Paypal_Account

datatype outbox_status = Outbox_Pending | Outbox_Published

datatype actor = Actor_User uuid | Actor_Api_Key uuid uuid | Actor_System

section \<open>Rows\<close>

record user_row =
  u_id :: uuid
  u_email :: string

record wallet =
  w_id :: uuid
  w_user_id :: "uuid option"
  w_organization_id :: "uuid option"
  w_currency :: string
  w_status :: wallet_status
  w_is_primary :: bool
  w_available :: uuid
  w_pending :: uuid
  w_reserved :: uuid
  w_created_at :: int

record fx_rate =
  xr_id :: uuid
  xr_base :: string
  xr_quote :: string
  xr_rate :: string
  xr_source :: string
  xr_created_by :: "uuid option"
  xr_created_at :: int

record fx_quote =
  q_id :: uuid
  q_user_id :: "uuid option"
  q_rate_id :: uuid
  q_source_currency :: string
  q_target_currency :: string
  q_source_amount :: int
  q_target_amount :: int
  q_gross_target :: int
  q_spread_bps :: int
  q_rate_base :: string
  q_rate_quote :: string
  q_rate :: string
  q_expires_at :: int
  q_consumed_at :: "int option"
  q_conversion_reference :: "string option"
  q_source_txn :: "uuid option"
  q_target_txn :: "uuid option"

record fee_rule =
  fr_id :: uuid
  fr_operation :: fee_operation
  fr_currency :: string
  fr_organization_id :: "uuid option"
  fr_fixed :: int
  fr_bps :: int
  fr_min :: int
  fr_max :: "int option"
  fr_created_by :: "uuid option"
  fr_created_at :: int
  fr_superseded_at :: "int option"

record limit_rule =
  lr_id :: uuid
  lr_operation :: limit_operation
  lr_currency :: string
  lr_organization_id :: "uuid option"
  lr_max_txn :: "int option"
  lr_max_daily :: "int option"
  lr_max_daily_count :: "int option"
  lr_max_monthly :: "int option"
  lr_created_by :: "uuid option"
  lr_created_at :: int
  lr_superseded_at :: "int option"

record txn =
  t_id :: uuid
  t_reference :: string
  t_type :: txn_type
  t_status :: txn_status
  t_user_id :: "uuid option"
  t_organization_id :: "uuid option"
  t_counterparty :: "uuid option"
  t_source_wallet :: "uuid option"
  t_destination_wallet :: "uuid option"
  t_amount :: int
  t_currency :: string
  t_fee_amount :: int
  t_fee_currency :: "string option"
  t_fee_rule :: "uuid option"
  t_ledger_txn :: "uuid option"
  t_provider_reference :: "string option"
  t_idempotency_key :: "string option"
  t_description :: "string option"
  t_failure_code :: "string option"
  t_failure_reason :: "string option"
  t_metadata :: json_object
  t_created_at :: int
  t_completed_at :: "int option"

record payment =
  p_id :: uuid
  p_transaction :: uuid
  p_user_id :: "uuid option"
  p_organization_id :: "uuid option"
  p_customer_email :: string
  p_wallet :: uuid
  p_provider :: string
  p_provider_reference :: "string option"
  p_authorization_url :: "string option"
  p_amount :: int
  p_currency :: string
  p_fx_quote :: "uuid option"
  p_pending_amount :: int
  p_funds_available_at :: "int option"
  p_created_at :: int

record refund =
  r_id :: uuid
  r_reference :: string
  r_payment :: uuid
  r_transaction :: uuid
  r_amount :: int
  r_currency :: string
  r_wallet :: uuid
  r_wallet_debit :: int
  r_wallet_currency :: string
  r_pending_hold :: int
  r_revenue_reversal :: int
  r_gross_reversal :: int
  r_provider :: string
  r_provider_reference :: "string option"
  r_submitted_at :: "int option"
  r_reason :: string
  r_requested_by :: uuid
  r_idempotency_key :: string
  r_created_at :: int

record payout =
  po_id :: uuid
  po_reference :: string
  po_transaction :: uuid
  po_user_id :: "uuid option"
  po_organization_id :: "uuid option"
  po_wallet :: uuid
  po_destination :: uuid
  po_provider :: string
  po_amount :: int
  po_currency :: string
  po_narration :: "string option"
  po_provider_reference :: "string option"
  po_submitted_at :: "int option"
  po_created_at :: int

record payout_destination =
  pd_id :: uuid
  pd_user_id :: "uuid option"
  pd_organization_id :: "uuid option"
  pd_provider :: string
  pd_currency :: string
  pd_recipient :: string
  pd_kind :: destination_kind
  pd_bank_code :: "string option"
  pd_bank_name :: "string option"
  pd_account_name :: string
  pd_last4 :: "string option"
  pd_email :: "string option"
  pd_label :: "string option"
  pd_created_at :: int
  pd_payouts_available_at :: int
  pd_removed_at :: "int option"

record outbox_event =
  ev_id :: uuid
  ev_type :: string
  ev_aggregate_type :: string
  ev_aggregate_id :: uuid
  ev_payload :: json_object
  ev_status :: outbox_status
  ev_attempts :: nat
  ev_last_error :: "string option"
  ev_available_at :: int
  ev_created_at :: int
  ev_published_at :: "int option"

record audit_log =
  al_id :: uuid
  al_actor :: actor
  al_organization_id :: "uuid option"
  al_action :: string
  al_target_type :: string
  al_target_id :: uuid
  al_metadata :: json_object
  al_request_id :: "string option"
  al_ip_address :: "string option"
  al_created_at :: int

section \<open>The database\<close>

record db =
  ledger :: ledger_state
  users :: "user_row list"
  wallets :: "wallet list"
  fx_rates :: "fx_rate list"
  fx_quotes :: "fx_quote list"
  fee_rules :: "fee_rule list"
  limit_rules :: "limit_rule list"
  transactions :: "txn list"
  payments :: "payment list"
  refunds :: "refund list"
  payouts :: "payout list"
  payout_destinations :: "payout_destination list"
  outbox :: "outbox_event list"
  audit_logs :: "audit_log list"
  next_id :: uuid

definition empty_db :: db where
  "empty_db =
     \<lparr>ledger = empty_ledger, users = [], wallets = [], fx_rates = [], fx_quotes = [], fee_rules = [],
      limit_rules = [], transactions = [], payments = [], refunds = [], payouts = [],
      payout_destinations = [], outbox = [], audit_logs = [], next_id = 0\<rparr>"

text \<open>What a request carries implicitly (\<open>RequestContext\<close>).\<close>

record request_context =
  rc_actor :: actor
  rc_request_id :: "string option"
  rc_ip_address :: "string option"

definition system_context :: request_context where
  "system_context = \<lparr>rc_actor = Actor_System, rc_request_id = None, rc_ip_address = None\<rparr>"

definition on_ledger :: "(ledger_state \<Rightarrow> ('a \<times> ledger_state) res) \<Rightarrow> db \<Rightarrow> ('a \<times> db) res" where
  "on_ledger f s = bind_res (f (ledger s)) (\<lambda>(x, l). Inr (x, s\<lparr>ledger := l\<rparr>))"

lemma on_ledger_Inr: "on_ledger f s = Inr (x, s') \<longleftrightarrow> (\<exists>l. f (ledger s) = Inr (x, l) \<and> s' = s\<lparr>ledger := l\<rparr>)"
  by (auto simp: on_ledger_def bind_res_Inr_iff)

lemma on_ledger_Inl: "on_ledger f s = Inl e \<longleftrightarrow> f (ledger s) = Inl e"
  by (auto simp: on_ledger_def bind_res_Inl_iff)

text \<open>Nothing but the ledger differs.\<close>

definition only_ledger :: "db \<Rightarrow> db \<Rightarrow> bool" where
  "only_ledger s s' \<longleftrightarrow> s' = s\<lparr>ledger := ledger s'\<rparr>"

lemma only_ledger_refl [simp]: "only_ledger s s"
  by (simp add: only_ledger_def)

lemma only_ledger_set [simp]: "only_ledger s (s\<lparr>ledger := l\<rparr>)"
  by (simp add: only_ledger_def)

lemma only_ledger_tables:
  assumes "only_ledger s s'"
  shows "users s' = users s" "wallets s' = wallets s" "fx_rates s' = fx_rates s" "fx_quotes s' = fx_quotes s"
    "fee_rules s' = fee_rules s" "limit_rules s' = limit_rules s" "transactions s' = transactions s"
    "payments s' = payments s" "refunds s' = refunds s" "payouts s' = payouts s"
    "payout_destinations s' = payout_destinations s" "outbox s' = outbox s" "audit_logs s' = audit_logs s"
    "next_id s' = next_id s"
proof -
  obtain l where "s' = s\<lparr>ledger := l\<rparr>" using assms unfolding only_ledger_def by blast
  then show "users s' = users s" "wallets s' = wallets s" "fx_rates s' = fx_rates s" "fx_quotes s' = fx_quotes s"
    "fee_rules s' = fee_rules s" "limit_rules s' = limit_rules s" "transactions s' = transactions s"
    "payments s' = payments s" "refunds s' = refunds s" "payouts s' = payouts s"
    "payout_destinations s' = payout_destinations s" "outbox s' = outbox s" "audit_logs s' = audit_logs s"
    "next_id s' = next_id s"
    by simp_all
qed

lemma only_ledger_trans [trans]: "only_ledger a b \<Longrightarrow> only_ledger b c \<Longrightarrow> only_ledger a c"
  unfolding only_ledger_def by (metis (no_types) db.surjective db.update_convs(1))

lemma only_ledger_eqI: "only_ledger s s' \<Longrightarrow> s' = s\<lparr>ledger := ledger s'\<rparr>"
  by (simp add: only_ledger_def)

lemma on_ledger_only: "on_ledger f s = Inr (x, s') \<Longrightarrow> only_ledger s s'"
  by (auto simp: on_ledger_Inr)

section \<open>Balances of the accounts in the database\<close>

abbreviation account_in :: "db \<Rightarrow> uuid \<Rightarrow> ledger_account option" where
  "account_in s i \<equiv> account_of (ledger s) i"

definition balance :: "db \<Rightarrow> uuid \<Rightarrow> int" where
  "balance s i = balance_in account_in s i"

definition position :: "db \<Rightarrow> uuid \<Rightarrow> int" where
  "position s i = position_in account_in s i"

abbreviation ledger_ok :: "db \<Rightarrow> bool" where
  "ledger_ok s \<equiv> ledger_inv (ledger s)"

text \<open>\<open>postWithin(manager, ...)\<close> on the caller's database transaction.\<close>

definition post_in :: "int \<Rightarrow> posting_input \<Rightarrow> db \<Rightarrow> (posted \<times> db) res" where
  "post_in now inp s = on_ledger (post_within now inp) s"

definition ensure_account :: "system_account \<Rightarrow> db \<Rightarrow> (ledger_account \<times> db) res" where
  "ensure_account sa s = on_ledger (ensure_system_account sa) s"

text \<open>The services see the ledger through its contract, on the whole database.\<close>

interpretation inside: posting_ledger post_in account_in ledger_ok
proof (unfold_locales, goal_cases)
  case (1 s now inp p s')
  then show ?case by (auto simp: post_in_def on_ledger_Inr intro: within.op_good)
next
  case (2 now inp s p s')
  then show ?case by (auto simp: post_in_def on_ledger_Inr dest: within.op_valid)
next
  case (3 s now inp p s' i)
  then show ?case by (auto simp: post_in_def on_ledger_Inr intro: within.op_moves)
next
  case (4 now inp s p s')
  then show ?case by (auto simp: post_in_def on_ledger_Inr dest: within.op_replays)
next
  case (5 s now inp p s' e)
  then show ?case by (auto simp: post_in_def on_ledger_Inr intro: within.op_accounts)
next
  case (6 s i a)
  then show ?case by (rule within.acct_id)
next
  case (7 s i a)
  then show ?case by (rule within.acct_ok)
qed

lemma post_in_frame: "post_in now inp s = Inr (p, s') \<Longrightarrow> only_ledger s s'"
  by (auto simp: post_in_def on_ledger_Inr)

text \<open>With an unused reference the posting is a first one, and its transaction is the newest row.\<close>

lemma post_in_new:
  assumes "ledger_ok s" and "txn_by_reference (ledger s) (pi_reference inp) = None"
    and "post_in now inp s = Inr (p, s')"
  shows "\<not> ps_replayed p" and "ledger_txns (ledger s') = ledger_txns (ledger s) @ [ps_txn p]"
    and "lt_reference (ps_txn p) = pi_reference inp"
proof -
  obtain l where l: "post_within now inp (ledger s) = Inr (p, l)" "s' = s\<lparr>ledger := l\<rparr>"
    using assms(3) by (auto simp: post_in_def on_ledger_Inr)
  from l(1) show new: "\<not> ps_replayed p"
  proof (cases rule: post_within_Inr)
    case replayed
    then show ?thesis using assms(2) by (auto dest: replay_Inr)
  qed simp
  from post_within_posted [OF assms(1) l(1) new] obtain amount where
    "p = posted_result now inp amount (ledger s)" "l = posted_state now inp amount (ledger s)" .
  then show "ledger_txns (ledger s') = ledger_txns (ledger s) @ [ps_txn p]"
    and "lt_reference (ps_txn p) = pi_reference inp"
    by (simp_all add: l(2) posted_state_def posted_result_def)
qed

lemma post_in_txn:
  assumes "ledger_ok s" and "post_in now inp s = Inr (p, s')"
  shows "ps_txn p \<in> set (ledger_txns (ledger s'))"
proof -
  obtain l where l: "post_within now inp (ledger s) = Inr (p, l)" "s' = s\<lparr>ledger := l\<rparr>"
    using assms(2) by (auto simp: post_in_def on_ledger_Inr)
  from l(1) show ?thesis
  proof (cases rule: post_within_Inr)
    case replayed
    then show ?thesis using l(2) by (auto dest!: replay_Inr row_by_Some)
  next
    case (posted amount)
    from post_within_posted [OF assms(1) l(1) posted(4)] obtain amount where
      "p = posted_result now inp amount (ledger s)" "l = posted_state now inp amount (ledger s)" .
    then show ?thesis by (simp add: l(2) posted_state_def posted_result_def)
  qed
qed

lemma post_in_extends:
  "ledger_ok s \<Longrightarrow> post_in now inp s = Inr (p, s') \<Longrightarrow> ledger_extends (ledger s) (ledger s')"
  by (auto simp: post_in_def on_ledger_Inr intro: post_within_extends)

lemma ensure_account_extends:
  "ensure_account sa s = Inr (a, s') \<Longrightarrow> ledger_extends (ledger s) (ledger s') \<and> ledger_txns (ledger s') = ledger_txns (ledger s)"
proof -
  assume "ensure_account sa s = Inr (a, s')"
  then obtain l where l: "ensure_system_account sa (ledger s) = Inr (a, l)" "s' = s\<lparr>ledger := l\<rparr>"
    by (auto simp: ensure_account_def on_ledger_Inr)
  from l(1) show ?thesis
    by (cases rule: ensure_system_account_cases) (simp_all add: l(2) add_account_extends, simp add: add_account_def)
qed

lemma ensure_account_frame: "ensure_account sa s = Inr (a, s') \<Longrightarrow> only_ledger s s'"
  by (auto simp: ensure_account_def on_ledger_Inr)

lemma ensure_account_ok: "ledger_ok s \<Longrightarrow> ensure_account sa s = Inr (a, s') \<Longrightarrow> ledger_ok s'"
  by (auto simp: ensure_account_def on_ledger_Inr intro: ensure_system_account_inv)

text \<open>Opening a system account leaves the accounts there are as they are.\<close>

lemma ensure_account_keeps:
  "ensure_account sa s = Inr (a, s') \<Longrightarrow> account_in s i = Some b \<Longrightarrow> account_in s' i = Some b"
  by (auto simp: ensure_account_def on_ledger_Inr add_account_def row_by_append elim!: ensure_system_account_cases)

text \<open>An account that is not there counts as empty, and a new one starts empty.\<close>

lemma ensure_account_position [simp]:
  assumes "ledger_ok s" and "ensure_account sa s = Inr (a, s')"
  shows "position s' i = position s i"
proof (cases "account_in s i")
  case (Some b)
  then show ?thesis using ensure_account_keeps [OF assms(2) Some] by (simp add: position_def position_in_def)
next
  case None
  obtain l where l: "ensure_system_account sa (ledger s) = Inr (a, l)" "s' = s\<lparr>ledger := l\<rparr>"
    using assms(2) by (auto simp: ensure_account_def on_ledger_Inr)
  from l(1) have "account_in s' i = None \<or> account_in s' i = Some a \<and> la_balance a = 0"
  proof (cases rule: ensure_system_account_cases)
    case 1
    then show ?thesis using None l by simp
  next
    case 2
    then show ?thesis using None l by (auto simp: add_account_def row_by_append row_by_Cons new_account_def)
  qed
  then show ?thesis using None by (auto simp: position_def position_in_def debit_position_def)
qed

lemma ensure_account_code: "ensure_account sa s = Inr (a, s') \<Longrightarrow> la_code a = Some (sa_code sa)"
  by (auto simp: ensure_account_def on_ledger_Inr new_account_def system_input_def
      elim!: ensure_system_account_cases dest: row_by_Some)

lemma ensure_account_there:
  assumes "ledger_ok s" and "ensure_account sa s = Inr (a, s')"
  shows "account_in s' (la_id a) = Some a"
proof -
  have "ledger_ok s'" by (rule ensure_account_ok [OF assms])
  moreover have "a \<in> set (accounts (ledger s'))"
    using assms(2) by (auto simp: ensure_account_def on_ledger_Inr add_account_def
        elim!: ensure_system_account_cases dest: row_by_Some)
  ultimately show ?thesis using row_by_distinct [OF ledger_inv_ids] by simp
qed

section \<open>Audit trail and outbox\<close>

text \<open>\<open>AuditService.record\<close> with the request's actor.\<close>

definition record_audit :: "request_context \<Rightarrow> int \<Rightarrow> string \<Rightarrow> string \<Rightarrow> uuid \<Rightarrow> uuid option \<Rightarrow> json_object \<Rightarrow> db \<Rightarrow> db" where
  "record_audit ctx now action target_type target_id org metadata s =
     s\<lparr>audit_logs := audit_logs s @
         [\<lparr>al_id = next_id s, al_actor = rc_actor ctx,
           al_organization_id = (case org of Some g \<Rightarrow> Some g
             | None \<Rightarrow> (case rc_actor ctx of Actor_Api_Key k g \<Rightarrow> Some g | _ \<Rightarrow> None)),
           al_action = action, al_target_type = target_type, al_target_id = target_id,
           al_metadata = metadata, al_request_id = rc_request_id ctx,
           al_ip_address = map_option (take 64) (rc_ip_address ctx), al_created_at = now\<rparr>],
       next_id := Suc (next_id s)\<rparr>"

definition add_event :: "int \<Rightarrow> string \<Rightarrow> string \<Rightarrow> uuid \<Rightarrow> json_object \<Rightarrow> db \<Rightarrow> db" where
  "add_event now ty aggregate_type aggregate_id payload s =
     s\<lparr>outbox := outbox s @
         [\<lparr>ev_id = next_id s, ev_type = ty, ev_aggregate_type = aggregate_type,
           ev_aggregate_id = aggregate_id, ev_payload = payload, ev_status = Outbox_Pending,
           ev_attempts = 0, ev_last_error = None, ev_available_at = now, ev_created_at = now,
           ev_published_at = None\<rparr>],
       next_id := Suc (next_id s)\<rparr>"

text \<open>Both append one row and use one id; every other table stays.\<close>

lemma record_audit_frame [simp]:
  "ledger (record_audit c n a ty i g m s) = ledger s" "users (record_audit c n a ty i g m s) = users s"
  "wallets (record_audit c n a ty i g m s) = wallets s" "fx_rates (record_audit c n a ty i g m s) = fx_rates s"
  "fx_quotes (record_audit c n a ty i g m s) = fx_quotes s" "fee_rules (record_audit c n a ty i g m s) = fee_rules s"
  "limit_rules (record_audit c n a ty i g m s) = limit_rules s"
  "transactions (record_audit c n a ty i g m s) = transactions s"
  "payments (record_audit c n a ty i g m s) = payments s" "refunds (record_audit c n a ty i g m s) = refunds s"
  "payouts (record_audit c n a ty i g m s) = payouts s"
  "payout_destinations (record_audit c n a ty i g m s) = payout_destinations s"
  "outbox (record_audit c n a ty i g m s) = outbox s"
  "next_id (record_audit c n a ty i g m s) = Suc (next_id s)"
  by (simp_all add: record_audit_def)

lemma add_event_frame [simp]:
  "ledger (add_event n ty a i p s) = ledger s" "users (add_event n ty a i p s) = users s"
  "wallets (add_event n ty a i p s) = wallets s" "fx_rates (add_event n ty a i p s) = fx_rates s"
  "fx_quotes (add_event n ty a i p s) = fx_quotes s" "fee_rules (add_event n ty a i p s) = fee_rules s"
  "limit_rules (add_event n ty a i p s) = limit_rules s" "transactions (add_event n ty a i p s) = transactions s"
  "payments (add_event n ty a i p s) = payments s" "refunds (add_event n ty a i p s) = refunds s"
  "payouts (add_event n ty a i p s) = payouts s"
  "payout_destinations (add_event n ty a i p s) = payout_destinations s"
  "audit_logs (add_event n ty a i p s) = audit_logs s"
  "next_id (add_event n ty a i p s) = Suc (next_id s)"
  by (simp_all add: add_event_def)

end
