(* ===== verification/Fx.thy ===== *)
theory Fx
  imports Entities Fx_Math
begin

text \<open>
  \<open>src/fx/fx.service.ts\<close> and \<open>admin-rate.provider.ts\<close>: exchange rates set by admins, quotes that
  lock a rate for a while, and conversions that execute a quote as two ledger postings. The
  theorems: a quote never credits more than the mid-rate value; a conversion moves exactly
  the quoted amounts between the four accounts and consumes its quote; a consumed quote is
  never converted again.
\<close>

section \<open>Rates\<close>

text \<open>What PostgreSQL returns for a \<open>numeric(24, 10)\<close> column: ten decimals.\<close>

definition numeric_text :: "int \<Rightarrow> string" where
  "numeric_text scaled =
     show_int (big_div scaled RATE_SCALE) @ ''.'' @ pad_start RATE_DECIMALS (CHR ''0'') (show_int (big_mod scaled RATE_SCALE))"

definition as_numeric :: "string \<Rightarrow> string" where
  "as_numeric s = (case parse_rate s of Inl e \<Rightarrow> s | Inr v \<Rightarrow> numeric_text v)"

record rate_snapshot =
  rs_rate_id :: uuid
  rs_base :: string
  rs_quote :: string
  rs_rate :: string
  rs_as_of :: int

definition rate_key :: "fx_rate \<Rightarrow> cursor" where
  "rate_key r = (xr_created_at r, xr_id r)"

text \<open>The newest rate of the pair, in either orientation.\<close>

definition get_rate :: "string \<Rightarrow> string \<Rightarrow> db \<Rightarrow> rate_snapshot option res" where
  "get_rate a b s =
     (case newest_first rate_key (filter (\<lambda>r. (xr_base r = a \<and> xr_quote r = b) \<or> (xr_base r = b \<and> xr_quote r = a)) (fx_rates s)) of
        [] \<Rightarrow> Inr None
      | r # rest \<Rightarrow> bind_res (parse_rate (xr_rate r)) (\<lambda>v.
          Inr (Some \<lparr>rs_rate_id = xr_id r, rs_base = xr_base r, rs_quote = xr_quote r,
                     rs_rate = format_rate v, rs_as_of = xr_created_at r\<rparr>)))"

definition set_rate :: "request_context \<Rightarrow> int \<Rightarrow> string \<Rightarrow> string \<Rightarrow> string \<Rightarrow> uuid option \<Rightarrow> db \<Rightarrow> (fx_rate \<times> db) res" where
  "set_rate ctx now base quote rate user s =
     bind_res (parse_rate rate) (\<lambda>v.
       if base = quote then Inl (Db_Err (Check_Violation ''chk_fx_rates_distinct_currencies''))
       else
         let r = \<lparr>xr_id = next_id s, xr_base = base, xr_quote = quote, xr_rate = format_rate v,
                  xr_source = ''admin'', xr_created_by = user, xr_created_at = now\<rparr>;
             s1 = s\<lparr>fx_rates := fx_rates s @ [r\<lparr>xr_rate := as_numeric (xr_rate r)\<rparr>], next_id := Suc (next_id s)\<rparr> in
         Inr (r, record_audit ctx now ''fx.rate_set'' ''fx_rate'' (xr_id r) None
                   [(''pair'', JStr (base @ ''/'' @ quote)), (''rate'', JStr (xr_rate r))] s1))"

text \<open>\<open>SELECT DISTINCT ON\<close> the unordered pair: the newest row of each.\<close>

definition same_pair :: "fx_rate \<Rightarrow> fx_rate \<Rightarrow> bool" where
  "same_pair r r' \<longleftrightarrow> (xr_base r = xr_base r' \<and> xr_quote r = xr_quote r') \<or> (xr_base r = xr_quote r' \<and> xr_quote r = xr_base r')"

fun first_of_pairs :: "fx_rate list \<Rightarrow> fx_rate list" where
  "first_of_pairs [] = []"
| "first_of_pairs (r # rs) = r # filter (\<lambda>r'. \<not> same_pair r r') (first_of_pairs rs)"

definition list_current :: "db \<Rightarrow> fx_rate list" where
  "list_current s = first_of_pairs (newest_first rate_key (fx_rates s))"

section \<open>Quotes\<close>

record fx_config =
  fx_spread_bps :: int
  fx_quote_ttl :: int
  fx_rate_max_age :: int

datatype quote_amount = Fixed_Source int | Fixed_Target int

record quote_input =
  qi_user :: "uuid option"
  qi_source :: string
  qi_target :: string
  qi_amount :: quote_amount

text \<open>The constraints of the \<open>fx_quotes\<close> table.\<close>

definition insert_quote :: "fx_quote \<Rightarrow> db \<Rightarrow> (fx_quote \<times> db) res" where
  "insert_quote q s =
     (if \<not> (in_int8 (q_source_amount q) \<and> in_int8 (q_target_amount q) \<and> in_int8 (q_gross_target q))
      then Inl (Db_Err Numeric_Out_Of_Range)
      else if q_source_currency q = q_target_currency q
      then Inl (Db_Err (Check_Violation ''chk_fx_quotes_distinct_currencies''))
      else if \<not> (0 < q_source_amount q \<and> 0 < q_target_amount q)
      then Inl (Db_Err (Check_Violation ''chk_fx_quotes_amounts_positive''))
      else if \<not> (0 \<le> q_spread_bps q \<and> q_spread_bps q < 10000)
      then Inl (Db_Err (Check_Violation ''chk_fx_quotes_spread''))
      else if \<not> q_target_amount q \<le> q_gross_target q
      then Inl (Db_Err (Check_Violation ''chk_fx_quotes_target_within_gross''))
      else Inr (q, s\<lparr>fx_quotes := fx_quotes s @ [q\<lparr>q_rate := as_numeric (q_rate q)\<rparr>], next_id := Suc (next_id s)\<rparr>))"

definition snapshot_rate :: "rate_snapshot \<Rightarrow> int \<Rightarrow> pair_rate" where
  "snapshot_rate snapshot scaled =
     \<lparr>rate_base = rs_base snapshot, rate_quote = rs_quote snapshot, rate_scaled = scaled\<rparr>"

definition quote_conversion :: "pair_rate \<Rightarrow> quote_input \<Rightarrow> int \<Rightarrow> conversion res" where
  "quote_conversion rate inp bps =
     (case qi_amount inp of
        Fixed_Source a \<Rightarrow> convert_from_source rate (qi_source inp) (qi_target inp) a bps
      | Fixed_Target a \<Rightarrow> convert_to_target rate (qi_source inp) (qi_target inp) a bps)"

definition new_quote :: "fx_config \<Rightarrow> int \<Rightarrow> quote_input \<Rightarrow> rate_snapshot \<Rightarrow> conversion \<Rightarrow> uuid \<Rightarrow> fx_quote" where
  "new_quote cfg now inp snapshot conv i =
     \<lparr>q_id = i, q_user_id = qi_user inp, q_rate_id = rs_rate_id snapshot,
      q_source_currency = qi_source inp, q_target_currency = qi_target inp,
      q_source_amount = cv_source conv, q_target_amount = cv_target conv,
      q_gross_target = cv_gross conv, q_spread_bps = fx_spread_bps cfg,
      q_rate_base = rs_base snapshot, q_rate_quote = rs_quote snapshot, q_rate = rs_rate snapshot,
      q_expires_at = now + fx_quote_ttl cfg, q_consumed_at = None,
      q_conversion_reference = None, q_source_txn = None, q_target_txn = None\<rparr>"

definition create_quote :: "fx_config \<Rightarrow> int \<Rightarrow> quote_input \<Rightarrow> db \<Rightarrow> (fx_quote \<times> db) res" where
  "create_quote cfg now inp s =
     (if qi_source inp = qi_target inp then Inl (Fx_Err Same_Currency_Conversion)
      else bind_res (get_rate (qi_source inp) (qi_target inp) s) (\<lambda>snap.
        bind_res (the_or snap (Fx_Err (Fx_Rate_Unavailable (qi_source inp) (qi_target inp)))) (\<lambda>snapshot.
        if now - rs_as_of snapshot > fx_rate_max_age cfg
        then Inl (Fx_Err (Fx_Rate_Stale (qi_source inp) (qi_target inp)))
        else bind_res (parse_rate (rs_rate snapshot)) (\<lambda>scaled.
          bind_res (quote_conversion (snapshot_rate snapshot scaled) inp (fx_spread_bps cfg)) (\<lambda>conv.
          if cv_target conv \<le> 0 then Inl (Fx_Err Conversion_Amount_Too_Small)
          else insert_quote (new_quote cfg now inp snapshot conv (next_id s)) s)))))"

definition get_quote_within :: "uuid \<Rightarrow> db \<Rightarrow> fx_quote res" where
  "get_quote_within i s = the_or (row_by q_id i (fx_quotes s)) (Fx_Err Fx_Quote_Not_Found)"

text \<open>The owner argument is \<open>undefined\<close> (\<open>None\<close>), \<open>null\<close> or a user.\<close>

definition get_quote :: "uuid \<Rightarrow> uuid option option \<Rightarrow> db \<Rightarrow> fx_quote res" where
  "get_quote i user s =
     bind_res (the_or (row_by q_id i (fx_quotes s)) (Fx_Err Fx_Quote_Not_Found)) (\<lambda>q.
       if user \<noteq> None \<and> user \<noteq> Some (q_user_id q) then Inl (Fx_Err Fx_Quote_Not_Found) else Inr q)"

section \<open>Conversion\<close>

record convert_input =
  ci_quote :: uuid
  ci_reference :: string
  ci_description :: string
  ci_source_debit :: uuid
  ci_target_credit :: uuid
  ci_user :: "uuid option option"

record conversion_result =
  cr_quote :: fx_quote
  cr_source_leg :: ledger_txn
  cr_target_leg :: ledger_txn
  cr_replayed :: bool

record fx_accounts =
  fa_source_position :: uuid
  fa_target_position :: uuid
  fa_target_revenue :: uuid

definition fx_system_accounts :: "string \<Rightarrow> string \<Rightarrow> db \<Rightarrow> (fx_accounts \<times> db) res" where
  "fx_system_accounts source target s =
     bind_res (ensure_account (fx_position source) s) (\<lambda>(sp, s1).
     bind_res (ensure_account (fx_position target) s1) (\<lambda>(tp, s2).
     bind_res (ensure_account (fx_revenue target) s2) (\<lambda>(tr, s3).
       Inr (\<lparr>fa_source_position = la_id sp, fa_target_position = la_id tp, fa_target_revenue = la_id tr\<rparr>, s3))))"

definition source_leg :: "convert_input \<Rightarrow> fx_quote \<Rightarrow> fx_accounts \<Rightarrow> posting_input" where
  "source_leg inp q accts =
     \<lparr>pi_reference = ci_reference inp @ '':fx-source'',
      pi_description = ci_description inp @ '' ('' @ q_source_currency q @ '' leg)'',
      pi_currency = q_source_currency q,
      pi_entries = [leg (ci_source_debit inp) Debit (q_source_amount q),
                    leg (fa_source_position accts) Credit (q_source_amount q)],
      pi_metadata = [(''fxQuoteId'', j_id (q_id q))], pi_reversal_of = None\<rparr>"

definition target_leg :: "convert_input \<Rightarrow> fx_quote \<Rightarrow> fx_accounts \<Rightarrow> posting_input" where
  "target_leg inp q accts =
     (let spread = q_gross_target q - q_target_amount q in
      \<lparr>pi_reference = ci_reference inp @ '':fx-target'',
       pi_description = ci_description inp @ '' ('' @ q_target_currency q @ '' leg)'',
       pi_currency = q_target_currency q,
       pi_entries =
         [leg (fa_target_position accts) Debit (q_gross_target q),
          leg (ci_target_credit inp) Credit (q_target_amount q)] @
         (if spread > 0 then [leg (fa_target_revenue accts) Credit spread] else []),
       pi_metadata = [(''fxQuoteId'', j_id (q_id q)), (''rate'', JStr (q_rate q)), (''spreadBps'', JNum (q_spread_bps q))],
       pi_reversal_of = None\<rparr>)"

definition replay_conversion :: "fx_quote \<Rightarrow> db \<Rightarrow> conversion_result res" where
  "replay_conversion q s =
     bind_res (bind_res (the_or (q_source_txn q) (Db_Err Entity_Not_Found)) (get_transaction_within (ledger s))) (\<lambda>src.
     bind_res (bind_res (the_or (q_target_txn q) (Db_Err Entity_Not_Found)) (get_transaction_within (ledger s))) (\<lambda>tgt.
       Inr \<lparr>cr_quote = q, cr_source_leg = src, cr_target_leg = tgt, cr_replayed = True\<rparr>))"

text \<open>\<open>UPDATE fx_quotes\<close> with the unique index on the conversion reference.\<close>

definition consume_quote :: "int \<Rightarrow> string \<Rightarrow> uuid \<Rightarrow> uuid \<Rightarrow> uuid \<Rightarrow> db \<Rightarrow> db res" where
  "consume_quote now reference src tgt i s =
     (if \<exists>q \<in> set (fx_quotes s). q_id q \<noteq> i \<and> q_conversion_reference q = Some reference
      then Inl (Db_Err (Unique_Violation ''uq_fx_quotes_conversion_reference''))
      else Inr (s\<lparr>fx_quotes := set_row q_id i (\<lambda>q. q\<lparr>q_consumed_at := Some now,
             q_conversion_reference := Some reference, q_source_txn := Some src, q_target_txn := Some tgt\<rparr>) (fx_quotes s)\<rparr>))"

definition convert_within :: "int \<Rightarrow> convert_input \<Rightarrow> (db \<Rightarrow> unit res) \<Rightarrow> db \<Rightarrow> (conversion_result \<times> db) res" where
  "convert_within now inp before s =
     bind_res (get_quote (ci_quote inp) (ci_user inp) s) (\<lambda>preview.
     bind_res (fx_system_accounts (q_source_currency preview) (q_target_currency preview) s) (\<lambda>(accts, s1).
     bind_res (before s1) (\<lambda>_.
     bind_res (the_or (row_by q_id (ci_quote inp) (fx_quotes s1)) (Db_Err Entity_Not_Found)) (\<lambda>q.
       if q_consumed_at q \<noteq> None
       then (if q_conversion_reference q = Some (ci_reference inp)
             then bind_res (replay_conversion q s1) (\<lambda>r. Inr (r, s1))
             else Inl (Fx_Err Fx_Quote_Already_Used))
       else if q_expires_at q \<le> now then Inl (Fx_Err Fx_Quote_Expired)
       else
         bind_res (post_in now (source_leg inp q accts) s1) (\<lambda>(src, s2).
         bind_res (post_in now (target_leg inp q accts) s2) (\<lambda>(tgt, s3).
         bind_res (consume_quote now (ci_reference inp) (lt_id (ps_txn src)) (lt_id (ps_txn tgt)) (q_id q) s3) (\<lambda>s4.
         bind_res (the_or (row_by q_id (q_id q) (fx_quotes s4)) (Db_Err Entity_Not_Found)) (\<lambda>q'.
           Inr (\<lparr>cr_quote = q', cr_source_leg = ps_txn src, cr_target_leg = ps_txn tgt, cr_replayed = False\<rparr>, s4)))))))))"

definition convert :: "int \<Rightarrow> convert_input \<Rightarrow> (db \<Rightarrow> unit res) \<Rightarrow> db \<Rightarrow> (conversion_result \<times> db) res" where
  "convert now inp before s = convert_within now inp before s"

section \<open>Quotes\<close>

lemma parse_rate_pos: "parse_rate v = Inr r \<Longrightarrow> 0 < r"
  by (auto simp: parse_rate_def Let_def split: option.splits if_splits)

lemma create_quote_Inr:
  assumes "create_quote cfg now inp s = Inr (q, s')"
  obtains snapshot scaled conv where "parse_rate (rs_rate snapshot) = Inr scaled"
    "now - rs_as_of snapshot \<le> fx_rate_max_age cfg"
    "quote_conversion (snapshot_rate snapshot scaled) inp (fx_spread_bps cfg) = Inr conv"
    "0 < cv_target conv" "insert_quote (new_quote cfg now inp snapshot conv (next_id s)) s = Inr (q, s')"
  using assms by (auto simp: create_quote_def bind_res_Inr_iff not_le not_less split: if_splits)

lemma insert_quote_Inr:
  "insert_quote q s = Inr (q', s') \<Longrightarrow> q' = q \<and> q_target_amount q \<le> q_gross_target q \<and>
     s' = s\<lparr>fx_quotes := fx_quotes s @ [q\<lparr>q_rate := as_numeric (q_rate q)\<rparr>], next_id := Suc (next_id s)\<rparr>"
  by (auto simp: insert_quote_def split: if_splits)

lemma quote_conversion_from:
  assumes "quote_conversion rate inp bps = Inr c" and "0 < rate_scaled rate"
  shows "convert_from_source rate (qi_source inp) (qi_target inp) (cv_source c) bps = Inr c"
proof (cases "qi_amount inp")
  case (Fixed_Source a)
  then have "convert_from_source rate (qi_source inp) (qi_target inp) a bps = Inr c"
    using assms(1) by (simp add: quote_conversion_def)
  with convert_from_source_Inr [OF this assms(2)] show ?thesis by metis
next
  case (Fixed_Target a)
  then have "convert_to_target rate (qi_source inp) (qi_target inp) a bps = Inr c"
    using assms(1) by (simp add: quote_conversion_def)
  from convert_to_target_Inr [OF this assms(2)] obtain k
    where k: "convert_from_source rate (qi_source inp) (qi_target inp) k bps = Inr c" by blast
  with convert_from_source_Inr [OF k assms(2)] show ?thesis by metis
qed

text \<open>
  A quote is exact: with the rate it records, its gross amount is the source amount at the
  mid rate and its target amount the net one, each rounded down, and the customer is credited
  something but never more than the mid-rate value.
\<close>

theorem quote_is_exact:
  assumes "create_quote cfg now inp s = Inr (q, s')"
  shows "\<exists>scaled n d. parse_rate (q_rate q) = Inr scaled \<and>
    factor \<lparr>rate_base = q_rate_base q, rate_quote = q_rate_quote q, rate_scaled = scaled\<rparr>
      (q_source_currency q) (q_target_currency q) = Inr (n, d) \<and>
    q_gross_target q = q_source_amount q * n div d \<and>
    q_target_amount q = q_source_amount q * n * (10000 - q_spread_bps q) div (d * 10000) \<and>
    0 < q_target_amount q \<and> q_target_amount q \<le> q_gross_target q \<and>
    q_spread_bps q = fx_spread_bps cfg \<and> q_expires_at q = now + fx_quote_ttl cfg"
proof -
  from create_quote_Inr [OF assms] obtain snapshot scaled conv where
    r: "parse_rate (rs_rate snapshot) = Inr scaled"
    and c: "quote_conversion (snapshot_rate snapshot scaled) inp (fx_spread_bps cfg) = Inr conv"
    and pos: "0 < cv_target conv" and ins: "insert_quote (new_quote cfg now inp snapshot conv (next_id s)) s = Inr (q, s')" .
  have q: "q = new_quote cfg now inp snapshot conv (next_id s)" and le: "q_target_amount q \<le> q_gross_target q"
    using insert_quote_Inr [OF ins] by auto
  have scaled: "0 < rate_scaled (snapshot_rate snapshot scaled)"
    using parse_rate_pos [OF r] by (simp add: snapshot_rate_def)
  from convert_from_source_Inr [OF quote_conversion_from [OF c scaled] scaled] obtain n d where
    "factor (snapshot_rate snapshot scaled) (qi_source inp) (qi_target inp) = Inr (n, d)"
    "cv_gross conv = cv_source conv * n div d"
    "cv_target conv = cv_source conv * n * (10000 - fx_spread_bps cfg) div (d * 10000)" .
  then show ?thesis using r pos le by (auto simp: q new_quote_def snapshot_rate_def)
qed

subsection \<open>An example\<close>

definition demo_usd_wallet :: ledger_account where
  "demo_usd_wallet = demo_wallet\<lparr>la_id := 2, la_currency := ''USD''\<rparr>"

definition demo_fx_ledger :: ledger_state where
  "demo_fx_ledger = demo_ledger\<lparr>accounts := [demo_clearing, demo_wallet, demo_usd_wallet], ledger_next_id := 3\<rparr>"

definition demo_fx_db :: db where
  "demo_fx_db = empty_db\<lparr>ledger := demo_fx_ledger, fx_rates := [\<lparr>xr_id = 0, xr_base = ''USD'', xr_quote = ''NGN'',
     xr_rate = ''100.0000000000'', xr_source = ''admin'', xr_created_by = None, xr_created_at = 1000\<rparr>], next_id := 1\<rparr>"

definition demo_fx_config :: fx_config where
  "demo_fx_config = \<lparr>fx_spread_bps = 150, fx_quote_ttl = 900000, fx_rate_max_age = 86400000\<rparr>"

definition demo_quote_input :: quote_input where
  "demo_quote_input = \<lparr>qi_user = Some 9, qi_source = ''NGN'', qi_target = ''USD'', qi_amount = Fixed_Source 20000\<rparr>"

definition demo_quote :: fx_quote where
  "demo_quote = (case create_quote demo_fx_config 2000 demo_quote_input demo_fx_db of Inr (q, s) \<Rightarrow> q)"

definition demo_quoted :: db where
  "demo_quoted = (case create_quote demo_fx_config 2000 demo_quote_input demo_fx_db of Inr (q, s) \<Rightarrow> s)"

lemma demo_quote_created: "create_quote demo_fx_config 2000 demo_quote_input demo_fx_db = Inr (demo_quote, demo_quoted)"
  by code_simp

theorem quote_is_exact_witness:
  "q_target_amount demo_quote = 197 \<and> q_target_amount demo_quote \<le> q_gross_target demo_quote"
proof -
  have "q_target_amount demo_quote = 197" by code_simp
  then show ?thesis using quote_is_exact [OF demo_quote_created] by auto
qed

section \<open>Conversions\<close>

lemma replay_conversion_replayed: "replay_conversion q s = Inr r \<Longrightarrow> cr_replayed r"
  by (auto simp: replay_conversion_def bind_res_Inr_iff)

definition consumed_by :: "int \<Rightarrow> string \<Rightarrow> uuid \<Rightarrow> uuid \<Rightarrow> fx_quote \<Rightarrow> fx_quote" where
  "consumed_by now reference src tgt q = q\<lparr>q_consumed_at := Some now,
     q_conversion_reference := Some reference, q_source_txn := Some src, q_target_txn := Some tgt\<rparr>"

lemma consume_quote_Inr:
  "consume_quote now reference src tgt i s = Inr s' \<Longrightarrow>
     s' = s\<lparr>fx_quotes := set_row q_id i (consumed_by now reference src tgt) (fx_quotes s)\<rparr>"
  unfolding consumed_by_def [abs_def] by (simp add: consume_quote_def split: if_splits)

lemma consumed_by_id [simp]: "q_id (consumed_by now reference src tgt q) = q_id q"
  by (simp add: consumed_by_def)

lemma fx_system_accounts_Inr:
  assumes "ledger_ok s" and "fx_system_accounts src tgt s = Inr (accts, s')"
  obtains "ledger_ok s'" "only_ledger s s'" "\<And>i. position s' i = position s i"
    "ledger_txns (ledger s') = ledger_txns (ledger s)" "ledger_extends (ledger s) (ledger s')"
    "\<And>i a. account_in s i = Some a \<Longrightarrow> account_in s' i = Some a"
proof -
  from assms(2) obtain sp s1 tp s2 tr where
    e: "ensure_account (fx_position src) s = Inr (sp, s1)" "ensure_account (fx_position tgt) s1 = Inr (tp, s2)"
      "ensure_account (fx_revenue tgt) s2 = Inr (tr, s')"
    by (auto simp: fx_system_accounts_def bind_res_Inr_iff)
  have ok1: "ledger_ok s1" by (rule ensure_account_ok [OF assms(1) e(1)])
  have ok2: "ledger_ok s2" by (rule ensure_account_ok [OF ok1 e(2)])
  have ok': "ledger_ok s'" by (rule ensure_account_ok [OF ok2 e(3)])
  have "position s' i = position s i" for i
    using ensure_account_position [OF assms(1) e(1)] ensure_account_position [OF ok1 e(2)]
      ensure_account_position [OF ok2 e(3)] by simp
  moreover have "only_ledger s s'"
    using e [THEN ensure_account_frame] by (blast intro: only_ledger_trans)
  moreover have "ledger_txns (ledger s') = ledger_txns (ledger s)" "ledger_extends (ledger s) (ledger s')"
    using e [THEN ensure_account_extends] ledger_extends_trans by auto
  moreover have "account_in s' i = Some a" if "account_in s i = Some a" for i a
    using that e [THEN ensure_account_keeps] by auto
  ultimately show ?thesis using that ok' by blast
qed

lemma fx_system_accounts_codes:
  assumes "ledger_ok s" and "fx_system_accounts src tgt s = Inr (accts, s')"
  shows "map_option la_code (account_in s' (fa_source_position accts)) = Some (Some (sa_code (fx_position src)))"
    and "map_option la_code (account_in s' (fa_target_position accts)) = Some (Some (sa_code (fx_position tgt)))"
    and "map_option la_code (account_in s' (fa_target_revenue accts)) = Some (Some (sa_code (fx_revenue tgt)))"
proof -
  from assms(2) obtain sp s1 tp s2 tr where
    e: "ensure_account (fx_position src) s = Inr (sp, s1)" "ensure_account (fx_position tgt) s1 = Inr (tp, s2)"
      "ensure_account (fx_revenue tgt) s2 = Inr (tr, s')"
    and a: "accts = \<lparr>fa_source_position = la_id sp, fa_target_position = la_id tp, fa_target_revenue = la_id tr\<rparr>"
    by (auto simp: fx_system_accounts_def bind_res_Inr_iff)
  have ok1: "ledger_ok s1" by (rule ensure_account_ok [OF assms(1) e(1)])
  have ok2: "ledger_ok s2" by (rule ensure_account_ok [OF ok1 e(2)])
  have "account_in s' (la_id sp) = Some sp" "account_in s' (la_id tp) = Some tp" "account_in s' (la_id tr) = Some tr"
    using ensure_account_there [OF assms(1) e(1)] ensure_account_there [OF ok1 e(2)]
      ensure_account_there [OF ok2 e(3)] ensure_account_keeps [OF e(2)] ensure_account_keeps [OF e(3)] by auto
  then show "map_option la_code (account_in s' (fa_source_position accts)) = Some (Some (sa_code (fx_position src)))"
    and "map_option la_code (account_in s' (fa_target_position accts)) = Some (Some (sa_code (fx_position tgt)))"
    and "map_option la_code (account_in s' (fa_target_revenue accts)) = Some (Some (sa_code (fx_revenue tgt)))"
    using e [THEN ensure_account_code] by (simp_all add: a)
qed

lemma convert_within_Inr:
  assumes "convert_within now inp before s = Inr (r, s')"
  obtains (replayed) accts s1 q where
      "fx_system_accounts (q_source_currency q) (q_target_currency q) s = Inr (accts, s1)" "s' = s1"
      "row_by q_id (ci_quote inp) (fx_quotes s) = Some q"
      "q_consumed_at q \<noteq> None" "q_conversion_reference q = Some (ci_reference inp)"
      "replay_conversion q s1 = Inr r"
  | (executed) accts s1 q src s2 tgt s3 q' where
      "fx_system_accounts (q_source_currency q) (q_target_currency q) s = Inr (accts, s1)"
      "row_by q_id (ci_quote inp) (fx_quotes s) = Some q"
      "q_consumed_at q = None" "now < q_expires_at q"
      "post_in now (source_leg inp q accts) s1 = Inr (src, s2)"
      "post_in now (target_leg inp q accts) s2 = Inr (tgt, s3)"
      "consume_quote now (ci_reference inp) (lt_id (ps_txn src)) (lt_id (ps_txn tgt)) (q_id q) s3 = Inr s'"
      "row_by q_id (q_id q) (fx_quotes s') = Some q'"
      "r = \<lparr>cr_quote = q', cr_source_leg = ps_txn src, cr_target_leg = ps_txn tgt, cr_replayed = False\<rparr>"
proof -
  from assms obtain q accts s1 where q: "row_by q_id (ci_quote inp) (fx_quotes s) = Some q"
    and a: "fx_system_accounts (q_source_currency q) (q_target_currency q) s = Inr (accts, s1)"
    by (auto simp: convert_within_def get_quote_def bind_res_Inr_iff split: if_splits)
  have "fx_quotes s1 = fx_quotes s"
    using a by (auto simp: fx_system_accounts_def bind_res_Inr_iff ensure_account_def on_ledger_Inr)
  then have row: "row_by q_id (ci_quote inp) (fx_quotes s1) = Some q" using q by simp
  have hook: "before s1 = Inr ()"
    using assms by (cases "before s1") (simp_all add: convert_within_def get_quote_def q a split: if_split_asm)
  from assms have body: "(if q_consumed_at q \<noteq> None
       then (if q_conversion_reference q = Some (ci_reference inp)
             then bind_res (replay_conversion q s1) (\<lambda>r. Inr (r, s1))
             else Inl (Fx_Err Fx_Quote_Already_Used))
       else if q_expires_at q \<le> now then Inl (Fx_Err Fx_Quote_Expired)
       else
         bind_res (post_in now (source_leg inp q accts) s1) (\<lambda>(src, s2).
         bind_res (post_in now (target_leg inp q accts) s2) (\<lambda>(tgt, s3).
         bind_res (consume_quote now (ci_reference inp) (lt_id (ps_txn src)) (lt_id (ps_txn tgt)) (q_id q) s3) (\<lambda>s4.
         bind_res (the_or (row_by q_id (q_id q) (fx_quotes s4)) (Db_Err Entity_Not_Found)) (\<lambda>q'.
           Inr (\<lparr>cr_quote = q', cr_source_leg = ps_txn src, cr_target_leg = ps_txn tgt, cr_replayed = False\<rparr>, s4)))))) = Inr (r, s')"
    by (simp add: convert_within_def get_quote_def q a row hook split: if_split_asm)
  then show ?thesis
  proof (cases "q_consumed_at q \<noteq> None")
    case True
    with body show ?thesis
      using replayed [OF a _ q True] by (auto simp: bind_res_Inr_iff split: if_splits)
  next
    case False
    with body show ?thesis
      using executed [OF a q] by (auto simp: bind_res_Inr_iff not_le split: if_splits)
  qed
qed

text \<open>What the steps of a first execution lead to.\<close>

lemma conversion_steps:
  assumes "ledger_ok s" and "fx_system_accounts a b s = Inr (accts, s1)" and "post_in now (source_leg inp q accts) s1 = Inr (src, s2)"
    and "post_in now (target_leg inp q accts) s2 = Inr (tgt, s3)" and "consume_quote now ref i j (q_id q) s3 = Inr s'"
  shows "ledger_ok s1" and "ledger_ok s2" and "ledger_ok s3" and "ledger s' = ledger s3"
    and "fx_quotes s' = set_row q_id (q_id q) (consumed_by now ref i j) (fx_quotes s)"
proof -
  show ok1: "ledger_ok s1" using fx_system_accounts_Inr [OF assms(1,2)] by blast
  show ok2: "ledger_ok s2" by (rule inside.op_good [OF ok1 assms(3)])
  show "ledger_ok s3" by (rule inside.op_good [OF ok2 assms(4)])
  have "only_ledger s s1" using fx_system_accounts_Inr [OF assms(1,2)] by blast
  then have "fx_quotes s3 = fx_quotes s"
    using only_ledger_tables(4) [of s s1] only_ledger_tables(4) [OF post_in_frame [OF assms(3)]]
      only_ledger_tables(4) [OF post_in_frame [OF assms(4)]] by simp
  then show "ledger s' = ledger s3" "fx_quotes s' = set_row q_id (q_id q) (consumed_by now ref i j) (fx_quotes s)"
    using consume_quote_Inr [OF assms(5)] by simp_all
qed

lemma conversion_positions:
  assumes "ledger_ok s1" and "post_in now (source_leg inp q accts) s1 = Inr (src, s2)" and "post_in now (target_leg inp q accts) s2 = Inr (tgt, s3)"
    and "txn_by_reference (ledger s1) (ci_reference inp @ '':fx-source'') = None"
    and "txn_by_reference (ledger s1) (ci_reference inp @ '':fx-target'') = None"
  shows "position s3 i = position s1 i +
       (if i = ci_source_debit inp then q_source_amount q else 0) -
       (if i = fa_source_position accts then q_source_amount q else 0) +
       (if i = fa_target_position accts then q_gross_target q else 0) -
       (if i = ci_target_credit inp then q_target_amount q else 0) -
       (if i = fa_target_revenue accts then q_gross_target q - q_target_amount q else 0)"
proof -
  have new1: "\<not> ps_replayed src" and txns2: "ledger_txns (ledger s2) = ledger_txns (ledger s1) @ [ps_txn src]"
    and ref: "lt_reference (ps_txn src) = ci_reference inp @ '':fx-source''"
    using post_in_new [OF assms(1) _ assms(2)] assms(4) by (auto simp: source_leg_def)
  have ok2: "ledger_ok s2" by (rule inside.op_good [OF assms(1,2)])
  have "txn_by_reference (ledger s2) (pi_reference (target_leg inp q accts)) = None"
    using assms(5) ref by (simp add: txns2 row_by_append row_by_Cons target_leg_def Let_def)
  then have new2: "\<not> ps_replayed tgt" by (rule post_in_new(1) [OF ok2 _ assms(3)])
  obtain amount where "validate_posting (target_leg inp q accts) = Inr amount"
    using inside.op_valid [OF assms(3)] by blast
  then have gross: "q_gross_target q = q_target_amount q \<or> q_target_amount q < q_gross_target q"
    by (auto simp: validate_posting_Inr target_leg_def Let_def split: if_splits)
  have "position s3 i = position s2 i + sum_list (map posting_value (filter (\<lambda>e. pe_account e = i) (pi_entries (target_leg inp q accts))))"
    unfolding position_def by (rule inside.position_moves [OF ok2 assms(3) new2])
  also have "position s2 i = position s1 i + sum_list (map posting_value (filter (\<lambda>e. pe_account e = i) (pi_entries (source_leg inp q accts))))"
    unfolding position_def by (rule inside.position_moves [OF assms(1,2) new1])
  finally show ?thesis using gross by (auto simp: source_leg_def target_leg_def Let_def posting_value_def)
qed

text \<open>
  C20. The first execution of a quote moves exactly what was quoted: the source amount enters
  the debited account and leaves the source position, the gross amount enters the target
  position, the customer is credited the target amount and the revenue account the spread; no
  other account moves. The quote was unexpired and is consumed in the same transaction.
\<close>

theorem conversion_moves_quoted_amounts:
  assumes "ledger_ok s" and "convert_within now inp before s = Inr (r, s')" and "\<not> cr_replayed r"
    and "txn_by_reference (ledger s) (ci_reference inp @ '':fx-source'') = None"
    and "txn_by_reference (ledger s) (ci_reference inp @ '':fx-target'') = None"
  shows "\<exists>q (accts :: fx_accounts). row_by q_id (ci_quote inp) (fx_quotes s) = Some q \<and> q_consumed_at q = None \<and> now < q_expires_at q \<and>
    map_option la_code (account_in s' (fa_source_position accts)) = Some (Some (sa_code (fx_position (q_source_currency q)))) \<and>
    map_option la_code (account_in s' (fa_target_position accts)) = Some (Some (sa_code (fx_position (q_target_currency q)))) \<and>
    map_option la_code (account_in s' (fa_target_revenue accts)) = Some (Some (sa_code (fx_revenue (q_target_currency q)))) \<and>
    (\<forall>i. position s' i = position s i +
       (if i = ci_source_debit inp then q_source_amount q else 0) -
       (if i = fa_source_position accts then q_source_amount q else 0) +
       (if i = fa_target_position accts then q_gross_target q else 0) -
       (if i = ci_target_credit inp then q_target_amount q else 0) -
       (if i = fa_target_revenue accts then q_gross_target q - q_target_amount q else 0)) \<and>
    row_by q_id (ci_quote inp) (fx_quotes s') = Some (q\<lparr>q_consumed_at := Some now,
      q_conversion_reference := Some (ci_reference inp), q_source_txn := Some (lt_id (cr_source_leg r)),
      q_target_txn := Some (lt_id (cr_target_leg r))\<rparr>) \<and> ledger_ok s'"
  using assms(2)
proof (cases rule: convert_within_Inr)
  case replayed
  then show ?thesis using assms(3) replay_conversion_replayed by blast
next
  case (executed accts s1 q src s2 tgt s3 q')
  note steps = conversion_steps [OF assms(1) executed(1,5,6,7)]
  from fx_system_accounts_Inr [OF assms(1) executed(1)]
  have pos1: "position s1 i = position s i" and txns1: "ledger_txns (ledger s1) = ledger_txns (ledger s)" for i by blast+
  have "position s' i = position s i +
       (if i = ci_source_debit inp then q_source_amount q else 0) -
       (if i = fa_source_position accts then q_source_amount q else 0) +
       (if i = fa_target_position accts then q_gross_target q else 0) -
       (if i = ci_target_credit inp then q_target_amount q else 0) -
       (if i = fa_target_revenue accts then q_gross_target q - q_target_amount q else 0)" for i
  proof -
    have "position s' i = position s3 i" by (simp add: position_def position_in_def steps(4))
    then show ?thesis using conversion_positions [OF steps(1) executed(5,6), of i] assms(4,5) by (simp add: txns1 pos1)
  qed
  moreover have qid: "q_id q = ci_quote inp" using row_by_Some [OF executed(2)] by simp
  moreover have codes: "map_option la_code (account_in s' i) = map_option la_code (account_in s1 i)" for i
    using inside.static [OF steps(1) executed(5), of la_code] inside.static [OF steps(2) executed(6), of la_code]
    by (simp add: steps(4))
  moreover have "row_by q_id (ci_quote inp) (fx_quotes s') = Some (q\<lparr>q_consumed_at := Some now,
      q_conversion_reference := Some (ci_reference inp), q_source_txn := Some (lt_id (cr_source_leg r)),
      q_target_txn := Some (lt_id (cr_target_leg r))\<rparr>)"
    using executed(2,9) by (simp add: steps(5) qid row_by_set_row consumed_by_def)
  moreover have "ledger_ok s'" using steps(3,4) by simp
  moreover have "map_option la_code (account_in s' (fa_source_position accts)) = Some (Some (sa_code (fx_position (q_source_currency q))))"
    "map_option la_code (account_in s' (fa_target_position accts)) = Some (Some (sa_code (fx_position (q_target_currency q))))"
    "map_option la_code (account_in s' (fa_target_revenue accts)) = Some (Some (sa_code (fx_revenue (q_target_currency q))))"
    by (simp_all only: codes fx_system_accounts_codes [OF assms(1) executed(1)])
  ultimately show ?thesis using executed(2-4) by blast
qed

lemma convert_within_ok:
  assumes "ledger_ok s" and "convert_within now inp before s = Inr (r, s')"
  shows "ledger_ok s'"
  using assms(2)
proof (cases rule: convert_within_Inr)
  case replayed
  then show ?thesis using fx_system_accounts_Inr [OF assms(1) replayed(1)] by blast
next
  case (executed accts s1 q src s2 tgt s3 q')
  have "ledger_ok s1" using fx_system_accounts_Inr [OF assms(1) executed(1)] by blast
  then have "ledger_ok s3" using inside.op_good executed(5,6) by blast
  then show ?thesis using consume_quote_Inr [OF executed(7)] by simp
qed

text \<open>
  C21. A quote is used once. After a conversion, in any later state that keeps the quote's row
  and the ledger's history, a conversion of the same quote succeeds only as a retry with the
  same reference; it returns the same two legs and moves nothing.
\<close>

theorem quote_used_once:
  assumes "ledger_ok s" and "convert_within now inp before s = Inr (r, s')" and "\<not> cr_replayed r"
    and "ledger_ok t" and "ledger_extends (ledger s') (ledger t)"
    and "row_by q_id (ci_quote inp) (fx_quotes t) = row_by q_id (ci_quote inp) (fx_quotes s')"
    and "convert_within now' inp' before' t = Inr (r', t')" and "ci_quote inp' = ci_quote inp"
  shows "ci_reference inp' = ci_reference inp \<and> cr_replayed r' \<and>
    cr_source_leg r' = cr_source_leg r \<and> cr_target_leg r' = cr_target_leg r \<and> (\<forall>i. position t' i = position t i)"
  using assms(2)
proof (cases rule: convert_within_Inr)
  case replayed
  then show ?thesis using assms(3) replay_conversion_replayed by blast
next
  case (executed accts s1 q src s2 tgt s3 q')
  note first = executed
  note steps = conversion_steps [OF assms(1) executed(1,5,6,7)]
  have qid: "q_id q = ci_quote inp" using row_by_Some [OF executed(2)] by simp
  have row: "row_by q_id (ci_quote inp) (fx_quotes t) =
      Some (consumed_by now (ci_reference inp) (lt_id (ps_txn src)) (lt_id (ps_txn tgt)) q)"
    using executed(2) unfolding assms(6) by (simp add: steps(5) row_by_set_row qid)
  have kept: "row_by lt_id (lt_id x) (ledger_txns l) = Some x"
    if "x \<in> set (ledger_txns (ledger s'))" "ledger_extends (ledger t) l" "ledger_inv l" for x l
  proof -
    have "x \<in> set (ledger_txns l)" using that(1,2) assms(5) by (auto simp: ledger_extends_def)
    then show ?thesis using row_by_distinct [of lt_id "ledger_txns l" x] that(3) by (simp add: ledger_inv_def txns_inv_def)
  qed
  have legs: "ps_txn src \<in> set (ledger_txns (ledger s'))" "ps_txn tgt \<in> set (ledger_txns (ledger s'))"
    using post_in_txn [OF steps(1) executed(5)] post_in_txn [OF steps(2) executed(6)] post_in_extends [OF steps(2) executed(6)] steps(4)
    by (auto simp: ledger_extends_def)
  from assms(7) show ?thesis
  proof (cases rule: convert_within_Inr)
    case (replayed accts' t1 q'')
    from fx_system_accounts_Inr [OF assms(4) replayed(1)] have ok: "ledger_ok t1"
      and ext: "ledger_extends (ledger t) (ledger t1)" and pos: "position t1 i = position t i" for i by blast+
    have q'': "q'' = consumed_by now (ci_reference inp) (lt_id (ps_txn src)) (lt_id (ps_txn tgt)) q"
      using replayed(3) row assms(8) by simp
    show ?thesis
      using replayed(2,5,6) kept [OF legs(1) ext ok] kept [OF legs(2) ext ok] pos first(9)
      by (auto simp: q'' consumed_by_def replay_conversion_def get_transaction_within_def)
  next
    case (executed accts' t1 q'' src' t2 tgt' t3 q3)
    then show ?thesis using row assms(8) by (auto simp: consumed_by_def)
  qed
qed

subsection \<open>An example\<close>

definition demo_convert :: convert_input where
  "demo_convert = \<lparr>ci_quote = 1, ci_reference = ''pay-1'', ci_description = ''Payment'', ci_source_debit = 0,
     ci_target_credit = 2, ci_user = None\<rparr>"

definition demo_converted :: db where
  "demo_converted = (case convert_within 3000 demo_convert (\<lambda>_. Inr ()) demo_quoted of Inr (r, s) \<Rightarrow> s)"

definition demo_conversion :: conversion_result where
  "demo_conversion = (case convert_within 3000 demo_convert (\<lambda>_. Inr ()) demo_quoted of Inr (r, s) \<Rightarrow> r)"

lemma demo_conversion_made:
  "convert_within 3000 demo_convert (\<lambda>_. Inr ()) demo_quoted = Inr (demo_conversion, demo_converted)"
  "\<not> cr_replayed demo_conversion"
proof -
  let ?c = "convert_within 3000 demo_convert (\<lambda>_. Inr ()) demo_quoted"
  have "case ?c of Inr (r, s) \<Rightarrow> \<not> cr_replayed r | Inl e \<Rightarrow> False" by code_simp
  then show "?c = Inr (demo_conversion, demo_converted)" and "\<not> cr_replayed demo_conversion"
    by (cases ?c; auto simp: demo_conversion_def demo_converted_def)+
qed

lemma demo_fx_ledger_ok: "ledger_ok demo_quoted"
proof -
  have "ledger demo_quoted = demo_fx_ledger" by code_simp
  then show ?thesis
    by (simp add: ledger_inv_def accounts_inv_def txns_inv_def entries_inv_def demo_fx_ledger_def demo_ledger_def
      demo_clearing_def demo_wallet_def demo_usd_wallet_def account_ok_def map_filter_simps)
qed

theorem conversion_moves_quoted_amounts_witness:
  "position demo_converted 0 = 20000 \<and> position demo_converted 2 = - 197 \<and> ledger_ok demo_converted"
proof -
  have "txn_by_reference (ledger demo_quoted) (ci_reference demo_convert @ '':fx-source'') = None"
    and "txn_by_reference (ledger demo_quoted) (ci_reference demo_convert @ '':fx-target'') = None" by code_simp+
  from conversion_moves_quoted_amounts [OF demo_fx_ledger_ok demo_conversion_made this]
  have "ledger_ok demo_converted" by (elim exE conjE)
  moreover have "position demo_converted 0 = 20000 \<and> position demo_converted 2 = - 197" by code_simp
  ultimately show ?thesis by blast
qed

theorem quote_used_once_witness:
  "\<exists>r' t'. convert_within 4000 demo_convert (\<lambda>_. Inr ()) demo_converted = Inr (r', t') \<and>
     cr_replayed r' \<and> cr_source_leg r' = cr_source_leg demo_conversion"
proof -
  have ok: "ledger_ok demo_converted"
    by (rule convert_within_ok [OF demo_fx_ledger_ok demo_conversion_made(1)])
  obtain r' t' where again: "convert_within 4000 demo_convert (\<lambda>_. Inr ()) demo_converted = Inr (r', t')"
  proof -
    have "\<not> isl (convert_within 4000 demo_convert (\<lambda>_. Inr ()) demo_converted)" by code_simp
    then show ?thesis using that by (cases "convert_within 4000 demo_convert (\<lambda>_. Inr ()) demo_converted") auto
  qed
  from quote_used_once [OF demo_fx_ledger_ok demo_conversion_made ok ledger_extends_refl refl again refl] again
  show ?thesis by blast
qed

end
