(* ===== verification/Transactions.thy ===== *)
theory Transactions
  imports Entities
begin

text \<open>
  \<open>src/transactions/transaction.types.ts\<close> and \<open>transactions.service.ts\<close>: the record of every
  money movement and its state machine, with the trigger and the constraints of the table.
  \<open>db_le\<close> is what every operation of the services keeps: the ledger stays good and only grows,
  and every transaction moves along the state machine with its amounts and owner unchanged.
\<close>

section \<open>The state machine\<close>

fun transitions_from :: "txn_status \<Rightarrow> txn_status list" where
  "transitions_from Pending = [Processing, Successful, Failed, Cancelled, Expired]"
| "transitions_from Processing = [Successful, Failed]"
| "transitions_from Successful = [Reversed]"
| "transitions_from Failed = []"
| "transitions_from Reversed = []"
| "transitions_from Cancelled = []"
| "transitions_from Expired = []"

definition can_transition :: "txn_status \<Rightarrow> txn_status \<Rightarrow> bool" where
  "can_transition from_status to_status = (to_status \<in> set (transitions_from from_status))"

definition is_terminal :: "txn_status \<Rightarrow> bool" where
  "is_terminal st = (transitions_from st = [])"

definition assert_transition :: "txn_status \<Rightarrow> txn_status \<Rightarrow> unit res" where
  "assert_transition from_status to_status =
     require (can_transition from_status to_status)
       (Transaction_Err (Invalid_Transaction_State (txn_status_str from_status) (txn_status_str to_status)))"

text \<open>\<open>transactions_check_status_transition\<close>, the trigger on updates of the status.\<close>

definition status_trigger :: "txn_status \<Rightarrow> txn_status \<Rightarrow> bool" where
  "status_trigger old new \<longleftrightarrow> new = old \<or>
     (old = Pending \<and> new \<in> {Processing, Successful, Failed, Cancelled, Expired}) \<or>
     (old = Processing \<and> new \<in> {Successful, Failed}) \<or>
     (old = Successful \<and> new = Reversed)"

section \<open>Creation\<close>

record new_transaction =
  nt_type :: txn_type
  nt_status :: txn_status
  nt_amount :: int
  nt_currency :: string
  nt_user_id :: "uuid option"
  nt_organization_id :: "uuid option"
  nt_counterparty :: "uuid option"
  nt_source_wallet :: "uuid option"
  nt_destination_wallet :: "uuid option"
  nt_provider_reference :: "string option"
  nt_idempotency_key :: "string option"
  nt_description :: "string option"
  nt_metadata :: json_object
  nt_fee_amount :: int
  nt_fee_currency :: "string option"
  nt_fee_rule :: "uuid option"

text \<open>The defaults \<open>create\<close> spreads the input over.\<close>

definition plain_transaction :: "txn_type \<Rightarrow> txn_status \<Rightarrow> int \<Rightarrow> string \<Rightarrow> uuid option \<times> uuid option \<Rightarrow> new_transaction" where
  "plain_transaction ty st amount currency own =
     \<lparr>nt_type = ty, nt_status = st, nt_amount = amount, nt_currency = currency,
      nt_user_id = fst own, nt_organization_id = snd own, nt_counterparty = None,
      nt_source_wallet = None, nt_destination_wallet = None, nt_provider_reference = None,
      nt_idempotency_key = None, nt_description = None, nt_metadata = [], nt_fee_amount = 0,
      nt_fee_currency = None, nt_fee_rule = None\<rparr>"

text \<open>\<open>trx_\<close> and twenty random hexadecimal digits; the random text is an argument.\<close>

definition generate_reference :: "string \<Rightarrow> string" where
  "generate_reference hex = ''trx_'' @ hex"

definition txn_of :: "string \<Rightarrow> int \<Rightarrow> new_transaction \<Rightarrow> uuid \<Rightarrow> txn" where
  "txn_of hex now inp i =
     \<lparr>t_id = i, t_reference = generate_reference hex, t_type = nt_type inp, t_status = nt_status inp,
      t_user_id = nt_user_id inp, t_organization_id = nt_organization_id inp,
      t_counterparty = nt_counterparty inp, t_source_wallet = nt_source_wallet inp,
      t_destination_wallet = nt_destination_wallet inp, t_amount = nt_amount inp,
      t_currency = nt_currency inp, t_fee_amount = nt_fee_amount inp,
      t_fee_currency = nt_fee_currency inp, t_fee_rule = nt_fee_rule inp, t_ledger_txn = None,
      t_provider_reference = nt_provider_reference inp, t_idempotency_key = nt_idempotency_key inp,
      t_description = nt_description inp, t_failure_code = None, t_failure_reason = None,
      t_metadata = nt_metadata inp, t_created_at = now, t_completed_at = None\<rparr>"

text \<open>The row constraints of the table.\<close>

definition txn_row_error :: "txn \<Rightarrow> db_error option" where
  "txn_row_error t =
     (if \<not> (in_int8 (t_amount t) \<and> in_int8 (t_fee_amount t)) then Some Numeric_Out_Of_Range
      else if t_amount t \<le> 0 then Some (Check_Violation ''chk_transactions_amount_positive'')
      else if \<not> (0 \<le> t_fee_amount t \<and> (t_fee_amount t = 0 \<or> t_fee_currency t \<noteq> None))
      then Some (Check_Violation ''chk_transactions_fee'')
      else if \<not> currency_format (t_currency t) then Some (Check_Violation ''chk_transactions_currency'')
      else if t_status t \<in> {Successful, Reversed} \<and> t_ledger_txn t = None
      then Some (Check_Violation ''chk_transactions_successful_has_ledger'')
      else if \<not> one_owner (t_user_id t) (t_organization_id t) then Some (Check_Violation ''chk_transactions_owner'')
      else None)"

definition txn_key_taken :: "txn \<Rightarrow> txn \<Rightarrow> string option" where
  "txn_key_taken t r =
     (if t_reference r = t_reference t then Some ''uq_transactions_reference''
      else if t_idempotency_key t \<noteq> None \<and> t_idempotency_key r = t_idempotency_key t \<and>
        t_user_id t \<noteq> None \<and> t_user_id r = t_user_id t then Some ''uq_transactions_user_idempotency_key''
      else if t_idempotency_key t \<noteq> None \<and> t_idempotency_key r = t_idempotency_key t \<and>
        t_organization_id t \<noteq> None \<and> t_organization_id r = t_organization_id t
      then Some ''uq_transactions_org_idempotency_key''
      else None)"

definition create_transaction :: "string \<Rightarrow> int \<Rightarrow> new_transaction \<Rightarrow> db \<Rightarrow> (txn \<times> db) res" where
  "create_transaction hex now inp s =
     (let t = txn_of hex now inp (next_id s) in
      case txn_row_error t of
        Some e \<Rightarrow> Inl (Db_Err e)
      | None \<Rightarrow>
          (case List.map_filter (txn_key_taken t) (transactions s) of
             c # cs \<Rightarrow> Inl (Db_Err (Unique_Violation c))
           | [] \<Rightarrow> Inr (t, s\<lparr>transactions := transactions s @ [t], next_id := Suc (next_id s)\<rparr>)))"

section \<open>Reading\<close>

definition get_transaction :: "uuid \<Rightarrow> db \<Rightarrow> txn res" where
  "get_transaction i s = the_or (row_by t_id i (transactions s)) (Transaction_Err Transaction_Not_Found)"

definition find_by_reference :: "string \<Rightarrow> db \<Rightarrow> txn option" where
  "find_by_reference r s = row_by t_reference r (transactions s)"

definition lock_transaction :: "uuid \<Rightarrow> db \<Rightarrow> txn res" where
  "lock_transaction i s = the_or (row_by t_id i (transactions s)) (Transaction_Err Transaction_Not_Found)"

record usage_total =
  ut_amount :: int
  ut_count :: nat

definition usage_within :: "owner \<Rightarrow> txn_type \<Rightarrow> string \<Rightarrow> int \<Rightarrow> db \<Rightarrow> usage_total" where
  "usage_within own ty currency since s =
     (let rows = filter (\<lambda>t. owner_where own (t_user_id t) (t_organization_id t) \<and> t_type t = ty \<and>
          t_currency t = currency \<and> since \<le> t_created_at t \<and> t_status t \<notin> {Failed, Cancelled, Expired}) (transactions s) in
      \<lparr>ut_amount = sum_list (map t_amount rows), ut_count = length rows\<rparr>)"

definition find_by_idempotency_key :: "owner \<Rightarrow> string \<Rightarrow> db \<Rightarrow> txn option" where
  "find_by_idempotency_key own key s =
     find (\<lambda>t. owner_where own (t_user_id t) (t_organization_id t) \<and> t_idempotency_key t = Some key) (transactions s)"

definition get_for_organization :: "uuid \<Rightarrow> uuid \<Rightarrow> db \<Rightarrow> txn res" where
  "get_for_organization org i s =
     the_or (find (\<lambda>t. t_id t = i \<and> t_organization_id t = Some org) (transactions s)) (Transaction_Err Transaction_Not_Found)"

definition visible_to :: "uuid \<Rightarrow> txn \<Rightarrow> bool" where
  "visible_to user t \<longleftrightarrow> t_user_id t = Some user \<or> t_counterparty t = Some user"

definition get_for_user :: "uuid \<Rightarrow> uuid \<Rightarrow> db \<Rightarrow> txn res" where
  "get_for_user user i s =
     the_or (find (\<lambda>t. t_id t = i \<and> visible_to user t) (transactions s)) (Transaction_Err Transaction_Not_Found)"

definition txn_cursor :: "txn \<Rightarrow> cursor" where
  "txn_cursor t = (t_created_at t, t_id t)"

definition list_for_organization :: "uuid \<Rightarrow> nat \<Rightarrow> cursor option \<Rightarrow> db \<Rightarrow> txn list \<times> cursor option" where
  "list_for_organization org limit before s =
     keyset_page txn_cursor limit before (filter (\<lambda>t. t_organization_id t = Some org) (transactions s))"

definition list_for_user :: "uuid \<Rightarrow> nat \<Rightarrow> cursor option \<Rightarrow> db \<Rightarrow> txn list \<times> cursor option" where
  "list_for_user user limit before s =
     keyset_page txn_cursor limit before (filter (visible_to user) (transactions s))"

definition status_in :: "uuid \<Rightarrow> txn_status list \<Rightarrow> db \<Rightarrow> bool" where
  "status_in i statuses s \<longleftrightarrow> (\<exists>t \<in> set (transactions s). t_id t = i \<and> t_status t \<in> set statuses)"

section \<open>Changing\<close>

text \<open>\<open>metadata || patch\<close>: the keys of the patch replace or extend the object's.\<close>

definition merge_json :: "json_object \<Rightarrow> json_object \<Rightarrow> json_object" where
  "merge_json old patch = fold (\<lambda>(k, v). AList.update k v) patch old"

definition merge_metadata :: "uuid \<Rightarrow> json_object \<Rightarrow> db \<Rightarrow> db" where
  "merge_metadata i patch s =
     s\<lparr>transactions := set_row t_id i (\<lambda>t. t\<lparr>t_metadata := merge_json (t_metadata t) patch\<rparr>) (transactions s)\<rparr>"

text \<open>\<open>None\<close> is a key the patch leaves out.\<close>

record transition_patch =
  tp_ledger_txn :: "uuid option"
  tp_provider_reference :: "string option option"
  tp_failure_code :: "string option"
  tp_failure_reason :: "string option"
  tp_completed_at :: "int option"

definition empty_patch :: transition_patch where
  "empty_patch = \<lparr>tp_ledger_txn = None, tp_provider_reference = None, tp_failure_code = None,
     tp_failure_reason = None, tp_completed_at = None\<rparr>"

definition or_else :: "'a option \<Rightarrow> 'a option \<Rightarrow> 'a option" where
  "or_else new old = (case new of None \<Rightarrow> old | Some v \<Rightarrow> Some v)"

definition apply_patch :: "transition_patch \<Rightarrow> txn_status \<Rightarrow> txn \<Rightarrow> txn" where
  "apply_patch p to_status t =
     t\<lparr>t_status := to_status, t_ledger_txn := or_else (tp_ledger_txn p) (t_ledger_txn t),
       t_provider_reference := (case tp_provider_reference p of None \<Rightarrow> t_provider_reference t | Some r \<Rightarrow> r),
       t_failure_code := or_else (tp_failure_code p) (t_failure_code t),
       t_failure_reason := or_else (tp_failure_reason p) (t_failure_reason t),
       t_completed_at := or_else (tp_completed_at p) (t_completed_at t)\<rparr>"

text \<open>\<open>UPDATE transactions\<close> with the trigger and the row constraints.\<close>

definition update_transaction :: "uuid \<Rightarrow> (txn \<Rightarrow> txn) \<Rightarrow> db \<Rightarrow> db res" where
  "update_transaction i f s =
     (case row_by t_id i (transactions s) of
        None \<Rightarrow> Inr s
      | Some t \<Rightarrow>
          if \<not> status_trigger (t_status t) (t_status (f t))
          then Inl (Db_Err (Check_Violation ''invalid transaction status transition''))
          else (case txn_row_error (f t) of
                  Some e \<Rightarrow> Inl (Db_Err e)
                | None \<Rightarrow> Inr (s\<lparr>transactions := set_row t_id i f (transactions s)\<rparr>)))"

definition transition :: "uuid \<Rightarrow> txn_status \<Rightarrow> transition_patch \<Rightarrow> db \<Rightarrow> (txn \<times> db) res" where
  "transition i to_status p s =
     bind_res (lock_transaction i s) (\<lambda>current.
     bind_res (assert_transition (t_status current) to_status) (\<lambda>_.
     bind_res (update_transaction i (apply_patch p to_status) s) (\<lambda>s'.
     bind_res (the_or (row_by t_id i (transactions s')) (Db_Err Entity_Not_Found)) (\<lambda>t.
       Inr (t, s')))))"

section \<open>The machine\<close>

lemma can_transition_irrefl: "\<not> can_transition st st"
  by (cases st) (simp_all add: can_transition_def)

lemma status_trigger_iff: "status_trigger old new \<longleftrightarrow> can_transition old new \<or> new = old"
  by (cases old; cases new) (simp_all add: status_trigger_def can_transition_def)

text \<open>
  Code and database agree on the state machine, for every pair of states: the trigger lets
  through exactly the transitions of the table, and updates that keep the status.
\<close>

theorem trigger_agrees_with_code:
  "status_trigger old new \<longleftrightarrow> can_transition old new \<or> new = old"
  by (rule status_trigger_iff)

lemma terminal_stuck: "is_terminal st \<Longrightarrow> \<not> can_transition st st'"
  by (simp add: is_terminal_def can_transition_def)

lemma terminal_iff: "is_terminal st \<longleftrightarrow> st \<in> {Failed, Reversed, Cancelled, Expired}"
  by (cases st) (simp_all add: is_terminal_def)

section \<open>What every operation keeps\<close>

text \<open>A transaction in a later state: the status moved along the machine, the rest of what it
  is about is unchanged.\<close>

definition txn_follows :: "txn \<Rightarrow> txn \<Rightarrow> bool" where
  "txn_follows t t' \<longleftrightarrow>
     can_transition\<^sup>*\<^sup>* (t_status t) (t_status t') \<and> t_id t' = t_id t \<and> t_reference t' = t_reference t \<and>
     t_type t' = t_type t \<and> t_amount t' = t_amount t \<and> t_currency t' = t_currency t \<and>
     t_user_id t' = t_user_id t \<and> t_organization_id t' = t_organization_id t \<and>
     t_fee_amount t' = t_fee_amount t \<and> t_fee_currency t' = t_fee_currency t \<and>
     t_source_wallet t' = t_source_wallet t \<and> t_destination_wallet t' = t_destination_wallet t \<and>
     t_idempotency_key t' = t_idempotency_key t \<and> t_created_at t' = t_created_at t"

lemma txn_follows_refl [simp]: "txn_follows t t"
  by (simp add: txn_follows_def)

lemma txn_follows_trans: "txn_follows a b \<Longrightarrow> txn_follows b c \<Longrightarrow> txn_follows a c"
  by (auto simp: txn_follows_def intro: rtranclp_trans)

definition txns_le :: "txn list \<Rightarrow> txn list \<Rightarrow> bool" where
  "txns_le ts ts' \<longleftrightarrow>
     (\<forall>i t. row_by t_id i ts = Some t \<longrightarrow> (\<exists>t'. row_by t_id i ts' = Some t' \<and> txn_follows t t'))"

text \<open>An account keeps all but its balance.\<close>

definition accounts_le :: "db \<Rightarrow> db \<Rightarrow> bool" where
  "accounts_le s s' \<longleftrightarrow>
     (\<forall>i a. account_in s i = Some a \<longrightarrow> (\<exists>b. account_in s' i = Some (a\<lparr>la_balance := b\<rparr>)))"

lemma accounts_le_refl [simp]: "accounts_le s s"
proof -
  have "a = a\<lparr>la_balance := la_balance a\<rparr>" for a :: ledger_account by simp
  then show ?thesis unfolding accounts_le_def by metis
qed

lemma accounts_le_trans: "accounts_le a b \<Longrightarrow> accounts_le b c \<Longrightarrow> accounts_le a c"
  unfolding accounts_le_def by fastforce

lemma accounts_le_same: "ledger s' = ledger s \<Longrightarrow> accounts_le s s'"
  by (metis accounts_le_def accounts_le_refl)

definition db_le :: "db \<Rightarrow> db \<Rightarrow> bool" where
  "db_le s s' \<longleftrightarrow>
     (ledger_ok s \<longrightarrow> ledger_ok s' \<and> ledger_extends (ledger s) (ledger s') \<and> accounts_le s s') \<and>
     txns_le (transactions s) (transactions s') \<and> next_id s \<le> next_id s'"

lemma txns_le_refl [simp]: "txns_le ts ts"
  by (simp add: txns_le_def)

lemma txns_le_trans: "txns_le a b \<Longrightarrow> txns_le b c \<Longrightarrow> txns_le a c"
  unfolding txns_le_def by (meson txn_follows_trans)

lemma db_le_refl [simp]: "db_le s s"
  by (simp add: db_le_def)

lemma db_le_trans [trans]: "db_le a b \<Longrightarrow> db_le b c \<Longrightarrow> db_le a c"
  unfolding db_le_def by (meson txns_le_trans ledger_extends_trans accounts_le_trans le_trans)

lemma db_leI: "ledger s' = ledger s \<Longrightarrow> transactions s' = transactions s \<Longrightarrow> next_id s \<le> next_id s' \<Longrightarrow> db_le s s'"
  by (simp add: db_le_def accounts_le_same)

lemma db_le_ok: "db_le s s' \<Longrightarrow> ledger_ok s \<Longrightarrow> ledger_ok s'"
  by (simp add: db_le_def)

lemma post_in_accounts:
  assumes "ledger_ok s" and "post_in now inp s = Inr (p, s')"
  shows "accounts_le s s'"
proof (cases "ps_replayed p")
  case True
  then show ?thesis using inside.op_replays [OF assms(2)] by simp
next
  case False
  then show ?thesis using inside.op_moves [OF assms] by (auto simp: accounts_le_def move_account_def)
qed

lemma post_in_le: "post_in now inp s = Inr (p, s') \<Longrightarrow> db_le s s'"
  using only_ledger_tables(7,14) [OF post_in_frame]
  by (auto simp: db_le_def intro: inside.op_good post_in_extends post_in_accounts)

lemma ensure_account_le: "ensure_account sa s = Inr (a, s') \<Longrightarrow> db_le s s'"
proof -
  assume e: "ensure_account sa s = Inr (a, s')"
  have "b = b\<lparr>la_balance := la_balance b\<rparr>" for b :: ledger_account by simp
  then have "accounts_le s s'" unfolding accounts_le_def using ensure_account_keeps [OF e] by metis
  then show ?thesis
    using only_ledger_tables(7,14) [OF ensure_account_frame [OF e]] e
    by (auto simp: db_le_def ensure_account_extends intro: ensure_account_ok)
qed

lemma record_audit_le [simp]: "db_le s (record_audit c n a ty i g m s)"
  by (rule db_leI) simp_all

lemma add_event_le [simp]: "db_le s (add_event n ty a i p s)"
  by (rule db_leI) simp_all

lemma txns_le_append: "txns_le ts (ts @ us)"
  by (simp add: txns_le_def row_by_append)

lemma txns_le_set_row:
  assumes "\<And>t. t \<in> set ts \<Longrightarrow> t_id t = i \<Longrightarrow> txn_follows t (f t)" and "\<And>t. t_id (f t) = t_id t"
  shows "txns_le ts (set_row t_id i f ts)"
  using assms by (auto simp: txns_le_def row_by_set_row dest: row_by_Some)

lemma create_transaction_Inr:
  assumes "create_transaction hex now inp s = Inr (t, s')"
  shows "t = txn_of hex now inp (next_id s)"
    and "s' = s\<lparr>transactions := transactions s @ [t], next_id := Suc (next_id s)\<rparr>"
    and "0 < nt_amount inp" and "nt_status inp \<notin> {Successful, Reversed}"
    and "one_owner (nt_user_id inp) (nt_organization_id inp)"
    and "\<And>k r. nt_idempotency_key inp = Some k \<Longrightarrow> r \<in> set (transactions s) \<Longrightarrow> t_idempotency_key r = Some k \<Longrightarrow>
      (nt_user_id inp \<noteq> None \<longrightarrow> t_user_id r \<noteq> nt_user_id inp) \<and>
      (nt_organization_id inp \<noteq> None \<longrightarrow> t_organization_id r \<noteq> nt_organization_id inp)"
proof -
  let ?t = "txn_of hex now inp (next_id s)"
  from assms have e: "txn_row_error ?t = None" and k: "List.map_filter (txn_key_taken ?t) (transactions s) = []"
    and r: "t = ?t" "s' = s\<lparr>transactions := transactions s @ [?t], next_id := Suc (next_id s)\<rparr>"
    by (auto simp: create_transaction_def Let_def split: option.splits list.splits)
  show "t = ?t" by (rule r)
  show "s' = s\<lparr>transactions := transactions s @ [t], next_id := Suc (next_id s)\<rparr>" using r by simp
  show "0 < nt_amount inp" "nt_status inp \<notin> {Successful, Reversed}" "one_owner (nt_user_id inp) (nt_organization_id inp)"
    using e by (auto simp: txn_row_error_def txn_of_def split: if_splits)
  fix key x assume *: "nt_idempotency_key inp = Some key" "x \<in> set (transactions s)" "t_idempotency_key x = Some key"
  have "txn_key_taken ?t x = None" using k *(2) by (simp add: map_filter_Nil_iff)
  with * show "(nt_user_id inp \<noteq> None \<longrightarrow> t_user_id x \<noteq> nt_user_id inp) \<and>
      (nt_organization_id inp \<noteq> None \<longrightarrow> t_organization_id x \<noteq> nt_organization_id inp)"
    by (auto simp: txn_key_taken_def txn_of_def split: if_splits)
qed

lemma create_transaction_le: "create_transaction hex now inp s = Inr (t, s') \<Longrightarrow> db_le s s'"
  by (auto simp: db_le_def accounts_le_same dest!: create_transaction_Inr(2) intro: txns_le_append)

lemma merge_metadata_le [simp]: "db_le s (merge_metadata i patch s)"
  by (auto simp: db_le_def accounts_le_same merge_metadata_def txn_follows_def intro!: txns_le_set_row)

lemma apply_patch_simps [simp]:
  "t_id (apply_patch p st t) = t_id t" "t_status (apply_patch p st t) = st" "t_amount (apply_patch p st t) = t_amount t"
  "t_currency (apply_patch p st t) = t_currency t" "t_type (apply_patch p st t) = t_type t"
  by (simp_all add: apply_patch_def)

lemma transition_Inr:
  assumes "transition i st p s = Inr (t', s')"
  obtains t where "row_by t_id i (transactions s) = Some t" "can_transition (t_status t) st"
    "t' = apply_patch p st t" "s' = s\<lparr>transactions := set_row t_id i (apply_patch p st) (transactions s)\<rparr>"
    "txn_row_error (apply_patch p st t) = None"
  using assms
  by (auto simp: transition_def lock_transaction_def assert_transition_def update_transaction_def
      bind_res_Inr_iff row_by_set_row split: option.splits if_splits)

lemma transition_le: "transition i st p s = Inr (t', s') \<Longrightarrow> db_le s s'"
proof (erule transition_Inr)
  fix t assume t: "row_by t_id i (transactions s) = Some t" "can_transition (t_status t) st"
    and s': "s' = s\<lparr>transactions := set_row t_id i (apply_patch p st) (transactions s)\<rparr>"
  have "txn_follows t (apply_patch p st t)"
    using t(2) by (auto simp: txn_follows_def apply_patch_def)
  then have "txns_le (transactions s) (transactions s')"
    using t(1) by (auto simp: txns_le_def s' row_by_set_row)
  then show "db_le s s'" by (simp add: db_le_def accounts_le_same s')
qed

text \<open>The database never rejects what the code's check let through, apart from a success
  without a ledger transaction.\<close>

lemma transition_no_trigger_error:
  "transition i st p s \<noteq> Inl (Db_Err (Check_Violation ''invalid transaction status transition''))"
proof -
  have "txn_row_error t \<noteq> Some (Check_Violation ''invalid transaction status transition'')" for t
    by (simp add: txn_row_error_def)
  then show ?thesis
    by (auto simp: transition_def lock_transaction_def assert_transition_def update_transaction_def bind_res_Inl_iff
        status_trigger_iff split: option.splits if_splits)
qed

section \<open>Lists\<close>

definition txns_distinct :: "db \<Rightarrow> bool" where
  "txns_distinct s \<longleftrightarrow> distinct (map t_id (transactions s)) \<and> (\<forall>t \<in> set (transactions s). t_id t < next_id s)"

lemma txn_cursor_distinct: "txns_distinct s \<Longrightarrow> distinct (map txn_cursor (filter p (transactions s)))"
proof -
  assume "txns_distinct s"
  then have "distinct (map t_id (filter p (transactions s)))" by (simp add: txns_distinct_def distinct_map_filter)
  then have "distinct (map (snd \<circ> txn_cursor) (filter p (transactions s)))" by (simp add: comp_def txn_cursor_def)
  then show ?thesis by (metis distinct_map map_map)
qed

interpretation user_list: keyset_list "\<lambda>limit before s. list_for_user user limit before s" txn_cursor
  "\<lambda>s. filter (visible_to user) (transactions s)" txns_distinct for user
  by unfold_locales (auto simp: list_for_user_def txn_cursor_distinct)

interpretation organization_list: keyset_list "\<lambda>limit before s. list_for_organization org limit before s" txn_cursor
  "\<lambda>s. filter (\<lambda>t. t_organization_id t = Some org) (transactions s)" txns_distinct for org
  by unfold_locales (auto simp: list_for_organization_def txn_cursor_distinct)

end
