(* ===== verification/Wallets.thy ===== *)
theory Wallets
  imports Transactions Fx
begin

text \<open>
  \<open>src/wallets/wallets.service.ts\<close>: wallets, each with three ledger accounts (available, pending,
  reserved), and every way money enters, leaves or moves between them. \<open>...Within\<close> operations
  run in the caller's database transaction, the others in their own with a lock on the
  wallets first.
\<close>

section \<open>Configuration and inputs\<close>

record wallets_config =
  wc_default_currency :: string
  wc_allowed_currencies :: "string list"
  wc_single :: bool

datatype balance_kind = Available | Pending_Balance | Reserved_Balance

text \<open>\<open>balanceAccount\<close>, and the choice \<open>collectFeeWithin\<close> makes.\<close>

fun balance_account :: "wallet \<Rightarrow> balance_kind \<Rightarrow> uuid" where
  "balance_account w Available = w_available w"
| "balance_account w Pending_Balance = w_pending w"
| "balance_account w Reserved_Balance = w_reserved w"

record wallet_balances =
  wb_available :: int
  wb_pending :: int
  wb_reserved :: int

record movement =
  mv_amount :: int
  mv_reference :: string
  mv_description :: string
  mv_metadata :: json_object

definition not_found :: app_error where
  "not_found = Wallet_Err (Wallet_Not_Found ''Wallet not found'')"

section \<open>Looking wallets up\<close>

definition get_wallet :: "uuid \<Rightarrow> db \<Rightarrow> wallet res" where
  "get_wallet i s = the_or (row_by w_id i (wallets s)) not_found"

definition owned_by :: "owner \<Rightarrow> wallet \<Rightarrow> bool" where
  "owned_by own w = owner_where own (w_user_id w) (w_organization_id w)"

definition find_owned :: "owner \<Rightarrow> uuid \<Rightarrow> db \<Rightarrow> wallet res" where
  "find_owned own i s = the_or (find (\<lambda>w. w_id w = i \<and> owned_by own w) (wallets s)) not_found"

definition find_wallet :: "owner \<Rightarrow> string \<Rightarrow> db \<Rightarrow> wallet option" where
  "find_wallet own currency s = find (\<lambda>w. owned_by own w \<and> w_currency w = currency) (wallets s)"

definition find_primary_wallet :: "owner \<Rightarrow> db \<Rightarrow> wallet option" where
  "find_primary_wallet own s = find (\<lambda>w. owned_by own w \<and> w_is_primary w) (wallets s)"

definition with_balances :: "wallet list \<Rightarrow> db \<Rightarrow> (wallet \<times> wallet_balances) list" where
  "with_balances ws s =
     (let accts = get_accounts (ledger s) (concat (map (\<lambda>w. [w_available w, w_pending w, w_reserved w]) ws));
          amount = (\<lambda>i. case row_by la_id i accts of None \<Rightarrow> 0 | Some a \<Rightarrow> la_balance a) in
      map (\<lambda>w. (w, \<lparr>wb_available = amount (w_available w), wb_pending = amount (w_pending w),
                     wb_reserved = amount (w_reserved w)\<rparr>)) ws)"

text \<open>Primary wallet first, then by age (a stable order among equals).\<close>

definition list_for :: "owner \<Rightarrow> db \<Rightarrow> (wallet \<times> wallet_balances) list" where
  "list_for own s =
     (let ws = sort_key w_created_at (filter (owned_by own) (wallets s)) in
      with_balances (filter w_is_primary ws @ filter (\<lambda>w. \<not> w_is_primary w) ws) s)"

definition with_balance :: "wallet \<Rightarrow> db \<Rightarrow> (wallet \<times> wallet_balances) res" where
  "with_balance w s = (case with_balances [w] s of [] \<Rightarrow> Inl not_found | r # rs \<Rightarrow> Inr r)"

definition get_primary :: "owner \<Rightarrow> db \<Rightarrow> (wallet \<times> wallet_balances) res" where
  "get_primary own s = bind_res (the_or (find_primary_wallet own s) not_found) (\<lambda>w. with_balance w s)"

definition get_owned :: "owner \<Rightarrow> uuid \<Rightarrow> db \<Rightarrow> (wallet \<times> wallet_balances) res" where
  "get_owned own i s = bind_res (find_owned own i s) (\<lambda>w. with_balance w s)"

definition get_with_balances :: "uuid \<Rightarrow> db \<Rightarrow> (wallet \<times> wallet_balances) res" where
  "get_with_balances i s = bind_res (get_wallet i s) (\<lambda>w. with_balance w s)"

definition list_entries :: "owner \<Rightarrow> uuid \<Rightarrow> nat \<Rightarrow> cursor option \<Rightarrow> db \<Rightarrow> (account_entry list \<times> cursor option) res" where
  "list_entries own i limit before s =
     bind_res (find_owned own i s) (\<lambda>w. Inr (list_account_entries (w_available w) limit before (ledger s)))"

record credit_target =
  ct_wallet :: wallet
  ct_requires_conversion :: bool

definition resolve_credit_target :: "owner \<Rightarrow> string \<Rightarrow> db \<Rightarrow> credit_target res" where
  "resolve_credit_target own currency s =
     (let ws = filter (owned_by own) (wallets s) in
      case find (\<lambda>w. w_currency w = currency) ws of
        Some w \<Rightarrow> Inr \<lparr>ct_wallet = w, ct_requires_conversion = False\<rparr>
      | None \<Rightarrow> bind_res (the_or (find w_is_primary ws) not_found)
          (\<lambda>w. Inr \<lparr>ct_wallet = w, ct_requires_conversion = True\<rparr>))"

definition lock_active_wallets :: "uuid list \<Rightarrow> db \<Rightarrow> unit res" where
  "lock_active_wallets ids s =
     require (list_all (\<lambda>w. w_id w \<in> set ids \<longrightarrow> w_status w = Wallet_Active) (wallets s)) (Wallet_Err Wallet_Not_Active)"

section \<open>Opening a wallet\<close>

definition wallet_key_taken :: "wallet \<Rightarrow> wallet \<Rightarrow> string option" where
  "wallet_key_taken w r =
     (if w_user_id w \<noteq> None \<and> w_user_id r = w_user_id w \<and> w_currency r = w_currency w
      then Some ''uq_wallets_user_currency''
      else if w_organization_id w \<noteq> None \<and> w_organization_id r = w_organization_id w \<and> w_currency r = w_currency w
      then Some ''uq_wallets_org_currency''
      else if w_is_primary w \<and> w_is_primary r \<and> w_user_id w \<noteq> None \<and> w_user_id r = w_user_id w
      then Some ''uq_wallets_user_primary''
      else if w_is_primary w \<and> w_is_primary r \<and> w_organization_id w \<noteq> None \<and> w_organization_id r = w_organization_id w
      then Some ''uq_wallets_org_primary''
      else None)"

definition insert_wallet_row :: "wallet \<Rightarrow> db \<Rightarrow> db res" where
  "insert_wallet_row w s =
     (if \<not> currency_format (w_currency w) then Inl (Db_Err (Check_Violation ''chk_wallets_currency''))
      else if \<not> one_owner (w_user_id w) (w_organization_id w) then Inl (Db_Err (Check_Violation ''chk_wallets_owner''))
      else (case List.map_filter (wallet_key_taken w) (wallets s) of
              c # cs \<Rightarrow> Inl (Db_Err (Unique_Violation c))
            | [] \<Rightarrow> Inr (s\<lparr>wallets := wallets s @ [w], next_id := Suc (next_id s)\<rparr>)))"

definition wallet_account :: "string \<Rightarrow> string \<Rightarrow> account_input" where
  "wallet_account purpose currency =
     \<lparr>ai_code = None, ai_name = ''Wallet '' @ purpose @ '' ('' @ currency @ '')'', ai_type = Liability,
      ai_currency = currency, ai_allow_negative = False\<rparr>"

definition open_account :: "account_input \<Rightarrow> db \<Rightarrow> (ledger_account \<times> db) res" where
  "open_account inp s = on_ledger (create_account inp) s"

text \<open>
  \<open>insertWallet\<close>; \<open>primary\<close> is \<open>None\<close> for \<open>'if-first'\<close>. The check whether a primary wallet
  exists may run before a concurrent creation commits: \<open>seen\<close> is the state it reads.
\<close>

definition insert_wallet :: "db \<Rightarrow> request_context \<Rightarrow> int \<Rightarrow> owner \<Rightarrow> string \<Rightarrow> bool option \<Rightarrow> db \<Rightarrow> (wallet \<times> db) res" where
  "insert_wallet seen ctx now own currency primary s =
     (let is_primary = (case primary of Some b \<Rightarrow> b
            | None \<Rightarrow> \<not> list_ex (\<lambda>w. owned_by own w \<and> w_is_primary w) (wallets seen)) in
      bind_res (open_account (wallet_account ''available'' currency) s) (\<lambda>(a, s1).
      bind_res (open_account (wallet_account ''pending'' currency) s1) (\<lambda>(p, s2).
      bind_res (open_account (wallet_account ''reserved'' currency) s2) (\<lambda>(r, s3).
      let w = \<lparr>w_id = next_id s3, w_user_id = fst (owner_columns own), w_organization_id = snd (owner_columns own),
               w_currency = currency, w_status = Wallet_Active, w_is_primary = is_primary,
               w_available = la_id a, w_pending = la_id p, w_reserved = la_id r, w_created_at = now\<rparr> in
      bind_res (insert_wallet_row w s3) (\<lambda>s4.
        Inr (w, record_audit ctx now ''wallet.created'' ''wallet'' (w_id w) (w_organization_id w)
                  [(''currency'', JStr currency), (''isPrimary'', JBool is_primary)] s4))))))"

definition CURRENCY_CONSTRAINTS :: "string list" where
  "CURRENCY_CONSTRAINTS = [''uq_wallets_user_currency'', ''uq_wallets_org_currency'']"

definition PRIMARY_CONSTRAINTS :: "string list" where
  "PRIMARY_CONSTRAINTS = [''uq_wallets_user_primary'', ''uq_wallets_org_primary'']"

definition already_exists :: "bool \<Rightarrow> string \<Rightarrow> app_error" where
  "already_exists single currency =
     Wallet_Err (Wallet_Already_Exists (if single then ''This user already has a wallet'' else ''A '' @ currency @ '' wallet already exists''))"

definition create_wallet :: "wallets_config \<Rightarrow> db \<Rightarrow> request_context \<Rightarrow> int \<Rightarrow> owner \<Rightarrow> string \<Rightarrow> db \<Rightarrow> (wallet \<times> db) res" where
  "create_wallet cfg seen ctx now own currency s =
     (if currency \<notin> set (wc_allowed_currencies cfg)
      then Inl (Wallet_Err (Wallet_Currency_Not_Allowed (wc_allowed_currencies cfg)))
      else
        (case insert_wallet seen ctx now own currency (if wc_single cfg then Some True else None) s of
           Inr r \<Rightarrow> Inr r
         | Inl e \<Rightarrow>
             if is_unique_violation e CURRENCY_CONSTRAINTS then Inl (already_exists (wc_single cfg) currency)
             else if is_unique_violation e PRIMARY_CONSTRAINTS
             then (if wc_single cfg then Inl (already_exists (wc_single cfg) currency)
                   else (case insert_wallet seen ctx now own currency (Some False) s of
                           Inr r \<Rightarrow> Inr r
                         | Inl e' \<Rightarrow> if is_unique_violation e' CURRENCY_CONSTRAINTS
                                   then Inl (already_exists (wc_single cfg) currency) else Inl e'))
             else Inl e))"

definition set_primary :: "request_context \<Rightarrow> int \<Rightarrow> owner \<Rightarrow> uuid \<Rightarrow> db \<Rightarrow> ((wallet \<times> wallet_balances) \<times> db) res" where
  "set_primary ctx now own i s =
     (let mine = filter (owned_by own) (wallets s) in
      bind_res (the_or (row_by w_id i mine) not_found) (\<lambda>target.
      bind_res (if w_is_primary target then Inr s
                else if w_status target \<noteq> Wallet_Active then Inl (Wallet_Err Wallet_Not_Active)
                else
                  let cleared = map (\<lambda>w. if owned_by own w \<and> w_is_primary w then w\<lparr>w_is_primary := False\<rparr> else w) (wallets s);
                      s1 = s\<lparr>wallets := set_row w_id i (\<lambda>w. w\<lparr>w_is_primary := True\<rparr>) cleared\<rparr> in
                  Inr (record_audit ctx now ''wallet.primary_changed'' ''wallet'' i (w_organization_id target)
                    [(''previousPrimaryWalletId'', j_opt (\<lambda>w. j_id (w_id w)) (find w_is_primary mine))] s1)) (\<lambda>s'.
      bind_res (get_owned own i s') (\<lambda>r. Inr (r, s')))))"

definition set_status :: "uuid \<Rightarrow> wallet_status \<Rightarrow> db \<Rightarrow> db" where
  "set_status i st s = s\<lparr>wallets := set_row w_id i (\<lambda>w. w\<lparr>w_status := st\<rparr>) (wallets s)\<rparr>"

section \<open>Postings of wallets\<close>

definition wallet_posting :: "uuid list \<Rightarrow> string \<Rightarrow> movement \<Rightarrow> posting_entry list \<Rightarrow> posting_input" where
  "wallet_posting ids currency m es =
     \<lparr>pi_reference = mv_reference m, pi_description = mv_description m, pi_currency = currency,
      pi_entries = es, pi_metadata = merge_json (mv_metadata m) [(''walletIds'', JArr (map j_id ids))],
      pi_reversal_of = None\<rparr>"

text \<open>The private \<open>post\<close>: its own database transaction, wallets locked first.\<close>

definition post_wallets :: "int \<Rightarrow> uuid list \<Rightarrow> string \<Rightarrow> movement \<Rightarrow> posting_entry list \<Rightarrow> db \<Rightarrow> (posted \<times> db) res" where
  "post_wallets now ids currency m es s =
     on_ledger (post now (wallet_posting ids currency m es) (lock_active_wallets ids s)) s"

definition clearing_account :: "string \<Rightarrow> db \<Rightarrow> (ledger_account \<times> db) res" where
  "clearing_account currency s = ensure_account (external_clearing currency) s"

definition move_legs :: "uuid \<Rightarrow> uuid \<Rightarrow> int \<Rightarrow> posting_entry list" where
  "move_legs i j x = [leg i Debit x, leg j Credit x]"

definition deposit :: "int \<Rightarrow> uuid \<Rightarrow> movement \<Rightarrow> db \<Rightarrow> (posted \<times> db) res" where
  "deposit now i m s =
     bind_res (get_wallet i s) (\<lambda>w.
     bind_res (clearing_account (w_currency w) s) (\<lambda>(c, s1).
       post_wallets now [i] (w_currency w) m (move_legs (la_id c) (w_available w) (mv_amount m)) s1))"

definition withdraw :: "int \<Rightarrow> uuid \<Rightarrow> movement \<Rightarrow> db \<Rightarrow> (posted \<times> db) res" where
  "withdraw now i m s =
     bind_res (get_wallet i s) (\<lambda>w.
     bind_res (clearing_account (w_currency w) s) (\<lambda>(c, s1).
       post_wallets now [i] (w_currency w) m (move_legs (w_available w) (la_id c) (mv_amount m)) s1))"

definition wallet_transfer :: "int \<Rightarrow> uuid \<Rightarrow> uuid \<Rightarrow> movement \<Rightarrow> db \<Rightarrow> (posted \<times> db) res" where
  "wallet_transfer now i j m s =
     bind_res (get_wallet i s) (\<lambda>from.
     bind_res (get_wallet j s) (\<lambda>to.
       if w_currency from \<noteq> w_currency to
       then Inl (Ledger_Err (Currency_Mismatch ''Both wallets must use the same currency''))
       else post_wallets now [i, j] (w_currency from) m (move_legs (w_available from) (w_available to) (mv_amount m)) s))"

definition reserve :: "int \<Rightarrow> uuid \<Rightarrow> movement \<Rightarrow> db \<Rightarrow> (posted \<times> db) res" where
  "reserve now i m s =
     bind_res (get_wallet i s) (\<lambda>w.
       post_wallets now [i] (w_currency w) m (move_legs (w_available w) (w_reserved w) (mv_amount m)) s)"

definition release :: "int \<Rightarrow> uuid \<Rightarrow> movement \<Rightarrow> db \<Rightarrow> (posted \<times> db) res" where
  "release now i m s =
     bind_res (get_wallet i s) (\<lambda>w.
       post_wallets now [i] (w_currency w) m (move_legs (w_reserved w) (w_available w) (mv_amount m)) s)"

section \<open>Inside the caller's transaction\<close>

definition deposit_within :: "int \<Rightarrow> uuid \<Rightarrow> movement \<Rightarrow> balance_kind \<Rightarrow> db \<Rightarrow> (posted \<times> db) res" where
  "deposit_within now i m into s =
     bind_res (get_wallet i s) (\<lambda>w.
     bind_res (clearing_account (w_currency w) s) (\<lambda>(c, s1).
     bind_res (lock_active_wallets [i] s1) (\<lambda>_.
       post_in now (wallet_posting [i] (w_currency w) m (move_legs (la_id c) (balance_account w into) (mv_amount m))) s1)))"

definition transfer_within :: "int \<Rightarrow> wallet \<Rightarrow> wallet \<Rightarrow> movement \<Rightarrow> db \<Rightarrow> (posted \<times> db) res" where
  "transfer_within now from to m s =
     (if w_currency from \<noteq> w_currency to
      then Inl (Ledger_Err (Currency_Mismatch ''Both wallets must use the same currency''))
      else bind_res (lock_active_wallets [w_id from, w_id to] s) (\<lambda>_.
        post_in now (wallet_posting [w_id from, w_id to] (w_currency from) m
          (move_legs (w_available from) (w_available to) (mv_amount m))) s))"

definition reserve_within :: "int \<Rightarrow> uuid \<Rightarrow> movement \<Rightarrow> db \<Rightarrow> (posted \<times> db) res" where
  "reserve_within now i m s =
     bind_res (lock_active_wallets [i] s) (\<lambda>_.
     bind_res (get_wallet i s) (\<lambda>w.
       post_in now (wallet_posting [i] (w_currency w) m (move_legs (w_available w) (w_reserved w) (mv_amount m))) s))"

definition release_within :: "int \<Rightarrow> uuid \<Rightarrow> movement \<Rightarrow> db \<Rightarrow> (posted \<times> db) res" where
  "release_within now i m s =
     bind_res (get_wallet i s) (\<lambda>w.
       post_in now (wallet_posting [i] (w_currency w) m (move_legs (w_reserved w) (w_available w) (mv_amount m))) s)"

definition make_available_within :: "int \<Rightarrow> uuid \<Rightarrow> movement \<Rightarrow> db \<Rightarrow> (posted \<times> db) res" where
  "make_available_within now i m s =
     bind_res (get_wallet i s) (\<lambda>w.
       post_in now (wallet_posting [i] (w_currency w) m (move_legs (w_pending w) (w_available w) (mv_amount m))) s)"

text \<open>Between pending and available on one side and reserved on the other.\<close>

definition split_entries :: "wallet \<Rightarrow> int \<Rightarrow> int \<Rightarrow> direction \<Rightarrow> posting_entry list" where
  "split_entries w amount from_pending side =
     (let from_available = amount - from_pending in
      (if 0 < from_pending then [leg (w_pending w) side from_pending] else []) @
      (if 0 < from_available then [leg (w_available w) side from_available] else []) @
      [leg (w_reserved w) (if side = Debit then Credit else Debit) amount])"

definition reserve_split_within :: "int \<Rightarrow> uuid \<Rightarrow> movement \<Rightarrow> int \<Rightarrow> db \<Rightarrow> (posted \<times> db) res" where
  "reserve_split_within now i m from_pending s =
     bind_res (lock_active_wallets [i] s) (\<lambda>_.
     bind_res (get_wallet i s) (\<lambda>w.
       post_in now (wallet_posting [i] (w_currency w) m (split_entries w (mv_amount m) from_pending Debit)) s))"

definition release_split_within :: "int \<Rightarrow> uuid \<Rightarrow> movement \<Rightarrow> int \<Rightarrow> db \<Rightarrow> (posted \<times> db) res" where
  "release_split_within now i m from_pending s =
     bind_res (get_wallet i s) (\<lambda>w.
       post_in now (wallet_posting [i] (w_currency w) m (split_entries w (mv_amount m) from_pending Credit)) s)"

definition collect_fee_within :: "int \<Rightarrow> uuid \<Rightarrow> balance_kind \<Rightarrow> movement \<Rightarrow> db \<Rightarrow> (posted \<times> db) res" where
  "collect_fee_within now i from m s =
     bind_res (get_wallet i s) (\<lambda>w.
     bind_res (ensure_account (fee_revenue (w_currency w)) s) (\<lambda>(rev, s1).
       post_in now (wallet_posting [i] (w_currency w) m (move_legs (balance_account w from) (la_id rev) (mv_amount m))) s1))"

definition refund_fee_within :: "int \<Rightarrow> uuid \<Rightarrow> movement \<Rightarrow> db \<Rightarrow> (posted \<times> db) res" where
  "refund_fee_within now i m s =
     bind_res (get_wallet i s) (\<lambda>w.
     bind_res (ensure_account (fee_revenue (w_currency w)) s) (\<lambda>(rev, s1).
       post_in now (wallet_posting [i] (w_currency w) m (move_legs (la_id rev) (w_available w) (mv_amount m))) s1))"

section \<open>Conversions into and between wallets\<close>

record conversion_request =
  cq_quote :: uuid
  cq_reference :: string
  cq_description :: string

definition prepare_conversion_deposit :: "uuid \<Rightarrow> uuid \<Rightarrow> db \<Rightarrow> ((wallet \<times> ledger_account) \<times> db) res" where
  "prepare_conversion_deposit i quote s =
     bind_res (get_wallet i s) (\<lambda>w.
     bind_res (get_quote quote None s) (\<lambda>q.
       if q_target_currency q \<noteq> w_currency w
       then Inl (Ledger_Err (Currency_Mismatch (''The quote converts into '' @ q_target_currency q @
              '', but the wallet holds '' @ w_currency w)))
       else bind_res (clearing_account (q_source_currency q) s) (\<lambda>(c, s1). Inr ((w, c), s1))))"

definition deposit_with_conversion_within :: "int \<Rightarrow> uuid \<Rightarrow> conversion_request \<Rightarrow> balance_kind \<Rightarrow> db \<Rightarrow> (conversion_result \<times> db) res" where
  "deposit_with_conversion_within now i req into s =
     bind_res (prepare_conversion_deposit i (cq_quote req) s) (\<lambda>((w, c), s1).
       convert_within now
         \<lparr>ci_quote = cq_quote req, ci_reference = cq_reference req, ci_description = cq_description req,
          ci_source_debit = la_id c, ci_target_credit = balance_account w into, ci_user = None\<rparr>
         (lock_active_wallets [i]) s1)"

definition deposit_with_conversion :: "int \<Rightarrow> uuid \<Rightarrow> conversion_request \<Rightarrow> db \<Rightarrow> (conversion_result \<times> db) res" where
  "deposit_with_conversion now i req s =
     bind_res (prepare_conversion_deposit i (cq_quote req) s) (\<lambda>((w, c), s1).
       convert now
         \<lparr>ci_quote = cq_quote req, ci_reference = cq_reference req, ci_description = cq_description req,
          ci_source_debit = la_id c, ci_target_credit = w_available w, ci_user = None\<rparr>
         (lock_active_wallets [i]) s1)"

definition convert_between_wallets :: "int \<Rightarrow> owner \<Rightarrow> uuid \<Rightarrow> uuid \<Rightarrow> conversion_request \<Rightarrow> db \<Rightarrow> (conversion_result \<times> db) res" where
  "convert_between_wallets now own i j req s =
     bind_res (find_owned own i s) (\<lambda>from.
     bind_res (find_owned own j s) (\<lambda>to.
     bind_res (get_quote (cq_quote req) (Some (owner_user_id own)) s) (\<lambda>q.
       if q_source_currency q \<noteq> w_currency from \<or> q_target_currency q \<noteq> w_currency to
       then Inl (Ledger_Err (Currency_Mismatch (''The quote converts '' @ q_source_currency q @ '' to '' @ q_target_currency q @
              '', but the wallets hold '' @ w_currency from @ '' and '' @ w_currency to)))
       else convert now
         \<lparr>ci_quote = q_id q, ci_reference = cq_reference req, ci_description = cq_description req,
          ci_source_debit = w_available from, ci_target_credit = w_available to,
          ci_user = Some (owner_user_id own)\<rparr>
         (lock_active_wallets [w_id from, w_id to]) s)))"

section \<open>Totals\<close>

definition amount_or_zero :: "(string \<times> int) list \<Rightarrow> string \<Rightarrow> int" where
  "amount_or_zero m c = (case map_of m c of None \<Rightarrow> 0 | Some x \<Rightarrow> x)"

definition balance_totals :: "db \<Rightarrow> (string \<times> wallet_balances) list" where
  "balance_totals s =
     (let total = (\<lambda>f. sum_balances_by_currency (map f (wallets s)) (ledger s));
          a = total w_available; p = total w_pending; r = total w_reserved in
      map (\<lambda>c. (c, \<lparr>wb_available = amount_or_zero a c, wb_pending = amount_or_zero p c,
                     wb_reserved = amount_or_zero r c\<rparr>))
        (remdups (map fst a @ map fst p @ map fst r)))"

end
