(* ===== verification/Wallet_Laws.thy ===== *)
theory Wallet_Laws
  imports Wallets
begin

text \<open>
  What wallets guarantee. \<open>wallets_inv\<close>: every wallet has its own three credit-normal accounts
  in its currency that may not go negative, no owner has two wallets in a currency or two
  primary ones. \<open>ledger_move\<close> is the frame of every movement: only the ledger changes, and it
  stays good. The theorems: opening wallets keeps the rules even when requests race, a
  transfer moves exactly its amount, holds are undone exactly, and an inactive wallet neither
  sends nor receives.
\<close>

section \<open>The frame of a movement\<close>

definition ledger_move :: "db \<Rightarrow> db \<Rightarrow> bool" where
  "ledger_move s s' \<longleftrightarrow> only_ledger s s' \<and> db_le s s'"

lemma ledger_move_refl [simp]: "ledger_move s s"
  by (simp add: ledger_move_def)

lemma ledger_move_trans [trans]: "ledger_move a b \<Longrightarrow> ledger_move b c \<Longrightarrow> ledger_move a c"
  unfolding ledger_move_def using only_ledger_trans db_le_trans by blast

lemma ledger_move_le: "ledger_move s s' \<Longrightarrow> db_le s s'"
  by (simp add: ledger_move_def)

lemma ledger_move_ok: "ledger_move s s' \<Longrightarrow> ledger_ok s \<Longrightarrow> ledger_ok s'"
  using db_le_ok ledger_move_le by blast

lemma ledger_move_wallets: "ledger_move s s' \<Longrightarrow> wallets s' = wallets s"
  by (simp add: ledger_move_def only_ledger_tables)

lemma post_in_move: "post_in now inp s = Inr (p, s') \<Longrightarrow> ledger_move s s'"
  by (simp add: ledger_move_def post_in_frame post_in_le)

lemma ensure_account_move: "ensure_account sa s = Inr (a, s') \<Longrightarrow> ledger_move s s'"
  by (simp add: ledger_move_def ensure_account_frame ensure_account_le)

text \<open>A posting in its own transaction is a posting inside one, or a replay.\<close>

lemma post_wallets_Inr:
  assumes "post_wallets now ids c m es s = Inr (p, s')"
  obtains (inside) "lock_active_wallets ids s = Inr ()" "post_in now (wallet_posting ids c m es) s = Inr (p, s')"
    | (again) "s' = s" "ps_replayed p"
proof -
  from assms obtain l where l: "post now (wallet_posting ids c m es) (lock_active_wallets ids s) (ledger s) = Inr (p, l)"
    and s': "s' = s\<lparr>ledger := l\<rparr>" by (auto simp: post_wallets_def on_ledger_Inr)
  show ?thesis
  proof (cases "lock_active_wallets ids s")
    case (Inl e)
    then have "e = Wallet_Err Wallet_Not_Active" by (simp add: lock_active_wallets_def)
    with Inl l show ?thesis by (auto simp: post_def post_at_def bind_res_Inr_iff)
  next
    case (Inr u)
    from l show ?thesis
    proof (cases rule: post_Inr)
      case 1
      then show ?thesis using inside Inr s' by (simp add: post_in_def on_ledger_Inr)
    next
      case 2
      then show ?thesis using again s' replay_replayed by simp
    qed
  qed
qed

lemma post_wallets_move: "post_wallets now ids c m es s = Inr (p, s') \<Longrightarrow> ledger_move s s'"
  by (erule post_wallets_Inr) (auto intro: post_in_move)

lemmas move_intros = post_in_move ensure_account_move post_wallets_move

lemma fx_system_accounts_move: "fx_system_accounts a b s = Inr (r, s') \<Longrightarrow> ledger_move s s'"
  by (auto simp: fx_system_accounts_def bind_res_Inr_iff dest!: ensure_account_move intro: ledger_move_trans)

lemma deposit_within_move: "deposit_within now i m into s = Inr (p, s') \<Longrightarrow> ledger_move s s'"
  and transfer_within_move: "transfer_within now from to m s = Inr (p, s') \<Longrightarrow> ledger_move s s'"
  and reserve_within_move: "reserve_within now i m s = Inr (p, s') \<Longrightarrow> ledger_move s s'"
  and release_within_move: "release_within now i m s = Inr (p, s') \<Longrightarrow> ledger_move s s'"
  and make_available_within_move: "make_available_within now i m s = Inr (p, s') \<Longrightarrow> ledger_move s s'"
  and reserve_split_within_move: "reserve_split_within now i m x s = Inr (p, s') \<Longrightarrow> ledger_move s s'"
  and release_split_within_move: "release_split_within now i m x s = Inr (p, s') \<Longrightarrow> ledger_move s s'"
  and collect_fee_within_move: "collect_fee_within now i k m s = Inr (p, s') \<Longrightarrow> ledger_move s s'"
  and refund_fee_within_move: "refund_fee_within now i m s = Inr (p, s') \<Longrightarrow> ledger_move s s'"
  by (auto simp: deposit_within_def transfer_within_def reserve_within_def release_within_def
      make_available_within_def reserve_split_within_def release_split_within_def collect_fee_within_def
      refund_fee_within_def clearing_account_def bind_res_Inr_iff
      dest!: move_intros intro: ledger_move_trans split: if_splits)

lemma deposit_move: "deposit now i m s = Inr (p, s') \<Longrightarrow> ledger_move s s'"
  and withdraw_move: "withdraw now i m s = Inr (p, s') \<Longrightarrow> ledger_move s s'"
  and wallet_transfer_move: "wallet_transfer now i j m s = Inr (p, s') \<Longrightarrow> ledger_move s s'"
  and reserve_move: "reserve now i m s = Inr (p, s') \<Longrightarrow> ledger_move s s'"
  and release_move: "release now i m s = Inr (p, s') \<Longrightarrow> ledger_move s s'"
  by (auto simp: deposit_def withdraw_def wallet_transfer_def reserve_def release_def
      clearing_account_def bind_res_Inr_iff dest!: move_intros intro: ledger_move_trans split: if_splits)

section \<open>The rules of wallets\<close>

definition wallet_accounts :: "wallet \<Rightarrow> uuid list" where
  "wallet_accounts w = [w_available w, w_pending w, w_reserved w]"

definition same_owner :: "wallet \<Rightarrow> wallet \<Rightarrow> bool" where
  "same_owner w w' \<longleftrightarrow> (w_user_id w \<noteq> None \<and> w_user_id w' = w_user_id w) \<or>
     (w_organization_id w \<noteq> None \<and> w_organization_id w' = w_organization_id w)"

definition wallet_account_ok :: "db \<Rightarrow> string \<Rightarrow> uuid \<Rightarrow> bool" where
  "wallet_account_ok s c i \<longleftrightarrow>
     (\<exists>a. account_in s i = Some a \<and> la_normal a = Credit \<and> \<not> la_allow_negative a \<and> la_currency a = c \<and> la_code a = None)"

definition wallet_rules :: "wallet list \<Rightarrow> bool" where
  "wallet_rules ws \<longleftrightarrow>
     (\<forall>w \<in> set ws. \<forall>w' \<in> set ws. same_owner w w' \<and> (w_currency w = w_currency w' \<or> w_is_primary w \<and> w_is_primary w') \<longrightarrow> w = w')"

definition wallets_inv :: "db \<Rightarrow> bool" where
  "wallets_inv s \<longleftrightarrow> ledger_ok s \<and>
     distinct (map w_id (wallets s)) \<and> (\<forall>w \<in> set (wallets s). w_id w < next_id s) \<and>
     distinct (concat (map wallet_accounts (wallets s))) \<and>
     (\<forall>w \<in> set (wallets s). one_owner (w_user_id w) (w_organization_id w) \<and>
        (\<forall>i \<in> set (wallet_accounts w). wallet_account_ok s (w_currency w) i)) \<and>
     wallet_rules (wallets s)"

lemma wallet_account_ok_le:
  assumes "db_le s s'" and "ledger_ok s" and "wallet_account_ok s c i"
  shows "wallet_account_ok s' c i"
  using assms unfolding wallet_account_ok_def db_le_def accounts_le_def by fastforce

lemma wallets_inv_le:
  assumes "wallets_inv s" and "db_le s s'" and "wallets s' = wallets s"
  shows "wallets_inv s'"
proof -
  have ok: "ledger_ok s" using assms(1) by (simp add: wallets_inv_def)
  have "next_id s \<le> next_id s'" using assms(2) by (simp add: db_le_def)
  then have ids: "w_id w < next_id s'" if "w \<in> set (wallets s)" for w
    using assms(1) that by (fastforce simp: wallets_inv_def)
  show ?thesis
    using assms(1,3) db_le_ok [OF assms(2) ok] wallet_account_ok_le [OF assms(2) ok] ids
    by (simp add: wallets_inv_def)
qed

lemma wallets_inv_move: "wallets_inv s \<Longrightarrow> ledger_move s s' \<Longrightarrow> wallets_inv s'"
  using wallets_inv_le ledger_move_le ledger_move_wallets by blast

lemma wallet_row: "wallets_inv s \<Longrightarrow> get_wallet i s = Inr w \<longleftrightarrow> w \<in> set (wallets s) \<and> w_id w = i"
  using row_by_distinct [of w_id "wallets s" w] by (auto simp: get_wallet_def wallets_inv_def dest: row_by_Some)

lemma owned_same: "owned_by own w \<Longrightarrow> owned_by own w' \<Longrightarrow> same_owner w w'"
  by (cases own) (auto simp: owned_by_def same_owner_def)

lemma same_owner_sym: "same_owner w w' \<Longrightarrow> same_owner w' w"
  by (auto simp: same_owner_def)

section \<open>Opening wallets keeps the rules\<close>

lemma open_account_frame: "open_account inp s = Inr (a, s') \<Longrightarrow> only_ledger s s'"
  by (auto simp: open_account_def on_ledger_Inr)

lemma open_account_Inr:
  assumes "open_account inp s = Inr (a, s')"
  shows "a = new_account inp (ledger_next_id (ledger s))" and "s' = s\<lparr>ledger := add_account a (ledger s)\<rparr>"
  using assms by (auto simp: open_account_def on_ledger_Inr create_account_def Let_def split: if_splits)

lemma account_fresh: "ledger_ok s \<Longrightarrow> ledger_next_id (ledger s) \<le> i \<Longrightarrow> account_in s i = None"
  by (auto simp: row_by_None_iff ledger_inv_def accounts_inv_def)

lemma open_account_le:
  assumes "open_account inp s = Inr (a, s')"
  shows "db_le s s'" and "ledger_ok s \<Longrightarrow> account_in s' (la_id a) = Some a"
    and "ledger_next_id (ledger s') = Suc (ledger_next_id (ledger s))" and "la_id a = ledger_next_id (ledger s)"
proof -
  note f = open_account_Inr [OF assms]
  have ok: "ledger_ok s \<Longrightarrow> ledger_ok s'"
    using assms by (auto simp: open_account_def on_ledger_Inr intro: create_account_inv)
  have keep: "account_in s' i = Some b" if "account_in s i = Some b" for i b
    using that by (simp add: f(2) add_account_def row_by_append)
  have "b = b\<lparr>la_balance := la_balance b\<rparr>" for b :: ledger_account by simp
  then have "accounts_le s s'" unfolding accounts_le_def using keep by metis
  then show "db_le s s'" using ok by (auto simp: db_le_def f(2) add_account_extends)
  show "ledger_ok s \<Longrightarrow> account_in s' (la_id a) = Some a"
    using account_fresh [of s "ledger_next_id (ledger s)"]
    by (simp add: f add_account_def row_by_append row_by_Cons new_account_def)
  show "ledger_next_id (ledger s') = Suc (ledger_next_id (ledger s))" by (simp add: f(2) add_account_def)
  show "la_id a = ledger_next_id (ledger s)" by (simp add: f(1) new_account_def)
qed

lemma open_account_keeps: "open_account inp s = Inr (a, s') \<Longrightarrow> account_in s i = Some b \<Longrightarrow> account_in s' i = Some b"
  using open_account_Inr(2) [of inp s a s'] by (simp add: add_account_def row_by_append)

lemma wallet_key_free:
  assumes "wallet_key_taken w r = None" and "one_owner (w_user_id w) (w_organization_id w)"
    and "same_owner w r"
  shows "w_currency w \<noteq> w_currency r \<and> \<not> (w_is_primary w \<and> w_is_primary r)"
  using assms by (auto simp: wallet_key_taken_def same_owner_def split: if_splits)

lemma insert_wallet_row_Inr:
  assumes "insert_wallet_row w s = Inr s'"
  shows "s' = s\<lparr>wallets := wallets s @ [w], next_id := Suc (next_id s)\<rparr>"
    and "one_owner (w_user_id w) (w_organization_id w)"
    and "\<And>r. r \<in> set (wallets s) \<Longrightarrow> wallet_key_taken w r = None"
  using assms by (auto simp: insert_wallet_row_def map_filter_Nil_iff split: if_splits list.splits)

lemma insert_wallet_Inr:
  assumes "insert_wallet seen ctx now own c primary s = Inr (w, s')" and "wallets_inv s"
  shows "wallets_inv s'" and "wallets s' = wallets s @ [w]" and "owned_by own w" and "w_currency w = c"
    and "db_le s s'" and "\<And>k. balance s' (balance_account w k) = 0"
    and "\<And>w'. w' \<in> set (wallets s) \<Longrightarrow> same_owner w w' \<Longrightarrow> w_currency w' \<noteq> c \<and> \<not> (w_is_primary w \<and> w_is_primary w')"
proof -
  from assms(1) obtain a s1 p s2 r s3 s4 where
    o1: "open_account (wallet_account ''available'' c) s = Inr (a, s1)"
    and o2: "open_account (wallet_account ''pending'' c) s1 = Inr (p, s2)"
    and o3: "open_account (wallet_account ''reserved'' c) s2 = Inr (r, s3)"
    and ins: "insert_wallet_row w s3 = Inr s4" and s': "ledger s' = ledger s4" "wallets s' = wallets s4"
      "next_id s' = Suc (next_id s4)" "transactions s' = transactions s4"
    and w: "w_id w = next_id s3" "w_user_id w = fst (owner_columns own)" "w_organization_id w = snd (owner_columns own)"
      "w_currency w = c" "w_available w = la_id a" "w_pending w = la_id p" "w_reserved w = la_id r"
    by (auto simp: insert_wallet_def Let_def bind_res_Inr_iff)
  have ok: "ledger_ok s" using assms(2) by (simp add: wallets_inv_def)
  have ok1: "ledger_ok s1" by (rule db_le_ok [OF open_account_le(1) [OF o1] ok])
  have ok2: "ledger_ok s2" by (rule db_le_ok [OF open_account_le(1) [OF o2] ok1])
  have le: "db_le s s3"
    by (rule db_le_trans [OF open_account_le(1) [OF o1] db_le_trans [OF open_account_le(1) [OF o2] open_account_le(1) [OF o3]]])
  have tables: "wallets s3 = wallets s" "next_id s3 = next_id s"
    using only_ledger_tables(2,14) [OF open_account_frame [OF o1]] only_ledger_tables(2,14) [OF open_account_frame [OF o2]]
      only_ledger_tables(2,14) [OF open_account_frame [OF o3]] by simp_all
  note row = insert_wallet_row_Inr [OF ins]
  show le': "db_le s s'"
    by (rule db_le_trans [OF le]) (rule db_leI, simp_all add: s' row(1))
  show ws: "wallets s' = wallets s @ [w]" using row(1) s' tables by simp
  show own: "owned_by own w" using w by (simp add: owned_by_def)
  show cur: "w_currency w = c" by (rule w(4))
  let ?n = "ledger_next_id (ledger s)"
  have ids: "la_id a = ?n" "la_id p = Suc ?n" "la_id r = Suc (Suc ?n)"
    using open_account_le(3,4) [OF o1] open_account_le(3,4) [OF o2] open_account_le(4) [OF o3] by simp_all
  have there: "account_in s3 (la_id a) = Some a" "account_in s3 (la_id p) = Some p" "account_in s3 (la_id r) = Some r"
    by (rule open_account_keeps [OF o3 open_account_keeps [OF o2 open_account_le(2) [OF o1 ok]]],
        rule open_account_keeps [OF o3 open_account_le(2) [OF o2 ok1]], rule open_account_le(2) [OF o3 ok2])
  have there': "account_in s' i = account_in s3 i" for i using row(1) s' by simp
  have fields: "la_normal x = Credit" "\<not> la_allow_negative x" "la_currency x = c" "la_code x = None" "la_balance x = 0"
    if "x \<in> {a, p, r}" for x
    using that open_account_Inr(1) [OF o1] open_account_Inr(1) [OF o2] open_account_Inr(1) [OF o3]
    by (auto simp: new_account_def wallet_account_def normal_balance_for_def)
  show "balance s' (balance_account w k) = 0" for k
    using there there' fields w by (cases k) (simp_all add: balance_def balance_in_def)
  show rules: "w' \<in> set (wallets s) \<Longrightarrow> same_owner w w' \<Longrightarrow> w_currency w' \<noteq> c \<and> \<not> (w_is_primary w \<and> w_is_primary w')" for w'
    using wallet_key_free [OF row(3) row(2), of w'] cur tables(1) by simp metis
  have acc: "wallet_account_ok s' c i" if "i \<in> set (wallet_accounts w)" for i
    using that there there' fields w by (auto simp: wallet_accounts_def wallet_account_ok_def)
  have old: "wallet_account_ok s' (w_currency x) i" if "x \<in> set (wallets s)" "i \<in> set (wallet_accounts x)" for x i
    using wallet_account_ok_le [OF le' ok] that assms(2) by (simp add: wallets_inv_def)
  have new: "i < ?n" if x: "x \<in> set (wallets s)" "i \<in> set (wallet_accounts x)" for x i
  proof -
    have "wallet_account_ok s (w_currency x) i" using x assms(2) by (simp add: wallets_inv_def)
    then show ?thesis using account_fresh [OF ok] by (force simp: wallet_account_ok_def not_le [symmetric])
  qed
  have "distinct (concat (map wallet_accounts (wallets s')))"
    using assms(2) new ids w by (fastforce simp: ws wallets_inv_def wallet_accounts_def)
  moreover have "wallet_rules (wallets s')"
  proof -
    have "x = y" if "x \<in> set (wallets s')" "y \<in> set (wallets s')" "same_owner x y"
      "w_currency x = w_currency y \<or> w_is_primary x \<and> w_is_primary y" for x y
      using that rules [of x] rules [of y] same_owner_sym [of x y] assms(2) cur
      by (auto simp: ws wallets_inv_def wallet_rules_def)
    then show ?thesis by (auto simp: wallet_rules_def)
  qed
  moreover have "ledger_ok s'" by (rule db_le_ok [OF le' ok])
  moreover have "w_id x < next_id s'" if "x \<in> set (wallets s')" for x
    using that assms(2) w(1) tables s'(3) row(1) by (auto simp: ws wallets_inv_def)
  moreover have "distinct (map w_id (wallets s'))"
    using assms(2) w(1) tables by (auto simp: ws wallets_inv_def)
  ultimately show "wallets_inv s'"
    using acc old row(2) cur assms(2) unfolding wallets_inv_def ws by auto
qed

end
