(* ===== verification/Wallet_Theorems.thy ===== *)
theory Wallet_Theorems
  imports Wallet_Laws
begin

text \<open>
  The guarantees of wallets as theorems over \<open>wallets_inv\<close> (theory \<open>Wallet_Laws\<close>): opening a
  wallet, choosing the primary one, transferring, holding and undoing a hold, and what a
  frozen or closed wallet refuses.
\<close>

section \<open>Balances of wallets\<close>

lemma wallet_account_in:
  assumes "wallets_inv s" and "w \<in> set (wallets s)"
  obtains a where "account_in s (balance_account w k) = Some a" "la_normal a = Credit" "\<not> la_allow_negative a"
    "la_currency a = w_currency w"
proof -
  have "balance_account w k \<in> set (wallet_accounts w)" by (cases k) (simp_all add: wallet_accounts_def)
  then have "wallet_account_ok s (w_currency w) (balance_account w k)" using assms by (simp add: wallets_inv_def)
  then show ?thesis using that by (auto simp: wallet_account_ok_def)
qed

lemma distinct_concat_disjoint:
  "distinct (concat (map f xs)) \<Longrightarrow> x \<in> set xs \<Longrightarrow> y \<in> set xs \<Longrightarrow> i \<in> set (f x) \<Longrightarrow> i \<in> set (f y) \<Longrightarrow> x = y"
  by (induction xs) auto

lemma distinct_concat_each: "distinct (concat (map f xs)) \<Longrightarrow> x \<in> set xs \<Longrightarrow> distinct (f x)"
  by (induction xs) auto

lemma wallet_accounts_distinct:
  assumes "wallets_inv s" and "w \<in> set (wallets s)" and "v \<in> set (wallets s)"
  shows "balance_account w k = balance_account v k' \<longleftrightarrow> w = v \<and> k = k'"
proof -
  have d: "distinct (concat (map wallet_accounts (wallets s)))" using assms(1) by (simp add: wallets_inv_def)
  have mem: "balance_account x j \<in> set (wallet_accounts x)" for x j by (cases j) (simp_all add: wallet_accounts_def)
  have "w = v" if "balance_account w k = balance_account v k'"
    using distinct_concat_disjoint [OF d assms(2,3) mem [of w k]] mem [of v k'] that by simp
  moreover have "k = k'" if "balance_account w k = balance_account w k'"
    using distinct_concat_each [OF d assms(2)] that by (cases k; cases k') (auto simp: wallet_accounts_def)
  ultimately show ?thesis by auto
qed

text \<open>A posting moves a wallet's balance by its credits less its debits there.\<close>

definition credit_net :: "posting_entry list \<Rightarrow> uuid \<Rightarrow> int" where
  "credit_net es i = - sum_list (map posting_value (filter (\<lambda>e. pe_account e = i) es))"

lemma wallet_balance_moves:
  assumes "wallets_inv s" and "w \<in> set (wallets s)" and "post_in now inp s = Inr (p, s')" and "\<not> ps_replayed p"
  shows "balance s' (balance_account w k) = balance s (balance_account w k) + credit_net (pi_entries inp) (balance_account w k)"
    and "0 \<le> balance s' (balance_account w k)"
proof -
  have ok: "ledger_ok s" using assms(1) by (simp add: wallets_inv_def)
  let ?i = "balance_account w k"
  obtain a where a: "account_in s ?i = Some a" "la_normal a = Credit" "\<not> la_allow_negative a"
    using wallet_account_in [OF assms(1,2)] .
  note m = inside.balance_moves(1) [OF ok assms(3,4) a(1)]
  show "balance s' ?i = balance s ?i + credit_net (pi_entries inp) ?i"
    using inside.position_moves [OF ok assms(3,4), of ?i] a m
    by (simp add: balance_def balance_in_def position_in_def debit_position_def credit_net_def)
  show "0 \<le> balance s' ?i"
    using inside.acct_ok [OF inside.op_good [OF ok assms(3)] m] m a by (simp add: balance_def balance_in_def account_ok_def)
qed

lemma balance_unmoved:
  "ledger_ok s \<Longrightarrow> post_in now inp s = Inr (p, s') \<Longrightarrow> i \<notin> pe_account ` set (pi_entries inp) \<Longrightarrow> balance s' i = balance s i"
  by (simp add: balance_def balance_in_def inside.untouched)

section \<open>Opening wallets\<close>

lemma create_wallet_Inr:
  assumes "create_wallet cfg seen ctx now own c s = Inr (w, s')"
  shows "\<exists>primary. c \<in> set (wc_allowed_currencies cfg) \<and>
    insert_wallet seen ctx now own c primary s = Inr (w, s') \<and> (wc_single cfg \<longrightarrow> primary = Some True)"
  using assms unfolding create_wallet_def
  by (cases "wc_single cfg") (auto split: if_splits sum.splits)

text \<open>
  C16. Opening a wallet keeps every rule of wallets, whatever state the unlocked check for a
  first wallet has seen: the new wallet is the owner's only one in its currency, at most one
  of the owner's wallets is primary, its three accounts are its own, credit-normal, without
  overdraft and empty. In single-wallet mode the owner had no primary wallet before.
\<close>

theorem opening_keeps_wallet_rules:
  assumes "wallets_inv s" and "create_wallet cfg seen ctx now own c s = Inr (w, s')"
  shows "wallets_inv s' \<and> wallets s' = wallets s @ [w] \<and> owned_by own w \<and> w_currency w = c \<and>
    c \<in> set (wc_allowed_currencies cfg) \<and> (\<forall>k. balance s' (balance_account w k) = 0) \<and>
    find_wallet own c s = None \<and> (wc_single cfg \<longrightarrow> find_primary_wallet own s = None)"
proof -
  from assms(2) obtain primary where c: "c \<in> set (wc_allowed_currencies cfg)"
    and ins: "insert_wallet seen ctx now own c primary s = Inr (w, s')" and one: "wc_single cfg \<longrightarrow> primary = Some True"
    using create_wallet_Inr by blast
  note r = insert_wallet_Inr [OF ins assms(1)]
  have same: "same_owner w x" if "owned_by own x" for x by (rule owned_same [OF r(3) that])
  have prim: "w_is_primary w" if "wc_single cfg"
    using ins one that by (auto simp: insert_wallet_def Let_def bind_res_Inr_iff)
  show ?thesis
    using c r same prim by (auto simp: find_wallet_def find_primary_wallet_def find_None_iff)
qed

lemma insert_wallet_row_second:
  assumes "w \<in> set (wallets s)" and "one_owner (w_user_id v) (w_organization_id v)" and "same_owner v w"
    and "w_currency v = w_currency w" and "currency_format (w_currency v)"
  shows "\<exists>cn. insert_wallet_row v s = Inl (Db_Err (Unique_Violation cn)) \<and>
    (cn \<in> set CURRENCY_CONSTRAINTS \<or> cn \<in> set PRIMARY_CONSTRAINTS \<and> w_is_primary v)"
proof -
  have "wallet_key_taken v w \<noteq> None"
    using assms by (auto simp: wallet_key_taken_def same_owner_def)
  then have "List.map_filter (wallet_key_taken v) (wallets s) \<noteq> []" using assms(1) by (auto simp: map_filter_Nil_iff)
  then obtain cn cs where cn: "List.map_filter (wallet_key_taken v) (wallets s) = cn # cs" by (cases "List.map_filter (wallet_key_taken v) (wallets s)") auto
  then have "cn \<in> set (List.map_filter (wallet_key_taken v) (wallets s))" by simp
  then have "cn \<in> set CURRENCY_CONSTRAINTS \<or> cn \<in> set PRIMARY_CONSTRAINTS \<and> w_is_primary v"
    by (auto simp: set_map_filter wallet_key_taken_def CURRENCY_CONSTRAINTS_def PRIMARY_CONSTRAINTS_def split: if_splits)
  then show ?thesis using assms(2,5) cn by (simp add: insert_wallet_row_def)
qed

lemma insert_wallet_second:
  assumes "find_wallet own c s = Some v" and "currency_format c"
  shows "\<exists>cn. insert_wallet seen ctx now own c primary s = Inl (Db_Err (Unique_Violation cn)) \<and>
    (cn \<in> set CURRENCY_CONSTRAINTS \<or> cn \<in> set PRIMARY_CONSTRAINTS \<and> primary \<noteq> Some False)"
proof -
  have opens: "\<exists>a s'. open_account (wallet_account purpose c) t = Inr (a, s') \<and> wallets s' = wallets t" for purpose t
    using assms(2) by (simp add: open_account_def on_ledger_def create_account_def wallet_account_def code_taken_def Let_def)
  obtain a s1 where 1: "open_account (wallet_account ''available'' c) s = Inr (a, s1)" "wallets s1 = wallets s"
    using opens by blast
  obtain p s2 where 2: "open_account (wallet_account ''pending'' c) s1 = Inr (p, s2)" "wallets s2 = wallets s1"
    using opens by blast
  obtain r s3 where 3: "open_account (wallet_account ''reserved'' c) s2 = Inr (r, s3)" "wallets s3 = wallets s2"
    using opens by blast
  have v: "v \<in> set (wallets s3)" "owned_by own v" "w_currency v = c"
    using assms(1) 1 2 3 by (auto simp: find_wallet_def find_Some_iff)
  let ?first = "\<not> list_ex (\<lambda>w. owned_by own w \<and> w_is_primary w) (wallets seen)"
  define w where "w = \<lparr>w_id = next_id s3, w_user_id = fst (owner_columns own), w_organization_id = snd (owner_columns own),
    w_currency = c, w_status = Wallet_Active, w_is_primary = (case primary of Some b \<Rightarrow> b | None \<Rightarrow> ?first),
    w_available = la_id a, w_pending = la_id p, w_reserved = la_id r, w_created_at = now\<rparr>"
  have run: "insert_wallet seen ctx now own c primary s = bind_res (insert_wallet_row w s3) (\<lambda>s4.
      Inr (w, record_audit ctx now ''wallet.created'' ''wallet'' (w_id w) (w_organization_id w)
        [(''currency'', JStr c), (''isPrimary'', JBool (w_is_primary w))] s4))"
    using 1(1) 2(1) 3(1) by (simp add: insert_wallet_def Let_def w_def)
  have w: "owned_by own w" "w_currency w = c" "one_owner (w_user_id w) (w_organization_id w)"
    "primary = Some False \<longrightarrow> \<not> w_is_primary w"
    by (cases own; simp add: w_def owned_by_def one_owner_def)+
  from insert_wallet_row_second [OF v(1) w(3) owned_same [OF w(1) v(2)]] w(2,4) assms(2) v(3)
  obtain cn where "insert_wallet_row w s3 = Inl (Db_Err (Unique_Violation cn))"
    "cn \<in> set CURRENCY_CONSTRAINTS \<or> cn \<in> set PRIMARY_CONSTRAINTS \<and> w_is_primary w" by auto
  with w(4) show ?thesis by (auto simp: run)
qed

text \<open>
  A second wallet in a currency the owner already has is refused as already existing,
  with the message of the mode, however the requests interleave.
\<close>

theorem second_wallet_refused:
  assumes "find_wallet own c s = Some v" and "currency_format c" and "c \<in> set (wc_allowed_currencies cfg)"
  shows "create_wallet cfg seen ctx now own c s = Inl (already_exists (wc_single cfg) c)"
proof -
  note e = insert_wallet_second [OF assms(1,2)]
  show ?thesis
    using e [of seen ctx now "if wc_single cfg then Some True else None"] e [of seen ctx now "Some False"] assms(3)
    by (auto simp: create_wallet_def CURRENCY_CONSTRAINTS_def PRIMARY_CONSTRAINTS_def)
qed

section \<open>The primary wallet\<close>

definition chosen :: "owner \<Rightarrow> uuid \<Rightarrow> wallet \<Rightarrow> wallet" where
  "chosen own i w = (if owned_by own w then w\<lparr>w_is_primary := (w_id w = i)\<rparr> else w)"

lemma chosen_simps [simp]:
  "w_id (chosen own i w) = w_id w" "w_currency (chosen own i w) = w_currency w" "w_status (chosen own i w) = w_status w"
  "w_user_id (chosen own i w) = w_user_id w" "w_organization_id (chosen own i w) = w_organization_id w"
  "wallet_accounts (chosen own i w) = wallet_accounts w" "owned_by o' (chosen own i w) = owned_by o' w"
  by (simp_all add: chosen_def wallet_accounts_def owned_by_def)

lemma same_owner_owned: "same_owner w w' \<Longrightarrow> one_owner (w_user_id w) (w_organization_id w) \<Longrightarrow> owned_by own w \<Longrightarrow> owned_by own w'"
  by (cases own) (auto simp: same_owner_def owned_by_def one_owner_def)

lemma set_primary_Inr:
  assumes "wallets_inv s" and "set_primary ctx now own i s = Inr (r, s')"
  shows "wallets s' = map (chosen own i) (wallets s)" and "ledger s' = ledger s" and "next_id s \<le> next_id s'"
    and "transactions s' = transactions s"
    and "\<exists>w \<in> set (wallets s). w_id w = i \<and> owned_by own w \<and> (w_is_primary w \<or> w_status w = Wallet_Active)"
proof -
  let ?cleared = "map (\<lambda>w. if owned_by own w \<and> w_is_primary w then w\<lparr>w_is_primary := False\<rparr> else w) (wallets s)"
  from assms(2) obtain w where w: "row_by w_id i (filter (owned_by own) (wallets s)) = Some w"
    by (auto simp: set_primary_def Let_def bind_res_Inr_iff)
  with assms(2) have s': "(if w_is_primary w then s' = s else w_status w = Wallet_Active \<and>
      wallets s' = set_row w_id i (\<lambda>w. w\<lparr>w_is_primary := True\<rparr>) ?cleared \<and>
      ledger s' = ledger s \<and> next_id s \<le> next_id s' \<and> transactions s' = transactions s)"
    by (cases "w_is_primary w"; cases "w_status w = Wallet_Active") (auto simp: set_primary_def Let_def bind_res_Inr_iff)
  have wi: "w \<in> set (wallets s)" "owned_by own w" "w_id w = i" using row_by_Some [OF w] by auto
  have ids: "x = w" if "x \<in> set (wallets s)" "w_id x = i" for x
    using that wi assms(1) by (auto simp: wallets_inv_def distinct_map inj_on_def)
  have only: "x = w" if "x \<in> set (wallets s)" "owned_by own x" "w_is_primary x" "w_is_primary w" for x
    using that wi assms(1) owned_same [OF that(2) wi(2)] by (auto simp: wallets_inv_def wallet_rules_def)
  show "wallets s' = map (chosen own i) (wallets s)"
  proof (cases "w_is_primary w")
    case True
    have "chosen own i x = x" if "x \<in> set (wallets s)" for x
    proof (cases "owned_by own x")
      case o: True
      then have "w_is_primary x = (w_id x = i)" using only [OF that] ids [OF that] True wi(3) by auto
      then show ?thesis by (simp add: chosen_def)
    qed (simp add: chosen_def)
    then show ?thesis using s' True by (simp add: map_idI)
  next
    case False
    have "wallets s' = set_row w_id i (\<lambda>w. w\<lparr>w_is_primary := True\<rparr>) ?cleared" using s' False by simp
    also have "\<dots> = map (chosen own i) (wallets s)"
      unfolding set_row_def map_map comp_def
    proof (rule map_cong [OF refl])
      fix x assume x: "x \<in> set (wallets s)"
      show "(if w_id (if owned_by own x \<and> w_is_primary x then x\<lparr>w_is_primary := False\<rparr> else x) = i
          then (if owned_by own x \<and> w_is_primary x then x\<lparr>w_is_primary := False\<rparr> else x)\<lparr>w_is_primary := True\<rparr>
          else if owned_by own x \<and> w_is_primary x then x\<lparr>w_is_primary := False\<rparr> else x) = chosen own i x"
        using ids [OF x] wi(2) by (cases x) (auto simp: chosen_def)
    qed
    finally show ?thesis .
  qed
  show "ledger s' = ledger s" "next_id s \<le> next_id s'" "transactions s' = transactions s"
    using s' by (simp_all split: if_splits)
  show "\<exists>w \<in> set (wallets s). w_id w = i \<and> owned_by own w \<and> (w_is_primary w \<or> w_status w = Wallet_Active)"
    using wi s' by (auto split: if_splits)
qed

lemma set_primary_inv:
  assumes "wallets_inv s" and "set_primary ctx now own i s = Inr (r, s')"
  shows "wallets_inv s'"
proof -
  note p = set_primary_Inr [OF assms]
  have same: "same_owner (chosen own i a) (chosen own i b) = same_owner a b" for a b by (simp add: same_owner_def)
  have acc: "wallet_account_ok s' = wallet_account_ok s" by (intro ext) (simp add: wallet_account_ok_def p(2))
  have "wallet_rules (wallets s')"
    unfolding wallet_rules_def
  proof (intro ballI impI, elim conjE)
    fix x y assume xy: "x \<in> set (wallets s')" "y \<in> set (wallets s')" "same_owner x y"
      "w_currency x = w_currency y \<or> w_is_primary x \<and> w_is_primary y"
    then obtain a b where ab: "x = chosen own i a" "y = chosen own i b" "a \<in> set (wallets s)" "b \<in> set (wallets s)"
      by (auto simp: p(1))
    have ids: "a = b" if "w_id a = w_id b" using that ab assms(1) by (auto simp: wallets_inv_def distinct_map inj_on_def)
    have one: "one_owner (w_user_id a) (w_organization_id a)" using ab assms(1) by (simp add: wallets_inv_def)
    have so: "same_owner a b" using xy(3) ab same by simp
    have "a = b" if "w_currency a = w_currency b \<or> w_is_primary a \<and> w_is_primary b"
      using that so ab assms(1) by (auto simp: wallets_inv_def wallet_rules_def)
    moreover have "a = b" if "owned_by own a" "w_is_primary x" "w_is_primary y"
      using that same_owner_owned [OF so one that(1)] ab ids by (auto simp: chosen_def)
    moreover have "owned_by own b \<Longrightarrow> owned_by own a"
      using same_owner_owned [OF same_owner_sym [OF so]] ab assms(1) by (simp add: wallets_inv_def)
    ultimately have "a = b" using xy(4) ab by (auto simp: chosen_def split: if_splits)
    then show "x = y" using ab by simp
  qed
  moreover have "w_id x < next_id s'" if "x \<in> set (wallets s')" for x
    using that p(1,3) assms(1) by (fastforce simp: wallets_inv_def)
  moreover have "distinct (concat (map wallet_accounts (wallets s')))" "distinct (map w_id (wallets s'))"
    using assms(1) by (simp_all add: wallets_inv_def p(1) comp_def)
  ultimately show ?thesis using assms(1) by (auto simp: wallets_inv_def p acc)
qed

text \<open>
  After choosing a primary wallet exactly that one of the owner's wallets is primary: it
  was active or primary before, no other owner's wallet changes, and no money moves.
\<close>

theorem primary_is_unique:
  assumes "wallets_inv s" and "set_primary ctx now own i s = Inr (r, s')"
  shows "wallets_inv s' \<and> ledger s' = ledger s \<and> map w_id (wallets s') = map w_id (wallets s) \<and>
    (\<exists>w \<in> set (wallets s'). w_id w = i \<and> owned_by own w) \<and>
    (\<forall>w \<in> set (wallets s'). owned_by own w \<longrightarrow> (w_is_primary w \<longleftrightarrow> w_id w = i)) \<and>
    filter (\<lambda>w. \<not> owned_by own w) (wallets s') = filter (\<lambda>w. \<not> owned_by own w) (wallets s)"
proof -
  note p = set_primary_Inr [OF assms]
  have "filter (\<lambda>w. \<not> owned_by own w) (map (chosen own i) ws) = filter (\<lambda>w. \<not> owned_by own w) ws" for ws
  proof (induction ws)
    case (Cons w ws)
    then show ?case by (cases "owned_by own w") (simp_all, simp add: chosen_def)
  qed simp
  moreover have "\<exists>w \<in> set (wallets s'). w_id w = i \<and> owned_by own w"
    using p(5) by (auto simp: p(1))
  moreover have "\<forall>w \<in> set (wallets s'). owned_by own w \<longrightarrow> (w_is_primary w \<longleftrightarrow> w_id w = i)"
    by (auto simp: p(1) chosen_def owned_by_def)
  moreover have "map w_id (wallets s') = map w_id (wallets s)" by (simp add: p(1) comp_def)
  moreover have "filter (\<lambda>w. \<not> owned_by own w) (wallets s') = filter (\<lambda>w. \<not> owned_by own w) (map (chosen own i) (wallets s))"
    by (simp only: p(1))
  ultimately show ?thesis using set_primary_inv [OF assms] p(2) by metis
qed

section \<open>Transfers and holds\<close>

lemma lock_active_Inr: "lock_active_wallets ids s = Inr u \<longleftrightarrow> (\<forall>w \<in> set (wallets s). w_id w \<in> set ids \<longrightarrow> w_status w = Wallet_Active)"
  by (auto simp: lock_active_wallets_def list_all_iff)

text \<open>
  A transfer that is not a replay takes exactly its amount from the available balance of
  one wallet and gives it to the other; the payer had it, the amount is positive, both wallets
  are active and of one currency, and no other account's balance changes.
\<close>

theorem transfer_moves_exactly:
  assumes "wallets_inv s" and "a \<in> set (wallets s)" and "b \<in> set (wallets s)" and "a \<noteq> b"
    and "transfer_within now a b m s = Inr (p, s')" and "\<not> ps_replayed p"
  shows "(\<forall>i. balance s' i = balance s i - (if i = w_available a then mv_amount m else 0) +
      (if i = w_available b then mv_amount m else 0)) \<and>
    0 < mv_amount m \<and> mv_amount m \<le> balance s (w_available a) \<and> w_currency a = w_currency b \<and>
    w_status a = Wallet_Active \<and> w_status b = Wallet_Active \<and> wallets_inv s'"
proof -
  let ?inp = "wallet_posting [w_id a, w_id b] (w_currency a) m (move_legs (w_available a) (w_available b) (mv_amount m))"
  from assms(5) have post: "post_in now ?inp s = Inr (p, s')" and cur: "w_currency a = w_currency b"
    and active: "lock_active_wallets [w_id a, w_id b] s = Inr ()"
    by (auto simp: transfer_within_def bind_res_Inr_iff split: if_splits)
  have ok: "ledger_ok s" using assms(1) by (simp add: wallets_inv_def)
  have es: "pi_entries ?inp = [leg (w_available a) Debit (mv_amount m), leg (w_available b) Credit (mv_amount m)]"
    by (simp add: wallet_posting_def move_legs_def)
  have neq: "w_available a \<noteq> w_available b"
    using wallet_accounts_distinct [OF assms(1-3), of Available Available] assms(4) by simp
  note mva = wallet_balance_moves [OF assms(1,2) post assms(6), of Available]
  note mvb = wallet_balance_moves [OF assms(1,3) post assms(6), of Available]
  have "balance s' i = balance s i - (if i = w_available a then mv_amount m else 0) +
      (if i = w_available b then mv_amount m else 0)" for i
    using mva(1) mvb(1) balance_unmoved [OF ok post, of i] neq unfolding es
    by (auto simp: credit_net_def posting_value_def)
  moreover have "0 < mv_amount m" using inside.op_valid [OF post] es by (auto simp: validate_posting_Inr)
  moreover have "mv_amount m \<le> balance s (w_available a)"
    using mva neq unfolding es by (simp add: credit_net_def posting_value_def)
  moreover have "w_status a = Wallet_Active \<and> w_status b = Wallet_Active"
    using active assms(2,3) by (auto simp: lock_active_Inr)
  moreover have "wallets_inv s'" by (rule wallets_inv_move [OF assms(1) transfer_within_move [OF assms(5)]])
  ultimately show ?thesis using cur by blast
qed

definition split_move :: "wallet \<Rightarrow> int \<Rightarrow> int \<Rightarrow> uuid \<Rightarrow> int" where
  "split_move w x amount i =
     (if i = w_reserved w then amount else 0) - (if i = w_pending w then x else 0) -
     (if i = w_available w then amount - x else 0)"

lemma split_entries_net:
  assumes "wallets_inv s" and "w \<in> set (wallets s)" and "0 \<le> x" and "x \<le> amount"
  shows "credit_net (split_entries w amount x Debit) i = split_move w x amount i"
    and "credit_net (split_entries w amount x Credit) i = - split_move w x amount i"
  using wallet_accounts_distinct [OF assms(1,2,2), of Available Pending_Balance]
    wallet_accounts_distinct [OF assms(1,2,2), of Available Reserved_Balance]
    wallet_accounts_distinct [OF assms(1,2,2), of Pending_Balance Reserved_Balance] assms(3,4)
  by (auto simp: credit_net_def split_entries_def split_move_def posting_value_def Let_def)

lemma split_posting_moves:
  assumes "wallets_inv s" and "w \<in> set (wallets s)" and "0 \<le> x" and "x \<le> mv_amount m"
    and "post_in now (wallet_posting ids c m (split_entries w (mv_amount m) x d)) s = Inr (p, s')" and "\<not> ps_replayed p"
  shows "balance s' i = balance s i + (if d = Debit then 1 else - 1) * split_move w x (mv_amount m) i"
proof (cases "i \<in> set (wallet_accounts w)")
  case True
  then obtain k where k: "i = balance_account w k"
    unfolding wallet_accounts_def by (metis balance_account.simps empty_iff list.set(1) set_ConsD)
  show ?thesis
    using wallet_balance_moves(1) [OF assms(1,2,5,6), of k] split_entries_net [OF assms(1-4), of i]
    by (cases d) (simp_all add: k wallet_posting_def)
next
  case False
  then have "i \<notin> pe_account ` set (split_entries w (mv_amount m) x d)"
    by (auto simp: split_entries_def wallet_accounts_def Let_def)
  then show ?thesis
    using balance_unmoved [OF _ assms(5), of i] assms(1) False
    by (simp add: wallets_inv_def wallet_posting_def split_move_def wallet_accounts_def)
qed

text \<open>
  C17. A hold takes \<open>fromPending\<close> of its amount from the pending balance and the rest from the
  available one, only from an active wallet that has them. Releasing the same split restores
  every balance of the database, whatever the wallet's status is by then.
\<close>

theorem hold_and_release:
  assumes "wallets_inv s" and "w \<in> set (wallets s)" and "0 \<le> x" and "x \<le> mv_amount m"
    and "reserve_split_within now (w_id w) m x s = Inr (p, s1)" and "\<not> ps_replayed p"
    and "release_split_within now' (w_id w) m' x (set_status (w_id w) st s1) = Inr (p', s2)"
    and "\<not> ps_replayed p'" and "mv_amount m' = mv_amount m"
  shows "w_status w = Wallet_Active \<and>
    (\<forall>i. balance s1 i = balance s i + split_move w x (mv_amount m) i) \<and>
    x \<le> balance s (w_pending w) \<and> mv_amount m - x \<le> balance s (w_available w) \<and>
    (\<forall>i. balance s2 i = balance s i)"
proof -
  have get: "get_wallet (w_id w) s = Inr w" using wallet_row [OF assms(1)] assms(2) by simp
  have post: "post_in now (wallet_posting [w_id w] (w_currency w) m (split_entries w (mv_amount m) x Debit)) s = Inr (p, s1)"
    and active: "w_status w = Wallet_Active"
    using assms(5) get assms(2) by (auto simp: reserve_split_within_def bind_res_Inr_iff lock_active_Inr)
  have mv: "ledger_move s s1" by (rule post_in_move [OF post])
  note inv1 = wallets_inv_move [OF assms(1) mv]
  define t where "t = set_status (w_id w) st s1"
  have ws: "wallets s1 = wallets s" by (rule ledger_move_wallets [OF mv])
  have first: "balance s1 i = balance s i + split_move w x (mv_amount m) i" for i
    using split_posting_moves [OF assms(1-4) post assms(6)] by simp
  note d = wallet_accounts_distinct [OF assms(1,2,2)]
  have enough: "x \<le> balance s (w_pending w)" "mv_amount m - x \<le> balance s (w_available w)"
    using wallet_balance_moves(2) [OF assms(1,2) post assms(6), of Pending_Balance]
      wallet_balance_moves(2) [OF assms(1,2) post assms(6), of Available] first
      d [of Available Pending_Balance] d [of Available Reserved_Balance] d [of Pending_Balance Reserved_Balance]
    by (auto simp: split_move_def)
  have undo: "\<exists>ids. post_in now' (wallet_posting ids (w_currency w) m' (split_entries w (mv_amount m) x Credit)) t = Inr (p', s2)"
  proof -
    obtain v where v: "get_wallet (w_id w) t = Inr v"
      and pv: "post_in now' (wallet_posting [w_id w] (w_currency v) m' (split_entries v (mv_amount m') x Credit)) t = Inr (p', s2)"
      using assms(7) by (auto simp: release_split_within_def bind_res_Inr_iff t_def)
    have "row_by w_id (w_id w) (wallets t) = map_option (\<lambda>w. w\<lparr>w_status := st\<rparr>) (row_by w_id (w_id w) (wallets s))"
      by (simp add: t_def set_status_def ws row_by_set_row)
    then have "v = w\<lparr>w_status := st\<rparr>" using v get by (auto simp: get_wallet_def)
    then show ?thesis using pv assms(9) by (auto simp: split_entries_def)
  qed
  have t: "ledger t = ledger s1" by (simp add: t_def set_status_def)
  then have bal: "balance t i = balance s1 i" for i by (simp add: balance_def balance_in_def)
  from undo obtain ids l where
    "post_within now' (wallet_posting ids (w_currency w) m' (split_entries w (mv_amount m) x Credit)) (ledger s1) = Inr (p', l)"
    "s2 = t\<lparr>ledger := l\<rparr>" by (auto simp: post_in_def on_ledger_Inr t)
  then have u: "post_in now' (wallet_posting ids (w_currency w) m' (split_entries w (mv_amount m') x Credit)) s1 = Inr (p', s1\<lparr>ledger := l\<rparr>)"
    "ledger (s1\<lparr>ledger := l\<rparr>) = ledger s2" using assms(9) by (auto simp: post_in_def on_ledger_Inr)
  have "balance s2 i = balance s i" for i
    using split_posting_moves [OF inv1 _ assms(3) _ u(1) assms(8), of i] assms(2,4,9) ws first [of i] u(2)
    by (simp add: balance_def balance_in_def)
  then show ?thesis using active first enough by blast
qed

lemma inactive_lock: "w \<in> set (wallets s) \<Longrightarrow> w_status w \<noteq> Wallet_Active \<Longrightarrow> w_id w \<in> set ids \<Longrightarrow>
    lock_active_wallets ids s = Inl (Wallet_Err Wallet_Not_Active)"
  by (auto simp: lock_active_wallets_def list_all_iff require_def)

lemma inactive_post: "post_wallets now ids c m es s = Inr (p, s') \<Longrightarrow> w \<in> set (wallets s) \<Longrightarrow>
    w_status w \<noteq> Wallet_Active \<Longrightarrow> w_id w \<in> set ids \<Longrightarrow> s' = s \<and> ps_replayed p"
  by (erule post_wallets_Inr) (auto simp: inactive_lock)

lemma clearing_Inr: "clearing_account c s = Inr (a, s1) \<Longrightarrow> wallets s1 = wallets s \<and> ledger_txns (ledger s1) = ledger_txns (ledger s)"
  by (auto simp: clearing_account_def dest: ensure_account_extends ledger_move_wallets [OF ensure_account_move])

text \<open>
  A wallet that is not active takes part in no transfer, deposit, withdrawal or new hold:
  the operations inside a caller's transaction refuse it, the others can at most return a
  posting that was made before. That includes the stand-alone release of a hold.
\<close>

theorem inactive_wallet_refused:
  assumes "w \<in> set (wallets s)" and "w_status w \<noteq> Wallet_Active"
  shows "(\<forall>r k. deposit_within now (w_id w) m k s \<noteq> Inr r) \<and> (\<forall>r. reserve_within now (w_id w) m s \<noteq> Inr r) \<and>
    (\<forall>r x. reserve_split_within now (w_id w) m x s \<noteq> Inr r) \<and>
    (\<forall>r v. transfer_within now w v m s \<noteq> Inr r \<and> transfer_within now v w m s \<noteq> Inr r) \<and>
    (\<forall>p s' i. deposit now (w_id w) m s = Inr (p, s') \<or> withdraw now (w_id w) m s = Inr (p, s') \<or>
       reserve now (w_id w) m s = Inr (p, s') \<or> release now (w_id w) m s = Inr (p, s') \<or>
       wallet_transfer now (w_id w) i m s = Inr (p, s') \<or> wallet_transfer now i (w_id w) m s = Inr (p, s') \<longrightarrow>
       ps_replayed p \<and> ledger_txns (ledger s') = ledger_txns (ledger s))"
proof -
  note lock = inactive_lock [OF assms]
  note post = inactive_post [OF _ assms]
  have own: "ps_replayed p \<and> ledger_txns (ledger s') = ledger_txns (ledger s)"
    if "post_wallets now ids c m es s1 = Inr (p, s')" "wallets s1 = wallets s"
      "ledger_txns (ledger s1) = ledger_txns (ledger s)" "w_id w \<in> set ids" for ids c es s1 p s'
    using inactive_post [OF that(1), of w] that(2-4) assms by simp
  have within: "deposit_within now (w_id w) m k s \<noteq> Inr r" "reserve_within now (w_id w) m s \<noteq> Inr r"
    "reserve_split_within now (w_id w) m x s \<noteq> Inr r" "transfer_within now w v m s \<noteq> Inr r"
    "transfer_within now v w m s \<noteq> Inr r" for k r x v
    using inactive_lock [of w _ "[w_id w]"] assms clearing_Inr
    by (auto simp: deposit_within_def reserve_within_def reserve_split_within_def transfer_within_def lock bind_res_Inr_iff split: if_splits)
  have dep: "ps_replayed p \<and> ledger_txns (ledger s') = ledger_txns (ledger s)"
    if "deposit now (w_id w) m s = Inr (p, s') \<or> withdraw now (w_id w) m s = Inr (p, s')" for p s'
    using that own clearing_Inr by (fastforce simp: deposit_def withdraw_def bind_res_Inr_iff)
  have hold: "ps_replayed p \<and> ledger_txns (ledger s') = ledger_txns (ledger s)"
    if "reserve now (w_id w) m s = Inr (p, s') \<or> release now (w_id w) m s = Inr (p, s')" for p s'
    using that own by (fastforce simp: reserve_def release_def bind_res_Inr_iff)
  have move: "ps_replayed p \<and> ledger_txns (ledger s') = ledger_txns (ledger s)"
    if "wallet_transfer now (w_id w) i m s = Inr (p, s') \<or> wallet_transfer now i (w_id w) m s = Inr (p, s')" for p s' i
    using that own by (fastforce simp: wallet_transfer_def bind_res_Inr_iff split: if_splits)
  show ?thesis using within dep hold move by blast
qed

section \<open>An example\<close>

definition demo_config :: wallets_config where
  "demo_config = \<lparr>wc_default_currency = ''NGN'', wc_allowed_currencies = [''NGN'', ''USD''], wc_single = False\<rparr>"

definition demo_movement :: "string \<Rightarrow> int \<Rightarrow> movement" where
  "demo_movement r x = \<lparr>mv_amount = x, mv_reference = r, mv_description = ''d'', mv_metadata = []\<rparr>"

definition demo_open :: "nat \<Rightarrow> string \<Rightarrow> db \<Rightarrow> (wallet \<times> db) res" where
  "demo_open u c s = create_wallet demo_config s system_context 1 (User_Owner u) c s"

definition run_or :: "db \<Rightarrow> ('a \<times> db) res \<Rightarrow> db" where
  "run_or s r = (case r of Inr (x, s') \<Rightarrow> s' | Inl e \<Rightarrow> s)"

definition demo_one_wallet :: db where
  "demo_one_wallet = run_or empty_db (demo_open 7 ''NGN'' empty_db)"

definition demo_two_wallets :: db where
  "demo_two_wallets = run_or demo_one_wallet (demo_open 8 ''NGN'' demo_one_wallet)"

definition demo_funded :: db where
  "demo_funded = run_or demo_two_wallets (deposit_within 2 0 (demo_movement ''d'' 500) Available demo_two_wallets)"

definition demo_w :: "nat \<Rightarrow> wallet" where
  "demo_w n = wallets demo_two_wallets ! n"

lemma run_or_Inr: "\<not> isl r \<Longrightarrow> \<exists>x. r = Inr (x, run_or s r)"
  by (cases r) (auto simp: run_or_def)

lemma wallets_inv_empty: "wallets_inv empty_db"
  by (simp add: wallets_inv_def empty_db_def ledger_inv_empty wallet_rules_def)

lemma demo_open_inv: "wallets_inv s \<Longrightarrow> demo_open u c s = Inr (w, s') \<Longrightarrow> wallets_inv s'"
proof -
  assume "wallets_inv s" "demo_open u c s = Inr (w, s')"
  then show "wallets_inv s'" using create_wallet_Inr insert_wallet_Inr(1) unfolding demo_open_def by blast
qed

lemma demo_first: "\<not> isl (demo_open 7 ''NGN'' empty_db)"
  and demo_second: "\<not> isl (demo_open 8 ''NGN'' demo_one_wallet)"
  and demo_third: "\<not> isl (demo_open 7 ''USD'' demo_two_wallets)"
  and demo_deposited: "\<not> isl (deposit_within 2 0 (demo_movement ''d'' 500) Available demo_two_wallets)"
  by code_simp+

lemma demo_one_inv: "wallets_inv demo_one_wallet"
  using run_or_Inr [OF demo_first] demo_open_inv [OF wallets_inv_empty] unfolding demo_one_wallet_def by blast

lemma demo_two_inv: "wallets_inv demo_two_wallets"
  using run_or_Inr [OF demo_second] demo_open_inv [OF demo_one_inv] unfolding demo_two_wallets_def by blast

lemma demo_funded_inv: "wallets_inv demo_funded"
  using run_or_Inr [OF demo_deposited] wallets_inv_move [OF demo_two_inv] deposit_within_move
  unfolding demo_funded_def by blast

lemma demo_funded_wallets: "wallets demo_funded = [demo_w 0, demo_w 1] \<and> w_id (demo_w 0) = 0 \<and>
    demo_w 0 \<noteq> demo_w 1 \<and> w_available (demo_w 0) = 0 \<and> w_available (demo_w 1) = 3 \<and> w_status (demo_w 0) = Wallet_Active"
  by code_simp

theorem opening_keeps_wallet_rules_witness:
  "\<exists>w s'. demo_open 8 ''NGN'' demo_one_wallet = Inr (w, s') \<and> wallets_inv s' \<and> w_currency w = ''NGN''"
proof -
  obtain w s' where o: "demo_open 8 ''NGN'' demo_one_wallet = Inr (w, s')" using run_or_Inr [OF demo_second] by blast
  from opening_keeps_wallet_rules [OF demo_one_inv o [unfolded demo_open_def]] o show ?thesis by blast
qed

theorem second_wallet_refused_witness:
  "create_wallet demo_config empty_db system_context 5 (User_Owner 7) ''NGN'' demo_one_wallet =
     Inl (already_exists False ''NGN'')"
proof -
  have "find_wallet (User_Owner 7) ''NGN'' demo_one_wallet \<noteq> None" by code_simp
  then obtain v where v: "find_wallet (User_Owner 7) ''NGN'' demo_one_wallet = Some v" by blast
  have "currency_format ''NGN''" "''NGN'' \<in> set (wc_allowed_currencies demo_config)" by code_simp+
  from second_wallet_refused [OF v this] show ?thesis by (simp add: demo_config_def)
qed

theorem primary_is_unique_witness:
  "\<exists>r s s'. demo_open 7 ''USD'' demo_two_wallets = Inr (r, s) \<and> map w_is_primary (wallets s') = [False, True, True] \<and> wallets_inv s'"
proof -
  obtain w where o: "demo_open 7 ''USD'' demo_two_wallets = Inr (w, run_or demo_two_wallets (demo_open 7 ''USD'' demo_two_wallets))"
    using run_or_Inr [OF demo_third] by blast
  define s where "s = run_or demo_two_wallets (demo_open 7 ''USD'' demo_two_wallets)"
  have inv: "wallets_inv s" using demo_open_inv [OF demo_two_inv o] by (simp add: s_def)
  let ?p = "set_primary system_context 9 (User_Owner 7) 4 s"
  have run: "case ?p of Inl e \<Rightarrow> False | Inr (r, s') \<Rightarrow> map w_is_primary (wallets s') = [False, True, True]"
    unfolding s_def by code_simp
  then obtain r s' where p: "?p = Inr (r, s')" by (cases ?p) auto
  have "wallets_inv s'" using primary_is_unique [OF inv p] by (elim conjE)
  moreover have "map w_is_primary (wallets s') = [False, True, True]" using run unfolding p by (simp only: sum.case prod.case)
  ultimately show ?thesis using o by metis
qed

theorem transfer_moves_exactly_witness:
  "\<exists>p s'. transfer_within 3 (demo_w 0) (demo_w 1) (demo_movement ''t'' 200) demo_funded = Inr (p, s') \<and>
     balance s' 0 = 300 \<and> balance s' 3 = 200"
proof -
  let ?t = "transfer_within 3 (demo_w 0) (demo_w 1) (demo_movement ''t'' 200) demo_funded"
  have "case ?t of Inl e \<Rightarrow> False | Inr (p, s') \<Rightarrow> \<not> ps_replayed p" by code_simp
  then obtain p s' where t: "?t = Inr (p, s')" "\<not> ps_replayed p" by (cases ?t) auto
  have b: "balance demo_funded 0 = 500" "balance demo_funded 3 = 0" by code_simp+
  from transfer_moves_exactly [OF demo_funded_inv _ _ _ t] demo_funded_wallets b t(1)
  show ?thesis by (auto simp: demo_movement_def)
qed

theorem hold_and_release_witness:
  "\<exists>p s1 q s2. reserve_split_within 3 0 (demo_movement ''h'' 200) 0 demo_funded = Inr (p, s1) \<and>
     release_split_within 4 0 (demo_movement ''r'' 200) 0 (set_status 0 Wallet_Frozen s1) = Inr (q, s2) \<and>
     balance s1 0 = 300 \<and> (\<forall>i. balance s2 i = balance demo_funded i)"
proof -
  let ?h = "reserve_split_within 3 0 (demo_movement ''h'' 200) 0 demo_funded"
  let ?r = "\<lambda>s1. release_split_within 4 0 (demo_movement ''r'' 200) 0 (set_status 0 Wallet_Frozen s1)"
  have "case ?h of Inl e \<Rightarrow> False | Inr (p, s1) \<Rightarrow> \<not> ps_replayed p \<and> balance s1 0 = 300 \<and>
      (case ?r s1 of Inl e \<Rightarrow> False | Inr (q, s2) \<Rightarrow> \<not> ps_replayed q)" by code_simp
  from run_result [OF this] obtain p s1 where h: "?h = Inr (p, s1)" "\<not> ps_replayed p" "balance s1 0 = 300"
    and "case ?r s1 of Inl e \<Rightarrow> False | Inr (q, s2) \<Rightarrow> \<not> ps_replayed q" by blast
  from run_result [OF this(4)] obtain q s2 where r: "?r s1 = Inr (q, s2)" "\<not> ps_replayed q" by blast
  have "w_id (demo_w 0) = 0" "demo_w 0 \<in> set (wallets demo_funded)" using demo_funded_wallets by auto
  from hold_and_release [OF demo_funded_inv this(2), of 0 "demo_movement ''h'' 200" 3 p s1 4 "demo_movement ''r'' 200" Wallet_Frozen q s2]
    this(1) h r show ?thesis by (auto simp: demo_movement_def)
qed

theorem inactive_wallet_refused_witness:
  "release 5 0 (demo_movement ''r'' 200) (set_status 0 Wallet_Frozen demo_funded) = Inl (Wallet_Err Wallet_Not_Active) \<and>
   reserve_within 5 0 (demo_movement ''h'' 200) (set_status 0 Wallet_Frozen demo_funded) = Inl (Wallet_Err Wallet_Not_Active)"
proof -
  define s where "s = set_status 0 Wallet_Frozen demo_funded"
  let ?w = "(demo_w 0)\<lparr>w_status := Wallet_Frozen\<rparr>"
  have w: "?w \<in> set (wallets s)" "w_status ?w \<noteq> Wallet_Active" "w_id ?w = 0"
    using demo_funded_wallets by (auto simp: s_def set_status_def set_row_def)
  have "release 5 0 (demo_movement ''r'' 200) s = Inl (Wallet_Err Wallet_Not_Active)" unfolding s_def by code_simp
  moreover have "\<forall>r. reserve_within 5 0 (demo_movement ''h'' 200) s \<noteq> Inr r"
    using inactive_wallet_refused [OF w(1,2)] w(3) by auto
  moreover have "reserve_within 5 0 (demo_movement ''h'' 200) s = Inl (Wallet_Err Wallet_Not_Active)" unfolding s_def by code_simp
  ultimately show ?thesis by (simp add: s_def)
qed

end
