(* ===== verification/Rule_Book.thy ===== *)
theory Rule_Book
  imports Transactions
begin

text \<open>
  Fee rules and limit rules are kept the same way (\<open>src/fees/fees.service.ts\<close>,
  \<open>src/limits/limits.service.ts\<close>): a rule belongs to a scope (operation, currency,
  organization or default), is never edited, and at most one rule of a scope is active.
  \<open>rule_book\<close> is that contract; the two services interpret it.
\<close>

section \<open>Active rules\<close>

definition active_in :: "('r \<Rightarrow> 'k) \<Rightarrow> ('r \<Rightarrow> int option) \<Rightarrow> 'k \<Rightarrow> 'r list \<Rightarrow> 'r option" where
  "active_in scope ended k rows = find (\<lambda>r. scope r = k \<and> ended r = None) rows"

text \<open>An organization's own rule wins over the default.\<close>

definition effective_rule :: "('r \<Rightarrow> 'o \<times> string \<times> uuid option) \<Rightarrow> ('r \<Rightarrow> int option) \<Rightarrow> 'o \<Rightarrow> string \<Rightarrow> uuid option \<Rightarrow> 'r list \<Rightarrow> 'r option" where
  "effective_rule scope ended op currency org rows =
     (case (case org of None \<Rightarrow> None | Some g \<Rightarrow> active_in scope ended (op, currency, Some g) rows) of
        Some r \<Rightarrow> Some r
      | None \<Rightarrow> active_in scope ended (op, currency, None) rows)"

definition one_active :: "('r \<Rightarrow> 'k) \<Rightarrow> ('r \<Rightarrow> int option) \<Rightarrow> 'r list \<Rightarrow> bool" where
  "one_active scope ended rows \<longleftrightarrow>
     (\<forall>x \<in> set rows. \<forall>y \<in> set rows. ended x = None \<and> ended y = None \<and> scope x = scope y \<longrightarrow> x = y)"

lemma active_in_Some: "active_in scope ended k rows = Some r \<Longrightarrow> r \<in> set rows \<and> scope r = k \<and> ended r = None"
  unfolding active_in_def by (induction rows) (auto split: if_splits)

lemma active_in_None: "active_in scope ended k rows = None \<longleftrightarrow> (\<forall>r \<in> set rows. scope r = k \<longrightarrow> ended r \<noteq> None)"
  by (auto simp: active_in_def find_None_iff)

lemma active_in_iff:
  "one_active scope ended rows \<Longrightarrow> active_in scope ended k rows = Some r \<longleftrightarrow> r \<in> set rows \<and> scope r = k \<and> ended r = None"
proof
  assume one: "one_active scope ended rows" and r: "r \<in> set rows \<and> scope r = k \<and> ended r = None"
  then obtain x where x: "active_in scope ended k rows = Some x"
    using active_in_None [of scope ended k rows] by fastforce
  from active_in_Some [OF this] r one have "x = r" by (auto simp: one_active_def)
  with x show "active_in scope ended k rows = Some r" by simp
qed (rule active_in_Some)

section \<open>The contract\<close>

text \<open>Replacing the active rule of a scope, if there is one, by a new row.\<close>

definition supersede :: "('r \<Rightarrow> uuid) \<Rightarrow> ('r \<Rightarrow> 'k) \<Rightarrow> ('r \<Rightarrow> int option) \<Rightarrow> (int \<Rightarrow> 'r \<Rightarrow> 'r) \<Rightarrow> int \<Rightarrow> 'k \<Rightarrow> 'r list \<Rightarrow> 'r list" where
  "supersede rid scope ended close now k rows =
     (case active_in scope ended k rows of None \<Rightarrow> rows | Some p \<Rightarrow> set_row rid (rid p) (close now) rows)"

locale rule_book =
  fixes rows :: "db \<Rightarrow> 'r list" and rid :: "'r \<Rightarrow> uuid" and scope :: "'r \<Rightarrow> 'k" and ended :: "'r \<Rightarrow> int option"
    and close :: "int \<Rightarrow> 'r \<Rightarrow> 'r" and put :: "int \<Rightarrow> 'i \<Rightarrow> db \<Rightarrow> ('r \<times> db) res" and target :: "'i \<Rightarrow> 'k"
    and retire :: "int \<Rightarrow> uuid \<Rightarrow> db \<Rightarrow> ('r \<times> db) res"
  assumes close_laws: "rid (close t x) = rid x" "scope (close t x) = scope x" "ended (close t x) = Some t"
    and put_Inr: "put now inp s = Inr (r, s') \<Longrightarrow> rid r = next_id s \<and> next_id s < next_id s' \<and> scope r = target inp \<and>
      ended r = None \<and> rows s' = supersede rid scope ended close now (target inp) (rows s) @ [r]"
    and retire_Inr: "retire now i s = Inr (r, s') \<Longrightarrow> next_id s \<le> next_id s' \<and>
      (\<exists>x. row_by rid i (rows s) = Some x \<and> ended x = None \<and> r = close now x \<and> rows s' = set_row rid i (close now) (rows s))"
begin

definition book_ok :: "db \<Rightarrow> bool" where
  "book_ok s \<longleftrightarrow> distinct (map rid (rows s)) \<and> (\<forall>r \<in> set (rows s). rid r < next_id s) \<and> one_active scope ended (rows s)"

lemma in_closed:
  "distinct (map rid xs) \<Longrightarrow> row_by rid i xs = Some x \<Longrightarrow>
     y \<in> set (set_row rid i (close t) xs) \<longleftrightarrow> y = close t x \<or> y \<in> set xs \<and> y \<noteq> x"
proof (induction xs)
  case (Cons z zs)
  show ?case
  proof (cases "rid z = i")
    case True
    then show ?thesis using Cons by (auto simp: row_by_Cons set_row_Cons set_row_id)
  next
    case False
    then have r: "row_by rid i zs = Some x" using Cons.prems by (simp add: row_by_Cons)
    then have "z \<noteq> x" using False row_by_Some by fastforce
    then show ?thesis using False Cons r by (auto simp: set_row_Cons)
  qed
qed simp

lemma in_superseded:
  assumes "book_ok s"
  shows "y \<in> set (supersede rid scope ended close t k (rows s)) \<longleftrightarrow>
    (y \<in> set (rows s) \<and> (scope y = k \<longrightarrow> ended y \<noteq> None)) \<or> (\<exists>x \<in> set (rows s). scope x = k \<and> ended x = None \<and> y = close t x)"
proof (cases "active_in scope ended k (rows s)")
  case None
  then show ?thesis using None [unfolded active_in_None] by (auto simp: supersede_def None)
next
  case (Some p)
  have p: "p \<in> set (rows s)" "scope p = k" "ended p = None" using active_in_Some [OF Some] by auto
  have only: "x = p" if "x \<in> set (rows s)" "scope x = k" "ended x = None" for x
    using that p assms by (auto simp: book_ok_def one_active_def)
  have row: "row_by rid (rid p) (rows s) = Some p" using assms p(1) by (intro row_by_distinct) (auto simp: book_ok_def)
  have d: "distinct (map rid (rows s))" using assms by (simp add: book_ok_def)
  have "y \<in> set (supersede rid scope ended close t k (rows s)) \<longleftrightarrow> y = close t p \<or> y \<in> set (rows s) \<and> y \<noteq> p"
    using in_closed [OF d row] by (simp add: supersede_def Some)
  moreover have "y \<noteq> p \<longleftrightarrow> (scope y = k \<longrightarrow> ended y \<noteq> None)" if "y \<in> set (rows s)" using that only p by blast
  moreover have "(\<exists>x \<in> set (rows s). scope x = k \<and> ended x = None \<and> y = close t x) \<longleftrightarrow> y = close t p"
    using only p by blast
  ultimately show ?thesis by blast
qed

lemma rids_superseded: "map rid (supersede rid scope ended close t k xs) = map rid xs"
  by (auto simp: supersede_def map_set_row close_laws split: option.splits)

lemma active_put:
  assumes "book_ok s" and "put now inp s = Inr (r, s')"
  shows "y \<in> set (rows s') \<and> ended y = None \<longleftrightarrow> y = r \<or> y \<in> set (rows s) \<and> ended y = None \<and> scope y \<noteq> target inp"
proof -
  have rows: "rows s' = supersede rid scope ended close now (target inp) (rows s) @ [r]" and r: "ended r = None"
    using put_Inr [OF assms(2)] by auto
  have "y \<in> set (supersede rid scope ended close now (target inp) (rows s)) \<and> ended y = None \<longleftrightarrow>
      y \<in> set (rows s) \<and> ended y = None \<and> scope y \<noteq> target inp"
    unfolding in_superseded [OF assms(1)] using close_laws(3) by auto
  then show ?thesis using r by (auto simp: rows)
qed

lemma put_keeps:
  assumes "book_ok s" and "put now inp s = Inr (r, s')"
  shows "book_ok s'"
proof -
  note p = put_Inr [OF assms(2)]
  have ids: "map rid (rows s') = map rid (rows s) @ [next_id s]" using p by (simp add: rids_superseded)
  then have "distinct (map rid (rows s'))" using assms(1) by (auto simp: book_ok_def)
  moreover have "rid x < next_id s'" if "x \<in> set (rows s')" for x
  proof -
    have "rid x \<in> set (map rid (rows s) @ [next_id s])" unfolding ids [symmetric] using that by simp
    then show ?thesis using assms(1) p by (auto simp: book_ok_def intro: less_trans)
  qed
  moreover have "one_active scope ended (rows s')"
    unfolding one_active_def
  proof (intro ballI impI, elim conjE)
    fix x y assume xy: "x \<in> set (rows s')" "y \<in> set (rows s')" "ended x = None" "ended y = None" "scope x = scope y"
    then have "x = r \<or> x \<in> set (rows s) \<and> scope x \<noteq> target inp" "y = r \<or> y \<in> set (rows s) \<and> scope y \<noteq> target inp"
      using active_put [OF assms] by blast+
    moreover have "scope r = target inp" using p by simp
    moreover have "one_active scope ended (rows s)" using assms(1) by (simp add: book_ok_def)
    ultimately show "x = y" using xy(3-5) unfolding one_active_def by metis
  qed
  ultimately show ?thesis by (simp add: book_ok_def)
qed

lemma active_in_cong:
  assumes "one_active scope ended xs" and "one_active scope ended ys"
    and "\<And>y. y \<in> set xs \<and> ended y = None \<and> scope y = k \<longleftrightarrow> y \<in> set ys \<and> ended y = None \<and> scope y = k"
  shows "active_in scope ended k xs = active_in scope ended k ys"
proof -
  have "active_in scope ended k xs = Some y \<longleftrightarrow> active_in scope ended k ys = Some y" for y
    using active_in_iff [OF assms(1)] active_in_iff [OF assms(2)] assms(3) by blast
  then show ?thesis by (metis not_None_eq)
qed

text \<open>The new rule is the active one of its scope; every other scope keeps its rule.\<close>

lemma put_activates:
  assumes "book_ok s" and "put now inp s = Inr (r, s')"
  shows "active_in scope ended k (rows s') = (if k = target inp then Some r else active_in scope ended k (rows s))"
proof -
  have one: "one_active scope ended (rows s')" "one_active scope ended (rows s)"
    using put_keeps [OF assms] assms(1) by (simp_all add: book_ok_def)
  have r: "scope r = target inp" using put_Inr [OF assms(2)] by simp
  show ?thesis
  proof (cases "k = target inp")
    case True
    then show ?thesis using active_in_iff [OF one(1), of k r] active_put [OF assms, of r] r by simp
  next
    case False
    then have "active_in scope ended k (rows s') = active_in scope ended k (rows s)"
      using active_put [OF assms] r False by (intro active_in_cong one) metis
    then show ?thesis using False by simp
  qed
qed

text \<open>Rules are never edited or lost: each is there afterwards, as it was or closed now.\<close>

lemma put_history:
  assumes "book_ok s" and "put now inp s = Inr (r, s')" and "x \<in> set (rows s)"
  shows "x \<in> set (rows s') \<or> close now x \<in> set (rows s') \<and> ended x = None"
proof -
  have "rows s' = supersede rid scope ended close now (target inp) (rows s) @ [r]" using put_Inr [OF assms(2)] by simp
  then show ?thesis
    using in_superseded [OF assms(1), of x now "target inp"] in_superseded [OF assms(1), of "close now x" now "target inp"] assms(3)
    by (cases "scope x = target inp \<and> ended x = None") auto
qed

lemma retire_keeps:
  assumes "book_ok s" and "retire now i s = Inr (r, s')"
  shows "book_ok s'" and "active_in scope ended k (rows s') = (if k = scope r then None else active_in scope ended k (rows s))"
proof -
  from retire_Inr [OF assms(2)] obtain x where x: "row_by rid i (rows s) = Some x" "ended x = None" "r = close now x"
    and rows: "rows s' = set_row rid i (close now) (rows s)" and nx: "next_id s \<le> next_id s'" by blast
  have d: "distinct (map rid (rows s))" and one: "one_active scope ended (rows s)" using assms(1) by (auto simp: book_ok_def)
  have xin: "x \<in> set (rows s)" using row_by_Some [OF x(1)] by simp
  have act: "y \<in> set (rows s') \<and> ended y = None \<longleftrightarrow> y \<in> set (rows s) \<and> ended y = None \<and> y \<noteq> x" for y
    unfolding rows in_closed [OF d x(1)] using close_laws(3) [of now x] x(2) by auto
  have one': "one_active scope ended (rows s')"
    using one act unfolding one_active_def by metis
  have ids: "map rid (rows s') = map rid (rows s)" by (simp add: rows map_set_row close_laws)
  have "rid y < next_id s'" if "y \<in> set (rows s')" for y
  proof -
    have "rid y \<in> set (map rid (rows s))" unfolding ids [symmetric] using that by simp
    then show ?thesis using assms(1) nx by (auto simp: book_ok_def intro: less_le_trans)
  qed
  then show "book_ok s'" using d one' ids by (simp add: book_ok_def)
  have r: "scope r = scope x" using x(3) close_laws(2) by simp
  show "active_in scope ended k (rows s') = (if k = scope r then None else active_in scope ended k (rows s))"
  proof (cases "k = scope r")
    case True
    then have "active_in scope ended k (rows s') = None"
      using act one xin x(2) r unfolding active_in_None one_active_def by metis
    then show ?thesis using True by simp
  next
    case False
    then have "active_in scope ended k (rows s') = active_in scope ended k (rows s)"
      using act r False by (intro active_in_cong one one') metis
    then show ?thesis using False by simp
  qed
qed

end

end
