(* ===== verification/Fees.thy ===== *)
theory Fees
  imports Rule_Book
begin

text \<open>
  \<open>src/fees/fee-math.ts\<close> and \<open>src/fees/fees.service.ts\<close>: what an operation costs, and the
  rules that say so.
\<close>

section \<open>Fee arithmetic (fee-math.ts)\<close>

definition calculate_fee :: "int \<Rightarrow> fee_rule \<Rightarrow> int res" where
  "calculate_fee amount rule =
     (if amount \<le> 0 then Inl (Plain_Error ''Fee amount must be positive'')
      else let percentage = big_div (amount * fr_bps rule + 9999) 10000;
               fee = fr_fixed rule + percentage;
               fee' = (if fee < fr_min rule then fr_min rule else fee) in
        Inr (case fr_max rule of None \<Rightarrow> fee' | Some m \<Rightarrow> if fee' > m then m else fee'))"

section \<open>Rules\<close>

definition fee_scope :: "fee_rule \<Rightarrow> fee_operation \<times> string \<times> uuid option" where
  "fee_scope r = (fr_operation r, fr_currency r, fr_organization_id r)"

definition active_fee_rule :: "fee_operation \<Rightarrow> string \<Rightarrow> uuid option \<Rightarrow> db \<Rightarrow> fee_rule option" where
  "active_fee_rule op currency org s = effective_rule fee_scope fr_superseded_at op currency org (fee_rules s)"

record fee_quote =
  fq_amount :: int
  fq_currency :: string
  fq_rule :: "uuid option"

definition quote_fee :: "fee_operation \<Rightarrow> string \<Rightarrow> int \<Rightarrow> uuid option \<Rightarrow> db \<Rightarrow> fee_quote res" where
  "quote_fee op currency amount org s =
     (case active_fee_rule op currency org s of
        None \<Rightarrow> Inr \<lparr>fq_amount = 0, fq_currency = currency, fq_rule = None\<rparr>
      | Some r \<Rightarrow> bind_res (calculate_fee amount r) (\<lambda>fee.
          Inr \<lparr>fq_amount = fee, fq_currency = currency, fq_rule = Some (fr_id r)\<rparr>))"

definition quote_fee_covered :: "fee_operation \<Rightarrow> string \<Rightarrow> int \<Rightarrow> uuid option \<Rightarrow> db \<Rightarrow> fee_quote res" where
  "quote_fee_covered op currency amount org s =
     bind_res (quote_fee op currency amount org s) (\<lambda>fee.
       if fq_amount fee \<ge> amount \<and> fq_amount fee > 0
       then Inl (Fee_Err (Amount_Below_Fee (format_money (fq_amount fee) (fq_currency fee))))
       else Inr fee)"

record new_fee_rule =
  nf_operation :: fee_operation
  nf_currency :: string
  nf_organization_id :: "uuid option"
  nf_fixed :: int
  nf_bps :: int
  nf_min :: int
  nf_max :: "int option"

definition fee_target :: "new_fee_rule \<Rightarrow> fee_operation \<times> string \<times> uuid option" where
  "fee_target inp = (nf_operation inp, nf_currency inp, nf_organization_id inp)"

text \<open>The checks of the table, on a row.\<close>

definition fee_row_error :: "fee_rule \<Rightarrow> db_error option" where
  "fee_row_error r =
     (if \<not> (in_int8 (fr_fixed r) \<and> in_int8 (fr_min r) \<and> list_all in_int8 (case fr_max r of None \<Rightarrow> [] | Some m \<Rightarrow> [m]))
      then Some Numeric_Out_Of_Range
      else if \<not> (0 \<le> fr_fixed r \<and> 0 \<le> fr_min r \<and> (case fr_max r of None \<Rightarrow> True | Some m \<Rightarrow> fr_min r \<le> m))
      then Some (Check_Violation ''chk_fee_rules_amounts'')
      else if \<not> currency_format (fr_currency r) then Some (Check_Violation ''chk_fee_rules_currency'')
      else if \<not> (0 \<le> fr_bps r \<and> fr_bps r \<le> 10000) then Some (Check_Violation ''chk_fee_rules_percentage'')
      else None)"

definition close_fee_rule :: "int \<Rightarrow> fee_rule \<Rightarrow> fee_rule" where
  "close_fee_rule now r = r\<lparr>fr_superseded_at := Some now\<rparr>"

definition fee_rule_of :: "uuid \<Rightarrow> int \<Rightarrow> new_fee_rule \<Rightarrow> uuid \<Rightarrow> fee_rule" where
  "fee_rule_of admin now inp i =
     \<lparr>fr_id = i, fr_operation = nf_operation inp, fr_currency = nf_currency inp,
      fr_organization_id = nf_organization_id inp, fr_fixed = nf_fixed inp, fr_bps = nf_bps inp,
      fr_min = nf_min inp, fr_max = nf_max inp, fr_created_by = Some admin, fr_created_at = now,
      fr_superseded_at = None\<rparr>"

fun fee_operation_str :: "fee_operation \<Rightarrow> string" where
  "fee_operation_str Fee_Payment = ''payment''"
| "fee_operation_str Fee_Payout = ''payout''"
| "fee_operation_str Fee_Transfer = ''transfer''"

definition set_fee_rule :: "request_context \<Rightarrow> uuid \<Rightarrow> int \<Rightarrow> new_fee_rule \<Rightarrow> db \<Rightarrow> (fee_rule \<times> db) res" where
  "set_fee_rule ctx admin now inp s =
     (let previous = active_in fee_scope fr_superseded_at (fee_target inp) (fee_rules s);
          s1 = s\<lparr>fee_rules := supersede fr_id fee_scope fr_superseded_at close_fee_rule now (fee_target inp) (fee_rules s)\<rparr>;
          r = fee_rule_of admin now inp (next_id s) in
      case fee_row_error r of
        Some e \<Rightarrow> Inl (Db_Err e)
      | None \<Rightarrow>
          if active_in fee_scope fr_superseded_at (fee_target inp) (fee_rules s1) \<noteq> None
          then Inl (Db_Err (Unique_Violation (if nf_organization_id inp = None then ''uq_fee_rules_active_default''
                                              else ''uq_fee_rules_active_org'')))
          else Inr (r, record_audit ctx now ''fee_rule.set'' ''fee_rule'' (fr_id r) (nf_organization_id inp)
            [(''operation'', JStr (fee_operation_str (fr_operation r))), (''currency'', JStr (fr_currency r)),
             (''fixedAmount'', j_amount (fr_fixed r)), (''percentageBps'', JNum (fr_bps r)),
             (''minAmount'', j_amount (fr_min r)), (''maxAmount'', j_opt j_amount (fr_max r)),
             (''replaces'', j_opt (\<lambda>p. j_id (fr_id p)) previous)]
            (s1\<lparr>fee_rules := fee_rules s1 @ [r], next_id := Suc (next_id s1)\<rparr>)))"

definition retire_fee_rule :: "request_context \<Rightarrow> int \<Rightarrow> uuid \<Rightarrow> db \<Rightarrow> (fee_rule \<times> db) res" where
  "retire_fee_rule ctx now i s =
     bind_res (the_or (row_by fr_id i (fee_rules s)) (Fee_Err Fee_Rule_Not_Found)) (\<lambda>r.
       if fr_superseded_at r \<noteq> None then Inl (Fee_Err Fee_Rule_Already_Retired)
       else Inr (close_fee_rule now r, record_audit ctx now ''fee_rule.retired'' ''fee_rule'' i (fr_organization_id r) []
         (s\<lparr>fee_rules := set_row fr_id i (close_fee_rule now) (fee_rules s)\<rparr>)))"

text \<open>\<open>list\<close>: newest first, at most 500.\<close>

definition list_fee_rules :: "fee_operation option \<Rightarrow> string option \<Rightarrow> uuid option \<Rightarrow> bool \<Rightarrow> db \<Rightarrow> fee_rule list" where
  "list_fee_rules op currency org history s =
     take 500 (rev (sort_key fr_created_at (filter (\<lambda>r.
       (case op of None \<Rightarrow> True | Some v \<Rightarrow> fr_operation r = v) \<and> (case currency of None \<Rightarrow> True | Some v \<Rightarrow> fr_currency r = v) \<and>
       (case org of None \<Rightarrow> True | Some v \<Rightarrow> fr_organization_id r = Some v) \<and> (history \<or> fr_superseded_at r = None)) (fee_rules s))))"

section \<open>The fee book\<close>

lemma set_fee_rule_Inr:
  assumes "set_fee_rule ctx admin now inp s = Inr (r, s')"
  shows "r = fee_rule_of admin now inp (next_id s)" and "fee_row_error r = None"
    and "fee_rules s' = supersede fr_id fee_scope fr_superseded_at close_fee_rule now (fee_target inp) (fee_rules s) @ [r]"
    and "next_id s' = Suc (Suc (next_id s))" and "ledger s' = ledger s" and "transactions s' = transactions s"
  using assms by (auto simp: set_fee_rule_def Let_def split: option.splits if_splits)

lemma retire_fee_rule_Inr:
  assumes "retire_fee_rule ctx now i s = Inr (r, s')"
  obtains x where "row_by fr_id i (fee_rules s) = Some x" "fr_superseded_at x = None" "r = close_fee_rule now x"
    "fee_rules s' = set_row fr_id i (close_fee_rule now) (fee_rules s)" "next_id s' = Suc (next_id s)"
    "ledger s' = ledger s" "transactions s' = transactions s"
  using assms by (auto simp: retire_fee_rule_def bind_res_Inr_iff split: if_splits)

interpretation fee_book: rule_book fee_rules fr_id fee_scope fr_superseded_at close_fee_rule
  "\<lambda>now (ctx, admin, inp). set_fee_rule ctx admin now inp" "\<lambda>(ctx, admin, inp). fee_target inp"
  "\<lambda>now i. retire_fee_rule ctx now i" for ctx
proof (unfold_locales, goal_cases)
  case (4 now inp s r s')
  then obtain c admin inp' where i: "inp = (c, admin, inp')" "set_fee_rule c admin now inp' s = Inr (r, s')"
    by (cases inp) auto
  from set_fee_rule_Inr [OF i(2)] show ?case by (simp add: i(1) fee_rule_of_def fee_scope_def fee_target_def)
next
  case (5 now i s r s')
  then show ?case by (elim retire_fee_rule_Inr) auto
qed (simp_all add: close_fee_rule_def fee_scope_def)

lemma set_fee_rule_le: "set_fee_rule ctx admin now inp s = Inr (r, s') \<Longrightarrow> db_le s s'"
  using set_fee_rule_Inr(4-6) [of ctx admin now inp s r s'] by (intro db_leI) auto

lemma retire_fee_rule_le: "retire_fee_rule ctx now i s = Inr (r, s') \<Longrightarrow> db_le s s'"
  by (elim retire_fee_rule_Inr) (auto intro: db_leI)

section \<open>What a fee is\<close>

lemma calculate_fee_Inr:
  assumes "calculate_fee amount r = Inr fee" and "fee_row_error r = None"
  shows "0 < amount" and "fee = (let p = (amount * fr_bps r + 9999) div 10000; f = max (fr_min r) (fr_fixed r + p) in
      case fr_max r of None \<Rightarrow> f | Some m \<Rightarrow> min m f)"
proof -
  show a: "0 < amount" using assms(1) by (simp add: calculate_fee_def split: if_splits)
  have "0 \<le> amount * fr_bps r" using a assms(2) by (simp add: fee_row_error_def split: if_splits)
  then show "fee = (let p = (amount * fr_bps r + 9999) div 10000; f = max (fr_min r) (fr_fixed r + p) in
      case fr_max r of None \<Rightarrow> f | Some m \<Rightarrow> min m f)"
    using assms(1) a by (auto simp: calculate_fee_def Let_def big_div_nonneg split: option.splits)
qed

definition clamp_fee :: "fee_rule \<Rightarrow> int \<Rightarrow> int" where
  "clamp_fee r x = (let f = max (fr_min r) x in case fr_max r of None \<Rightarrow> f | Some m \<Rightarrow> min m f)"

lemma clamp_fee_step:
  assumes "x \<le> y"
  shows "clamp_fee r x \<le> clamp_fee r y" and "clamp_fee r y - clamp_fee r x \<le> y - x"
proof -
  have up: "max a x \<le> max a y" "max a y - max a x \<le> y - x" for a :: int using assms by (simp_all add: max_def)
  have down: "min m u \<le> min m v" "min m v - min m u \<le> v - u" if "u \<le> v" for m u v :: int
    using that by (simp_all add: min_def)
  let ?u = "max (fr_min r) x" and ?v = "max (fr_min r) y"
  show "clamp_fee r x \<le> clamp_fee r y"
    using up(1) down(1) [OF up(1)] by (cases "fr_max r") (simp_all add: clamp_fee_def)
  show "clamp_fee r y - clamp_fee r x \<le> y - x"
    using up(2) [of "fr_min r"] down(2) [OF up(1), of _ "fr_min r"]
    by (cases "fr_max r") (fastforce simp: clamp_fee_def intro: order_trans)+
qed

text \<open>
  C22. The fee of an acceptable rule is never negative, lies between the rule's bounds, is the
  least whole number of minor units that covers the fixed part and the percentage when no
  bound applies, grows with the amount, and never shrinks what is left after it.
\<close>

theorem fee_is_least_cover:
  assumes "fee_row_error r = None" and "calculate_fee amount r = Inr fee"
  shows "0 \<le> fee \<and> fr_min r \<le> fee \<and> (\<forall>m. fr_max r = Some m \<longrightarrow> fee \<le> m) \<and>
    (fr_min r < fee \<and> (\<forall>m. fr_max r = Some m \<longrightarrow> fee < m) \<longrightarrow>
       (\<forall>k. fee \<le> k \<longleftrightarrow> 10000 * fr_fixed r + amount * fr_bps r \<le> 10000 * k)) \<and>
    (\<forall>amount' fee'. amount \<le> amount' \<and> calculate_fee amount' r = Inr fee' \<longrightarrow>
       fee \<le> fee' \<and> fee' - fee \<le> amount' - amount)"
proof -
  have bps: "0 \<le> fr_bps r" "fr_bps r \<le> 10000" and mm: "\<And>m. fr_max r = Some m \<Longrightarrow> fr_min r \<le> m" and nn: "0 \<le> fr_min r" "0 \<le> fr_fixed r"
    using assms(1) by (auto simp: fee_row_error_def split: if_splits option.splits)
  note fee = calculate_fee_Inr [OF assms(2,1)]
  have mono: "fee \<le> fee'" and slope: "fee' - fee \<le> amount' - amount"
    if "amount \<le> amount'" "calculate_fee amount' r = Inr fee'" for amount' fee'
  proof -
    note fee' = calculate_fee_Inr [OF that(2) assms(1)]
    define p where "p x = (x * fr_bps r + 9999) div 10000" for x
    have le: "p amount \<le> p amount'" unfolding p_def using that(1) bps by (intro zdiv_mono1) (auto intro: mult_right_mono)
    have "amount' * fr_bps r + 9999 \<le> amount * fr_bps r + 9999 + (amount' - amount) * 10000"
      using mult_left_mono [OF bps(2), of "amount' - amount"] that(1) by (simp add: algebra_simps)
    then have "p amount' \<le> p amount + (amount' - amount)"
      unfolding p_def using zdiv_mono1 [of "amount' * fr_bps r + 9999" "amount * fr_bps r + 9999 + (amount' - amount) * 10000" 10000] by simp
    moreover have "fee = clamp_fee r (fr_fixed r + p amount)" "fee' = clamp_fee r (fr_fixed r + p amount')"
      using fee(2) fee'(2) by (simp_all add: clamp_fee_def p_def Let_def)
    ultimately show "fee \<le> fee'" "fee' - fee \<le> amount' - amount"
      using clamp_fee_step [of "fr_fixed r + p amount" "fr_fixed r + p amount'" r] le by simp_all
  qed
  have least: "fee \<le> k \<longleftrightarrow> 10000 * fr_fixed r + amount * fr_bps r \<le> 10000 * k"
    if "fr_min r < fee" "\<forall>m. fr_max r = Some m \<longrightarrow> fee < m" for k
  proof -
    have "fee = fr_fixed r + (amount * fr_bps r + 9999) div 10000"
      using fee(2) that by (auto simp: Let_def split: option.splits)
    then show ?thesis using ceil_div_le_iff [of 10000 "amount * fr_bps r" "k - fr_fixed r"] by (auto simp: algebra_simps)
  qed
  have "0 \<le> fee" "fr_min r \<le> fee" "\<forall>m. fr_max r = Some m \<longrightarrow> fee \<le> m"
    using fee(2) nn mm by (auto simp: Let_def split: option.splits)
  then show ?thesis using mono slope least by blast
qed

definition demo_fee_rule :: fee_rule where
  "demo_fee_rule = fee_rule_of 1 5 \<lparr>nf_operation = Fee_Payout, nf_currency = ''NGN'', nf_organization_id = None,
     nf_fixed = 50, nf_bps = 150, nf_min = 100, nf_max = Some 2000\<rparr> 0"

theorem fee_is_least_cover_witness:
  "calculate_fee 10001 demo_fee_rule = Inr 201 \<and> (\<forall>k. 201 \<le> k \<longleftrightarrow> 10000 * 50 + 10001 * 150 \<le> 10000 * (k :: int))"
proof -
  have ok: "fee_row_error demo_fee_rule = None" and fee: "calculate_fee 10001 demo_fee_rule = Inr 201" by code_simp+
  have "fr_min demo_fee_rule = 100" "fr_max demo_fee_rule = Some 2000" "fr_fixed demo_fee_rule = 50" "fr_bps demo_fee_rule = 150"
    by (simp_all add: demo_fee_rule_def fee_rule_of_def)
  with fee_is_least_cover [OF ok fee] fee show ?thesis by auto
qed

section \<open>What setting a rule does\<close>

definition fee_rules_ok :: "db \<Rightarrow> bool" where
  "fee_rules_ok s \<longleftrightarrow> distinct (map fr_id (fee_rules s)) \<and> (\<forall>r \<in> set (fee_rules s). fr_id r < next_id s) \<and>
     one_active fee_scope fr_superseded_at (fee_rules s)"

lemma fee_rules_ok_iff: "fee_book.book_ok = fee_rules_ok"
  by (intro ext) (simp add: fee_book.book_ok_def fee_rules_ok_def)

text \<open>
  A new fee rule is at once the rule of exactly its scope: an organization's own rule
  wins over the default, a default reaches the organizations without one, every other scope
  keeps its rule. At most one rule of a scope is active, and no past rule is edited or lost:
  the replaced one is closed with the time of the change.
\<close>

theorem fee_rule_takes_effect:
  assumes "fee_rules_ok s" and "set_fee_rule ctx admin now inp s = Inr (r, s')"
  shows "fee_rules_ok s' \<and>
    (\<forall>op currency org. active_fee_rule op currency org s' =
       (if fee_target inp = (op, currency, org) then Some r
        else if fee_target inp = (op, currency, None) \<and>
          (\<forall>g. org = Some g \<longrightarrow> active_in fee_scope fr_superseded_at (op, currency, Some g) (fee_rules s) = None)
        then Some r else active_fee_rule op currency org s)) \<and>
    (\<forall>x \<in> set (fee_rules s). x \<in> set (fee_rules s') \<or> close_fee_rule now x \<in> set (fee_rules s'))"
proof -
  have ok: "fee_book.book_ok s" using assms(1) by (simp add: fee_rules_ok_iff)
  have put: "(\<lambda>(ctx, admin, inp). set_fee_rule ctx admin now inp) (ctx, admin, inp) s = Inr (r, s')" using assms(2) by simp
  note act = fee_book.put_activates [OF ok put, simplified]
  have "active_fee_rule op currency org s' =
       (if fee_target inp = (op, currency, org) then Some r
        else if fee_target inp = (op, currency, None) \<and>
          (\<forall>g. org = Some g \<longrightarrow> active_in fee_scope fr_superseded_at (op, currency, Some g) (fee_rules s) = None)
        then Some r else active_fee_rule op currency org s)" for op currency org
    by (cases org) (auto simp: active_fee_rule_def effective_rule_def act split: option.splits)
  then show ?thesis
    using fee_book.put_keeps [OF ok put] fee_book.put_history [OF ok put] by (auto simp: fee_rules_ok_iff)
qed

definition demo_new_fee :: new_fee_rule where
  "demo_new_fee = \<lparr>nf_operation = Fee_Payout, nf_currency = ''NGN'', nf_organization_id = None,
     nf_fixed = 50, nf_bps = 150, nf_min = 100, nf_max = Some 2000\<rparr>"

definition demo_fees :: db where
  "demo_fees = empty_db\<lparr>fee_rules := [demo_fee_rule], next_id := 1\<rparr>"

theorem fee_rule_takes_effect_witness:
  "\<exists>r s'. set_fee_rule system_context 1 6 demo_new_fee demo_fees = Inr (r, s') \<and>
     active_fee_rule Fee_Payout ''NGN'' (Some 9) s' = Some r \<and> close_fee_rule 6 demo_fee_rule \<in> set (fee_rules s')"
proof -
  have "case set_fee_rule system_context 1 6 demo_new_fee demo_fees of Inl e \<Rightarrow> False
      | Inr (r, s') \<Rightarrow> \<not> list_ex (\<lambda>x. fr_superseded_at x = None \<and> fr_id x = 0) (fee_rules s')" by code_simp
  from run_result [OF this] obtain r s' where r: "set_fee_rule system_context 1 6 demo_new_fee demo_fees = Inr (r, s')"
    and gone: "\<not> list_ex (\<lambda>x. fr_superseded_at x = None \<and> fr_id x = 0) (fee_rules s')" by blast
  have ok: "fee_rules_ok demo_fees"
    by (simp add: fee_rules_ok_def demo_fees_def one_active_def demo_fee_rule_def fee_rule_of_def)
  have row: "fee_rules demo_fees = [demo_fee_rule]" "fr_superseded_at demo_fee_rule = None \<and> fr_id demo_fee_rule = 0"
    "fee_target demo_new_fee = (Fee_Payout, ''NGN'', None)" "fee_scope demo_fee_rule = (Fee_Payout, ''NGN'', None)"
    by (simp_all add: demo_fees_def demo_fee_rule_def fee_rule_of_def demo_new_fee_def fee_target_def fee_scope_def)
  have "demo_fee_rule \<notin> set (fee_rules s')" using gone row(2) by (auto simp: list_ex_iff)
  moreover have "active_in fee_scope fr_superseded_at (Fee_Payout, ''NGN'', Some 9) (fee_rules demo_fees) = None"
    by (simp add: row active_in_def)
  ultimately show ?thesis using fee_rule_takes_effect [OF ok r] r row(1,3) by auto
qed

end
