(* ===== verification/Limits.thy ===== *)
theory Limits
  imports Rule_Book
begin

text \<open>
  \<open>src/limits/limits.service.ts\<close>: velocity limits, checked inside the database transaction
  that records a payment, payout or transfer. The advisory lock makes checks of one owner
  run one after the other, so a check sees every transaction recorded before it.
\<close>

section \<open>Rules\<close>

definition DAY_MS :: int where "DAY_MS = 24 * 60 * 60 * 1000"
definition MONTH_MS :: int where "MONTH_MS = 30 * DAY_MS"

fun limited_type :: "limit_operation \<Rightarrow> txn_type" where
  "limited_type Limit_Payment = Ty_Payment"
| "limited_type Limit_Payout = Ty_Withdrawal"
| "limited_type Limit_Transfer = Ty_Transfer"

fun limit_operation_str :: "limit_operation \<Rightarrow> string" where
  "limit_operation_str Limit_Payment = ''payment''"
| "limit_operation_str Limit_Payout = ''payout''"
| "limit_operation_str Limit_Transfer = ''transfer''"

definition limit_scope :: "limit_rule \<Rightarrow> limit_operation \<times> string \<times> uuid option" where
  "limit_scope r = (lr_operation r, lr_currency r, lr_organization_id r)"

fun owner_organization :: "owner \<Rightarrow> uuid option" where
  "owner_organization (User_Owner u) = None"
| "owner_organization (Organization_Owner g) = Some g"

definition active_limit_rule :: "limit_operation \<Rightarrow> string \<Rightarrow> owner \<Rightarrow> db \<Rightarrow> limit_rule option" where
  "active_limit_rule op currency own s =
     effective_rule limit_scope lr_superseded_at op currency (owner_organization own) (limit_rules s)"

section \<open>Usage\<close>

record limit_usage =
  lu_daily_amount :: int
  lu_daily_count :: nat
  lu_monthly_amount :: int

definition limit_usage_of :: "int \<Rightarrow> owner \<Rightarrow> limit_rule \<Rightarrow> db \<Rightarrow> limit_usage" where
  "limit_usage_of now own r s =
     (let ty = limited_type (lr_operation r);
          daily = usage_within own ty (lr_currency r) (now - DAY_MS) s;
          monthly = (if lr_max_monthly r = None then 0
                     else ut_amount (usage_within own ty (lr_currency r) (now - MONTH_MS) s)) in
      \<lparr>lu_daily_amount = ut_amount daily, lu_daily_count = ut_count daily, lu_monthly_amount = monthly\<rparr>)"

text \<open>\<open>usageFor\<close>: the effective rule of every scope, by operation and currency.\<close>

definition limit_order :: "limit_rule \<Rightarrow> nat \<times> string" where
  "limit_order r = (case lr_operation r of Limit_Payment \<Rightarrow> 0 | Limit_Payout \<Rightarrow> 1 | Limit_Transfer \<Rightarrow> 2, lr_currency r)"

fun keep_effective :: "limit_rule list \<Rightarrow> limit_rule list \<Rightarrow> limit_rule list" where
  "keep_effective acc [] = acc"
| "keep_effective acc (r # rs) =
     keep_effective
       (if \<not> list_ex (\<lambda>x. limit_order x = limit_order r) acc then acc @ [r]
        else if lr_organization_id r \<noteq> None then map (\<lambda>x. if limit_order x = limit_order r then r else x) acc
        else acc) rs"

definition usage_for :: "int \<Rightarrow> owner \<Rightarrow> db \<Rightarrow> (limit_rule \<times> limit_usage) list" where
  "usage_for now own s =
     (let candidates = filter (\<lambda>r. lr_superseded_at r = None \<and>
            (lr_organization_id r = None \<or> lr_organization_id r = owner_organization own)) (limit_rules s);
          ordered = sort_key (fst \<circ> limit_order) (sort_key (map of_char \<circ> snd \<circ> limit_order :: limit_rule \<Rightarrow> nat list) candidates) in
      map (\<lambda>r. (r, limit_usage_of now own r s)) (keep_effective [] ordered))"

section \<open>The check\<close>

definition left_of :: "int \<Rightarrow> int \<Rightarrow> int" where
  "left_of cap used = (if cap - used > 0 then cap - used else 0)"

definition window_message :: "limit_operation \<Rightarrow> string \<Rightarrow> int \<Rightarrow> int \<Rightarrow> string \<Rightarrow> string" where
  "window_message op currency cap used window =
     ''This would exceed the '' @ limit_operation_str op @ '' limit of '' @ format_money cap currency @ '' per '' @ window @
     '' ('' @ format_money (left_of cap used) currency @ '' left)''"

definition exceeds :: "int option \<Rightarrow> int \<Rightarrow> bool" where
  "exceeds cap x = (case cap of None \<Rightarrow> False | Some m \<Rightarrow> x > m)"

definition assert_within_limits :: "int \<Rightarrow> owner \<Rightarrow> limit_operation \<Rightarrow> string \<Rightarrow> int \<Rightarrow> db \<Rightarrow> unit res" where
  "assert_within_limits now own op currency amount s =
     (case active_limit_rule op currency own s of
        None \<Rightarrow> Inr ()
      | Some r \<Rightarrow>
          if exceeds (lr_max_txn r) amount
          then Inl (Limit_Err (Limit_Exceeded (''The '' @ limit_operation_str op @ '' limit is '' @
                 format_money (the (lr_max_txn r)) currency @ '' per transaction'')))
          else if lr_max_daily r = None \<and> lr_max_daily_count r = None \<and> lr_max_monthly r = None then Inr ()
          else let u = limit_usage_of now own r s in
            if exceeds (lr_max_daily_count r) (int (lu_daily_count u) + 1)
            then Inl (Limit_Err (Limit_Exceeded (''The '' @ limit_operation_str op @ '' limit is '' @
                   show_int (the (lr_max_daily_count r)) @ '' per 24 hours'')))
            else if exceeds (lr_max_daily r) (lu_daily_amount u + amount)
            then Inl (Limit_Err (Limit_Exceeded (window_message op currency (the (lr_max_daily r)) (lu_daily_amount u) ''24 hours'')))
            else if exceeds (lr_max_monthly r) (lu_monthly_amount u + amount)
            then Inl (Limit_Err (Limit_Exceeded (window_message op currency (the (lr_max_monthly r)) (lu_monthly_amount u) ''30 days'')))
            else Inr ())"

section \<open>Setting and retiring rules\<close>

record new_limit_rule =
  nl_operation :: limit_operation
  nl_currency :: string
  nl_organization_id :: "uuid option"
  nl_max_txn :: "int option"
  nl_max_daily :: "int option"
  nl_max_daily_count :: "int option"
  nl_max_monthly :: "int option"

definition limit_target :: "new_limit_rule \<Rightarrow> limit_operation \<times> string \<times> uuid option" where
  "limit_target inp = (nl_operation inp, nl_currency inp, nl_organization_id inp)"

definition all_caps :: "(int \<Rightarrow> bool) \<Rightarrow> limit_rule \<Rightarrow> bool" where
  "all_caps p r \<longleftrightarrow> list_all (\<lambda>c. case c of None \<Rightarrow> True | Some x \<Rightarrow> p x)
     [lr_max_txn r, lr_max_daily r, lr_max_daily_count r, lr_max_monthly r]"

definition limit_row_error :: "limit_rule \<Rightarrow> db_error option" where
  "limit_row_error r =
     (if \<not> all_caps in_int8 r \<or> exceeds (lr_max_daily_count r) 2147483647 then Some Numeric_Out_Of_Range
      else if \<not> currency_format (lr_currency r) then Some (Check_Violation ''chk_limit_rules_currency'')
      else if \<not> all_caps (\<lambda>x. 0 < x) r then Some (Check_Violation ''chk_limit_rules_values'')
      else None)"

definition close_limit_rule :: "int \<Rightarrow> limit_rule \<Rightarrow> limit_rule" where
  "close_limit_rule now r = r\<lparr>lr_superseded_at := Some now\<rparr>"

definition limit_rule_of :: "uuid \<Rightarrow> int \<Rightarrow> new_limit_rule \<Rightarrow> uuid \<Rightarrow> limit_rule" where
  "limit_rule_of admin now inp i =
     \<lparr>lr_id = i, lr_operation = nl_operation inp, lr_currency = nl_currency inp,
      lr_organization_id = nl_organization_id inp, lr_max_txn = nl_max_txn inp, lr_max_daily = nl_max_daily inp,
      lr_max_daily_count = nl_max_daily_count inp, lr_max_monthly = nl_max_monthly inp,
      lr_created_by = Some admin, lr_created_at = now, lr_superseded_at = None\<rparr>"

definition set_limit_rule :: "request_context \<Rightarrow> uuid \<Rightarrow> int \<Rightarrow> new_limit_rule \<Rightarrow> db \<Rightarrow> (limit_rule \<times> db) res" where
  "set_limit_rule ctx admin now inp s =
     (let previous = active_in limit_scope lr_superseded_at (limit_target inp) (limit_rules s);
          s1 = s\<lparr>limit_rules := supersede lr_id limit_scope lr_superseded_at close_limit_rule now (limit_target inp) (limit_rules s)\<rparr>;
          r = limit_rule_of admin now inp (next_id s) in
      case limit_row_error r of
        Some e \<Rightarrow> Inl (Db_Err e)
      | None \<Rightarrow>
          if active_in limit_scope lr_superseded_at (limit_target inp) (limit_rules s1) \<noteq> None
          then Inl (Db_Err (Unique_Violation (if nl_organization_id inp = None then ''uq_limit_rules_active_default''
                                              else ''uq_limit_rules_active_org'')))
          else Inr (r, record_audit ctx now ''limit_rule.set'' ''limit_rule'' (lr_id r) (nl_organization_id inp)
            [(''operation'', JStr (limit_operation_str (lr_operation r))), (''currency'', JStr (lr_currency r)),
             (''maxPerTransaction'', j_opt j_amount (lr_max_txn r)), (''maxDailyAmount'', j_opt j_amount (lr_max_daily r)),
             (''maxDailyCount'', j_opt JNum (lr_max_daily_count r)), (''maxMonthlyAmount'', j_opt j_amount (lr_max_monthly r)),
             (''replaces'', j_opt (\<lambda>p. j_id (lr_id p)) previous)]
            (s1\<lparr>limit_rules := limit_rules s1 @ [r], next_id := Suc (next_id s1)\<rparr>)))"

definition retire_limit_rule :: "request_context \<Rightarrow> int \<Rightarrow> uuid \<Rightarrow> db \<Rightarrow> (limit_rule \<times> db) res" where
  "retire_limit_rule ctx now i s =
     bind_res (the_or (row_by lr_id i (limit_rules s)) (Limit_Err Limit_Rule_Not_Found)) (\<lambda>r.
       if lr_superseded_at r \<noteq> None then Inl (Limit_Err Limit_Rule_Already_Retired)
       else Inr (close_limit_rule now r, record_audit ctx now ''limit_rule.retired'' ''limit_rule'' i (lr_organization_id r) []
         (s\<lparr>limit_rules := set_row lr_id i (close_limit_rule now) (limit_rules s)\<rparr>)))"

definition list_limit_rules :: "limit_operation option \<Rightarrow> string option \<Rightarrow> uuid option \<Rightarrow> bool \<Rightarrow> db \<Rightarrow> limit_rule list" where
  "list_limit_rules op currency org history s =
     take 500 (rev (sort_key lr_created_at (filter (\<lambda>r.
       (case op of None \<Rightarrow> True | Some v \<Rightarrow> lr_operation r = v) \<and> (case currency of None \<Rightarrow> True | Some v \<Rightarrow> lr_currency r = v) \<and>
       (case org of None \<Rightarrow> True | Some v \<Rightarrow> lr_organization_id r = Some v) \<and> (history \<or> lr_superseded_at r = None)) (limit_rules s))))"

section \<open>The limit book\<close>

lemma set_limit_rule_Inr:
  assumes "set_limit_rule ctx admin now inp s = Inr (r, s')"
  shows "r = limit_rule_of admin now inp (next_id s)" and "limit_row_error r = None"
    and "limit_rules s' = supersede lr_id limit_scope lr_superseded_at close_limit_rule now (limit_target inp) (limit_rules s) @ [r]"
    and "next_id s' = Suc (Suc (next_id s))" and "ledger s' = ledger s" and "transactions s' = transactions s"
  using assms by (auto simp: set_limit_rule_def Let_def split: option.splits if_splits)

lemma retire_limit_rule_Inr:
  assumes "retire_limit_rule ctx now i s = Inr (r, s')"
  obtains x where "row_by lr_id i (limit_rules s) = Some x" "lr_superseded_at x = None" "r = close_limit_rule now x"
    "limit_rules s' = set_row lr_id i (close_limit_rule now) (limit_rules s)" "next_id s' = Suc (next_id s)"
    "ledger s' = ledger s" "transactions s' = transactions s"
  using assms by (auto simp: retire_limit_rule_def bind_res_Inr_iff split: if_splits)

interpretation limit_book: rule_book limit_rules lr_id limit_scope lr_superseded_at close_limit_rule
  "\<lambda>now (ctx, admin, inp). set_limit_rule ctx admin now inp" "\<lambda>(ctx, admin, inp). limit_target inp"
  "\<lambda>now i. retire_limit_rule ctx now i" for ctx
proof (unfold_locales, goal_cases)
  case (4 now inp s r s')
  then obtain c admin inp' where i: "inp = (c, admin, inp')" "set_limit_rule c admin now inp' s = Inr (r, s')"
    by (cases inp) auto
  from set_limit_rule_Inr [OF i(2)] show ?case by (simp add: i(1) limit_rule_of_def limit_scope_def limit_target_def)
next
  case (5 now i s r s')
  then show ?case by (elim retire_limit_rule_Inr) auto
qed (simp_all add: close_limit_rule_def limit_scope_def)

lemma set_limit_rule_le: "set_limit_rule ctx admin now inp s = Inr (r, s') \<Longrightarrow> db_le s s'"
  using set_limit_rule_Inr(4-6) [of ctx admin now inp s r s'] by (intro db_leI) auto

lemma retire_limit_rule_le: "retire_limit_rule ctx now i s = Inr (r, s') \<Longrightarrow> db_le s s'"
  by (elim retire_limit_rule_Inr) (auto intro: db_leI)

section \<open>What the limits guarantee\<close>

definition cap_ok :: "int option \<Rightarrow> int \<Rightarrow> bool" where
  "cap_ok cap x \<longleftrightarrow> (\<forall>m. cap = Some m \<longrightarrow> x \<le> m)"

lemma exceeds_iff: "exceeds cap x \<longleftrightarrow> \<not> cap_ok cap x"
  by (auto simp: exceeds_def cap_ok_def split: option.splits)

text \<open>The check passes exactly when every cap of the effective rule still holds with the
  new amount; a missing cap is no limit.\<close>

lemma assert_within_limits_iff:
  "assert_within_limits now own op currency amount s = Inr () \<longleftrightarrow>
     (\<forall>r. active_limit_rule op currency own s = Some r \<longrightarrow>
        cap_ok (lr_max_txn r) amount \<and>
        cap_ok (lr_max_daily_count r) (int (lu_daily_count (limit_usage_of now own r s)) + 1) \<and>
        cap_ok (lr_max_daily r) (lu_daily_amount (limit_usage_of now own r s) + amount) \<and>
        cap_ok (lr_max_monthly r) (lu_monthly_amount (limit_usage_of now own r s) + amount))"
  by (auto simp: assert_within_limits_def exceeds_iff Let_def cap_ok_def split: option.splits if_splits)

lemma usage_create:
  assumes "create_transaction hex now inp s = Inr (t, s')" and "nt_type inp = ty" and "nt_currency inp = c"
    and "owner_where own (nt_user_id inp) (nt_organization_id inp)" and "nt_status inp \<notin> {Failed, Cancelled, Expired}"
    and "since \<le> now"
  shows "usage_within own ty c since s' =
    \<lparr>ut_amount = ut_amount (usage_within own ty c since s) + nt_amount inp, ut_count = Suc (ut_count (usage_within own ty c since s))\<rparr>"
proof -
  note t = create_transaction_Inr(1,2) [OF assms(1)]
  have "t_type t = ty" "t_currency t = c" "t_status t = nt_status inp" "t_amount t = nt_amount inp" "t_created_at t = now"
    "owner_where own (t_user_id t) (t_organization_id t)"
    using assms by (simp_all add: t(1) txn_of_def)
  then show ?thesis using assms(5,6) by (simp add: usage_within_def t(2) Let_def)
qed

text \<open>
  C23. An operation that passed the limit check and is then recorded leaves its owner within
  every cap of the effective rule: the amount itself, the number and the sum of the last 24
  hours and the sum of the last 30 days, all counted with the new transaction.
\<close>

theorem limits_hold_after:
  assumes "assert_within_limits now own op currency amount s = Inr ()"
    and "create_transaction hex now inp s = Inr (t, s')"
    and "nt_type inp = limited_type op" and "nt_currency inp = currency" and "nt_amount inp = amount"
    and "owner_where own (nt_user_id inp) (nt_organization_id inp)" and "nt_status inp \<notin> {Failed, Cancelled, Expired}"
    and "active_limit_rule op currency own s = Some r"
  shows "active_limit_rule op currency own s' = Some r \<and> cap_ok (lr_max_txn r) (t_amount t) \<and>
    cap_ok (lr_max_daily_count r) (int (ut_count (usage_within own (limited_type op) currency (now - DAY_MS) s'))) \<and>
    cap_ok (lr_max_daily r) (ut_amount (usage_within own (limited_type op) currency (now - DAY_MS) s')) \<and>
    cap_ok (lr_max_monthly r) (ut_amount (usage_within own (limited_type op) currency (now - MONTH_MS) s'))"
proof -
  have scope: "lr_operation r = op" "lr_currency r = currency"
    using assms(8) by (auto simp: active_limit_rule_def effective_rule_def limit_scope_def dest!: active_in_Some split: option.splits)
  have "limit_rules s' = limit_rules s" and amt: "t_amount t = amount"
    using create_transaction_Inr(1,2) [OF assms(2)] assms(5) by (simp_all add: txn_of_def)
  then have "active_limit_rule op currency own s' = Some r" using assms(8) by (simp add: active_limit_rule_def)
  moreover note caps = assms(1) [unfolded assert_within_limits_iff, rule_format, OF assms(8)]
  moreover note use = usage_create [OF assms(2-4) assms(6,7)]
  ultimately show ?thesis
    using use [of "now - DAY_MS"] use [of "now - MONTH_MS"] amt scope assms(5)
    by (auto simp: limit_usage_of_def Let_def DAY_MS_def MONTH_MS_def cap_ok_def)
qed

definition demo_limit_rule :: limit_rule where
  "demo_limit_rule = \<lparr>lr_id = 0, lr_operation = Limit_Payout, lr_currency = ''NGN'', lr_organization_id = None,
     lr_max_txn = Some 1000, lr_max_daily = Some 1500, lr_max_daily_count = Some 2, lr_max_monthly = None,
     lr_created_by = None, lr_created_at = 0, lr_superseded_at = None\<rparr>"

definition demo_limits :: db where
  "demo_limits = empty_db\<lparr>limit_rules := [demo_limit_rule], next_id := 1\<rparr>"

definition demo_payout_txn :: "int \<Rightarrow> new_transaction" where
  "demo_payout_txn x = plain_transaction Ty_Withdrawal Pending x ''NGN'' (Some 4, None)"

definition demo_limited :: db where
  "demo_limited = (case create_transaction ''a'' 100 (demo_payout_txn 900) demo_limits of Inr (t, s) \<Rightarrow> s)"

theorem limits_hold_after_witness:
  "\<exists>t s'. create_transaction ''b'' 200 (demo_payout_txn 600) demo_limited = Inr (t, s') \<and>
     cap_ok (Some 1500) (ut_amount (usage_within (User_Owner 4) Ty_Withdrawal ''NGN'' (200 - DAY_MS) s')) \<and>
     assert_within_limits 300 (User_Owner 4) Limit_Payout ''NGN'' 1 s' = Inl (Limit_Err (Limit_Exceeded ''The payout limit is 2 per 24 hours''))"
proof -
  let ?c = "create_transaction ''b'' 200 (demo_payout_txn 600) demo_limited"
  have "case ?c of Inl e \<Rightarrow> False | Inr (t, s') \<Rightarrow>
      assert_within_limits 300 (User_Owner 4) Limit_Payout ''NGN'' 1 s' = Inl (Limit_Err (Limit_Exceeded ''The payout limit is 2 per 24 hours''))"
    by code_simp
  from run_result [OF this] obtain t s' where t: "?c = Inr (t, s')" and
    no: "assert_within_limits 300 (User_Owner 4) Limit_Payout ''NGN'' 1 s' = Inl (Limit_Err (Limit_Exceeded ''The payout limit is 2 per 24 hours''))"
    by blast
  have "assert_within_limits 200 (User_Owner 4) Limit_Payout ''NGN'' 600 demo_limited = Inr ()" by code_simp
  moreover have "active_limit_rule Limit_Payout ''NGN'' (User_Owner 4) demo_limited = Some demo_limit_rule" by code_simp
  moreover have "nt_type (demo_payout_txn 600) = limited_type Limit_Payout" "nt_currency (demo_payout_txn 600) = ''NGN''"
    "nt_amount (demo_payout_txn 600) = 600" "nt_status (demo_payout_txn 600) \<notin> {Failed, Cancelled, Expired}"
    "owner_where (User_Owner 4) (nt_user_id (demo_payout_txn 600)) (nt_organization_id (demo_payout_txn 600))"
    by (simp_all add: demo_payout_txn_def plain_transaction_def)
  ultimately have "cap_ok (lr_max_daily demo_limit_rule) (ut_amount (usage_within (User_Owner 4) (limited_type Limit_Payout) ''NGN'' (200 - DAY_MS) s'))"
    using limits_hold_after [OF _ t, of "User_Owner 4" Limit_Payout "''NGN''" 600 demo_limit_rule] by blast
  then show ?thesis using t no by (auto simp: demo_limit_rule_def)
qed

end
