(* ===== verification/Effects.thy ===== *)
theory Effects
  imports Wallet_Theorems
begin

text \<open>
  What the movements of money do to every account, for the services that combine several of
  them in one database transaction. \<open>credit s i\<close> is the balance of account \<open>i\<close> seen from its
  credit side: for a wallet account what its owner has, for a clearing account what went out
  through it. \<open>fresh s r\<close> says that the reference \<open>r\<close> has not been posted.
\<close>

definition credit :: "db \<Rightarrow> uuid \<Rightarrow> int" where
  "credit s i = - position s i"

definition fresh :: "db \<Rightarrow> string \<Rightarrow> bool" where
  "fresh s r \<longleftrightarrow> txn_by_reference (ledger s) r = None"

definition is_system :: "db \<Rightarrow> system_account \<Rightarrow> uuid \<Rightarrow> bool" where
  "is_system s sa i \<longleftrightarrow> (\<exists>a. account_in s i = Some a \<and> la_code a = Some (sa_code sa))"

text \<open>A step that may use some references and changes credits by \<open>d\<close>.\<close>

definition effect :: "string list \<Rightarrow> (uuid \<Rightarrow> int) \<Rightarrow> db \<Rightarrow> db \<Rightarrow> bool" where
  "effect refs d s s' \<longleftrightarrow> ledger_ok s' \<and> db_le s s' \<and> (\<forall>i. credit s' i = credit s i + d i) \<and>
     (\<forall>r. fresh s' r \<longleftrightarrow> r \<notin> set refs \<and> fresh s r)"

definition only_at :: "uuid \<Rightarrow> int \<Rightarrow> uuid \<Rightarrow> int" where
  "only_at i x j = (if j = i then x else 0)"

lemma effect_none: "ledger_ok s \<Longrightarrow> effect [] (\<lambda>i. 0) s s"
  by (simp add: effect_def)

lemma effect_trans:
  "effect r1 d1 s s1 \<Longrightarrow> effect r2 d2 s1 s2 \<Longrightarrow> effect (r1 @ r2) (\<lambda>i. d1 i + d2 i) s s2"
  unfolding effect_def using db_le_trans by auto

lemma effect_same_ledger:
  "effect rs d s s1 \<Longrightarrow> ledger s2 = ledger s1 \<Longrightarrow> db_le s1 s2 \<Longrightarrow> effect rs d s s2"
  by (auto simp: effect_def credit_def position_def position_in_def fresh_def intro: db_le_trans)

lemma effect_after_same_ledger:
  "effect rs d s1 s2 \<Longrightarrow> ledger s1 = ledger s \<Longrightarrow> db_le s s1 \<Longrightarrow> effect rs d s s2"
  by (auto simp: effect_def credit_def position_def position_in_def fresh_def intro: db_le_trans)

lemma is_system_le: "is_system s sa i \<Longrightarrow> db_le s s' \<Longrightarrow> ledger_ok s \<Longrightarrow> is_system s' sa i"
  by (fastforce simp: is_system_def db_le_def accounts_le_def)

lemma is_system_not_wallet:
  "is_system s sa i \<Longrightarrow> wallets_inv s \<Longrightarrow> w \<in> set (wallets s) \<Longrightarrow> balance_account w k \<noteq> i"
proof -
  assume sys: "is_system s sa i" and inv: "wallets_inv s" and w: "w \<in> set (wallets s)"
  have "balance_account w k \<in> set (wallet_accounts w)" by (cases k) (simp_all add: wallet_accounts_def)
  then have "wallet_account_ok s (w_currency w) (balance_account w k)" using inv w by (simp add: wallets_inv_def)
  then show "balance_account w k \<noteq> i" using sys by (auto simp: is_system_def wallet_account_ok_def)
qed

lemma system_codes_inj:
  "is_system s sa i \<Longrightarrow> is_system s sb j \<Longrightarrow> sa_code sa \<noteq> sa_code sb \<Longrightarrow> i \<noteq> j"
  by (auto simp: is_system_def)

lemma wallet_credit:
  assumes "wallets_inv s" and "w \<in> set (wallets s)"
  shows "credit s (balance_account w k) = balance s (balance_account w k)"
proof -
  obtain a where "account_in s (balance_account w k) = Some a" "la_normal a = Credit"
    using wallet_account_in [OF assms, of k] by blast
  then show ?thesis by (simp add: credit_def balance_def balance_in_def position_def position_in_def debit_position_def)
qed

lemma wallet_credit_nonneg:
  assumes "wallets_inv s" and "w \<in> set (wallets s)"
  shows "0 \<le> credit s (balance_account w k)"
proof -
  have ok: "ledger_ok s" using assms(1) by (simp add: wallets_inv_def)
  obtain a where "account_in s (balance_account w k) = Some a" "la_normal a = Credit" "\<not> la_allow_negative a"
    using wallet_account_in [OF assms, of k] by blast
  with inside.acct_ok [OF ok this(1)] show ?thesis
    by (simp add: credit_def position_def position_in_def debit_position_def account_ok_def)
qed

section \<open>Postings\<close>

lemma post_in_effect:
  assumes "ledger_ok s" and "fresh s (pi_reference inp)" and "post_in now inp s = Inr (p, s')"
  shows "\<not> ps_replayed p" and "effect [pi_reference inp] (credit_net (pi_entries inp)) s s'"
    and "\<exists>amount. validate_posting inp = Inr amount"
proof -
  have ref: "txn_by_reference (ledger s) (pi_reference inp) = None" using assms(2) by (simp add: fresh_def)
  note new = post_in_new [OF assms(1) ref assms(3)]
  show "\<not> ps_replayed p" by (rule new(1))
  show "\<exists>amount. validate_posting inp = Inr amount" by (rule inside.op_valid [OF assms(3)])
  have "credit s' i = credit s i + credit_net (pi_entries inp) i" for i
    using inside.position_moves [OF assms(1,3) new(1), of i] by (simp add: credit_def position_def credit_net_def)
  moreover have "fresh s' r \<longleftrightarrow> r \<noteq> pi_reference inp \<and> fresh s r" for r
    using new(2,3) by (auto simp: fresh_def row_by_append row_by_Cons split: option.splits)
  ultimately show "effect [pi_reference inp] (credit_net (pi_entries inp)) s s'"
    using inside.op_good [OF assms(1,3)] post_in_le [OF assms(3)] by (simp add: effect_def)
qed

lemma ensure_account_effect:
  assumes "ledger_ok s" and "ensure_account sa s = Inr (a, s')"
  shows "effect [] (\<lambda>i. 0) s s'" and "is_system s' sa (la_id a)"
  using assms ensure_account_position [OF assms] ensure_account_extends [OF assms(2)] ensure_account_ok [OF assms]
    ensure_account_le [OF assms(2)] ensure_account_there [OF assms] ensure_account_code [OF assms(2)]
  by (auto simp: effect_def credit_def fresh_def is_system_def)

lemma wallet_posting_simps [simp]:
  "pi_reference (wallet_posting ids c m es) = mv_reference m" "pi_entries (wallet_posting ids c m es) = es"
  "pi_currency (wallet_posting ids c m es) = c"
  by (simp_all add: wallet_posting_def)

lemma move_legs_net: "credit_net (move_legs i j x) k = only_at j x k - only_at i x k"
  by (auto simp: credit_net_def move_legs_def posting_value_def only_at_def)

lemma effect_cong: "effect rs d s s' \<Longrightarrow> (\<And>i. d i = d' i) \<Longrightarrow> effect rs d' s s'"
  by (simp add: effect_def)

text \<open>What two legs of a posting say about the amount.\<close>

lemma move_legs_valid: "validate_posting (wallet_posting ids c m (move_legs i j (mv_amount m))) = Inr a \<Longrightarrow> 0 < mv_amount m"
  by (simp add: validate_posting_Inr move_legs_def)

lemma one_wallet_effect:
  assumes "ledger_ok s" and "fresh s (mv_reference m)"
    and "post_in now (wallet_posting ids c m (move_legs i j (mv_amount m))) s = Inr (p, s')"
  shows "effect [mv_reference m] (\<lambda>k. only_at j (mv_amount m) k - only_at i (mv_amount m) k) s s'"
    and "0 < mv_amount m" and "\<not> ps_replayed p"
proof -
  note e = post_in_effect [OF assms(1) _ assms(3), simplified, OF assms(2)]
  show "\<not> ps_replayed p" by (rule e(1))
  show "effect [mv_reference m] (\<lambda>k. only_at j (mv_amount m) k - only_at i (mv_amount m) k) s s'"
    by (rule effect_cong [OF e(2) move_legs_net])
  show "0 < mv_amount m" using e(3) move_legs_valid by blast
qed

text \<open>Two legs, one of them on a system account opened for the purpose.\<close>

lemma ensure_then_post:
  assumes "ledger_ok s" and "fresh s (mv_reference m)" and "ensure_account sa s = Inr (a, s1)"
    and "post_in now (wallet_posting ids c m (move_legs i j (mv_amount m))) s1 = Inr (p, s')"
  shows "effect [mv_reference m] (\<lambda>k. only_at j (mv_amount m) k - only_at i (mv_amount m) k) s s'"
    and "is_system s' sa (la_id a)" and "0 < mv_amount m" and "\<not> ps_replayed p"
proof -
  note a = ensure_account_effect [OF assms(1,3)]
  have ok: "ledger_ok s1" and fr: "fresh s1 (mv_reference m)" using a(1) assms(2) by (auto simp: effect_def)
  note e = one_wallet_effect [OF ok fr assms(4)]
  show "is_system s' sa (la_id a)" by (rule is_system_le [OF a(2) post_in_le [OF assms(4)] ok])
  show "effect [mv_reference m] (\<lambda>k. only_at j (mv_amount m) k - only_at i (mv_amount m) k) s s'"
    using effect_trans [OF a(1) e(1)] by simp
  show "0 < mv_amount m" "\<not> ps_replayed p" by (rule e)+
qed

section \<open>Movements of wallets\<close>

lemma transfer_within_effect:
  assumes "ledger_ok s" and "fresh s (mv_reference m)" and "transfer_within now a b m s = Inr (p, s')"
  shows "effect [mv_reference m] (\<lambda>i. only_at (w_available b) (mv_amount m) i - only_at (w_available a) (mv_amount m) i) s s'"
    and "0 < mv_amount m" and "lock_active_wallets [w_id a, w_id b] s = Inr ()"
    and "w_currency a = w_currency b" and "\<not> ps_replayed p"
proof -
  have post: "post_in now (wallet_posting [w_id a, w_id b] (w_currency a) m (move_legs (w_available a) (w_available b) (mv_amount m))) s = Inr (p, s')"
    and "w_currency a = w_currency b" and "lock_active_wallets [w_id a, w_id b] s = Inr ()"
    using assms(3) by (auto simp: transfer_within_def bind_res_Inr_iff split: if_splits)
  then show "w_currency a = w_currency b" "lock_active_wallets [w_id a, w_id b] s = Inr ()" by simp_all
  show "effect [mv_reference m] (\<lambda>i. only_at (w_available b) (mv_amount m) i - only_at (w_available a) (mv_amount m) i) s s'"
    "0 < mv_amount m" "\<not> ps_replayed p"
    by (rule one_wallet_effect [OF assms(1,2) post])+
qed

lemma collect_fee_within_effect:
  assumes "ledger_ok s" and "fresh s (mv_reference m)" and "collect_fee_within now i k m s = Inr (p, s')"
  obtains w f where "get_wallet i s = Inr w" "is_system s' (fee_revenue (w_currency w)) f"
    "effect [mv_reference m] (\<lambda>j. only_at f (mv_amount m) j - only_at (balance_account w k) (mv_amount m) j) s s'"
    "0 < mv_amount m"
proof -
  obtain w r s1 where w: "get_wallet i s = Inr w" and r: "ensure_account (fee_revenue (w_currency w)) s = Inr (r, s1)"
    and post: "post_in now (wallet_posting [i] (w_currency w) m (move_legs (balance_account w k) (la_id r) (mv_amount m))) s1 = Inr (p, s')"
    using assms(3) by (auto simp: collect_fee_within_def bind_res_Inr_iff)
  from that [OF w] ensure_then_post [OF assms(1,2) r post] show ?thesis by blast
qed

lemma refund_fee_within_effect:
  assumes "ledger_ok s" and "fresh s (mv_reference m)" and "refund_fee_within now i m s = Inr (p, s')"
  obtains w f where "get_wallet i s = Inr w" "is_system s' (fee_revenue (w_currency w)) f"
    "effect [mv_reference m] (\<lambda>j. only_at (w_available w) (mv_amount m) j - only_at f (mv_amount m) j) s s'"
    "0 < mv_amount m"
proof -
  obtain w r s1 where w: "get_wallet i s = Inr w" and r: "ensure_account (fee_revenue (w_currency w)) s = Inr (r, s1)"
    and post: "post_in now (wallet_posting [i] (w_currency w) m (move_legs (la_id r) (w_available w) (mv_amount m))) s1 = Inr (p, s')"
    using assms(3) by (auto simp: refund_fee_within_def bind_res_Inr_iff)
  from that [OF w] ensure_then_post [OF assms(1,2) r post] show ?thesis by blast
qed

lemma deposit_within_effect:
  assumes "ledger_ok s" and "fresh s (mv_reference m)" and "deposit_within now i m k s = Inr (p, s')"
  obtains w c where "get_wallet i s = Inr w" "is_system s' (external_clearing (w_currency w)) c"
    "effect [mv_reference m] (\<lambda>j. only_at (balance_account w k) (mv_amount m) j - only_at c (mv_amount m) j) s s'"
    "0 < mv_amount m" "lock_active_wallets [i] s = Inr ()" "\<not> ps_replayed p"
proof -
  obtain w c s1 where w: "get_wallet i s = Inr w" and c: "ensure_account (external_clearing (w_currency w)) s = Inr (c, s1)"
    and lock: "lock_active_wallets [i] s1 = Inr ()"
    and post: "post_in now (wallet_posting [i] (w_currency w) m (move_legs (la_id c) (balance_account w k) (mv_amount m))) s1 = Inr (p, s')"
    using assms(3) by (auto simp: deposit_within_def clearing_account_def bind_res_Inr_iff)
  have "lock_active_wallets [i] s = Inr ()"
    using lock ledger_move_wallets [OF ensure_account_move [OF c]] by (simp add: lock_active_wallets_def)
  with that [OF w] ensure_then_post [OF assms(1,2) c post] show ?thesis by blast
qed

lemma reserve_within_effect:
  assumes "ledger_ok s" and "fresh s (mv_reference m)" and "reserve_within now i m s = Inr (p, s')"
  obtains w where "get_wallet i s = Inr w" "lock_active_wallets [i] s = Inr ()" "0 < mv_amount m"
    "effect [mv_reference m] (\<lambda>k. only_at (w_reserved w) (mv_amount m) k - only_at (w_available w) (mv_amount m) k) s s'"
proof -
  obtain w where w: "get_wallet i s = Inr w" and l: "lock_active_wallets [i] s = Inr ()"
    and post: "post_in now (wallet_posting [i] (w_currency w) m (move_legs (w_available w) (w_reserved w) (mv_amount m))) s = Inr (p, s')"
    using assms(3) by (auto simp: reserve_within_def bind_res_Inr_iff)
  from that [OF w l] one_wallet_effect [OF assms(1,2) post] show ?thesis by blast
qed

lemma release_within_effect:
  assumes "ledger_ok s" and "fresh s (mv_reference m)" and "release_within now i m s = Inr (p, s')"
  obtains w where "get_wallet i s = Inr w" "0 < mv_amount m"
    "effect [mv_reference m] (\<lambda>k. only_at (w_available w) (mv_amount m) k - only_at (w_reserved w) (mv_amount m) k) s s'"
proof -
  obtain w where w: "get_wallet i s = Inr w"
    and post: "post_in now (wallet_posting [i] (w_currency w) m (move_legs (w_reserved w) (w_available w) (mv_amount m))) s = Inr (p, s')"
    using assms(3) by (auto simp: release_within_def bind_res_Inr_iff)
  from that [OF w] one_wallet_effect [OF assms(1,2) post] show ?thesis by blast
qed

lemma make_available_within_effect:
  assumes "ledger_ok s" and "fresh s (mv_reference m)" and "make_available_within now i m s = Inr (p, s')"
  obtains w where "get_wallet i s = Inr w" "0 < mv_amount m"
    "effect [mv_reference m] (\<lambda>k. only_at (w_available w) (mv_amount m) k - only_at (w_pending w) (mv_amount m) k) s s'"
proof -
  obtain w where w: "get_wallet i s = Inr w"
    and post: "post_in now (wallet_posting [i] (w_currency w) m (move_legs (w_pending w) (w_available w) (mv_amount m))) s = Inr (p, s')"
    using assms(3) by (auto simp: make_available_within_def bind_res_Inr_iff)
  from that [OF w] one_wallet_effect [OF assms(1,2) post] show ?thesis by blast
qed

end
