(* ===== verification/Transaction_Laws.thy ===== *)
theory Transaction_Laws
  imports Transactions
begin

text \<open>
  The rules of the transactions table that the services rely on (\<open>txns_ok\<close>): ids are unique
  and below the next one, a reference occurs once, an idempotency key occurs once per owner.
  Every operation on the table keeps them.
\<close>

definition same_key :: "txn \<Rightarrow> txn \<Rightarrow> bool" where
  "same_key t u \<longleftrightarrow> t_idempotency_key t \<noteq> None \<and> t_idempotency_key u = t_idempotency_key t \<and>
     ((t_user_id t \<noteq> None \<and> t_user_id u = t_user_id t) \<or>
      (t_organization_id t \<noteq> None \<and> t_organization_id u = t_organization_id t))"

definition txns_ok :: "db \<Rightarrow> bool" where
  "txns_ok s \<longleftrightarrow> txns_distinct s \<and> distinct (map t_reference (transactions s)) \<and>
     (\<forall>t \<in> set (transactions s). \<forall>u \<in> set (transactions s). same_key t u \<longrightarrow> t = u)"

lemma txns_ok_row: "txns_ok s \<Longrightarrow> t \<in> set (transactions s) \<Longrightarrow> row_by t_id (t_id t) (transactions s) = Some t"
  by (simp add: txns_ok_def txns_distinct_def row_by_distinct)

lemma txns_ok_same: "txns_ok s \<Longrightarrow> transactions s' = transactions s \<Longrightarrow> next_id s \<le> next_id s' \<Longrightarrow> txns_ok s'"
  by (force simp: txns_ok_def txns_distinct_def)

lemma key_taken_None:
  "txn_key_taken t r = None \<longleftrightarrow> t_reference r \<noteq> t_reference t \<and> \<not> same_key t r"
  by (auto simp: txn_key_taken_def same_key_def)

lemma create_transaction_ok:
  assumes "txns_ok s" and "create_transaction hex now inp s = Inr (t, s')"
  shows "txns_ok s'"
proof -
  note c = create_transaction_Inr(1,2) [OF assms(2)]
  have "List.map_filter (txn_key_taken t) (transactions s) = []"
    using assms(2) by (auto simp: create_transaction_def Let_def split: option.splits list.splits)
  then have free: "t_reference r \<noteq> t_reference t \<and> \<not> same_key t r" if "r \<in> set (transactions s)" for r
    using that by (simp add: map_filter_Nil_iff key_taken_None)
  have id: "t_id t = next_id s" by (simp add: c(1) txn_of_def)
  have rows: "transactions s' = transactions s @ [t]" and nx: "next_id s' = Suc (next_id s)" using c(2) by simp_all
  have "distinct (map t_id (transactions s'))" "distinct (map t_reference (transactions s'))"
    using assms(1) free id by (fastforce simp: rows txns_ok_def txns_distinct_def)+
  moreover have "t_id r < next_id s'" if "r \<in> set (transactions s')" for r
    using that assms(1) id by (auto simp: rows nx txns_ok_def txns_distinct_def less_SucI)
  moreover have "a = b" if "a \<in> set (transactions s')" "b \<in> set (transactions s')" "same_key a b" for a b
  proof -
    have "same_key b a" using that(3) by (auto simp: same_key_def)
    then show ?thesis using that free assms(1) by (auto simp: rows txns_ok_def)
  qed
  ultimately show ?thesis by (simp add: txns_ok_def txns_distinct_def)
qed

lemma set_row_ok:
  assumes "txns_ok s" and "transactions s' = set_row t_id i f (transactions s)" and "next_id s \<le> next_id s'"
    and "\<And>t. t_id (f t) = t_id t \<and> t_reference (f t) = t_reference t \<and> t_idempotency_key (f t) = t_idempotency_key t \<and>
      t_user_id (f t) = t_user_id t \<and> t_organization_id (f t) = t_organization_id t"
  shows "txns_ok s'"
proof -
  define g where "g t = (if t_id t = i then f t else t)" for t
  have rows: "transactions s' = map g (transactions s)" by (simp add: assms(2) set_row_def g_def)
  have keep: "t_id (g t) = t_id t" "t_reference (g t) = t_reference t" "same_key (g t) (g u) = same_key t u" for t u
    using assms(4) by (simp_all add: g_def same_key_def)
  have "g a = g b" if "a \<in> set (transactions s)" "b \<in> set (transactions s)" "same_key (g a) (g b)" for a b
    using that assms(1) unfolding keep by (auto simp: txns_ok_def)
  moreover have "t_id t < next_id s'" if "t \<in> set (transactions s)" for t
    using that assms(1,3) by (fastforce simp: txns_ok_def txns_distinct_def)
  ultimately show ?thesis
    using assms(1) by (auto simp: txns_ok_def txns_distinct_def rows comp_def keep)
qed

lemma transition_ok:
  assumes "txns_ok s" and "transition i st p s = Inr (t, s')"
  shows "txns_ok s'"
  using assms(2)
proof (cases rule: transition_Inr)
  case (1 t)
  show ?thesis by (rule set_row_ok [OF assms(1), of _ i "apply_patch p st"]) (simp_all add: 1(4), simp_all add: apply_patch_def)
qed

lemma merge_metadata_ok: "txns_ok s \<Longrightarrow> txns_ok (merge_metadata i patch s)"
  by (rule set_row_ok [where s = s and i = i and f = "\<lambda>t. t\<lparr>t_metadata := merge_json (t_metadata t) patch\<rparr>"])
    (auto simp: merge_metadata_def)

text \<open>What \<open>transition\<close> returns when the row is known.\<close>

lemma transition_row:
  assumes "txns_ok s" and "t \<in> set (transactions s)" and "transition (t_id t) st p s = Inr (t', s')"
  shows "t' = apply_patch p st t" and "can_transition (t_status t) st"
    and "transactions s' = set_row t_id (t_id t) (apply_patch p st) (transactions s)"
    and "s' = s\<lparr>transactions := transactions s'\<rparr>"
  using assms(3)
  by (cases rule: transition_Inr; use txns_ok_row [OF assms(1,2)] in simp)+

lemma find_key_row:
  "find_by_idempotency_key own key s = Some t \<Longrightarrow> t \<in> set (transactions s) \<and> t_idempotency_key t = Some key \<and>
     owner_where own (t_user_id t) (t_organization_id t)"
  by (auto simp: find_by_idempotency_key_def find_Some_iff)

end
