(* ===== verification/Transfers.thy ===== *)
theory Transfers
  imports Effects Fees Limits Transaction_Laws
begin

text \<open>
  \<open>src/transactions/transfers.service.ts\<close>: transfers between two users. The limit check, the
  transaction record, the posting, the fee and the final status are one database transaction;
  the look-up of the idempotency key before it is not, so it may see an older state.
\<close>

section \<open>The transfer\<close>

definition lower_char :: "char \<Rightarrow> char" where
  "lower_char c = (let n = of_char c :: nat in
     if 65 \<le> n \<and> n \<le> 90 \<or> 192 \<le> n \<and> n \<le> 222 \<and> n \<noteq> 215 then char_of (n + 32) else c)"

definition normalize_email :: "string \<Rightarrow> string" where
  "normalize_email e = map lower_char (trim e)"

definition find_user_by_email :: "string \<Rightarrow> db \<Rightarrow> user_row option" where
  "find_user_by_email e s = row_by u_email (normalize_email e) (users s)"

record transfer_input =
  ti_recipient_email :: string
  ti_amount :: int
  ti_currency :: "string option"
  ti_description :: "string option"

definition transfer_record :: "uuid \<Rightarrow> uuid \<Rightarrow> wallet \<Rightarrow> wallet \<Rightarrow> string \<Rightarrow> fee_quote \<Rightarrow> transfer_input \<Rightarrow> string \<Rightarrow> new_transaction" where
  "transfer_record user recipient from to currency fee inp key =
     (plain_transaction Ty_Transfer Processing (ti_amount inp) currency (Some user, None))
     \<lparr>nt_counterparty := Some recipient, nt_source_wallet := Some (w_id from), nt_destination_wallet := Some (w_id to),
      nt_idempotency_key := Some key, nt_description := ti_description inp,
      nt_fee_amount := (if fq_amount fee > 0 then fq_amount fee else 0),
      nt_fee_currency := (if fq_amount fee > 0 then Some (fq_currency fee) else None),
      nt_fee_rule := (if fq_amount fee > 0 then fq_rule fee else None)\<rparr>"

definition transfer_movement :: "txn \<Rightarrow> transfer_input \<Rightarrow> movement" where
  "transfer_movement t inp =
     \<lparr>mv_amount = ti_amount inp, mv_reference = ''transfer:'' @ t_reference t,
      mv_description = (case ti_description inp of None \<Rightarrow> ''Transfer'' | Some d \<Rightarrow> d),
      mv_metadata = [(''transactionId'', j_id (t_id t))]\<rparr>"

definition transfer_fee_movement :: "txn \<Rightarrow> fee_quote \<Rightarrow> movement" where
  "transfer_fee_movement t fee =
     \<lparr>mv_amount = fq_amount fee, mv_reference = ''fee:transfer:'' @ t_reference t,
      mv_description = ''Fee for transfer '' @ t_reference t, mv_metadata = [(''transactionId'', j_id (t_id t))]\<rparr>"

definition transfer_money :: "int \<Rightarrow> txn \<Rightarrow> wallet \<Rightarrow> wallet \<Rightarrow> fee_quote \<Rightarrow> transfer_input \<Rightarrow> db \<Rightarrow> (posted \<times> db) res" where
  "transfer_money now t from to fee inp s =
     bind_res (transfer_within now from to (transfer_movement t inp) s) (\<lambda>(posted, s1).
       if fq_amount fee > 0
       then bind_res (collect_fee_within now (w_id from) Available (transfer_fee_movement t fee) s1) (\<lambda>(_, s2). Inr (posted, s2))
       else Inr (posted, s1))"

definition transfer_event :: "uuid \<Rightarrow> uuid \<Rightarrow> fee_quote \<Rightarrow> txn \<Rightarrow> json_object" where
  "transfer_event user recipient fee t =
     [(''transactionId'', j_id (t_id t)), (''reference'', JStr (t_reference t)), (''senderUserId'', j_id user),
      (''recipientUserId'', j_id recipient), (''amount'', j_amount (t_amount t)), (''currency'', JStr (t_currency t)),
      (''fee'', j_amount (fq_amount fee))]"

definition transfer_body :: "string \<Rightarrow> int \<Rightarrow> uuid \<Rightarrow> uuid \<Rightarrow> wallet \<Rightarrow> wallet \<Rightarrow> string \<Rightarrow> fee_quote \<Rightarrow> transfer_input \<Rightarrow> string \<Rightarrow> db \<Rightarrow> (txn \<times> db) res" where
  "transfer_body hex now user recipient from to currency fee inp key s =
     bind_res (assert_within_limits now (User_Owner user) Limit_Transfer currency (ti_amount inp) s) (\<lambda>_.
     bind_res (create_transaction hex now (transfer_record user recipient from to currency fee inp key) s) (\<lambda>(t, s1).
     bind_res (transfer_money now t from to fee inp s1) (\<lambda>(posted, s2).
     bind_res (transition (t_id t) Successful
         (empty_patch\<lparr>tp_ledger_txn := Some (lt_id (ps_txn posted)), tp_completed_at := Some now\<rparr>) s2) (\<lambda>(t', s3).
       Inr (t', add_event now ''transfer.completed'' ''transaction'' (t_id t') (transfer_event user recipient fee t') s3)))))"

text \<open>The wallets and the fee, read before the database transaction.\<close>

definition transfer_plan :: "uuid \<Rightarrow> transfer_input \<Rightarrow> db \<Rightarrow> (uuid \<times> wallet \<times> wallet \<times> string \<times> fee_quote) res" where
  "transfer_plan user inp s =
     bind_res (the_or (find_user_by_email (ti_recipient_email inp) s) (Transfer_Err Recipient_Not_Found)) (\<lambda>recipient.
       if u_id recipient = user then Inl (Transfer_Err Self_Transfer)
       else let currency = (case ti_currency inp of Some c \<Rightarrow> Some c
                  | None \<Rightarrow> map_option w_currency (find_primary_wallet (User_Owner user) s)) in
         (case currency of
            None \<Rightarrow> Inl (Transfer_Err (No_Wallet_In_Currency ''primary''))
          | Some c \<Rightarrow>
              if c = [] then Inl (Transfer_Err (No_Wallet_In_Currency c))
              else bind_res (the_or (find_wallet (User_Owner user) c s) (Transfer_Err (No_Wallet_In_Currency c))) (\<lambda>from.
              bind_res (the_or (find_wallet (User_Owner (u_id recipient)) c s) (Transfer_Err (Recipient_Cannot_Receive c))) (\<lambda>to.
              bind_res (quote_fee Fee_Transfer c (ti_amount inp) None s) (\<lambda>fee.
                Inr (u_id recipient, from, to, c, fee))))))"

definition transfer_at :: "db \<Rightarrow> string \<Rightarrow> int \<Rightarrow> uuid \<Rightarrow> transfer_input \<Rightarrow> string \<Rightarrow> db \<Rightarrow> (txn \<times> db) res" where
  "transfer_at seen hex now user inp key s =
     (case find_by_idempotency_key (User_Owner user) key seen of
        Some t \<Rightarrow> Inr (t, s)
      | None \<Rightarrow> bind_res (transfer_plan user inp s) (\<lambda>(recipient, from, to, currency, fee).
          case transfer_body hex now user recipient from to currency fee inp key s of
            Inr r \<Rightarrow> Inr r
          | Inl e \<Rightarrow>
              if is_unique_violation e [''uq_transactions_user_idempotency_key'']
              then (case find_by_idempotency_key (User_Owner user) key s of Some w \<Rightarrow> Inr (w, s) | None \<Rightarrow> Inl e)
              else Inl e))"

definition transfer :: "string \<Rightarrow> int \<Rightarrow> uuid \<Rightarrow> transfer_input \<Rightarrow> string \<Rightarrow> db \<Rightarrow> (txn \<times> db) res" where
  "transfer hex now user inp key s = transfer_at s hex now user inp key s"

section \<open>What it does\<close>

lemma transfer_plan_Inr:
  assumes "transfer_plan user inp s = Inr (recipient, from, to, c, fee)"
  shows "find_wallet (User_Owner user) c s = Some from" and "find_wallet (User_Owner recipient) c s = Some to"
    and "recipient \<noteq> user" and "quote_fee Fee_Transfer c (ti_amount inp) None s = Inr fee"
  using assms
  by (auto simp: transfer_plan_def bind_res_Inr_iff Let_def split: if_splits option.splits)

lemma find_wallet_Some: "find_wallet own c s = Some w \<Longrightarrow> w \<in> set (wallets s) \<and> owned_by own w \<and> w_currency w = c"
  by (auto simp: find_wallet_def find_Some_iff)

lemma transfer_body_Inr:
  assumes "transfer_body hex now user recipient from to currency fee inp key s = Inr (t', s')"
  obtains t s1 p s2 s3 where
    "assert_within_limits now (User_Owner user) Limit_Transfer currency (ti_amount inp) s = Inr ()"
    "create_transaction hex now (transfer_record user recipient from to currency fee inp key) s = Inr (t, s1)"
    "transfer_money now t from to fee inp s1 = Inr (p, s2)"
    "transition (t_id t) Successful (empty_patch\<lparr>tp_ledger_txn := Some (lt_id (ps_txn p)), tp_completed_at := Some now\<rparr>) s2 = Inr (t', s3)"
    "s' = add_event now ''transfer.completed'' ''transaction'' (t_id t') (transfer_event user recipient fee t') s3"
  using assms unfolding transfer_body_def by (auto simp: bind_res_Inr_iff)

lemma transfer_money_move: "transfer_money now t from to fee inp s = Inr (p, s') \<Longrightarrow> ledger_move s s'"
  by (auto simp: transfer_money_def bind_res_Inr_iff split: if_splits dest!: transfer_within_move collect_fee_within_move
      intro: ledger_move_trans)

lemma transfer_body_le:
  assumes "transfer_body hex now user recipient from to currency fee inp key s = Inr (t', s')"
  shows "db_le s s'"
  using assms
proof (cases rule: transfer_body_Inr)
  case (1 t s1 p s2 s3)
  have "db_le s s1" by (rule create_transaction_le [OF 1(2)])
  also have "db_le s1 s2" by (rule ledger_move_le [OF transfer_money_move [OF 1(3)]])
  also have "db_le s2 s3" by (rule transition_le [OF 1(4)])
  also have "db_le s3 s'" unfolding 1(5) by (rule add_event_le)
  finally show ?thesis .
qed

lemma transfer_at_Inr:
  assumes "transfer_at seen hex now user inp key s = Inr (t, s')"
  obtains (known) "find_by_idempotency_key (User_Owner user) key seen = Some t" "s' = s"
    | (made) recipient src dst c fee where "find_by_idempotency_key (User_Owner user) key seen = None"
        "transfer_plan user inp s = Inr (recipient, src, dst, c, fee)"
        "transfer_body hex now user recipient src dst c fee inp key s = Inr (t, s')"
    | (lost) "find_by_idempotency_key (User_Owner user) key s = Some t" "s' = s"
proof (cases "find_by_idempotency_key (User_Owner user) key seen")
  case (Some u)
  then show ?thesis using assms known by (simp add: transfer_at_def)
next
  case None
  with assms obtain recipient src dst c fee where plan: "transfer_plan user inp s = Inr (recipient, src, dst, c, fee)"
    by (auto simp: transfer_at_def bind_res_Inr_iff)
  show ?thesis
  proof (cases "transfer_body hex now user recipient src dst c fee inp key s")
    case (Inr r)
    then show ?thesis using assms None plan made by (simp add: transfer_at_def)
  next
    case (Inl e)
    then show ?thesis using assms None plan lost by (simp add: transfer_at_def split: if_splits option.splits)
  qed
qed

lemma transfer_at_le: "transfer_at seen hex now user inp key s = Inr (t, s') \<Longrightarrow> db_le s s'"
  by (erule transfer_at_Inr) (auto dest: transfer_body_le)

text \<open>The fee a transfer takes.\<close>

definition fee_taken :: "fee_quote \<Rightarrow> int" where
  "fee_taken fee = (if fq_amount fee > 0 then fq_amount fee else 0)"

lemma transfer_money_effect:
  assumes "ledger_ok s" and "fresh s (''transfer:'' @ t_reference t)" and "fresh s (''fee:transfer:'' @ t_reference t)"
    and "transfer_money now t from to fee inp s = Inr (p, s')"
    and "get_wallet (w_id from) s = Inr from"
  obtains f where
    "effect ((''transfer:'' @ t_reference t) # (if fq_amount fee > 0 then [''fee:transfer:'' @ t_reference t] else []))
      (\<lambda>i. only_at (w_available to) (ti_amount inp) i - only_at (w_available from) (ti_amount inp + fee_taken fee) i + only_at f (fee_taken fee) i) s s'"
    "fq_amount fee > 0 \<Longrightarrow> is_system s' (fee_revenue (w_currency from)) f" "0 < ti_amount inp"
    "lock_active_wallets [w_id from, w_id to] s = Inr ()" "w_currency from = w_currency to"
proof -
  let ?m = "transfer_movement t inp"
  have m: "mv_reference ?m = ''transfer:'' @ t_reference t" "mv_amount ?m = ti_amount inp"
    by (simp_all add: transfer_movement_def)
  obtain s1 where tr: "transfer_within now from to ?m s = Inr (p, s1)"
    and rest: "if fq_amount fee > 0
       then \<exists>q. collect_fee_within now (w_id from) Available (transfer_fee_movement t fee) s1 = Inr (q, s') else s' = s1"
    using assms(4) by (auto simp: transfer_money_def bind_res_Inr_iff split: if_splits)
  have fr: "fresh s (mv_reference ?m)" using assms(2) m by simp
  note e1 = transfer_within_effect [OF assms(1) fr tr]
  have amt: "0 < ti_amount inp" using e1(2) by (simp add: m)
  show ?thesis
  proof (cases "fq_amount fee > 0")
    case False
    then have "fee_taken fee = 0" "s' = s1" using rest by (simp_all add: fee_taken_def)
    moreover have "effect [''transfer:'' @ t_reference t]
      (\<lambda>i. only_at (w_available to) (ti_amount inp) i - only_at (w_available from) (ti_amount inp) i + only_at 0 0 i) s s1"
      using e1(1) by (simp add: m only_at_def cong: if_cong)
    ultimately show ?thesis using that [of 0] False amt e1(3,4) by simp
  next
    case True
    then obtain q where col: "collect_fee_within now (w_id from) Available (transfer_fee_movement t fee) s1 = Inr (q, s')"
      using rest by auto
    have fm: "mv_reference (transfer_fee_movement t fee) = ''fee:transfer:'' @ t_reference t"
      "mv_amount (transfer_fee_movement t fee) = fee_taken fee" using True by (simp_all add: transfer_fee_movement_def fee_taken_def)
    have ok1: "ledger_ok s1" and fr1: "fresh s1 (mv_reference (transfer_fee_movement t fee))"
      using e1(1) assms(3) by (auto simp: effect_def fm m)
    from collect_fee_within_effect [OF ok1 fr1 col] obtain w f where w: "get_wallet (w_id from) s1 = Inr w"
      and sys: "is_system s' (fee_revenue (w_currency w)) f"
      and e2: "effect [mv_reference (transfer_fee_movement t fee)]
        (\<lambda>j. only_at f (mv_amount (transfer_fee_movement t fee)) j - only_at (balance_account w Available) (mv_amount (transfer_fee_movement t fee)) j) s1 s'" .
    have "w = from" using w assms(5) ledger_move_wallets [OF transfer_within_move [OF tr]] by (simp add: get_wallet_def)
    with effect_trans [OF e1(1) e2] have "effect [''transfer:'' @ t_reference t, ''fee:transfer:'' @ t_reference t]
      (\<lambda>i. only_at (w_available to) (ti_amount inp) i - only_at (w_available from) (ti_amount inp) i +
        (only_at f (fee_taken fee) i - only_at (w_available from) (fee_taken fee) i)) s s'"
      by (simp add: m fm)
    then have "effect [''transfer:'' @ t_reference t, ''fee:transfer:'' @ t_reference t]
      (\<lambda>i. only_at (w_available to) (ti_amount inp) i - only_at (w_available from) (ti_amount inp + fee_taken fee) i + only_at f (fee_taken fee) i) s s'"
      by (rule effect_cong) (simp add: only_at_def)
    then show ?thesis using that [of f] True sys \<open>w = from\<close> amt e1(3,4) by simp
  qed
qed

section \<open>Exactly once, exactly the amount\<close>

lemma transfer_record_simps [simp]:
  "nt_amount (transfer_record u r a b c fee inp key) = ti_amount inp" "nt_currency (transfer_record u r a b c fee inp key) = c"
  "nt_user_id (transfer_record u r a b c fee inp key) = Some u" "nt_organization_id (transfer_record u r a b c fee inp key) = None"
  "nt_idempotency_key (transfer_record u r a b c fee inp key) = Some key" "nt_type (transfer_record u r a b c fee inp key) = Ty_Transfer"
  "nt_status (transfer_record u r a b c fee inp key) = Processing"
  "nt_fee_amount (transfer_record u r a b c fee inp key) = fee_taken fee"
  by (simp_all add: transfer_record_def plain_transaction_def fee_taken_def)

lemma create_same_ledger: "create_transaction hex now inp s = Inr (t, s1) \<Longrightarrow> ledger s1 = ledger s \<and> wallets s1 = wallets s \<and> outbox s1 = outbox s"
  using create_transaction_Inr(2) [of hex now inp s t s1] by simp

text \<open>The rows a transfer leaves behind.\<close>

lemma transfer_body_rows:
  assumes "txns_ok s" and "transfer_body hex now user recipient src dst c fee inp key s = Inr (t, s')"
  obtains t0 s1 p s2 where "create_transaction hex now (transfer_record user recipient src dst c fee inp key) s = Inr (t0, s1)"
    "transfer_money now t0 src dst fee inp s1 = Inr (p, s2)" "ledger s' = ledger s2" "wallets s' = wallets s" "db_le s2 s'"
    "transactions s' = transactions s @ [t]" "t_reference t0 = generate_reference hex"
    "t_amount t = ti_amount inp" "t_fee_amount t = fee_taken fee" "t_currency t = c" "t_status t = Successful"
    "\<exists>e. outbox s' = outbox s @ [e] \<and> ev_type e = ''transfer.completed'' \<and> ev_aggregate_id e = t_id t"
  using assms(2)
proof (cases rule: transfer_body_Inr)
  case (1 t0 s1 p s2 s3)
  let ?patch = "empty_patch\<lparr>tp_ledger_txn := Some (lt_id (ps_txn p)), tp_completed_at := Some now\<rparr>"
  note created = create_transaction_Inr(1,2) [OF 1(2)] and same = create_same_ledger [OF 1(2)]
  have mv: "only_ledger s1 s2" using transfer_money_move [OF 1(3)] by (simp add: ledger_move_def)
  note tables = only_ledger_tables [OF mv]
  have ok2: "txns_ok s2" by (rule txns_ok_same [OF create_transaction_ok [OF assms(1) 1(2)]]) (simp_all add: tables)
  have tx2: "transactions s2 = transactions s @ [t0]" using tables(7) created(2) by simp
  have "t0 \<in> set (transactions s2)" by (simp add: tx2)
  note tr = transition_row [OF ok2 this 1(4)]
  have old: "set_row t_id (t_id t0) g (transactions s) = transactions s" for g
    using assms(1) created(1) by (auto simp: set_row_def txn_of_def txns_ok_def txns_distinct_def intro!: map_idI)
  have "transactions s' = transactions s @ [t]"
    using tr(1,3) old 1(5) by (simp add: tx2 set_row_append set_row_Cons)
  moreover have "ledger s3 = ledger s2" "wallets s3 = wallets s2" "outbox s3 = outbox s2"
    by (subst tr(4), simp)+
  then have "ledger s' = ledger s2" "wallets s' = wallets s"
    "\<exists>e. outbox s' = outbox s @ [e] \<and> ev_type e = ''transfer.completed'' \<and> ev_aggregate_id e = t_id t"
    using 1(5) same tables by (simp_all add: add_event_def)
  moreover have "db_le s2 s'" unfolding 1(5) by (rule db_le_trans [OF transition_le [OF 1(4)] add_event_le])
  ultimately show ?thesis using that [OF 1(2,3)] tr(1) created(1) by (simp add: txn_of_def apply_patch_def)
qed

text \<open>
  C18. A transfer with a new idempotency key takes the amount and the fee from the available
  balance of the sender's wallet, gives the amount to a wallet of somebody else in the same
  currency and the fee to the fee revenue of that currency, and moves nothing else. Both
  wallets were active and the sender had the money; the transaction is recorded as
  successful with the amount and the fee taken, and one event announces it.
\<close>

theorem transfer_exact:
  assumes "wallets_inv s" and "txns_ok s" and "find_by_idempotency_key (User_Owner user) key s = None"
    and "transfer hex now user inp key s = Inr (t, s')"
    and "fresh s (''transfer:'' @ generate_reference hex)" and "fresh s (''fee:transfer:'' @ generate_reference hex)"
  shows "\<exists>src dst f. src \<in> set (wallets s) \<and> dst \<in> set (wallets s) \<and> w_user_id src = Some user \<and> w_user_id dst \<noteq> Some user \<and>
    w_currency src = t_currency t \<and> w_currency dst = t_currency t \<and> w_status src = Wallet_Active \<and> w_status dst = Wallet_Active \<and>
    (\<forall>i. credit s' i = credit s i + only_at (w_available dst) (t_amount t) i -
       only_at (w_available src) (t_amount t + t_fee_amount t) i + only_at f (t_fee_amount t) i) \<and>
    (0 < t_fee_amount t \<longrightarrow> is_system s' (fee_revenue (t_currency t)) f) \<and>
    0 < t_amount t \<and> t_amount t = ti_amount inp \<and> t_amount t + t_fee_amount t \<le> balance s (w_available src) \<and>
    t_status t = Successful \<and> transactions s' = transactions s @ [t] \<and> wallets_inv s' \<and>
    (\<exists>e. outbox s' = outbox s @ [e] \<and> ev_type e = ''transfer.completed'' \<and> ev_aggregate_id e = t_id t)"
  using assms(4) unfolding transfer_def
proof (cases rule: transfer_at_Inr)
  case (made recipient src dst c fee)
  note plan = transfer_plan_Inr [OF made(2)]
  have src: "src \<in> set (wallets s)" "w_user_id src = Some user" "w_currency src = c"
    and dst: "dst \<in> set (wallets s)" "w_user_id dst = Some recipient" "w_currency dst = c"
    using find_wallet_Some [OF plan(1)] find_wallet_Some [OF plan(2)] by (auto simp: owned_by_def)
  from transfer_body_rows [OF assms(2) made(3)] obtain t0 s1 p s2 where
    1: "create_transaction hex now (transfer_record user recipient src dst c fee inp key) s = Inr (t0, s1)"
    and 2: "transfer_money now t0 src dst fee inp s1 = Inr (p, s2)" and led: "ledger s' = ledger s2" "wallets s' = wallets s"
    and le: "db_le s2 s'" and rows: "transactions s' = transactions s @ [t]" and t0: "t_reference t0 = generate_reference hex"
    and fields: "t_amount t = ti_amount inp" "t_fee_amount t = fee_taken fee" "t_currency t = c" "t_status t = Successful"
    and ev: "\<exists>e. outbox s' = outbox s @ [e] \<and> ev_type e = ''transfer.completed'' \<and> ev_aggregate_id e = t_id t" .
  note same = create_same_ledger [OF 1]
  have inv1: "wallets_inv s1" by (rule wallets_inv_le [OF assms(1) create_transaction_le [OF 1]]) (use same in simp)
  have ok1: "ledger_ok s1" using inv1 by (simp add: wallets_inv_def)
  have get: "get_wallet (w_id src) s1 = Inr src" using wallet_row [OF inv1] src(1) same by simp
  have fr: "fresh s1 (''transfer:'' @ t_reference t0)" "fresh s1 (''fee:transfer:'' @ t_reference t0)"
    using assms(5,6) same by (simp_all add: fresh_def t0)
  from transfer_money_effect [OF ok1 fr 2 get] obtain f refs where
    eff: "effect refs (\<lambda>i. only_at (w_available dst) (ti_amount inp) i - only_at (w_available src) (ti_amount inp + fee_taken fee) i + only_at f (fee_taken fee) i) s1 s2"
    and sys: "fq_amount fee > 0 \<Longrightarrow> is_system s2 (fee_revenue (w_currency src)) f"
    and pos: "0 < ti_amount inp" and lock: "lock_active_wallets [w_id src, w_id dst] s1 = Inr ()" by blast
  note inv2 = wallets_inv_move [OF inv1 transfer_money_move [OF 2]]
  have ws: "wallets s2 = wallets s" using ledger_move_wallets [OF transfer_money_move [OF 2]] same by simp
  have cr: "credit s' i = credit s i + only_at (w_available dst) (t_amount t) i -
     only_at (w_available src) (t_amount t + t_fee_amount t) i + only_at f (t_fee_amount t) i" for i
    using eff same led by (simp add: effect_def credit_def position_def position_in_def fields)
  have neq: "w_available src \<noteq> w_available dst"
    using wallet_accounts_distinct [OF assms(1) src(1) dst(1), of Available Available] src(2) dst(2) plan(3) by auto
  have "0 \<le> credit s' (w_available src)"
    using wallet_credit_nonneg [OF inv2, of src Available] src(1) ws led by (simp add: credit_def position_def position_in_def)
  moreover have "f \<noteq> w_available src" if "fq_amount fee > 0"
    using is_system_not_wallet [OF sys [OF that] inv2, of src Available] src(1) ws by auto
  then have "only_at f (fee_taken fee) (w_available src) = 0" by (auto simp: only_at_def fee_taken_def)
  ultimately have enough: "t_amount t + t_fee_amount t \<le> balance s (w_available src)"
    using cr [of "w_available src"] neq wallet_credit [OF assms(1) src(1), of Available] by (simp add: only_at_def fields)
  have active: "w_status src = Wallet_Active" "w_status dst = Wallet_Active"
    using lock src(1) dst(1) same by (auto simp: lock_active_Inr)
  have sysf: "0 < t_fee_amount t \<longrightarrow> is_system s' (fee_revenue (t_currency t)) f"
    using sys src(3) led by (auto simp: fields fee_taken_def is_system_def split: if_splits)
  have inv': "wallets_inv s'" by (rule wallets_inv_le [OF inv2 le]) (simp add: led ws)
  show ?thesis
    using src dst plan(3) fields active cr sysf pos enough rows inv' ev
    by (intro exI [of _ src] exI [of _ dst] exI [of _ f]) auto
qed (use assms(3) in auto)

lemma transfer_body_key:
  assumes "txns_ok s" and "transfer_body hex now user recipient src dst c fee inp key s = Inr (t, s')"
  shows "txns_ok s'" and "t \<in> set (transactions s')" and "t_idempotency_key t = Some key" and "t_user_id t = Some user"
proof -
  from assms(2) show "txns_ok s'"
  proof (cases rule: transfer_body_Inr)
    case (1 t0 s1 p s2 s3)
    note tables = only_ledger_tables [OF transfer_money_move [OF 1(3), unfolded ledger_move_def, THEN conjunct1]]
    have "txns_ok s2" by (rule txns_ok_same [OF create_transaction_ok [OF assms(1) 1(2)]]) (simp_all add: tables)
    then show ?thesis using txns_ok_same [OF transition_ok [OF _ 1(4)]] 1(5) by simp
  qed
  from transfer_body_rows [OF assms] show "t \<in> set (transactions s')" by (metis in_set_conv_decomp)
  from assms(2) show "t_idempotency_key t = Some key" "t_user_id t = Some user"
  proof (atomize(full), cases rule: transfer_body_Inr)
    case (1 t0 s1 p s2 s3)
    note tables = only_ledger_tables [OF transfer_money_move [OF 1(3), unfolded ledger_move_def, THEN conjunct1]]
    have ok: "txns_ok s2" by (rule txns_ok_same [OF create_transaction_ok [OF assms(1) 1(2)]]) (simp_all add: tables)
    have "t0 \<in> set (transactions s2)" using create_transaction_Inr(2) [OF 1(2)] by (simp add: tables)
    from transition_row(1) [OF ok this 1(4)] create_transaction_Inr(1) [OF 1(2)]
    show "t_idempotency_key t = Some key \<and> t_user_id t = Some user" by (simp add: apply_patch_def txn_of_def)
  qed
qed

text \<open>
  C19. One idempotency key moves money once. After a transfer, a request of the same user with
  the same key, in any later state, whatever it asks for and whatever older state its first
  look-up saw, either fails or answers with a transaction of that key and moves nothing.
\<close>

theorem transfer_once:
  assumes "txns_ok s" and "transfer hex now user inp key s = Inr (t, s1)" and "db_le s1 s2"
    and "transfer_at seen hex' now' user inp' key s2 = Inr (t2, s3)"
  shows "s3 = s2 \<and> t_idempotency_key t2 = Some key \<and> t_user_id t2 = Some user"
proof -
  have t: "t \<in> set (transactions s1) \<and> txns_ok s1 \<and> t_idempotency_key t = Some key \<and> t_user_id t = Some user"
    using assms(2) unfolding transfer_def
  proof (cases rule: transfer_at_Inr)
    case (made recipient src dst c fee)
    from made(3) obtain "txns_ok s1" "t \<in> set (transactions s1)" "t_idempotency_key t = Some key" "t_user_id t = Some user"
      using transfer_body_key [OF assms(1) made(3)] by blast
    then show ?thesis by blast
  qed (use assms(1) find_key_row in force)+
  then have row: "row_by t_id (t_id t) (transactions s1) = Some t" using txns_ok_row by blast
  from assms(4) show ?thesis
  proof (cases rule: transfer_at_Inr)
    case (made recipient src dst c fee)
    from made(3) obtain t0 u where "create_transaction hex' now' (transfer_record user recipient src dst c fee inp' key) s2 = Inr (t0, u)"
      by (cases rule: transfer_body_Inr)
    note free = create_transaction_Inr(6) [OF this]
    obtain t' where "row_by t_id (t_id t) (transactions s2) = Some t'" "txn_follows t t'"
      using assms(3) row unfolding db_le_def txns_le_def by blast
    then have "t' \<in> set (transactions s2)" "t_idempotency_key t' = Some key" "t_user_id t' = Some user"
      using t by (auto simp: txn_follows_def dest: row_by_Some)
    with free [of key t'] show ?thesis by simp
  qed (use find_key_row in force)+
qed

section \<open>An example\<close>

definition demo_people :: db where
  "demo_people = demo_funded\<lparr>users := [\<lparr>u_id = 7, u_email = ''a@b''\<rparr>, \<lparr>u_id = 8, u_email = ''c@d''\<rparr>]\<rparr>"

definition demo_send :: transfer_input where
  "demo_send = \<lparr>ti_recipient_email = '' C@d'', ti_amount = 200, ti_currency = None, ti_description = None\<rparr>"

definition demo_sent :: db where
  "demo_sent = run_or demo_people (transfer ''x'' 9 7 demo_send ''k'' demo_people)"

lemma demo_people_inv: "wallets_inv demo_people" and demo_people_txns: "txns_ok demo_people"
proof -
  show "wallets_inv demo_people"
    by (rule wallets_inv_le [OF demo_funded_inv]) (auto simp: demo_people_def intro: db_leI)
  have "transactions demo_people = []" by code_simp
  then show "txns_ok demo_people" by (simp add: txns_ok_def txns_distinct_def)
qed

lemma demo_transfer: "\<not> isl (transfer ''x'' 9 7 demo_send ''k'' demo_people)"
  by code_simp

theorem transfer_exact_witness:
  "\<exists>t. transfer ''x'' 9 7 demo_send ''k'' demo_people = Inr (t, demo_sent) \<and> t_amount t = 200 \<and> wallets_inv demo_sent \<and>
     balance demo_sent 0 = 300 \<and> balance demo_sent 3 = 200"
proof -
  obtain t where t: "transfer ''x'' 9 7 demo_send ''k'' demo_people = Inr (t, demo_sent)"
    using run_or_Inr [OF demo_transfer] unfolding demo_sent_def by blast
  have "find_by_idempotency_key (User_Owner 7) ''k'' demo_people = None"
    "fresh demo_people (''transfer:'' @ generate_reference ''x'')" "fresh demo_people (''fee:transfer:'' @ generate_reference ''x'')"
    unfolding fresh_def by code_simp+
  from transfer_exact [OF demo_people_inv demo_people_txns this(1) t this(2,3)]
  have "t_amount t = 200 \<and> wallets_inv demo_sent" by (auto simp: demo_send_def)
  moreover have "balance demo_sent 0 = 300" "balance demo_sent 3 = 200" by code_simp+
  ultimately show ?thesis using t by blast
qed

theorem transfer_once_witness:
  "\<exists>t2. transfer_at demo_people ''y'' 9 7 demo_send ''k'' demo_sent = Inr (t2, demo_sent) \<and> t_idempotency_key t2 = Some ''k''"
proof -
  obtain t where t: "transfer ''x'' 9 7 demo_send ''k'' demo_people = Inr (t, demo_sent)"
    using run_or_Inr [OF demo_transfer] unfolding demo_sent_def by blast
  have "\<not> isl (transfer_at demo_people ''y'' 9 7 demo_send ''k'' demo_sent)" by code_simp
  then obtain t2 s3 where t2: "transfer_at demo_people ''y'' 9 7 demo_send ''k'' demo_sent = Inr (t2, s3)"
    by (cases "transfer_at demo_people ''y'' 9 7 demo_send ''k'' demo_sent") auto
  from transfer_once [OF demo_people_txns t db_le_refl t2] t2 show ?thesis by auto
qed

text \<open>
  A concurrent duplicate is not always answered with the winner's transaction: when the
  winner used up a limit, the loser, which looked its key up before the winner committed, is
  refused by the limit check, which runs before the insertion that would find the duplicate.
\<close>

definition demo_one_a_day :: db where
  "demo_one_a_day = demo_people\<lparr>limit_rules := [\<lparr>lr_id = 99, lr_operation = Limit_Transfer, lr_currency = ''NGN'',
     lr_organization_id = None, lr_max_txn = None, lr_max_daily = None, lr_max_daily_count = Some 1, lr_max_monthly = None,
     lr_created_by = None, lr_created_at = 0, lr_superseded_at = None\<rparr>]\<rparr>"

theorem concurrent_transfer_can_be_refused:
  "\<exists>t s1. transfer ''x'' 9 7 demo_send ''k'' demo_one_a_day = Inr (t, s1) \<and>
     find_by_idempotency_key (User_Owner 7) ''k'' s1 = Some t \<and>
     transfer_at demo_one_a_day ''y'' 9 7 demo_send ''k'' s1 =
       Inl (Limit_Err (Limit_Exceeded ''The transfer limit is 1 per 24 hours''))"
proof -
  have "case transfer ''x'' 9 7 demo_send ''k'' demo_one_a_day of Inl e \<Rightarrow> False
    | Inr (t, s1) \<Rightarrow> map_option t_id (find_by_idempotency_key (User_Owner 7) ''k'' s1) = Some (t_id t) \<and>
        transfer_at demo_one_a_day ''y'' 9 7 demo_send ''k'' s1 =
          Inl (Limit_Err (Limit_Exceeded ''The transfer limit is 1 per 24 hours''))" by code_simp
  from run_result [OF this] obtain t s1 where r: "transfer ''x'' 9 7 demo_send ''k'' demo_one_a_day = Inr (t, s1)"
    "map_option t_id (find_by_idempotency_key (User_Owner 7) ''k'' s1) = Some (t_id t)"
    "transfer_at demo_one_a_day ''y'' 9 7 demo_send ''k'' s1 = Inl (Limit_Err (Limit_Exceeded ''The transfer limit is 1 per 24 hours''))"
    by blast
  have ok: "txns_ok demo_one_a_day" by (rule txns_ok_same [OF demo_people_txns]) (simp_all add: demo_one_a_day_def)
  have "find_by_idempotency_key (User_Owner 7) ''k'' demo_one_a_day = None" by code_simp
  with r(1) [unfolded transfer_def] have "t \<in> set (transactions s1) \<and> txns_ok s1"
    by (cases rule: transfer_at_Inr) (auto dest: transfer_body_key [OF ok])
  moreover obtain u where u: "find_by_idempotency_key (User_Owner 7) ''k'' s1 = Some u" "t_id u = t_id t" using r(2) by auto
  ultimately have "u = t"
    using txns_ok_row [of s1 t] txns_ok_row [of s1 u] find_key_row [OF u(1)] by (metis option.inject)
  then show ?thesis using r u(1) by blast
qed

end
