(* ===== verification/Service_Runs.thy ===== *)
theory Service_Runs
  imports Effects Transaction_Laws
begin

text \<open>
  Requests that are more than one database transaction. A run is a state transformer that
  always leaves a state: \<open>committed\<close> runs one database transaction, whose failure rolls back
  that transaction alone, and \<open>then_do\<close> goes on after a success. What earlier transactions
  of the request wrote stays when a later step throws.
\<close>

type_synonym 'a run = "db \<Rightarrow> 'a res \<times> db"

definition committed :: "(db \<Rightarrow> ('a \<times> db) res) \<Rightarrow> 'a run" where
  "committed f s = (case f s of Inl e \<Rightarrow> (Inl e, s) | Inr (x, s') \<Rightarrow> (Inr x, s'))"

definition reading :: "(db \<Rightarrow> 'a res) \<Rightarrow> 'a run" where
  "reading f s = (f s, s)"

definition then_do :: "'a run \<Rightarrow> ('a \<Rightarrow> 'b run) \<Rightarrow> 'b run" where
  "then_do m f s = (case m s of (Inl e, s') \<Rightarrow> (Inl e, s') | (Inr x, s') \<Rightarrow> f x s')"

text \<open>\<open>await\<close> in a loop: the first exception ends the loop.\<close>

fun for_each :: "'a list \<Rightarrow> ('a \<Rightarrow> unit run) \<Rightarrow> unit run" where
  "for_each [] f s = (Inr (), s)"
| "for_each (x # xs) f s = then_do (f x) (\<lambda>_. for_each xs f) s"

text \<open>A loop that catches and logs what one round throws.\<close>

fun for_each_caught :: "'a list \<Rightarrow> ('a \<Rightarrow> unit run) \<Rightarrow> db \<Rightarrow> db" where
  "for_each_caught [] f s = s"
| "for_each_caught (x # xs) f s = for_each_caught xs f (snd (f x s))"

section \<open>What a run keeps\<close>

text \<open>A relation between states that every database transaction keeps is kept by the run.\<close>

locale kept =
  fixes R :: "db \<Rightarrow> db \<Rightarrow> bool"
  assumes R_refl: "R s s"
    and R_trans: "R s t \<Longrightarrow> R t u \<Longrightarrow> R s u"
begin

definition keeps :: "'a run \<Rightarrow> bool" where
  "keeps m \<longleftrightarrow> (\<forall>s. R s (snd (m s)))"

lemma keeps_committed: "(\<And>s x s'. f s = Inr (x, s') \<Longrightarrow> R s s') \<Longrightarrow> keeps (committed f)"
  by (auto simp: keeps_def committed_def R_refl split: sum.splits)

lemma keeps_reading: "keeps (reading f)"
  by (simp add: keeps_def reading_def R_refl)

lemma keeps_then: 
  assumes "keeps m" and "\<And>x. keeps (f x)"
  shows "keeps (then_do m f)"
proof -
  have "R s (snd (then_do m f s))" for s
  proof (cases "m s")
    case (Pair r t)
    then have "R s t" using assms(1) by (metis keeps_def snd_conv)
    then show ?thesis using assms(2) Pair R_trans by (cases r) (auto simp: then_do_def keeps_def)
  qed
  then show ?thesis by (simp add: keeps_def)
qed

lemma keeps_for_each: "(\<And>x. keeps (f x)) \<Longrightarrow> keeps (for_each xs f)"
proof (induction xs)
  case Nil
  then show ?case by (simp add: keeps_def R_refl)
next
  case (Cons x xs)
  have "for_each (x # xs) f = then_do (f x) (\<lambda>_. for_each xs f)" by (rule ext) simp
  with Cons show ?case by (simp add: keeps_then)
qed

lemma keeps_for_each_caught: "(\<And>x. keeps (f x)) \<Longrightarrow> R s (for_each_caught xs f s)"
proof (induction xs arbitrary: s)
  case (Cons x xs)
  then have "R s (snd (f x s))" by (simp add: keeps_def)
  then show ?case using Cons R_trans by fastforce
qed (simp add: R_refl)

end

interpretation growing: kept db_le
  by unfold_locales (auto intro: db_le_trans)

lemma then_do_Inr: "then_do m f s = (Inr y, s') \<longleftrightarrow> (\<exists>x t. m s = (Inr x, t) \<and> f x t = (Inr y, s'))"
  by (auto simp: then_do_def split: prod.splits sum.splits)

lemma committed_Inr: "committed f s = (Inr x, s') \<longleftrightarrow> f s = Inr (x, s')"
  by (auto simp: committed_def split: sum.splits)

lemma committed_Inl: "committed f s = (Inl e, s') \<longleftrightarrow> f s = Inl e \<and> s' = s"
  by (auto simp: committed_def split: sum.splits)

lemma reading_Inr: "reading f s = (Inr x, s') \<longleftrightarrow> f s = Inr x \<and> s' = s"
  by (auto simp: reading_def)

lemmas run_simps = then_do_Inr committed_Inr reading_Inr

end
