(* ===== verification/Providers.thy ===== *)
theory Providers
  imports Entities
begin

text \<open>
  \<open>src/payment-providers/payment-provider.ts\<close>: the contract of a payment provider, here a record
  of functions that answer or fail, because the providers themselves are outside the program.
  \<open>payment-providers.service.ts\<close>: which provider a payment or payout goes to.
\<close>

section \<open>The contract\<close>

text \<open>A \<open>PaymentProviderError\<close> with its message and \<open>retryable\<close>, or any other exception.\<close>

datatype provider_failure = Provider_Failure string bool | Other_Failure string

type_synonym 'a answer = "provider_failure + 'a"

text \<open>\<open>error instanceof PaymentProviderError && !error.retryable\<close>: a definite rejection.\<close>

fun rejection :: "provider_failure \<Rightarrow> string option" where
  "rejection (Provider_Failure m retryable) = (if retryable then None else Some m)"
| "rejection (Other_Failure m) = None"

datatype provider_status = Provider_Pending | Provider_Successful | Provider_Failed

datatype payout_status = Payout_Pending | Payout_Successful | Payout_Failed | Payout_Reversed

record initialize_request =
  ir_reference :: string
  ir_amount :: int
  ir_currency :: string
  ir_customer_email :: string
  ir_callback_url :: "string option"

record checkout =
  co_provider_reference :: string
  co_authorization_url :: string

record verification =
  vf_status :: provider_status
  vf_provider_reference :: string
  vf_amount :: int
  vf_currency :: string
  vf_failure_reason :: "string option"

record refund_request =
  rr_provider_reference :: string
  rr_amount :: int
  rr_currency :: string
  rr_reference :: string

record refund_answer =
  ra_provider_reference :: string
  ra_status :: provider_status

record recipient_request =
  cq_recipient_currency :: string
  cq_bank_code :: string
  cq_account_number :: string
  cq_account_name :: "string option"

record email_recipient_request =
  ce_currency :: string
  ce_email :: string
  ce_name :: "string option"

record payout_recipient =
  pr_reference :: string
  pr_account_name :: string
  pr_bank_name :: "string option"

record payout_request =
  pq_reference :: string
  pq_amount :: int
  pq_currency :: string
  pq_recipient :: string
  pq_narration :: "string option"

record payout_answer =
  pa_provider_reference :: string
  pa_status :: payout_status
  pa_failure_reason :: "string option"

record payout_capability =
  pc_currencies :: "string list"
  pc_create_recipient :: "recipient_request \<Rightarrow> payout_recipient answer"
  pc_create_email_recipient :: "(email_recipient_request \<Rightarrow> payout_recipient answer) option"
  pc_initiate :: "payout_request \<Rightarrow> payout_answer answer"
  pc_find :: "string \<Rightarrow> string option \<Rightarrow> payout_answer option answer"

record payment_provider =
  pv_name :: string
  pv_currencies :: "string list"
  pv_initialize :: "initialize_request \<Rightarrow> checkout answer"
  pv_verify :: "string \<Rightarrow> string \<Rightarrow> verification answer"
  pv_refund :: "refund_request \<Rightarrow> refund_answer answer"
  pv_get_refund :: "string \<Rightarrow> refund_answer answer"
  pv_find_refund :: "string \<Rightarrow> string \<Rightarrow> refund_answer option answer"
  pv_payouts :: "payout_capability option"

section \<open>The registry\<close>

record payments_config =
  pg_enabled :: "string list"
  pg_default :: string
  pg_routes :: "(string \<times> string) list"
  pg_settlement_delay_seconds :: int

record registry =
  rg_config :: payments_config
  rg_providers :: "payment_provider list"
  rg_preferred :: "(string \<times> string) list"

definition PROVIDER_PREFERENCES :: "(string \<times> string) list" where
  "PROVIDER_PREFERENCES =
     [(''NGN'', ''paystack''), (''GHS'', ''paystack''), (''KES'', ''paystack''), (''ZAR'', ''paystack''),
      (''USD'', ''stripe''), (''EUR'', ''stripe''), (''GBP'', ''stripe''), (''JPY'', ''stripe'')]"

text \<open>An empty string counts as absent where the source tests \<open>if (x)\<close>.\<close>

definition truthy :: "string option \<Rightarrow> string option" where
  "truthy x = (if x = Some [] then None else x)"

definition can_charge :: "payment_provider list \<Rightarrow> string \<Rightarrow> string \<Rightarrow> bool" where
  "can_charge ps name currency = (case row_by pv_name name ps of None \<Rightarrow> False | Some p \<Rightarrow> currency \<in> set (pv_currencies p))"

text \<open>The constructor: refuses to start when a route names a provider that cannot charge.\<close>

definition start_providers :: "payments_config \<Rightarrow> payment_provider list \<Rightarrow> registry res" where
  "start_providers cfg available =
     (let ps = filter (\<lambda>p. pv_name p \<in> set (pg_enabled cfg)) available;
          invalid = map (\<lambda>(c, n). ''PAYMENT_CURRENCY_ROUTES: '' @ n @ '' cannot charge in '' @ c)
            (filter (\<lambda>(c, n). \<not> can_charge ps n c) (pg_routes cfg)) in
      if invalid \<noteq> []
      then Inl (Plain_Error (''Invalid \"payments\" configuration:\<newline>'' @ join ''\<newline>'' (map (\<lambda>v. ''  - '' @ v) invalid)))
      else Inr \<lparr>rg_config = cfg, rg_providers = ps,
                rg_preferred = filter (\<lambda>(c, n). can_charge ps n c) PROVIDER_PREFERENCES\<rparr>)"

definition get_provider :: "registry \<Rightarrow> string \<Rightarrow> payment_provider res" where
  "get_provider rg name = the_or (row_by pv_name name (rg_providers rg)) (Provider_Err (Unknown_Payment_Provider name))"

definition route_of :: "registry \<Rightarrow> string \<Rightarrow> string option" where
  "route_of rg currency = truthy (map_of (pg_routes (rg_config rg)) currency)"

definition select_provider :: "registry \<Rightarrow> string \<Rightarrow> string option \<Rightarrow> payment_provider res" where
  "select_provider rg currency requested =
     (case route_of rg currency of
        Some routed \<Rightarrow>
          if truthy requested \<noteq> None \<and> requested \<noteq> Some routed
          then Inl (Provider_Err (Provider_Not_Allowed_For_Currency currency routed))
          else get_provider rg routed
      | None \<Rightarrow>
          bind_res (get_provider rg (case requested of Some r \<Rightarrow> r
              | None \<Rightarrow> (case map_of (rg_preferred rg) currency of Some n \<Rightarrow> n | None \<Rightarrow> pg_default (rg_config rg)))) (\<lambda>p.
            if currency \<in> set (pv_currencies p) then Inr p
            else Inl (Provider_Err (Currency_Not_Supported_By_Provider (pv_name p) currency))))"

definition pays_out :: "payment_provider \<Rightarrow> string \<Rightarrow> payout_capability option" where
  "pays_out p currency = (case pv_payouts p of None \<Rightarrow> None
     | Some c \<Rightarrow> if currency \<in> set (pc_currencies c) then Some c else None)"

fun first_payout :: "registry \<Rightarrow> string \<Rightarrow> string option list \<Rightarrow> (string \<times> payout_capability) option" where
  "first_payout rg currency [] = None"
| "first_payout rg currency (n # ns) =
     (case truthy n of
        None \<Rightarrow> first_payout rg currency ns
      | Some name \<Rightarrow>
          (case row_by pv_name name (rg_providers rg) of
             None \<Rightarrow> first_payout rg currency ns
           | Some p \<Rightarrow> (case pays_out p currency of
               None \<Rightarrow> first_payout rg currency ns
             | Some c \<Rightarrow> Some (name, c))))"

definition select_for_payout :: "registry \<Rightarrow> string \<Rightarrow> string option \<Rightarrow> (string \<times> payout_capability) res" where
  "select_for_payout rg currency requested =
     (case truthy requested of
        Some name \<Rightarrow> bind_res (get_provider rg name) (\<lambda>p.
          case pays_out p currency of
            Some c \<Rightarrow> Inr (name, c)
          | None \<Rightarrow> Inl (Provider_Err (Payouts_Not_Supported (name @ '' cannot send payouts in '' @ currency))))
      | None \<Rightarrow>
          the_or (first_payout rg currency
              ([map_of (pg_routes (rg_config rg)) currency, map_of (rg_preferred rg) currency, Some (pg_default (rg_config rg))] @
               map (Some \<circ> pv_name) (rg_providers rg)))
            (Provider_Err (Payouts_Not_Supported (''No enabled provider can send payouts in '' @ currency))))"

definition payouts_of :: "registry \<Rightarrow> string \<Rightarrow> payout_capability res" where
  "payouts_of rg name =
     bind_res (get_provider rg name) (\<lambda>p.
       the_or (pv_payouts p) (Provider_Err (Payouts_Not_Supported (name @ '' cannot send payouts''))))"

definition enabled_names :: "registry \<Rightarrow> string list" where
  "enabled_names rg = map pv_name (rg_providers rg)"

definition has_provider :: "registry \<Rightarrow> string \<Rightarrow> bool" where
  "has_provider rg name = (row_by pv_name name (rg_providers rg) \<noteq> None)"

section \<open>Routing\<close>

lemma get_provider_Inr: "get_provider rg name = Inr p \<Longrightarrow> p \<in> set (rg_providers rg) \<and> pv_name p = name"
  by (auto simp: get_provider_def dest: row_by_Some)

lemma start_providers_Inr:
  assumes "start_providers cfg available = Inr rg"
  shows "rg_config rg = cfg" and "rg_providers rg = filter (\<lambda>p. pv_name p \<in> set (pg_enabled cfg)) available"
    and "rg_preferred rg = filter (\<lambda>(c, n). can_charge (rg_providers rg) n c) PROVIDER_PREFERENCES"
    and "\<And>c n. (c, n) \<in> set (pg_routes cfg) \<Longrightarrow> can_charge (rg_providers rg) n c"
  using assms by (auto simp: start_providers_def Let_def filter_empty_conv split: if_splits)

text \<open>
  In a deployment that started, the provider chosen for a payment is enabled and can charge
  the currency; when the operator has routed the currency it is the routed one, and a request
  for another provider is refused; without a route it is the one the client asked for.
\<close>

theorem routing_is_respected:
  assumes "start_providers cfg available = Inr rg" and "select_provider rg currency requested = Inr p"
  shows "pv_name p \<in> set (pg_enabled cfg) \<and> p \<in> set available \<and> currency \<in> set (pv_currencies p) \<and>
    (\<forall>r. route_of rg currency = Some r \<longrightarrow> pv_name p = r \<and> truthy requested \<in> {None, Some r}) \<and>
    (\<forall>r. route_of rg currency = None \<and> requested = Some r \<longrightarrow> pv_name p = r)"
proof -
  note st = start_providers_Inr [OF assms(1)]
  have en: "pv_name p \<in> set (pg_enabled cfg) \<and> p \<in> set available" if "p \<in> set (rg_providers rg)"
    using that by (simp add: st(2))
  show ?thesis
  proof (cases "route_of rg currency")
    case (Some r)
    then have get: "get_provider rg r = Inr p" and req: "truthy requested = None \<or> requested = Some r"
      using assms(2) by (auto simp: select_provider_def split: if_splits)
    have "(currency, r) \<in> set (pg_routes cfg)"
      using Some by (auto simp: route_of_def truthy_def st(1) dest: map_of_SomeD split: if_splits)
    from st(4) [OF this] get have "currency \<in> set (pv_currencies p)"
      by (auto simp: can_charge_def get_provider_def)
    then show ?thesis using en get_provider_Inr [OF get] req Some by (auto simp: truthy_def)
  next
    case None
    then show ?thesis using assms(2) en
      by (auto simp: select_provider_def bind_res_Inr_iff dest!: get_provider_Inr split: if_splits option.splits)
  qed
qed

definition demo_provider :: payment_provider where
  "demo_provider =
     \<lparr>pv_name = ''mock'', pv_currencies = [''NGN'', ''USD''],
      pv_initialize = (\<lambda>r. Inr \<lparr>co_provider_reference = ''mock_'' @ ir_reference r, co_authorization_url = ''url''\<rparr>),
      pv_verify = (\<lambda>r p. Inr \<lparr>vf_status = Provider_Successful, vf_provider_reference = p, vf_amount = 300, vf_currency = ''NGN'', vf_failure_reason = None\<rparr>),
      pv_refund = (\<lambda>r. Inr \<lparr>ra_provider_reference = ''mr_'' @ rr_reference r, ra_status = Provider_Successful\<rparr>),
      pv_get_refund = (\<lambda>r. Inr \<lparr>ra_provider_reference = r, ra_status = Provider_Successful\<rparr>),
      pv_find_refund = (\<lambda>p r. Inr None),
      pv_payouts = Some \<lparr>pc_currencies = [''NGN''],
        pc_create_recipient = (\<lambda>r. Inr \<lparr>pr_reference = ''rcp'', pr_account_name = ''A'', pr_bank_name = None\<rparr>),
        pc_create_email_recipient = None,
        pc_initiate = (\<lambda>r. Inr \<lparr>pa_provider_reference = ''mp'', pa_status = Payout_Successful, pa_failure_reason = None\<rparr>),
        pc_find = (\<lambda>r p. Inr None)\<rparr>\<rparr>"

definition demo_payments_config :: payments_config where
  "demo_payments_config = \<lparr>pg_enabled = [''mock''], pg_default = ''mock'', pg_routes = [(''USD'', ''mock'')], pg_settlement_delay_seconds = 10\<rparr>"

definition demo_registry :: registry where
  "demo_registry = \<lparr>rg_config = demo_payments_config, rg_providers = [demo_provider], rg_preferred = []\<rparr>"

lemma demo_registry_start: "start_providers demo_payments_config [demo_provider] = Inr demo_registry"
  by (simp add: start_providers_def demo_payments_config_def demo_provider_def demo_registry_def can_charge_def
      row_by_Cons PROVIDER_PREFERENCES_def)

theorem routing_is_respected_witness:
  "select_provider demo_registry ''USD'' None = Inr demo_provider \<and> ''USD'' \<in> set (pv_currencies demo_provider)"
proof -
  have s: "select_provider demo_registry ''USD'' None = Inr demo_provider"
    by (simp add: select_provider_def route_of_def truthy_def get_provider_def demo_registry_def demo_payments_config_def
        row_by_Cons demo_provider_def)
  from routing_is_respected [OF demo_registry_start s] s show ?thesis by blast
qed

end
