(* ===== verification/Payments.thy ===== *)
theory Payments
  imports Service_Runs Providers Fees Limits
begin

text \<open>
  \<open>src/payments/payments.service.ts\<close>: a payment is a pending transaction and a payment row in
  one database transaction, then a checkout with the provider outside of it. A second call
  with the same key returns the payment and creates the checkout when there is none yet.
\<close>

section \<open>The table\<close>

definition payment_row_error :: "payment \<Rightarrow> db_error option" where
  "payment_row_error p =
     (if \<not> (in_int8 (p_amount p) \<and> in_int8 (p_pending_amount p)) then Some Numeric_Out_Of_Range
      else if p_pending_amount p < 0 then Some (Check_Violation ''chk_payments_pending_amount'')
      else if \<not> one_owner (p_user_id p) (p_organization_id p) then Some (Check_Violation ''chk_payments_owner'')
      else None)"

definition payment_key_taken :: "payment \<Rightarrow> payment \<Rightarrow> string option" where
  "payment_key_taken p r =
     (if p_id r = p_id p then None
      else if p_provider_reference p \<noteq> None \<and> p_provider r = p_provider p \<and> p_provider_reference r = p_provider_reference p
      then Some ''uq_payments_provider_reference''
      else if p_transaction r = p_transaction p then Some ''uq_payments_transaction_id''
      else None)"

definition insert_payment :: "payment \<Rightarrow> db \<Rightarrow> (payment \<times> db) res" where
  "insert_payment p s =
     (case payment_row_error p of
        Some e \<Rightarrow> Inl (Db_Err e)
      | None \<Rightarrow> (case List.map_filter (payment_key_taken p) (payments s) of
          c # cs \<Rightarrow> Inl (Db_Err (Unique_Violation c))
        | [] \<Rightarrow> Inr (p, s\<lparr>payments := payments s @ [p], next_id := Suc (next_id s)\<rparr>)))"

definition update_payment :: "uuid \<Rightarrow> (payment \<Rightarrow> payment) \<Rightarrow> db \<Rightarrow> db res" where
  "update_payment i f s =
     (case row_by p_id i (payments s) of
        None \<Rightarrow> Inr s
      | Some p \<Rightarrow> (case payment_row_error (f p) of
          Some e \<Rightarrow> Inl (Db_Err e)
        | None \<Rightarrow> (case List.map_filter (payment_key_taken (f p)) (payments s) of
            c # cs \<Rightarrow> Inl (Db_Err (Unique_Violation c))
          | [] \<Rightarrow> Inr (s\<lparr>payments := set_row p_id i f (payments s)\<rparr>))))"

section \<open>Reading\<close>

definition get_payment :: "uuid \<Rightarrow> db \<Rightarrow> payment res" where
  "get_payment i s = the_or (row_by p_id i (payments s)) (Payment_Err Payment_Not_Found)"

definition lock_payment :: "uuid \<Rightarrow> db \<Rightarrow> payment res" where
  "lock_payment i s = the_or (row_by p_id i (payments s)) (Payment_Err Payment_Not_Found)"

definition set_held_amount :: "uuid \<Rightarrow> int \<Rightarrow> db \<Rightarrow> db res" where
  "set_held_amount i x s = update_payment i (\<lambda>p. p\<lparr>p_pending_amount := x\<rparr>) s"

definition payment_by_transaction_reference :: "string \<Rightarrow> db \<Rightarrow> payment option" where
  "payment_by_transaction_reference r s =
     (case find_by_reference r s of None \<Rightarrow> None | Some t \<Rightarrow> row_by p_transaction (t_id t) (payments s))"

definition payments_for_provider :: "string \<Rightarrow> int \<Rightarrow> int \<Rightarrow> db \<Rightarrow> payment list" where
  "payments_for_provider provider t0 t1 s =
     filter (\<lambda>p. p_provider p = provider \<and> t0 \<le> p_created_at p \<and> p_created_at p < t1) (payments s)"

definition payment_by_provider_reference :: "string \<Rightarrow> string \<Rightarrow> db \<Rightarrow> payment option" where
  "payment_by_provider_reference provider r s =
     find (\<lambda>p. p_provider p = provider \<and> p_provider_reference p = Some r) (payments s)"

definition payment_of_transaction :: "uuid \<Rightarrow> db \<Rightarrow> payment res" where
  "payment_of_transaction i s = the_or (row_by p_transaction i (payments s)) (Payment_Err Payment_Not_Found)"

record payment_view =
  vw_payment :: payment
  vw_transaction :: txn
  vw_quote :: "fx_quote option"

definition view_payment :: "payment \<Rightarrow> db \<Rightarrow> payment_view res" where
  "view_payment p s =
     bind_res (get_transaction (p_transaction p) s) (\<lambda>t.
     bind_res (the_or (row_by p_id (p_id p) (payments s)) (Db_Err Entity_Not_Found)) (\<lambda>current.
       case p_fx_quote current of
         None \<Rightarrow> Inr \<lparr>vw_payment = current, vw_transaction = t, vw_quote = None\<rparr>
       | Some q \<Rightarrow> bind_res (get_quote q None s) (\<lambda>quote.
           Inr \<lparr>vw_payment = current, vw_transaction = t, vw_quote = Some quote\<rparr>)))"

definition get_owned_payment :: "owner \<Rightarrow> uuid \<Rightarrow> db \<Rightarrow> payment_view res" where
  "get_owned_payment own i s =
     bind_res (the_or (find (\<lambda>p. p_id p = i \<and> owner_where own (p_user_id p) (p_organization_id p)) (payments s))
       (Payment_Err Payment_Not_Found)) (\<lambda>p. view_payment p s)"

section \<open>Creating a payment\<close>

record initialize_input =
  in_amount :: int
  in_currency :: string
  in_provider :: "string option"
  in_callback_url :: "string option"
  in_customer_email :: "string option"

definition find_user_by_id :: "uuid \<Rightarrow> db \<Rightarrow> user_row option" where
  "find_user_by_id i s = row_by u_id i (users s)"

definition customer_email_for :: "owner \<Rightarrow> initialize_input \<Rightarrow> db \<Rightarrow> string res" where
  "customer_email_for own inp s =
     (case truthy (in_customer_email inp) of
        Some e \<Rightarrow> Inr e
      | None \<Rightarrow> (case own of
          Organization_Owner g \<Rightarrow> Inl (Payment_Err Customer_Email_Required)
        | User_Owner u \<Rightarrow> bind_res (the_or (find_user_by_id u s) (Payment_Err Payment_Not_Found)) (\<lambda>r. Inr (u_email r))))"

definition payment_transaction :: "owner \<Rightarrow> credit_target \<Rightarrow> fee_quote \<Rightarrow> string \<Rightarrow> initialize_input \<Rightarrow> string \<Rightarrow> new_transaction" where
  "payment_transaction own target fee provider inp key =
     (plain_transaction Ty_Payment Pending (in_amount inp) (in_currency inp) (owner_columns own))
     \<lparr>nt_destination_wallet := Some (w_id (ct_wallet target)), nt_idempotency_key := Some key,
      nt_description := Some (''Payment via '' @ provider),
      nt_fee_amount := (if fq_amount fee > 0 then fq_amount fee else 0),
      nt_fee_currency := (if fq_amount fee > 0 then Some (fq_currency fee) else None),
      nt_fee_rule := (if fq_amount fee > 0 then fq_rule fee else None)\<rparr>"

definition new_payment :: "int \<Rightarrow> owner \<Rightarrow> credit_target \<Rightarrow> string \<Rightarrow> string \<Rightarrow> fx_quote option \<Rightarrow> initialize_input \<Rightarrow> txn \<Rightarrow> uuid \<Rightarrow> payment" where
  "new_payment now own target provider email quote inp t i =
     \<lparr>p_id = i, p_transaction = t_id t, p_user_id = fst (owner_columns own), p_organization_id = snd (owner_columns own),
      p_customer_email = email, p_wallet = w_id (ct_wallet target), p_provider = provider, p_provider_reference = None,
      p_authorization_url = None, p_amount = in_amount inp, p_currency = in_currency inp, p_fx_quote = map_option q_id quote,
      p_pending_amount = 0, p_funds_available_at = None, p_created_at = now\<rparr>"

text \<open>The database transaction that records the payment.\<close>

definition record_payment :: "string \<Rightarrow> int \<Rightarrow> owner \<Rightarrow> credit_target \<Rightarrow> string \<Rightarrow> string \<Rightarrow> fx_quote option \<Rightarrow> fee_quote \<Rightarrow> initialize_input \<Rightarrow> string \<Rightarrow> db \<Rightarrow> (payment \<times> db) res" where
  "record_payment hex now own target provider email quote fee inp key s =
     bind_res (assert_within_limits now own Limit_Payment (in_currency inp) (in_amount inp) s) (\<lambda>_.
     bind_res (create_transaction hex now (payment_transaction own target fee provider inp key) s) (\<lambda>(t, s1).
       insert_payment (new_payment now own target provider email quote inp t (next_id s1)) s1))"

text \<open>
  The checkout: a rejection fails the payment, an outage leaves it pending. \<open>payment\<close> is the
  row as it was read before.
\<close>

definition checkout_request :: "payment \<Rightarrow> txn \<Rightarrow> string option \<Rightarrow> initialize_request" where
  "checkout_request p t callback =
     \<lparr>ir_reference = t_reference t, ir_amount = p_amount p, ir_currency = p_currency p,
      ir_customer_email = p_customer_email p, ir_callback_url = callback\<rparr>"

definition start_checkout :: "registry \<Rightarrow> payment \<Rightarrow> txn \<Rightarrow> string option \<Rightarrow> unit run" where
  "start_checkout rg p t callback s =
     (case get_provider rg (p_provider p) of
        Inl e \<Rightarrow> (Inl (Payment_Err Payment_Provider_Unavailable), s)
      | Inr prov \<Rightarrow>
          (case pv_initialize prov (checkout_request p t callback) of
             Inr r \<Rightarrow>
               (case update_payment (p_id p) (\<lambda>row. row\<lparr>p_provider_reference := Some (co_provider_reference r),
                    p_authorization_url := Some (co_authorization_url r)\<rparr>) s of
                  Inr s' \<Rightarrow> (Inr (), s')
                | Inl e \<Rightarrow> (Inl (Payment_Err Payment_Provider_Unavailable), s))
           | Inl f \<Rightarrow>
               (case rejection f of
                  None \<Rightarrow> (Inl (Payment_Err Payment_Provider_Unavailable), s)
                | Some m \<Rightarrow> then_do (committed (transition (p_transaction p) Failed
                    (empty_patch\<lparr>tp_failure_code := Some ''PROVIDER_REJECTED'', tp_failure_reason := Some (take 500 m)\<rparr>)))
                    (\<lambda>_ s. (Inr (), s)) s)))"

definition ensure_initialized :: "registry \<Rightarrow> payment \<Rightarrow> string option \<Rightarrow> payment_view run" where
  "ensure_initialized rg p callback =
     then_do (reading (view_payment p)) (\<lambda>v.
       if truthy (p_provider_reference p) \<noteq> None \<or> t_status (vw_transaction v) \<noteq> Pending
       then (\<lambda>s. (Inr v, s))
       else then_do (start_checkout rg p (vw_transaction v) callback) (\<lambda>_.
         reading (\<lambda>s. bind_res (the_or (row_by p_id (p_id p) (payments s)) (Db_Err Entity_Not_Found)) (\<lambda>q. view_payment q s))))"

text \<open>
  \<open>initialize\<close>. The look-up of the key and everything before the database transaction may read
  an older state; the quote is created in a database transaction of its own.
\<close>

definition payment_quote :: "fx_config \<Rightarrow> int \<Rightarrow> owner \<Rightarrow> credit_target \<Rightarrow> initialize_input \<Rightarrow> fx_quote option run" where
  "payment_quote cfg now own target inp =
     (if ct_requires_conversion target
      then then_do (reading (\<lambda>_. to_currency_code (w_currency (ct_wallet target)))) (\<lambda>c.
        then_do (committed (create_quote cfg now
          \<lparr>qi_user = owner_user_id own, qi_source = in_currency inp, qi_target = c, qi_amount = Fixed_Source (in_amount inp)\<rparr>))
          (\<lambda>q s. (Inr (Some q), s)))
      else (\<lambda>s. (Inr None, s)))"

definition initialize_at :: "db \<Rightarrow> registry \<Rightarrow> fx_config \<Rightarrow> string \<Rightarrow> int \<Rightarrow> owner \<Rightarrow> initialize_input \<Rightarrow> string \<Rightarrow> payment_view run" where
  "initialize_at seen rg cfg hex now own inp key =
     (case find_by_idempotency_key own key seen of
        Some t \<Rightarrow> then_do (reading (payment_of_transaction (t_id t))) (\<lambda>p. ensure_initialized rg p (in_callback_url inp))
      | None \<Rightarrow>
          then_do (reading (\<lambda>_. select_provider rg (in_currency inp) (in_provider inp))) (\<lambda>prov.
          then_do (reading (customer_email_for own inp)) (\<lambda>email.
          then_do (reading (resolve_credit_target own (in_currency inp))) (\<lambda>target.
          then_do (payment_quote cfg now own target inp) (\<lambda>quote.
          then_do (reading (quote_fee_covered Fee_Payment (w_currency (ct_wallet target))
              (case quote of Some q \<Rightarrow> q_target_amount q | None \<Rightarrow> in_amount inp) (owner_organization own))) (\<lambda>fee s.
            case record_payment hex now own target (pv_name prov) email quote fee inp key s of
              Inr (p, s') \<Rightarrow> ensure_initialized rg p (in_callback_url inp) s'
            | Inl e \<Rightarrow>
                if is_unique_violation e [''uq_transactions_user_idempotency_key'', ''uq_transactions_org_idempotency_key'']
                then (case find_by_idempotency_key own key s of
                        Some w \<Rightarrow> then_do (reading (payment_of_transaction (t_id w))) (\<lambda>p. reading (view_payment p)) s
                      | None \<Rightarrow> (Inl e, s))
                else (Inl e, s)))))))"

definition initialize :: "registry \<Rightarrow> fx_config \<Rightarrow> string \<Rightarrow> int \<Rightarrow> owner \<Rightarrow> initialize_input \<Rightarrow> string \<Rightarrow> payment_view run" where
  "initialize rg cfg hex now own inp key s = initialize_at s rg cfg hex now own inp key s"

end
