(* ===== verification/Settlement.thy ===== *)
theory Settlement
  imports Payments
begin

text \<open>
  \<open>src/payments/payment-settlement.service.ts\<close>: what the provider says about a payment becomes
  state; \<open>settlement-release.service.ts\<close>: the end of a settlement hold.
\<close>

section \<open>Settling\<close>

datatype settlement_outcome = Credited | Already_Settled | Still_Pending | Settled_Failed | Amount_Mismatch | Ignored

definition OPEN_STATUSES :: "txn_status list" where
  "OPEN_STATUSES = [Pending, Processing]"

definition j_timestamp :: "int \<Rightarrow> json" where
  "j_timestamp t = JNum t"

text \<open>The quote locked at checkout, or a fresh one when it has expired unused.\<close>

definition usable_quote_id :: "fx_config \<Rightarrow> int \<Rightarrow> payment \<Rightarrow> uuid \<Rightarrow> db \<Rightarrow> (uuid \<times> db) res" where
  "usable_quote_id cfg now p fxq s =
     bind_res (get_quote_within fxq s) (\<lambda>q.
       if q_consumed_at q \<noteq> None \<or> q_expires_at q > now then Inr (q_id q, s)
       else
         bind_res (to_currency_code (q_source_currency q)) (\<lambda>src.
         bind_res (to_currency_code (q_target_currency q)) (\<lambda>tgt.
         bind_res (create_quote cfg now \<lparr>qi_user = p_user_id p, qi_source = src, qi_target = tgt, qi_amount = Fixed_Source (p_amount p)\<rparr> s)
           (\<lambda>(requote, s1).
         bind_res (update_payment (p_id p) (\<lambda>row. row\<lparr>p_fx_quote := Some (q_id requote)\<rparr>) s1) (\<lambda>s2.
           Inr (q_id requote, merge_metadata (p_transaction p)
             [(''lateFxRequote'', JBool True), (''originalFxQuoteId'', j_id (q_id q))] s2))))))"

definition hold_ms :: "registry \<Rightarrow> int" where
  "hold_ms rg = pg_settlement_delay_seconds (rg_config rg) * 1000"

definition credit_into :: "registry \<Rightarrow> balance_kind" where
  "credit_into rg = (if hold_ms rg > 0 then Pending_Balance else Available)"

text \<open>The posting or the conversion: the ledger transaction, the amount and its currency.\<close>

definition credit_money :: "registry \<Rightarrow> fx_config \<Rightarrow> int \<Rightarrow> payment \<Rightarrow> txn \<Rightarrow> db \<Rightarrow> ((uuid \<times> int \<times> string) \<times> db) res" where
  "credit_money rg cfg now p t s =
     (case p_fx_quote p of
        Some fxq \<Rightarrow>
          bind_res (usable_quote_id cfg now p fxq s) (\<lambda>(quote, s1).
          bind_res (deposit_with_conversion_within now (p_wallet p)
              \<lparr>cq_quote = quote, cq_reference = ''payment:'' @ t_reference t, cq_description = ''Payment '' @ t_reference t\<rparr>
              (credit_into rg) s1) (\<lambda>(c, s2).
            Inr ((lt_id (cr_target_leg c), q_target_amount (cr_quote c), q_target_currency (cr_quote c)), s2)))
      | None \<Rightarrow>
          bind_res (deposit_within now (p_wallet p)
              \<lparr>mv_amount = p_amount p, mv_reference = ''payment:'' @ t_reference t, mv_description = ''Payment '' @ t_reference t,
               mv_metadata = [(''transactionId'', j_id (t_id t)), (''paymentId'', j_id (p_id p))]\<rparr>
              (credit_into rg) s) (\<lambda>(posted, s1).
            Inr ((lt_id (ps_txn posted), p_amount p, p_currency p), s1)))"

definition settlement_fee :: "txn \<Rightarrow> int \<Rightarrow> int" where
  "settlement_fee t credited = (if t_fee_amount t < credited then t_fee_amount t else credited)"

definition take_fee :: "registry \<Rightarrow> int \<Rightarrow> payment \<Rightarrow> txn \<Rightarrow> int \<Rightarrow> db \<Rightarrow> db res" where
  "take_fee rg now p t fee s =
     (if fee > 0
      then bind_res (collect_fee_within now (p_wallet p) (credit_into rg)
          \<lparr>mv_amount = fee, mv_reference = ''fee:payment:'' @ t_reference t, mv_description = ''Fee for payment '' @ t_reference t,
           mv_metadata = [(''transactionId'', j_id (t_id t)), (''paymentId'', j_id (p_id p))]\<rparr> s) (\<lambda>(_, s'). Inr s')
      else Inr s)"

definition payment_event :: "payment \<Rightarrow> txn \<Rightarrow> int \<Rightarrow> string \<Rightarrow> int \<Rightarrow> int \<Rightarrow> json_object" where
  "payment_event p t credited currency fee available_at =
     [(''transactionId'', j_id (t_id t)), (''reference'', JStr (t_reference t)), (''paymentId'', j_id (p_id p)),
      (''userId'', j_opt j_id (p_user_id p)), (''organizationId'', j_opt j_id (p_organization_id p)),
      (''walletId'', j_id (p_wallet p)),
      (''charged'', JObj [(''amount'', j_amount (p_amount p)), (''currency'', JStr (p_currency p))]),
      (''credited'', JObj [(''amount'', j_amount credited), (''currency'', JStr currency)]),
      (''fee'', JObj [(''amount'', j_amount fee), (''currency'', JStr currency)]),
      (''fundsAvailableAt'', j_timestamp available_at)]"

definition credit_payment :: "registry \<Rightarrow> fx_config \<Rightarrow> int \<Rightarrow> payment \<Rightarrow> db \<Rightarrow> (settlement_outcome \<times> db) res" where
  "credit_payment rg cfg now p s =
     bind_res (lock_transaction (p_transaction p) s) (\<lambda>t.
       if t_status t = Successful then Inr (Already_Settled, s)
       else if t_status t \<notin> set OPEN_STATUSES then Inr (Ignored, s)
       else
         let available_at = now + hold_ms rg in
         bind_res (credit_money rg cfg now p t s) (\<lambda>((ledger_txn, credited, currency), s1).
         bind_res (transition (t_id t) Successful
             (empty_patch\<lparr>tp_ledger_txn := Some ledger_txn, tp_provider_reference := Some (p_provider_reference p), tp_completed_at := Some now\<rparr>) s1) (\<lambda>(_, s2).
         let fee = settlement_fee t credited in
         bind_res (take_fee rg now p t fee s2) (\<lambda>s3.
         bind_res (update_payment (p_id p) (\<lambda>row. row\<lparr>p_pending_amount := (if hold_ms rg > 0 then credited - fee else 0),
             p_funds_available_at := Some available_at\<rparr>) s3) (\<lambda>s4.
           Inr (Credited, add_event now ''payment.successful'' ''transaction'' (t_id t)
             (payment_event p t credited currency fee available_at) s4))))))"

definition fail_payment :: "int \<Rightarrow> payment \<Rightarrow> string \<Rightarrow> string \<Rightarrow> db \<Rightarrow> (settlement_outcome \<times> db) res" where
  "fail_payment now p code reason s =
     bind_res (lock_transaction (p_transaction p) s) (\<lambda>t.
       if t_status t \<notin> set OPEN_STATUSES
       then Inr (if t_status t = Successful then Already_Settled else Settled_Failed, s)
       else
         bind_res (transition (t_id t) Failed
             (empty_patch\<lparr>tp_failure_code := Some code, tp_failure_reason := Some (take 500 reason),
               tp_provider_reference := Some (p_provider_reference p)\<rparr>) s) (\<lambda>(_, s1).
           Inr (Settled_Failed, add_event now ''payment.failed'' ''transaction'' (t_id t)
             [(''transactionId'', j_id (t_id t)), (''reference'', JStr (t_reference t)), (''paymentId'', j_id (p_id p)),
              (''userId'', j_opt j_id (p_user_id p)), (''organizationId'', j_opt j_id (p_organization_id p)),
              (''failureCode'', JStr code)] s1)))"

definition mismatch_reason :: "verification \<Rightarrow> payment \<Rightarrow> string" where
  "mismatch_reason v p =
     ''Provider collected '' @ show_int (vf_amount v) @ '' '' @ vf_currency v @
     ''; expected '' @ show_int (p_amount p) @ '' '' @ p_currency p"

text \<open>The provider is asked about the state the payment had when it was read.\<close>

definition settle :: "registry \<Rightarrow> fx_config \<Rightarrow> int \<Rightarrow> payment \<Rightarrow> settlement_outcome run" where
  "settle rg cfg now p s =
     (case truthy (p_provider_reference p) of
        None \<Rightarrow> (Inr Still_Pending, s)
      | Some pref \<Rightarrow>
          (case bind_res (get_transaction (p_transaction p) s) (\<lambda>t.
                bind_res (get_provider rg (p_provider p)) (\<lambda>prov. Inr (pv_verify prov (t_reference t) pref))) of
             Inl e \<Rightarrow> (Inl (Payment_Err Payment_Provider_Unavailable), s)
           | Inr (Inl f) \<Rightarrow> if rejection f \<noteq> None then (Inr Ignored, s) else (Inl (Payment_Err Payment_Provider_Unavailable), s)
           | Inr (Inr v) \<Rightarrow>
               (case vf_status v of
                  Provider_Pending \<Rightarrow> (Inr Still_Pending, s)
                | Provider_Failed \<Rightarrow> committed (fail_payment now p ''PAYMENT_FAILED''
                    (case vf_failure_reason v of None \<Rightarrow> ''Payment failed'' | Some r \<Rightarrow> r)) s
                | Provider_Successful \<Rightarrow>
                    if vf_amount v \<noteq> p_amount p \<or> vf_currency v \<noteq> p_currency p
                    then then_do (committed (fail_payment now p ''AMOUNT_MISMATCH'' (mismatch_reason v p)))
                      (\<lambda>out s. (Inr (if out = Settled_Failed then Amount_Mismatch else out), s)) s
                    else committed (credit_payment rg cfg now p) s)))"

section \<open>Ending the hold\<close>

definition settlement_movement :: "payment \<Rightarrow> movement" where
  "settlement_movement p =
     \<lparr>mv_amount = p_pending_amount p, mv_reference = ''settlement:'' @ uuid_str (p_id p),
      mv_description = ''Settlement of payment '' @ uuid_str (p_id p), mv_metadata = [(''paymentId'', j_id (p_id p))]\<rparr>"

definition release_payment :: "request_context \<Rightarrow> int \<Rightarrow> uuid \<Rightarrow> bool \<Rightarrow> db \<Rightarrow> (bool \<times> db) res" where
  "release_payment ctx now i early s =
     bind_res (the_or (row_by p_id i (payments s)) (Payment_Err Payment_Not_Found)) (\<lambda>p.
       if p_pending_amount p = 0 then Inr (False, s)
       else
         bind_res (make_available_within now (p_wallet p) (settlement_movement p) s) (\<lambda>(_, s1).
         bind_res (update_payment (p_id p) (\<lambda>row. row\<lparr>p_pending_amount := 0, p_funds_available_at :=
             (case p_funds_available_at p of Some a \<Rightarrow> if a < now then Some a else Some now | None \<Rightarrow> Some now)\<rparr>) s1) (\<lambda>s2.
         let s3 = add_event now ''payment.funds_available'' ''transaction'' (p_transaction p)
               [(''paymentId'', j_id (p_id p)), (''walletId'', j_id (p_wallet p)), (''userId'', j_opt j_id (p_user_id p)),
                (''organizationId'', j_opt j_id (p_organization_id p)), (''amount'', j_amount (p_pending_amount p)),
                (''early'', JBool early)] s2 in
           Inr (True, if early
             then record_audit ctx now ''payment.released_early'' ''payment'' (p_id p) (p_organization_id p)
               [(''amount'', j_amount (p_pending_amount p)), (''scheduledFor'', j_opt j_timestamp (p_funds_available_at p))] s3
             else s3))))"

definition due_payments :: "int \<Rightarrow> nat \<Rightarrow> db \<Rightarrow> uuid list" where
  "due_payments now limit s =
     take limit (map p_id (sort_key (\<lambda>p. the (p_funds_available_at p))
       (filter (\<lambda>p. p_pending_amount p > 0 \<and> (case p_funds_available_at p of None \<Rightarrow> False | Some a \<Rightarrow> a \<le> now)) (payments s))))"

fun release_all :: "request_context \<Rightarrow> int \<Rightarrow> uuid list \<Rightarrow> nat run" where
  "release_all ctx now [] s = (Inr 0, s)"
| "release_all ctx now (i # is) s =
     then_do (committed (release_payment ctx now i False)) (\<lambda>done.
       then_do (release_all ctx now is) (\<lambda>n s. (Inr (if done then Suc n else n), s))) s"

definition release_due :: "request_context \<Rightarrow> int \<Rightarrow> nat \<Rightarrow> nat run" where
  "release_due ctx now limit s = release_all ctx now (due_payments now limit s) s"

definition release_early :: "request_context \<Rightarrow> int \<Rightarrow> uuid \<Rightarrow> payment run" where
  "release_early ctx now i =
     then_do (committed (release_payment ctx now i True)) (\<lambda>_.
       reading (\<lambda>s. the_or (row_by p_id i (payments s)) (Payment_Err Payment_Not_Found)))"

end
