(* ===== verification/Refund_Math.thy ===== *)
theory Refund_Math
  imports Entities
begin

text \<open>
  \<open>src/refunds/refund-math.ts\<close>: how a partial refund of a converted payment unwinds the
  conversion. Everything is computed on the running total, so partial refunds do not drift.
\<close>

record original_conversion =
  oc_charged :: int
  oc_credited :: int
  oc_gross :: int

record conversion_reversal =
  rv_wallet_debit :: int
  rv_revenue :: int
  rv_gross :: int

definition reversal_ceil_div :: "int \<Rightarrow> int \<Rightarrow> int" where
  "reversal_ceil_div a b = big_div (a + b - 1) b"

definition reverse_conversion :: "original_conversion \<Rightarrow> int \<Rightarrow> int \<Rightarrow> conversion_reversal res" where
  "reverse_conversion c before amount =
     (if amount \<le> 0 \<or> before < 0 \<or> before + amount > oc_charged c
      then Inl (Range_Error ''Refund exceeds the refundable amount'')
      else
        let spread = oc_gross c - oc_credited c;
            after = before + amount;
            debit = reversal_ceil_div (oc_credited c * after) (oc_charged c) - reversal_ceil_div (oc_credited c * before) (oc_charged c);
            revenue = big_div (spread * after) (oc_charged c) - big_div (spread * before) (oc_charged c) in
        Inr \<lparr>rv_wallet_debit = debit, rv_revenue = revenue, rv_gross = debit + revenue\<rparr>)"

text \<open>What a real conversion looks like (\<open>chk_fx_quotes_target_within_gross\<close>).\<close>

definition sound_conversion :: "original_conversion \<Rightarrow> bool" where
  "sound_conversion c \<longleftrightarrow> 0 < oc_charged c \<and> 0 < oc_credited c \<and> oc_credited c \<le> oc_gross c"

section \<open>The running totals\<close>

definition debit_upto :: "original_conversion \<Rightarrow> int \<Rightarrow> int" where
  "debit_upto c x = (oc_credited c * x + oc_charged c - 1) div oc_charged c"

definition revenue_upto :: "original_conversion \<Rightarrow> int \<Rightarrow> int" where
  "revenue_upto c x = ((oc_gross c - oc_credited c) * x) div oc_charged c"

lemma reverse_conversion_Inr:
  assumes "sound_conversion c" and "reverse_conversion c before amount = Inr r"
  shows "0 < amount" and "0 \<le> before" and "before + amount \<le> oc_charged c"
    and "rv_wallet_debit r = debit_upto c (before + amount) - debit_upto c before"
    and "rv_revenue r = revenue_upto c (before + amount) - revenue_upto c before"
    and "rv_gross r = rv_wallet_debit r + rv_revenue r"
proof -
  have ok: "0 < amount" "0 \<le> before" "before + amount \<le> oc_charged c"
    using assms(2) by (auto simp: reverse_conversion_def not_le not_less split: if_splits)
  then show "0 < amount" "0 \<le> before" "before + amount \<le> oc_charged c" by simp_all
  have pos: "0 < oc_charged c" "0 \<le> oc_credited c" "0 \<le> oc_gross c - oc_credited c"
    using assms(1) by (simp_all add: sound_conversion_def)
  have c: "reversal_ceil_div (oc_credited c * x) (oc_charged c) = debit_upto c x" if "0 \<le> x" for x
  proof -
    have "0 \<le> oc_credited c * x" using pos that by simp
    then show ?thesis using pos by (simp add: reversal_ceil_div_def debit_upto_def big_div_nonneg)
  qed
  have f: "big_div ((oc_gross c - oc_credited c) * x) (oc_charged c) = revenue_upto c x" if "0 \<le> x" for x
    using pos that by (simp add: revenue_upto_def big_div_nonneg)
  from assms(2) ok c f
  show "rv_wallet_debit r = debit_upto c (before + amount) - debit_upto c before"
    "rv_revenue r = revenue_upto c (before + amount) - revenue_upto c before"
    "rv_gross r = rv_wallet_debit r + rv_revenue r"
    by (auto simp: reverse_conversion_def Let_def split: if_splits)
qed

lemma upto_mono:
  assumes "sound_conversion c" and "x \<le> y"
  shows "debit_upto c x \<le> debit_upto c y" and "revenue_upto c x \<le> revenue_upto c y"
proof -
  have "oc_credited c * x \<le> oc_credited c * y" "(oc_gross c - oc_credited c) * x \<le> (oc_gross c - oc_credited c) * y"
    using assms by (auto simp: sound_conversion_def intro: mult_left_mono)
  then show "debit_upto c x \<le> debit_upto c y" "revenue_upto c x \<le> revenue_upto c y"
    unfolding debit_upto_def revenue_upto_def using assms(1)
    by (intro ceil_div_mono zdiv_mono1; simp add: sound_conversion_def)+
qed

lemma upto_ends:
  assumes "sound_conversion c"
  shows "debit_upto c 0 = 0" and "revenue_upto c 0 = 0"
    and "debit_upto c (oc_charged c) = oc_credited c" and "revenue_upto c (oc_charged c) = oc_gross c - oc_credited c"
proof -
  have pos: "0 < oc_charged c" using assms by (simp add: sound_conversion_def)
  then show "debit_upto c 0 = 0" "revenue_upto c 0 = 0" by (simp_all add: debit_upto_def revenue_upto_def)
  have "oc_credited c * oc_charged c + oc_charged c - 1 = (oc_charged c - 1) + oc_credited c * oc_charged c" by simp
  then show "debit_upto c (oc_charged c) = oc_credited c"
    using pos unfolding debit_upto_def by (simp only: div_mult_self1) simp
  show "revenue_upto c (oc_charged c) = oc_gross c - oc_credited c"
    using pos by (simp add: revenue_upto_def)
qed

text \<open>The wallet pays back at least its share, the revenue at most its share.\<close>

lemma upto_bounds:
  assumes "sound_conversion c"
  shows "oc_credited c * x \<le> debit_upto c x * oc_charged c" and "debit_upto c x * oc_charged c < oc_credited c * x + oc_charged c"
    and "revenue_upto c x * oc_charged c \<le> (oc_gross c - oc_credited c) * x"
proof -
  have pos: "0 < oc_charged c" using assms by (simp add: sound_conversion_def)
  show "oc_credited c * x \<le> debit_upto c x * oc_charged c"
    using ceil_div_le_iff [OF pos, of "oc_credited c * x" "debit_upto c x"] by (simp add: debit_upto_def)
  show "debit_upto c x * oc_charged c < oc_credited c * x + oc_charged c"
    using div_mult_le [OF pos, of "oc_credited c * x + oc_charged c - 1"] by (simp add: debit_upto_def)
  show "revenue_upto c x * oc_charged c \<le> (oc_gross c - oc_credited c) * x"
    unfolding revenue_upto_def by (rule div_mult_le [OF pos])
qed

section \<open>A series of refunds\<close>

text \<open>Refunds one after another, each on the total of those before it.\<close>

fun reverse_all :: "original_conversion \<Rightarrow> int \<Rightarrow> int list \<Rightarrow> conversion_reversal list res" where
  "reverse_all c before [] = Inr []"
| "reverse_all c before (x # xs) =
     bind_res (reverse_conversion c before x) (\<lambda>r.
     bind_res (reverse_all c (before + x) xs) (\<lambda>rs. Inr (r # rs)))"

lemma reverse_all_sum:
  assumes "sound_conversion c" and "0 \<le> before" and "reverse_all c before xs = Inr rs"
  shows "sum_list (map rv_wallet_debit rs) = debit_upto c (before + sum_list xs) - debit_upto c before"
    and "sum_list (map rv_revenue rs) = revenue_upto c (before + sum_list xs) - revenue_upto c before"
    and "sum_list (map rv_gross rs) = sum_list (map rv_wallet_debit rs) + sum_list (map rv_revenue rs)"
proof -
  have "sum_list (map rv_wallet_debit rs) = debit_upto c (before + sum_list xs) - debit_upto c before \<and>
     sum_list (map rv_revenue rs) = revenue_upto c (before + sum_list xs) - revenue_upto c before \<and>
     sum_list (map rv_gross rs) = sum_list (map rv_wallet_debit rs) + sum_list (map rv_revenue rs)"
    using assms(2,3)
  proof (induction xs arbitrary: before rs)
    case Nil
    then show ?case by simp
  next
    case (Cons x xs)
    then obtain r rs' where r: "reverse_conversion c before x = Inr r" and rs: "reverse_all c (before + x) xs = Inr rs'"
      and eq: "rs = r # rs'" by (auto simp: bind_res_Inr_iff)
    note one = reverse_conversion_Inr [OF assms(1) r]
    have "0 \<le> before + x" using one by simp
    from Cons.IH [OF this rs] one show ?case by (simp add: eq algebra_simps)
  qed
  then show "sum_list (map rv_wallet_debit rs) = debit_upto c (before + sum_list xs) - debit_upto c before"
    "sum_list (map rv_revenue rs) = revenue_upto c (before + sum_list xs) - revenue_upto c before"
    "sum_list (map rv_gross rs) = sum_list (map rv_wallet_debit rs) + sum_list (map rv_revenue rs)" by simp_all
qed

lemma reverse_all_total:
  assumes "sound_conversion c" and "reverse_all c 0 xs = Inr rs" and "sum_list xs = oc_charged c"
  shows "sum_list (map rv_wallet_debit rs) = oc_credited c \<and>
    sum_list (map rv_revenue rs) = oc_gross c - oc_credited c \<and> sum_list (map rv_gross rs) = oc_gross c"
  using reverse_all_sum [OF assms(1) _ assms(2)] upto_ends [OF assms(1)] assms(3) by simp

text \<open>
  C24. Refunding a converted payment in any number of parts takes back exactly what the payment
  gave: when the parts add up to the charged amount, the wallet has paid back exactly the
  credit, the platform exactly its revenue, and the position is unwound by the gross amount.
\<close>

theorem refunds_in_parts_are_exact:
  assumes "sound_conversion c" and "reverse_all c 0 xs = Inr rs" and "sum_list xs = oc_charged c"
  shows "sum_list (map rv_wallet_debit rs) = oc_credited c \<and>
    sum_list (map rv_revenue rs) = oc_gross c - oc_credited c \<and> sum_list (map rv_gross rs) = oc_gross c"
  by (rule reverse_all_total [OF assms])

text \<open>The example of the source file: 15,500 naira paid, 9.90 dollars credited of 10.00.\<close>

definition demo_unwound :: original_conversion where
  "demo_unwound = \<lparr>oc_charged = 1550000, oc_credited = 990, oc_gross = 1000\<rparr>"

theorem refunds_in_parts_are_exact_witness:
  "\<exists>rs. reverse_all demo_unwound 0 [1, 517483, 1032516] = Inr rs \<and> map rv_wallet_debit rs = [1, 330, 659] \<and>
     sum_list (map rv_wallet_debit rs) = 990 \<and> sum_list (map rv_revenue rs) = 10"
proof -
  let ?rs = "case reverse_all demo_unwound 0 [1, 517483, 1032516] of Inr rs \<Rightarrow> rs"
  have r: "reverse_all demo_unwound 0 [1, 517483, 1032516] = Inr ?rs" and d: "map rv_wallet_debit ?rs = [1, 330, 659]"
    by code_simp+
  have "sound_conversion demo_unwound" "sum_list [1, 517483, 1032516] = oc_charged demo_unwound"
    by (simp_all add: demo_unwound_def sound_conversion_def)
  from refunds_in_parts_are_exact [OF this(1) r this(2)] r d show ?thesis by (auto simp: demo_unwound_def)
qed

text \<open>
  Every single refund is bounded: the wallet is never charged a minor unit more than its
  share of what has been refunded so far, nor less, and the revenue given back so far never
  exceeds the platform's share of it.
\<close>

theorem refund_share_bounds:
  assumes "sound_conversion c" and "reverse_conversion c before amount = Inr r"
  shows "0 \<le> rv_wallet_debit r \<and> 0 \<le> rv_revenue r \<and> rv_gross r = rv_wallet_debit r + rv_revenue r \<and>
    oc_credited c * (before + amount) \<le> (debit_upto c before + rv_wallet_debit r) * oc_charged c \<and>
    (debit_upto c before + rv_wallet_debit r) * oc_charged c < oc_credited c * (before + amount) + oc_charged c \<and>
    (revenue_upto c before + rv_revenue r) * oc_charged c \<le> (oc_gross c - oc_credited c) * (before + amount)"
proof -
  note one = reverse_conversion_Inr [OF assms]
  have "before \<le> before + amount" using one(1) by simp
  then show ?thesis using upto_mono [OF assms(1)] upto_bounds [OF assms(1), of "before + amount"] one by simp
qed

theorem refund_share_bounds_witness:
  "\<exists>r. reverse_conversion demo_unwound 1 517483 = Inr r \<and> rv_wallet_debit r = 330 \<and> 0 \<le> rv_revenue r"
proof -
  let ?r = "case reverse_conversion demo_unwound 1 517483 of Inr r \<Rightarrow> r"
  have r: "reverse_conversion demo_unwound 1 517483 = Inr ?r" and d: "rv_wallet_debit ?r = 330"
    by code_simp+
  have "sound_conversion demo_unwound" by (simp add: demo_unwound_def sound_conversion_def)
  from refund_share_bounds [OF this r] r d show ?thesis by blast
qed

text \<open>
  The header of the source file says that the parts of a fully refunded payment always sum
  to the original amounts. They do not when a refund fails after a later one was computed,
  because the later one was computed on a running total that includes the failed one. Of a
  payment of 5 credited as 3, refunds of 1 and then of 2 are requested, the first one fails,
  and the remaining 3 are refunded: the payment is refunded in full, but the wallet pays 2.
\<close>

theorem failed_refund_breaks_the_sum:
  "\<exists>c r1 r2 r3. sound_conversion c \<and> oc_charged c = 5 \<and> oc_credited c = 3 \<and>
     reverse_conversion c 0 1 = Inr r1 \<and> reverse_conversion c 1 2 = Inr r2 \<and> reverse_conversion c 2 3 = Inr r3 \<and>
     0 < rv_wallet_debit r2 \<and> 0 < rv_wallet_debit r3 \<and> rv_wallet_debit r2 + rv_wallet_debit r3 = 2"
proof -
  let ?c = "\<lparr>oc_charged = 5, oc_credited = 3, oc_gross = 3\<rparr>"
  let ?r = "\<lambda>b a. case reverse_conversion ?c b a of Inr r \<Rightarrow> r"
  have "sound_conversion ?c" "oc_charged ?c = 5" "oc_credited ?c = 3" by (simp_all add: sound_conversion_def)
  moreover have "reverse_conversion ?c 0 1 = Inr (?r 0 1)" "reverse_conversion ?c 1 2 = Inr (?r 1 2)"
    "reverse_conversion ?c 2 3 = Inr (?r 2 3)" "0 < rv_wallet_debit (?r 1 2)" "0 < rv_wallet_debit (?r 2 3)"
    "rv_wallet_debit (?r 1 2) + rv_wallet_debit (?r 2 3) = 2"
    by code_simp+
  ultimately show ?thesis by blast
qed

end
