(* ===== verification/Refunds.thy ===== *)
theory Refunds
  imports Settlement Refund_Math
begin

text \<open>
  \<open>src/refunds/refunds.service.ts\<close>: a refund holds the wallet's money in one database
  transaction, is sent to the provider outside of any, and is completed or failed in another.
\<close>

definition RESUBMIT_AFTER_MS :: int where
  "RESUBMIT_AFTER_MS = 5 * 60 * 1000"

section \<open>The table\<close>

definition refund_row_error :: "refund \<Rightarrow> db_error option" where
  "refund_row_error r =
     (if \<not> list_all in_int8 [r_amount r, r_wallet_debit r, r_pending_hold r, r_revenue_reversal r, r_gross_reversal r]
      then Some Numeric_Out_Of_Range
      else if \<not> (0 < r_amount r \<and> 0 < r_wallet_debit r) then Some (Check_Violation ''chk_refunds_amounts_positive'')
      else if \<not> (0 \<le> r_revenue_reversal r \<and> r_gross_reversal r = r_wallet_debit r + r_revenue_reversal r)
      then Some (Check_Violation ''chk_refunds_fx_reversal'')
      else None)"

definition refund_key_taken :: "refund \<Rightarrow> refund \<Rightarrow> string option" where
  "refund_key_taken r x =
     (if r_id x = r_id r then None
      else if r_provider_reference r \<noteq> None \<and> r_provider x = r_provider r \<and> r_provider_reference x = r_provider_reference r
      then Some ''uq_refunds_provider_reference''
      else if r_requested_by x = r_requested_by r \<and> r_idempotency_key x = r_idempotency_key r
      then Some ''uq_refunds_requested_by_idempotency_key''
      else if r_reference x = r_reference r then Some ''uq_refunds_reference''
      else if r_transaction x = r_transaction r then Some ''uq_refunds_transaction_id''
      else None)"

definition insert_refund :: "refund \<Rightarrow> db \<Rightarrow> (refund \<times> db) res" where
  "insert_refund r s =
     (case refund_row_error r of
        Some e \<Rightarrow> Inl (Db_Err e)
      | None \<Rightarrow> (case List.map_filter (refund_key_taken r) (refunds s) of
          c # cs \<Rightarrow> Inl (Db_Err (Unique_Violation c))
        | [] \<Rightarrow> Inr (r, s\<lparr>refunds := refunds s @ [r], next_id := Suc (next_id s)\<rparr>)))"

definition set_refund_reference :: "uuid \<Rightarrow> string \<Rightarrow> db \<Rightarrow> (unit \<times> db) res" where
  "set_refund_reference i ref s =
     (case row_by r_id i (refunds s) of
        None \<Rightarrow> Inr ((), s)
      | Some r \<Rightarrow> (case List.map_filter (refund_key_taken (r\<lparr>r_provider_reference := Some ref\<rparr>)) (refunds s) of
          c # cs \<Rightarrow> Inl (Db_Err (Unique_Violation c))
        | [] \<Rightarrow> Inr ((), s\<lparr>refunds := set_row r_id i (\<lambda>r. r\<lparr>r_provider_reference := Some ref\<rparr>) (refunds s)\<rparr>)))"

section \<open>Reading\<close>

record refund_view =
  rv_refund :: refund
  rv_transaction :: txn

definition find_refund_of :: "uuid \<Rightarrow> string \<Rightarrow> db \<Rightarrow> refund option" where
  "find_refund_of admin key s = find (\<lambda>r. r_requested_by r = admin \<and> r_idempotency_key r = key) (refunds s)"

definition refund_row :: "uuid \<Rightarrow> db \<Rightarrow> refund res" where
  "refund_row i s = the_or (row_by r_id i (refunds s)) (Db_Err Entity_Not_Found)"

definition view_refund :: "uuid \<Rightarrow> db \<Rightarrow> refund_view res" where
  "view_refund i s =
     bind_res (the_or (row_by r_id i (refunds s)) (Refund_Err Refund_Not_Found)) (\<lambda>found.
     bind_res (get_transaction (r_transaction found) s) (\<lambda>t.
     bind_res (refund_row i s) (\<lambda>r. Inr \<lparr>rv_refund = r, rv_transaction = t\<rparr>)))"

definition refunds_in :: "txn_status list \<Rightarrow> db \<Rightarrow> refund list" where
  "refunds_in statuses s = filter (\<lambda>r. status_in (r_transaction r) statuses s) (refunds s)"

text \<open>How many are processing, and since when.\<close>

definition refund_processing_stats :: "db \<Rightarrow> nat \<times> int option" where
  "refund_processing_stats s =
     (let rs = refunds_in [Processing] s in
      (length rs, if rs = [] then None else Some (Min (set (map r_created_at rs)))))"

text \<open>Processing and successful refunds count against the payment.\<close>

definition committed_amount :: "uuid \<Rightarrow> db \<Rightarrow> int" where
  "committed_amount p s =
     sum_list (map r_amount (filter (\<lambda>r. r_payment r = p) (refunds_in [Processing, Successful] s)))"

definition successful_amount :: "uuid \<Rightarrow> db \<Rightarrow> int" where
  "successful_amount p s =
     sum_list (map r_amount (filter (\<lambda>r. r_payment r = p) (refunds_in [Successful] s)))"

section \<open>Step 1: the hold\<close>

record refund_input =
  rq_amount :: "int option"
  rq_reason :: string

definition generate_refund_reference :: "string \<Rightarrow> string" where
  "generate_refund_reference hex = ''rfd_'' @ hex"

definition refund_reversal :: "payment \<Rightarrow> int \<Rightarrow> int \<Rightarrow> db \<Rightarrow> conversion_reversal res" where
  "refund_reversal p before amount s =
     (case p_fx_quote p of
        None \<Rightarrow> Inr \<lparr>rv_wallet_debit = amount, rv_revenue = 0, rv_gross = amount\<rparr>
      | Some fxq \<Rightarrow> bind_res (get_quote_within fxq s) (\<lambda>q.
          reverse_conversion \<lparr>oc_charged = q_source_amount q, oc_credited = q_target_amount q, oc_gross = q_gross_target q\<rparr> before amount))"

definition refund_transaction :: "uuid \<Rightarrow> payment \<Rightarrow> txn \<Rightarrow> wallet \<Rightarrow> conversion_reversal \<Rightarrow> int \<Rightarrow> string \<Rightarrow> new_transaction" where
  "refund_transaction admin p pt w rvs amount reference =
     (plain_transaction Ty_Refund Processing (rv_wallet_debit rvs) (w_currency w) (p_user_id p, p_organization_id p))
     \<lparr>nt_source_wallet := Some (w_id w), nt_description := Some (''Refund of payment '' @ t_reference pt),
      nt_metadata := [(''paymentId'', j_id (p_id p)), (''refundReference'', JStr reference),
        (''refunded'', JObj [(''amount'', j_amount amount), (''currency'', JStr (p_currency p))]), (''requestedBy'', j_id admin)]\<rparr>"

definition refund_hold_movement :: "txn \<Rightarrow> conversion_reversal \<Rightarrow> string \<Rightarrow> movement" where
  "refund_hold_movement t rvs reference =
     \<lparr>mv_amount = rv_wallet_debit rvs, mv_reference = ''refund-hold:'' @ reference,
      mv_description = ''Hold for refund '' @ reference, mv_metadata = [(''transactionId'', j_id (t_id t))]\<rparr>"

definition taken_from_pending :: "payment \<Rightarrow> conversion_reversal \<Rightarrow> int" where
  "taken_from_pending p rvs = (if p_pending_amount p < rv_wallet_debit rvs then p_pending_amount p else rv_wallet_debit rvs)"

definition new_refund :: "int \<Rightarrow> uuid \<Rightarrow> payment \<Rightarrow> wallet \<Rightarrow> conversion_reversal \<Rightarrow> int \<Rightarrow> refund_input \<Rightarrow> string \<Rightarrow> string \<Rightarrow> txn \<Rightarrow> uuid \<Rightarrow> refund" where
  "new_refund now admin p w rvs amount inp reference key t i =
     \<lparr>r_id = i, r_reference = reference, r_payment = p_id p, r_transaction = t_id t, r_amount = amount,
      r_currency = p_currency p, r_wallet = w_id w, r_wallet_debit = rv_wallet_debit rvs, r_wallet_currency = w_currency w,
      r_pending_hold = taken_from_pending p rvs, r_revenue_reversal = rv_revenue rvs, r_gross_reversal = rv_gross rvs,
      r_provider = p_provider p, r_provider_reference = None, r_submitted_at = None, r_reason = rq_reason inp,
      r_requested_by = admin, r_idempotency_key = key, r_created_at = now\<rparr>"

definition hold_refund :: "int \<Rightarrow> payment \<Rightarrow> wallet \<Rightarrow> conversion_reversal \<Rightarrow> string \<Rightarrow> txn \<Rightarrow> db \<Rightarrow> db res" where
  "hold_refund now p w rvs reference t s =
     bind_res (reserve_split_within now (w_id w) (refund_hold_movement t rvs reference) (taken_from_pending p rvs) s) (\<lambda>(_, s1).
       if taken_from_pending p rvs > 0
       then set_held_amount (p_id p) (p_pending_amount p - taken_from_pending p rvs) s1 else Inr s1)"

definition refundable :: "payment \<Rightarrow> refund_input \<Rightarrow> db \<Rightarrow> (txn \<times> int \<times> int) res" where
  "refundable p inp s =
     bind_res (get_transaction (p_transaction p) s) (\<lambda>pt.
       if t_status pt = Reversed then Inl (Refund_Err Payment_Already_Refunded)
       else if t_status pt \<noteq> Successful then Inl (Refund_Err (Payment_Not_Refundable (txn_status_str (t_status pt))))
       else
         let before = committed_amount (p_id p) s;
             remaining = p_amount p - before;
             amount = (case rq_amount inp of Some a \<Rightarrow> a | None \<Rightarrow> remaining) in
         if amount \<le> 0 \<or> amount > remaining then Inl (Refund_Err (Refund_Exceeds_Remaining remaining (p_currency p)))
         else Inr (pt, before, amount))"

definition create_refund :: "request_context \<Rightarrow> string \<Rightarrow> string \<Rightarrow> int \<Rightarrow> uuid \<Rightarrow> uuid \<Rightarrow> refund_input \<Rightarrow> string \<Rightarrow> db \<Rightarrow> (refund \<times> db) res" where
  "create_refund ctx hex txhex now admin payment inp key s =
     bind_res (lock_payment payment s) (\<lambda>p.
     bind_res (refundable p inp s) (\<lambda>(pt, before, amount).
     bind_res (get_wallet (p_wallet p) s) (\<lambda>w.
     bind_res (refund_reversal p before amount s) (\<lambda>rvs.
     let reference = generate_refund_reference hex in
     bind_res (create_transaction txhex now (refund_transaction admin p pt w rvs amount reference) s) (\<lambda>(t, s1).
     bind_res (hold_refund now p w rvs reference t s1) (\<lambda>s2.
     bind_res (insert_refund (new_refund now admin p w rvs amount inp reference key t (next_id s2)) s2) (\<lambda>(r, s3).
       Inr (r, record_audit ctx now ''refund.requested'' ''refund'' (r_id r) (p_organization_id p)
         [(''paymentId'', j_id (p_id p)), (''amount'', j_amount amount), (''currency'', JStr (p_currency p)),
          (''reason'', JStr (rq_reason inp))] s3))))))))"

section \<open>Step 3: completing and failing\<close>

record refund_fx_accounts =
  xa_wallet_position :: uuid
  xa_wallet_revenue :: uuid
  xa_charged_position :: uuid
  xa_charged_clearing :: uuid

text \<open>The system accounts, opened before the database transaction.\<close>

definition refund_accounts :: "refund \<Rightarrow> db \<Rightarrow> ((uuid \<times> refund_fx_accounts option) \<times> db) res" where
  "refund_accounts r s =
     bind_res (ensure_account (external_clearing (r_wallet_currency r)) s) (\<lambda>(c, s1).
       if r_currency r = r_wallet_currency r then Inr ((la_id c, None), s1)
       else
         bind_res (ensure_account (fx_position (r_wallet_currency r)) s1) (\<lambda>(wp, s2).
         bind_res (ensure_account (fx_revenue (r_wallet_currency r)) s2) (\<lambda>(wr, s3).
         bind_res (ensure_account (fx_position (r_currency r)) s3) (\<lambda>(cp, s4).
         bind_res (ensure_account (external_clearing (r_currency r)) s4) (\<lambda>(cc, s5).
           Inr ((la_id c, Some \<lparr>xa_wallet_position = la_id wp, xa_wallet_revenue = la_id wr,
                  xa_charged_position = la_id cp, xa_charged_clearing = la_id cc\<rparr>), s5))))))"

definition refund_wallet_leg :: "refund \<Rightarrow> wallet \<Rightarrow> uuid \<Rightarrow> refund_fx_accounts option \<Rightarrow> posting_input" where
  "refund_wallet_leg r w clearing fx =
     \<lparr>pi_reference = ''refund:'' @ r_reference r, pi_description = ''Refund '' @ r_reference r, pi_currency = r_wallet_currency r,
      pi_entries = (case fx of
          Some x \<Rightarrow> [leg (w_reserved w) Debit (r_wallet_debit r)] @
            (if r_revenue_reversal r > 0 then [leg (xa_wallet_revenue x) Debit (r_revenue_reversal r)] else []) @
            [leg (xa_wallet_position x) Credit (r_gross_reversal r)]
        | None \<Rightarrow> [leg (w_reserved w) Debit (r_wallet_debit r), leg clearing Credit (r_wallet_debit r)]),
      pi_metadata = [(''refundId'', j_id (r_id r))], pi_reversal_of = None\<rparr>"

definition refund_charged_leg :: "refund \<Rightarrow> refund_fx_accounts \<Rightarrow> posting_input" where
  "refund_charged_leg r x =
     \<lparr>pi_reference = ''refund:'' @ r_reference r @ '':fx-source'',
      pi_description = ''Refund '' @ r_reference r @ '' ('' @ r_currency r @ '' leg)'', pi_currency = r_currency r,
      pi_entries = [leg (xa_charged_position x) Debit (r_amount r), leg (xa_charged_clearing x) Credit (r_amount r)],
      pi_metadata = [(''refundId'', j_id (r_id r))], pi_reversal_of = None\<rparr>"

definition refund_postings :: "int \<Rightarrow> refund \<Rightarrow> wallet \<Rightarrow> uuid \<times> refund_fx_accounts option \<Rightarrow> db \<Rightarrow> (posted \<times> db) res" where
  "refund_postings now r w accts s =
     bind_res (post_in now (refund_wallet_leg r w (fst accts) (snd accts)) s) (\<lambda>(p, s1).
       case snd accts of
         None \<Rightarrow> Inr (p, s1)
       | Some x \<Rightarrow> bind_res (post_in now (refund_charged_leg r x) s1) (\<lambda>(_, s2). Inr (p, s2)))"

definition mark_reversed_if_refunded :: "uuid \<Rightarrow> db \<Rightarrow> db res" where
  "mark_reversed_if_refunded i s =
     bind_res (get_payment i s) (\<lambda>p.
       if successful_amount i s = p_amount p
       then bind_res (transition (p_transaction p) Reversed empty_patch s) (\<lambda>(_, s'). Inr s')
       else Inr s)"

definition complete_refund_body :: "int \<Rightarrow> refund \<Rightarrow> uuid \<times> refund_fx_accounts option \<Rightarrow> db \<Rightarrow> (unit \<times> db) res" where
  "complete_refund_body now r accts s =
     bind_res (lock_transaction (r_transaction r) s) (\<lambda>t.
       if t_status t \<noteq> Processing then Inr ((), s)
       else
         bind_res (get_wallet (r_wallet r) s) (\<lambda>w.
         bind_res (refund_postings now r w accts s) (\<lambda>(p, s1).
         bind_res (transition (t_id t) Successful
             (empty_patch\<lparr>tp_ledger_txn := Some (lt_id (ps_txn p)), tp_provider_reference := Some (r_provider_reference r),
               tp_completed_at := Some now\<rparr>) s1) (\<lambda>(_, s2).
         bind_res (mark_reversed_if_refunded (r_payment r) s2) (\<lambda>s3.
           Inr ((), add_event now ''refund.successful'' ''transaction'' (t_id t)
             [(''refundId'', j_id (r_id r)), (''reference'', JStr (r_reference r)), (''paymentId'', j_id (r_payment r)),
              (''userId'', j_opt j_id (t_user_id t)), (''organizationId'', j_opt j_id (t_organization_id t)),
              (''refunded'', JObj [(''amount'', j_amount (r_amount r)), (''currency'', JStr (r_currency r))]),
              (''walletDebit'', JObj [(''amount'', j_amount (r_wallet_debit r)), (''currency'', JStr (r_wallet_currency r))])] s3))))))"

definition complete_refund :: "int \<Rightarrow> uuid \<Rightarrow> unit run" where
  "complete_refund now i =
     then_do (reading (refund_row i)) (\<lambda>r.
     then_do (committed (refund_accounts r)) (\<lambda>accts.
       committed (complete_refund_body now r accts)))"

definition return_to_pending :: "int \<Rightarrow> refund \<Rightarrow> db \<Rightarrow> (int \<times> db) res" where
  "return_to_pending now r s =
     (if r_pending_hold r = 0 then Inr (0, s)
      else
        bind_res (lock_payment (r_payment r) s) (\<lambda>p.
          if p_pending_amount p > 0 \<or> (case p_funds_available_at p of None \<Rightarrow> False | Some a \<Rightarrow> a > now)
          then bind_res (set_held_amount (p_id p) (p_pending_amount p + r_pending_hold r) s) (\<lambda>s'. Inr (r_pending_hold r, s'))
          else Inr (0, s)))"

definition fail_refund_body :: "int \<Rightarrow> refund \<Rightarrow> string \<Rightarrow> string \<Rightarrow> db \<Rightarrow> (unit \<times> db) res" where
  "fail_refund_body now r code reason s =
     bind_res (lock_transaction (r_transaction r) s) (\<lambda>t.
       if t_status t \<noteq> Processing then Inr ((), s)
       else
         bind_res (return_to_pending now r s) (\<lambda>(to_pending, s1).
         bind_res (release_split_within now (r_wallet r)
             \<lparr>mv_amount = r_wallet_debit r, mv_reference = ''refund-release:'' @ r_reference r,
              mv_description = ''Release hold for failed refund '' @ r_reference r, mv_metadata = []\<rparr> to_pending s1) (\<lambda>(_, s2).
         bind_res (transition (t_id t) Failed
             (empty_patch\<lparr>tp_failure_code := Some code, tp_failure_reason := Some (take 500 reason)\<rparr>) s2) (\<lambda>(_, s3).
           Inr ((), add_event now ''refund.failed'' ''transaction'' (t_id t)
             [(''refundId'', j_id (r_id r)), (''reference'', JStr (r_reference r)), (''paymentId'', j_id (r_payment r)),
              (''userId'', j_opt j_id (t_user_id t)), (''organizationId'', j_opt j_id (t_organization_id t)),
              (''failureCode'', JStr code)] s3)))))"

definition fail_refund :: "int \<Rightarrow> uuid \<Rightarrow> string \<Rightarrow> string \<Rightarrow> unit run" where
  "fail_refund now i code reason =
     then_do (reading (refund_row i)) (\<lambda>r. committed (fail_refund_body now r code reason))"

section \<open>Step 2: sending\<close>

definition claimable :: "int \<Rightarrow> int option \<Rightarrow> bool" where
  "claimable now submitted = (case submitted of None \<Rightarrow> True | Some t \<Rightarrow> t < now - RESUBMIT_AFTER_MS)"

definition claim_refund :: "int \<Rightarrow> uuid \<Rightarrow> db \<Rightarrow> bool \<times> db" where
  "claim_refund now i s =
     (case row_by r_id i (refunds s) of
        None \<Rightarrow> (False, s)
      | Some r \<Rightarrow> if claimable now (r_submitted_at r)
          then (True, s\<lparr>refunds := set_row r_id i (\<lambda>r. r\<lparr>r_submitted_at := Some now\<rparr>) (refunds s)\<rparr>)
          else (False, s))"

text \<open>What the provider already knows about the refund, as the row was read.\<close>

definition or_empty :: "string option \<Rightarrow> string" where
  "or_empty x = (case x of None \<Rightarrow> [] | Some r \<Rightarrow> r)"

definition refund_lookup :: "payment_provider \<Rightarrow> payment \<Rightarrow> refund \<Rightarrow> refund_answer option answer" where
  "refund_lookup prov p r =
     (case truthy (r_provider_reference r) of
        Some ref \<Rightarrow> bind_res (pv_get_refund prov ref) (\<lambda>a. Inr (Some a))
      | None \<Rightarrow> if r_submitted_at r \<noteq> None then pv_find_refund prov (or_empty (p_provider_reference p)) (r_reference r) else Inr None)"

definition refund_request_of :: "payment \<Rightarrow> refund \<Rightarrow> refund_request" where
  "refund_request_of p r =
     \<lparr>rr_provider_reference = or_empty (p_provider_reference p), rr_amount = r_amount r, rr_currency = r_currency r,
      rr_reference = r_reference r\<rparr>"

text \<open>The request a submission sends to the provider, if it sends one.\<close>

definition refund_sends :: "registry \<Rightarrow> int \<Rightarrow> refund \<Rightarrow> db \<Rightarrow> refund_request option" where
  "refund_sends rg now r s =
     (case (get_payment (r_payment r) s, get_provider rg (r_provider r)) of
        (Inr p, Inr prov) \<Rightarrow>
          if refund_lookup prov p r = Inr None \<and> fst (claim_refund now (r_id r) s) then Some (refund_request_of p r) else None
      | _ \<Rightarrow> None)"

definition apply_refund_answer :: "int \<Rightarrow> refund \<Rightarrow> refund_answer \<Rightarrow> unit run" where
  "apply_refund_answer now r a =
     then_do (if r_provider_reference r \<noteq> Some (ra_provider_reference a)
              then committed (set_refund_reference (r_id r) (ra_provider_reference a)) else (\<lambda>s. (Inr (), s))) (\<lambda>_.
       case ra_status a of
         Provider_Successful \<Rightarrow> complete_refund now (r_id r)
       | Provider_Failed \<Rightarrow> fail_refund now (r_id r) ''REFUND_FAILED'' ''The provider reported the refund as failed''
       | Provider_Pending \<Rightarrow> (\<lambda>s. (Inr (), s)))"

definition submit_refund :: "registry \<Rightarrow> int \<Rightarrow> refund \<Rightarrow> unit run" where
  "submit_refund rg now r =
     then_do (reading (get_payment (r_payment r))) (\<lambda>p.
     then_do (reading (\<lambda>_. get_provider rg (r_provider r))) (\<lambda>prov s.
       case refund_lookup prov p r of
         Inl f \<Rightarrow> (Inr (), s)
       | Inr (Some a) \<Rightarrow> apply_refund_answer now r a s
       | Inr None \<Rightarrow>
           (case claim_refund now (r_id r) s of
              (False, s1) \<Rightarrow> (Inr (), s1)
            | (True, s1) \<Rightarrow>
                (case pv_refund prov (refund_request_of p r) of
                   Inr a \<Rightarrow> apply_refund_answer now r a s1
                 | Inl f \<Rightarrow> (case rejection f of
                     Some m \<Rightarrow> fail_refund now (r_id r) ''PROVIDER_REJECTED'' m s1
                   | None \<Rightarrow> (Inr (), s1))))))"

section \<open>The operations\<close>

definition request_refund_at :: "db \<Rightarrow> registry \<Rightarrow> request_context \<Rightarrow> string \<Rightarrow> string \<Rightarrow> int \<Rightarrow> uuid \<Rightarrow> uuid \<Rightarrow> refund_input \<Rightarrow> string \<Rightarrow> refund_view run" where
  "request_refund_at seen rg ctx hex txhex now admin payment inp key s =
     (case find_refund_of admin key seen of
        Some r \<Rightarrow> reading (view_refund (r_id r)) s
      | None \<Rightarrow>
          (case create_refund ctx hex txhex now admin payment inp key s of
             Inr (r, s1) \<Rightarrow> then_do (submit_refund rg now r) (\<lambda>_. reading (view_refund (r_id r))) s1
           | Inl e \<Rightarrow>
               if is_unique_violation e [''uq_refunds_requested_by_idempotency_key'']
               then (case find_refund_of admin key s of Some w \<Rightarrow> reading (view_refund (r_id w)) s | None \<Rightarrow> (Inl e, s))
               else (Inl e, s)))"

definition request_refund :: "registry \<Rightarrow> request_context \<Rightarrow> string \<Rightarrow> string \<Rightarrow> int \<Rightarrow> uuid \<Rightarrow> uuid \<Rightarrow> refund_input \<Rightarrow> string \<Rightarrow> refund_view run" where
  "request_refund rg ctx hex txhex now admin payment inp key s =
     request_refund_at s rg ctx hex txhex now admin payment inp key s"

definition retry_refund :: "registry \<Rightarrow> request_context \<Rightarrow> int \<Rightarrow> uuid \<Rightarrow> refund_view run" where
  "retry_refund rg ctx now i =
     then_do (reading (view_refund i)) (\<lambda>v.
     then_do (if t_status (rv_transaction v) = Processing
              then (\<lambda>s. submit_refund rg now (rv_refund v)
                (record_audit ctx now ''refund.retried'' ''refund'' (r_id (rv_refund v)) (t_organization_id (rv_transaction v)) [] s))
              else (\<lambda>s. (Inr (), s))) (\<lambda>_. reading (view_refund i)))"

definition stale_refunds :: "int \<Rightarrow> int \<Rightarrow> nat \<Rightarrow> db \<Rightarrow> refund list" where
  "stale_refunds now older limit s =
     take limit (sort_key r_created_at (filter (\<lambda>r.
       (case r_submitted_at r of Some t \<Rightarrow> t | None \<Rightarrow> r_created_at r) < now - older) (refunds_in [Processing] s)))"

definition sync_stale_refunds :: "registry \<Rightarrow> int \<Rightarrow> int \<Rightarrow> nat \<Rightarrow> db \<Rightarrow> nat \<times> db" where
  "sync_stale_refunds rg now older limit s =
     (let rs = stale_refunds now older limit s in (length rs, for_each_caught rs (submit_refund rg now) s))"

datatype webhook_sync = Synced | Already_Final | Not_Found

definition refund_matches :: "string \<Rightarrow> string \<Rightarrow> payment option \<Rightarrow> refund \<Rightarrow> bool" where
  "refund_matches provider reference p r \<longleftrightarrow> r_provider r = provider \<and>
     (r_reference r = reference \<or> (case p of None \<Rightarrow> False | Some q \<Rightarrow> r_payment r = p_id q))"

definition sync_refunds_from_webhook :: "registry \<Rightarrow> int \<Rightarrow> string \<Rightarrow> string \<Rightarrow> webhook_sync run" where
  "sync_refunds_from_webhook rg now provider reference s =
     (let p = payment_by_transaction_reference reference s;
          candidates = filter (refund_matches provider reference p) (refunds_in [Processing] s) in
      then_do (for_each candidates (submit_refund rg now)) (\<lambda>_.
        reading (\<lambda>s'. Inr (if candidates \<noteq> [] then Synced
          else if list_ex (refund_matches provider reference p) (refunds s') then Already_Final else Not_Found))) s)"

end
