(* ===== verification/Payout_Destinations.thy ===== *)
theory Payout_Destinations
  imports Service_Runs Providers
begin

text \<open>
  \<open>src/payouts/payout-destinations.service.ts\<close> and \<open>payout-destination.entity.ts\<close>: the accounts an
  owner may pay out to. A new one waits for the cooling-off period; a removed one is kept.
\<close>

record new_destination =
  nd_currency :: string
  nd_kind :: "destination_kind option"
  nd_bank_code :: "string option"
  nd_account_number :: "string option"
  nd_email :: "string option"
  nd_account_name :: "string option"
  nd_provider :: "string option"
  nd_label :: "string option"

section \<open>Descriptions\<close>

definition mask_email :: "string \<Rightarrow> string" where
  "mask_email e =
     (let local = takeWhile (\<lambda>c. c \<noteq> CHR ''@'') e;
          domain = takeWhile (\<lambda>c. c \<noteq> CHR ''@'') (tl (dropWhile (\<lambda>c. c \<noteq> CHR ''@'') e)) in
      take 1 local @ ''***@'' @ domain)"

definition text_or_empty :: "string option \<Rightarrow> string" where
  "text_or_empty x = (case x of None \<Rightarrow> [] | Some v \<Rightarrow> v)"

definition describe_destination :: "payout_destination \<Rightarrow> string" where
  "describe_destination d =
     (case pd_kind d of
        Paypal_Account \<Rightarrow> ''PayPal '' @ mask_email (text_or_empty (pd_email d))
      | Bank_Account \<Rightarrow> pd_account_name d @ '' ****'' @ text_or_empty (pd_last4 d))"

definition last4 :: "string \<Rightarrow> string" where
  "last4 s = drop (length s - 4) s"

fun destination_kind_str :: "destination_kind \<Rightarrow> string" where
  "destination_kind_str Bank_Account = ''bank''"
| "destination_kind_str Paypal_Account = ''paypal''"

section \<open>The table\<close>

definition destination_row_error :: "payout_destination \<Rightarrow> db_error option" where
  "destination_row_error d =
     (if \<not> currency_format (pd_currency d) then Some (Check_Violation ''chk_payout_destinations_currency'')
      else if \<not> (pd_kind d = Bank_Account \<and> pd_bank_code d \<noteq> None \<and> pd_last4 d \<noteq> None \<or>
        pd_kind d = Paypal_Account \<and> pd_email d \<noteq> None) then Some (Check_Violation ''chk_payout_destinations_kind'')
      else if \<not> one_owner (pd_user_id d) (pd_organization_id d) then Some (Check_Violation ''chk_payout_destinations_owner'')
      else None)"

definition destination_taken :: "payout_destination \<Rightarrow> payout_destination \<Rightarrow> string option" where
  "destination_taken d x =
     (if pd_removed_at d \<noteq> None \<or> pd_removed_at x \<noteq> None \<or> pd_provider x \<noteq> pd_provider d \<or> pd_recipient x \<noteq> pd_recipient d
      then None
      else if pd_user_id d \<noteq> None \<and> pd_user_id x = pd_user_id d then Some ''uq_payout_destinations_user_recipient''
      else if pd_organization_id d \<noteq> None \<and> pd_organization_id x = pd_organization_id d
      then Some ''uq_payout_destinations_org_recipient''
      else None)"

definition insert_destination :: "payout_destination \<Rightarrow> db \<Rightarrow> (payout_destination \<times> db) res" where
  "insert_destination d s =
     (case destination_row_error d of
        Some e \<Rightarrow> Inl (Db_Err e)
      | None \<Rightarrow> (case List.map_filter (destination_taken d) (payout_destinations s) of
          c # cs \<Rightarrow> Inl (Db_Err (Unique_Violation c))
        | [] \<Rightarrow> Inr (d, s\<lparr>payout_destinations := payout_destinations s @ [d], next_id := Suc (next_id s)\<rparr>)))"

section \<open>The operations\<close>

definition new_recipient :: "string \<Rightarrow> payout_capability \<Rightarrow> new_destination \<Rightarrow> payout_recipient res" where
  "new_recipient name cap inp =
     (let answered = (\<lambda>a. case a of
            Inr r \<Rightarrow> Inr r
          | Inl f \<Rightarrow> (case rejection f of
              Some m \<Rightarrow> Inl (Payout_Err (Payout_Destination_Rejected m))
            | None \<Rightarrow> Inl (Payment_Err Payment_Provider_Unavailable))) in
      if nd_kind inp = Some Paypal_Account
      then (case (pc_create_email_recipient cap, truthy (nd_email inp)) of
              (Some create, Some email) \<Rightarrow>
                answered (create \<lparr>ce_currency = nd_currency inp, ce_email = email, ce_name = nd_account_name inp\<rparr>)
            | _ \<Rightarrow> Inl (Payout_Err (Payout_Destination_Rejected (name @ '' can'' @ [CHR 0x27] @ ''t pay out to a PayPal email''))))
      else answered (pc_create_recipient cap
        \<lparr>cq_recipient_currency = nd_currency inp, cq_bank_code = text_or_empty (nd_bank_code inp),
         cq_account_number = text_or_empty (nd_account_number inp), cq_account_name = nd_account_name inp\<rparr>))"

definition destination_of :: "int \<Rightarrow> int \<Rightarrow> owner \<Rightarrow> string \<Rightarrow> payout_recipient \<Rightarrow> new_destination \<Rightarrow> uuid \<Rightarrow> payout_destination" where
  "destination_of cooldown now own name recipient inp i =
     (let bank = nd_kind inp \<noteq> Some Paypal_Account in
      \<lparr>pd_id = i, pd_user_id = fst (owner_columns own), pd_organization_id = snd (owner_columns own), pd_provider = name,
       pd_currency = nd_currency inp, pd_recipient = pr_reference recipient,
       pd_kind = (if bank then Bank_Account else Paypal_Account),
       pd_bank_code = (if bank then nd_bank_code inp else None), pd_bank_name = pr_bank_name recipient,
       pd_account_name = pr_account_name recipient,
       pd_last4 = (if bank then Some (last4 (text_or_empty (nd_account_number inp))) else None),
       pd_email = (if bank then None else Some (pr_reference recipient)), pd_label = nd_label inp, pd_created_at = now,
       pd_payouts_available_at = now + cooldown * 60000, pd_removed_at = None\<rparr>)"

definition destination_event :: "payout_destination \<Rightarrow> json_object" where
  "destination_event d =
     [(''destinationId'', j_id (pd_id d)), (''userId'', j_opt j_id (pd_user_id d)),
      (''organizationId'', j_opt j_id (pd_organization_id d)), (''accountName'', JStr (pd_account_name d)),
      (''bankName'', j_opt JStr (pd_bank_name d)), (''accountNumberLast4'', j_opt JStr (pd_last4 d)),
      (''description'', JStr (describe_destination d)), (''currency'', JStr (pd_currency d)),
      (''payoutsAvailableAt'', JNum (pd_payouts_available_at d))]"

definition add_destination :: "registry \<Rightarrow> request_context \<Rightarrow> int \<Rightarrow> int \<Rightarrow> owner \<Rightarrow> new_destination \<Rightarrow> db \<Rightarrow> (payout_destination \<times> db) res" where
  "add_destination rg ctx cooldown now own inp s =
     bind_res (select_for_payout rg (nd_currency inp) (nd_provider inp)) (\<lambda>(name, cap).
     bind_res (new_recipient name cap inp) (\<lambda>recipient.
       case insert_destination (destination_of cooldown now own name recipient inp (next_id s)) s of
         Inl e \<Rightarrow> if is_unique_violation e [''uq_payout_destinations_user_recipient'', ''uq_payout_destinations_org_recipient'']
           then Inl (Payout_Err Payout_Destination_Already_Exists) else Inl e
       | Inr (d, s1) \<Rightarrow>
           Inr (d, record_audit ctx now ''payout_destination.added'' ''payout_destination'' (pd_id d) (pd_organization_id d)
             [(''provider'', JStr name), (''currency'', JStr (nd_currency inp)), (''kind'', JStr (destination_kind_str (pd_kind d))),
              (''bankCode'', j_opt JStr (pd_bank_code d)), (''accountName'', JStr (pd_account_name d)),
              (''accountNumberLast4'', j_opt JStr (pd_last4 d))]
             (add_event now ''payout_destination.added'' ''payout_destination'' (pd_id d) (destination_event d) s1))))"

definition list_destinations :: "owner \<Rightarrow> db \<Rightarrow> payout_destination list" where
  "list_destinations own s =
     rev (sort_key pd_created_at (filter (\<lambda>d. owner_where own (pd_user_id d) (pd_organization_id d) \<and> pd_removed_at d = None)
       (payout_destinations s)))"

definition get_active_destination :: "owner \<Rightarrow> uuid \<Rightarrow> db \<Rightarrow> payout_destination res" where
  "get_active_destination own i s =
     the_or (find (\<lambda>d. pd_id d = i \<and> owner_where own (pd_user_id d) (pd_organization_id d) \<and> pd_removed_at d = None)
       (payout_destinations s)) (Payout_Err Payout_Destination_Not_Found)"

definition remove_destination :: "request_context \<Rightarrow> int \<Rightarrow> owner \<Rightarrow> uuid \<Rightarrow> db \<Rightarrow> (unit \<times> db) res" where
  "remove_destination ctx now own i s =
     bind_res (get_active_destination own i s) (\<lambda>d.
       Inr ((), record_audit ctx now ''payout_destination.removed'' ''payout_destination'' (pd_id d) (pd_organization_id d) []
         (s\<lparr>payout_destinations := map (\<lambda>x. if pd_id x = pd_id d \<and> pd_removed_at x = None
              then x\<lparr>pd_removed_at := Some now\<rparr> else x) (payout_destinations s)\<rparr>)))"

end
