(* ===== verification/Payouts.thy ===== *)
theory Payouts
  imports Payout_Destinations Fees Limits
begin

text \<open>
  \<open>src/payouts/payouts.service.ts\<close>: money out of a wallet. The hold, the sending outside of any
  database transaction, and the settlement, which completes, fails or reverses.
\<close>

definition PAYOUT_RESUBMIT_AFTER_MS :: int where
  "PAYOUT_RESUBMIT_AFTER_MS = 5 * 60 * 1000"

section \<open>The table\<close>

definition payout_row_error :: "payout \<Rightarrow> db_error option" where
  "payout_row_error p =
     (if \<not> in_int8 (po_amount p) then Some Numeric_Out_Of_Range
      else if po_amount p \<le> 0 then Some (Check_Violation ''chk_payouts_amount_positive'')
      else if \<not> one_owner (po_user_id p) (po_organization_id p) then Some (Check_Violation ''chk_payouts_owner'')
      else None)"

definition payout_key_taken :: "payout \<Rightarrow> payout \<Rightarrow> string option" where
  "payout_key_taken p x =
     (if po_reference x = po_reference p then Some ''uq_payouts_reference''
      else if po_transaction x = po_transaction p then Some ''uq_payouts_transaction_id''
      else None)"

definition insert_payout :: "payout \<Rightarrow> db \<Rightarrow> (payout \<times> db) res" where
  "insert_payout p s =
     (case payout_row_error p of
        Some e \<Rightarrow> Inl (Db_Err e)
      | None \<Rightarrow> (case List.map_filter (payout_key_taken p) (payouts s) of
          c # cs \<Rightarrow> Inl (Db_Err (Unique_Violation c))
        | [] \<Rightarrow> Inr (p, s\<lparr>payouts := payouts s @ [p], next_id := Suc (next_id s)\<rparr>)))"

definition set_payout_reference :: "uuid \<Rightarrow> string \<Rightarrow> db \<Rightarrow> db" where
  "set_payout_reference i ref s =
     s\<lparr>payouts := set_row po_id i (\<lambda>p. p\<lparr>po_provider_reference := Some ref\<rparr>) (payouts s)\<rparr>"

section \<open>Reading\<close>

record payout_view =
  yv_payout :: payout
  yv_transaction :: txn
  yv_destination :: payout_destination

definition view_payout :: "uuid \<Rightarrow> db \<Rightarrow> payout_view res" where
  "view_payout i s =
     bind_res (the_or (row_by po_id i (payouts s)) (Payout_Err Payout_Not_Found)) (\<lambda>found.
     bind_res (get_transaction (po_transaction found) s) (\<lambda>t.
     bind_res (the_or (row_by po_id i (payouts s)) (Db_Err Entity_Not_Found)) (\<lambda>p.
     bind_res (the_or (row_by pd_id (po_destination p) (payout_destinations s)) (Db_Err Entity_Not_Found)) (\<lambda>d.
       Inr \<lparr>yv_payout = p, yv_transaction = t, yv_destination = d\<rparr>))))"

definition get_owned_payout :: "owner \<Rightarrow> uuid \<Rightarrow> db \<Rightarrow> payout_view res" where
  "get_owned_payout own i s =
     bind_res (the_or (find (\<lambda>p. po_id p = i \<and> owner_where own (po_user_id p) (po_organization_id p)) (payouts s))
       (Payout_Err Payout_Not_Found)) (\<lambda>p. view_payout (po_id p) s)"

definition view_payout_of_transaction :: "uuid \<Rightarrow> db \<Rightarrow> payout_view res" where
  "view_payout_of_transaction i s =
     bind_res (the_or (row_by po_transaction i (payouts s)) (Payout_Err Payout_Not_Found)) (\<lambda>p. view_payout (po_id p) s)"

definition payouts_processing :: "db \<Rightarrow> payout list" where
  "payouts_processing s = filter (\<lambda>p. status_in (po_transaction p) [Processing] s) (payouts s)"

definition payout_processing_stats :: "db \<Rightarrow> nat \<times> int option" where
  "payout_processing_stats s =
     (let ps = payouts_processing s in
      (length ps, if ps = [] then None else Some (Min (set (map po_created_at ps)))))"

definition payouts_for_provider :: "string \<Rightarrow> int \<Rightarrow> int \<Rightarrow> db \<Rightarrow> payout list" where
  "payouts_for_provider provider t0 t1 s =
     filter (\<lambda>p. po_provider p = provider \<and> t0 \<le> po_created_at p \<and> po_created_at p < t1) (payouts s)"

definition payout_by_reference :: "string \<Rightarrow> string \<Rightarrow> db \<Rightarrow> payout option" where
  "payout_by_reference provider reference s =
     find (\<lambda>p. po_provider p = provider \<and> po_reference p = reference) (payouts s)"

section \<open>Step 1: the hold\<close>

record payout_input =
  yi_destination :: uuid
  yi_amount :: int
  yi_wallet :: "uuid option"
  yi_narration :: "string option"

definition generate_payout_reference :: "string \<Rightarrow> string" where
  "generate_payout_reference hex = ''pyt_'' @ hex"

definition source_wallet :: "owner \<Rightarrow> payout_destination \<Rightarrow> uuid option \<Rightarrow> db \<Rightarrow> wallet res" where
  "source_wallet own d i s =
     bind_res (case i of
         Some w \<Rightarrow> bind_res (get_owned own w s) (\<lambda>(w, _). Inr w)
       | None \<Rightarrow> the_or (find_wallet own (pd_currency d) s)
           (Wallet_Err (Wallet_Not_Found (''No '' @ pd_currency d @ '' wallet to pay out from'')))) (\<lambda>w.
       if w_currency w \<noteq> pd_currency d
       then Inl (Ledger_Err (Currency_Mismatch (''The wallet holds '' @ w_currency w @ '', but the destination receives '' @ pd_currency d)))
       else Inr w)"

definition payout_transaction :: "owner \<Rightarrow> wallet \<Rightarrow> payout_destination \<Rightarrow> payout_input \<Rightarrow> fee_quote \<Rightarrow> string \<Rightarrow> string \<Rightarrow> new_transaction" where
  "payout_transaction own w d inp fee key reference =
     (plain_transaction Ty_Withdrawal Processing (yi_amount inp) (w_currency w) (owner_columns own))
     \<lparr>nt_source_wallet := Some (w_id w), nt_idempotency_key := Some key,
      nt_description := Some (case yi_narration inp of Some n \<Rightarrow> n | None \<Rightarrow> ''Payout to '' @ describe_destination d),
      nt_metadata := [(''payoutReference'', JStr reference), (''destinationId'', j_id (pd_id d))],
      nt_fee_amount := (if fq_amount fee > 0 then fq_amount fee else 0),
      nt_fee_currency := (if fq_amount fee > 0 then Some (fq_currency fee) else None),
      nt_fee_rule := (if fq_amount fee > 0 then fq_rule fee else None)\<rparr>"

definition payout_hold_movement :: "txn \<Rightarrow> payout_input \<Rightarrow> fee_quote \<Rightarrow> string \<Rightarrow> movement" where
  "payout_hold_movement t inp fee reference =
     \<lparr>mv_amount = yi_amount inp + fq_amount fee, mv_reference = ''payout-hold:'' @ reference,
      mv_description = ''Hold for payout '' @ reference, mv_metadata = [(''transactionId'', j_id (t_id t))]\<rparr>"

definition new_payout :: "int \<Rightarrow> owner \<Rightarrow> wallet \<Rightarrow> payout_destination \<Rightarrow> payout_input \<Rightarrow> string \<Rightarrow> txn \<Rightarrow> uuid \<Rightarrow> payout" where
  "new_payout now own w d inp reference t i =
     \<lparr>po_id = i, po_reference = reference, po_transaction = t_id t, po_user_id = fst (owner_columns own),
      po_organization_id = snd (owner_columns own), po_wallet = w_id w, po_destination = pd_id d, po_provider = pd_provider d,
      po_amount = yi_amount inp, po_currency = w_currency w, po_narration = yi_narration inp, po_provider_reference = None,
      po_submitted_at = None, po_created_at = now\<rparr>"

definition create_payout :: "request_context \<Rightarrow> string \<Rightarrow> string \<Rightarrow> int \<Rightarrow> owner \<Rightarrow> wallet \<Rightarrow> payout_destination \<Rightarrow> payout_input \<Rightarrow> fee_quote \<Rightarrow> string \<Rightarrow> db \<Rightarrow> (payout \<times> db) res" where
  "create_payout ctx hex txhex now own w d inp fee key s =
     bind_res (assert_within_limits now own Limit_Payout (w_currency w) (yi_amount inp) s) (\<lambda>_.
     let reference = generate_payout_reference hex in
     bind_res (create_transaction txhex now (payout_transaction own w d inp fee key reference) s) (\<lambda>(t, s1).
     bind_res (reserve_within now (w_id w) (payout_hold_movement t inp fee reference) s1) (\<lambda>(_, s2).
     bind_res (insert_payout (new_payout now own w d inp reference t (next_id s2)) s2) (\<lambda>(p, s3).
       Inr (p, record_audit ctx now ''payout.requested'' ''payout'' (po_id p) (po_organization_id p)
         [(''amount'', j_amount (yi_amount inp)), (''currency'', JStr (po_currency p)), (''destinationId'', j_id (pd_id d)),
          (''accountNumberLast4'', j_opt JStr (pd_last4 d))] s3)))))"

section \<open>Step 3: settling\<close>

definition payout_event :: "payout \<Rightarrow> txn \<Rightarrow> json_object" where
  "payout_event p t =
     [(''payoutId'', j_id (po_id p)), (''reference'', JStr (po_reference p)), (''transactionId'', j_id (t_id t)),
      (''userId'', j_opt j_id (po_user_id p)), (''organizationId'', j_opt j_id (po_organization_id p)),
      (''walletId'', j_id (po_wallet p)), (''amount'', j_amount (po_amount p)), (''currency'', JStr (po_currency p))]"

definition payout_leg :: "string \<Rightarrow> string \<Rightarrow> payout \<Rightarrow> uuid \<Rightarrow> uuid \<Rightarrow> posting_input" where
  "payout_leg kind description p i j =
     \<lparr>pi_reference = kind @ po_reference p, pi_description = description @ po_reference p, pi_currency = po_currency p,
      pi_entries = [leg i Debit (po_amount p), leg j Credit (po_amount p)], pi_metadata = [(''payoutId'', j_id (po_id p))],
      pi_reversal_of = None\<rparr>"

definition payout_fee_movement :: "string \<Rightarrow> string \<Rightarrow> payout \<Rightarrow> int \<Rightarrow> movement" where
  "payout_fee_movement kind description p fee =
     \<lparr>mv_amount = fee, mv_reference = kind @ po_reference p, mv_description = description @ po_reference p,
      mv_metadata = [(''payoutId'', j_id (po_id p))]\<rparr>"

definition complete_payout_money :: "int \<Rightarrow> payout \<Rightarrow> txn \<Rightarrow> uuid \<Rightarrow> db \<Rightarrow> (posted \<times> db) res" where
  "complete_payout_money now p t clearing s =
     bind_res (get_wallet (po_wallet p) s) (\<lambda>w.
     bind_res (post_in now (payout_leg ''payout:'' ''Payout '' p (w_reserved w) clearing) s) (\<lambda>(posted, s1).
       if t_fee_amount t > 0
       then bind_res (collect_fee_within now (po_wallet p) Reserved_Balance
           (payout_fee_movement ''fee:payout:'' ''Fee for payout '' p (t_fee_amount t)) s1) (\<lambda>(_, s2). Inr (posted, s2))
       else Inr (posted, s1)))"

definition complete_payout_body :: "int \<Rightarrow> payout \<Rightarrow> uuid \<Rightarrow> db \<Rightarrow> (unit \<times> db) res" where
  "complete_payout_body now p clearing s =
     bind_res (lock_transaction (po_transaction p) s) (\<lambda>t.
       if t_status t \<noteq> Processing then Inr ((), s)
       else
         bind_res (complete_payout_money now p t clearing s) (\<lambda>(posted, s1).
         bind_res (transition (t_id t) Successful
             (empty_patch\<lparr>tp_ledger_txn := Some (lt_id (ps_txn posted)), tp_provider_reference := Some (po_provider_reference p),
               tp_completed_at := Some now\<rparr>) s1) (\<lambda>(_, s2).
           Inr ((), add_event now ''payout.successful'' ''transaction'' (t_id t) (payout_event p t) s2))))"

definition complete_payout :: "int \<Rightarrow> payout \<Rightarrow> unit run" where
  "complete_payout now p =
     then_do (committed (ensure_account (external_clearing (po_currency p)))) (\<lambda>c.
       committed (complete_payout_body now p (la_id c)))"

definition fail_payout_body :: "int \<Rightarrow> payout \<Rightarrow> string \<Rightarrow> string \<Rightarrow> db \<Rightarrow> (unit \<times> db) res" where
  "fail_payout_body now p code reason s =
     bind_res (lock_transaction (po_transaction p) s) (\<lambda>t.
       if t_status t \<noteq> Processing then Inr ((), s)
       else
         bind_res (release_within now (po_wallet p)
             \<lparr>mv_amount = po_amount p + t_fee_amount t, mv_reference = ''payout-release:'' @ po_reference p,
              mv_description = ''Release hold for failed payout '' @ po_reference p, mv_metadata = []\<rparr> s) (\<lambda>(_, s1).
         bind_res (transition (t_id t) Failed
             (empty_patch\<lparr>tp_failure_code := Some code, tp_failure_reason := Some (take 500 reason)\<rparr>) s1) (\<lambda>(_, s2).
           Inr ((), add_event now ''payout.failed'' ''transaction'' (t_id t) (payout_event p t @ [(''failureCode'', JStr code)]) s2))))"

definition fail_payout :: "int \<Rightarrow> payout \<Rightarrow> string \<Rightarrow> string \<Rightarrow> unit run" where
  "fail_payout now p code reason = committed (fail_payout_body now p code reason)"

definition reverse_payout_money :: "int \<Rightarrow> payout \<Rightarrow> txn \<Rightarrow> uuid \<Rightarrow> db \<Rightarrow> db res" where
  "reverse_payout_money now p t clearing s =
     bind_res (get_wallet (po_wallet p) s) (\<lambda>w.
     bind_res (post_in now (payout_leg ''payout-reversal:'' ''Reversal of payout '' p clearing (w_available w)) s) (\<lambda>(_, s1).
       if t_fee_amount t > 0
       then bind_res (refund_fee_within now (po_wallet p)
           (payout_fee_movement ''fee-refund:payout:'' ''Fee refund for reversed payout '' p (t_fee_amount t)) s1) (\<lambda>(_, s2). Inr s2)
       else Inr s1))"

definition reverse_payout_body :: "int \<Rightarrow> payout \<Rightarrow> uuid \<Rightarrow> db \<Rightarrow> (unit \<times> db) res" where
  "reverse_payout_body now p clearing s =
     bind_res (lock_transaction (po_transaction p) s) (\<lambda>t.
       if t_status t \<noteq> Successful then Inr ((), s)
       else
         bind_res (reverse_payout_money now p t clearing s) (\<lambda>s1.
         bind_res (transition (t_id t) Reversed empty_patch s1) (\<lambda>(_, s2).
           Inr ((), add_event now ''payout.reversed'' ''transaction'' (t_id t) (payout_event p t) s2))))"

definition reverse_payout :: "int \<Rightarrow> payout \<Rightarrow> unit run" where
  "reverse_payout now p =
     then_do (committed (ensure_account (external_clearing (po_currency p)))) (\<lambda>c.
       committed (reverse_payout_body now p (la_id c)))"

section \<open>Step 2: sending\<close>

definition payout_claimable :: "int \<Rightarrow> int option \<Rightarrow> bool" where
  "payout_claimable now submitted = (case submitted of None \<Rightarrow> True | Some t \<Rightarrow> t < now - PAYOUT_RESUBMIT_AFTER_MS)"

definition claim_payout :: "int \<Rightarrow> uuid \<Rightarrow> db \<Rightarrow> bool \<times> db" where
  "claim_payout now i s =
     (case row_by po_id i (payouts s) of
        None \<Rightarrow> (False, s)
      | Some p \<Rightarrow> if payout_claimable now (po_submitted_at p)
          then (True, s\<lparr>payouts := set_row po_id i (\<lambda>p. p\<lparr>po_submitted_at := Some now\<rparr>) (payouts s)\<rparr>)
          else (False, s))"

definition payout_lookup :: "payout_capability \<Rightarrow> payout \<Rightarrow> payout_answer option answer" where
  "payout_lookup cap p =
     (if po_submitted_at p \<noteq> None then pc_find cap (po_reference p) (po_provider_reference p) else Inr None)"

definition payout_request_of :: "payout \<Rightarrow> payout_destination \<Rightarrow> payout_request" where
  "payout_request_of p d =
     \<lparr>pq_reference = po_reference p, pq_amount = po_amount p, pq_currency = po_currency p, pq_recipient = pd_recipient d,
      pq_narration = po_narration p\<rparr>"

definition payout_sends :: "registry \<Rightarrow> int \<Rightarrow> uuid \<Rightarrow> db \<Rightarrow> payout_request option" where
  "payout_sends rg now i s =
     (case view_payout i s of
        Inl e \<Rightarrow> None
      | Inr v \<Rightarrow> (case payouts_of rg (po_provider (yv_payout v)) of
          Inl e \<Rightarrow> None
        | Inr cap \<Rightarrow>
            if t_status (yv_transaction v) = Processing \<and> payout_lookup cap (yv_payout v) = Inr None \<and> fst (claim_payout now i s)
            then Some (payout_request_of (yv_payout v) (yv_destination v)) else None))"

definition apply_payout_answer :: "int \<Rightarrow> payout \<Rightarrow> payout_answer \<Rightarrow> unit run" where
  "apply_payout_answer now p a s =
     (let ref = pa_provider_reference a;
          s1 = (if po_provider_reference p \<noteq> Some ref then set_payout_reference (po_id p) ref s else s);
          p1 = p\<lparr>po_provider_reference := Some ref\<rparr> in
      case pa_status a of
        Payout_Successful \<Rightarrow> complete_payout now p1 s1
      | Payout_Failed \<Rightarrow> fail_payout now p1 ''PAYOUT_FAILED''
          (case pa_failure_reason a of Some r \<Rightarrow> r | None \<Rightarrow> ''The provider reported the payout as failed'') s1
      | Payout_Reversed \<Rightarrow> then_do (fail_payout now p1 ''PAYOUT_REVERSED'' ''The provider reversed the payout'')
          (\<lambda>_. reverse_payout now p1) s1
      | Payout_Pending \<Rightarrow> (Inr (), s1))"

definition payout_failure :: "int \<Rightarrow> payout \<Rightarrow> provider_failure \<Rightarrow> unit run" where
  "payout_failure now p f =
     (case (rejection f, po_submitted_at p) of
        (Some m, None) \<Rightarrow> fail_payout now p ''PROVIDER_REJECTED'' m
      | _ \<Rightarrow> (\<lambda>s. (Inr (), s)))"

definition submit_payout :: "registry \<Rightarrow> int \<Rightarrow> uuid \<Rightarrow> unit run" where
  "submit_payout rg now i =
     then_do (reading (view_payout i)) (\<lambda>v.
       let p = yv_payout v; t = yv_transaction v in
       if t_status t \<noteq> Processing \<and> t_status t \<noteq> Successful then (\<lambda>s. (Inr (), s))
       else
         then_do (reading (\<lambda>_. payouts_of rg (po_provider p))) (\<lambda>cap s.
           case payout_lookup cap p of
             Inl f \<Rightarrow> payout_failure now p f s
           | Inr (Some a) \<Rightarrow> apply_payout_answer now p a s
           | Inr None \<Rightarrow>
               if t_status t \<noteq> Processing then (Inr (), s)
               else (case claim_payout now (po_id p) s of
                       (False, s1) \<Rightarrow> (Inr (), s1)
                     | (True, s1) \<Rightarrow>
                         (case pc_initiate cap (payout_request_of p (yv_destination v)) of
                            Inl f \<Rightarrow> payout_failure now p f s1
                          | Inr a \<Rightarrow> apply_payout_answer now p a s1))))"

section \<open>The operations\<close>

definition payout_plan :: "registry \<Rightarrow> int \<Rightarrow> owner \<Rightarrow> payout_input \<Rightarrow> db \<Rightarrow> (payout_destination \<times> wallet \<times> fee_quote) res" where
  "payout_plan rg now own inp s =
     bind_res (get_active_destination own (yi_destination inp) s) (\<lambda>d.
       if pd_payouts_available_at d > now then Inl (Payout_Err (Payout_Destination_Cooling_Off (pd_payouts_available_at d)))
       else
         bind_res (source_wallet own d (yi_wallet inp) s) (\<lambda>w.
         bind_res (payouts_of rg (pd_provider d)) (\<lambda>_.
         bind_res (quote_fee Fee_Payout (w_currency w) (yi_amount inp) (owner_organization own) s) (\<lambda>fee.
           Inr (d, w, fee)))))"

definition request_payout_at :: "db \<Rightarrow> registry \<Rightarrow> request_context \<Rightarrow> string \<Rightarrow> string \<Rightarrow> int \<Rightarrow> owner \<Rightarrow> payout_input \<Rightarrow> string \<Rightarrow> payout_view run" where
  "request_payout_at seen rg ctx hex txhex now own inp key s =
     (case find_by_idempotency_key own key seen of
        Some t \<Rightarrow> reading (view_payout_of_transaction (t_id t)) s
      | None \<Rightarrow>
          (case payout_plan rg now own inp s of
             Inl e \<Rightarrow> (Inl e, s)
           | Inr (d, w, fee) \<Rightarrow>
               (case create_payout ctx hex txhex now own w d inp fee key s of
                  Inr (p, s1) \<Rightarrow> then_do (submit_payout rg now (po_id p)) (\<lambda>_. reading (view_payout (po_id p))) s1
                | Inl e \<Rightarrow>
                    if is_unique_violation e [''uq_transactions_user_idempotency_key'', ''uq_transactions_org_idempotency_key'']
                    then (case find_by_idempotency_key own key s of
                            Some t \<Rightarrow> reading (view_payout_of_transaction (t_id t)) s
                          | None \<Rightarrow> (Inl e, s))
                    else (Inl e, s))))"

definition request_payout :: "registry \<Rightarrow> request_context \<Rightarrow> string \<Rightarrow> string \<Rightarrow> int \<Rightarrow> owner \<Rightarrow> payout_input \<Rightarrow> string \<Rightarrow> payout_view run" where
  "request_payout rg ctx hex txhex now own inp key s = request_payout_at s rg ctx hex txhex now own inp key s"

definition sync_payout :: "registry \<Rightarrow> int \<Rightarrow> uuid \<Rightarrow> payout_view run" where
  "sync_payout rg now i = then_do (submit_payout rg now i) (\<lambda>_. reading (view_payout i))"

definition sync_payout_from_webhook :: "registry \<Rightarrow> int \<Rightarrow> string \<Rightarrow> string \<Rightarrow> bool run" where
  "sync_payout_from_webhook rg now provider reference s =
     (case payout_by_reference provider reference s of
        None \<Rightarrow> (Inr False, s)
      | Some p \<Rightarrow> then_do (submit_payout rg now (po_id p)) (\<lambda>_ s. (Inr True, s)) s)"

definition stale_payouts :: "int \<Rightarrow> int \<Rightarrow> nat \<Rightarrow> db \<Rightarrow> payout list" where
  "stale_payouts now older limit s =
     take limit (sort_key po_created_at (filter (\<lambda>p. po_created_at p < now - older) (payouts_processing s)))"

definition sync_stale_payouts :: "registry \<Rightarrow> int \<Rightarrow> int \<Rightarrow> nat \<Rightarrow> nat run" where
  "sync_stale_payouts rg now older limit s =
     (let ps = stale_payouts now older limit s in
      then_do (for_each (map po_id ps) (submit_payout rg now)) (\<lambda>_ s. (Inr (length ps), s)) s)"

end
