(* ===== verification/Moves.thy ===== *)
theory Moves
  imports Effects Service_Runs
begin

text \<open>
  The movements of money seen from the wallets: \<open>moved refs f s s'\<close> says that a step posted at
  most the references \<open>refs\<close> and changed the balance of kind \<open>k\<close> of wallet \<open>i\<close> by \<open>f i k\<close>.
  \<open>mentions\<close> splits a ledger reference at its colons, to tell whose posting it is.
\<close>

section \<open>References\<close>

fun parts_from :: "string \<Rightarrow> string \<Rightarrow> string list" where
  "parts_from acc [] = [rev acc]"
| "parts_from acc (c # cs) = (if c = CHR '':'' then rev acc # parts_from [] cs else parts_from (c # acc) cs)"

definition parts :: "string \<Rightarrow> string list" where
  "parts s = parts_from [] s"

definition mentions :: "string \<Rightarrow> string \<Rightarrow> bool" where
  "mentions r x \<longleftrightarrow> x \<in> set (parts r)"

text \<open>The references of transactions, refunds and payouts: \<open>trx_...\<close>, \<open>rfd_...\<close>, \<open>pyt_...\<close>.\<close>

definition token :: "string \<Rightarrow> bool" where
  "token x \<longleftrightarrow> CHR ''_'' \<in> set x \<and> CHR '':'' \<notin> set x"

lemma parts_from_plain: "CHR '':'' \<notin> set x \<Longrightarrow> parts_from acc x = [rev acc @ x]"
  by (induction x arbitrary: acc) auto

lemma parts_from_colon: "CHR '':'' \<notin> set a \<Longrightarrow> parts_from acc (a @ CHR '':'' # b) = (rev acc @ a) # parts_from [] b"
  by (induction a arbitrary: acc) auto

lemma parts_token: "token x \<Longrightarrow> parts x = [x]"
  by (simp add: parts_def token_def parts_from_plain)

lemma mentions_token: "token x \<Longrightarrow> mentions x y \<longleftrightarrow> y = x"
  by (simp add: mentions_def parts_token)

lemma mentions_tag: "CHR '':'' \<notin> set a \<Longrightarrow> mentions (a @ CHR '':'' # b) y \<longleftrightarrow> y = a \<or> mentions b y"
  using parts_from_colon [of a "[]" b] by (simp add: mentions_def parts_def)

lemma mentions_suffix: "CHR '':'' \<notin> set a \<Longrightarrow> CHR '':'' \<notin> set b \<Longrightarrow> mentions (a @ CHR '':'' # b) y \<longleftrightarrow> y = a \<or> y = b"
  using mentions_tag [of a b y] by (simp add: mentions_def [of b] parts_def parts_from_plain)

lemma token_tags [simp]:
  "\<not> token ''payment''" "\<not> token ''fee''" "\<not> token ''transfer''" "\<not> token ''refund''" "\<not> token ''refund-hold''"
  "\<not> token ''refund-release''" "\<not> token ''payout''" "\<not> token ''payout-hold''" "\<not> token ''payout-release''"
  "\<not> token ''payout-reversal''" "\<not> token ''fee-refund''" "\<not> token ''settlement''" "\<not> token ''fx-source''" "\<not> token ''fx-target''"
  by (simp_all add: token_def)

lemma token_digits: "\<not> token (show_nat n)"
proof -
  have "CHR ''_'' \<notin> set (show_nat n)" using show_nat_digits [of "CHR ''_''" n] by (auto simp: is_digit_def)
  then show ?thesis by (simp add: token_def)
qed

text \<open>Which tokens the references of the services mention.\<close>

lemma tagged_token:
  assumes "CHR '':'' \<notin> set a" and "\<not> token a" and "token x" and "token y"
  shows "mentions (a @ CHR '':'' # x) y \<longleftrightarrow> y = x"
  using assms mentions_tag [OF assms(1), of x y] mentions_token [of x y] by auto

lemma tagged_twice:
  assumes "CHR '':'' \<notin> set a" and "\<not> token a" and "CHR '':'' \<notin> set b" and "\<not> token b" and "token x" and "token y"
  shows "mentions (a @ CHR '':'' # b @ CHR '':'' # x) y \<longleftrightarrow> y = x"
  using assms mentions_tag [OF assms(1), of "b @ CHR '':'' # x" y] tagged_token [OF assms(3-6)] by auto

lemma tagged_leg:
  assumes "CHR '':'' \<notin> set a" and "\<not> token a" and "CHR '':'' \<notin> set b" and "\<not> token b" and "token x" and "token y"
  shows "mentions (a @ CHR '':'' # x @ CHR '':'' # b) y \<longleftrightarrow> y = x"
proof -
  have "CHR '':'' \<notin> set x" using assms(5) by (simp add: token_def)
  then show ?thesis
    using assms mentions_tag [OF assms(1), of "x @ CHR '':'' # b" y] mentions_suffix [of x b y] by auto
qed

lemmas service_mentions =
  tagged_token [of "''transfer''", simplified]
  tagged_token [of "''payment''", simplified]
  tagged_token [of "''refund-hold''", simplified]
  tagged_token [of "''refund''", simplified]
  tagged_token [of "''refund-release''", simplified]
  tagged_token [of "''payout-hold''", simplified]
  tagged_token [of "''payout''", simplified]
  tagged_token [of "''payout-release''", simplified]
  tagged_token [of "''payout-reversal''", simplified]
  tagged_twice [of "''fee''" "''transfer''", simplified]
  tagged_twice [of "''fee''" "''payment''", simplified]
  tagged_twice [of "''fee''" "''payout''", simplified]
  tagged_twice [of "''fee-refund''" "''payout''", simplified]
  tagged_leg [of "''payment''" "''fx-source''", simplified]
  tagged_leg [of "''payment''" "''fx-target''", simplified]
  tagged_leg [of "''refund''" "''fx-source''", simplified]

lemma settlement_mentions: "token y \<Longrightarrow> \<not> mentions (''settlement:'' @ show_nat n) y"
proof -
  assume y: "token y"
  have "CHR '':'' \<notin> set (show_nat n)" using show_nat_digits [of "CHR '':''" n] by (auto simp: is_digit_def)
  then have "mentions (''settlement:'' @ show_nat n) y \<longleftrightarrow> y = ''settlement'' \<or> y = show_nat n"
    using mentions_suffix [of "''settlement''" "show_nat n" y] by simp
  then show ?thesis using y token_digits token_tags by auto
qed

section \<open>Movements\<close>

definition at_balance :: "uuid \<Rightarrow> balance_kind \<Rightarrow> int \<Rightarrow> uuid \<Rightarrow> balance_kind \<Rightarrow> int" where
  "at_balance i k x j l = (if j = i \<and> l = k then x else 0)"

definition moved :: "string list \<Rightarrow> (uuid \<Rightarrow> balance_kind \<Rightarrow> int) \<Rightarrow> db \<Rightarrow> db \<Rightarrow> bool" where
  "moved refs f s s' \<longleftrightarrow> ledger_ok s' \<and> db_le s s' \<and> only_ledger s s' \<and>
     (\<forall>w \<in> set (wallets s). \<forall>k. credit s' (balance_account w k) = credit s (balance_account w k) + f (w_id w) k) \<and>
     (\<forall>r. fresh s' r \<longleftrightarrow> r \<notin> set refs \<and> fresh s r)"

lemma moved_trans:
  assumes "moved r1 f s s1" and "moved r2 g s1 s2"
  shows "moved (r1 @ r2) (\<lambda>i k. f i k + g i k) s s2"
proof -
  have ws: "wallets s1 = wallets s" using assms(1) by (simp add: moved_def only_ledger_tables)
  have "db_le s s2" using assms db_le_trans by (auto simp: moved_def)
  moreover have "only_ledger s s2" using assms only_ledger_trans by (auto simp: moved_def)
  ultimately show ?thesis using assms ws by (auto simp: moved_def)
qed

lemma moved_cong: "moved refs f s s' \<Longrightarrow> (\<And>i k. f i k = g i k) \<Longrightarrow> moved refs g s s'"
  by (simp add: moved_def)

lemma moved_none: "ledger_ok s \<Longrightarrow> moved [] (\<lambda>i k. 0) s s"
  by (simp add: moved_def)

lemma moved_wallets: "moved refs f s s' \<Longrightarrow> wallets_inv s \<Longrightarrow> wallets_inv s'"
  by (rule wallets_inv_le [of s s']) (simp_all add: moved_def only_ledger_tables)

lemma moved_get_wallet: "moved refs f s s' \<Longrightarrow> get_wallet i s' = get_wallet i s"
  using only_ledger_tables(2) [of s s'] by (simp add: moved_def get_wallet_def)

lemma moved_fresh: "moved refs f s s' \<Longrightarrow> fresh s r \<Longrightarrow> r \<notin> set refs \<Longrightarrow> fresh s' r"
  by (simp add: moved_def)

lemma effect_moved:
  assumes "effect refs d s s'" and "only_ledger s s'"
    and "\<And>w k. w \<in> set (wallets s) \<Longrightarrow> d (balance_account w k) = f (w_id w) k"
  shows "moved refs f s s'"
  using assms by (auto simp: effect_def moved_def)

lemma wallets_inv_ok: "wallets_inv s \<Longrightarrow> ledger_ok s"
  by (simp add: wallets_inv_def)

lemma wallets_inv_ids: "wallets_inv s \<Longrightarrow> v \<in> set (wallets s) \<Longrightarrow> w \<in> set (wallets s) \<Longrightarrow> w_id v = w_id w \<longleftrightarrow> v = w"
  by (auto simp: wallets_inv_def distinct_map inj_on_def)

lemma only_at_wallet:
  assumes "wallets_inv s" and "w \<in> set (wallets s)" and "v \<in> set (wallets s)"
  shows "only_at (balance_account w k) x (balance_account v l) = at_balance (w_id w) k x (w_id v) l"
  using wallet_accounts_distinct [OF assms(1,3,2), of l k] wallets_inv_ids [OF assms(1,3,2)]
  by (auto simp: only_at_def at_balance_def)

lemma only_at_system:
  assumes "is_system s' sa c" and "wallets_inv s'" and "v \<in> set (wallets s')"
  shows "only_at c x (balance_account v l) = 0"
  using is_system_not_wallet [OF assms, of l] by (simp add: only_at_def)

lemma ensure_account_moved:
  assumes "wallets_inv s" and "ensure_account sa s = Inr (a, s')"
  shows "moved [] (\<lambda>i k. 0) s s'" and "is_system s' sa (la_id a)"
  using ensure_account_effect [OF wallets_inv_ok [OF assms(1)] assms(2)] ensure_account_frame [OF assms(2)]
  by (auto intro: effect_moved)

section \<open>Movements of one wallet\<close>

text \<open>Both legs of a two-leg movement, seen from the wallets.\<close>

lemma effect_two_wallets:
  assumes "wallets_inv s" and "w \<in> set (wallets s)" and "ledger_move s s'"
    and "effect refs (\<lambda>j. only_at (balance_account w k) x j - only_at (balance_account w l) x j) s s'"
  shows "moved refs (\<lambda>i m. at_balance (w_id w) k x i m - at_balance (w_id w) l x i m) s s'"
  by (rule effect_moved [OF assms(4)]) (use assms(1-3) in \<open>simp_all add: only_at_wallet ledger_move_def\<close>)

lemma effect_wallet_in:
  assumes "wallets_inv s" and "w \<in> set (wallets s)" and "ledger_move s s'" and "is_system s' sa c"
    and "effect refs (\<lambda>j. only_at (balance_account w k) x j - only_at c x j) s s'"
  shows "moved refs (at_balance (w_id w) k x) s s'"
proof (rule effect_moved [OF assms(5)])
  fix v l assume v: "v \<in> set (wallets s)"
  then have "only_at c x (balance_account v l) = 0"
    by (intro only_at_system [OF assms(4) wallets_inv_move [OF assms(1,3)]]) (simp add: ledger_move_wallets [OF assms(3)])
  then show "only_at (balance_account w k) x (balance_account v l) - only_at c x (balance_account v l) = at_balance (w_id w) k x (w_id v) l"
    by (simp add: only_at_wallet [OF assms(1,2) v])
qed (use assms(3) in \<open>simp add: ledger_move_def\<close>)

lemma effect_wallet_out:
  assumes "wallets_inv s" and "w \<in> set (wallets s)" and "ledger_move s s'" and "is_system s' sa c"
    and "effect refs (\<lambda>j. only_at c x j - only_at (balance_account w k) x j) s s'"
  shows "moved refs (at_balance (w_id w) k (- x)) s s'"
proof -
  have "effect refs (\<lambda>j. only_at (balance_account w k) (- x) j - only_at c (- x) j) s s'"
    by (rule effect_cong [OF assms(5)]) (simp add: only_at_def)
  from effect_wallet_in [OF assms(1-4) this] show ?thesis .
qed

lemma deposit_within_moved:
  assumes "wallets_inv s" and "fresh s (mv_reference m)" and "deposit_within now i m k s = Inr (p, s')"
  shows "moved [mv_reference m] (at_balance i k (mv_amount m)) s s'" and "0 < mv_amount m"
proof -
  from deposit_within_effect [OF wallets_inv_ok [OF assms(1)] assms(2,3)] obtain w c where
    1: "get_wallet i s = Inr w" "is_system s' (external_clearing (w_currency w)) c"
      "effect [mv_reference m] (\<lambda>j. only_at (balance_account w k) (mv_amount m) j - only_at c (mv_amount m) j) s s'"
      "0 < mv_amount m" by metis
  have w: "w \<in> set (wallets s)" "w_id w = i" using 1(1) wallet_row [OF assms(1)] by auto
  show "moved [mv_reference m] (at_balance i k (mv_amount m)) s s'"
    using effect_wallet_in [OF assms(1) w(1) deposit_within_move [OF assms(3)] 1(2,3)] w(2) by simp
  show "0 < mv_amount m" by (rule 1(4))
qed

lemma collect_fee_within_moved:
  assumes "wallets_inv s" and "fresh s (mv_reference m)" and "collect_fee_within now i k m s = Inr (p, s')"
  shows "moved [mv_reference m] (at_balance i k (- mv_amount m)) s s'"
proof -
  from collect_fee_within_effect [OF wallets_inv_ok [OF assms(1)] assms(2,3)] obtain w c where
    1: "get_wallet i s = Inr w" "is_system s' (fee_revenue (w_currency w)) c"
      "effect [mv_reference m] (\<lambda>j. only_at c (mv_amount m) j - only_at (balance_account w k) (mv_amount m) j) s s'"
    by metis
  have w: "w \<in> set (wallets s)" "w_id w = i" using 1(1) wallet_row [OF assms(1)] by auto
  show ?thesis using effect_wallet_out [OF assms(1) w(1) collect_fee_within_move [OF assms(3)] 1(2,3)] w(2) by simp
qed

lemma refund_fee_within_moved:
  assumes "wallets_inv s" and "fresh s (mv_reference m)" and "refund_fee_within now i m s = Inr (p, s')"
  shows "moved [mv_reference m] (at_balance i Available (mv_amount m)) s s'"
proof -
  from refund_fee_within_effect [OF wallets_inv_ok [OF assms(1)] assms(2,3)] obtain w c where
    1: "get_wallet i s = Inr w" "is_system s' (fee_revenue (w_currency w)) c"
      "effect [mv_reference m] (\<lambda>j. only_at (w_available w) (mv_amount m) j - only_at c (mv_amount m) j) s s'"
    by metis
  have w: "w \<in> set (wallets s)" "w_id w = i" using 1(1) wallet_row [OF assms(1)] by auto
  show ?thesis
    using effect_wallet_in [OF assms(1) w(1) refund_fee_within_move [OF assms(3)] 1(2), of _ Available] 1(3) w(2) by simp
qed

lemma reserve_within_moved:
  assumes "wallets_inv s" and "fresh s (mv_reference m)" and "reserve_within now i m s = Inr (p, s')"
  shows "moved [mv_reference m] (\<lambda>j k. at_balance i Reserved_Balance (mv_amount m) j k - at_balance i Available (mv_amount m) j k) s s'"
    and "0 < mv_amount m"
proof -
  from reserve_within_effect [OF wallets_inv_ok [OF assms(1)] assms(2,3)] obtain w where
    1: "get_wallet i s = Inr w" "0 < mv_amount m"
      "effect [mv_reference m] (\<lambda>j. only_at (w_reserved w) (mv_amount m) j - only_at (w_available w) (mv_amount m) j) s s'"
    by metis
  have w: "w \<in> set (wallets s)" "w_id w = i" using 1(1) wallet_row [OF assms(1)] by auto
  show "moved [mv_reference m] (\<lambda>j k. at_balance i Reserved_Balance (mv_amount m) j k - at_balance i Available (mv_amount m) j k) s s'"
    using effect_two_wallets [OF assms(1) w(1) reserve_within_move [OF assms(3)], of _ Reserved_Balance _ Available] 1(3) w(2) by simp
  show "0 < mv_amount m" by (rule 1(2))
qed

lemma release_within_moved:
  assumes "wallets_inv s" and "fresh s (mv_reference m)" and "release_within now i m s = Inr (p, s')"
  shows "moved [mv_reference m] (\<lambda>j k. at_balance i Available (mv_amount m) j k - at_balance i Reserved_Balance (mv_amount m) j k) s s'"
proof -
  from release_within_effect [OF wallets_inv_ok [OF assms(1)] assms(2,3)] obtain w where
    1: "get_wallet i s = Inr w"
      "effect [mv_reference m] (\<lambda>j. only_at (w_available w) (mv_amount m) j - only_at (w_reserved w) (mv_amount m) j) s s'"
    by metis
  have w: "w \<in> set (wallets s)" "w_id w = i" using 1(1) wallet_row [OF assms(1)] by auto
  show ?thesis
    using effect_two_wallets [OF assms(1) w(1) release_within_move [OF assms(3)], of _ Available _ Reserved_Balance] 1(2) w(2) by simp
qed

lemma make_available_within_moved:
  assumes "wallets_inv s" and "fresh s (mv_reference m)" and "make_available_within now i m s = Inr (p, s')"
  shows "moved [mv_reference m] (\<lambda>j k. at_balance i Available (mv_amount m) j k - at_balance i Pending_Balance (mv_amount m) j k) s s'"
proof -
  from make_available_within_effect [OF wallets_inv_ok [OF assms(1)] assms(2,3)] obtain w where
    1: "get_wallet i s = Inr w"
      "effect [mv_reference m] (\<lambda>j. only_at (w_available w) (mv_amount m) j - only_at (w_pending w) (mv_amount m) j) s s'"
    by metis
  have w: "w \<in> set (wallets s)" "w_id w = i" using 1(1) wallet_row [OF assms(1)] by auto
  show ?thesis
    using effect_two_wallets [OF assms(1) w(1) make_available_within_move [OF assms(3)], of _ Available _ Pending_Balance] 1(2) w(2) by simp
qed

text \<open>A hold split between the pending and the available balance, and its release.\<close>

definition split_hold :: "uuid \<Rightarrow> int \<Rightarrow> int \<Rightarrow> uuid \<Rightarrow> balance_kind \<Rightarrow> int" where
  "split_hold i x amount j k =
     at_balance i Reserved_Balance amount j k - at_balance i Pending_Balance x j k - at_balance i Available (amount - x) j k"

lemma split_move_wallet:
  assumes "wallets_inv s" and "w \<in> set (wallets s)" and "v \<in> set (wallets s)"
  shows "split_move w x amount (balance_account v k) = split_hold (w_id w) x amount (w_id v) k"
proof -
  have "split_move w x amount i = only_at (balance_account w Reserved_Balance) amount i -
      only_at (balance_account w Pending_Balance) x i - only_at (balance_account w Available) (amount - x) i" for i
    by (simp add: split_move_def only_at_def)
  then show ?thesis by (simp only: split_hold_def only_at_wallet [OF assms])
qed

lemma split_posting_moved:
  assumes "wallets_inv s" and "w \<in> set (wallets s)" and "0 \<le> x" and "x \<le> mv_amount m" and "fresh s (mv_reference m)"
    and "post_in now (wallet_posting ids c m (split_entries w (mv_amount m) x d)) s = Inr (p, s')"
  shows "moved [mv_reference m] (\<lambda>j k. (if d = Debit then 1 else - 1) * split_hold (w_id w) x (mv_amount m) j k) s s'"
proof -
  have fr: "fresh s (pi_reference (wallet_posting ids c m (split_entries w (mv_amount m) x d)))" using assms(5) by simp
  note e = post_in_effect(2) [OF wallets_inv_ok [OF assms(1)] fr assms(6)]
  have "credit_net (pi_entries (wallet_posting ids c m (split_entries w (mv_amount m) x d))) i =
      (if d = Debit then 1 else - 1) * split_move w x (mv_amount m) i" for i
    using split_entries_net [OF assms(1-4), of i] by (cases d) simp_all
  then have "effect [mv_reference m] (\<lambda>i. (if d = Debit then 1 else - 1) * split_move w x (mv_amount m) i) s s'"
    using effect_cong [OF e] by (simp only: wallet_posting_simps)
  then show ?thesis
    by (rule effect_moved [OF _ post_in_frame [OF assms(6)]]) (simp add: split_move_wallet [OF assms(1,2)])
qed

lemma reserve_split_within_moved:
  assumes "wallets_inv s" and "fresh s (mv_reference m)" and "0 \<le> x" and "x \<le> mv_amount m"
    and "reserve_split_within now i m x s = Inr (p, s')"
  shows "moved [mv_reference m] (split_hold i x (mv_amount m)) s s'"
proof -
  obtain w where w: "get_wallet i s = Inr w"
    and post: "post_in now (wallet_posting [i] (w_currency w) m (split_entries w (mv_amount m) x Debit)) s = Inr (p, s')"
    using assms(5) by (auto simp: reserve_split_within_def bind_res_Inr_iff)
  have "w \<in> set (wallets s)" "w_id w = i" using w wallet_row [OF assms(1)] by auto
  with split_posting_moved [OF assms(1) this(1) assms(3,4,2) post] show ?thesis by simp
qed

lemma release_split_within_moved:
  assumes "wallets_inv s" and "fresh s (mv_reference m)" and "0 \<le> x" and "x \<le> mv_amount m"
    and "release_split_within now i m x s = Inr (p, s')"
  shows "moved [mv_reference m] (\<lambda>j k. - split_hold i x (mv_amount m) j k) s s'"
proof -
  obtain w where w: "get_wallet i s = Inr w"
    and post: "post_in now (wallet_posting [i] (w_currency w) m (split_entries w (mv_amount m) x Credit)) s = Inr (p, s')"
    using assms(5) by (auto simp: release_split_within_def bind_res_Inr_iff)
  have "w \<in> set (wallets s)" "w_id w = i" using w wallet_row [OF assms(1)] by auto
  with split_posting_moved [OF assms(1) this(1) assms(3,4,2) post] show ?thesis by simp
qed

end
