(* ===== verification/Books.thy ===== *)
theory Books
  imports Moves Settlement Refunds Payouts
begin

text \<open>
  The books of the whole system. \<open>books c s\<close> says that at time \<open>c\<close> the pending balance of every
  wallet is what its payments still hold, its reserved balance what its processing refunds and
  payouts hold, that rows are linked to transactions of their type, that no payment is
  refunded beyond its amount, and that no operation that is still to come has used its ledger
  reference. Later theories prove that every database transaction of the services keeps it.
\<close>

section \<open>What wallets owe\<close>

definition status_of :: "db \<Rightarrow> uuid \<Rightarrow> txn_status option" where
  "status_of s i = map_option t_status (row_by t_id i (transactions s))"

definition pending_due :: "db \<Rightarrow> uuid \<Rightarrow> int" where
  "pending_due s i = sum_list (map (\<lambda>p. if p_wallet p = i then p_pending_amount p else 0) (payments s))"

definition refund_hold :: "db \<Rightarrow> uuid \<Rightarrow> refund \<Rightarrow> int" where
  "refund_hold s i r = (if r_wallet r = i \<and> status_of s (r_transaction r) = Some Processing then r_wallet_debit r else 0)"

definition payout_hold :: "db \<Rightarrow> uuid \<Rightarrow> payout \<Rightarrow> int" where
  "payout_hold s i p =
     (case row_by t_id (po_transaction p) (transactions s) of
        None \<Rightarrow> 0
      | Some t \<Rightarrow> if po_wallet p = i \<and> t_status t = Processing then po_amount p + t_fee_amount t else 0)"

definition hold_due :: "db \<Rightarrow> uuid \<Rightarrow> int" where
  "hold_due s i = sum_list (map (refund_hold s i) (refunds s)) + sum_list (map (payout_hold s i) (payouts s))"

definition dues_match :: "db \<Rightarrow> bool" where
  "dues_match s \<longleftrightarrow> (\<forall>w \<in> set (wallets s).
     credit s (w_pending w) = pending_due s (w_id w) \<and> credit s (w_reserved w) = hold_due s (w_id w))"

section \<open>Linked rows\<close>

definition kind_of_ref :: "string \<Rightarrow> string \<Rightarrow> bool" where
  "kind_of_ref pre x \<longleftrightarrow> take 4 x = pre \<and> token x"

definition payment_linked :: "db \<Rightarrow> payment \<Rightarrow> bool" where
  "payment_linked s p \<longleftrightarrow> p_id p < next_id s \<and> 0 \<le> p_pending_amount p \<and> p_wallet p \<in> w_id ` set (wallets s) \<and>
     (\<exists>t \<in> set (transactions s). t_id t = p_transaction p \<and> t_type t = Ty_Payment \<and> t_amount t = p_amount p \<and>
        (t_status t \<in> set OPEN_STATUSES \<longrightarrow> p_pending_amount p = 0 \<and> p_funds_available_at p = None))"

definition refund_linked :: "db \<Rightarrow> refund \<Rightarrow> bool" where
  "refund_linked s r \<longleftrightarrow> r_id r < next_id s \<and> 0 < r_amount r \<and> 0 < r_wallet_debit r \<and>
     0 \<le> r_pending_hold r \<and> r_pending_hold r \<le> r_wallet_debit r \<and> kind_of_ref ''rfd_'' (r_reference r) \<and>
     r_wallet r \<in> w_id ` set (wallets s) \<and> (\<exists>p \<in> set (payments s). p_id p = r_payment r \<and> p_wallet p = r_wallet r) \<and>
     (\<exists>t \<in> set (transactions s). t_id t = r_transaction r \<and> t_type t = Ty_Refund)"

definition payout_linked :: "db \<Rightarrow> payout \<Rightarrow> bool" where
  "payout_linked s p \<longleftrightarrow> po_id p < next_id s \<and> 0 < po_amount p \<and> kind_of_ref ''pyt_'' (po_reference p) \<and>
     po_wallet p \<in> w_id ` set (wallets s) \<and>
     (\<exists>t \<in> set (transactions s). t_id t = po_transaction p \<and> t_type t = Ty_Withdrawal)"

definition linked :: "db \<Rightarrow> bool" where
  "linked s \<longleftrightarrow> txns_ok s \<and> (\<forall>t \<in> set (transactions s). kind_of_ref ''trx_'' (t_reference t) \<and> txn_row_error t = None) \<and>
     distinct (map p_id (payments s)) \<and> distinct (map p_transaction (payments s)) \<and> (\<forall>p \<in> set (payments s). payment_linked s p) \<and>
     distinct (map r_id (refunds s)) \<and> distinct (map r_transaction (refunds s)) \<and> distinct (map r_reference (refunds s)) \<and>
     (\<forall>r \<in> set (refunds s). refund_linked s r) \<and>
     distinct (map po_id (payouts s)) \<and> distinct (map po_transaction (payouts s)) \<and> distinct (map po_reference (payouts s)) \<and>
     (\<forall>p \<in> set (payouts s). payout_linked s p)"

definition refunds_within :: "db \<Rightarrow> bool" where
  "refunds_within s \<longleftrightarrow> (\<forall>p \<in> set (payments s). committed_amount (p_id p) s \<le> p_amount p)"

section \<open>Unused references\<close>

definition only_used :: "db \<Rightarrow> string \<Rightarrow> string list \<Rightarrow> bool" where
  "only_used s x rs \<longleftrightarrow> (\<forall>r. mentions r x \<longrightarrow> fresh s r \<or> r \<in> set rs)"

text \<open>What has been posted so far under each reference that is still in use.\<close>

definition payment_claims :: "db \<Rightarrow> (string \<times> string list) set" where
  "payment_claims s = {(t_reference t, []) | t. t \<in> set (transactions s) \<and> t_type t = Ty_Payment \<and> t_status t \<in> set OPEN_STATUSES}"

definition refund_claims :: "db \<Rightarrow> (string \<times> string list) set" where
  "refund_claims s = {(r_reference r, [''refund-hold:'' @ r_reference r]) | r. r \<in> set (refunds s) \<and>
     status_of s (r_transaction r) = Some Processing}"

definition payout_claims :: "db \<Rightarrow> (string \<times> string list) set" where
  "payout_claims s =
     {(po_reference p, [''payout-hold:'' @ po_reference p]) | p. p \<in> set (payouts s) \<and> status_of s (po_transaction p) = Some Processing} \<union>
     {(po_reference p, [''payout-hold:'' @ po_reference p, ''payout:'' @ po_reference p, ''fee:payout:'' @ po_reference p]) | p.
        p \<in> set (payouts s) \<and> status_of s (po_transaction p) = Some Successful}"

definition claims :: "db \<Rightarrow> (string \<times> string list) set" where
  "claims s = payment_claims s \<union> refund_claims s \<union> payout_claims s"

definition settlement_ref :: "uuid \<Rightarrow> string" where
  "settlement_ref i = ''settlement:'' @ uuid_str i"

definition settled_once :: "int \<Rightarrow> db \<Rightarrow> bool" where
  "settled_once c s \<longleftrightarrow>
     (\<forall>i. next_id s \<le> i \<longrightarrow> fresh s (settlement_ref i)) \<and>
     (\<forall>p \<in> set (payments s). \<not> fresh s (settlement_ref (p_id p)) \<longrightarrow>
        p_pending_amount p = 0 \<and> (\<exists>a. p_funds_available_at p = Some a \<and> a \<le> c))"

definition quotes_consumed :: "db \<Rightarrow> bool" where
  "quotes_consumed s \<longleftrightarrow> (\<forall>q \<in> set (fx_quotes s). \<forall>r. q_conversion_reference q = Some r \<longrightarrow> \<not> fresh s (r @ '':fx-source''))"

text \<open>The references of rows are the only ones that postings mention.\<close>

definition known :: "db \<Rightarrow> string set" where
  "known s = t_reference ` set (transactions s) \<union> r_reference ` set (refunds s) \<union> po_reference ` set (payouts s)"

definition known_refs :: "db \<Rightarrow> bool" where
  "known_refs s \<longleftrightarrow> (\<forall>r y. token y \<longrightarrow> mentions r y \<longrightarrow> \<not> fresh s r \<longrightarrow> y \<in> known s)"

definition books :: "int \<Rightarrow> db \<Rightarrow> bool" where
  "books c s \<longleftrightarrow> wallets_inv s \<and> linked s \<and> refunds_within s \<and> dues_match s \<and>
     (\<forall>(x, rs) \<in> claims s. only_used s x rs) \<and> settled_once c s \<and> quotes_consumed s \<and> known_refs s"

section \<open>Sums over tables\<close>

lemma sum_list_change:
  fixes g g' :: "'r \<Rightarrow> int"
  assumes "distinct (map key xs)" and "r \<in> set xs" and "\<And>x. x \<in> set xs \<Longrightarrow> key x \<noteq> key r \<Longrightarrow> g' x = g x"
  shows "sum_list (map g' xs) = sum_list (map g xs) + g' r - g r"
  using assms
proof (induction xs)
  case (Cons x xs)
  show ?case
  proof (cases "key x = key r")
    case True
    then have "x = r" using Cons.prems(1,2) by (auto dest: image_eqI [where f = key])
    moreover have "map g' xs = map g xs"
    proof (rule map_cong [OF refl])
      fix y assume "y \<in> set xs"
      then have "key y \<noteq> key r" using Cons.prems(1) True by (metis distinct.simps(2) image_eqI list.map(2) list.set_map)
      then show "g' y = g y" using Cons.prems(3) \<open>y \<in> set xs\<close> by simp
    qed
    ultimately show ?thesis by (simp only: list.map sum_list.Cons)
  next
    case False
    then have "r \<in> set xs" using Cons.prems(2) by auto
    then show ?thesis using Cons False by simp
  qed
qed simp

lemma sum_list_same: "(\<And>x. x \<in> set xs \<Longrightarrow> g' x = g x) \<Longrightarrow> sum_list (map g' xs) = (sum_list (map g xs) :: int)"
  by (metis map_cong)

section \<open>Reading the invariant\<close>

lemma books_parts:
  assumes "books c s"
  shows "wallets_inv s" "linked s" "refunds_within s" "dues_match s" "settled_once c s" "quotes_consumed s"
    "\<And>x rs. (x, rs) \<in> claims s \<Longrightarrow> only_used s x rs" "ledger_ok s" "txns_ok s" "known_refs s"
  using assms by (auto simp: books_def wallets_inv_def linked_def)

lemma linked_txn:
  assumes "linked s" and "t \<in> set (transactions s)"
  shows "row_by t_id (t_id t) (transactions s) = Some t" and "kind_of_ref ''trx_'' (t_reference t)" and "txn_row_error t = None"
    and "status_of s (t_id t) = Some (t_status t)" and "0 \<le> t_fee_amount t" and "t_id t < next_id s"
proof -
  show row: "row_by t_id (t_id t) (transactions s) = Some t" using assms txns_ok_row by (auto simp: linked_def)
  show "kind_of_ref ''trx_'' (t_reference t)" "txn_row_error t = None" using assms by (auto simp: linked_def)
  then show "0 \<le> t_fee_amount t" by (auto simp: txn_row_error_def split: if_splits)
  show "status_of s (t_id t) = Some (t_status t)" by (simp add: status_of_def row)
  show "t_id t < next_id s" using assms by (auto simp: linked_def txns_ok_def txns_distinct_def)
qed

lemma linked_unique:
  assumes "linked s" and "t \<in> set (transactions s)" and "u \<in> set (transactions s)"
  shows "t_id t = t_id u \<longleftrightarrow> t = u" and "t_reference t = t_reference u \<longleftrightarrow> t = u"
  using assms by (auto simp: linked_def txns_ok_def txns_distinct_def distinct_map inj_on_def)

lemma linked_row: "linked s \<Longrightarrow> row_by t_id i (transactions s) = Some t \<longleftrightarrow> t \<in> set (transactions s) \<and> t_id t = i"
  using linked_txn(1) row_by_Some by metis

lemma linked_payment:
  assumes "linked s" and "p \<in> set (payments s)"
  obtains t where "t \<in> set (transactions s)" "t_id t = p_transaction p" "t_type t = Ty_Payment" "t_amount t = p_amount p"
    "t_status t \<in> set OPEN_STATUSES \<Longrightarrow> p_pending_amount p = 0 \<and> p_funds_available_at p = None"
  using assms unfolding linked_def payment_linked_def by blast

lemma linked_refund:
  assumes "linked s" and "r \<in> set (refunds s)"
  obtains t p where "t \<in> set (transactions s)" "t_id t = r_transaction r" "t_type t = Ty_Refund"
    "p \<in> set (payments s)" "p_id p = r_payment r" "p_wallet p = r_wallet r"
  using assms unfolding linked_def refund_linked_def by blast

lemma linked_payout:
  assumes "linked s" and "p \<in> set (payouts s)"
  obtains t where "t \<in> set (transactions s)" "t_id t = po_transaction p" "t_type t = Ty_Withdrawal"
  using assms unfolding linked_def payout_linked_def by blast

lemma linked_rows:
  assumes "linked s"
  shows "p \<in> set (payments s) \<Longrightarrow> row_by p_id (p_id p) (payments s) = Some p"
    and "r \<in> set (refunds s) \<Longrightarrow> row_by r_id (r_id r) (refunds s) = Some r"
    and "y \<in> set (payouts s) \<Longrightarrow> row_by po_id (po_id y) (payouts s) = Some y"
  using assms by (auto simp: linked_def row_by_distinct)

lemma kinds_differ:
  "kind_of_ref a x \<Longrightarrow> kind_of_ref b y \<Longrightarrow> a \<noteq> b \<Longrightarrow> x \<noteq> y"
  by (auto simp: kind_of_ref_def)

lemma kind_token: "kind_of_ref a x \<Longrightarrow> token x"
  by (simp add: kind_of_ref_def)

lemma linked_reference:
  assumes "linked s"
  shows "t \<in> set (transactions s) \<Longrightarrow> kind_of_ref ''trx_'' (t_reference t)"
    and "r \<in> set (refunds s) \<Longrightarrow> kind_of_ref ''rfd_'' (r_reference r)"
    and "p \<in> set (payouts s) \<Longrightarrow> kind_of_ref ''pyt_'' (po_reference p)"
  using assms by (auto simp: linked_def refund_linked_def payout_linked_def)

text \<open>A reference that no row has is not mentioned by any posting.\<close>

lemma unknown_unused: "known_refs s \<Longrightarrow> token x \<Longrightarrow> x \<notin> known s \<Longrightarrow> only_used s x []"
  by (auto simp: known_refs_def only_used_def)

lemma unknown_reference:
  assumes "linked s"
  shows "kind_of_ref ''trx_'' x \<Longrightarrow> x \<notin> t_reference ` set (transactions s) \<Longrightarrow> x \<notin> known s"
    and "kind_of_ref ''rfd_'' x \<Longrightarrow> x \<notin> r_reference ` set (refunds s) \<Longrightarrow> x \<notin> known s"
    and "kind_of_ref ''pyt_'' x \<Longrightarrow> x \<notin> po_reference ` set (payouts s) \<Longrightarrow> x \<notin> known s"
  using linked_reference [OF assms] unfolding known_def kind_of_ref_def by fastforce+

lemma claims_token: "linked s \<Longrightarrow> (x, rs) \<in> claims s \<Longrightarrow> token x"
  by (auto simp: claims_def payment_claims_def refund_claims_def payout_claims_def intro: kind_token linked_reference)

text \<open>Holds are not negative, so the reserved balance covers each one.\<close>

lemma refund_hold_nonneg: "linked s \<Longrightarrow> r \<in> set (refunds s) \<Longrightarrow> 0 \<le> refund_hold s i r"
  by (auto simp: refund_hold_def linked_def refund_linked_def intro: less_imp_le)

lemma payout_hold_nonneg: "linked s \<Longrightarrow> p \<in> set (payouts s) \<Longrightarrow> 0 \<le> payout_hold s i p"
proof -
  assume l: "linked s" and p: "p \<in> set (payouts s)"
  have "0 < po_amount p" using l p by (auto simp: linked_def payout_linked_def)
  moreover have "0 \<le> t_fee_amount t" if "row_by t_id i (transactions s) = Some t" for i t
    using linked_txn(5) [OF l] row_by_Some [OF that] by blast
  ultimately show ?thesis by (auto simp: payout_hold_def split: option.splits)
qed

lemma member_le_sum:
  fixes g :: "'r \<Rightarrow> int"
  shows "x \<in> set xs \<Longrightarrow> (\<And>y. y \<in> set xs \<Longrightarrow> 0 \<le> g y) \<Longrightarrow> g x \<le> sum_list (map g xs)"
proof (induction xs)
  case (Cons y ys)
  have "0 \<le> sum_list (map g ys)" by (rule sum_list_nonneg_int) (use Cons.prems(2) in auto)
  moreover have "0 \<le> g y" using Cons.prems(2) by simp
  ultimately show ?case using Cons by (cases "x = y") fastforce+
qed simp

lemma hold_covers:
  assumes "linked s"
  shows "r \<in> set (refunds s) \<Longrightarrow> refund_hold s i r \<le> hold_due s i"
    and "p \<in> set (payouts s) \<Longrightarrow> payout_hold s i p \<le> hold_due s i"
proof -
  have "0 \<le> sum_list (map (payout_hold s i) (payouts s))" "0 \<le> sum_list (map (refund_hold s i) (refunds s))"
    by (rule sum_list_nonneg_int, rule payout_hold_nonneg [OF assms], simp,
        rule sum_list_nonneg_int, rule refund_hold_nonneg [OF assms], simp)
  moreover have "r \<in> set (refunds s) \<Longrightarrow> refund_hold s i r \<le> sum_list (map (refund_hold s i) (refunds s))"
    by (rule member_le_sum) (auto intro: refund_hold_nonneg [OF assms])
  moreover have "p \<in> set (payouts s) \<Longrightarrow> payout_hold s i p \<le> sum_list (map (payout_hold s i) (payouts s))"
    by (rule member_le_sum) (auto intro: payout_hold_nonneg [OF assms])
  ultimately show "r \<in> set (refunds s) \<Longrightarrow> refund_hold s i r \<le> hold_due s i"
    and "p \<in> set (payouts s) \<Longrightarrow> payout_hold s i p \<le> hold_due s i" by (auto simp: hold_due_def)
qed

end
