(* ===== verification/Books_Steps.thy ===== *)
theory Books_Steps
  imports Books
begin

text \<open>
  The rules by which a database transaction is shown to keep the books: one for each kind of
  change to a table, and \<open>books_step\<close>, which puts them together.
\<close>

section \<open>Linked rows stay linked\<close>

text \<open>The ids of wallets are all the other tables refer to.\<close>

lemma linked_cong:
  assumes "linked s" and "transactions s' = transactions s" and "payments s' = payments s" and "refunds s' = refunds s"
    and "payouts s' = payouts s" and "w_id ` set (wallets s) \<subseteq> w_id ` set (wallets s')" and "next_id s \<le> next_id s'"
  shows "linked s'"
proof -
  have "txns_ok s'" using assms txns_ok_same by (auto simp: linked_def)
  moreover have "payment_linked s' p" if "p \<in> set (payments s)" for p
    using assms that unfolding linked_def payment_linked_def by fastforce
  moreover have "refund_linked s' r" if "r \<in> set (refunds s)" for r
    using assms that unfolding linked_def refund_linked_def by fastforce
  moreover have "payout_linked s' p" if "p \<in> set (payouts s)" for p
    using assms that unfolding linked_def payout_linked_def by fastforce
  ultimately show ?thesis using assms unfolding linked_def by simp
qed

lemma linked_move: "linked s \<Longrightarrow> only_ledger s s' \<Longrightarrow> linked s'"
  using only_ledger_tables [of s s'] linked_cong [of s s'] by simp

lemma reference_kind: "CHR '':'' \<notin> set hex \<Longrightarrow> kind_of_ref ''trx_'' (generate_reference hex)"
  by (auto simp: kind_of_ref_def generate_reference_def token_def)

lemma linked_create:
  assumes "linked s" and "create_transaction hex now inp s = Inr (t, s')" and "CHR '':'' \<notin> set hex"
  shows "linked s'"
proof -
  note c = create_transaction_Inr(1,2) [OF assms(2)]
  have t: "kind_of_ref ''trx_'' (t_reference t)" by (simp add: c(1) txn_of_def reference_kind [OF assms(3)])
  have e: "txn_row_error t = None" using assms(2) by (auto simp: create_transaction_def Let_def split: option.splits list.splits)
  have ok: "txns_ok s'" using assms(1,2) create_transaction_ok by (auto simp: linked_def)
  have tabs: "transactions s' = transactions s @ [t]" "payments s' = payments s" "refunds s' = refunds s" "payouts s' = payouts s"
    "wallets s' = wallets s" "next_id s' = Suc (next_id s)" by (simp_all add: c(2))
  have "payment_linked s' p" if "p \<in> set (payments s)" for p
    using assms(1) that unfolding linked_def payment_linked_def tabs by (auto simp: less_SucI)
  moreover have "refund_linked s' r" if "r \<in> set (refunds s)" for r
    using assms(1) that unfolding linked_def refund_linked_def tabs by (auto simp: less_SucI)
  moreover have "payout_linked s' p" if "p \<in> set (payouts s)" for p
    using assms(1) that unfolding linked_def payout_linked_def tabs by (auto simp: less_SucI)
  ultimately show ?thesis using assms(1) t e ok unfolding linked_def tabs by auto
qed

lemma linked_set_row:
  assumes "linked s" and "s' = s\<lparr>transactions := set_row t_id i f (transactions s)\<rparr>" and "txns_ok s'"
    and "\<And>t. t \<in> set (transactions s) \<Longrightarrow> t_id t = i \<Longrightarrow> t_id (f t) = i \<and> t_reference (f t) = t_reference t \<and>
      t_type (f t) = t_type t \<and> t_amount (f t) = t_amount t \<and> txn_row_error (f t) = None \<and>
      (t_status (f t) \<in> set OPEN_STATUSES \<longrightarrow> t_status t \<in> set OPEN_STATUSES)"
  shows "linked s'"
proof -
  define g where "g t = (if t_id t = i then f t else t)" for t
  have tabs: "transactions s' = map g (transactions s)" "payments s' = payments s" "refunds s' = refunds s"
    "payouts s' = payouts s" "wallets s' = wallets s" "next_id s' = next_id s"
    by (simp_all add: assms(2) set_row_def g_def)
  have g: "t_id (g t) = t_id t \<and> t_reference (g t) = t_reference t \<and> t_type (g t) = t_type t \<and> t_amount (g t) = t_amount t \<and>
      txn_row_error (g t) = None \<and> (t_status (g t) \<in> set OPEN_STATUSES \<longrightarrow> t_status t \<in> set OPEN_STATUSES)"
    if "t \<in> set (transactions s)" for t
    using assms(4) [OF that] linked_txn(3) [OF assms(1) that] by (auto simp: g_def)
  have "payment_linked s' p" if p: "p \<in> set (payments s)" for p
  proof -
    from linked_payment [OF assms(1) p] obtain t where t: "t \<in> set (transactions s)" "t_id t = p_transaction p" "t_type t = Ty_Payment"
      "t_amount t = p_amount p" "t_status t \<in> set OPEN_STATUSES \<Longrightarrow> p_pending_amount p = 0 \<and> p_funds_available_at p = None" by blast
    have "g t \<in> set (transactions s')" using t(1) by (simp add: tabs)
    moreover have "p_id p < next_id s'" "0 \<le> p_pending_amount p" "p_wallet p \<in> w_id ` set (wallets s')"
      using assms(1) p by (auto simp: linked_def payment_linked_def tabs)
    ultimately show ?thesis using g [OF t(1)] t unfolding payment_linked_def by metis
  qed
  moreover have "refund_linked s' r" if r: "r \<in> set (refunds s)" for r
  proof -
    from linked_refund [OF assms(1) r] obtain t where t: "t \<in> set (transactions s)" "t_id t = r_transaction r" "t_type t = Ty_Refund" by blast
    have "g t \<in> set (transactions s')" using t(1) by (simp add: tabs)
    then show ?thesis using g [OF t(1)] t assms(1) r unfolding linked_def refund_linked_def tabs by metis
  qed
  moreover have "payout_linked s' p" if p: "p \<in> set (payouts s)" for p
  proof -
    from linked_payout [OF assms(1) p] obtain t where t: "t \<in> set (transactions s)" "t_id t = po_transaction p" "t_type t = Ty_Withdrawal" by blast
    have "g t \<in> set (transactions s')" using t(1) by (simp add: tabs)
    then show ?thesis using g [OF t(1)] t assms(1) p unfolding linked_def payout_linked_def tabs by metis
  qed
  ultimately show ?thesis
    using assms(1,3) g unfolding linked_def tabs by auto
qed

lemma linked_transition:
  assumes "linked s" and "transition i st p s = Inr (t', s')" and "st \<notin> set OPEN_STATUSES"
  shows "linked s'"
  using assms(2)
proof (cases rule: transition_Inr)
  case (1 t)
  have "txns_ok s'" using assms(1,2) transition_ok by (auto simp: linked_def)
  then show ?thesis
  proof (rule linked_set_row [OF assms(1) 1(4)])
    fix u assume "u \<in> set (transactions s)" "t_id u = i"
    then have "u = t" using 1(1) linked_row [OF assms(1)] linked_unique(1) [OF assms(1)] by metis
    then show "t_id (apply_patch p st u) = i \<and> t_reference (apply_patch p st u) = t_reference u \<and>
      t_type (apply_patch p st u) = t_type u \<and> t_amount (apply_patch p st u) = t_amount u \<and>
      txn_row_error (apply_patch p st u) = None \<and>
      (t_status (apply_patch p st u) \<in> set OPEN_STATUSES \<longrightarrow> t_status u \<in> set OPEN_STATUSES)"
      using 1(1,5) assms(3) row_by_Some [OF 1(1)] by (simp add: apply_patch_def)
  qed
qed

lemma linked_merge:
  assumes "linked s"
  shows "linked (merge_metadata i patch s)"
proof (rule linked_set_row [OF assms])
  show "merge_metadata i patch s = s\<lparr>transactions := set_row t_id i (\<lambda>t. t\<lparr>t_metadata := merge_json (t_metadata t) patch\<rparr>) (transactions s)\<rparr>"
    by (simp add: merge_metadata_def)
  show "txns_ok (merge_metadata i patch s)" using assms merge_metadata_ok by (auto simp: linked_def)
next
  fix t assume t: "t \<in> set (transactions s)" "t_id t = i"
  have "txn_row_error (t\<lparr>t_metadata := m\<rparr>) = txn_row_error t" for m by (simp add: txn_row_error_def)
  then show "t_id (t\<lparr>t_metadata := merge_json (t_metadata t) patch\<rparr>) = i \<and>
      t_reference (t\<lparr>t_metadata := merge_json (t_metadata t) patch\<rparr>) = t_reference t \<and>
      t_type (t\<lparr>t_metadata := merge_json (t_metadata t) patch\<rparr>) = t_type t \<and>
      t_amount (t\<lparr>t_metadata := merge_json (t_metadata t) patch\<rparr>) = t_amount t \<and>
      txn_row_error (t\<lparr>t_metadata := merge_json (t_metadata t) patch\<rparr>) = None \<and>
      (t_status (t\<lparr>t_metadata := merge_json (t_metadata t) patch\<rparr>) \<in> set OPEN_STATUSES \<longrightarrow> t_status t \<in> set OPEN_STATUSES)"
    using linked_txn(3) [OF assms t(1)] t(2) by simp
qed

lemma linked_payments:
  assumes "linked s" and "s' = s\<lparr>payments := set_row p_id i f (payments s)\<rparr>"
    and "\<And>p. p \<in> set (payments s) \<Longrightarrow> p_id p = i \<Longrightarrow> p_id (f p) = i \<and> p_transaction (f p) = p_transaction p \<and>
      p_wallet (f p) = p_wallet p \<and> p_amount (f p) = p_amount p \<and> 0 \<le> p_pending_amount (f p)"
    and "\<And>p t. p \<in> set (payments s) \<Longrightarrow> p_id p = i \<Longrightarrow> t \<in> set (transactions s) \<Longrightarrow> t_id t = p_transaction p \<Longrightarrow>
      t_status t \<in> set OPEN_STATUSES \<Longrightarrow> p_pending_amount (f p) = 0 \<and> p_funds_available_at (f p) = None"
  shows "linked s'"
proof -
  define g where "g p = (if p_id p = i then f p else p)" for p
  have tabs: "transactions s' = transactions s" "payments s' = map g (payments s)" "refunds s' = refunds s"
    "payouts s' = payouts s" "wallets s' = wallets s" "next_id s' = next_id s"
    by (simp_all add: assms(2) set_row_def g_def)
  have g: "p_id (g p) = p_id p \<and> p_transaction (g p) = p_transaction p \<and> p_wallet (g p) = p_wallet p \<and> payment_linked s' (g p)"
    if p: "p \<in> set (payments s)" for p
  proof -
    from linked_payment [OF assms(1) p] obtain t where t: "t \<in> set (transactions s)" "t_id t = p_transaction p" "t_type t = Ty_Payment"
      "t_amount t = p_amount p" "t_status t \<in> set OPEN_STATUSES \<Longrightarrow> p_pending_amount p = 0 \<and> p_funds_available_at p = None" by blast
    have l: "p_id p < next_id s'" "0 \<le> p_pending_amount p" "p_wallet p \<in> w_id ` set (wallets s')"
      using assms(1) p by (auto simp: linked_def payment_linked_def tabs)
    show ?thesis
    proof (cases "p_id p = i")
      case True
      then show ?thesis using assms(3) [OF p True] assms(4) [OF p True t(1,2)] t l
        by (auto simp: g_def payment_linked_def tabs intro!: bexI [of _ t])
    next
      case False
      then show ?thesis using t l by (auto simp: g_def payment_linked_def tabs intro!: bexI [of _ t])
    qed
  qed
  have maps: "map p_id (payments s') = map p_id (payments s)" "map p_transaction (payments s') = map p_transaction (payments s)"
    using g by (simp_all add: tabs)
  have "refund_linked s' r" if r: "r \<in> set (refunds s)" for r
  proof -
    from linked_refund [OF assms(1) r] obtain p where "p \<in> set (payments s)" "p_id p = r_payment r" "p_wallet p = r_wallet r" by blast
    with g [of p] have "\<exists>q \<in> set (payments s'). p_id q = r_payment r \<and> p_wallet q = r_wallet r" by (auto simp: tabs)
    then show ?thesis using assms(1) r unfolding linked_def refund_linked_def tabs by blast
  qed
  moreover have "txns_ok s'" using assms(1) txns_ok_same [of s s'] by (simp add: linked_def tabs)
  moreover have "payout_linked s' p" if "p \<in> set (payouts s)" for p
    using assms(1) that unfolding linked_def payout_linked_def tabs by blast
  moreover have "payment_linked s' p" if "p \<in> set (payments s')" for p
    using that g by (auto simp: tabs)
  ultimately show ?thesis using assms(1) unfolding linked_def maps tabs(1,3,4) by simp
qed

text \<open>New rows, and rows whose links do not change.\<close>

lemma linked_new_payment:
  assumes "linked s" and "s' = s\<lparr>payments := payments s @ [p], next_id := Suc (next_id s)\<rparr>" and "p_id p = next_id s"
    and "payment_linked s' p" and "p_transaction p \<notin> p_transaction ` set (payments s)"
  shows "linked s'"
proof -
  have tabs: "transactions s' = transactions s" "payments s' = payments s @ [p]" "refunds s' = refunds s"
    "payouts s' = payouts s" "wallets s' = wallets s" "next_id s' = Suc (next_id s)" by (simp_all add: assms(2))
  have "p_id q < next_id s" if "q \<in> set (payments s)" for q using assms(1) that by (auto simp: linked_def payment_linked_def)
  then have "distinct (map p_id (payments s'))" using assms(1,3) by (fastforce simp: tabs linked_def)
  moreover have "distinct (map p_transaction (payments s'))" using assms(1,5) by (auto simp: tabs linked_def)
  moreover have "payment_linked s' q" if "q \<in> set (payments s)" for q
    using assms(1) that unfolding linked_def payment_linked_def tabs by (auto simp: less_SucI)
  moreover have "refund_linked s' r" if "r \<in> set (refunds s)" for r
    using assms(1) that unfolding linked_def refund_linked_def tabs by (auto simp: less_SucI)
  moreover have "payout_linked s' q" if "q \<in> set (payouts s)" for q
    using assms(1) that unfolding linked_def payout_linked_def tabs by (auto simp: less_SucI)
  moreover have "txns_ok s'" using assms(1) txns_ok_same [of s s'] by (simp add: linked_def tabs)
  ultimately show ?thesis using assms(1,4) unfolding linked_def tabs by auto
qed

lemma linked_new_refund:
  assumes "linked s" and "s' = s\<lparr>refunds := refunds s @ [r], next_id := Suc (next_id s)\<rparr>" and "r_id r = next_id s"
    and "refund_linked s' r" and "r_transaction r \<notin> r_transaction ` set (refunds s)" and "r_reference r \<notin> r_reference ` set (refunds s)"
  shows "linked s'"
proof -
  have tabs: "transactions s' = transactions s" "payments s' = payments s" "refunds s' = refunds s @ [r]"
    "payouts s' = payouts s" "wallets s' = wallets s" "next_id s' = Suc (next_id s)" by (simp_all add: assms(2))
  have "r_id q < next_id s" if "q \<in> set (refunds s)" for q using assms(1) that by (auto simp: linked_def refund_linked_def)
  then have "distinct (map r_id (refunds s'))" using assms(1,3) by (fastforce simp: tabs linked_def)
  moreover have "distinct (map r_transaction (refunds s'))" "distinct (map r_reference (refunds s'))"
    using assms(1,5,6) by (auto simp: tabs linked_def)
  moreover have "payment_linked s' q" if "q \<in> set (payments s)" for q
    using assms(1) that unfolding linked_def payment_linked_def tabs by (auto simp: less_SucI)
  moreover have "refund_linked s' q" if "q \<in> set (refunds s)" for q
    using assms(1) that unfolding linked_def refund_linked_def tabs by (auto simp: less_SucI)
  moreover have "payout_linked s' q" if "q \<in> set (payouts s)" for q
    using assms(1) that unfolding linked_def payout_linked_def tabs by (auto simp: less_SucI)
  moreover have "txns_ok s'" using assms(1) txns_ok_same [of s s'] by (simp add: linked_def tabs)
  ultimately show ?thesis using assms(1,4) unfolding linked_def tabs by auto
qed

lemma linked_new_payout:
  assumes "linked s" and "s' = s\<lparr>payouts := payouts s @ [p], next_id := Suc (next_id s)\<rparr>" and "po_id p = next_id s"
    and "payout_linked s' p" and "po_transaction p \<notin> po_transaction ` set (payouts s)" and "po_reference p \<notin> po_reference ` set (payouts s)"
  shows "linked s'"
proof -
  have tabs: "transactions s' = transactions s" "payments s' = payments s" "refunds s' = refunds s"
    "payouts s' = payouts s @ [p]" "wallets s' = wallets s" "next_id s' = Suc (next_id s)" by (simp_all add: assms(2))
  have "po_id q < next_id s" if "q \<in> set (payouts s)" for q using assms(1) that by (auto simp: linked_def payout_linked_def)
  then have "distinct (map po_id (payouts s'))" using assms(1,3) by (fastforce simp: tabs linked_def)
  moreover have "distinct (map po_transaction (payouts s'))" "distinct (map po_reference (payouts s'))"
    using assms(1,5,6) by (auto simp: tabs linked_def)
  moreover have "payment_linked s' q" if "q \<in> set (payments s)" for q
    using assms(1) that unfolding linked_def payment_linked_def tabs by (auto simp: less_SucI)
  moreover have "refund_linked s' q" if "q \<in> set (refunds s)" for q
    using assms(1) that unfolding linked_def refund_linked_def tabs by (auto simp: less_SucI)
  moreover have "payout_linked s' q" if "q \<in> set (payouts s)" for q
    using assms(1) that unfolding linked_def payout_linked_def tabs by (auto simp: less_SucI)
  moreover have "txns_ok s'" using assms(1) txns_ok_same [of s s'] by (simp add: linked_def tabs)
  ultimately show ?thesis using assms(1,4) unfolding linked_def tabs by auto
qed

text \<open>The sending marks of refunds and payouts are not part of the links.\<close>

definition same_refund :: "refund \<Rightarrow> refund \<Rightarrow> bool" where
  "same_refund r r' \<longleftrightarrow> (\<exists>a b. r' = r\<lparr>r_provider_reference := a, r_submitted_at := b\<rparr>)"

definition same_payout :: "payout \<Rightarrow> payout \<Rightarrow> bool" where
  "same_payout p p' \<longleftrightarrow> (\<exists>a b. p' = p\<lparr>po_provider_reference := a, po_submitted_at := b\<rparr>)"

lemma same_refund_fields:
  assumes "same_refund r r'"
  shows "r_id r' = r_id r" "r_reference r' = r_reference r" "r_payment r' = r_payment r" "r_transaction r' = r_transaction r"
    "r_amount r' = r_amount r" "r_currency r' = r_currency r" "r_wallet r' = r_wallet r" "r_wallet_debit r' = r_wallet_debit r"
    "r_wallet_currency r' = r_wallet_currency r" "r_pending_hold r' = r_pending_hold r" "r_revenue_reversal r' = r_revenue_reversal r"
    "r_gross_reversal r' = r_gross_reversal r" "r_provider r' = r_provider r" "r_created_at r' = r_created_at r"
    "r_requested_by r' = r_requested_by r" "r_idempotency_key r' = r_idempotency_key r"
  using assms by (auto simp: same_refund_def)

lemma same_payout_fields:
  assumes "same_payout p p'"
  shows "po_id p' = po_id p" "po_reference p' = po_reference p" "po_transaction p' = po_transaction p"
    "po_user_id p' = po_user_id p" "po_organization_id p' = po_organization_id p" "po_wallet p' = po_wallet p"
    "po_destination p' = po_destination p" "po_provider p' = po_provider p" "po_amount p' = po_amount p"
    "po_currency p' = po_currency p" "po_created_at p' = po_created_at p" "po_narration p' = po_narration p"
  using assms by (auto simp: same_payout_def)

lemma linked_refund_marks:
  assumes "linked s" and "s' = s\<lparr>refunds := map g (refunds s)\<rparr>" and "\<And>r. same_refund r (g r)"
  shows "linked s'"
proof -
  note g = same_refund_fields [OF assms(3)]
  have tabs: "transactions s' = transactions s" "payments s' = payments s" "refunds s' = map g (refunds s)"
    "payouts s' = payouts s" "wallets s' = wallets s" "next_id s' = next_id s" by (simp_all add: assms(2))
  have maps: "map r_id (refunds s') = map r_id (refunds s)" "map r_transaction (refunds s') = map r_transaction (refunds s)"
    "map r_reference (refunds s') = map r_reference (refunds s)" by (simp_all add: tabs g)
  have ok: "txns_ok s'" using assms(1) txns_ok_same [of s s'] by (simp add: linked_def tabs)
  have "refund_linked s' (g r)" if "r \<in> set (refunds s)" for r
    using assms(1) that unfolding linked_def refund_linked_def tabs g by blast
  moreover have "payment_linked s' p" if "p \<in> set (payments s)" for p
    using assms(1) that unfolding linked_def payment_linked_def tabs by blast
  moreover have "payout_linked s' p" if "p \<in> set (payouts s)" for p
    using assms(1) that unfolding linked_def payout_linked_def tabs by blast
  moreover have "set (refunds s') = g ` set (refunds s)" by (simp add: tabs)
  ultimately show ?thesis using assms(1) ok unfolding linked_def maps tabs(1,2,4) by auto
qed

lemma linked_payout_marks:
  assumes "linked s" and "s' = s\<lparr>payouts := map g (payouts s)\<rparr>" and "\<And>p. same_payout p (g p)"
  shows "linked s'"
proof -
  note g = same_payout_fields [OF assms(3)]
  have tabs: "transactions s' = transactions s" "payments s' = payments s" "refunds s' = refunds s"
    "payouts s' = map g (payouts s)" "wallets s' = wallets s" "next_id s' = next_id s" by (simp_all add: assms(2))
  have maps: "map po_id (payouts s') = map po_id (payouts s)" "map po_transaction (payouts s') = map po_transaction (payouts s)"
    "map po_reference (payouts s') = map po_reference (payouts s)" by (simp_all add: tabs g)
  have ok: "txns_ok s'" using assms(1) txns_ok_same [of s s'] by (simp add: linked_def tabs)
  have "payout_linked s' (g p)" if "p \<in> set (payouts s)" for p
    using assms(1) that unfolding linked_def payout_linked_def tabs g by blast
  moreover have "payment_linked s' p" if "p \<in> set (payments s)" for p
    using assms(1) that unfolding linked_def payment_linked_def tabs by blast
  moreover have "refund_linked s' r" if "r \<in> set (refunds s)" for r
    using assms(1) that unfolding linked_def refund_linked_def tabs by blast
  moreover have "set (payouts s') = g ` set (payouts s)" by (simp add: tabs)
  ultimately show ?thesis using assms(1) ok unfolding linked_def maps tabs(1-3) by auto
qed

section \<open>What stays due\<close>

lemma pending_due_same: "payments s' = payments s \<Longrightarrow> pending_due s' i = pending_due s i"
  by (simp add: pending_due_def)

lemma status_in_iff: "linked s \<Longrightarrow> status_in i sts s \<longleftrightarrow> (\<exists>st \<in> set sts. status_of s i = Some st)"
  using linked_row by (auto simp: status_in_def status_of_def)

text \<open>Transactions of refunds and payouts that are not touched.\<close>

definition holds_kept :: "db \<Rightarrow> db \<Rightarrow> bool" where
  "holds_kept s s' \<longleftrightarrow> refunds s' = refunds s \<and> payouts s' = payouts s \<and>
     (\<forall>t \<in> set (transactions s). t_type t \<in> {Ty_Refund, Ty_Withdrawal} \<longrightarrow> row_by t_id (t_id t) (transactions s') = Some t)"

lemma holds_kept_refl: "linked s \<Longrightarrow> transactions s' = transactions s \<Longrightarrow> refunds s' = refunds s \<Longrightarrow> payouts s' = payouts s \<Longrightarrow> holds_kept s s'"
  using linked_txn(1) by (auto simp: holds_kept_def)

lemma holds_kept_trans: "linked s1 \<Longrightarrow> holds_kept s s1 \<Longrightarrow> holds_kept s1 s2 \<Longrightarrow> holds_kept s s2"
  unfolding holds_kept_def using linked_row by (metis (no_types, lifting))

lemma holds_kept_rows:
  assumes "linked s" and "holds_kept s s'"
  shows "r \<in> set (refunds s) \<Longrightarrow> row_by t_id (r_transaction r) (transactions s') = row_by t_id (r_transaction r) (transactions s)"
    and "p \<in> set (payouts s) \<Longrightarrow> row_by t_id (po_transaction p) (transactions s') = row_by t_id (po_transaction p) (transactions s)"
proof -
  have row: "row_by t_id i (transactions s') = row_by t_id i (transactions s)"
    if "t \<in> set (transactions s)" "t_id t = i" "t_type t \<in> {Ty_Refund, Ty_Withdrawal}" for t i
    using assms(2) that linked_txn(1) [OF assms(1) that(1)] unfolding holds_kept_def by fastforce
  show "r \<in> set (refunds s) \<Longrightarrow> row_by t_id (r_transaction r) (transactions s') = row_by t_id (r_transaction r) (transactions s)"
    by (rule linked_refund [OF assms(1)], assumption) (rule row, auto)
  show "p \<in> set (payouts s) \<Longrightarrow> row_by t_id (po_transaction p) (transactions s') = row_by t_id (po_transaction p) (transactions s)"
    by (rule linked_payout [OF assms(1)], assumption) (rule row, auto)
qed

lemma holds_kept_due:
  assumes "linked s" and "holds_kept s s'"
  shows "hold_due s' i = hold_due s i"
proof -
  have tabs: "refunds s' = refunds s" "payouts s' = payouts s" using assms(2) by (simp_all add: holds_kept_def)
  have "sum_list (map (refund_hold s' i) (refunds s)) = sum_list (map (refund_hold s i) (refunds s))"
    by (rule sum_list_same) (simp add: refund_hold_def status_of_def holds_kept_rows [OF assms])
  moreover have "sum_list (map (payout_hold s' i) (payouts s)) = sum_list (map (payout_hold s i) (payouts s))"
    by (rule sum_list_same) (simp add: payout_hold_def holds_kept_rows [OF assms])
  ultimately show ?thesis by (simp add: hold_due_def tabs)
qed

lemma holds_kept_claims:
  assumes "linked s" and "holds_kept s s'"
  shows "refund_claims s' = refund_claims s" and "payout_claims s' = payout_claims s"
  using holds_kept_rows [OF assms] assms(2)
  by (auto simp: refund_claims_def payout_claims_def status_of_def holds_kept_def)

lemma holds_kept_committed:
  assumes "linked s" and "linked s'" and "holds_kept s s'"
  shows "committed_amount i s' = committed_amount i s" and "successful_amount i s' = successful_amount i s"
proof -
  have "status_in (r_transaction r) sts s' = status_in (r_transaction r) sts s" if "r \<in> set (refunds s)" for r sts
    using holds_kept_rows(1) [OF assms(1,3) that] by (simp add: status_in_iff assms(1,2) status_of_def)
  then have "refunds_in sts s' = refunds_in sts s" for sts
    using assms(3) unfolding refunds_in_def holds_kept_def by (metis (no_types, lifting) filter_cong)
  then show "committed_amount i s' = committed_amount i s" "successful_amount i s' = successful_amount i s"
    by (simp_all add: committed_amount_def successful_amount_def)
qed

lemma holds_kept_create:
  assumes "create_transaction hex now inp s = Inr (t, s')" and "linked s"
  shows "holds_kept s s'"
  using create_transaction_Inr(2) [OF assms(1)] linked_txn(1) [OF assms(2)] by (simp add: holds_kept_def row_by_append)

lemma holds_kept_transition:
  assumes "linked s" and "t \<in> set (transactions s)" and "t_type t \<notin> {Ty_Refund, Ty_Withdrawal}"
    and "transition (t_id t) st p s = Inr (t', s')"
  shows "holds_kept s s'"
  using assms(4)
proof (cases rule: transition_Inr)
  case (1 u)
  have "row_by t_id (t_id x) (transactions s') = Some x"
    if "x \<in> set (transactions s)" "t_type x \<in> {Ty_Refund, Ty_Withdrawal}" for x
  proof -
    have "t_id x \<noteq> t_id t" using that assms(2,3) linked_unique(1) [OF assms(1) that(1) assms(2)] by auto
    then show ?thesis using linked_txn(1) [OF assms(1) that(1)] by (simp add: 1(4) row_by_set_row)
  qed
  then show ?thesis by (simp add: holds_kept_def 1(4))
qed

lemma holds_kept_merge: "linked s \<Longrightarrow> t \<in> set (transactions s) \<Longrightarrow> t_type t \<notin> {Ty_Refund, Ty_Withdrawal} \<Longrightarrow>
    holds_kept s (merge_metadata (t_id t) patch s)"
  using linked_txn(1) linked_unique(1)
  by (auto simp: holds_kept_def merge_metadata_def row_by_set_row)

text \<open>Transactions of payments that are not touched.\<close>

lemma payment_claims_cong:
  assumes "\<And>t. t \<in> set (transactions s') \<Longrightarrow> t_type t = Ty_Payment \<Longrightarrow> t_status t \<in> set OPEN_STATUSES \<Longrightarrow>
    \<exists>u \<in> set (transactions s). t_reference u = t_reference t \<and> t_type u = Ty_Payment \<and> t_status u \<in> set OPEN_STATUSES"
  shows "payment_claims s' \<subseteq> payment_claims s"
proof
  fix c assume "c \<in> payment_claims s'"
  then obtain t where c: "c = (t_reference t, [])" and t: "t \<in> set (transactions s')" "t_type t = Ty_Payment" "t_status t \<in> set OPEN_STATUSES"
    unfolding payment_claims_def by blast
  from assms [OF t] obtain u where "u \<in> set (transactions s)" "t_reference u = t_reference t" "t_type u = Ty_Payment"
    "t_status u \<in> set OPEN_STATUSES" by blast
  then show "c \<in> payment_claims s" unfolding payment_claims_def c by (intro CollectI exI [of _ u]) simp
qed

section \<open>The rule\<close>

definition unmentioned :: "string list \<Rightarrow> string \<Rightarrow> bool" where
  "unmentioned refs x \<longleftrightarrow> (\<forall>r \<in> set refs. \<not> mentions r x)"

lemma only_used_moved:
  assumes "moved refs f s s'" and "only_used s x rs"
  shows "unmentioned refs x \<Longrightarrow> only_used s' x rs" and "set refs \<subseteq> set rs' \<Longrightarrow> set rs \<subseteq> set rs' \<Longrightarrow> only_used s' x rs'"
  using assms by (auto simp: only_used_def moved_def unmentioned_def)

lemma only_used_same: "ledger s' = ledger s \<Longrightarrow> only_used s' x rs = only_used s x rs"
  by (simp add: only_used_def fresh_def)

lemma settled_once_keep:
  assumes "settled_once c s" and "c \<le> c'" and "next_id s \<le> next_id s'"
    and "\<And>i. fresh s (settlement_ref i) \<Longrightarrow> fresh s' (settlement_ref i)"
    and "\<And>p'. p' \<in> set (payments s') \<Longrightarrow> next_id s \<le> p_id p' \<or> fresh s' (settlement_ref (p_id p')) \<or>
      (\<exists>p \<in> set (payments s). p_id p = p_id p' \<and> p_pending_amount p = p_pending_amount p' \<and> p_funds_available_at p = p_funds_available_at p')"
  shows "settled_once c' s'"
proof -
  have "p_pending_amount p' = 0 \<and> (\<exists>a. p_funds_available_at p' = Some a \<and> a \<le> c')"
    if p': "p' \<in> set (payments s')" "\<not> fresh s' (settlement_ref (p_id p'))" for p'
  proof -
    have used: "\<not> fresh s (settlement_ref (p_id p'))" using assms(4) p'(2) by blast
    then have "\<not> next_id s \<le> p_id p'" using assms(1) by (auto simp: settled_once_def)
    then obtain p where "p \<in> set (payments s)" "p_id p = p_id p'" "p_pending_amount p = p_pending_amount p'"
      "p_funds_available_at p = p_funds_available_at p'" using assms(5) [OF p'(1)] p'(2) by blast
    then have "p_pending_amount p' = 0" "\<exists>a. p_funds_available_at p' = Some a \<and> a \<le> c"
      using assms(1) used unfolding settled_once_def by metis+
    then show ?thesis using assms(2) by fastforce
  qed
  moreover have "fresh s' (settlement_ref i)" if "next_id s' \<le> i" for i
    using assms(1,3,4) that by (auto simp: settled_once_def)
  ultimately show ?thesis by (simp add: settled_once_def)
qed

lemma quotes_consumed_keep:
  assumes "quotes_consumed s" and "\<And>r. fresh s' r \<Longrightarrow> fresh s r"
    and "\<And>q. q \<in> set (fx_quotes s') \<Longrightarrow> q_conversion_reference q = None \<or> q \<in> set (fx_quotes s)"
  shows "quotes_consumed s'"
  using assms unfolding quotes_consumed_def by fastforce

text \<open>The money moves as the dues do, and every claim that is left is untouched or argued.\<close>

lemma books_step:
  assumes "books c s" and "wallets_inv s'" and "linked s'" and "refunds_within s'" and "wallets s' = wallets s"
    and "\<And>w k. w \<in> set (wallets s) \<Longrightarrow> credit s' (balance_account w k) = credit s (balance_account w k) + f (w_id w) k"
    and "\<And>w. w \<in> set (wallets s) \<Longrightarrow> pending_due s' (w_id w) = pending_due s (w_id w) + f (w_id w) Pending_Balance"
    and "\<And>w. w \<in> set (wallets s) \<Longrightarrow> hold_due s' (w_id w) = hold_due s (w_id w) + f (w_id w) Reserved_Balance"
    and "\<And>x rs. (x, rs) \<in> claims s' \<Longrightarrow> only_used s' x rs"
    and "settled_once c' s'" and "quotes_consumed s'" and "known_refs s'"
  shows "books c' s'"
proof -
  have "credit s' (w_pending w) = pending_due s' (w_id w) \<and> credit s' (w_reserved w) = hold_due s' (w_id w)"
    if w: "w \<in> set (wallets s)" for w
  proof -
    have "credit s (w_pending w) = pending_due s (w_id w)" "credit s (w_reserved w) = hold_due s (w_id w)"
      using books_parts(4) [OF assms(1)] w by (simp_all add: dues_match_def)
    then show ?thesis
      using assms(6) [OF w, of Pending_Balance] assms(6) [OF w, of Reserved_Balance] assms(7,8) [OF w] by simp
  qed
  then have "dues_match s'" by (simp add: dues_match_def assms(5))
  then show ?thesis using assms(2-4,9-12) by (auto simp: books_def)
qed

end
