(* ===== verification/Books_Rules.thy ===== *)
theory Books_Rules
  imports Books_Steps
begin

text \<open>
  Books under whole database transactions: \<open>shifted\<close> follows the money through a transaction
  that also writes rows, and \<open>books_shift\<close> concludes that the books are kept when the rows
  written account for the money that moved and the references posted belong to one row.
\<close>

section \<open>Money through several steps\<close>

definition shifted :: "string list \<Rightarrow> (uuid \<Rightarrow> balance_kind \<Rightarrow> int) \<Rightarrow> db \<Rightarrow> db \<Rightarrow> bool" where
  "shifted refs f s s' \<longleftrightarrow> ledger_ok s' \<and> db_le s s' \<and> wallets s' = wallets s \<and>
     (\<forall>w \<in> set (wallets s). \<forall>k. credit s' (balance_account w k) = credit s (balance_account w k) + f (w_id w) k) \<and>
     (\<forall>r. fresh s' r \<longleftrightarrow> r \<notin> set refs \<and> fresh s r)"

lemma moved_shifted: "moved refs f s s' \<Longrightarrow> shifted refs f s s'"
  using only_ledger_tables(2) [of s s'] by (auto simp: moved_def shifted_def)

lemma quiet_shifted:
  assumes "ledger_ok s" and "ledger s' = ledger s" and "wallets s' = wallets s" and "db_le s s'"
  shows "shifted [] (\<lambda>i k. 0) s s'"
  using assms db_le_ok [OF assms(4,1)]
  by (simp add: shifted_def credit_def position_def position_in_def fresh_def)

lemma shifted_trans:
  assumes "shifted r1 f s s1" and "shifted r2 g s1 s2"
  shows "shifted (r1 @ r2) (\<lambda>i k. f i k + g i k) s s2"
proof -
  have "db_le s s2" using assms db_le_trans by (auto simp: shifted_def)
  then show ?thesis using assms by (auto simp: shifted_def)
qed

lemma shifted_cong: "shifted refs f s s' \<Longrightarrow> (\<And>i k. f i k = g i k) \<Longrightarrow> shifted refs g s s'"
  by (simp add: shifted_def)

lemma shifted_quiet:
  assumes "shifted refs f s s1" and "ledger s2 = ledger s1" and "wallets s2 = wallets s1" and "db_le s1 s2"
  shows "shifted refs f s s2"
proof -
  have "ledger_ok s1" using assms(1) by (simp add: shifted_def)
  from shifted_trans [OF assms(1) quiet_shifted [OF this assms(2-4)]] show ?thesis by simp
qed

lemma quiet_then_shifted:
  assumes "ledger_ok s" and "ledger s1 = ledger s" and "wallets s1 = wallets s" and "db_le s s1" and "shifted refs f s1 s2"
  shows "shifted refs f s s2"
  using shifted_trans [OF quiet_shifted [OF assms(1-4)] assms(5)] by simp

lemma shifted_wallets: "shifted refs f s s' \<Longrightarrow> wallets_inv s \<Longrightarrow> wallets_inv s'"
  by (rule wallets_inv_le [of s s']) (simp_all add: shifted_def)

lemma shifted_rows: "shifted refs f s s' \<Longrightarrow> wallets s' = wallets s \<and> next_id s \<le> next_id s' \<and> db_le s s' \<and> ledger_ok s'"
  by (simp add: shifted_def db_le_def)

lemma shifted_fresh: "shifted refs f s s' \<Longrightarrow> fresh s' r \<longleftrightarrow> r \<notin> set refs \<and> fresh s r"
  by (simp add: shifted_def)

section \<open>References of one row\<close>

definition refs_of :: "string \<Rightarrow> string list \<Rightarrow> bool" where
  "refs_of x refs \<longleftrightarrow> (\<forall>r \<in> set refs. \<forall>y. token y \<longrightarrow> mentions r y \<longrightarrow> y = x)"

lemma refs_of_Nil [simp]: "refs_of x []"
  by (simp add: refs_of_def)

lemma refs_of_append [simp]: "refs_of x (a @ b) \<longleftrightarrow> refs_of x a \<and> refs_of x b"
  by (auto simp: refs_of_def)

lemma refs_of_Cons [simp]: "refs_of x (r # rs) \<longleftrightarrow> (\<forall>y. token y \<longrightarrow> mentions r y \<longrightarrow> y = x) \<and> refs_of x rs"
  by (auto simp: refs_of_def)

lemma only_used_other:
  assumes "shifted refs f s s'" and "refs_of x refs" and "token y" and "y \<noteq> x" and "only_used s y rs"
  shows "only_used s' y rs"
  using assms by (fastforce simp: only_used_def shifted_def refs_of_def)

lemma only_used_own:
  assumes "shifted refs f s s'" and "only_used s x rs" and "set refs \<union> set rs \<subseteq> set rs'"
  shows "only_used s' x rs'"
  using assms by (auto simp: only_used_def shifted_def)

lemma only_used_fresh: "only_used s x rs \<Longrightarrow> mentions r x \<Longrightarrow> r \<notin> set rs \<Longrightarrow> fresh s r"
  by (auto simp: only_used_def)

lemma known_refs_shifted:
  assumes "known_refs s" and "shifted refs f s s'" and "refs_of x refs" and "known s \<subseteq> known s'"
    and "refs = [] \<or> x \<in> known s' \<or> (\<forall>r \<in> set refs. \<forall>y. token y \<longrightarrow> \<not> mentions r y)"
  shows "known_refs s'"
proof -
  have "y \<in> known s'" if y: "token y" "mentions r y" "\<not> fresh s' r" for r y
  proof (cases "r \<in> set refs")
    case True
    then have "refs \<noteq> []" by (cases refs) simp_all
    moreover have "y = x" using assms(3) y(1,2) True unfolding refs_of_def by blast
    moreover have "\<not> (\<forall>r \<in> set refs. \<forall>y. token y \<longrightarrow> \<not> mentions r y)" using True y(1,2) by blast
    ultimately show ?thesis using assms(5) by blast
  next
    case False
    then have "\<not> fresh s r" using assms(2) y(3) by (simp add: shifted_def)
    then show ?thesis using assms(1,4) y(1,2) unfolding known_refs_def by blast
  qed
  then show ?thesis by (simp add: known_refs_def)
qed

section \<open>The rule\<close>

lemma books_shift:
  assumes "books c s" and "shifted refs f s s'" and "refs_of x refs" and "linked s'" and "refunds_within s'"
    and "\<And>i. pending_due s' i = pending_due s i + f i Pending_Balance"
    and "\<And>i. hold_due s' i = hold_due s i + f i Reserved_Balance"
    and "\<And>y rs. (y, rs) \<in> claims s' \<Longrightarrow> (y, rs) \<in> claims s \<and> (refs = [] \<or> y \<noteq> x) \<or> only_used s' y rs"
    and "settled_once c' s'"
    and "\<And>q. q \<in> set (fx_quotes s') \<Longrightarrow> q_conversion_reference q = None \<or> q \<in> set (fx_quotes s) \<or>
      (\<forall>r. q_conversion_reference q = Some r \<longrightarrow> \<not> fresh s' (r @ '':fx-source''))"
    and "known s \<subseteq> known s'" and "refs = [] \<or> x \<in> known s' \<or> (\<forall>r \<in> set refs. \<forall>y. token y \<longrightarrow> \<not> mentions r y)"
  shows "books c' s'"
proof (rule books_step [OF assms(1) shifted_wallets [OF assms(2)] assms(4,5)])
  show "wallets_inv s" by (rule books_parts(1) [OF assms(1)])
  show "wallets s' = wallets s" using shifted_rows [OF assms(2)] by blast
  show "known_refs s'" by (rule known_refs_shifted [OF books_parts(10) [OF assms(1)] assms(2,3,11,12)])
  show "quotes_consumed s'"
  proof -
    have "\<not> fresh s' (r @ '':fx-source'')" if q: "q \<in> set (fx_quotes s')" "q_conversion_reference q = Some r" for q r
      using assms(10) [OF q(1)] q(2) books_parts(6) [OF assms(1)] shifted_fresh [OF assms(2)]
      by (auto simp: quotes_consumed_def)
    then show ?thesis by (simp add: quotes_consumed_def)
  qed
  show "settled_once c' s'" by (rule assms(9))
next
  fix w k assume w: "w \<in> set (wallets s)"
  show "credit s' (balance_account w k) = credit s (balance_account w k) + f (w_id w) k"
    using assms(2) w by (simp add: shifted_def)
  show "pending_due s' (w_id w) = pending_due s (w_id w) + f (w_id w) Pending_Balance" by (rule assms(6))
  show "hold_due s' (w_id w) = hold_due s (w_id w) + f (w_id w) Reserved_Balance" by (rule assms(7))
next
  fix y rs assume c: "(y, rs) \<in> claims s'"
  show "only_used s' y rs"
  proof (cases "(y, rs) \<in> claims s \<and> (refs = [] \<or> y \<noteq> x)")
    case True
    have u: "only_used s y rs" and t: "token y"
      using books_parts(7) [OF assms(1)] claims_token [OF books_parts(2) [OF assms(1)]] True by blast+
    show ?thesis
    proof (cases "refs = []")
      case True
      then show ?thesis using u shifted_fresh [OF assms(2)] by (auto simp: only_used_def)
    next
      case False
      then show ?thesis using only_used_other [OF assms(2,3) t _ u] True by blast
    qed
  next
    case False
    then show ?thesis using assms(8) [OF c] by blast
  qed
qed

text \<open>A step that leaves payments and the clock's view of them as they are.\<close>

lemma settled_once_shift:
  assumes "books c s" and "c \<le> c'" and "shifted refs f s s'" and "\<And>i. settlement_ref i \<notin> set refs"
    and "\<And>p'. p' \<in> set (payments s') \<Longrightarrow> next_id s \<le> p_id p' \<or> fresh s (settlement_ref (p_id p')) \<or>
      (\<exists>p \<in> set (payments s). p_id p = p_id p' \<and> p_pending_amount p = p_pending_amount p' \<and> p_funds_available_at p = p_funds_available_at p')"
  shows "settled_once c' s'"
proof (rule settled_once_keep [OF books_parts(5) [OF assms(1)] assms(2)])
  show "next_id s \<le> next_id s'" using shifted_rows [OF assms(3)] by blast
  show "fresh s (settlement_ref i) \<Longrightarrow> fresh s' (settlement_ref i)" for i
    using assms(4) shifted_fresh [OF assms(3)] by blast
  show "p' \<in> set (payments s') \<Longrightarrow> next_id s \<le> p_id p' \<or> fresh s' (settlement_ref (p_id p')) \<or>
      (\<exists>p \<in> set (payments s). p_id p = p_id p' \<and> p_pending_amount p = p_pending_amount p' \<and> p_funds_available_at p = p_funds_available_at p')" for p'
    using assms(5) [of p'] assms(4) shifted_fresh [OF assms(3)] by blast
qed

text \<open>A step that touches neither the ledger nor any row the books are about.\<close>

definition quiet :: "db \<Rightarrow> db \<Rightarrow> bool" where
  "quiet s s' \<longleftrightarrow> ledger s' = ledger s \<and> wallets s' = wallets s \<and> transactions s' = transactions s \<and> payments s' = payments s \<and>
     refunds s' = refunds s \<and> payouts s' = payouts s \<and> next_id s \<le> next_id s' \<and>
     (\<forall>q \<in> set (fx_quotes s'). q_conversion_reference q = None \<or> q \<in> set (fx_quotes s))"

lemma same_rows:
  assumes "linked s" and "linked s'" and "transactions s' = transactions s" and "payments s' = payments s" and "refunds s' = refunds s"
    and "payouts s' = payouts s"
  shows "claims s' = claims s" and "known s' = known s" and "hold_due s' i = hold_due s i" and "pending_due s' i = pending_due s i"
    and "refunds_within s' = refunds_within s"
proof -
  note k = holds_kept_refl [OF assms(1,3,5,6)]
  show "claims s' = claims s"
    using holds_kept_claims [OF assms(1) k] by (simp add: claims_def payment_claims_def assms(3))
  show "known s' = known s" by (simp add: known_def assms)
  show "hold_due s' i = hold_due s i" by (rule holds_kept_due [OF assms(1) k])
  show "pending_due s' i = pending_due s i" by (rule pending_due_same [OF assms(4)])
  show "refunds_within s' = refunds_within s"
    using holds_kept_committed(1) [OF assms(1,2) k] by (simp add: refunds_within_def assms(4))
qed

lemma quiet_event: "quiet s (add_event n ty a i m s)"
  by (simp add: quiet_def)

lemma quiet_audit: "quiet s (record_audit ctx n a ty i g m s)"
  by (simp add: quiet_def)

lemma quiet_le: "quiet s s' \<Longrightarrow> db_le s s'"
  by (rule db_leI) (simp_all add: quiet_def)

lemma books_quiet:
  assumes "books c s" and "quiet s s'" and "c \<le> c'"
  shows "books c' s'"
proof -
  note q = assms(2) [unfolded quiet_def]
  have sh: "shifted [] (\<lambda>i k. 0) s s'"
    by (rule quiet_shifted [OF books_parts(8) [OF assms(1)]]) (use q quiet_le [OF assms(2)] in simp_all)
  have l: "linked s'" by (rule linked_cong [OF books_parts(2) [OF assms(1)]]) (use q in simp_all)
  note same = same_rows [OF books_parts(2) [OF assms(1)] l]
  show ?thesis
  proof (rule books_shift [OF assms(1) sh refs_of_Nil l])
    show "refunds_within s'" using same(5) books_parts(3) [OF assms(1)] q by simp
    show "settled_once c' s'" by (rule settled_once_shift [OF assms(1,3) sh]) (use q in auto)
  qed (use q same in auto)
qed

section \<open>Transitions\<close>

lemma linked_differ:
  assumes "linked s" and "t \<in> set (transactions s)" and "u \<in> set (transactions s)" and "t_type t \<noteq> t_type u"
  shows "t_id t \<noteq> t_id u"
  using assms linked_unique(1) [OF assms(1-3)] by auto

lemma row_after_transition:
  assumes "transition i st patch s = Inr (t', s')" and "j \<noteq> i"
  shows "row_by t_id j (transactions s') = row_by t_id j (transactions s)"
  using assms(1) by (cases rule: transition_Inr) (simp add: row_by_set_row assms(2) split: option.splits)

lemma transition_frame:
  assumes "transition i st patch s = Inr (t', s')"
  shows "ledger s' = ledger s" "wallets s' = wallets s" "payments s' = payments s" "refunds s' = refunds s" "payouts s' = payouts s"
    "fx_quotes s' = fx_quotes s" "next_id s' = next_id s" "db_le s s'" "known s' = known s"
proof -
  show "db_le s s'" by (rule transition_le [OF assms])
  from assms have s': "s' = s\<lparr>transactions := set_row t_id i (apply_patch patch st) (transactions s)\<rparr>" by (auto elim: transition_Inr)
  then show "ledger s' = ledger s" "wallets s' = wallets s" "payments s' = payments s" "refunds s' = refunds s"
    "payouts s' = payouts s" "fx_quotes s' = fx_quotes s" "next_id s' = next_id s" by simp_all
  have "map t_reference (transactions s') = map t_reference (transactions s)"
    unfolding s' by (simp add: map_set_row apply_patch_def)
  then have "t_reference ` set (transactions s') = t_reference ` set (transactions s)" by (metis set_map)
  then show "known s' = known s" by (simp add: known_def s')
qed

lemma status_after_transition:
  assumes "transition i st patch s = Inr (t', s')"
  shows "status_of s' i = Some st" and "j \<noteq> i \<Longrightarrow> status_of s' j = status_of s j"
    and "row_by t_id i (transactions s) = Some t \<Longrightarrow> row_by t_id i (transactions s') = Some (apply_patch patch st t)"
  using assms row_after_transition [OF assms]
  by (auto elim!: transition_Inr simp: status_of_def row_by_set_row)

lemma payment_claims_transition:
  assumes "linked s" and "transition i st patch s = Inr (t', s')" and "st \<notin> set OPEN_STATUSES"
  shows "payment_claims s' \<subseteq> payment_claims s"
  using assms(2)
proof (cases rule: transition_Inr)
  case (1 t)
  show ?thesis
  proof (rule payment_claims_cong)
    fix u assume u: "u \<in> set (transactions s')" "t_type u = Ty_Payment" "t_status u \<in> set OPEN_STATUSES"
    then obtain v where v: "v \<in> set (transactions s)" "u = (if t_id v = i then apply_patch patch st v else v)"
      by (auto simp: 1(4) set_row_def)
    with u(3) assms(3) have "u = v" by (auto split: if_splits)
    then show "\<exists>w \<in> set (transactions s). t_reference w = t_reference u \<and> t_type w = Ty_Payment \<and> t_status w \<in> set OPEN_STATUSES"
      using u v(1) by blast
  qed
qed

section \<open>New transactions\<close>

lemma created_transaction:
  assumes "books c s" and "create_transaction hex now inp s = Inr (t, s1)" and "CHR '':'' \<notin> set hex"
  shows "linked s1" and "shifted [] (\<lambda>i k. 0) s s1" and "hold_due s1 i = hold_due s i" and "pending_due s1 i = pending_due s i"
    and "refunds_within s1" and "known s1 = insert (t_reference t) (known s)" and "t_reference t \<notin> known s"
    and "claims s1 \<subseteq> claims s \<union> (if nt_type inp = Ty_Payment \<and> nt_status inp \<in> set OPEN_STATUSES then {(t_reference t, [])} else {})"
    and "holds_kept s s1" and "row_by t_id (t_id t) (transactions s1) = Some t" and "t_id t = next_id s"
    and "t_type t = nt_type inp" and "t_status t = nt_status inp" and "t_fee_amount t = nt_fee_amount inp" and "t_amount t = nt_amount inp"
    and "payments s1 = payments s" and "refunds s1 = refunds s" and "payouts s1 = payouts s" and "fx_quotes s1 = fx_quotes s"
    and "next_id s1 = Suc (next_id s)" and "kind_of_ref ''trx_'' (t_reference t)"
proof -
  note b = books_parts [OF assms(1)] and c = create_transaction_Inr(1,2) [OF assms(2)]
  show l: "linked s1" by (rule linked_create [OF b(2) assms(2,3)])
  have tabs: "transactions s1 = transactions s @ [t]" "payments s1 = payments s" "refunds s1 = refunds s" "payouts s1 = payouts s"
    "fx_quotes s1 = fx_quotes s" "next_id s1 = Suc (next_id s)" "ledger s1 = ledger s" "wallets s1 = wallets s"
    by (simp_all add: c(2))
  show "payments s1 = payments s" "refunds s1 = refunds s" "payouts s1 = payouts s" "fx_quotes s1 = fx_quotes s" "next_id s1 = Suc (next_id s)"
    by (rule tabs)+
  show "shifted [] (\<lambda>i k. 0) s s1" by (rule quiet_shifted [OF b(8) tabs(7,8) create_transaction_le [OF assms(2)]])
  show k: "holds_kept s s1" by (rule holds_kept_create [OF assms(2) b(2)])
  show "hold_due s1 i = hold_due s i" by (rule holds_kept_due [OF b(2) k])
  show "pending_due s1 i = pending_due s i" by (rule pending_due_same [OF tabs(2)])
  show "refunds_within s1" using b(3) holds_kept_committed(1) [OF b(2) l k] by (simp add: refunds_within_def tabs)
  show "known s1 = insert (t_reference t) (known s)" by (auto simp: known_def tabs)
  have t: "t \<in> set (transactions s1)" by (simp add: tabs)
  show kind: "kind_of_ref ''trx_'' (t_reference t)" by (rule linked_txn(2) [OF l t])
  have "t_reference t \<notin> t_reference ` set (transactions s)"
    using l by (auto simp: linked_def txns_ok_def tabs)
  then show "t_reference t \<notin> known s" by (rule unknown_reference(1) [OF b(2) kind])
  show "row_by t_id (t_id t) (transactions s1) = Some t" by (rule linked_txn(1) [OF l t])
  show f: "t_type t = nt_type inp" "t_status t = nt_status inp" "t_fee_amount t = nt_fee_amount inp" "t_amount t = nt_amount inp" "t_id t = next_id s"
    by (simp_all add: c(1) txn_of_def)
  show "claims s1 \<subseteq> claims s \<union> (if nt_type inp = Ty_Payment \<and> nt_status inp \<in> set OPEN_STATUSES then {(t_reference t, [])} else {})"
    using holds_kept_claims [OF b(2) k] f by (auto simp: claims_def payment_claims_def tabs)
qed

section \<open>The claims of payouts\<close>

definition payout_claims_of :: "payout \<Rightarrow> txn_status \<Rightarrow> (string \<times> string list) set" where
  "payout_claims_of p st =
     (if st = Processing then {(po_reference p, [''payout-hold:'' @ po_reference p])}
      else if st = Successful
      then {(po_reference p, [''payout-hold:'' @ po_reference p, ''payout:'' @ po_reference p, ''fee:payout:'' @ po_reference p])}
      else {})"

lemma payout_claims_alt: "payout_claims s = (\<Union>p \<in> set (payouts s). case status_of s (po_transaction p) of None \<Rightarrow> {} | Some st \<Rightarrow> payout_claims_of p st)"
  by (auto simp: payout_claims_def payout_claims_of_def split: option.splits if_splits)

lemma payout_claims_row: "(y, rs) \<in> payout_claims s \<Longrightarrow> \<exists>p \<in> set (payouts s). y = po_reference p"
  by (auto simp: payout_claims_def)

lemma claims_known: "(y, rs) \<in> claims s \<Longrightarrow> y \<in> known s"
  by (auto simp: claims_def payment_claims_def refund_claims_def payout_claims_def known_def)

end
