(* ===== verification/Payment_Rows.thy ===== *)
theory Payment_Rows
  imports Books_Rules
begin

text \<open>
  What payments and refunds share: the changes to the row of a payment and to the status of its
  transaction, and postings between one balance of a wallet and system accounts.
\<close>

section \<open>Postings with system accounts\<close>

text \<open>A posting between one balance of a wallet and system accounts.\<close>

lemma credit_net_legs:
  "credit_net [] j = 0" "credit_net (leg i Debit x # es) j = credit_net es j - only_at i x j"
  "credit_net (leg i Credit x # es) j = credit_net es j + only_at i x j" "credit_net (es @ es') j = credit_net es j + credit_net es' j"
  by (simp_all add: credit_net_def posting_value_def only_at_def)

lemma system_posting_moved:
  assumes "wallets_inv s" and "w \<in> set (wallets s)" and "fresh s (pi_reference inp)" and "post_in now inp s = Inr (q, s')"
    and "\<And>i. credit_net (pi_entries inp) i = only_at (balance_account w k) x i + g i"
    and "\<And>i. g i \<noteq> 0 \<Longrightarrow> \<exists>sa. is_system s sa i"
  shows "moved [pi_reference inp] (at_balance (w_id w) k x) s s'"
proof (rule effect_moved [OF post_in_effect(2) [OF wallets_inv_ok [OF assms(1)] assms(3,4)] post_in_frame [OF assms(4)]])
  fix v l assume v: "v \<in> set (wallets s)"
  have "g (balance_account v l) = 0" using assms(6) is_system_not_wallet [OF _ assms(1) v] by metis
  then show "credit_net (pi_entries inp) (balance_account v l) = at_balance (w_id w) k x (w_id v) l"
    by (simp add: assms(5) only_at_wallet [OF assms(1,2) v])
qed

section \<open>The end of a payment\<close>

text \<open>The transaction of a payment ends: no money moves.\<close>

lemma books_payment_transition:
  assumes "books c s" and "c \<le> c'" and "p \<in> set (payments s)" and "transition (p_transaction p) st patch s = Inr (t', s')"
    and "st \<notin> set OPEN_STATUSES"
  shows "books c' s'"
proof -
  note b = books_parts [OF assms(1)] and f = transition_frame [OF assms(4)]
  from linked_payment [OF b(2) assms(3)] obtain t where t: "t \<in> set (transactions s)" "t_id t = p_transaction p" "t_type t = Ty_Payment" by blast
  have k: "holds_kept s s'" using holds_kept_transition [OF b(2) t(1)] t(2,3) assms(4) by simp
  have l: "linked s'" by (rule linked_transition [OF b(2) assms(4,5)])
  have sh: "shifted [] (\<lambda>i k. 0) s s'" by (rule quiet_shifted [OF b(8)]) (simp_all add: f)
  show ?thesis
  proof (rule books_shift [OF assms(1) sh refs_of_Nil l])
    show "refunds_within s'" using b(3) holds_kept_committed(1) [OF b(2) l k] by (simp add: refunds_within_def f)
    show "pending_due s' i = pending_due s i + 0" for i using pending_due_same [OF f(3)] by simp
    show "hold_due s' i = hold_due s i + 0" for i using holds_kept_due [OF b(2) k] by simp
    have "claims s' \<subseteq> claims s"
      using payment_claims_transition [OF b(2) assms(4,5)] holds_kept_claims [OF b(2) k] by (auto simp: claims_def)
    then show "(y, rs) \<in> claims s' \<Longrightarrow> (y, rs) \<in> claims s \<and> ([] = [] \<or> y \<noteq> x) \<or> only_used s' y rs" for y rs x by blast
    show "settled_once c' s'" by (rule settled_once_shift [OF assms(1,2) sh]) (auto simp: f)
  qed (simp_all add: f)
qed

section \<open>The held amount of a payment\<close>

lemma update_payment_Inr:
  assumes "update_payment i f s = Inr s'" and "p \<in> set (payments s)" and "p_id p = i" and "linked s"
  shows "s' = s\<lparr>payments := set_row p_id i f (payments s)\<rparr>" and "0 \<le> p_pending_amount (f p)"
proof -
  have row: "row_by p_id i (payments s) = Some p" using linked_rows(1) [OF assms(4,2)] assms(3) by simp
  show "s' = s\<lparr>payments := set_row p_id i f (payments s)\<rparr>"
    using assms(1) by (auto simp: update_payment_def row split: option.splits list.splits)
  have "payment_row_error (f p) = None" using assms(1) by (auto simp: update_payment_def row split: option.splits)
  then show "0 \<le> p_pending_amount (f p)" by (auto simp: payment_row_error_def split: if_splits)
qed

text \<open>The row of one payment changes, in its held amount and the date of its release at most.\<close>

lemma payment_row_changed:
  assumes "linked s" and "p \<in> set (payments s)" and "s' = s\<lparr>payments := set_row p_id (p_id p) f (payments s)\<rparr>"
    and "\<And>q. p_id (f q) = p_id q \<and> p_transaction (f q) = p_transaction q \<and> p_wallet (f q) = p_wallet q \<and> p_amount (f q) = p_amount q"
    and "0 \<le> p_pending_amount (f p)"
    and "status_of s (p_transaction p) \<notin> Some ` set OPEN_STATUSES \<or> p_pending_amount (f p) = 0 \<and> p_funds_available_at (f p) = None"
  shows "linked s'" and "pending_due s' i = pending_due s i + (if p_wallet p = i then p_pending_amount (f p) - p_pending_amount p else 0)"
    and "db_le s s'" and "\<And>q. q \<in> set (payments s') \<Longrightarrow> q = f p \<or> q \<in> set (payments s) \<and> p_id q \<noteq> p_id p"
proof -
  have one: "q = p" if "q \<in> set (payments s)" "p_id q = p_id p" for q
    using linked_rows(1) [OF assms(1)] assms(2) that by (metis option.inject)
  show "linked s'"
  proof (rule linked_payments [OF assms(1,3)])
    show "p_id (f q) = p_id p \<and> p_transaction (f q) = p_transaction q \<and> p_wallet (f q) = p_wallet q \<and> p_amount (f q) = p_amount q \<and>
        0 \<le> p_pending_amount (f q)" if "q \<in> set (payments s)" "p_id q = p_id p" for q
      using assms(4,5) one [OF that] by simp
    show "p_pending_amount (f q) = 0 \<and> p_funds_available_at (f q) = None"
      if q: "q \<in> set (payments s)" "p_id q = p_id p" and t: "t \<in> set (transactions s)" "t_id t = p_transaction q" "t_status t \<in> set OPEN_STATUSES" for q t
      using assms(6) one [OF q] t linked_txn(4) [OF assms(1) t(1)] by auto
  qed
  have "sum_list (map (\<lambda>q. if p_wallet (if p_id q = p_id p then f q else q) = i then p_pending_amount (if p_id q = p_id p then f q else q) else 0) (payments s)) =
      sum_list (map (\<lambda>q. if p_wallet q = i then p_pending_amount q else 0) (payments s)) +
      (if p_wallet (if p_id p = p_id p then f p else p) = i then p_pending_amount (if p_id p = p_id p then f p else p) else 0) -
      (if p_wallet p = i then p_pending_amount p else 0)"
    by (rule sum_list_change [where key = p_id]) (use assms(1,2) in \<open>auto simp: linked_def\<close>)
  then show "pending_due s' i = pending_due s i + (if p_wallet p = i then p_pending_amount (f p) - p_pending_amount p else 0)"
    using assms(4) by (simp add: pending_due_def assms(3) set_row_def comp_def)
  show "db_le s s'" by (rule db_leI) (simp_all add: assms(3))
  show "q = f p \<or> q \<in> set (payments s) \<and> p_id q \<noteq> p_id p" if "q \<in> set (payments s')" for q
    using that one by (auto simp: assms(3) set_row_def)
qed

text \<open>A payment whose hold has not ended has no settlement posting.\<close>

lemma hold_not_ended:
  assumes "books c s" and "c \<le> now" and "p \<in> set (payments s)"
    and "p_pending_amount p > 0 \<or> (\<exists>a. p_funds_available_at p = Some a \<and> now < a)"
  shows "fresh s (settlement_ref (p_id p))" and "status_of s (p_transaction p) \<notin> Some ` set OPEN_STATUSES"
proof -
  note b = books_parts [OF assms(1)]
  show "fresh s (settlement_ref (p_id p))" using b(5) assms(2-4) by (fastforce simp: settled_once_def)
  from linked_payment [OF b(2) assms(3)] obtain t where t: "t \<in> set (transactions s)" "t_id t = p_transaction p"
    "t_status t \<in> set OPEN_STATUSES \<Longrightarrow> p_pending_amount p = 0 \<and> p_funds_available_at p = None" by blast
  then show "status_of s (p_transaction p) \<notin> Some ` set OPEN_STATUSES"
    using linked_txn(4) [OF b(2) t(1)] assms(4) by auto
qed

lemma payments_only:
  assumes "s' = s\<lparr>payments := ps\<rparr>"
  shows "ledger s' = ledger s" "wallets s' = wallets s" "transactions s' = transactions s" "refunds s' = refunds s"
    "payouts s' = payouts s" "fx_quotes s' = fx_quotes s" "next_id s' = next_id s"
  by (simp_all add: assms)

lemma held_amount_changed:
  assumes "books c s" and "c \<le> c'" and "p \<in> set (payments s)" and "set_held_amount (p_id p) y s1 = Inr s2"
    and "p \<in> set (payments s1)" and "linked s1" and "status_of s1 (p_transaction p) \<notin> Some ` set OPEN_STATUSES"
  shows "linked s2" and "pending_due s2 i = pending_due s1 i + at_balance (p_wallet p) Pending_Balance (y - p_pending_amount p) i Pending_Balance"
    and "db_le s1 s2" and "s2 = s1\<lparr>payments := payments s2\<rparr>"
    and "\<And>q. q \<in> set (payments s2) \<Longrightarrow> q = p\<lparr>p_pending_amount := y\<rparr> \<or> q \<in> set (payments s1) \<and> p_id q \<noteq> p_id p"
proof -
  note u = update_payment_Inr [OF assms(4) [unfolded set_held_amount_def] assms(5) refl assms(6)]
  have *: "linked s2 \<and> pending_due s2 i = pending_due s1 i + (if p_wallet p = i then p_pending_amount (p\<lparr>p_pending_amount := y\<rparr>) - p_pending_amount p else 0) \<and>
      db_le s1 s2" for i
    using payment_row_changed(1-3) [OF assms(6,5) u(1)] u(2) assms(7) by simp
  show "linked s2" "db_le s1 s2" using * by blast+
  show "pending_due s2 i = pending_due s1 i + at_balance (p_wallet p) Pending_Balance (y - p_pending_amount p) i Pending_Balance"
    using * [of i] by (simp add: at_balance_def)
  show "s2 = s1\<lparr>payments := payments s2\<rparr>" by (simp add: u(1))
  show "\<And>q. q \<in> set (payments s2) \<Longrightarrow> q = p\<lparr>p_pending_amount := y\<rparr> \<or> q \<in> set (payments s1) \<and> p_id q \<noteq> p_id p"
    using payment_row_changed(4) [OF assms(6,5) u(1)] u(2) assms(7) by simp
qed

end
