(* ===== verification/Payment_Books.thy ===== *)
theory Payment_Books
  imports Payment_Rows
begin

text \<open>
  Every database transaction of \<open>payments.service.ts\<close>, \<open>payment-settlement.service.ts\<close> and
  \<open>settlement-release.service.ts\<close> keeps the books.
\<close>

section \<open>New payments\<close>

lemma insert_payment_Inr:
  assumes "insert_payment p s = Inr (q, s')"
  shows "q = p" and "s' = s\<lparr>payments := payments s @ [p], next_id := Suc (next_id s)\<rparr>"
  using assms by (auto simp: insert_payment_def split: option.splits list.splits)

lemma record_payment_Inr:
  assumes "record_payment hex now own target provider email quote fee inp key s = Inr (p, s')"
  obtains t s1 where
    "create_transaction hex now (payment_transaction own target fee provider inp key) s = Inr (t, s1)"
    "insert_payment (new_payment now own target provider email quote inp t (next_id s1)) s1 = Inr (p, s')"
  using assms by (auto simp: record_payment_def bind_res_Inr_iff)

lemma record_payment_books:
  assumes "books c s" and "c \<le> now" and "CHR '':'' \<notin> set hex" and "w_id (ct_wallet target) \<in> w_id ` set (wallets s)"
    and "record_payment hex now own target provider email quote fee inp key s = Inr (p, s')"
  shows "books now s'"
  using assms(5)
proof (cases rule: record_payment_Inr)
  case (1 t s1)
  note b = books_parts [OF assms(1)] and cr = created_transaction [OF assms(1) 1(1) assms(3)] and ins = insert_payment_Inr [OF 1(2)]
  have p: "p_id p = next_id s1" "p_transaction p = t_id t" "p_wallet p = w_id (ct_wallet target)" "p_pending_amount p = 0"
    "p_funds_available_at p = None" "p_amount p = in_amount inp"
    by (simp_all add: ins(1) new_payment_def)
  have s': "s' = s1\<lparr>payments := payments s1 @ [p], next_id := Suc (next_id s1)\<rparr>" using ins by simp
  have ty: "t_type t = Ty_Payment" "t_status t = Pending" "t_amount t = in_amount inp"
    by (simp_all add: cr(12,13,15) payment_transaction_def plain_transaction_def)
  have t_in: "t \<in> set (transactions s')" using row_by_Some [OF cr(10)] by (simp add: s')
  have ws: "wallets s1 = wallets s" using shifted_rows [OF cr(2)] by blast
  have old: "p_transaction q < next_id s" if "q \<in> set (payments s)" for q
    using linked_payment [OF b(2) that] linked_txn(6) [OF b(2)] by metis
  have l: "linked s'"
  proof (rule linked_new_payment [OF cr(1) s' p(1)])
    show "payment_linked s' p"
      using t_in ty assms(4) by (auto simp: payment_linked_def p s' ws intro!: bexI [of _ t])
    show "p_transaction p \<notin> p_transaction ` set (payments s1)" using old by (fastforce simp: p cr)
  qed
  have sh: "shifted [] (\<lambda>i k. 0) s s'" by (rule shifted_quiet [OF cr(2)]) (simp_all add: s' db_leI)
  have com: "committed_amount i s' = committed_amount i s1" for i
    by (simp add: committed_amount_def refunds_in_def status_in_def s')
  show ?thesis
  proof (rule books_shift [OF assms(1) sh refs_of_Nil l])
    have "committed_amount (p_id p) s1 = 0"
    proof -
      have "r_payment r \<noteq> p_id p" if "r \<in> set (refunds s)" for r
      proof -
        from linked_refund [OF b(2) that] obtain q where "q \<in> set (payments s)" "p_id q = r_payment r" by blast
        moreover then have "p_id q < next_id s" using b(2) by (auto simp: linked_def payment_linked_def)
        ultimately show ?thesis by (simp add: p cr)
      qed
      then show ?thesis by (simp add: committed_amount_def refunds_in_def cr)
    qed
    moreover have "0 \<le> p_amount p"
    proof -
      have "0 < nt_amount (payment_transaction own target fee provider inp key)" by (rule create_transaction_Inr(3) [OF 1(1)])
      then show ?thesis by (simp add: p payment_transaction_def plain_transaction_def)
    qed
    ultimately show "refunds_within s'" using cr(5) unfolding refunds_within_def com by (auto simp: s')
    show "pending_due s' i = pending_due s i + 0" for i using cr(4) [of i] by (simp add: pending_due_def s' p)
    have "hold_due s' i = hold_due s1 i" for i
    proof -
      have "refund_hold s' i = refund_hold s1 i" "payout_hold s' i = payout_hold s1 i"
        by (rule ext, simp add: s' refund_hold_def payout_hold_def status_of_def)+
      then show ?thesis by (simp add: hold_due_def s')
    qed
    then show "hold_due s' i = hold_due s i + 0" for i using cr(3) by simp
    have cl: "claims s' = claims s1" by (simp add: claims_def payment_claims_def refund_claims_def payout_claims_def status_of_def s')
    show "(y, rs) \<in> claims s \<and> ([] = [] \<or> y \<noteq> x) \<or> only_used s' y rs" if "(y, rs) \<in> claims s'" for y rs x
    proof (cases "(y, rs) \<in> claims s")
      case False
      then have "y = t_reference t" "rs = []" using that cr(8) by (auto simp: cl split: if_splits)
      moreover have "only_used s (t_reference t) []" by (rule unknown_unused [OF b(10) kind_token [OF cr(21)] cr(7)])
      ultimately show ?thesis using only_used_own [OF sh] by simp
    qed simp
    show "settled_once now s'"
      by (rule settled_once_shift [OF assms(1,2) sh]) (auto simp: s' cr p)
    show "known s \<subseteq> known s'" using cr(6) by (auto simp: known_def s')
  qed (simp_all add: s' cr)
qed

section \<open>Rows of payments as a service has read them\<close>

text \<open>Everything but the checkout, the quote and the hold stays as it was.\<close>

definition same_payment :: "payment \<Rightarrow> payment \<Rightarrow> bool" where
  "same_payment p p' \<longleftrightarrow> (\<exists>a b q h d. p' = p\<lparr>p_provider_reference := a, p_authorization_url := b, p_fx_quote := q,
     p_pending_amount := h, p_funds_available_at := d\<rparr>)"

lemma same_payment_fields:
  assumes "same_payment p p'"
  shows "p_id p' = p_id p" "p_transaction p' = p_transaction p" "p_wallet p' = p_wallet p" "p_amount p' = p_amount p"
    "p_user_id p' = p_user_id p" "p_organization_id p' = p_organization_id p" "p_currency p' = p_currency p"
    "p_provider p' = p_provider p" "p_customer_email p' = p_customer_email p" "p_created_at p' = p_created_at p"
  using assms by (auto simp: same_payment_def)

lemma payment_quiet_row:
  assumes "books c s" and "c \<le> c'" and "p \<in> set (payments s)" and "update_payment (p_id p) f s = Inr s'"
    and "\<And>q. p_id (f q) = p_id q \<and> p_transaction (f q) = p_transaction q \<and> p_wallet (f q) = p_wallet q \<and> p_amount (f q) = p_amount q \<and>
      p_pending_amount (f q) = p_pending_amount q \<and> p_funds_available_at (f q) = p_funds_available_at q"
  shows "books c' s'"
proof -
  note b = books_parts [OF assms(1)]
  note u = update_payment_Inr [OF assms(4,3) refl b(2)]
  have side: "status_of s (p_transaction p) \<notin> Some ` set OPEN_STATUSES \<or> p_pending_amount (f p) = 0 \<and> p_funds_available_at (f p) = None"
  proof -
    from linked_payment [OF b(2) assms(3)] obtain t where t: "t \<in> set (transactions s)" "t_id t = p_transaction p"
      "t_status t \<in> set OPEN_STATUSES \<Longrightarrow> p_pending_amount p = 0 \<and> p_funds_available_at p = None" by blast
    then have "status_of s (p_transaction p) = Some (t_status t)" using linked_txn(4) [OF b(2) t(1)] by simp
    then show ?thesis using t(3) assms(5) by (cases "t_status t \<in> set OPEN_STATUSES") auto
  qed
  have *: "linked s' \<and> pending_due s' i = pending_due s i + (if p_wallet p = i then p_pending_amount (f p) - p_pending_amount p else 0) \<and> db_le s s' \<and>
     (\<forall>q \<in> set (payments s'). q = f p \<or> q \<in> set (payments s) \<and> p_id q \<noteq> p_id p)" for i
    using payment_row_changed [OF b(2) assms(3) u(1) _ u(2) side] assms(5) by blast
  note po = payments_only [OF u(1)]
  have sh: "shifted [] (\<lambda>i k. 0) s s'" by (rule quiet_shifted [OF b(8) po(1,2)]) (use * in blast)
  have l: "linked s'" using * by blast
  have k: "holds_kept s s'" by (rule holds_kept_refl [OF b(2) po(3,4,5)])
  show ?thesis
  proof (rule books_shift [OF assms(1) sh refs_of_Nil l])
    have "committed_amount (p_id q) s' \<le> p_amount q" if "q \<in> set (payments s')" for q
    proof -
      have "q = f p \<or> q \<in> set (payments s)" using * that by blast
      then have "\<exists>q0 \<in> set (payments s). p_id q0 = p_id q \<and> p_amount q0 = p_amount q"
        using assms(3) assms(5) [of p] by (elim disjE) (intro bexI [of _ p], simp_all, blast)
      then show ?thesis using b(3) holds_kept_committed(1) [OF b(2) l k, of "p_id q"] unfolding refunds_within_def by metis
    qed
    then show "refunds_within s'" by (simp add: refunds_within_def)
    show "pending_due s' i = pending_due s i + 0" for i using * [of i] assms(5) by simp
    show "hold_due s' i = hold_due s i + 0" for i using holds_kept_due [OF b(2) k] by simp
    have "claims s' = claims s" using holds_kept_claims [OF b(2) k] by (simp add: claims_def payment_claims_def po)
    then show "(y, rs) \<in> claims s' \<Longrightarrow> (y, rs) \<in> claims s \<and> ([] = [] \<or> y \<noteq> x) \<or> only_used s' y rs" for y rs x by simp
    show "settled_once c' s'"
    proof (rule settled_once_shift [OF assms(1,2) sh])
      fix q assume "q \<in> set (payments s')"
      then have "q = f p \<or> q \<in> set (payments s)" using * by blast
      then show "next_id s \<le> p_id q \<or> fresh s (settlement_ref (p_id q)) \<or>
        (\<exists>p \<in> set (payments s). p_id p = p_id q \<and> p_pending_amount p = p_pending_amount q \<and> p_funds_available_at p = p_funds_available_at q)"
        using assms(3) assms(5) [of p] by (elim disjE) (intro disjI2 bexI [of _ p], simp_all, blast)
    qed simp
    show "known s \<subseteq> known s'" by (simp add: known_def po)
  qed (simp_all add: po)
qed

section \<open>Failing\<close>

lemma fail_payment_books:
  assumes "books c s" and "c \<le> now" and "p0 \<in> set (payments s)" and "same_payment p0 p"
    and "fail_payment now p code reason s = Inr (out, s')"
  shows "books now s'"
proof -
  note sf = same_payment_fields [OF assms(4)]
  obtain t where t: "row_by t_id (p_transaction p0) (transactions s) = Some t"
    using assms(5) by (auto simp: fail_payment_def lock_transaction_def bind_res_Inr_iff sf)
  show ?thesis
  proof (cases "t_status t \<in> set OPEN_STATUSES")
    case False
    then have "s' = s" using assms(5) by (simp add: fail_payment_def lock_transaction_def t sf)
    then show ?thesis using books_quiet [OF assms(1) _ assms(2)] by (simp add: quiet_def)
  next
    case True
    obtain patch t' s1 where tr: "transition (p_transaction p0) Failed patch s = Inr (t', s1)" and q: "quiet s1 s'"
      using assms(5) row_by_Some [OF t] True by (auto simp: fail_payment_def lock_transaction_def t bind_res_Inr_iff sf quiet_event)
    have "books now s1" by (rule books_payment_transition [OF assms(1-3) tr]) (simp add: OPEN_STATUSES_def)
    then show ?thesis by (rule books_quiet [OF _ q]) simp
  qed
qed

section \<open>Ending the hold\<close>

lemma settlement_ref_token: "token y \<Longrightarrow> \<not> mentions (settlement_ref i) y"
  using settlement_mentions [of y i] by (simp add: settlement_ref_def uuid_str_def)

lemma settlement_ref_inj: "settlement_ref i = settlement_ref j \<longleftrightarrow> i = j"
  by (simp add: settlement_ref_def)

definition hold_ended :: "int \<Rightarrow> payment \<Rightarrow> payment" where
  "hold_ended now p = p\<lparr>p_pending_amount := 0, p_funds_available_at :=
     (case p_funds_available_at p of Some a \<Rightarrow> if a < now then Some a else Some now | None \<Rightarrow> Some now)\<rparr>"

lemma release_payment_Inr:
  assumes "release_payment ctx now i early s = Inr (done, s')"
  obtains (unheld) "s' = s" "\<not> done"
  | (released) p q s1 f s2 where "row_by p_id i (payments s) = Some p" "p_pending_amount p \<noteq> 0" "done"
      "make_available_within now (p_wallet p) (settlement_movement p) s = Inr (q, s1)"
      "update_payment (p_id p) f s1 = Inr s2" "f p = hold_ended now p" "quiet s2 s'"
      "\<And>q. p_id (f q) = p_id q \<and> p_transaction (f q) = p_transaction q \<and> p_wallet (f q) = p_wallet q \<and> p_amount (f q) = p_amount q"
proof -
  obtain p where p: "row_by p_id i (payments s) = Some p" using assms by (auto simp: release_payment_def bind_res_Inr_iff)
  show ?thesis
  proof (cases "p_pending_amount p = 0")
    case True
    then have "s' = s \<and> \<not> done" using assms by (auto simp: release_payment_def p)
    then show ?thesis using unheld by blast
  next
    case False
    define f :: "payment \<Rightarrow> payment" where "f = (\<lambda>row. row\<lparr>p_pending_amount := 0, p_funds_available_at :=
        (case p_funds_available_at p of Some a \<Rightarrow> if a < now then Some a else Some now | None \<Rightarrow> Some now)\<rparr>)"
    obtain q s1 s2 where 1: "make_available_within now (p_wallet p) (settlement_movement p) s = Inr (q, s1)"
      and 2: "update_payment (p_id p) f s1 = Inr s2" and d: "done" and 3: "quiet s2 s'"
    proof -
      have "quiet s2 (add_event n ty a i m s2)" "quiet s2 (record_audit ctx n2 a2 ty2 i2 g2 m2 (add_event n ty a i m s2))"
        for s2 n ty a i m n2 a2 ty2 i2 g2 m2 by (simp_all add: quiet_def)
      then show ?thesis
        using that assms False unfolding f_def by (auto simp: release_payment_def p bind_res_Inr_iff Let_def)
    qed
    show ?thesis by (rule released [OF p False d 1 2 _ 3]) (simp_all add: f_def hold_ended_def)
  qed
qed

lemma release_payment_books:
  assumes "books c s" and "c \<le> now" and "release_payment ctx now i early s = Inr (done, s')"
  shows "books now s'"
  using assms(3)
proof (cases rule: release_payment_Inr)
  case unheld
  then show ?thesis using books_quiet [OF assms(1) _ assms(2)] by (simp add: quiet_def)
next
  case (released p q s1 f s2)
  note b = books_parts [OF assms(1)]
  have p_in: "p \<in> set (payments s)" using row_by_Some [OF released(1)] by simp
  have pend: "0 < p_pending_amount p" using b(2) p_in released(2) by (force simp: linked_def payment_linked_def)
  note ended = hold_not_ended [OF assms(1) order_refl p_in]
  have mref: "mv_reference (settlement_movement p) = settlement_ref (p_id p)" "mv_amount (settlement_movement p) = p_pending_amount p"
    by (simp_all add: settlement_movement_def settlement_ref_def)
  have fr: "fresh s (mv_reference (settlement_movement p))" using ended(1) pend by (simp add: mref)
  note mv = make_available_within_moved [OF b(1) fr released(4), unfolded mref]
  have only: "only_ledger s s1" using mv by (simp add: moved_def)
  note tabs = only_ledger_tables [OF only]
  have l1: "linked s1" by (rule linked_move [OF b(2) only])
  have p1: "p \<in> set (payments s1)" using p_in by (simp add: tabs)
  note u = update_payment_Inr [OF released(5) p1 refl l1]
  have "status_of s1 (p_transaction p) \<notin> Some ` set OPEN_STATUSES" using ended(2) pend by (simp add: status_of_def tabs)
  then have *: "linked s2 \<and> pending_due s2 i = pending_due s1 i + (if p_wallet p = i then - p_pending_amount p else 0) \<and> db_le s1 s2 \<and>
      (\<forall>q \<in> set (payments s2). q = hold_ended now p \<or> q \<in> set (payments s) \<and> p_id q \<noteq> p_id p)" for i
    using payment_row_changed [OF l1 p1 u(1) released(8) u(2)] by (simp add: released(6) hold_ended_def tabs)
  note po = payments_only [OF u(1)]
  let ?f = "\<lambda>j k. at_balance (p_wallet p) Available (p_pending_amount p) j k - at_balance (p_wallet p) Pending_Balance (p_pending_amount p) j k"
  have sh: "shifted [settlement_ref (p_id p)] ?f s s2"
    by (rule shifted_quiet [OF moved_shifted [OF mv] po(1,2)]) (use * in blast)
  have l2: "linked s2" using * by blast
  have k: "holds_kept s s2" by (rule holds_kept_refl [OF b(2)]) (simp_all add: po tabs)
  have b2: "books now s2"
  proof (rule books_shift [OF assms(1) sh _ l2])
    show "refs_of [] [settlement_ref (p_id p)]" using settlement_ref_token by simp
    have "committed_amount (p_id q) s2 \<le> p_amount q" if "q \<in> set (payments s2)" for q
    proof -
      have "q = hold_ended now p \<or> q \<in> set (payments s)" using * that by blast
      then have "\<exists>q0 \<in> set (payments s). p_id q0 = p_id q \<and> p_amount q0 = p_amount q"
        using p_in by (elim disjE) (intro bexI [of _ p], simp_all add: hold_ended_def, blast)
      then show ?thesis using b(3) holds_kept_committed(1) [OF b(2) l2 k, of "p_id q"] unfolding refunds_within_def by metis
    qed
    then show "refunds_within s2" by (simp add: refunds_within_def)
    show "pending_due s2 i = pending_due s i + ?f i Pending_Balance" for i
      using * [of i] pending_due_same [OF tabs(8)] by (simp add: at_balance_def)
    show "hold_due s2 i = hold_due s i + ?f i Reserved_Balance" for i using holds_kept_due [OF b(2) k] by (simp add: at_balance_def)
    have "claims s2 = claims s" using holds_kept_claims [OF b(2) k] by (simp add: claims_def payment_claims_def po tabs)
    then show "(y, rs) \<in> claims s \<and> ([settlement_ref (p_id p)] = [] \<or> y \<noteq> []) \<or> only_used s2 y rs" if "(y, rs) \<in> claims s2" for y rs
      using claims_token [OF b(2), of y rs] that by (auto simp: token_def)
    show "settled_once now s2"
    proof (unfold settled_once_def, intro conjI allI ballI impI)
      fix i assume "next_id s2 \<le> i"
      moreover have "p_id p < next_id s" using b(2) p_in by (auto simp: linked_def payment_linked_def)
      ultimately show "fresh s2 (settlement_ref i)"
        using b(5) shifted_fresh [OF sh] by (auto simp: settled_once_def settlement_ref_inj po tabs)
    next
      fix q assume q: "q \<in> set (payments s2)" "\<not> fresh s2 (settlement_ref (p_id q))"
      consider "q = hold_ended now p" | "q \<in> set (payments s)" "p_id q \<noteq> p_id p" using * q(1) by blast
      then have "p_pending_amount q = 0 \<and> (\<exists>a. p_funds_available_at q = Some a \<and> a \<le> now)"
      proof cases
        case 2
        then have "\<not> fresh s (settlement_ref (p_id q))" using q(2) shifted_fresh [OF sh] by (simp add: settlement_ref_inj)
        then have "p_pending_amount q = 0 \<and> (\<exists>a. p_funds_available_at q = Some a \<and> a \<le> c)"
          using b(5) 2(1) unfolding settled_once_def by blast
        then show ?thesis using assms(2) by auto
      qed (auto simp: hold_ended_def split: option.splits)
      then show "p_pending_amount q = 0" "\<exists>a. p_funds_available_at q = Some a \<and> a \<le> now" by blast+
    qed
    show "known s \<subseteq> known s2" by (simp add: known_def po tabs)
    show "[settlement_ref (p_id p)] = [] \<or> [] \<in> known s2 \<or> (\<forall>r \<in> set [settlement_ref (p_id p)]. \<forall>y. token y \<longrightarrow> \<not> mentions r y)"
      using settlement_ref_token by simp
  qed (simp add: po tabs)
  show ?thesis by (rule books_quiet [OF b2 released(7)]) simp
qed

end
