(* ===== verification/Settlement_Books.thy ===== *)
theory Settlement_Books
  imports Payment_Books
begin

text \<open>
  Crediting a payment keeps the books: the deposit or the conversion, the fee, the hold and the
  status of its transaction, in one database transaction.
\<close>

section \<open>A deposit through a conversion\<close>

lemma fx_system_accounts_system:
  assumes "ledger_ok s" and "fx_system_accounts src tgt s = Inr (accts, s')"
  shows "is_system s' (fx_position src) (fa_source_position accts)" and "is_system s' (fx_position tgt) (fa_target_position accts)"
    and "is_system s' (fx_revenue tgt) (fa_target_revenue accts)" and "moved [] (\<lambda>i k. 0) s s'"
proof -
  from assms(2) obtain sp s1 tp s2 tr where
    1: "ensure_account (fx_position src) s = Inr (sp, s1)" and 2: "ensure_account (fx_position tgt) s1 = Inr (tp, s2)"
    and 3: "ensure_account (fx_revenue tgt) s2 = Inr (tr, s')"
    and a: "accts = \<lparr>fa_source_position = la_id sp, fa_target_position = la_id tp, fa_target_revenue = la_id tr\<rparr>"
    by (auto simp: fx_system_accounts_def bind_res_Inr_iff)
  note ok1 = ensure_account_ok [OF assms(1) 1] and e1 = ensure_account_effect [OF assms(1) 1]
  note ok2 = ensure_account_ok [OF ok1 2] and e2 = ensure_account_effect [OF ok1 2] and e3 = ensure_account_effect [OF ok2 3]
  note le3 = ensure_account_le [OF 3] and le2 = db_le_trans [OF ensure_account_le [OF 2] ensure_account_le [OF 3]]
  show "is_system s' (fx_position src) (fa_source_position accts)" using is_system_le [OF e1(2) le2 ok1] by (simp add: a)
  show "is_system s' (fx_position tgt) (fa_target_position accts)" using is_system_le [OF e2(2) le3 ok2] by (simp add: a)
  show "is_system s' (fx_revenue tgt) (fa_target_revenue accts)" using e3(2) by (simp add: a)
  have "only_ledger s s'" using 1 2 3 ensure_account_frame only_ledger_trans by meson
  then show "moved [] (\<lambda>i k. 0) s s'"
    using effect_moved [OF effect_trans [OF e1(1) effect_trans [OF e2(1) e3(1)]], of "\<lambda>i k. 0"] by simp
qed

lemma target_leg_moved:
  assumes "wallets_inv s" and "w \<in> set (wallets s)" and "ci_target_credit inp = balance_account w k"
    and "is_system s sa (fa_target_position accts)" and "is_system s sb (fa_target_revenue accts)"
    and "fresh s (ci_reference inp @ '':fx-target'')" and "post_in now (target_leg inp q accts) s = Inr (p, s')"
  shows "moved [ci_reference inp @ '':fx-target''] (at_balance (w_id w) k (q_target_amount q)) s s'" and "0 < q_target_amount q"
proof -
  have ref: "pi_reference (target_leg inp q accts) = ci_reference inp @ '':fx-target''" by (simp add: target_leg_def Let_def)
  define g where "g i = credit_net (pi_entries (target_leg inp q accts)) i - only_at (balance_account w k) (q_target_amount q) i" for i
  have "moved [pi_reference (target_leg inp q accts)] (at_balance (w_id w) k (q_target_amount q)) s s'"
  proof (rule system_posting_moved [OF assms(1,2) _ assms(7)])
    show "fresh s (pi_reference (target_leg inp q accts))" using assms(6) by (simp add: ref)
    show "credit_net (pi_entries (target_leg inp q accts)) i = only_at (balance_account w k) (q_target_amount q) i + g i" for i
      by (simp add: g_def)
    show "\<exists>sa. is_system s sa i" if "g i \<noteq> 0" for i
    proof -
      have "i = fa_target_position accts \<or> i = fa_target_revenue accts"
        using that by (auto simp: g_def target_leg_def Let_def credit_net_legs only_at_def assms(3) split: if_splits)
      then show ?thesis using assms(4,5) by blast
    qed
  qed
  then show "moved [ci_reference inp @ '':fx-target''] (at_balance (w_id w) k (q_target_amount q)) s s'" by (simp add: ref)
  have "\<exists>amount. validate_posting (target_leg inp q accts) = Inr amount" by (rule inside.op_valid [OF assms(7)])
  then show "0 < q_target_amount q" by (auto simp: validate_posting_Inr target_leg_def Let_def)
qed

lemma source_leg_moved:
  assumes "wallets_inv s" and "w \<in> set (wallets s)" and "is_system s sa (ci_source_debit inp)"
    and "is_system s sb (fa_source_position accts)" and "fresh s (ci_reference inp @ '':fx-source'')"
    and "post_in now (source_leg inp q accts) s = Inr (p, s')"
  shows "moved [ci_reference inp @ '':fx-source''] (\<lambda>i k. 0) s s'"
proof -
  have ref: "pi_reference (source_leg inp q accts) = ci_reference inp @ '':fx-source''" by (simp add: source_leg_def)
  have "moved [pi_reference (source_leg inp q accts)] (at_balance (w_id w) Available 0) s s'"
  proof (rule system_posting_moved [OF assms(1,2) _ assms(6)])
    show "fresh s (pi_reference (source_leg inp q accts))" using assms(5) by (simp add: ref)
    show "credit_net (pi_entries (source_leg inp q accts)) i = only_at (balance_account w Available) 0 i + credit_net (pi_entries (source_leg inp q accts)) i" for i
      by (simp add: only_at_def)
    show "\<exists>sa. is_system s sa i" if "credit_net (pi_entries (source_leg inp q accts)) i \<noteq> 0" for i
    proof -
      have "i = ci_source_debit inp \<or> i = fa_source_position accts"
        using that by (auto simp: source_leg_def credit_net_legs only_at_def split: if_splits)
      then show ?thesis using assms(3,4) by blast
    qed
  qed
  from moved_cong [OF this [unfolded ref], of "\<lambda>i k. 0"] show ?thesis by (simp add: at_balance_def)
qed

text \<open>A quote that is consumed under another reference is refused, and no earlier conversion
  has used this one, so the conversion is executed and never replayed.\<close>

lemma conversion_shifted:
  assumes "wallets_inv s" and "quotes_consumed s" and "fresh s (ref @ '':fx-source'')" and "fresh s (ref @ '':fx-target'')"
    and "deposit_with_conversion_within now i \<lparr>cq_quote = quote, cq_reference = ref, cq_description = d\<rparr> k s = Inr (c, s')"
  shows "shifted [ref @ '':fx-source'', ref @ '':fx-target''] (at_balance i k (q_target_amount (cr_quote c))) s s'"
    and "0 < q_target_amount (cr_quote c)" and "s' = s\<lparr>ledger := ledger s', fx_quotes := fx_quotes s'\<rparr>"
    and "\<And>q. q \<in> set (fx_quotes s') \<Longrightarrow> q \<in> set (fx_quotes s) \<or> q_conversion_reference q = Some ref"
proof -
  obtain w cl s1 cur where w: "get_wallet i s = Inr w" and cl: "ensure_account (external_clearing cur) s = Inr (cl, s1)"
    and cv: "convert_within now \<lparr>ci_quote = quote, ci_reference = ref, ci_description = d,
        ci_source_debit = la_id cl, ci_target_credit = balance_account w k, ci_user = None\<rparr> (lock_active_wallets [i]) s1 = Inr (c, s')"
    using assms(5) by (auto simp: deposit_with_conversion_within_def prepare_conversion_deposit_def clearing_account_def bind_res_Inr_iff split: if_splits)
  define inp where "inp = \<lparr>ci_quote = quote, ci_reference = ref, ci_description = d,
        ci_source_debit = la_id cl, ci_target_credit = balance_account w k, ci_user = None\<rparr>"
  have inp: "ci_reference inp = ref" "ci_source_debit inp = la_id cl" "ci_target_credit inp = balance_account w k" by (simp_all add: inp_def)
  have w_in: "w \<in> set (wallets s)" "w_id w = i" using w wallet_row [OF assms(1)] by auto
  note m1 = ensure_account_moved [OF assms(1) cl]
  note inv1 = moved_wallets [OF m1(1) assms(1)]
  have fr1: "fresh s1 r = fresh s r" for r using m1(1) by (simp add: moved_def)
  have tabs1: "fx_quotes s1 = fx_quotes s" "wallets s1 = wallets s" using m1(1) only_ledger_tables [of s s1] by (simp_all add: moved_def)
  have cv': "convert_within now inp (lock_active_wallets [i]) s1 = Inr (c, s')" using cv by (simp add: inp_def)
  have "shifted [ref @ '':fx-source'', ref @ '':fx-target''] (at_balance i k (q_target_amount (cr_quote c))) s s' \<and>
    0 < q_target_amount (cr_quote c) \<and> s' = s\<lparr>ledger := ledger s', fx_quotes := fx_quotes s'\<rparr> \<and>
    (\<forall>q \<in> set (fx_quotes s'). q \<in> set (fx_quotes s) \<or> q_conversion_reference q = Some ref)"
    using cv'
  proof (cases rule: convert_within_Inr)
    case (replayed accts s2 q)
    then have "q \<in> set (fx_quotes s)" "q_conversion_reference q = Some ref"
      using row_by_Some [OF replayed(3)] by (simp_all add: tabs1 inp)
    then show ?thesis using assms(2,3) by (auto simp: quotes_consumed_def)
  next
    case (executed accts s2 q src s3 tgt s4 q')
    note sys = fx_system_accounts_system [OF wallets_inv_ok [OF inv1] executed(1)]
    note inv2 = moved_wallets [OF sys(4) inv1]
    have w2: "w \<in> set (wallets s2)" using w_in(1) sys(4) only_ledger_tables(2) [of s1 s2] by (simp add: tabs1 moved_def)
    have cl2: "is_system s2 (external_clearing cur) (ci_source_debit inp)"
      using is_system_le [OF m1(2) _ wallets_inv_ok [OF inv1]] sys(4) by (simp add: inp moved_def)
    have fr2: "fresh s2 (ci_reference inp @ '':fx-source'')" using assms(3) sys(4) fr1 by (simp add: inp moved_def)
    note m3 = source_leg_moved [OF inv2 w2 cl2 sys(1) fr2 executed(5)]
    have w3: "w \<in> set (wallets s3)" using w2 m3 only_ledger_tables(2) [of s2 s3] by (simp add: moved_def)
    have le3: "db_le s2 s3" using m3 by (simp add: moved_def)
    have fr3: "fresh s3 (ci_reference inp @ '':fx-target'')" using assms(4) sys(4) fr1 m3 by (simp add: inp moved_def)
    note m4 = target_leg_moved [OF moved_wallets [OF m3 inv2] w3 inp(3) is_system_le [OF sys(2) le3 wallets_inv_ok [OF inv2]]
        is_system_le [OF sys(3) le3 wallets_inv_ok [OF inv2]] fr3 executed(6)]
    have mv: "moved [ref @ '':fx-source'', ref @ '':fx-target''] (at_balance i k (q_target_amount q)) s s4"
      using moved_cong [OF moved_trans [OF moved_trans [OF moved_trans [OF m1(1) sys(4)] m3] m4(1)]] by (simp add: inp w_in)
    have only: "only_ledger s s4" using mv by (simp add: moved_def)
    note tabs = only_ledger_tables [OF only]
    note used = consume_quote_Inr [OF executed(7)]
    have q_row: "row_by q_id (q_id q) (fx_quotes s4) = Some q"
      using executed(2) row_by_Some [OF executed(2)] by (simp add: tabs(4) tabs1)
    have q': "q' = consumed_by now ref (lt_id (ps_txn src)) (lt_id (ps_txn tgt)) q"
      using executed(8) by (simp add: used row_by_set_row q_row inp)
    have amount: "q_target_amount (cr_quote c) = q_target_amount q" by (simp add: executed(9) q' consumed_by_def)
    have "shifted [ref @ '':fx-source'', ref @ '':fx-target''] (at_balance i k (q_target_amount (cr_quote c))) s s'"
      unfolding amount by (rule shifted_quiet [OF moved_shifted [OF mv]]) (simp_all add: used db_leI)
    moreover obtain l where "s4 = s\<lparr>ledger := l\<rparr>" using only unfolding only_ledger_def by blast
    then have "s' = s\<lparr>ledger := ledger s', fx_quotes := fx_quotes s'\<rparr>" by (simp add: used)
    moreover have "q2 \<in> set (fx_quotes s) \<or> q_conversion_reference q2 = Some ref" if "q2 \<in> set (fx_quotes s')" for q2
      using that by (auto simp: used set_row_def tabs(4) inp consumed_by_def)
    ultimately show ?thesis using m4(2) unfolding amount by blast
  qed
  then show "shifted [ref @ '':fx-source'', ref @ '':fx-target''] (at_balance i k (q_target_amount (cr_quote c))) s s'"
    "0 < q_target_amount (cr_quote c)" "s' = s\<lparr>ledger := ledger s', fx_quotes := fx_quotes s'\<rparr>"
    "\<And>q. q \<in> set (fx_quotes s') \<Longrightarrow> q \<in> set (fx_quotes s) \<or> q_conversion_reference q = Some ref"
    by blast+
qed

section \<open>The quote that is used\<close>

lemma merge_metadata_books:
  assumes "books c s" and "c \<le> c'" and "t \<in> set (transactions s)" and "t_type t = Ty_Payment"
  shows "books c' (merge_metadata (t_id t) patch s)"
proof -
  let ?s = "merge_metadata (t_id t) patch s"
  note b = books_parts [OF assms(1)]
  have k: "holds_kept s ?s" by (rule holds_kept_merge [OF b(2) assms(3)]) (simp add: assms(4))
  have l: "linked ?s" by (rule linked_merge [OF b(2)])
  have tabs: "ledger ?s = ledger s" "wallets ?s = wallets s" "payments ?s = payments s" "fx_quotes ?s = fx_quotes s"
    "refunds ?s = refunds s" "payouts ?s = payouts s" by (simp_all add: merge_metadata_def)
  define g :: "txn \<Rightarrow> txn" where "g = (\<lambda>u. if t_id u = t_id t then u\<lparr>t_metadata := merge_json (t_metadata u) patch\<rparr> else u)"
  have rows: "transactions ?s = map g (transactions s)" by (simp add: merge_metadata_def set_row_def g_def)
  have g: "t_reference (g u) = t_reference u" "t_type (g u) = t_type u" "t_status (g u) = t_status u" for u by (simp_all add: g_def)
  have sh: "shifted [] (\<lambda>i k. 0) s ?s" by (rule quiet_shifted [OF b(8) tabs(1,2) merge_metadata_le])
  show ?thesis
  proof (rule books_shift [OF assms(1) sh refs_of_Nil l])
    show "refunds_within ?s" using b(3) holds_kept_committed(1) [OF b(2) l k] by (simp add: refunds_within_def tabs)
    show "pending_due ?s i = pending_due s i + 0" for i using pending_due_same [OF tabs(3)] by simp
    show "hold_due ?s i = hold_due s i + 0" for i using holds_kept_due [OF b(2) k] by simp
    have "payment_claims ?s \<subseteq> payment_claims s" by (rule payment_claims_cong) (auto simp: rows g)
    then have "claims ?s \<subseteq> claims s" using holds_kept_claims [OF b(2) k] by (auto simp: claims_def)
    then show "(y, rs) \<in> claims ?s \<Longrightarrow> (y, rs) \<in> claims s \<and> ([] = [] \<or> y \<noteq> x) \<or> only_used ?s y rs" for y rs x by blast
    show "settled_once c' ?s" by (rule settled_once_shift [OF assms(1,2) sh]) (auto simp: tabs)
    show "known s \<subseteq> known ?s" by (auto simp: known_def tabs rows g image_iff)
  qed (simp_all add: tabs)
qed

lemma create_quote_quiet:
  assumes "create_quote cfg now inp s = Inr (q, s')"
  shows "quiet s s'"
  using assms
proof (cases rule: create_quote_Inr)
  case (1 snapshot scaled conv)
  have "q_conversion_reference (new_quote cfg now inp snapshot conv (next_id s)) = None" by (simp add: new_quote_def)
  then show ?thesis using insert_quote_Inr [OF 1(5)] by (auto simp: quiet_def)
qed

text \<open>Choosing the quote keeps the books, and the rows of the payment and its transaction stay
  the same in what the rest of the settlement reads.\<close>

lemma usable_quote_books:
  assumes "books c s" and "c \<le> now" and "p0 \<in> set (payments s)" and "same_payment p0 p"
    and "row_by t_id (p_transaction p) (transactions s) = Some t" and "usable_quote_id cfg now p fxq s = Inr (quote, s1)"
  obtains p1 t1 where "books now s1" "p1 \<in> set (payments s1)" "same_payment p0 p1" "shifted [] (\<lambda>i k. 0) s s1"
    "row_by t_id (p_transaction p) (transactions s1) = Some t1" "t_reference t1 = t_reference t" "t_status t1 = t_status t"
proof -
  note sf = same_payment_fields [OF assms(4)]
  obtain q where q: "get_quote_within fxq s = Inr q" using assms(6) by (auto simp: usable_quote_id_def bind_res_Inr_iff)
  show ?thesis
  proof (cases "q_consumed_at q \<noteq> None \<or> q_expires_at q > now")
    case True
    then have "s1 = s" using assms(6) by (auto simp: usable_quote_id_def q)
    moreover have "books now s" using books_quiet [OF assms(1) _ assms(2)] by (simp add: quiet_def)
    moreover have "same_payment p0 p0" unfolding same_payment_def
      by (rule exI [of _ "p_provider_reference p0"], rule exI [of _ "p_authorization_url p0"], rule exI [of _ "p_fx_quote p0"],
          rule exI [of _ "p_pending_amount p0"], rule exI [of _ "p_funds_available_at p0"]) simp
    ultimately show ?thesis using that assms(3,5) quiet_shifted [OF books_parts(8) [OF assms(1)], of s] by simp
  next
    case False
    then obtain inp rq sa sb where cq: "create_quote cfg now inp s = Inr (rq, sa)"
      and up: "update_payment (p_id p0) (\<lambda>row. row\<lparr>p_fx_quote := Some (q_id rq)\<rparr>) sa = Inr sb"
      and s1: "s1 = merge_metadata (p_transaction p) [(''lateFxRequote'', JBool True), (''originalFxQuoteId'', j_id (q_id q))] sb"
      using assms(6) by (auto simp: usable_quote_id_def q bind_res_Inr_iff sf)
    note qa = create_quote_quiet [OF cq]
    have ba: "books now sa" by (rule books_quiet [OF assms(1) qa assms(2)])
    have pa: "p0 \<in> set (payments sa)" using assms(3) qa by (simp add: quiet_def)
    have bb: "books now sb" by (rule payment_quiet_row [OF ba order_refl pa up]) simp
    note u = update_payment_Inr(1) [OF up pa refl books_parts(2) [OF ba]]
    note po = payments_only [OF u]
    define p1 where "p1 = p0\<lparr>p_fx_quote := Some (q_id rq)\<rparr>"
    have p1_in: "p1 \<in> set (payments sb)" using pa by (auto simp: u set_row_def p1_def image_iff)
    have p1: "same_payment p0 p1" unfolding same_payment_def p1_def
      by (rule exI [of _ "p_provider_reference p0"], rule exI [of _ "p_authorization_url p0"], rule exI [of _ "Some (q_id rq)"],
          rule exI [of _ "p_pending_amount p0"], rule exI [of _ "p_funds_available_at p0"]) simp
    have tb: "row_by t_id (p_transaction p) (transactions sb) = Some t" using assms(5) qa by (simp add: po quiet_def)
    have t_in: "t \<in> set (transactions sb)" "t_id t = p_transaction p" using row_by_Some [OF tb] by simp_all
    have ty: "t_type t = Ty_Payment"
    proof -
      from linked_payment [OF books_parts(2) [OF bb] p1_in] obtain v where "v \<in> set (transactions sb)" "t_id v = p_transaction p1" "t_type v = Ty_Payment" by blast
      moreover have "p_transaction p1 = t_id t" by (simp add: p1_def t_in(2) sf(2))
      ultimately show ?thesis using linked_unique(1) [OF books_parts(2) [OF bb] t_in(1)] by metis
    qed
    have b1: "books now s1" using merge_metadata_books [OF bb order_refl t_in(1) ty] t_in(2) by (simp add: s1)
    define t1 where "t1 = t\<lparr>t_metadata := merge_json (t_metadata t) [(''lateFxRequote'', JBool True), (''originalFxQuoteId'', j_id (q_id q))]\<rparr>"
    have row1: "row_by t_id (p_transaction p) (transactions s1) = Some t1" by (simp add: s1 merge_metadata_def row_by_set_row tb t1_def)
    have same1: "payments s1 = payments sb" "ledger s1 = ledger s" "wallets s1 = wallets s"
      using qa by (simp_all add: s1 merge_metadata_def po quiet_def)
    have "db_le sa sb" by (rule db_leI) (simp_all add: u)
    then have le: "db_le s s1" using db_le_trans [OF quiet_le [OF qa] db_le_trans [OF _ merge_metadata_le]] by (simp add: s1)
    show ?thesis
      by (rule that [OF b1 _ p1 quiet_shifted [OF books_parts(8) [OF assms(1)] same1(2,3) le] row1]) (simp_all add: p1_in same1 t1_def)
  qed
qed

section \<open>Crediting\<close>

lemma same_payment_refl: "same_payment p p"
  unfolding same_payment_def
  by (rule exI [of _ "p_provider_reference p"], rule exI [of _ "p_authorization_url p"], rule exI [of _ "p_fx_quote p"],
      rule exI [of _ "p_pending_amount p"], rule exI [of _ "p_funds_available_at p"]) simp

text \<open>The references a settlement posts besides its fee.\<close>

definition credit_refs :: "string \<Rightarrow> string set" where
  "credit_refs x = {''payment:'' @ x, ''payment:'' @ x @ '':fx-source'', ''payment:'' @ x @ '':fx-target''}"

lemma credit_money_shifted:
  assumes "books c s" and "c \<le> now" and "p0 \<in> set (payments s)" and "same_payment p0 p"
    and "row_by t_id (p_transaction p) (transactions s) = Some t" and "t_type t = Ty_Payment" and "t_status t \<in> set OPEN_STATUSES"
    and "credit_money rg cfg now p t s = Inr ((l, credited, cur), s1)"
  obtains sa p1 t1 refs where "books now sa" "p1 \<in> set (payments sa)" "same_payment p0 p1" "shifted [] (\<lambda>i k. 0) s sa"
    "row_by t_id (p_transaction p) (transactions sa) = Some t1" "t_reference t1 = t_reference t" "t_status t1 = t_status t"
    "shifted refs (at_balance (p_wallet p) (credit_into rg) credited) sa s1" "set refs \<subseteq> credit_refs (t_reference t)" "0 < credited"
    "s1 = sa\<lparr>ledger := ledger s1, fx_quotes := fx_quotes s1\<rparr>"
    "\<forall>q \<in> set (fx_quotes s1). q \<in> set (fx_quotes sa) \<or>
      q_conversion_reference q = Some (''payment:'' @ t_reference t) \<and> \<not> fresh s1 (''payment:'' @ t_reference t @ '':fx-source'')"
proof -
  have claimed: "only_used sa (t_reference t) [] \<and> token (t_reference t)"
    if b: "books now sa" and row: "row_by t_id (p_transaction p) (transactions sa) = Some t1"
      and t1: "t_reference t1 = t_reference t" "t_status t1 = t_status t" and p1: "p1 \<in> set (payments sa)" "same_payment p0 p1" for sa t1 p1
  proof -
    note bb = books_parts [OF b]
    have t_in: "t1 \<in> set (transactions sa)" "t_id t1 = p_transaction p" using row_by_Some [OF row] by simp_all
    from linked_payment [OF bb(2) p1(1)] obtain v where v: "v \<in> set (transactions sa)" "t_id v = p_transaction p1" "t_type v = Ty_Payment" by blast
    have "p_transaction p1 = p_transaction p" using same_payment_fields(2) [OF p1(2)] same_payment_fields(2) [OF assms(4)] by simp
    then have "t_type t1 = Ty_Payment" using v t_in linked_unique(1) [OF bb(2) v(1) t_in(1)] by simp
    then have "(t_reference t, []) \<in> claims sa" using t_in t1 assms(7) unfolding claims_def payment_claims_def by (auto intro!: exI [of _ t1])
    then show ?thesis using bb(7) claims_token [OF bb(2)] by blast
  qed
  show ?thesis
  proof (cases "p_fx_quote p")
    case None
    have bs: "books now s" using books_quiet [OF assms(1) _ assms(2)] by (simp add: quiet_def)
    note c = claimed [OF bs assms(5) refl refl assms(3) same_payment_refl]
    define m where "m = \<lparr>mv_amount = p_amount p, mv_reference = ''payment:'' @ t_reference t, mv_description = ''Payment '' @ t_reference t,
        mv_metadata = [(''transactionId'', j_id (t_id t)), (''paymentId'', j_id (p_id p))]\<rparr>"
    obtain q where dep: "deposit_within now (p_wallet p) m (credit_into rg) s = Inr (q, s1)" and cr: "credited = p_amount p"
      using assms(8) None by (auto simp: credit_money_def m_def bind_res_Inr_iff)
    have fr: "fresh s (mv_reference m)"
      unfolding m_def by (simp, rule only_used_fresh) (use c in \<open>auto simp: service_mentions\<close>)
    note mv = deposit_within_moved [OF books_parts(1) [OF bs] fr dep]
    obtain ld where "s1 = s\<lparr>ledger := ld\<rparr>" using mv(1) unfolding moved_def only_ledger_def by blast
    then show ?thesis
      using that [OF bs assms(3) same_payment_refl quiet_shifted [OF books_parts(8) [OF bs]] assms(5) refl refl, of "[mv_reference m]"]
        moved_shifted [OF mv(1)] mv(2) by (simp add: m_def cr credit_refs_def)
  next
    case (Some fxq)
    obtain quote sa cv where uq: "usable_quote_id cfg now p fxq s = Inr (quote, sa)"
      and dep: "deposit_with_conversion_within now (p_wallet p)
        \<lparr>cq_quote = quote, cq_reference = ''payment:'' @ t_reference t, cq_description = ''Payment '' @ t_reference t\<rparr> (credit_into rg) sa = Inr (cv, s1)"
      and cr: "credited = q_target_amount (cr_quote cv)"
      using assms(8) Some by (auto simp: credit_money_def bind_res_Inr_iff)
    from usable_quote_books [OF assms(1-5) uq] obtain p1 t1 where u: "books now sa" "p1 \<in> set (payments sa)" "same_payment p0 p1"
      "shifted [] (\<lambda>i k. 0) s sa" "row_by t_id (p_transaction p) (transactions sa) = Some t1" "t_reference t1 = t_reference t" "t_status t1 = t_status t" .
    note c = claimed [OF u(1,5,6,7,2,3)] and bb = books_parts [OF u(1)]
    have own: "only_used sa (t_reference t) []" and tok: "token (t_reference t)" using c by simp_all
    note m = service_mentions(14,15) [OF tok]
    have fr: "fresh sa ((''payment:'' @ t_reference t) @ '':fx-source'')" "fresh sa ((''payment:'' @ t_reference t) @ '':fx-target'')"
      by (rule only_used_fresh [OF own]; use m tok in simp)+
    note cs = conversion_shifted [OF bb(1,6) fr dep]
    have used: "\<not> fresh s1 (''payment:'' @ t_reference t @ '':fx-source'')" using shifted_fresh [OF cs(1)] by simp
    show ?thesis
      by (rule that [OF u(1-7) cs(1) [folded cr] _ cs(2) [folded cr] cs(3)]) (use cs(4) used in \<open>auto simp: credit_refs_def\<close>)
  qed
qed

lemma payment_transition_claims:
  assumes "linked s" and "t \<in> set (transactions s)" and "t_type t = Ty_Payment" and "transition (t_id t) st patch s = Inr (t', s')"
    and "st \<notin> set OPEN_STATUSES" and "(y, rs) \<in> claims s'"
  shows "(y, rs) \<in> claims s \<and> y \<noteq> t_reference t"
proof -
  have k: "holds_kept s s'" using holds_kept_transition [OF assms(1,2) _ assms(4)] assms(3) by simp
  note kind = linked_reference [OF assms(1)] and tk = linked_reference(1) [OF assms(1,2)]
  consider "(y, rs) \<in> payment_claims s'" | "(y, rs) \<in> refund_claims s" | "(y, rs) \<in> payout_claims s"
    using assms(6) holds_kept_claims [OF assms(1) k] by (auto simp: claims_def)
  then show ?thesis
  proof cases
    case 1
    have l: "linked s'" by (rule linked_transition [OF assms(1,4,5)])
    from 1 obtain u where u: "u \<in> set (transactions s')" "y = t_reference u" "t_status u \<in> set OPEN_STATUSES" by (auto simp: payment_claims_def)
    from assms(4) obtain v where v: "row_by t_id (t_id t) (transactions s') = Some v" "t_status v = st" "t_reference v = t_reference t"
    proof (cases rule: transition_Inr)
      case (1 w)
      then have "w = t" using linked_row [OF assms(1)] linked_unique(1) [OF assms(1)] assms(2) by metis
      then show ?thesis using that 1 by (simp add: row_by_set_row apply_patch_def)
    qed
    have "u \<noteq> v" using u(3) v(2) assms(5) by auto
    then have "t_reference u \<noteq> t_reference t" using linked_unique(2) [OF l u(1)] row_by_Some [OF v(1)] v(3) by metis
    moreover have "(y, rs) \<in> claims s" using 1 payment_claims_transition [OF assms(1,4,5)] by (auto simp: claims_def)
    ultimately show ?thesis using u(2) by simp
  next
    case 2
    then obtain r where "r \<in> set (refunds s)" "y = r_reference r" by (auto simp: refund_claims_def)
    then show ?thesis using 2 kind(2) tk kinds_differ [of "''rfd_''" y "''trx_''"] by (auto simp: claims_def)
  next
    case 3
    then obtain p where "p \<in> set (payouts s)" "y = po_reference p" using payout_claims_row by blast
    then show ?thesis using 3 kind(3) tk kinds_differ [of "''pyt_''" y "''trx_''"] by (auto simp: claims_def)
  qed
qed

lemma credit_payment_Inr:
  assumes "credit_payment rg cfg now p s = Inr (out, s')"
  obtains (other) "s' = s" "out \<noteq> Credited"
  | (credited) t l credited cur s1 patch t' s2 s3 f s4 where
      "row_by t_id (p_transaction p) (transactions s) = Some t" "t_status t \<in> set OPEN_STATUSES"
      "credit_money rg cfg now p t s = Inr ((l, credited, cur), s1)" "transition (t_id t) Successful patch s1 = Inr (t', s2)"
      "take_fee rg now p t (settlement_fee t credited) s2 = Inr s3" "update_payment (p_id p) f s3 = Inr s4" "quiet s4 s'" "out = Credited"
      "\<And>q. p_id (f q) = p_id q \<and> p_transaction (f q) = p_transaction q \<and> p_wallet (f q) = p_wallet q \<and> p_amount (f q) = p_amount q \<and>
        p_pending_amount (f q) = (if hold_ms rg > 0 then credited - settlement_fee t credited else 0)"
proof -
  obtain t where t: "row_by t_id (p_transaction p) (transactions s) = Some t"
    using assms by (auto simp: credit_payment_def lock_transaction_def bind_res_Inr_iff)
  show ?thesis
  proof (cases "t_status t = Successful \<or> t_status t \<notin> set OPEN_STATUSES")
    case True
    then have "s' = s \<and> out \<noteq> Credited" using assms by (auto simp: credit_payment_def lock_transaction_def t split: if_splits)
    then show ?thesis using other by blast
  next
    case False
    have ev: "quiet s4 (add_event n ty a i m s4)" for s4 n ty a i m by (rule quiet_event)
    obtain l credited cur s1 patch t' s2 s3 s4 where 1: "credit_money rg cfg now p t s = Inr ((l, credited, cur), s1)"
      "transition (t_id t) Successful patch s1 = Inr (t', s2)" "take_fee rg now p t (settlement_fee t credited) s2 = Inr s3"
      "update_payment (p_id p) (\<lambda>row. row\<lparr>p_pending_amount := (if hold_ms rg > 0 then credited - settlement_fee t credited else 0),
             p_funds_available_at := Some (now + hold_ms rg)\<rparr>) s3 = Inr s4" "quiet s4 s'" "out = Credited"
      using assms False ev by (auto simp: credit_payment_def lock_transaction_def t Let_def bind_res_Inr_iff)
    show ?thesis by (rule credited [OF t _ 1]) (use False in simp_all)
  qed
qed

lemma take_fee_moved:
  assumes "wallets_inv s" and "fresh s (''fee:payment:'' @ t_reference t)" and "0 \<le> fee" and "take_fee rg now p t fee s = Inr s'"
  obtains refs where "set refs \<subseteq> {''fee:payment:'' @ t_reference t}" "moved refs (at_balance (p_wallet p) (credit_into rg) (- fee)) s s'"
proof (cases "fee > 0")
  case True
  then obtain q where c: "collect_fee_within now (p_wallet p) (credit_into rg)
          \<lparr>mv_amount = fee, mv_reference = ''fee:payment:'' @ t_reference t, mv_description = ''Fee for payment '' @ t_reference t,
           mv_metadata = [(''transactionId'', j_id (t_id t)), (''paymentId'', j_id (p_id p))]\<rparr> s = Inr (q, s')"
    using assms(4) by (auto simp: take_fee_def bind_res_Inr_iff)
  show ?thesis using that [of "[''fee:payment:'' @ t_reference t]"] collect_fee_within_moved [OF assms(1) _ c] assms(2) by simp
next
  case False
  then have "s' = s" "fee = 0" using assms(3,4) by (simp_all add: take_fee_def)
  then show ?thesis using that [of "[]"] moved_cong [OF moved_none [OF wallets_inv_ok [OF assms(1)]]] by (simp add: at_balance_def)
qed

lemma credit_payment_books:
  assumes "books c s" and "c \<le> now" and "p0 \<in> set (payments s)" and "same_payment p0 p"
    and "credit_payment rg cfg now p s = Inr (out, s')"
  shows "books now s'"
  using assms(5)
proof (cases rule: credit_payment_Inr)
  case other
  then show ?thesis using books_quiet [OF assms(1) _ assms(2)] by (simp add: quiet_def)
next
  case (credited t l credited cur s1 patch t' s2 s3 f s4)
  note sf = same_payment_fields [OF assms(4)] and b0 = books_parts [OF assms(1)]
  have t0: "t \<in> set (transactions s)" "t_id t = p_transaction p" using row_by_Some [OF credited(1)] by simp_all
  have ty: "t_type t = Ty_Payment"
  proof -
    from linked_payment [OF b0(2) assms(3)] obtain v where v: "v \<in> set (transactions s)" "t_id v = p_transaction p0" "t_type v = Ty_Payment" by blast
    then show ?thesis using linked_unique(1) [OF b0(2) v(1) t0(1)] t0(2) sf(2) by simp
  qed
  define fee where "fee = settlement_fee t credited"
  define k where "k = credit_into rg"
  from credit_money_shifted [OF assms(1-4) credited(1) ty credited(2,3)] obtain sa p1 t1 refs where
    ba: "books now sa" and p1: "p1 \<in> set (payments sa)" "same_payment p0 p1" and sha: "shifted [] (\<lambda>i k. 0) s sa" and t1: "row_by t_id (p_transaction p) (transactions sa) = Some t1"
    "t_reference t1 = t_reference t" "t_status t1 = t_status t" and sh1: "shifted refs (at_balance (p_wallet p) k credited) sa s1"
    and refs: "set refs \<subseteq> credit_refs (t_reference t)" and pos: "0 < credited" and s1: "s1 = sa\<lparr>ledger := ledger s1, fx_quotes := fx_quotes s1\<rparr>"
    and quotes: "\<forall>q \<in> set (fx_quotes s1). q \<in> set (fx_quotes sa) \<or>
      q_conversion_reference q = Some (''payment:'' @ t_reference t) \<and> \<not> fresh s1 (''payment:'' @ t_reference t @ '':fx-source'')"
    unfolding k_def .
  note b = books_parts [OF ba]
  have pf: "p_id p1 = p_id p" "p_transaction p1 = p_transaction p" "p_wallet p1 = p_wallet p"
    using sf same_payment_fields [OF p1(2)] by simp_all
  have t1_in: "t1 \<in> set (transactions sa)" "t_id t1 = p_transaction p" using row_by_Some [OF t1(1)] by simp_all
  obtain v where v: "v \<in> set (transactions sa)" "t_id v = p_transaction p1" "t_type v = Ty_Payment"
    "t_status v \<in> set OPEN_STATUSES \<Longrightarrow> p_pending_amount p1 = 0 \<and> p_funds_available_at p1 = None"
    using linked_payment [OF b(2) p1(1)] by metis
  have "v = t1" using linked_unique(1) [OF b(2) v(1) t1_in(1)] v(2) t1_in(2) pf(2) by simp
  then have ty1: "t_type t1 = Ty_Payment" and open1: "p_pending_amount p1 = 0" "p_funds_available_at p1 = None"
    using v(3,4) credited(2) t1(3) by simp_all
  have fee0: "0 \<le> fee" using linked_txn(5) [OF b0(2) t0(1)] pos by (simp add: fee_def settlement_fee_def)
  have tabs1: "wallets s1 = wallets sa" "transactions s1 = transactions sa" "payments s1 = payments sa" "refunds s1 = refunds sa"
    "payouts s1 = payouts sa" "next_id s1 = next_id sa" using arg_cong [OF s1, of wallets] arg_cong [OF s1, of transactions]
    arg_cong [OF s1, of payments] arg_cong [OF s1, of refunds] arg_cong [OF s1, of payouts] arg_cong [OF s1, of next_id] by simp_all
  have l1: "linked s1" by (rule linked_cong [OF b(2)]) (simp_all add: tabs1)
  have tid: "t_id t = p_transaction p" by (rule t0(2))
  have tr: "transition (t_id t1) Successful patch s1 = Inr (t', s2)" using credited(4) tid t1_in(2) by simp
  have t1_1: "t1 \<in> set (transactions s1)" by (simp add: tabs1 t1_in)
  note f2 = transition_frame [OF tr]
  have l2: "linked s2" by (rule linked_transition [OF l1 tr]) (simp add: OPEN_STATUSES_def)
  have sh2: "shifted refs (at_balance (p_wallet p) k credited) sa s2" by (rule shifted_quiet [OF sh1]) (simp_all add: f2)
  have inv2: "wallets_inv s2" by (rule shifted_wallets [OF sh2 b(1)])
  have claim: "(t_reference t, []) \<in> claims sa"
    unfolding claims_def payment_claims_def using t1_in(1) t1(2,3) ty1 credited(2) by (auto intro!: exI [of _ t1])
  have own: "only_used sa (t_reference t) []" and tok: "token (t_reference t)" using b(7) claim claims_token [OF b(2) claim] by blast+
  note m = service_mentions(2,11,14,15) [OF tok]
  have fr_fee: "fresh s2 (''fee:payment:'' @ t_reference t)"
  proof -
    have "fresh sa (''fee:payment:'' @ t_reference t)" by (rule only_used_fresh [OF own]) (use m tok in simp_all)
    moreover have "''fee:payment:'' @ t_reference t \<notin> set refs" using refs by (auto simp: credit_refs_def)
    ultimately show ?thesis using shifted_fresh [OF sh2] by blast
  qed
  from take_fee_moved [OF inv2 fr_fee fee0 credited(5) [folded fee_def]] obtain refs' where
    refs': "set refs' \<subseteq> {''fee:payment:'' @ t_reference t}" and mv: "moved refs' (at_balance (p_wallet p) k (- fee)) s2 s3" unfolding k_def .
  have only: "only_ledger s2 s3" using mv by (simp add: moved_def)
  note tabs3 = only_ledger_tables [OF only]
  have l3: "linked s3" by (rule linked_move [OF l2 only])
  have p3: "p1 \<in> set (payments s3)" using p1(1) by (simp add: tabs3 f2 tabs1)
  note u = update_payment_Inr [OF credited(6) p3 pf(1) l3]
  have u1: "s4 = s3\<lparr>payments := set_row p_id (p_id p1) f (payments s3)\<rparr>" using u(1) pf(1) by simp
  have "status_of s3 (p_transaction p1) = status_of s2 (t_id t1)" by (simp add: status_of_def tabs3 t1_in(2) pf(2))
  then have "status_of s3 (p_transaction p1) = Some Successful" using status_after_transition(1) [OF tr] by simp
  then have st3: "status_of s3 (p_transaction p1) \<notin> Some ` set OPEN_STATUSES" by (auto simp: OPEN_STATUSES_def)
  have new: "p_pending_amount (f p1) = (if k = Pending_Balance then credited - fee else 0)"
    using credited(9) [of p1] by (simp add: k_def credit_into_def fee_def)
  have *: "linked s4 \<and> pending_due s4 i = pending_due s3 i + (if p_wallet p = i then p_pending_amount (f p1) else 0) \<and> db_le s3 s4 \<and>
      (\<forall>q \<in> set (payments s4). q = f p1 \<or> q \<in> set (payments s3) \<and> p_id q \<noteq> p_id p1)" for i
    using payment_row_changed [OF l3 p3 u1 _ u(2)] st3 credited(9) open1(1) by (simp add: pf)
  note po = payments_only [OF u1]
  let ?f = "\<lambda>j b. at_balance (p_wallet p) k credited j b + at_balance (p_wallet p) k (- fee) j b"
  have sh: "shifted (refs @ refs') ?f sa s4"
    by (rule shifted_quiet [OF shifted_trans [OF sh2 moved_shifted [OF mv]] po(1,2)]) (use * in blast)
  have tr_type: "t_type t1 \<notin> {Ty_Refund, Ty_Withdrawal}" by (simp add: ty1)
  have kk: "holds_kept sa s4"
  proof -
    have "holds_kept sa s1" by (rule holds_kept_refl [OF b(2) tabs1(2,4,5)])
    from holds_kept_trans [OF l1 this holds_kept_transition [OF l1 t1_1 tr_type tr]]
    show ?thesis by (simp add: holds_kept_def po tabs3)
  qed
  have l4: "linked s4" using * by blast
  have b4: "books now s4"
  proof (rule books_shift [OF ba sh _ l4])
    show "refs_of (t_reference t) (refs @ refs')" using refs refs' m by (auto simp: refs_of_def credit_refs_def)
    have "committed_amount (p_id q) s4 \<le> p_amount q" if "q \<in> set (payments s4)" for q
    proof -
      have "q = f p1 \<or> q \<in> set (payments sa)" using * that by (auto simp: tabs3 f2 tabs1)
      then have "\<exists>q0 \<in> set (payments sa). p_id q0 = p_id q \<and> p_amount q0 = p_amount q"
        using p1(1) credited(9) [of p1] by (elim disjE) (intro bexI [of _ p1], simp_all, blast)
      then show ?thesis using b(3) holds_kept_committed(1) [OF b(2) l4 kk, of "p_id q"] unfolding refunds_within_def by metis
    qed
    then show "refunds_within s4" by (simp add: refunds_within_def)
    have "pending_due s3 i = pending_due sa i" for i by (simp add: pending_due_def tabs3 f2 tabs1)
    then show "pending_due s4 i = pending_due sa i + ?f i Pending_Balance" for i
      using * [of i] new by (auto simp: at_balance_def)
    show "hold_due s4 i = hold_due sa i + ?f i Reserved_Balance" for i
      using holds_kept_due [OF b(2) kk] by (simp add: at_balance_def k_def credit_into_def)
    have cl4: "claims s4 = claims s2" by (simp add: claims_def payment_claims_def refund_claims_def payout_claims_def status_of_def po tabs3)
    have cl1: "claims s1 = claims sa" by (rule same_rows(1) [OF b(2) l1 tabs1(2-5)])
    show "(y, rs) \<in> claims sa \<and> (refs @ refs' = [] \<or> y \<noteq> t_reference t) \<or> only_used s4 y rs" if "(y, rs) \<in> claims s4" for y rs
      using payment_transition_claims [OF l1 t1_1 ty1 tr _ that [unfolded cl4]] by (simp add: cl1 t1(2) OPEN_STATUSES_def)
    show "settled_once now s4"
    proof (rule settled_once_shift [OF ba order_refl sh])
      show "settlement_ref i \<notin> set (refs @ refs')" for i using refs refs' by (auto simp: credit_refs_def settlement_ref_def)
      fix q assume "q \<in> set (payments s4)"
      then consider "q = f p1" | "q \<in> set (payments sa)" using * by (auto simp: tabs3 f2 tabs1)
      then show "next_id sa \<le> p_id q \<or> fresh sa (settlement_ref (p_id q)) \<or> (\<exists>p \<in> set (payments sa). p_id p = p_id q \<and>
            p_pending_amount p = p_pending_amount q \<and> p_funds_available_at p = p_funds_available_at q)"
      proof cases
        case 1
        have "fresh sa (settlement_ref (p_id p1))" using b(5) p1(1) open1(2) unfolding settled_once_def by force
        then show ?thesis using 1 credited(9) [of p1] by simp
      qed blast
    qed
    have fx: "fx_quotes s4 = fx_quotes s1" by (simp add: po tabs3 f2)
    show "q_conversion_reference q = None \<or> q \<in> set (fx_quotes sa) \<or> (\<forall>r. q_conversion_reference q = Some r \<longrightarrow> \<not> fresh s4 (r @ '':fx-source''))"
      if "q \<in> set (fx_quotes s4)" for q
    proof -
      have "\<not> fresh s1 r \<Longrightarrow> \<not> fresh s4 r" for r using shifted_fresh [OF sh1] shifted_fresh [OF sh] by auto
      note used = this
      from quotes that consider "q \<in> set (fx_quotes sa)"
        | "q_conversion_reference q = Some (''payment:'' @ t_reference t)" "\<not> fresh s1 (''payment:'' @ t_reference t @ '':fx-source'')"
        unfolding fx by blast
      then show ?thesis
      proof cases
        case 2
        then show ?thesis using used [OF 2(2)] by simp
      qed simp
    qed
    have kn: "known s4 = known sa"
    proof -
      have "known s4 = known s2" by (simp add: known_def po tabs3)
      also have "... = known s1" by (rule f2(9))
      also have "... = known sa" by (simp add: known_def tabs1)
      finally show ?thesis .
    qed
    then show "known sa \<subseteq> known s4" by simp
    show "refs @ refs' = [] \<or> t_reference t \<in> known s4 \<or> (\<forall>r \<in> set (refs @ refs'). \<forall>y. token y \<longrightarrow> \<not> mentions r y)"
      using claims_known [OF claim] kn by simp
  qed
  show ?thesis by (rule books_quiet [OF b4 credited(7)]) simp
qed

end
