(* ===== verification/Refund_Books.thy ===== *)
theory Refund_Books
  imports Payment_Rows
begin

text \<open>
  Every database transaction of \<open>refunds.service.ts\<close> keeps the books.
\<close>

section \<open>The rows of refunds\<close>

lemma refund_others:
  assumes "linked s" and "r \<in> set (refunds s)"
  shows "x \<in> set (refunds s) \<Longrightarrow> r_id x \<noteq> r_id r \<Longrightarrow> r_transaction x \<noteq> r_transaction r \<and> r_reference x \<noteq> r_reference r"
    and "p \<in> set (payouts s) \<Longrightarrow> po_transaction p \<noteq> r_transaction r"
    and "q \<in> set (payments s) \<Longrightarrow> p_transaction q \<noteq> r_transaction r"
proof -
  from linked_refund [OF assms] obtain t where t: "t \<in> set (transactions s)" "t_id t = r_transaction r" "t_type t = Ty_Refund" by blast
  show "x \<in> set (refunds s) \<Longrightarrow> r_id x \<noteq> r_id r \<Longrightarrow> r_transaction x \<noteq> r_transaction r \<and> r_reference x \<noteq> r_reference r"
    using assms by (auto simp: linked_def distinct_map inj_on_def)
  show "po_transaction p \<noteq> r_transaction r" if "p \<in> set (payouts s)"
    by (rule linked_payout [OF assms(1) that]) (use linked_differ [OF assms(1) _ t(1)] t in force)
  show "p_transaction q \<noteq> r_transaction r" if "q \<in> set (payments s)"
    by (rule linked_payment [OF assms(1) that]) (use linked_differ [OF assms(1) _ t(1)] t in force)
qed

definition committed_part :: "db \<Rightarrow> uuid \<Rightarrow> refund \<Rightarrow> int" where
  "committed_part s p r = (if r_payment r = p \<and> status_in (r_transaction r) [Processing, Successful] s then r_amount r else 0)"

lemma committed_amount_alt: "committed_amount p s = sum_list (map (committed_part s p) (refunds s))"
proof -
  have "sum_list (map r_amount (filter P (filter Q rs))) = sum_list (map (\<lambda>r. if P r \<and> Q r then r_amount r else 0) rs)"
    for P Q and rs :: "refund list"
    by (induction rs) auto
  then show ?thesis by (simp add: committed_amount_def refunds_in_def committed_part_def [abs_def])
qed

lemma refund_transition_due:
  assumes "linked s" and "r \<in> set (refunds s)" and "transition (r_transaction r) st patch s = Inr (t', s')"
  shows "hold_due s' i = hold_due s i + refund_hold s' i r - refund_hold s i r"
proof -
  note f = transition_frame [OF assms(3)] and row = row_after_transition [OF assms(3)]
  have "sum_list (map (payout_hold s' i) (payouts s)) = sum_list (map (payout_hold s i) (payouts s))"
    by (rule sum_list_same) (use row refund_others(2) [OF assms(1,2)] in \<open>simp add: payout_hold_def\<close>)
  moreover have "sum_list (map (refund_hold s' i) (refunds s)) = sum_list (map (refund_hold s i) (refunds s)) + refund_hold s' i r - refund_hold s i r"
  proof (rule sum_list_change [where key = r_id])
    show "distinct (map r_id (refunds s))" using assms(1) by (simp add: linked_def)
    show "r \<in> set (refunds s)" by (rule assms(2))
    fix x assume "x \<in> set (refunds s)" "r_id x \<noteq> r_id r"
    then show "refund_hold s' i x = refund_hold s i x"
      using refund_others(1) [OF assms(1,2)] row by (simp add: refund_hold_def status_of_def)
  qed
  ultimately show ?thesis by (simp add: hold_due_def f)
qed

text \<open>Completing or failing a refund never commits more.\<close>

lemma refund_transition_committed:
  assumes "linked s" and "r \<in> set (refunds s)" and "transition (r_transaction r) st patch s = Inr (t', s')" and "st \<notin> set OPEN_STATUSES"
    and "status_of s (r_transaction r) = Some Processing"
  shows "committed_amount p s' \<le> committed_amount p s"
proof -
  have l': "linked s'" by (rule linked_transition [OF assms(1,3,4)])
  note f = transition_frame [OF assms(3)] and stat = status_after_transition(2) [OF assms(3)]
  have "sum_list (map (committed_part s' p) (refunds s)) =
      sum_list (map (committed_part s p) (refunds s)) + committed_part s' p r - committed_part s p r"
  proof (rule sum_list_change [where key = r_id])
    show "distinct (map r_id (refunds s))" using assms(1) by (simp add: linked_def)
    show "r \<in> set (refunds s)" by (rule assms(2))
    fix x assume "x \<in> set (refunds s)" "r_id x \<noteq> r_id r"
    then have "status_of s' (r_transaction x) = status_of s (r_transaction x)"
      using refund_others(1) [OF assms(1,2)] stat by simp
    then show "committed_part s' p x = committed_part s p x" by (simp add: committed_part_def status_in_iff assms(1) l')
  qed
  moreover have "0 < r_amount r" using assms(1,2) by (auto simp: linked_def refund_linked_def)
  then have "committed_part s' p r \<le> committed_part s p r"
    using assms(5) by (simp add: committed_part_def status_in_iff assms(1))
  ultimately show ?thesis by (simp add: committed_amount_alt f)
qed

lemma refund_transition_claims:
  assumes "linked s" and "r \<in> set (refunds s)" and "transition (r_transaction r) st patch s = Inr (t', s')" and "st \<notin> set OPEN_STATUSES"
    and "(y, rs) \<in> claims s'"
  shows "(y, rs) \<in> claims s \<and> y \<noteq> r_reference r"
proof -
  note f = transition_frame [OF assms(3)] and stat = status_after_transition [OF assms(3)]
  note kind = linked_reference [OF assms(1)]
  have rk: "kind_of_ref ''rfd_'' (r_reference r)" by (rule kind(2) [OF assms(2)])
  consider "(y, rs) \<in> payment_claims s'" | "(y, rs) \<in> refund_claims s'" | "(y, rs) \<in> payout_claims s'"
    using assms(5) by (auto simp: claims_def)
  then show ?thesis
  proof cases
    case 1
    then have c: "(y, rs) \<in> payment_claims s" using payment_claims_transition [OF assms(1,3,4)] by blast
    then have "kind_of_ref ''trx_'' y" using kind(1) by (auto simp: payment_claims_def)
    then show ?thesis using c rk kinds_differ [of "''trx_''" y "''rfd_''"] by (auto simp: claims_def)
  next
    case 2
    then obtain x where x: "x \<in> set (refunds s)" "y = r_reference x" "rs = [''refund-hold:'' @ y]" "status_of s' (r_transaction x) = Some Processing"
      by (auto simp: refund_claims_def f)
    then have "r_transaction x \<noteq> r_transaction r" using stat(1) assms(4) by (auto simp: OPEN_STATUSES_def)
    then have "r_id x \<noteq> r_id r" using linked_rows(2) [OF assms(1)] assms(2) x(1) by (metis option.inject)
    then have o: "r_reference x \<noteq> r_reference r" "status_of s (r_transaction x) = Some Processing"
      using refund_others(1) [OF assms(1,2) x(1)] stat(2) x(4) by auto
    then show ?thesis using x by (auto simp: claims_def refund_claims_def)
  next
    case 3
    have "payout_claims s' = payout_claims s"
      unfolding payout_claims_alt f by (rule SUP_cong [OF refl]) (simp add: stat(2) refund_others(2) [OF assms(1,2)])
    then obtain x where x: "x \<in> set (payouts s)" "(y, rs) \<in> payout_claims s" "y = po_reference x"
      using 3 payout_claims_row by metis
    then show ?thesis using kind(3) [OF x(1)] rk kinds_differ [of "''pyt_''" y "''rfd_''"] by (auto simp: claims_def)
  qed
qed

section \<open>Settling\<close>

lemma books_refund_settled:
  assumes "books c s" and "c \<le> c'" and "r \<in> set (refunds s)" and "status_of s (r_transaction r) = Some Processing"
    and "shifted refs f s s1" and "linked s1" and "transactions s1 = transactions s" and "refunds s1 = refunds s"
    and "payouts s1 = payouts s" and "fx_quotes s1 = fx_quotes s"
    and "\<And>p. p \<in> set (payments s1) \<Longrightarrow> \<exists>p0 \<in> set (payments s). p_id p0 = p_id p \<and> p_amount p0 = p_amount p"
    and "settled_once c' s1"
    and "transition (r_transaction r) st patch s1 = Inr (t', s2)" and "st \<notin> set OPEN_STATUSES"
    and "refs_of (r_reference r) refs"
    and "\<And>i. pending_due s1 i = pending_due s i + f i Pending_Balance" and "\<And>i. f i Reserved_Balance = - refund_hold s i r"
  shows "books c' s2"
proof -
  note b = books_parts [OF assms(1)] and f = transition_frame [OF assms(13)]
  have r1: "r \<in> set (refunds s1)" using assms(3,8) by simp
  have st1: "status_of s1 i = status_of s i" for i by (simp add: status_of_def assms(7))
  have l2: "linked s2" by (rule linked_transition [OF assms(6,13,14)])
  have sh: "shifted refs f s s2" by (rule shifted_quiet [OF assms(5)]) (simp_all add: f)
  have k: "holds_kept s s1" by (rule holds_kept_refl [OF b(2) assms(7,8,9)])
  show ?thesis
  proof (rule books_shift [OF assms(1) sh assms(15) l2])
    have "committed_amount (p_id p) s2 \<le> p_amount p" if p: "p \<in> set (payments s1)" for p
    proof -
      from assms(11) [OF p] obtain p0 where "p0 \<in> set (payments s)" "p_id p0 = p_id p" "p_amount p0 = p_amount p" by blast
      then have "committed_amount (p_id p) s \<le> p_amount p" using b(3) unfolding refunds_within_def by metis
      moreover have "committed_amount (p_id p) s2 \<le> committed_amount (p_id p) s"
        using refund_transition_committed [OF assms(6) r1 assms(13,14), of "p_id p"] holds_kept_committed(1) [OF b(2) assms(6) k] assms(4)
        by (simp add: st1)
      ultimately show ?thesis by simp
    qed
    then show "refunds_within s2" by (simp add: refunds_within_def f)
    show "pending_due s2 i = pending_due s i + f i Pending_Balance" for i
      using assms(16) pending_due_same [OF f(3)] by simp
    have "refund_hold s2 i r = 0" for i
      using status_after_transition(1) [OF assms(13)] assms(14) by (auto simp: refund_hold_def OPEN_STATUSES_def)
    moreover have "refund_hold s1 i r = refund_hold s i r" for i by (simp add: refund_hold_def st1)
    ultimately show "hold_due s2 i = hold_due s i + f i Reserved_Balance" for i
      using refund_transition_due [OF assms(6) r1 assms(13), of i] holds_kept_due [OF b(2) k, of i] assms(17) by simp
    have fr: "fresh s2 = fresh s1" by (rule ext) (simp add: fresh_def f)
    show "settled_once c' s2" using assms(12) by (simp add: settled_once_def fr f)
    have "claims s1 = claims s" using holds_kept_claims [OF b(2) k] by (simp add: claims_def payment_claims_def assms(7))
    then show "(y, rs) \<in> claims s \<and> (refs = [] \<or> y \<noteq> r_reference r) \<or> only_used s2 y rs" if "(y, rs) \<in> claims s2" for y rs
      using refund_transition_claims [OF assms(6) r1 assms(13,14) that] by blast
    have "known s1 = known s" by (simp add: known_def assms(7-9))
    moreover have "r_reference r \<in> known s" using assms(3) by (simp add: known_def)
    ultimately show "known s \<subseteq> known s2" "refs = [] \<or> r_reference r \<in> known s2 \<or> (\<forall>r \<in> set refs. \<forall>y. token y \<longrightarrow> \<not> mentions r y)"
      by (simp_all add: f(9))
  qed (simp add: f assms(10))
qed

section \<open>Completing\<close>

text \<open>The accounts a completion posts to are system accounts.\<close>

definition system_accounts :: "db \<Rightarrow> uuid \<times> refund_fx_accounts option \<Rightarrow> bool" where
  "system_accounts s accts \<longleftrightarrow> (\<exists>sa. is_system s sa (fst accts)) \<and>
     (case snd accts of None \<Rightarrow> True | Some x \<Rightarrow>
       (\<forall>i \<in> {xa_wallet_position x, xa_wallet_revenue x, xa_charged_position x, xa_charged_clearing x}. \<exists>sa. is_system s sa i))"

lemma system_accounts_le: "system_accounts s a \<Longrightarrow> db_le s s' \<Longrightarrow> ledger_ok s \<Longrightarrow> system_accounts s' a"
  using is_system_le [of s _ _ s'] by (fastforce simp: system_accounts_def split: option.splits)

lemma refund_accounts_system:
  assumes "ledger_ok s" and "refund_accounts r s = Inr (accts, s')"
  shows "system_accounts s' accts" and "ledger_move s s'"
proof -
  obtain a s1 where 1: "ensure_account (external_clearing (r_wallet_currency r)) s = Inr (a, s1)"
    using assms(2) by (auto simp: refund_accounts_def bind_res_Inr_iff)
  note e1 = ensure_account_effect(2) [OF assms(1) 1] and ok1 = ensure_account_ok [OF assms(1) 1]
  have "system_accounts s' accts \<and> ledger_move s s'"
  proof (cases "r_currency r = r_wallet_currency r")
    case True
    then have "accts = (la_id a, None)" "s' = s1" using assms(2) by (auto simp: refund_accounts_def 1)
    then show ?thesis using e1 ensure_account_move [OF 1] by (auto simp: system_accounts_def)
  next
    case False
    then obtain wp s2 wr s3 cp s4 cc where
      2: "ensure_account (fx_position (r_wallet_currency r)) s1 = Inr (wp, s2)"
      and 3: "ensure_account (fx_revenue (r_wallet_currency r)) s2 = Inr (wr, s3)"
      and 4: "ensure_account (fx_position (r_currency r)) s3 = Inr (cp, s4)"
      and 5: "ensure_account (external_clearing (r_currency r)) s4 = Inr (cc, s')"
      and accts: "accts = (la_id a, Some \<lparr>xa_wallet_position = la_id wp, xa_wallet_revenue = la_id wr,
          xa_charged_position = la_id cp, xa_charged_clearing = la_id cc\<rparr>)"
      using assms(2) by (auto simp: refund_accounts_def 1 bind_res_Inr_iff)
    note ok2 = ensure_account_ok [OF ok1 2]
    note ok3 = ensure_account_ok [OF ok2 3]
    note ok4 = ensure_account_ok [OF ok3 4]
    note le5 = ensure_account_le [OF 5]
    note le4 = db_le_trans [OF ensure_account_le [OF 4] le5]
    note le3 = db_le_trans [OF ensure_account_le [OF 3] le4]
    note le2 = db_le_trans [OF ensure_account_le [OF 2] le3]
    have "is_system s' (external_clearing (r_wallet_currency r)) (la_id a)" "is_system s' (fx_position (r_wallet_currency r)) (la_id wp)"
      "is_system s' (fx_revenue (r_wallet_currency r)) (la_id wr)" "is_system s' (fx_position (r_currency r)) (la_id cp)"
      "is_system s' (external_clearing (r_currency r)) (la_id cc)"
      using is_system_le [OF e1 le2 ok1] is_system_le [OF ensure_account_effect(2) [OF ok1 2] le3 ok2]
        is_system_le [OF ensure_account_effect(2) [OF ok2 3] le4 ok3] is_system_le [OF ensure_account_effect(2) [OF ok3 4] le5 ok4]
        ensure_account_effect(2) [OF ok4 5] by blast+
    then have "system_accounts s' accts" by (auto simp: system_accounts_def accts)
    moreover have "ledger_move s s'"
      using 1 2 3 4 5 [THEN ensure_account_move] ledger_move_trans ensure_account_move by meson
    ultimately show ?thesis by blast
  qed
  then show "system_accounts s' accts" "ledger_move s s'" by blast+
qed

lemma refund_wallet_leg_moved:
  assumes "wallets_inv s" and "w \<in> set (wallets s)" and "system_accounts s (c, fx)" and "fresh s (''refund:'' @ r_reference r)"
    and "post_in now (refund_wallet_leg r w c fx) s = Inr (q, s')"
  shows "moved [''refund:'' @ r_reference r] (at_balance (w_id w) Reserved_Balance (- r_wallet_debit r)) s s'"
proof -
  define g where "g i = credit_net (pi_entries (refund_wallet_leg r w c fx)) i - only_at (w_reserved w) (- r_wallet_debit r) i" for i
  have ref: "pi_reference (refund_wallet_leg r w c fx) = ''refund:'' @ r_reference r" by (simp add: refund_wallet_leg_def)
  have "moved [pi_reference (refund_wallet_leg r w c fx)] (at_balance (w_id w) Reserved_Balance (- r_wallet_debit r)) s s'"
  proof (rule system_posting_moved [OF assms(1,2) _ assms(5)])
    show "fresh s (pi_reference (refund_wallet_leg r w c fx))" using assms(4) by (simp add: ref)
    show "credit_net (pi_entries (refund_wallet_leg r w c fx)) i = only_at (balance_account w Reserved_Balance) (- r_wallet_debit r) i + g i" for i
      by (simp add: g_def)
    show "\<exists>sa. is_system s sa i" if "g i \<noteq> 0" for i
    proof (cases fx)
      case None
      then have "i = c" using that by (auto simp: g_def refund_wallet_leg_def credit_net_legs only_at_def split: if_splits)
      then show ?thesis using assms(3) by (simp add: system_accounts_def)
    next
      case (Some x)
      then have "i = xa_wallet_revenue x \<or> i = xa_wallet_position x"
        using that by (auto simp: g_def refund_wallet_leg_def credit_net_legs only_at_def split: if_splits)
      then show ?thesis using assms(3) Some by (auto simp: system_accounts_def)
    qed
  qed
  then show ?thesis by (simp add: ref)
qed

lemma refund_charged_leg_moved:
  assumes "wallets_inv s" and "w \<in> set (wallets s)" and "system_accounts s (c, Some x)" and "fresh s (''refund:'' @ r_reference r @ '':fx-source'')"
    and "post_in now (refund_charged_leg r x) s = Inr (q, s')"
  shows "moved [''refund:'' @ r_reference r @ '':fx-source''] (\<lambda>i k. 0) s s'"
proof -
  have ref: "pi_reference (refund_charged_leg r x) = ''refund:'' @ r_reference r @ '':fx-source''" by (simp add: refund_charged_leg_def)
  have "moved [pi_reference (refund_charged_leg r x)] (at_balance (w_id w) Available 0) s s'"
  proof (rule system_posting_moved [OF assms(1,2) _ assms(5)])
    show "fresh s (pi_reference (refund_charged_leg r x))" using assms(4) by (simp add: ref)
    show "credit_net (pi_entries (refund_charged_leg r x)) i = only_at (balance_account w Available) 0 i + credit_net (pi_entries (refund_charged_leg r x)) i" for i
      by (simp add: only_at_def)
    show "\<exists>sa. is_system s sa i" if "credit_net (pi_entries (refund_charged_leg r x)) i \<noteq> 0" for i
    proof -
      have "i = xa_charged_position x \<or> i = xa_charged_clearing x"
        using that by (auto simp: refund_charged_leg_def credit_net_legs only_at_def split: if_splits)
      then show ?thesis using assms(3) by (auto simp: system_accounts_def)
    qed
  qed
  from moved_cong [OF this [unfolded ref], of "\<lambda>i k. 0"] show ?thesis by (simp add: at_balance_def)
qed

lemma refund_postings_moved:
  assumes "wallets_inv s" and "w \<in> set (wallets s)" and "system_accounts s accts" and "fresh s (''refund:'' @ r_reference r)"
    and "fresh s (''refund:'' @ r_reference r @ '':fx-source'')" and "refund_postings now r w accts s = Inr (q, s')"
  obtains refs where "set refs \<subseteq> {''refund:'' @ r_reference r, ''refund:'' @ r_reference r @ '':fx-source''}"
    "moved refs (at_balance (w_id w) Reserved_Balance (- r_wallet_debit r)) s s'"
proof -
  obtain q1 s1 where 1: "post_in now (refund_wallet_leg r w (fst accts) (snd accts)) s = Inr (q1, s1)"
    and 2: "(case snd accts of None \<Rightarrow> Inr (q1, s1)
       | Some x \<Rightarrow> bind_res (post_in now (refund_charged_leg r x) s1) (\<lambda>(_, s2). Inr (q1, s2))) = Inr (q, s')"
    using assms(6) by (auto simp: refund_postings_def bind_res_Inr_iff)
  have m1: "moved [''refund:'' @ r_reference r] (at_balance (w_id w) Reserved_Balance (- r_wallet_debit r)) s s1"
    by (rule refund_wallet_leg_moved [OF assms(1,2) _ assms(4) 1]) (use assms(3) in simp)
  show ?thesis
  proof (cases "snd accts")
    case None
    then have "s' = s1" using 2 by simp
    then show ?thesis using that [of "[''refund:'' @ r_reference r]"] m1 by simp
  next
    case (Some x)
    then obtain q2 where 3: "post_in now (refund_charged_leg r x) s1 = Inr (q2, s')" using 2 by (auto simp: bind_res_Inr_iff)
    have w1: "w \<in> set (wallets s1)" using assms(2) only_ledger_tables(2) [of s s1] m1 by (simp add: moved_def)
    have sys: "system_accounts s1 (fst accts, Some x)"
      using system_accounts_le [OF assms(3) post_in_le [OF 1] wallets_inv_ok [OF assms(1)]] Some by (cases accts) simp
    have fr: "fresh s1 (''refund:'' @ r_reference r @ '':fx-source'')" using moved_fresh [OF m1 assms(5)] by simp
    note m2 = refund_charged_leg_moved [OF moved_wallets [OF m1 assms(1)] w1 sys fr 3]
    show ?thesis by (rule that [OF _ moved_cong [OF moved_trans [OF m1 m2]]]) simp_all
  qed
qed

lemma refund_claim:
  assumes "books c s" and "r \<in> set (refunds s)" and "status_of s (r_transaction r) = Some Processing"
  shows "only_used s (r_reference r) [''refund-hold:'' @ r_reference r]"
  using assms(2,3) by (intro books_parts(7) [OF assms(1)]) (auto simp: claims_def refund_claims_def)

lemma refund_wallet:
  assumes "books c s" and "r \<in> set (refunds s)"
  obtains w where "w \<in> set (wallets s)" "w_id w = r_wallet r" "get_wallet (r_wallet r) s = Inr w"
proof -
  have "r_wallet r \<in> w_id ` set (wallets s)" using books_parts(2) [OF assms(1)] assms(2) by (auto simp: linked_def refund_linked_def)
  then obtain w where w: "w \<in> set (wallets s)" "w_id w = r_wallet r" by auto
  with that wallet_row [OF books_parts(1) [OF assms(1)]] show ?thesis by blast
qed

lemma mark_reversed_books:
  assumes "books c s" and "mark_reversed_if_refunded i s = Inr s'"
  shows "books c s'"
proof -
  obtain p where p: "get_payment i s = Inr p" using assms(2) by (auto simp: mark_reversed_if_refunded_def bind_res_Inr_iff)
  show ?thesis
  proof (cases "successful_amount i s = p_amount p")
    case True
    then obtain t' where "transition (p_transaction p) Reversed empty_patch s = Inr (t', s')"
      using assms(2) by (auto simp: mark_reversed_if_refunded_def p bind_res_Inr_iff)
    moreover have "p \<in> set (payments s)" using p by (auto simp: get_payment_def dest: row_by_Some)
    ultimately show ?thesis using books_payment_transition [OF assms(1) order_refl] by (simp add: OPEN_STATUSES_def)
  next
    case False
    then have "s' = s" using assms(2) by (simp add: mark_reversed_if_refunded_def p)
    then show ?thesis using assms(1) by simp
  qed
qed

lemma complete_refund_books:
  assumes "books c s" and "c \<le> now" and "r0 \<in> set (refunds s)" and "same_refund r0 r" and "system_accounts s accts"
    and "complete_refund_body now r accts s = Inr (u, s')"
  shows "books now s'"
proof -
  note sf = same_refund_fields [OF assms(4)] and b = books_parts [OF assms(1)]
  obtain t where t: "row_by t_id (r_transaction r0) (transactions s) = Some t"
    using assms(6) by (auto simp: complete_refund_body_def lock_transaction_def bind_res_Inr_iff sf)
  show ?thesis
  proof (cases "t_status t = Processing")
    case False
    then have "s' = s" using assms(6) by (simp add: complete_refund_body_def lock_transaction_def t sf)
    then show ?thesis using books_quiet [OF assms(1) _ assms(2)] by (simp add: quiet_def)
  next
    case True
    obtain w q s1 patch t' s2 s3 where w: "get_wallet (r_wallet r) s = Inr w" and money: "refund_postings now r w accts s = Inr (q, s1)"
      and tr: "transition (r_transaction r0) Successful patch s1 = Inr (t', s2)"
      and mark: "mark_reversed_if_refunded (r_payment r) s2 = Inr s3" and s': "quiet s3 s'"
      using assms(6) row_by_Some [OF t] True by (auto simp: complete_refund_body_def lock_transaction_def t bind_res_Inr_iff sf quiet_event)
    have w_in: "w \<in> set (wallets s)" "w_id w = r_wallet r" using w wallet_row [OF b(1)] by auto
    have st: "status_of s (r_transaction r0) = Some Processing" using t True by (simp add: status_of_def)
    have claim: "only_used s (r_reference r) [''refund-hold:'' @ r_reference r]" using refund_claim [OF assms(1,3) st] by (simp add: sf)
    have tok: "token (r_reference r)" using linked_reference(2) [OF b(2) assms(3)] kind_token sf by metis
    note m = service_mentions(4,16) [OF tok]
    have fr: "fresh s (''refund:'' @ r_reference r)" "fresh s (''refund:'' @ r_reference r @ '':fx-source'')"
      by (rule only_used_fresh [OF claim]; use m tok in simp)+
    from refund_postings_moved [OF b(1) w_in(1) assms(5) fr money] obtain refs where
      refs: "set refs \<subseteq> {''refund:'' @ r_reference r, ''refund:'' @ r_reference r @ '':fx-source''}"
      and mv: "moved refs (at_balance (w_id w) Reserved_Balance (- r_wallet_debit r)) s s1" .
    have only: "only_ledger s s1" using mv by (simp add: moved_def)
    note tabs = only_ledger_tables [OF only]
    have b2: "books now s2"
    proof (rule books_refund_settled [OF assms(1-3) st moved_shifted [OF mv] linked_move [OF b(2) only] tabs(7,9,10,4) _ _ tr])
      show "\<exists>p0 \<in> set (payments s). p_id p0 = p_id p \<and> p_amount p0 = p_amount p" if "p \<in> set (payments s1)" for p
        using that tabs by auto
      show "settled_once now s1"
        by (rule settled_once_shift [OF assms(1,2) moved_shifted [OF mv]]) (use refs tabs in \<open>auto simp: settlement_ref_def\<close>)
      show "refs_of (r_reference r0) refs" using refs m by (auto simp: refs_of_def sf)
      show "at_balance (w_id w) Reserved_Balance (- r_wallet_debit r) i Reserved_Balance = - refund_hold s i r0" for i
        using st by (auto simp: at_balance_def refund_hold_def sf w_in)
      show "pending_due s1 i = pending_due s i + at_balance (w_id w) Reserved_Balance (- r_wallet_debit r) i Pending_Balance" for i
        using pending_due_same [OF tabs(8)] by (simp add: at_balance_def)
    qed (simp add: OPEN_STATUSES_def)
    show ?thesis by (rule books_quiet [OF mark_reversed_books [OF b2 mark] s']) simp
  qed
qed

text \<open>What of a failed refund goes back to the pending balance.\<close>

lemma return_to_pending_Inr:
  assumes "books c s" and "c \<le> now" and "r \<in> set (refunds s)" and "same_refund r r'" and "return_to_pending now r' s = Inr (x, s1)"
  obtains (none) "x = 0" "s1 = s"
  | (some) p where "x = r_pending_hold r" "p \<in> set (payments s)" "p_id p = r_payment r" "p_wallet p = r_wallet r"
      "set_held_amount (p_id p) (p_pending_amount p + x) s = Inr s1"
      "fresh s (settlement_ref (p_id p))" "status_of s (p_transaction p) \<notin> Some ` set OPEN_STATUSES"
proof (cases "r_pending_hold r = 0")
  case True
  then show ?thesis using assms(5) none same_refund_fields [OF assms(4)] by (simp add: return_to_pending_def)
next
  case False
  note b = books_parts [OF assms(1)] and sf = same_refund_fields [OF assms(4)]
  from linked_refund [OF b(2) assms(3)] obtain p where p: "p \<in> set (payments s)" "p_id p = r_payment r" "p_wallet p = r_wallet r" by blast
  have row: "row_by p_id (r_payment r) (payments s) = Some p" using linked_rows(1) [OF b(2) p(1)] p(2) by simp
  show ?thesis
  proof (cases "p_pending_amount p > 0 \<or> (case p_funds_available_at p of None \<Rightarrow> False | Some a \<Rightarrow> a > now)")
    case True
    then have open_hold: "p_pending_amount p > 0 \<or> (\<exists>a. p_funds_available_at p = Some a \<and> now < a)" by (auto split: option.splits)
    have "x = r_pending_hold r" "set_held_amount (p_id p) (p_pending_amount p + x) s = Inr s1"
      using assms(5) False True by (auto simp: return_to_pending_def lock_payment_def sf row bind_res_Inr_iff split: if_splits)
    then show ?thesis using some [OF _ p] hold_not_ended [OF assms(1,2) p(1) open_hold] by blast
  next
    case no: False
    then show ?thesis using assms(5) False none by (simp add: return_to_pending_def lock_payment_def sf row)
  qed
qed

text \<open>What a failed refund has done before its transaction ends, seen from the books.\<close>

lemma returned_shifted:
  assumes "books c s" and "c \<le> now" and "r \<in> set (refunds s)" and "same_refund r r'" and "return_to_pending now r' s = Inr (x, s1)"
  shows "linked s1" and "shifted [] (\<lambda>i k. 0) s s1" and "s1 = s\<lparr>payments := payments s1\<rparr>" and "0 \<le> x" and "x \<le> r_wallet_debit r"
    and "pending_due s1 i = pending_due s i + at_balance (r_wallet r) Pending_Balance x i Pending_Balance"
    and "\<And>p. p \<in> set (payments s1) \<Longrightarrow> \<exists>p0 \<in> set (payments s). p_id p0 = p_id p \<and> p_amount p0 = p_amount p \<and>
      (fresh s (settlement_ref (p_id p)) \<or> p_pending_amount p0 = p_pending_amount p \<and> p_funds_available_at p0 = p_funds_available_at p)"
proof -
  note b = books_parts [OF assms(1)]
  have hold: "0 \<le> r_pending_hold r" "r_pending_hold r \<le> r_wallet_debit r" "0 < r_wallet_debit r"
    using b(2) assms(3) by (auto simp: linked_def refund_linked_def)
  have "linked s1 \<and> shifted [] (\<lambda>i k. 0) s s1 \<and> s1 = s\<lparr>payments := payments s1\<rparr> \<and> 0 \<le> x \<and> x \<le> r_wallet_debit r \<and>
     (\<forall>i. pending_due s1 i = pending_due s i + at_balance (r_wallet r) Pending_Balance x i Pending_Balance) \<and>
     (\<forall>p \<in> set (payments s1). \<exists>p0 \<in> set (payments s). p_id p0 = p_id p \<and> p_amount p0 = p_amount p \<and>
      (fresh s (settlement_ref (p_id p)) \<or> p_pending_amount p0 = p_pending_amount p \<and> p_funds_available_at p0 = p_funds_available_at p))"
    using assms
  proof (cases rule: return_to_pending_Inr)
    case none
    then show ?thesis using b(2) hold quiet_shifted [OF b(8), of s] by (auto simp: at_balance_def)
  next
    case (some p)
    note h = held_amount_changed [OF assms(1,2) some(2,5,2) b(2) some(7)]
    have sh: "shifted [] (\<lambda>i k. 0) s s1" by (rule quiet_shifted [OF b(8) payments_only(1,2) [OF h(4)] h(3)])
    have "\<exists>p0 \<in> set (payments s). p_id p0 = p_id q \<and> p_amount p0 = p_amount q \<and>
      (fresh s (settlement_ref (p_id q)) \<or> p_pending_amount p0 = p_pending_amount q \<and> p_funds_available_at p0 = p_funds_available_at q)"
      if "q \<in> set (payments s1)" for q
      using h(5) [OF that] some(2,6) by (auto intro: bexI [of _ p])
    then show ?thesis using h(1,2,4) sh hold some(1,4) by auto
  qed
  then show "linked s1" "shifted [] (\<lambda>i k. 0) s s1" "s1 = s\<lparr>payments := payments s1\<rparr>" "0 \<le> x" "x \<le> r_wallet_debit r"
    "pending_due s1 i = pending_due s i + at_balance (r_wallet r) Pending_Balance x i Pending_Balance"
    "\<And>p. p \<in> set (payments s1) \<Longrightarrow> \<exists>p0 \<in> set (payments s). p_id p0 = p_id p \<and> p_amount p0 = p_amount p \<and>
      (fresh s (settlement_ref (p_id p)) \<or> p_pending_amount p0 = p_pending_amount p \<and> p_funds_available_at p0 = p_funds_available_at p)"
    by blast+
qed

lemma fail_refund_books:
  assumes "books c s" and "c \<le> now" and "r0 \<in> set (refunds s)" and "same_refund r0 r"
    and "fail_refund_body now r code reason s = Inr (u, s')"
  shows "books now s'"
proof -
  note sf = same_refund_fields [OF assms(4)] and b = books_parts [OF assms(1)]
  obtain t where t: "row_by t_id (r_transaction r0) (transactions s) = Some t"
    using assms(5) by (auto simp: fail_refund_body_def lock_transaction_def bind_res_Inr_iff sf)
  show ?thesis
  proof (cases "t_status t = Processing")
    case False
    then have "s' = s" using assms(5) by (simp add: fail_refund_body_def lock_transaction_def t sf)
    then show ?thesis using books_quiet [OF assms(1) _ assms(2)] by (simp add: quiet_def)
  next
    case True
    define m where "m = \<lparr>mv_amount = r_wallet_debit r, mv_reference = ''refund-release:'' @ r_reference r,
        mv_description = ''Release hold for failed refund '' @ r_reference r, mv_metadata = []\<rparr>"
    obtain x s1 q s2 patch t' s3 where ret: "return_to_pending now r s = Inr (x, s1)"
      and money: "release_split_within now (r_wallet r) m x s1 = Inr (q, s2)"
      and tr: "transition (r_transaction r0) Failed patch s2 = Inr (t', s3)" and s': "quiet s3 s'"
      using assms(5) row_by_Some [OF t] True
      by (auto simp: fail_refund_body_def lock_transaction_def t bind_res_Inr_iff sf quiet_event m_def)
    note ret_sh = returned_shifted [OF assms(1-4) ret]
    have st: "status_of s (r_transaction r0) = Some Processing" using t True by (simp add: status_of_def)
    have claim: "only_used s (r_reference r) [''refund-hold:'' @ r_reference r]" using refund_claim [OF assms(1,3) st] by (simp add: sf)
    have tok: "token (r_reference r)" using linked_reference(2) [OF b(2) assms(3)] kind_token sf by metis
    note men = service_mentions(5) [OF tok]
    have mref: "mv_reference m = ''refund-release:'' @ r_reference r" "mv_amount m = r_wallet_debit r0" by (simp_all add: m_def sf)
    have fr: "fresh s1 (mv_reference m)"
      unfolding mref(1) shifted_fresh [OF ret_sh(2)] by (simp, rule only_used_fresh [OF claim]) (use men tok in simp_all)
    have inv1: "wallets_inv s1" by (rule shifted_wallets [OF ret_sh(2) b(1)])
    have mv: "moved [mv_reference m] (\<lambda>j k. - split_hold (r_wallet r) x (mv_amount m) j k) s1 s2"
      by (rule release_split_within_moved [OF inv1 fr ret_sh(4) _ money]) (use ret_sh(5) in \<open>simp add: mref\<close>)
    have sh: "shifted [mv_reference m] (\<lambda>j k. - split_hold (r_wallet r) x (mv_amount m) j k) s s2"
      using shifted_trans [OF ret_sh(2) moved_shifted [OF mv]] by simp
    have only: "only_ledger s1 s2" using mv by (simp add: moved_def)
    note tabs = only_ledger_tables [OF only]
    note same1 = payments_only [OF ret_sh(3)]
    have b3: "books now s3"
    proof (rule books_refund_settled [OF assms(1-3) st sh linked_move [OF ret_sh(1) only] _ _ _ _ _ _ tr])
      show "transactions s2 = transactions s" "refunds s2 = refunds s" "payouts s2 = payouts s" "fx_quotes s2 = fx_quotes s"
        by (simp_all add: tabs same1)
      show "\<exists>p0 \<in> set (payments s). p_id p0 = p_id p \<and> p_amount p0 = p_amount p" if "p \<in> set (payments s2)" for p
        using ret_sh(7) [of p] that by (auto simp: tabs)
      show "settled_once now s2"
      proof (rule settled_once_shift [OF assms(1,2) sh])
        show "settlement_ref i \<notin> set [mv_reference m]" for i by (simp add: mref settlement_ref_def)
        show "next_id s \<le> p_id p' \<or> fresh s (settlement_ref (p_id p')) \<or> (\<exists>p \<in> set (payments s). p_id p = p_id p' \<and>
            p_pending_amount p = p_pending_amount p' \<and> p_funds_available_at p = p_funds_available_at p')" if "p' \<in> set (payments s2)" for p'
          using ret_sh(7) [of p'] that by (auto simp: tabs)
      qed
      show "refs_of (r_reference r0) [mv_reference m]" using men by (simp add: refs_of_def sf mref)
      show "- split_hold (r_wallet r) x (mv_amount m) i Reserved_Balance = - refund_hold s i r0" for i
        using st by (auto simp: split_hold_def at_balance_def refund_hold_def sf mref)
      show "pending_due s2 i = pending_due s i + - split_hold (r_wallet r) x (mv_amount m) i Pending_Balance" for i
        using pending_due_same [OF tabs(8), of i] ret_sh(6) [of i] by (simp add: split_hold_def at_balance_def sf)
    qed (simp add: OPEN_STATUSES_def)
    show ?thesis by (rule books_quiet [OF b3 s']) simp
  qed
qed

section \<open>The hold of a new refund\<close>

lemma insert_refund_Inr:
  assumes "insert_refund r s = Inr (q, s')" and "\<And>x. x \<in> set (refunds s) \<Longrightarrow> r_id x \<noteq> r_id r"
  shows "q = r" and "s' = s\<lparr>refunds := refunds s @ [r], next_id := Suc (next_id s)\<rparr>" and "0 < r_amount r" and "0 < r_wallet_debit r"
    and "r_reference r \<notin> r_reference ` set (refunds s)"
proof -
  from assms have e: "refund_row_error r = None" and k: "List.map_filter (refund_key_taken r) (refunds s) = []"
    and s: "q = r" "s' = s\<lparr>refunds := refunds s @ [r], next_id := Suc (next_id s)\<rparr>"
    by (auto simp: insert_refund_def split: option.splits list.splits)
  show "q = r" "s' = s\<lparr>refunds := refunds s @ [r], next_id := Suc (next_id s)\<rparr>" by (rule s)+
  show "0 < r_amount r" "0 < r_wallet_debit r" using e by (auto simp: refund_row_error_def split: if_splits)
  have "r_reference x \<noteq> r_reference r" if "x \<in> set (refunds s)" for x
  proof -
    have "refund_key_taken r x = None" using k that by (simp add: map_filter_Nil_iff)
    then show ?thesis using assms(2) [OF that] by (auto simp: refund_key_taken_def split: if_splits)
  qed
  then show "r_reference r \<notin> r_reference ` set (refunds s)" by (metis imageE)
qed

lemma new_refund_rows:
  assumes "s' = s\<lparr>refunds := refunds s @ [r], next_id := n\<rparr>"
  shows "hold_due s' i = hold_due s i + refund_hold s i r"
    and "claims s' = claims s \<union> (if status_of s (r_transaction r) = Some Processing then {(r_reference r, [''refund-hold:'' @ r_reference r])} else {})"
    and "committed_amount j s' = committed_amount j s + committed_part s j r"
proof -
  have "payout_hold s' i = payout_hold s i" "refund_hold s' i = refund_hold s i" "committed_part s' j = committed_part s j"
    by (rule ext, simp add: assms payout_hold_def refund_hold_def committed_part_def status_of_def status_in_def)+
  then show "hold_due s' i = hold_due s i + refund_hold s i r" "committed_amount j s' = committed_amount j s + committed_part s j r"
    by (simp_all add: hold_due_def committed_amount_alt assms)
  show "claims s' = claims s \<union> (if status_of s (r_transaction r) = Some Processing then {(r_reference r, [''refund-hold:'' @ r_reference r])} else {})"
    by (auto simp: claims_def payment_claims_def refund_claims_def payout_claims_def status_of_def assms)
qed

lemma refundable_Inr:
  assumes "refundable p inp s = Inr (pt, before, amount)"
  shows "row_by t_id (p_transaction p) (transactions s) = Some pt" and "t_status pt = Successful"
    and "before = committed_amount (p_id p) s" and "0 < amount" and "before + amount \<le> p_amount p"
  using assms by (auto simp: refundable_def get_transaction_def bind_res_Inr_iff Let_def split: if_splits)

lemma create_refund_Inr:
  assumes "create_refund ctx hex txhex now admin payment inp key s = Inr (r, s')"
  obtains p pt before amount w rvs t s1 q s2 s3 s4 where
    "row_by p_id payment (payments s) = Some p" "refundable p inp s = Inr (pt, before, amount)" "get_wallet (p_wallet p) s = Inr w"
    "refund_reversal p before amount s = Inr rvs"
    "create_transaction txhex now (refund_transaction admin p pt w rvs amount (generate_refund_reference hex)) s = Inr (t, s1)"
    "reserve_split_within now (w_id w) (refund_hold_movement t rvs (generate_refund_reference hex)) (taken_from_pending p rvs) s1 = Inr (q, s2)"
    "(if taken_from_pending p rvs > 0 then set_held_amount (p_id p) (p_pending_amount p - taken_from_pending p rvs) s2 else Inr s2) = Inr s3"
    "insert_refund (new_refund now admin p w rvs amount inp (generate_refund_reference hex) key t (next_id s3)) s3 = Inr (r, s4)"
    "quiet s4 s'"
  using assms quiet_audit by (auto simp: create_refund_def lock_payment_def hold_refund_def Let_def bind_res_Inr_iff)

lemma refund_reference_kind: "CHR '':'' \<notin> set hex \<Longrightarrow> kind_of_ref ''rfd_'' (generate_refund_reference hex)"
  by (simp add: kind_of_ref_def generate_refund_reference_def token_def)

lemma hold_refund_shifted:
  assumes "books c s" and "p \<in> set (payments s)" and "wallets_inv s1" and "linked s1" and "payments s1 = payments s"
    and "status_of s1 (p_transaction p) \<notin> Some ` set OPEN_STATUSES"
    and "fresh s1 (mv_reference m)" and "mv_amount m = rv_wallet_debit rvs" and "0 < rv_wallet_debit rvs"
    and "reserve_split_within now (p_wallet p) m (taken_from_pending p rvs) s1 = Inr (q, s2)"
    and "(if taken_from_pending p rvs > 0 then set_held_amount (p_id p) (p_pending_amount p - taken_from_pending p rvs) s2 else Inr s2) = Inr s3"
  shows "shifted [mv_reference m] (split_hold (p_wallet p) (taken_from_pending p rvs) (mv_amount m)) s1 s3" and "linked s3"
    and "pending_due s3 i = pending_due s1 i + split_hold (p_wallet p) (taken_from_pending p rvs) (mv_amount m) i Pending_Balance"
    and "transactions s3 = transactions s1" "refunds s3 = refunds s1" "payouts s3 = payouts s1" "fx_quotes s3 = fx_quotes s1" "next_id s3 = next_id s1"
    and "\<And>p'. p' \<in> set (payments s3) \<Longrightarrow> \<exists>p0 \<in> set (payments s). p_id p0 = p_id p' \<and> p_amount p0 = p_amount p' \<and> p_wallet p0 = p_wallet p' \<and>
      (fresh s (settlement_ref (p_id p')) \<or> p_pending_amount p0 = p_pending_amount p' \<and> p_funds_available_at p0 = p_funds_available_at p')"
    and "\<exists>p' \<in> set (payments s3). p_id p' = p_id p \<and> p_wallet p' = p_wallet p"
    and "0 \<le> taken_from_pending p rvs" and "taken_from_pending p rvs \<le> rv_wallet_debit rvs"
proof -
  let ?x = "taken_from_pending p rvs" and ?f = "split_hold (p_wallet p) (taken_from_pending p rvs) (mv_amount m)"
  note b = books_parts [OF assms(1)]
  have "0 \<le> p_pending_amount p" using b(2) assms(2) by (auto simp: linked_def payment_linked_def)
  then show x: "0 \<le> ?x" "?x \<le> rv_wallet_debit rvs" using assms(9) by (auto simp: taken_from_pending_def)
  have mv: "moved [mv_reference m] ?f s1 s2"
    by (rule reserve_split_within_moved [OF assms(3,7) x(1) _ assms(10)]) (use x assms(8) in simp)
  have only: "only_ledger s1 s2" using mv by (simp add: moved_def)
  note tabs = only_ledger_tables [OF only]
  note l2 = linked_move [OF assms(4) only]
  have p2: "p \<in> set (payments s2)" using assms(2,5) by (simp add: tabs)
  have st2: "status_of s2 (p_transaction p) \<notin> Some ` set OPEN_STATUSES" using assms(6) by (simp add: status_of_def tabs)
  have "shifted [mv_reference m] ?f s1 s3 \<and> linked s3 \<and> (\<forall>i. pending_due s3 i = pending_due s1 i + ?f i Pending_Balance) \<and>
    transactions s3 = transactions s1 \<and> refunds s3 = refunds s1 \<and> payouts s3 = payouts s1 \<and> fx_quotes s3 = fx_quotes s1 \<and> next_id s3 = next_id s1 \<and>
    (\<forall>p' \<in> set (payments s3). \<exists>p0 \<in> set (payments s). p_id p0 = p_id p' \<and> p_amount p0 = p_amount p' \<and> p_wallet p0 = p_wallet p' \<and>
      (fresh s (settlement_ref (p_id p')) \<or> p_pending_amount p0 = p_pending_amount p' \<and> p_funds_available_at p0 = p_funds_available_at p')) \<and>
    (\<exists>p' \<in> set (payments s3). p_id p' = p_id p \<and> p_wallet p' = p_wallet p)"
  proof (cases "?x > 0")
    case False
    then have "s3 = s2" "?x = 0" using assms(11) x by simp_all
    then show ?thesis
      using moved_shifted [OF mv] l2 p2 pending_due_same [OF tabs(8)] assms(5) by (auto simp: tabs split_hold_def at_balance_def)
  next
    case True
    then have set: "set_held_amount (p_id p) (p_pending_amount p - ?x) s2 = Inr s3" and pend: "p_pending_amount p > 0"
      using assms(11) by (simp_all add: taken_from_pending_def split: if_splits)
    note h = held_amount_changed [OF assms(1) order_refl assms(2) set p2 l2 st2]
    note po = payments_only [OF h(4)]
    have sh: "shifted [mv_reference m] ?f s1 s3" by (rule shifted_quiet [OF moved_shifted [OF mv] po(1,2) h(3)])
    note fr = hold_not_ended(1) [OF assms(1) order_refl assms(2)]
    have rows: "\<exists>p0 \<in> set (payments s). p_id p0 = p_id p' \<and> p_amount p0 = p_amount p' \<and> p_wallet p0 = p_wallet p' \<and>
      (fresh s (settlement_ref (p_id p')) \<or> p_pending_amount p0 = p_pending_amount p' \<and> p_funds_available_at p0 = p_funds_available_at p')"
      if "p' \<in> set (payments s3)" for p'
      using h(5) [OF that] assms(2,5) fr pend by (auto simp: tabs intro: bexI [of _ p])
    have "payments s3 = set_row p_id (p_id p) (\<lambda>row. row\<lparr>p_pending_amount := p_pending_amount p - ?x\<rparr>) (payments s2)"
      using update_payment_Inr(1) [OF set [unfolded set_held_amount_def] p2 refl l2] by simp
    then have "p\<lparr>p_pending_amount := p_pending_amount p - ?x\<rparr> \<in> set (payments s3)" using p2 by (auto simp: set_row_def image_iff)
    then have "\<exists>p' \<in> set (payments s3). p_id p' = p_id p \<and> p_wallet p' = p_wallet p" by (rule bexI [rotated]) simp
    then show ?thesis
      using sh h(1,2) rows pending_due_same [OF tabs(8)] by (auto simp: po tabs split_hold_def at_balance_def)
  qed
  then show "shifted [mv_reference m] ?f s1 s3" "linked s3" "pending_due s3 i = pending_due s1 i + ?f i Pending_Balance"
    "transactions s3 = transactions s1" "refunds s3 = refunds s1" "payouts s3 = payouts s1" "fx_quotes s3 = fx_quotes s1" "next_id s3 = next_id s1"
    "\<And>p'. p' \<in> set (payments s3) \<Longrightarrow> \<exists>p0 \<in> set (payments s). p_id p0 = p_id p' \<and> p_amount p0 = p_amount p' \<and> p_wallet p0 = p_wallet p' \<and>
      (fresh s (settlement_ref (p_id p')) \<or> p_pending_amount p0 = p_pending_amount p' \<and> p_funds_available_at p0 = p_funds_available_at p')"
    "\<exists>p' \<in> set (payments s3). p_id p' = p_id p \<and> p_wallet p' = p_wallet p"
    by blast+
qed

lemma holds_kept_status:
  assumes "linked s" and "create_transaction hex now inp s = Inr (t, s1)" and "row_by t_id i (transactions s) = Some u"
  shows "row_by t_id i (transactions s1) = Some u"
  using create_transaction_Inr(2) [OF assms(2)] assms(3) by (simp add: row_by_append)

lemma create_refund_books:
  assumes "books c s" and "c \<le> now" and "CHR '':'' \<notin> set hex" and "CHR '':'' \<notin> set txhex"
    and "create_refund ctx hex txhex now admin payment inp key s = Inr (r, s')"
  shows "books now s'"
  using assms(5)
proof (cases rule: create_refund_Inr)
  case (1 p pt before amount w rvs t s1 q s2 s3 s4)
  note b = books_parts [OF assms(1)] and cr = created_transaction [OF assms(1) 1(5) assms(4)] and ok = refundable_Inr [OF 1(2)]
  define x where "x = generate_refund_reference hex"
  define m where "m = refund_hold_movement t rvs x"
  define taken where "taken = taken_from_pending p rvs"
  have kind: "kind_of_ref ''rfd_'' x" unfolding x_def by (rule refund_reference_kind [OF assms(3)])
  note tok = kind_token [OF kind]
  have p_in: "p \<in> set (payments s)" using row_by_Some [OF 1(1)] by simp
  have w: "w \<in> set (wallets s)" "w_id w = p_wallet p" using 1(3) wallet_row [OF b(1)] by auto
  have inv1: "wallets_inv s1" by (rule shifted_wallets [OF cr(2) b(1)])
  have rows1: "refunds s3 = refunds s1" "next_id s3 = next_id s1"
    using 1(6,7) reserve_split_within_move [OF 1(6)] only_ledger_tables [of s1 s2]
    by (auto simp: ledger_move_def set_held_amount_def update_payment_def split: if_splits option.splits list.splits)
  have old: "r_id y < next_id s" "r_transaction y < next_id s" if "y \<in> set (refunds s)" for y
  proof -
    show "r_id y < next_id s" using b(2) that by (auto simp: linked_def refund_linked_def)
    show "r_transaction y < next_id s" using linked_refund [OF b(2) that] linked_txn(6) [OF b(2)] by metis
  qed
  have new_id: "r_id y \<noteq> r_id (new_refund now admin p w rvs amount inp x key t (next_id s3))" if "y \<in> set (refunds s3)" for y
    using old(1) [of y] that by (simp add: new_refund_def rows1 cr)
  note ins = insert_refund_Inr [OF 1(8) [folded x_def] new_id]
  have r: "r_reference r = x" "r_payment r = p_id p" "r_wallet r = w_id w" "r_amount r = amount" "r_wallet_debit r = rv_wallet_debit rvs"
    "r_transaction r = t_id t" "r_id r = next_id s3" "r_pending_hold r = taken"
    by (simp_all add: ins(1) new_refund_def taken_def)
  have pos: "0 < rv_wallet_debit rvs" using ins(4) by (simp add: new_refund_def)
  have mref: "mv_reference m = ''refund-hold:'' @ x" "mv_amount m = rv_wallet_debit rvs" by (simp_all add: m_def refund_hold_movement_def)
  have unknown: "x \<notin> known s" using unknown_reference(2) [OF b(2) kind] ins(5) by (simp add: new_refund_def rows1 cr)
  have unused: "only_used s x []" by (rule unknown_unused [OF b(10) tok unknown])
  have fr: "fresh s1 (mv_reference m)"
    using only_used_fresh [OF unused, of "mv_reference m"] tok shifted_fresh [OF cr(2)] by (simp add: mref service_mentions)
  have "status_of s1 (p_transaction p) = Some Successful"
    using holds_kept_status [OF b(2) 1(5) ok(1)] ok(2) by (simp add: status_of_def)
  then have st1: "status_of s1 (p_transaction p) \<notin> Some ` set OPEN_STATUSES" by (auto simp: OPEN_STATUSES_def)
  note h = hold_refund_shifted [OF assms(1) p_in inv1 cr(1,16) st1 fr mref(2) pos _ 1(7)]
  have reserve: "reserve_split_within now (p_wallet p) m (taken_from_pending p rvs) s1 = Inr (q, s2)" using 1(6) by (simp add: m_def x_def w(2))
  note h = h [OF reserve, folded taken_def]
  have s4: "s4 = s3\<lparr>refunds := refunds s3 @ [r], next_id := Suc (next_id s3)\<rparr>" using ins(1,2) by simp
  have sh: "shifted [mv_reference m] (split_hold (p_wallet p) taken (mv_amount m)) s s4"
    using shifted_quiet [OF shifted_trans [OF cr(2) h(1)], of s4] by (simp add: s4 db_leI)
  have ws: "wallets s3 = wallets s" using shifted_rows [OF sh] by (simp add: s4)
  have t_row: "row_by t_id (r_transaction r) (transactions s3) = Some t" using cr(10) by (simp add: r h)
  have proc: "status_of s3 (r_transaction r) = Some Processing"
    using t_row cr(13) by (simp add: status_of_def refund_transaction_def plain_transaction_def)
  have l4: "linked s4"
  proof (rule linked_new_refund [OF h(2) s4 r(7)])
    have "t \<in> set (transactions s4)" using row_by_Some [OF t_row] by (simp add: s4)
    moreover have "t_type t = Ty_Refund" using cr(12) by (simp add: refund_transaction_def plain_transaction_def)
    moreover have "\<exists>p' \<in> set (payments s4). p_id p' = r_payment r \<and> p_wallet p' = r_wallet r" using h(10) by (simp add: s4 r w)
    ultimately show "refund_linked s4 r"
      using w(1) kind pos ok(4) h(11,12) by (auto simp: refund_linked_def r s4 ws intro!: bexI [of _ t])
    show "r_transaction r \<notin> r_transaction ` set (refunds s3)" using old(2) by (fastforce simp: r rows1 cr)
    show "r_reference r \<notin> r_reference ` set (refunds s3)" using ins(1,5) by simp
  qed
  note new = new_refund_rows [OF s4]
  have k: "holds_kept s s3" using cr(9) h(4-6) by (simp add: holds_kept_def)
  have b4: "books now s4"
  proof (rule books_shift [OF assms(1) sh _ l4])
    show "refs_of x [mv_reference m]" using tok by (simp add: mref service_mentions)
    have "committed_amount (p_id p') s4 \<le> p_amount p'" if "p' \<in> set (payments s4)" for p'
    proof -
      from h(9) [of p'] that obtain p0 where p0: "p0 \<in> set (payments s)" "p_id p0 = p_id p'" "p_amount p0 = p_amount p'" by (auto simp: s4)
      have same: "committed_amount (p_id p') s3 = committed_amount (p_id p') s" by (rule holds_kept_committed(1) [OF b(2) h(2) k])
      show ?thesis
      proof (cases "p_id p' = p_id p")
        case True
        then have "p0 = p" using p0 p_in linked_rows(1) [OF b(2)] by (metis option.inject)
        then show ?thesis using same new(3) [of "p_id p'"] ok(3,5) p0 True proc by (simp add: committed_part_def r status_in_iff h(2))
      next
        case False
        then show ?thesis using same new(3) [of "p_id p'"] p0 b(3) by (auto simp: committed_part_def r refunds_within_def)
      qed
    qed
    then show "refunds_within s4" by (simp add: refunds_within_def)
    show "pending_due s4 i = pending_due s i + split_hold (p_wallet p) taken (mv_amount m) i Pending_Balance" for i
      using h(3) [of i] cr(4) [of i] by (simp add: pending_due_def s4)
    show "hold_due s4 i = hold_due s i + split_hold (p_wallet p) taken (mv_amount m) i Reserved_Balance" for i
      using new(1) [of i] holds_kept_due [OF b(2) k, of i] proc by (simp add: refund_hold_def r w split_hold_def at_balance_def mref)
    show "(y, rs) \<in> claims s \<and> ([mv_reference m] = [] \<or> y \<noteq> x) \<or> only_used s4 y rs" if y: "(y, rs) \<in> claims s4" for y rs
    proof -
      have "claims s3 = claims s1" by (simp add: claims_def payment_claims_def refund_claims_def payout_claims_def status_of_def h)
      moreover have "claims s1 \<subseteq> claims s" using cr(8) by (simp add: refund_transaction_def plain_transaction_def)
      ultimately consider "(y, rs) \<in> claims s" | "y = x" "rs = [''refund-hold:'' @ x]" using y by (auto simp: new(2) r split: if_splits)
      then show ?thesis
      proof cases
        case 1
        then show ?thesis using claims_known [OF 1] unknown by blast
      next
        case 2
        then show ?thesis using only_used_own [OF sh unused] by (simp add: mref)
      qed
    qed
    show "settled_once now s4"
    proof (rule settled_once_shift [OF assms(1,2) sh])
      show "next_id s \<le> p_id p' \<or> fresh s (settlement_ref (p_id p')) \<or> (\<exists>p \<in> set (payments s). p_id p = p_id p' \<and>
            p_pending_amount p = p_pending_amount p' \<and> p_funds_available_at p = p_funds_available_at p')" if "p' \<in> set (payments s4)" for p'
        using h(9) [of p'] that by (auto simp: s4)
    qed (simp add: mref settlement_ref_def)
    show "known s \<subseteq> known s4" using cr(6) by (auto simp: known_def s4 h)
    show "[mv_reference m] = [] \<or> x \<in> known s4 \<or> (\<forall>r \<in> set [mv_reference m]. \<forall>y. token y \<longrightarrow> \<not> mentions r y)"
      by (simp add: known_def s4 r)
  qed (simp add: s4 h cr)
  show ?thesis by (rule books_quiet [OF b4 1(9)]) simp
qed

section \<open>The sending marks\<close>

lemma same_refund_marks:
  "same_refund r r" "same_refund r (r\<lparr>r_submitted_at := b\<rparr>)" "same_refund r (r\<lparr>r_provider_reference := a\<rparr>)"
proof -
  show "same_refund r r" unfolding same_refund_def
    by (rule exI [of _ "r_provider_reference r"], rule exI [of _ "r_submitted_at r"]) simp
  show "same_refund r (r\<lparr>r_submitted_at := b\<rparr>)" unfolding same_refund_def
    by (rule exI [of _ "r_provider_reference r"], rule exI [of _ b]) simp
  show "same_refund r (r\<lparr>r_provider_reference := a\<rparr>)" unfolding same_refund_def
    by (rule exI [of _ a], rule exI [of _ "r_submitted_at r"]) simp
qed

lemma refund_marks_books:
  assumes "books c s" and "c \<le> c'" and "s' = s\<lparr>refunds := map g (refunds s)\<rparr>" and "\<And>r. same_refund r (g r)"
  shows "books c' s'"
proof -
  note b = books_parts [OF assms(1)] and g = same_refund_fields [OF assms(4)]
  have sh: "shifted [] (\<lambda>i k. 0) s s'" by (rule quiet_shifted [OF b(8)]) (simp_all add: assms(3) db_leI)
  have st: "status_of s' i = status_of s i" for i by (simp add: status_of_def assms(3))
  show ?thesis
  proof (rule books_shift [OF assms(1) sh refs_of_Nil linked_refund_marks [OF b(2) assms(3,4)]])
    have "status_in i sts s' = status_in i sts s" for i sts by (simp add: status_in_def assms(3))
    then have "committed_part s' i (g r) = committed_part s i r" for i r by (simp add: committed_part_def g)
    then have "committed_amount i s' = committed_amount i s" for i
      by (simp add: committed_amount_alt assms(3) comp_def)
    then show "refunds_within s'" using b(3) by (simp add: refunds_within_def assms(3))
    show "pending_due s' i = pending_due s i + 0" for i by (simp add: pending_due_def assms(3))
    have "refund_hold s' i (g r) = refund_hold s i r" "payout_hold s' i = payout_hold s i" for i r
      by (simp_all add: refund_hold_def g st, rule ext, simp add: payout_hold_def assms(3))
    then show "hold_due s' i = hold_due s i + 0" for i
      unfolding hold_due_def by (simp add: assms(3) comp_def)
    have "payout_claims s' = payout_claims s" unfolding payout_claims_def st by (simp add: assms(3))
    moreover have "refund_claims s' = refund_claims s" 
    proof -
      have alt: "refund_claims s = (\<lambda>r. (r_reference r, [''refund-hold:'' @ r_reference r])) ` {r \<in> set (refunds s). status_of s (r_transaction r) = Some Processing}" for s
        by (auto simp: refund_claims_def)
      have "{r \<in> set (refunds s'). status_of s' (r_transaction r) = Some Processing} = g ` {r \<in> set (refunds s). status_of s (r_transaction r) = Some Processing}"
        unfolding st by (auto simp: assms(3) g)
      then show ?thesis by (simp add: alt image_image g)
    qed
    ultimately have "claims s' = claims s" by (simp add: claims_def payment_claims_def assms(3))
    then show "(y, rs) \<in> claims s' \<Longrightarrow> (y, rs) \<in> claims s \<and> ([] = [] \<or> y \<noteq> x) \<or> only_used s' y rs" for y rs x by simp
    show "settled_once c' s'" by (rule settled_once_shift [OF assms(1,2) sh]) (auto simp: assms(3))
    show "known s \<subseteq> known s'" using g(2) by (auto simp: known_def assms(3) image_iff)
  qed (simp_all add: assms(3))
qed

lemma claim_refund_books:
  assumes "books c s" and "c \<le> c'"
  shows "books c' (snd (claim_refund now i s))"
proof (cases "snd (claim_refund now i s) = s")
  case True
  then show ?thesis using books_quiet [OF assms(1) _ assms(2)] by (simp add: quiet_def)
next
  case False
  then have "snd (claim_refund now i s) = s\<lparr>refunds := map (\<lambda>r. if r_id r = i then r\<lparr>r_submitted_at := Some now\<rparr> else r) (refunds s)\<rparr>"
    by (auto simp: claim_refund_def set_row_def split: option.splits if_splits)
  then show ?thesis by (rule refund_marks_books [OF assms]) (simp add: same_refund_marks)
qed

lemma refund_reference_books:
  assumes "books c s" and "c \<le> c'" and "set_refund_reference i ref s = Inr (u, s')"
  shows "books c' s'"
proof (cases "s' = s")
  case True
  then show ?thesis using books_quiet [OF assms(1) _ assms(2)] by (simp add: quiet_def)
next
  case False
  then have "s' = s\<lparr>refunds := map (\<lambda>r. if r_id r = i then r\<lparr>r_provider_reference := Some ref\<rparr> else r) (refunds s)\<rparr>"
    using assms(3) by (auto simp: set_refund_reference_def set_row_def split: option.splits list.splits)
  then show ?thesis by (rule refund_marks_books [OF assms(1,2)]) (simp add: same_refund_marks)
qed

end
