(* ===== verification/Payout_Books.thy ===== *)
theory Payout_Books
  imports Books_Rules
begin

text \<open>
  Every database transaction of \<open>payouts.service.ts\<close> keeps the books.
\<close>

section \<open>The rows of payouts\<close>

lemma payout_others:
  assumes "linked s" and "p \<in> set (payouts s)"
  shows "x \<in> set (payouts s) \<Longrightarrow> po_id x \<noteq> po_id p \<Longrightarrow> po_transaction x \<noteq> po_transaction p \<and> po_reference x \<noteq> po_reference p"
    and "r \<in> set (refunds s) \<Longrightarrow> r_transaction r \<noteq> po_transaction p"
    and "q \<in> set (payments s) \<Longrightarrow> p_transaction q \<noteq> po_transaction p"
proof -
  from linked_payout [OF assms] obtain t where t: "t \<in> set (transactions s)" "t_id t = po_transaction p" "t_type t = Ty_Withdrawal" by blast
  show "x \<in> set (payouts s) \<Longrightarrow> po_id x \<noteq> po_id p \<Longrightarrow> po_transaction x \<noteq> po_transaction p \<and> po_reference x \<noteq> po_reference p"
    using assms by (auto simp: linked_def distinct_map inj_on_def)
  show "r_transaction r \<noteq> po_transaction p" if "r \<in> set (refunds s)"
    by (rule linked_refund [OF assms(1) that]) (use linked_differ [OF assms(1) _ t(1)] t in force)
  show "p_transaction q \<noteq> po_transaction p" if "q \<in> set (payments s)"
    by (rule linked_payment [OF assms(1) that]) (use linked_differ [OF assms(1) _ t(1)] t in force)
qed

text \<open>The transaction of a payout changes its status: its hold and its claim change, no other.\<close>

lemma payout_transition_due:
  assumes "linked s" and "p \<in> set (payouts s)" and "transition (po_transaction p) st patch s = Inr (t', s')"
  shows "hold_due s' i = hold_due s i + payout_hold s' i p - payout_hold s i p"
proof -
  note f = transition_frame [OF assms(3)] and row = row_after_transition [OF assms(3)]
  have "sum_list (map (refund_hold s' i) (refunds s)) = sum_list (map (refund_hold s i) (refunds s))"
    by (rule sum_list_same) (use row payout_others(2) [OF assms(1,2)] in \<open>simp add: refund_hold_def status_of_def\<close>)
  moreover have "sum_list (map (payout_hold s' i) (payouts s)) = sum_list (map (payout_hold s i) (payouts s)) + payout_hold s' i p - payout_hold s i p"
  proof (rule sum_list_change [where key = po_id])
    show "distinct (map po_id (payouts s))" using assms(1) by (simp add: linked_def)
    show "p \<in> set (payouts s)" by (rule assms(2))
    fix x assume "x \<in> set (payouts s)" "po_id x \<noteq> po_id p"
    then show "payout_hold s' i x = payout_hold s i x"
      using payout_others(1) [OF assms(1,2)] row by (simp add: payout_hold_def)
  qed
  ultimately show ?thesis by (simp add: hold_due_def f)
qed

lemma payout_transition_claims:
  assumes "linked s" and "p \<in> set (payouts s)" and "transition (po_transaction p) st patch s = Inr (t', s')" and "st \<notin> set OPEN_STATUSES"
    and "(y, rs) \<in> claims s'"
  shows "(y, rs) \<in> claims s \<and> y \<noteq> po_reference p \<or> (y, rs) \<in> payout_claims_of p st"
proof -
  note f = transition_frame [OF assms(3)] and stat = status_after_transition [OF assms(3)]
  note kind = linked_reference [OF assms(1)]
  have pk: "kind_of_ref ''pyt_'' (po_reference p)" by (rule kind(3) [OF assms(2)])
  consider "(y, rs) \<in> payment_claims s'" | "(y, rs) \<in> refund_claims s'" | "(y, rs) \<in> payout_claims s'"
    using assms(5) by (auto simp: claims_def)
  then show ?thesis
  proof cases
    case 1
    then have c: "(y, rs) \<in> payment_claims s" using payment_claims_transition [OF assms(1,3,4)] by blast
    then have "kind_of_ref ''trx_'' y" using kind(1) by (auto simp: payment_claims_def)
    then show ?thesis using c pk kinds_differ [of "''trx_''" y "''pyt_''"] by (auto simp: claims_def)
  next
    case 2
    then obtain r where r: "r \<in> set (refunds s)" "y = r_reference r" "rs = [''refund-hold:'' @ y]" "status_of s' (r_transaction r) = Some Processing"
      by (auto simp: refund_claims_def f)
    then have "status_of s (r_transaction r) = Some Processing" using stat(2) payout_others(2) [OF assms(1,2)] by metis
    then have "(y, rs) \<in> claims s" using r by (auto simp: claims_def refund_claims_def)
    then show ?thesis using kind(2) [OF r(1)] pk kinds_differ [of "''rfd_''" y "''pyt_''"] r(2) by auto
  next
    case 3
    then obtain x st' where x: "x \<in> set (payouts s)" "status_of s' (po_transaction x) = Some st'" "(y, rs) \<in> payout_claims_of x st'"
      by (auto simp: payout_claims_alt f split: option.splits)
    show ?thesis
    proof (cases "po_id x = po_id p")
      case True
      then have "x = p" using assms(1,2) x(1) by (auto simp: linked_def distinct_map inj_on_def)
      then show ?thesis using x stat(1) by auto
    next
      case False
      note o = payout_others(1) [OF assms(1,2) x(1) False]
      have "status_of s (po_transaction x) = Some st'" using stat(2) o x(2) by metis
      then have "(y, rs) \<in> claims s" using x unfolding claims_def payout_claims_alt by (auto intro!: bexI [of _ x])
      moreover have "y = po_reference x" using x(3) by (auto simp: payout_claims_of_def split: if_splits)
      ultimately show ?thesis using o by simp
    qed
  qed
qed

lemma payout_transition_refunds:
  assumes "linked s" and "p \<in> set (payouts s)" and "transition (po_transaction p) st patch s = Inr (t', s')" and "st \<notin> set OPEN_STATUSES"
  shows "refunds_within s' = refunds_within s"
proof -
  have l': "linked s'" by (rule linked_transition [OF assms(1,3,4)])
  note f = transition_frame [OF assms(3)] and stat = status_after_transition(2) [OF assms(3)]
  have "status_in (r_transaction r) sts s' = status_in (r_transaction r) sts s" if "r \<in> set (refunds s)" for r sts
    using stat payout_others(2) [OF assms(1,2) that] by (simp add: status_in_iff assms(1) l')
  then have "committed_amount i s' = committed_amount i s" for i
    unfolding committed_amount_def refunds_in_def f by (metis (no_types, lifting) filter_cong)
  then show ?thesis by (simp add: refunds_within_def f)
qed

section \<open>Settling\<close>

text \<open>The money moves, then the transaction of the payout ends.\<close>

lemma books_payout_settled:
  assumes "books c s" and "c \<le> c'" and "p \<in> set (payouts s)" and "moved refs f s s1"
    and "transition (po_transaction p) st patch s1 = Inr (t', s2)" and "st \<notin> set OPEN_STATUSES" and "quiet s2 s'"
    and "refs_of (po_reference p) refs" and "\<And>i. settlement_ref i \<notin> set refs"
    and "\<And>i. f i Pending_Balance = 0" and "\<And>i. f i Reserved_Balance = - payout_hold s i p"
    and "\<And>rs. (po_reference p, rs) \<in> payout_claims_of p st \<Longrightarrow> \<exists>rs0. only_used s (po_reference p) rs0 \<and> set refs \<union> set rs0 \<subseteq> set rs"
  shows "books c' s'"
proof -
  note b = books_parts [OF assms(1)]
  have only: "only_ledger s s1" using assms(4) by (simp add: moved_def)
  note tabs = only_ledger_tables [OF only]
  have l1: "linked s1" by (rule linked_move [OF b(2) only])
  note same = same_rows [OF b(2) l1 tabs(7,8,9,10)]
  note f = transition_frame [OF assms(5)]
  have p1: "p \<in> set (payouts s1)" using assms(3) tabs by simp
  have l2: "linked s2" by (rule linked_transition [OF l1 assms(5,6)])
  note q = assms(7) [unfolded quiet_def]
  have sh: "shifted refs f s s2" by (rule shifted_quiet [OF moved_shifted [OF assms(4)]]) (simp_all add: f)
  have b2: "books c' s2"
  proof (rule books_shift [OF assms(1) sh assms(8) l2])
    show "refunds_within s2" using payout_transition_refunds [OF l1 p1 assms(5,6)] same(5) b(3) by simp
    show "pending_due s2 i = pending_due s i + f i Pending_Balance" for i
      using assms(10) pending_due_same [OF f(3)] same(4) by simp
    have "payout_hold s2 i p = 0" for i
      using status_after_transition(1) [OF assms(5)] assms(6) by (auto simp: payout_hold_def status_of_def OPEN_STATUSES_def split: option.splits)
    moreover have "payout_hold s1 i p = payout_hold s i p" for i by (simp add: payout_hold_def tabs)
    ultimately show "hold_due s2 i = hold_due s i + f i Reserved_Balance" for i
      using payout_transition_due [OF l1 p1 assms(5), of i] same(3) assms(11) by simp
    show "settled_once c' s2" by (rule settled_once_shift [OF assms(1,2) sh assms(9)]) (auto simp: f tabs)
    show "(y, rs) \<in> claims s \<and> (refs = [] \<or> y \<noteq> po_reference p) \<or> only_used s2 y rs" if y: "(y, rs) \<in> claims s2" for y rs
    proof (cases "(y, rs) \<in> claims s1 \<and> y \<noteq> po_reference p")
      case False
      then have own: "(y, rs) \<in> payout_claims_of p st" using payout_transition_claims [OF l1 p1 assms(5,6) y] by blast
      then have "y = po_reference p" by (auto simp: payout_claims_of_def split: if_splits)
      with own assms(12) only_used_own [OF sh] show ?thesis by blast
    qed (simp add: same)
    show "known s \<subseteq> known s2" by (simp add: f same)
    have "po_reference p \<in> known s" using assms(3) by (simp add: known_def)
    then show "refs = [] \<or> po_reference p \<in> known s2 \<or> (\<forall>r \<in> set refs. \<forall>y. token y \<longrightarrow> \<not> mentions r y)"
      by (simp add: f(9) same(2))
  qed (auto simp: f tabs)
  show ?thesis by (rule books_quiet [OF b2 assms(7)]) simp
qed

lemma payout_leg_reserved:
  assumes "wallets_inv s" and "w \<in> set (wallets s)" and "is_system s sa i" and "fresh s (kind @ po_reference p)"
    and "post_in now (payout_leg kind d p (w_reserved w) i) s = Inr (q, s')"
  shows "moved [kind @ po_reference p] (at_balance (w_id w) Reserved_Balance (- po_amount p)) s s'"
proof -
  note le = post_in_le [OF assms(5)]
  have "effect [kind @ po_reference p] (\<lambda>j. only_at i (po_amount p) j - only_at (balance_account w Reserved_Balance) (po_amount p) j) s s'"
  proof (rule effect_cong)
    show "effect [kind @ po_reference p] (credit_net (pi_entries (payout_leg kind d p (w_reserved w) i))) s s'"
      using post_in_effect(2) [OF wallets_inv_ok [OF assms(1)] _ assms(5)] assms(4) by (simp add: payout_leg_def)
    show "credit_net (pi_entries (payout_leg kind d p (w_reserved w) i)) j =
        only_at i (po_amount p) j - only_at (balance_account w Reserved_Balance) (po_amount p) j" for j
      using move_legs_net [of "w_reserved w" i "po_amount p" j] by (simp add: payout_leg_def move_legs_def)
  qed
  then show ?thesis
    by (rule effect_wallet_out [OF assms(1,2) post_in_move [OF assms(5)] is_system_le [OF assms(3) le wallets_inv_ok [OF assms(1)]]])
qed

lemma payout_leg_available:
  assumes "wallets_inv s" and "w \<in> set (wallets s)" and "is_system s sa i" and "fresh s (kind @ po_reference p)"
    and "post_in now (payout_leg kind d p i (w_available w)) s = Inr (q, s')"
  shows "moved [kind @ po_reference p] (at_balance (w_id w) Available (po_amount p)) s s'"
proof -
  note le = post_in_le [OF assms(5)]
  have "effect [kind @ po_reference p] (\<lambda>j. only_at (balance_account w Available) (po_amount p) j - only_at i (po_amount p) j) s s'"
  proof (rule effect_cong)
    show "effect [kind @ po_reference p] (credit_net (pi_entries (payout_leg kind d p i (w_available w)))) s s'"
      using post_in_effect(2) [OF wallets_inv_ok [OF assms(1)] _ assms(5)] assms(4) by (simp add: payout_leg_def)
    show "credit_net (pi_entries (payout_leg kind d p i (w_available w))) j =
        only_at (balance_account w Available) (po_amount p) j - only_at i (po_amount p) j" for j
      using move_legs_net [of i "w_available w" "po_amount p" j] by (simp add: payout_leg_def move_legs_def)
  qed
  then show ?thesis
    by (rule effect_wallet_in [OF assms(1,2) post_in_move [OF assms(5)] is_system_le [OF assms(3) le wallets_inv_ok [OF assms(1)]]])
qed

text \<open>The claim of a payout says what is left to post for it.\<close>

lemma payout_claim:
  assumes "books c s" and "p \<in> set (payouts s)" and "row_by t_id (po_transaction p) (transactions s) = Some t"
    and "(po_reference p, rs) \<in> payout_claims_of p (t_status t)"
  shows "only_used s (po_reference p) rs"
  using assms by (intro books_parts(7) [OF assms(1)]) (auto simp: claims_def payout_claims_alt status_of_def intro!: bexI [of _ p])

lemma payout_wallet:
  assumes "books c s" and "p \<in> set (payouts s)"
  obtains w where "w \<in> set (wallets s)" "w_id w = po_wallet p" "get_wallet (po_wallet p) s = Inr w"
proof -
  have "po_wallet p \<in> w_id ` set (wallets s)" using books_parts(2) [OF assms(1)] assms(2) by (auto simp: linked_def payout_linked_def)
  then obtain w where w: "w \<in> set (wallets s)" "w_id w = po_wallet p" by auto
  with that wallet_row [OF books_parts(1) [OF assms(1)]] show ?thesis by blast
qed

lemma payout_hold_row:
  "row_by t_id (po_transaction p) (transactions s) = Some t \<Longrightarrow>
     payout_hold s i p = (if po_wallet p = i \<and> t_status t = Processing then po_amount p + t_fee_amount t else 0)"
  by (simp add: payout_hold_def)

lemma complete_payout_money_moved:
  assumes "wallets_inv s" and "get_wallet (po_wallet p) s = Inr w" and "is_system s sa i" and "token (po_reference p)"
    and "fresh s (''payout:'' @ po_reference p)" and "fresh s (''fee:payout:'' @ po_reference p)" and "0 \<le> t_fee_amount t"
    and "complete_payout_money now p t i s = Inr (q, s')"
  obtains refs where "set refs \<subseteq> {''payout:'' @ po_reference p, ''fee:payout:'' @ po_reference p}"
    "moved refs (at_balance (po_wallet p) Reserved_Balance (- (po_amount p + t_fee_amount t))) s s'"
proof -
  have w: "w \<in> set (wallets s)" "w_id w = po_wallet p" using assms(2) wallet_row [OF assms(1)] by auto
  obtain q1 s1 where 1: "post_in now (payout_leg ''payout:'' ''Payout '' p (w_reserved w) i) s = Inr (q1, s1)"
    and 2: "(if t_fee_amount t > 0
       then bind_res (collect_fee_within now (po_wallet p) Reserved_Balance
           (payout_fee_movement ''fee:payout:'' ''Fee for payout '' p (t_fee_amount t)) s1) (\<lambda>(_, s2). Inr (q1, s2))
       else Inr (q1, s1)) = Inr (q, s')"
    using assms(8) by (auto simp: complete_payout_money_def bind_res_Inr_iff assms(2))
  note m1 = payout_leg_reserved [OF assms(1) w(1) assms(3,5) 1]
  show ?thesis
  proof (cases "t_fee_amount t > 0")
    case True
    then obtain q2 where fee: "collect_fee_within now (po_wallet p) Reserved_Balance
        (payout_fee_movement ''fee:payout:'' ''Fee for payout '' p (t_fee_amount t)) s1 = Inr (q2, s')"
      using 2 by (auto simp: bind_res_Inr_iff)
    have fr: "fresh s1 (mv_reference (payout_fee_movement ''fee:payout:'' ''Fee for payout '' p (t_fee_amount t)))"
      using moved_fresh [OF m1 assms(6)] by (simp add: payout_fee_movement_def)
    note m2 = collect_fee_within_moved [OF moved_wallets [OF m1 assms(1)] fr fee]
    show ?thesis
      by (rule that [OF _ moved_cong [OF moved_trans [OF m1 m2]]]) (auto simp: payout_fee_movement_def at_balance_def w(2))
  next
    case False
    then have "s' = s1" "t_fee_amount t = 0" using 2 assms(7) by auto
    then show ?thesis using that [of "[''payout:'' @ po_reference p]"] m1 w(2) by simp
  qed
qed

text \<open>
  The row a service has read differs from the stored one in the sending marks at most. A
  settling transaction moves the money, ends the transaction of the payout and writes its event.
\<close>

definition settles :: "payout \<Rightarrow> txn_status \<Rightarrow> (uuid \<Rightarrow> balance_kind \<Rightarrow> int) \<Rightarrow> string list \<Rightarrow> db \<Rightarrow> db \<Rightarrow> bool" where
  "settles p st f refs s s' \<longleftrightarrow> (\<exists>s1 patch t' s2. moved refs f s s1 \<and> transition (po_transaction p) st patch s1 = Inr (t', s2) \<and> quiet s2 s')"

lemma settles_books:
  assumes "books c s" and "c \<le> c'" and "p \<in> set (payouts s)" and "settles p st f refs s s'" and "st \<notin> set OPEN_STATUSES"
    and "refs_of (po_reference p) refs" and "\<And>i. settlement_ref i \<notin> set refs"
    and "\<And>i. f i Pending_Balance = 0" and "\<And>i. f i Reserved_Balance = - payout_hold s i p"
    and "\<And>rs. (po_reference p, rs) \<in> payout_claims_of p st \<Longrightarrow> \<exists>rs0. only_used s (po_reference p) rs0 \<and> set refs \<union> set rs0 \<subseteq> set rs"
  shows "books c' s'"
  using assms(4) books_payout_settled [OF assms(1-3) _ _ assms(5) _ assms(6-10)] unfolding settles_def by blast

lemma complete_payout_run:
  assumes "books c s" and "p0 \<in> set (payouts s)" and "same_payout p0 p" and "is_system s sa i"
    and "complete_payout_body now p i s = Inr (u, s')" and "row_by t_id (po_transaction p0) (transactions s) = Some t"
  obtains (other) "t_status t \<noteq> Processing" "s' = s"
    | (paid) refs where "t_status t = Processing" "set refs \<subseteq> {''payout:'' @ po_reference p0, ''fee:payout:'' @ po_reference p0}"
        "only_used s (po_reference p0) [''payout-hold:'' @ po_reference p0]"
        "settles p0 Successful (at_balance (po_wallet p0) Reserved_Balance (- (po_amount p0 + t_fee_amount t))) refs s s'"
proof (cases "t_status t = Processing")
  case False
  then show ?thesis using other assms(5,6) by (simp add: complete_payout_body_def lock_transaction_def same_payout_fields [OF assms(3)])
next
  case True
  note sf = same_payout_fields [OF assms(3)] and b = books_parts [OF assms(1)] and t = assms(6)
  obtain q s1 t' s2 where money: "complete_payout_money now p t i s = Inr (q, s1)"
    and tr: "transition (po_transaction p0) Successful (empty_patch\<lparr>tp_ledger_txn := Some (lt_id (ps_txn q)),
      tp_provider_reference := Some (po_provider_reference p), tp_completed_at := Some now\<rparr>) s1 = Inr (t', s2)"
    and s': "s' = add_event now ''payout.successful'' ''transaction'' (t_id t) (payout_event p t) s2"
    using assms(5) row_by_Some [OF t] True by (auto simp: complete_payout_body_def lock_transaction_def t bind_res_Inr_iff sf)
  obtain w where w: "get_wallet (po_wallet p) s = Inr w" using payout_wallet [OF assms(1,2)] sf by metis
  have claim: "only_used s (po_reference p0) [''payout-hold:'' @ po_reference p0]"
    using payout_claim [OF assms(1,2) t] True by (simp add: payout_claims_of_def)
  have tok: "token (po_reference p)" using linked_reference(3) [OF b(2) assms(2)] kind_token sf by metis
  note m = service_mentions(7,12) [OF tok]
  have fr: "fresh s (''payout:'' @ po_reference p)" "fresh s (''fee:payout:'' @ po_reference p)"
    by (rule only_used_fresh [OF claim]; use m tok in \<open>simp add: sf\<close>)+
  have fee: "0 \<le> t_fee_amount t" using linked_txn(5) [OF b(2)] row_by_Some [OF t] by blast
  from complete_payout_money_moved [OF b(1) w assms(4) tok fr fee money] obtain refs where
    refs: "set refs \<subseteq> {''payout:'' @ po_reference p0, ''fee:payout:'' @ po_reference p0}"
    and mv: "moved refs (at_balance (po_wallet p0) Reserved_Balance (- (po_amount p0 + t_fee_amount t))) s s1" unfolding sf .
  have "quiet s2 s'" unfolding s' by (rule quiet_event)
  then have "settles p0 Successful (at_balance (po_wallet p0) Reserved_Balance (- (po_amount p0 + t_fee_amount t))) refs s s'"
    using mv tr unfolding settles_def by blast
  then show ?thesis by (rule paid [OF True refs claim])
qed

lemma complete_payout_books:
  assumes "books c s" and "c \<le> now" and "p0 \<in> set (payouts s)" and "same_payout p0 p" and "is_system s sa i"
    and "complete_payout_body now p i s = Inr (u, s')"
  shows "books now s'"
proof -
  obtain t where t: "row_by t_id (po_transaction p0) (transactions s) = Some t"
    using assms(6) by (auto simp: complete_payout_body_def lock_transaction_def bind_res_Inr_iff same_payout_fields [OF assms(4)])
  show ?thesis
  proof (rule complete_payout_run [OF assms(1,3-6) t])
    show "books now s'" if "s' = s" using books_quiet [OF assms(1) _ assms(2)] that by (simp add: quiet_def)
  next
    fix refs assume proc: "t_status t = Processing" and refs: "set refs \<subseteq> {''payout:'' @ po_reference p0, ''fee:payout:'' @ po_reference p0}"
      and claim: "only_used s (po_reference p0) [''payout-hold:'' @ po_reference p0]"
      and st: "settles p0 Successful (at_balance (po_wallet p0) Reserved_Balance (- (po_amount p0 + t_fee_amount t))) refs s s'"
    note m = service_mentions(7,12) [OF kind_token [OF linked_reference(3) [OF books_parts(2) [OF assms(1)] assms(3)]]]
    show "books now s'"
    proof (rule settles_books [OF assms(1,2,3) st])
      show "refs_of (po_reference p0) refs" using refs m by (auto simp: refs_of_def)
      show "settlement_ref j \<notin> set refs" for j using refs by (auto simp: settlement_ref_def)
      show "at_balance (po_wallet p0) Reserved_Balance (- (po_amount p0 + t_fee_amount t)) j Reserved_Balance = - payout_hold s j p0" for j
        using payout_hold_row [OF t, of j] proc by (auto simp: at_balance_def)
      show "\<exists>rs0. only_used s (po_reference p0) rs0 \<and> set refs \<union> set rs0 \<subseteq> set rs"
        if "(po_reference p0, rs) \<in> payout_claims_of p0 Successful" for rs
        using that claim refs by (intro exI [of _ "[''payout-hold:'' @ po_reference p0]"]) (auto simp: payout_claims_of_def)
    qed (simp_all add: OPEN_STATUSES_def at_balance_def)
  qed
qed

lemma fail_payout_run:
  assumes "books c s" and "p0 \<in> set (payouts s)" and "same_payout p0 p"
    and "fail_payout_body now p code reason s = Inr (u, s')" and "row_by t_id (po_transaction p0) (transactions s) = Some t"
  obtains (other) "t_status t \<noteq> Processing" "s' = s"
    | (returned) "t_status t = Processing"
        "settles p0 Failed (\<lambda>j k. at_balance (po_wallet p0) Available (po_amount p0 + t_fee_amount t) j k -
           at_balance (po_wallet p0) Reserved_Balance (po_amount p0 + t_fee_amount t) j k) [''payout-release:'' @ po_reference p0] s s'"
proof (cases "t_status t = Processing")
  case False
  then show ?thesis using other assms(4,5) by (simp add: fail_payout_body_def lock_transaction_def same_payout_fields [OF assms(3)])
next
  case True
  note sf = same_payout_fields [OF assms(3)] and b = books_parts [OF assms(1)] and t = assms(5)
  define m where "m = \<lparr>mv_amount = po_amount p + t_fee_amount t, mv_reference = ''payout-release:'' @ po_reference p,
      mv_description = ''Release hold for failed payout '' @ po_reference p, mv_metadata = []\<rparr>"
  obtain q s1 t' s2 where money: "release_within now (po_wallet p) m s = Inr (q, s1)"
    and tr: "transition (po_transaction p0) Failed
      (empty_patch\<lparr>tp_failure_code := Some code, tp_failure_reason := Some (take 500 reason)\<rparr>) s1 = Inr (t', s2)"
    and s': "s' = add_event now ''payout.failed'' ''transaction'' (t_id t) (payout_event p t @ [(''failureCode'', JStr code)]) s2"
    using assms(4) row_by_Some [OF t] True by (auto simp: fail_payout_body_def lock_transaction_def t bind_res_Inr_iff sf m_def)
  have claim: "only_used s (po_reference p) [''payout-hold:'' @ po_reference p]"
    using payout_claim [OF assms(1,2) t] True by (simp add: payout_claims_of_def sf)
  have tok: "token (po_reference p)" using linked_reference(3) [OF b(2) assms(2)] kind_token sf by metis
  have fr: "fresh s (mv_reference m)" unfolding m_def
    by (simp, rule only_used_fresh [OF claim]) (use service_mentions(8) [OF tok] tok in simp_all)
  have "quiet s2 s'" unfolding s' by (rule quiet_event)
  with release_within_moved [OF b(1) fr money] tr returned True show ?thesis
    unfolding settles_def by (auto simp: m_def sf)
qed

lemma fail_payout_books:
  assumes "books c s" and "c \<le> now" and "p0 \<in> set (payouts s)" and "same_payout p0 p"
    and "fail_payout_body now p code reason s = Inr (u, s')"
  shows "books now s'"
proof -
  obtain t where t: "row_by t_id (po_transaction p0) (transactions s) = Some t"
    using assms(5) by (auto simp: fail_payout_body_def lock_transaction_def bind_res_Inr_iff same_payout_fields [OF assms(4)])
  show ?thesis
  proof (rule fail_payout_run [OF assms(1,3-5) t])
    show "books now s'" if "s' = s" using books_quiet [OF assms(1) _ assms(2)] that by (simp add: quiet_def)
  next
    assume proc: "t_status t = Processing"
      and st: "settles p0 Failed (\<lambda>j k. at_balance (po_wallet p0) Available (po_amount p0 + t_fee_amount t) j k -
           at_balance (po_wallet p0) Reserved_Balance (po_amount p0 + t_fee_amount t) j k) [''payout-release:'' @ po_reference p0] s s'"
    show "books now s'"
    proof (rule settles_books [OF assms(1,2,3) st])
      show "refs_of (po_reference p0) [''payout-release:'' @ po_reference p0]"
        using service_mentions(8) [OF kind_token [OF linked_reference(3) [OF books_parts(2) [OF assms(1)] assms(3)]]] by (simp add: refs_of_def)
      show "at_balance (po_wallet p0) Available (po_amount p0 + t_fee_amount t) j Reserved_Balance -
          at_balance (po_wallet p0) Reserved_Balance (po_amount p0 + t_fee_amount t) j Reserved_Balance = - payout_hold s j p0" for j
        using payout_hold_row [OF t, of j] proc by (auto simp: at_balance_def)
    qed (simp_all add: OPEN_STATUSES_def at_balance_def payout_claims_of_def settlement_ref_def)
  qed
qed

lemma reverse_payout_money_moved:
  assumes "wallets_inv s" and "get_wallet (po_wallet p) s = Inr w" and "is_system s sa i"
    and "fresh s (''payout-reversal:'' @ po_reference p)" and "fresh s (''fee-refund:payout:'' @ po_reference p)"
    and "reverse_payout_money now p t i s = Inr s'" and "0 \<le> t_fee_amount t"
  obtains refs where "set refs \<subseteq> {''payout-reversal:'' @ po_reference p, ''fee-refund:payout:'' @ po_reference p}"
    "moved refs (at_balance (po_wallet p) Available (po_amount p + t_fee_amount t)) s s'"
proof -
  have w: "w \<in> set (wallets s)" "w_id w = po_wallet p" using assms(2) wallet_row [OF assms(1)] by auto
  obtain q1 s1 where 1: "post_in now (payout_leg ''payout-reversal:'' ''Reversal of payout '' p i (w_available w)) s = Inr (q1, s1)"
    and 2: "(if t_fee_amount t > 0
       then bind_res (refund_fee_within now (po_wallet p)
           (payout_fee_movement ''fee-refund:payout:'' ''Fee refund for reversed payout '' p (t_fee_amount t)) s1) (\<lambda>(_, s2). Inr s2)
       else Inr s1) = Inr s'"
    using assms(6) by (auto simp: reverse_payout_money_def bind_res_Inr_iff assms(2))
  note m1 = payout_leg_available [OF assms(1) w(1) assms(3,4) 1]
  show ?thesis
  proof (cases "t_fee_amount t > 0")
    case True
    then obtain q2 where fee: "refund_fee_within now (po_wallet p)
        (payout_fee_movement ''fee-refund:payout:'' ''Fee refund for reversed payout '' p (t_fee_amount t)) s1 = Inr (q2, s')"
      using 2 by (auto simp: bind_res_Inr_iff)
    have fr: "fresh s1 (mv_reference (payout_fee_movement ''fee-refund:payout:'' ''Fee refund for reversed payout '' p (t_fee_amount t)))"
      using moved_fresh [OF m1 assms(5)] by (simp add: payout_fee_movement_def)
    note m2 = refund_fee_within_moved [OF moved_wallets [OF m1 assms(1)] fr fee]
    show ?thesis
      by (rule that [OF _ moved_cong [OF moved_trans [OF m1 m2], of "at_balance (po_wallet p) Available (po_amount p + t_fee_amount t)"]])
        (auto simp: payout_fee_movement_def at_balance_def w(2))
  next
    case False
    then have "s' = s1" "t_fee_amount t = 0" using 2 assms(7) by auto
    then show ?thesis using that [of "[''payout-reversal:'' @ po_reference p]"] m1 w(2) by simp
  qed
qed

lemma reverse_payout_run:
  assumes "books c s" and "p0 \<in> set (payouts s)" and "same_payout p0 p" and "is_system s sa i"
    and "reverse_payout_body now p i s = Inr (u, s')" and "row_by t_id (po_transaction p0) (transactions s) = Some t"
  obtains (other) "t_status t \<noteq> Successful" "s' = s"
    | (taken_back) refs where "t_status t = Successful"
        "set refs \<subseteq> {''payout-reversal:'' @ po_reference p0, ''fee-refund:payout:'' @ po_reference p0}"
        "settles p0 Reversed (at_balance (po_wallet p0) Available (po_amount p0 + t_fee_amount t)) refs s s'"
proof (cases "t_status t = Successful")
  case False
  then show ?thesis using other assms(5,6) by (simp add: reverse_payout_body_def lock_transaction_def same_payout_fields [OF assms(3)])
next
  case True
  note sf = same_payout_fields [OF assms(3)] and b = books_parts [OF assms(1)] and t = assms(6)
  obtain s1 t' s2 where money: "reverse_payout_money now p t i s = Inr s1"
    and tr: "transition (po_transaction p0) Reversed empty_patch s1 = Inr (t', s2)"
    and s': "s' = add_event now ''payout.reversed'' ''transaction'' (t_id t) (payout_event p t) s2"
    using assms(5) row_by_Some [OF t] True by (auto simp: reverse_payout_body_def lock_transaction_def t bind_res_Inr_iff sf)
  obtain w where w: "get_wallet (po_wallet p) s = Inr w" using payout_wallet [OF assms(1,2)] sf by metis
  have claim: "only_used s (po_reference p) [''payout-hold:'' @ po_reference p, ''payout:'' @ po_reference p, ''fee:payout:'' @ po_reference p]"
    using payout_claim [OF assms(1,2) t] True by (simp add: payout_claims_of_def sf)
  have tok: "token (po_reference p)" using linked_reference(3) [OF b(2) assms(2)] kind_token sf by metis
  note m = service_mentions(9,13) [OF tok]
  have fr: "fresh s (''payout-reversal:'' @ po_reference p)" "fresh s (''fee-refund:payout:'' @ po_reference p)"
    by (rule only_used_fresh [OF claim]; use m tok in simp)+
  have fee: "0 \<le> t_fee_amount t" using linked_txn(5) [OF b(2)] row_by_Some [OF t] by blast
  from reverse_payout_money_moved [OF b(1) w assms(4) fr money fee] obtain refs where
    refs: "set refs \<subseteq> {''payout-reversal:'' @ po_reference p0, ''fee-refund:payout:'' @ po_reference p0}"
    and mv: "moved refs (at_balance (po_wallet p0) Available (po_amount p0 + t_fee_amount t)) s s1" unfolding sf .
  have "quiet s2 s'" unfolding s' by (rule quiet_event)
  then have "settles p0 Reversed (at_balance (po_wallet p0) Available (po_amount p0 + t_fee_amount t)) refs s s'"
    using mv tr unfolding settles_def by blast
  then show ?thesis by (rule taken_back [OF True refs])
qed

lemma reverse_payout_books:
  assumes "books c s" and "c \<le> now" and "p0 \<in> set (payouts s)" and "same_payout p0 p" and "is_system s sa i"
    and "reverse_payout_body now p i s = Inr (u, s')"
  shows "books now s'"
proof -
  obtain t where t: "row_by t_id (po_transaction p0) (transactions s) = Some t"
    using assms(6) by (auto simp: reverse_payout_body_def lock_transaction_def bind_res_Inr_iff same_payout_fields [OF assms(4)])
  show ?thesis
  proof (rule reverse_payout_run [OF assms(1,3-6) t])
    show "books now s'" if "s' = s" using books_quiet [OF assms(1) _ assms(2)] that by (simp add: quiet_def)
  next
    fix refs assume success: "t_status t = Successful"
      and refs: "set refs \<subseteq> {''payout-reversal:'' @ po_reference p0, ''fee-refund:payout:'' @ po_reference p0}"
      and st: "settles p0 Reversed (at_balance (po_wallet p0) Available (po_amount p0 + t_fee_amount t)) refs s s'"
    note m = service_mentions(9,13) [OF kind_token [OF linked_reference(3) [OF books_parts(2) [OF assms(1)] assms(3)]]]
    show "books now s'"
    proof (rule settles_books [OF assms(1,2,3) st])
      show "refs_of (po_reference p0) refs" using refs m by (auto simp: refs_of_def)
      show "settlement_ref j \<notin> set refs" for j using refs by (auto simp: settlement_ref_def)
      show "at_balance (po_wallet p0) Available (po_amount p0 + t_fee_amount t) j Reserved_Balance = - payout_hold s j p0" for j
        using payout_hold_row [OF t, of j] success by (auto simp: at_balance_def)
    qed (simp_all add: OPEN_STATUSES_def at_balance_def payout_claims_of_def)
  qed
qed

section \<open>The hold\<close>

lemma insert_payout_Inr:
  assumes "insert_payout p s = Inr (q, s')"
  shows "q = p" and "s' = s\<lparr>payouts := payouts s @ [p], next_id := Suc (next_id s)\<rparr>" and "0 < po_amount p"
    and "po_reference p \<notin> po_reference ` set (payouts s)"
proof -
  from assms have r: "payout_row_error p = None" and k: "List.map_filter (payout_key_taken p) (payouts s) = []"
    and s: "q = p" "s' = s\<lparr>payouts := payouts s @ [p], next_id := Suc (next_id s)\<rparr>"
    by (auto simp: insert_payout_def split: option.splits list.splits)
  show "q = p" "s' = s\<lparr>payouts := payouts s @ [p], next_id := Suc (next_id s)\<rparr>" by (rule s)+
  show "0 < po_amount p" using r by (auto simp: payout_row_error_def split: if_splits)
  have "po_reference x \<noteq> po_reference p" if "x \<in> set (payouts s)" for x
  proof -
    have "payout_key_taken p x = None" using k that by (simp add: map_filter_Nil_iff)
    then show ?thesis by (auto simp: payout_key_taken_def split: if_splits)
  qed
  then show "po_reference p \<notin> po_reference ` set (payouts s)" by (metis imageE)
qed

lemma new_payout_due:
  assumes "s' = s\<lparr>payouts := payouts s @ [p], next_id := n\<rparr>"
  shows "hold_due s' i = hold_due s i + payout_hold s i p"
proof -
  have "payout_hold s' i = payout_hold s i" "refund_hold s' i = refund_hold s i"
    by (rule ext, simp add: assms payout_hold_def refund_hold_def status_of_def)+
  then show ?thesis by (simp add: hold_due_def assms)
qed

lemma new_payout_claims:
  assumes "s' = s\<lparr>payouts := payouts s @ [p], next_id := n\<rparr>" and "status_of s (po_transaction p) = Some st"
  shows "claims s' = claims s \<union> payout_claims_of p st"
  using assms(2) by (auto simp: claims_def payment_claims_def refund_claims_def payout_claims_alt status_of_def assms(1))

lemma create_payout_Inr:
  assumes "create_payout ctx hex txhex now own w d inp fee key s = Inr (p, s')"
  obtains t s1 q s2 s3 where
    "create_transaction txhex now (payout_transaction own w d inp fee key (generate_payout_reference hex)) s = Inr (t, s1)"
    "reserve_within now (w_id w) (payout_hold_movement t inp fee (generate_payout_reference hex)) s1 = Inr (q, s2)"
    "insert_payout (new_payout now own w d inp (generate_payout_reference hex) t (next_id s2)) s2 = Inr (p, s3)"
    "quiet s3 s'"
  using assms quiet_audit by (auto simp: create_payout_def Let_def bind_res_Inr_iff)

lemma payout_reference_kind: "CHR '':'' \<notin> set hex \<Longrightarrow> kind_of_ref ''pyt_'' (generate_payout_reference hex)"
  by (simp add: kind_of_ref_def generate_payout_reference_def token_def)

lemma create_payout_books:
  assumes "books c s" and "c \<le> now" and "CHR '':'' \<notin> set hex" and "CHR '':'' \<notin> set txhex" and "0 \<le> fq_amount fee"
    and "create_payout ctx hex txhex now own w d inp fee key s = Inr (p, s')"
  shows "books now s'"
  using assms(6)
proof (cases rule: create_payout_Inr)
  case (1 t s1 q s2 s3)
  note b = books_parts [OF assms(1)] and cr = created_transaction [OF assms(1) 1(1) assms(4)] and ins = insert_payout_Inr [OF 1(3)]
  define m where "m = payout_hold_movement t inp fee (generate_payout_reference hex)"
  define x where "x = generate_payout_reference hex"
  have kind: "kind_of_ref ''pyt_'' x" unfolding x_def by (rule payout_reference_kind [OF assms(3)])
  have p: "p = new_payout now own w d inp x t (next_id s2)" using ins(1) by (simp add: x_def)
  have pf: "po_reference p = x" "po_wallet p = w_id w" "po_amount p = yi_amount inp" "po_transaction p = t_id t" "po_id p = next_id s2"
    by (simp_all add: p new_payout_def)
  have pos: "0 < po_amount p" using ins(3) by (simp only: ins(1))
  have inv1: "wallets_inv s1" by (rule shifted_wallets [OF cr(2) b(1)])
  have only: "only_ledger s1 s2" using reserve_within_move [OF 1(2)] by (simp add: ledger_move_def)
  note tabs = only_ledger_tables [OF only]
  have s3: "s3 = s2\<lparr>payouts := payouts s2 @ [p], next_id := Suc (next_id s2)\<rparr>" using ins(1,2) by simp
  have tr: "transactions s3 = transactions s1" by (simp add: s3 tabs)
  have unknown: "x \<notin> known s"
    using unknown_reference(3) [OF b(2) kind] ins(4) by (simp add: x_def new_payout_def tabs cr)
  have unused: "only_used s x []" by (rule unknown_unused [OF b(10) kind_token [OF kind] unknown])
  have mref: "mv_reference m = ''payout-hold:'' @ x" "mv_amount m = po_amount p + t_fee_amount t"
    using assms(5) by (simp_all add: m_def payout_hold_movement_def x_def pf cr(14) payout_transaction_def)
  have fr: "fresh s1 (mv_reference m)"
    using only_used_fresh [OF unused, of "mv_reference m"] kind_token [OF kind] shifted_fresh [OF cr(2)] by (simp add: mref service_mentions)
  note mv = reserve_within_moved(1) [OF inv1 fr 1(2) [folded m_def]]
  have sh: "shifted [mv_reference m] (\<lambda>j k. at_balance (w_id w) Reserved_Balance (mv_amount m) j k - at_balance (w_id w) Available (mv_amount m) j k) s s3"
    using shifted_quiet [OF shifted_trans [OF cr(2) moved_shifted [OF mv]], of s3] by (simp add: s3 db_leI)
  have l2: "linked s2" by (rule linked_move [OF cr(1) only])
  obtain w' where w': "get_wallet (w_id w) s1 = Inr w'" using 1(2) by (auto simp: reserve_within_def bind_res_Inr_iff)
  have w_in: "w_id w \<in> w_id ` set (wallets s3)" using w' wallet_row [OF inv1] by (auto simp: s3 tabs intro!: image_eqI [of _ _ w'])
  have old: "po_transaction y < next_id s" if "y \<in> set (payouts s)" for y
    using linked_payout [OF b(2) that] linked_txn(6) [OF b(2)] by metis
  have t_in: "t \<in> set (transactions s3)" using row_by_Some [OF cr(10)] by (simp add: tr)
  have l3: "linked s3"
  proof (rule linked_new_payout [OF l2 s3 pf(5)])
    show "payout_linked s3 p"
      using w_in t_in kind pos by (auto simp: payout_linked_def pf s3 cr(12) payout_transaction_def plain_transaction_def intro!: bexI [of _ t])
    show "po_transaction p \<notin> po_transaction ` set (payouts s2)" using old by (fastforce simp: pf tabs cr)
    show "po_reference p \<notin> po_reference ` set (payouts s2)" using ins(1,4) by simp
  qed
  have st: "row_by t_id (po_transaction p) (transactions s2) = Some t" by (simp add: pf tabs cr(10))
  have proc: "t_status t = Processing" by (simp add: cr(13) payout_transaction_def plain_transaction_def)
  note same2 = same_rows [OF cr(1) l2 tabs(7-10)]
  have b3: "books now s3"
  proof (rule books_shift [OF assms(1) sh _ l3])
    show "refs_of x [mv_reference m]" using kind_token [OF kind] by (simp add: mref service_mentions)
    have "committed_amount i s3 = committed_amount i s2" for i
      by (simp add: committed_amount_def refunds_in_def status_in_def s3)
    then show "refunds_within s3" using cr(5) same2(5) by (simp add: refunds_within_def s3)
    show "pending_due s3 i = pending_due s i + (at_balance (w_id w) Reserved_Balance (mv_amount m) i Pending_Balance -
        at_balance (w_id w) Available (mv_amount m) i Pending_Balance)" for i
      using pending_due_same [of s3 s i] by (simp add: s3 tabs cr at_balance_def)
    show "hold_due s3 i = hold_due s i + (at_balance (w_id w) Reserved_Balance (mv_amount m) i Reserved_Balance -
        at_balance (w_id w) Available (mv_amount m) i Reserved_Balance)" for i
      using new_payout_due [OF s3, of i] payout_hold_row [OF st, of i] proc same2(3) cr(3)
      by (simp add: at_balance_def mref pf)
    show "(y, rs) \<in> claims s \<and> ([mv_reference m] = [] \<or> y \<noteq> x) \<or> only_used s3 y rs" if y: "(y, rs) \<in> claims s3" for y rs
    proof -
      have "claims s3 = claims s1 \<union> {(x, [''payout-hold:'' @ x])}"
        using new_payout_claims [OF s3] st proc same2(1) by (simp add: status_of_def payout_claims_of_def pf)
      moreover have "claims s1 \<subseteq> claims s" using cr(8) by (simp add: payout_transaction_def plain_transaction_def)
      ultimately consider "(y, rs) \<in> claims s" | "y = x" "rs = [''payout-hold:'' @ x]" using y by blast
      then show ?thesis
      proof cases
        case 1
        have "y \<noteq> x" if "y = x" using 1 unknown that claims_known [OF 1] by simp
        then show ?thesis using 1 by blast
      next
        case 2
        then show ?thesis using only_used_own [OF sh unused] by (simp add: mref)
      qed
    qed
    show "settled_once now s3"
      by (rule settled_once_shift [OF assms(1,2) sh]) (auto simp: mref settlement_ref_def s3 tabs cr)
    show "known s \<subseteq> known s3" using cr(6) same2(2) by (auto simp: known_def s3)
    show "[mv_reference m] = [] \<or> x \<in> known s3 \<or> (\<forall>r \<in> set [mv_reference m]. \<forall>y. token y \<longrightarrow> \<not> mentions r y)"
      by (simp add: known_def s3 pf)
  qed (simp add: s3 tabs cr)
  show ?thesis by (rule books_quiet [OF b3 1(4)]) simp
qed

section \<open>The sending marks\<close>

lemma same_payout_marks:
  "same_payout p p" "same_payout p (p\<lparr>po_submitted_at := b\<rparr>)" "same_payout p (p\<lparr>po_provider_reference := a\<rparr>)"
proof -
  show "same_payout p p" unfolding same_payout_def
    by (rule exI [of _ "po_provider_reference p"], rule exI [of _ "po_submitted_at p"]) simp
  show "same_payout p (p\<lparr>po_submitted_at := b\<rparr>)" unfolding same_payout_def
    by (rule exI [of _ "po_provider_reference p"], rule exI [of _ b]) simp
  show "same_payout p (p\<lparr>po_provider_reference := a\<rparr>)" unfolding same_payout_def
    by (rule exI [of _ a], rule exI [of _ "po_submitted_at p"]) simp
qed

lemma payout_marks_books:
  assumes "books c s" and "c \<le> c'" and "s' = s\<lparr>payouts := map g (payouts s)\<rparr>" and "\<And>p. same_payout p (g p)"
  shows "books c' s'"
proof -
  note b = books_parts [OF assms(1)] and g = same_payout_fields [OF assms(4)]
  have sh: "shifted [] (\<lambda>i k. 0) s s'" by (rule quiet_shifted [OF b(8)]) (simp_all add: assms(3) db_leI)
  show ?thesis
  proof (rule books_shift [OF assms(1) sh refs_of_Nil linked_payout_marks [OF b(2) assms(3,4)]])
    have "committed_amount i s' = committed_amount i s" for i
      by (simp add: committed_amount_def refunds_in_def status_in_def assms(3))
    then show "refunds_within s'" using b(3) by (simp add: refunds_within_def assms(3))
    show "pending_due s' i = pending_due s i + 0" for i by (simp add: pending_due_def assms(3))
    have "refund_hold s' i = refund_hold s i" "payout_hold s' i = payout_hold s i" for i
      by (rule ext, simp add: refund_hold_def payout_hold_def status_of_def assms(3))+
    moreover have "map (payout_hold s i) (map g (payouts s)) = map (payout_hold s i) (payouts s)" for i
      by (auto simp: payout_hold_def g split: option.splits)
    ultimately show "hold_due s' i = hold_due s i + 0" for i
      unfolding hold_due_def by (simp add: assms(3) del: list.map_comp map_map)
    have st: "status_of s' i = status_of s i" for i by (simp add: status_of_def assms(3))
    have "(case status_of s (po_transaction (g p)) of None \<Rightarrow> {} | Some st \<Rightarrow> payout_claims_of (g p) st) =
        (case status_of s (po_transaction p) of None \<Rightarrow> {} | Some st \<Rightarrow> payout_claims_of p st)" for p
      by (cases "status_of s (po_transaction p)") (auto simp: g payout_claims_of_def)
    then have "payout_claims s' = payout_claims s" unfolding payout_claims_alt st by (simp add: assms(3))
    then have "claims s' = claims s" unfolding claims_def payment_claims_def refund_claims_def st by (simp add: assms(3))
    then have "(y, rs) \<in> claims s" if "(y, rs) \<in> claims s'" for y rs using that by simp
    then show "(y, rs) \<in> claims s' \<Longrightarrow> (y, rs) \<in> claims s \<and> ([] = [] \<or> y \<noteq> x) \<or> only_used s' y rs" for y rs x by blast
    show "settled_once c' s'" by (rule settled_once_shift [OF assms(1,2) sh]) (auto simp: assms(3))
    show "known s \<subseteq> known s'" using g(2) by (auto simp: known_def assms(3) image_iff)
  qed (simp_all add: assms(3))
qed

lemma claim_payout_books:
  assumes "books c s" and "c \<le> c'"
  shows "books c' (snd (claim_payout now i s))"
proof (cases "snd (claim_payout now i s) = s")
  case True
  then show ?thesis using books_quiet [OF assms(1) _ assms(2)] by (simp add: quiet_def)
next
  case False
  then have "snd (claim_payout now i s) = s\<lparr>payouts := map (\<lambda>p. if po_id p = i then p\<lparr>po_submitted_at := Some now\<rparr> else p) (payouts s)\<rparr>"
    by (auto simp: claim_payout_def set_row_def split: option.splits if_splits)
  then show ?thesis
  proof (rule payout_marks_books [OF assms])
    fix p
    show "same_payout p (if po_id p = i then p\<lparr>po_submitted_at := Some now\<rparr> else p)"
      by (simp add: same_payout_marks)
  qed
qed

lemma payout_reference_books:
  assumes "books c s" and "c \<le> c'"
  shows "books c' (set_payout_reference i ref s)"
proof (rule payout_marks_books [OF assms])
  show "set_payout_reference i ref s = s\<lparr>payouts := map (\<lambda>p. if po_id p = i then p\<lparr>po_provider_reference := Some ref\<rparr> else p) (payouts s)\<rparr>"
    by (simp add: set_payout_reference_def set_row_def)
  fix p
  show "same_payout p (if po_id p = i then p\<lparr>po_provider_reference := Some ref\<rparr> else p)"
    by (simp add: same_payout_marks)
qed

end
