(* ===== verification/Wallet_Books.thy ===== *)
theory Wallet_Books
  imports Books_Rules Transfers
begin

text \<open>
  The books under the transactions that belong to no payment, refund or payout: transfers move
  available money only, a new wallet is empty and owed nothing, choosing the primary wallet or
  freezing one moves no money, and rules, rates, quotes, destinations and the audit trail are
  rows the books do not look at.
\<close>

section \<open>Transfers\<close>

text \<open>The wallets were read before the transaction: their flags may be old, their accounts not.\<close>

definition same_wallet :: "wallet \<Rightarrow> wallet \<Rightarrow> bool" where
  "same_wallet w v \<longleftrightarrow> w_id v = w_id w \<and> w_available v = w_available w \<and> w_currency v = w_currency w"

lemma same_wallet_refl: "same_wallet w w"
  by (simp add: same_wallet_def)

definition available_only :: "(uuid \<Rightarrow> balance_kind \<Rightarrow> int) \<Rightarrow> bool" where
  "available_only f \<longleftrightarrow> (\<forall>i. f i Pending_Balance = 0 \<and> f i Reserved_Balance = 0)"

lemma transfer_within_moved:
  assumes "wallets_inv s" and "a \<in> set (wallets s)" and "b \<in> set (wallets s)" and "same_wallet a src" and "same_wallet b dst"
    and "fresh s (mv_reference m)" and "transfer_within now src dst m s = Inr (p, s')"
  shows "moved [mv_reference m] (\<lambda>i k. at_balance (w_id b) Available (mv_amount m) i k - at_balance (w_id a) Available (mv_amount m) i k) s s'"
proof (rule effect_moved [OF transfer_within_effect(1) [OF wallets_inv_ok [OF assms(1)] assms(6,7)]])
  show "only_ledger s s'" using transfer_within_move [OF assms(7)] by (simp add: ledger_move_def)
  fix v k assume v: "v \<in> set (wallets s)"
  show "only_at (w_available dst) (mv_amount m) (balance_account v k) - only_at (w_available src) (mv_amount m) (balance_account v k) =
      at_balance (w_id b) Available (mv_amount m) (w_id v) k - at_balance (w_id a) Available (mv_amount m) (w_id v) k"
    using only_at_wallet [OF assms(1,3) v, of Available] only_at_wallet [OF assms(1,2) v, of Available] assms(4,5)
    by (simp add: same_wallet_def)
qed

lemma transfer_money_shifted:
  assumes "wallets_inv s" and "a \<in> set (wallets s)" and "b \<in> set (wallets s)" and "same_wallet a src" and "same_wallet b dst"
    and "fresh s (''transfer:'' @ t_reference t)" and "fresh s (''fee:transfer:'' @ t_reference t)"
    and "transfer_money now t src dst fee inp s = Inr (p, s')"
  obtains refs f where "shifted refs f s s'" "available_only f" "refs \<noteq> []"
    "set refs \<subseteq> {''transfer:'' @ t_reference t, ''fee:transfer:'' @ t_reference t}"
proof -
  let ?m = "transfer_movement t inp" and ?n = "transfer_fee_movement t fee"
  have refs: "mv_reference ?m = ''transfer:'' @ t_reference t" "mv_reference ?n = ''fee:transfer:'' @ t_reference t"
    by (simp_all add: transfer_movement_def transfer_fee_movement_def)
  obtain s1 where tr: "transfer_within now src dst ?m s = Inr (p, s1)"
    and rest: "if fq_amount fee > 0 then \<exists>q. collect_fee_within now (w_id src) Available ?n s1 = Inr (q, s') else s' = s1"
    using assms(8) by (auto simp: transfer_money_def bind_res_Inr_iff split: if_splits)
  have fr: "fresh s (mv_reference ?m)" using assms(6) refs by simp
  note m1 = transfer_within_moved [OF assms(1-5) fr tr]
  show ?thesis
  proof (cases "fq_amount fee > 0")
    case False
    then have "s1 = s'" using rest by simp
    from that [OF moved_shifted [OF m1 [unfolded this]]] refs show ?thesis by (simp add: available_only_def at_balance_def)
  next
    case True
    then obtain q where col: "collect_fee_within now (w_id src) Available ?n s1 = Inr (q, s')" using rest by auto
    have fr1: "fresh s1 (mv_reference ?n)" using moved_fresh [OF m1] assms(7) refs by simp
    note m2 = collect_fee_within_moved [OF moved_wallets [OF m1 assms(1)] fr1 col]
    from that [OF shifted_trans [OF moved_shifted [OF m1] moved_shifted [OF m2]]] refs show ?thesis
      by (simp add: available_only_def at_balance_def)
  qed
qed

lemma transfer_body_books:
  assumes "books c s" and "c \<le> now" and "CHR '':'' \<notin> set hex" and "a \<in> set (wallets s)" and "b \<in> set (wallets s)"
    and "same_wallet a src" and "same_wallet b dst"
    and "transfer_body hex now user recipient src dst currency fee inp key s = Inr (t', s')"
  shows "books now s'"
  using assms(8)
proof (cases rule: transfer_body_Inr)
  case (1 t s1 p s2 s3)
  note bp = books_parts [OF assms(1)] and cr = created_transaction [OF assms(1) 1(2) assms(3)]
  define x where "x = t_reference t"
  have tok: "token x" using kind_token [OF cr(21)] by (simp add: x_def)
  have unused: "only_used s x []" using unknown_unused [OF bp(10) tok] cr(7) by (simp add: x_def)
  have w1: "wallets s1 = wallets s" using shifted_rows [OF cr(2)] by blast
  have fr: "fresh s1 (''transfer:'' @ x)" "fresh s1 (''fee:transfer:'' @ x)"
    using unused tok shifted_fresh [OF cr(2)] by (simp_all add: only_used_def service_mentions)
  from transfer_money_shifted [OF shifted_wallets [OF cr(2) bp(1)] _ _ assms(6,7) fr [unfolded x_def] 1(3)] assms(4,5) w1
  obtain refs f where sh1: "shifted refs f s1 s2" "available_only f" "refs \<noteq> []"
    "set refs \<subseteq> {''transfer:'' @ x, ''fee:transfer:'' @ x}" unfolding x_def by metis
  have only: "only_ledger s1 s2" using transfer_money_move [OF 1(3)] by (simp add: ledger_move_def)
  note tabs = only_ledger_tables [OF only] and fr3 = transition_frame [OF 1(4)]
  have sh: "shifted refs f s s3"
    using shifted_quiet [OF shifted_trans [OF cr(2) sh1(1)] fr3(1,2,8)] by simp
  have l2: "linked s2" by (rule linked_move [OF cr(1) only])
  have l3: "linked s3" by (rule linked_transition [OF l2 1(4)]) (simp add: OPEN_STATUSES_def)
  have t: "t \<in> set (transactions s2)" "t_type t \<notin> {Ty_Refund, Ty_Withdrawal}"
    using row_by_Some [OF cr(10)] cr(12) by (simp_all add: tabs transfer_record_def plain_transaction_def)
  note k2 = holds_kept_refl [OF cr(1) tabs(7,9,10)] and k3 = holds_kept_transition [OF l2 t 1(4)]
  have k: "holds_kept s s3" by (rule holds_kept_trans [OF l2 holds_kept_trans [OF cr(1) cr(9) k2] k3])
  have pays: "payments s3 = payments s" by (simp add: fr3 tabs cr)
  have refs_x: "refs_of x refs" using sh1(4) tok by (auto simp: refs_of_def service_mentions)
  have b3: "books now s3"
  proof (rule books_shift [OF assms(1) sh refs_x l3])
    show "refunds_within s3" using bp(3) holds_kept_committed(1) [OF bp(2) l3 k] by (simp add: refunds_within_def pays)
    show "pending_due s3 i = pending_due s i + f i Pending_Balance" for i
      using pending_due_same [OF pays] sh1(2) by (simp add: available_only_def)
    show "hold_due s3 i = hold_due s i + f i Reserved_Balance" for i
      using holds_kept_due [OF bp(2) k] sh1(2) by (simp add: available_only_def)
    show "(y, rs) \<in> claims s \<and> (refs = [] \<or> y \<noteq> x) \<or> only_used s3 y rs" if y: "(y, rs) \<in> claims s3" for y rs
    proof -
      have "payment_claims s3 \<subseteq> payment_claims s2" by (rule payment_claims_transition [OF l2 1(4)]) (simp add: OPEN_STATUSES_def)
      then have "claims s3 \<subseteq> claims s1"
        using holds_kept_claims [OF bp(2) k] holds_kept_claims [OF bp(2) cr(9)] by (auto simp: claims_def payment_claims_def tabs)
      moreover have "claims s1 \<subseteq> claims s" using cr(8) by (simp add: transfer_record_def plain_transaction_def)
      ultimately have c: "(y, rs) \<in> claims s" using y by blast
      have "y \<noteq> x" using claims_known [OF c] cr(7) by (auto simp: x_def)
      then show ?thesis using c by blast
    qed
    show "settled_once now s3"
    proof (rule settled_once_shift [OF assms(1,2) sh])
      show "settlement_ref i \<notin> set refs" for i using sh1(4) by (auto simp: settlement_ref_def)
    qed (auto simp: pays)
    have kn: "known s3 = insert x (known s)" using cr(6) fr3(9) by (simp add: x_def known_def tabs)
    show "known s \<subseteq> known s3" using kn by blast
    show "refs = [] \<or> x \<in> known s3 \<or> (\<forall>r \<in> set refs. \<forall>y. token y \<longrightarrow> \<not> mentions r y)" using kn by blast
  qed (simp add: fr3 tabs cr)
  show ?thesis unfolding 1(5) by (rule books_quiet [OF b3 quiet_event]) simp
qed

section \<open>Wallets\<close>

text \<open>Wallet rows may be added or change their flags while no money moves.\<close>

lemma books_wallets:
  assumes "books c s" and "c \<le> c'" and "wallets_inv s'" and "transactions s' = transactions s" and "payments s' = payments s"
    and "refunds s' = refunds s" and "payouts s' = payouts s" and "fx_quotes s' = fx_quotes s" and "next_id s \<le> next_id s'"
    and "\<And>r. fresh s' r \<longleftrightarrow> fresh s r" and "w_id ` set (wallets s) \<subseteq> w_id ` set (wallets s')"
    and "\<And>w. w \<in> set (wallets s') \<Longrightarrow>
      (\<exists>v \<in> set (wallets s). w_id v = w_id w \<and> credit s' (w_pending w) = credit s (w_pending v) \<and>
         credit s' (w_reserved w) = credit s (w_reserved v)) \<or>
      w_id w \<notin> w_id ` set (wallets s) \<and> credit s' (w_pending w) = 0 \<and> credit s' (w_reserved w) = 0"
  shows "books c' s'"
proof -
  note b = books_parts [OF assms(1)]
  have l: "linked s'" by (rule linked_cong [OF b(2) assms(4-7,11,9)])
  note same = same_rows [OF b(2) l assms(4-7)]
  have none: "pending_due s i = 0 \<and> hold_due s i = 0" if i: "i \<notin> w_id ` set (wallets s)" for i
  proof -
    have "p_wallet p \<noteq> i" if "p \<in> set (payments s)" for p
      using b(2) that i by (auto simp: linked_def payment_linked_def)
    moreover have "refund_hold s i r = 0" if "r \<in> set (refunds s)" for r
      using b(2) that i by (auto simp: linked_def refund_linked_def refund_hold_def)
    moreover have "payout_hold s i p = 0" if "p \<in> set (payouts s)" for p
      using b(2) that i by (auto simp: linked_def payout_linked_def payout_hold_def split: option.splits)
    ultimately show ?thesis
      using sum_list_same [of "payments s" "\<lambda>p. if p_wallet p = i then p_pending_amount p else 0" "\<lambda>p. 0"]
        sum_list_same [of "refunds s" "refund_hold s i" "\<lambda>p. 0"] sum_list_same [of "payouts s" "payout_hold s i" "\<lambda>p. 0"]
      by (simp add: pending_due_def hold_due_def)
  qed
  have dues: "dues_match s'"
    unfolding dues_match_def same(3,4)
  proof
    fix w assume w: "w \<in> set (wallets s')"
    show "credit s' (w_pending w) = pending_due s (w_id w) \<and> credit s' (w_reserved w) = hold_due s (w_id w)"
      using assms(12) [OF w] none [of "w_id w"] b(4) by (auto simp: dues_match_def)
  qed
  have "only_used s' y rs" if "(y, rs) \<in> claims s'" for y rs
    using b(7) [of y rs] that same(1) assms(10) by (simp add: only_used_def)
  moreover have "settled_once c' s'"
    by (rule settled_once_keep [OF b(5) assms(2,9)]) (auto simp: assms(5,10))
  moreover have "quotes_consumed s'" using b(6) assms(8,10) by (simp add: quotes_consumed_def)
  moreover have "known_refs s'" using b(10) assms(10) same(2) by (simp add: known_refs_def)
  ultimately show ?thesis using assms(3) l dues b(3) same(5) unfolding books_def by blast
qed

lemma open_account_rows:
  assumes "open_account inp s = Inr (a, s')"
  shows "only_ledger s s'" and "fresh s' r \<longleftrightarrow> fresh s r"
    and "account_in s i = Some b \<Longrightarrow> account_in s' i = Some b"
proof -
  show "only_ledger s s'" by (rule open_account_frame [OF assms])
  show "fresh s' r \<longleftrightarrow> fresh s r" by (simp add: open_account_Inr(2) [OF assms] fresh_def add_account_def)
  show "account_in s i = Some b \<Longrightarrow> account_in s' i = Some b" by (rule open_account_keeps [OF assms])
qed

lemma insert_wallet_rows:
  assumes "insert_wallet seen ctx now own c primary s = Inr (w, s')"
  shows "transactions s' = transactions s" "payments s' = payments s" "refunds s' = refunds s" "payouts s' = payouts s"
    "fx_quotes s' = fx_quotes s" "w_id w = next_id s" "\<And>r. fresh s' r \<longleftrightarrow> fresh s r"
    "\<And>i b. account_in s i = Some b \<Longrightarrow> account_in s' i = Some b"
proof -
  from assms obtain a s1 p s2 r s3 s4 where
    o: "open_account (wallet_account ''available'' c) s = Inr (a, s1)" "open_account (wallet_account ''pending'' c) s1 = Inr (p, s2)"
      "open_account (wallet_account ''reserved'' c) s2 = Inr (r, s3)"
    and ins: "insert_wallet_row w s3 = Inr s4" and s': "ledger s' = ledger s4" "transactions s' = transactions s4" "payments s' = payments s4" "refunds s' = refunds s4"
      "payouts s' = payouts s4" "fx_quotes s' = fx_quotes s4"
    and w: "w_id w = next_id s3"
    by (auto simp: insert_wallet_def Let_def bind_res_Inr_iff)
  note row = insert_wallet_row_Inr(1) [OF ins] and t = only_ledger_tables [OF only_ledger_trans [OF open_account_frame [OF o(1)]
    only_ledger_trans [OF open_account_frame [OF o(2)] open_account_frame [OF o(3)]]]]
  show "transactions s' = transactions s" "payments s' = payments s" "refunds s' = refunds s" "payouts s' = payouts s"
    "fx_quotes s' = fx_quotes s" "w_id w = next_id s" by (simp_all add: s' row t w)
  have led: "ledger s' = ledger s3" by (simp add: s' row)
  show "fresh s' x \<longleftrightarrow> fresh s x" for x
    using open_account_rows(2) [OF o(1)] open_account_rows(2) [OF o(2)] open_account_rows(2) [OF o(3)] led by (simp add: fresh_def)
  show "account_in s' i = Some b" if "account_in s i = Some b" for i b
    using open_account_keeps [OF o(3) open_account_keeps [OF o(2) open_account_keeps [OF o(1) that]]] by (simp add: led)
qed

lemma create_wallet_books:
  assumes "books c s" and "c \<le> c'" and "create_wallet cfg seen ctx now own cur s = Inr (w, s')"
  shows "books c' s'"
proof -
  from create_wallet_Inr [OF assms(3)] obtain primary where ins: "insert_wallet seen ctx now own cur primary s = Inr (w, s')" by blast
  note i = insert_wallet_Inr [OF ins books_parts(1) [OF assms(1)]] and r = insert_wallet_rows [OF ins]
  have credit: "credit s' (balance_account v k) = credit s (balance_account v k)" if v: "v \<in> set (wallets s)" for v k
  proof -
    obtain a where "account_in s (balance_account v k) = Some a" using wallet_account_in [OF books_parts(1) [OF assms(1)] v] by blast
    from r(8) [OF this] this show ?thesis by (simp add: credit_def position_def position_in_def)
  qed
  have zero: "credit s' (balance_account w k) = 0" for k
    using i(6) [of k] wallet_account_in [OF i(1), of w k] i(2)
    by (force simp: balance_def balance_in_def credit_def position_def position_in_def debit_position_def)
  have new: "w_id w \<notin> w_id ` set (wallets s)" using i(1) by (auto simp: i(2) wallets_inv_def)
  show ?thesis
  proof (rule books_wallets [OF assms(1,2) i(1) r(1-5)])
    show "next_id s \<le> next_id s'" using i(5) by (simp add: db_le_def)
    fix v assume "v \<in> set (wallets s')"
    then consider "v \<in> set (wallets s)" | "v = w" by (auto simp: i(2))
    then show "(\<exists>u \<in> set (wallets s). w_id u = w_id v \<and> credit s' (w_pending v) = credit s (w_pending u) \<and>
        credit s' (w_reserved v) = credit s (w_reserved u)) \<or>
      w_id v \<notin> w_id ` set (wallets s) \<and> credit s' (w_pending v) = 0 \<and> credit s' (w_reserved v) = 0"
      using credit [of v Pending_Balance] credit [of v Reserved_Balance] zero [of Pending_Balance] zero [of Reserved_Balance] new
      by cases auto
  qed (auto simp: r(7) i(2))
qed

text \<open>Choosing the primary wallet, freezing and closing.\<close>

lemma books_wallet_flags:
  assumes "books c s" and "c \<le> c'" and "wallets_inv s'" and "transactions s' = transactions s" and "payments s' = payments s"
    and "refunds s' = refunds s" and "payouts s' = payouts s" and "fx_quotes s' = fx_quotes s" and "next_id s \<le> next_id s'"
    and "ledger s' = ledger s" and "wallets s' = map g (wallets s)"
    and "\<And>w. w_id (g w) = w_id w \<and> w_pending (g w) = w_pending w \<and> w_reserved (g w) = w_reserved w"
  shows "books c' s'"
proof (rule books_wallets [OF assms(1-9)])
  have led: "credit s' i = credit s i" for i by (simp add: credit_def position_def position_in_def assms(10))
  fix w assume "w \<in> set (wallets s')"
  then show "(\<exists>v \<in> set (wallets s). w_id v = w_id w \<and> credit s' (w_pending w) = credit s (w_pending v) \<and>
      credit s' (w_reserved w) = credit s (w_reserved v)) \<or>
    w_id w \<notin> w_id ` set (wallets s) \<and> credit s' (w_pending w) = 0 \<and> credit s' (w_reserved w) = 0"
    using assms(12) by (auto simp: assms(11) led)
qed (use assms(12) in \<open>auto simp: fresh_def assms(10,11) image_iff\<close>)

lemma set_primary_books:
  assumes "books c s" and "c \<le> c'" and "set_primary ctx now own i s = Inr (r, s')"
  shows "books c' s'"
proof -
  note w = books_parts(1) [OF assms(1)]
  note p = set_primary_Inr [OF w assms(3)]
  have rest: "payments s' = payments s" "refunds s' = refunds s" "payouts s' = payouts s" "fx_quotes s' = fx_quotes s"
    using assms(3) by (auto simp: set_primary_def Let_def bind_res_Inr_iff split: if_splits)
  show ?thesis
    by (rule books_wallet_flags [OF assms(1,2) set_primary_inv [OF w assms(3)] p(4) rest p(3,2,1)]) (simp add: chosen_def)
qed

lemma set_status_books:
  assumes "books c s" and "c \<le> c'"
  shows "books c' (set_status i st s)"
proof -
  let ?s = "set_status i st s"
  define g :: "wallet \<Rightarrow> wallet" where "g = (\<lambda>w. if w_id w = i then w\<lparr>w_status := st\<rparr> else w)"
  have ws: "wallets ?s = map g (wallets s)" by (simp add: set_status_def set_row_def g_def)
  have g: "w_id (g w) = w_id w" "w_currency (g w) = w_currency w" "w_user_id (g w) = w_user_id w"
    "w_organization_id (g w) = w_organization_id w" "wallet_accounts (g w) = wallet_accounts w" "w_is_primary (g w) = w_is_primary w"
    "w_pending (g w) = w_pending w" "w_reserved (g w) = w_reserved w" for w
    by (simp_all add: g_def wallet_accounts_def)
  have acc: "wallet_account_ok ?s = wallet_account_ok s" by (intro ext) (simp add: wallet_account_ok_def set_status_def)
  have rules: "wallet_rules (map g ws) = wallet_rules ws" if "distinct (map w_id ws)" for ws
  proof -
    note d = that
    have "g a = g b \<longleftrightarrow> a = b" if "a \<in> set ws" "b \<in> set ws" for a b
      using that d g(1) by (metis distinct_map inj_onD)
    then show ?thesis by (auto simp: wallet_rules_def same_owner_def g)
  qed
  have inv: "wallets_inv ?s"
    using books_parts(1) [OF assms(1)] unfolding wallets_inv_def ws acc
    by (auto simp: rules g comp_def set_status_def)
  show ?thesis by (rule books_wallet_flags [OF assms inv _ _ _ _ _ _ _ ws]) (simp_all add: set_status_def g)
qed

end
