(* ===== verification/System.thy ===== *)
theory System
  imports Payment_Books Settlement_Books Refund_Books Payout_Books Wallet_Books Payout_Destinations
begin

text \<open>
  The system as a state machine. A state is the clock and the database; a step is one committed
  database transaction of one of the services, run at a clock that does not go back. Requests
  interleave freely between transactions, so what a transaction was handed by an earlier read
  (a row of a payment, refund or payout, a wallet, the id of a system account) may be older than
  the state it runs on: the rules only ask that it agrees with the present row in the columns
  that never change.
\<close>

section \<open>Steps\<close>

inductive payment_step :: "int \<Rightarrow> db \<Rightarrow> db \<Rightarrow> bool" for now where
  recorded: "CHR '':'' \<notin> set hex \<Longrightarrow> w_id (ct_wallet target) \<in> w_id ` set (wallets s) \<Longrightarrow>
    record_payment hex now own target provider email quote fee inp key s = Inr (p, s') \<Longrightarrow> payment_step now s s'"
| checkout_opened: "p \<in> set (payments s) \<Longrightarrow>
    update_payment (p_id p) (\<lambda>row. row\<lparr>p_provider_reference := Some ref, p_authorization_url := Some url\<rparr>) s = Inr s' \<Longrightarrow>
    payment_step now s s'"
| checkout_refused: "p \<in> set (payments s) \<Longrightarrow> transition (p_transaction p) Failed patch s = Inr (t, s') \<Longrightarrow> payment_step now s s'"
| credited: "p0 \<in> set (payments s) \<Longrightarrow> same_payment p0 p \<Longrightarrow> credit_payment rg cfg now p s = Inr (out, s') \<Longrightarrow> payment_step now s s'"
| failed: "p0 \<in> set (payments s) \<Longrightarrow> same_payment p0 p \<Longrightarrow> fail_payment now p code reason s = Inr (out, s') \<Longrightarrow> payment_step now s s'"
| released: "release_payment ctx now i early s = Inr (d, s') \<Longrightarrow> payment_step now s s'"

inductive refund_step :: "int \<Rightarrow> db \<Rightarrow> db \<Rightarrow> bool" for now where
  created: "CHR '':'' \<notin> set hex \<Longrightarrow> CHR '':'' \<notin> set txhex \<Longrightarrow>
    create_refund ctx hex txhex now admin payment inp key s = Inr (r, s') \<Longrightarrow> refund_step now s s'"
| claimed: "refund_step now s (snd (claim_refund now i s))"
| referenced: "set_refund_reference i ref s = Inr (u, s') \<Longrightarrow> refund_step now s s'"
| completed: "r0 \<in> set (refunds s) \<Longrightarrow> same_refund r0 r \<Longrightarrow> system_accounts s accts \<Longrightarrow>
    complete_refund_body now r accts s = Inr (u, s') \<Longrightarrow> refund_step now s s'"
| failed: "r0 \<in> set (refunds s) \<Longrightarrow> same_refund r0 r \<Longrightarrow> fail_refund_body now r code reason s = Inr (u, s') \<Longrightarrow> refund_step now s s'"

inductive payout_step :: "int \<Rightarrow> db \<Rightarrow> db \<Rightarrow> bool" for now where
  created: "CHR '':'' \<notin> set hex \<Longrightarrow> CHR '':'' \<notin> set txhex \<Longrightarrow> 0 \<le> fq_amount fee \<Longrightarrow>
    create_payout ctx hex txhex now own w d inp fee key s = Inr (p, s') \<Longrightarrow> payout_step now s s'"
| claimed: "payout_step now s (snd (claim_payout now i s))"
| referenced: "payout_step now s (set_payout_reference i ref s)"
| completed: "p0 \<in> set (payouts s) \<Longrightarrow> same_payout p0 p \<Longrightarrow> is_system s sa i \<Longrightarrow>
    complete_payout_body now p i s = Inr (u, s') \<Longrightarrow> payout_step now s s'"
| failed: "p0 \<in> set (payouts s) \<Longrightarrow> same_payout p0 p \<Longrightarrow> fail_payout_body now p code reason s = Inr (u, s') \<Longrightarrow> payout_step now s s'"
| reversed: "p0 \<in> set (payouts s) \<Longrightarrow> same_payout p0 p \<Longrightarrow> is_system s sa i \<Longrightarrow>
    reverse_payout_body now p i s = Inr (u, s') \<Longrightarrow> payout_step now s s'"

inductive wallet_step :: "int \<Rightarrow> db \<Rightarrow> db \<Rightarrow> bool" for now where
  opened: "create_wallet cfg seen ctx now own cur s = Inr (w, s') \<Longrightarrow> wallet_step now s s'"
| primary: "set_primary ctx now own i s = Inr (r, s') \<Longrightarrow> wallet_step now s s'"
| status: "wallet_step now s (set_status i st s)"
| transferred: "CHR '':'' \<notin> set hex \<Longrightarrow> a \<in> set (wallets s) \<Longrightarrow> b \<in> set (wallets s) \<Longrightarrow> same_wallet a src \<Longrightarrow> same_wallet b dst \<Longrightarrow>
    transfer_body hex now user recipient src dst cur fee inp key s = Inr (t, s') \<Longrightarrow> wallet_step now s s'"
| account_opened: "ensure_account sa s = Inr (a, s') \<Longrightarrow> wallet_step now s s'"

inductive desk_step :: "int \<Rightarrow> db \<Rightarrow> db \<Rightarrow> bool" for now where
  quoted: "create_quote cfg now inp s = Inr (q, s') \<Longrightarrow> desk_step now s s'"
| rated: "set_rate ctx now base quot rate user s = Inr (r, s') \<Longrightarrow> desk_step now s s'"
| fee_set: "set_fee_rule ctx admin now fee s = Inr (fr, s') \<Longrightarrow> desk_step now s s'"
| fee_retired: "retire_fee_rule ctx now i s = Inr (fr, s') \<Longrightarrow> desk_step now s s'"
| limit_set: "set_limit_rule ctx admin now lim s = Inr (lr, s') \<Longrightarrow> desk_step now s s'"
| limit_retired: "retire_limit_rule ctx now i s = Inr (lr, s') \<Longrightarrow> desk_step now s s'"
| destination_added: "add_destination rg ctx cooldown now own dst s = Inr (d, s') \<Longrightarrow> desk_step now s s'"
| destination_removed: "remove_destination ctx now own i s = Inr (u, s') \<Longrightarrow> desk_step now s s'"
| audited: "desk_step now s (record_audit ctx now action ty i org meta s)"
| users_changed: "desk_step now s (s\<lparr>users := us\<rparr>)"

inductive step :: "int \<times> db \<Rightarrow> int \<times> db \<Rightarrow> bool" where
  step: "c \<le> now \<Longrightarrow> payment_step now s s' \<or> refund_step now s s' \<or> payout_step now s s' \<or> wallet_step now s s' \<or> desk_step now s s' \<Longrightarrow>
    step (c, s) (now, s')"

inductive reachable :: "int \<Rightarrow> db \<Rightarrow> bool" where
  start: "reachable c empty_db"
| next_step: "reachable c s \<Longrightarrow> step (c, s) (c', s') \<Longrightarrow> reachable c' s'"

inductive_cases stepE: "step (c, s) (c', s')"

section \<open>Every step keeps the books\<close>

lemma payment_step_books: "payment_step now s s' \<Longrightarrow> books c s \<Longrightarrow> c \<le> now \<Longrightarrow> books now s'"
proof (induction rule: payment_step.induct)
  case (checkout_opened p s ref url s')
  then show ?case by (auto intro: payment_quiet_row)
next
  case (checkout_refused p s patch t s')
  then show ?case using books_payment_transition by (auto simp: OPEN_STATUSES_def)
qed (blast intro: record_payment_books credit_payment_books fail_payment_books release_payment_books)+

lemma refund_step_books: "refund_step now s s' \<Longrightarrow> books c s \<Longrightarrow> c \<le> now \<Longrightarrow> books now s'"
  by (induction rule: refund_step.induct)
    (blast intro: create_refund_books claim_refund_books refund_reference_books complete_refund_books fail_refund_books)+

lemma payout_step_books: "payout_step now s s' \<Longrightarrow> books c s \<Longrightarrow> c \<le> now \<Longrightarrow> books now s'"
  by (induction rule: payout_step.induct)
    (blast intro: create_payout_books claim_payout_books payout_reference_books complete_payout_books fail_payout_books
      reverse_payout_books)+

lemma ensure_account_books:
  assumes "books c s" and "c \<le> c'" and "ensure_account sa s = Inr (a, s')"
  shows "books c' s'"
proof -
  note b = books_parts [OF assms(1)]
  have only: "only_ledger s s'" by (rule ensure_account_frame [OF assms(3)])
  note t = only_ledger_tables [OF only] and sh = moved_shifted [OF ensure_account_moved(1) [OF b(1) assms(3)]]
  have l: "linked s'" by (rule linked_move [OF b(2) only])
  note same = same_rows [OF b(2) l t(7-10)]
  show ?thesis
  proof (rule books_shift [OF assms(1) sh refs_of_Nil l])
    show "refunds_within s'" using same(5) b(3) by simp
    show "settled_once c' s'" by (rule settled_once_shift [OF assms(1,2) sh]) (auto simp: t)
  qed (use same t in auto)
qed

lemma wallet_step_books: "wallet_step now s s' \<Longrightarrow> books c s \<Longrightarrow> c \<le> now \<Longrightarrow> books now s'"
proof (induction rule: wallet_step.induct)
  case (transferred hex a s b src dst user recipient cur fee inp key t s')
  then show ?case by (intro transfer_body_books [of c s now hex a b src dst])
qed (blast intro: create_wallet_books set_primary_books set_status_books ensure_account_books)+

lemma set_fee_rule_quiet: "set_fee_rule ctx admin now inp s = Inr (r, s') \<Longrightarrow> quiet s s'"
  by (auto simp: set_fee_rule_def quiet_def Let_def split: option.splits if_splits)

lemma set_limit_rule_quiet: "set_limit_rule ctx admin now inp s = Inr (r, s') \<Longrightarrow> quiet s s'"
  by (auto simp: set_limit_rule_def quiet_def Let_def split: option.splits if_splits)

lemma insert_destination_quiet: "insert_destination d s = Inr (e, s') \<Longrightarrow> quiet s s'"
  by (auto simp: insert_destination_def quiet_def Let_def split: option.splits if_splits list.splits)

lemma quiet_trans: "quiet s t \<Longrightarrow> quiet t u \<Longrightarrow> quiet s u"
  by (auto simp: quiet_def)

lemma add_destination_quiet:
  assumes "add_destination rg ctx cooldown now own inp s = Inr (d, s')"
  shows "quiet s s'"
proof -
  obtain name cap rec where sel: "select_for_payout rg (nd_currency inp) (nd_provider inp) = Inr (name, cap)"
    and r: "new_recipient name cap inp = Inr rec"
    using assms by (auto simp: add_destination_def bind_res_Inr_iff)
  show ?thesis
  proof (cases "insert_destination (destination_of cooldown now own name rec inp (next_id s)) s")
    case (Inl e)
    then show ?thesis using assms by (simp add: add_destination_def sel r split: if_splits)
  next
    case (Inr p)
    then obtain e s1 where "insert_destination (destination_of cooldown now own name rec inp (next_id s)) s = Inr (e, s1)"
      by (cases p) simp
    moreover from this assms have "quiet s1 s'" by (auto simp: add_destination_def sel r intro: quiet_trans [OF quiet_event quiet_audit])
    ultimately show ?thesis using insert_destination_quiet quiet_trans by blast
  qed
qed

lemma desk_step_quiet: "desk_step now s s' \<Longrightarrow> quiet s s'"
proof (induction rule: desk_step.induct)
  case (rated ctx base quot rate user s r s')
  then show ?case by (auto simp: set_rate_def quiet_def Let_def bind_res_Inr_iff split: if_splits)
next
  case (fee_retired ctx i s fr s')
  then show ?case by (auto simp: retire_fee_rule_def quiet_def bind_res_Inr_iff split: if_splits)
next
  case (limit_retired ctx i s lr s')
  then show ?case by (auto simp: retire_limit_rule_def quiet_def bind_res_Inr_iff split: if_splits)
next
  case (destination_removed ctx own i s u s')
  then show ?case by (auto simp: remove_destination_def quiet_def bind_res_Inr_iff)
next
  case (users_changed s us)
  then show ?case by (simp add: quiet_def)
qed (blast intro: create_quote_quiet set_fee_rule_quiet set_limit_rule_quiet add_destination_quiet quiet_audit)+

lemma step_books: "step (c, s) (c', s') \<Longrightarrow> books c s \<Longrightarrow> books c' s'"
  by (erule stepE) (blast intro: payment_step_books refund_step_books payout_step_books wallet_step_books books_quiet desk_step_quiet)

lemma step_clock: "step (c, s) (c', s') \<Longrightarrow> c \<le> c'"
  by (erule stepE) simp

lemma empty_books: "books c empty_db"
proof -
  have inv: "wallets_inv empty_db" by (rule wallets_inv_empty)
  have "linked empty_db"
    by (simp add: linked_def empty_db_def txns_ok_def txns_distinct_def)
  moreover have "claims empty_db = {}" by (simp add: claims_def payment_claims_def refund_claims_def payout_claims_def empty_db_def)
  moreover have "fresh empty_db r" for r by (simp add: fresh_def empty_db_def empty_ledger_def)
  ultimately show ?thesis
    using inv by (simp add: books_def refunds_within_def dues_match_def settled_once_def quotes_consumed_def known_refs_def empty_db_def)
qed

theorem reachable_books: "reachable c s \<Longrightarrow> books c s"
  by (induction rule: reachable.induct) (blast intro: empty_books step_books)+

end
