(* ===== verification/Guarantees.thy ===== *)
theory Guarantees
  imports System
begin

text \<open>
  What holds in every reachable state of the system (theory \<open>System\<close>): the pending and reserved
  balances of a wallet are backed by the rows that hold them, rows are well typed, refunds stay
  within their payment, a payout follows its specification and its hold can be given back.
\<close>

section \<open>Invariants\<close>

text \<open>Holds of payouts and refunds, over the rows.\<close>

definition processing_refunds :: "db \<Rightarrow> uuid \<Rightarrow> refund list" where
  "processing_refunds s i = filter (\<lambda>r. r_wallet r = i \<and> status_of s (r_transaction r) = Some Processing) (refunds s)"

definition processing_payouts :: "db \<Rightarrow> uuid \<Rightarrow> payout list" where
  "processing_payouts s i = filter (\<lambda>p. po_wallet p = i \<and> status_of s (po_transaction p) = Some Processing) (payouts s)"

definition payout_fee :: "db \<Rightarrow> payout \<Rightarrow> int" where
  "payout_fee s p = (case row_by t_id (po_transaction p) (transactions s) of None \<Rightarrow> 0 | Some t \<Rightarrow> t_fee_amount t)"

lemma sum_list_filter: "sum_list (map f (filter P xs)) = sum_list (map (\<lambda>x. if P x then f x else (0 :: int)) xs)"
  by (induction xs) auto

lemma hold_due_rows:
  "hold_due s i = (\<Sum>r\<leftarrow>processing_refunds s i. r_wallet_debit r) + (\<Sum>p\<leftarrow>processing_payouts s i. po_amount p + payout_fee s p)"
proof -
  have "payout_hold s i p = (if po_wallet p = i \<and> status_of s (po_transaction p) = Some Processing then po_amount p + payout_fee s p else 0)" for p
    by (auto simp: payout_hold_def status_of_def payout_fee_def split: option.splits)
  then show ?thesis
    unfolding hold_due_def processing_refunds_def processing_payouts_def sum_list_filter refund_hold_def by presburger
qed

lemma pending_due_rows: "pending_due s i = (\<Sum>p\<leftarrow>filter (\<lambda>p. p_wallet p = i) (payments s). p_pending_amount p)"
  by (simp add: pending_due_def sum_list_filter)

lemma credit_wallet_balance:
  assumes "wallets_inv s" and "w \<in> set (wallets s)"
  shows "credit s (balance_account w k) = balance s (balance_account w k)"
  using wallet_account_in [OF assms, of k]
  by (force simp: balance_def balance_in_def credit_def position_def position_in_def debit_position_def)

text \<open>
  C1. In every state the system can reach, the pending balance of a wallet is what its payments
  still hold back, and its reserved balance what its processing refunds and payouts (with their
  fees) hold: no hold is lost, released twice or left behind.
\<close>

theorem holds_are_backed:
  assumes "reachable c s" and "w \<in> set (wallets s)"
  shows "balance s (w_pending w) = (\<Sum>p\<leftarrow>filter (\<lambda>p. p_wallet p = w_id w) (payments s). p_pending_amount p) \<and>
    balance s (w_reserved w) = (\<Sum>r\<leftarrow>processing_refunds s (w_id w). r_wallet_debit r) +
      (\<Sum>p\<leftarrow>processing_payouts s (w_id w). po_amount p + payout_fee s p)"
  using books_parts(1,4) [OF reachable_books [OF assms(1)]] assms(2)
    credit_wallet_balance [of s w Pending_Balance] credit_wallet_balance [of s w Reserved_Balance]
  by (auto simp: dues_match_def pending_due_rows hold_due_rows)

text \<open>
  C3. In every reachable state the refunds of a payment that are processing or done add up to
  at most the payment, and the payment's row agrees with its transaction.
\<close>

theorem refunds_stay_within_payment:
  assumes "reachable c s" and "p \<in> set (payments s)"
  shows "committed_amount (p_id p) s \<le> p_amount p \<and>
    (\<exists>t \<in> set (transactions s). t_id t = p_transaction p \<and> t_type t = Ty_Payment \<and> t_amount t = p_amount p)"
proof -
  note b = books_parts [OF reachable_books [OF assms(1)]]
  show ?thesis using b(3) linked_payment [OF b(2) assms(2)] assms(2) unfolding refunds_within_def by metis
qed

text \<open>
  C5. Rows are well typed in every reachable state: every transaction satisfies the constraints
  of its table and has a reference of its own, every payment, refund and payout belongs to a
  wallet that exists and to a transaction of its type, every refund to a payment of the same
  wallet, and the three accounts of a wallet exist, in its currency, without overdraft.
\<close>

theorem rows_are_well_typed:
  assumes "reachable c s"
  shows "(\<forall>t \<in> set (transactions s). txn_row_error t = None) \<and> distinct (map t_reference (transactions s)) \<and>
    (\<forall>p \<in> set (payments s). p_wallet p \<in> w_id ` set (wallets s) \<and> 0 \<le> p_pending_amount p \<and>
       (\<exists>t \<in> set (transactions s). t_id t = p_transaction p \<and> t_type t = Ty_Payment)) \<and>
    (\<forall>r \<in> set (refunds s). 0 < r_amount r \<and> (\<exists>p \<in> set (payments s). p_id p = r_payment r \<and> p_wallet p = r_wallet r) \<and>
       (\<exists>t \<in> set (transactions s). t_id t = r_transaction r \<and> t_type t = Ty_Refund)) \<and>
    (\<forall>p \<in> set (payouts s). 0 < po_amount p \<and> po_wallet p \<in> w_id ` set (wallets s) \<and>
       (\<exists>t \<in> set (transactions s). t_id t = po_transaction p \<and> t_type t = Ty_Withdrawal)) \<and>
    (\<forall>w \<in> set (wallets s). \<forall>k. \<exists>a. account_in s (balance_account w k) = Some a \<and> la_currency a = w_currency w \<and> 0 \<le> la_balance a)"
proof -
  note b = books_parts [OF reachable_books [OF assms]]
  have l: "(\<forall>t \<in> set (transactions s). txn_row_error t = None) \<and> distinct (map t_reference (transactions s)) \<and>
      (\<forall>p \<in> set (payments s). payment_linked s p) \<and> (\<forall>r \<in> set (refunds s). refund_linked s r) \<and>
      (\<forall>p \<in> set (payouts s). payout_linked s p)"
    using b(2) by (simp add: linked_def txns_ok_def)
  have acc: "\<exists>a. account_in s (balance_account w k) = Some a \<and> la_currency a = w_currency w \<and> 0 \<le> la_balance a"
    if w: "w \<in> set (wallets s)" for w k
  proof -
    obtain a where a: "account_in s (balance_account w k) = Some a" "\<not> la_allow_negative a" "la_currency a = w_currency w"
      using wallet_account_in [OF b(1) w] by metis
    then have "account_ok a" using inside.acct_ok [OF b(8)] by blast
    then show ?thesis using a by (auto simp: account_ok_def)
  qed
  have pay: "p_wallet p \<in> w_id ` set (wallets s) \<and> 0 \<le> p_pending_amount p \<and>
       (\<exists>t \<in> set (transactions s). t_id t = p_transaction p \<and> t_type t = Ty_Payment)" if "payment_linked s p" for p
    using that unfolding payment_linked_def by blast
  have ref: "0 < r_amount r \<and> (\<exists>p \<in> set (payments s). p_id p = r_payment r \<and> p_wallet p = r_wallet r) \<and>
       (\<exists>t \<in> set (transactions s). t_id t = r_transaction r \<and> t_type t = Ty_Refund)" if "refund_linked s r" for r
    using that unfolding refund_linked_def by blast
  have out: "0 < po_amount p \<and> po_wallet p \<in> w_id ` set (wallets s) \<and>
       (\<exists>t \<in> set (transactions s). t_id t = po_transaction p \<and> t_type t = Ty_Withdrawal)" if "payout_linked s p" for p
    using that unfolding payout_linked_def by blast
  show ?thesis using l acc pay ref out by blast
qed

section \<open>The life of a payout\<close>

text \<open>
  The specification: a payout of \<open>x\<close> (amount and fee) holds \<open>x\<close> in the reserved balance; it is paid,
  or given back to the available balance, and a payout that was paid can be taken back. The
  triple is the phase, the available and the reserved balance of its wallet.
\<close>

datatype payout_phase = Held | Paid | Given_Back | Taken_Back

inductive payout_spec :: "int \<Rightarrow> payout_phase \<times> int \<times> int \<Rightarrow> payout_phase \<times> int \<times> int \<Rightarrow> bool" for x where
  pay: "payout_spec x (Held, a, r) (Paid, a, r - x)"
| give_back: "payout_spec x (Held, a, r) (Given_Back, a + x, r - x)"
| take_back: "payout_spec x (Paid, a, r) (Taken_Back, a + x, r)"

fun phase_of :: "txn_status option \<Rightarrow> payout_phase option" where
  "phase_of (Some Processing) = Some Held"
| "phase_of (Some Successful) = Some Paid"
| "phase_of (Some Failed) = Some Given_Back"
| "phase_of (Some Reversed) = Some Taken_Back"
| "phase_of _ = None"

definition payout_abs :: "db \<Rightarrow> payout \<Rightarrow> wallet \<Rightarrow> (payout_phase \<times> int \<times> int) option" where
  "payout_abs s p w = map_option (\<lambda>ph. (ph, balance s (w_available w), balance s (w_reserved w))) (phase_of (status_of s (po_transaction p)))"

text \<open>The three database transactions that settle a payout.\<close>

inductive settles_payout :: "int \<Rightarrow> payout \<Rightarrow> db \<Rightarrow> db \<Rightarrow> bool" for now p where
  by_success: "is_system s sa i \<Longrightarrow> complete_payout_body now p i s = Inr (u, s') \<Longrightarrow> settles_payout now p s s'"
| by_failure: "fail_payout_body now p code reason s = Inr (u, s') \<Longrightarrow> settles_payout now p s s'"
| by_reversal: "is_system s sa i \<Longrightarrow> reverse_payout_body now p i s = Inr (u, s') \<Longrightarrow> settles_payout now p s s'"

lemma settles_effect:
  assumes "wallets_inv s" and "settles p st f refs s s'" and "w \<in> set (wallets s)"
  shows "status_of s' (po_transaction p) = Some st" and "wallets s' = wallets s"
    and "j \<noteq> po_transaction p \<Longrightarrow> status_of s' j = status_of s j"
    and "balance s' (balance_account w k) = balance s (balance_account w k) + f (w_id w) k"
proof -
  obtain s1 patch t' s2 where r: "moved refs f s s1" "transition (po_transaction p) st patch s1 = Inr (t', s2)" "quiet s2 s'"
    using assms(2) unfolding settles_def by blast
  note t = only_ledger_tables [OF moved_def [THEN iffD1, OF r(1), THEN conjunct2, THEN conjunct2, THEN conjunct1]]
  note f = transition_frame [OF r(2)] and st = status_after_transition [OF r(2)]
  have q: "status_of s' i = status_of s2 i" "wallets s' = wallets s2" "ledger s' = ledger s2" for i
    using r(3) by (simp_all add: quiet_def status_of_def)
  show "status_of s' (po_transaction p) = Some st" using st(1) q by simp
  show ws: "wallets s' = wallets s" using q f t by simp
  show "status_of s' j = status_of s j" if "j \<noteq> po_transaction p"
    using st(2) [OF that] q t by (simp add: status_of_def)
  have inv: "wallets_inv s'"
    using moved_wallets [OF r(1) assms(1)] wallets_inv_le [of s1 s'] db_le_trans [OF f(8) quiet_le [OF r(3)]] q f by simp
  have "credit s' (balance_account w k) = credit s1 (balance_account w k)"
    by (simp add: credit_def position_def position_in_def q f)
  also have "\<dots> = credit s (balance_account w k) + f (w_id w) k" using r(1) assms(3) by (simp add: moved_def)
  finally show "balance s' (balance_account w k) = balance s (balance_account w k) + f (w_id w) k"
    using credit_wallet_balance [OF assms(1,3)] credit_wallet_balance [OF inv] ws assms(3) by simp
qed

text \<open>
  C2. The code implements that specification: in every reachable state each of the settling
  transactions either changes nothing the specification sees or makes exactly one of its steps
  for the payout, whatever the caller had read before, and touches neither the balances of other
  wallets nor the status of other transactions.
\<close>

theorem payouts_refine_specification:
  assumes "reachable c s" and "p0 \<in> set (payouts s)" and "same_payout p0 p" and "w \<in> set (wallets s)" and "w_id w = po_wallet p0"
    and "settles_payout now p s s'"
  shows "(payout_abs s' p0 w = payout_abs s p0 w \<or>
      (\<exists>m m'. payout_abs s p0 w = Some m \<and> payout_abs s' p0 w = Some m' \<and> payout_spec (po_amount p0 + payout_fee s p0) m m')) \<and>
    (\<forall>v \<in> set (wallets s). v \<noteq> w \<longrightarrow> (\<forall>k. balance s' (balance_account v k) = balance s (balance_account v k))) \<and>
    (\<forall>j. j \<noteq> po_transaction p0 \<longrightarrow> status_of s' j = status_of s j)"
proof -
  note bk = reachable_books [OF assms(1)] and sf = same_payout_fields [OF assms(3)]
  note b = books_parts [OF bk]
  obtain t where t: "row_by t_id (po_transaction p0) (transactions s) = Some t"
    using linked_payout [OF b(2) assms(2)] linked_row [OF b(2)] by metis
  have fee: "payout_fee s p0 = t_fee_amount t" and status: "status_of s (po_transaction p0) = Some (t_status t)"
    by (simp_all add: payout_fee_def status_of_def t)
  have other: "w_id v \<noteq> po_wallet p0" if "v \<in> set (wallets s)" "v \<noteq> w" for v
    using wallets_inv_ids [OF b(1) that(1) assms(4)] that(2) assms(5) by simp
  have same: ?thesis if "s' = s" using that by simp
  have step: ?thesis if "settles p0 st f refs s s'"
      "\<And>j k. j \<noteq> po_wallet p0 \<Longrightarrow> f j k = 0"
      "phase_of (Some st) = Some q" "phase_of (Some (t_status t)) = Some r"
      "payout_spec (po_amount p0 + t_fee_amount t) (r, balance s (w_available w), balance s (w_reserved w))
         (q, balance s (w_available w) + f (w_id w) Available, balance s (w_reserved w) + f (w_id w) Reserved_Balance)"
    for st f refs q r
  proof -
    note e = settles_effect [OF b(1) that(1)]
    have "payout_abs s' p0 w = Some (q, balance s (w_available w) + f (w_id w) Available, balance s (w_reserved w) + f (w_id w) Reserved_Balance)"
      using e(1) [OF assms(4)] e(4) [OF assms(4), of Available] e(4) [OF assms(4), of Reserved_Balance] that(3) by (simp add: payout_abs_def)
    moreover have "payout_abs s p0 w = Some (r, balance s (w_available w), balance s (w_reserved w))"
      using that(4) by (simp add: payout_abs_def status)
    ultimately show ?thesis using that(2,5) e(3) [OF assms(4)] e(4) other fee by auto
  qed
  show ?thesis
    using assms(6)
  proof cases
    case (by_success sa i u)
    show ?thesis
    proof (rule complete_payout_run [OF bk assms(2,3) by_success t])
      fix refs assume st: "t_status t = Processing"
        and run: "settles p0 Successful (at_balance (po_wallet p0) Reserved_Balance (- (po_amount p0 + t_fee_amount t))) refs s s'"
      show ?thesis
        by (rule step [OF run]) (use st payout_spec.pay [of "po_amount p0 + t_fee_amount t" "balance s (w_available w)" "balance s (w_reserved w)"]
            in \<open>simp_all add: at_balance_def assms(5) algebra_simps\<close>)
    qed (rule same)
  next
    case (by_failure code reason u)
    show ?thesis
    proof (rule fail_payout_run [OF bk assms(2,3) by_failure t])
      assume st: "t_status t = Processing" and run: "settles p0 Failed (\<lambda>j k. at_balance (po_wallet p0) Available (po_amount p0 + t_fee_amount t) j k -
           at_balance (po_wallet p0) Reserved_Balance (po_amount p0 + t_fee_amount t) j k) [''payout-release:'' @ po_reference p0] s s'"
      show ?thesis
        by (rule step [OF run]) (use st payout_spec.give_back [of "po_amount p0 + t_fee_amount t" "balance s (w_available w)" "balance s (w_reserved w)"]
            in \<open>simp_all add: at_balance_def assms(5) algebra_simps\<close>)
    qed (rule same)
  next
    case (by_reversal sa i u)
    show ?thesis
    proof (rule reverse_payout_run [OF bk assms(2,3) by_reversal t])
      fix refs assume st: "t_status t = Successful" and run: "settles p0 Reversed (at_balance (po_wallet p0) Available (po_amount p0 + t_fee_amount t)) refs s s'"
      show ?thesis
        by (rule step [OF run]) (use st payout_spec.take_back [of "po_amount p0 + t_fee_amount t" "balance s (w_available w)" "balance s (w_reserved w)"]
            in \<open>simp_all add: at_balance_def assms(5) algebra_simps\<close>)
    qed (rule same)
  qed
qed

section \<open>Holds can be given back\<close>

lemma trim_nonempty: "\<not> is_space c \<Longrightarrow> trim (c # x) \<noteq> []"
  by (simp add: trim_def trim_start_def trim_end_def dropWhile_eq_Nil_conv)

lemma hold_posting_goes:
  assumes "wallets_inv s" and "w \<in> set (wallets s)" and "k \<noteq> l" and "0 < mv_amount m" and "mv_amount m \<le> balance s (balance_account w k)"
    and "fresh s (mv_reference m)" and "trim (mv_reference m) \<noteq> []" and "length (mv_reference m) \<le> 255" and "is_supported_currency (w_currency w)"
  shows "(\<exists>p s'. post_in now (wallet_posting ids (w_currency w) m (move_legs (balance_account w k) (balance_account w l) (mv_amount m))) s = Inr (p, s')) \<or>
    post_in now (wallet_posting ids (w_currency w) m (move_legs (balance_account w k) (balance_account w l) (mv_amount m))) s =
      Inl (Db_Err Numeric_Out_Of_Range)"
proof -
  let ?es = "move_legs (balance_account w k) (balance_account w l) (mv_amount m)"
  let ?inp = "wallet_posting ids (w_currency w) m ?es"
  have neq: "balance_account w k \<noteq> balance_account w l" using wallet_accounts_distinct [OF assms(1,2,2), of k l] assms(3) by simp
  have valid: "validate_posting ?inp = Inr (mv_amount m)"
    using assms(4,7,8,9) by (simp add: validate_posting_Inr move_legs_def wallet_posting_def leg_def)
  have acct: "\<exists>a. account_in s (balance_account w j) = Some a \<and> la_currency a = w_currency w \<and> account_ok (move_account ?es a)"
    if "j = k \<or> j = l" for j
  proof -
    obtain a where a: "account_in s (balance_account w j) = Some a" "la_normal a = Credit" "\<not> la_allow_negative a" "la_currency a = w_currency w"
      using wallet_account_in [OF assms(1,2), of j] by metis
    have id: "la_id a = balance_account w j" using row_by_Some [OF a(1)] by simp
    have "0 \<le> la_balance a" using inside.acct_ok [OF wallets_inv_ok [OF assms(1)] a(1)] a(3) by (simp add: account_ok_def)
    moreover have "balance s (balance_account w j) = la_balance a" using a by (simp add: balance_def balance_in_def)
    ultimately have "account_ok (move_account ?es a)"
      using that assms(4,5) neq id a(2) by (auto simp: account_ok_def move_legs_def leg_def signed_amount_def)
    then show ?thesis using a by blast
  qed
  have "(\<exists>p l'. post_within now ?inp (ledger s) = Inr (p, l') \<and> \<not> ps_replayed p) \<or> post_within now ?inp (ledger s) = Inl (Db_Err Numeric_Out_Of_Range)"
  proof (rule post_within_goes [OF wallets_inv_ok [OF assms(1)] valid])
    show "txn_by_reference (ledger s) (pi_reference ?inp) = None" using assms(6) by (simp add: fresh_def)
    show "distinct (map pe_account (pi_entries ?inp))" using neq by (simp add: move_legs_def leg_def wallet_posting_def)
    fix e assume "e \<in> set (pi_entries ?inp)"
    then obtain j where "pe_account e = balance_account w j" "j = k \<or> j = l"
      by (auto simp: move_legs_def leg_def wallet_posting_def)
    then show "\<exists>a. account_of (ledger s) (pe_account e) = Some a \<and> la_currency a = pi_currency ?inp \<and> account_ok (move_account (pi_entries ?inp) a)"
      using acct by (simp add: wallet_posting_def)
  qed (simp add: wallet_posting_def)
  then show ?thesis unfolding post_in_def on_ledger_def by auto
qed

text \<open>
  C4. A processing payout is never stuck: in every reachable state its failure goes through,
  on a frozen wallet too, unless the available balance would leave the range of 64 bits. It ends the
  transaction as failed and returns amount and fee, which the reserved balance always covers.
\<close>

theorem processing_payout_can_be_returned:
  assumes "reachable c s" and "p \<in> set (payouts s)" and "status_of s (po_transaction p) = Some Processing"
    and "w \<in> set (wallets s)" and "w_id w = po_wallet p" and "is_supported_currency (w_currency w)" and "length (po_reference p) \<le> 200"
  shows "(\<exists>s'. fail_payout_body now p code reason s = Inr ((), s') \<and> status_of s' (po_transaction p) = Some Failed \<and>
      balance s' (w_available w) = balance s (w_available w) + po_amount p + payout_fee s p) \<or>
    fail_payout_body now p code reason s = Inl (Db_Err Numeric_Out_Of_Range)"
proof -
  note bk = reachable_books [OF assms(1)]
  note b = books_parts [OF bk]
  obtain t where t: "row_by t_id (po_transaction p) (transactions s) = Some t" and proc: "t_status t = Processing"
    using assms(3) by (auto simp: status_of_def)
  have t_in: "t \<in> set (transactions s)" "t_id t = po_transaction p" using row_by_Some [OF t] by auto
  have fee: "payout_fee s p = t_fee_amount t" "0 \<le> t_fee_amount t" using linked_txn(5) [OF b(2) t_in(1)] by (simp_all add: payout_fee_def t)
  define m where "m = \<lparr>mv_amount = po_amount p + t_fee_amount t, mv_reference = ''payout-release:'' @ po_reference p,
      mv_description = ''Release hold for failed payout '' @ po_reference p, mv_metadata = []\<rparr>"
  have claim: "only_used s (po_reference p) [''payout-hold:'' @ po_reference p]"
    using payout_claim [OF bk assms(2) t] proc by (simp add: payout_claims_of_def)
  have tok: "token (po_reference p)" using linked_reference(3) [OF b(2) assms(2)] kind_token by metis
  have fr: "fresh s (mv_reference m)" unfolding m_def
    by (simp, rule only_used_fresh [OF claim]) (use service_mentions(8) [OF tok] tok in simp_all)
  have pos: "0 < po_amount p" using b(2) assms(2) by (auto simp: linked_def payout_linked_def)
  have "payout_hold s (w_id w) p \<le> hold_due s (w_id w)" by (rule hold_covers(2) [OF b(2) assms(2)])
  then have covered: "mv_amount m \<le> balance s (balance_account w Reserved_Balance)"
    using credit_wallet_balance [OF b(1) assms(4), of Reserved_Balance] b(4) assms(4,5) payout_hold_row [OF t, of "w_id w"] proc
    by (simp add: m_def dues_match_def)
  have gw: "get_wallet (po_wallet p) s = Inr w" using wallet_row [OF b(1)] assms(4,5) by blast
  let ?post = "post_in now (wallet_posting [po_wallet p] (w_currency w) m (move_legs (w_reserved w) (w_available w) (mv_amount m))) s"
  have goes: "(\<exists>q s1. ?post = Inr (q, s1)) \<or> ?post = Inl (Db_Err Numeric_Out_Of_Range)"
    using hold_posting_goes [OF b(1) assms(4) _ _ covered fr, of Available now "[po_wallet p]"] pos fee assms(6,7)
      trim_nonempty [of "CHR ''p''"]
    by (simp add: m_def is_space_def)
  then show ?thesis
  proof
    assume e: "?post = Inl (Db_Err Numeric_Out_Of_Range)"
    then have "release_within now (po_wallet p) m s = Inl (Db_Err Numeric_Out_Of_Range)" by (simp add: release_within_def gw)
    then show ?thesis by (simp add: fail_payout_body_def lock_transaction_def t proc m_def)
  next
    assume "\<exists>q s1. ?post = Inr (q, s1)"
    then obtain q s1 where post: "?post = Inr (q, s1)" by blast
    then have rel: "release_within now (po_wallet p) m s = Inr (q, s1)" by (simp add: release_within_def gw)
    have tab: "transactions s1 = transactions s" by (rule only_ledger_tables(7) [OF post_in_frame [OF post]])
    let ?patch = "empty_patch\<lparr>tp_failure_code := Some code, tp_failure_reason := Some (take 500 reason)\<rparr>"
    have err: "txn_row_error (apply_patch ?patch Failed t) = None"
      using linked_txn(3) [OF b(2) t_in(1)] proc by (simp add: txn_row_error_def apply_patch_def empty_patch_def or_else_def split: if_splits)
    have "\<exists>t' s2. transition (t_id t) Failed ?patch s1 = Inr (t', s2)"
      using t err proc t_in(2)
      by (simp add: transition_def lock_transaction_def tab assert_transition_def can_transition_def update_transaction_def
          status_trigger_iff apply_patch_def [of ?patch Failed t] row_by_set_row bind_res_Inr_iff)
    then obtain t' s2 where tr: "transition (t_id t) Failed ?patch s1 = Inr (t', s2)" by blast
    obtain s' where run: "fail_payout_body now p code reason s = Inr ((), s')"
      using rel tr by (simp add: fail_payout_body_def lock_transaction_def t proc m_def)
    have "status_of s' (po_transaction p) = Some Failed \<and> balance s' (w_available w) = balance s (w_available w) + po_amount p + payout_fee s p"
    proof (rule fail_payout_run [OF bk assms(2) same_payout_marks(1) run t])
      assume "settles p Failed (\<lambda>j k. at_balance (po_wallet p) Available (po_amount p + t_fee_amount t) j k -
           at_balance (po_wallet p) Reserved_Balance (po_amount p + t_fee_amount t) j k) [''payout-release:'' @ po_reference p] s s'"
      from settles_effect(1,4) [OF b(1) this assms(4)] show ?thesis
        using settles_effect(4) [OF b(1) \<open>settles p Failed _ _ s s'\<close> assms(4), of Available] fee assms(5) by (simp add: at_balance_def)
    qed (use proc in simp)
    then show ?thesis using run by blast
  qed
qed

section \<open>A run\<close>

text \<open>
  A user opens a wallet, a payment of 300 arrives and is released, and a payout of 100 with a
  fee of 5 is requested.
\<close>

definition demo_step :: "(db \<Rightarrow> ('a \<times> db) res) \<Rightarrow> db \<Rightarrow> db" where
  "demo_step f s = run_or s (f s)"

definition run_open :: "db \<Rightarrow> (wallet \<times> db) res" where
  "run_open s = create_wallet demo_config empty_db system_context 1 (User_Owner 7) ''NGN'' s"

definition run_fee :: "int \<Rightarrow> fee_quote" where
  "run_fee x = \<lparr>fq_amount = x, fq_currency = ''NGN'', fq_rule = None\<rparr>"

definition run_record :: "db \<Rightarrow> (payment \<times> db) res" where
  "run_record s = record_payment ''a'' 2 (User_Owner 7) \<lparr>ct_wallet = hd (wallets s), ct_requires_conversion = False\<rparr> ''mock'' ''e'' None
     (run_fee 0) \<lparr>in_amount = 300, in_currency = ''NGN'', in_provider = None, in_callback_url = None, in_customer_email = None\<rparr> ''k1'' s"

definition run_credit :: "db \<Rightarrow> (settlement_outcome \<times> db) res" where
  "run_credit s = credit_payment demo_registry demo_fx_config 3 (hd (payments s)) s"

definition run_release :: "db \<Rightarrow> (bool \<times> db) res" where
  "run_release s = release_payment system_context 20000 (p_id (hd (payments s))) False s"

definition run_destination :: payout_destination where
  "run_destination = \<lparr>pd_id = 90, pd_user_id = Some 7, pd_organization_id = None, pd_provider = ''mock'', pd_currency = ''NGN'',
     pd_recipient = ''rcp'', pd_kind = Bank_Account, pd_bank_code = None, pd_bank_name = None, pd_account_name = ''A'', pd_last4 = None,
     pd_email = None, pd_label = None, pd_created_at = 0, pd_payouts_available_at = 0, pd_removed_at = None\<rparr>"

definition run_hold :: "db \<Rightarrow> (payout \<times> db) res" where
  "run_hold s = create_payout system_context ''b'' ''c'' 30000 (User_Owner 7) (hd (wallets s)) run_destination
     \<lparr>yi_destination = 90, yi_amount = 100, yi_wallet = None, yi_narration = None\<rparr> (run_fee 5) ''k2'' s"

definition run_wallet :: db where "run_wallet = demo_step run_open empty_db"
definition run_recorded :: db where "run_recorded = demo_step run_record run_wallet"
definition run_credited :: db where "run_credited = demo_step run_credit run_recorded"
definition run_released :: db where "run_released = demo_step run_release run_credited"
definition run_held :: db where "run_held = demo_step run_hold run_released"

lemma run_goes:
  "\<not> isl (run_open empty_db)" "\<not> isl (run_record run_wallet)" "\<not> isl (run_credit run_recorded)" "\<not> isl (run_release run_credited)"
  "\<not> isl (run_hold run_released)"
  by code_simp+

lemma demo_step_Inr: "\<not> isl (f s) \<Longrightarrow> \<exists>x. f s = Inr (x, demo_step f s)"
  using run_or_Inr [of "f s" s] unfolding demo_step_def by blast

lemma reachable_step:
  "reachable c s \<Longrightarrow> c \<le> now \<Longrightarrow> payment_step now s s' \<or> refund_step now s s' \<or> payout_step now s s' \<or> wallet_step now s s' \<or> desk_step now s s' \<Longrightarrow>
     reachable now s'"
  by (blast intro: next_step step)

lemma run_steps:
  "reachable 1 run_wallet" "reachable 2 run_recorded" "reachable 3 run_credited" "reachable 20000 run_released" "reachable 30000 run_held"
proof -
  obtain w where "run_open empty_db = Inr (w, run_wallet)" using demo_step_Inr [of run_open, OF run_goes(1)] unfolding run_wallet_def by blast
  then have w: "wallet_step 1 empty_db run_wallet" unfolding run_open_def by (rule opened)
  show 1: "reachable 1 run_wallet" by (rule reachable_step [OF start [of 1]]) (simp_all add: w)
  obtain p where r: "run_record run_wallet = Inr (p, run_recorded)"
    using demo_step_Inr [of run_record, OF run_goes(2)] unfolding run_recorded_def by blast
  have "hd (wallets run_wallet) \<in> set (wallets run_wallet)" by code_simp
  then have "w_id (ct_wallet \<lparr>ct_wallet = hd (wallets run_wallet), ct_requires_conversion = False\<rparr>) \<in> w_id ` set (wallets run_wallet)" by simp
  from payment_step.recorded [OF _ this r [unfolded run_record_def]] have "payment_step 2 run_wallet run_recorded" by simp
  then show 2: "reachable 2 run_recorded" by (intro reachable_step [OF 1]) simp_all
  obtain out where c: "run_credit run_recorded = Inr (out, run_credited)"
    using demo_step_Inr [of run_credit, OF run_goes(3)] unfolding run_credited_def by blast
  have "hd (payments run_recorded) \<in> set (payments run_recorded)" by code_simp
  from payment_step.credited [OF this same_payment_refl c [unfolded run_credit_def]] have "payment_step 3 run_recorded run_credited" .
  then show 3: "reachable 3 run_credited" by (intro reachable_step [OF 2]) simp_all
  obtain d where "run_release run_credited = Inr (d, run_released)"
    using demo_step_Inr [of run_release, OF run_goes(4)] unfolding run_released_def by blast
  then have "payment_step 20000 run_credited run_released" unfolding run_release_def by (rule payment_step.released)
  then show 4: "reachable 20000 run_released" by (intro reachable_step [OF 3]) simp_all
  obtain y where h: "run_hold run_released = Inr (y, run_held)"
    using demo_step_Inr [of run_hold, OF run_goes(5)] unfolding run_held_def by blast
  have "payout_step 30000 run_released run_held" by (rule payout_step.created [OF _ _ _ h [unfolded run_hold_def]]) (simp_all add: run_fee_def)
  then show "reachable 30000 run_held" by (intro reachable_step [OF 4]) simp_all
qed

abbreviation run_w :: wallet where
  "run_w \<equiv> hd (wallets run_held)"

abbreviation run_p :: payout where
  "run_p \<equiv> hd (payouts run_held)"

lemma run_rows:
  "run_w \<in> set (wallets run_held)" "run_p \<in> set (payouts run_held)" "w_id run_w = po_wallet run_p" "w_currency run_w = ''NGN''"
  "status_of run_held (po_transaction run_p) = Some Processing" "length (po_reference run_p) \<le> 200" "is_supported_currency ''NGN''"
  "\<not> isl (fail_payout_body 40000 run_p ''F'' ''f'' run_held)"
  by code_simp+

theorem holds_are_backed_witness:
  "balance run_held (w_reserved run_w) = 105 \<and> (\<Sum>p\<leftarrow>processing_payouts run_held (w_id run_w). po_amount p + payout_fee run_held p) = 105"
proof -
  have "(\<Sum>r\<leftarrow>processing_refunds run_held (w_id run_w). r_wallet_debit r) = 0"
    "(\<Sum>p\<leftarrow>processing_payouts run_held (w_id run_w). po_amount p + payout_fee run_held p) = 105" by code_simp+
  with holds_are_backed [OF run_steps(5) run_rows(1)] show ?thesis by simp
qed

theorem refunds_stay_within_payment_witness:
  "committed_amount (p_id (hd (payments run_held))) run_held \<le> 300"
proof -
  have "hd (payments run_held) \<in> set (payments run_held)" "p_amount (hd (payments run_held)) = 300" by code_simp+
  with refunds_stay_within_payment [OF run_steps(5)] show ?thesis by metis
qed

theorem rows_are_well_typed_witness:
  "po_wallet run_p \<in> w_id ` set (wallets run_held) \<and> (\<exists>t \<in> set (transactions run_held). t_id t = po_transaction run_p \<and> t_type t = Ty_Withdrawal)"
  using rows_are_well_typed [OF run_steps(5)] run_rows(2) by blast

theorem payouts_refine_specification_witness:
  "\<exists>s'. settles_payout 40000 run_p run_held s' \<and> payout_abs run_held run_p run_w = Some (Held, 195, 105) \<and>
     (payout_abs s' run_p run_w = Some (Held, 195, 105) \<or> (\<exists>m. payout_abs s' run_p run_w = Some m \<and> payout_spec 105 (Held, 195, 105) m))"
proof -
  obtain u s' where "fail_payout_body 40000 run_p ''F'' ''f'' run_held = Inr (u, s')" using run_or_Inr [OF run_rows(8)] by blast
  then have st: "settles_payout 40000 run_p run_held s'" by (rule by_failure)
  have "payout_abs run_held run_p run_w = Some (Held, 195, 105)" "po_amount run_p + payout_fee run_held run_p = 105" by code_simp+
  with payouts_refine_specification [OF run_steps(5) run_rows(2) same_payout_marks(1) run_rows(1,3) st] st show ?thesis by auto
qed

theorem processing_payout_can_be_returned_witness:
  "\<exists>s'. fail_payout_body 40000 run_p ''F'' ''f'' run_held = Inr ((), s') \<and> balance s' (w_available run_w) = 300"
proof -
  have "balance run_held (w_available run_w) + po_amount run_p + payout_fee run_held run_p = 300" by code_simp
  with processing_payout_can_be_returned [OF run_steps(5) run_rows(2,5,1,3), of 40000 "''F''" "''f''"] run_rows(4,6,7,8) show ?thesis by auto
qed

end
