(* ===== verification/Idempotency.thy ===== *)
theory Idempotency
  imports Entities
begin

text \<open>
  \<open>src/idempotency/\<close>: the Idempotency-Key of a request. The fingerprint of a request (canonical
  JSON under a hash, which is a parameter), the table of keys with one function per statement
  of \<open>idempotency.service.ts\<close>, \<open>begin\<close> with other requests running between its statements, and
  the interceptor around a handler.
\<close>

section \<open>Fingerprints\<close>

definition hex_digit :: "nat \<Rightarrow> char" where
  "hex_digit n = ''0123456789abcdef'' ! (n mod 16)"

definition json_char :: "char \<Rightarrow> string" where
  "json_char c = (let n = of_char c :: nat in
     if n = 34 then [CHR 92, CHR 34] else if n = 92 then [CHR 92, CHR 92]
     else if n = 8 then CHR 92 # ''b'' else if n = 9 then CHR 92 # ''t'' else if n = 10 then CHR 92 # ''n''
     else if n = 12 then CHR 92 # ''f'' else if n = 13 then CHR 92 # ''r''
     else if n < 32 then CHR 92 # ''u00'' @ [hex_digit (n div 16), hex_digit n] else [c])"

definition json_string :: "string \<Rightarrow> string" where
  "json_string s = CHR 34 # concat (map json_char s) @ [CHR 34]"

fun canonical_json :: "json \<Rightarrow> string" where
  "canonical_json JNull = ''null''"
| "canonical_json (JBool b) = (if b then ''true'' else ''false'')"
| "canonical_json (JNum n) = show_int n"
| "canonical_json (JStr s) = json_string s"
| "canonical_json (JArr vs) = ''['' @ join '','' (map canonical_json vs) @ '']''"
| "canonical_json (JObj es) =
     ''{'' @ join '','' (map (\<lambda>(k, v). json_string k @ '':'' @ v) (sort_key fst (map (\<lambda>(k, v). (k, canonical_json v)) es))) @ ''}''"

definition upper_char :: "char \<Rightarrow> char" where
  "upper_char c = (let n = of_char c :: nat in if 97 \<le> n \<and> n \<le> 122 then char_of (n - 32) else c)"

definition request_hash :: "(string \<Rightarrow> string) \<Rightarrow> string \<Rightarrow> string \<Rightarrow> json option \<Rightarrow> string" where
  "request_hash sha path_method path body =
     sha (map upper_char path_method @ [CHR 10] @ path @ [CHR 10] @ canonical_json (case body of None \<Rightarrow> JNull | Some b \<Rightarrow> b))"

definition key_char :: "char \<Rightarrow> bool" where
  "key_char c = (let n = of_char c :: nat in
     65 \<le> n \<and> n \<le> 90 \<or> 97 \<le> n \<and> n \<le> 122 \<or> 48 \<le> n \<and> n \<le> 57 \<or> c \<in> set ''_-:.'')"

definition is_valid_idempotency_key :: "string option \<Rightarrow> bool" where
  "is_valid_idempotency_key key = (case key of None \<Rightarrow> False | Some k \<Rightarrow> 1 \<le> length k \<and> length k \<le> 255 \<and> list_all key_char k)"

section \<open>The table\<close>

datatype key_status = Key_Processing | Key_Completed

record idempotency_key =
  ik_id :: uuid
  ik_user_id :: "uuid option"
  ik_organization_id :: "uuid option"
  ik_key :: string
  ik_method :: string
  ik_path :: string
  ik_request_hash :: string
  ik_status :: key_status
  ik_response_status :: "nat option"
  ik_response_body :: "json option"
  ik_locked_at :: int
  ik_expires_at :: int
  ik_completed_at :: "int option"

record key_table =
  kt_keys :: "idempotency_key list"
  kt_next_id :: uuid

record idempotency_config =
  ic_ttl_ms :: int
  ic_lock_timeout_ms :: int

record fingerprint =
  fp_owner :: owner
  fp_key :: string
  fp_method :: string
  fp_path :: string
  fp_hash :: string

datatype begin_outcome = Execute uuid | Replay nat "json option"

definition find_key :: "owner \<Rightarrow> string \<Rightarrow> key_table \<Rightarrow> idempotency_key option" where
  "find_key own key t = find (\<lambda>k. owner_where own (ik_user_id k) (ik_organization_id k) \<and> ik_key k = key) (kt_keys t)"

text \<open>\<open>INSERT ... ON CONFLICT DO NOTHING\<close> under the unique (owner, key) indexes.\<close>

definition try_insert :: "idempotency_config \<Rightarrow> int \<Rightarrow> fingerprint \<Rightarrow> key_table \<Rightarrow> uuid option \<times> key_table" where
  "try_insert cfg now rq t =
     (if find_key (fp_owner rq) (fp_key rq) t \<noteq> None then (None, t)
      else
        let k = \<lparr>ik_id = kt_next_id t, ik_user_id = fst (owner_columns (fp_owner rq)),
                 ik_organization_id = snd (owner_columns (fp_owner rq)), ik_key = fp_key rq, ik_method = fp_method rq,
                 ik_path = fp_path rq, ik_request_hash = fp_hash rq, ik_status = Key_Processing, ik_response_status = None,
                 ik_response_body = None, ik_locked_at = now, ik_expires_at = now + ic_ttl_ms cfg, ik_completed_at = None\<rparr> in
        (Some (ik_id k), t\<lparr>kt_keys := kt_keys t @ [k], kt_next_id := Suc (kt_next_id t)\<rparr>))"

definition delete_if_expired :: "int \<Rightarrow> uuid \<Rightarrow> key_table \<Rightarrow> key_table" where
  "delete_if_expired now i t = t\<lparr>kt_keys := filter (\<lambda>k. \<not> (ik_id k = i \<and> ik_expires_at k < now)) (kt_keys t)\<rparr>"

definition take_over_stale :: "idempotency_config \<Rightarrow> int \<Rightarrow> uuid \<Rightarrow> key_table \<Rightarrow> bool \<times> key_table" where
  "take_over_stale cfg now i t =
     (let stale = (\<lambda>k. ik_id k = i \<and> ik_status k = Key_Processing \<and> ik_locked_at k < now - ic_lock_timeout_ms cfg) in
      (list_ex stale (kt_keys t), t\<lparr>kt_keys := map (\<lambda>k. if stale k then k\<lparr>ik_locked_at := now\<rparr> else k) (kt_keys t)\<rparr>))"

definition complete_key :: "int \<Rightarrow> uuid \<Rightarrow> nat \<Rightarrow> json option \<Rightarrow> key_table \<Rightarrow> key_table" where
  "complete_key now i status body t =
     t\<lparr>kt_keys := map (\<lambda>k. if ik_id k = i \<and> ik_status k = Key_Processing
        then k\<lparr>ik_status := Key_Completed, ik_response_status := Some status, ik_response_body := body, ik_completed_at := Some now\<rparr>
        else k) (kt_keys t)\<rparr>"

definition release_key :: "uuid \<Rightarrow> key_table \<Rightarrow> key_table" where
  "release_key i t = t\<lparr>kt_keys := filter (\<lambda>k. \<not> (ik_id k = i \<and> ik_status k = Key_Processing)) (kt_keys t)\<rparr>"

definition delete_expired :: "int \<Rightarrow> key_table \<Rightarrow> nat \<times> key_table" where
  "delete_expired now t =
     (length (filter (\<lambda>k. ik_expires_at k < now) (kt_keys t)),
      t\<lparr>kt_keys := filter (\<lambda>k. \<not> ik_expires_at k < now) (kt_keys t)\<rparr>)"

section \<open>Claiming a key\<close>

text \<open>
  One round of the loop of \<open>begin\<close>; \<open>Inr None\<close> continues it. \<open>others n\<close> is what other requests do
  to the table before the \<open>n\<close>-th statement of this one.
\<close>

definition begin_round :: "idempotency_config \<Rightarrow> (nat \<Rightarrow> key_table \<Rightarrow> key_table) \<Rightarrow> int \<Rightarrow> fingerprint \<Rightarrow> key_table \<Rightarrow> begin_outcome option res \<times> key_table" where
  "begin_round cfg others now rq t =
     (case try_insert cfg now rq (others 0 t) of
        (Some i, t1) \<Rightarrow> (Inr (Some (Execute i)), t1)
      | (None, t1) \<Rightarrow>
          let t2 = others 1 t1 in
          (case find_key (fp_owner rq) (fp_key rq) t2 of
             None \<Rightarrow> (Inr None, t2)
           | Some k \<Rightarrow>
               if ik_expires_at k \<le> now then (Inr None, delete_if_expired now (ik_id k) (others 2 t2))
               else if ik_request_hash k \<noteq> fp_hash rq \<or> ik_method k \<noteq> fp_method rq \<or> ik_path k \<noteq> fp_path rq
               then (Inl (Idempotency_Err Idempotency_Key_Reused), t2)
               else if ik_status k = Key_Completed
               then (Inr (Some (Replay (case ik_response_status k of None \<Rightarrow> 200 | Some n \<Rightarrow> n) (ik_response_body k))), t2)
               else (case take_over_stale cfg now (ik_id k) (others 2 t2) of
                       (True, t3) \<Rightarrow> (Inr (Some (Execute (ik_id k))), t3)
                     | (False, t3) \<Rightarrow> (Inl (Idempotency_Err Idempotency_Request_In_Progress), t3))))"

fun begin_rounds :: "nat \<Rightarrow> idempotency_config \<Rightarrow> (nat \<Rightarrow> nat \<Rightarrow> key_table \<Rightarrow> key_table) \<Rightarrow> int \<Rightarrow> fingerprint \<Rightarrow> key_table \<Rightarrow> begin_outcome res \<times> key_table" where
  "begin_rounds 0 cfg others now rq t = (Inl (Idempotency_Err Idempotency_Request_In_Progress), t)"
| "begin_rounds (Suc n) cfg others now rq t =
     (case begin_round cfg (others n) now rq t of
        (Inl e, t') \<Rightarrow> (Inl e, t')
      | (Inr (Some out), t') \<Rightarrow> (Inr out, t')
      | (Inr None, t') \<Rightarrow> begin_rounds n cfg others now rq t')"

definition begin_among :: "idempotency_config \<Rightarrow> (nat \<Rightarrow> nat \<Rightarrow> key_table \<Rightarrow> key_table) \<Rightarrow> int \<Rightarrow> fingerprint \<Rightarrow> key_table \<Rightarrow> begin_outcome res \<times> key_table" where
  "begin_among cfg others now rq t = begin_rounds 2 cfg others now rq t"

definition begin_key :: "idempotency_config \<Rightarrow> int \<Rightarrow> fingerprint \<Rightarrow> key_table \<Rightarrow> begin_outcome res \<times> key_table" where
  "begin_key cfg now rq t = begin_among cfg (\<lambda>_ _ t. t) now rq t"

section \<open>The interceptor\<close>

record http_request =
  hq_key :: "string option"
  hq_owner :: "owner option"
  hq_method :: string
  hq_path :: string
  hq_body :: "json option"

record http_response =
  hp_replayed :: bool
  hp_status :: nat
  hp_body :: "json option"

text \<open>The path without its query.\<close>

definition without_query :: "string \<Rightarrow> string" where
  "without_query url = takeWhile (\<lambda>c. c \<noteq> CHR ''?'') url"

definition success_status :: "nat option \<Rightarrow> string \<Rightarrow> nat" where
  "success_status declared verb = (case declared of Some n \<Rightarrow> n | None \<Rightarrow> if verb = ''POST'' then 201 else 200)"

text \<open>\<open>handler\<close> is the controller method, on the rest of the state.\<close>

definition intercept :: "idempotency_config \<Rightarrow> (string \<Rightarrow> string) \<Rightarrow> nat option \<Rightarrow> int \<Rightarrow> http_request \<Rightarrow> ('s \<Rightarrow> json option res \<times> 's) \<Rightarrow>
    key_table \<times> 's \<Rightarrow> http_response res \<times> key_table \<times> 's" where
  "intercept cfg sha declared now rq handler st =
     (case hq_key rq of
        None \<Rightarrow> (Inl (Idempotency_Err Idempotency_Key_Required), st)
      | Some key \<Rightarrow>
          if \<not> is_valid_idempotency_key (Some key) then (Inl (Idempotency_Err Idempotency_Key_Required), st)
          else (case hq_owner rq of
             None \<Rightarrow> (Inl (Plain_Error ''@Idempotent() requires an authenticated route''), st)
           | Some own \<Rightarrow>
               let path = without_query (hq_path rq);
                   fp = \<lparr>fp_owner = own, fp_key = key, fp_method = hq_method rq, fp_path = path,
                         fp_hash = request_hash sha (hq_method rq) path (hq_body rq)\<rparr>;
                   status = success_status declared (hq_method rq) in
               (case begin_key cfg now fp (fst st) of
                  (Inl e, t) \<Rightarrow> (Inl e, t, snd st)
                | (Inr (Replay n body), t) \<Rightarrow> (Inr \<lparr>hp_replayed = True, hp_status = n, hp_body = body\<rparr>, t, snd st)
                | (Inr (Execute i), t) \<Rightarrow>
                    (case handler (snd st) of
                       (Inr body, s) \<Rightarrow> (Inr \<lparr>hp_replayed = False, hp_status = status, hp_body = body\<rparr>, complete_key now i status body t, s)
                     | (Inl e, s) \<Rightarrow> (Inl e, release_key i t, s)))))"

section \<open>Key order does not matter\<close>

lemma sort_key_perm:
  assumes "distinct (map fst xs)" and "mset xs = mset ys"
  shows "sort_key fst xs = sort_key (fst :: string \<times> 'b \<Rightarrow> string) ys"
proof -
  have "distinct (map fst ys)" using assms mset_eq_imp_distinct_iff [of "map fst xs" "map fst ys"] by simp
  then have inj: "inj_on fst (set ys)" by (simp add: distinct_map)
  show ?thesis
  proof (rule properties_for_sort_key)
    show "mset (sort_key fst ys) = mset xs" using assms(2) by simp
    have "filter (\<lambda>x. fst k = fst x) (sort_key fst ys) = filter (\<lambda>x. fst k = fst x) xs" if "k \<in> set xs" for k
    proof -
      have one: "filter (\<lambda>x. fst k = fst x) zs = [k]" if "k \<in> set zs" "distinct (map fst zs)" for zs
        using that by (induction zs) (auto simp: filter_empty_conv)
      have "distinct (map fst (sort_key fst ys))"
        using \<open>distinct (map fst ys)\<close> mset_eq_imp_distinct_iff [of "map fst (sort_key fst ys)" "map fst ys"] by simp
      moreover have "k \<in> set (sort_key fst ys)" using that assms(2) by (metis set_mset_mset set_sort)
      ultimately show ?thesis using one [OF _ assms(1)] one that by metis
    qed
    then show "k \<in> set (sort_key fst ys) \<Longrightarrow> filter (\<lambda>x. fst k = fst x) (sort_key fst ys) = filter (\<lambda>x. fst k = fst x) xs" for k
      using assms(2) by (metis set_mset_mset set_sort)
    show "sorted (map fst (sort_key fst ys))" by simp
  qed
qed

lemma canonical_key_order:
  assumes "distinct (map fst es)" and "mset es = mset es'"
  shows "canonical_json (JObj es) = canonical_json (JObj es')"
proof -
  let ?f = "\<lambda>(k, v). (k, canonical_json v)"
  have fst: "map fst (map ?f xs) = map fst xs" for xs by (induction xs) auto
  have perm: "mset (map ?f es) = mset (map ?f es')" using assms(2) by simp
  have "sort_key fst (map ?f es) = sort_key fst (map ?f es')"
    by (rule sort_key_perm [OF _ perm]) (simp only: fst assms(1))
  then show ?thesis by simp
qed

section \<open>A retry gets the stored response\<close>

definition keys_ok :: "key_table \<Rightarrow> bool" where
  "keys_ok t \<longleftrightarrow> distinct (map ik_id (kt_keys t)) \<and> (\<forall>k \<in> set (kt_keys t). ik_id k < kt_next_id t)"

definition is_key :: "owner \<Rightarrow> string \<Rightarrow> idempotency_key \<Rightarrow> bool" where
  "is_key own key k \<longleftrightarrow> owner_where own (ik_user_id k) (ik_organization_id k) \<and> ik_key k = key"

lemma find_key_alt: "find_key own key t = find (is_key own key) (kt_keys t)"
  unfolding find_key_def is_key_def by (rule refl)

lemma find_map_same: "(\<And>x. P (f x) = P x) \<Longrightarrow> find P (map f xs) = map_option f (find P xs)"
  by (induction xs) auto

lemma find_snoc: "find P xs = None \<Longrightarrow> find P (xs @ [x]) = (if P x then Some x else None)"
  by (induction xs) (auto split: if_splits)

lemma key_owner_columns: "owner_where own (fst (owner_columns own)) (snd (owner_columns own))"
  by (cases own) simp_all

text \<open>What a claimed key looks like.\<close>

lemma begin_key_execute:
  assumes "begin_key cfg now rq t = (Inr (Execute i), t')"
  obtains k where "find_key (fp_owner rq) (fp_key rq) t' = Some k" "ik_id k = i" "ik_status k = Key_Processing"
    "ik_request_hash k = fp_hash rq" "ik_method k = fp_method rq" "ik_path k = fp_path rq"
proof -
  have round: "\<exists>k. find_key (fp_owner rq) (fp_key rq) t' = Some k \<and> ik_id k = i \<and> ik_status k = Key_Processing \<and>
      ik_request_hash k = fp_hash rq \<and> ik_method k = fp_method rq \<and> ik_path k = fp_path rq"
    if r: "begin_round cfg (\<lambda>_ t. t) now rq s = (Inr (Some (Execute i)), t')" for s
  proof (cases "find_key (fp_owner rq) (fp_key rq) s")
    case None
    then show ?thesis using r key_owner_columns [of "fp_owner rq"]
      by (auto simp: begin_round_def try_insert_def Let_def find_key_alt find_snoc) (auto simp: is_key_def)
  next
    case (Some k)
    let ?stale = "\<lambda>k'. ik_id k' = ik_id k \<and> ik_status k' = Key_Processing \<and> ik_locked_at k' < now - ic_lock_timeout_ms cfg"
    let ?g = "\<lambda>k. if ?stale k then k\<lparr>ik_locked_at := now\<rparr> else k"
    have hold: "ik_id k = i" "ik_status k = Key_Processing" "t' = s\<lparr>kt_keys := map ?g (kt_keys s)\<rparr>"
        "ik_request_hash k = fp_hash rq" "ik_method k = fp_method rq" "ik_path k = fp_path rq"
      using r Some by (cases "ik_status k"; auto simp: begin_round_def try_insert_def take_over_stale_def Let_def
          split: if_splits prod.splits bool.splits)+
    have "find_key (fp_owner rq) (fp_key rq) t' = map_option ?g (find (is_key (fp_owner rq) (fp_key rq)) (kt_keys s))"
      unfolding find_key_alt hold(3) by (simp add: find_map_same is_key_def)
    then show ?thesis using Some hold by (auto simp: find_key_alt)
  qed
  show ?thesis
    using assms round that
    by (auto simp: begin_key_def begin_among_def numeral_2_eq_2 split: prod.splits sum.splits option.splits)
qed

text \<open>
  C7. Once a request has been answered, the same request with the same key gets the same answer
  until the key expires, marked as replayed, and the handler is not run again: whatever the rest
  of the state has become, it is left as it is.
\<close>

theorem retry_replays_response:
  assumes "intercept cfg sha declared now rq handler (t, s) = (Inr resp, t', s')" and "\<not> hp_replayed resp"
    and "find_key own key t' = Some k" and "hq_owner rq = Some own" and "hq_key rq = Some key" and "now' < ik_expires_at k"
  shows "intercept cfg sha declared now' rq handler' (t', s2) = (Inr (resp\<lparr>hp_replayed := True\<rparr>), t', s2)"
proof -
  define fp where "fp = \<lparr>fp_owner = own, fp_key = key, fp_method = hq_method rq, fp_path = without_query (hq_path rq),
     fp_hash = request_hash sha (hq_method rq) (without_query (hq_path rq)) (hq_body rq)\<rparr>"
  have valid: "is_valid_idempotency_key (Some key)" using assms(1,5) by (auto simp: intercept_def split: if_splits)
  obtain i t1 body where b: "begin_key cfg now fp t = (Inr (Execute i), t1)" and h: "handler s = (Inr body, s')"
    and t': "t' = complete_key now i (success_status declared (hq_method rq)) body t1"
    and resp: "resp = \<lparr>hp_replayed = False, hp_status = success_status declared (hq_method rq), hp_body = body\<rparr>"
    using assms(1,2,4,5) valid
    by (auto simp: intercept_def Let_def fp_def [symmetric] split: prod.splits sum.splits begin_outcome.splits)
  from begin_key_execute [OF b] obtain k1 where k1: "find_key own key t1 = Some k1" "ik_id k1 = i" "ik_status k1 = Key_Processing"
    "ik_request_hash k1 = fp_hash fp" "ik_method k1 = fp_method fp" "ik_path k1 = fp_path fp"
    by (auto simp: fp_def)
  let ?g = "\<lambda>k. if ik_id k = i \<and> ik_status k = Key_Processing
    then k\<lparr>ik_status := Key_Completed, ik_response_status := Some (success_status declared (hq_method rq)), ik_response_body := body,
           ik_completed_at := Some now\<rparr> else k"
  have "find_key own key t' = map_option ?g (find (is_key own key) (kt_keys t1))"
    unfolding find_key_alt t' complete_key_def by (simp add: find_map_same is_key_def)
  then have k: "k = ?g k1" using k1(1) assms(3) by (simp add: find_key_alt)
  have "begin_key cfg now' fp t' = (Inr (Replay (success_status declared (hq_method rq)) body), t')"
    using assms(3,6) k k1 by (simp add: begin_key_def begin_among_def numeral_2_eq_2 begin_round_def try_insert_def fp_def)
  then show ?thesis using assms(4,5) valid by (simp add: intercept_def Let_def fp_def [symmetric] resp)
qed

section \<open>One execution at a time\<close>

text \<open>
  The statements of requests and of the maintenance on the table, and runs of them under a clock
  that does not go back. A step and a run say which records were released.
\<close>

inductive key_step :: "idempotency_config \<Rightarrow> int \<Rightarrow> key_table \<Rightarrow> uuid option \<Rightarrow> key_table \<Rightarrow> bool" for cfg now where
  claimed: "try_insert cfg now rq t = (i, t') \<Longrightarrow> key_step cfg now t None t'"
| taken_over: "take_over_stale cfg now i t = (b, t') \<Longrightarrow> key_step cfg now t None t'"
| completed: "key_step cfg now t None (complete_key now i status body t)"
| released: "key_step cfg now t (Some i) (release_key i t)"
| expired: "key_step cfg now t None (delete_if_expired now i t)"
| cleaned: "key_step cfg now t None (snd (delete_expired now t))"

inductive key_runs :: "idempotency_config \<Rightarrow> int \<Rightarrow> key_table \<Rightarrow> uuid set \<Rightarrow> int \<Rightarrow> key_table \<Rightarrow> bool" for cfg c t where
  no_step: "key_runs cfg c t {} c t"
| one_more: "key_runs cfg c t freed c' t' \<Longrightarrow> c' \<le> now \<Longrightarrow> key_step cfg now t' i t'' \<Longrightarrow> key_runs cfg c t (freed \<union> set_option i) now t''"

definition no_keys :: key_table where
  "no_keys = \<lparr>kt_keys = [], kt_next_id = 0\<rparr>"

lemma keys_ok_marked:
  "keys_ok t \<Longrightarrow> (\<And>k. ik_id (f k) = ik_id k) \<Longrightarrow> keys_ok (t\<lparr>kt_keys := map f (kt_keys t)\<rparr>)"
  by (simp add: keys_ok_def comp_def)

lemma keys_ok_fewer: "keys_ok t \<Longrightarrow> keys_ok (t\<lparr>kt_keys := filter P (kt_keys t)\<rparr>)"
  by (auto simp: keys_ok_def distinct_map_filter)

lemma keys_ok_step: "key_step cfg now t i t' \<Longrightarrow> keys_ok t \<Longrightarrow> keys_ok t'"
proof (induction rule: key_step.induct)
  case (claimed rq t i t')
  then show ?case by (fastforce simp: try_insert_def Let_def keys_ok_def less_Suc_eq split: if_splits)
next
  case (taken_over i t b t')
  then show ?case by (auto simp: take_over_stale_def Let_def intro: keys_ok_marked)
qed (auto simp: complete_key_def release_key_def delete_if_expired_def delete_expired_def intro: keys_ok_marked keys_ok_fewer)

lemma keys_ok_runs: "key_runs cfg c t freed c' t' \<Longrightarrow> keys_ok t \<Longrightarrow> keys_ok t'"
  by (induction rule: key_runs.induct) (auto dest: keys_ok_step)

text \<open>
  The claim of \<open>k\<close> stands: the key has that record still, as it was when it is completed, and a later
  lock only when the lock timeout had passed.
\<close>

definition stands :: "idempotency_config \<Rightarrow> owner \<Rightarrow> string \<Rightarrow> idempotency_key \<Rightarrow> int \<Rightarrow> key_table \<Rightarrow> bool" where
  "stands cfg own key k c t \<longleftrightarrow> keys_ok t \<and>
     (\<exists>k'. find_key own key t = Some k' \<and> ik_id k' = ik_id k \<and> ik_expires_at k' = ik_expires_at k \<and>
        (ik_status k = Key_Completed \<longrightarrow> k' = k) \<and>
        (ik_locked_at k' = ik_locked_at k \<or> ik_locked_at k + ic_lock_timeout_ms cfg < c))"

lemma standsE:
  assumes "stands cfg own key k c t"
  obtains k' where "keys_ok t" "find_key own key t = Some k'" "ik_id k' = ik_id k" "ik_expires_at k' = ik_expires_at k"
    "ik_status k = Key_Completed \<Longrightarrow> k' = k" "ik_locked_at k' = ik_locked_at k \<or> ik_locked_at k + ic_lock_timeout_ms cfg < c"
  using assms unfolding stands_def by blast

lemma find_kept: "find P xs = Some x \<Longrightarrow> Q x \<Longrightarrow> find P (filter Q xs) = Some x"
  by (induction xs) (auto split: if_splits)

lemma find_longer: "find P xs = Some x \<Longrightarrow> find P (xs @ ys) = Some x"
  by (induction xs) (auto split: if_splits)

lemma stands_step:
  assumes "key_step cfg now t i t'" and "stands cfg own key k c t" and "c \<le> now" and "now \<le> ik_expires_at k"
    and "i = Some (ik_id k) \<Longrightarrow> ik_status k = Key_Completed"
  shows "stands cfg own key k now t'"
proof -
  obtain k' where ok: "keys_ok t" and k': "find (is_key own key) (kt_keys t) = Some k'" "ik_id k' = ik_id k"
      "ik_expires_at k' = ik_expires_at k" "ik_status k = Key_Completed \<Longrightarrow> k' = k"
    and locked: "ik_locked_at k' = ik_locked_at k \<or> ik_locked_at k + ic_lock_timeout_ms cfg < now"
    using standsE [OF assms(2)] assms(3) by (metis find_key_alt less_le_trans)
  have ok': "keys_ok t'" by (rule keys_ok_step [OF assms(1) ok])
  have same: "stands cfg own key k now t'" if "find (is_key own key) (kt_keys t') = Some k'"
    using that ok' k'(2-4) locked by (auto simp: stands_def find_key_alt)
  from assms(1) show ?thesis
  proof cases
    case (claimed rq i)
    then show ?thesis using k'(1) by (intro same) (auto simp: try_insert_def Let_def find_longer split: if_splits)
  next
    case (taken_over j b)
    let ?f = "\<lambda>k. if ik_id k = j \<and> ik_status k = Key_Processing \<and> ik_locked_at k < now - ic_lock_timeout_ms cfg
      then k\<lparr>ik_locked_at := now\<rparr> else k"
    have t': "kt_keys t' = map ?f (kt_keys t)" using taken_over by (auto simp: take_over_stale_def Let_def)
    have "find (is_key own key) (kt_keys t') = Some (?f k')"
      unfolding t' using k'(1) by (subst find_map_same) (simp_all add: is_key_def)
    then show ?thesis using ok' k'(2-4) locked by (auto simp: stands_def find_key_alt)
  next
    case (completed j status body)
    let ?f = "\<lambda>k. if ik_id k = j \<and> ik_status k = Key_Processing
      then k\<lparr>ik_status := Key_Completed, ik_response_status := Some status, ik_response_body := body, ik_completed_at := Some now\<rparr> else k"
    have t': "kt_keys t' = map ?f (kt_keys t)" by (simp add: completed(2) complete_key_def)
    have "find (is_key own key) (kt_keys t') = Some (?f k')"
      unfolding t' using k'(1) by (subst find_map_same) (simp_all add: is_key_def)
    then show ?thesis using ok' k'(2-4) locked by (auto simp: stands_def find_key_alt)
  next
    case (released j)
    then show ?thesis using k' assms(5) by (intro same) (auto simp: release_key_def intro!: find_kept)
  next
    case (expired j)
    then show ?thesis using k' assms(4) by (intro same) (auto simp: delete_if_expired_def intro!: find_kept)
  next
    case cleaned
    then show ?thesis using k' assms(4) by (intro same) (auto simp: delete_expired_def intro!: find_kept)
  qed
qed

lemma stands_runs:
  assumes "key_runs cfg c t freed c' t'" and "stands cfg own key k c t" and "c' \<le> ik_expires_at k"
    and "ik_id k \<in> freed \<Longrightarrow> ik_status k = Key_Completed"
  shows "stands cfg own key k c' t'"
  using assms
proof (induction rule: key_runs.induct)
  case (one_more freed c' t' now i t'')
  then show ?case by (intro stands_step [OF one_more.hyps(3) one_more.IH]) auto
qed

lemma stands_round:
  assumes "stands cfg (fp_owner rq) (fp_key rq) k now t" and "\<And>m u. stands cfg (fp_owner rq) (fp_key rq) k now u \<Longrightarrow> stands cfg (fp_owner rq) (fp_key rq) k now (others m u)"
    and "now \<le> ik_expires_at k" and "begin_round cfg others now rq t = (r, t')"
  shows "stands cfg (fp_owner rq) (fp_key rq) k now t'"
    and "r = Inr (Some (Execute i)) \<Longrightarrow> i = ik_id k \<and> ik_status k = Key_Processing \<and> ik_locked_at k + ic_lock_timeout_ms cfg < now"
proof -
  let ?st = "stands cfg (fp_owner rq) (fp_key rq) k now"
  define t2 where "t2 = others (Suc 0) (others 0 t)"
  have s: "?st (others 0 t)" "?st t2" "?st (others 2 t2)" using assms(1,2) by (simp_all add: t2_def)
  have no_insert: "try_insert cfg now rq (others 0 t) = (None, others 0 t)" using standsE [OF s(1)] by (metis option.simps(3) try_insert_def)
  obtain k1 where k1: "find_key (fp_owner rq) (fp_key rq) t2 = Some k1" "ik_id k1 = ik_id k" using standsE [OF s(2)] by metis
  obtain b t3 where over: "take_over_stale cfg now (ik_id k1) (others 2 t2) = (b, t3)" by fastforce
  have t3: "?st t3" by (rule stands_step [OF key_step.taken_over [OF over] s(3) _ assms(3)]) simp_all
  have gone: "?st (delete_if_expired now (ik_id k1) (others 2 t2))"
    by (rule stands_step [OF key_step.expired s(3) _ assms(3)]) simp_all
  show "?st t'" using assms(4) s(2) t3 gone
    by (auto simp: begin_round_def no_insert t2_def [symmetric] k1(1) over Let_def split: if_splits bool.splits)
  assume "r = Inr (Some (Execute i))"
  then have i: "i = ik_id k1" and b: b
    using assms(4) by (auto simp: begin_round_def no_insert t2_def [symmetric] k1(1) over Let_def split: if_splits bool.splits)
  from standsE [OF s(3)] obtain k' where k': "keys_ok (others 2 t2)" "find_key (fp_owner rq) (fp_key rq) (others 2 t2) = Some k'"
      "ik_id k' = ik_id k" "ik_status k = Key_Completed \<Longrightarrow> k' = k"
      "ik_locked_at k' = ik_locked_at k \<or> ik_locked_at k + ic_lock_timeout_ms cfg < now" by metis
  have "k' \<in> set (kt_keys (others 2 t2))" using k'(2) by (auto simp: find_key_def find_Some_iff)
  moreover obtain x where x: "x \<in> set (kt_keys (others 2 t2))" "ik_id x = ik_id k1" "ik_status x = Key_Processing"
      "ik_locked_at x < now - ic_lock_timeout_ms cfg"
    using over b by (auto simp: take_over_stale_def Let_def list_ex_iff)
  ultimately have "x = k'" using k'(1,3) k1(2) by (auto simp: keys_ok_def distinct_map inj_on_def)
  then show "i = ik_id k \<and> ik_status k = Key_Processing \<and> ik_locked_at k + ic_lock_timeout_ms cfg < now"
    using x(3,4) k'(4,5) i k1(2) by (cases "ik_status k") auto
qed


section \<open>A run\<close>

definition demo_key_config :: idempotency_config where
  "demo_key_config = \<lparr>ic_ttl_ms = 1000, ic_lock_timeout_ms = 60\<rparr>"

definition demo_request :: http_request where
  "demo_request = \<lparr>hq_key = Some ''k'', hq_owner = Some (User_Owner 7), hq_method = ''POST'', hq_path = ''/v1/x?y=1'',
     hq_body = Some (JObj [(''b'', JNum 1), (''a'', JStr ''x'')])\<rparr>"

definition demo_handler :: "nat \<Rightarrow> json option res \<times> nat" where
  "demo_handler n = (Inr (Some (JNum (int n))), Suc n)"

definition demo_answer :: "http_response res \<times> key_table \<times> nat" where
  "demo_answer = intercept demo_key_config (\<lambda>x. x) None 5 demo_request demo_handler (\<lparr>kt_keys = [], kt_next_id = 0\<rparr>, 3)"

theorem retry_replays_response_witness:
  "intercept demo_key_config (\<lambda>x. x) None 900 demo_request demo_handler (fst (snd demo_answer), 8) =
     (Inr \<lparr>hp_replayed = True, hp_status = 201, hp_body = Some (JNum 3)\<rparr>, fst (snd demo_answer), 8)"
proof -
  define t' where "t' = fst (snd demo_answer)"
  have run: "intercept demo_key_config (\<lambda>x. x) None 5 demo_request demo_handler (\<lparr>kt_keys = [], kt_next_id = 0\<rparr>, 3) =
      (Inr \<lparr>hp_replayed = False, hp_status = 201, hp_body = Some (JNum 3)\<rparr>, t', 4)"
    unfolding t'_def by code_simp
  have k: "find_key (User_Owner 7) ''k'' t' = Some (hd (kt_keys t'))" "ik_expires_at (hd (kt_keys t')) = 1005"
    unfolding t'_def by code_simp+
  have rq: "hq_owner demo_request = Some (User_Owner 7)" "hq_key demo_request = Some ''k''" by (simp_all add: demo_request_def)
  show ?thesis using retry_replays_response [OF run _ k(1) rq, of 900 demo_handler 8] k(2) by (simp add: t'_def [symmetric])
qed

text \<open>A request whose claim is 95 ms old is taken over, with the maintenance running meanwhile; the next one has to wait.\<close>

definition demo_fingerprint :: fingerprint where
  "demo_fingerprint = \<lparr>fp_owner = User_Owner 7, fp_key = ''k'', fp_method = ''POST'', fp_path = ''/'', fp_hash = ''h''\<rparr>"

definition demo_claimed :: key_table where
  "demo_claimed = snd (try_insert demo_key_config 5 demo_fingerprint no_keys)"


end
