(* ===== verification/Reconciliation.thy ===== *)
theory Reconciliation
  imports Settlement Payouts Pagination Ledger_Reports
begin

text \<open>
  \<open>src/reconciliation/reconciliation.service.ts\<close>: comparing the payments and payouts of a period
  with the records of the provider, and the ledger with itself. What differs becomes items for
  a person to resolve; only late webhooks are fixed, through settlement and payout syncing.
  The records of a provider are a parameter (\<open>recon_capability\<close>), the text of an exception too.
\<close>

section \<open>Records, runs and items\<close>

datatype record_status = Record_Pending | Record_Successful | Record_Failed | Record_Refunded

record payment_record =
  pm_provider_reference :: string
  pm_reference :: "string option"
  pm_status :: record_status
  pm_amount :: int
  pm_currency :: string
  pm_created_at :: int

record payout_record =
  pt_reference :: string
  pt_provider_reference :: string
  pt_status :: payout_status
  pt_amount :: int
  pt_currency :: string
  pt_created_at :: int

record recon_capability =
  rc_list_payments :: "int \<Rightarrow> int \<Rightarrow> payment_record list answer"
  rc_list_payouts :: "(int \<Rightarrow> int \<Rightarrow> payout_record list answer) option"

datatype item_kind = Payment_Item | Payout_Item | Ledger_Item

datatype issue = Missing_In_Finstack | Not_Credited | Credited_Without_Payment | Record_Amount_Mismatch | Status_Mismatch
  | Late_Settlement | Balance_Discrepancy | Trial_Balance_Mismatch

datatype item_status = Open_Item | Resolved_Item | Auto_Resolved

record found_item =
  fi_kind :: item_kind
  fi_issue :: issue
  fi_reference :: string
  fi_target :: "uuid option"
  fi_finstack :: "json_object option"
  fi_provider :: "json_object option"
  fi_status :: item_status

datatype run_status = Run_Running | Run_Completed | Run_Failed

datatype run_trigger = Trigger_Schedule | Trigger_Manual

record run_summary =
  rs_payments_checked :: "nat option"
  rs_payouts_checked :: "nat option"
  rs_issues :: "nat option"
  rs_auto_resolved :: "nat option"
  rs_by_issue :: "(issue \<times> nat) list"

record recon_run =
  rn_id :: uuid
  rn_provider :: "string option"
  rn_from :: int
  rn_to :: int
  rn_status :: run_status
  rn_trigger :: run_trigger
  rn_requested_by :: "uuid option"
  rn_summary :: run_summary
  rn_error :: "string option"
  rn_finished_at :: "int option"
  rn_created_at :: int

record recon_item =
  it_id :: uuid
  it_run :: uuid
  it_found :: found_item
  it_note :: "string option"
  it_resolved_by :: "uuid option"
  it_resolved_at :: "int option"
  it_created_at :: int

text \<open>The tables of this module beside the database of the others.\<close>

record recon_db =
  rd_db :: db
  rd_runs :: "recon_run list"
  rd_items :: "recon_item list"
  rd_next_id :: uuid

datatype recon_error = Run_Not_Found | Item_Not_Found | Item_Not_Open | Provider_Cannot_Reconcile string
  | Invalid_Period string | Service_Err app_error

section \<open>Views\<close>

definition COLLECTED :: "record_status list" where
  "COLLECTED = [Record_Successful, Record_Refunded]"

definition CREDITED :: "txn_status list" where
  "CREDITED = [Successful, Reversed]"

fun payout_agrees :: "txn_status \<Rightarrow> payout_status option" where
  "payout_agrees Processing = Some Payout_Pending"
| "payout_agrees Successful = Some Payout_Successful"
| "payout_agrees Failed = Some Payout_Failed"
| "payout_agrees Reversed = Some Payout_Reversed"
| "payout_agrees _ = None"

fun record_status_str :: "record_status \<Rightarrow> string" where
  "record_status_str Record_Pending = ''pending''"
| "record_status_str Record_Successful = ''successful''"
| "record_status_str Record_Failed = ''failed''"
| "record_status_str Record_Refunded = ''refunded''"

fun payout_status_str :: "payout_status \<Rightarrow> string" where
  "payout_status_str Payout_Pending = ''pending''"
| "payout_status_str Payout_Successful = ''successful''"
| "payout_status_str Payout_Failed = ''failed''"
| "payout_status_str Payout_Reversed = ''reversed''"

definition payment_record_view :: "payment_record \<Rightarrow> json_object" where
  "payment_record_view r =
     [(''providerReference'', JStr (pm_provider_reference r)), (''reference'', j_opt JStr (pm_reference r)),
      (''status'', JStr (record_status_str (pm_status r))), (''amount'', j_amount (pm_amount r)),
      (''currency'', JStr (pm_currency r)), (''createdAt'', j_timestamp (pm_created_at r))]"

definition payout_record_view :: "payout_record \<Rightarrow> json_object" where
  "payout_record_view r =
     [(''reference'', JStr (pt_reference r)), (''providerReference'', JStr (pt_provider_reference r)),
      (''status'', JStr (payout_status_str (pt_status r))), (''amount'', j_amount (pt_amount r)),
      (''currency'', JStr (pt_currency r)), (''createdAt'', j_timestamp (pt_created_at r))]"

definition recon_payment_view :: "payment \<Rightarrow> txn \<Rightarrow> json_object" where
  "recon_payment_view p t =
     [(''paymentId'', j_id (p_id p)), (''reference'', JStr (t_reference t)), (''status'', JStr (txn_status_str (t_status t))),
      (''amount'', j_amount (p_amount p)), (''currency'', JStr (p_currency p))]"

text \<open>An adapter that throws, with its message.\<close>

fun answered :: "'a answer \<Rightarrow> 'a res" where
  "answered (Inr x) = Inr x"
| "answered (Inl (Provider_Failure m retryable)) = Inl (Plain_Error m)"
| "answered (Inl (Other_Failure m)) = Inl (Plain_Error m)"

definition swallow :: "'a run \<Rightarrow> unit run" where
  "swallow m s = (Inr (), snd (m s))"

section \<open>Payments\<close>

definition payment_item :: "payment \<Rightarrow> payment_record \<Rightarrow> txn \<Rightarrow> issue \<Rightarrow> item_status \<Rightarrow> found_item" where
  "payment_item p r t i st =
     \<lparr>fi_kind = Payment_Item, fi_issue = i, fi_reference = t_reference t, fi_target = Some (p_id p),
      fi_finstack = Some (recon_payment_view p t), fi_provider = Some (payment_record_view r), fi_status = st\<rparr>"

definition compare_payment :: "registry \<Rightarrow> fx_config \<Rightarrow> int \<Rightarrow> payment \<Rightarrow> payment_record \<Rightarrow> found_item list run" where
  "compare_payment rg cfg now p r =
     then_do (reading (get_transaction (p_transaction p))) (\<lambda>t.
       let collected = pm_status r \<in> set COLLECTED in
       if collected \<and> (pm_amount r \<noteq> p_amount p \<or> pm_currency r \<noteq> p_currency p)
       then (\<lambda>s. (Inr [payment_item p r t Record_Amount_Mismatch Open_Item], s))
       else if collected \<and> t_status t \<notin> set CREDITED
       then (if t_status t \<in> set OPEN_STATUSES
             then then_do (swallow (settle rg cfg now p)) (\<lambda>_.
               then_do (reading (get_transaction (p_transaction p))) (\<lambda>t' s.
                 if t_status t' \<in> set CREDITED then (Inr [payment_item p r t' Late_Settlement Auto_Resolved], s)
                 else (Inr [payment_item p r t' Not_Credited Open_Item], s)))
             else (\<lambda>s. (Inr [payment_item p r t Not_Credited Open_Item], s)))
       else if \<not> collected \<and> t_status t \<in> set CREDITED
       then (\<lambda>s. (Inr [payment_item p r t Credited_Without_Payment Open_Item], s))
       else (\<lambda>s. (Inr [], s)))"

text \<open>The payment of a record: in the period, else looked up. Of two with one reference the later wins.\<close>

definition payment_of_record :: "string \<Rightarrow> payment list \<Rightarrow> payment_record \<Rightarrow> db \<Rightarrow> payment option" where
  "payment_of_record provider ours r s =
     (case find (\<lambda>p. truthy (p_provider_reference p) \<noteq> None \<and> p_provider_reference p = Some (pm_provider_reference r)) (rev ours) of
        Some p \<Rightarrow> Some p
      | None \<Rightarrow> payment_by_provider_reference provider (pm_provider_reference r) s)"

definition missing_payment :: "payment_record \<Rightarrow> found_item" where
  "missing_payment r =
     \<lparr>fi_kind = Payment_Item, fi_issue = Missing_In_Finstack, fi_reference = pm_provider_reference r, fi_target = None,
      fi_finstack = None, fi_provider = Some (payment_record_view r), fi_status = Open_Item\<rparr>"

definition check_record :: "registry \<Rightarrow> fx_config \<Rightarrow> int \<Rightarrow> string \<Rightarrow> payment list \<Rightarrow> payment_record \<Rightarrow> found_item list run" where
  "check_record rg cfg now provider ours r =
     then_do (reading (\<lambda>s. Inr (payment_of_record provider ours r s))) (\<lambda>m.
       case m of
         Some p \<Rightarrow> compare_payment rg cfg now p r
       | None \<Rightarrow> (\<lambda>s. (Inr (if pm_status r \<in> set COLLECTED then [missing_payment r] else []), s)))"

text \<open>A payment the list of the provider does not show: it is asked about.\<close>

fun status_of_record :: "provider_status \<Rightarrow> record_status" where
  "status_of_record Provider_Pending = Record_Pending"
| "status_of_record Provider_Successful = Record_Successful"
| "status_of_record Provider_Failed = Record_Failed"

definition unlisted_payment :: "payment \<Rightarrow> txn \<Rightarrow> found_item" where
  "unlisted_payment p t =
     \<lparr>fi_kind = Payment_Item, fi_issue = Credited_Without_Payment, fi_reference = t_reference t, fi_target = Some (p_id p),
      fi_finstack = Some (recon_payment_view p t), fi_provider = None, fi_status = Open_Item\<rparr>"

definition check_unlisted :: "registry \<Rightarrow> fx_config \<Rightarrow> int \<Rightarrow> string \<Rightarrow> string list \<Rightarrow> payment \<Rightarrow> found_item list run" where
  "check_unlisted rg cfg now provider seen p =
     (case truthy (p_provider_reference p) of
        None \<Rightarrow> (\<lambda>s. (Inr [], s))
      | Some ref \<Rightarrow>
          if ref \<in> set seen then (\<lambda>s. (Inr [], s))
          else then_do (reading (get_transaction (p_transaction p))) (\<lambda>t.
            if t_status t \<notin> set CREDITED then (\<lambda>s. (Inr [], s))
            else then_do (reading (\<lambda>_. get_provider rg provider)) (\<lambda>prov.
              case pv_verify prov (t_reference t) ref of
                Inr v \<Rightarrow> compare_payment rg cfg now p
                  \<lparr>pm_provider_reference = ref, pm_reference = None, pm_status = status_of_record (vf_status v),
                   pm_amount = vf_amount v, pm_currency = vf_currency v, pm_created_at = p_created_at p\<rparr>
              | Inl f \<Rightarrow> if rejection f = None then (\<lambda>s. (answered (Inl f), s))
                         else (\<lambda>s. (Inr [unlisted_payment p t], s)))))"

fun collect :: "('a \<Rightarrow> found_item list run) \<Rightarrow> 'a list \<Rightarrow> found_item list run" where
  "collect f [] = (\<lambda>s. (Inr [], s))"
| "collect f (x # xs) = then_do (f x) (\<lambda>found. then_do (collect f xs) (\<lambda>rest s. (Inr (found @ rest), s)))"

definition reconcile_payments :: "registry \<Rightarrow> fx_config \<Rightarrow> int \<Rightarrow> string \<Rightarrow> recon_capability \<Rightarrow> int \<Rightarrow> int \<Rightarrow> (nat \<times> found_item list) run" where
  "reconcile_payments rg cfg now provider cap t0 t1 =
     then_do (reading (\<lambda>_. answered (rc_list_payments cap t0 t1))) (\<lambda>theirs.
     then_do (reading (\<lambda>s. Inr (payments_for_provider provider t0 t1 s))) (\<lambda>ours.
     then_do (collect (check_record rg cfg now provider ours) theirs) (\<lambda>found.
     then_do (collect (check_unlisted rg cfg now provider (map pm_provider_reference theirs)) ours) (\<lambda>rest s.
       (Inr (length theirs, found @ rest), s)))))"

section \<open>Payouts\<close>

definition payout_item :: "payout \<Rightarrow> payout_record option \<Rightarrow> txn \<Rightarrow> issue \<Rightarrow> item_status \<Rightarrow> found_item" where
  "payout_item p r t i st =
     \<lparr>fi_kind = Payout_Item, fi_issue = i, fi_reference = po_reference p, fi_target = Some (po_id p),
      fi_finstack = Some [(''status'', JStr (txn_status_str (t_status t))), (''amount'', j_amount (po_amount p)), (''currency'', JStr (po_currency p))],
      fi_provider = map_option payout_record_view r, fi_status = st\<rparr>"

definition record_of_answer :: "payout \<Rightarrow> payout_answer \<Rightarrow> payout_record" where
  "record_of_answer p a =
     \<lparr>pt_reference = po_reference p, pt_provider_reference = pa_provider_reference a, pt_status = pa_status a,
      pt_amount = po_amount p, pt_currency = po_currency p, pt_created_at = po_created_at p\<rparr>"

definition compare_payout_record :: "registry \<Rightarrow> int \<Rightarrow> payout \<Rightarrow> payout_record \<Rightarrow> found_item list run" where
  "compare_payout_record rg now p r =
     then_do (reading (get_transaction (po_transaction p))) (\<lambda>t.
       if pt_amount r \<noteq> po_amount p \<or> pt_currency r \<noteq> po_currency p
       then (\<lambda>s. (Inr [payout_item p (Some r) t Record_Amount_Mismatch Open_Item], s))
       else if payout_agrees (t_status t) = Some (pt_status r) then (\<lambda>s. (Inr [], s))
       else then_do (swallow (sync_payout rg now (po_id p))) (\<lambda>_.
         then_do (reading (get_transaction (po_transaction p))) (\<lambda>t' s.
           if payout_agrees (t_status t') = Some (pt_status r) then (Inr [payout_item p (Some r) t' Late_Settlement Auto_Resolved], s)
           else (Inr [payout_item p (Some r) t' Status_Mismatch Open_Item], s))))"

text \<open>The provider has no record of a payout that was sent.\<close>

definition compare_payout_missing :: "registry \<Rightarrow> int \<Rightarrow> payout \<Rightarrow> found_item list run" where
  "compare_payout_missing rg now p =
     then_do (reading (get_transaction (po_transaction p))) (\<lambda>t.
       if t_status t = Failed then (\<lambda>s. (Inr [], s))
       else if t_status t = Processing
       then then_do (swallow (sync_payout rg now (po_id p))) (\<lambda>_.
         then_do (reading (\<lambda>_. payouts_of rg (po_provider p))) (\<lambda>cap.
         then_do (reading (\<lambda>_. answered (pc_find cap (po_reference p) None))) (\<lambda>result.
           case result of
             Some a \<Rightarrow> compare_payout_record rg now p (record_of_answer p a)
           | None \<Rightarrow> (\<lambda>s. (Inr [payout_item p None t Status_Mismatch Open_Item], s)))))
       else (\<lambda>s. (Inr [payout_item p None t Status_Mismatch Open_Item], s)))"

definition missing_payout :: "payout_record \<Rightarrow> found_item" where
  "missing_payout r =
     \<lparr>fi_kind = Payout_Item, fi_issue = Missing_In_Finstack, fi_reference = pt_reference r, fi_target = None,
      fi_finstack = None, fi_provider = Some (payout_record_view r), fi_status = Open_Item\<rparr>"

definition check_payout_record :: "registry \<Rightarrow> int \<Rightarrow> string \<Rightarrow> payout list \<Rightarrow> payout_record \<Rightarrow> found_item list run" where
  "check_payout_record rg now provider ours r =
     then_do (reading (\<lambda>s. Inr (case find (\<lambda>p. po_reference p = pt_reference r) (rev ours) of
         Some p \<Rightarrow> Some p | None \<Rightarrow> payout_by_reference provider (pt_reference r) s))) (\<lambda>m.
       case m of
         Some p \<Rightarrow> compare_payout_record rg now p r
       | None \<Rightarrow> (\<lambda>s. (Inr (if pt_status r \<noteq> Payout_Failed then [missing_payout r] else []), s)))"

definition check_unlisted_payout :: "registry \<Rightarrow> int \<Rightarrow> payout_capability \<Rightarrow> string list \<Rightarrow> payout \<Rightarrow> found_item list run" where
  "check_unlisted_payout rg now cap seen p =
     (if po_reference p \<in> set seen \<or> po_submitted_at p = None then (\<lambda>s. (Inr [], s))
      else then_do (reading (\<lambda>_. answered (pc_find cap (po_reference p) None))) (\<lambda>result.
        case result of
          Some a \<Rightarrow> compare_payout_record rg now p (record_of_answer p a)
        | None \<Rightarrow> compare_payout_missing rg now p))"

definition reconcile_payouts :: "registry \<Rightarrow> int \<Rightarrow> string \<Rightarrow> recon_capability \<Rightarrow> int \<Rightarrow> int \<Rightarrow> (nat \<times> found_item list) run" where
  "reconcile_payouts rg now provider cap t0 t1 =
     then_do (reading (\<lambda>_. case rc_list_payouts cap of None \<Rightarrow> Inr [] | Some f \<Rightarrow> answered (f t0 t1))) (\<lambda>theirs.
     then_do (reading (\<lambda>s. Inr (payouts_for_provider provider t0 t1 s))) (\<lambda>ours.
     then_do (collect (check_payout_record rg now provider ours) theirs) (\<lambda>found.
     then_do (reading (\<lambda>_. payouts_of rg provider)) (\<lambda>pc.
     then_do (collect (check_unlisted_payout rg now pc (map pt_reference theirs)) ours) (\<lambda>rest s.
       (Inr (length theirs, found @ rest), s))))))"

section \<open>The ledger\<close>

definition discrepancy_item :: "balance_discrepancy \<Rightarrow> found_item" where
  "discrepancy_item d =
     \<lparr>fi_kind = Ledger_Item, fi_issue = Balance_Discrepancy, fi_reference = uuid_str (bd_account d), fi_target = Some (bd_account d),
      fi_finstack = Some [(''cached'', j_amount (bd_cached d)), (''computed'', j_amount (bd_computed d))],
      fi_provider = None, fi_status = Open_Item\<rparr>"

definition trial_item :: "string \<Rightarrow> int \<times> int \<Rightarrow> found_item" where
  "trial_item c b =
     \<lparr>fi_kind = Ledger_Item, fi_issue = Trial_Balance_Mismatch, fi_reference = c, fi_target = None,
      fi_finstack = Some [(''currency'', JStr c), (''debit'', j_amount (fst b)), (''credit'', j_amount (snd b))],
      fi_provider = None, fi_status = Open_Item\<rparr>"

definition check_ledger :: "db \<Rightarrow> found_item list" where
  "check_ledger s =
     map discrepancy_item (find_balance_discrepancies (ledger s)) @
     map (\<lambda>c. trial_item c (trial_balance c (ledger s)))
       (filter (\<lambda>c. fst (trial_balance c (ledger s)) \<noteq> snd (trial_balance c (ledger s))) (ledger_currencies (ledger s)))"

section \<open>Runs\<close>

definition no_summary :: run_summary where
  "no_summary = \<lparr>rs_payments_checked = None, rs_payouts_checked = None, rs_issues = None, rs_auto_resolved = None, rs_by_issue = []\<rparr>"

definition reconcilable_providers :: "registry \<Rightarrow> (string \<Rightarrow> recon_capability option) \<Rightarrow> string list" where
  "reconcilable_providers rg caps = filter (\<lambda>n. caps n \<noteq> None) (enabled_names rg)"

definition run_taken :: "recon_run \<Rightarrow> recon_run \<Rightarrow> bool" where
  "run_taken r x \<longleftrightarrow> rn_trigger r = Trigger_Schedule \<and> rn_trigger x = Trigger_Schedule \<and> rn_provider x = rn_provider r \<and> rn_from x = rn_from r"

definition create_run :: "registry \<Rightarrow> (string \<Rightarrow> recon_capability option) \<Rightarrow> int \<Rightarrow> string option \<Rightarrow> int \<Rightarrow> int \<Rightarrow> run_trigger \<Rightarrow> uuid option \<Rightarrow> recon_db \<Rightarrow>
    recon_error + recon_run option \<times> recon_db" where
  "create_run rg caps now provider t0 t1 trigger user d =
     bind_res (case truthy provider of
         None \<Rightarrow> Inr ()
       | Some n \<Rightarrow> (case get_provider rg n of
           Inl e \<Rightarrow> Inl (Service_Err e)
         | Inr p \<Rightarrow> require (caps n \<noteq> None) (Provider_Cannot_Reconcile n))) (\<lambda>_.
       let r = \<lparr>rn_id = rd_next_id d, rn_provider = provider, rn_from = t0, rn_to = t1, rn_status = Run_Running, rn_trigger = trigger,
                rn_requested_by = user, rn_summary = no_summary, rn_error = None, rn_finished_at = None, rn_created_at = now\<rparr> in
       if t1 \<le> t0 then Inl (Service_Err (Db_Err (Check_Violation ''chk_reconciliation_runs_period'')))
       else if list_ex (run_taken r) (rd_runs d) then Inr (None, d)
       else Inr (Some r, d\<lparr>rd_runs := rd_runs d @ [r], rd_next_id := Suc (rd_next_id d)\<rparr>))"

definition get_run :: "uuid \<Rightarrow> recon_db \<Rightarrow> recon_error + recon_run" where
  "get_run i d = the_or (row_by rn_id i (rd_runs d)) Run_Not_Found"

text \<open>What a run finds; an exception of the provider fails the run, what was settled before stays.\<close>

definition run_provider :: "registry \<Rightarrow> fx_config \<Rightarrow> (string \<Rightarrow> recon_capability option) \<Rightarrow> int \<Rightarrow> string \<Rightarrow> int \<Rightarrow> int \<Rightarrow> db \<Rightarrow>
    (recon_error + nat \<times> nat option \<times> found_item list) \<times> db" where
  "run_provider rg cfg caps now provider t0 t1 s =
     (case get_provider rg provider of
        Inl e \<Rightarrow> (Inl (Service_Err e), s)
      | Inr prov \<Rightarrow> (case caps provider of
          None \<Rightarrow> (Inl (Provider_Cannot_Reconcile provider), s)
        | Some cap \<Rightarrow> (case reconcile_payments rg cfg now provider cap t0 t1 s of
            (Inl e, s1) \<Rightarrow> (Inl (Service_Err e), s1)
          | (Inr (n, found), s1) \<Rightarrow>
              if rc_list_payouts cap = None \<or> pv_payouts prov = None then (Inr (n, None, found), s1)
              else (case reconcile_payouts rg now provider cap t0 t1 s1 of
                      (Inl e, s2) \<Rightarrow> (Inl (Service_Err e), s2)
                    | (Inr (m, rest), s2) \<Rightarrow> (Inr (n, Some m, found @ rest), s2)))))"

definition count_issue :: "issue \<Rightarrow> (issue \<times> nat) list \<Rightarrow> (issue \<times> nat) list" where
  "count_issue i c =
     (if i \<in> fst ` set c then map (\<lambda>(j, n). if j = i then (j, Suc n) else (j, n)) c else c @ [(i, 1)])"

definition auto_resolved :: "found_item list \<Rightarrow> nat" where
  "auto_resolved found = length (filter (\<lambda>f. fi_status f = Auto_Resolved) found)"

definition summary_of :: "nat option \<Rightarrow> nat option \<Rightarrow> found_item list \<Rightarrow> run_summary" where
  "summary_of n m found =
     \<lparr>rs_payments_checked = n, rs_payouts_checked = m, rs_issues = Some (length found - auto_resolved found),
      rs_auto_resolved = Some (auto_resolved found), rs_by_issue = fold (\<lambda>f. count_issue (fi_issue f)) found []\<rparr>"

fun number_items :: "uuid \<Rightarrow> uuid \<Rightarrow> int \<Rightarrow> found_item list \<Rightarrow> recon_item list" where
  "number_items i run now [] = []"
| "number_items i run now (f # fs) =
     \<lparr>it_id = i, it_run = run, it_found = f, it_note = None, it_resolved_by = None,
      it_resolved_at = (if fi_status f = Auto_Resolved then Some now else None), it_created_at = now\<rparr> # number_items (Suc i) run now fs"

fun issue_str :: "issue \<Rightarrow> string" where
  "issue_str Missing_In_Finstack = ''missing_in_finstack''"
| "issue_str Not_Credited = ''not_credited''"
| "issue_str Credited_Without_Payment = ''credited_without_payment''"
| "issue_str Record_Amount_Mismatch = ''amount_mismatch''"
| "issue_str Status_Mismatch = ''status_mismatch''"
| "issue_str Late_Settlement = ''late_settlement''"
| "issue_str Balance_Discrepancy = ''balance_discrepancy''"
| "issue_str Trial_Balance_Mismatch = ''trial_balance_mismatch''"

definition recon_event :: "recon_run \<Rightarrow> run_summary \<Rightarrow> json_object" where
  "recon_event r sm =
     [(''runId'', j_id (rn_id r)), (''provider'', j_opt JStr (rn_provider r)), (''periodStart'', j_timestamp (rn_from r)),
      (''periodEnd'', j_timestamp (rn_to r)), (''openIssues'', j_opt (\<lambda>n. JNum (int n)) (rs_issues sm)),
      (''byIssue'', JObj (map (\<lambda>(i, n). (issue_str i, JNum (int n))) (rs_by_issue sm)))]"

definition finish_run :: "int \<Rightarrow> recon_run \<Rightarrow> run_summary \<Rightarrow> found_item list \<Rightarrow> recon_db \<Rightarrow> recon_db" where
  "finish_run now r sm found d =
     d\<lparr>rd_items := rd_items d @ number_items (rd_next_id d) (rn_id r) now found,
       rd_next_id := rd_next_id d + length found,
       rd_runs := set_row rn_id (rn_id r) (\<lambda>x. x\<lparr>rn_status := Run_Completed, rn_summary := sm, rn_finished_at := Some now\<rparr>) (rd_runs d),
       rd_db := add_event now ''reconciliation.completed'' ''reconciliation_run'' (rn_id r) (recon_event r sm) (rd_db d)\<rparr>"

definition fail_run :: "int \<Rightarrow> uuid \<Rightarrow> string \<Rightarrow> recon_db \<Rightarrow> recon_db" where
  "fail_run now i message d =
     d\<lparr>rd_runs := set_row rn_id i (\<lambda>x. x\<lparr>rn_status := Run_Failed, rn_error := Some (take 1000 message), rn_finished_at := Some now\<rparr>) (rd_runs d)\<rparr>"

definition execute_run :: "registry \<Rightarrow> fx_config \<Rightarrow> (string \<Rightarrow> recon_capability option) \<Rightarrow> (recon_error \<Rightarrow> string) \<Rightarrow> int \<Rightarrow> uuid \<Rightarrow> recon_db \<Rightarrow>
    recon_error + recon_run \<times> recon_db" where
  "execute_run rg cfg caps text now i d =
     bind_res (get_run i d) (\<lambda>r.
       if rn_status r \<noteq> Run_Running then Inr (r, d)
       else
         let d' = (case truthy (rn_provider r) of
             Some name \<Rightarrow> (case run_provider rg cfg caps now name (rn_from r) (rn_to r) (rd_db d) of
                 (Inl e, s) \<Rightarrow> fail_run now i (text e) (d\<lparr>rd_db := s\<rparr>)
               | (Inr (n, m, found), s) \<Rightarrow>
                   finish_run now r (summary_of (Some n) m found) found (d\<lparr>rd_db := s\<rparr>))
           | None \<Rightarrow> (let found = check_ledger (rd_db d) in finish_run now r (summary_of None None found) found d)) in
         bind_res (get_run i d') (\<lambda>r'. Inr (r', d')))"

definition DAY :: int where
  "DAY = 86400000"

text \<open>The daily job: midnight UTC to midnight UTC of the previous day, the ledger first.\<close>

fun run_each :: "registry \<Rightarrow> fx_config \<Rightarrow> (string \<Rightarrow> recon_capability option) \<Rightarrow> (recon_error \<Rightarrow> string) \<Rightarrow> int \<Rightarrow> int \<Rightarrow> int \<Rightarrow> string option list \<Rightarrow> recon_db \<Rightarrow>
    recon_error + recon_run list \<times> recon_db" where
  "run_each rg cfg caps text now t0 t1 [] d = Inr ([], d)"
| "run_each rg cfg caps text now t0 t1 (p # ps) d =
     bind_res (create_run rg caps now p t0 t1 Trigger_Schedule None d) (\<lambda>(r, d1).
     bind_res (case r of None \<Rightarrow> Inr ([], d1)
         | Some x \<Rightarrow> bind_res (execute_run rg cfg caps text now (rn_id x) d1) (\<lambda>(y, d2). Inr ([y], d2))) (\<lambda>(done1, d2).
     bind_res (run_each rg cfg caps text now t0 t1 ps d2) (\<lambda>(done2, d3). Inr (done1 @ done2, d3))))"

definition run_scheduled :: "registry \<Rightarrow> fx_config \<Rightarrow> (string \<Rightarrow> recon_capability option) \<Rightarrow> (recon_error \<Rightarrow> string) \<Rightarrow> int \<Rightarrow> recon_db \<Rightarrow>
    recon_error + recon_run list \<times> recon_db" where
  "run_scheduled rg cfg caps text now d =
     (let t1 = now div DAY * DAY in
      run_each rg cfg caps text now (t1 - DAY) t1 (None # map Some (reconcilable_providers rg caps)) d)"

text \<open>The request of an administrator.\<close>

definition MAX_PERIOD_MS :: int where
  "MAX_PERIOD_MS = 31 * 86400000"

definition start_run :: "registry \<Rightarrow> (string \<Rightarrow> recon_capability option) \<Rightarrow> int \<Rightarrow> uuid \<Rightarrow> string option \<Rightarrow> int \<Rightarrow> int \<Rightarrow> recon_db \<Rightarrow>
    recon_error + recon_run option \<times> recon_db" where
  "start_run rg caps now admin provider t0 t1 d =
     (if t1 - t0 \<le> 0 \<or> t1 - t0 > MAX_PERIOD_MS then Inl (Invalid_Period ''`to` must be after `from`, by at most 31 days'')
      else if t1 > now then Inl (Invalid_Period ''The period cannot end in the future'')
      else create_run rg caps now provider t0 t1 Trigger_Manual (Some admin) d)"

definition list_runs :: "nat \<Rightarrow> recon_db \<Rightarrow> recon_run list" where
  "list_runs limit d = take limit (rev (sort_key rn_created_at (rd_runs d)))"

section \<open>Items\<close>

definition list_items :: "item_status option \<Rightarrow> uuid option \<Rightarrow> nat \<Rightarrow> cursor option \<Rightarrow> recon_db \<Rightarrow> recon_item list \<times> cursor option" where
  "list_items st run limit before d =
     keyset_page (\<lambda>i. (it_created_at i, it_id i)) limit before
       (filter (\<lambda>i. (case st of None \<Rightarrow> True | Some x \<Rightarrow> fi_status (it_found i) = x) \<and>
                    (case run of None \<Rightarrow> True | Some x \<Rightarrow> it_run i = x)) (rd_items d))"

definition count_open_items :: "recon_db \<Rightarrow> nat" where
  "count_open_items d = length (filter (\<lambda>i. fi_status (it_found i) = Open_Item) (rd_items d))"

definition resolve_item :: "request_context \<Rightarrow> int \<Rightarrow> uuid \<Rightarrow> uuid \<Rightarrow> string \<Rightarrow> recon_db \<Rightarrow> recon_error + recon_item \<times> recon_db" where
  "resolve_item ctx now i user note d =
     bind_res (the_or (row_by it_id i (rd_items d)) Item_Not_Found) (\<lambda>x.
       if fi_status (it_found x) \<noteq> Open_Item then Inl Item_Not_Open
       else
         let d' = d\<lparr>rd_items := set_row it_id i (\<lambda>x. x\<lparr>it_found := (it_found x)\<lparr>fi_status := Resolved_Item\<rparr>, it_note := Some note,
                        it_resolved_by := Some user, it_resolved_at := Some now\<rparr>) (rd_items d),
                    rd_db := record_audit ctx now ''reconciliation.item_resolved'' ''reconciliation_item'' i None
                      [(''issue'', JStr (issue_str (fi_issue (it_found x)))), (''reference'', JStr (fi_reference (it_found x))),
                       (''note'', JStr note)] (rd_db d)\<rparr> in
         bind_res (the_or (row_by it_id i (rd_items d')) (Service_Err (Db_Err Entity_Not_Found))) (\<lambda>y. Inr (y, d')))"

section \<open>Nothing goes unreported\<close>

definition payment_agrees :: "payment \<Rightarrow> payment_record \<Rightarrow> db \<Rightarrow> bool" where
  "payment_agrees p r s \<longleftrightarrow> (\<exists>t. get_transaction (p_transaction p) s = Inr t \<and>
     (t_status t \<in> set CREDITED \<longleftrightarrow> pm_status r \<in> set COLLECTED) \<and>
     (pm_status r \<in> set COLLECTED \<longrightarrow> pm_amount r = p_amount p \<and> pm_currency r = p_currency p))"

definition payout_record_agrees :: "payout \<Rightarrow> payout_record \<Rightarrow> db \<Rightarrow> bool" where
  "payout_record_agrees p r s \<longleftrightarrow> (\<exists>t. get_transaction (po_transaction p) s = Inr t \<and>
     payout_agrees (t_status t) = Some (pt_status r) \<and> pt_amount r = po_amount p \<and> pt_currency r = po_currency p)"

lemma swallow_Inr: "swallow m s = (Inr u, s') \<longleftrightarrow> s' = snd (m s)"
  by (auto simp: swallow_def)

lemma item_status_simps [simp]:
  "fi_status (payment_item p r t i st) = st" "fi_status (payout_item q w t i st) = st"
  "fi_issue (payment_item p r t i st) = i" "fi_issue (payout_item q w t i st) = i"
  by (simp_all add: payment_item_def payout_item_def)

lemma item_eq: "payout_item p r t i st = payout_item p r t j st' \<longleftrightarrow> i = j \<and> st = st'"
  by (auto simp: payout_item_def)

lemma compare_payment_exact:
  assumes "compare_payment rg cfg now p r s = (Inr items, s')"
  shows "(\<forall>f \<in> set items. fi_status f \<noteq> Open_Item) \<longleftrightarrow> payment_agrees p r s'"
proof -
  obtain t where t: "get_transaction (p_transaction p) s = Inr t"
    using assms by (auto simp: compare_payment_def run_simps)
  show ?thesis
  proof (cases "pm_status r \<in> set COLLECTED \<and> pm_amount r = p_amount p \<and> pm_currency r = p_currency p \<and>
      t_status t \<notin> set CREDITED \<and> t_status t \<in> set OPEN_STATUSES")
    case True
    from assms obtain t' where "get_transaction (p_transaction p) s' = Inr t'"
      "items = [if t_status t' \<in> set CREDITED then payment_item p r t' Late_Settlement Auto_Resolved else payment_item p r t' Not_Credited Open_Item]"
      using True t by (auto simp: compare_payment_def run_simps swallow_Inr Let_def split: if_splits)
    then show ?thesis using True by (auto simp: payment_agrees_def)
  next
    case False
    then show ?thesis using assms t by (auto simp: compare_payment_def run_simps Let_def payment_agrees_def split: if_splits)
  qed
qed

lemma compare_payout_exact:
  assumes "compare_payout_record rg now p r s = (Inr items, s')"
  shows "(\<forall>f \<in> set items. fi_status f \<noteq> Open_Item) \<longleftrightarrow> payout_record_agrees p r s'"
proof -
  obtain t where t: "get_transaction (po_transaction p) s = Inr t"
    using assms by (auto simp: compare_payout_record_def run_simps)
  show ?thesis
    using assms t by (auto simp: compare_payout_record_def run_simps swallow_Inr Let_def payout_record_agrees_def item_eq split: if_splits)
qed

text \<open>
  C9. A comparison reports exactly what differs: it leaves no open item if and only if payment
  and record agree afterwards (collected there and credited here, with the same amount), and for
  payouts if status, amount and currency do; what it settled itself on the way is marked so.
\<close>

theorem differences_are_reported:
  assumes "compare_payment rg cfg now p r s = (Inr items, s')" and "compare_payout_record rg now q w u = (Inr items', u')"
  shows "((\<forall>f \<in> set items. fi_status f \<noteq> Open_Item) \<longleftrightarrow> payment_agrees p r s') \<and>
    ((\<forall>f \<in> set items'. fi_status f \<noteq> Open_Item) \<longleftrightarrow> payout_record_agrees q w u')"
  using compare_payment_exact [OF assms(1)] compare_payout_exact [OF assms(2)] by blast

section \<open>A comparison\<close>

text \<open>A credited payment and a processing payout, compared with records that disagree.\<close>

definition demo_row :: "uuid \<Rightarrow> txn_type \<Rightarrow> txn_status \<Rightarrow> txn" where
  "demo_row i ty st = (txn_of ''x'' 1 (plain_transaction ty st 300 ''NGN'' (Some 7, None)) i)\<lparr>t_status := st\<rparr>"

definition demo_compared :: db where
  "demo_compared = empty_db\<lparr>transactions := [demo_row 1 Ty_Payment Successful, demo_row 2 Ty_Withdrawal Processing]\<rparr>"

definition demo_paid :: payment where
  "demo_paid = \<lparr>p_id = 3, p_transaction = 1, p_user_id = Some 7, p_organization_id = None, p_customer_email = ''e'', p_wallet = 0,
     p_provider = ''mock'', p_provider_reference = Some ''m1'', p_authorization_url = None, p_amount = 300, p_currency = ''NGN'',
     p_fx_quote = None, p_pending_amount = 0, p_funds_available_at = None, p_created_at = 1\<rparr>"

definition demo_sent_payout :: payout where
  "demo_sent_payout = \<lparr>po_id = 4, po_reference = ''pyt_1'', po_transaction = 2, po_user_id = Some 7, po_organization_id = None, po_wallet = 0,
     po_destination = 0, po_provider = ''mock'', po_amount = 300, po_currency = ''NGN'', po_narration = None, po_provider_reference = None,
     po_submitted_at = Some 1, po_created_at = 1\<rparr>"

definition demo_payment_record :: payment_record where
  "demo_payment_record = \<lparr>pm_provider_reference = ''m1'', pm_reference = None, pm_status = Record_Failed, pm_amount = 300,
     pm_currency = ''NGN'', pm_created_at = 1\<rparr>"

definition demo_payout_record :: payout_record where
  "demo_payout_record = \<lparr>pt_reference = ''pyt_1'', pt_provider_reference = ''q'', pt_status = Payout_Pending, pt_amount = 300,
     pt_currency = ''NGN'', pt_created_at = 1\<rparr>"

theorem differences_are_reported_witness:
  "\<exists>items. compare_payment demo_registry demo_fx_config 9 demo_paid demo_payment_record demo_compared = (Inr items, demo_compared) \<and>
     (\<exists>f \<in> set items. fi_status f = Open_Item) \<and> payout_record_agrees demo_sent_payout demo_payout_record demo_compared"
proof -
  have t: "get_transaction 1 demo_compared = Inr (demo_row 1 Ty_Payment Successful)"
    "get_transaction 2 demo_compared = Inr (demo_row 2 Ty_Withdrawal Processing)" by code_simp+
  have st: "t_status (demo_row 1 Ty_Payment Successful) = Successful" "t_status (demo_row 2 Ty_Withdrawal Processing) = Processing"
    by (simp_all add: demo_row_def)
  let ?i = "payment_item demo_paid demo_payment_record (demo_row 1 Ty_Payment Successful) Credited_Without_Payment Open_Item"
  have a: "compare_payment demo_registry demo_fx_config 9 demo_paid demo_payment_record demo_compared = (Inr [?i], demo_compared)"
    using t(1) st(1) by (simp add: compare_payment_def then_do_def reading_def demo_paid_def demo_payment_record_def COLLECTED_def CREDITED_def)
  have b: "compare_payout_record demo_registry 9 demo_sent_payout demo_payout_record demo_compared = (Inr [], demo_compared)"
    using t(2) st(2) by (simp add: compare_payout_record_def then_do_def reading_def demo_sent_payout_def demo_payout_record_def)
  from differences_are_reported [OF a b] have "payout_record_agrees demo_sent_payout demo_payout_record demo_compared" by simp
  then show ?thesis using a by auto
qed

end
