(* ===== verification/Platform.thy ===== *)
theory Platform
  imports Transfers Pagination
begin

text \<open>
  The tables around the money: accounts, organizations and their members, API keys, refresh
  tokens, inbound webhook events and proposals (\<open>src/users\<close>, \<open>src/organizations\<close>,
  \<open>src/api-keys\<close>, \<open>src/auth\<close>, \<open>src/webhooks\<close>, \<open>src/proposals\<close>). The state \<open>platform\<close> holds them
  beside the database \<open>db\<close> of the money modules, from which ids, audit trail and outbox are
  taken. The errors are one datatype per module, as in \<open>App_Errors\<close>. Here are the users
  (\<open>users.service.ts\<close>) and the audit trail's list (\<open>audit.service.ts\<close>).
\<close>

section \<open>Enumerations\<close>

datatype user_role = Role_User | Role_Support | Role_Risk | Role_Finance | Role_Admin

datatype user_status = User_Active | User_Suspended

datatype org_status = Org_Active | Org_Suspended

datatype org_role = Org_Owner | Org_Admin | Org_Member | Org_Viewer

datatype org_permission =
    Read_Organization | Manage_Organization | Manage_Members | Read_Wallets | Manage_Wallets | Create_Payments
  | Read_Transactions | Manage_Api_Keys | Read_Audit_Logs | Create_Payouts | Manage_Payout_Destinations
  | Manage_Webhooks | Propose_Actions | Decide_Proposals

datatype platform_permission =
    Read_Overview | Read_Users | Manage_Users | Read_Organizations | Manage_Organizations | Platform_Read_Wallets
  | Platform_Manage_Wallets | Platform_Read_Audit_Logs | Read_Payments | Read_Refunds | Read_Payouts | Manage_Payouts
  | Manage_Refunds | Manage_Payments | Manage_Reconciliation | Manage_Provider_Webhooks | Manage_Fx_Rates
  | Manage_Fees | Manage_Limits | Manage_Roles

fun user_role_str :: "user_role \<Rightarrow> string" where
  "user_role_str Role_User = ''user''"
| "user_role_str Role_Support = ''support''"
| "user_role_str Role_Risk = ''risk''"
| "user_role_str Role_Finance = ''finance''"
| "user_role_str Role_Admin = ''admin''"

fun user_status_str :: "user_status \<Rightarrow> string" where
  "user_status_str User_Active = ''active''"
| "user_status_str User_Suspended = ''suspended''"

fun org_role_str :: "org_role \<Rightarrow> string" where
  "org_role_str Org_Owner = ''owner''"
| "org_role_str Org_Admin = ''admin''"
| "org_role_str Org_Member = ''member''"
| "org_role_str Org_Viewer = ''viewer''"

fun org_status_str :: "org_status \<Rightarrow> string" where
  "org_status_str Org_Active = ''active''"
| "org_status_str Org_Suspended = ''suspended''"

fun org_permission_str :: "org_permission \<Rightarrow> string" where
  "org_permission_str Read_Organization = ''organization:read''"
| "org_permission_str Manage_Organization = ''organization:manage''"
| "org_permission_str Manage_Members = ''members:manage''"
| "org_permission_str Read_Wallets = ''wallets:read''"
| "org_permission_str Manage_Wallets = ''wallets:manage''"
| "org_permission_str Create_Payments = ''payments:create''"
| "org_permission_str Read_Transactions = ''transactions:read''"
| "org_permission_str Manage_Api_Keys = ''api_keys:manage''"
| "org_permission_str Read_Audit_Logs = ''audit_logs:read''"
| "org_permission_str Create_Payouts = ''payouts:create''"
| "org_permission_str Manage_Payout_Destinations = ''payout_destinations:manage''"
| "org_permission_str Manage_Webhooks = ''webhooks:manage''"
| "org_permission_str Propose_Actions = ''proposals:create''"
| "org_permission_str Decide_Proposals = ''proposals:decide''"

section \<open>Rows\<close>

text \<open>The columns of a user that the money modules never read, with a copy of the email.\<close>

record account =
  ac_id :: uuid
  ac_email :: string
  ac_password_hash :: string
  ac_first_name :: string
  ac_last_name :: string
  ac_role :: user_role
  ac_status :: user_status
  ac_created_at :: int

record organization =
  og_id :: uuid
  og_name :: string
  og_status :: org_status
  og_created_at :: int

record membership =
  mb_id :: uuid
  mb_org :: uuid
  mb_user :: uuid
  mb_role :: org_role
  mb_created_at :: int

record api_key =
  ak_id :: uuid
  ak_org :: uuid
  ak_name :: string
  ak_prefix :: string
  ak_hash :: string
  ak_scopes :: "org_permission list"
  ak_created_by :: "uuid option"
  ak_last_used_at :: "int option"
  ak_expires_at :: "int option"
  ak_revoked_at :: "int option"
  ak_created_at :: int

record refresh_token =
  rt_id :: uuid
  rt_user :: uuid
  rt_family :: uuid
  rt_hash :: string
  rt_expires_at :: int
  rt_revoked_at :: "int option"
  rt_replaced_by :: "uuid option"
  rt_created_at :: int

datatype webhook_status = Webhook_Received | Webhook_Processed | Webhook_Failed | Webhook_Ignored

record webhook_event =
  wh_id :: uuid
  wh_provider :: string
  wh_event_id :: string
  wh_type :: string
  wh_provider_type :: string
  wh_provider_reference :: "string option"
  wh_payload :: json
  wh_status :: webhook_status
  wh_outcome :: "string option"
  wh_attempts :: nat
  wh_last_error :: "string option"
  wh_received_at :: int
  wh_processed_at :: "int option"

datatype proposal_status = Proposal_Pending | Proposal_Rejected | Proposal_Executed | Proposal_Failed | Proposal_Lapsed

record payout_params =
  pr_destination :: uuid
  pr_amount :: int
  pr_wallet :: "uuid option"
  pr_narration :: "string option"

record proposal =
  ap_id :: uuid
  ap_org :: uuid
  ap_params :: payout_params
  ap_summary :: string
  ap_reasoning :: string
  ap_evidence :: "json option"
  ap_status :: proposal_status
  ap_by_api_key :: "uuid option"
  ap_by_user :: "uuid option"
  ap_decided_by :: "uuid option"
  ap_decided_at :: "int option"
  ap_note :: "string option"
  ap_result :: "(uuid \<times> string) option"
  ap_failure :: "string option"
  ap_expires_at :: int
  ap_created_at :: int

record platform =
  pf_db :: db
  pf_accounts :: "account list"
  pf_organizations :: "organization list"
  pf_members :: "membership list"
  pf_api_keys :: "api_key list"
  pf_tokens :: "refresh_token list"
  pf_webhooks :: "webhook_event list"
  pf_proposals :: "proposal list"

definition empty_platform :: platform where
  "empty_platform =
     \<lparr>pf_db = empty_db, pf_accounts = [], pf_organizations = [], pf_members = [], pf_api_keys = [], pf_tokens = [],
      pf_webhooks = [], pf_proposals = []\<rparr>"

section \<open>Errors\<close>

datatype user_error = Email_Already_Registered | User_Not_Found

datatype auth_error =
    Invalid_Credentials
  | Account_Suspended
  | Invalid_Refresh_Token
  | Authentication_Required string
  | Insufficient_Role "platform_permission option"

datatype organization_error =
    Organization_Not_Found
  | Organization_Permission_Denied org_permission
  | Organization_Suspended
  | Member_Already_Exists
  | Member_Not_Found
  | Owner_Change_Not_Allowed
  | User_Not_Found_For_Email

datatype api_key_error =
    Invalid_Api_Key
  | Api_Key_Not_Allowed
  | Api_Key_Scope_Missing org_permission
  | Api_Key_Scope_Not_Grantable "org_permission list"
  | Api_Key_Not_Found

datatype admin_error =
    Admin_User_Not_Found
  | Cannot_Suspend_Self
  | Invalid_Status_Change string
  | Cannot_Change_Own_Role
  | Last_Admin

datatype webhook_error =
    Invalid_Webhook_Signature
  | Invalid_Webhook_Payload
  | Webhook_Event_Not_Replayable
  | Webhook_Event_Not_Found

datatype platform_error =
    User_Err user_error
  | Auth_Err auth_error
  | Org_Err organization_error
  | Key_Err api_key_error
  | Admin_Err admin_error
  | Webhook_Err webhook_error
  | App_Err app_error

type_synonym 'a pres = "platform_error + 'a"

fun user_problem :: "user_error \<Rightarrow> problem" where
  "user_problem Email_Already_Registered = (''EMAIL_ALREADY_REGISTERED'', 409)"
| "user_problem User_Not_Found = (''USER_NOT_FOUND'', 404)"

fun auth_problem :: "auth_error \<Rightarrow> problem" where
  "auth_problem Invalid_Credentials = (''INVALID_CREDENTIALS'', 401)"
| "auth_problem Account_Suspended = (''ACCOUNT_SUSPENDED'', 403)"
| "auth_problem Invalid_Refresh_Token = (''INVALID_REFRESH_TOKEN'', 401)"
| "auth_problem (Authentication_Required d) = (''UNAUTHENTICATED'', 401)"
| "auth_problem (Insufficient_Role r) = (''FORBIDDEN'', 403)"

fun organization_problem :: "organization_error \<Rightarrow> problem" where
  "organization_problem Organization_Not_Found = (''ORGANIZATION_NOT_FOUND'', 404)"
| "organization_problem (Organization_Permission_Denied p) = (''ORGANIZATION_PERMISSION_DENIED'', 403)"
| "organization_problem Organization_Suspended = (''ORGANIZATION_SUSPENDED'', 403)"
| "organization_problem Member_Already_Exists = (''MEMBER_ALREADY_EXISTS'', 409)"
| "organization_problem Member_Not_Found = (''MEMBER_NOT_FOUND'', 404)"
| "organization_problem Owner_Change_Not_Allowed = (''OWNER_CHANGE_NOT_ALLOWED'', 422)"
| "organization_problem User_Not_Found_For_Email = (''USER_NOT_FOUND'', 422)"

fun api_key_problem :: "api_key_error \<Rightarrow> problem" where
  "api_key_problem Invalid_Api_Key = (''INVALID_API_KEY'', 401)"
| "api_key_problem Api_Key_Not_Allowed = (''API_KEY_NOT_ALLOWED'', 401)"
| "api_key_problem (Api_Key_Scope_Missing p) = (''API_KEY_SCOPE_MISSING'', 403)"
| "api_key_problem (Api_Key_Scope_Not_Grantable ps) = (''API_KEY_SCOPE_NOT_GRANTABLE'', 422)"
| "api_key_problem Api_Key_Not_Found = (''API_KEY_NOT_FOUND'', 404)"

fun admin_problem :: "admin_error \<Rightarrow> problem" where
  "admin_problem Admin_User_Not_Found = (''USER_NOT_FOUND'', 404)"
| "admin_problem Cannot_Suspend_Self = (''CANNOT_SUSPEND_SELF'', 422)"
| "admin_problem (Invalid_Status_Change d) = (''INVALID_STATUS_CHANGE'', 409)"
| "admin_problem Cannot_Change_Own_Role = (''CANNOT_CHANGE_OWN_ROLE'', 422)"
| "admin_problem Last_Admin = (''LAST_ADMIN'', 409)"

fun webhook_problem :: "webhook_error \<Rightarrow> problem" where
  "webhook_problem Invalid_Webhook_Signature = (''INVALID_WEBHOOK_SIGNATURE'', 401)"
| "webhook_problem Invalid_Webhook_Payload = (''INVALID_WEBHOOK_PAYLOAD'', 400)"
| "webhook_problem Webhook_Event_Not_Replayable = (''WEBHOOK_EVENT_NOT_REPLAYABLE'', 409)"
| "webhook_problem Webhook_Event_Not_Found = (''WEBHOOK_EVENT_NOT_FOUND'', 404)"

section \<open>Ids and the audit trail\<close>

definition fresh_id :: "platform \<Rightarrow> uuid" where
  "fresh_id p = next_id (pf_db p)"

definition use_id :: "platform \<Rightarrow> platform" where
  "use_id p = p\<lparr>pf_db := (pf_db p)\<lparr>next_id := Suc (next_id (pf_db p))\<rparr>\<rparr>"

definition audited :: "request_context \<Rightarrow> int \<Rightarrow> string \<Rightarrow> string \<Rightarrow> uuid \<Rightarrow> uuid option \<Rightarrow> json_object \<Rightarrow> platform \<Rightarrow> platform" where
  "audited ctx now action target_type target_id org metadata p =
     p\<lparr>pf_db := record_audit ctx now action target_type target_id org metadata (pf_db p)\<rparr>"

record audit_filter =
  af_org :: "uuid option"
  af_actor :: "uuid option"
  af_action :: "string option"
  af_target_type :: "string option"
  af_target_id :: "uuid option"

fun actor_id :: "actor \<Rightarrow> uuid option" where
  "actor_id (Actor_User u) = Some u"
| "actor_id (Actor_Api_Key k g) = Some k"
| "actor_id Actor_System = None"

definition wanted :: "'a option \<Rightarrow> 'a \<Rightarrow> bool" where
  "wanted want x = (case want of None \<Rightarrow> True | Some y \<Rightarrow> x = y)"

definition audit_matches :: "audit_filter \<Rightarrow> audit_log \<Rightarrow> bool" where
  "audit_matches f l \<longleftrightarrow>
     (case af_org f of None \<Rightarrow> True | Some g \<Rightarrow> al_organization_id l = Some g) \<and>
     (case af_actor f of None \<Rightarrow> True | Some u \<Rightarrow> actor_id (al_actor l) = Some u) \<and>
     wanted (af_action f) (al_action l) \<and> wanted (af_target_type f) (al_target_type l) \<and> wanted (af_target_id f) (al_target_id l)"

definition list_audit_logs :: "audit_filter \<Rightarrow> nat \<Rightarrow> cursor option \<Rightarrow> platform \<Rightarrow> audit_log list \<times> cursor option" where
  "list_audit_logs f limit before p =
     keyset_page (\<lambda>l. (al_created_at l, al_id l)) limit before (filter (audit_matches f) (audit_logs (pf_db p)))"

section \<open>Users\<close>

text \<open>\<open>LIKE\<close> with its wildcards and escapes; \<open>ILIKE\<close> compares lower-cased texts.\<close>

fun tails :: "string \<Rightarrow> string list" where
  "tails [] = [[]]"
| "tails (c # s) = (c # s) # tails s"

fun like :: "string \<Rightarrow> string \<Rightarrow> bool" where
  "like [] s = (s = [])"
| "like (c # pat) s =
     (if c = CHR 0x5C then
        (case pat of [] \<Rightarrow> False | d # pat' \<Rightarrow> (case s of [] \<Rightarrow> False | x # s' \<Rightarrow> x = d \<and> like pat' s'))
      else if c = CHR ''%'' then list_ex (like pat) (tails s)
      else (case s of [] \<Rightarrow> False | x # s' \<Rightarrow> (c = CHR ''_'' \<or> x = c) \<and> like pat s'))"

definition ilike :: "string \<Rightarrow> string \<Rightarrow> bool" where
  "ilike pat s = like (map lower_char pat) (map lower_char s)"

definition escape_like :: "string \<Rightarrow> string" where
  "escape_like v = concat (map (\<lambda>c. if c = CHR 0x5C \<or> c = CHR ''%'' \<or> c = CHR ''_'' then [CHR 0x5C, c] else [c]) v)"

record user_input =
  ui_email :: string
  ui_password_hash :: string
  ui_first_name :: string
  ui_last_name :: string

definition create_user :: "int \<Rightarrow> user_input \<Rightarrow> platform \<Rightarrow> (account \<times> platform) pres" where
  "create_user now inp p =
     (let email = normalize_email (ui_email inp);
          a = \<lparr>ac_id = fresh_id p, ac_email = email, ac_password_hash = ui_password_hash inp, ac_first_name = ui_first_name inp,
               ac_last_name = ui_last_name inp, ac_role = Role_User, ac_status = User_Active, ac_created_at = now\<rparr> in
      if email \<in> ac_email ` set (pf_accounts p) then Inl (User_Err Email_Already_Registered)
      else Inr (a, (use_id p)\<lparr>pf_accounts := pf_accounts p @ [a],
             pf_db := (pf_db (use_id p))\<lparr>users := users (pf_db p) @ [\<lparr>u_id = ac_id a, u_email = email\<rparr>]\<rparr>\<rparr>))"

definition find_account :: "uuid \<Rightarrow> platform \<Rightarrow> account option" where
  "find_account i p = row_by ac_id i (pf_accounts p)"

definition find_account_by_email :: "string \<Rightarrow> platform \<Rightarrow> account option" where
  "find_account_by_email e p = row_by ac_email (normalize_email e) (pf_accounts p)"

definition search_users :: "string option \<Rightarrow> user_status option \<Rightarrow> nat \<Rightarrow> cursor option \<Rightarrow> platform \<Rightarrow> account list \<times> cursor option" where
  "search_users email status limit before p =
     keyset_page (\<lambda>a. (ac_created_at a, ac_id a)) limit before
       (filter (\<lambda>a. (case email of None \<Rightarrow> True | Some e \<Rightarrow> e = [] \<or> ilike (''%'' @ escape_like (map lower_char e) @ ''%'') (ac_email a)) \<and>
          wanted status (ac_status a)) (pf_accounts p))"

definition set_user_status :: "uuid \<Rightarrow> user_status \<Rightarrow> platform \<Rightarrow> platform" where
  "set_user_status i st p = p\<lparr>pf_accounts := set_row ac_id i (\<lambda>a. a\<lparr>ac_status := st\<rparr>) (pf_accounts p)\<rparr>"

definition set_user_role :: "uuid \<Rightarrow> user_role \<Rightarrow> platform \<Rightarrow> platform" where
  "set_user_role i r p = p\<lparr>pf_accounts := set_row ac_id i (\<lambda>a. a\<lparr>ac_role := r\<rparr>) (pf_accounts p)\<rparr>"

definition active_admins :: "platform \<Rightarrow> account list" where
  "active_admins p = filter (\<lambda>a. ac_role a = Role_Admin \<and> ac_status a = User_Active) (pf_accounts p)"

definition count_active_admins :: "platform \<Rightarrow> nat" where
  "count_active_admins p = length (active_admins p)"

definition count_by :: "('r \<Rightarrow> 'k) \<Rightarrow> 'k list \<Rightarrow> 'r list \<Rightarrow> ('k \<times> nat) list" where
  "count_by key ks rows =
     filter (\<lambda>(k, n). n > 0) (map (\<lambda>k. (k, length (filter (\<lambda>r. key r = k) rows))) ks)"

definition count_users_by_status :: "platform \<Rightarrow> (user_status \<times> nat) list" where
  "count_users_by_status p = count_by ac_status [User_Active, User_Suspended] (pf_accounts p)"

section \<open>Searching\<close>

lemma in_tails: "t \<in> set (tails s) \<longleftrightarrow> (\<exists>a. s = a @ t)"
proof (induction s)
  case (Cons c s)
  then show ?case by (auto simp: Cons_eq_append_conv)
qed simp

lemma like_escaped:
  "like (escape_like v @ ''%'') s \<longleftrightarrow> (\<exists>b. s = v @ b)"
proof (induction v arbitrary: s)
  case Nil
  have "[] \<in> set (tails s)" by (simp add: in_tails)
  then show ?case by (auto simp: escape_like_def list_ex_iff)
next
  case (Cons c v)
  then show ?case by (cases s) (auto simp: escape_like_def)
qed

text \<open>A search finds exactly the texts that contain what was typed, wildcards included.\<close>

lemma search_is_containment:
  "like (''%'' @ escape_like v @ ''%'') s \<longleftrightarrow> (\<exists>a b. s = a @ v @ b)"
proof -
  have "like (''%'' @ escape_like v @ ''%'') s \<longleftrightarrow> (\<exists>t. (\<exists>a. s = a @ t) \<and> (\<exists>b. t = v @ b))"
    by (simp add: list_ex_iff like_escaped Bex_def in_tails)
  then show ?thesis by auto
qed

end
