(* ===== verification/Sessions.thy ===== *)
theory Sessions
  imports Platform
begin

text \<open>
  \<open>src/auth\<close>: refresh tokens (\<open>tokens/refresh-token.service.ts\<close>), access tokens, sign-in
  and the rotation of a session (\<open>auth.service.ts\<close>). The hash of a token, the random tokens
  and ids, argon2 and the signed JWT are parameters. A rotation locks the row of its token
  and is one step; the updates that end sessions, that of a rotation which detects a reuse
  included, lock no row in advance, so they take the state that their statement saw (\<open>seen\<close>):
  a row committed after that is not updated. A function without \<open>_at\<close> is the undisturbed case.
\<close>

section \<open>Refresh tokens\<close>

record issued_token =
  it_token :: string
  it_expires_at :: int
  it_user :: uuid
  it_family :: uuid

definition create_token :: "(string \<Rightarrow> string) \<Rightarrow> int \<Rightarrow> int \<Rightarrow> string \<Rightarrow> uuid \<Rightarrow> uuid \<Rightarrow> platform \<Rightarrow> (refresh_token \<times> platform) pres" where
  "create_token sha ttl now token user family p =
     (if sha token \<in> rt_hash ` set (pf_tokens p) then Inl (App_Err (Db_Err (Unique_Violation ''uq_refresh_tokens_token_hash'')))
      else
        let t = \<lparr>rt_id = fresh_id p, rt_user = user, rt_family = family, rt_hash = sha token, rt_expires_at = now + ttl,
                 rt_revoked_at = None, rt_replaced_by = None, rt_created_at = now\<rparr> in
        Inr (t, use_id p\<lparr>pf_tokens := pf_tokens p @ [t]\<rparr>))"

definition issued :: "string \<Rightarrow> refresh_token \<Rightarrow> issued_token" where
  "issued token t = \<lparr>it_token = token, it_expires_at = rt_expires_at t, it_user = rt_user t, it_family = rt_family t\<rparr>"

text \<open>A new family: a new login.\<close>

definition issue_token :: "(string \<Rightarrow> string) \<Rightarrow> int \<Rightarrow> int \<Rightarrow> string \<Rightarrow> uuid \<Rightarrow> uuid \<Rightarrow> platform \<Rightarrow> (issued_token \<times> platform) pres" where
  "issue_token sha ttl now token family user p =
     bind_res (create_token sha ttl now token user family p) (\<lambda>(t, p1). Inr (issued token t, p1))"

text \<open>Rows that are live both in what the statement saw and now.\<close>

definition revoke_rows :: "platform \<Rightarrow> int \<Rightarrow> (refresh_token \<Rightarrow> bool) \<Rightarrow> platform \<Rightarrow> platform" where
  "revoke_rows seen now P p =
     p\<lparr>pf_tokens := map (\<lambda>t. if P t \<and> rt_revoked_at t = None \<and> rt_id t \<in> rt_id ` set (pf_tokens seen)
                             then t\<lparr>rt_revoked_at := Some now\<rparr> else t) (pf_tokens p)\<rparr>"

definition revoke_family_at :: "platform \<Rightarrow> int \<Rightarrow> uuid \<Rightarrow> platform \<Rightarrow> platform" where
  "revoke_family_at seen now family p = revoke_rows seen now (\<lambda>t. rt_family t = family) p"

definition revoke_family :: "int \<Rightarrow> uuid \<Rightarrow> platform \<Rightarrow> platform" where
  "revoke_family now family p = revoke_family_at p now family p"

definition revoke_all_for_user_at :: "platform \<Rightarrow> int \<Rightarrow> uuid \<Rightarrow> platform \<Rightarrow> platform" where
  "revoke_all_for_user_at seen now user p = revoke_rows seen now (\<lambda>t. rt_user t = user) p"

definition revoke_all_for_user :: "int \<Rightarrow> uuid \<Rightarrow> platform \<Rightarrow> platform" where
  "revoke_all_for_user now user p = revoke_all_for_user_at p now user p"

definition revoke_token_at :: "platform \<Rightarrow> (string \<Rightarrow> string) \<Rightarrow> int \<Rightarrow> string \<Rightarrow> platform \<Rightarrow> platform" where
  "revoke_token_at seen sha now token p =
     (case row_by rt_hash (sha token) (pf_tokens seen) of
        None \<Rightarrow> p
      | Some t \<Rightarrow> revoke_family_at seen now (rt_family t) p)"

definition revoke_token :: "(string \<Rightarrow> string) \<Rightarrow> int \<Rightarrow> string \<Rightarrow> platform \<Rightarrow> platform" where
  "revoke_token sha now token p = revoke_token_at p sha now token p"

datatype rotation = Rotated issued_token | Rotation_Invalid | Token_Reused uuid uuid

text \<open>
  \<open>rotate\<close>: the transaction commits whatever its outcome; only then is the error raised. Its lock is on
  the row of the token presented, so while the update that ends a session runs, the live token
  of that session may be exchanged; \<open>seen\<close> is what that update saw.
\<close>

definition rotation_at :: "platform \<Rightarrow> (string \<Rightarrow> string) \<Rightarrow> request_context \<Rightarrow> int \<Rightarrow> int \<Rightarrow> string \<Rightarrow> string \<Rightarrow> platform \<Rightarrow> (rotation \<times> platform) pres" where
  "rotation_at seen sha ctx ttl now tok token p =
     (case row_by rt_hash (sha token) (pf_tokens p) of
        None \<Rightarrow> Inr (Rotation_Invalid, p)
      | Some t \<Rightarrow>
          if rt_revoked_at t \<noteq> None \<and> rt_replaced_by t = None then Inr (Rotation_Invalid, p)
          else if rt_revoked_at t \<noteq> None then
            Inr (Token_Reused (rt_user t) (rt_family t),
                 audited (ctx\<lparr>rc_actor := Actor_System\<rparr>) now ''auth.refresh_token_reuse_detected'' ''user'' (rt_user t) None
                   [(''familyId'', j_id (rt_family t)), (''sessionRevoked'', JBool True)] (revoke_family_at seen now (rt_family t) p))
          else if rt_expires_at t \<le> now then Inr (Rotation_Invalid, p)
          else
            bind_res (create_token sha ttl now tok (rt_user t) (rt_family t) p) (\<lambda>(n, p1).
              Inr (Rotated (issued tok n),
                   p1\<lparr>pf_tokens := set_row rt_id (rt_id t) (\<lambda>x. x\<lparr>rt_revoked_at := Some now, rt_replaced_by := Some (rt_id n)\<rparr>) (pf_tokens p1)\<rparr>)))"

type_synonym 'a prun = "platform \<Rightarrow> 'a pres \<times> platform"

definition rotate_token_at :: "platform \<Rightarrow> (string \<Rightarrow> string) \<Rightarrow> request_context \<Rightarrow> int \<Rightarrow> int \<Rightarrow> string \<Rightarrow> string \<Rightarrow> issued_token prun" where
  "rotate_token_at seen sha ctx ttl now tok token p =
     (case rotation_at seen sha ctx ttl now tok token p of
        Inl e \<Rightarrow> (Inl e, p)
      | Inr (Rotated t, p1) \<Rightarrow> (Inr t, p1)
      | Inr (_, p1) \<Rightarrow> (Inl (Auth_Err Invalid_Refresh_Token), p1))"

definition rotate_token :: "(string \<Rightarrow> string) \<Rightarrow> request_context \<Rightarrow> int \<Rightarrow> int \<Rightarrow> string \<Rightarrow> string \<Rightarrow> issued_token prun" where
  "rotate_token sha ctx ttl now tok token p = rotate_token_at p sha ctx ttl now tok token p"

definition delete_finished_tokens :: "int \<Rightarrow> int \<Rightarrow> platform \<Rightarrow> nat \<times> platform" where
  "delete_finished_tokens now days p =
     (let old = now - days * 86400000;
          gone = (\<lambda>t. rt_expires_at t < old \<or> (case rt_revoked_at t of None \<Rightarrow> False | Some r \<Rightarrow> r < old)) in
      (length (filter gone (pf_tokens p)), p\<lparr>pf_tokens := filter (\<lambda>t. \<not> gone t) (pf_tokens p)\<rparr>))"

section \<open>Access tokens\<close>

text \<open>What a verified JWT carries; \<open>verify\<close> fails on anything else.\<close>

record jwt_claims =
  jw_sub :: json
  jw_role :: json

definition read_user_role :: "string \<Rightarrow> user_role option" where
  "read_user_role r = find (\<lambda>x. user_role_str x = r) [Role_User, Role_Support, Role_Risk, Role_Finance, Role_Admin]"

definition verify_access_token :: "(string \<Rightarrow> jwt_claims option) \<Rightarrow> string \<Rightarrow> (string \<times> user_role) option" where
  "verify_access_token jwt token =
     (case jwt token of
        None \<Rightarrow> None
      | Some c \<Rightarrow> (case (jw_sub c, jw_role c) of
          (JStr i, JStr r) \<Rightarrow> map_option (Pair i) (read_user_role r)
        | _ \<Rightarrow> None))"

section \<open>Signing in\<close>

record token_pair =
  tp_access :: string
  tp_refresh :: string
  tp_refresh_expires_at :: int

record login_input =
  lo_email :: string
  lo_password :: string

record register_input =
  rg_email :: string
  rg_password :: string
  rg_first_name :: string
  rg_last_name :: string

definition token_pair_of :: "(uuid \<times> user_role \<Rightarrow> string) \<Rightarrow> account \<Rightarrow> issued_token \<Rightarrow> token_pair" where
  "token_pair_of sign a t =
     \<lparr>tp_access = sign (ac_id a, ac_role a), tp_refresh = it_token t, tp_refresh_expires_at = it_expires_at t\<rparr>"

definition start_session :: "(string \<Rightarrow> string) \<Rightarrow> (uuid \<times> user_role \<Rightarrow> string) \<Rightarrow> int \<Rightarrow> int \<Rightarrow> string \<Rightarrow> uuid \<Rightarrow> account \<Rightarrow> (account \<times> token_pair) prun" where
  "start_session sha sign ttl now tok family a p =
     (case issue_token sha ttl now tok family (ac_id a) p of
        Inl e \<Rightarrow> (Inl e, p)
      | Inr (t, p1) \<Rightarrow> (Inr (a, token_pair_of sign a t), p1))"

definition register :: "(string \<Rightarrow> string) \<Rightarrow> (string \<Rightarrow> string) \<Rightarrow> (uuid \<times> user_role \<Rightarrow> string) \<Rightarrow> int \<Rightarrow> int \<Rightarrow> string \<Rightarrow> uuid \<Rightarrow> register_input \<Rightarrow> (account \<times> token_pair) prun" where
  "register argon sha sign ttl now tok family inp p =
     (case create_user now \<lparr>ui_email = rg_email inp, ui_password_hash = argon (rg_password inp),
             ui_first_name = rg_first_name inp, ui_last_name = rg_last_name inp\<rparr> p of
        Inl e \<Rightarrow> (Inl e, p)
      | Inr (a, p1) \<Rightarrow> start_session sha sign ttl now tok family a p1)"

text \<open>\<open>verify\<close> is None for a hash it cannot read; an unknown email is as wrong as a wrong password.\<close>

definition password_matches :: "(string \<Rightarrow> string \<Rightarrow> bool option) \<Rightarrow> string \<Rightarrow> string \<Rightarrow> bool" where
  "password_matches verify hash password = (verify hash password = Some True)"

definition login :: "(string \<Rightarrow> string \<Rightarrow> bool option) \<Rightarrow> (string \<Rightarrow> string) \<Rightarrow> (uuid \<times> user_role \<Rightarrow> string) \<Rightarrow> int \<Rightarrow> int \<Rightarrow> string \<Rightarrow> uuid \<Rightarrow> login_input \<Rightarrow> (account \<times> token_pair) prun" where
  "login verify sha sign ttl now tok family inp p =
     (case find_account_by_email (lo_email inp) p of
        None \<Rightarrow> (Inl (Auth_Err Invalid_Credentials), p)
      | Some a \<Rightarrow>
          if \<not> password_matches verify (ac_password_hash a) (lo_password inp) then (Inl (Auth_Err Invalid_Credentials), p)
          else if ac_status a \<noteq> User_Active then (Inl (Auth_Err Account_Suspended), p)
          else start_session sha sign ttl now tok family a p)"

definition refresh_session :: "(string \<Rightarrow> string) \<Rightarrow> (uuid \<times> user_role \<Rightarrow> string) \<Rightarrow> request_context \<Rightarrow> int \<Rightarrow> int \<Rightarrow> string \<Rightarrow> string \<Rightarrow> token_pair prun" where
  "refresh_session sha sign ctx ttl now tok token p =
     (case rotate_token sha ctx ttl now tok token p of
        (Inl e, p1) \<Rightarrow> (Inl e, p1)
      | (Inr t, p1) \<Rightarrow>
          (case find_account (it_user t) p1 of
             None \<Rightarrow> (Inl (Auth_Err Invalid_Refresh_Token), revoke_family now (it_family t) p1)
           | Some a \<Rightarrow>
               if ac_status a \<noteq> User_Active
               then (Inl (Auth_Err Invalid_Refresh_Token), revoke_family now (it_family t) p1)
               else (Inr (token_pair_of sign a t), p1)))"

definition logout :: "(string \<Rightarrow> string) \<Rightarrow> int \<Rightarrow> string \<Rightarrow> platform \<Rightarrow> platform" where
  "logout sha now token p = revoke_token sha now token p"

definition logout_everywhere :: "int \<Rightarrow> uuid \<Rightarrow> platform \<Rightarrow> platform" where
  "logout_everywhere now user p = revoke_all_for_user now user p"

section \<open>One live token per session\<close>

definition live :: "refresh_token \<Rightarrow> bool" where
  "live t \<longleftrightarrow> rt_revoked_at t = None"

definition tokens_ok :: "platform \<Rightarrow> bool" where
  "tokens_ok p \<longleftrightarrow>
     distinct (map rt_id (pf_tokens p)) \<and> (\<forall>t \<in> set (pf_tokens p). rt_id t < fresh_id p) \<and>
     (\<forall>t \<in> set (pf_tokens p). \<forall>u \<in> set (pf_tokens p). rt_family t = rt_family u \<and> live t \<and> live u \<longrightarrow> rt_id t = rt_id u) \<and>
     (\<forall>t \<in> set (pf_tokens p). rt_replaced_by t \<noteq> None \<longrightarrow> \<not> live t)"

text \<open>
  What happens to the table: sign-ins with a session id that is not in use, exchanges of tokens and
  updates that end sessions (whatever older state their statement saw), the clean-up, and
  everything that leaves the table alone.
\<close>

inductive session_step :: "(string \<Rightarrow> string) \<Rightarrow> int \<Rightarrow> platform \<Rightarrow> platform \<Rightarrow> bool" for sha ttl p where
  signed_in: "family \<notin> rt_family ` set (pf_tokens p) \<Longrightarrow>
    issue_token sha ttl now tok family user p = Inr (t, p') \<Longrightarrow> session_step sha ttl p p'"
| exchanged: "rotation_at seen sha ctx ttl now tok token p = Inr (out, p') \<Longrightarrow> session_step sha ttl p p'"
| ended: "session_step sha ttl p (revoke_rows seen now P p)"
| cleaned: "session_step sha ttl p (snd (delete_finished_tokens now days p))"
| elsewhere: "pf_tokens p' = pf_tokens p \<Longrightarrow> fresh_id p \<le> fresh_id p' \<Longrightarrow> session_step sha ttl p p'"

inductive session_runs :: "(string \<Rightarrow> string) \<Rightarrow> int \<Rightarrow> platform \<Rightarrow> platform \<Rightarrow> bool" for sha ttl p where
  no_change: "session_runs sha ttl p p"
| change: "session_runs sha ttl p p' \<Longrightarrow> session_step sha ttl p' p'' \<Longrightarrow> session_runs sha ttl p p''"

lemma fresh_simps [simp]:
  "fresh_id (use_id p) = Suc (fresh_id p)" "pf_tokens (use_id p) = pf_tokens p"
  "fresh_id (p\<lparr>pf_tokens := ts\<rparr>) = fresh_id p" "fresh_id (audited ctx now a ty i org m p) = Suc (fresh_id p)"
  "pf_tokens (audited ctx now a ty i org m p) = pf_tokens p"
  by (simp_all add: fresh_id_def use_id_def audited_def)

lemma create_token_Inr:
  assumes "create_token sha ttl now tok user family p = Inr (t, p')"
  shows "rt_id t = fresh_id p" "rt_family t = family" "rt_user t = user" "rt_hash t = sha tok" "live t" "rt_replaced_by t = None"
    "pf_tokens p' = pf_tokens p @ [t]" "fresh_id p' = Suc (fresh_id p)" "sha tok \<notin> rt_hash ` set (pf_tokens p)"
  using assms by (auto simp: create_token_def live_def Let_def split: if_splits)

lemma tokens_ok_fresh: "tokens_ok p \<Longrightarrow> fresh_id p \<notin> rt_id ` set (pf_tokens p)"
  unfolding tokens_ok_def by (metis imageE less_irrefl)

lemma tokens_ok_marked:
  assumes "tokens_ok p" and "pf_tokens p' = map f (pf_tokens p)" and "fresh_id p \<le> fresh_id p'"
    and "\<And>t. rt_id (f t) = rt_id t \<and> rt_family (f t) = rt_family t \<and> (live (f t) \<longrightarrow> live t) \<and>
      (rt_replaced_by (f t) \<noteq> None \<longrightarrow> rt_replaced_by t \<noteq> None \<or> \<not> live (f t))"
  shows "tokens_ok p'"
proof -
  have "map rt_id (map f ts) = map rt_id ts" for ts using assms(4) by simp
  then show ?thesis
    using assms unfolding tokens_ok_def assms(2) by (simp only: ball_simps list.set_map) (meson less_le_trans)
qed

lemma tokens_ok_revoked: "tokens_ok p \<Longrightarrow> tokens_ok (revoke_rows seen now P p)"
  by (erule tokens_ok_marked [where f = "\<lambda>t. if P t \<and> rt_revoked_at t = None \<and> rt_id t \<in> rt_id ` set (pf_tokens seen)
        then t\<lparr>rt_revoked_at := Some now\<rparr> else t"]) (auto simp: revoke_rows_def live_def)

lemma tokens_ok_inserted:
  assumes "tokens_ok p" and "pf_tokens p' = pf_tokens p @ [t]" and "rt_id t = fresh_id p" and "fresh_id p < fresh_id p'"
    and "rt_replaced_by t = None" and "\<And>u. u \<in> set (pf_tokens p) \<Longrightarrow> rt_family u = rt_family t \<Longrightarrow> \<not> live u"
  shows "tokens_ok p'"
  using assms unfolding tokens_ok_def by (fastforce intro: less_trans)

lemma tokens_ok_fewer:
  "tokens_ok p \<Longrightarrow> pf_tokens p' = filter P (pf_tokens p) \<Longrightarrow> fresh_id p \<le> fresh_id p' \<Longrightarrow> tokens_ok p'"
  unfolding tokens_ok_def by (auto simp: distinct_map_filter intro: less_le_trans)

lemma rotation_ok:
  assumes "tokens_ok p" and "rotation_at seen sha ctx ttl now tok token p = Inr (out, p')"
  shows "tokens_ok p'"
proof (cases out)
  case Rotation_Invalid
  then show ?thesis using assms by (auto simp: rotation_at_def split: option.splits if_splits)
next
  case (Token_Reused u f)
  then have "pf_tokens p' = pf_tokens (revoke_family_at seen now f p)" "fresh_id p' = Suc (fresh_id p)"
    using assms(2) by (auto simp: rotation_at_def revoke_family_at_def revoke_rows_def split: option.splits if_splits)
  moreover have "tokens_ok (revoke_family_at seen now f p)"
    using tokens_ok_revoked [OF assms(1)] by (simp add: revoke_family_at_def)
  moreover have "fresh_id (revoke_family_at seen now f p) = fresh_id p"
    by (simp add: revoke_family_at_def revoke_rows_def)
  ultimately show ?thesis using tokens_ok_fewer [of "revoke_family_at seen now f p" p' "\<lambda>_. True"] by simp
next
  case (Rotated it)
  then obtain t n p1 where t: "row_by rt_hash (sha token) (pf_tokens p) = Some t" "live t"
    and n: "create_token sha ttl now tok (rt_user t) (rt_family t) p = Inr (n, p1)"
    and p': "p' = p1\<lparr>pf_tokens := set_row rt_id (rt_id t)
      (\<lambda>x. x\<lparr>rt_revoked_at := Some now, rt_replaced_by := Some (rt_id n)\<rparr>) (pf_tokens p1)\<rparr>"
    using assms(2) by (auto simp: rotation_at_def live_def split: option.splits if_splits)
  note new = create_token_Inr [OF n]
  let ?f = "\<lambda>x. if rt_id x = rt_id t then x\<lparr>rt_revoked_at := Some now, rt_replaced_by := Some (rt_id n)\<rparr> else x"
  have tp: "t \<in> set (pf_tokens p)" using t(1) by (auto dest: row_by_Some)
  then have ne: "rt_id n \<noteq> rt_id t" using tokens_ok_fresh [OF assms(1)] new(1) by (metis imageI)
  define q where "q = p\<lparr>pf_tokens := map ?f (pf_tokens p)\<rparr>"
  have tq: "pf_tokens q = map ?f (pf_tokens p)" by (simp add: q_def)
  have q: "tokens_ok q" by (rule tokens_ok_marked [OF assms(1), where f = ?f]) (auto simp: q_def live_def)
  have dead: "\<not> live u" if "u \<in> set (pf_tokens q)" "rt_family u = rt_family n" for u
  proof -
    have "u \<in> ?f ` set (pf_tokens p)" using that(1) by (simp only: tq set_map)
    then obtain x where x: "x \<in> set (pf_tokens p)" "u = ?f x" by blast
    show ?thesis
    proof (cases "rt_id x = rt_id t")
      case False
      then have "rt_family x = rt_family t" using x(2) that(2) new(2) by simp
      then have "\<not> live x" using assms(1) x(1) tp t(2) False unfolding tokens_ok_def by blast
      then show ?thesis using x(2) False by simp
    qed (use x(2) in \<open>simp add: live_def\<close>)
  qed
  have "pf_tokens p' = pf_tokens q @ [n]" using ne by (simp add: p' new(7) q_def set_row_def)
  moreover have "fresh_id q = fresh_id p" "fresh_id p' = Suc (fresh_id p)" by (simp_all add: q_def p' new(8))
  ultimately show ?thesis using new dead by (intro tokens_ok_inserted [of q p' n] q) simp_all
qed

lemma session_step_ok: "session_step sha ttl p p' \<Longrightarrow> tokens_ok p \<Longrightarrow> tokens_ok p'"
proof (induction rule: session_step.induct)
  case (signed_in family now tok user t p')
  then obtain n where "create_token sha ttl now tok user family p = Inr (n, p')" by (auto simp: issue_token_def)
  note new = create_token_Inr [OF this]
  have "rt_family u \<noteq> family" if "u \<in> set (pf_tokens p)" for u using signed_in(1) that by auto
  then show ?case by (intro tokens_ok_inserted [OF signed_in(3) new(7,1)]) (simp_all add: new)
next
  case (cleaned now days)
  then show ?case by (auto simp: delete_finished_tokens_def Let_def intro: tokens_ok_fewer)
next
  case (elsewhere p')
  then show ?case using tokens_ok_fewer [of p p' "\<lambda>_. True"] by simp
qed (blast intro: rotation_ok tokens_ok_revoked)+

lemma no_tokens_ok: "pf_tokens p = [] \<Longrightarrow> tokens_ok p"
  by (simp add: tokens_ok_def)

lemma session_runs_ok: "session_runs sha ttl p p' \<Longrightarrow> tokens_ok p \<Longrightarrow> tokens_ok p'"
  by (induction rule: session_runs.induct) (auto dest: session_step_ok)

text \<open>A token that is not live stays so: a row with its id is none or is revoked.\<close>

definition over :: "uuid set \<Rightarrow> platform \<Rightarrow> bool" where
  "over ids p \<longleftrightarrow> (\<forall>i \<in> ids. i < fresh_id p) \<and> (\<forall>u \<in> set (pf_tokens p). rt_id u \<in> ids \<longrightarrow> \<not> live u)"

lemma over_marked:
  "over ids p \<Longrightarrow> pf_tokens p' = map f (pf_tokens p) \<Longrightarrow> fresh_id p \<le> fresh_id p' \<Longrightarrow>
     (\<And>u. rt_id (f u) = rt_id u \<and> (live (f u) \<longrightarrow> live u)) \<Longrightarrow> over ids p'"
  by (fastforce simp: over_def intro: less_le_trans)

lemma over_inserted:
  "over ids p \<Longrightarrow> pf_tokens p' = pf_tokens p @ [n] \<Longrightarrow> rt_id n = fresh_id p \<Longrightarrow> fresh_id p' = Suc (fresh_id p) \<Longrightarrow> over ids p'"
  by (fastforce simp: over_def intro: less_SucI)

lemma over_revoked: "over ids p \<Longrightarrow> over ids (revoke_rows seen now P p)"
  by (erule over_marked [where f = "\<lambda>t. if P t \<and> rt_revoked_at t = None \<and> rt_id t \<in> rt_id ` set (pf_tokens seen)
        then t\<lparr>rt_revoked_at := Some now\<rparr> else t"]) (auto simp: revoke_rows_def live_def)

lemma over_rotation:
  assumes "over ids p" and "rotation_at seen sha ctx ttl now tok token p = Inr (out, p')"
  shows "over ids p'"
proof (cases out)
  case (Token_Reused u f)
  then have "pf_tokens p' = pf_tokens (revoke_family_at seen now f p)" "fresh_id p' = Suc (fresh_id p)"
    using assms(2) by (auto simp: rotation_at_def revoke_family_at_def revoke_rows_def split: option.splits if_splits)
  then show ?thesis using over_revoked [OF assms(1), of seen now "\<lambda>t. rt_family t = f"]
    by (auto simp: over_def revoke_family_at_def revoke_rows_def less_SucI)
next
  case (Rotated it)
  then obtain t n p1 where "row_by rt_hash (sha token) (pf_tokens p) = Some t"
    and n: "create_token sha ttl now tok (rt_user t) (rt_family t) p = Inr (n, p1)"
    and p': "p' = p1\<lparr>pf_tokens := set_row rt_id (rt_id t)
      (\<lambda>x. x\<lparr>rt_revoked_at := Some now, rt_replaced_by := Some (rt_id n)\<rparr>) (pf_tokens p1)\<rparr>"
    using assms(2) by (auto simp: rotation_at_def split: option.splits if_splits)
  note new = create_token_Inr [OF n]
  show ?thesis
    by (rule over_marked [OF over_inserted [OF assms(1) new(7,1,8)], where f = "\<lambda>x. if rt_id x = rt_id t
          then x\<lparr>rt_revoked_at := Some now, rt_replaced_by := Some (rt_id n)\<rparr> else x"])
      (auto simp: p' set_row_def live_def)
qed (use assms in \<open>auto simp: rotation_at_def split: option.splits if_splits\<close>)

lemma over_runs: "session_runs sha ttl p p' \<Longrightarrow> over ids p \<Longrightarrow> over ids p'"
proof (induction rule: session_runs.induct)
  case (change p' p'')
  then have "over ids p'" by blast
  with change(2) show ?case
  proof (induction rule: session_step.induct)
    case (signed_in family now tok user t q)
    then obtain n where "create_token sha ttl now tok user family p' = Inr (n, q)" by (auto simp: issue_token_def)
    from over_inserted [OF signed_in(3) create_token_Inr(7,1,8) [OF this]] show ?case .
  next
    case (cleaned now days)
    then show ?case by (auto simp: delete_finished_tokens_def Let_def over_def)
  next
    case (elsewhere q)
    then show ?case by (auto simp: over_def intro: less_le_trans)
  qed (blast intro: over_rotation over_revoked)+
qed simp

lemma revoked_ids: "rt_id ` set (pf_tokens (revoke_rows seen now P p)) = rt_id ` set (pf_tokens p)"
proof -
  have "map rt_id (pf_tokens (revoke_rows seen now P p)) = map rt_id (pf_tokens p)" by (simp add: revoke_rows_def)
  then show ?thesis by (metis set_map)
qed

lemma dead_token_refused:
  assumes "row_by rt_hash (sha token) (pf_tokens p) = Some u" and "\<not> live u"
  shows "fst (rotate_token_at seen sha ctx ttl now tok token p) = Inl (Auth_Err Invalid_Refresh_Token)"
  using assms by (auto simp: rotate_token_at_def rotation_at_def live_def)

text \<open>
  C27. A token that comes back after it was exchanged is refused, and ends its session as far as its
  revocation sees it: of the tokens of the session, all that the statement saw are revoked from then
  on, and none of them is ever exchanged again, whatever happens later. What can be live still is
  one token that an exchange committed while the statement ran; when there was none, the session is over.
\<close>

theorem reuse_ends_session:
  assumes "session_runs sha ttl p0 p" and "pf_tokens p0 = []"
    and "row_by rt_hash (sha token) (pf_tokens p) = Some t" and "rt_replaced_by t \<noteq> None"
    and "rotate_token_at seen sha ctx ttl now tok token p = (r, p1)" and "session_runs sha ttl p1 p2"
  shows "r = Inl (Auth_Err Invalid_Refresh_Token) \<and>
    (\<forall>a \<in> set (pf_tokens p1). \<forall>b \<in> set (pf_tokens p1). rt_family a = rt_family t \<and> rt_family b = rt_family t \<and> live a \<and> live b \<longrightarrow> rt_id a = rt_id b) \<and>
    (\<forall>u \<in> set (pf_tokens p1). rt_family u = rt_family t \<and> rt_id u \<in> rt_id ` set (pf_tokens seen) \<longrightarrow>
       (\<forall>v \<in> set (pf_tokens p2). rt_id v = rt_id u \<longrightarrow> \<not> live v \<and>
          (\<forall>other seen' ctx' now' tok'. row_by rt_hash (sha other) (pf_tokens p2) = Some v \<longrightarrow>
             fst (rotate_token_at seen' sha ctx' ttl now' tok' other p2) = Inl (Auth_Err Invalid_Refresh_Token)))) \<and>
    (rt_id ` set (pf_tokens p) \<subseteq> rt_id ` set (pf_tokens seen) \<longrightarrow> (\<forall>u \<in> set (pf_tokens p1). rt_family u = rt_family t \<longrightarrow> \<not> live u))"
proof -
  have ok: "tokens_ok p" by (rule session_runs_ok [OF assms(1) no_tokens_ok [OF assms(2)]])
  have "t \<in> set (pf_tokens p)" using assms(3) by (auto dest: row_by_Some)
  then have dead: "rt_revoked_at t \<noteq> None" using ok assms(4) by (auto simp: tokens_ok_def live_def)
  then have r: "r = Inl (Auth_Err Invalid_Refresh_Token)" "pf_tokens p1 = pf_tokens (revoke_family_at seen now (rt_family t) p)"
      "fresh_id p1 = Suc (fresh_id p)"
    using assms(3-5) by (auto simp: rotate_token_at_def rotation_at_def revoke_family_at_def revoke_rows_def)
  have rows: "\<not> live u" if "u \<in> set (pf_tokens p1)" "rt_family u = rt_family t" "rt_id u \<in> rt_id ` set (pf_tokens seen)" for u
    using that by (auto simp: r(2) revoke_family_at_def revoke_rows_def live_def split: if_splits)
  have ids: "rt_id ` set (pf_tokens p1) = rt_id ` set (pf_tokens p)"
    unfolding r(2) revoke_family_at_def by (rule revoked_ids)
  have ok1: "tokens_ok p1"
    using tokens_ok_fewer [of "revoke_family_at seen now (rt_family t) p" p1 "\<lambda>_. True"] tokens_ok_revoked [OF ok] r(2,3)
    by (simp add: revoke_family_at_def revoke_rows_def)
  have later: "\<not> live v" if u: "u \<in> set (pf_tokens p1)" "rt_family u = rt_family t" "rt_id u \<in> rt_id ` set (pf_tokens seen)"
      and v: "v \<in> set (pf_tokens p2)" "rt_id v = rt_id u" for u v
  proof -
    have "inj_on rt_id (set (pf_tokens p1))" using ok1 by (simp only: tokens_ok_def distinct_map)
    then have "\<not> live w" if "w \<in> set (pf_tokens p1)" "rt_id w = rt_id u" for w using that u rows by (metis inj_onD)
    moreover have "rt_id u < fresh_id p1" using ok1 u(1) unfolding tokens_ok_def by blast
    ultimately have "over {rt_id u} p1" by (simp add: over_def)
    from over_runs [OF assms(6) this] show ?thesis using v by (auto simp: over_def)
  qed
  have one: "\<forall>a \<in> set (pf_tokens p1). \<forall>b \<in> set (pf_tokens p1). rt_family a = rt_family t \<and> rt_family b = rt_family t \<and> live a \<and> live b \<longrightarrow> rt_id a = rt_id b"
    using ok1 unfolding tokens_ok_def by metis
  have whole: "\<forall>u \<in> set (pf_tokens p1). rt_family u = rt_family t \<longrightarrow> \<not> live u" if "rt_id ` set (pf_tokens p) \<subseteq> rt_id ` set (pf_tokens seen)"
    using rows that unfolding ids [symmetric] by blast
  have refused: "\<not> live v \<and> (\<forall>other seen' ctx' now' tok'. row_by rt_hash (sha other) (pf_tokens p2) = Some v \<longrightarrow>
      fst (rotate_token_at seen' sha ctx' ttl now' tok' other p2) = Inl (Auth_Err Invalid_Refresh_Token))"
    if "u \<in> set (pf_tokens p1)" "rt_family u = rt_family t \<and> rt_id u \<in> rt_id ` set (pf_tokens seen)" "v \<in> set (pf_tokens p2)" "rt_id v = rt_id u" for u v
    using later [of u v] that by (intro conjI allI impI dead_token_refused) simp_all
  show ?thesis by (intro conjI r(1) one impI whole) (intro ballI impI, rule refused)
qed

text \<open>
  Signing out everywhere can miss a session: when its statement began before a refresh of
  that session committed, the token the refresh has issued is still live afterwards and can be
  exchanged again, for as long as it has not expired.
\<close>

theorem sign_out_can_miss_a_refresh:
  assumes "tokens_ok p" and "rotate_token sha ctx ttl now tok token p = (Inr t, p1)"
    and "p2 = revoke_all_for_user_at p now' (it_user t) p1" and "now' < it_expires_at t" and "sha tok' \<notin> rt_hash ` set (pf_tokens p2)"
  shows "\<exists>t' p3. rotate_token sha ctx ttl now' tok' tok p2 = (Inr t', p3) \<and> it_family t' = it_family t"
proof -
  note ok = assms(1)
  obtain c n q where c: "row_by rt_hash (sha token) (pf_tokens p) = Some c"
    and n: "create_token sha ttl now tok (rt_user c) (rt_family c) p = Inr (n, q)" and t: "t = issued tok n"
    and p1: "p1 = q\<lparr>pf_tokens := set_row rt_id (rt_id c) (\<lambda>x. x\<lparr>rt_revoked_at := Some now, rt_replaced_by := Some (rt_id n)\<rparr>) (pf_tokens q)\<rparr>"
    using assms(2) by (auto simp: rotate_token_def rotate_token_at_def rotation_at_def split: option.splits if_splits sum.splits rotation.splits)
  note new = create_token_Inr [OF n]
  have ids: "rt_id n \<notin> rt_id ` set (pf_tokens p)" using tokens_ok_fresh [OF ok] new(1) by simp
  then have ne: "rt_id n \<noteq> rt_id c" using c by (auto dest: row_by_Some)
  let ?g = "\<lambda>t. if rt_user t = it_user (issued tok n) \<and> rt_revoked_at t = None \<and> rt_id t \<in> rt_id ` set (pf_tokens p)
    then t\<lparr>rt_revoked_at := Some now'\<rparr> else t"
  define old where "old = map ?g (set_row rt_id (rt_id c) (\<lambda>x. x\<lparr>rt_revoked_at := Some now, rt_replaced_by := Some (rt_id n)\<rparr>) (pf_tokens p))"
  have p2: "pf_tokens p2 = old @ [n]"
    using ne ids by (simp add: assms(3) t p1 new(7) revoke_all_for_user_at_def revoke_rows_def old_def set_row_def)
  have "map rt_hash old = map rt_hash (pf_tokens p)" by (auto simp: old_def set_row_def)
  then have "rt_hash ` set old = rt_hash ` set (pf_tokens p)" by (metis set_map)
  then have "row_by rt_hash (sha tok) old = None" using new(9) by (auto simp: row_by_None_iff)
  then have row: "row_by rt_hash (sha tok) (pf_tokens p2) = Some n" by (simp add: p2 row_by_append row_by_Cons new(4))
  obtain m p3 where "create_token sha ttl now' tok' (rt_user n) (rt_family n) p2 = Inr (m, p3)" "rt_family m = rt_family n"
    using assms(5) by (auto simp: create_token_def Let_def)
  then show ?thesis
    using row new(5,6) assms(4) by (auto simp: rotate_token_def rotate_token_at_def rotation_at_def live_def t issued_def)
qed

section \<open>A session\<close>

definition demo_session :: platform where
  "demo_session = (case issue_token (\<lambda>s. s) 1000 0 ''a'' 1 7 empty_platform of Inl e \<Rightarrow> empty_platform | Inr (t, p) \<Rightarrow> p)"

definition demo_refreshed :: platform where
  "demo_refreshed = snd (rotate_token (\<lambda>s. s) system_context 1000 1 ''b'' ''a'' demo_session)"

definition demo_again :: platform where
  "demo_again = snd (rotate_token (\<lambda>s. s) system_context 1000 2 ''c'' ''b'' demo_refreshed)"

lemma rotated_step: "session_step sha ttl p (snd (rotate_token_at seen sha ctx ttl now tok token p))"
proof (cases "rotation_at seen sha ctx ttl now tok token p")
  case (Inr r)
  obtain out q where "r = (out, q)" by fastforce
  then show ?thesis using session_step.exchanged Inr by (cases out) (auto simp: rotate_token_at_def)
qed (simp add: rotate_token_at_def session_step.elsewhere)

lemma demo_sessions:
  "session_runs (\<lambda>s. s) 1000 empty_platform demo_session" "session_runs (\<lambda>s. s) 1000 empty_platform demo_again"
proof -
  obtain t p where i: "issue_token (\<lambda>s. s) 1000 0 ''a'' 1 7 empty_platform = Inr (t, p)"
    by (auto simp: issue_token_def create_token_def empty_platform_def Let_def)
  then have "session_step (\<lambda>s. s) 1000 empty_platform demo_session"
    using session_step.signed_in [OF _ i] by (simp add: demo_session_def empty_platform_def)
  then show s: "session_runs (\<lambda>s. s) 1000 empty_platform demo_session" by (rule session_runs.change [OF session_runs.no_change])
  show "session_runs (\<lambda>s. s) 1000 empty_platform demo_again"
    unfolding demo_again_def demo_refreshed_def rotate_token_def by (intro session_runs.change [OF _ rotated_step] s)
qed

text \<open>
  The first token of a session comes back after two exchanges. When its revocation sees all of them the last one
  is over, too. When the second exchange commits while it runs, the last one can be exchanged again.
\<close>

theorem reuse_ends_session_witness:
  "\<exists>p1. rotate_token_at demo_again (\<lambda>s. s) system_context 1000 3 ''d'' ''a'' demo_again = (Inl (Auth_Err Invalid_Refresh_Token), p1) \<and>
     (\<forall>u \<in> set (pf_tokens p1). rt_family u = 1 \<longrightarrow> \<not> live u)"
proof -
  obtain r p1 where r: "rotate_token_at demo_again (\<lambda>s. s) system_context 1000 3 ''d'' ''a'' demo_again = (r, p1)" by fastforce
  have "map_option (\<lambda>t. rt_replaced_by t \<noteq> None \<and> rt_family t = 1) (row_by rt_hash ''a'' (pf_tokens demo_again)) = Some True" by code_simp
  then obtain t where t: "row_by rt_hash ((\<lambda>s. s) ''a'') (pf_tokens demo_again) = Some t" "rt_replaced_by t \<noteq> None" "rt_family t = 1" by auto
  have "pf_tokens empty_platform = []" by (simp add: empty_platform_def)
  note over = reuse_ends_session [OF demo_sessions(2) this t(1,2) r session_runs.no_change]
  then have "r = Inl (Auth_Err Invalid_Refresh_Token)" by (rule conjunct1)
  moreover have "\<forall>u \<in> set (pf_tokens p1). rt_family u = 1 \<longrightarrow> \<not> live u"
    using over [THEN conjunct2, THEN conjunct2, THEN conjunct2] unfolding t(3) by blast
  ultimately show ?thesis using r by blast
qed

lemma reuse_can_miss_a_refresh:
  "\<not> isl (fst (rotate_token (\<lambda>s. s) system_context 1000 4 ''e'' ''c''
     (snd (rotate_token_at demo_refreshed (\<lambda>s. s) system_context 1000 3 ''d'' ''a'' demo_again))))"
  by code_simp

theorem sign_out_can_miss_a_refresh_witness:
  "\<exists>t' p3. rotate_token (\<lambda>s. s) system_context 1000 2 ''c'' ''b'' (revoke_all_for_user_at demo_session 2 7 demo_refreshed) = (Inr t', p3)"
proof -
  have ok: "tokens_ok demo_session" by (rule session_runs_ok [OF demo_sessions(1) no_tokens_ok]) (simp add: empty_platform_def)
  have "\<not> isl (fst (rotate_token (\<lambda>s. s) system_context 1000 1 ''b'' ''a'' demo_session))" by code_simp
  then obtain t where "fst (rotate_token (\<lambda>s. s) system_context 1000 1 ''b'' ''a'' demo_session) = Inr t" by (metis sum.collapse(2))
  then have t: "rotate_token (\<lambda>s. s) system_context 1000 1 ''b'' ''a'' demo_session = (Inr t, demo_refreshed)"
    by (metis demo_refreshed_def prod.collapse)
  have "(case fst (rotate_token (\<lambda>s. s) system_context 1000 1 ''b'' ''a'' demo_session) of Inr t \<Rightarrow> it_user t = 7 \<and> 2 < it_expires_at t | _ \<Rightarrow> False)"
    by code_simp
  then have "it_user t = 7" "2 < it_expires_at t" by (simp_all add: t)
  moreover have "''c'' \<notin> rt_hash ` set (pf_tokens (revoke_all_for_user_at demo_session 2 7 demo_refreshed))" by code_simp
  ultimately show ?thesis using sign_out_can_miss_a_refresh [OF ok t, of _ 2 "''c''"] by auto
qed

end
