(* ===== verification/Organizations.thy ===== *)
theory Organizations
  imports Platform
begin

text \<open>
  \<open>src/organizations\<close>: roles and their permissions, organizations and their members. An
  operation that reads outside its transaction takes the state it read (\<open>seen\<close>) beside the
  one it writes to; alone the two are the same. What the unique indexes of
  \<open>organization_members\<close> enforce is \<open>members_ok\<close>; that an organization has an owner is
  what the operations keep one after the other, and lose when two of them overlap.
\<close>

section \<open>Permissions\<close>

definition ALL_ORG_PERMISSIONS :: "org_permission list" where
  "ALL_ORG_PERMISSIONS =
     [Read_Organization, Manage_Organization, Manage_Members, Read_Wallets, Manage_Wallets, Create_Payments, Read_Transactions,
      Manage_Api_Keys, Read_Audit_Logs, Create_Payouts, Manage_Payout_Destinations, Manage_Webhooks, Propose_Actions,
      Decide_Proposals]"

definition READ :: "org_permission list" where
  "READ = [Read_Organization, Read_Wallets, Read_Transactions]"

fun role_permissions :: "org_role \<Rightarrow> org_permission list" where
  "role_permissions Org_Owner = ALL_ORG_PERMISSIONS"
| "role_permissions Org_Admin = READ @
     [Manage_Members, Manage_Wallets, Create_Payments, Manage_Api_Keys, Read_Audit_Logs, Create_Payouts,
      Manage_Payout_Destinations, Manage_Webhooks, Propose_Actions, Decide_Proposals]"
| "role_permissions Org_Member = READ @ [Create_Payments, Propose_Actions]"
| "role_permissions Org_Viewer = READ"

definition role_has_permission :: "org_role \<Rightarrow> org_permission \<Rightarrow> bool" where
  "role_has_permission r x \<longleftrightarrow> x \<in> set (role_permissions r)"

definition ASSIGNABLE_ROLES :: "org_role list" where
  "ASSIGNABLE_ROLES = [Org_Admin, Org_Member, Org_Viewer]"

section \<open>The tables\<close>

definition find_membership :: "uuid \<Rightarrow> uuid \<Rightarrow> platform \<Rightarrow> membership option" where
  "find_membership org user p = find (\<lambda>m. mb_org m = org \<and> mb_user m = user) (pf_members p)"

definition get_organization :: "uuid \<Rightarrow> platform \<Rightarrow> organization pres" where
  "get_organization i p = the_or (row_by og_id i (pf_organizations p)) (Org_Err Organization_Not_Found)"

text \<open>Inserting a member under the two unique indexes.\<close>

definition insert_member :: "membership \<Rightarrow> platform \<Rightarrow> platform pres" where
  "insert_member m p =
     (if \<exists>x \<in> set (pf_members p). mb_org x = mb_org m \<and> mb_user x = mb_user m
      then Inl (App_Err (Db_Err (Unique_Violation ''uq_organization_members_org_user'')))
      else if mb_role m = Org_Owner \<and> (\<exists>x \<in> set (pf_members p). mb_org x = mb_org m \<and> mb_role x = Org_Owner)
      then Inl (App_Err (Db_Err (Unique_Violation ''uq_organization_members_owner'')))
      else Inr (use_id p\<lparr>pf_members := pf_members p @ [m]\<rparr>))"

text \<open>\<open>UPDATE organization_members SET role WHERE id\<close>.\<close>

definition set_member_role :: "uuid \<Rightarrow> org_role \<Rightarrow> platform \<Rightarrow> platform pres" where
  "set_member_role i r p =
     (if r = Org_Owner \<and> (\<exists>m \<in> set (pf_members p). mb_id m = i \<and>
           (\<exists>x \<in> set (pf_members p). mb_id x \<noteq> i \<and> mb_org x = mb_org m \<and> mb_role x = Org_Owner))
      then Inl (App_Err (Db_Err (Unique_Violation ''uq_organization_members_owner'')))
      else Inr (p\<lparr>pf_members := set_row mb_id i (\<lambda>m. m\<lparr>mb_role := r\<rparr>) (pf_members p)\<rparr>))"

section \<open>Operations\<close>

definition create_organization :: "request_context \<Rightarrow> int \<Rightarrow> uuid \<Rightarrow> string \<Rightarrow> platform \<Rightarrow> ((organization \<times> org_role) \<times> platform) pres" where
  "create_organization ctx now user name p =
     (let g = \<lparr>og_id = fresh_id p, og_name = name, og_status = Org_Active, og_created_at = now\<rparr>;
          p1 = use_id p\<lparr>pf_organizations := pf_organizations p @ [g]\<rparr> in
      bind_res (insert_member \<lparr>mb_id = fresh_id p1, mb_org = og_id g, mb_user = user, mb_role = Org_Owner, mb_created_at = now\<rparr> p1) (\<lambda>p2.
        Inr ((g, Org_Owner), audited ctx now ''organization.created'' ''organization'' (og_id g) (Some (og_id g)) [(''name'', JStr name)] p2)))"

definition list_organizations_of :: "uuid \<Rightarrow> platform \<Rightarrow> (organization \<times> org_role) list" where
  "list_organizations_of user p =
     List.map_filter (\<lambda>m. map_option (\<lambda>g. (g, mb_role m)) (row_by og_id (mb_org m) (pf_organizations p)))
       (sort_key mb_created_at (filter (\<lambda>m. mb_user m = user) (pf_members p)))"

definition search_organizations :: "string option \<Rightarrow> org_status option \<Rightarrow> nat \<Rightarrow> cursor option \<Rightarrow> platform \<Rightarrow> organization list \<times> cursor option" where
  "search_organizations name status limit before p =
     keyset_page (\<lambda>g. (og_created_at g, og_id g)) limit before
       (filter (\<lambda>g. (case name of None \<Rightarrow> True | Some n \<Rightarrow> n = [] \<or> ilike (''%'' @ escape_like n @ ''%'') (og_name g)) \<and>
          wanted status (og_status g)) (pf_organizations p))"

definition set_organization_status :: "uuid \<Rightarrow> org_status \<Rightarrow> platform \<Rightarrow> platform" where
  "set_organization_status i st p = p\<lparr>pf_organizations := set_row og_id i (\<lambda>g. g\<lparr>og_status := st\<rparr>) (pf_organizations p)\<rparr>"

definition count_organizations_by_status :: "platform \<Rightarrow> (org_status \<times> nat) list" where
  "count_organizations_by_status p = count_by og_status [Org_Active, Org_Suspended] (pf_organizations p)"

definition rename_organization :: "request_context \<Rightarrow> int \<Rightarrow> uuid \<Rightarrow> string \<Rightarrow> platform \<Rightarrow> (organization \<times> platform) pres" where
  "rename_organization ctx now i name p =
     bind_res (get_organization i p) (\<lambda>before.
     let p1 = p\<lparr>pf_organizations := set_row og_id i (\<lambda>g. g\<lparr>og_name := name\<rparr>) (pf_organizations p)\<rparr>;
         p2 = audited ctx now ''organization.renamed'' ''organization'' i (Some i) [(''from'', JStr (og_name before)), (''to'', JStr name)] p1 in
     bind_res (get_organization i p2) (\<lambda>g. Inr (g, p2)))"

type_synonym member_view = "membership \<times> account"

definition list_members :: "uuid \<Rightarrow> platform \<Rightarrow> member_view list" where
  "list_members org p =
     List.map_filter (\<lambda>m. map_option (Pair m) (find_account (mb_user m) p))
       (sort_key mb_created_at (filter (\<lambda>m. mb_org m = org) (pf_members p)))"

definition require_member :: "uuid \<Rightarrow> uuid \<Rightarrow> platform \<Rightarrow> member_view pres" where
  "require_member org user p =
     bind_res (the_or (find_membership org user p) (Org_Err Member_Not_Found)) (\<lambda>m.
     bind_res (the_or (find_account (mb_user m) p) (Org_Err Member_Not_Found)) (\<lambda>a. Inr (m, a)))"

definition add_member :: "request_context \<Rightarrow> int \<Rightarrow> uuid \<Rightarrow> string \<Rightarrow> org_role \<Rightarrow> platform \<Rightarrow> (member_view \<times> platform) pres" where
  "add_member ctx now org email role p =
     bind_res (the_or (find_account_by_email email p) (Org_Err User_Not_Found_For_Email)) (\<lambda>a.
     let m = \<lparr>mb_id = fresh_id p, mb_org = org, mb_user = ac_id a, mb_role = role, mb_created_at = now\<rparr> in
     case insert_member m p of
       Inl e \<Rightarrow> (if e = App_Err (Db_Err (Unique_Violation ''uq_organization_members_org_user''))
                 then Inl (Org_Err Member_Already_Exists) else Inl e)
     | Inr p1 \<Rightarrow> Inr ((m, a), audited ctx now ''member.added'' ''user'' (ac_id a) (Some org) [(''role'', JStr (org_role_str role))] p1))"

definition change_role_at :: "platform \<Rightarrow> request_context \<Rightarrow> int \<Rightarrow> uuid \<Rightarrow> uuid \<Rightarrow> org_role \<Rightarrow> platform \<Rightarrow> (member_view \<times> platform) pres" where
  "change_role_at seen ctx now org user role p =
     bind_res (require_member org user seen) (\<lambda>(m, a).
       if mb_role m = Org_Owner then Inl (Org_Err Owner_Change_Not_Allowed)
       else
         bind_res (set_member_role (mb_id m) role p) (\<lambda>p1.
           Inr ((m\<lparr>mb_role := role\<rparr>, a), audited ctx now ''member.role_changed'' ''user'' user (Some org)
             [(''from'', JStr (org_role_str (mb_role m))), (''to'', JStr (org_role_str role))] p1)))"

definition change_role :: "request_context \<Rightarrow> int \<Rightarrow> uuid \<Rightarrow> uuid \<Rightarrow> org_role \<Rightarrow> platform \<Rightarrow> (member_view \<times> platform) pres" where
  "change_role ctx now org user role p = change_role_at p ctx now org user role p"

definition remove_member_at :: "platform \<Rightarrow> request_context \<Rightarrow> int \<Rightarrow> uuid \<Rightarrow> uuid \<Rightarrow> platform \<Rightarrow> platform pres" where
  "remove_member_at seen ctx now org user p =
     bind_res (require_member org user seen) (\<lambda>(m, a).
       if mb_role m = Org_Owner then Inl (Org_Err Owner_Change_Not_Allowed)
       else Inr (audited ctx now ''member.removed'' ''user'' user (Some org) [(''role'', JStr (org_role_str (mb_role m)))]
              (p\<lparr>pf_members := filter (\<lambda>x. mb_id x \<noteq> mb_id m) (pf_members p)\<rparr>)))"

definition remove_member :: "request_context \<Rightarrow> int \<Rightarrow> uuid \<Rightarrow> uuid \<Rightarrow> platform \<Rightarrow> platform pres" where
  "remove_member ctx now org user p = remove_member_at p ctx now org user p"

definition demote_owner :: "uuid \<Rightarrow> platform \<Rightarrow> platform" where
  "demote_owner org p =
     p\<lparr>pf_members := map (\<lambda>m. if mb_org m = org \<and> mb_role m = Org_Owner then m\<lparr>mb_role := Org_Admin\<rparr> else m) (pf_members p)\<rparr>"

definition transfer_ownership :: "request_context \<Rightarrow> int \<Rightarrow> uuid \<Rightarrow> uuid \<Rightarrow> platform \<Rightarrow> platform pres" where
  "transfer_ownership ctx now org user p =
     bind_res (the_or (find_membership org user p) (Org_Err Member_Not_Found)) (\<lambda>m.
       if mb_role m = Org_Owner then Inr p
       else
         bind_res (set_member_role (mb_id m) Org_Owner (demote_owner org p)) (\<lambda>p1.
           Inr (audited ctx now ''organization.ownership_transferred'' ''user'' user (Some org)
             [(''previousOwnerUserId'', j_opt j_id (map_option mb_user (find (\<lambda>x. mb_org x = org \<and> mb_role x = Org_Owner) (pf_members p))))] p1)))"

section \<open>One owner per organization\<close>

definition owners :: "uuid \<Rightarrow> platform \<Rightarrow> membership list" where
  "owners org p = filter (\<lambda>m. mb_org m = org \<and> mb_role m = Org_Owner) (pf_members p)"

definition members_ok :: "platform \<Rightarrow> bool" where
  "members_ok p \<longleftrightarrow>
     distinct (map mb_id (pf_members p)) \<and> distinct (map og_id (pf_organizations p)) \<and>
     (\<forall>m \<in> set (pf_members p). mb_id m < fresh_id p \<and> mb_org m \<in> og_id ` set (pf_organizations p)) \<and> (\<forall>g \<in> set (pf_organizations p). og_id g < fresh_id p) \<and>
     distinct (map (\<lambda>m. (mb_org m, mb_user m)) (pf_members p)) \<and>
     (\<forall>g \<in> set (pf_organizations p). length (owners (og_id g) p) = 1)"

text \<open>The operations one after the other, on organizations that exist; everything else leaves the two tables alone.\<close>

inductive org_runs :: "platform \<Rightarrow> bool" where
  no_organizations: "pf_members p = [] \<Longrightarrow> pf_organizations p = [] \<Longrightarrow> org_runs p"
| organization_created: "org_runs p \<Longrightarrow> create_organization ctx now user name p = Inr (r, p') \<Longrightarrow> org_runs p'"
| organization_renamed: "org_runs p \<Longrightarrow> rename_organization ctx now i name p = Inr (g, p') \<Longrightarrow> org_runs p'"
| status_set: "org_runs p \<Longrightarrow> org_runs (set_organization_status i st p)"
| member_added: "org_runs p \<Longrightarrow> org \<in> og_id ` set (pf_organizations p) \<Longrightarrow> add_member ctx now org email role p = Inr (v, p') \<Longrightarrow> org_runs p'"
| role_changed: "org_runs p \<Longrightarrow> change_role ctx now org user role p = Inr (v, p') \<Longrightarrow> org_runs p'"
| member_removed: "org_runs p \<Longrightarrow> remove_member ctx now org user p = Inr p' \<Longrightarrow> org_runs p'"
| ownership_transferred: "org_runs p \<Longrightarrow> transfer_ownership ctx now org user p = Inr p' \<Longrightarrow> org_runs p'"
| elsewhere: "org_runs p \<Longrightarrow> pf_members p' = pf_members p \<Longrightarrow> pf_organizations p' = pf_organizations p \<Longrightarrow> fresh_id p \<le> fresh_id p' \<Longrightarrow> org_runs p'"

lemma org_fresh_simps [simp]:
  "fresh_id (use_id p) = Suc (fresh_id p)" "pf_members (use_id p) = pf_members p" "pf_organizations (use_id p) = pf_organizations p"
  "fresh_id (p\<lparr>pf_members := ms\<rparr>) = fresh_id p" "fresh_id (p\<lparr>pf_organizations := gs\<rparr>) = fresh_id p"
  "fresh_id (audited ctx now a ty i org m p) = Suc (fresh_id p)"
  "pf_members (audited ctx now a ty i org m p) = pf_members p" "pf_organizations (audited ctx now a ty i org m p) = pf_organizations p"
  by (simp_all add: fresh_id_def use_id_def audited_def)

lemma owners_simps [simp]:
  "owners org (use_id p) = owners org p" "owners org (audited ctx now a ty i g m p) = owners org p"
  "owners org (p\<lparr>pf_organizations := gs\<rparr>) = owners org p"
  by (simp_all add: owners_def)

lemma members_ok_cong:
  assumes "members_ok p" and "pf_members p' = pf_members p" and "map og_id (pf_organizations p') = map og_id (pf_organizations p)"
    and "fresh_id p \<le> fresh_id p'"
  shows "members_ok p'"
proof -
  have ids: "og_id ` set (pf_organizations p') = og_id ` set (pf_organizations p)" using assms(3) by (metis set_map)
  have old: "\<exists>g \<in> set (pf_organizations p). og_id g = og_id x" if "x \<in> set (pf_organizations p')" for x
    using that ids by (metis imageE imageI)
  have own: "owners org p' = owners org p" for org by (simp add: owners_def assms(2))
  have "length (owners (og_id x) p') = 1 \<and> og_id x < fresh_id p'" if "x \<in> set (pf_organizations p')" for x
    using old [OF that] assms(1,4) unfolding members_ok_def own by (metis less_le_trans)
  then show ?thesis using assms(1,4) unfolding members_ok_def assms(2,3) ids by (auto intro: less_le_trans)
qed

lemma members_ok_roles:
  assumes "members_ok p" and "pf_members p' = map f (pf_members p)" and "pf_organizations p' = pf_organizations p" and "fresh_id p \<le> fresh_id p'"
    and "\<And>m. mb_id (f m) = mb_id m \<and> mb_org (f m) = mb_org m \<and> mb_user (f m) = mb_user m"
    and "\<And>g. g \<in> set (pf_organizations p) \<Longrightarrow> length (owners (og_id g) p') = 1"
  shows "members_ok p'"
  using assms unfolding members_ok_def by (auto simp: comp_def intro: less_le_trans)

lemma find_membership_Some:
  "find_membership org user p = Some m \<Longrightarrow> m \<in> set (pf_members p) \<and> mb_org m = org \<and> mb_user m = user"
  by (auto simp: find_membership_def find_Some_iff)

lemma require_member_Inr:
  "require_member org user p = Inr (m, a) \<Longrightarrow> m \<in> set (pf_members p) \<and> mb_org m = org \<and> mb_user m = user"
  by (auto simp: require_member_def bind_res_Inr_iff dest: find_membership_Some)

lemma set_member_role_Inr:
  assumes "set_member_role i r p = Inr p'"
  shows "pf_members p' = set_row mb_id i (\<lambda>m. m\<lparr>mb_role := r\<rparr>) (pf_members p)" "pf_organizations p' = pf_organizations p"
    "fresh_id p' = fresh_id p"
  using assms by (auto simp: set_member_role_def fresh_id_def split: if_splits)

text \<open>Changing the role of a member who is not the owner, to a role that is not the owner's.\<close>

lemma owners_role_changed:
  assumes "distinct (map mb_id (pf_members p))" and "m \<in> set (pf_members p)" and "mb_role m \<noteq> Org_Owner" and "r \<noteq> Org_Owner"
    and "pf_members p' = set_row mb_id (mb_id m) (\<lambda>x. x\<lparr>mb_role := r\<rparr>) (pf_members p)"
  shows "owners org p' = owners org p"
proof -
  have same: "x = m" if "x \<in> set (pf_members p)" "mb_id x = mb_id m" for x
    using that assms(1,2) by (auto simp: distinct_map inj_on_def)
  have "filter (\<lambda>m. mb_org m = org \<and> mb_role m = Org_Owner) (set_row mb_id (mb_id m) (\<lambda>x. x\<lparr>mb_role := r\<rparr>) ms) =
      filter (\<lambda>m. mb_org m = org \<and> mb_role m = Org_Owner) ms" if "set ms \<subseteq> set (pf_members p)" for ms
    using that assms(3,4) by (induction ms) (auto simp: set_row_def dest: same)
  then show ?thesis unfolding owners_def assms(5) by simp
qed

lemma owner_blocks:
  assumes "set_member_role i Org_Owner p = Inr p'" and "m \<in> set (pf_members p)" and "mb_id m = i" and "distinct (map mb_id (pf_members p))"
    and "mb_role m \<noteq> Org_Owner"
  shows "owners (mb_org m) p = []"
proof -
  have "False" if "x \<in> set (pf_members p)" "mb_org x = mb_org m" "mb_role x = Org_Owner" for x
  proof -
    have "mb_id x \<noteq> i" using that assms(2-5) by (auto simp: distinct_map inj_on_def)
    then show False using that assms(1-3) by (auto simp: set_member_role_def split: if_splits)
  qed
  then show ?thesis by (auto simp: owners_def filter_empty_conv)
qed

lemma one_owner:
  "members_ok p \<Longrightarrow> m \<in> set (pf_members p) \<Longrightarrow> length (owners (mb_org m) p) = 1"
  unfolding members_ok_def by auto

lemma set_role_ok:
  assumes "members_ok p" and "m \<in> set (pf_members p)" and "mb_role m \<noteq> Org_Owner" and "set_member_role (mb_id m) r p = Inr p'"
  shows "members_ok p'"
proof -
  note eff = set_member_role_Inr [OF assms(4)]
  have d: "distinct (map mb_id (pf_members p))" using assms(1) by (simp add: members_ok_def)
  have r: "r \<noteq> Org_Owner"
  proof
    assume "r = Org_Owner"
    then have "owners (mb_org m) p = []" using owner_blocks [OF _ assms(2) refl d assms(3)] assms(4) by simp
    then show False using one_owner [OF assms(1,2)] by simp
  qed
  have "owners org p' = owners org p" for org by (rule owners_role_changed [OF d assms(2,3) r eff(1)])
  then show ?thesis using assms(1)
    by (intro members_ok_roles [OF assms(1) eff(1) [unfolded set_row_def] eff(2)]) (auto simp: eff(3) members_ok_def)
qed

lemma insert_member_Inr:
  assumes "insert_member m p = Inr p'"
  shows "pf_members p' = pf_members p @ [m]" "pf_organizations p' = pf_organizations p" "fresh_id p' = Suc (fresh_id p)"
    "\<forall>x \<in> set (pf_members p). \<not> (mb_org x = mb_org m \<and> mb_user x = mb_user m)" "mb_role m = Org_Owner \<longrightarrow> owners (mb_org m) p = []"
  using assms by (auto simp: insert_member_def owners_def filter_empty_conv split: if_splits)

lemma insert_member_ok:
  assumes "members_ok p" and "insert_member m p = Inr p'" and "mb_id m = fresh_id p" and "mb_org m \<in> og_id ` set (pf_organizations p)"
  shows "members_ok p'"
proof -
  note new = insert_member_Inr [OF assms(2)]
  have "length (owners (mb_org m) p) = 1" using assms(1,4) by (auto simp: members_ok_def)
  then have role: "mb_role m \<noteq> Org_Owner" using new(5) by auto
  have "fresh_id p \<notin> mb_id ` set (pf_members p)" using assms(1) unfolding members_ok_def by (metis imageE less_irrefl)
  moreover have "(mb_org m, mb_user m) \<notin> (\<lambda>m. (mb_org m, mb_user m)) ` set (pf_members p)" using new(4) by auto
  ultimately show ?thesis
    using assms(1,3,4) role unfolding members_ok_def by (auto simp: new owners_def intro: less_SucI)
qed

lemma add_member_Inr:
  assumes "add_member ctx now org email role p = Inr (v, p')"
  shows "\<exists>m q. insert_member m p = Inr q \<and> mb_id m = fresh_id p \<and> mb_org m = org \<and> pf_members p' = pf_members q \<and>
    pf_organizations p' = pf_organizations q \<and> fresh_id p' = Suc (fresh_id q)"
proof -
  obtain a where a: "find_account_by_email email p = Some a"
    using assms by (cases "find_account_by_email email p") (auto simp: add_member_def the_or_def)
  define m where "m = \<lparr>mb_id = fresh_id p, mb_org = org, mb_user = ac_id a, mb_role = role, mb_created_at = now\<rparr>"
  have "add_member ctx now org email role p = (case insert_member m p of
       Inl e \<Rightarrow> (if e = App_Err (Db_Err (Unique_Violation ''uq_organization_members_org_user''))
                 then Inl (Org_Err Member_Already_Exists) else Inl e)
     | Inr p1 \<Rightarrow> Inr ((m, a), audited ctx now ''member.added'' ''user'' (ac_id a) (Some org) [(''role'', JStr (org_role_str role))] p1))"
    unfolding m_def by (simp add: add_member_def a the_or_def Let_def)
  then obtain q where q: "insert_member m p = Inr q" "p' = audited ctx now ''member.added'' ''user'' (ac_id a) (Some org) [(''role'', JStr (org_role_str role))] q"
    using assms by (cases "insert_member m p") (auto split: if_splits)
  then show ?thesis by (intro exI [of _ m] exI [of _ q]) (simp add: m_def)
qed

text \<open>A new organization comes with its owner.\<close>

lemma created_ok:
  assumes "members_ok p" and "create_organization ctx now user name p = Inr (r, p')"
  shows "members_ok p'"
proof -
  define g where "g = \<lparr>og_id = fresh_id p, og_name = name, og_status = Org_Active, og_created_at = now\<rparr>"
  define m where "m = \<lparr>mb_id = Suc (fresh_id p), mb_org = fresh_id p, mb_user = user, mb_role = Org_Owner, mb_created_at = now\<rparr>"
  obtain p2 where i: "insert_member m (use_id p\<lparr>pf_organizations := pf_organizations p @ [g]\<rparr>) = Inr p2"
    and p': "p' = audited ctx now ''organization.created'' ''organization'' (fresh_id p) (Some (fresh_id p)) [(''name'', JStr name)] p2"
    using assms(2) by (auto simp: create_organization_def bind_res_Inr_iff Let_def g_def m_def)
  note new = insert_member_Inr [OF i, simplified]
  have none: "mb_org x \<noteq> fresh_id p" "mb_id x < fresh_id p" if "x \<in> set (pf_members p)" for x
    using assms(1) that unfolding members_ok_def by fastforce+
  have og: "og_id x < fresh_id p" if "x \<in> set (pf_organizations p)" for x using assms(1) that unfolding members_ok_def by auto
  have own: "owners org p2 = owners org p @ (if org = fresh_id p then [m] else [])" for org
    using new(1) by (auto simp: owners_def m_def)
  have "owners (fresh_id p) p = []" using none(1) by (auto simp: owners_def filter_empty_conv)
  then have "length (owners (og_id x) p2) = 1" if "x \<in> set (pf_organizations p @ [g])" for x
    using that og [of x] assms(1) unfolding own by (auto simp: g_def members_ok_def)
  moreover have "Suc (fresh_id p) \<notin> mb_id ` set (pf_members p)" using none(2) by (metis imageE lessI order_less_asym)
  moreover have "fresh_id p \<notin> mb_org ` set (pf_members p)" using none(1) by (metis imageE)
  ultimately have "(\<forall>x \<in> set (pf_organizations p @ [g]). length (owners (og_id x) p2) = 1) \<and>
      distinct (map mb_id (pf_members p2)) \<and> distinct (map (\<lambda>m. (mb_org m, mb_user m)) (pf_members p2))"
    using assms(1) unfolding members_ok_def by (auto simp: new(1) m_def image_iff)
  moreover have "distinct (map og_id (pf_organizations p2))" using assms(1) og unfolding members_ok_def by (auto simp: new(2) g_def dest: og)
  moreover have "mb_id x < fresh_id p' \<and> mb_org x \<in> og_id ` set (pf_organizations p2)" if "x \<in> set (pf_members p2)" for x
    using that assms(1) unfolding members_ok_def by (fastforce simp: new p' m_def g_def)
  moreover have "og_id x < fresh_id p'" if "x \<in> set (pf_organizations p2)" for x
    using that og by (fastforce simp: new p' g_def)
  ultimately show ?thesis unfolding members_ok_def by (simp add: p' new(2))
qed

lemma removed_ok:
  assumes "members_ok p" and "m \<in> set (pf_members p)" and "mb_role m \<noteq> Org_Owner"
    and "pf_members p' = filter (\<lambda>x. mb_id x \<noteq> mb_id m) (pf_members p)" and "pf_organizations p' = pf_organizations p"
    and "fresh_id p \<le> fresh_id p'"
  shows "members_ok p'"
proof -
  have "mb_id x \<noteq> mb_id m" if "x \<in> set (pf_members p)" "mb_role x = Org_Owner" for x
    using that assms(1-3) by (auto simp: members_ok_def distinct_map inj_on_def)
  then have "owners org p' = owners org p" for org
    unfolding owners_def assms(4) filter_filter by (auto intro!: filter_cong)
  then show ?thesis using assms(1,6) unfolding members_ok_def assms(4,5) by (auto simp: distinct_map_filter intro: less_le_trans)
qed

text \<open>Handing ownership over: the owner is demoted, then the member promoted.\<close>

lemma transferred_owners:
  assumes "distinct (map mb_id ms)" and "m \<in> set ms"
  shows "length (filter (\<lambda>x. mb_org x = mb_org m \<and> mb_id x = mb_id m) ms) = 1"
proof -
  have "filter (\<lambda>x. mb_org x = mb_org m \<and> mb_id x = mb_id m) ms = [m]"
    using assms by (induction ms) (auto simp: filter_empty_conv image_iff)
  then show ?thesis by simp
qed

lemma transfer_ok:
  assumes "members_ok p" and "transfer_ownership ctx now org user p = Inr p'"
  shows "members_ok p'"
proof -
  obtain m where m: "find_membership org user p = Some m" using assms(2) by (auto simp: transfer_ownership_def bind_res_Inr_iff)
  note mp = find_membership_Some [OF m]
  show ?thesis
  proof (cases "mb_role m = Org_Owner")
    case True
    then show ?thesis using assms m by (auto simp: transfer_ownership_def bind_res_Inr_iff)
  next
    case False
    then obtain p1 where s: "set_member_role (mb_id m) Org_Owner (demote_owner org p) = Inr p1"
      and p': "pf_members p' = pf_members p1" "pf_organizations p' = pf_organizations p1" "fresh_id p' = Suc (fresh_id p1)"
      using assms(2) m by (auto simp: transfer_ownership_def bind_res_Inr_iff)
    let ?d = "\<lambda>x. if mb_org x = org \<and> mb_role x = Org_Owner then x\<lparr>mb_role := Org_Admin\<rparr> else x"
    let ?f = "\<lambda>x. let y = ?d x in if mb_id y = mb_id m then y\<lparr>mb_role := Org_Owner\<rparr> else y"
    have ms: "pf_members p' = map ?f (pf_members p)" "pf_organizations p' = pf_organizations p" "fresh_id p \<le> fresh_id p'"
      using set_member_role_Inr [OF s] p' by (auto simp: demote_owner_def set_row_def fresh_id_def)
    have d: "distinct (map mb_id (pf_members p))" using assms(1) by (simp add: members_ok_def)
    have count: "length (owners g p') = length (filter (\<lambda>x. if g = org then mb_org x = org \<and> mb_id x = mb_id m else mb_org x = g \<and> mb_role x = Org_Owner) ms)"
      if "ms = pf_members p" for g ms
    proof -
      have same: "x = m" if "x \<in> set ms" "mb_id x = mb_id m" for x
        using that \<open>ms = pf_members p\<close> mp d by (auto simp: distinct_map inj_on_def)
      have "filter (\<lambda>x. mb_org (?f x) = g \<and> mb_role (?f x) = Org_Owner) ms =
          filter (\<lambda>x. if g = org then mb_org x = org \<and> mb_id x = mb_id m else mb_org x = g \<and> mb_role x = Org_Owner) ms"
        using mp by (intro filter_cong refl) (auto simp: Let_def dest: same)
      then show ?thesis by (simp add: owners_def ms(1) filter_map comp_def that)
    qed
    have "length (owners (og_id g) p') = 1" if "g \<in> set (pf_organizations p)" for g
    proof (cases "og_id g = org")
      case True
      then show ?thesis using count [OF refl, of org] transferred_owners [OF d, of m] mp by simp
    next
      case False
      then show ?thesis using count [OF refl, of "og_id g"] assms(1) that by (simp add: members_ok_def owners_def)
    qed
    then show ?thesis by (intro members_ok_roles [OF assms(1) ms]) (auto simp: Let_def)
  qed
qed

lemma org_runs_ok: "org_runs p \<Longrightarrow> members_ok p"
proof (induction rule: org_runs.induct)
  case (no_organizations p)
  then show ?case by (simp add: members_ok_def)
next
  case (organization_created p ctx now user name r p')
  then show ?case by (blast intro: created_ok)
next
  case (organization_renamed p ctx now i name g p')
  then have p': "pf_members p' = pf_members p" "fresh_id p' = Suc (fresh_id p)"
      "pf_organizations p' = set_row og_id i (\<lambda>g. g\<lparr>og_name := name\<rparr>) (pf_organizations p)"
    by (auto simp: rename_organization_def bind_res_Inr_iff Let_def)
  then have "map og_id (pf_organizations p') = map og_id (pf_organizations p)" by (simp add: set_row_def)
  then show ?case using organization_renamed(3) p' by (intro members_ok_cong [of p p']) simp_all
next
  case (status_set p i st)
  have "pf_members (set_organization_status i st p) = pf_members p" "fresh_id (set_organization_status i st p) = fresh_id p"
    "map og_id (pf_organizations (set_organization_status i st p)) = map og_id (pf_organizations p)"
    by (simp_all add: set_organization_status_def set_row_def)
  then show ?case using status_set(2) members_ok_cong [of p "set_organization_status i st p"] by simp
next
  case (member_added p org ctx now email role v p')
  from add_member_Inr [OF member_added(3)] obtain m q where i: "insert_member m p = Inr q" "mb_id m = fresh_id p" "mb_org m = org"
    and p': "pf_members p' = pf_members q" "pf_organizations p' = pf_organizations q" "fresh_id p' = Suc (fresh_id q)" by auto
  then show ?case using member_added insert_member_ok [OF _ i(1,2)] by (intro members_ok_cong [of q p']) auto
next
  case (role_changed p ctx now org user role v p')
  then obtain m a q where m: "require_member org user p = Inr (m, a)" "mb_role m \<noteq> Org_Owner" "set_member_role (mb_id m) role p = Inr q"
    and p': "pf_members p' = pf_members q" "pf_organizations p' = pf_organizations q" "fresh_id p' = Suc (fresh_id q)"
    by (auto simp: change_role_def change_role_at_def bind_res_Inr_iff split: if_splits)
  have "members_ok q" using set_role_ok [OF role_changed(3) _ m(2,3)] require_member_Inr [OF m(1)] by blast
  then show ?case using p' by (intro members_ok_cong [of q p']) auto
next
  case (member_removed p ctx now org user p')
  then obtain m a where m: "require_member org user p = Inr (m, a)" "mb_role m \<noteq> Org_Owner"
    and p': "pf_members p' = filter (\<lambda>x. mb_id x \<noteq> mb_id m) (pf_members p)" "pf_organizations p' = pf_organizations p" "fresh_id p \<le> fresh_id p'"
    by (auto simp: remove_member_def remove_member_at_def bind_res_Inr_iff split: if_splits)
  then show ?case using removed_ok [OF member_removed(3) _ m(2) p'] require_member_Inr [OF m(1)] by blast
next
  case (ownership_transferred p ctx now org user p')
  then show ?case by (blast intro: transfer_ok)
next
  case (elsewhere p p')
  then show ?case by (intro members_ok_cong [of p p']) auto
qed

text \<open>
  C25. However organizations are created and managed, one operation after the other, every
  organization has exactly one owner and no user is twice a member of one.
\<close>

theorem one_owner_each:
  assumes "org_runs p" and "g \<in> set (pf_organizations p)"
  shows "(\<exists>!m. m \<in> set (pf_members p) \<and> mb_org m = og_id g \<and> mb_role m = Org_Owner) \<and>
    distinct (map (\<lambda>m. (mb_org m, mb_user m)) (pf_members p))"
proof -
  note ok = org_runs_ok [OF assms(1)]
  then have "length (owners (og_id g) p) = 1" using assms(2) by (simp add: members_ok_def)
  then obtain m where "owners (og_id g) p = [m]" by (cases "owners (og_id g) p") auto
  then have "set (owners (og_id g) p) = {m}" by simp
  then have m: "x \<in> set (pf_members p) \<and> mb_org x = og_id g \<and> mb_role x = Org_Owner \<longleftrightarrow> x = m" for x by (auto simp: owners_def set_eq_iff)
  then have "\<exists>!m. m \<in> set (pf_members p) \<and> mb_org m = og_id g \<and> mb_role m = Org_Owner" by (intro ex1I [of _ m]) (use m in blast)+
  then show ?thesis using ok unfolding members_ok_def by blast
qed

lemma role_rewritten:
  assumes "x \<in> set (set_row mb_id i (\<lambda>x. x\<lparr>mb_role := r\<rparr>) (set_row mb_id i (\<lambda>x. x\<lparr>mb_role := r'\<rparr>) ms))"
  shows "\<exists>y \<in> set ms. mb_org x = mb_org y \<and> mb_role x = (if mb_id y = i then r else mb_role y)"
proof -
  obtain y where "y \<in> set ms" "x = (let z = (if mb_id y = i then y\<lparr>mb_role := r'\<rparr> else y) in if mb_id z = i then z\<lparr>mb_role := r\<rparr> else z)"
    using assms by (auto simp: set_row_def Let_def image_image)
  then show ?thesis by (intro bexI [of _ y]) (simp_all add: Let_def)
qed

lemma demoted: "y \<in> set (pf_members (demote_owner org p)) \<Longrightarrow> mb_org y = org \<Longrightarrow> mb_role y \<noteq> Org_Owner"
proof -
  let ?f = "\<lambda>m. if mb_org m = org \<and> mb_role m = Org_Owner then m\<lparr>mb_role := Org_Admin\<rparr> else m"
  assume y: "y \<in> set (pf_members (demote_owner org p))" "mb_org y = org"
  have "pf_members (demote_owner org p) = map ?f (pf_members p)" by (simp add: demote_owner_def)
  with y(1) have "y \<in> ?f ` set (pf_members p)" by (simp only: set_map)
  then obtain x where x: "y = ?f x" by (rule imageE)
  then show ?thesis using y(2) by (cases "mb_org x = org \<and> mb_role x = Org_Owner") auto
qed

text \<open>
  C26. Overlapping operations can leave an organization without an owner: when ownership is
  handed to a member after a change of that member's role has read the member and before it
  writes, the change demotes the new owner.
\<close>

theorem stale_role_change_loses_owner:
  assumes "org_runs p" and "transfer_ownership ctx now org user p = Inr p1" and "role \<noteq> Org_Owner"
    and "change_role_at p ctx' now' org user role p1 = Inr (v, p2)"
  shows "\<forall>m \<in> set (pf_members p2). mb_org m = org \<longrightarrow> mb_role m \<noteq> Org_Owner"
proof -
  note ok = org_runs_ok [OF assms(1)]
  obtain m a q where m: "require_member org user p = Inr (m, a)" "mb_role m \<noteq> Org_Owner" "set_member_role (mb_id m) role p1 = Inr q"
    and p2: "pf_members p2 = pf_members q"
    using assms(4) by (auto simp: change_role_at_def bind_res_Inr_iff split: if_splits)
  have found: "find_membership org user p = Some m" using m(1) by (auto simp: require_member_def bind_res_Inr_iff)
  note mp = find_membership_Some [OF found]
  obtain r where r: "set_member_role (mb_id m) Org_Owner (demote_owner org p) = Inr r" and p1: "pf_members p1 = pf_members r"
    using assms(2) found m(2) by (auto simp: transfer_ownership_def bind_res_Inr_iff)
  have p2': "pf_members p2 = set_row mb_id (mb_id m) (\<lambda>x. x\<lparr>mb_role := role\<rparr>)
      (set_row mb_id (mb_id m) (\<lambda>x. x\<lparr>mb_role := Org_Owner\<rparr>) (pf_members (demote_owner org p)))"
    using set_member_role_Inr(1) [OF m(3)] set_member_role_Inr(1) [OF r] p1 p2 by simp
  have "\<exists>y \<in> set (pf_members (demote_owner org p)). mb_org x = mb_org y \<and> mb_role x = (if mb_id y = mb_id m then role else mb_role y)"
    if "x \<in> set (pf_members p2)" for x
    using role_rewritten [of x] that p2' by metis
  then show ?thesis using assms(3) demoted by (metis (full_types))
qed

definition demo_account :: "uuid \<Rightarrow> string \<Rightarrow> account" where
  "demo_account i email = \<lparr>ac_id = i, ac_email = email, ac_password_hash = [], ac_first_name = [], ac_last_name = [],
     ac_role = Role_User, ac_status = User_Active, ac_created_at = 0\<rparr>"

definition demo_users :: platform where
  "demo_users = empty_platform\<lparr>pf_accounts := [demo_account 901 ''a'', demo_account 902 ''b'']\<rparr>"

definition demo_founded :: platform where
  "demo_founded = (case create_organization system_context 1 901 ''acme'' demo_users of Inl e \<Rightarrow> demo_users | Inr (r, p) \<Rightarrow> p)"

definition demo_joined :: platform where
  "demo_joined = (case add_member system_context 2 0 ''b'' Org_Member demo_founded of Inl e \<Rightarrow> demo_founded | Inr (r, p) \<Rightarrow> p)"

lemma demo_organization: "org_runs demo_founded" "org_runs demo_joined"
proof -
  have "org_runs demo_users" by (rule no_organizations) (simp_all add: demo_users_def empty_platform_def)
  moreover have "\<not> isl (create_organization system_context 1 901 ''acme'' demo_users)" by code_simp
  then obtain r where "create_organization system_context 1 901 ''acme'' demo_users = Inr (r, demo_founded)"
    unfolding demo_founded_def by (cases "create_organization system_context 1 901 ''acme'' demo_users") auto
  ultimately show f: "org_runs demo_founded" by (rule organization_created)
  have "\<not> isl (add_member system_context 2 0 ''b'' Org_Member demo_founded)" by code_simp
  then obtain v where "add_member system_context 2 0 ''b'' Org_Member demo_founded = Inr (v, demo_joined)"
    unfolding demo_joined_def by (cases "add_member system_context 2 0 ''b'' Org_Member demo_founded") auto
  moreover have "map og_id (pf_organizations demo_founded) = [0]" by code_simp
  then have "0 \<in> og_id ` set (pf_organizations demo_founded)" by (metis list.set_intros(1) set_map)
  ultimately show "org_runs demo_joined" using member_added [OF f] by blast
qed

theorem one_owner_each_witness:
  "\<exists>g \<in> set (pf_organizations demo_joined). \<exists>!m. m \<in> set (pf_members demo_joined) \<and> mb_org m = og_id g \<and> mb_role m = Org_Owner"
proof -
  have "pf_organizations demo_joined \<noteq> []" by code_simp
  then obtain g where "g \<in> set (pf_organizations demo_joined)" by (cases "pf_organizations demo_joined") auto
  then show ?thesis using one_owner_each [OF demo_organization(2)] by blast
qed

theorem stale_role_change_loses_owner_witness:
  "\<exists>p1 v p2. transfer_ownership system_context 3 0 902 demo_joined = Inr p1 \<and>
     change_role_at demo_joined system_context 3 0 902 Org_Admin p1 = Inr (v, p2) \<and>
     (\<forall>m \<in> set (pf_members p2). mb_org m = 0 \<longrightarrow> mb_role m \<noteq> Org_Owner)"
proof -
  have "(case transfer_ownership system_context 3 0 902 demo_joined of Inl e \<Rightarrow> False
         | Inr p1 \<Rightarrow> \<not> isl (change_role_at demo_joined system_context 3 0 902 Org_Admin p1))" by code_simp
  then obtain p1 v p2 where p: "transfer_ownership system_context 3 0 902 demo_joined = Inr p1"
    "change_role_at demo_joined system_context 3 0 902 Org_Admin p1 = Inr (v, p2)"
    by (auto split: sum.splits) (metis isl_def old.sum.exhaust prod.collapse)
  then show ?thesis using stale_role_change_loses_owner [OF demo_organization(2) p(1) _ p(2)] by blast
qed

end
