(* ===== verification/Access.thy ===== *)
theory Access
  imports Organizations Sessions
begin

text \<open>
  Who may call what: API keys (\<open>src/api-keys\<close>), the permissions of platform staff
  (\<open>auth/platform-permissions.ts\<close>), and the three guards every request passes in this order,
  \<open>JwtAuthGuard\<close> and \<open>RolesGuard\<close> for every route, \<open>OrganizationAccessGuard\<close> on the
  controllers of organizations. \<open>route\<close> is what the decorators of a handler declare. The
  hash of a key, the random parts of a new one and the verification of a JWT are parameters.
\<close>

section \<open>API keys\<close>

definition API_KEY_SCOPES :: "org_permission list" where
  "API_KEY_SCOPES = [Read_Organization, Read_Wallets, Manage_Wallets, Create_Payments, Read_Transactions, Create_Payouts, Propose_Actions]"

definition is_lower_hex :: "char \<Rightarrow> bool" where
  "is_lower_hex c \<longleftrightarrow> is_digit c \<or> c \<in> set ''abcdef''"

definition is_base64url :: "char \<Rightarrow> bool" where
  "is_base64url c \<longleftrightarrow> CHR ''A'' \<le> c \<and> c \<le> CHR ''Z'' \<or> CHR ''a'' \<le> c \<and> c \<le> CHR ''z'' \<or> is_digit c \<or> c \<in> set ''_-''"

definition key_format :: "string \<Rightarrow> bool" where
  "key_format k \<longleftrightarrow>
     (take 9 k = ''fsk_test_'' \<or> take 9 k = ''fsk_live_'') \<and> length k = 61 \<and>
     list_all is_lower_hex (take 8 (drop 9 k)) \<and> k ! 17 = CHR ''_'' \<and> list_all is_base64url (drop 18 k)"

record api_key_input =
  ki_org :: uuid
  ki_creator :: uuid
  ki_creator_role :: org_role
  ki_name :: string
  ki_scopes :: "org_permission list"
  ki_expires_at :: "int option"

definition key_environment :: "bool \<Rightarrow> string" where
  "key_environment livemode = (if livemode then ''live'' else ''test'')"

definition create_api_key :: "(string \<Rightarrow> string) \<Rightarrow> bool \<Rightarrow> request_context \<Rightarrow> int \<Rightarrow> string \<Rightarrow> string \<Rightarrow> api_key_input \<Rightarrow> platform \<Rightarrow>
    ((api_key \<times> string) \<times> platform) pres" where
  "create_api_key sha livemode ctx now ident random inp p =
     (let scopes = rev (remdups (rev (ki_scopes inp)));
          refused = filter (\<lambda>x. \<not> role_has_permission (ki_creator_role inp) x) scopes;
          prefix = ''fsk_'' @ key_environment livemode @ ''_'' @ ident;
          secret = prefix @ ''_'' @ random in
      if refused \<noteq> [] then Inl (Key_Err (Api_Key_Scope_Not_Grantable refused))
      else if scopes = [] then Inl (App_Err (Db_Err (Check_Violation ''chk_api_keys_scopes_not_empty'')))
      else if prefix \<in> ak_prefix ` set (pf_api_keys p) then Inl (App_Err (Db_Err (Unique_Violation ''uq_api_keys_prefix'')))
      else if sha secret \<in> ak_hash ` set (pf_api_keys p) then Inl (App_Err (Db_Err (Unique_Violation ''uq_api_keys_key_hash'')))
      else
        let k = \<lparr>ak_id = fresh_id p, ak_org = ki_org inp, ak_name = ki_name inp, ak_prefix = prefix, ak_hash = sha secret,
                 ak_scopes = scopes, ak_created_by = Some (ki_creator inp), ak_last_used_at = None,
                 ak_expires_at = ki_expires_at inp, ak_revoked_at = None, ak_created_at = now\<rparr> in
        Inr ((k, secret), audited ctx now ''api_key.created'' ''api_key'' (ak_id k) (Some (ki_org inp))
          [(''name'', JStr (ak_name k)), (''prefix'', JStr prefix), (''scopes'', JArr (map (\<lambda>x. JStr (org_permission_str x)) scopes)),
           (''expiresAt'', j_opt JNum (ak_expires_at k))] (use_id p\<lparr>pf_api_keys := pf_api_keys p @ [k]\<rparr>)))"

definition list_api_keys :: "uuid \<Rightarrow> platform \<Rightarrow> api_key list" where
  "list_api_keys org p = newest_first ak_created_at (filter (\<lambda>k. ak_org k = org) (pf_api_keys p))"

definition revoke_api_key :: "request_context \<Rightarrow> int \<Rightarrow> uuid \<Rightarrow> uuid \<Rightarrow> platform \<Rightarrow> platform pres" where
  "revoke_api_key ctx now org i p =
     (if \<exists>k \<in> set (pf_api_keys p). ak_id k = i \<and> ak_org k = org \<and> ak_revoked_at k = None
      then Inr (audited ctx now ''api_key.revoked'' ''api_key'' i (Some org) []
             (p\<lparr>pf_api_keys := map (\<lambda>k. if ak_id k = i \<and> ak_org k = org \<and> ak_revoked_at k = None
                                      then k\<lparr>ak_revoked_at := Some now\<rparr> else k) (pf_api_keys p)\<rparr>))
      else if \<exists>k \<in> set (pf_api_keys p). ak_id k = i \<and> ak_org k = org then Inr p
      else Inl (Key_Err Api_Key_Not_Found))"

record principal =
  pp_id :: uuid
  pp_org :: uuid
  pp_scopes :: "org_permission list"

definition LAST_USED_RESOLUTION_MS :: int where
  "LAST_USED_RESOLUTION_MS = 60000"

text \<open>At most one write per key and minute.\<close>

definition touch_api_key :: "int \<Rightarrow> api_key \<Rightarrow> platform \<Rightarrow> platform" where
  "touch_api_key now k p =
     (if (case ak_last_used_at k of None \<Rightarrow> True | Some t \<Rightarrow> now - t > LAST_USED_RESOLUTION_MS)
      then p\<lparr>pf_api_keys := set_row ak_id (ak_id k)
             (\<lambda>x. if (case ak_last_used_at x of None \<Rightarrow> True | Some t \<Rightarrow> t < now - LAST_USED_RESOLUTION_MS)
                  then x\<lparr>ak_last_used_at := Some now\<rparr> else x) (pf_api_keys p)\<rparr>
      else p)"

definition authenticate_key :: "(string \<Rightarrow> string) \<Rightarrow> int \<Rightarrow> string \<Rightarrow> platform \<Rightarrow> (principal option \<times> platform) pres" where
  "authenticate_key sha now presented p =
     (if \<not> key_format presented then Inr (None, p)
      else (case row_by ak_hash (sha presented) (pf_api_keys p) of
          None \<Rightarrow> Inr (None, p)
        | Some k \<Rightarrow>
            if ak_revoked_at k \<noteq> None \<or> (case ak_expires_at k of None \<Rightarrow> False | Some t \<Rightarrow> t \<le> now) then Inr (None, p)
            else
              bind_res (get_organization (ak_org k) p) (\<lambda>g.
                if og_status g \<noteq> Org_Active then Inr (None, p)
                else Inr (Some \<lparr>pp_id = ak_id k, pp_org = ak_org k, pp_scopes = ak_scopes k\<rparr>, touch_api_key now k p))))"

section \<open>Platform staff\<close>

definition SUPPORT :: "platform_permission list" where
  "SUPPORT = [Read_Overview, Read_Users, Read_Organizations, Platform_Read_Wallets, Platform_Read_Audit_Logs, Read_Payments,
     Read_Refunds, Read_Payouts]"

definition ALL_PLATFORM_PERMISSIONS :: "platform_permission list" where
  "ALL_PLATFORM_PERMISSIONS =
     [Read_Overview, Read_Users, Manage_Users, Read_Organizations, Manage_Organizations, Platform_Read_Wallets,
      Platform_Manage_Wallets, Platform_Read_Audit_Logs, Read_Payments, Read_Refunds, Read_Payouts, Manage_Payouts,
      Manage_Refunds, Manage_Payments, Manage_Reconciliation, Manage_Provider_Webhooks, Manage_Fx_Rates, Manage_Fees,
      Manage_Limits, Manage_Roles]"

fun platform_role_permissions :: "user_role \<Rightarrow> platform_permission list" where
  "platform_role_permissions Role_User = []"
| "platform_role_permissions Role_Support = SUPPORT"
| "platform_role_permissions Role_Risk = SUPPORT @
     [Manage_Users, Manage_Organizations, Platform_Manage_Wallets, Manage_Limits, Manage_Payouts]"
| "platform_role_permissions Role_Finance = SUPPORT @
     [Manage_Refunds, Manage_Payments, Manage_Reconciliation, Manage_Provider_Webhooks, Manage_Fx_Rates, Manage_Fees, Manage_Payouts]"
| "platform_role_permissions Role_Admin = ALL_PLATFORM_PERMISSIONS"

definition role_has_platform_permission :: "user_role \<Rightarrow> platform_permission \<Rightarrow> bool" where
  "role_has_platform_permission r x \<longleftrightarrow> x \<in> set (platform_role_permissions r)"

section \<open>Requests and routes\<close>

text \<open>What decorators declare: on the handler, or on its class where the handler says nothing.\<close>

record route =
  ro_public :: bool
  ro_allow_api_key :: bool
  ro_platform :: "platform_permission option"
  ro_roles :: "user_role list"
  ro_org :: "org_permission list"

record raw_request =
  rw_api_key :: "string option"
  rw_authorization :: "string option"
  rw_organization :: "string option"

datatype access = Member_Access uuid org_role | Key_Access uuid uuid

record caller =
  cl_user :: "(uuid \<times> user_role) option"
  cl_key :: "principal option"
  cl_actor :: actor
  cl_access :: "access option"

definition anonymous :: caller where
  "anonymous = \<lparr>cl_user = None, cl_key = None, cl_actor = Actor_System, cl_access = None\<rparr>"

fun split_spaces :: "string \<Rightarrow> string list" where
  "split_spaces [] = [[]]"
| "split_spaces (c # s) =
     (if c = CHR '' '' then [] # split_spaces s
      else (case split_spaces s of [] \<Rightarrow> [[c]] | w # ws \<Rightarrow> (c # w) # ws))"

definition extract_bearer_token :: "string option \<Rightarrow> string option" where
  "extract_bearer_token h =
     (case h of
        None \<Rightarrow> None
      | Some t \<Rightarrow> (case split_spaces t of
          [scheme, token] \<Rightarrow> if map lower_char scheme \<noteq> ''bearer'' \<or> token = [] then None else Some token
        | _ \<Rightarrow> None))"

text \<open>The id a token names is a text; an account is found when it is the id of one.\<close>

definition account_of_claims :: "string \<Rightarrow> platform \<Rightarrow> account option" where
  "account_of_claims i p = find (\<lambda>a. uuid_str (ac_id a) = i) (pf_accounts p)"

definition jwt_guard :: "(string \<Rightarrow> string) \<Rightarrow> (string \<Rightarrow> jwt_claims option) \<Rightarrow> int \<Rightarrow> route \<Rightarrow> raw_request \<Rightarrow> caller prun" where
  "jwt_guard sha jwt now ro rq p =
     (if ro_public ro then (Inr anonymous, p)
      else (case rw_api_key rq of
          Some presented \<Rightarrow>
            if \<not> ro_allow_api_key ro then (Inl (Key_Err Api_Key_Not_Allowed), p)
            else (case authenticate_key sha now presented p of
                Inl e \<Rightarrow> (Inl e, p)
              | Inr (None, p1) \<Rightarrow> (Inl (Key_Err Invalid_Api_Key), p1)
              | Inr (Some x, p1) \<Rightarrow> (Inr (anonymous\<lparr>cl_key := Some x, cl_actor := Actor_Api_Key (pp_id x) (pp_org x)\<rparr>), p1))
        | None \<Rightarrow>
            (case extract_bearer_token (rw_authorization rq) of
               None \<Rightarrow> (Inl (Auth_Err (Authentication_Required ''A valid access token is required'')), p)
             | Some token \<Rightarrow> (case verify_access_token jwt token of
                 None \<Rightarrow> (Inl (Auth_Err (Authentication_Required ''Access token is invalid or expired'')), p)
               | Some (i, r) \<Rightarrow> (case account_of_claims i p of
                   None \<Rightarrow> (Inl (Auth_Err (Authentication_Required ''Access token is invalid or expired'')), p)
                 | Some a \<Rightarrow>
                     if ac_status a \<noteq> User_Active then (Inl (Auth_Err Account_Suspended), p)
                     else (Inr (anonymous\<lparr>cl_user := Some (ac_id a, ac_role a), cl_actor := Actor_User (ac_id a)\<rparr>), p))))))"

definition roles_guard :: "route \<Rightarrow> caller \<Rightarrow> unit pres" where
  "roles_guard ro c =
     (case ro_platform ro of
        Some x \<Rightarrow> (case cl_user c of
            None \<Rightarrow> Inl (Auth_Err (Insufficient_Role (Some x)))
          | Some (u, r) \<Rightarrow> require (role_has_platform_permission r x) (Auth_Err (Insufficient_Role (Some x))))
      | None \<Rightarrow>
          if ro_roles ro = [] then Inr ()
          else (case cl_user c of
              None \<Rightarrow> Inl (Auth_Err (Insufficient_Role None))
            | Some (u, r) \<Rightarrow> require (r \<in> set (ro_roles ro)) (Auth_Err (Insufficient_Role None))))"

text \<open>An organization id in the path that is not the id of a row is as unknown as a malformed one.\<close>

definition organization_of_path :: "string option \<Rightarrow> platform \<Rightarrow> organization option" where
  "organization_of_path path p =
     (case path of None \<Rightarrow> None | Some t \<Rightarrow> find (\<lambda>g. uuid_str (og_id g) = t) (pf_organizations p))"

definition organization_guard :: "route \<Rightarrow> raw_request \<Rightarrow> caller \<Rightarrow> platform \<Rightarrow> caller pres" where
  "organization_guard ro rq c p =
     (case ro_org ro of
        [] \<Rightarrow> Inr c
      | first # others \<Rightarrow>
          bind_res (the_or (organization_of_path (rw_organization rq) p) (Org_Err Organization_Not_Found)) (\<lambda>g.
          case cl_key c of
            Some k \<Rightarrow>
              if pp_org k \<noteq> og_id g then Inl (Org_Err Organization_Not_Found)
              else if \<not> list_ex (\<lambda>x. x \<in> set (pp_scopes k)) (ro_org ro) then Inl (Key_Err (Api_Key_Scope_Missing first))
              else Inr (c\<lparr>cl_access := Some (Key_Access (og_id g) (pp_id k))\<rparr>)
          | None \<Rightarrow>
              (case cl_user c of
                 None \<Rightarrow> Inl (Org_Err Organization_Not_Found)
               | Some (u, r) \<Rightarrow>
                   bind_res (the_or (find_membership (og_id g) u p) (Org_Err Organization_Not_Found)) (\<lambda>m.
                     if og_status g \<noteq> Org_Active \<and> list_ex (\<lambda>x. x \<noteq> Read_Organization) (ro_org ro)
                     then Inl (Org_Err Organization_Suspended)
                     else if \<not> list_ex (role_has_permission (mb_role m)) (ro_org ro)
                     then Inl (Org_Err (Organization_Permission_Denied first))
                     else Inr (c\<lparr>cl_access := Some (Member_Access (og_id g) (mb_role m))\<rparr>)))))"

definition authorize :: "(string \<Rightarrow> string) \<Rightarrow> (string \<Rightarrow> jwt_claims option) \<Rightarrow> int \<Rightarrow> route \<Rightarrow> raw_request \<Rightarrow> caller prun" where
  "authorize sha jwt now ro rq p =
     (case jwt_guard sha jwt now ro rq p of
        (Inl e, p1) \<Rightarrow> (Inl e, p1)
      | (Inr c, p1) \<Rightarrow> (bind_res (roles_guard ro c) (\<lambda>_. organization_guard ro rq c p1), p1))"

end
