(* ===== verification/Access_Laws.thy ===== *)
theory Access_Laws
  imports Access
begin

text \<open>
  What a request that passes the guards (\<open>Access\<close>) is entitled to: who its caller is, and
  that the route was granted to that caller by the rows of the database at that moment, not by
  what a token or an earlier request said.
\<close>

section \<open>What each guard establishes\<close>

text \<open>A key that is accepted: its row, unrevoked and unexpired, of an active organization.\<close>

definition good_key :: "(string \<Rightarrow> string) \<Rightarrow> int \<Rightarrow> string \<Rightarrow> platform \<Rightarrow> principal \<Rightarrow> bool" where
  "good_key sha now presented p x \<longleftrightarrow> key_format presented \<and>
     (\<exists>k \<in> set (pf_api_keys p). ak_hash k = sha presented \<and> ak_revoked_at k = None \<and> (\<forall>t. ak_expires_at k = Some t \<longrightarrow> now < t) \<and>
        x = \<lparr>pp_id = ak_id k, pp_org = ak_org k, pp_scopes = ak_scopes k\<rparr> \<and>
        (\<exists>g \<in> set (pf_organizations p). og_id g = ak_org k \<and> og_status g = Org_Active))"

text \<open>A token that is accepted: of an account that is active now, with the role it has now.\<close>

definition good_token :: "(string \<Rightarrow> jwt_claims option) \<Rightarrow> string \<Rightarrow> platform \<Rightarrow> uuid \<times> user_role \<Rightarrow> bool" where
  "good_token jwt token p u \<longleftrightarrow>
     (\<exists>c a. jwt token = Some c \<and> jw_sub c = JStr (uuid_str (ac_id a)) \<and> a \<in> set (pf_accounts p) \<and> ac_status a = User_Active \<and>
        u = (ac_id a, ac_role a))"

lemma touch_frame [simp]:
  "pf_members (touch_api_key now k p) = pf_members p" "pf_organizations (touch_api_key now k p) = pf_organizations p"
  by (simp_all add: touch_api_key_def)

lemma authenticate_key_Inr:
  assumes "authenticate_key sha now presented p = Inr (Some x, p1)"
  shows "good_key sha now presented p x" and "pf_members p1 = pf_members p" and "pf_organizations p1 = pf_organizations p"
proof -
  obtain k g where k: "row_by ak_hash (sha presented) (pf_api_keys p) = Some k" "ak_revoked_at k = None" "key_format presented"
      "\<forall>t. ak_expires_at k = Some t \<longrightarrow> now < t" "row_by og_id (ak_org k) (pf_organizations p) = Some g" "og_status g = Org_Active"
      "x = \<lparr>pp_id = ak_id k, pp_org = ak_org k, pp_scopes = ak_scopes k\<rparr>" "p1 = touch_api_key now k p"
    using assms by (auto simp: authenticate_key_def bind_res_Inr_iff get_organization_def split: if_splits option.splits)
  then show "good_key sha now presented p x" unfolding good_key_def using row_by_Some [OF k(1)] row_by_Some [OF k(5)] by blast
  show "pf_members p1 = pf_members p" "pf_organizations p1 = pf_organizations p" by (simp_all add: k(8))
qed

lemma account_of_claims_Some: "account_of_claims i p = Some a \<Longrightarrow> a \<in> set (pf_accounts p) \<and> uuid_str (ac_id a) = i"
  by (auto simp: account_of_claims_def find_Some_iff)

lemma jwt_guard_key:
  assumes "jwt_guard sha jwt now ro rq p = (Inr c, p1)" and "\<not> ro_public ro" and "rw_api_key rq = Some presented"
  shows "ro_allow_api_key ro \<and> cl_user c = None \<and> pf_members p1 = pf_members p \<and> pf_organizations p1 = pf_organizations p \<and>
    (\<exists>x. cl_key c = Some x \<and> good_key sha now presented p x)"
proof -
  have "ro_allow_api_key ro" using assms by (auto simp: jwt_guard_def split: if_splits)
  then obtain x where "authenticate_key sha now presented p = Inr (Some x, p1)"
    "c = anonymous\<lparr>cl_key := Some x, cl_actor := Actor_Api_Key (pp_id x) (pp_org x)\<rparr>"
    using assms by (auto simp: jwt_guard_def split: sum.splits prod.splits option.splits)
  then show ?thesis using \<open>ro_allow_api_key ro\<close> authenticate_key_Inr by (auto simp: anonymous_def)
qed

lemma jwt_guard_user:
  assumes "jwt_guard sha jwt now ro rq p = (Inr c, p1)" and "\<not> ro_public ro" and "rw_api_key rq = None"
  shows "p1 = p \<and> cl_key c = None \<and> (\<exists>token u. extract_bearer_token (rw_authorization rq) = Some token \<and> cl_user c = Some u \<and> good_token jwt token p u)"
proof -
  obtain token where 1: "extract_bearer_token (rw_authorization rq) = Some token"
    using assms by (cases "extract_bearer_token (rw_authorization rq)") (simp_all add: jwt_guard_def)
  obtain i r where 2: "verify_access_token jwt token = Some (i, r)"
    using assms 1 by (cases "verify_access_token jwt token") (auto simp: jwt_guard_def)
  obtain a where 3: "account_of_claims i p = Some a"
    using assms 1 2 by (cases "account_of_claims i p") (simp_all add: jwt_guard_def)
  have 4: "ac_status a = User_Active" using assms 1 2 3 by (simp add: jwt_guard_def split: if_splits)
  have 5: "p1 = p" "c = anonymous\<lparr>cl_user := Some (ac_id a, ac_role a), cl_actor := Actor_User (ac_id a)\<rparr>"
    using assms 1 2 3 4 by (simp_all add: jwt_guard_def)
  note t = 1 2 3 4 5
  obtain cs where "jwt token = Some cs" "jw_sub cs = JStr i"
    using t(2) by (auto simp: verify_access_token_def split: option.splits json.splits)
  then have "good_token jwt token p (ac_id a, ac_role a)"
    unfolding good_token_def using account_of_claims_Some [OF t(3)] t(4) by blast
  then show ?thesis using t by (auto simp: anonymous_def)
qed

lemma roles_guard_Inr:
  "roles_guard ro c = Inr u \<Longrightarrow>
     (\<forall>x. ro_platform ro = Some x \<longrightarrow> (\<exists>i r. cl_user c = Some (i, r) \<and> role_has_platform_permission r x)) \<and>
     (ro_platform ro = None \<and> ro_roles ro \<noteq> [] \<longrightarrow> (\<exists>i r. cl_user c = Some (i, r) \<and> r \<in> set (ro_roles ro)))"
  by (auto simp: roles_guard_def split: option.splits if_splits)

text \<open>The grant of an organization: a scope of the key, or the role of the member.\<close>

definition org_granted :: "route \<Rightarrow> caller \<Rightarrow> platform \<Rightarrow> organization \<Rightarrow> bool" where
  "org_granted ro c p g \<longleftrightarrow>
     (case cl_key c of
        Some k \<Rightarrow> pp_org k = og_id g \<and> (\<exists>x \<in> set (ro_org ro). x \<in> set (pp_scopes k))
      | None \<Rightarrow> (\<exists>u r m. cl_user c = Some (u, r) \<and> m \<in> set (pf_members p) \<and> mb_org m = og_id g \<and> mb_user m = u \<and>
          (\<exists>x \<in> set (ro_org ro). role_has_permission (mb_role m) x) \<and>
          (og_status g = Org_Active \<or> set (ro_org ro) \<subseteq> {Read_Organization})))"

lemma organization_guard_Inr:
  assumes "organization_guard ro rq c p = Inr d" and "ro_org ro \<noteq> []"
  shows "\<exists>g. organization_of_path (rw_organization rq) p = Some g \<and> org_granted ro c p g \<and>
    cl_user d = cl_user c \<and> cl_key d = cl_key c \<and>
    (\<exists>x. cl_access d = Some x \<and> (case x of Member_Access i r \<Rightarrow> i = og_id g | Key_Access i k \<Rightarrow> i = og_id g))"
proof -
  obtain first others where ro: "ro_org ro = first # others" using assms(2) by (cases "ro_org ro") auto
  then obtain g where g: "organization_of_path (rw_organization rq) p = Some g"
    using assms(1) by (auto simp: organization_guard_def bind_res_Inr_iff)
  show ?thesis
  proof (cases "cl_key c")
    case (Some k)
    then show ?thesis using assms(1) g ro by (auto simp: organization_guard_def org_granted_def list_ex_iff split: if_splits)
  next
    case None
    then obtain u r where u: "cl_user c = Some (u, r)" using assms(1) g ro by (auto simp: organization_guard_def split: option.splits)
    then obtain m where m: "find_membership (og_id g) u p = Some m"
      using assms(1) g ro None by (auto simp: organization_guard_def bind_res_Inr_iff)
    have "m \<in> set (pf_members p)" "mb_org m = og_id g" "mb_user m = u" using m by (auto simp: find_membership_def find_Some_iff)
    then show ?thesis using assms(1) g ro None u m
      by (auto simp: organization_guard_def org_granted_def list_ex_iff split: if_splits)
  qed
qed

section \<open>A request that passes\<close>

lemma authorize_Inr:
  assumes "authorize sha jwt now ro rq p = (Inr d, p1)" and "\<not> ro_public ro"
  shows "\<exists>c. jwt_guard sha jwt now ro rq p = (Inr c, p1) \<and> roles_guard ro c = Inr () \<and> cl_user d = cl_user c \<and> cl_key d = cl_key c \<and>
    (ro_org ro \<noteq> [] \<longrightarrow> (\<exists>g. organization_of_path (rw_organization rq) p = Some g \<and> org_granted ro d p g))"
proof -
  obtain c where c: "jwt_guard sha jwt now ro rq p = (Inr c, p1)" "roles_guard ro c = Inr ()" "organization_guard ro rq c p1 = Inr d"
    using assms(1) by (auto simp: authorize_def bind_res_Inr_iff split: prod.splits sum.splits)
  have frame: "pf_members p1 = pf_members p" "pf_organizations p1 = pf_organizations p"
    using jwt_guard_key [OF c(1) assms(2)] jwt_guard_user [OF c(1) assms(2)] by (cases "rw_api_key rq", auto)+
  have same: "organization_of_path path p1 = organization_of_path path p" "org_granted ro d p1 g = org_granted ro d p g" for path g
    unfolding organization_of_path_def org_granted_def frame by (rule refl)+
  have d: "cl_user d = cl_user c" "cl_key d = cl_key c"
    using c(3) organization_guard_Inr [OF c(3)] by (cases "ro_org ro = []", auto simp: organization_guard_def)+
  have org: "\<exists>g. organization_of_path (rw_organization rq) p = Some g \<and> org_granted ro d p g" if ne: "ro_org ro \<noteq> []"
  proof -
    obtain g where g: "organization_of_path (rw_organization rq) p1 = Some g" "org_granted ro c p1 g"
      using organization_guard_Inr [OF c(3) ne] by blast
    from g(2) have "org_granted ro d p1 g" unfolding org_granted_def d .
    then show ?thesis using g(1) by (auto simp: same)
  qed
  then show ?thesis using c d by blast
qed

text \<open>
  A request that passes the guards of a route that is not public has a caller the database
  vouches for now: the holder of an unrevoked, unexpired key of an active organization, on a
  route open to keys that asks for no platform permission or role, or an active account with the role its row
  has. What the route asks for is granted to that caller: the platform permission, a role, and, where it
  belongs to an organization, membership of it or a key of it with one of the permissions.
\<close>

theorem access_needs_a_grant:
  assumes "authorize sha jwt now ro rq p = (Inr d, p1)" and "\<not> ro_public ro"
  shows "(case rw_api_key rq of
       Some presented \<Rightarrow> (\<exists>x. cl_key d = Some x \<and> good_key sha now presented p x) \<and> cl_user d = None \<and> ro_allow_api_key ro \<and>
         ro_platform ro = None \<and> ro_roles ro = []
     | None \<Rightarrow> cl_key d = None \<and> (\<exists>token u r. extract_bearer_token (rw_authorization rq) = Some token \<and> cl_user d = Some (u, r) \<and>
         good_token jwt token p (u, r) \<and> (\<forall>x. ro_platform ro = Some x \<longrightarrow> role_has_platform_permission r x) \<and>
         (ro_platform ro = None \<and> ro_roles ro \<noteq> [] \<longrightarrow> r \<in> set (ro_roles ro)))) \<and>
    (ro_org ro \<noteq> [] \<longrightarrow> (\<exists>g. organization_of_path (rw_organization rq) p = Some g \<and> org_granted ro d p g))"
proof -
  obtain c where c: "jwt_guard sha jwt now ro rq p = (Inr c, p1)" "roles_guard ro c = Inr ()"
    and d: "cl_user d = cl_user c" "cl_key d = cl_key c"
    and org: "ro_org ro \<noteq> [] \<longrightarrow> (\<exists>g. organization_of_path (rw_organization rq) p = Some g \<and> org_granted ro d p g)"
    using authorize_Inr [OF assms] by blast
  show ?thesis
  proof (cases "rw_api_key rq")
    case (Some presented)
    then show ?thesis using jwt_guard_key [OF c(1) assms(2) Some] roles_guard_Inr [OF c(2)] d org by auto
  next
    case None
    then show ?thesis using jwt_guard_user [OF c(1) assms(2) None] roles_guard_Inr [OF c(2)] d org by auto
  qed
qed

definition demo_key_text :: string where
  "demo_key_text = ''fsk_live_0123abcd_AAAAAAAAAAAAAAAAAAAAAAAAAAAAAAAAAAAAAAAAAAA''"

definition demo_key_route :: route where
  "demo_key_route = \<lparr>ro_public = False, ro_allow_api_key = True, ro_platform = None, ro_roles = [], ro_org = [Create_Payments]\<rparr>"

definition demo_key_request :: raw_request where
  "demo_key_request = \<lparr>rw_api_key = Some demo_key_text, rw_authorization = None, rw_organization = Some (uuid_str 0)\<rparr>"

text \<open>The organization of \<open>demo_joined\<close> with a key its owner made.\<close>

definition demo_keyed :: platform where
  "demo_keyed = (case create_api_key (\<lambda>s. s) True system_context 5 ''0123abcd'' (drop 18 demo_key_text)
       \<lparr>ki_org = 0, ki_creator = 901, ki_creator_role = Org_Owner, ki_name = ''k'', ki_scopes = [Create_Payments], ki_expires_at = None\<rparr>
       demo_joined of Inl e \<Rightarrow> demo_joined | Inr (k, p) \<Rightarrow> p)"

theorem access_needs_a_grant_witness:
  "\<exists>d p1. authorize (\<lambda>s. s) (\<lambda>t. None) 6 demo_key_route demo_key_request demo_keyed = (Inr d, p1) \<and>
     (\<exists>x. cl_key d = Some x \<and> good_key (\<lambda>s. s) 6 demo_key_text demo_keyed x) \<and>
     (\<exists>g. organization_of_path (Some (uuid_str 0)) demo_keyed = Some g \<and> org_granted demo_key_route d demo_keyed g)"
proof -
  have "\<not> isl (fst (authorize (\<lambda>s. s) (\<lambda>t. None) 6 demo_key_route demo_key_request demo_keyed))" by code_simp
  then obtain d p1 where d: "authorize (\<lambda>s. s) (\<lambda>t. None) 6 demo_key_route demo_key_request demo_keyed = (Inr d, p1)"
    by (metis isl_def prod.collapse sum.collapse(2))
  have "\<not> ro_public demo_key_route" by (simp add: demo_key_route_def)
  from access_needs_a_grant [OF d this] d show ?thesis by (auto simp: demo_key_request_def demo_key_route_def)
qed

end
