(* ===== verification/Outbox.thy ===== *)
theory Outbox
  imports Platform
begin

text \<open>
  \<open>src/outbox\<close>: the events that a database transaction records, and the relay that hands them
  to the queues. A queue is outside the program: adding a job to it is a parameter that
  succeeds or fails. \<open>outbox-publisher.ts\<close> says which job an event becomes,
  \<open>outbox-relay.service.ts\<close> which events a tick takes and what it records of each. Also the
  dispatch of an event to its handlers (\<open>events/domain-events.processor.ts\<close>).
\<close>

section \<open>Jobs\<close>

record domain_message =
  dm_event :: uuid
  dm_type :: string
  dm_aggregate_type :: string
  dm_aggregate_id :: uuid
  dm_occurred_at :: int
  dm_data :: json_object

definition to_message :: "outbox_event \<Rightarrow> domain_message" where
  "to_message e =
     \<lparr>dm_event = ev_id e, dm_type = ev_type e, dm_aggregate_type = ev_aggregate_type e, dm_aggregate_id = ev_aggregate_id e,
      dm_occurred_at = ev_created_at e, dm_data = ev_payload e\<rparr>"

datatype queue_name = Webhooks_Queue | Domain_Events_Queue

datatype job_data = Process_Webhook json_object | Handle_Event domain_message

record job =
  jb_queue :: queue_name
  jb_name :: string
  jb_data :: job_data
  jb_id :: uuid
  jb_attempts :: nat
  jb_backoff :: int

record jobs_config =
  jc_webhook_max_attempts :: nat
  jc_webhook_backoff_ms :: int

definition WEBHOOK_RECEIVED :: string where
  "WEBHOOK_RECEIVED = ''webhook.received''"

definition job_of :: "jobs_config \<Rightarrow> outbox_event \<Rightarrow> job" where
  "job_of cfg e =
     (if ev_type e = WEBHOOK_RECEIVED
      then \<lparr>jb_queue = Webhooks_Queue, jb_name = ''process'', jb_data = Process_Webhook (ev_payload e), jb_id = ev_id e,
            jb_attempts = jc_webhook_max_attempts cfg, jb_backoff = jc_webhook_backoff_ms cfg\<rparr>
      else \<lparr>jb_queue = Domain_Events_Queue, jb_name = ev_type e, jb_data = Handle_Event (to_message e), jb_id = ev_id e,
            jb_attempts = 5, jb_backoff = 1000\<rparr>)"

section \<open>The relay\<close>

definition BATCH_SIZE :: nat where
  "BATCH_SIZE = 100"

text \<open>The rows a tick locks: pending and due, the oldest first; rows that another relay holds are skipped.\<close>

definition due_events :: "int \<Rightarrow> uuid set \<Rightarrow> outbox_event list \<Rightarrow> outbox_event list" where
  "due_events now locked es =
     take BATCH_SIZE (sort_key ev_created_at
       (filter (\<lambda>e. ev_status e = Outbox_Pending \<and> ev_available_at e \<le> now \<and> ev_id e \<notin> locked) es))"

definition publish_delay :: "nat \<Rightarrow> int" where
  "publish_delay attempts = min 60000 (500 * 2 ^ attempts)"

definition mark_published :: "int \<Rightarrow> outbox_event \<Rightarrow> outbox_event \<Rightarrow> outbox_event" where
  "mark_published now e row =
     row\<lparr>ev_status := Outbox_Published, ev_published_at := Some now, ev_attempts := ev_attempts e + 1, ev_last_error := None\<rparr>"

definition mark_unpublished :: "int \<Rightarrow> string \<Rightarrow> outbox_event \<Rightarrow> outbox_event \<Rightarrow> outbox_event" where
  "mark_unpublished now message e row =
     row\<lparr>ev_attempts := ev_attempts e + 1, ev_last_error := Some (take 1000 message),
         ev_available_at := now + publish_delay (ev_attempts e + 1)\<rparr>"

text \<open>One event after the other; a failure is recorded and the next one is tried.\<close>

fun relay_each :: "jobs_config \<Rightarrow> (job \<Rightarrow> 'q \<Rightarrow> string option \<times> 'q) \<Rightarrow> int \<Rightarrow> outbox_event list \<Rightarrow> outbox_event list \<times> 'q \<Rightarrow>
    nat \<times> outbox_event list \<times> 'q" where
  "relay_each cfg add now [] (es, q) = (0, es, q)"
| "relay_each cfg add now (e # rest) (es, q) =
     (case add (job_of cfg e) q of
        (None, q1) \<Rightarrow>
          (let (n, es1, q2) = relay_each cfg add now rest (set_row ev_id (ev_id e) (mark_published now e) es, q1) in (Suc n, es1, q2))
      | (Some message, q1) \<Rightarrow> relay_each cfg add now rest (set_row ev_id (ev_id e) (mark_unpublished now message e) es, q1))"

definition relay_batch :: "jobs_config \<Rightarrow> (job \<Rightarrow> 'q \<Rightarrow> string option \<times> 'q) \<Rightarrow> int \<Rightarrow> uuid set \<Rightarrow> db \<times> 'q \<Rightarrow> nat \<times> db \<times> 'q" where
  "relay_batch cfg add now locked = (\<lambda>(s, q).
     let (n, es, q1) = relay_each cfg add now (due_events now locked (outbox s)) (outbox s, q) in (n, s\<lparr>outbox := es\<rparr>, q1))"

definition count_pending_events :: "db \<Rightarrow> nat" where
  "count_pending_events s = length (filter (\<lambda>e. ev_status e = Outbox_Pending) (outbox s))"

definition delete_published :: "int \<Rightarrow> int \<Rightarrow> db \<Rightarrow> nat \<times> db" where
  "delete_published now days s =
     (let gone = (\<lambda>e. ev_status e = Outbox_Published \<and> (case ev_published_at e of None \<Rightarrow> False | Some t \<Rightarrow> t < now - days * 86400000)) in
      (length (filter gone (outbox s)), s\<lparr>outbox := filter (\<lambda>e. \<not> gone e) (outbox s)\<rparr>))"

section \<open>Handlers\<close>

text \<open>A handler names the types it takes, or all; every subscribed one sees the event, and the
  job fails when one of them does.\<close>

record 's event_handler =
  eh_handles :: "string list option"
  eh_handle :: "domain_message \<Rightarrow> 's \<Rightarrow> string option \<times> 's"

definition subscribed :: "domain_message \<Rightarrow> 's event_handler list \<Rightarrow> 's event_handler list" where
  "subscribed m hs = filter (\<lambda>h. case eh_handles h of None \<Rightarrow> True | Some ts \<Rightarrow> dm_type m \<in> set ts) hs"

fun handle_event :: "domain_message \<Rightarrow> 's event_handler list \<Rightarrow> 's \<Rightarrow> string option \<times> 's" where
  "handle_event m [] s = (None, s)"
| "handle_event m (h # hs) s =
     (let (e, s1) = eh_handle h m s; (e', s2) = handle_event m hs s1 in (case e of None \<Rightarrow> e' | Some x \<Rightarrow> Some x, s2))"

definition process_event_job :: "'s event_handler list \<Rightarrow> domain_message \<Rightarrow> 's \<Rightarrow> string option \<times> 's" where
  "process_event_job hs m s = handle_event m (subscribed m hs) s"

section \<open>The backlog drains\<close>

text \<open>A queue that accepts every job, as the list of the jobs it was given.\<close>

definition accept :: "job \<Rightarrow> job list \<Rightarrow> string option \<times> job list" where
  "accept j q = (None, q @ [j])"

fun ticks :: "jobs_config \<Rightarrow> int \<Rightarrow> nat \<Rightarrow> db \<times> job list \<Rightarrow> db \<times> job list" where
  "ticks cfg now 0 sq = sq"
| "ticks cfg now (Suc n) sq = ticks cfg now n (snd (relay_batch cfg accept now {} sq))"

definition backlog :: "int \<Rightarrow> outbox_event list \<Rightarrow> outbox_event list" where
  "backlog now es = sort_key ev_created_at (filter (\<lambda>e. ev_status e = Outbox_Pending \<and> ev_available_at e \<le> now) es)"

definition published :: "int \<Rightarrow> outbox_event list \<Rightarrow> outbox_event list \<Rightarrow> outbox_event list" where
  "published now xs es = map (\<lambda>r. if ev_id r \<in> ev_id ` set xs then mark_published now (the (row_by ev_id (ev_id r) xs)) r else r) es"

lemma due_backlog: "due_events now {} es = take BATCH_SIZE (backlog now es)"
  by (simp add: due_events_def backlog_def)

lemma mark_published_id [simp]: "ev_id (mark_published now e r) = ev_id r" "ev_status (mark_published now e r) = Outbox_Published"
  by (simp_all add: mark_published_def)

lemma relay_each_accept:
  "distinct (map ev_id xs) \<Longrightarrow>
     relay_each cfg accept now xs (es, q) = (length xs, published now xs es, q @ map (job_of cfg) xs)"
proof (induction xs arbitrary: es q)
  case Nil
  then show ?case by (simp add: published_def)
next
  case (Cons e xs)
  have "published now xs (set_row ev_id (ev_id e) (mark_published now e) es) = published now (e # xs) es"
    using Cons.prems by (auto simp: published_def set_row_def row_by_Cons)
  then show ?case using Cons by (simp add: accept_def)
qed

lemma backlog_distinct: "distinct (map ev_id es) \<Longrightarrow> distinct (map ev_id (backlog now es))"
  unfolding backlog_def by (simp add: distinct_map) (auto elim: inj_on_subset)

lemma published_pending:
  "filter (\<lambda>e. ev_status e = Outbox_Pending \<and> P e) (published now xs es) =
     filter (\<lambda>e. ev_id e \<notin> ev_id ` set xs) (filter (\<lambda>e. ev_status e = Outbox_Pending \<and> P e) es)"
  unfolding published_def by (induction es) auto

text \<open>After a tick the backlog is what the batch left of it.\<close>

lemma backlog_published:
  assumes "distinct (map ev_id es)"
  shows "backlog now (published now (take n (backlog now es)) es) = drop n (backlog now es)"
proof -
  let ?b = "backlog now es" and ?P = "\<lambda>e. ev_status e = Outbox_Pending \<and> ev_available_at e \<le> now"
  let ?I = "ev_id ` set (take n ?b)"
  have "filter ?P (published now (take n ?b) es) = filter (\<lambda>e. ev_id e \<notin> ?I) (filter ?P es)"
    by (rule published_pending)
  then have "backlog now (published now (take n ?b) es) = filter (\<lambda>e. ev_id e \<notin> ?I) ?b"
    by (simp add: backlog_def filter_sort)
  also have "\<dots> = filter (\<lambda>e. ev_id e \<notin> ?I) (take n ?b @ drop n ?b)" by simp
  also have "\<dots> = filter (\<lambda>e. ev_id e \<notin> ?I) (drop n ?b)" unfolding filter_append by simp
  also have "\<dots> = drop n ?b"
  proof (rule filter_True, rule ballI)
    fix e assume "e \<in> set (drop n ?b)"
    moreover have "distinct (map ev_id (take n ?b @ drop n ?b))" using backlog_distinct [OF assms] by simp
    ultimately show "ev_id e \<notin> ?I" by (auto simp del: append_take_drop_id)
  qed
  finally show ?thesis .
qed

lemma published_ids [simp]: "map ev_id (published now xs es) = map ev_id es"
  by (auto simp: published_def)

lemma ticks_backlog:
  "distinct (map ev_id (outbox s)) \<Longrightarrow>
     snd (ticks cfg now k (s, q)) = q @ map (job_of cfg) (take (k * BATCH_SIZE) (backlog now (outbox s))) \<and>
     backlog now (outbox (fst (ticks cfg now k (s, q)))) = drop (k * BATCH_SIZE) (backlog now (outbox s)) \<and>
     fst (ticks cfg now k (s, q)) = s\<lparr>outbox := outbox (fst (ticks cfg now k (s, q)))\<rparr>"
proof (induction k arbitrary: s q)
  case (Suc k)
  let ?b = "backlog now (outbox s)"
  define es where "es = published now (take BATCH_SIZE ?b) (outbox s)"
  have d: "distinct (map ev_id (take BATCH_SIZE ?b))"
    using backlog_distinct [OF Suc.prems, of now] by (metis distinct_take take_map)
  have "snd (relay_batch cfg accept now {} (s, q)) = (s\<lparr>outbox := es\<rparr>, q @ map (job_of cfg) (take BATCH_SIZE ?b))"
    by (simp add: relay_batch_def due_backlog relay_each_accept [OF d] es_def)
  then have step: "ticks cfg now (Suc k) (s, q) = ticks cfg now k (s\<lparr>outbox := es\<rparr>, q @ map (job_of cfg) (take BATCH_SIZE ?b))" by simp
  have es: "backlog now es = drop BATCH_SIZE ?b" unfolding es_def by (rule backlog_published [OF Suc.prems])
  have "distinct (map ev_id es)" using Suc.prems by (simp add: es_def)
  then show ?case unfolding step
    using Suc.IH [of "s\<lparr>outbox := es\<rparr>" "q @ map (job_of cfg) (take BATCH_SIZE ?b)"]
    by (simp add: es take_add [of BATCH_SIZE "k * BATCH_SIZE"] add.commute drop_drop)
qed simp

text \<open>
  C30. With a queue that takes them, the relay hands over every event that is pending and due
  exactly once, the oldest first, in one tick for every hundred events, and then none is left;
  nothing else of the database changes.
\<close>

theorem relay_drains:
  assumes "distinct (map ev_id (outbox s))" and "length (backlog now (outbox s)) \<le> k * BATCH_SIZE"
  shows "\<exists>s'. ticks cfg now k (s, []) = (s', map (job_of cfg) (backlog now (outbox s))) \<and> backlog now (outbox s') = [] \<and>
    s' = s\<lparr>outbox := outbox s'\<rparr>"
  using ticks_backlog [OF assms(1), of cfg now k "[]"] assms(2)
  by (cases "ticks cfg now k (s, [])") auto

definition demo_outbox :: db where
  "demo_outbox = add_event 3 ''payout.failed'' ''payout'' 4 [] (add_event 1 WEBHOOK_RECEIVED ''webhook_event'' 2 [] empty_db)"

theorem relay_drains_witness:
  "\<exists>s'. ticks \<lparr>jc_webhook_max_attempts = 8, jc_webhook_backoff_ms = 2000\<rparr> 5 1 (demo_outbox, []) =
       (s', map (job_of \<lparr>jc_webhook_max_attempts = 8, jc_webhook_backoff_ms = 2000\<rparr>) (backlog 5 (outbox demo_outbox))) \<and>
     length (backlog 5 (outbox demo_outbox)) = 2 \<and> backlog 5 (outbox s') = []"
proof -
  have "distinct (map ev_id (outbox demo_outbox))" "length (backlog 5 (outbox demo_outbox)) = 2" by code_simp+
  from relay_drains [OF this(1), of 5 1] this(2) show ?thesis by (auto simp: BATCH_SIZE_def)
qed

end
