(* ===== verification/Webhooks.thy ===== *)
theory Webhooks
  imports Sessions Settlement Refunds Payouts Outbox
begin

text \<open>
  \<open>src/webhooks\<close>: events that payment providers send. \<open>receive\<close> stores a verified event and
  schedules its processing in one transaction, \<open>process_event\<close> applies it (by asking the
  provider about the payment, refund or payout it names), \<open>replay_event\<close> schedules it again.
  How a provider signs and what its events mean is the adapter's \<open>webhook_capability\<close>.
\<close>

datatype event_kind =
    Payment_Approved | Payment_Succeeded | Payment_Failed_Event | Refund_Succeeded | Refund_Failed_Event | Payout_Succeeded | Payout_Failed_Event
  | Payout_Reversed_Event | Unknown_Event

fun event_kind_str :: "event_kind \<Rightarrow> string" where
  "event_kind_str Payment_Approved = ''payment.approved''"
| "event_kind_str Payment_Succeeded = ''payment.succeeded''"
| "event_kind_str Payment_Failed_Event = ''payment.failed''"
| "event_kind_str Refund_Succeeded = ''refund.succeeded''"
| "event_kind_str Refund_Failed_Event = ''refund.failed''"
| "event_kind_str Payout_Succeeded = ''payout.succeeded''"
| "event_kind_str Payout_Failed_Event = ''payout.failed''"
| "event_kind_str Payout_Reversed_Event = ''payout.reversed''"
| "event_kind_str Unknown_Event = ''unknown''"

record parsed_event =
  pe_event_id :: string
  pe_type :: event_kind
  pe_provider_type :: string
  pe_provider_reference :: "string option"

text \<open>Parsing gives the normalized event and the JSON of the body, or throws.\<close>

record 'h webhook_capability =
  wc_verify :: "string \<Rightarrow> 'h \<Rightarrow> bool"
  wc_parse :: "string \<Rightarrow> (parsed_event \<times> json) option"

record receive_result =
  re_event_id :: string
  re_duplicate :: bool

section \<open>Receiving\<close>

definition schedule_processing :: "int \<Rightarrow> uuid \<Rightarrow> platform \<Rightarrow> platform" where
  "schedule_processing now i p =
     p\<lparr>pf_db := add_event now WEBHOOK_RECEIVED ''webhook_event'' i [(''webhookEventId'', j_id i)] (pf_db p)\<rparr>"

definition stored_event :: "string \<Rightarrow> parsed_event \<Rightarrow> platform \<Rightarrow> bool" where
  "stored_event provider e p \<longleftrightarrow>
     (\<exists>w \<in> set (pf_webhooks p). wh_provider w = provider \<and> wh_event_id w = pe_event_id e)"

definition insert_webhook :: "int \<Rightarrow> string \<Rightarrow> parsed_event \<Rightarrow> json \<Rightarrow> platform \<Rightarrow> uuid option \<times> platform" where
  "insert_webhook now provider e payload p =
     (if stored_event provider e p then (None, p)
      else
        let w = \<lparr>wh_id = fresh_id p, wh_provider = provider, wh_event_id = pe_event_id e, wh_type = event_kind_str (pe_type e),
                 wh_provider_type = take 100 (pe_provider_type e), wh_provider_reference = pe_provider_reference e,
                 wh_payload = payload, wh_status = Webhook_Received, wh_outcome = None, wh_attempts = 0,
                 wh_last_error = None, wh_received_at = now, wh_processed_at = None\<rparr> in
        (Some (wh_id w), use_id p\<lparr>pf_webhooks := pf_webhooks p @ [w]\<rparr>))"

definition receive :: "registry \<Rightarrow> (string \<Rightarrow> 'h webhook_capability) \<Rightarrow> int \<Rightarrow> string \<Rightarrow> string option \<Rightarrow> 'h \<Rightarrow> platform \<Rightarrow>
    (receive_result \<times> platform) pres" where
  "receive rg caps now provider body headers p =
     (case get_provider rg provider of
        Inl e \<Rightarrow> Inl (App_Err e)
      | Inr _ \<Rightarrow>
          (case body of
             None \<Rightarrow> Inl (Webhook_Err Invalid_Webhook_Signature)
           | Some raw \<Rightarrow>
               if \<not> wc_verify (caps provider) raw headers then Inl (Webhook_Err Invalid_Webhook_Signature)
               else (case wc_parse (caps provider) raw of
                   None \<Rightarrow> Inl (Webhook_Err Invalid_Webhook_Payload)
                 | Some (e, payload) \<Rightarrow>
                     if pe_event_id e = [] \<or> pe_event_id e = ''undefined'' then Inl (Webhook_Err Invalid_Webhook_Payload)
                     else (case insert_webhook now provider e payload p of
                         (None, p1) \<Rightarrow> Inr (\<lparr>re_event_id = pe_event_id e, re_duplicate = True\<rparr>, p1)
                       | (Some i, p1) \<Rightarrow>
                           Inr (\<lparr>re_event_id = pe_event_id e, re_duplicate = False\<rparr>, schedule_processing now i p1)))))"

section \<open>Processing\<close>

fun settlement_outcome_str :: "settlement_outcome \<Rightarrow> string" where
  "settlement_outcome_str Credited = ''credited''"
| "settlement_outcome_str Already_Settled = ''already_settled''"
| "settlement_outcome_str Still_Pending = ''still_pending''"
| "settlement_outcome_str Settled_Failed = ''failed''"
| "settlement_outcome_str Amount_Mismatch = ''amount_mismatch''"
| "settlement_outcome_str Ignored = ''ignored''"

definition has_prefix :: "string \<Rightarrow> string \<Rightarrow> bool" where
  "has_prefix s pre \<longleftrightarrow> take (length pre) s = pre"

text \<open>What an event leads to: the status of the row and its outcome, after what it moved.\<close>

definition apply_event :: "registry \<Rightarrow> fx_config \<Rightarrow> int \<Rightarrow> webhook_event \<Rightarrow> (webhook_status \<times> string) run" where
  "apply_event rg cfg now w =
     (case truthy (wh_provider_reference w) of
        Some ref \<Rightarrow>
          if wh_type w = ''refund.succeeded'' \<or> wh_type w = ''refund.failed'' then
            then_do (sync_refunds_from_webhook rg now (wh_provider w) ref) (\<lambda>r s.
              (Inr (case r of Synced \<Rightarrow> (Webhook_Processed, ''refunds_synced'')
                    | Already_Final \<Rightarrow> (Webhook_Ignored, ''refund_already_final'')
                    | Not_Found \<Rightarrow> (Webhook_Ignored, ''no_matching_refund'')), s))
          else if has_prefix (wh_type w) ''payout.'' then
            then_do (sync_payout_from_webhook rg now (wh_provider w) ref) (\<lambda>found s.
              (Inr (if found then (Webhook_Processed, ''payout_synced'') else (Webhook_Ignored, ''no_matching_payout'')), s))
          else if wh_type w = ''unknown'' then (\<lambda>s. (Inr (Webhook_Ignored, ''unhandled_event_type''), s))
          else (\<lambda>s.
            case (if has_prefix (wh_type w) ''payment.'' then payment_by_provider_reference (wh_provider w) ref s else None) of
              None \<Rightarrow> (Inr (Webhook_Ignored, ''no_matching_payment''), s)
            | Some pay \<Rightarrow> then_do (settle rg cfg now pay) (\<lambda>out s. (Inr (Webhook_Processed, settlement_outcome_str out), s)) s)
      | None \<Rightarrow>
          (\<lambda>s. (Inr (Webhook_Ignored, if wh_type w = ''unknown'' then ''unhandled_event_type'' else ''no_matching_payment''), s)))"

definition finish_event :: "int \<Rightarrow> webhook_event \<Rightarrow> webhook_status \<Rightarrow> string \<Rightarrow> platform \<Rightarrow> platform" where
  "finish_event now w st outcome p =
     p\<lparr>pf_webhooks := set_row wh_id (wh_id w)
         (\<lambda>x. x\<lparr>wh_status := st, wh_attempts := wh_attempts w + 1, wh_outcome := Some outcome, wh_last_error := None,
                wh_processed_at := Some now\<rparr>) (pf_webhooks p)\<rparr>"

definition fail_event :: "webhook_event \<Rightarrow> string \<Rightarrow> platform \<Rightarrow> platform" where
  "fail_event w message p =
     p\<lparr>pf_webhooks := set_row wh_id (wh_id w)
         (\<lambda>x. x\<lparr>wh_status := Webhook_Failed, wh_attempts := wh_attempts w + 1, wh_last_error := Some (take 1000 message)\<rparr>) (pf_webhooks p)\<rparr>"

definition process_event :: "registry \<Rightarrow> fx_config \<Rightarrow> (app_error \<Rightarrow> string) \<Rightarrow> int \<Rightarrow> uuid \<Rightarrow> webhook_status prun" where
  "process_event rg cfg message now i p =
     (case row_by wh_id i (pf_webhooks p) of
        None \<Rightarrow> (Inl (App_Err (Db_Err Entity_Not_Found)), p)
      | Some w \<Rightarrow>
          if wh_status w = Webhook_Processed \<or> wh_status w = Webhook_Ignored then (Inr (wh_status w), p)
          else (case apply_event rg cfg now w (pf_db p) of
              (Inl e, s) \<Rightarrow> (Inr Webhook_Failed, fail_event w (message e) (p\<lparr>pf_db := s\<rparr>))
            | (Inr (st, outcome), s) \<Rightarrow> (Inr st, finish_event now w st outcome (p\<lparr>pf_db := s\<rparr>))))"

text \<open>The worker: a failed attempt throws, so that the queue runs the job again.\<close>

definition process_webhook_job :: "registry \<Rightarrow> fx_config \<Rightarrow> (app_error \<Rightarrow> string) \<Rightarrow> int \<Rightarrow> uuid \<Rightarrow> platform \<Rightarrow> bool \<times> platform" where
  "process_webhook_job rg cfg message now i p =
     (case process_event rg cfg message now i p of
        (Inr st, p1) \<Rightarrow> (st \<noteq> Webhook_Failed, p1)
      | (Inl e, p1) \<Rightarrow> (False, p1))"

section \<open>Replaying and listing\<close>

fun webhook_status_str :: "webhook_status \<Rightarrow> string" where
  "webhook_status_str Webhook_Received = ''received''"
| "webhook_status_str Webhook_Processed = ''processed''"
| "webhook_status_str Webhook_Failed = ''failed''"
| "webhook_status_str Webhook_Ignored = ''ignored''"

definition replay_event :: "request_context \<Rightarrow> int \<Rightarrow> uuid \<Rightarrow> platform \<Rightarrow> (webhook_event \<times> platform) pres" where
  "replay_event ctx now i p =
     bind_res (the_or (row_by wh_id i (pf_webhooks p)) (Webhook_Err Webhook_Event_Not_Found)) (\<lambda>w.
       if wh_status w \<noteq> Webhook_Failed \<and> wh_status w \<noteq> Webhook_Ignored then Inl (Webhook_Err Webhook_Event_Not_Replayable)
       else
         let p1 = schedule_processing now i (p\<lparr>pf_webhooks := set_row wh_id i (\<lambda>x. x\<lparr>wh_status := Webhook_Received\<rparr>) (pf_webhooks p)\<rparr>);
             p2 = audited ctx now ''webhook.replayed'' ''webhook_event'' i None
               [(''provider'', JStr (wh_provider w)), (''eventId'', JStr (wh_event_id w)),
                (''previousStatus'', JStr (webhook_status_str (wh_status w)))] p1 in
         bind_res (the_or (row_by wh_id i (pf_webhooks p2)) (App_Err (Db_Err Entity_Not_Found))) (\<lambda>w'. Inr (w', p2)))"

definition count_webhooks :: "webhook_status \<Rightarrow> platform \<Rightarrow> nat" where
  "count_webhooks st p = length (filter (\<lambda>w. wh_status w = st) (pf_webhooks p))"

definition list_webhooks :: "webhook_status option \<Rightarrow> nat \<Rightarrow> platform \<Rightarrow> webhook_event list" where
  "list_webhooks st limit p = take limit (newest_first wh_received_at (filter (\<lambda>w. wanted st (wh_status w)) (pf_webhooks p)))"

end
