(* ===== verification/Webhook_Laws.thy ===== *)
theory Webhook_Laws
  imports Webhooks
begin

text \<open>
  What the deduplication of inbound webhook events (\<open>Webhooks\<close>) guarantees over any sequence of
  deliveries, attempts and replays.
\<close>

section \<open>A processed event is final\<close>

definition webhooks_ok :: "platform \<Rightarrow> bool" where
  "webhooks_ok p \<longleftrightarrow>
     distinct (map wh_id (pf_webhooks p)) \<and> list_all (\<lambda>w. wh_id w < fresh_id p) (pf_webhooks p) \<and>
     distinct (map (\<lambda>w. (wh_provider w, wh_event_id w)) (pf_webhooks p))"

text \<open>
  Deliveries, attempts of the worker and replays, in any order and number, with any
  clocks and answers of the providers; ids are not given twice.
\<close>

inductive webhook_step :: "(string \<Rightarrow> 'h webhook_capability) \<Rightarrow> platform \<Rightarrow> platform \<Rightarrow> bool" for caps where
  delivered: "receive rg caps now provider body headers p = Inr (r, p') \<Longrightarrow> webhook_step caps p p'"
| processed: "process_event rg cfg message now i p = (r, p') \<Longrightarrow> fresh_id p \<le> fresh_id p' \<Longrightarrow> webhook_step caps p p'"
| replayed: "replay_event ctx now i p = Inr (w, p') \<Longrightarrow> webhook_step caps p p'"
| elsewhere: "pf_webhooks p' = pf_webhooks p \<Longrightarrow> fresh_id p \<le> fresh_id p' \<Longrightarrow> webhook_step caps p p'"

inductive webhook_runs :: "(string \<Rightarrow> 'h webhook_capability) \<Rightarrow> platform \<Rightarrow> platform \<Rightarrow> bool" for caps where
  no_more: "webhook_runs caps p p"
| one_more: "webhook_runs caps p q \<Longrightarrow> webhook_step caps q q' \<Longrightarrow> webhook_runs caps p q'"

lemma webhooks_ok_rows:
  assumes "webhooks_ok p" and "pf_webhooks p' = set_row wh_id i f (pf_webhooks p)" and "fresh_id p \<le> fresh_id p'"
    and "\<And>w. wh_id (f w) = wh_id w \<and> wh_provider (f w) = wh_provider w \<and> wh_event_id (f w) = wh_event_id w"
  shows "webhooks_ok p'"
proof -
  have "map wh_id (pf_webhooks p') = map wh_id (pf_webhooks p)"
    "map (\<lambda>w. (wh_provider w, wh_event_id w)) (pf_webhooks p') = map (\<lambda>w. (wh_provider w, wh_event_id w)) (pf_webhooks p)"
    using assms(4) by (simp_all add: assms(2) set_row_def)
  moreover have "wh_id w < fresh_id p'" if "w \<in> set (pf_webhooks p')" for w
  proof -
    have "wh_id w \<in> set (map wh_id (pf_webhooks p))" using that calculation(1) by (metis imageI set_map)
    then show ?thesis using assms(1,3) by (auto simp: webhooks_ok_def list_all_iff intro: less_le_trans)
  qed
  ultimately show ?thesis using assms(1) by (simp add: webhooks_ok_def list_all_iff)
qed

lemma insert_webhook_ok:
  assumes "webhooks_ok p" and "insert_webhook now provider e payload p = (Some i, p')"
  shows "webhooks_ok p' \<and> (\<forall>w \<in> set (pf_webhooks p). w \<in> set (pf_webhooks p'))"
proof -
  obtain w where p': "pf_webhooks p' = pf_webhooks p @ [w]" "fresh_id p' = Suc (fresh_id p)"
    and w: "wh_id w = fresh_id p" "wh_provider w = provider" "wh_event_id w = pe_event_id e" and absent: "\<not> stored_event provider e p"
    using assms(2) by (auto simp: insert_webhook_def Let_def fresh_id_def use_id_def split: if_splits)
  have "fresh_id p \<notin> wh_id ` set (pf_webhooks p)" using assms(1) by (auto simp: webhooks_ok_def list_all_iff)
  moreover have "(wh_provider w, wh_event_id w) \<notin> (\<lambda>w. (wh_provider w, wh_event_id w)) ` set (pf_webhooks p)"
    using absent w by (auto simp: stored_event_def)
  ultimately show ?thesis using assms(1) by (auto simp: webhooks_ok_def p' w(1) list_all_iff intro: less_SucI)
qed

lemma final_elsewhere:
  assumes "distinct (map wh_id ws)" and "w \<in> set ws" and "row_by wh_id i ws = Some v" and "wh_status v \<noteq> wh_status w"
  shows "w \<in> set (set_row wh_id i f ws)"
proof -
  have "wh_id w \<noteq> i" using assms row_by_distinct [OF assms(1,2)] by auto
  then show ?thesis using assms(2) by (force simp: set_row_def image_iff)
qed

lemma webhook_step_final:
  assumes "webhook_step caps p p'" and "webhooks_ok p"
  shows "webhooks_ok p' \<and> (\<forall>w \<in> set (pf_webhooks p). wh_status w = Webhook_Processed \<longrightarrow> w \<in> set (pf_webhooks p'))"
  using assms
proof (induction rule: webhook_step.induct)
  case (delivered rg now provider body headers p r p')
  then obtain e payload i q where q: "insert_webhook now provider e payload p = (i, q)" "pf_webhooks p' = pf_webhooks q" "fresh_id q \<le> fresh_id p'"
    by (auto simp: receive_def schedule_processing_def fresh_id_def Let_def split: sum.splits option.splits if_splits prod.splits)
  have "webhooks_ok q \<and> (\<forall>w \<in> set (pf_webhooks p). w \<in> set (pf_webhooks q))"
  proof (cases i)
    case None
    then show ?thesis using q(1) delivered(2) by (auto simp: insert_webhook_def Let_def split: if_splits)
  next
    case (Some j)
    then show ?thesis using insert_webhook_ok [OF delivered(2)] q(1) by simp
  qed
  then show ?case using q(2,3) by (auto simp: webhooks_ok_def list_all_iff intro: less_le_trans)
next
  case (processed rg cfg now message i p r p')
  show ?case
  proof (cases "pf_webhooks p' = pf_webhooks p")
    case True
    then show ?thesis using processed by (auto simp: webhooks_ok_def list_all_iff intro: less_le_trans)
  next
    case False
    then obtain w f where w: "row_by wh_id i (pf_webhooks p) = Some w" "wh_status w \<noteq> Webhook_Processed"
      and p': "pf_webhooks p' = set_row wh_id i f (pf_webhooks p)"
      and f: "\<And>w. wh_id (f w) = wh_id w \<and> wh_provider (f w) = wh_provider w \<and> wh_event_id (f w) = wh_event_id w"
      using processed(1) by (auto simp: process_event_def finish_event_def fail_event_def dest: row_by_Some
          split: option.splits if_splits prod.splits sum.splits)
    show ?thesis
      using webhooks_ok_rows [OF processed(3) p' processed(2) f] final_elsewhere [OF _ _ w(1)] processed(3) w(2)
      by (auto simp: p' webhooks_ok_def)
  qed
next
  case (replayed ctx now i p w p')
  then have w: "\<exists>v. row_by wh_id i (pf_webhooks p) = Some v \<and> wh_status v \<noteq> Webhook_Processed"
    and p': "pf_webhooks p' = set_row wh_id i (\<lambda>x. x\<lparr>wh_status := Webhook_Received\<rparr>) (pf_webhooks p)" "fresh_id p \<le> fresh_id p'"
    by (auto simp: replay_event_def bind_res_Inr_iff Let_def schedule_processing_def audited_def fresh_id_def split: if_splits)
  then show ?case
    using webhooks_ok_rows [OF replayed(2) p'] final_elsewhere replayed(2) by (fastforce simp: webhooks_ok_def)
next
  case (elsewhere p' p)
  then show ?case by (auto simp: webhooks_ok_def list_all_iff intro: less_le_trans)
qed

lemma webhook_runs_final:
  "webhook_runs caps p q \<Longrightarrow> webhooks_ok p \<Longrightarrow>
    webhooks_ok q \<and> (\<forall>w \<in> set (pf_webhooks p). wh_status w = Webhook_Processed \<longrightarrow> w \<in> set (pf_webhooks q))"
  by (induction rule: webhook_runs.induct) (auto dest: webhook_step_final)

text \<open>
  C34. Once an event of a provider has been processed, nothing that follows applies it again:
  after any deliveries, attempts and replays it is still there unchanged, a further attempt
  changes nothing, a replay is refused, and delivering it again is acknowledged as a duplicate
  and changes nothing.
\<close>

theorem processed_event_is_final:
  assumes "webhooks_ok p" and "w \<in> set (pf_webhooks p)" and "wh_status w = Webhook_Processed" and "webhook_runs caps p q"
  shows "process_event rg cfg message now (wh_id w) q = (Inr Webhook_Processed, q) \<and>
    replay_event ctx now (wh_id w) q = Inl (Webhook_Err Webhook_Event_Not_Replayable) \<and>
    (receive rg caps now (wh_provider w) body headers q = Inr (r, q') \<and> re_event_id r = wh_event_id w \<longrightarrow> re_duplicate r \<and> q' = q)"
proof (intro conjI impI)
  have ok: "webhooks_ok q" "w \<in> set (pf_webhooks q)" using webhook_runs_final [OF assms(4,1)] assms(2,3) by auto
  then have row: "row_by wh_id (wh_id w) (pf_webhooks q) = Some w" by (simp add: webhooks_ok_def row_by_distinct)
  show "process_event rg cfg message now (wh_id w) q = (Inr Webhook_Processed, q)" using row assms(3) by (simp add: process_event_def)
  show "replay_event ctx now (wh_id w) q = Inl (Webhook_Err Webhook_Event_Not_Replayable)" using row assms(3)
    by (simp add: replay_event_def the_or_def)
  assume d: "receive rg caps now (wh_provider w) body headers q = Inr (r, q') \<and> re_event_id r = wh_event_id w"
  then obtain e payload i q1 where e: "insert_webhook now (wh_provider w) e payload q = (i, q1)" "pe_event_id e = wh_event_id w"
    "re_duplicate r = (i = None)" "i = None \<longrightarrow> q' = q1"
    by (auto simp: receive_def split: sum.splits option.splits if_splits prod.splits)
  have "stored_event (wh_provider w) e q" using ok(2) e(2) by (auto simp: stored_event_def)
  then show "re_duplicate r" "q' = q" using e by (auto simp: insert_webhook_def)
qed

definition demo_capability :: "string \<Rightarrow> unit webhook_capability" where
  "demo_capability _ = \<lparr>wc_verify = (\<lambda>body _. True),
     wc_parse = (\<lambda>body. Some (\<lparr>pe_event_id = body, pe_type = Unknown_Event, pe_provider_type = ''x'', pe_provider_reference = None\<rparr>, JNull))\<rparr>"

text \<open>An event is delivered and processed, then another one arrives.\<close>

definition demo_received :: platform where
  "demo_received = (case receive demo_registry demo_capability 5 ''mock'' (Some ''e1'') () empty_platform of Inl e \<Rightarrow> empty_platform | Inr (r, p) \<Rightarrow> p)"

definition demo_processed :: platform where
  "demo_processed = demo_received\<lparr>pf_webhooks := map (\<lambda>w. w\<lparr>wh_status := Webhook_Processed\<rparr>) (pf_webhooks demo_received)\<rparr>"

definition demo_another :: platform where
  "demo_another = (case receive demo_registry demo_capability 7 ''mock'' (Some ''e2'') () demo_processed of Inl e \<Rightarrow> demo_processed | Inr (r, p) \<Rightarrow> p)"

theorem processed_event_is_final_witness:
  "process_event demo_registry demo_fx_config (\<lambda>e. []) 8 0 demo_another = (Inr Webhook_Processed, demo_another) \<and>
     receive demo_registry demo_capability 9 ''mock'' (Some ''e1'') () demo_another = Inr (\<lparr>re_event_id = ''e1'', re_duplicate = True\<rparr>, demo_another)"
proof -
  have shape: "map (\<lambda>w. (wh_id w, wh_provider w, wh_event_id w, wh_status w)) (pf_webhooks demo_processed) = [(0, ''mock'', ''e1'', Webhook_Processed)]"
    by code_simp
  then obtain w where w: "w \<in> set (pf_webhooks demo_processed)" "wh_id w = 0" "wh_provider w = ''mock''" "wh_event_id w = ''e1''"
    "wh_status w = Webhook_Processed" by (cases "pf_webhooks demo_processed") auto
  have ok: "webhooks_ok demo_processed" by code_simp
  have "\<not> isl (receive demo_registry demo_capability 7 ''mock'' (Some ''e2'') () demo_processed)" by code_simp
  then obtain r where "receive demo_registry demo_capability 7 ''mock'' (Some ''e2'') () demo_processed = Inr (r, demo_another)"
    unfolding demo_another_def by (cases "receive demo_registry demo_capability 7 ''mock'' (Some ''e2'') () demo_processed") auto
  then have runs: "webhook_runs demo_capability demo_processed demo_another" using no_more one_more delivered by metis
  have "case receive demo_registry demo_capability 9 ''mock'' (Some ''e1'') () demo_another of Inl e \<Rightarrow> False
      | Inr (r, q) \<Rightarrow> re_event_id r = ''e1''" by code_simp
  then obtain r q where r: "receive demo_registry demo_capability 9 ''mock'' (Some ''e1'') () demo_another = Inr (r, q)" "re_event_id r = ''e1''"
    by (auto split: sum.splits)
  note final = processed_event_is_final [OF ok w(1,5) runs]
  from final [of demo_registry demo_fx_config "\<lambda>e. []" 8] final [of demo_registry _ _ 9 system_context "Some ''e1''" "()" r q] r w
  show ?thesis by (cases r) auto
qed

end
