(* ===== verification/Proposals.thy ===== *)
theory Proposals
  imports Sessions Payouts
begin

text \<open>
  \<open>src/proposals/proposals.service.ts\<close>: actions that wait for a person. Approving runs the
  payout through the normal path, in database transactions of its own, while the row of the
  proposal stays locked; so the payout stays when the transaction of the approval is lost.
\<close>

definition PROPOSAL_TTL_MS :: int where
  "PROPOSAL_TTL_MS = 24 * 60 * 60 * 1000"

record new_proposal =
  np_params :: payout_params
  np_summary :: string
  np_reasoning :: string
  np_evidence :: "json option"

fun proposal_status_str :: "proposal_status \<Rightarrow> string" where
  "proposal_status_str Proposal_Pending = ''pending''"
| "proposal_status_str Proposal_Rejected = ''rejected''"
| "proposal_status_str Proposal_Executed = ''executed''"
| "proposal_status_str Proposal_Failed = ''failed''"
| "proposal_status_str Proposal_Lapsed = ''expired''"

text \<open>\<open>...(x ? { key: x } : {})\<close>.\<close>

definition optional_field :: "string \<Rightarrow> ('a \<Rightarrow> json) \<Rightarrow> 'a option \<Rightarrow> json_object" where
  "optional_field k f x = (case x of None \<Rightarrow> [] | Some y \<Rightarrow> [(k, f y)])"

definition params_json :: "payout_params \<Rightarrow> json_object" where
  "params_json a =
     [(''destinationId'', j_id (pr_destination a)), (''amount'', j_amount (pr_amount a))] @
     optional_field ''walletId'' j_id (pr_wallet a) @ optional_field ''narration'' JStr (pr_narration a)"

definition propose :: "request_context \<Rightarrow> int \<Rightarrow> uuid \<Rightarrow> uuid option \<Rightarrow> uuid option \<Rightarrow> new_proposal \<Rightarrow> platform \<Rightarrow> (proposal \<times> platform) pres" where
  "propose ctx now org user key inp p =
     (case get_active_destination (Organization_Owner org) (pr_destination (np_params inp)) (pf_db p) of
        Inl e \<Rightarrow> Inl (App_Err e)
      | Inr _ \<Rightarrow>
          let a = \<lparr>ap_id = fresh_id p, ap_org = org,
                   ap_params = (np_params inp)\<lparr>pr_narration := truthy (pr_narration (np_params inp))\<rparr>,
                   ap_summary = np_summary inp, ap_reasoning = np_reasoning inp, ap_evidence = np_evidence inp,
                   ap_status = Proposal_Pending, ap_by_api_key = key, ap_by_user = user, ap_decided_by = None, ap_decided_at = None,
                   ap_note = None, ap_result = None, ap_failure = None, ap_expires_at = now + PROPOSAL_TTL_MS, ap_created_at = now\<rparr> in
          Inr (a, audited ctx now ''proposal.created'' ''action_proposal'' (ap_id a) (Some org)
            ([(''kind'', JStr ''payout''), (''summary'', JStr (ap_summary a))] @ params_json (ap_params a))
            (use_id p\<lparr>pf_proposals := pf_proposals p @ [a]\<rparr>)))"

definition list_proposals :: "uuid \<Rightarrow> proposal_status option \<Rightarrow> platform \<Rightarrow> proposal list" where
  "list_proposals org st p =
     take 100 (newest_first ap_created_at (filter (\<lambda>a. ap_org a = org \<and> wanted st (ap_status a)) (pf_proposals p)))"

definition find_proposal :: "uuid \<Rightarrow> uuid \<Rightarrow> platform \<Rightarrow> proposal option" where
  "find_proposal org i p = find (\<lambda>a. ap_id a = i \<and> ap_org a = org) (pf_proposals p)"

definition proposal_err :: "proposal_error \<Rightarrow> platform_error" where
  "proposal_err e = App_Err (Proposal_Err e)"

definition get_proposal :: "uuid \<Rightarrow> uuid \<Rightarrow> platform \<Rightarrow> proposal pres" where
  "get_proposal org i p = the_or (find_proposal org i p) (proposal_err Proposal_Not_Found)"

definition lock_pending :: "uuid \<Rightarrow> uuid \<Rightarrow> platform \<Rightarrow> proposal pres" where
  "lock_pending org i p =
     bind_res (get_proposal org i p) (\<lambda>a.
       if ap_status a \<noteq> Proposal_Pending then Inl (proposal_err (Proposal_Already_Decided (proposal_status_str (ap_status a))))
       else Inr a)"

definition due_proposal :: "int \<Rightarrow> uuid \<Rightarrow> uuid \<Rightarrow> proposal \<Rightarrow> bool" where
  "due_proposal now org i a \<longleftrightarrow> ap_id a = i \<and> ap_org a = org \<and> ap_status a = Proposal_Pending \<and> ap_expires_at a \<le> now"

text \<open>Expiring is a commit of its own.\<close>

definition expire_if_due :: "int \<Rightarrow> uuid \<Rightarrow> uuid \<Rightarrow> unit prun" where
  "expire_if_due now org i p =
     (if list_ex (due_proposal now org i) (pf_proposals p)
      then (Inl (proposal_err Proposal_Expired),
            p\<lparr>pf_proposals := map (\<lambda>a. if due_proposal now org i a then a\<lparr>ap_status := Proposal_Lapsed, ap_decided_at := Some now\<rparr> else a)
              (pf_proposals p)\<rparr>)
      else (Inr (), p))"

definition save_proposal :: "proposal \<Rightarrow> platform \<Rightarrow> platform" where
  "save_proposal a p = p\<lparr>pf_proposals := set_row ap_id (ap_id a) (\<lambda>_. a) (pf_proposals p)\<rparr>"

definition proposal_payout :: "proposal \<Rightarrow> payout_input" where
  "proposal_payout a =
     \<lparr>yi_destination = pr_destination (ap_params a), yi_amount = pr_amount (ap_params a), yi_wallet = pr_wallet (ap_params a),
      yi_narration = pr_narration (ap_params a)\<rparr>"

definition proposal_key :: "proposal \<Rightarrow> string" where
  "proposal_key a = ''proposal:'' @ uuid_str (ap_id a)"

definition decided :: "int \<Rightarrow> uuid \<Rightarrow> string option \<Rightarrow> proposal_status \<Rightarrow> proposal \<Rightarrow> proposal" where
  "decided now user note st a = a\<lparr>ap_status := st, ap_decided_by := Some user, ap_decided_at := Some now, ap_note := note\<rparr>"

definition approval_metadata :: "proposal \<Rightarrow> json_object" where
  "approval_metadata a =
     [(''outcome'', JStr (proposal_status_str (ap_status a)))] @
     (case ap_result a of None \<Rightarrow> [] | Some (i, r) \<Rightarrow> [(''payoutId'', j_id i), (''reference'', JStr r)]) @
     optional_field ''failureReason'' JStr (truthy (ap_failure a))"

text \<open>A definite rejection decides the proposal; any other error leaves it pending.\<close>

definition approve_proposal :: "registry \<Rightarrow> (app_error \<Rightarrow> string) \<Rightarrow> request_context \<Rightarrow> string \<Rightarrow> string \<Rightarrow> int \<Rightarrow> uuid \<Rightarrow> uuid \<Rightarrow> uuid \<Rightarrow> string option \<Rightarrow> proposal prun" where
  "approve_proposal rg detail ctx hex txhex now org i user note p =
     (case expire_if_due now org i p of
        (Inl e, p1) \<Rightarrow> (Inl e, p1)
      | (Inr _, _) \<Rightarrow>
          (case lock_pending org i p of
             Inl e \<Rightarrow> (Inl e, p)
           | Inr a \<Rightarrow>
               (let (r, s) = request_payout rg ctx hex txhex now (Organization_Owner org) (proposal_payout a) (proposal_key a) (pf_db p);
                    p1 = p\<lparr>pf_db := s\<rparr>;
                    finish = (\<lambda>b. (Inr b, audited ctx now ''proposal.approved'' ''action_proposal'' (ap_id b) (Some org)
                                (approval_metadata b) (save_proposal b p1))) in
                case r of
                  Inr v \<Rightarrow> finish (decided now user note Proposal_Executed
                             (a\<lparr>ap_result := Some (po_id (yv_payout v), po_reference (yv_payout v))\<rparr>))
                | Inl e \<Rightarrow>
                    if snd (classify e) \<ge> 500 then (Inl (App_Err e), p1)
                    else finish (decided now user note Proposal_Failed (a\<lparr>ap_failure := Some (take 500 (detail e))\<rparr>)))))"

definition reject_proposal :: "request_context \<Rightarrow> int \<Rightarrow> uuid \<Rightarrow> uuid \<Rightarrow> uuid \<Rightarrow> string option \<Rightarrow> platform \<Rightarrow> (proposal \<times> platform) pres" where
  "reject_proposal ctx now org i user note p =
     bind_res (lock_pending org i p) (\<lambda>a.
       let b = decided now user note Proposal_Rejected a in
       Inr (b, audited ctx now ''proposal.rejected'' ''action_proposal'' (ap_id b) (Some org)
         (optional_field ''note'' JStr (truthy note)) (save_proposal b p)))"

end
