(* ===== verification/Proposal_Laws.thy ===== *)
theory Proposal_Laws
  imports Proposals
begin

text \<open>
  What the key of a proposal's payout guarantees: an approval that comes after the payout was
  made, because the transaction of an earlier approval was lost, decides the proposal with that
  payout and sends no other one.
\<close>

lemma request_payout_again:
  assumes "find_by_idempotency_key own key s = Some t" and "view_payout_of_transaction (t_id t) s = Inr v"
  shows "request_payout rg ctx hex txhex now own inp key s = (Inr v, s)"
  using assms by (simp add: request_payout_def request_payout_at_def reading_def)

text \<open>
  C35. Approving a pending proposal whose payout exists already, because an earlier approval
  made it and was lost before it could be recorded, records that payout as the result and
  changes nothing about money: of the database only the audit trail grows.
\<close>

theorem lost_approval_is_not_paid_twice:
  assumes "find_proposal org i p = Some a" and "ap_status a = Proposal_Pending"
    and "\<not> list_ex (due_proposal now org i) (pf_proposals p)"
    and "find_by_idempotency_key (Organization_Owner org) (proposal_key a) (pf_db p) = Some t"
    and "view_payout_of_transaction (t_id t) (pf_db p) = Inr v"
  shows "\<exists>b q. approve_proposal rg detail ctx hex txhex now org i user note p = (Inr b, q) \<and>
    ap_status b = Proposal_Executed \<and> ap_result b = Some (po_id (yv_payout v), po_reference (yv_payout v)) \<and>
    (pf_db q)\<lparr>audit_logs := audit_logs (pf_db p), next_id := next_id (pf_db p)\<rparr> = pf_db p \<and>
    list_ex (\<lambda>c. c = b) (pf_proposals q)"
proof -
  let ?b = "decided now user note Proposal_Executed (a\<lparr>ap_result := Some (po_id (yv_payout v), po_reference (yv_payout v))\<rparr>)"
  let ?q = "audited ctx now ''proposal.approved'' ''action_proposal'' (ap_id ?b) (Some org) (approval_metadata ?b)
    (save_proposal ?b (p\<lparr>pf_db := pf_db p\<rparr>))"
  have a: "a \<in> set (pf_proposals p)" "ap_id a = i" using assms(1) by (auto simp: find_proposal_def find_Some_iff)
  have "approve_proposal rg detail ctx hex txhex now org i user note p = (Inr ?b, ?q)"
    using assms(1-3) by (simp add: approve_proposal_def expire_if_due_def lock_pending_def get_proposal_def the_or_def
        request_payout_again [OF assms(4,5)] decided_def)
  moreover have "list_ex (\<lambda>c. c = ?b) (pf_proposals ?q)"
    using a by (auto simp: audited_def save_proposal_def set_row_def list_ex_iff decided_def intro!: rev_image_eqI)
  ultimately show ?thesis
    by (intro exI [of _ ?b] exI [of _ ?q]) (simp add: decided_def audited_def save_proposal_def record_audit_def)
qed

definition demo_proposal :: proposal where
  "demo_proposal = \<lparr>ap_id = 5, ap_org = 3, ap_params = \<lparr>pr_destination = 90, pr_amount = 100, pr_wallet = None, pr_narration = None\<rparr>,
     ap_summary = [], ap_reasoning = [], ap_evidence = None, ap_status = Proposal_Pending, ap_by_api_key = None, ap_by_user = Some 7,
     ap_decided_by = None, ap_decided_at = None, ap_note = None, ap_result = None, ap_failure = None, ap_expires_at = 1000,
     ap_created_at = 0\<rparr>"

text \<open>The payout of the proposal was made, the proposal is still pending.\<close>

definition demo_lost :: platform where
  "demo_lost =
     (let own = Organization_Owner 3;
          d = \<lparr>pd_id = 90, pd_user_id = None, pd_organization_id = Some 3, pd_provider = ''mock'', pd_currency = ''NGN'',
            pd_recipient = ''rcp'', pd_kind = Bank_Account, pd_bank_code = None, pd_bank_name = None, pd_account_name = ''A'', pd_last4 = None,
            pd_email = None, pd_label = None, pd_created_at = 0, pd_payouts_available_at = 0, pd_removed_at = None\<rparr>;
          w = \<lparr>w_id = 1, w_user_id = None, w_organization_id = Some 3, w_currency = ''NGN'', w_status = Wallet_Active, w_is_primary = True,
            w_available = 2, w_pending = 3, w_reserved = 4, w_created_at = 0\<rparr>;
          inp = proposal_payout demo_proposal in
      case create_transaction ''c'' 6 (payout_transaction own w d inp \<lparr>fq_amount = 0, fq_currency = ''NGN'', fq_rule = None\<rparr>
             (proposal_key demo_proposal) ''pyt_b'') (empty_db\<lparr>next_id := 100\<rparr>) of
        Inl e \<Rightarrow> empty_platform
      | Inr (t, s) \<Rightarrow> empty_platform\<lparr>pf_proposals := [demo_proposal],
          pf_db := s\<lparr>payouts := [new_payout 6 own w d inp ''pyt_b'' t 101], payout_destinations := [d]\<rparr>\<rparr>)"

theorem lost_approval_is_not_paid_twice_witness:
  "\<exists>b q. approve_proposal demo_registry (\<lambda>e. []) system_context ''x'' ''y'' 10 3 5 7 None demo_lost = (Inr b, q) \<and>
     ap_result b = Some (101, ''pyt_b'')"
proof -
  have "find_proposal 3 5 demo_lost = Some demo_proposal" "ap_status demo_proposal = Proposal_Pending"
    "\<not> list_ex (due_proposal 10 3 5) (pf_proposals demo_lost)" by code_simp+
  moreover have "case find_by_idempotency_key (Organization_Owner 3) (proposal_key demo_proposal) (pf_db demo_lost) of None \<Rightarrow> False
      | Some t \<Rightarrow> (case view_payout_of_transaction (t_id t) (pf_db demo_lost) of Inl e \<Rightarrow> False
          | Inr v \<Rightarrow> po_id (yv_payout v) = 101 \<and> po_reference (yv_payout v) = ''pyt_b'')" by code_simp
  then obtain t v where "find_by_idempotency_key (Organization_Owner 3) (proposal_key demo_proposal) (pf_db demo_lost) = Some t"
    "view_payout_of_transaction (t_id t) (pf_db demo_lost) = Inr v" "po_id (yv_payout v) = 101" "po_reference (yv_payout v) = ''pyt_b''"
    by (auto split: option.splits sum.splits)
  ultimately show ?thesis
    using lost_approval_is_not_paid_twice [of 3 5 demo_lost demo_proposal 10 t v demo_registry "\<lambda>e. []" system_context "''x''" "''y''" 7 None]
    by auto
qed

end
