(* ===== verification/Admin.thy ===== *)
theory Admin
  imports Access Webhook_Laws Reconciliation Ledger_Reports
begin

text \<open>
  \<open>src/admin/admin.service.ts\<close>: what platform operators do to users, organizations and wallets,
  with the reason audited in the same transaction, and the overview of the platform. The row
  of the user is read before the transaction (\<open>seen\<close>); the check that an active admin remains
  runs inside it, under an advisory lock.
\<close>

definition get_user :: "uuid \<Rightarrow> platform \<Rightarrow> account pres" where
  "get_user i p = the_or (find_account i p) (Admin_Err Admin_User_Not_Found)"

definition assert_not_last_admin :: "platform \<Rightarrow> unit pres" where
  "assert_not_last_admin p = require (count_active_admins p > 1) (Admin_Err Last_Admin)"

definition change_with_audit :: "request_context \<Rightarrow> int \<Rightarrow> string \<Rightarrow> string \<Rightarrow> uuid \<Rightarrow> uuid option \<Rightarrow> string \<Rightarrow> (platform \<Rightarrow> platform pres) \<Rightarrow> platform \<Rightarrow> platform pres" where
  "change_with_audit ctx now action ty i org reason change p =
     bind_res (change p) (\<lambda>p1. Inr (audited ctx now action ty i org [(''reason'', JStr reason)] p1))"

definition admin_set_user_status_at :: "platform \<Rightarrow> request_context \<Rightarrow> int \<Rightarrow> uuid \<times> user_role \<Rightarrow> uuid \<Rightarrow> user_status \<Rightarrow> string \<Rightarrow> platform \<Rightarrow> (account \<times> platform) pres" where
  "admin_set_user_status_at seen ctx now actor i st reason p =
     (if st = User_Suspended \<and> i = fst actor then Inl (Admin_Err Cannot_Suspend_Self)
      else
        bind_res (get_user i seen) (\<lambda>u.
        if ac_status u = st then Inl (Admin_Err (Invalid_Status_Change (''The user is already '' @ user_status_str st)))
        else if ac_role u \<noteq> Role_User \<and> \<not> role_has_platform_permission (snd actor) Manage_Roles
        then Inl (Auth_Err (Insufficient_Role (Some Manage_Roles)))
        else
          let removes_an_admin = st = User_Suspended \<and> ac_role u = Role_Admin \<and> ac_status u = User_Active in
          bind_res (change_with_audit ctx now (if st = User_Suspended then ''user.suspended'' else ''user.reactivated'') ''user'' i None reason
            (\<lambda>q. bind_res (if removes_an_admin then assert_not_last_admin q else Inr ()) (\<lambda>_. Inr (set_user_status i st q))) p) (\<lambda>p1.
          let p2 = (if st = User_Suspended then revoke_all_for_user now i p1 else p1) in
          bind_res (get_user i p2) (\<lambda>u'. Inr (u', p2)))))"

definition admin_set_user_status :: "request_context \<Rightarrow> int \<Rightarrow> uuid \<times> user_role \<Rightarrow> uuid \<Rightarrow> user_status \<Rightarrow> string \<Rightarrow> platform \<Rightarrow> (account \<times> platform) pres" where
  "admin_set_user_status ctx now actor i st reason p = admin_set_user_status_at p ctx now actor i st reason p"

definition admin_set_user_role_at :: "platform \<Rightarrow> request_context \<Rightarrow> int \<Rightarrow> uuid \<Rightarrow> uuid \<Rightarrow> user_role \<Rightarrow> string \<Rightarrow> platform \<Rightarrow> (account \<times> platform) pres" where
  "admin_set_user_role_at seen ctx now admin i role reason p =
     (if i = admin then Inl (Admin_Err Cannot_Change_Own_Role)
      else
        bind_res (get_user i seen) (\<lambda>u.
        if ac_role u = role then Inl (Admin_Err (Invalid_Status_Change (''The user is already '' @ user_role_str role)))
        else
          bind_res (if ac_role u = Role_Admin \<and> ac_status u = User_Active then assert_not_last_admin p else Inr ()) (\<lambda>_.
          let p1 = audited ctx now ''user.role_changed'' ''user'' i None
            [(''from'', JStr (user_role_str (ac_role u))), (''to'', JStr (user_role_str role)), (''reason'', JStr reason)]
            (set_user_role i role p) in
          bind_res (get_user i p1) (\<lambda>u'. Inr (u', p1)))))"

definition admin_set_user_role :: "request_context \<Rightarrow> int \<Rightarrow> uuid \<Rightarrow> uuid \<Rightarrow> user_role \<Rightarrow> string \<Rightarrow> platform \<Rightarrow> (account \<times> platform) pres" where
  "admin_set_user_role ctx now admin i role reason p = admin_set_user_role_at p ctx now admin i role reason p"

definition admin_set_organization_status :: "request_context \<Rightarrow> int \<Rightarrow> uuid \<Rightarrow> org_status \<Rightarrow> string \<Rightarrow> platform \<Rightarrow> (organization \<times> platform) pres" where
  "admin_set_organization_status ctx now i st reason p =
     bind_res (get_organization i p) (\<lambda>g.
       if og_status g = st then Inl (Admin_Err (Invalid_Status_Change (''The organization is already '' @ org_status_str st)))
       else
         bind_res (change_with_audit ctx now (if st = Org_Suspended then ''organization.suspended'' else ''organization.reactivated'')
           ''organization'' i (Some i) reason (\<lambda>q. Inr (set_organization_status i st q)) p) (\<lambda>p1.
         bind_res (get_organization i p1) (\<lambda>g'. Inr (g', p1))))"

fun wallet_status_str :: "wallet_status \<Rightarrow> string" where
  "wallet_status_str Wallet_Active = ''active''"
| "wallet_status_str Wallet_Frozen = ''frozen''"
| "wallet_status_str Wallet_Closed = ''closed''"

definition admin_set_wallet_status :: "request_context \<Rightarrow> int \<Rightarrow> uuid \<Rightarrow> wallet_status \<Rightarrow> string \<Rightarrow> platform \<Rightarrow> (wallet \<times> platform) pres" where
  "admin_set_wallet_status ctx now i st reason p =
     (case get_wallet i (pf_db p) of
        Inl e \<Rightarrow> Inl (App_Err e)
      | Inr w \<Rightarrow>
          if w_status w = Wallet_Closed then Inl (Admin_Err (Invalid_Status_Change ''Closed wallets cannot change''))
          else if w_status w = st then Inl (Admin_Err (Invalid_Status_Change (''The wallet is already '' @ wallet_status_str st)))
          else
            bind_res (change_with_audit ctx now (if st = Wallet_Frozen then ''wallet.frozen'' else ''wallet.unfrozen'') ''wallet'' i
              (w_organization_id w) reason (\<lambda>q. Inr (q\<lparr>pf_db := set_status i st (pf_db q)\<rparr>)) p) (\<lambda>p1.
            case get_wallet i (pf_db p1) of Inl e \<Rightarrow> Inl (App_Err e) | Inr w' \<Rightarrow> Inr (w', p1)))"

section \<open>An active admin always remains\<close>

definition is_active_admin :: "account \<Rightarrow> bool" where
  "is_active_admin a \<longleftrightarrow> ac_role a = Role_Admin \<and> ac_status a = User_Active"

text \<open>The row a request has read shows the target as an active admin whenever it is one now.\<close>

definition sees_admin :: "uuid \<Rightarrow> platform \<Rightarrow> platform \<Rightarrow> bool" where
  "sees_admin i seen p \<longleftrightarrow>
     list_all (\<lambda>a. ac_id a = i \<and> is_active_admin a \<longrightarrow>
       (case find_account i seen of None \<Rightarrow> False | Some u \<Rightarrow> is_active_admin u)) (pf_accounts p)"

definition accounts_ok :: "platform \<Rightarrow> bool" where
  "accounts_ok p \<longleftrightarrow> distinct (map ac_id (pf_accounts p)) \<and> list_all (\<lambda>a. ac_id a < fresh_id p) (pf_accounts p) \<and> 0 < count_active_admins p"

text \<open>
  Runs, as the list of the states of the platform, the last one first. A request has read the row of its target in
  any state of the run, however long ago; the number counts the requests that decide from a read
  made before their target became an active admin.
\<close>

inductive admin_runs :: "nat \<Rightarrow> platform list \<Rightarrow> bool" where
  first_admin: "accounts_ok p \<Longrightarrow> admin_runs 0 [p]"
| user_joined: "admin_runs n (p # ps) \<Longrightarrow> create_user now inp p = Inr (a, p') \<Longrightarrow> admin_runs n (p' # p # ps)"
| status_changed: "admin_runs n (p # ps) \<Longrightarrow> seen \<in> set (p # ps) \<Longrightarrow>
    admin_set_user_status_at seen ctx now actor i st reason p = Inr (u, p') \<Longrightarrow>
    admin_runs (if sees_admin i seen p then n else Suc n) (p' # p # ps)"
| role_given: "admin_runs n (p # ps) \<Longrightarrow> seen \<in> set (p # ps) \<Longrightarrow>
    admin_set_user_role_at seen ctx now admin i role reason p = Inr (u, p') \<Longrightarrow>
    admin_runs (if sees_admin i seen p then n else Suc n) (p' # p # ps)"
| away: "admin_runs n (p # ps) \<Longrightarrow> pf_accounts p' = pf_accounts p \<Longrightarrow> fresh_id p \<le> fresh_id p' \<Longrightarrow> admin_runs n (p' # p # ps)"

lemma count_after_write:
  "length (filter Q as) \<le> length (filter Q (set_row ac_id i f as)) + length (filter (\<lambda>a. ac_id a = i \<and> Q a) as)"
  by (induction as) (auto simp: set_row_def)

lemma one_account:
  assumes "distinct (map ac_id as)"
  shows "length (filter (\<lambda>a. ac_id a = i \<and> Q a) as) \<le> (if list_ex (\<lambda>a. ac_id a = i \<and> Q a) as then 1 else 0)"
  using assms
proof (induction as)
  case (Cons a as)
  show ?case
  proof (cases "ac_id a = i")
    case True
    then have "filter (\<lambda>a. ac_id a = i \<and> Q a) as = []" using Cons.prems by (auto simp: filter_empty_conv image_iff)
    then show ?thesis by simp
  next
    case False
    then show ?thesis using Cons by simp
  qed
qed simp

lemma accounts_ok_write:
  assumes "accounts_ok p" and "pf_accounts p' = set_row ac_id i f (pf_accounts p)" and "\<And>a. ac_id (f a) = ac_id a"
    and "fresh_id p \<le> fresh_id p'" and "list_ex (\<lambda>a. ac_id a = i \<and> is_active_admin a) (pf_accounts p) \<Longrightarrow> 1 < count_active_admins p"
  shows "accounts_ok p'"
proof -
  have ids: "map ac_id (pf_accounts p') = map ac_id (pf_accounts p)" using assms(3) by (simp add: assms(2) set_row_def)
  have "list_all (\<lambda>j. j < fresh_id p') (map ac_id (pf_accounts p'))"
    using assms(1,4) unfolding ids by (auto simp: accounts_ok_def list_all_iff intro: less_le_trans)
  then have "list_all (\<lambda>a. ac_id a < fresh_id p') (pf_accounts p')" by (simp add: list_all_iff)
  moreover have "count_active_admins p \<le> count_active_admins p' + (if list_ex (\<lambda>a. ac_id a = i \<and> is_active_admin a) (pf_accounts p) then 1 else 0)"
    using count_after_write [of is_active_admin "pf_accounts p" i f] one_account [of "pf_accounts p" i is_active_admin] assms(1)
    unfolding assms(2) count_active_admins_def active_admins_def accounts_ok_def is_active_admin_def by linarith
  ultimately show ?thesis using assms(1,5) by (auto simp: accounts_ok_def ids split: if_splits)
qed

lemma admin_frame [simp]:
  "pf_accounts (audited ctx now a ty i g m p) = pf_accounts p" "pf_accounts (revoke_all_for_user now i p) = pf_accounts p"
  "fresh_id (revoke_all_for_user now i p) = fresh_id p" "fresh_id (set_user_status i st p) = fresh_id p"
  "fresh_id (set_user_role i r p) = fresh_id p"
  "pf_accounts (set_user_status i st p) = set_row ac_id i (\<lambda>a. a\<lparr>ac_status := st\<rparr>) (pf_accounts p)"
  "pf_accounts (set_user_role i r p) = set_row ac_id i (\<lambda>a. a\<lparr>ac_role := r\<rparr>) (pf_accounts p)"
  by (simp_all add: audited_def revoke_all_for_user_def revoke_all_for_user_at_def revoke_rows_def set_user_status_def set_user_role_def fresh_id_def)

lemma sees_adminD: "sees_admin i seen p \<Longrightarrow> list_ex (\<lambda>a. ac_id a = i \<and> is_active_admin a) (pf_accounts p) \<Longrightarrow>
    \<exists>u. find_account i seen = Some u \<and> is_active_admin u"
  by (auto simp: sees_admin_def list_all_iff list_ex_iff split: option.splits)

lemma status_change_ok:
  assumes "accounts_ok p" and "sees_admin i seen p" and "admin_set_user_status_at seen ctx now actor i st reason p = Inr (u, p')"
  shows "accounts_ok p'"
proof -
  obtain u0 where u0: "find_account i seen = Some u0" and ne: "ac_status u0 \<noteq> st"
    and checked: "st = User_Suspended \<Longrightarrow> is_active_admin u0 \<Longrightarrow> 1 < count_active_admins p"
    and p': "pf_accounts p' = set_row ac_id i (\<lambda>a. a\<lparr>ac_status := st\<rparr>) (pf_accounts p)" "fresh_id p \<le> fresh_id p'"
    using assms(3) by (auto simp: admin_set_user_status_at_def get_user_def change_with_audit_def assert_not_last_admin_def
        bind_res_Inr_iff Let_def is_active_admin_def split: if_splits)
  have "st = User_Suspended" if "is_active_admin u0" using that ne by (cases st) (auto simp: is_active_admin_def)
  then have "1 < count_active_admins p" if "list_ex (\<lambda>a. ac_id a = i \<and> is_active_admin a) (pf_accounts p)"
    using sees_adminD [OF assms(2) that] u0 checked by auto
  then show ?thesis by (intro accounts_ok_write [OF assms(1) p'(1) _ p'(2)]) simp_all
qed

lemma role_change_ok:
  assumes "accounts_ok p" and "sees_admin i seen p" and "admin_set_user_role_at seen ctx now admin i role reason p = Inr (u, p')"
  shows "accounts_ok p'"
proof -
  obtain u0 where u0: "find_account i seen = Some u0" and checked: "is_active_admin u0 \<Longrightarrow> 1 < count_active_admins p"
    and p': "pf_accounts p' = set_row ac_id i (\<lambda>a. a\<lparr>ac_role := role\<rparr>) (pf_accounts p)" "fresh_id p \<le> fresh_id p'"
    using assms(3) by (auto simp: admin_set_user_role_at_def get_user_def assert_not_last_admin_def
        bind_res_Inr_iff Let_def is_active_admin_def split: if_splits)
  have "1 < count_active_admins p" if "list_ex (\<lambda>a. ac_id a = i \<and> is_active_admin a) (pf_accounts p)"
    using sees_adminD [OF assms(2) that] u0 checked by auto
  then show ?thesis by (intro accounts_ok_write [OF assms(1) p'(1) _ p'(2)]) simp_all
qed

lemma user_joined_ok:
  assumes "accounts_ok p" and "create_user now inp p = Inr (a, p')"
  shows "accounts_ok p'"
proof -
  have p': "pf_accounts p' = pf_accounts p @ [a]" "ac_id a = fresh_id p" "fresh_id p' = Suc (fresh_id p)"
    using assms(2) by (auto simp: create_user_def Let_def use_id_def fresh_id_def split: if_splits)
  have "fresh_id p \<notin> ac_id ` set (pf_accounts p)" using assms(1) by (auto simp: accounts_ok_def list_all_iff)
  then show ?thesis using assms(1) by (auto simp: accounts_ok_def p' list_all_iff count_active_admins_def active_admins_def intro: less_SucI)
qed

lemma admin_runs_ok: "admin_runs n ps \<Longrightarrow> n = 0 \<Longrightarrow> accounts_ok (hd ps)"
proof (induction rule: admin_runs.induct)
  case (status_changed n p ps seen ctx now actor i st reason u p')
  then show ?case using status_change_ok by (auto split: if_splits)
next
  case (role_given n p ps seen ctx now admin i role reason u p')
  then show ?case using role_change_ok by (auto split: if_splits)
next
  case (away n p ps p')
  then show ?case by (auto simp: accounts_ok_def list_all_iff count_active_admins_def active_admins_def intro: less_le_trans)
qed (auto intro: user_joined_ok)

text \<open>
  One read made too early is enough to lose the last admin. Admin 1 asks to make user 2 a supporter; the row of 2 is read,
  and before the write 1 makes 2 an admin and 2 demotes 1.
\<close>

definition demo_admin :: "uuid \<Rightarrow> user_role \<Rightarrow> account" where
  "demo_admin i r = \<lparr>ac_id = i, ac_email = [], ac_password_hash = [], ac_first_name = [], ac_last_name = [],
     ac_role = r, ac_status = User_Active, ac_created_at = 0\<rparr>"

definition demo_roles :: "user_role \<Rightarrow> user_role \<Rightarrow> platform" where
  "demo_roles r1 r2 = empty_platform\<lparr>pf_accounts := [demo_admin 1 r1, demo_admin 2 r2], pf_db := empty_db\<lparr>next_id := 3\<rparr>\<rparr>"

definition given :: "platform \<Rightarrow> uuid \<Rightarrow> uuid \<Rightarrow> user_role \<Rightarrow> platform \<Rightarrow> platform" where
  "given seen admin i role p = (case admin_set_user_role_at seen system_context 5 admin i role [] p of Inl e \<Rightarrow> p | Inr (u, p') \<Rightarrow> p')"

lemma given_runs:
  assumes "admin_runs n (p # ps)" and "seen \<in> set (p # ps)" and "\<not> isl (admin_set_user_role_at seen system_context 5 admin i role [] p)"
  shows "admin_runs (if sees_admin i seen p then n else Suc n) (given seen admin i role p # p # ps)"
  using assms(3) role_given [OF assms(1,2), of system_context 5 admin i role "[]"] unfolding given_def
  by (cases "admin_set_user_role_at seen system_context 5 admin i role [] p") auto

lemma stale_read_loses_last_admin: "\<exists>q ps. admin_runs (Suc 0) (q # ps) \<and> count_active_admins q = 0"
proof -
  define p0 where "p0 = demo_roles Role_Admin Role_User"
  define p1 where "p1 = given p0 1 2 Role_Admin p0"
  define p2 where "p2 = given p1 2 1 Role_Support p1"
  have ok: "accounts_ok p0" unfolding p0_def by code_simp
  have go: "\<not> isl (admin_set_user_role_at p0 system_context 5 1 2 Role_Admin [] p0)" "\<not> isl (admin_set_user_role_at p1 system_context 5 2 1 Role_Support [] p1)"
    "\<not> isl (admin_set_user_role_at p0 system_context 5 1 2 Role_Support [] p2)"
    unfolding p2_def p1_def p0_def by code_simp+
  have sees: "sees_admin 2 p0 p0" "sees_admin 1 p1 p1" "\<not> sees_admin 2 p0 p2" unfolding p2_def p1_def p0_def by code_simp+
  have "admin_runs 0 [p1, p0]" using given_runs [OF first_admin [OF ok] _ go(1)] sees(1) by (simp add: p1_def)
  from given_runs [OF this _ go(2)] sees(2) have "admin_runs 0 [p2, p1, p0]" by (simp add: p2_def)
  from given_runs [OF this _ go(3)] sees(3) have "admin_runs (Suc 0) [given p0 1 2 Role_Support p2, p2, p1, p0]" by simp
  moreover have "count_active_admins (given p0 1 2 Role_Support p2) = 0" unfolding p2_def p1_def p0_def by code_simp
  ultimately show ?thesis by blast
qed

text \<open>
  C33. An active admin remains however admins change roles and statuses, with reads of any age, as
  long as no request has read its target before that became an active admin: of two admins who demote
  or suspend each other at once the second is refused. The condition is needed: a single request that
  has read too early can leave the platform without an admin.
\<close>

theorem an_admin_remains:
  "(\<forall>p ps. admin_runs 0 (p # ps) \<longrightarrow> (\<exists>a \<in> set (pf_accounts p). ac_role a = Role_Admin \<and> ac_status a = User_Active)) \<and>
   (\<exists>q qs. admin_runs 1 (q # qs) \<and> \<not> (\<exists>a \<in> set (pf_accounts q). ac_role a = Role_Admin \<and> ac_status a = User_Active))"
proof (intro conjI allI impI)
  fix p ps
  assume "admin_runs 0 (p # ps)"
  then have "active_admins p \<noteq> []" using admin_runs_ok by (fastforce simp: accounts_ok_def count_active_admins_def)
  then obtain a where "a \<in> set (active_admins p)" by (cases "active_admins p") auto
  then show "\<exists>a \<in> set (pf_accounts p). ac_role a = Role_Admin \<and> ac_status a = User_Active" by (auto simp: active_admins_def)
next
  show "\<exists>q qs. admin_runs 1 (q # qs) \<and> \<not> (\<exists>a \<in> set (pf_accounts q). ac_role a = Role_Admin \<and> ac_status a = User_Active)"
    using stale_read_loses_last_admin by (auto simp: count_active_admins_def active_admins_def filter_empty_conv)
qed

theorem an_admin_remains_witness:
  "\<exists>p1. admin_set_user_role system_context 5 1 2 Role_Support [] (demo_roles Role_Admin Role_Admin) = Inr p1 \<and>
     (\<exists>a \<in> set (pf_accounts (snd p1)). ac_role a = Role_Admin \<and> ac_status a = User_Active) \<and>
     admin_set_user_role_at (demo_roles Role_Admin Role_Admin) system_context 6 2 1 Role_Support [] (snd p1) = Inl (Admin_Err Last_Admin)"
proof -
  define p0 where "p0 = demo_roles Role_Admin Role_Admin"
  have ok: "accounts_ok p0" "sees_admin 2 p0 p0" and go: "\<not> isl (admin_set_user_role_at p0 system_context 5 1 2 Role_Support [] p0)"
    unfolding p0_def by code_simp+
  then obtain r where r: "admin_set_user_role_at p0 system_context 5 1 2 Role_Support [] p0 = Inr r"
    by (cases "admin_set_user_role_at p0 system_context 5 1 2 Role_Support [] p0") auto
  then have r': "snd r = given p0 1 2 Role_Support p0" by (simp add: given_def split: prod.splits)
  have "admin_runs 0 [given p0 1 2 Role_Support p0, p0]" using given_runs [OF first_admin [OF ok(1)] _ go] ok(2) by simp
  then have "\<exists>a \<in> set (pf_accounts (snd r)). ac_role a = Role_Admin \<and> ac_status a = User_Active"
    unfolding r' using an_admin_remains by blast
  moreover have "admin_set_user_role_at p0 system_context 6 2 1 Role_Support [] (given p0 1 2 Role_Support p0) = Inl (Admin_Err Last_Admin)"
    unfolding p0_def by code_simp
  ultimately show ?thesis using r r' by (auto simp: admin_set_user_role_def p0_def)
qed

end
