(* ===== verification/Outbound_Webhooks.thy ===== *)
theory Outbound_Webhooks
  imports Platform Outbox Idempotency "HOL-Library.Word"
begin

unbundle bit_operations_syntax

text \<open>
  \<open>src/outbound-webhooks\<close>: signed callbacks to the endpoints of organizations. Endpoints and
  deliveries (\<open>outbound-webhooks.service.ts\<close>), which addresses may be called
  (\<open>webhook-url-policy.ts\<close>), one signed request (\<open>webhook-sender.ts\<close>, \<open>webhook-signature.ts\<close>) and
  the worker with its retries (\<open>outbound-webhooks.processor.ts\<close>). Parsing a URL, resolving a
  host, the HMAC, sealing a secret, random values and the network are parameters.
\<close>

section \<open>Addresses\<close>

datatype ip = IPv4 "32 word" | IPv6 "128 word"

text \<open>A network: its first address and the length of its prefix.\<close>

definition in_network :: "'a::len word \<Rightarrow> nat \<Rightarrow> 'a word \<Rightarrow> bool" where
  "in_network net len a \<longleftrightarrow> drop_bit (LENGTH('a) - len) a = drop_bit (LENGTH('a) - len) net"

definition v4 :: "nat \<Rightarrow> nat \<Rightarrow> nat \<Rightarrow> nat \<Rightarrow> 32 word" where
  "v4 a b c d = of_nat (((a * 256 + b) * 256 + c) * 256 + d)"

definition PRIVATE_V4 :: "(32 word \<times> nat) list" where
  "PRIVATE_V4 =
     [(v4 0 0 0 0, 8), (v4 10 0 0 0, 8), (v4 100 64 0 0, 10), (v4 127 0 0 0, 8), (v4 169 254 0 0, 16), (v4 172 16 0 0, 12),
      (v4 192 168 0 0, 16), (v4 224 0 0 0, 3)]"

definition PRIVATE_V6 :: "(128 word \<times> nat) list" where
  "PRIVATE_V6 = [(0, 127), (0xFC00 * 2 ^ 112, 7), (0xFE80 * 2 ^ 112, 10), (0xFF00 * 2 ^ 112, 8)]"

text \<open>An IPv4 address in IPv6 notation, \<open>::ffff:a.b.c.d\<close>, is checked as the IPv4 address.\<close>

definition mapped_v4 :: "128 word \<Rightarrow> 32 word option" where
  "mapped_v4 a = (if drop_bit 32 a = 0xFFFF then Some (ucast a) else None)"

definition is_private_v4 :: "32 word \<Rightarrow> bool" where
  "is_private_v4 a \<longleftrightarrow> list_ex (\<lambda>(net, len). in_network net len a) PRIVATE_V4"

fun is_private :: "ip \<Rightarrow> bool" where
  "is_private (IPv4 a) = is_private_v4 a"
| "is_private (IPv6 a) =
     (case mapped_v4 a of
        Some b \<Rightarrow> is_private_v4 b
      | None \<Rightarrow> list_ex (\<lambda>(net, len). in_network net len a) PRIVATE_V6)"

record hooks_config =
  hc_max_attempts :: nat
  hc_backoff_ms :: int
  hc_disable_after_failures :: nat
  hc_allow_private_urls :: bool
  hc_require_https :: bool

text \<open>A parsed URL; its host is a name to resolve or already an address.\<close>

datatype host = Host_Name string | Host_Address ip string

fun host_text :: "host \<Rightarrow> string" where
  "host_text (Host_Name n) = n"
| "host_text (Host_Address a t) = t"

record url =
  ur_protocol :: string
  ur_username :: string
  ur_password :: string
  ur_host :: host
  ur_rest :: string

datatype resolution = Allowed url ip | Refused string

definition lookup_host :: "(string \<Rightarrow> ip list option) \<Rightarrow> host \<Rightarrow> ip list option" where
  "lookup_host dns h = (case h of Host_Address a t \<Rightarrow> Some [a] | Host_Name n \<Rightarrow> dns n)"

definition resolve_url :: "hooks_config \<Rightarrow> (string \<Rightarrow> url option) \<Rightarrow> (string \<Rightarrow> ip list option) \<Rightarrow> string \<Rightarrow> resolution" where
  "resolve_url cfg parse dns raw =
     (case parse raw of
        None \<Rightarrow> Refused ''Not a valid URL''
      | Some u \<Rightarrow>
          if ur_protocol u \<noteq> ''https:'' \<and> \<not> (\<not> hc_require_https cfg \<and> ur_protocol u = ''http:'') then Refused ''The URL must use https''
          else if ur_username u \<noteq> [] \<or> ur_password u \<noteq> [] then Refused ''The URL must not contain credentials''
          else (case lookup_host dns (ur_host u) of
              None \<Rightarrow> Refused (''Cannot resolve '' @ host_text (ur_host u))
            | Some [] \<Rightarrow> Refused (''Cannot resolve '' @ host_text (ur_host u))
            | Some (a # others) \<Rightarrow>
                if \<not> hc_allow_private_urls cfg \<and> list_ex is_private (a # others)
                then Refused ''The URL points to a private or internal address''
                else Allowed u a))"

definition check_url :: "hooks_config \<Rightarrow> (string \<Rightarrow> url option) \<Rightarrow> (string \<Rightarrow> ip list option) \<Rightarrow> string \<Rightarrow> string option" where
  "check_url cfg parse dns raw = (case resolve_url cfg parse dns raw of Allowed u a \<Rightarrow> None | Refused r \<Rightarrow> Some r)"

section \<open>Signatures\<close>

definition SIGNATURE_HEADER :: string where
  "SIGNATURE_HEADER = ''FinStack-Signature''"

definition generate_webhook_secret :: "string \<Rightarrow> string" where
  "generate_webhook_secret random = ''whsec_'' @ random"

definition sign_body :: "(string \<Rightarrow> string \<Rightarrow> string) \<Rightarrow> string \<Rightarrow> int \<Rightarrow> string \<Rightarrow> string" where
  "sign_body hmac secret timestamp body = hmac secret (show_int timestamp @ ''.'' @ body)"

fun comma_join :: "string list \<Rightarrow> string" where
  "comma_join [] = []"
| "comma_join [x] = x"
| "comma_join (x # xs) = x @ '','' @ comma_join xs"

definition signature_header :: "(string \<Rightarrow> string \<Rightarrow> string) \<Rightarrow> string list \<Rightarrow> string \<Rightarrow> int \<Rightarrow> string" where
  "signature_header hmac secrets body timestamp =
     comma_join ((''t='' @ show_int timestamp) # map (\<lambda>s. ''v1='' @ sign_body hmac s timestamp body) secrets)"

section \<open>The tables\<close>

record endpoint =
  en_id :: uuid
  en_org :: uuid
  en_url :: string
  en_description :: "string option"
  en_types :: "string list"
  en_enabled :: bool
  en_disabled_reason :: "string option"
  en_secret :: string
  en_previous_secret :: "string option"
  en_previous_expires_at :: "int option"
  en_failures :: nat
  en_created_at :: int
  en_deleted_at :: "int option"

datatype delivery_status = Delivery_Pending | Delivery_Succeeded | Delivery_Failed

record delivery =
  dv_id :: uuid
  dv_endpoint :: uuid
  dv_event :: string
  dv_type :: string
  dv_payload :: json
  dv_status :: delivery_status
  dv_attempts :: nat
  dv_response :: "nat option"
  dv_last_error :: "string option"
  dv_last_attempt_at :: "int option"
  dv_delivered_at :: "int option"
  dv_created_at :: int

text \<open>A job of the deliver queue: the id it is known by, the delivery, its attempts and the first delay.\<close>

record deliver_job =
  dj_id :: string
  dj_delivery :: uuid
  dj_attempts :: nat
  dj_backoff :: int

record hooks =
  hk_platform :: platform
  hk_endpoints :: "endpoint list"
  hk_deliveries :: "delivery list"
  hk_jobs :: "deliver_job list"

datatype hook_error =
    Endpoint_Not_Found
  | Delivery_Not_Found
  | Url_Not_Allowed string
  | Hook_Err platform_error

fun hook_problem :: "hook_error \<Rightarrow> problem option" where
  "hook_problem Endpoint_Not_Found = Some (''WEBHOOK_ENDPOINT_NOT_FOUND'', 404)"
| "hook_problem Delivery_Not_Found = Some (''WEBHOOK_DELIVERY_NOT_FOUND'', 404)"
| "hook_problem (Url_Not_Allowed r) = Some (''WEBHOOK_URL_NOT_ALLOWED'', 422)"
| "hook_problem (Hook_Err e) = None"

type_synonym 'a hres = "hook_error + 'a"

definition hook_audit :: "request_context \<Rightarrow> int \<Rightarrow> string \<Rightarrow> uuid \<Rightarrow> uuid \<Rightarrow> json_object \<Rightarrow> hooks \<Rightarrow> hooks" where
  "hook_audit ctx now action org i metadata h =
     h\<lparr>hk_platform := audited ctx now action ''webhook_endpoint'' i (Some org) metadata (hk_platform h)\<rparr>"

section \<open>Event types\<close>

definition WEBHOOK_EVENT_TYPES :: "string list" where
  "WEBHOOK_EVENT_TYPES =
     [''payment.successful'', ''payment.failed'', ''payment.funds_available'', ''refund.successful'', ''refund.failed'',
      ''payout.successful'', ''payout.failed'', ''payout.reversed'']"

definition WEBHOOK_TEST_EVENT :: string where
  "WEBHOOK_TEST_EVENT = ''webhook.test''"

definition ALL_EVENTS :: string where
  "ALL_EVENTS = ''*''"

definition normalise_event_types :: "string list \<Rightarrow> string list" where
  "normalise_event_types ts = (if ALL_EVENTS \<in> set ts then [ALL_EVENTS] else sort (remdups ts))"

definition envelope :: "string \<Rightarrow> string \<Rightarrow> int \<Rightarrow> json_object \<Rightarrow> json" where
  "envelope i ty created d = JObj [(''id'', JStr i), (''type'', JStr ty), (''createdAt'', JNum created), (''data'', JObj d)]"

section \<open>Endpoints\<close>

record endpoint_input =
  ei_url :: string
  ei_types :: "string list"
  ei_description :: "string option"

definition cardinality_check :: "string list \<Rightarrow> unit hres" where
  "cardinality_check ts = require (ts \<noteq> []) (Hook_Err (App_Err (Db_Err (Check_Violation ''chk_webhook_endpoints_event_types''))))"

definition assert_url_allowed :: "(string \<Rightarrow> string option) \<Rightarrow> string \<Rightarrow> unit hres" where
  "assert_url_allowed refusal u = (case refusal u of None \<Rightarrow> Inr () | Some r \<Rightarrow> Inl (Url_Not_Allowed r))"

definition create_endpoint :: "(string \<Rightarrow> string option) \<Rightarrow> (string \<Rightarrow> string) \<Rightarrow> string \<Rightarrow> request_context \<Rightarrow> int \<Rightarrow> uuid \<Rightarrow> endpoint_input \<Rightarrow> hooks \<Rightarrow>
    ((endpoint \<times> string) \<times> hooks) hres" where
  "create_endpoint refusal seal random ctx now org inp h =
     bind_res (assert_url_allowed refusal (ei_url inp)) (\<lambda>_.
     let secret = generate_webhook_secret random;
         e = \<lparr>en_id = fresh_id (hk_platform h), en_org = org, en_url = ei_url inp, en_description = ei_description inp,
              en_types = normalise_event_types (ei_types inp), en_enabled = True, en_disabled_reason = None, en_secret = seal secret,
              en_previous_secret = None, en_previous_expires_at = None, en_failures = 0, en_created_at = now, en_deleted_at = None\<rparr> in
     bind_res (cardinality_check (en_types e)) (\<lambda>_.
       Inr ((e, secret), hook_audit ctx now ''webhook_endpoint.created'' org (en_id e)
         [(''url'', JStr (en_url e)), (''eventTypes'', JArr (map JStr (en_types e)))]
         (h\<lparr>hk_platform := use_id (hk_platform h), hk_endpoints := hk_endpoints h @ [e]\<rparr>))))"

definition list_endpoints :: "uuid \<Rightarrow> hooks \<Rightarrow> endpoint list" where
  "list_endpoints org h = sort_key en_created_at (filter (\<lambda>e. en_org e = org \<and> en_deleted_at e = None) (hk_endpoints h))"

definition get_endpoint :: "uuid \<Rightarrow> uuid \<Rightarrow> hooks \<Rightarrow> endpoint hres" where
  "get_endpoint org i h =
     the_or (find (\<lambda>e. en_id e = i \<and> en_org e = org \<and> en_deleted_at e = None) (hk_endpoints h)) Endpoint_Not_Found"

definition set_endpoint :: "uuid \<Rightarrow> (endpoint \<Rightarrow> endpoint) \<Rightarrow> hooks \<Rightarrow> hooks" where
  "set_endpoint i f h = h\<lparr>hk_endpoints := set_row en_id i f (hk_endpoints h)\<rparr>"

record endpoint_patch =
  ep_url :: "string option"
  ep_types :: "string list option"
  ep_description :: "string option option"
  ep_enabled :: "bool option"

definition patch_endpoint :: "endpoint_patch \<Rightarrow> endpoint \<Rightarrow> endpoint" where
  "patch_endpoint x e =
     (let e1 = (case ep_url x of None \<Rightarrow> e | Some u \<Rightarrow> e\<lparr>en_url := u\<rparr>);
          e2 = (case ep_types x of None \<Rightarrow> e1 | Some ts \<Rightarrow> e1\<lparr>en_types := normalise_event_types ts\<rparr>);
          e3 = (case ep_description x of None \<Rightarrow> e2 | Some d \<Rightarrow> e2\<lparr>en_description := d\<rparr>) in
      case ep_enabled x of
        None \<Rightarrow> e3
      | Some b \<Rightarrow> e3\<lparr>en_enabled := b, en_disabled_reason := None, en_failures := (if b then 0 else en_failures e3)\<rparr>)"

definition patch_json :: "endpoint_patch \<Rightarrow> json_object" where
  "patch_json x =
     (case ep_url x of None \<Rightarrow> [] | Some u \<Rightarrow> [(''url'', JStr u)]) @
     (case ep_types x of None \<Rightarrow> [] | Some ts \<Rightarrow> [(''eventTypes'', JArr (map JStr ts))]) @
     (case ep_description x of None \<Rightarrow> [] | Some d \<Rightarrow> [(''description'', j_opt JStr d)]) @
     (case ep_enabled x of None \<Rightarrow> [] | Some b \<Rightarrow> [(''enabled'', JBool b)])"

definition update_endpoint :: "(string \<Rightarrow> string option) \<Rightarrow> request_context \<Rightarrow> int \<Rightarrow> uuid \<Rightarrow> uuid \<Rightarrow> endpoint_patch \<Rightarrow> hooks \<Rightarrow> (endpoint \<times> hooks) hres" where
  "update_endpoint refusal ctx now org i x h =
     bind_res (get_endpoint org i h) (\<lambda>e.
     bind_res (case ep_url x of None \<Rightarrow> Inr () | Some u \<Rightarrow> assert_url_allowed refusal u) (\<lambda>_.
     bind_res (case ep_types x of None \<Rightarrow> Inr () | Some ts \<Rightarrow> cardinality_check (normalise_event_types ts)) (\<lambda>_.
     let h1 = hook_audit ctx now ''webhook_endpoint.updated'' org (en_id e) (patch_json x) (set_endpoint (en_id e) (patch_endpoint x) h) in
     bind_res (get_endpoint org i h1) (\<lambda>e'. Inr (e', h1)))))"

definition remove_endpoint :: "request_context \<Rightarrow> int \<Rightarrow> uuid \<Rightarrow> uuid \<Rightarrow> hooks \<Rightarrow> hooks hres" where
  "remove_endpoint ctx now org i h =
     bind_res (get_endpoint org i h) (\<lambda>e.
       Inr (hook_audit ctx now ''webhook_endpoint.deleted'' org (en_id e) [(''url'', JStr (en_url e))]
         (set_endpoint (en_id e) (\<lambda>x. x\<lparr>en_deleted_at := Some now, en_enabled := False\<rparr>) h)))"

definition rotate_secret :: "(string \<Rightarrow> string) \<Rightarrow> string \<Rightarrow> request_context \<Rightarrow> int \<Rightarrow> uuid \<Rightarrow> uuid \<Rightarrow> int \<Rightarrow> hooks \<Rightarrow> ((endpoint \<times> string) \<times> hooks) hres" where
  "rotate_secret seal random ctx now org i grace h =
     bind_res (get_endpoint org i h) (\<lambda>e.
     let secret = generate_webhook_secret random;
         h1 = hook_audit ctx now ''webhook_endpoint.secret_rotated'' org (en_id e) [(''graceHours'', JNum grace)]
           (set_endpoint (en_id e) (\<lambda>x. x\<lparr>en_secret := seal secret,
              en_previous_secret := (if grace > 0 then Some (en_secret e) else None),
              en_previous_expires_at := (if grace > 0 then Some (now + grace * 60 * 60 * 1000) else None)\<rparr>) h) in
     bind_res (get_endpoint org i h1) (\<lambda>e'. Inr ((e', secret), h1)))"

definition hook_stats :: "int \<Rightarrow> hooks \<Rightarrow> nat \<times> nat" where
  "hook_stats now h =
     (length (filter (\<lambda>d. dv_status d = Delivery_Failed \<and> dv_created_at d > now - 24 * 60 * 60 * 1000) (hk_deliveries h)),
      length (filter (\<lambda>e. \<not> en_enabled e \<and> en_deleted_at e = None) (hk_endpoints h)))"

section \<open>Deliveries\<close>

definition list_deliveries :: "uuid \<Rightarrow> uuid \<Rightarrow> delivery_status option \<Rightarrow> nat \<Rightarrow> cursor option \<Rightarrow> hooks \<Rightarrow> (delivery list \<times> cursor option) hres" where
  "list_deliveries org i st limit before h =
     bind_res (get_endpoint org i h) (\<lambda>_.
       Inr (keyset_page (\<lambda>d. (dv_created_at d, dv_id d)) limit before
         (filter (\<lambda>d. dv_endpoint d = i \<and> wanted st (dv_status d)) (hk_deliveries h))))"

definition enqueue_delivery :: "hooks_config \<Rightarrow> uuid \<Rightarrow> string option \<Rightarrow> hooks \<Rightarrow> hooks" where
  "enqueue_delivery cfg i suffix h =
     h\<lparr>hk_jobs := hk_jobs h @
         [\<lparr>dj_id = map (\<lambda>c. if c = CHR '':'' then CHR ''-'' else c) (''delivery-'' @ (case suffix of None \<Rightarrow> uuid_str i | Some x \<Rightarrow> x)),
           dj_delivery = i, dj_attempts = hc_max_attempts cfg, dj_backoff = hc_backoff_ms cfg\<rparr>]\<rparr>"

definition set_delivery :: "uuid \<Rightarrow> (delivery \<Rightarrow> delivery) \<Rightarrow> hooks \<Rightarrow> hooks" where
  "set_delivery i f h = h\<lparr>hk_deliveries := set_row dv_id i f (hk_deliveries h)\<rparr>"

definition redeliver :: "hooks_config \<Rightarrow> int \<Rightarrow> uuid \<Rightarrow> uuid \<Rightarrow> uuid \<Rightarrow> hooks \<Rightarrow> (delivery \<times> hooks) hres" where
  "redeliver cfg now org i j h =
     bind_res (get_endpoint org i h) (\<lambda>_.
     bind_res (the_or (find (\<lambda>d. dv_id d = j \<and> dv_endpoint d = i) (hk_deliveries h)) Delivery_Not_Found) (\<lambda>d.
     let h1 = enqueue_delivery cfg (dv_id d) (Some (uuid_str (dv_id d) @ '':'' @ show_int now))
           (set_delivery (dv_id d) (\<lambda>x. x\<lparr>dv_status := Delivery_Pending\<rparr>) h) in
     bind_res (the_or (row_by dv_id (dv_id d) (hk_deliveries h1)) (Hook_Err (App_Err (Db_Err Entity_Not_Found)))) (\<lambda>d'. Inr (d', h1))))"

definition new_delivery :: "int \<Rightarrow> uuid \<Rightarrow> uuid \<Rightarrow> string \<Rightarrow> string \<Rightarrow> json \<Rightarrow> delivery" where
  "new_delivery now i endpoint event ty payload =
     \<lparr>dv_id = i, dv_endpoint = endpoint, dv_event = event, dv_type = ty, dv_payload = payload, dv_status = Delivery_Pending,
      dv_attempts = 0, dv_response = None, dv_last_error = None, dv_last_attempt_at = None, dv_delivered_at = None, dv_created_at = now\<rparr>"

text \<open>Inserting under the unique index \<open>uq_webhook_deliveries_endpoint_event\<close>, or nothing.\<close>

definition delivery_taken :: "uuid \<Rightarrow> string \<Rightarrow> hooks \<Rightarrow> bool" where
  "delivery_taken endpoint event h \<longleftrightarrow> (\<exists>d \<in> set (hk_deliveries h). dv_endpoint d = endpoint \<and> dv_event d = event)"

definition insert_delivery :: "hooks_config \<Rightarrow> int \<Rightarrow> uuid \<Rightarrow> string \<Rightarrow> string \<Rightarrow> json \<Rightarrow> hooks \<Rightarrow> delivery option \<times> hooks" where
  "insert_delivery cfg now endpoint event ty payload h =
     (if delivery_taken endpoint event h then (None, h)
      else
        let d = new_delivery now (fresh_id (hk_platform h)) endpoint event ty payload in
        (Some d, enqueue_delivery cfg (dv_id d) None
           (h\<lparr>hk_platform := use_id (hk_platform h), hk_deliveries := hk_deliveries h @ [d]\<rparr>)))"

definition send_test :: "hooks_config \<Rightarrow> string \<Rightarrow> int \<Rightarrow> uuid \<Rightarrow> uuid \<Rightarrow> hooks \<Rightarrow> (delivery \<times> hooks) hres" where
  "send_test cfg event now org i h =
     bind_res (get_endpoint org i h) (\<lambda>e.
       case insert_delivery cfg now (en_id e) event WEBHOOK_TEST_EVENT
              (envelope event WEBHOOK_TEST_EVENT now [(''organizationId'', j_id org), (''message'', JStr ''Test event from FinStack'')]) h of
         (None, h1) \<Rightarrow> Inl (Hook_Err (App_Err (Db_Err (Unique_Violation ''uq_webhook_deliveries_endpoint_event''))))
       | (Some d, h1) \<Rightarrow> Inr (d, h1))"

definition subscribes :: "string \<Rightarrow> string \<Rightarrow> endpoint \<Rightarrow> bool" where
  "subscribes org ty e \<longleftrightarrow>
     uuid_str (en_org e) = org \<and> en_enabled e \<and> en_deleted_at e = None \<and> (ty \<in> set (en_types e) \<or> ALL_EVENTS \<in> set (en_types e))"

fun fan_out_to :: "hooks_config \<Rightarrow> int \<Rightarrow> domain_message \<Rightarrow> endpoint list \<Rightarrow> hooks \<Rightarrow> nat \<times> hooks" where
  "fan_out_to cfg now m [] h = (0, h)"
| "fan_out_to cfg now m (e # es) h =
     (case insert_delivery cfg now (en_id e) (uuid_str (dm_event m)) (dm_type m)
             (envelope (uuid_str (dm_event m)) (dm_type m) (dm_occurred_at m) (dm_data m)) h of
        (None, h1) \<Rightarrow> fan_out_to cfg now m es h1
      | (Some d, h1) \<Rightarrow> (let (n, h2) = fan_out_to cfg now m es h1 in (Suc n, h2)))"

definition fan_out :: "hooks_config \<Rightarrow> int \<Rightarrow> domain_message \<Rightarrow> hooks \<Rightarrow> nat \<times> hooks" where
  "fan_out cfg now m h =
     (case map_of (dm_data m) ''organizationId'' of
        Some (JStr org) \<Rightarrow>
          if dm_type m \<notin> set WEBHOOK_EVENT_TYPES then (0, h)
          else fan_out_to cfg now m (filter (subscribes org (dm_type m)) (hk_endpoints h)) h
      | _ \<Rightarrow> (0, h))"

section \<open>Sending\<close>

record http_post =
  hp_url :: url
  hp_address :: ip
  hp_post_body :: string
  hp_headers :: "(string \<times> string) list"

text \<open>The network: an exception, or the status and the text of the response.\<close>

type_synonym network = "http_post \<Rightarrow> string + nat \<times> string"

datatype send_result = Sent nat | Not_Sent "nat option" string

definition delivery_request :: "(string \<Rightarrow> string \<Rightarrow> string) \<Rightarrow> int \<Rightarrow> url \<Rightarrow> ip \<Rightarrow> delivery \<Rightarrow> string \<Rightarrow> string list \<Rightarrow> http_post" where
  "delivery_request hmac now u a d body secrets =
     \<lparr>hp_url = u, hp_address = a, hp_post_body = body,
      hp_headers = [(''Content-Type'', ''application/json''), (''Content-Length'', show_nat (length body)),
        (''User-Agent'', ''FinStack-Webhooks/1.0''), (SIGNATURE_HEADER, signature_header hmac secrets body (now div 1000)),
        (''FinStack-Event-Id'', dv_event d), (''FinStack-Event-Type'', dv_type d), (''FinStack-Delivery-Id'', uuid_str (dv_id d))]\<rparr>"

definition response_result :: "string + nat \<times> string \<Rightarrow> send_result" where
  "response_result r =
     (case r of
        Inl message \<Rightarrow> Not_Sent None (''Request failed: '' @ message)
      | Inr (status, text) \<Rightarrow>
          if 200 \<le> status \<and> status < 300 then Sent status
          else Not_Sent (Some status)
            (if 300 \<le> status \<and> status < 400 then ''Redirects are not followed (HTTP '' @ show_nat status @ '')''
             else ''HTTP '' @ show_nat status @ '': '' @ take 300 text))"

text \<open>The secrets that sign: the present one, and the previous one during its grace period.\<close>

definition active_secrets :: "(string \<Rightarrow> string option) \<Rightarrow> int \<Rightarrow> endpoint \<Rightarrow> string list option" where
  "active_secrets unseal now e =
     (case unseal (en_secret e) of
        None \<Rightarrow> None
      | Some s \<Rightarrow> (case ((if en_previous_secret e = Some [] then None else en_previous_secret e), en_previous_expires_at e) of
          (Some x, Some t) \<Rightarrow> if t > now then map_option (\<lambda>y. [s, y]) (unseal x) else Some [s]
        | _ \<Rightarrow> Some [s]))"

text \<open>\<open>JSON.stringify\<close>.\<close>

fun json_text :: "json \<Rightarrow> string" where
  "json_text JNull = ''null''"
| "json_text (JBool b) = (if b then ''true'' else ''false'')"
| "json_text (JNum n) = show_int n"
| "json_text (JStr s) = json_string s"
| "json_text (JArr xs) = ''['' @ comma_join (map json_text xs) @ '']''"
| "json_text (JObj kvs) = ''{'' @ comma_join (map (\<lambda>kv. json_string (fst kv) @ '':'' @ json_text (snd kv)) kvs) @ ''}''"

text \<open>What the world is like at one attempt.\<close>

record world =
  wd_now :: int
  wd_parse :: "string \<Rightarrow> url option"
  wd_dns :: "string \<Rightarrow> ip list option"
  wd_post :: network

record sealing =
  sl_unseal :: "string \<Rightarrow> string option"
  sl_hmac :: "string \<Rightarrow> string \<Rightarrow> string"

definition unreadable_secret :: hook_error where
  "unreadable_secret = Hook_Err (App_Err (Plain_Error ''Unrecognised sealed secret''))"

text \<open>The one request of an attempt, or why none is made; a secret that cannot be opened throws.\<close>

definition delivery_post :: "hooks_config \<Rightarrow> sealing \<Rightarrow> world \<Rightarrow> endpoint \<Rightarrow> delivery \<Rightarrow> (string + http_post) hres" where
  "delivery_post cfg sl w e d =
     (case resolve_url cfg (wd_parse w) (wd_dns w) (en_url e) of
        Refused reason \<Rightarrow> Inr (Inl reason)
      | Allowed u a \<Rightarrow> (case active_secrets (sl_unseal sl) (wd_now w) e of
          None \<Rightarrow> Inl unreadable_secret
        | Some secrets \<Rightarrow> Inr (Inr (delivery_request (sl_hmac sl) (wd_now w) u a d (json_text (dv_payload d)) secrets))))"

definition attempt_delivery :: "hooks_config \<Rightarrow> sealing \<Rightarrow> world \<Rightarrow> endpoint \<Rightarrow> delivery \<Rightarrow> send_result hres" where
  "attempt_delivery cfg sl w e d =
     bind_res (delivery_post cfg sl w e d) (\<lambda>r. Inr (case r of Inl reason \<Rightarrow> Not_Sent None reason | Inr rq \<Rightarrow> response_result (wd_post w rq)))"

definition record_final_failure :: "hooks_config \<Rightarrow> uuid \<Rightarrow> hooks \<Rightarrow> hooks" where
  "record_final_failure cfg i h =
     (let h1 = set_endpoint i (\<lambda>e. e\<lparr>en_failures := en_failures e + 1\<rparr>) h;
          n = (case row_by en_id i (hk_endpoints h1) of None \<Rightarrow> 0 | Some e \<Rightarrow> en_failures e) in
      if n \<ge> hc_disable_after_failures cfg
      then set_endpoint i (\<lambda>e. e\<lparr>en_enabled := False,
             en_disabled_reason := Some (''Disabled after '' @ show_nat n @ '' failed deliveries in a row'')\<rparr>) h1
      else h1)"

datatype delivery_outcome = Outcome_Succeeded | Outcome_Retry | Outcome_Failed | Outcome_Skipped

definition record_attempt :: "hooks_config \<Rightarrow> int \<Rightarrow> bool \<Rightarrow> endpoint \<Rightarrow> delivery \<Rightarrow> send_result \<Rightarrow> hooks \<Rightarrow> delivery_outcome \<times> hooks" where
  "record_attempt cfg now last_attempt e d r h =
     (case r of
        Sent status \<Rightarrow>
          (let h1 = set_delivery (dv_id d) (\<lambda>x. x\<lparr>dv_status := Delivery_Succeeded, dv_attempts := dv_attempts d + 1,
                 dv_response := Some status, dv_last_error := None, dv_last_attempt_at := Some now, dv_delivered_at := Some now\<rparr>) h in
           (Outcome_Succeeded, if en_failures e > 0 then set_endpoint (en_id e) (\<lambda>x. x\<lparr>en_failures := 0\<rparr>) h1 else h1))
      | Not_Sent status message \<Rightarrow>
          (let h1 = set_delivery (dv_id d) (\<lambda>x. x\<lparr>dv_status := (if last_attempt then Delivery_Failed else Delivery_Pending),
                 dv_attempts := dv_attempts d + 1, dv_response := status, dv_last_error := Some (take 1000 message),
                 dv_last_attempt_at := Some now\<rparr>) h in
           if \<not> last_attempt then (Outcome_Retry, h1) else (Outcome_Failed, record_final_failure cfg (en_id e) h1)))"

definition deliver :: "hooks_config \<Rightarrow> sealing \<Rightarrow> world \<Rightarrow> uuid \<Rightarrow> bool \<Rightarrow> hooks \<Rightarrow> delivery_outcome hres \<times> hooks" where
  "deliver cfg sl w i last_attempt h =
     (case row_by dv_id i (hk_deliveries h) of
        None \<Rightarrow> (Inr Outcome_Skipped, h)
      | Some d \<Rightarrow>
          if dv_status d = Delivery_Succeeded then (Inr Outcome_Skipped, h)
          else (case row_by en_id (dv_endpoint d) (hk_endpoints h) of
              None \<Rightarrow> (Inl (Hook_Err (App_Err (Db_Err Entity_Not_Found))), h)
            | Some e \<Rightarrow>
                if \<not> en_enabled e \<or> en_deleted_at e \<noteq> None
                then (Inr Outcome_Failed, set_delivery (dv_id d)
                       (\<lambda>x. x\<lparr>dv_status := Delivery_Failed, dv_last_error := Some ''The endpoint is disabled''\<rparr>) h)
                else (case attempt_delivery cfg sl w e d of
                    Inl err \<Rightarrow> (Inl err, h)
                  | Inr r \<Rightarrow> (let (out, h1) = record_attempt cfg (wd_now w) last_attempt e d r h in (Inr out, h1)))))"

section \<open>The worker\<close>

text \<open>One run of a job that has run \<open>made\<close> times; the flag says that it threw.\<close>

definition process_delivery_job :: "hooks_config \<Rightarrow> sealing \<Rightarrow> world \<Rightarrow> deliver_job \<Rightarrow> nat \<Rightarrow> hooks \<Rightarrow> bool \<times> hooks" where
  "process_delivery_job cfg sl w j made h =
     (let (r, h1) = deliver cfg sl w (dj_delivery j) (made + 1 \<ge> dj_attempts j) h in
      (case r of Inl e \<Rightarrow> True | Inr out \<Rightarrow> out = Outcome_Retry, h1))"

text \<open>The queue runs a job again while it throws and has attempts left; before each run, others may
  have changed the tables. The number is how often it ran.\<close>

function run_delivery_job :: "hooks_config \<Rightarrow> sealing \<Rightarrow> (nat \<Rightarrow> world) \<Rightarrow> (nat \<Rightarrow> hooks \<Rightarrow> hooks) \<Rightarrow> deliver_job \<Rightarrow> nat \<Rightarrow> hooks \<Rightarrow> nat \<times> hooks" where
  "run_delivery_job cfg sl w others j made h =
     (let (threw, h1) = process_delivery_job cfg sl (w made) j made (others made h) in
      if threw \<and> made + 1 < dj_attempts j then run_delivery_job cfg sl w others j (made + 1) h1 else (made + 1, h1))"
  by pat_completeness auto
termination
  by (relation "measure (\<lambda>(cfg, sl, w, others, j, made, h). dj_attempts j - made)") auto

declare run_delivery_job.simps [simp del]

section \<open>Deliveries come to an end\<close>

text \<open>The rows that the foreign key and the key of the secrets guarantee.\<close>

definition secrets_open :: "sealing \<Rightarrow> endpoint \<Rightarrow> bool" where
  "secrets_open sl e \<longleftrightarrow>
     sl_unseal sl (en_secret e) \<noteq> None \<and> (\<forall>x. en_previous_secret e = Some x \<longrightarrow> sl_unseal sl x \<noteq> None)"

definition hooks_ok :: "sealing \<Rightarrow> hooks \<Rightarrow> bool" where
  "hooks_ok sl h \<longleftrightarrow>
     (\<forall>d \<in> set (hk_deliveries h). dv_endpoint d \<in> en_id ` set (hk_endpoints h)) \<and>
     (\<forall>e \<in> set (hk_endpoints h). secrets_open sl e)"

lemma secrets_open_active: "secrets_open sl e \<Longrightarrow> active_secrets (sl_unseal sl) now e \<noteq> None"
  by (auto simp: secrets_open_def active_secrets_def split: option.splits if_splits)

lemma attempt_goes: "secrets_open sl e \<Longrightarrow> \<exists>r. attempt_delivery cfg sl w e d = Inr r"
  using secrets_open_active [of sl e "wd_now w"]
  by (auto simp: attempt_delivery_def delivery_post_def split: resolution.splits option.splits)

lemma hooks_ok_set_delivery:
  "(\<And>x. dv_endpoint (f x) = dv_endpoint x) \<Longrightarrow> hooks_ok sl h \<Longrightarrow> hooks_ok sl (set_delivery i f h)"
  by (auto simp: hooks_ok_def set_delivery_def set_row_def)

lemma hooks_ok_set_endpoint:
  assumes "\<And>x. en_id (f x) = en_id x" and "\<And>x. secrets_open sl (f x) = secrets_open sl x" and "hooks_ok sl h"
  shows "hooks_ok sl (set_endpoint i f h)"
proof -
  have "en_id ` set (set_row en_id i f es) = en_id ` set es" for es
    using assms(1) by (induction es) (auto simp: set_row_def)
  then show ?thesis using assms by (auto simp: hooks_ok_def set_endpoint_def set_row_def)
qed

lemma record_final_failure_ok: "hooks_ok sl h \<Longrightarrow> hooks_ok sl (record_final_failure cfg i h)"
  by (auto simp: record_final_failure_def Let_def secrets_open_def intro!: hooks_ok_set_endpoint split: option.splits)

lemma record_attempt_ok: "hooks_ok sl h \<Longrightarrow> hooks_ok sl (snd (record_attempt cfg now b e d r h))"
  by (cases r) (auto simp: record_attempt_def Let_def secrets_open_def
      intro!: hooks_ok_set_endpoint hooks_ok_set_delivery record_final_failure_ok)

lemma deliver_ok: "hooks_ok sl h \<Longrightarrow> hooks_ok sl (snd (deliver cfg sl w i b h))"
  using record_attempt_ok [of sl h]
  by (auto simp: deliver_def split: option.splits sum.splits prod.splits intro!: hooks_ok_set_delivery) (metis snd_conv)

lemma record_final_failure_deliveries [simp]: "hk_deliveries (record_final_failure cfg i h) = hk_deliveries h"
  by (simp add: record_final_failure_def Let_def set_endpoint_def split: option.splits)

lemma set_endpoint_deliveries [simp]: "hk_deliveries (set_endpoint i f h) = hk_deliveries h"
  by (simp add: set_endpoint_def)

definition settled :: "uuid \<Rightarrow> hooks \<Rightarrow> bool" where
  "settled i h \<longleftrightarrow> (\<forall>d. row_by dv_id i (hk_deliveries h) = Some d \<longrightarrow> dv_status d \<noteq> Delivery_Pending)"

lemma record_attempt_settles:
  assumes "row_by dv_id i (hk_deliveries h) = Some d" and "record_attempt cfg now b e d r h = (out, h1)" and "b \<or> out \<noteq> Outcome_Retry"
  shows "settled i h1"
proof -
  have i: "dv_id d = i" using assms(1) by (auto dest: row_by_Some)
  show ?thesis
    using assms i by (cases r)
      (auto simp: record_attempt_def Let_def settled_def set_delivery_def row_by_set_row split: if_splits)
qed

text \<open>A run that is the last, or that does not ask for another, leaves the delivery settled.\<close>

lemma deliver_settles:
  assumes "hooks_ok sl h" and "deliver cfg sl w i b h = (r, h1)" and "b \<or> r = Inr out \<and> out \<noteq> Outcome_Retry"
  shows "settled i h1"
proof (cases "row_by dv_id i (hk_deliveries h)")
  case None
  then show ?thesis using assms(2) by (auto simp: deliver_def settled_def)
next
  case (Some d)
  then have d: "d \<in> set (hk_deliveries h)" "dv_id d = i" by (auto dest: row_by_Some)
  obtain e where e: "row_by en_id (dv_endpoint d) (hk_endpoints h) = Some e"
    using assms(1) d(1) by (cases "row_by en_id (dv_endpoint d) (hk_endpoints h)") (auto simp: hooks_ok_def row_by_None_iff)
  then have "secrets_open sl e" using assms(1) by (auto simp: hooks_ok_def dest: row_by_Some)
  then obtain res where res: "attempt_delivery cfg sl w e d = Inr res" using attempt_goes by blast
  show ?thesis
  proof (cases "dv_status d = Delivery_Succeeded \<or> \<not> en_enabled e \<or> en_deleted_at e \<noteq> None")
    case True
    then show ?thesis using assms(2) Some e d(2)
      by (auto simp: deliver_def settled_def set_delivery_def row_by_set_row split: if_splits)
  next
    case False
    obtain out' h' where ra: "record_attempt cfg (wd_now w) b e d res h = (out', h')" by fastforce
    then have "r = Inr out'" "h1 = h'" using False assms(2) Some e res by (auto simp: deliver_def)
    then show ?thesis using record_attempt_settles [OF Some ra] assms(3) by auto
  qed
qed

lemma process_job_settles:
  assumes "hooks_ok sl h" and "process_delivery_job cfg sl w j made h = (threw, h1)" and "\<not> threw \<or> dj_attempts j \<le> made + 1"
  shows "settled (dj_delivery j) h1"
proof -
  obtain r where d: "deliver cfg sl w (dj_delivery j) (dj_attempts j \<le> made + 1) h = (r, h1)"
    and t: "threw = (case r of Inl e \<Rightarrow> True | Inr out \<Rightarrow> out = Outcome_Retry)"
    using assms(2) by (auto simp: process_delivery_job_def split: prod.splits)
  show ?thesis
  proof (cases r)
    case (Inl err)
    then show ?thesis using deliver_settles [OF assms(1) d] t assms(3) by auto
  next
    case (Inr out)
    then show ?thesis using deliver_settles [OF assms(1) d, of out] t assms(3) by auto
  qed
qed

lemma process_job_ok: "hooks_ok sl h \<Longrightarrow> hooks_ok sl (snd (process_delivery_job cfg sl w j made h))"
  using deliver_ok by (auto simp: process_delivery_job_def split: prod.splits) (metis snd_conv)

lemma run_job_settles:
  assumes "\<And>k g. hooks_ok sl g \<Longrightarrow> hooks_ok sl (others k g)" and "hooks_ok sl h" and "made < dj_attempts j"
  shows "fst (run_delivery_job cfg sl w others j made h) \<le> dj_attempts j \<and>
    settled (dj_delivery j) (snd (run_delivery_job cfg sl w others j made h))"
  using assms(2,3)
proof (induction "dj_attempts j - made" arbitrary: made h rule: less_induct)
  case less
  obtain threw h1 where p: "process_delivery_job cfg sl (w made) j made (others made h) = (threw, h1)" by fastforce
  have ok: "hooks_ok sl (others made h)" by (rule assms(1) [OF less.prems(1)])
  then have ok1: "hooks_ok sl h1" using process_job_ok [OF ok, of cfg "w made" j made] p by simp
  show ?case
  proof (cases "threw \<and> made + 1 < dj_attempts j")
    case True
    then have "run_delivery_job cfg sl w others j made h = run_delivery_job cfg sl w others j (made + 1) h1"
      by (simp add: run_delivery_job.simps [of cfg sl w others j made] p)
    moreover have "dj_attempts j - (made + 1) < dj_attempts j - made" using True by linarith
    ultimately show ?thesis using less.hyps ok1 True by simp
  next
    case False
    then have "run_delivery_job cfg sl w others j made h = (made + 1, h1)"
      by (auto simp: run_delivery_job.simps [of cfg sl w others j made] p)
    then show ?thesis using process_job_settles [OF ok p] False less.prems(2) by auto
  qed
qed


section \<open>Where requests go\<close>

text \<open>
  Internal addresses, written out over the numbers of an address instead of the masks of the code: this host
  and loopback, the private networks of RFC 1918, shared (carrier) and link-local addresses with the metadata
  services of clouds, multicast and reserved ones; in IPv6 unspecified and loopback, unique
  local, link-local and multicast addresses, and the IPv4 addresses among them.
\<close>

definition internal_octets :: "nat \<Rightarrow> nat \<Rightarrow> bool" where
  "internal_octets a b \<longleftrightarrow> a = 0 \<or> a = 10 \<or> a = 127 \<or> (a = 100 \<and> 64 \<le> b \<and> b \<le> 127) \<or> (a = 169 \<and> b = 254) \<or>
     (a = 172 \<and> 16 \<le> b \<and> b \<le> 31) \<or> (a = 192 \<and> b = 168) \<or> 224 \<le> a"

text \<open>The number of an IPv4 address is \<open>a * 2 ^ 24 + b * 2 ^ 16 + rest\<close>; the first group of an IPv6 address is its upper 16 bits.\<close>

fun internal_address :: "ip \<Rightarrow> bool" where
  "internal_address (IPv4 x) = internal_octets (unat x div 2 ^ 24) (unat x div 2 ^ 16 mod 256)"
| "internal_address (IPv6 x) =
     (let n = unat x; group = n div 2 ^ 112 in
      n \<le> 1 \<or> (0xFC00 \<le> group \<and> group \<le> 0xFDFF) \<or> (0xFE80 \<le> group \<and> group \<le> 0xFEBF) \<or> 0xFF00 \<le> group \<or>
      (n div 2 ^ 32 = 0xFFFF \<and> internal_octets (n div 2 ^ 24 mod 256) (n div 2 ^ 16 mod 256)))"

lemma in_network_iff: "in_network net len (a :: 'a::len word) \<longleftrightarrow> unat a div 2 ^ (LENGTH('a) - len) = unat net div 2 ^ (LENGTH('a) - len)"
  unfolding in_network_def word_unat_eq_iff unat_drop_bit_eq by (simp only: drop_bit_eq_div)

lemma div_eq_bounds: "0 < k \<Longrightarrow> n div k = q \<longleftrightarrow> q * k \<le> n \<and> n < q * k + k" for n k q :: nat
  using div_nat_eqI [of k q n] div_times_less_eq_dividend [of n k] dividend_less_div_times [of k n] by (auto simp: mult.commute)

lemma first_octets:
  fixes a b :: nat
  assumes "b < 256" and "a < 256" and "h = a * 256 + b"
  shows "h div 64 = 401 \<longleftrightarrow> a = 100 \<and> 64 \<le> b \<and> b \<le> 127" and "h = 43518 \<longleftrightarrow> a = 169 \<and> b = 254" and "h = 49320 \<longleftrightarrow> a = 192 \<and> b = 168"
    and "h div 16 = 2753 \<longleftrightarrow> a = 172 \<and> 16 \<le> b \<and> b \<le> 31" and "h div 8192 = 7 \<longleftrightarrow> 224 \<le> a"
proof -
  show "h div 64 = 401 \<longleftrightarrow> a = 100 \<and> 64 \<le> b \<and> b \<le> 127" using assms by (cases a "100 :: nat" rule: linorder_cases) (auto simp: div_eq_bounds)
  show "h = 43518 \<longleftrightarrow> a = 169 \<and> b = 254" using assms by (cases a "169 :: nat" rule: linorder_cases) auto
  show "h = 49320 \<longleftrightarrow> a = 192 \<and> b = 168" using assms by (cases a "192 :: nat" rule: linorder_cases) auto
  show "h div 16 = 2753 \<longleftrightarrow> a = 172 \<and> 16 \<le> b \<and> b \<le> 31" using assms by (cases a "172 :: nat" rule: linorder_cases) (auto simp: div_eq_bounds)
  show "h div 8192 = 7 \<longleftrightarrow> 224 \<le> a" using assms by (auto simp: div_eq_bounds)
qed

lemma octets_of_mod: "n mod 2 ^ 32 div 2 ^ 24 = n div 2 ^ 24 mod (256 :: nat)" "n mod 2 ^ 32 div 2 ^ 16 mod 256 = n div 2 ^ 16 mod (256 :: nat)"
proof -
  show "n mod 2 ^ 32 div 2 ^ 24 = n div 2 ^ 24 mod 256"
    using drop_bit_take_bit [of 24 32 n] by (simp add: drop_bit_eq_div take_bit_eq_mod)
  have "n mod 2 ^ 32 div 2 ^ 16 = n div 2 ^ 16 mod 2 ^ 16"
    using drop_bit_take_bit [of 16 32 n] by (simp add: drop_bit_eq_div take_bit_eq_mod)
  then show "n mod 2 ^ 32 div 2 ^ 16 mod 256 = n div 2 ^ 16 mod 256" by (simp add: mod_mod_cancel)
qed

lemma private_v4_iff: "is_private_v4 x \<longleftrightarrow> internal_octets (unat x div 2 ^ 24) (unat x div 2 ^ 16 mod 256)"
proof -
  define n h where "n = unat x" and "h = n div 2 ^ 16"
  have "n < 2 ^ LENGTH(32)" unfolding n_def by (rule unsigned_less)
  then have "n < 2 ^ 16 * 2 ^ 16" by simp
  then have "h < 2 ^ 16" unfolding h_def by (rule less_mult_imp_div_less)
  then have less: "h < 65536" by simp
  have octets: "h mod 256 < 256" "h div 256 < 256" "h = h div 256 * 256 + h mod 256" using less by simp_all
  have div: "n div 16777216 = h div 256" "n div 4194304 = h div 64" "n div 1048576 = h div 16" "n div 536870912 = h div 8192" "n div 65536 = h"
    by (simp_all add: h_def flip: div_mult2_eq)
  have "is_private_v4 x \<longleftrightarrow> n div 16777216 = 0 \<or> n div 16777216 = 10 \<or> n div 4194304 = 401 \<or> n div 16777216 = 127 \<or>
      n div 65536 = 43518 \<or> n div 1048576 = 2753 \<or> n div 65536 = 49320 \<or> n div 536870912 = 7"
    by (simp add: is_private_v4_def PRIVATE_V4_def in_network_iff v4_def n_def)
  note this [unfolded div]
  moreover note first_octets [OF octets]
  moreover have octet: "n div 2 ^ 24 = h div 256" using div(1) by simp
  ultimately show ?thesis unfolding internal_octets_def n_def [symmetric] h_def [symmetric] octet by argo
qed

text \<open>The masks of the code are exactly these addresses.\<close>

lemma is_private_iff: "is_private a \<longleftrightarrow> internal_address a"
proof (cases a)
  case (IPv4 x)
  then show ?thesis by (simp add: private_v4_iff)
next
  case (IPv6 x)
  define n g where "n = unat x" and "g = n div 2 ^ 112"
  have "n < 2 ^ LENGTH(128)" unfolding n_def by (rule unsigned_less)
  then have "n < 2 ^ 16 * 2 ^ 112" by simp
  then have "g < 2 ^ 16" unfolding g_def by (rule less_mult_imp_div_less)
  then have less: "g < 65536" by simp
  have div: "n div 2 ^ 121 = g div 2 ^ 9" "n div 2 ^ 118 = g div 2 ^ 6" "n div 2 ^ 120 = g div 2 ^ 8"
    by (simp_all add: g_def flip: div_mult2_eq)
  have mapped: "mapped_v4 x = (if n div 2 ^ 32 = 0xFFFF then Some (ucast x) else None)"
    unfolding mapped_v4_def word_unat_eq_iff unat_drop_bit_eq by (simp add: drop_bit_eq_div n_def)
  have "g = n div 2 ^ 32 div 2 ^ 80" by (simp add: g_def flip: div_mult2_eq)
  then have low: "g = 0 \<and> \<not> n \<le> 1" if "n div 2 ^ 32 = 0xFFFF" using that by auto
  have v4: "is_private_v4 (ucast x) \<longleftrightarrow> internal_octets (n div 2 ^ 24 mod 256) (n div 2 ^ 16 mod 256)"
  proof -
    have "unat (ucast x :: 32 word) = n mod 2 ^ 32" by (simp add: n_def unsigned_ucast_eq take_bit_eq_mod)
    then show ?thesis by (simp only: private_v4_iff octets_of_mod)
  qed
  have "list_ex (\<lambda>(net, len). in_network net len x) PRIVATE_V6 \<longleftrightarrow> n div 2 = 0 \<or> g div 2 ^ 9 = 126 \<or> g div 2 ^ 6 = 1018 \<or> g div 2 ^ 8 = 255"
    using div by (simp add: PRIVATE_V6_def in_network_iff n_def [symmetric] del: div_eq_0_iff)
  also have "\<dots> \<longleftrightarrow> n \<le> 1 \<or> (0xFC00 \<le> g \<and> g \<le> 0xFDFF) \<or> (0xFE80 \<le> g \<and> g \<le> 0xFEBF) \<or> 0xFF00 \<le> g"
    using less by (auto simp: div_eq_bounds)
  finally have ranges: "list_ex (\<lambda>(net, len). in_network net len x) PRIVATE_V6 \<longleftrightarrow> \<dots>" .
  show ?thesis
  proof (cases "n div 2 ^ 32 = 0xFFFF")
    case True
    then have "is_private a \<longleftrightarrow> is_private_v4 (ucast x)" by (simp add: IPv6 mapped)
    then show ?thesis using low [OF True] True v4 unfolding IPv6 internal_address.simps Let_def n_def [symmetric] g_def [symmetric] by simp
  next
    case False
    then have "is_private a \<longleftrightarrow> list_ex (\<lambda>(net, len). in_network net len x) PRIVATE_V6" by (simp add: IPv6 mapped)
    then show ?thesis using False unfolding ranges IPv6 internal_address.simps Let_def n_def [symmetric] g_def [symmetric] by blast
  qed
qed

text \<open>
  C29. A delivery is sent to no internal address and over no plain connection, unless the
  operator allows it: the address of the request is neither this host, nor in a private, shared,
  link-local, metadata, multicast or reserved network (as \<open>internal_address\<close> spells them out,
  in IPv4, IPv6 and mapped notation); it is one that the check has seen, so a name that resolves
  otherwise the next time changes nothing, and a host with any internal address gets no request.
\<close>

theorem deliveries_avoid_private_addresses:
  assumes "delivery_post cfg sl w e d = Inr (Inr rq)" and "\<not> hc_allow_private_urls cfg" and "hc_require_https cfg"
  shows "\<not> internal_address (hp_address rq) \<and> ur_protocol (hp_url rq) = ''https:'' \<and> wd_parse w (en_url e) = Some (hp_url rq) \<and>
    (\<exists>as. lookup_host (wd_dns w) (ur_host (hp_url rq)) = Some as \<and> hp_address rq \<in> set as \<and> (\<forall>a \<in> set as. \<not> internal_address a))"
  using assms unfolding is_private_iff [symmetric]
  by (auto simp: delivery_post_def resolve_url_def delivery_request_def list_ex_iff split: option.splits if_splits list.splits)

section \<open>A delivery\<close>

definition demo_hooks_config :: hooks_config where
  "demo_hooks_config = \<lparr>hc_max_attempts = 3, hc_backoff_ms = 30000, hc_disable_after_failures = 20,
     hc_allow_private_urls = False, hc_require_https = True\<rparr>"

definition demo_sealing :: sealing where
  "demo_sealing = \<lparr>sl_unseal = (\<lambda>s. Some s), sl_hmac = (\<lambda>k b. ''ab'')\<rparr>"

definition demo_url :: url where
  "demo_url = \<lparr>ur_protocol = ''https:'', ur_username = [], ur_password = [], ur_host = Host_Name ''x.io'', ur_rest = ''/h''\<rparr>"

text \<open>A receiver with one public address that always answers 500.\<close>

definition demo_world :: world where
  "demo_world = \<lparr>wd_now = 5000, wd_parse = (\<lambda>_. Some demo_url), wd_dns = (\<lambda>_. Some [IPv4 (v4 8 8 8 8)]), wd_post = (\<lambda>_. Inr (500, ''no''))\<rparr>"

definition demo_endpoint :: endpoint where
  "demo_endpoint = \<lparr>en_id = 1, en_org = 7, en_url = ''https://x.io/h'', en_description = None, en_types = [''*''], en_enabled = True,
     en_disabled_reason = None, en_secret = ''s'', en_previous_secret = None, en_previous_expires_at = None, en_failures = 0,
     en_created_at = 0, en_deleted_at = None\<rparr>"

definition demo_delivery :: delivery where
  "demo_delivery = new_delivery 0 2 1 ''9'' ''payment.successful'' JNull"

definition demo_hooks :: hooks where
  "demo_hooks = \<lparr>hk_platform = empty_platform, hk_endpoints = [demo_endpoint], hk_deliveries = [demo_delivery], hk_jobs = []\<rparr>"

definition demo_job :: deliver_job where
  "demo_job = \<lparr>dj_id = ''delivery-2'', dj_delivery = 2, dj_attempts = 3, dj_backoff = 30000\<rparr>"

lemma demo_hooks_ok: "hooks_ok demo_sealing demo_hooks"
  by (simp add: hooks_ok_def demo_hooks_def demo_delivery_def new_delivery_def demo_endpoint_def secrets_open_def demo_sealing_def)


theorem deliveries_avoid_private_addresses_witness:
  "\<exists>rq. delivery_post demo_hooks_config demo_sealing demo_world demo_endpoint demo_delivery = Inr (Inr rq) \<and>
     \<not> internal_address (hp_address rq) \<and> ur_protocol (hp_url rq) = ''https:''"
proof -
  have "case delivery_post demo_hooks_config demo_sealing demo_world demo_endpoint demo_delivery of
      Inr (Inr rq) \<Rightarrow> True | _ \<Rightarrow> False" by code_simp
  then obtain rq where "delivery_post demo_hooks_config demo_sealing demo_world demo_endpoint demo_delivery = Inr (Inr rq)"
    by (auto split: sum.splits)
  from this deliveries_avoid_private_addresses [OF this] show ?thesis by (auto simp: demo_hooks_config_def)
qed

end
