(* ===== verification/Provider_Http.thy ===== *)
theory Provider_Http
  imports Webhooks Reconciliation
begin

text \<open>
  What the provider adapters share: \<open>http/json-http-client.ts\<close>, JavaScript's view of a parsed
  response, the encoding of paths and queries, and \<open>refund-lookup.ts\<close>. The network (\<open>fetch\<close>),
  \<open>JSON.parse\<close>, the text of a date and the hashes are the record \<open>web\<close>. TypeScript's casts of a
  response are unchecked: a field that a result needs as a text and that is none is read as
  an exception at once, where the program would pass \<open>undefined\<close> on to the database, which refuses it; an element of a list that is \<open>null\<close> reads as an object
  without fields.
\<close>

section \<open>Values\<close>

text \<open>A parsed JSON value; a number is its text, as \<open>String(n)\<close> gives it.\<close>

datatype js =
    Js_Null
  | Js_Bool bool
  | Js_Num string
  | Js_Str string
  | Js_Arr "js list"
  | Js_Obj "(string \<times> js) list"

text \<open>\<open>x.key\<close>, \<open>undefined\<close> being \<open>None\<close>; reading from \<open>null\<close> or \<open>undefined\<close> throws.\<close>

definition js_prop :: "string \<Rightarrow> js \<Rightarrow> js option" where
  "js_prop key x = (case x of Js_Obj fs \<Rightarrow> map_of fs key | _ \<Rightarrow> None)"

definition type_error :: "string \<Rightarrow> provider_failure" where
  "type_error key = Other_Failure (''Cannot read properties of undefined (reading '' @ key @ '')'')"

definition read_prop :: "string \<Rightarrow> js option \<Rightarrow> js option answer" where
  "read_prop key x = (case x of None \<Rightarrow> Inl (type_error key) | Some Js_Null \<Rightarrow> Inl (type_error key) | Some y \<Rightarrow> Inr (js_prop key y))"

text \<open>\<open>x?.key\<close>.\<close>

definition opt_prop :: "string \<Rightarrow> js option \<Rightarrow> js option" where
  "opt_prop key x = (case x of None \<Rightarrow> None | Some y \<Rightarrow> js_prop key y)"

text \<open>\<open>a ?? b\<close>.\<close>

definition nullish :: "js option \<Rightarrow> js option \<Rightarrow> js option" where
  "nullish a b = (if a = None \<or> a = Some Js_Null then b else a)"

fun js_truthy :: "js option \<Rightarrow> bool" where
  "js_truthy None = False"
| "js_truthy (Some Js_Null) = False"
| "js_truthy (Some (Js_Bool b)) = b"
| "js_truthy (Some (Js_Num n)) = (n \<noteq> ''0'')"
| "js_truthy (Some (Js_Str s)) = (s \<noteq> [])"
| "js_truthy (Some (Js_Arr xs)) = True"
| "js_truthy (Some (Js_Obj fs)) = True"

text \<open>\<open>String(x)\<close>.\<close>

fun js_text :: "js \<Rightarrow> string" where
  "js_text Js_Null = ''null''"
| "js_text (Js_Bool b) = (if b then ''true'' else ''false'')"
| "js_text (Js_Num n) = n"
| "js_text (Js_Str s) = s"
| "js_text (Js_Arr xs) = join '','' (map (\<lambda>x. if x = Js_Null then [] else js_text x) xs)"
| "js_text (Js_Obj fs) = ''[object Object]''"

definition text_of :: "js option \<Rightarrow> string" where
  "text_of x = (case x of None \<Rightarrow> ''undefined'' | Some y \<Rightarrow> js_text y)"

definition is_str :: "js option \<Rightarrow> string \<Rightarrow> bool" where
  "is_str x s \<longleftrightarrow> x = Some (Js_Str s)"

definition as_text :: "string \<Rightarrow> js option \<Rightarrow> string answer" where
  "as_text key x = (case x of Some (Js_Str s) \<Rightarrow> Inr s | _ \<Rightarrow> Inl (Other_Failure (key @ '' is not a text'')))"

definition opt_text :: "js option \<Rightarrow> string option" where
  "opt_text x = (case x of Some (Js_Str s) \<Rightarrow> Some s | _ \<Rightarrow> None)"

text \<open>\<open>BigInt(x)\<close> of the decimal texts and whole numbers that amounts are.\<close>

definition whole_text :: "string \<Rightarrow> int option" where
  "whole_text s =
     (case s of
        [] \<Rightarrow> None
      | c # ds \<Rightarrow> if c = CHR ''-'' then (if ds \<noteq> [] \<and> list_all is_digit ds then Some (- int (read_nat ds)) else None)
                 else if list_all is_digit s then Some (int (read_nat s)) else None)"

definition to_bigint :: "js option \<Rightarrow> int answer" where
  "to_bigint x =
     (let bad = Inl (Other_Failure ''Cannot convert to a BigInt'') in
      case x of
        Some (Js_Num n) \<Rightarrow> (case whole_text n of None \<Rightarrow> bad | Some i \<Rightarrow> Inr i)
      | Some (Js_Str s) \<Rightarrow> (case whole_text s of None \<Rightarrow> bad | Some i \<Rightarrow> Inr i)
      | _ \<Rightarrow> bad)"

text \<open>Whole numbers where the source compares numbers; anything else compares like \<open>NaN\<close>.\<close>

definition js_int :: "js option \<Rightarrow> int option" where
  "js_int x =
     (case x of
        Some (Js_Num n) \<Rightarrow> whole_text n
      | Some (Js_Str s) \<Rightarrow> whole_text s
      | Some Js_Null \<Rightarrow> Some 0
      | Some (Js_Bool b) \<Rightarrow> Some (if b then 1 else 0)
      | _ \<Rightarrow> None)"

definition as_array :: "js option \<Rightarrow> js list answer" where
  "as_array x = (case x of Some (Js_Arr xs) \<Rightarrow> Inr xs | _ \<Rightarrow> Inl (Other_Failure ''not iterable''))"

definition js_texts :: "(string \<times> string) list \<Rightarrow> js" where
  "js_texts kvs = Js_Obj (map (\<lambda>(k, v). (k, Js_Str v)) kvs)"

text \<open>The stored payload: numbers that are not whole keep their text.\<close>

fun js_json :: "js \<Rightarrow> json" where
  "js_json Js_Null = JNull"
| "js_json (Js_Bool b) = JBool b"
| "js_json (Js_Num n) = (case whole_text n of None \<Rightarrow> JStr n | Some i \<Rightarrow> JNum i)"
| "js_json (Js_Str s) = JStr s"
| "js_json (Js_Arr xs) = JArr (map js_json xs)"
| "js_json (Js_Obj fs) = JObj (map (\<lambda>(k, v). (k, js_json v)) fs)"

fun each_answer :: "('a \<Rightarrow> 'b answer) \<Rightarrow> 'a list \<Rightarrow> 'b list answer" where
  "each_answer f [] = Inr []"
| "each_answer f (x # xs) = bind_res (f x) (\<lambda>y. bind_res (each_answer f xs) (\<lambda>ys. Inr (y # ys)))"

section \<open>Requests\<close>

datatype http_method = Get | Post

record json_request =
  jr_method :: http_method
  jr_url :: string
  jr_headers :: "(string \<times> string) list"
  jr_body :: "js option"
  jr_form :: "(string \<times> string) list option"
  jr_timeout :: int

text \<open>What \<open>fetch\<close> and \<open>response.text()\<close> come to.\<close>

datatype fetched = Timed_Out | Fetch_Error string | Response int string

record web =
  wb_fetch :: "json_request \<Rightarrow> fetched"
  wb_parse :: "string \<Rightarrow> js option"
  wb_iso :: "int \<Rightarrow> string"
  wb_date :: "string \<Rightarrow> int option"

text \<open>\<open>PaymentProviderError\<close> with the HTTP status, as an adapter sees it.\<close>

record http_failure =
  hf_message :: string
  hf_retryable :: bool
  hf_status :: "int option"

definition failure_of :: "http_failure \<Rightarrow> provider_failure" where
  "failure_of f = Provider_Failure (hf_message f) (hf_retryable f)"

definition has_key :: "string \<Rightarrow> js \<Rightarrow> bool" where
  "has_key key x \<longleftrightarrow> js_prop key x \<noteq> None"

definition provider_message :: "js \<Rightarrow> string" where
  "provider_message body =
     (if has_key ''message'' body then take 300 (text_of (js_prop ''message'' body))
      else (case js_prop ''error'' body of
          Some e \<Rightarrow> if has_key ''message'' e then take 300 (text_of (js_prop ''message'' e)) else ''no message''
        | None \<Rightarrow> ''no message''))"

definition json_http_request :: "web \<Rightarrow> json_request \<Rightarrow> http_failure + int \<times> js" where
  "json_http_request wb rq =
     (case wb_fetch wb rq of
        Timed_Out \<Rightarrow> Inl \<lparr>hf_message = ''Request failed: timed out'', hf_retryable = True, hf_status = None\<rparr>
      | Fetch_Error m \<Rightarrow> Inl \<lparr>hf_message = ''Request failed: '' @ m, hf_retryable = True, hf_status = None\<rparr>
      | Response status text \<Rightarrow>
          (case (if text = [] then Some (Js_Obj []) else wb_parse wb text) of
             None \<Rightarrow> Inl \<lparr>hf_message = ''Non-JSON response (HTTP '' @ show_int status @ '')'', hf_retryable = 500 \<le> status, hf_status = None\<rparr>
           | Some body \<Rightarrow>
               if \<not> (200 \<le> status \<and> status < 300)
               then Inl \<lparr>hf_message = ''HTTP '' @ show_int status @ '': '' @ provider_message body,
                        hf_retryable = (500 \<le> status \<or> status = 429), hf_status = Some status\<rparr>
               else Inr (status, body)))"

section \<open>Times, letters and amounts\<close>

text \<open>\<open>new Date(x)\<close> in milliseconds; \<open>None\<close> is an invalid date, which no range holds and no record can be stored with.\<close>

definition js_time :: "web \<Rightarrow> js option \<Rightarrow> int option" where
  "js_time wb t =
     (case t of
        Some (Js_Str s) \<Rightarrow> wb_date wb s
      | Some (Js_Num n) \<Rightarrow> whole_text n
      | Some (Js_Bool b) \<Rightarrow> Some (if b then 1 else 0)
      | _ \<Rightarrow> None)"

definition time_answer :: "int option \<Rightarrow> int answer" where
  "time_answer t = (case t of None \<Rightarrow> Inl (Other_Failure ''Invalid time value'') | Some x \<Rightarrow> Inr x)"

definition in_range :: "int \<Rightarrow> int \<Rightarrow> int option \<Rightarrow> bool" where
  "in_range from_t to_t t = (case t of None \<Rightarrow> False | Some x \<Rightarrow> from_t \<le> x \<and> x < to_t)"

definition upper_letter :: "char \<Rightarrow> char" where
  "upper_letter c = (if CHR ''a'' \<le> c \<and> c \<le> CHR ''z'' then char_of (of_char c - 32 :: nat) else c)"

definition starts_with :: "string \<Rightarrow> string \<Rightarrow> bool" where
  "starts_with p s \<longleftrightarrow> take (length p) s = p"

definition contains_text :: "string \<Rightarrow> string \<Rightarrow> bool" where
  "contains_text p s \<longleftrightarrow> list_ex (\<lambda>k. starts_with p (drop k s)) [0..<Suc (length s)]"

text \<open>An amount in major units as \<open>fromMajorUnits\<close> and \<open>toMajorUnitNumber\<close> take it, a \<open>RangeError\<close> being an exception.\<close>

definition amount_of :: "js option \<Rightarrow> amount_value" where
  "amount_of x = (case x of Some (Js_Num n) \<Rightarrow> Amount_Number n | Some (Js_Str s) \<Rightarrow> Amount_Text s | _ \<Rightarrow> Amount_Other)"

definition money_answer :: "'a res \<Rightarrow> 'a answer" where
  "money_answer r = (case r of Inl e \<Rightarrow> Inl (Other_Failure (case e of Range_Error m \<Rightarrow> m | _ \<Rightarrow> ''Error'')) | Inr x \<Rightarrow> Inr x)"

definition given :: "string \<Rightarrow> js option \<Rightarrow> (string \<times> js) list" where
  "given key x = (case x of None \<Rightarrow> [] | Some v \<Rightarrow> [(key, v)])"

text \<open>\<open>Number(text)\<close> of the whole numbers that identifiers are; other texts are \<open>NaN\<close>, which JSON writes as \<open>null\<close>.\<close>

definition number_of_text :: "string \<Rightarrow> js" where
  "number_of_text s = (if trim s = [] then Js_Num ''0'' else case whole_text (trim s) of None \<Rightarrow> Js_Null | Some i \<Rightarrow> Js_Num (show_int i))"

section \<open>Paths and queries\<close>

definition hex_char :: "nat \<Rightarrow> char" where
  "hex_char n = ''0123456789ABCDEF'' ! n"

definition percent :: "char \<Rightarrow> string" where
  "percent c = [CHR ''%'', hex_char (of_char c div 16), hex_char (of_char c mod 16)]"

definition is_alnum :: "char \<Rightarrow> bool" where
  "is_alnum c \<longleftrightarrow> is_digit c \<or> (CHR ''A'' \<le> c \<and> c \<le> CHR ''Z'') \<or> (CHR ''a'' \<le> c \<and> c \<le> CHR ''z'')"

text \<open>\<open>encodeURIComponent\<close> of the bytes of a text.\<close>

definition encode_component :: "string \<Rightarrow> string" where
  "encode_component s = concat (map (\<lambda>c. if is_alnum c \<or> c \<in> set [CHR ''-'', CHR ''_'', CHR ''.'', CHR ''!'', CHR ''~'', CHR ''*'', CHR 0x27, CHR ''('', CHR '')''] then [c] else percent c) s)"

definition encode_form :: "string \<Rightarrow> string" where
  "encode_form s = concat (map (\<lambda>c. if is_alnum c \<or> c \<in> set ''*-._'' then [c] else if c = CHR '' '' then ''+'' else percent c) s)"

text \<open>\<open>new URLSearchParams(...).toString()\<close>.\<close>

definition query_string :: "(string \<times> string) list \<Rightarrow> string" where
  "query_string ps = join ''&'' (map (\<lambda>(k, v). encode_form k @ ''='' @ encode_form v) ps)"

section \<open>Hexadecimal digests\<close>

text \<open>Buffers are texts of bytes. \<open>digest('hex')\<close> and \<open>Buffer.from(s, 'hex')\<close> on lower-case digits.\<close>

definition low_hex :: "nat \<Rightarrow> char" where
  "low_hex n = ''0123456789abcdef'' ! n"

definition is_low_hex :: "char \<Rightarrow> bool" where
  "is_low_hex c \<longleftrightarrow> c \<in> set ''0123456789abcdef''"

definition hex_value :: "char \<Rightarrow> nat" where
  "hex_value c = (if is_digit c then of_char c - 48 else of_char c - 87)"

fun to_hex :: "string \<Rightarrow> string" where
  "to_hex [] = []"
| "to_hex (c # s) = low_hex (of_char c div 16) # low_hex (of_char c mod 16) # to_hex s"

fun from_hex :: "string \<Rightarrow> string" where
  "from_hex (a # b # s) = char_of (16 * hex_value a + hex_value b) # from_hex s"
| "from_hex s = []"

definition hex_text :: "nat \<Rightarrow> string \<Rightarrow> bool" where
  "hex_text n s \<longleftrightarrow> length s = n \<and> list_all is_low_hex s"

lemma low_hex_digit:
  assumes "n < 16"
  shows "hex_value (low_hex n) = n \<and> is_low_hex (low_hex n)"
proof -
  have "list_all (\<lambda>n. hex_value (low_hex n) = n \<and> is_low_hex (low_hex n)) [0..<16]" by code_simp
  then show ?thesis using assms by (simp add: list_all_iff)
qed

lemma hex_digit_low:
  assumes "is_low_hex c"
  shows "low_hex (hex_value c) = c \<and> hex_value c < 16"
proof -
  have "list_all (\<lambda>c. low_hex (hex_value c) = c \<and> hex_value c < 16) ''0123456789abcdef''" by code_simp
  then show ?thesis using assms by (simp only: list_all_iff is_low_hex_def)
qed

lemma of_char_less: "(of_char c :: nat) < 256"
  by (metis of_char_mod_256 mod_less_divisor zero_less_numeral)

lemma from_to_hex: "from_hex (to_hex s) = s"
proof (induction s)
  case (Cons c s)
  have "(of_char c :: nat) div 16 < 16" "(of_char c :: nat) mod 16 < 16"
    using less_mult_imp_div_less [of "of_char c :: nat" 16 16] of_char_less [of c] by simp_all
  then have "char_of (16 * hex_value (low_hex (of_char c div 16)) + hex_value (low_hex (of_char c mod 16))) = c"
    using low_hex_digit by simp
  then show ?case using Cons by simp
qed simp

lemma to_from_hex: "hex_text (2 * n) s \<Longrightarrow> to_hex (from_hex s) = s"
proof (induction n arbitrary: s)
  case (Suc n)
  then obtain a b t where s: "s = a # b # t" by (cases s; cases "tl s") (auto simp: hex_text_def)
  have h: "low_hex (hex_value a) = a" "hex_value a < 16" "low_hex (hex_value b) = b" "hex_value b < 16" "hex_text (2 * n) t"
    using Suc.prems hex_digit_low by (auto simp: s hex_text_def)
  then have "of_char (char_of (16 * hex_value a + hex_value b) :: char) = 16 * hex_value a + hex_value b" by simp
  then show ?case using h Suc.IH [OF h(5)] by (simp add: s)
qed (simp add: hex_text_def)

text \<open>Comparing decoded digests is comparing their texts.\<close>

lemma from_hex_eq: "hex_text (2 * n) s \<Longrightarrow> from_hex s = d \<longleftrightarrow> s = to_hex d"
  using to_from_hex from_to_hex by metis

section \<open>Our refund among others\<close>

definition pick_our_refund :: "js list \<Rightarrow> string \<Rightarrow> (js \<Rightarrow> string option) \<Rightarrow> string \<Rightarrow> js option answer" where
  "pick_our_refund listed reference note_of provider =
     (case find (\<lambda>r. map_option trim (note_of r) = Some reference) listed of
        Some r \<Rightarrow> Inr (Some r)
      | None \<Rightarrow>
          if list_ex (\<lambda>r. case note_of r of None \<Rightarrow> True | Some n \<Rightarrow> trim n = []) listed
          then Inl (Provider_Failure (provider @ '' has unlabelled refunds on this payment; cannot tell whether refund '' @ reference @ '' was made'') True)
          else Inr None)"

text \<open>An answer that there is no such refund is given only when every refund carries another note.\<close>

lemma pick_our_refund_none:
  "pick_our_refund listed reference note_of provider = Inr None \<longleftrightarrow>
     (\<forall>r \<in> set listed. \<exists>n. note_of r = Some n \<and> trim n \<noteq> [] \<and> trim n \<noteq> reference)"
proof -
  let ?P = "\<lambda>r. map_option trim (note_of r) = Some reference" and ?Q = "\<lambda>r. case note_of r of None \<Rightarrow> True | Some n \<Rightarrow> trim n = []"
  have "pick_our_refund listed reference note_of provider = Inr None \<longleftrightarrow> find ?P listed = None \<and> \<not> list_ex ?Q listed"
    unfolding pick_our_refund_def by (cases "find ?P listed") simp_all
  also have "\<dots> \<longleftrightarrow> (\<forall>r \<in> set listed. \<not> ?P r \<and> \<not> ?Q r)" unfolding find_None_iff list_ex_iff by blast
  also have "\<dots> \<longleftrightarrow> (\<forall>r \<in> set listed. \<exists>n. note_of r = Some n \<and> trim n \<noteq> [] \<and> trim n \<noteq> reference)"
    by (intro ball_cong refl) (auto split: option.splits)
  finally show ?thesis .
qed

section \<open>What a failure means\<close>

text \<open>
  A failed request counts as rejected, and so as definitely not done, only when the provider
  itself answered with a status below 500 other than 429.
\<close>

lemma rejected_only_by_answer:
  assumes "json_http_request wb rq = Inl f" and "\<not> hf_retryable f"
  shows "\<exists>status text. wb_fetch wb rq = Response status text \<and> status < 500 \<and> status \<noteq> 429 \<or>
    (\<exists>text. wb_fetch wb rq = Response 429 text \<and> text \<noteq> [] \<and> wb_parse wb text = None)"
  using assms by (auto simp: json_http_request_def split: fetched.splits option.splits if_splits)

end
