(* ===== verification/Paystack.thy ===== *)
theory Paystack
  imports Provider_Http
begin

text \<open>
  \<open>src/payment-providers/paystack/paystack.provider.ts\<close>: the adapter as a value of the contract
  \<open>payment_provider\<close>, with its webhooks and its lists for reconciliation. Amounts are in minor
  units on both sides, and Paystack's reference of a payment is the one given to it.
\<close>

section \<open>Statuses\<close>

definition paystack_status :: "js option \<Rightarrow> provider_status" where
  "paystack_status s =
     (if is_str s ''success'' then Provider_Successful
      else if is_str s ''failed'' \<or> is_str s ''abandoned'' \<or> is_str s ''reversed'' then Provider_Failed
      else Provider_Pending)"

definition paystack_listed_status :: "js option \<Rightarrow> record_status" where
  "paystack_listed_status s =
     (if is_str s ''success'' then Record_Successful
      else if is_str s ''reversed'' \<or> is_str s ''reversal-pending'' then Record_Refunded
      else if is_str s ''failed'' \<or> is_str s ''abandoned'' then Record_Failed
      else Record_Pending)"

definition paystack_transfer_status :: "js option \<Rightarrow> payout_status" where
  "paystack_transfer_status s =
     (if is_str s ''success'' then Payout_Successful
      else if is_str s ''failed'' \<or> is_str s ''abandoned'' \<or> is_str s ''rejected'' then Payout_Failed
      else if is_str s ''reversed'' then Payout_Reversed
      else Payout_Pending)"

definition paystack_refund_status :: "js option \<Rightarrow> provider_status" where
  "paystack_refund_status s =
     (if is_str s ''processed'' then Provider_Successful
      else if is_str s ''failed'' then Provider_Failed
      else Provider_Pending)"

section \<open>Calls\<close>

record paystack_config =
  ps_secret_key :: string
  ps_base_url :: string
  ps_timeout_ms :: int

definition paystack_request :: "paystack_config \<Rightarrow> http_method \<Rightarrow> string \<Rightarrow> js option \<Rightarrow> json_request" where
  "paystack_request cfg m path body =
     \<lparr>jr_method = m, jr_url = ps_base_url cfg @ path, jr_headers = [(''Authorization'', ''Bearer '' @ ps_secret_key cfg)],
      jr_body = body, jr_form = None, jr_timeout = ps_timeout_ms cfg\<rparr>"

text \<open>The envelope \<open>{ status, message, data }\<close>.\<close>

definition paystack_envelope :: "js \<Rightarrow> js answer" where
  "paystack_envelope body =
     (if body = Js_Null then Inl (type_error ''status'')
      else if \<not> js_truthy (js_prop ''status'' body) \<or> \<not> js_truthy (js_prop ''data'' body)
      then Inl (Provider_Failure (''Paystack: '' @ (if js_truthy (js_prop ''message'' body) then text_of (js_prop ''message'' body)
             else ''request not successful'')) False)
      else Inr body)"

definition paystack_call :: "web \<Rightarrow> paystack_config \<Rightarrow> http_method \<Rightarrow> string \<Rightarrow> js option \<Rightarrow> js answer" where
  "paystack_call wb cfg m path body =
     (case json_http_request wb (paystack_request cfg m path body) of
        Inl f \<Rightarrow> Inl (failure_of f)
      | Inr (status, reply) \<Rightarrow> paystack_envelope reply)"

section \<open>Payments\<close>

definition paystack_initialize :: "web \<Rightarrow> paystack_config \<Rightarrow> initialize_request \<Rightarrow> checkout answer" where
  "paystack_initialize wb cfg rq =
     bind_res (paystack_call wb cfg Post ''/transaction/initialize'' (Some (js_texts
        ([(''email'', ir_customer_email rq), (''amount'', show_int (ir_amount rq)), (''currency'', ir_currency rq),
          (''reference'', ir_reference rq)] @
         (case truthy (ir_callback_url rq) of None \<Rightarrow> [] | Some u \<Rightarrow> [(''callback_url'', u)]))))) (\<lambda>body.
     bind_res (as_text ''reference'' (opt_prop ''reference'' (js_prop ''data'' body))) (\<lambda>r.
     bind_res (as_text ''authorization_url'' (opt_prop ''authorization_url'' (js_prop ''data'' body))) (\<lambda>u.
       Inr \<lparr>co_provider_reference = r, co_authorization_url = u\<rparr>)))"

definition paystack_verify_path :: "string \<Rightarrow> string" where
  "paystack_verify_path ref = ''/transaction/verify/'' @ encode_component ref"

definition paystack_verify :: "web \<Rightarrow> paystack_config \<Rightarrow> string \<Rightarrow> string \<Rightarrow> verification answer" where
  "paystack_verify wb cfg reference provider_ref =
     bind_res (paystack_call wb cfg Get (paystack_verify_path provider_ref) None) (\<lambda>body.
     let t = js_prop ''data'' body; st = paystack_status (opt_prop ''status'' t) in
     if \<not> is_str (opt_prop ''reference'' t) reference
     then Inl (Provider_Failure ''Paystack returned a different transaction'' False)
     else
       bind_res (to_bigint (opt_prop ''amount'' t)) (\<lambda>amount.
       bind_res (as_text ''currency'' (opt_prop ''currency'' t)) (\<lambda>currency.
         Inr \<lparr>vf_status = st, vf_provider_reference = reference, vf_amount = amount, vf_currency = currency,
              vf_failure_reason = (if st = Provider_Failed \<and> js_truthy (opt_prop ''gateway_response'' t)
                                   then opt_text (opt_prop ''gateway_response'' t) else None)\<rparr>)))"

section \<open>Refunds\<close>

definition paystack_refund_of :: "js option \<Rightarrow> refund_answer" where
  "paystack_refund_of r =
     \<lparr>ra_provider_reference = text_of (opt_prop ''id'' r), ra_status = paystack_refund_status (opt_prop ''status'' r)\<rparr>"

definition paystack_refund :: "web \<Rightarrow> paystack_config \<Rightarrow> refund_request \<Rightarrow> refund_answer answer" where
  "paystack_refund wb cfg rq =
     bind_res (paystack_call wb cfg Post ''/refund'' (Some (js_texts
        [(''transaction'', rr_provider_reference rq), (''amount'', show_int (rr_amount rq)), (''currency'', rr_currency rq),
         (''merchant_note'', rr_reference rq)]))) (\<lambda>body.
       Inr (paystack_refund_of (js_prop ''data'' body)))"

definition paystack_get_refund :: "web \<Rightarrow> paystack_config \<Rightarrow> string \<Rightarrow> refund_answer answer" where
  "paystack_get_refund wb cfg i =
     bind_res (paystack_call wb cfg Get (''/refund/'' @ encode_component i) None) (\<lambda>body.
       Inr (paystack_refund_of (js_prop ''data'' body)))"

definition LIST_PAGE_SIZE :: nat where
  "LIST_PAGE_SIZE = 100"

definition page_count :: "js \<Rightarrow> int option" where
  "page_count body = js_int (nullish (opt_prop ''pageCount'' (js_prop ''meta'' body)) (Some (Js_Num ''1'')))"

text \<open>\<open>Number(id) === verified.data.id\<close>, or no id at all.\<close>

definition of_transaction :: "js option \<Rightarrow> js \<Rightarrow> bool" where
  "of_transaction wanted_id r =
     (let field = js_prop ''transaction'' r;
          i = (case field of Some (Js_Obj fs) \<Rightarrow> js_prop ''id'' (Js_Obj fs) | Some Js_Null \<Rightarrow> None | Some (Js_Arr xs) \<Rightarrow> None | _ \<Rightarrow> field) in
      i = None \<or> (case wanted_id of Some (Js_Num n) \<Rightarrow> js_int i \<noteq> None \<and> js_int i = whole_text n | _ \<Rightarrow> False))"

definition paystack_find_refund :: "web \<Rightarrow> paystack_config \<Rightarrow> string \<Rightarrow> string \<Rightarrow> refund_answer option answer" where
  "paystack_find_refund wb cfg provider_ref reference =
     bind_res (paystack_call wb cfg Get (paystack_verify_path provider_ref) None) (\<lambda>verified.
     let i = opt_prop ''id'' (js_prop ''data'' verified) in
     bind_res (paystack_call wb cfg Get (''/refund?'' @ query_string [(''transaction'', text_of i), (''perPage'', show_nat LIST_PAGE_SIZE)]) None) (\<lambda>body.
     if (case page_count body of None \<Rightarrow> False | Some n \<Rightarrow> n > 1)
     then Inl (Provider_Failure ''Paystack: too many refunds on this payment to check'' True)
     else
       bind_res (as_array (js_prop ''data'' body)) (\<lambda>rs.
       bind_res (pick_our_refund (filter (of_transaction i) rs) reference (\<lambda>r. opt_text (js_prop ''merchant_note'' r)) ''Paystack'') (\<lambda>found.
         Inr (map_option (\<lambda>r. paystack_refund_of (Some r)) found)))))"

section \<open>Payouts\<close>

definition RECIPIENT_TYPES :: "(string \<times> string) list" where
  "RECIPIENT_TYPES = [(''NGN'', ''nuban''), (''GHS'', ''ghipss''), (''ZAR'', ''basa'')]"

definition paystack_recipient_name :: "web \<Rightarrow> paystack_config \<Rightarrow> recipient_request \<Rightarrow> js option answer" where
  "paystack_recipient_name wb cfg rq =
     (if cq_recipient_currency rq = ''NGN''
      then bind_res (paystack_call wb cfg Get (''/bank/resolve?'' @ query_string [(''account_number'', cq_account_number rq),
             (''bank_code'', cq_bank_code rq)]) None) (\<lambda>body. Inr (opt_prop ''account_name'' (js_prop ''data'' body)))
      else Inr (map_option Js_Str (cq_account_name rq)))"

definition paystack_create_recipient :: "web \<Rightarrow> paystack_config \<Rightarrow> recipient_request \<Rightarrow> payout_recipient answer" where
  "paystack_create_recipient wb cfg rq =
     (case map_of RECIPIENT_TYPES (cq_recipient_currency rq) of
        None \<Rightarrow> Inl (Provider_Failure (''Paystack cannot pay out in '' @ cq_recipient_currency rq) False)
      | Some ty \<Rightarrow>
          bind_res (paystack_recipient_name wb cfg rq) (\<lambda>name.
          if \<not> js_truthy name then Inl (Provider_Failure ''accountName is required for this currency'' False)
          else
            bind_res (paystack_call wb cfg Post ''/transferrecipient'' (Some (Js_Obj
               [(''type'', Js_Str ty), (''name'', the name), (''account_number'', Js_Str (cq_account_number rq)),
                (''bank_code'', Js_Str (cq_bank_code rq)), (''currency'', Js_Str (cq_recipient_currency rq))]))) (\<lambda>body.
            let d = js_prop ''data'' body in
            bind_res (as_text ''recipient_code'' (opt_prop ''recipient_code'' d)) (\<lambda>code.
            bind_res (as_text ''name'' (opt_prop ''name'' d)) (\<lambda>account_name.
              Inr \<lparr>pr_reference = code, pr_account_name = account_name,
                   pr_bank_name = opt_text (opt_prop ''bank_name'' (opt_prop ''details'' d))\<rparr>)))))"

definition paystack_transfer_result :: "js option \<Rightarrow> payout_answer answer" where
  "paystack_transfer_result t =
     (let st = paystack_transfer_status (opt_prop ''status'' t) in
      bind_res (as_text ''transfer_code'' (opt_prop ''transfer_code'' t)) (\<lambda>code.
        Inr \<lparr>pa_provider_reference = code, pa_status = st,
             pa_failure_reason = (if st = Payout_Failed \<and> js_truthy (opt_prop ''reason'' t) then opt_text (opt_prop ''reason'' t) else None)\<rparr>))"

definition paystack_initiate :: "web \<Rightarrow> paystack_config \<Rightarrow> payout_request \<Rightarrow> payout_answer answer" where
  "paystack_initiate wb cfg rq =
     bind_res (paystack_call wb cfg Post ''/transfer'' (Some (js_texts
        ([(''source'', ''balance''), (''amount'', show_int (pq_amount rq)), (''currency'', pq_currency rq),
          (''recipient'', pq_recipient rq), (''reference'', pq_reference rq)] @
         (case truthy (pq_narration rq) of None \<Rightarrow> [] | Some n \<Rightarrow> [(''reason'', n)]))))) (\<lambda>body.
       paystack_transfer_result (js_prop ''data'' body))"

text \<open>Only an answer with the status 404 says that there is no such transfer.\<close>

definition paystack_find_transfer :: "web \<Rightarrow> paystack_config \<Rightarrow> string \<Rightarrow> payout_answer option answer" where
  "paystack_find_transfer wb cfg reference =
     (case json_http_request wb (paystack_request cfg Get (''/transfer/verify/'' @ encode_component reference) None) of
        Inl f \<Rightarrow> if hf_status f = Some 404 then Inr None else Inl (failure_of f)
      | Inr (status, reply) \<Rightarrow>
          bind_res (paystack_envelope reply) (\<lambda>body.
          bind_res (paystack_transfer_result (js_prop ''data'' body)) (\<lambda>a. Inr (Some a))))"

section \<open>Lists for reconciliation\<close>

definition LIST_MAX_PAGES :: nat where
  "LIST_MAX_PAGES = 200"

definition paystack_page :: "web \<Rightarrow> paystack_config \<Rightarrow> string \<Rightarrow> int \<Rightarrow> int \<Rightarrow> nat \<Rightarrow> js answer" where
  "paystack_page wb cfg path from_t to_t page =
     paystack_call wb cfg Get (path @ ''?'' @ query_string [(''from'', wb_iso wb from_t), (''to'', wb_iso wb to_t),
       (''perPage'', show_nat LIST_PAGE_SIZE), (''page'', show_nat page)]) None"

function paystack_pages :: "web \<Rightarrow> paystack_config \<Rightarrow> string \<Rightarrow> int \<Rightarrow> int \<Rightarrow> nat \<Rightarrow> js list answer" where
  "paystack_pages wb cfg path from_t to_t page =
     (if page > LIST_MAX_PAGES
      then Inl (Provider_Failure (''Paystack '' @ path @ '': more than '' @ show_nat LIST_MAX_PAGES @ '' pages; use a shorter period'') False)
      else
        bind_res (paystack_page wb cfg path from_t to_t page) (\<lambda>body.
        bind_res (as_array (js_prop ''data'' body)) (\<lambda>items.
          if (case page_count body of None \<Rightarrow> False | Some n \<Rightarrow> int page \<ge> n) \<or> items = [] then Inr items
          else bind_res (paystack_pages wb cfg path from_t to_t (Suc page)) (\<lambda>others. Inr (items @ others)))))"
  by pat_completeness auto

termination by (relation "measure (\<lambda>(wb, cfg, path, a, b, page). Suc LIST_MAX_PAGES - page)") auto

declare paystack_pages.simps [simp del]

definition paystack_created :: "web \<Rightarrow> js \<Rightarrow> int option" where
  "paystack_created wb item = js_time wb (nullish (nullish (js_prop ''created_at'' item) (js_prop ''createdAt'' item)) (Some (Js_Num ''0'')))"

definition paystack_list_all :: "web \<Rightarrow> paystack_config \<Rightarrow> string \<Rightarrow> int \<Rightarrow> int \<Rightarrow> js list answer" where
  "paystack_list_all wb cfg path from_t to_t =
     bind_res (paystack_pages wb cfg path from_t to_t 1) (\<lambda>items.
       Inr (filter (\<lambda>i. in_range from_t to_t (paystack_created wb i)) items))"

definition paystack_payment_record :: "web \<Rightarrow> js \<Rightarrow> payment_record answer" where
  "paystack_payment_record wb t =
     bind_res (as_text ''reference'' (js_prop ''reference'' t)) (\<lambda>r.
     bind_res (to_bigint (js_prop ''amount'' t)) (\<lambda>amount.
     bind_res (as_text ''currency'' (js_prop ''currency'' t)) (\<lambda>currency.
     bind_res (time_answer (paystack_created wb t)) (\<lambda>created.
       Inr \<lparr>pm_provider_reference = r, pm_reference = Some r, pm_status = paystack_listed_status (js_prop ''status'' t),
            pm_amount = amount, pm_currency = currency, pm_created_at = created\<rparr>))))"

definition paystack_payout_record :: "web \<Rightarrow> js \<Rightarrow> payout_record answer" where
  "paystack_payout_record wb t =
     bind_res (as_text ''reference'' (js_prop ''reference'' t)) (\<lambda>r.
     bind_res (as_text ''transfer_code'' (js_prop ''transfer_code'' t)) (\<lambda>code.
     bind_res (to_bigint (js_prop ''amount'' t)) (\<lambda>amount.
     bind_res (as_text ''currency'' (js_prop ''currency'' t)) (\<lambda>currency.
     bind_res (time_answer (js_time wb (nullish (nullish (js_prop ''createdAt'' t) (js_prop ''created_at'' t)) (Some (Js_Num ''0''))))) (\<lambda>created.
       Inr \<lparr>pt_reference = r, pt_provider_reference = code, pt_status = paystack_transfer_status (js_prop ''status'' t),
            pt_amount = amount, pt_currency = currency, pt_created_at = created\<rparr>)))))"

definition paystack_reconciliation :: "web \<Rightarrow> paystack_config \<Rightarrow> recon_capability" where
  "paystack_reconciliation wb cfg =
     \<lparr>rc_list_payments = (\<lambda>a b. bind_res (paystack_list_all wb cfg ''/transaction'' a b) (each_answer (paystack_payment_record wb))),
      rc_list_payouts = Some (\<lambda>a b. bind_res (paystack_list_all wb cfg ''/transfer'' a b) (each_answer (paystack_payout_record wb)))\<rparr>"

section \<open>Webhooks\<close>

type_synonym headers = "string \<Rightarrow> string option"

definition PAYSTACK_SIGNATURE_HEADER :: string where
  "PAYSTACK_SIGNATURE_HEADER = ''x-paystack-signature''"

definition paystack_signed :: "(string \<Rightarrow> string \<Rightarrow> string) \<Rightarrow> paystack_config \<Rightarrow> string \<Rightarrow> headers \<Rightarrow> bool" where
  "paystack_signed hmac512 cfg raw hs =
     (case hs PAYSTACK_SIGNATURE_HEADER of
        None \<Rightarrow> False
      | Some received \<Rightarrow> hex_text 128 received \<and> from_hex received = hmac512 (ps_secret_key cfg) raw)"

definition PAYSTACK_EVENTS :: "(string \<times> event_kind) list" where
  "PAYSTACK_EVENTS =
     [(''charge.success'', Payment_Succeeded), (''charge.failed'', Payment_Failed_Event), (''refund.processed'', Refund_Succeeded),
      (''refund.failed'', Refund_Failed_Event), (''transfer.success'', Payout_Succeeded), (''transfer.failed'', Payout_Failed_Event),
      (''transfer.reversed'', Payout_Reversed_Event)]"

definition paystack_event :: "js \<Rightarrow> parsed_event" where
  "paystack_event body =
     (let event = text_of (js_prop ''event'' body); d = js_prop ''data'' body;
          kind = (case map_of PAYSTACK_EVENTS event of None \<Rightarrow> Unknown_Event | Some k \<Rightarrow> k);
          paid = nullish (opt_prop ''transaction_reference'' d) (opt_prop ''reference'' d) in
      if kind = Refund_Succeeded \<or> kind = Refund_Failed_Event
      then \<lparr>pe_event_id = event @ '':'' @ text_of paid @ '':'' @ text_of (opt_prop ''amount'' d) @ '':'' @ text_of (opt_prop ''id'' d),
            pe_type = kind, pe_provider_type = event, pe_provider_reference = opt_text paid\<rparr>
      else \<lparr>pe_event_id = event @ '':'' @ text_of (opt_prop ''id'' d),
            pe_type = kind, pe_provider_type = event, pe_provider_reference = opt_text (opt_prop ''reference'' d)\<rparr>)"

definition paystack_webhooks :: "web \<Rightarrow> (string \<Rightarrow> string \<Rightarrow> string) \<Rightarrow> paystack_config \<Rightarrow> headers webhook_capability" where
  "paystack_webhooks wb hmac512 cfg =
     \<lparr>wc_verify = paystack_signed hmac512 cfg,
      wc_parse = (\<lambda>raw. case wb_parse wb raw of
         None \<Rightarrow> None
       | Some body \<Rightarrow> if body = Js_Null then None else Some (paystack_event body, js_json body))\<rparr>"

section \<open>The provider\<close>

definition paystack :: "web \<Rightarrow> paystack_config \<Rightarrow> payment_provider" where
  "paystack wb cfg =
     \<lparr>pv_name = ''paystack'', pv_currencies = [''NGN'', ''USD'', ''GHS'', ''ZAR'', ''KES''],
      pv_initialize = paystack_initialize wb cfg, pv_verify = paystack_verify wb cfg, pv_refund = paystack_refund wb cfg,
      pv_get_refund = paystack_get_refund wb cfg, pv_find_refund = paystack_find_refund wb cfg,
      pv_payouts = Some \<lparr>pc_currencies = map fst RECIPIENT_TYPES, pc_create_recipient = paystack_create_recipient wb cfg,
        pc_create_email_recipient = None, pc_initiate = paystack_initiate wb cfg, pc_find = (\<lambda>r _. paystack_find_transfer wb cfg r)\<rparr>\<rparr>"

section \<open>What its answers mean\<close>

lemma paystack_call_Inr:
  assumes "paystack_call wb cfg m path body = Inr reply"
  shows "\<exists>status text. wb_fetch wb (paystack_request cfg m path body) = Response status text \<and> 200 \<le> status \<and> status < 300 \<and>
    wb_parse wb text = Some reply \<and> js_truthy (js_prop ''status'' reply) \<and> js_truthy (js_prop ''data'' reply)"
  using assms
  by (auto simp: paystack_call_def json_http_request_def paystack_envelope_def js_prop_def
      split: sum.splits fetched.splits option.splits if_splits)

lemma paystack_verify_Inr:
  assumes "paystack_verify wb cfg reference provider_ref = Inr v"
  shows "\<exists>status text body. wb_fetch wb (paystack_request cfg Get (paystack_verify_path provider_ref) None) = Response status text \<and>
    200 \<le> status \<and> status < 300 \<and> wb_parse wb text = Some body \<and> js_truthy (js_prop ''status'' body) \<and>
    is_str (opt_prop ''reference'' (js_prop ''data'' body)) reference \<and>
    vf_status v = paystack_status (opt_prop ''status'' (js_prop ''data'' body)) \<and>
    to_bigint (opt_prop ''amount'' (js_prop ''data'' body)) = Inr (vf_amount v) \<and>
    is_str (opt_prop ''currency'' (js_prop ''data'' body)) (vf_currency v)"
proof -
  obtain body where body: "paystack_call wb cfg Get (paystack_verify_path provider_ref) None = Inr body"
    and v: "is_str (opt_prop ''reference'' (js_prop ''data'' body)) reference"
      "vf_status v = paystack_status (opt_prop ''status'' (js_prop ''data'' body))"
      "to_bigint (opt_prop ''amount'' (js_prop ''data'' body)) = Inr (vf_amount v)"
      "is_str (opt_prop ''currency'' (js_prop ''data'' body)) (vf_currency v)"
    using assms by (auto simp: paystack_verify_def bind_res_Inr_iff Let_def as_text_def is_str_def split: if_splits option.splits js.splits)
  from paystack_call_Inr [OF body] v show ?thesis by blast
qed

lemma paystack_pages_list:
  assumes "\<And>k. page \<le> k \<Longrightarrow> k \<le> n \<Longrightarrow> \<exists>body. paystack_page wb cfg path a b k = Inr body \<and>
      js_prop ''data'' body = Some (Js_Arr (items k)) \<and> page_count body = Some (int n) \<and> items k \<noteq> []"
    and "page \<le> n" and "n \<le> LIST_MAX_PAGES"
  shows "paystack_pages wb cfg path a b page = Inr (concat (map items [page..<Suc n]))"
  using assms(1,2)
proof (induction "n - page" arbitrary: page)
  case 0
  then obtain body where "paystack_page wb cfg path a b page = Inr body" "js_prop ''data'' body = Some (Js_Arr (items page))"
    "page_count body = Some (int n)" by blast
  then show ?case using 0 assms(3) by (simp add: paystack_pages.simps as_array_def)
next
  case (Suc d)
  then obtain body where body: "paystack_page wb cfg path a b page = Inr body" "js_prop ''data'' body = Some (Js_Arr (items page))"
    "page_count body = Some (int n)" "items page \<noteq> []" by (meson order_refl)
  have "paystack_pages wb cfg path a b (Suc page) = Inr (concat (map items [Suc page..<Suc n]))"
    using Suc.hyps(2) by (intro Suc.hyps(1)) (auto intro: Suc.prems(1))
  moreover have "page < n" using Suc.hyps(2) by simp
  ultimately show ?case using body assms(3)
    by (simp add: paystack_pages.simps [of _ _ _ _ _ page] as_array_def upt_conv_Cons [of page])
qed

end
