(* ===== verification/Paystack_Laws.thy ===== *)
theory Paystack_Laws
  imports Paystack Webhook_Laws Guarantees
begin

text \<open>
  The adapter of Paystack inside the program: what a credited payment says about Paystack's
  answer, which webhooks are stored, and that a list for reconciliation is whole.
\<close>

section \<open>Credited payments were collected\<close>

lemma settle_Credited:
  assumes "settle rg cfg now p s = (Inr Credited, s')"
  shows "\<exists>pref t prov v. p_provider_reference p = Some pref \<and> get_transaction (p_transaction p) s = Inr t \<and>
    get_provider rg (p_provider p) = Inr prov \<and> pv_verify prov (t_reference t) pref = Inr v \<and>
    vf_status v = Provider_Successful \<and> vf_amount v = p_amount p \<and> vf_currency v = p_currency p"
proof -
  obtain pref where pref: "truthy (p_provider_reference p) = Some pref"
    using assms by (cases "truthy (p_provider_reference p)") (simp_all add: settle_def)
  then have r: "p_provider_reference p = Some pref" by (auto simp: truthy_def split: if_splits)
  obtain t prov where t: "get_transaction (p_transaction p) s = Inr t" "get_provider rg (p_provider p) = Inr prov"
    using assms pref by (cases "get_transaction (p_transaction p) s"; cases "get_provider rg (p_provider p)") (auto simp: settle_def)
  obtain v where v: "pv_verify prov (t_reference t) pref = Inr v"
    using assms pref t by (cases "pv_verify prov (t_reference t) pref") (auto simp: settle_def split: if_splits)
  have failed: "fail_payment now p code reason s = Inr (out, s2) \<Longrightarrow> out \<noteq> Credited" for code reason out s2
    by (auto simp: fail_payment_def bind_res_Inr_iff split: if_splits)
  have "vf_status v = Provider_Successful \<and> vf_amount v = p_amount p \<and> vf_currency v = p_currency p"
    using assms pref t v failed
    by (auto simp: settle_def committed_Inr then_do_Inr split: provider_status.splits if_splits)
  then show ?thesis using r t v by blast
qed

text \<open>
  C36. A payment through Paystack is credited only when Paystack itself, asked about the
  reference of that payment's transaction, answered that it succeeded, over exactly the amount
  and currency of the payment: never on the word of a webhook, and never on a failed, pending,
  reversed or unreadable answer or one about another transaction.
\<close>

theorem credited_payment_was_collected:
  assumes "settle rg fx now p s = (Inr Credited, s')" and "p_provider p = ''paystack''"
    and "row_by pv_name ''paystack'' (rg_providers rg) = Some (paystack wb cfg)"
  shows "\<exists>t pref status text body. get_transaction (p_transaction p) s = Inr t \<and> p_provider_reference p = Some pref \<and>
    wb_fetch wb (paystack_request cfg Get (paystack_verify_path pref) None) = Response status text \<and> 200 \<le> status \<and> status < 300 \<and>
    wb_parse wb text = Some body \<and> is_str (opt_prop ''status'' (js_prop ''data'' body)) ''success'' \<and>
    is_str (opt_prop ''reference'' (js_prop ''data'' body)) (t_reference t) \<and>
    to_bigint (opt_prop ''amount'' (js_prop ''data'' body)) = Inr (p_amount p) \<and>
    is_str (opt_prop ''currency'' (js_prop ''data'' body)) (p_currency p)"
proof -
  obtain pref t prov v where pref: "p_provider_reference p = Some pref" "get_transaction (p_transaction p) s = Inr t"
    and prov: "get_provider rg (p_provider p) = Inr prov" and v: "pv_verify prov (t_reference t) pref = Inr v"
    and ok: "vf_status v = Provider_Successful" "vf_amount v = p_amount p" "vf_currency v = p_currency p"
    using settle_Credited [OF assms(1)] by blast
  have "prov = paystack wb cfg" using prov assms(2,3) by (simp add: get_provider_def)
  then have "paystack_verify wb cfg (t_reference t) pref = Inr v" using v by (simp add: paystack_def)
  from paystack_verify_Inr [OF this] obtain status raw body where
    w: "wb_fetch wb (paystack_request cfg Get (paystack_verify_path pref) None) = Response status raw" "200 \<le> status" "status < 300"
      "wb_parse wb raw = Some body" "is_str (opt_prop ''reference'' (js_prop ''data'' body)) (t_reference t)"
      "vf_status v = paystack_status (opt_prop ''status'' (js_prop ''data'' body))"
      "to_bigint (opt_prop ''amount'' (js_prop ''data'' body)) = Inr (vf_amount v)"
      "is_str (opt_prop ''currency'' (js_prop ''data'' body)) (vf_currency v)"
    by blast
  moreover have "is_str (opt_prop ''status'' (js_prop ''data'' body)) ''success''"
    using w(6) ok(1) by (auto simp: paystack_status_def split: if_splits)
  ultimately show ?thesis using pref ok by metis
qed

section \<open>Signed webhooks\<close>

text \<open>
  An event of Paystack gets into the program only with the signature: whenever a delivery is
  accepted, stored or acknowledged as a duplicate, its header is the hexadecimal HMAC of exactly
  the body received under the secret key.
\<close>

theorem only_signed_events_are_received:
  assumes "receive rg caps now ''paystack'' body hs p = Inr (r, p')" and "caps ''paystack'' = paystack_webhooks wb hmac512 cfg"
    and "\<And>k b. length (hmac512 k b) = 64"
  shows "\<exists>raw. body = Some raw \<and> hs PAYSTACK_SIGNATURE_HEADER = Some (to_hex (hmac512 (ps_secret_key cfg) raw))"
proof -
  obtain raw where raw: "body = Some raw" "paystack_signed hmac512 cfg raw hs"
    using assms(1,2) by (auto simp: receive_def paystack_webhooks_def split: sum.splits option.splits if_splits)
  then obtain received where h: "hs PAYSTACK_SIGNATURE_HEADER = Some received" "hex_text (2 * 64) received"
    "from_hex received = hmac512 (ps_secret_key cfg) raw"
    by (auto simp: paystack_signed_def split: option.splits)
  then have "received = to_hex (hmac512 (ps_secret_key cfg) raw)" by (simp only: from_hex_eq [OF h(2)])
  then show ?thesis using raw(1) h(1) by simp
qed

section \<open>Whole lists\<close>

text \<open>
  The list of a period is whole: from a period of at most 200 pages it takes the items of
  every page, and leaves out exactly those created outside the half-open range; a longer period
  is refused and never cut short.
\<close>

theorem lists_are_whole:
  assumes "\<And>k. 1 \<le> k \<Longrightarrow> k \<le> n \<Longrightarrow> \<exists>body. paystack_page wb cfg path a b k = Inr body \<and>
      js_prop ''data'' body = Some (Js_Arr (items k)) \<and> page_count body = Some (int n) \<and> items k \<noteq> []"
    and "1 \<le> n"
  shows "if n \<le> LIST_MAX_PAGES
    then paystack_list_all wb cfg path a b = Inr (filter (\<lambda>i. in_range a b (paystack_created wb i)) (concat (map items [1..<Suc n])))
    else \<exists>m. paystack_list_all wb cfg path a b = Inl (Provider_Failure m False)"
proof (cases "n \<le> LIST_MAX_PAGES")
  case True
  then show ?thesis using paystack_pages_list [of 1 n, OF assms(1) assms(2)] by (simp add: paystack_list_all_def del: upt_Suc)
next
  case False
  have "\<exists>m. paystack_pages wb cfg path a b page = Inl (Provider_Failure m False)" if "1 \<le> page" "page \<le> Suc LIST_MAX_PAGES" for page
    using that
  proof (induction "Suc LIST_MAX_PAGES - page" arbitrary: page)
    case 0
    then show ?case by (simp add: paystack_pages.simps)
  next
    case (Suc d)
    then have "page \<le> n" using False by simp
    then obtain body where "paystack_page wb cfg path a b page = Inr body" "js_prop ''data'' body = Some (Js_Arr (items page))"
      "page_count body = Some (int n)" "items page \<noteq> []" using assms(1) Suc.prems(1) by blast
    moreover have "\<not> int n \<le> int page" using Suc False by simp
    moreover obtain m where "paystack_pages wb cfg path a b (Suc page) = Inl (Provider_Failure m False)"
      using Suc.hyps(1) [of "Suc page"] Suc.hyps(2) Suc.prems by fastforce
    ultimately show ?case using Suc.hyps(2) by (simp add: paystack_pages.simps [of _ _ _ _ _ page] as_array_def)
  qed
  from this [of 1] show ?thesis using False by (auto simp: paystack_list_all_def)
qed

section \<open>A Paystack\<close>

definition demo_paystack :: paystack_config where
  "demo_paystack = \<lparr>ps_secret_key = ''sk_test_a'', ps_base_url = ''https://api.paystack.co'', ps_timeout_ms = 10000\<rparr>"

definition demo_item :: js where
  "demo_item = Js_Obj [(''created_at'', Js_Num ''50''), (''reference'', Js_Str ''trx_a'')]"

definition demo_web :: web where
  "demo_web =
     \<lparr>wb_fetch = (\<lambda>rq. Response 200 (if jr_url rq = ''https://api.paystack.co'' @ paystack_verify_path ''trx_a'' then ''verified'' else ''listed'')),
      wb_parse = map_of
        [(''verified'', Js_Obj [(''status'', Js_Bool True), (''data'', Js_Obj [(''status'', Js_Str ''success''), (''reference'', Js_Str ''trx_a''),
            (''amount'', Js_Num ''300''), (''currency'', Js_Str ''NGN'')])]),
         (''listed'', Js_Obj [(''status'', Js_Bool True), (''data'', Js_Arr [demo_item])]),
         (''event'', Js_Obj [(''event'', Js_Str ''charge.success''), (''data'', Js_Obj [(''id'', Js_Num ''7''), (''reference'', Js_Str ''trx_a'')])])],
      wb_iso = (\<lambda>_. ''d''), wb_date = (\<lambda>_. None)\<rparr>"

definition demo_paystack_registry :: registry where
  "demo_paystack_registry = demo_registry\<lparr>rg_providers := [paystack demo_web demo_paystack]\<rparr>"

definition demo_paystack_payment :: payment where
  "demo_paystack_payment = (hd (payments run_recorded))\<lparr>p_provider := ''paystack'', p_provider_reference := Some ''trx_a''\<rparr>"

theorem credited_payment_was_collected_witness:
  "\<exists>s' body. settle demo_paystack_registry demo_fx_config 3 demo_paystack_payment run_recorded = (Inr Credited, s') \<and>
     is_str (opt_prop ''status'' (js_prop ''data'' body)) ''success'' \<and>
     to_bigint (opt_prop ''amount'' (js_prop ''data'' body)) = Inr (p_amount demo_paystack_payment)"
proof -
  have "fst (settle demo_paystack_registry demo_fx_config 3 demo_paystack_payment run_recorded) = Inr Credited" by code_simp
  then obtain s' where s': "settle demo_paystack_registry demo_fx_config 3 demo_paystack_payment run_recorded = (Inr Credited, s')"
    by (metis prod.collapse)
  have "p_provider demo_paystack_payment = ''paystack''" by (simp add: demo_paystack_payment_def)
  moreover have "row_by pv_name ''paystack'' (rg_providers demo_paystack_registry) = Some (paystack demo_web demo_paystack)"
    by (simp add: demo_paystack_registry_def row_by_def paystack_def)
  ultimately show ?thesis using credited_payment_was_collected [OF s'] s' by blast
qed

definition demo_hmac :: "string \<Rightarrow> string \<Rightarrow> string" where
  "demo_hmac k b = replicate 64 (CHR ''a'')"

theorem only_signed_events_are_received_witness:
  "\<exists>r p'. receive demo_paystack_registry (\<lambda>_. paystack_webhooks demo_web demo_hmac demo_paystack) 5 ''paystack'' (Some ''event'')
       (\<lambda>_. Some (to_hex (demo_hmac [] []))) empty_platform = Inr (r, p') \<and>
     Some (to_hex (demo_hmac [] [])) = Some (to_hex (demo_hmac (ps_secret_key demo_paystack) ''event''))"
proof -
  have "\<not> isl (receive demo_paystack_registry (\<lambda>_. paystack_webhooks demo_web demo_hmac demo_paystack) 5 ''paystack'' (Some ''event'')
      (\<lambda>_. Some (to_hex (demo_hmac [] []))) empty_platform)" by code_simp
  then obtain r p' where r: "receive demo_paystack_registry (\<lambda>_. paystack_webhooks demo_web demo_hmac demo_paystack) 5 ''paystack''
      (Some ''event'') (\<lambda>_. Some (to_hex (demo_hmac [] []))) empty_platform = Inr (r, p')"
    by (metis isl_def sum.collapse(2) surj_pair)
  from only_signed_events_are_received [OF r refl] r show ?thesis by (simp add: demo_hmac_def)
qed

theorem lists_are_whole_witness:
  "paystack_list_all demo_web demo_paystack ''/transaction'' 10 100 = Inr [demo_item] \<and>
     paystack_list_all demo_web demo_paystack ''/transaction'' 10 50 = Inr []"
proof -
  have p: "\<exists>body. paystack_page demo_web demo_paystack ''/transaction'' 10 b k = Inr body \<and>
      js_prop ''data'' body = Some (Js_Arr [demo_item]) \<and> page_count body = Some (int 1) \<and> [demo_item] \<noteq> []"
    if "b = 100 \<or> b = 50" "1 \<le> k" "k \<le> 1" for b k
  proof -
    have "k = 1" using that by simp
    have "(case paystack_page demo_web demo_paystack ''/transaction'' 10 100 1 of Inl e \<Rightarrow> False
        | Inr body \<Rightarrow> js_prop ''data'' body = Some (Js_Arr [demo_item]) \<and> page_count body = Some 1)"
      "(case paystack_page demo_web demo_paystack ''/transaction'' 10 50 1 of Inl e \<Rightarrow> False
        | Inr body \<Rightarrow> js_prop ''data'' body = Some (Js_Arr [demo_item]) \<and> page_count body = Some 1)" by code_simp+
    then show ?thesis using that(1) \<open>k = 1\<close> by (auto split: sum.splits)
  qed
  have "in_range 10 100 (paystack_created demo_web demo_item)" "\<not> in_range 10 50 (paystack_created demo_web demo_item)" by code_simp+
  then show ?thesis
    using lists_are_whole [of 1 demo_web demo_paystack "''/transaction''" 10 100 "\<lambda>_. [demo_item]"] p [of 100]
      lists_are_whole [of 1 demo_web demo_paystack "''/transaction''" 10 50 "\<lambda>_. [demo_item]"] p [of 50]
    by (simp add: LIST_MAX_PAGES_def)
qed

end
