(* ===== verification/Stripe.thy ===== *)
theory Stripe
  imports Provider_Http
begin

text \<open>
  \<open>src/payment-providers/stripe/stripe.provider.ts\<close>: hosted Checkout Sessions. The transaction's
  reference is the session's \<open>client_reference_id\<close> and part of the \<open>Idempotency-Key\<close>; the provider's
  reference is the id of the session. Webhooks are signed together with the time they were sent.
\<close>

record stripe_config =
  st_secret_key :: string
  st_webhook_secret :: string
  st_base_url :: string
  st_timeout_ms :: int
  st_tolerance_seconds :: int
  st_success_url :: string
  st_cancel_url :: string

definition stripe_refund_status :: "js option \<Rightarrow> provider_status" where
  "stripe_refund_status s =
     (if is_str s ''succeeded'' then Provider_Successful
      else if is_str s ''failed'' \<or> is_str s ''canceled'' then Provider_Failed
      else Provider_Pending)"

definition stripe_session_status :: "js \<Rightarrow> provider_status" where
  "stripe_session_status session =
     (if is_str (js_prop ''payment_status'' session) ''paid'' then Provider_Successful
      else if is_str (js_prop ''status'' session) ''expired'' then Provider_Failed
      else Provider_Pending)"

section \<open>Calls\<close>

definition stripe_request :: "stripe_config \<Rightarrow> http_method \<Rightarrow> string \<Rightarrow> (string \<times> string) list option \<Rightarrow> string option \<Rightarrow> json_request" where
  "stripe_request cfg m path form key =
     \<lparr>jr_method = m, jr_url = st_base_url cfg @ path,
      jr_headers = (''Authorization'', ''Bearer '' @ st_secret_key cfg) #
        (case key of None \<Rightarrow> [] | Some k \<Rightarrow> [(''Idempotency-Key'', k)]),
      jr_body = None, jr_form = form, jr_timeout = st_timeout_ms cfg\<rparr>"

text \<open>Every caller reads a property of the answer at once, which throws on \<open>null\<close>.\<close>

definition stripe_call :: "web \<Rightarrow> stripe_config \<Rightarrow> http_method \<Rightarrow> string \<Rightarrow> (string \<times> string) list option \<Rightarrow> string option \<Rightarrow> js answer" where
  "stripe_call wb cfg m path form key =
     (case json_http_request wb (stripe_request cfg m path form key) of
        Inl f \<Rightarrow> Inl (failure_of f)
      | Inr (status, body) \<Rightarrow> if body = Js_Null then Inl (type_error ''id'') else Inr body)"

definition stripe_session :: "web \<Rightarrow> stripe_config \<Rightarrow> string \<Rightarrow> js answer" where
  "stripe_session wb cfg i = stripe_call wb cfg Get (''/v1/checkout/sessions/'' @ encode_component i) None None"

section \<open>Payments\<close>

definition stripe_form :: "stripe_config \<Rightarrow> initialize_request \<Rightarrow> (string \<times> string) list" where
  "stripe_form cfg rq =
     [(''mode'', ''payment''), (''client_reference_id'', ir_reference rq), (''customer_email'', ir_customer_email rq),
      (''success_url'', case ir_callback_url rq of None \<Rightarrow> st_success_url cfg | Some u \<Rightarrow> u), (''cancel_url'', st_cancel_url cfg),
      (''line_items[0][quantity]'', ''1''), (''line_items[0][price_data][currency]'', map lower_char (ir_currency rq)),
      (''line_items[0][price_data][unit_amount]'', show_int (ir_amount rq)),
      (''line_items[0][price_data][product_data][name]'', ''Wallet top-up''),
      (''metadata[finstack_reference]'', ir_reference rq),
      (''payment_intent_data[metadata][finstack_reference]'', ir_reference rq)]"

definition stripe_initialize :: "web \<Rightarrow> stripe_config \<Rightarrow> initialize_request \<Rightarrow> checkout answer" where
  "stripe_initialize wb cfg rq =
     bind_res (stripe_call wb cfg Post ''/v1/checkout/sessions'' (Some (stripe_form cfg rq)) (Some (''finstack-init-'' @ ir_reference rq))) (\<lambda>session.
     if \<not> js_truthy (js_prop ''url'' session) then Inl (Provider_Failure ''Stripe returned a session without a URL'' False)
     else
       bind_res (as_text ''id'' (js_prop ''id'' session)) (\<lambda>i.
       bind_res (as_text ''url'' (js_prop ''url'' session)) (\<lambda>u.
         Inr \<lparr>co_provider_reference = i, co_authorization_url = u\<rparr>)))"

definition stripe_verify :: "web \<Rightarrow> stripe_config \<Rightarrow> string \<Rightarrow> string \<Rightarrow> verification answer" where
  "stripe_verify wb cfg reference provider_ref =
     bind_res (stripe_session wb cfg provider_ref) (\<lambda>session.
     if \<not> is_str (js_prop ''client_reference_id'' session) reference
     then Inl (Provider_Failure ''Stripe session belongs to another payment'' False)
     else
       bind_res (as_text ''id'' (js_prop ''id'' session)) (\<lambda>i.
       bind_res (to_bigint (nullish (js_prop ''amount_total'' session) (Some (Js_Num ''0'')))) (\<lambda>amount.
       bind_res (as_text ''currency'' (nullish (js_prop ''currency'' session) (Some (Js_Str [])))) (\<lambda>currency.
         Inr \<lparr>vf_status = stripe_session_status session, vf_provider_reference = i, vf_amount = amount,
              vf_currency = map upper_letter currency,
              vf_failure_reason = (if stripe_session_status session = Provider_Failed then Some ''Checkout session expired'' else None)\<rparr>))))"

section \<open>Refunds\<close>

definition stripe_refund_of :: "js \<Rightarrow> refund_answer answer" where
  "stripe_refund_of r =
     bind_res (as_text ''id'' (js_prop ''id'' r)) (\<lambda>i.
       Inr \<lparr>ra_provider_reference = i, ra_status = stripe_refund_status (js_prop ''status'' r)\<rparr>)"

definition stripe_refund :: "web \<Rightarrow> stripe_config \<Rightarrow> refund_request \<Rightarrow> refund_answer answer" where
  "stripe_refund wb cfg rq =
     bind_res (stripe_session wb cfg (rr_provider_reference rq)) (\<lambda>session.
     if \<not> js_truthy (js_prop ''payment_intent'' session) then Inl (Provider_Failure ''Stripe session has no payment to refund'' False)
     else
       bind_res (stripe_call wb cfg Post ''/v1/refunds''
          (Some [(''payment_intent'', text_of (js_prop ''payment_intent'' session)), (''amount'', show_int (rr_amount rq)),
                 (''metadata[finstack_reference]'', rr_reference rq)]) (Some (''finstack-refund-'' @ rr_reference rq)))
         stripe_refund_of)"

definition stripe_get_refund :: "web \<Rightarrow> stripe_config \<Rightarrow> string \<Rightarrow> refund_answer answer" where
  "stripe_get_refund wb cfg i = bind_res (stripe_call wb cfg Get (''/v1/refunds/'' @ encode_component i) None None) stripe_refund_of"

definition stripe_find_refund :: "web \<Rightarrow> stripe_config \<Rightarrow> string \<Rightarrow> string \<Rightarrow> refund_answer option answer" where
  "stripe_find_refund wb cfg provider_ref reference =
     bind_res (stripe_session wb cfg provider_ref) (\<lambda>session.
     if \<not> js_truthy (js_prop ''payment_intent'' session) then Inr None
     else
       bind_res (stripe_call wb cfg Get (''/v1/refunds?'' @ query_string
          [(''payment_intent'', text_of (js_prop ''payment_intent'' session)), (''limit'', ''100'')]) None None) (\<lambda>listed.
       bind_res (as_array (js_prop ''data'' listed)) (\<lambda>rs.
       case find (\<lambda>r. is_str (opt_prop ''finstack_reference'' (js_prop ''metadata'' r)) reference) rs of
         Some r \<Rightarrow> bind_res (stripe_refund_of r) (\<lambda>a. Inr (Some a))
       | None \<Rightarrow> if js_truthy (js_prop ''has_more'' listed)
           then Inl (Provider_Failure ''Stripe: too many refunds on this payment to check'' True) else Inr None)))"

section \<open>Webhooks\<close>

definition STRIPE_SIGNATURE_HEADER :: string where
  "STRIPE_SIGNATURE_HEADER = ''stripe-signature''"

fun split_on :: "char \<Rightarrow> string \<Rightarrow> string list" where
  "split_on d [] = [[]]"
| "split_on d (c # s) =
     (if c = d then [] # split_on d s
      else (case split_on d s of [] \<Rightarrow> [[c]] | w # ws \<Rightarrow> (c # w) # ws))"

text \<open>\<open>part.split('=', 2)\<close>: the key, and the text up to the next \<open>=\<close> where there is one.\<close>

definition header_part :: "string \<Rightarrow> string \<times> string option" where
  "header_part part = (case split_on (CHR ''='') part of k # v # _ \<Rightarrow> (k, Some v) | k # _ \<Rightarrow> (k, None) | [] \<Rightarrow> ([], None))"

text \<open>\<open>Number(text)\<close> where it is a whole number written in decimal digits.\<close>

definition header_time :: "(string \<times> string option) list \<Rightarrow> int option" where
  "header_time parts =
     (case find (\<lambda>p. fst p = ''t'') parts of
        Some (_, Some v) \<Rightarrow> if trim v = [] then Some 0 else whole_text (trim v)
      | _ \<Rightarrow> None)"

definition header_signatures :: "(string \<times> string option) list \<Rightarrow> string list" where
  "header_signatures parts =
     List.map_filter (\<lambda>(k, v). case v of Some s \<Rightarrow> if k = ''v1'' \<and> hex_text 64 s then Some s else None | None \<Rightarrow> None) parts"

definition stripe_signed :: "(string \<Rightarrow> string \<Rightarrow> string) \<Rightarrow> stripe_config \<Rightarrow> int \<Rightarrow> string \<Rightarrow> (string \<Rightarrow> string option) \<Rightarrow> bool" where
  "stripe_signed hmac256 cfg now raw hs =
     (case hs STRIPE_SIGNATURE_HEADER of
        None \<Rightarrow> False
      | Some header \<Rightarrow>
          (let parts = map header_part (split_on (CHR '','') header); signatures = header_signatures parts in
           case header_time parts of
             None \<Rightarrow> False
           | Some sent \<Rightarrow>
               if signatures = [] then False
               else if abs (now - sent * 1000) > st_tolerance_seconds cfg * 1000 then False
               else list_ex (\<lambda>s. from_hex s = hmac256 (st_webhook_secret cfg) (show_int sent @ ''.'' @ raw)) signatures))"

definition STRIPE_SUCCEEDED :: "string list" where
  "STRIPE_SUCCEEDED = [''checkout.session.completed'', ''checkout.session.async_payment_succeeded'']"

definition STRIPE_FAILED :: "string list" where
  "STRIPE_FAILED = [''checkout.session.async_payment_failed'', ''checkout.session.expired'']"

definition stripe_event :: "js \<Rightarrow> parsed_event" where
  "stripe_event event =
     (let ty = text_of (js_prop ''type'' event); obj = opt_prop ''object'' (js_prop ''data'' event); i = text_of (js_prop ''id'' event) in
      if is_str (opt_prop ''object'' obj) ''refund''
      then
        let ours = opt_text (opt_prop ''finstack_reference'' (opt_prop ''metadata'' obj)) in
        \<lparr>pe_event_id = i,
         pe_type = (case stripe_refund_status (Some (Js_Str (text_of (opt_prop ''status'' obj)))) of
            Provider_Successful \<Rightarrow> Refund_Succeeded | Provider_Failed \<Rightarrow> Refund_Failed_Event | Provider_Pending \<Rightarrow> Unknown_Event),
         pe_provider_type = ty, pe_provider_reference = ours\<rparr>
      else
        let session = is_str (opt_prop ''object'' obj) ''checkout.session'' in
        \<lparr>pe_event_id = i,
         pe_type = (if \<not> session then Unknown_Event
                    else if ty \<in> set STRIPE_SUCCEEDED then Payment_Succeeded
                    else if ty \<in> set STRIPE_FAILED then Payment_Failed_Event
                    else Unknown_Event),
         pe_provider_type = ty,
         pe_provider_reference = (if session then opt_text (opt_prop ''id'' obj) else None)\<rparr>)"

definition stripe_webhooks :: "web \<Rightarrow> (string \<Rightarrow> string \<Rightarrow> string) \<Rightarrow> stripe_config \<Rightarrow> int \<Rightarrow> (string \<Rightarrow> string option) webhook_capability" where
  "stripe_webhooks wb hmac256 cfg now =
     \<lparr>wc_verify = stripe_signed hmac256 cfg now,
      wc_parse = (\<lambda>raw. case wb_parse wb raw of
         None \<Rightarrow> None
       | Some body \<Rightarrow> if body = Js_Null then None else Some (stripe_event body, js_json body))\<rparr>"

section \<open>Lists for reconciliation\<close>

definition STRIPE_LIST_MAX_PAGES :: nat where
  "STRIPE_LIST_MAX_PAGES = 200"

definition stripe_page :: "web \<Rightarrow> stripe_config \<Rightarrow> int \<Rightarrow> int \<Rightarrow> string option \<Rightarrow> js answer" where
  "stripe_page wb cfg from_t to_t after =
     stripe_call wb cfg Get (''/v1/checkout/sessions?'' @ query_string
       ([(''created[gte]'', show_int (from_t div 1000)), (''created[lt]'', show_int (- ((- to_t) div 1000))), (''limit'', ''100'')] @
        (case truthy after of None \<Rightarrow> [] | Some a \<Rightarrow> [(''starting_after'', a)]))) None None"

definition last_id :: "js list \<Rightarrow> js option" where
  "last_id items = (if items = [] then None else js_prop ''id'' (last items))"

function stripe_pages :: "web \<Rightarrow> stripe_config \<Rightarrow> int \<Rightarrow> int \<Rightarrow> nat \<Rightarrow> string option \<Rightarrow> js list answer" where
  "stripe_pages wb cfg from_t to_t page after =
     (if page > STRIPE_LIST_MAX_PAGES
      then Inl (Provider_Failure (''Stripe: more than '' @ show_nat STRIPE_LIST_MAX_PAGES @ '' pages of sessions; use a shorter period'') False)
      else
        bind_res (stripe_page wb cfg from_t to_t after) (\<lambda>listed.
        bind_res (as_array (js_prop ''data'' listed)) (\<lambda>items.
          if \<not> js_truthy (js_prop ''has_more'' listed) \<or> \<not> js_truthy (last_id items) then Inr items
          else bind_res (stripe_pages wb cfg from_t to_t (Suc page) (Some (text_of (last_id items)))) (\<lambda>others. Inr (items @ others)))))"
  by pat_completeness auto

termination by (relation "measure (\<lambda>(wb, cfg, a, b, page, after). Suc STRIPE_LIST_MAX_PAGES - page)") auto

declare stripe_pages.simps [simp del]

definition stripe_created :: "js \<Rightarrow> int option" where
  "stripe_created session = map_option (\<lambda>t. t * 1000) (js_int (nullish (js_prop ''created'' session) (Some (Js_Num ''0''))))"

definition stripe_in_range :: "int \<Rightarrow> int \<Rightarrow> js \<Rightarrow> bool" where
  "stripe_in_range from_t to_t session = (case stripe_created session of None \<Rightarrow> False | Some t \<Rightarrow> from_t \<le> t \<and> t < to_t)"

definition stripe_list_sessions :: "web \<Rightarrow> stripe_config \<Rightarrow> int \<Rightarrow> int \<Rightarrow> js list answer" where
  "stripe_list_sessions wb cfg from_t to_t =
     bind_res (stripe_pages wb cfg from_t to_t 1 None) (\<lambda>sessions. Inr (filter (stripe_in_range from_t to_t) sessions))"

definition stripe_payment_record :: "js \<Rightarrow> payment_record answer" where
  "stripe_payment_record session =
     bind_res (as_text ''id'' (js_prop ''id'' session)) (\<lambda>i.
     bind_res (to_bigint (nullish (js_prop ''amount_total'' session) (Some (Js_Num ''0'')))) (\<lambda>amount.
     bind_res (as_text ''currency'' (nullish (js_prop ''currency'' session) (Some (Js_Str [])))) (\<lambda>currency.
     bind_res (time_answer (stripe_created session)) (\<lambda>created.
       Inr \<lparr>pm_provider_reference = i, pm_reference = opt_text (js_prop ''client_reference_id'' session),
            pm_status = (if is_str (js_prop ''payment_status'' session) ''paid'' then Record_Successful
                         else if is_str (js_prop ''status'' session) ''expired'' then Record_Failed else Record_Pending),
            pm_amount = amount, pm_currency = map upper_letter currency, pm_created_at = created\<rparr>))))"

definition stripe_reconciliation :: "web \<Rightarrow> stripe_config \<Rightarrow> recon_capability" where
  "stripe_reconciliation wb cfg =
     \<lparr>rc_list_payments = (\<lambda>a b. bind_res (stripe_list_sessions wb cfg a b) (each_answer stripe_payment_record)), rc_list_payouts = None\<rparr>"

section \<open>The provider\<close>

definition stripe :: "web \<Rightarrow> stripe_config \<Rightarrow> payment_provider" where
  "stripe wb cfg =
     \<lparr>pv_name = ''stripe'', pv_currencies = [''USD'', ''EUR'', ''GBP'', ''JPY'', ''NGN'', ''KES'', ''ZAR''],
      pv_initialize = stripe_initialize wb cfg, pv_verify = stripe_verify wb cfg, pv_refund = stripe_refund wb cfg,
      pv_get_refund = stripe_get_refund wb cfg, pv_find_refund = stripe_find_refund wb cfg, pv_payouts = None\<rparr>"

section \<open>Old signatures\<close>

text \<open>
  An accepted signature covers exactly the body and the time in the header, and that time is
  no further from the clock than the tolerance: a captured request cannot be sent again later.
\<close>

lemma stripe_signed_fresh:
  assumes "stripe_signed hmac256 cfg now raw hs"
  shows "\<exists>header sent s. hs STRIPE_SIGNATURE_HEADER = Some header \<and> header_time (map header_part (split_on (CHR '','') header)) = Some sent \<and>
    abs (now - sent * 1000) \<le> st_tolerance_seconds cfg * 1000 \<and>
    s \<in> set (header_signatures (map header_part (split_on (CHR '','') header))) \<and>
    s = to_hex (hmac256 (st_webhook_secret cfg) (show_int sent @ ''.'' @ raw))"
proof -
  obtain header sent s where h: "hs STRIPE_SIGNATURE_HEADER = Some header" "header_time (map header_part (split_on (CHR '','') header)) = Some sent"
    "abs (now - sent * 1000) \<le> st_tolerance_seconds cfg * 1000" "s \<in> set (header_signatures (map header_part (split_on (CHR '','') header)))"
    "from_hex s = hmac256 (st_webhook_secret cfg) (show_int sent @ ''.'' @ raw)"
    using assms by (auto simp: stripe_signed_def Let_def list_ex_iff split: option.splits if_splits)
  then have "hex_text (2 * 32) s" by (auto simp: header_signatures_def List.map_filter_def split: option.splits if_splits)
  then have "s = to_hex (hmac256 (st_webhook_secret cfg) (show_int sent @ ''.'' @ raw))" using h(5) by (simp only: from_hex_eq)
  then show ?thesis using h by blast
qed

end
