(* ===== verification/Flutterwave.thy ===== *)
theory Flutterwave
  imports Provider_Http
begin

text \<open>
  \<open>payment-providers/flutterwave/flutterwave.provider.ts\<close>: the adapter of Flutterwave, which takes
  and returns amounts in major units. The SHA-256 of a text and the clock are parameters.
\<close>

section \<open>Amounts as numbers\<close>

text \<open>
  \<open>String(Number(text))\<close> of a plain decimal with at most two decimals: the trailing zeros of its
  fraction go. Below \<open>2 ^ 46\<close> doubles are closer together than such decimals, so that no other
  digit changes; the rounding above that is not modelled.
\<close>

definition number_text :: "string \<Rightarrow> string" where
  "number_text s =
     (case match_decimal s of
        None \<Rightarrow> s
      | Some (w, f) \<Rightarrow> if strip_zeros f = [] then w else w @ CHR ''.'' # strip_zeros f)"

section \<open>Statuses\<close>

definition flutterwave_status :: "string \<Rightarrow> provider_status" where
  "flutterwave_status st =
     (let s = map lower_char st in
      if s = ''successful'' then Provider_Successful
      else if s = ''failed'' \<or> s = ''cancelled'' then Provider_Failed
      else Provider_Pending)"

definition flutterwave_transfer_status :: "string \<Rightarrow> payout_status" where
  "flutterwave_transfer_status st =
     (let s = map upper_letter st in
      if s = ''SUCCESSFUL'' then Payout_Successful else if s = ''FAILED'' then Payout_Failed else Payout_Pending)"

definition flutterwave_refund_status :: "string \<Rightarrow> provider_status" where
  "flutterwave_refund_status st =
     (let s = map lower_char st in
      if s = ''completed'' \<or> starts_with ''completed-'' s then Provider_Successful
      else if s = ''failed'' \<or> starts_with ''failed-'' s then Provider_Failed
      else Provider_Pending)"

section \<open>Calls\<close>

record flutterwave_config =
  fw_secret_key :: string
  fw_base_url :: string
  fw_redirect_url :: string
  fw_webhook_hash :: string
  fw_timeout_ms :: int

definition flutterwave_request :: "flutterwave_config \<Rightarrow> http_method \<Rightarrow> string \<Rightarrow> js option \<Rightarrow> json_request" where
  "flutterwave_request cfg m path body =
     \<lparr>jr_method = m, jr_url = fw_base_url cfg @ path, jr_headers = [(''Authorization'', ''Bearer '' @ fw_secret_key cfg)],
      jr_body = body, jr_form = None, jr_timeout = fw_timeout_ms cfg\<rparr>"

definition flutterwave_envelope :: "js \<Rightarrow> js answer" where
  "flutterwave_envelope body =
     (if body = Js_Null then Inl (type_error ''status'')
      else if \<not> is_str (js_prop ''status'' body) ''success'' \<or> \<not> js_truthy (js_prop ''data'' body)
      then Inl (Provider_Failure (''Flutterwave: '' @ (if js_truthy (js_prop ''message'' body) then text_of (js_prop ''message'' body)
             else ''request not successful'')) False)
      else Inr body)"

definition flutterwave_call :: "web \<Rightarrow> flutterwave_config \<Rightarrow> http_method \<Rightarrow> string \<Rightarrow> js option \<Rightarrow> js answer" where
  "flutterwave_call wb cfg m path body =
     (case json_http_request wb (flutterwave_request cfg m path body) of
        Inl f \<Rightarrow> Inl (failure_of f)
      | Inr (status, reply) \<Rightarrow> flutterwave_envelope reply)"

definition verify_path :: "string \<Rightarrow> string" where
  "verify_path tx_ref = ''/transactions/verify_by_reference?'' @ query_string [(''tx_ref'', tx_ref)]"

definition transaction_by_reference :: "web \<Rightarrow> flutterwave_config \<Rightarrow> string \<Rightarrow> js option answer" where
  "transaction_by_reference wb cfg tx_ref =
     bind_res (flutterwave_call wb cfg Get (verify_path tx_ref) None) (\<lambda>body. Inr (js_prop ''data'' body))"

section \<open>Payments\<close>

definition flutterwave_payment_body :: "flutterwave_config \<Rightarrow> initialize_request \<Rightarrow> string \<Rightarrow> js" where
  "flutterwave_payment_body cfg rq amount =
     Js_Obj [(''tx_ref'', Js_Str (ir_reference rq)), (''amount'', Js_Num (number_text amount)), (''currency'', Js_Str (ir_currency rq)),
       (''redirect_url'', Js_Str (case ir_callback_url rq of None \<Rightarrow> fw_redirect_url cfg | Some u \<Rightarrow> u)),
       (''customer'', js_texts [(''email'', ir_customer_email rq)])]"

definition flutterwave_initialize :: "web \<Rightarrow> flutterwave_config \<Rightarrow> initialize_request \<Rightarrow> checkout answer" where
  "flutterwave_initialize wb cfg rq =
     bind_res (money_answer (to_major_unit_number (ir_amount rq) (ir_currency rq))) (\<lambda>amount.
     bind_res (flutterwave_call wb cfg Post ''/payments'' (Some (flutterwave_payment_body cfg rq amount))) (\<lambda>body.
     bind_res (as_text ''link'' (opt_prop ''link'' (js_prop ''data'' body))) (\<lambda>link.
       Inr \<lparr>co_provider_reference = ir_reference rq, co_authorization_url = link\<rparr>)))"

definition flutterwave_verify :: "web \<Rightarrow> flutterwave_config \<Rightarrow> string \<Rightarrow> string \<Rightarrow> verification answer" where
  "flutterwave_verify wb cfg reference provider_ref =
     bind_res (transaction_by_reference wb cfg provider_ref) (\<lambda>t.
     if \<not> is_str (opt_prop ''tx_ref'' t) reference
     then Inl (Provider_Failure ''Flutterwave returned a different transaction'' False)
     else
       bind_res (as_text ''status'' (opt_prop ''status'' t)) (\<lambda>status.
       bind_res (as_text ''currency'' (opt_prop ''currency'' t)) (\<lambda>currency.
       bind_res (money_answer (from_major_units (amount_of (opt_prop ''amount'' t)) currency)) (\<lambda>amount.
         Inr \<lparr>vf_status = flutterwave_status status, vf_provider_reference = reference, vf_amount = amount, vf_currency = currency,
              vf_failure_reason = (if flutterwave_status status = Provider_Failed \<and> js_truthy (opt_prop ''processor_response'' t)
                                   then opt_text (opt_prop ''processor_response'' t) else None)\<rparr>))))"

section \<open>Refunds\<close>

definition flutterwave_refund_of :: "js option \<Rightarrow> refund_answer answer" where
  "flutterwave_refund_of r =
     bind_res (as_text ''status'' (opt_prop ''status'' r)) (\<lambda>status.
       Inr \<lparr>ra_provider_reference = text_of (opt_prop ''id'' r), ra_status = flutterwave_refund_status status\<rparr>)"

definition flutterwave_refund :: "web \<Rightarrow> flutterwave_config \<Rightarrow> refund_request \<Rightarrow> refund_answer answer" where
  "flutterwave_refund wb cfg rq =
     bind_res (transaction_by_reference wb cfg (rr_provider_reference rq)) (\<lambda>t.
     bind_res (money_answer (to_major_unit_number (rr_amount rq) (rr_currency rq))) (\<lambda>amount.
     bind_res (flutterwave_call wb cfg Post (''/transactions/'' @ text_of (opt_prop ''id'' t) @ ''/refund'')
        (Some (Js_Obj [(''amount'', Js_Num (number_text amount)), (''comments'', Js_Str (rr_reference rq))]))) (\<lambda>body.
       flutterwave_refund_of (js_prop ''data'' body))))"

definition flutterwave_get_refund :: "web \<Rightarrow> flutterwave_config \<Rightarrow> string \<Rightarrow> refund_answer answer" where
  "flutterwave_get_refund wb cfg i =
     bind_res (flutterwave_call wb cfg Get (''/refunds/'' @ encode_component i) None) (\<lambda>body. flutterwave_refund_of (js_prop ''data'' body))"

definition LIST_DAY_MS :: int where
  "LIST_DAY_MS = 24 * 3600 * 1000"

definition day_text :: "web \<Rightarrow> int \<Rightarrow> string" where
  "day_text wb t = take 10 (wb_iso wb t)"

definition total_pages :: "js \<Rightarrow> int option" where
  "total_pages body = js_int (nullish (opt_prop ''total_pages'' (opt_prop ''page_info'' (js_prop ''meta'' body))) (Some (Js_Num ''1'')))"

text \<open>\<open>Number(id) === transaction.id\<close>, or no id at all.\<close>

definition of_flutterwave_transaction :: "js option \<Rightarrow> js \<Rightarrow> bool" where
  "of_flutterwave_transaction wanted_id r =
     (let i = nullish (js_prop ''transaction_id'' r) (js_prop ''tx_id'' r) in
      i = None \<or> (case wanted_id of Some (Js_Num n) \<Rightarrow> js_int i \<noteq> None \<and> js_int i = whole_text n | _ \<Rightarrow> False))"

definition flutterwave_refunds_path :: "web \<Rightarrow> int \<Rightarrow> js option \<Rightarrow> string answer" where
  "flutterwave_refunds_path wb now t =
     bind_res (time_answer (js_time wb (nullish (opt_prop ''created_at'' t) (Some (Js_Num (show_int now)))))) (\<lambda>created.
       Inr (''/refunds?'' @ query_string [(''id'', text_of (opt_prop ''id'' t)), (''from'', day_text wb (created - LIST_DAY_MS)),
         (''to'', day_text wb (now + LIST_DAY_MS))]))"

definition flutterwave_find_refund :: "web \<Rightarrow> flutterwave_config \<Rightarrow> int \<Rightarrow> string \<Rightarrow> string \<Rightarrow> refund_answer option answer" where
  "flutterwave_find_refund wb cfg now provider_ref reference =
     bind_res (transaction_by_reference wb cfg provider_ref) (\<lambda>t.
     bind_res (flutterwave_refunds_path wb now t) (\<lambda>path.
     bind_res (flutterwave_call wb cfg Get path None) (\<lambda>body.
     if (case total_pages body of None \<Rightarrow> False | Some n \<Rightarrow> n > 1)
     then Inl (Provider_Failure ''Flutterwave: too many refunds on this payment to check'' True)
     else
       bind_res (as_array (js_prop ''data'' body)) (\<lambda>rs.
       bind_res (pick_our_refund (filter (of_flutterwave_transaction (opt_prop ''id'' t)) rs) reference
          (\<lambda>r. opt_text (nullish (js_prop ''comment'' r) (js_prop ''comments'' r))) ''Flutterwave'') (\<lambda>found.
         case found of
           None \<Rightarrow> Inr None
         | Some r \<Rightarrow> bind_res (flutterwave_refund_of (Some r)) (\<lambda>a. Inr (Some a)))))))"

section \<open>Payouts\<close>

fun is_already_added :: "provider_failure \<Rightarrow> bool" where
  "is_already_added (Provider_Failure m retryable) = (\<not> retryable \<and> contains_text ''already added'' (map lower_char m))"
| "is_already_added (Other_Failure m) = False"

definition FLUTTERWAVE_LIST_MAX_PAGES :: nat where
  "FLUTTERWAVE_LIST_MAX_PAGES = 200"

function find_beneficiary :: "web \<Rightarrow> flutterwave_config \<Rightarrow> string \<Rightarrow> string \<Rightarrow> nat \<Rightarrow> js option answer" where
  "find_beneficiary wb cfg bank_code account_number page =
     (if page > FLUTTERWAVE_LIST_MAX_PAGES then Inr None
      else
        bind_res (flutterwave_call wb cfg Get (''/beneficiaries?page='' @ show_nat page) None) (\<lambda>body.
        bind_res (as_array (js_prop ''data'' body)) (\<lambda>items.
          case find (\<lambda>b. is_str (js_prop ''bank_code'' b) bank_code \<and> is_str (js_prop ''account_number'' b) account_number) items of
            Some b \<Rightarrow> Inr (Some b)
          | None \<Rightarrow>
              if (case total_pages body of None \<Rightarrow> False | Some n \<Rightarrow> int page \<ge> n) \<or> items = [] then Inr None
              else find_beneficiary wb cfg bank_code account_number (Suc page))))"
  by pat_completeness auto

termination by (relation "measure (\<lambda>(wb, cfg, a, b, page). Suc FLUTTERWAVE_LIST_MAX_PAGES - page)") auto

declare find_beneficiary.simps [simp del]

definition saved_beneficiary :: "web \<Rightarrow> flutterwave_config \<Rightarrow> recipient_request \<Rightarrow> js option \<Rightarrow> js option answer" where
  "saved_beneficiary wb cfg rq name =
     (case flutterwave_call wb cfg Post ''/beneficiaries'' (Some (Js_Obj
         ([(''account_bank'', Js_Str (cq_bank_code rq)), (''account_number'', Js_Str (cq_account_number rq))] @
          given ''beneficiary_name'' name @ [(''currency'', Js_Str (cq_recipient_currency rq))]))) of
        Inr body \<Rightarrow> Inr (js_prop ''data'' body)
      | Inl e \<Rightarrow>
          bind_res (if is_already_added e then find_beneficiary wb cfg (cq_bank_code rq) (cq_account_number rq) 1 else Inr None)
            (\<lambda>existing. if existing = None then Inl e else Inr existing))"

definition create_beneficiary :: "web \<Rightarrow> flutterwave_config \<Rightarrow> recipient_request \<Rightarrow> payout_recipient answer" where
  "create_beneficiary wb cfg rq =
     (if cq_recipient_currency rq \<noteq> ''NGN''
      then Inl (Provider_Failure (''Flutterwave payouts in '' @ cq_recipient_currency rq @ '' are not supported'') False)
      else
        bind_res (flutterwave_call wb cfg Post ''/accounts/resolve'' (Some (js_texts
           [(''account_number'', cq_account_number rq), (''account_bank'', cq_bank_code rq)]))) (\<lambda>resolved.
        let name = opt_prop ''account_name'' (js_prop ''data'' resolved) in
        bind_res (saved_beneficiary wb cfg rq name) (\<lambda>b.
        bind_res (as_text ''full_name'' (if js_truthy (opt_prop ''full_name'' b) then opt_prop ''full_name'' b else name)) (\<lambda>account_name.
          Inr \<lparr>pr_reference = text_of (opt_prop ''id'' b), pr_account_name = account_name,
               pr_bank_name = opt_text (opt_prop ''bank_name'' b)\<rparr>))))"

definition flutterwave_transfer_result :: "js option \<Rightarrow> payout_answer answer" where
  "flutterwave_transfer_result t =
     bind_res (as_text ''status'' (opt_prop ''status'' t)) (\<lambda>status.
       Inr \<lparr>pa_provider_reference = text_of (opt_prop ''id'' t), pa_status = flutterwave_transfer_status status,
            pa_failure_reason = (if flutterwave_transfer_status status = Payout_Failed \<and> js_truthy (opt_prop ''complete_message'' t)
                                 then opt_text (opt_prop ''complete_message'' t) else None)\<rparr>)"

definition flutterwave_initiate :: "web \<Rightarrow> flutterwave_config \<Rightarrow> payout_request \<Rightarrow> payout_answer answer" where
  "flutterwave_initiate wb cfg rq =
     bind_res (money_answer (to_major_unit_number (pq_amount rq) (pq_currency rq))) (\<lambda>amount.
     bind_res (flutterwave_call wb cfg Post ''/transfers'' (Some (Js_Obj
        ([(''beneficiary'', number_of_text (pq_recipient rq)), (''amount'', Js_Num (number_text amount)), (''currency'', Js_Str (pq_currency rq)),
          (''debit_currency'', Js_Str (pq_currency rq)), (''reference'', Js_Str (pq_reference rq))] @
         given ''narration'' (map_option Js_Str (truthy (pq_narration rq))))))) (\<lambda>body.
       flutterwave_transfer_result (js_prop ''data'' body)))"

definition flutterwave_find_transfer :: "web \<Rightarrow> flutterwave_config \<Rightarrow> string \<Rightarrow> payout_answer option answer" where
  "flutterwave_find_transfer wb cfg reference =
     bind_res (flutterwave_call wb cfg Get (''/transfers?'' @ query_string [(''reference'', reference)]) None) (\<lambda>body.
     bind_res (as_array (js_prop ''data'' body)) (\<lambda>ts.
       case find (\<lambda>t. is_str (js_prop ''reference'' t) reference) ts of
         None \<Rightarrow> Inr None
       | Some t \<Rightarrow> bind_res (flutterwave_transfer_result (Some t)) (\<lambda>a. Inr (Some a))))"

section \<open>Lists for reconciliation\<close>

text \<open>Flutterwave filters by whole days in its own time zone, so a day either side is fetched.\<close>

definition flutterwave_page :: "web \<Rightarrow> flutterwave_config \<Rightarrow> string \<Rightarrow> int \<Rightarrow> int \<Rightarrow> nat \<Rightarrow> js answer" where
  "flutterwave_page wb cfg path from_t to_t page =
     flutterwave_call wb cfg Get (path @ ''?'' @ query_string [(''from'', day_text wb (from_t - LIST_DAY_MS)), (''to'', day_text wb (to_t + LIST_DAY_MS)),
       (''page'', show_nat page)]) None"

function flutterwave_pages :: "web \<Rightarrow> flutterwave_config \<Rightarrow> string \<Rightarrow> int \<Rightarrow> int \<Rightarrow> nat \<Rightarrow> js list answer" where
  "flutterwave_pages wb cfg path from_t to_t page =
     (if page > FLUTTERWAVE_LIST_MAX_PAGES
      then Inl (Provider_Failure (''Flutterwave '' @ path @ '': more than '' @ show_nat FLUTTERWAVE_LIST_MAX_PAGES @ '' pages; use a shorter period'') False)
      else
        bind_res (flutterwave_page wb cfg path from_t to_t page) (\<lambda>body.
        bind_res (as_array (js_prop ''data'' body)) (\<lambda>items.
          if (case total_pages body of None \<Rightarrow> False | Some n \<Rightarrow> int page \<ge> n) \<or> items = [] then Inr items
          else bind_res (flutterwave_pages wb cfg path from_t to_t (Suc page)) (\<lambda>others. Inr (items @ others)))))"
  by pat_completeness auto

termination by (relation "measure (\<lambda>(wb, cfg, path, a, b, page). Suc FLUTTERWAVE_LIST_MAX_PAGES - page)") auto

declare flutterwave_pages.simps [simp del]

definition flutterwave_created :: "web \<Rightarrow> js \<Rightarrow> int option" where
  "flutterwave_created wb item = js_time wb (nullish (js_prop ''created_at'' item) (Some (Js_Num ''0'')))"

definition flutterwave_wanted :: "web \<Rightarrow> int \<Rightarrow> int \<Rightarrow> js \<Rightarrow> bool" where
  "flutterwave_wanted wb from_t to_t item \<longleftrightarrow>
     in_range from_t to_t (flutterwave_created wb item) \<and> is_supported_currency (text_of (js_prop ''currency'' item))"

definition flutterwave_list_all :: "web \<Rightarrow> flutterwave_config \<Rightarrow> string \<Rightarrow> int \<Rightarrow> int \<Rightarrow> js list answer" where
  "flutterwave_list_all wb cfg path from_t to_t =
     bind_res (flutterwave_pages wb cfg path from_t to_t 1) (\<lambda>items. Inr (filter (flutterwave_wanted wb from_t to_t) items))"

fun record_status_of :: "provider_status \<Rightarrow> record_status" where
  "record_status_of Provider_Successful = Record_Successful"
| "record_status_of Provider_Failed = Record_Failed"
| "record_status_of Provider_Pending = Record_Pending"

definition flutterwave_payment_record :: "web \<Rightarrow> js \<Rightarrow> payment_record answer" where
  "flutterwave_payment_record wb t =
     bind_res (as_text ''tx_ref'' (js_prop ''tx_ref'' t)) (\<lambda>r.
     bind_res (as_text ''status'' (js_prop ''status'' t)) (\<lambda>status.
     bind_res (as_text ''currency'' (js_prop ''currency'' t)) (\<lambda>currency.
     bind_res (money_answer (from_major_units (amount_of (js_prop ''amount'' t)) currency)) (\<lambda>amount.
     bind_res (time_answer (flutterwave_created wb t)) (\<lambda>created.
       Inr \<lparr>pm_provider_reference = r, pm_reference = Some r, pm_status = record_status_of (flutterwave_status status),
            pm_amount = amount, pm_currency = currency, pm_created_at = created\<rparr>)))))"

definition flutterwave_payout_record :: "web \<Rightarrow> js \<Rightarrow> payout_record answer" where
  "flutterwave_payout_record wb t =
     bind_res (as_text ''reference'' (js_prop ''reference'' t)) (\<lambda>r.
     bind_res (as_text ''status'' (js_prop ''status'' t)) (\<lambda>status.
     bind_res (as_text ''currency'' (js_prop ''currency'' t)) (\<lambda>currency.
     bind_res (money_answer (from_major_units (amount_of (js_prop ''amount'' t)) currency)) (\<lambda>amount.
     bind_res (time_answer (flutterwave_created wb t)) (\<lambda>created.
       Inr \<lparr>pt_reference = r, pt_provider_reference = text_of (js_prop ''id'' t), pt_status = flutterwave_transfer_status status,
            pt_amount = amount, pt_currency = currency, pt_created_at = created\<rparr>)))))"

definition flutterwave_reconciliation :: "web \<Rightarrow> flutterwave_config \<Rightarrow> recon_capability" where
  "flutterwave_reconciliation wb cfg =
     \<lparr>rc_list_payments = (\<lambda>a b. bind_res (flutterwave_list_all wb cfg ''/transactions'' a b) (each_answer (flutterwave_payment_record wb))),
      rc_list_payouts = Some (\<lambda>a b. bind_res (flutterwave_list_all wb cfg ''/transfers'' a b) (each_answer (flutterwave_payout_record wb)))\<rparr>"

section \<open>Webhooks\<close>

definition FLUTTERWAVE_SIGNATURE_HEADER :: string where
  "FLUTTERWAVE_SIGNATURE_HEADER = ''verif-hash''"

definition flutterwave_signed :: "(string \<Rightarrow> string) \<Rightarrow> flutterwave_config \<Rightarrow> string \<Rightarrow> (string \<Rightarrow> string option) \<Rightarrow> bool" where
  "flutterwave_signed sha cfg raw hs =
     (case hs FLUTTERWAVE_SIGNATURE_HEADER of
        None \<Rightarrow> False
      | Some received \<Rightarrow> fw_webhook_hash cfg \<noteq> [] \<and> sha received = sha (fw_webhook_hash cfg))"

datatype webhook_kind = Charge | Transfer_Kind

record normalised_webhook =
  nw_kind :: webhook_kind
  nw_id :: string
  nw_status :: string
  nw_reference :: "string option"
  nw_provider_type :: string

definition webhook_record :: "webhook_kind \<Rightarrow> js option \<Rightarrow> string \<Rightarrow> normalised_webhook" where
  "webhook_record kind d ty =
     \<lparr>nw_kind = kind, nw_id = text_of (opt_prop ''id'' d),
      nw_status = text_of (nullish (opt_prop ''status'' d) (Some (Js_Str []))),
      nw_reference = opt_text (opt_prop (if kind = Charge then ''tx_ref'' else ''reference'') d), nw_provider_type = ty\<rparr>"

definition normalise_webhook :: "js \<Rightarrow> normalised_webhook option" where
  "normalise_webhook body =
     (let d = nullish (js_prop ''data'' body) (Some (Js_Obj []));
          legacy = text_of (nullish (js_prop ''event.type'' body) (Some (Js_Str ''legacy'')));
          transfer = js_prop ''transfer'' body in
      if is_str (js_prop ''event'' body) ''charge.completed'' then Some (webhook_record Charge d ''charge.completed'')
      else if is_str (js_prop ''event'' body) ''transfer.completed'' then Some (webhook_record Transfer_Kind d ''transfer.completed'')
      else (case opt_text (js_prop ''txRef'' body) of
          Some ref \<Rightarrow> Some (webhook_record Charge (Some (Js_Obj
            (given ''id'' (js_prop ''id'' body) @ [(''tx_ref'', Js_Str ref)] @ given ''status'' (js_prop ''status'' body)))) legacy)
        | None \<Rightarrow>
            if js_truthy transfer \<and> opt_text (opt_prop ''reference'' transfer) \<noteq> None
            then Some (webhook_record Transfer_Kind transfer legacy) else None))"

definition flutterwave_event :: "(string \<Rightarrow> string) \<Rightarrow> string \<Rightarrow> js \<Rightarrow> parsed_event" where
  "flutterwave_event sha raw body =
     (case normalise_webhook body of
        Some w \<Rightarrow>
          \<lparr>pe_event_id = (if nw_kind w = Charge then ''charge.completed'' else ''transfer.completed'') @ '':'' @ nw_id w @ '':'' @ nw_status w,
           pe_type = (if nw_kind w = Charge
                      then (if flutterwave_status (nw_status w) = Provider_Failed then Payment_Failed_Event else Payment_Succeeded)
                      else (if flutterwave_transfer_status (nw_status w) = Payout_Failed then Payout_Failed_Event else Payout_Succeeded)),
           pe_provider_type = nw_provider_type w, pe_provider_reference = nw_reference w\<rparr>
      | None \<Rightarrow>
          (let event = text_of (nullish (nullish (js_prop ''event'' body) (js_prop ''event.type'' body)) (Some (Js_Str ''unnamed''))) in
           \<lparr>pe_event_id = event @ '':'' @ to_hex (sha raw), pe_type = Unknown_Event, pe_provider_type = event, pe_provider_reference = None\<rparr>))"

definition flutterwave_webhooks :: "web \<Rightarrow> (string \<Rightarrow> string) \<Rightarrow> flutterwave_config \<Rightarrow> (string \<Rightarrow> string option) webhook_capability" where
  "flutterwave_webhooks wb sha cfg =
     \<lparr>wc_verify = flutterwave_signed sha cfg,
      wc_parse = (\<lambda>raw. case wb_parse wb raw of
         None \<Rightarrow> None
       | Some body \<Rightarrow> if body = Js_Null then None else Some (flutterwave_event sha raw body, js_json body))\<rparr>"

section \<open>The provider\<close>

definition flutterwave :: "web \<Rightarrow> flutterwave_config \<Rightarrow> int \<Rightarrow> payment_provider" where
  "flutterwave wb cfg now =
     \<lparr>pv_name = ''flutterwave'', pv_currencies = [''NGN'', ''USD'', ''GHS'', ''KES'', ''ZAR'', ''EUR'', ''GBP''],
      pv_initialize = flutterwave_initialize wb cfg, pv_verify = flutterwave_verify wb cfg, pv_refund = flutterwave_refund wb cfg,
      pv_get_refund = flutterwave_get_refund wb cfg, pv_find_refund = flutterwave_find_refund wb cfg now,
      pv_payouts = Some \<lparr>pc_currencies = [''NGN''], pc_create_recipient = create_beneficiary wb cfg,
        pc_create_email_recipient = None, pc_initiate = flutterwave_initiate wb cfg, pc_find = (\<lambda>r _. flutterwave_find_transfer wb cfg r)\<rparr>\<rparr>"

section \<open>Amounts come back as they were sent\<close>

lemma dropWhile_again: "dropWhile p (dropWhile p s) = dropWhile p s"
  by (induction s) auto

lemma strip_zeros_again: "strip_zeros (strip_zeros f) = strip_zeros f"
  by (simp add: strip_zeros_def trim_end_def dropWhile_again)

lemma set_strip_zeros: "set (strip_zeros f) \<subseteq> set f"
  by (auto simp: strip_zeros_def trim_end_def dest: set_dropWhileD)

lemma match_number_text:
  assumes "match_decimal s = Some (w, f)"
  shows "match_decimal (number_text s) = Some (w, strip_zeros f)"
proof -
  have d: "w \<noteq> []" "list_all is_digit w" "list_all is_digit f" using match_decimal_Some [OF assms] by auto
  then have "list_all is_digit (strip_zeros f)" using set_strip_zeros [of f] by (auto simp: list_all_iff)
  then show ?thesis using d assms by (simp add: number_text_def match_decimal_whole match_decimal_point)
qed

text \<open>What the provider reads back from the number is what it reads from the decimal text.\<close>

lemma from_number_text:
  assumes "match_decimal s = Some (w, f)" and "trim s = s"
  shows "from_major_units (Amount_Number (number_text s)) c = from_major_units (Amount_Text s) c"
  using match_number_text [OF assms(1)] assms by (simp add: from_major_units_def strip_zeros_again)

lemma major_unit_text:
  assumes "to_major_unit_number m c = Inr n"
  shows "(\<exists>w f. match_decimal n = Some (w, f)) \<and> trim n = n"
proof -
  have m: "0 \<le> m" "is_supported_currency c" "to_major_unit_string m c = Inr n"
    using assms by (auto simp: to_major_unit_number_def to_major_unit_string_def exponent_of_def split: if_splits)
  have "(\<exists>w f. match_decimal n = Some (w, f)) \<and> list_all (\<lambda>x. is_digit x \<or> x = CHR ''.'') n"
    using m(1,2)
  proof (cases rule: to_major_unit_string_text)
    case whole
    then show ?thesis using m(3) match_decimal_whole [OF show_nat_nonempty all_digits_show_nat] all_digits_show_nat
      by (auto simp: list_all_iff)
  next
    case (frac f)
    then have "match_decimal (show_nat (nat (m div 100)) @ CHR ''.'' # f) = Some (show_nat (nat (m div 100)), f)"
      by (intro match_decimal_point) (auto simp: all_digits_show_nat)
    then show ?thesis using frac m(3) all_digits_show_nat by (auto simp: list_all_iff)
  qed
  then show ?thesis using amount_text_digits [of n] by simp
qed

lemma amount_read_back:
  assumes "to_major_unit_number m c = Inr n" and "x = Js_Num (number_text n) \<or> x = Js_Str n"
  shows "from_major_units (amount_of (Some x)) c = Inr m"
proof -
  have m: "0 \<le> m" "is_supported_currency c" "to_major_unit_string m c = Inr n"
    using assms(1) by (auto simp: to_major_unit_number_def to_major_unit_string_def exponent_of_def split: if_splits)
  then have "from_major_units (Amount_Text n) c = Inr m" using major_units_round_trip [OF m(1,2)] by auto
  moreover obtain w f where "match_decimal n = Some (w, f)" "trim n = n" using major_unit_text [OF assms(1)] by blast
  ultimately show ?thesis using assms(2) from_number_text [of n w f c] by (auto simp: amount_of_def)
qed

text \<open>
  C38. What Flutterwave is asked for is what is settled: when its answer about a transaction repeats
  the currency and the number, or the decimal text, of the amount in the request that initialized
  the payment, the verification reads exactly the minor units of the payment, though every amount
  crosses the boundary in major units.
\<close>

theorem flutterwave_amounts_are_exact:
  assumes "to_major_unit_number (ir_amount rq) (ir_currency rq) = Inr n" and "ir_amount rq < 100 * 2 ^ 46"
    and "wb_fetch wb (flutterwave_request cfg Get (verify_path (ir_reference rq)) None) = Response status raw"
    and "200 \<le> status" and "status < 300" and "raw \<noteq> []" and "wb_parse wb raw = Some body"
    and "is_str (js_prop ''status'' body) ''success''" and "js_prop ''data'' body = Some (Js_Obj fs)"
    and "map_of fs ''tx_ref'' = Some (Js_Str (ir_reference rq))" and "map_of fs ''status'' = Some (Js_Str outcome)"
    and "map_of fs ''currency'' = Some (Js_Str (ir_currency rq))"
    and "map_of fs ''amount'' = js_prop ''amount'' (flutterwave_payment_body cfg rq n) \<or> map_of fs ''amount'' = Some (Js_Str n)"
  shows "\<exists>v. flutterwave_verify wb cfg (ir_reference rq) (ir_reference rq) = Inr v \<and> vf_amount v = ir_amount rq \<and>
    vf_currency v = ir_currency rq \<and> vf_status v = flutterwave_status outcome"
proof -
  have t: "transaction_by_reference wb cfg (ir_reference rq) = Inr (Some (Js_Obj fs))"
    using assms(3-9)
    by (auto simp: transaction_by_reference_def flutterwave_call_def json_http_request_def flutterwave_envelope_def js_prop_def)
  have "from_major_units (amount_of (map_of fs ''amount'')) (ir_currency rq) = Inr (ir_amount rq)"
    using assms(13) amount_read_back [OF assms(1)] by (auto simp: flutterwave_payment_body_def js_prop_def)
  then show ?thesis
    using assms(10-12) by (simp add: flutterwave_verify_def t opt_prop_def js_prop_def is_str_def as_text_def money_answer_def)
qed

definition demo_flutterwave_config :: flutterwave_config where
  "demo_flutterwave_config = \<lparr>fw_secret_key = ''sk'', fw_base_url = ''https://f'', fw_redirect_url = ''https://r'',
     fw_webhook_hash = ''h'', fw_timeout_ms = 1000\<rparr>"

definition demo_flutterwave_request :: initialize_request where
  "demo_flutterwave_request = \<lparr>ir_reference = ''txn_1'', ir_amount = 150050, ir_currency = ''NGN'', ir_customer_email = ''a@b.c'',
     ir_callback_url = None\<rparr>"

definition demo_flutterwave_answer :: js where
  "demo_flutterwave_answer = Js_Obj [(''status'', Js_Str ''success''), (''data'', Js_Obj [(''tx_ref'', Js_Str ''txn_1''),
     (''status'', Js_Str ''successful''), (''currency'', Js_Str ''NGN''), (''amount'', Js_Num ''1500.5'')])]"

definition demo_flutterwave_web :: web where
  "demo_flutterwave_web = \<lparr>wb_fetch = (\<lambda>_. Response 200 ''answer''), wb_parse = (\<lambda>_. Some demo_flutterwave_answer),
     wb_iso = (\<lambda>_. []), wb_date = (\<lambda>_. None)\<rparr>"

theorem flutterwave_amounts_are_exact_witness:
  "\<exists>v. flutterwave_verify demo_flutterwave_web demo_flutterwave_config ''txn_1'' ''txn_1'' = Inr v \<and> vf_amount v = 150050 \<and>
     vf_status v = Provider_Successful"
proof -
  have n: "to_major_unit_number 150050 ''NGN'' = Inr ''1500.50''" and t: "number_text ''1500.50'' = ''1500.5''"
    and o: "flutterwave_status ''successful'' = Provider_Successful"
    by code_simp+
  have a: "to_major_unit_number (ir_amount demo_flutterwave_request) (ir_currency demo_flutterwave_request) = Inr ''1500.50''"
    using n by (simp add: demo_flutterwave_request_def)
  have "js_prop ''amount'' (flutterwave_payment_body demo_flutterwave_config demo_flutterwave_request ''1500.50'') = Some (Js_Num ''1500.5'')"
    by (simp add: flutterwave_payment_body_def js_prop_def t)
  then show ?thesis
    using flutterwave_amounts_are_exact [OF a, of demo_flutterwave_web demo_flutterwave_config 200 "''answer''" demo_flutterwave_answer
        "[(''tx_ref'', Js_Str ''txn_1''), (''status'', Js_Str ''successful''), (''currency'', Js_Str ''NGN''), (''amount'', Js_Num ''1500.5'')]"
        "''successful''"] o
    by (auto simp: demo_flutterwave_request_def demo_flutterwave_web_def demo_flutterwave_answer_def js_prop_def is_str_def)
qed

end
