(* ===== verification/Paypal.thy ===== *)
theory Paypal
  imports Provider_Http "HOL-Library.Word"
begin

unbundle bit_operations_syntax

text \<open>
  \<open>payment-providers/paypal/paypal.provider.ts\<close>: the adapter of PayPal. It keeps two things
  between calls, the access token and the certificates it downloaded, so an operation is a
  function of that state. Certificates, RSA, the URL parser and the network are parameters.
\<close>

section \<open>Encodings\<close>

definition base64_char :: "nat \<Rightarrow> char" where
  "base64_char n = ''ABCDEFGHIJKLMNOPQRSTUVWXYZabcdefghijklmnopqrstuvwxyz0123456789+/'' ! n"

fun base64 :: "string \<Rightarrow> string" where
  "base64 [] = []"
| "base64 [a] = [base64_char (of_char a div 4), base64_char (of_char a mod 4 * 16), CHR ''='', CHR ''='']"
| "base64 [a, b] = [base64_char (of_char a div 4), base64_char (of_char a mod 4 * 16 + of_char b div 16),
     base64_char (of_char b mod 16 * 4), CHR ''='']"
| "base64 (a # b # c # s) = base64_char (of_char a div 4) # base64_char (of_char a mod 4 * 16 + of_char b div 16) #
     base64_char (of_char b mod 16 * 4 + of_char c div 64) # base64_char (of_char c mod 64) # base64 s"

text \<open>\<open>zlib.crc32\<close>, bit by bit over the reflected polynomial.\<close>

definition crc_bit :: "32 word \<Rightarrow> 32 word" where
  "crc_bit c = (if bit c 0 then drop_bit 1 c XOR 0xEDB88320 else drop_bit 1 c)"

definition crc_byte :: "32 word \<Rightarrow> char \<Rightarrow> 32 word" where
  "crc_byte c b = (crc_bit ^^ 8) (c XOR word_of_nat (of_char b))"

definition crc32 :: "string \<Rightarrow> nat" where
  "crc32 s = unat (NOT (foldl crc_byte (NOT 0) s))"

section \<open>Statuses and events\<close>

definition paypal_payout_status :: "js option \<Rightarrow> payout_status" where
  "paypal_payout_status s =
     (if is_str s ''SUCCESS'' then Payout_Successful
      else if is_str s ''FAILED'' \<or> is_str s ''DENIED'' \<or> is_str s ''BLOCKED'' \<or> is_str s ''CANCELED'' then Payout_Failed
      else if is_str s ''RETURNED'' \<or> is_str s ''REFUNDED'' \<or> is_str s ''REVERSED'' then Payout_Reversed
      else Payout_Pending)"

definition paypal_refund_status :: "js option \<Rightarrow> provider_status" where
  "paypal_refund_status s =
     (if is_str s ''COMPLETED'' then Provider_Successful
      else if is_str s ''FAILED'' \<or> is_str s ''CANCELLED'' then Provider_Failed
      else Provider_Pending)"

definition EVENT_TYPES :: "(string \<times> event_kind) list" where
  "EVENT_TYPES =
     [(''CHECKOUT.ORDER.APPROVED'', Payment_Approved), (''PAYMENT.CAPTURE.COMPLETED'', Payment_Succeeded),
      (''PAYMENT.CAPTURE.DENIED'', Payment_Failed_Event), (''PAYMENT.CAPTURE.DECLINED'', Payment_Failed_Event),
      (''PAYMENT.CAPTURE.REFUNDED'', Refund_Succeeded), (''PAYMENT.PAYOUTS-ITEM.SUCCEEDED'', Payout_Succeeded),
      (''PAYMENT.PAYOUTS-ITEM.FAILED'', Payout_Failed_Event), (''PAYMENT.PAYOUTS-ITEM.BLOCKED'', Payout_Failed_Event),
      (''PAYMENT.PAYOUTS-ITEM.DENIED'', Payout_Failed_Event), (''PAYMENT.PAYOUTS-ITEM.CANCELED'', Payout_Failed_Event),
      (''PAYMENT.PAYOUTS-ITEM.RETURNED'', Payout_Reversed_Event), (''PAYMENT.PAYOUTS-ITEM.REFUNDED'', Payout_Reversed_Event),
      (''PAYMENT.PAYOUTSBATCH.DENIED'', Payout_Failed_Event)]"

section \<open>State\<close>

record paypal_config =
  pp_client_id :: string
  pp_client_secret :: string
  pp_base_url :: string
  pp_webhook_id :: string
  pp_return_url :: string
  pp_cancel_url :: string
  pp_tolerance_seconds :: int
  pp_timeout_ms :: int

text \<open>An expiry of \<open>None\<close> is \<open>NaN\<close>, which is after no time.\<close>

record paypal_token =
  tk_value :: string
  tk_expires_at :: "int option"

record certificate =
  ct_valid_from :: "int option"
  ct_valid_to :: "int option"
  ct_subject :: string
  ct_key :: string

record paypal_state =
  py_token :: "paypal_token option"
  py_certs :: "(string \<times> certificate) list"

definition no_paypal_state :: paypal_state where
  "no_paypal_state = \<lparr>py_token = None, py_certs = []\<rparr>"

text \<open>An operation: an answer, or a failure with the HTTP status behind it.\<close>

type_synonym 'a paypal_run = "paypal_state \<Rightarrow> (provider_failure \<times> int option + 'a) \<times> paypal_state"

definition pp_return :: "'a \<Rightarrow> 'a paypal_run" where
  "pp_return x = (\<lambda>st. (Inr x, st))"

definition pp_lift :: "'a answer \<Rightarrow> 'a paypal_run" where
  "pp_lift a = (\<lambda>st. (case a of Inl e \<Rightarrow> Inl (e, None) | Inr x \<Rightarrow> Inr x, st))"

definition pp_bind :: "'a paypal_run \<Rightarrow> ('a \<Rightarrow> 'b paypal_run) \<Rightarrow> 'b paypal_run" where
  "pp_bind m f = (\<lambda>st. case m st of (Inl e, st') \<Rightarrow> (Inl e, st') | (Inr x, st') \<Rightarrow> f x st')"

definition paypal_answer :: "'a paypal_run \<Rightarrow> paypal_state \<Rightarrow> 'a answer" where
  "paypal_answer m st = (case fst (m st) of Inl e \<Rightarrow> Inl (fst e) | Inr x \<Rightarrow> Inr x)"

section \<open>Calls\<close>

definition token_request :: "paypal_config \<Rightarrow> json_request" where
  "token_request cfg =
     \<lparr>jr_method = Post, jr_url = pp_base_url cfg @ ''/v1/oauth2/token'',
      jr_headers = [(''Authorization'', ''Basic '' @ base64 (pp_client_id cfg @ '':'' @ pp_client_secret cfg))],
      jr_body = None, jr_form = Some [(''grant_type'', ''client_credentials'')], jr_timeout = pp_timeout_ms cfg\<rparr>"

definition token_live :: "int \<Rightarrow> paypal_token \<Rightarrow> bool" where
  "token_live now t = (case tk_expires_at t of None \<Rightarrow> False | Some e \<Rightarrow> e > now)"

text \<open>Renewed a minute early.\<close>

definition new_token :: "int \<Rightarrow> js \<Rightarrow> paypal_token" where
  "new_token now body =
     \<lparr>tk_value = text_of (js_prop ''access_token'' body),
      tk_expires_at = map_option (\<lambda>n. now + max 0 (n - 60) * 1000) (js_int (js_prop ''expires_in'' body))\<rparr>"

definition renew_token :: "web \<Rightarrow> paypal_config \<Rightarrow> int \<Rightarrow> string paypal_run" where
  "renew_token wb cfg now =
     (\<lambda>st. case json_http_request wb (token_request cfg) of
        Inl f \<Rightarrow> (Inl (failure_of f, hf_status f), st)
      | Inr (status, body) \<Rightarrow>
          if body = Js_Null then (Inl (type_error ''access_token'', None), st)
          else (Inr (tk_value (new_token now body)), st\<lparr>py_token := Some (new_token now body)\<rparr>))"

definition access_token :: "web \<Rightarrow> paypal_config \<Rightarrow> int \<Rightarrow> string paypal_run" where
  "access_token wb cfg now =
     (\<lambda>st. case py_token st of
        Some t \<Rightarrow> if token_live now t then (Inr (tk_value t), st) else renew_token wb cfg now st
      | None \<Rightarrow> renew_token wb cfg now st)"

definition paypal_request :: "paypal_config \<Rightarrow> string \<Rightarrow> http_method \<Rightarrow> string \<Rightarrow> js option \<Rightarrow> string option \<Rightarrow> json_request" where
  "paypal_request cfg token m path body request_id =
     \<lparr>jr_method = m, jr_url = pp_base_url cfg @ path,
      jr_headers = [(''Authorization'', ''Bearer '' @ token), (''Prefer'', ''return=representation'')] @
        (case truthy request_id of None \<Rightarrow> [] | Some i \<Rightarrow> [(''PayPal-Request-Id'', i)]),
      jr_body = body, jr_form = None, jr_timeout = pp_timeout_ms cfg\<rparr>"

text \<open>Every caller reads a property of the answer at once, which throws on \<open>null\<close>.\<close>

definition paypal_call :: "web \<Rightarrow> paypal_config \<Rightarrow> int \<Rightarrow> http_method \<Rightarrow> string \<Rightarrow> js option \<Rightarrow> string option \<Rightarrow> js paypal_run" where
  "paypal_call wb cfg now m path body request_id =
     pp_bind (access_token wb cfg now) (\<lambda>token st.
       case json_http_request wb (paypal_request cfg token m path body request_id) of
         Inl f \<Rightarrow> (Inl (failure_of f, hf_status f), st)
       | Inr (status, reply) \<Rightarrow> if reply = Js_Null then (Inl (type_error ''id'', None), st) else (Inr reply, st))"

definition get_order :: "web \<Rightarrow> paypal_config \<Rightarrow> int \<Rightarrow> string \<Rightarrow> js paypal_run" where
  "get_order wb cfg now i = paypal_call wb cfg now Get (''/v2/checkout/orders/'' @ encode_component i) None None"

definition get_refund_detail :: "web \<Rightarrow> paypal_config \<Rightarrow> int \<Rightarrow> string \<Rightarrow> js paypal_run" where
  "get_refund_detail wb cfg now i = paypal_call wb cfg now Get (''/v2/payments/refunds/'' @ encode_component i) None None"

text \<open>\<open>x?.[0]\<close>.\<close>

definition first_of :: "js option \<Rightarrow> js option" where
  "first_of x = (case x of Some (Js_Arr (y # ys)) \<Rightarrow> Some y | _ \<Rightarrow> None)"

definition first_unit :: "js \<Rightarrow> js option" where
  "first_unit order = first_of (js_prop ''purchase_units'' order)"

definition first_capture :: "js \<Rightarrow> js option" where
  "first_capture order = first_of (opt_prop ''captures'' (opt_prop ''payments'' (first_unit order)))"

section \<open>Payments\<close>

definition paypal_money :: "int \<Rightarrow> string \<Rightarrow> js answer" where
  "paypal_money amount currency =
     bind_res (money_answer (to_major_unit_string amount currency)) (\<lambda>v. Inr (js_texts [(''currency_code'', currency), (''value'', v)]))"

definition order_body :: "paypal_config \<Rightarrow> initialize_request \<Rightarrow> js \<Rightarrow> js" where
  "order_body cfg rq amount =
     Js_Obj [(''intent'', Js_Str ''CAPTURE''),
       (''purchase_units'', Js_Arr [Js_Obj [(''reference_id'', Js_Str (ir_reference rq)), (''custom_id'', Js_Str (ir_reference rq)),
          (''invoice_id'', Js_Str (ir_reference rq)), (''amount'', amount)]]),
       (''payment_source'', Js_Obj [(''paypal'', Js_Obj [(''experience_context'', js_texts
          [(''return_url'', case ir_callback_url rq of None \<Rightarrow> pp_return_url cfg | Some u \<Rightarrow> u), (''cancel_url'', pp_cancel_url cfg),
           (''user_action'', ''PAY_NOW''), (''shipping_preference'', ''NO_SHIPPING'')])])])]"

definition approval_link :: "js \<Rightarrow> checkout answer" where
  "approval_link order =
     bind_res (case nullish (js_prop ''links'' order) None of None \<Rightarrow> Inr [] | Some links \<Rightarrow> as_array (Some links)) (\<lambda>links.
     case find (\<lambda>l. is_str (js_prop ''rel'' l) ''payer-action'' \<or> is_str (js_prop ''rel'' l) ''approve'') links of
       None \<Rightarrow> Inl (Provider_Failure ''PayPal returned an order without an approval link'' False)
     | Some l \<Rightarrow>
         bind_res (as_text ''id'' (js_prop ''id'' order)) (\<lambda>i.
         bind_res (as_text ''href'' (js_prop ''href'' l)) (\<lambda>u.
           Inr \<lparr>co_provider_reference = i, co_authorization_url = u\<rparr>)))"

definition paypal_initialize :: "web \<Rightarrow> paypal_config \<Rightarrow> int \<Rightarrow> initialize_request \<Rightarrow> checkout paypal_run" where
  "paypal_initialize wb cfg now rq =
     pp_bind (pp_lift (paypal_money (ir_amount rq) (ir_currency rq))) (\<lambda>amount.
     pp_bind (paypal_call wb cfg now Post ''/v2/checkout/orders'' (Some (order_body cfg rq amount)) (Some (''finstack-init-'' @ ir_reference rq)))
       (\<lambda>order. pp_lift (approval_link order)))"

text \<open>422: captured by another worker, or declined; either way the order itself has the truth.\<close>

definition capture_order :: "web \<Rightarrow> paypal_config \<Rightarrow> int \<Rightarrow> string \<Rightarrow> string \<Rightarrow> js paypal_run" where
  "capture_order wb cfg now order_id reference =
     (\<lambda>st. case paypal_call wb cfg now Post (''/v2/checkout/orders/'' @ encode_component order_id @ ''/capture'') (Some (Js_Obj []))
              (Some (''finstack-capture-'' @ reference)) st of
        (Inl (e, status), st') \<Rightarrow> if status = Some 422 then get_order wb cfg now order_id st' else (Inl (e, status), st')
      | (Inr order, st') \<Rightarrow> (Inr order, st'))"

definition paypal_result :: "js \<Rightarrow> provider_status \<Rightarrow> js option \<Rightarrow> string option \<Rightarrow> verification answer" where
  "paypal_result order status amount reason =
     bind_res (as_text ''currency_code'' (nullish (opt_prop ''currency_code'' amount) (Some (Js_Str [])))) (\<lambda>currency.
     bind_res (if js_truthy amount then money_answer (from_major_units (amount_of (opt_prop ''value'' amount)) currency) else Inr 0) (\<lambda>minor.
     bind_res (as_text ''id'' (js_prop ''id'' order)) (\<lambda>i.
       Inr \<lparr>vf_status = status, vf_provider_reference = i, vf_amount = minor, vf_currency = currency, vf_failure_reason = reason\<rparr>)))"

definition order_outcome :: "js \<Rightarrow> verification answer" where
  "order_outcome order =
     (let unit_amount = opt_prop ''amount'' (first_unit order); capture = first_capture order; st = opt_prop ''status'' capture;
          amount = opt_prop ''amount'' capture in
      if is_str (js_prop ''status'' order) ''VOIDED'' then paypal_result order Provider_Failed unit_amount (Some ''PayPal order was voided'')
      else if \<not> is_str (js_prop ''status'' order) ''COMPLETED'' \<or> \<not> js_truthy capture then paypal_result order Provider_Pending unit_amount None
      else if is_str st ''COMPLETED'' \<or> is_str st ''PARTIALLY_REFUNDED'' \<or> is_str st ''REFUNDED''
      then paypal_result order Provider_Successful amount None
      else if is_str st ''DECLINED'' \<or> is_str st ''FAILED''
      then paypal_result order Provider_Failed amount (Some (''PayPal capture '' @ map lower_char (text_of st)))
      else paypal_result order Provider_Pending amount None)"

definition paypal_verify :: "web \<Rightarrow> paypal_config \<Rightarrow> int \<Rightarrow> string \<Rightarrow> string \<Rightarrow> verification paypal_run" where
  "paypal_verify wb cfg now reference provider_ref =
     pp_bind (get_order wb cfg now provider_ref) (\<lambda>order.
     if \<not> is_str (opt_prop ''reference_id'' (first_unit order)) reference
     then pp_lift (Inl (Provider_Failure ''PayPal order belongs to another payment'' False))
     else
       pp_bind (if is_str (js_prop ''status'' order) ''APPROVED''
                then capture_order wb cfg now (text_of (js_prop ''id'' order)) reference else pp_return order) (\<lambda>final.
       pp_lift (order_outcome final)))"

section \<open>Refunds\<close>

definition paypal_refund_of :: "js \<Rightarrow> refund_answer answer" where
  "paypal_refund_of r =
     bind_res (as_text ''id'' (js_prop ''id'' r)) (\<lambda>i.
       Inr \<lparr>ra_provider_reference = i, ra_status = paypal_refund_status (js_prop ''status'' r)\<rparr>)"

definition paypal_refund :: "web \<Rightarrow> paypal_config \<Rightarrow> int \<Rightarrow> refund_request \<Rightarrow> refund_answer paypal_run" where
  "paypal_refund wb cfg now rq =
     pp_bind (get_order wb cfg now (rr_provider_reference rq)) (\<lambda>order.
     if \<not> js_truthy (first_capture order) then pp_lift (Inl (Provider_Failure ''PayPal order has no capture to refund'' False))
     else
       pp_bind (pp_lift (paypal_money (rr_amount rq) (rr_currency rq))) (\<lambda>amount.
       pp_bind (paypal_call wb cfg now Post
          (''/v2/payments/captures/'' @ encode_component (text_of (opt_prop ''id'' (first_capture order))) @ ''/refund'')
          (Some (Js_Obj [(''amount'', amount), (''custom_id'', Js_Str (rr_reference rq))])) (Some (''finstack-refund-'' @ rr_reference rq)))
         (\<lambda>r. pp_lift (paypal_refund_of r))))"

definition FIND_REFUND_MAX :: nat where
  "FIND_REFUND_MAX = 50"

fun pick_paypal_refund :: "web \<Rightarrow> paypal_config \<Rightarrow> int \<Rightarrow> string \<Rightarrow> js list \<Rightarrow> refund_answer option paypal_run" where
  "pick_paypal_refund wb cfg now reference [] = pp_return None"
| "pick_paypal_refund wb cfg now reference (s # ss) =
     pp_bind (if js_prop ''custom_id'' s = None then get_refund_detail wb cfg now (text_of (js_prop ''id'' s)) else pp_return s) (\<lambda>r.
       if is_str (js_prop ''custom_id'' r) reference then pp_lift (map_sum id Some (paypal_refund_of r))
       else pick_paypal_refund wb cfg now reference ss)"

definition paypal_find_refund :: "web \<Rightarrow> paypal_config \<Rightarrow> int \<Rightarrow> string \<Rightarrow> string \<Rightarrow> refund_answer option paypal_run" where
  "paypal_find_refund wb cfg now provider_ref reference =
     pp_bind (get_order wb cfg now provider_ref) (\<lambda>order.
     pp_bind (pp_lift (as_array (nullish (opt_prop ''refunds'' (opt_prop ''payments'' (first_unit order))) (Some (Js_Arr []))))) (\<lambda>rs.
     if length rs > FIND_REFUND_MAX then pp_lift (Inl (Provider_Failure ''PayPal: too many refunds on this payment to check'' True))
     else pick_paypal_refund wb cfg now reference rs))"

definition paypal_get_refund :: "web \<Rightarrow> paypal_config \<Rightarrow> int \<Rightarrow> string \<Rightarrow> refund_answer paypal_run" where
  "paypal_get_refund wb cfg now i = pp_bind (get_refund_detail wb cfg now i) (\<lambda>r. pp_lift (paypal_refund_of r))"

section \<open>Payouts\<close>

text \<open>\<open>/^[^\s@]+@[^\s@]+\.[^\s@]+$/\<close>: one \<open>@\<close>, no blank, and a point inside what follows it.\<close>

definition is_email :: "string \<Rightarrow> bool" where
  "is_email s =
     (let local = takeWhile (\<lambda>c. c \<noteq> CHR ''@'') s; domain = drop (Suc (length local)) s in
      list_all (\<lambda>c. \<not> is_space c) s \<and> local \<noteq> [] \<and> CHR ''@'' \<notin> set domain \<and> CHR ''.'' \<in> set (butlast (tl domain)))"

definition PAYPAL_PAYOUT_CURRENCIES :: "string list" where
  "PAYPAL_PAYOUT_CURRENCIES = [''USD'', ''EUR'', ''GBP'', ''JPY'']"

definition create_email_recipient :: "email_recipient_request \<Rightarrow> payout_recipient answer" where
  "create_email_recipient rq =
     (let email = map lower_char (trim (ce_email rq)) in
      if \<not> is_email email then Inl (Provider_Failure ''Not a valid email address for a PayPal payout'' False)
      else if ce_currency rq \<notin> set PAYPAL_PAYOUT_CURRENCIES
      then Inl (Provider_Failure (''PayPal cannot pay out in '' @ ce_currency rq) False)
      else Inr \<lparr>pr_reference = email,
                pr_account_name = (case truthy (map_option trim (ce_name rq)) of None \<Rightarrow> email | Some n \<Rightarrow> n), pr_bank_name = Some ''PayPal''\<rparr>)"

definition paypal_payout_result :: "js \<Rightarrow> payout_answer answer" where
  "paypal_payout_result batch =
     (let item = first_of (js_prop ''items'' batch); header = js_prop ''batch_header'' batch in
      bind_res (read_prop ''batch_status'' header) (\<lambda>batch_status.
      let st = (if is_str batch_status ''DENIED'' then Payout_Failed else paypal_payout_status (opt_prop ''transaction_status'' item));
          reason = nullish (opt_prop ''message'' (opt_prop ''errors'' item)) (opt_prop ''name'' (opt_prop ''errors'' item)) in
      bind_res (as_text ''payout_batch_id'' (opt_prop ''payout_batch_id'' header)) (\<lambda>i.
        Inr \<lparr>pa_provider_reference = i, pa_status = st,
             pa_failure_reason = (if st \<noteq> Payout_Failed then None
               else Some (text_of (nullish reason (Some (Js_Str (''PayPal payout '' @
                 map lower_char (text_of (nullish (opt_prop ''transaction_status'' item) batch_status))))))))\<rparr>)))"

definition batch_body :: "payout_request \<Rightarrow> string \<Rightarrow> js" where
  "batch_body rq v =
     Js_Obj [(''sender_batch_header'', Js_Obj
          ([(''sender_batch_id'', Js_Str (pq_reference rq)), (''email_subject'', Js_Str ''You have a payment'')] @
           given ''email_message'' (map_option Js_Str (truthy (pq_narration rq))))),
       (''items'', Js_Arr [Js_Obj
          ([(''recipient_type'', Js_Str ''EMAIL''), (''receiver'', Js_Str (pq_recipient rq)),
            (''amount'', js_texts [(''currency'', pq_currency rq), (''value'', v)]), (''sender_item_id'', Js_Str (pq_reference rq))] @
           given ''note'' (map_option Js_Str (truthy (pq_narration rq))))])]"

definition paypal_initiate :: "web \<Rightarrow> paypal_config \<Rightarrow> int \<Rightarrow> payout_request \<Rightarrow> payout_answer paypal_run" where
  "paypal_initiate wb cfg now rq =
     pp_bind (pp_lift (money_answer (to_major_unit_string (pq_amount rq) (pq_currency rq)))) (\<lambda>v.
     pp_bind (paypal_call wb cfg now Post ''/v1/payments/payouts'' (Some (batch_body rq v)) (Some (''finstack-payout-'' @ pq_reference rq)))
       (\<lambda>batch. pp_lift (paypal_payout_result batch)))"

definition paypal_find_payout :: "web \<Rightarrow> paypal_config \<Rightarrow> int \<Rightarrow> string \<Rightarrow> string option \<Rightarrow> payout_answer option paypal_run" where
  "paypal_find_payout wb cfg now reference batch_id =
     (case truthy batch_id of
        None \<Rightarrow> pp_return None
      | Some i \<Rightarrow>
          pp_bind (paypal_call wb cfg now Get (''/v1/payments/payouts/'' @ encode_component i) None None) (\<lambda>batch.
          pp_bind (pp_lift (read_prop ''sender_batch_header'' (js_prop ''batch_header'' batch))) (\<lambda>sender.
          if \<not> is_str (opt_prop ''sender_batch_id'' sender) reference
          then pp_lift (Inl (Provider_Failure ''PayPal payout batch belongs to another payout'' False))
          else pp_lift (map_sum id Some (paypal_payout_result batch)))))"

section \<open>Webhooks\<close>

text \<open>
  \<open>new URL\<close> gives a protocol and a host name; a URL answers a \<open>GET\<close> or redirects to another URL; an X.509
  certificate is parsed from its text.
\<close>

datatype hop = Answer fetched | Redirect string

record paypal_pki =
  pk_url :: "string \<Rightarrow> (string \<times> string) option"
  pk_get :: "string \<Rightarrow> hop"
  pk_certificate :: "string \<Rightarrow> certificate option"
  pk_verify :: "string \<Rightarrow> string \<Rightarrow> string \<Rightarrow> bool"

definition ends_with :: "string \<Rightarrow> string \<Rightarrow> bool" where
  "ends_with p s \<longleftrightarrow> length p \<le> length s \<and> drop (length s - length p) s = p"

definition paypal_host :: "paypal_pki \<Rightarrow> string \<Rightarrow> bool" where
  "paypal_host pk u =
     (case pk_url pk u of
        None \<Rightarrow> False
      | Some (protocol, hostname) \<Rightarrow> protocol = ''https:'' \<and> (hostname = ''paypal.com'' \<or> ends_with ''.paypal.com'' hostname))"

definition certificate_valid :: "int \<Rightarrow> certificate \<Rightarrow> bool" where
  "certificate_valid now c \<longleftrightarrow>
     \<not> (case ct_valid_from c of None \<Rightarrow> False | Some t \<Rightarrow> now < t) \<and> \<not> (case ct_valid_to c of None \<Rightarrow> False | Some t \<Rightarrow> now > t) \<and>
     contains_text ''PayPal'' (ct_subject c)"

text \<open>\<open>fetch\<close> follows redirects, wherever they lead, and gives up after 20 of them.\<close>

fun follow :: "(string \<Rightarrow> hop) \<Rightarrow> nat \<Rightarrow> string \<Rightarrow> fetched" where
  "follow get n u =
     (case get u of
        Answer r \<Rightarrow> r
      | Redirect v \<Rightarrow> (case n of 0 \<Rightarrow> Fetch_Error ''redirect count exceeded'' | Suc m \<Rightarrow> follow get m v))"

declare follow.simps [simp del]

definition fetch_certificate :: "paypal_pki \<Rightarrow> int \<Rightarrow> string \<Rightarrow> certificate option" where
  "fetch_certificate pk now u =
     (if \<not> paypal_host pk u then None
      else (case follow (pk_get pk) 20 u of
          Response status pem \<Rightarrow>
            if \<not> (200 \<le> status \<and> status < 300) then None
            else (case pk_certificate pk pem of
                None \<Rightarrow> None
              | Some c \<Rightarrow> if certificate_valid now c then Some c else None)
        | _ \<Rightarrow> None))"

definition paypal_certificate :: "paypal_pki \<Rightarrow> int \<Rightarrow> string \<Rightarrow> paypal_state \<Rightarrow> certificate option \<times> paypal_state" where
  "paypal_certificate pk now u st =
     (case map_of (py_certs st) u of
        Some c \<Rightarrow> (Some c, st)
      | None \<Rightarrow> (case fetch_certificate pk now u of
            None \<Rightarrow> (None, st)
          | Some c \<Rightarrow> (Some c, st\<lparr>py_certs := (u, c) # py_certs st\<rparr>)))"

definition signed_message :: "paypal_config \<Rightarrow> string \<Rightarrow> string \<Rightarrow> string \<Rightarrow> string" where
  "signed_message cfg transmission sent raw = transmission @ ''|'' @ sent @ ''|'' @ pp_webhook_id cfg @ ''|'' @ show_nat (crc32 raw)"

definition paypal_signed ::
  "web \<Rightarrow> paypal_pki \<Rightarrow> paypal_config \<Rightarrow> int \<Rightarrow> string \<Rightarrow> (string \<Rightarrow> string option) \<Rightarrow> paypal_state \<Rightarrow> bool \<times> paypal_state" where
  "paypal_signed wb pk cfg now raw hs st =
     (case (truthy (hs ''paypal-transmission-id''), truthy (hs ''paypal-transmission-time''), truthy (hs ''paypal-transmission-sig''),
            truthy (hs ''paypal-cert-url'')) of
        (Some transmission, Some sent, Some signature, Some u) \<Rightarrow>
          if hs ''paypal-auth-algo'' \<noteq> Some ''SHA256withRSA'' then (False, st)
          else (case wb_date wb sent of
              None \<Rightarrow> (False, st)
            | Some t \<Rightarrow>
                if abs (now - t) > pp_tolerance_seconds cfg * 1000 then (False, st)
                else (case paypal_certificate pk now u st of
                    (None, st') \<Rightarrow> (False, st')
                  | (Some c, st') \<Rightarrow> (pk_verify pk (ct_key c) signature (signed_message cfg transmission sent raw), st')))
      | _ \<Rightarrow> (False, st))"

definition paypal_event :: "js \<Rightarrow> parsed_event" where
  "paypal_event event =
     (let ty = text_of (js_prop ''event_type'' event); r = js_prop ''resource'' event; i = text_of (js_prop ''id'' event);
          kind = (case map_of EVENT_TYPES ty of None \<Rightarrow> Unknown_Event | Some k \<Rightarrow> k) in
      \<lparr>pe_event_id = i, pe_type = kind, pe_provider_type = ty,
       pe_provider_reference =
         (if kind \<in> {Payout_Succeeded, Payout_Failed_Event, Payout_Reversed_Event}
          then opt_text (nullish (opt_prop ''sender_item_id'' (opt_prop ''payout_item'' r))
                 (opt_prop ''sender_batch_id'' (opt_prop ''sender_batch_header'' (opt_prop ''batch_header'' r))))
          else if kind = Refund_Succeeded then opt_text (opt_prop ''custom_id'' r)
          else if kind = Payment_Approved then opt_text (opt_prop ''id'' r)
          else if kind = Unknown_Event then None
          else opt_text (opt_prop ''order_id'' (opt_prop ''related_ids'' (opt_prop ''supplementary_data'' r))))\<rparr>)"

definition paypal_webhooks :: "web \<Rightarrow> paypal_pki \<Rightarrow> paypal_config \<Rightarrow> int \<Rightarrow> paypal_state \<Rightarrow> (string \<Rightarrow> string option) webhook_capability" where
  "paypal_webhooks wb pk cfg now st =
     \<lparr>wc_verify = (\<lambda>raw hs. fst (paypal_signed wb pk cfg now raw hs st)),
      wc_parse = (\<lambda>raw. case wb_parse wb raw of
         None \<Rightarrow> None
       | Some body \<Rightarrow> if body = Js_Null then None else Some (paypal_event body, js_json body))\<rparr>"

section \<open>The provider\<close>

text \<open>What the provider answers at a time and in a state of the adapter.\<close>

definition paypal :: "web \<Rightarrow> paypal_config \<Rightarrow> int \<Rightarrow> paypal_state \<Rightarrow> payment_provider" where
  "paypal wb cfg now st =
     \<lparr>pv_name = ''paypal'', pv_currencies = [''USD'', ''EUR'', ''GBP'', ''JPY''],
      pv_initialize = (\<lambda>rq. paypal_answer (paypal_initialize wb cfg now rq) st),
      pv_verify = (\<lambda>r pr. paypal_answer (paypal_verify wb cfg now r pr) st),
      pv_refund = (\<lambda>rq. paypal_answer (paypal_refund wb cfg now rq) st),
      pv_get_refund = (\<lambda>i. paypal_answer (paypal_get_refund wb cfg now i) st),
      pv_find_refund = (\<lambda>pr r. paypal_answer (paypal_find_refund wb cfg now pr r) st),
      pv_payouts = Some \<lparr>pc_currencies = PAYPAL_PAYOUT_CURRENCIES,
        pc_create_recipient = (\<lambda>_. Inl (Provider_Failure ''PayPal pays out to PayPal accounts (an email address), not bank accounts'' False)),
        pc_create_email_recipient = Some create_email_recipient,
        pc_initiate = (\<lambda>rq. paypal_answer (paypal_initiate wb cfg now rq) st),
        pc_find = (\<lambda>r b. paypal_answer (paypal_find_payout wb cfg now r b) st)\<rparr>\<rparr>"

section \<open>Events are PayPal's\<close>

text \<open>
  Where a certificate comes from: \<open>get\<close>, what the web answered at time \<open>t\<close>, served it with a 2xx answer at \<open>u\<close>
  or where redirects led from \<open>u\<close>, and it was valid then.
\<close>

definition leads_to :: "(string \<Rightarrow> hop) \<Rightarrow> string \<Rightarrow> string \<Rightarrow> bool" where
  "leads_to get = (\<lambda>u v. get u = Redirect v)\<^sup>*\<^sup>*"

definition served :: "paypal_pki \<Rightarrow> (string \<Rightarrow> hop) \<Rightarrow> int \<Rightarrow> string \<Rightarrow> certificate \<Rightarrow> bool" where
  "served pk get t u c \<longleftrightarrow>
     (\<exists>v status pem. leads_to get u v \<and> get v = Answer (Response status pem) \<and> 200 \<le> status \<and> status \<le> 299 \<and> pk_certificate pk pem = Some c) \<and>
     (\<forall>b. ct_valid_from c = Some b \<longrightarrow> b \<le> t) \<and> (\<forall>e. ct_valid_to c = Some e \<longrightarrow> t \<le> e)"

lemma follow_Response: "follow get n u = Response status pem \<Longrightarrow> \<exists>v. leads_to get u v \<and> get v = Answer (Response status pem)"
proof (induction get n u rule: follow.induct)
  case (1 get n u)
  show ?case
  proof (cases "get u")
    case (Answer r)
    then show ?thesis using 1(2) by (auto simp: leads_to_def follow.simps [of get n u])
  next
    case (Redirect v)
    then obtain m where "n = Suc m" "follow get m v = Response status pem" using 1(2) by (auto simp: follow.simps [of get n u] split: nat.splits)
    then obtain w where w: "leads_to get v w" "get w = Answer (Response status pem)" using 1(1) [OF Redirect] by blast
    have "leads_to get u w" using w(1) Redirect converse_rtranclp_into_rtranclp [of "\<lambda>u v. get u = hop.Redirect v"] unfolding leads_to_def by blast
    then show ?thesis using w(2) by blast
  qed
qed

text \<open>What is known of a cached certificate, in terms of the downloads made so far.\<close>

definition trusted :: "paypal_pki \<Rightarrow> ((string \<Rightarrow> hop) \<times> int) set \<Rightarrow> string \<times> certificate \<Rightarrow> bool" where
  "trusted pk downloads uc \<longleftrightarrow>
     (\<exists>h. pk_url pk (fst uc) = Some (''https:'', h) \<and> (h = ''paypal.com'' \<or> (\<exists>x. h = x @ ''.paypal.com''))) \<and>
     (\<exists>(get, t) \<in> downloads. served pk get t (fst uc) (snd uc)) \<and> (\<exists>x y. ct_subject (snd uc) = x @ ''PayPal'' @ y)"

lemma ends_with_append: "ends_with q s \<Longrightarrow> \<exists>x. s = x @ q"
  unfolding ends_with_def by (metis append_take_drop_id)

lemma contains_text_append: "contains_text q s \<Longrightarrow> \<exists>x y. s = x @ q @ y"
  unfolding contains_text_def list_ex_iff starts_with_def by (metis append_take_drop_id)

lemma paypal_hostD: "paypal_host pk u \<Longrightarrow> \<exists>h. pk_url pk u = Some (''https:'', h) \<and> (h = ''paypal.com'' \<or> (\<exists>x. h = x @ ''.paypal.com''))"
  unfolding paypal_host_def by (auto split: option.splits dest: ends_with_append)

lemma fetch_certificate_trusted:
  assumes "fetch_certificate pk now u = Some c"
  shows "trusted pk {(pk_get pk, now)} (u, c)"
proof -
  obtain status pem where f: "paypal_host pk u" "follow (pk_get pk) 20 u = Response status pem" "200 \<le> status" "status < 300"
    "pk_certificate pk pem = Some c" "certificate_valid now c"
    using assms by (auto simp: fetch_certificate_def split: if_splits fetched.splits option.splits)
  have "served pk (pk_get pk) now u c"
    using follow_Response [OF f(2)] f(3-6) unfolding served_def certificate_valid_def by (fastforce split: option.splits)
  moreover have "\<exists>x y. ct_subject c = x @ ''PayPal'' @ y"
    using f(6) unfolding certificate_valid_def by (blast intro: contains_text_append)
  ultimately show ?thesis using paypal_hostD [OF f(1)] unfolding trusted_def by simp
qed

lemma trusted_mono: "trusted pk d uc \<Longrightarrow> d \<subseteq> d' \<Longrightarrow> trusted pk d' uc"
  unfolding trusted_def by blast

lemma paypal_certificate_trusted:
  assumes "paypal_certificate pk now u st = (r, st')" and "\<forall>uc \<in> set (py_certs st). trusted pk d uc"
  shows "(\<forall>uc \<in> set (py_certs st'). trusted pk (insert (pk_get pk, now) d) uc) \<and>
    (case r of None \<Rightarrow> True | Some c \<Rightarrow> trusted pk (insert (pk_get pk, now) d) (u, c))"
proof -
  have old: "\<forall>uc \<in> set (py_certs st). trusted pk (insert (pk_get pk, now) d) uc" using assms(2) trusted_mono by blast
  have loaded: "fetch_certificate pk now u = Some c \<Longrightarrow> trusted pk (insert (pk_get pk, now) d) (u, c)" for c
    using fetch_certificate_trusted trusted_mono by blast
  show ?thesis using assms(1) old loaded by (auto simp: paypal_certificate_def split: option.splits dest!: map_of_SomeD)
qed

text \<open>The verifications that came before, each with what the web answered at that time.\<close>

definition at_time :: "paypal_pki \<Rightarrow> (string \<Rightarrow> hop) \<Rightarrow> paypal_pki" where
  "at_time pk get = pk\<lparr>pk_get := get\<rparr>"

fun after_verifications ::
  "web \<Rightarrow> paypal_pki \<Rightarrow> paypal_config \<Rightarrow> ((string \<Rightarrow> hop) \<times> int \<times> string \<times> (string \<Rightarrow> string option)) list \<Rightarrow> paypal_state" where
  "after_verifications wb pk cfg [] = no_paypal_state"
| "after_verifications wb pk cfg ((get, now, raw, hs) # before) =
     snd (paypal_signed wb (at_time pk get) cfg now raw hs (after_verifications wb pk cfg before))"

lemma trusted_at_time [simp]: "trusted (at_time pk get) = trusted pk" "pk_get (at_time pk get) = get"
  by (auto simp: fun_eq_iff trusted_def served_def at_time_def)

lemma paypal_signed_certs:
  assumes "\<forall>uc \<in> set (py_certs st). trusted pk d uc" and "paypal_signed wb pk cfg now raw hs st = (b, st')"
  shows "\<forall>uc \<in> set (py_certs st'). trusted pk (insert (pk_get pk, now) d) uc"
proof -
  have "st' = st \<or> (\<exists>u r. paypal_certificate pk now u st = (r, st'))"
    using assms(2) by (auto simp: paypal_signed_def split: option.splits if_splits prod.splits)
  moreover have "\<forall>uc \<in> set (py_certs st). trusted pk (insert (pk_get pk, now) d) uc" using assms(1) trusted_mono by blast
  ultimately show ?thesis using paypal_certificate_trusted [OF _ assms(1)] by blast
qed

lemma after_verifications_trusted:
  "\<forall>uc \<in> set (py_certs (after_verifications wb pk cfg ds)). trusted pk ((\<lambda>(get, t, _). (get, t)) ` set ds) uc"
proof (induction wb pk cfg ds rule: after_verifications.induct)
  case (2 wb pk cfg get now raw hs before)
  obtain b st' where "paypal_signed wb (at_time pk get) cfg now raw hs (after_verifications wb pk cfg before) = (b, st')" by fastforce
  then show ?case using paypal_signed_certs [of "after_verifications wb pk cfg before" "at_time pk get"] 2 by simp
qed (simp add: no_paypal_state_def)

text \<open>
  C37. An event gets into the program in PayPal's name only when PayPal signed it: whatever
  deliveries came before and whatever certificates they left in the cache, an accepted delivery
  carries a signature over exactly the body received, our webhook id and a time within the
  tolerance of the clock, by the key of a certificate that names PayPal. That certificate
  was downloaded now or for an earlier delivery, and valid then: with a 2xx answer, from the URL of the
  header itself, which is an https URL on a host of PayPal, or from where the redirects of that URL led.
\<close>

theorem paypal_events_are_signed:
  assumes "receive rg caps now ''paypal'' body hs p = Inr (r, p')"
    and "caps ''paypal'' = paypal_webhooks wb (at_time pk get) cfg now (after_verifications wb pk cfg before)"
  shows "\<exists>raw transmission sent signature u h t c. body = Some raw \<and> hs ''paypal-transmission-id'' = Some transmission \<and>
    hs ''paypal-transmission-time'' = Some sent \<and> hs ''paypal-transmission-sig'' = Some signature \<and> hs ''paypal-cert-url'' = Some u \<and>
    hs ''paypal-auth-algo'' = Some ''SHA256withRSA'' \<and> wb_date wb sent = Some t \<and> abs (now - t) \<le> pp_tolerance_seconds cfg * 1000 \<and>
    pk_verify pk (ct_key c) signature (transmission @ ''|'' @ sent @ ''|'' @ pp_webhook_id cfg @ ''|'' @ show_nat (crc32 raw)) \<and>
    (\<exists>x y. ct_subject c = x @ ''PayPal'' @ y) \<and>
    pk_url pk u = Some (''https:'', h) \<and> (h = ''paypal.com'' \<or> (\<exists>x. h = x @ ''.paypal.com'')) \<and>
    (\<exists>(get', t') \<in> insert (get, now) (set (map (\<lambda>(g, n, _). (g, n)) before)). served pk get' t' u c)"
proof -
  let ?st = "after_verifications wb pk cfg before"
  obtain raw where raw: "body = Some raw" "fst (paypal_signed wb (at_time pk get) cfg now raw hs ?st)"
    using assms by (auto simp: receive_def paypal_webhooks_def split: sum.splits option.splits if_splits)
  then obtain transmission sent signature u t c st' where h: "truthy (hs ''paypal-transmission-id'') = Some transmission"
    "truthy (hs ''paypal-transmission-time'') = Some sent" "truthy (hs ''paypal-transmission-sig'') = Some signature"
    "truthy (hs ''paypal-cert-url'') = Some u" "wb_date wb sent = Some t" "abs (now - t) \<le> pp_tolerance_seconds cfg * 1000"
    "paypal_certificate (at_time pk get) now u ?st = (Some c, st')" "hs ''paypal-auth-algo'' = Some ''SHA256withRSA''"
    "pk_verify pk (ct_key c) signature (signed_message cfg transmission sent raw)"
    by (auto simp: paypal_signed_def at_time_def split: option.splits if_splits prod.splits)
  have "trusted pk (insert (get, now) (set (map (\<lambda>(g, n, _). (g, n)) before))) (u, c)"
    using paypal_certificate_trusted [OF h(7), of "set (map (\<lambda>(g, n, _). (g, n)) before)"] after_verifications_trusted [of wb pk cfg before] by simp
  moreover have given: "truthy x = Some y \<Longrightarrow> x = Some y" for x y by (auto simp: truthy_def split: if_splits)
  ultimately show ?thesis using raw(1) h(5,6,8,9) given [OF h(1)] given [OF h(2)] given [OF h(3)] given [OF h(4)]
    unfolding trusted_def signed_message_def fst_conv snd_conv by blast
qed

definition demo_paypal_config :: paypal_config where
  "demo_paypal_config = \<lparr>pp_client_id = ''id'', pp_client_secret = ''secret'', pp_base_url = ''https://p'', pp_webhook_id = ''WH-1'',
     pp_return_url = ''https://r'', pp_cancel_url = ''https://c'', pp_tolerance_seconds = 300, pp_timeout_ms = 1000\<rparr>"

definition demo_certificate :: certificate where
  "demo_certificate = \<lparr>ct_valid_from = Some 0, ct_valid_to = Some 1000, ct_subject = ''CN=PayPal'', ct_key = ''key''\<rparr>"

definition demo_pki :: paypal_pki where
  "demo_pki = \<lparr>pk_url = (\<lambda>_. Some (''https:'', ''api.paypal.com'')), pk_get = (\<lambda>_. Answer Timed_Out),
     pk_certificate = (\<lambda>_. Some demo_certificate), pk_verify = (\<lambda>k s m. k = ''key'' \<and> s = ''sig'')\<rparr>"

definition demo_paypal_web :: web where
  "demo_paypal_web = \<lparr>wb_fetch = (\<lambda>_. Timed_Out), wb_parse = (\<lambda>_. Some (js_texts [(''id'', ''WH-E1''), (''event_type'', ''X'')])),
     wb_iso = (\<lambda>_. []), wb_date = (\<lambda>_. Some 5)\<rparr>"

definition demo_paypal_headers :: "string \<Rightarrow> string option" where
  "demo_paypal_headers = map_of [(''paypal-transmission-id'', ''t1''), (''paypal-transmission-time'', ''now''),
     (''paypal-transmission-sig'', ''sig''), (''paypal-cert-url'', ''https://api.paypal.com/c''), (''paypal-auth-algo'', ''SHA256withRSA'')]"

definition demo_paypal_registry :: registry where
  "demo_paypal_registry = demo_registry\<lparr>rg_providers := [paypal demo_paypal_web demo_paypal_config 5 no_paypal_state]\<rparr>"

text \<open>An earlier delivery cached the certificate; by now the download fails.\<close>

definition demo_before :: "((string \<Rightarrow> hop) \<times> int \<times> string \<times> (string \<Rightarrow> string option)) list" where
  "demo_before = [(\<lambda>_. Answer (Response 200 ''pem''), 5, ''event'', demo_paypal_headers)]"

lemma demo_before_certs:
  "py_certs (after_verifications demo_paypal_web demo_pki demo_paypal_config demo_before) = [(''https://api.paypal.com/c'', demo_certificate)]"
proof -
  have "contains_text ''PayPal'' ''CN=PayPal''" "ends_with ''.paypal.com'' ''api.paypal.com''" by code_simp+
  then show ?thesis
    by (simp add: demo_before_def paypal_signed_def paypal_certificate_def demo_paypal_headers_def demo_paypal_web_def demo_paypal_config_def
        demo_pki_def at_time_def fetch_certificate_def follow.simps paypal_host_def certificate_valid_def demo_certificate_def no_paypal_state_def truthy_def)
qed

theorem paypal_events_are_signed_witness:
  "\<exists>r p'. receive demo_paypal_registry (\<lambda>_. paypal_webhooks demo_paypal_web (at_time demo_pki (\<lambda>_. Answer Timed_Out)) demo_paypal_config 6
       (after_verifications demo_paypal_web demo_pki demo_paypal_config demo_before)) 6 ''paypal'' (Some ''event'') demo_paypal_headers
       empty_platform = Inr (r, p') \<and> (\<exists>c. served demo_pki (\<lambda>_. Answer (Response 200 ''pem'')) 5 ''https://api.paypal.com/c'' c)"
proof -
  let ?caps = "\<lambda>_ :: string. paypal_webhooks demo_paypal_web (at_time demo_pki (\<lambda>_. Answer Timed_Out)) demo_paypal_config 6
       (after_verifications demo_paypal_web demo_pki demo_paypal_config demo_before)"
  have s: "fst (paypal_signed demo_paypal_web (at_time demo_pki (\<lambda>_. Answer Timed_Out)) demo_paypal_config 6 ''event'' demo_paypal_headers
      st)" if "py_certs st = [(''https://api.paypal.com/c'', demo_certificate)]" for st
    using that by (simp add: paypal_signed_def paypal_certificate_def demo_paypal_headers_def demo_paypal_web_def
        demo_paypal_config_def demo_pki_def at_time_def demo_certificate_def truthy_def)
  have g: "get_provider demo_paypal_registry ''paypal'' = Inr (paypal demo_paypal_web demo_paypal_config 5 no_paypal_state)"
    by (simp add: demo_paypal_registry_def get_provider_def row_by_def paypal_def)
  have "paypal_event (js_texts [(''id'', ''WH-E1''), (''event_type'', ''X'')]) =
      \<lparr>pe_event_id = ''WH-E1'', pe_type = Unknown_Event, pe_provider_type = ''X'', pe_provider_reference = None\<rparr>" by code_simp
  then have e: "wc_parse (?caps ''paypal'') ''event'' = Some (\<lparr>pe_event_id = ''WH-E1'', pe_type = Unknown_Event, pe_provider_type = ''X'',
      pe_provider_reference = None\<rparr>, js_json (js_texts [(''id'', ''WH-E1''), (''event_type'', ''X'')]))"
    by (simp add: paypal_webhooks_def demo_paypal_web_def js_texts_def)
  have v: "wc_verify (?caps ''paypal'') ''event'' demo_paypal_headers" using s [OF demo_before_certs] by (simp add: paypal_webhooks_def)
  have "\<not> isl (receive demo_paypal_registry ?caps 6 ''paypal'' (Some ''event'') demo_paypal_headers empty_platform)"
    using e v by (auto simp: receive_def g split: option.splits prod.splits)
  then obtain r p' where r: "receive demo_paypal_registry ?caps 6 ''paypal'' (Some ''event'') demo_paypal_headers empty_platform = Inr (r, p')"
    by (metis isl_def sum.collapse(2) surj_pair)
  have "\<not> served demo_pki (\<lambda>_. Answer Timed_Out) 6 u c" for u c by (simp add: served_def)
  then have "\<exists>c. served demo_pki (\<lambda>_. Answer (Response 200 ''pem'')) 5 ''https://api.paypal.com/c'' c"
    using paypal_events_are_signed [OF r refl] by (auto simp: demo_before_def demo_paypal_headers_def)
  then show ?thesis using r by blast
qed

end
