(* ===== verification/Notifications.thy ===== *)
theory Notifications
  imports Outbox Organizations Provider_Http
begin

text \<open>
  \<open>src/notifications\<close>: the mail that domain events cause. \<open>notification-rules.ts\<close> says who gets
  which mail, \<open>email-templates.ts\<close> what it looks like, and \<open>notifications.service.ts\<close> records each
  mail before it sends it, so that an event that comes again does not send it again. The transport
  and the text of a date are parameters; times in the data of an event are numbers, as everywhere.
\<close>

section \<open>Rendering (email-templates.ts)\<close>

definition escape_html :: "string \<Rightarrow> string" where
  "escape_html s = concat (map (\<lambda>c.
     if c = CHR ''&'' then ''&amp;'' else if c = CHR ''<'' then ''&lt;'' else if c = CHR ''>'' then ''&gt;''
     else if c = CHR 0x22 then ''&quot;'' else if c = CHR 0x27 then ''&#39;'' else [c]) s)"

record email_message =
  em_to :: string
  em_subject :: string
  em_text :: string
  em_html :: string

definition email_lines :: "string \<Rightarrow> string list \<Rightarrow> string option \<Rightarrow> string list" where
  "email_lines greeting_name paragraphs reference =
     (if greeting_name \<noteq> [] then ''Hi '' @ greeting_name @ '','' else ''Hello,'') # paragraphs @
     (case truthy reference of None \<Rightarrow> [] | Some r \<Rightarrow> [''Reference: '' @ r])"

definition HTML_OPEN :: string where
  "HTML_OPEN = ''<!doctype html><html><body style='' @ [CHR 0x22] @ ''font-family:system-ui,sans-serif;line-height:1.5;color:#111'' @
     [CHR 0x22] @ ''>''"

definition render_email :: "string \<Rightarrow> string \<Rightarrow> string \<Rightarrow> string list \<Rightarrow> string option \<Rightarrow> email_message" where
  "render_email recipient subject greeting_name paragraphs reference =
     (let lines = email_lines greeting_name paragraphs reference in
      \<lparr>em_to = recipient, em_subject = subject, em_text = join [CHR 0x0A, CHR 0x0A] lines @ [CHR 0x0A],
       em_html = HTML_OPEN @ concat (map (\<lambda>l. ''<p>'' @ escape_html l @ ''</p>'') lines) @ ''</body></html>''\<rparr>)"

section \<open>Rules (notification-rules.ts)\<close>

datatype addressee = To_User string | To_Admins_Of string

record notification_rule =
  nr_template :: string
  nr_to :: addressee
  nr_subject :: string
  nr_paragraphs :: "string list"
  nr_reference :: "string option"

definition data_text :: "string \<Rightarrow> json_object \<Rightarrow> string option" where
  "data_text key d = (case map_of d key of Some (JStr s) \<Rightarrow> Some s | _ \<Rightarrow> None)"

definition data_time :: "string \<Rightarrow> json_object \<Rightarrow> int option" where
  "data_time key d = (case map_of d key of Some (JNum t) \<Rightarrow> Some t | _ \<Rightarrow> None)"

text \<open>\<open>formatMoney(text, currency)\<close>, which throws on what is no whole number.\<close>

definition money_text :: "string \<Rightarrow> string \<Rightarrow> string + string" where
  "money_text amount currency =
     (if trim amount = [] then Inr (format_money 0 currency)
      else (case whole_text (trim amount) of
          None \<Rightarrow> Inl ''Cannot convert to a BigInt''
        | Some i \<Rightarrow> Inr (format_money i currency)))"

definition money_field :: "string \<Rightarrow> json_object \<Rightarrow> string + string" where
  "money_field key d =
     (case map_of d key of
        Some (JObj fs) \<Rightarrow>
          (case (truthy (data_text ''amount'' fs), truthy (data_text ''currency'' fs)) of
             (Some a, Some c) \<Rightarrow> money_text a c
           | _ \<Rightarrow> Inr [])
      | _ \<Rightarrow> Inr [])"

definition plain_amount :: "json_object \<Rightarrow> string + string" where
  "plain_amount d =
     (case (data_text ''amount'' d, data_text ''currency'' d) of (Some a, Some c) \<Rightarrow> money_text a c | _ \<Rightarrow> Inr [])"

definition later_line :: "(int \<Rightarrow> string) \<Rightarrow> int \<Rightarrow> string \<Rightarrow> int option \<Rightarrow> string list" where
  "later_line utc now sentence t =
     (case t of None \<Rightarrow> [] | Some x \<Rightarrow> if x > now + 60000 then [sentence @ utc x @ ''.''] else [])"

definition to_owner_of :: "json_object \<Rightarrow> (addressee \<Rightarrow> notification_rule) \<Rightarrow> notification_rule list" where
  "to_owner_of d rule =
     (case (truthy (data_text ''userId'' d), truthy (data_text ''organizationId'' d)) of
        (Some u, _) \<Rightarrow> [rule (To_User u)]
      | (None, Some org) \<Rightarrow> [rule (To_Admins_Of org)]
      | (None, None) \<Rightarrow> [])"

definition payment_rule :: "(int \<Rightarrow> string) \<Rightarrow> int \<Rightarrow> json_object \<Rightarrow> string + notification_rule list" where
  "payment_rule utc now d =
     (case truthy (data_text ''userId'' d) of
        None \<Rightarrow> Inr []
      | Some u \<Rightarrow>
          bind_res (money_field ''credited'' d) (\<lambda>credited.
          bind_res (money_field ''charged'' d) (\<lambda>charged.
            Inr [\<lparr>nr_template = ''payment_received'', nr_to = To_User u, nr_subject = ''Payment received: '' @ credited,
              nr_paragraphs = (''We received your payment of '' @ charged @ ''. '' @ credited @ '' was added to your wallet.'') #
                later_line utc now ''It will be available to spend from '' (data_time ''fundsAvailableAt'' d),
              nr_reference = data_text ''reference'' d\<rparr>])))"

definition refund_rule :: "json_object \<Rightarrow> string + notification_rule list" where
  "refund_rule d =
     (case truthy (data_text ''userId'' d) of
        None \<Rightarrow> Inr []
      | Some u \<Rightarrow>
          bind_res (money_field ''refunded'' d) (\<lambda>refunded.
          bind_res (money_field ''walletDebit'' d) (\<lambda>debit.
            Inr [\<lparr>nr_template = ''refund_sent'', nr_to = To_User u, nr_subject = ''Refund sent: '' @ refunded,
              nr_paragraphs = [''A refund of '' @ refunded @ '' was sent to the customer. '' @ debit @ '' was taken from your wallet.''],
              nr_reference = data_text ''reference'' d\<rparr>])))"

definition payout_rule :: "string \<Rightarrow> json_object \<Rightarrow> notification_rule list" where
  "payout_rule amount d =
     (case truthy (data_text ''userId'' d) of
        None \<Rightarrow> []
      | Some u \<Rightarrow>
          [\<lparr>nr_template = ''payout_sent'', nr_to = To_User u, nr_subject = ''Withdrawal sent: '' @ amount,
            nr_paragraphs = [''Your withdrawal of '' @ amount @ '' has been sent to your bank account.''],
            nr_reference = data_text ''reference'' d\<rparr>])"

definition payout_problem_rule :: "bool \<Rightarrow> string \<Rightarrow> json_object \<Rightarrow> notification_rule list" where
  "payout_problem_rule reversed amount d =
     to_owner_of d (\<lambda>a.
       \<lparr>nr_template = (if reversed then ''payout_reversed'' else ''payout_failed''), nr_to = a,
        nr_subject = (if reversed then ''Withdrawal returned: '' else ''Withdrawal failed: '') @ amount,
        nr_paragraphs =
          [''Your withdrawal of '' @ amount @ (if reversed then '' was returned by the bank and credited back to the wallet.''
             else '' could not be completed. The money is back in the wallet.''),
           ''Please check the bank account details before trying again.''],
        nr_reference = data_text ''reference'' d\<rparr>)"

definition account_line :: "json_object \<Rightarrow> string" where
  "account_line d =
     (case data_text ''description'' d of
        Some s \<Rightarrow> s
      | None \<Rightarrow> (case data_text ''bankName'' d of None \<Rightarrow> ''Bank'' | Some b \<Rightarrow> b) @ '' ****'' @
          text_or_empty (data_text ''accountNumberLast4'' d) @ '' ('' @ text_or_empty (data_text ''accountName'' d) @ '')'')"

definition destination_rule :: "(int \<Rightarrow> string) \<Rightarrow> int \<Rightarrow> json_object \<Rightarrow> notification_rule list" where
  "destination_rule utc now d =
     to_owner_of d (\<lambda>a.
       \<lparr>nr_template = ''payout_destination_added'', nr_to = a, nr_subject = ''A bank account was added for withdrawals'',
        nr_paragraphs = (account_line d @ '' was added as a withdrawal account.'') #
          later_line utc now ''For your security, withdrawals to it are possible from '' (data_time ''payoutsAvailableAt'' d) @
          [''If you did not add it, remove it and change your password right away.''],
        nr_reference = None\<rparr>)"

definition transfer_rules :: "string \<Rightarrow> json_object \<Rightarrow> notification_rule list" where
  "transfer_rules amount d =
     (case truthy (data_text ''senderUserId'' d) of
        None \<Rightarrow> []
      | Some u \<Rightarrow> [\<lparr>nr_template = ''transfer_sent'', nr_to = To_User u, nr_subject = ''You sent '' @ amount,
          nr_paragraphs = [''Your transfer of '' @ amount @ '' was completed.''], nr_reference = data_text ''reference'' d\<rparr>]) @
     (case truthy (data_text ''recipientUserId'' d) of
        None \<Rightarrow> []
      | Some u \<Rightarrow> [\<lparr>nr_template = ''transfer_received'', nr_to = To_User u, nr_subject = ''You received '' @ amount,
          nr_paragraphs = [amount @ '' was added to your wallet.''], nr_reference = data_text ''reference'' d\<rparr>])"

definition notification_rules :: "(int \<Rightarrow> string) \<Rightarrow> int \<Rightarrow> domain_message \<Rightarrow> string + notification_rule list" where
  "notification_rules utc now m =
     (let d = dm_data m; ty = dm_type m in
      bind_res (plain_amount d) (\<lambda>amount.
        if ty = ''payment.successful'' then payment_rule utc now d
        else if ty = ''refund.successful'' then refund_rule d
        else if ty = ''payout.successful'' then Inr (payout_rule amount d)
        else if ty = ''payout.failed'' \<or> ty = ''payout.reversed'' then Inr (payout_problem_rule (ty = ''payout.reversed'') amount d)
        else if ty = ''payout_destination.added'' then Inr (destination_rule utc now d)
        else if ty = ''transfer.completed'' then Inr (transfer_rules amount d)
        else Inr []))"

section \<open>Sending (notifications.service.ts)\<close>

datatype email_status = Email_Pending | Email_Sent | Email_Failed

record email_row =
  en_id :: nat
  en_event :: uuid
  en_template :: string
  en_recipient :: uuid
  en_to_email :: string
  en_subject :: string
  en_status :: email_status
  en_attempts :: nat
  en_last_error :: "string option"
  en_sent_at :: "int option"
  en_created_at :: int

type_synonym email_key = "uuid \<times> string \<times> uuid"

definition row_key :: "email_row \<Rightarrow> email_key" where
  "row_key r = (en_event r, en_template r, en_recipient r)"

text \<open>The table of mails, and the mails that the transport took, by their key.\<close>

record mail_state =
  ms_rows :: "email_row list"
  ms_taken :: "(email_key \<times> email_message) list"

definition no_mail :: mail_state where
  "no_mail = \<lparr>ms_rows = [], ms_taken = []\<rparr>"

definition recipients :: "platform \<Rightarrow> notification_rule \<Rightarrow> account list" where
  "recipients p r =
     (case nr_to r of
        To_User u \<Rightarrow> (case find (\<lambda>a. uuid_str (ac_id a) = u) (pf_accounts p) of None \<Rightarrow> [] | Some a \<Rightarrow> [a])
      | To_Admins_Of g \<Rightarrow>
          (case find (\<lambda>x. uuid_str (og_id x) = g) (pf_organizations p) of
             None \<Rightarrow> []
           | Some org \<Rightarrow> map snd (filter (\<lambda>(m, a). mb_role m = Org_Owner \<or> mb_role m = Org_Admin) (list_members (og_id org) p))))"

text \<open>The insertion that does nothing when the key is taken.\<close>

definition insert_email :: "int \<Rightarrow> email_key \<Rightarrow> string \<Rightarrow> string \<Rightarrow> email_row list \<Rightarrow> email_row list" where
  "insert_email now k to_email subject rows =
     (if k \<in> row_key ` set rows then rows
      else rows @ [\<lparr>en_id = length rows, en_event = fst k, en_template = fst (snd k), en_recipient = snd (snd k), en_to_email = to_email,
        en_subject = take 200 subject, en_status = Email_Pending, en_attempts = 0, en_last_error = None, en_sent_at = None,
        en_created_at = now\<rparr>])"

definition mark_sent :: "int \<Rightarrow> email_row \<Rightarrow> email_row" where
  "mark_sent now r = r\<lparr>en_status := Email_Sent, en_attempts := en_attempts r + 1, en_last_error := None, en_sent_at := Some now\<rparr>"

definition mark_failed :: "string \<Rightarrow> email_row \<Rightarrow> email_row" where
  "mark_failed message r = r\<lparr>en_status := Email_Failed, en_attempts := en_attempts r + 1, en_last_error := Some (take 1000 message)\<rparr>"

text \<open>The attempt for the row with the key \<open>k\<close>, which is in \<open>rows\<close> by now.\<close>

definition deliver_email :: "(email_message \<Rightarrow> string option) \<Rightarrow> int \<Rightarrow> email_key \<Rightarrow> email_message \<Rightarrow> mail_state \<Rightarrow>
    (string + bool) \<times> mail_state" where
  "deliver_email transport now k email ms =
     (case find (\<lambda>row. row_key row = k) (ms_rows ms) of
        None \<Rightarrow> (Inl ''EntityNotFoundError'', ms)
      | Some row \<Rightarrow>
          if en_status row = Email_Sent then (Inr False, ms)
          else (case transport email of
              Some message \<Rightarrow> (Inl message, ms\<lparr>ms_rows := map (\<lambda>x. if row_key x = k then mark_failed message x else x) (ms_rows ms)\<rparr>)
            | None \<Rightarrow> (Inr True, ms\<lparr>ms_rows := map (\<lambda>x. if row_key x = k then mark_sent now x else x) (ms_rows ms),
                  ms_taken := ms_taken ms @ [(k, email)]\<rparr>)))"

definition send_email :: "(email_message \<Rightarrow> string option) \<Rightarrow> int \<Rightarrow> uuid \<Rightarrow> notification_rule \<Rightarrow> account \<Rightarrow> mail_state \<Rightarrow>
    (string + bool) \<times> mail_state" where
  "send_email transport now event r u ms =
     (if ac_status u \<noteq> User_Active then (Inr False, ms)
      else
        let k = (event, nr_template r, ac_id u);
            email = render_email (ac_email u) (nr_subject r) (ac_first_name u) (nr_paragraphs r) (nr_reference r) in
        deliver_email transport now k email
          (ms\<lparr>ms_rows := insert_email now k (ac_email u) (em_subject email) (ms_rows ms)\<rparr>))"

text \<open>The mails of an event, one after the other; the first failure ends the job, which the queue runs again.\<close>

fun send_each :: "(email_message \<Rightarrow> string option) \<Rightarrow> int \<Rightarrow> uuid \<Rightarrow> (notification_rule \<times> account) list \<Rightarrow> mail_state \<Rightarrow>
    (string + nat) \<times> mail_state" where
  "send_each transport now event [] ms = (Inr 0, ms)"
| "send_each transport now event ((r, u) # rest) ms =
     (case send_email transport now event r u ms of
        (Inl e, ms1) \<Rightarrow> (Inl e, ms1)
      | (Inr b, ms1) \<Rightarrow>
          (case send_each transport now event rest ms1 of
             (Inl e, ms2) \<Rightarrow> (Inl e, ms2)
           | (Inr n, ms2) \<Rightarrow> (Inr (n + (if b then 1 else 0)), ms2)))"

definition mails_of :: "platform \<Rightarrow> notification_rule list \<Rightarrow> (notification_rule \<times> account) list" where
  "mails_of p rules = concat (map (\<lambda>r. map (Pair r) (recipients p r)) rules)"

definition notify :: "(int \<Rightarrow> string) \<Rightarrow> (email_message \<Rightarrow> string option) \<Rightarrow> int \<Rightarrow> platform \<Rightarrow> domain_message \<Rightarrow> mail_state \<Rightarrow>
    (string + nat) \<times> mail_state" where
  "notify utc transport now p m ms =
     (case notification_rules utc now m of
        Inl e \<Rightarrow> (Inl e, ms)
      | Inr rules \<Rightarrow> send_each transport now (dm_event m) (mails_of p rules) ms)"

definition NOTIFIED_TYPES :: "string list" where
  "NOTIFIED_TYPES = [''payment.successful'', ''refund.successful'', ''payout.successful'', ''payout.failed'', ''payout.reversed'',
     ''transfer.completed'', ''payout_destination.added'']"

definition notifications_handler :: "(int \<Rightarrow> string) \<Rightarrow> (email_message \<Rightarrow> string option) \<Rightarrow> int \<Rightarrow> platform \<Rightarrow> mail_state event_handler" where
  "notifications_handler utc transport now p =
     \<lparr>eh_handles = Some NOTIFIED_TYPES,
      eh_handle = (\<lambda>m ms. case notify utc transport now p m ms of (Inl e, ms') \<Rightarrow> (Some e, ms') | (Inr n, ms') \<Rightarrow> (None, ms'))\<rparr>"

section \<open>Each mail is sent once\<close>

text \<open>
  Keys are unique, a mail that was taken has a row that says so, and none was taken twice.
\<close>

definition mail_ok :: "mail_state \<Rightarrow> bool" where
  "mail_ok ms \<longleftrightarrow> distinct (map row_key (ms_rows ms)) \<and> distinct (map fst (ms_taken ms)) \<and>
     (\<forall>r \<in> set (ms_rows ms). en_status r = Email_Sent \<longleftrightarrow> row_key r \<in> fst ` set (ms_taken ms)) \<and>
     fst ` set (ms_taken ms) \<subseteq> row_key ` set (ms_rows ms)"

lemma row_key_marked [simp]: "row_key (mark_sent now r) = row_key r" "row_key (mark_failed m r) = row_key r"
  by (simp_all add: row_key_def mark_sent_def mark_failed_def)

lemma status_marked [simp]: "en_status (mark_sent now r) = Email_Sent" "en_status (mark_failed m r) = Email_Failed"
  by (simp_all add: mark_sent_def mark_failed_def)

text \<open>An update of the row with the key \<open>k\<close>, beside the keys of the mails that were taken.\<close>

lemma update_row_ok:
  assumes ok: "mail_ok ms" and f: "\<And>x. row_key (f x) = row_key x" and t: "distinct (map fst t)" "fst ` set t \<subseteq> row_key ` set (ms_rows ms)"
    and k: "\<And>x. en_status (f x) = Email_Sent \<longleftrightarrow> k \<in> fst ` set t" "\<And>q. q \<noteq> k \<Longrightarrow> q \<in> fst ` set t \<longleftrightarrow> q \<in> fst ` set (ms_taken ms)"
  shows "mail_ok (ms\<lparr>ms_rows := map (\<lambda>x. if row_key x = k then f x else x) (ms_rows ms), ms_taken := t\<rparr>)"
proof -
  let ?g = "\<lambda>x. if row_key x = k then f x else x"
  have same: "map row_key (map ?g (ms_rows ms)) = map row_key (ms_rows ms)" using f by simp
  have keys: "row_key ` set (map ?g (ms_rows ms)) = row_key ` set (ms_rows ms)" using arg_cong [OF same, of set] by (simp only: set_map)
  have "en_status (?g x) = Email_Sent \<longleftrightarrow> row_key (?g x) \<in> fst ` set t" if "x \<in> set (ms_rows ms)" for x
  proof (cases "row_key x = k")
    case True
    then show ?thesis using k(1) f by simp
  next
    case False
    then have "row_key x \<in> fst ` set t \<longleftrightarrow> row_key x \<in> fst ` set (ms_taken ms)" by (rule k(2))
    moreover have "en_status x = Email_Sent \<longleftrightarrow> row_key x \<in> fst ` set (ms_taken ms)" using ok that unfolding mail_ok_def by blast
    ultimately show ?thesis using False by simp
  qed
  then have "\<forall>r \<in> set (map ?g (ms_rows ms)). en_status r = Email_Sent \<longleftrightarrow> row_key r \<in> fst ` set t"
    unfolding set_map by blast
  moreover have "distinct (map row_key (map ?g (ms_rows ms)))" unfolding same using ok by (simp add: mail_ok_def)
  moreover have "ms_rows (ms\<lparr>ms_rows := r, ms_taken := t\<rparr>) = r" "ms_taken (ms\<lparr>ms_rows := r, ms_taken := t\<rparr>) = t" for r by simp_all
  ultimately show ?thesis using t unfolding mail_ok_def by (simp only: keys)
qed

lemma insert_email_ok:
  assumes "mail_ok ms"
  shows "mail_ok (ms\<lparr>ms_rows := insert_email now k e s (ms_rows ms)\<rparr>)"
  using assms by (auto simp: mail_ok_def insert_email_def row_key_def image_iff)

lemma insert_email_found: "k \<in> row_key ` set (insert_email now k e s rows)"
  by (auto simp: insert_email_def row_key_def image_iff)

lemma deliver_email_ok:
  assumes ok: "mail_ok ms" and "k \<in> row_key ` set (ms_rows ms)" and res: "deliver_email transport now k email ms = (res, ms')"
  shows "mail_ok ms' \<and> set (ms_taken ms) \<subseteq> set (ms_taken ms') \<and> (\<not> isl res \<longrightarrow> k \<in> fst ` set (ms_taken ms'))"
proof -
  obtain row where row: "find (\<lambda>row. row_key row = k) (ms_rows ms) = Some row"
    using assms(2) by (cases "find (\<lambda>row. row_key row = k) (ms_rows ms)") (auto simp: find_None_iff)
  then have k: "row \<in> set (ms_rows ms)" "row_key row = k" by (auto simp: find_Some_iff)
  consider (sent) "en_status row = Email_Sent" | (taken) "en_status row \<noteq> Email_Sent" "transport email = None"
    | (failed) m where "en_status row \<noteq> Email_Sent" "transport email = Some m" by (cases "transport email") auto
  then show ?thesis
  proof cases
    case sent
    then show ?thesis using res ok k by (auto simp: deliver_email_def row mail_ok_def)
  next
    case taken
    then have unsent: "k \<notin> fst ` set (ms_taken ms)" using ok k by (auto simp: mail_ok_def)
    have ms': "ms' = ms\<lparr>ms_rows := map (\<lambda>x. if row_key x = k then mark_sent now x else x) (ms_rows ms), ms_taken := ms_taken ms @ [(k, email)]\<rparr>"
      using res taken by (simp add: deliver_email_def row)
    have "mail_ok ms'" unfolding ms' by (rule update_row_ok [OF ok]) (use ok unsent assms(2) in \<open>auto simp: mail_ok_def\<close>)
    then show ?thesis by (auto simp: ms')
  next
    case failed
    then have unsent: "k \<notin> fst ` set (ms_taken ms)" using ok k by (auto simp: mail_ok_def)
    have ms': "ms' = ms\<lparr>ms_rows := map (\<lambda>x. if row_key x = k then mark_failed m x else x) (ms_rows ms)\<rparr>" "isl res"
      using res failed by (auto simp: deliver_email_def row)
    have "mail_ok (ms\<lparr>ms_rows := map (\<lambda>x. if row_key x = k then mark_failed m x else x) (ms_rows ms), ms_taken := ms_taken ms\<rparr>)"
      by (rule update_row_ok [OF ok]) (use ok unsent in \<open>auto simp: mail_ok_def\<close>)
    then have "mail_ok ms'" by (simp add: ms'(1))
    then show ?thesis using ms'(2) by (simp add: ms'(1))
  qed
qed

lemma send_email_ok:
  assumes "mail_ok ms" and "send_email transport now event r u ms = (res, ms')"
  shows "mail_ok ms' \<and> set (ms_taken ms) \<subseteq> set (ms_taken ms') \<and>
    (\<not> isl res \<longrightarrow> ac_status u = User_Active \<longrightarrow> (event, nr_template r, ac_id u) \<in> fst ` set (ms_taken ms'))"
proof (cases "ac_status u = User_Active")
  case True
  define k where "k = (event, nr_template r, ac_id u)"
  define email where "email = render_email (ac_email u) (nr_subject r) (ac_first_name u) (nr_paragraphs r) (nr_reference r)"
  define ms1 where "ms1 = ms\<lparr>ms_rows := insert_email now k (ac_email u) (em_subject email) (ms_rows ms)\<rparr>"
  have "deliver_email transport now k email ms1 = (res, ms')"
    using assms(2) True by (simp add: send_email_def Let_def k_def email_def ms1_def)
  moreover have "mail_ok ms1" unfolding ms1_def by (rule insert_email_ok [OF assms(1)])
  moreover have "k \<in> row_key ` set (ms_rows ms1)" by (simp add: ms1_def insert_email_found)
  ultimately have "mail_ok ms' \<and> set (ms_taken ms1) \<subseteq> set (ms_taken ms') \<and> (\<not> isl res \<longrightarrow> k \<in> fst ` set (ms_taken ms'))"
    using deliver_email_ok by blast
  then show ?thesis by (simp add: ms1_def k_def)
next
  case False
  then show ?thesis using assms by (auto simp: send_email_def)
qed

lemma send_each_ok:
  assumes "mail_ok ms" and "send_each transport now event xs ms = (res, ms')"
  shows "mail_ok ms' \<and> set (ms_taken ms) \<subseteq> set (ms_taken ms') \<and>
    (\<not> isl res \<longrightarrow> (\<forall>(r, u) \<in> set xs. ac_status u = User_Active \<longrightarrow> (event, nr_template r, ac_id u) \<in> fst ` set (ms_taken ms')))"
  using assms
proof (induction xs arbitrary: ms res ms')
  case (Cons ru rest)
  obtain r u where ru: "ru = (r, u)" by force
  obtain e ms1 where s: "send_email transport now event r u ms = (e, ms1)" by force
  note one = send_email_ok [OF Cons.prems(1) s]
  show ?case
  proof (cases e)
    case (Inl m)
    then show ?thesis using Cons.prems(2) s one by (auto simp: ru)
  next
    case (Inr b)
    obtain e2 ms2 where s2: "send_each transport now event rest ms1 = (e2, ms2)" by force
    have "mail_ok ms1" using one by blast
    note others = Cons.IH [OF this s2]
    have "ms' = ms2" "isl res = isl e2" using Cons.prems(2) s s2 Inr by (auto simp: ru split: sum.splits)
    then show ?thesis using one others Inr unfolding ru by (simp del: One_nat_def) blast
  qed
qed simp

text \<open>The events handled so far, the latest first, each with the transport, the time and the accounts of its run.\<close>

fun mail_history :: "(int \<Rightarrow> string) \<Rightarrow> ((email_message \<Rightarrow> string option) \<times> int \<times> platform \<times> domain_message) list \<Rightarrow> mail_state" where
  "mail_history utc [] = no_mail"
| "mail_history utc ((transport, now, p, m) # before) = snd (notify utc transport now p m (mail_history utc before))"

lemma notify_ok:
  assumes "mail_ok ms" and "notify utc transport now p m ms = (res, ms')"
  shows "mail_ok ms' \<and> (\<not> isl res \<longrightarrow> (\<exists>rules. notification_rules utc now m = Inr rules \<and>
    (\<forall>(r, u) \<in> set (mails_of p rules). ac_status u = User_Active \<longrightarrow> (dm_event m, nr_template r, ac_id u) \<in> fst ` set (ms_taken ms'))))"
proof (cases "notification_rules utc now m")
  case (Inl e)
  then show ?thesis using assms by (auto simp: notify_def)
next
  case (Inr rules)
  then have "send_each transport now (dm_event m) (mails_of p rules) ms = (res, ms')" using assms(2) by (simp add: notify_def)
  from send_each_ok [OF assms(1) this] show ?thesis using Inr by blast
qed

lemma mail_history_ok: "mail_ok (mail_history utc before)"
proof (induction utc before rule: mail_history.induct)
  case (1 utc)
  then show ?case by (simp add: mail_ok_def no_mail_def)
next
  case (2 utc transport now p m before)
  obtain res ms' where "notify utc transport now p m (mail_history utc before) = (res, ms')" by force
  then show ?case using notify_ok [OF 2] by auto
qed

lemma count_list_distinct: "distinct xs \<Longrightarrow> x \<in> set xs \<Longrightarrow> count_list xs x = 1"
  by (induction xs) (auto simp: count_list_0_iff)

text \<open>
  C40. Every mail is sent exactly once: whatever events were handled before, one after the other and
  again and again, with whatever failures of the transport (a process that dies between the
  sending and the update of the row aside), the transport took no mail twice; and when the handling
  of an event ends without an error, each active recipient of each of its mails has been sent it
  exactly once in all.
\<close>

theorem emails_are_sent_once:
  assumes "notify utc transport now p m (mail_history utc before) = (res, ms)"
  shows "distinct (map fst (ms_taken ms)) \<and>
    (\<forall>rules. notification_rules utc now m = Inr rules \<and> \<not> isl res \<longrightarrow>
       (\<forall>r \<in> set rules. \<forall>u \<in> set (recipients p r). ac_status u = User_Active \<longrightarrow>
          count_list (map fst (ms_taken ms)) (dm_event m, nr_template r, ac_id u) = 1))"
proof -
  note ok = notify_ok [OF mail_history_ok assms]
  then have d: "distinct (map fst (ms_taken ms))" by (simp add: mail_ok_def)
  moreover have "count_list (map fst (ms_taken ms)) (dm_event m, nr_template r, ac_id u) = 1"
    if "notification_rules utc now m = Inr rules" "\<not> isl res" "r \<in> set rules" "u \<in> set (recipients p r)" "ac_status u = User_Active" for rules r u
  proof -
    have "(r, u) \<in> set (mails_of p rules)" using that(3,4) by (auto simp: mails_of_def)
    then have "(dm_event m, nr_template r, ac_id u) \<in> set (map fst (ms_taken ms))" using ok that(1,2,5) by fastforce
    then show ?thesis by (rule count_list_distinct [OF d])
  qed
  ultimately show ?thesis by blast
qed

definition demo_customer :: account where
  "demo_customer = \<lparr>ac_id = 3, ac_email = ''ada@x.io'', ac_password_hash = ''h'', ac_first_name = ''Ada'', ac_last_name = ''L'',
     ac_role = Role_User, ac_status = User_Active, ac_created_at = 1\<rparr>"

definition demo_customers :: platform where
  "demo_customers = empty_platform\<lparr>pf_accounts := [demo_customer]\<rparr>"

definition demo_paid_out :: domain_message where
  "demo_paid_out = \<lparr>dm_event = 8, dm_type = ''payout.successful'', dm_aggregate_type = ''payout'', dm_aggregate_id = 5, dm_occurred_at = 2,
     dm_data = [(''userId'', j_id 3), (''amount'', j_amount 150000), (''currency'', JStr ''NGN'')]\<rparr>"

text \<open>The first attempt fails in the transport, the second one succeeds, the third one finds the mail sent.\<close>

definition demo_attempts :: "((email_message \<Rightarrow> string option) \<times> int \<times> platform \<times> domain_message) list" where
  "demo_attempts = [(\<lambda>_. None, 20, demo_customers, demo_paid_out), (\<lambda>_. Some ''421'', 10, demo_customers, demo_paid_out)]"

theorem emails_are_sent_once_witness:
  "\<exists>n ms rules r. notify (\<lambda>_. []) (\<lambda>_. None) 30 demo_customers demo_paid_out (mail_history (\<lambda>_. []) demo_attempts) = (Inr n, ms) \<and>
     notification_rules (\<lambda>_. []) 30 demo_paid_out = Inr rules \<and> r \<in> set rules \<and>
     count_list (map fst (ms_taken ms)) (8, nr_template r, 3) = 1"
proof -
  have rules: "case notification_rules (\<lambda>_. []) 30 demo_paid_out of Inl e \<Rightarrow> False | Inr rules \<Rightarrow> list_all (\<lambda>r. recipients demo_customers r = [demo_customer]) rules \<and> rules \<noteq> []"
    by code_simp
  then obtain rules where r: "notification_rules (\<lambda>_. []) 30 demo_paid_out = Inr rules" "rules \<noteq> []"
    "\<forall>r \<in> set rules. recipients demo_customers r = [demo_customer]"
    by (auto simp: list_all_iff split: sum.splits)
  have "\<not> isl (fst (notify (\<lambda>_. []) (\<lambda>_. None) 30 demo_customers demo_paid_out (mail_history (\<lambda>_. []) demo_attempts)))" by code_simp
  then obtain n ms where n: "notify (\<lambda>_. []) (\<lambda>_. None) 30 demo_customers demo_paid_out (mail_history (\<lambda>_. []) demo_attempts) = (Inr n, ms)"
    by (metis isl_def prod.collapse sum.collapse(2))
  have "hd rules \<in> set rules" using r(2) by simp
  moreover have "count_list (map fst (ms_taken ms)) (dm_event demo_paid_out, nr_template (hd rules), ac_id demo_customer) = 1"
    using emails_are_sent_once [OF n] r \<open>hd rules \<in> set rules\<close> by (auto simp: demo_customer_def)
  ultimately show ?thesis using n r(1) by (auto simp: demo_customer_def demo_paid_out_def)
qed

end
