(* ===== verification/Routes.thy ===== *)
theory Routes
  imports Access_Laws Provider_Http
begin

text \<open>
  The controllers (\<open>*.controller.ts\<close>): every route of the HTTP API with what its decorators declare
  (who may call it, whether it takes an Idempotency-Key, the status of its success) and the
  service operations its handler calls. \<open>declared_route\<close> is what the guards of theory \<open>Access\<close> see of it:
  a declaration on the handler overrides the one on its class, and permissions of an organization
  are checked only where the class uses the guard. Rate limits and the documentation of the API are
  left out; a handler is given by its calls.
\<close>

section \<open>Declarations\<close>

datatype verb = GET | POST | PATCH | DELETE

record controller_meta =
  cm_path :: string
  cm_public :: bool
  cm_allow_api_key :: bool
  cm_platform :: "platform_permission option"
  cm_org_guard :: bool

record handler_meta =
  hm_verb :: verb
  hm_path :: string
  hm_status :: nat
  hm_calls :: "string list"
  hm_public :: bool
  hm_allow_api_key :: bool
  hm_platform :: "platform_permission option"
  hm_org :: "org_permission list"
  hm_idempotent :: bool

definition controller :: "string \<Rightarrow> controller_meta" where
  "controller path = \<lparr>cm_path = path, cm_public = False, cm_allow_api_key = False, cm_platform = None, cm_org_guard = False\<rparr>"

definition handler :: "verb \<Rightarrow> string \<Rightarrow> nat \<Rightarrow> string list \<Rightarrow> handler_meta" where
  "handler v path status calls =
     \<lparr>hm_verb = v, hm_path = path, hm_status = status, hm_calls = calls, hm_public = False, hm_allow_api_key = False,
      hm_platform = None, hm_org = [], hm_idempotent = False\<rparr>"

definition declared_route :: "controller_meta \<Rightarrow> handler_meta \<Rightarrow> route" where
  "declared_route c h =
     \<lparr>ro_public = (cm_public c \<or> hm_public h), ro_allow_api_key = (cm_allow_api_key c \<or> hm_allow_api_key h),
      ro_platform = (case hm_platform h of None \<Rightarrow> cm_platform c | Some x \<Rightarrow> Some x), ro_roles = [],
      ro_org = (if cm_org_guard c then hm_org h else [])\<rparr>"

section \<open>Controllers\<close>

text \<open>\<open>AuthController\<close>.\<close>

definition api_auth :: controller_meta where
  "api_auth = controller ''auth''"

definition api_auth_register :: handler_meta where
  "api_auth_register =
     (handler POST ''register'' 201 [''auth.register''])\<lparr>hm_public := True\<rparr>"

definition api_auth_login :: handler_meta where
  "api_auth_login =
     (handler POST ''login'' 200 [''auth.login''])\<lparr>hm_public := True\<rparr>"

definition api_auth_refresh :: handler_meta where
  "api_auth_refresh =
     (handler POST ''refresh'' 200 [''auth.refresh''])\<lparr>hm_public := True\<rparr>"

definition api_auth_logout :: handler_meta where
  "api_auth_logout =
     (handler POST ''logout'' 204 [''auth.logout''])\<lparr>hm_public := True\<rparr>"

definition api_auth_logout_all :: handler_meta where
  "api_auth_logout_all =
     handler POST ''logout-all'' 204 [''auth.logoutEverywhere'']"


text \<open>\<open>UsersController\<close>.\<close>

definition api_users :: controller_meta where
  "api_users = controller ''users''"

definition api_users_me :: handler_meta where
  "api_users_me =
     handler GET ''me'' 200 [''users.findById'']"


text \<open>\<open>WalletsController\<close>.\<close>

definition api_wallets :: controller_meta where
  "api_wallets = controller ''wallets''"

definition api_wallets_create :: handler_meta where
  "api_wallets_create =
     handler POST '''' 201 [''wallets.create'']"

definition api_wallets_list :: handler_meta where
  "api_wallets_list =
     handler GET '''' 200 [''wallets.listFor'']"

definition api_wallets_primary :: handler_meta where
  "api_wallets_primary =
     handler GET ''primary'' 200 [''wallets.getPrimary'']"

definition api_wallets_get :: handler_meta where
  "api_wallets_get =
     handler GET '':walletId'' 200 [''wallets.getOwned'']"

definition api_wallets_make_primary :: handler_meta where
  "api_wallets_make_primary =
     handler POST '':walletId/primary'' 200 [''wallets.setPrimary'']"

definition api_wallets_entries :: handler_meta where
  "api_wallets_entries =
     handler GET '':walletId/entries'' 200 [''wallets.listEntries'']"


text \<open>\<open>OrganizationWalletsController\<close>.\<close>

definition api_organization_wallets :: controller_meta where
  "api_organization_wallets = (controller ''organizations/:organizationId/wallets'')\<lparr>cm_allow_api_key := True, cm_org_guard := True\<rparr>"

definition api_organization_wallets_create :: handler_meta where
  "api_organization_wallets_create =
     (handler POST '''' 201 [''wallets.create''])\<lparr>hm_org := [Manage_Wallets]\<rparr>"

definition api_organization_wallets_list :: handler_meta where
  "api_organization_wallets_list =
     (handler GET '''' 200 [''wallets.listFor''])\<lparr>hm_org := [Read_Wallets]\<rparr>"

definition api_organization_wallets_get :: handler_meta where
  "api_organization_wallets_get =
     (handler GET '':walletId'' 200 [''wallets.getOwned''])\<lparr>hm_org := [Read_Wallets]\<rparr>"

definition api_organization_wallets_make_primary :: handler_meta where
  "api_organization_wallets_make_primary =
     (handler POST '':walletId/primary'' 200 [''wallets.setPrimary''])\<lparr>hm_org := [Manage_Wallets]\<rparr>"

definition api_organization_wallets_entries :: handler_meta where
  "api_organization_wallets_entries =
     (handler GET '':walletId/entries'' 200 [''wallets.listEntries''])\<lparr>hm_org := [Read_Wallets]\<rparr>"


text \<open>\<open>TransactionsController\<close>.\<close>

definition api_transactions :: controller_meta where
  "api_transactions = controller ''''"

definition api_transactions_transfer :: handler_meta where
  "api_transactions_transfer =
     (handler POST ''transfers'' 201 [''transfers.transfer''])\<lparr>hm_idempotent := True\<rparr>"

definition api_transactions_list :: handler_meta where
  "api_transactions_list =
     handler GET ''transactions'' 200 [''transactions.listForUser'']"

definition api_transactions_get :: handler_meta where
  "api_transactions_get =
     handler GET ''transactions/:transactionId'' 200 [''transactions.getForUser'']"


text \<open>\<open>OrganizationTransactionsController\<close>.\<close>

definition api_organization_transactions :: controller_meta where
  "api_organization_transactions = (controller ''organizations/:organizationId/transactions'')\<lparr>cm_allow_api_key := True, cm_org_guard := True\<rparr>"

definition api_organization_transactions_list :: handler_meta where
  "api_organization_transactions_list =
     (handler GET '''' 200 [''transactions.listForOrganization''])\<lparr>hm_org := [Read_Transactions]\<rparr>"

definition api_organization_transactions_get :: handler_meta where
  "api_organization_transactions_get =
     (handler GET '':transactionId'' 200 [''transactions.getForOrganization''])\<lparr>hm_org := [Read_Transactions]\<rparr>"


text \<open>\<open>PaymentsController\<close>.\<close>

definition api_payments :: controller_meta where
  "api_payments = controller ''payments''"

definition api_payments_initialize :: handler_meta where
  "api_payments_initialize =
     (handler POST '''' 201 [''payments.initialize''])\<lparr>hm_idempotent := True\<rparr>"

definition api_payments_get :: handler_meta where
  "api_payments_get =
     handler GET '':paymentId'' 200 [''payments.getOwned'']"

definition api_payments_verify :: handler_meta where
  "api_payments_verify =
     handler POST '':paymentId/verify'' 200 [''payments.getOwned'', ''settlement.settle'']"


text \<open>\<open>OrganizationPaymentsController\<close>.\<close>

definition api_organization_payments :: controller_meta where
  "api_organization_payments = (controller ''organizations/:organizationId/payments'')\<lparr>cm_allow_api_key := True, cm_org_guard := True\<rparr>"

definition api_organization_payments_initialize :: handler_meta where
  "api_organization_payments_initialize =
     (handler POST '''' 201 [''payments.initialize''])\<lparr>hm_org := [Create_Payments], hm_idempotent := True\<rparr>"

definition api_organization_payments_get :: handler_meta where
  "api_organization_payments_get =
     (handler GET '':paymentId'' 200 [''payments.getOwned''])\<lparr>hm_org := [Read_Transactions]\<rparr>"

definition api_organization_payments_verify :: handler_meta where
  "api_organization_payments_verify =
     (handler POST '':paymentId/verify'' 200 [''payments.getOwned'', ''settlement.settle''])\<lparr>hm_org := [Create_Payments]\<rparr>"


text \<open>\<open>AdminPaymentsController\<close>.\<close>

definition api_admin_payments :: controller_meta where
  "api_admin_payments = (controller ''admin/payments'')\<lparr>cm_platform := Some Manage_Payments\<rparr>"

definition api_admin_payments_list :: handler_meta where
  "api_admin_payments_list =
     (handler GET '''' 200 [''payments.searchForAdmin''])\<lparr>hm_platform := Some Read_Payments\<rparr>"

definition api_admin_payments_get :: handler_meta where
  "api_admin_payments_get =
     (handler GET '':paymentId'' 200 [''payments.view'', ''payments.getById''])\<lparr>hm_platform := Some Read_Payments\<rparr>"

definition api_admin_payments_release_now :: handler_meta where
  "api_admin_payments_release_now =
     handler POST '':paymentId/release'' 200 [''release.releaseEarly'', ''payments.view'']"


text \<open>\<open>AdminRefundsController\<close>.\<close>

definition api_admin_refunds :: controller_meta where
  "api_admin_refunds = (controller ''admin'')\<lparr>cm_platform := Some Manage_Refunds\<rparr>"

definition api_admin_refunds_create :: handler_meta where
  "api_admin_refunds_create =
     (handler POST ''payments/:paymentId/refunds'' 201 [''refunds.request''])\<lparr>hm_idempotent := True\<rparr>"

definition api_admin_refunds_list :: handler_meta where
  "api_admin_refunds_list =
     (handler GET ''refunds'' 200 [''refunds.search''])\<lparr>hm_platform := Some Read_Refunds\<rparr>"

definition api_admin_refunds_get :: handler_meta where
  "api_admin_refunds_get =
     (handler GET ''refunds/:refundId'' 200 [''refunds.view''])\<lparr>hm_platform := Some Read_Refunds\<rparr>"

definition api_admin_refunds_retry :: handler_meta where
  "api_admin_refunds_retry =
     handler POST ''refunds/:refundId/retry'' 200 [''refunds.retry'']"


text \<open>\<open>PayoutsController\<close>.\<close>

definition api_payouts :: controller_meta where
  "api_payouts = controller ''''"

definition api_payouts_add_destination :: handler_meta where
  "api_payouts_add_destination =
     handler POST ''payout-destinations'' 201 [''destinations.add'']"

definition api_payouts_list_destinations :: handler_meta where
  "api_payouts_list_destinations =
     handler GET ''payout-destinations'' 200 [''destinations.list'']"

definition api_payouts_remove_destination :: handler_meta where
  "api_payouts_remove_destination =
     handler DELETE ''payout-destinations/:destinationId'' 204 [''destinations.remove'']"

definition api_payouts_create :: handler_meta where
  "api_payouts_create =
     (handler POST ''payouts'' 201 [''payouts.request''])\<lparr>hm_idempotent := True\<rparr>"

definition api_payouts_get :: handler_meta where
  "api_payouts_get =
     handler GET ''payouts/:payoutId'' 200 [''payouts.getOwned'']"


text \<open>\<open>OrganizationPayoutsController\<close>.\<close>

definition api_organization_payouts :: controller_meta where
  "api_organization_payouts = (controller ''organizations/:organizationId'')\<lparr>cm_org_guard := True\<rparr>"

definition api_organization_payouts_add_destination :: handler_meta where
  "api_organization_payouts_add_destination =
     (handler POST ''payout-destinations'' 201 [''destinations.add''])\<lparr>hm_org := [Manage_Payout_Destinations]\<rparr>"

definition api_organization_payouts_list_destinations :: handler_meta where
  "api_organization_payouts_list_destinations =
     (handler GET ''payout-destinations'' 200 [''destinations.list''])\<lparr>hm_allow_api_key := True, hm_org := [Create_Payouts, Propose_Actions]\<rparr>"

definition api_organization_payouts_remove_destination :: handler_meta where
  "api_organization_payouts_remove_destination =
     (handler DELETE ''payout-destinations/:destinationId'' 204 [''destinations.remove''])\<lparr>hm_org := [Manage_Payout_Destinations]\<rparr>"

definition api_organization_payouts_create :: handler_meta where
  "api_organization_payouts_create =
     (handler POST ''payouts'' 201 [''payouts.request''])\<lparr>hm_allow_api_key := True, hm_org := [Create_Payouts], hm_idempotent := True\<rparr>"

definition api_organization_payouts_get :: handler_meta where
  "api_organization_payouts_get =
     (handler GET ''payouts/:payoutId'' 200 [''payouts.getOwned''])\<lparr>hm_allow_api_key := True, hm_org := [Read_Transactions]\<rparr>"


text \<open>\<open>AdminPayoutsController\<close>.\<close>

definition api_admin_payouts :: controller_meta where
  "api_admin_payouts = (controller ''admin/payouts'')\<lparr>cm_platform := Some Read_Payouts\<rparr>"

definition api_admin_payouts_list :: handler_meta where
  "api_admin_payouts_list =
     handler GET '''' 200 [''payouts.search'']"

definition api_admin_payouts_get :: handler_meta where
  "api_admin_payouts_get =
     handler GET '':payoutId'' 200 [''payouts.view'']"

definition api_admin_payouts_sync :: handler_meta where
  "api_admin_payouts_sync =
     (handler POST '':payoutId/sync'' 200 [''payouts.sync''])\<lparr>hm_platform := Some Manage_Payouts\<rparr>"


text \<open>\<open>FxController\<close>.\<close>

definition api_fx :: controller_meta where
  "api_fx = controller ''fx''"

definition api_fx_list_rates :: handler_meta where
  "api_fx_list_rates =
     handler GET ''rates'' 200 [''adminRates.listCurrent'']"

definition api_fx_set_rate :: handler_meta where
  "api_fx_set_rate =
     (handler POST ''rates'' 201 [''adminRates.setRate''])\<lparr>hm_platform := Some Manage_Fx_Rates\<rparr>"

definition api_fx_create_quote :: handler_meta where
  "api_fx_create_quote =
     handler POST ''quotes'' 201 [''fx.createQuote'']"

definition api_fx_get_quote :: handler_meta where
  "api_fx_get_quote =
     handler GET ''quotes/:quoteId'' 200 [''fx.getQuote'']"


text \<open>\<open>FeeQuotesController\<close>.\<close>

definition api_fee_quotes :: controller_meta where
  "api_fee_quotes = controller ''fees''"

definition api_fee_quotes_quote :: handler_meta where
  "api_fee_quotes_quote =
     handler GET ''quote'' 200 [''fees.quote'']"


text \<open>\<open>OrganizationFeeQuotesController\<close>.\<close>

definition api_organization_fee_quotes :: controller_meta where
  "api_organization_fee_quotes = (controller ''organizations/:organizationId/fees'')\<lparr>cm_allow_api_key := True, cm_org_guard := True\<rparr>"

definition api_organization_fee_quotes_quote :: handler_meta where
  "api_organization_fee_quotes_quote =
     (handler GET ''quote'' 200 [''fees.quote''])\<lparr>hm_org := [Read_Organization]\<rparr>"


text \<open>\<open>AdminFeesController\<close>.\<close>

definition api_admin_fees :: controller_meta where
  "api_admin_fees = (controller ''admin/fee-rules'')\<lparr>cm_platform := Some Manage_Fees\<rparr>"

definition api_admin_fees_list :: handler_meta where
  "api_admin_fees_list =
     handler GET '''' 200 [''fees.list'']"

definition api_admin_fees_set :: handler_meta where
  "api_admin_fees_set =
     handler POST '''' 201 [''organizations.get'', ''fees.setRule'']"

definition api_admin_fees_retire :: handler_meta where
  "api_admin_fees_retire =
     handler POST '':ruleId/retire'' 200 [''fees.retire'']"


text \<open>\<open>LimitsController\<close>.\<close>

definition api_limits :: controller_meta where
  "api_limits = controller ''limits''"

definition api_limits_mine :: handler_meta where
  "api_limits_mine =
     handler GET '''' 200 [''limits.usageFor'']"


text \<open>\<open>OrganizationLimitsController\<close>.\<close>

definition api_organization_limits :: controller_meta where
  "api_organization_limits = (controller ''organizations/:organizationId/limits'')\<lparr>cm_allow_api_key := True, cm_org_guard := True\<rparr>"

definition api_organization_limits_list :: handler_meta where
  "api_organization_limits_list =
     (handler GET '''' 200 [''limits.usageFor''])\<lparr>hm_org := [Read_Organization]\<rparr>"


text \<open>\<open>AdminLimitsController\<close>.\<close>

definition api_admin_limits :: controller_meta where
  "api_admin_limits = (controller ''admin/limit-rules'')\<lparr>cm_platform := Some Manage_Limits\<rparr>"

definition api_admin_limits_list :: handler_meta where
  "api_admin_limits_list =
     handler GET '''' 200 [''limits.list'']"

definition api_admin_limits_set :: handler_meta where
  "api_admin_limits_set =
     handler POST '''' 201 [''organizations.get'', ''limits.setRule'']"

definition api_admin_limits_retire :: handler_meta where
  "api_admin_limits_retire =
     handler POST '':ruleId/retire'' 200 [''limits.retire'']"


text \<open>\<open>OrganizationsController\<close>.\<close>

definition api_organizations :: controller_meta where
  "api_organizations = (controller ''organizations'')\<lparr>cm_org_guard := True\<rparr>"

definition api_organizations_create :: handler_meta where
  "api_organizations_create =
     handler POST '''' 201 [''organizations.create'']"

definition api_organizations_list :: handler_meta where
  "api_organizations_list =
     handler GET '''' 200 [''organizations.listForUser'']"

definition api_organizations_get :: handler_meta where
  "api_organizations_get =
     (handler GET '':organizationId'' 200 [''organizations.get''])\<lparr>hm_allow_api_key := True, hm_org := [Read_Organization]\<rparr>"

definition api_organizations_update :: handler_meta where
  "api_organizations_update =
     (handler PATCH '':organizationId'' 200 [''organizations.rename''])\<lparr>hm_org := [Manage_Organization]\<rparr>"

definition api_organizations_members :: handler_meta where
  "api_organizations_members =
     (handler GET '':organizationId/members'' 200 [''organizations.listMembers''])\<lparr>hm_org := [Read_Organization]\<rparr>"

definition api_organizations_add_member :: handler_meta where
  "api_organizations_add_member =
     (handler POST '':organizationId/members'' 201 [''organizations.addMember''])\<lparr>hm_org := [Manage_Members]\<rparr>"

definition api_organizations_change_role :: handler_meta where
  "api_organizations_change_role =
     (handler PATCH '':organizationId/members/:userId'' 200 [''organizations.changeRole''])\<lparr>hm_org := [Manage_Members]\<rparr>"

definition api_organizations_remove_member :: handler_meta where
  "api_organizations_remove_member =
     (handler DELETE '':organizationId/members/:userId'' 204 [''organizations.removeMember''])\<lparr>hm_org := [Manage_Members]\<rparr>"

definition api_organizations_transfer_ownership :: handler_meta where
  "api_organizations_transfer_ownership =
     (handler POST '':organizationId/transfer-ownership'' 204 [''organizations.transferOwnership''])\<lparr>hm_org := [Manage_Organization]\<rparr>"


text \<open>\<open>ApiKeysController\<close>.\<close>

definition api_api_keys :: controller_meta where
  "api_api_keys = (controller ''organizations/:organizationId/api-keys'')\<lparr>cm_org_guard := True\<rparr>"

definition api_api_keys_create :: handler_meta where
  "api_api_keys_create =
     (handler POST '''' 201 [''apiKeys.create''])\<lparr>hm_org := [Manage_Api_Keys]\<rparr>"

definition api_api_keys_list :: handler_meta where
  "api_api_keys_list =
     (handler GET '''' 200 [''apiKeys.list''])\<lparr>hm_org := [Manage_Api_Keys]\<rparr>"

definition api_api_keys_revoke :: handler_meta where
  "api_api_keys_revoke =
     (handler DELETE '':apiKeyId'' 204 [''apiKeys.revoke''])\<lparr>hm_org := [Manage_Api_Keys]\<rparr>"


text \<open>\<open>ProposalsController\<close>.\<close>

definition api_proposals :: controller_meta where
  "api_proposals = (controller ''organizations/:organizationId/proposals'')\<lparr>cm_org_guard := True\<rparr>"

definition api_proposals_create :: handler_meta where
  "api_proposals_create =
     (handler POST '''' 201 [''proposals.propose''])\<lparr>hm_allow_api_key := True, hm_org := [Propose_Actions]\<rparr>"

definition api_proposals_list :: handler_meta where
  "api_proposals_list =
     (handler GET '''' 200 [''proposals.list''])\<lparr>hm_allow_api_key := True, hm_org := [Propose_Actions]\<rparr>"

definition api_proposals_get :: handler_meta where
  "api_proposals_get =
     (handler GET '':proposalId'' 200 [''proposals.get''])\<lparr>hm_allow_api_key := True, hm_org := [Propose_Actions]\<rparr>"

definition api_proposals_approve :: handler_meta where
  "api_proposals_approve =
     (handler POST '':proposalId/approve'' 200 [''proposals.approve''])\<lparr>hm_org := [Decide_Proposals]\<rparr>"

definition api_proposals_reject :: handler_meta where
  "api_proposals_reject =
     (handler POST '':proposalId/reject'' 200 [''proposals.reject''])\<lparr>hm_org := [Decide_Proposals]\<rparr>"


text \<open>\<open>WebhookEndpointsController\<close>.\<close>

definition api_webhook_endpoints :: controller_meta where
  "api_webhook_endpoints = (controller ''organizations/:organizationId/webhook-endpoints'')\<lparr>cm_org_guard := True\<rparr>"

definition api_webhook_endpoints_create :: handler_meta where
  "api_webhook_endpoints_create =
     (handler POST '''' 201 [''webhooks.create''])\<lparr>hm_org := [Manage_Webhooks]\<rparr>"

definition api_webhook_endpoints_list :: handler_meta where
  "api_webhook_endpoints_list =
     (handler GET '''' 200 [''webhooks.list''])\<lparr>hm_org := [Manage_Webhooks]\<rparr>"

definition api_webhook_endpoints_get :: handler_meta where
  "api_webhook_endpoints_get =
     (handler GET '':endpointId'' 200 [''webhooks.get''])\<lparr>hm_org := [Manage_Webhooks]\<rparr>"

definition api_webhook_endpoints_update :: handler_meta where
  "api_webhook_endpoints_update =
     (handler PATCH '':endpointId'' 200 [''webhooks.update''])\<lparr>hm_org := [Manage_Webhooks]\<rparr>"

definition api_webhook_endpoints_remove :: handler_meta where
  "api_webhook_endpoints_remove =
     (handler DELETE '':endpointId'' 204 [''webhooks.remove''])\<lparr>hm_org := [Manage_Webhooks]\<rparr>"

definition api_webhook_endpoints_rotate :: handler_meta where
  "api_webhook_endpoints_rotate =
     (handler POST '':endpointId/rotate-secret'' 200 [''webhooks.rotateSecret''])\<lparr>hm_org := [Manage_Webhooks]\<rparr>"

definition api_webhook_endpoints_test :: handler_meta where
  "api_webhook_endpoints_test =
     (handler POST '':endpointId/test'' 202 [''webhooks.sendTest''])\<lparr>hm_org := [Manage_Webhooks]\<rparr>"

definition api_webhook_endpoints_deliveries :: handler_meta where
  "api_webhook_endpoints_deliveries =
     (handler GET '':endpointId/deliveries'' 200 [''webhooks.listDeliveries''])\<lparr>hm_org := [Manage_Webhooks]\<rparr>"

definition api_webhook_endpoints_redeliver :: handler_meta where
  "api_webhook_endpoints_redeliver =
     (handler POST '':endpointId/deliveries/:deliveryId/redeliver'' 202 [''webhooks.redeliver''])\<lparr>hm_org := [Manage_Webhooks]\<rparr>"


text \<open>\<open>WebhooksController\<close>.\<close>

definition api_webhooks :: controller_meta where
  "api_webhooks = controller ''webhooks''"

definition api_webhooks_receive :: handler_meta where
  "api_webhooks_receive =
     (handler POST '':provider'' 200 [''webhooks.receive''])\<lparr>hm_public := True\<rparr>"


text \<open>\<open>AdminWebhooksController\<close>.\<close>

definition api_admin_webhooks :: controller_meta where
  "api_admin_webhooks = (controller ''admin'')\<lparr>cm_platform := Some Manage_Provider_Webhooks\<rparr>"

definition api_admin_webhooks_list :: handler_meta where
  "api_admin_webhooks_list =
     handler GET ''webhook-events'' 200 [''webhooks.list'']"

definition api_admin_webhooks_replay :: handler_meta where
  "api_admin_webhooks_replay =
     handler POST ''webhook-events/:id/replay'' 201 [''webhooks.replay'']"

definition api_admin_webhooks_queues :: handler_meta where
  "api_admin_webhooks_queues =
     handler GET ''queues'' 200 []"


text \<open>\<open>AdminReconciliationController\<close>.\<close>

definition api_admin_reconciliation :: controller_meta where
  "api_admin_reconciliation = (controller ''admin/reconciliation'')\<lparr>cm_platform := Some Manage_Reconciliation\<rparr>"

definition api_admin_reconciliation_start :: handler_meta where
  "api_admin_reconciliation_start =
     handler POST ''runs'' 202 [''reconciliation.createRun'']"

definition api_admin_reconciliation_list_runs :: handler_meta where
  "api_admin_reconciliation_list_runs =
     handler GET ''runs'' 200 [''reconciliation.listRuns'']"

definition api_admin_reconciliation_get_run :: handler_meta where
  "api_admin_reconciliation_get_run =
     handler GET ''runs/:runId'' 200 [''reconciliation.getRun'']"

definition api_admin_reconciliation_list_items :: handler_meta where
  "api_admin_reconciliation_list_items =
     handler GET ''items'' 200 [''reconciliation.listItems'']"

definition api_admin_reconciliation_resolve :: handler_meta where
  "api_admin_reconciliation_resolve =
     handler POST ''items/:itemId/resolve'' 200 [''reconciliation.resolve'']"


text \<open>\<open>OrganizationAuditLogsController\<close>.\<close>

definition api_organization_audit_logs :: controller_meta where
  "api_organization_audit_logs = (controller ''organizations/:organizationId/audit-logs'')\<lparr>cm_org_guard := True\<rparr>"

definition api_organization_audit_logs_list :: handler_meta where
  "api_organization_audit_logs_list =
     (handler GET '''' 200 [''audit.list''])\<lparr>hm_org := [Read_Audit_Logs]\<rparr>"


text \<open>\<open>AdminAuditLogsController\<close>.\<close>

definition api_admin_audit_logs :: controller_meta where
  "api_admin_audit_logs = (controller ''admin/audit-logs'')\<lparr>cm_platform := Some Platform_Read_Audit_Logs\<rparr>"

definition api_admin_audit_logs_list :: handler_meta where
  "api_admin_audit_logs_list =
     handler GET '''' 200 [''audit.list'']"


text \<open>\<open>AdminMeController\<close>.\<close>

definition api_admin_me :: controller_meta where
  "api_admin_me = (controller ''admin/me'')\<lparr>cm_platform := Some Read_Overview\<rparr>"

definition api_admin_me_me :: handler_meta where
  "api_admin_me_me =
     handler GET '''' 200 []"


text \<open>\<open>AdminRolesController\<close>.\<close>

definition api_admin_roles :: controller_meta where
  "api_admin_roles = (controller ''admin/roles'')\<lparr>cm_platform := Some Manage_Roles\<rparr>"

definition api_admin_roles_list :: handler_meta where
  "api_admin_roles_list =
     handler GET '''' 200 []"


text \<open>\<open>AdminOverviewController\<close>.\<close>

definition api_admin_overview :: controller_meta where
  "api_admin_overview = (controller ''admin/overview'')\<lparr>cm_platform := Some Read_Overview\<rparr>"

definition api_admin_overview_overview :: handler_meta where
  "api_admin_overview_overview =
     handler GET '''' 200 [''admin.overview'']"


text \<open>\<open>AdminUsersController\<close>.\<close>

definition api_admin_users :: controller_meta where
  "api_admin_users = (controller ''admin/users'')\<lparr>cm_platform := Some Read_Users\<rparr>"

definition api_admin_users_search :: handler_meta where
  "api_admin_users_search =
     handler GET '''' 200 [''users.search'']"

definition api_admin_users_get :: handler_meta where
  "api_admin_users_get =
     handler GET '':userId'' 200 [''admin.getUser'', ''wallets.listFor'', ''organizations.listForUser'']"

definition api_admin_users_suspend :: handler_meta where
  "api_admin_users_suspend =
     (handler POST '':userId/suspend'' 200 [''admin.setUserStatus''])\<lparr>hm_platform := Some Manage_Users\<rparr>"

definition api_admin_users_set_role :: handler_meta where
  "api_admin_users_set_role =
     (handler POST '':userId/role'' 200 [''admin.setUserRole''])\<lparr>hm_platform := Some Manage_Roles\<rparr>"

definition api_admin_users_reactivate :: handler_meta where
  "api_admin_users_reactivate =
     (handler POST '':userId/reactivate'' 200 [''admin.setUserStatus''])\<lparr>hm_platform := Some Manage_Users\<rparr>"


text \<open>\<open>AdminOrganizationsController\<close>.\<close>

definition api_admin_organizations :: controller_meta where
  "api_admin_organizations = (controller ''admin/organizations'')\<lparr>cm_platform := Some Read_Organizations\<rparr>"

definition api_admin_organizations_search :: handler_meta where
  "api_admin_organizations_search =
     handler GET '''' 200 [''organizations.search'']"

definition api_admin_organizations_get :: handler_meta where
  "api_admin_organizations_get =
     handler GET '':organizationId'' 200 [''organizations.get'', ''organizations.listMembers'', ''wallets.listFor'']"

definition api_admin_organizations_suspend :: handler_meta where
  "api_admin_organizations_suspend =
     (handler POST '':organizationId/suspend'' 200 [''admin.setOrganizationStatus''])\<lparr>hm_platform := Some Manage_Organizations\<rparr>"

definition api_admin_organizations_reactivate :: handler_meta where
  "api_admin_organizations_reactivate =
     (handler POST '':organizationId/reactivate'' 200 [''admin.setOrganizationStatus''])\<lparr>hm_platform := Some Manage_Organizations\<rparr>"


text \<open>\<open>AdminWalletsController\<close>.\<close>

definition api_admin_wallets :: controller_meta where
  "api_admin_wallets = (controller ''admin/wallets'')\<lparr>cm_platform := Some Platform_Read_Wallets\<rparr>"

definition api_admin_wallets_get :: handler_meta where
  "api_admin_wallets_get =
     handler GET '':walletId'' 200 [''wallets.getWithBalances'']"

definition api_admin_wallets_freeze :: handler_meta where
  "api_admin_wallets_freeze =
     (handler POST '':walletId/freeze'' 200 [''admin.setWalletStatus''])\<lparr>hm_platform := Some Platform_Manage_Wallets\<rparr>"

definition api_admin_wallets_unfreeze :: handler_meta where
  "api_admin_wallets_unfreeze =
     (handler POST '':walletId/unfreeze'' 200 [''admin.setWalletStatus''])\<lparr>hm_platform := Some Platform_Manage_Wallets\<rparr>"


text \<open>\<open>SandboxController\<close>.\<close>

definition api_sandbox :: controller_meta where
  "api_sandbox = controller ''sandbox''"

definition api_sandbox_fund_wallet :: handler_meta where
  "api_sandbox_fund_wallet =
     handler POST ''wallets/fund'' 201 [''sandbox.fund'']"

definition api_sandbox_complete_payment :: handler_meta where
  "api_sandbox_complete_payment =
     handler POST ''payments/:paymentId/complete'' 200 [''sandbox.completePayment'']"

definition api_sandbox_complete_payout :: handler_meta where
  "api_sandbox_complete_payout =
     handler POST ''payouts/:payoutId/complete'' 200 [''sandbox.completePayout'']"


text \<open>\<open>OrganizationSandboxController\<close>.\<close>

definition api_organization_sandbox :: controller_meta where
  "api_organization_sandbox = (controller ''organizations/:organizationId/sandbox'')\<lparr>cm_allow_api_key := True, cm_org_guard := True\<rparr>"

definition api_organization_sandbox_fund_wallet :: handler_meta where
  "api_organization_sandbox_fund_wallet =
     (handler POST ''wallets/fund'' 201 [''sandbox.fund''])\<lparr>hm_org := [Create_Payments]\<rparr>"

definition api_organization_sandbox_complete_payment :: handler_meta where
  "api_organization_sandbox_complete_payment =
     (handler POST ''payments/:paymentId/complete'' 200 [''sandbox.completePayment''])\<lparr>hm_org := [Create_Payments]\<rparr>"

definition api_organization_sandbox_complete_payout :: handler_meta where
  "api_organization_sandbox_complete_payout =
     (handler POST ''payouts/:payoutId/complete'' 200 [''sandbox.completePayout''])\<lparr>hm_org := [Create_Payouts]\<rparr>"


text \<open>\<open>HealthController\<close>.\<close>

definition api_health :: controller_meta where
  "api_health = (controller ''health'')\<lparr>cm_public := True\<rparr>"

definition api_health_live :: handler_meta where
  "api_health_live =
     handler GET ''live'' 200 [''health.check'']"

definition api_health_ready :: handler_meta where
  "api_health_ready =
     handler GET ''ready'' 200 [''health.check'', ''database.pingCheck'', ''redis.pingCheck'']"


text \<open>\<open>MetricsController\<close>.\<close>

definition api_metrics :: controller_meta where
  "api_metrics = (controller ''metrics'')\<lparr>cm_public := True\<rparr>"

definition api_metrics_scrape :: handler_meta where
  "api_metrics_scrape =
     handler GET '''' 200 [''metrics.render'']"


section \<open>The whole API\<close>

definition API :: "(controller_meta \<times> handler_meta list) list" where
  "API =
     [(api_auth, [api_auth_register, api_auth_login, api_auth_refresh, api_auth_logout, api_auth_logout_all]),
      (api_users, [api_users_me]),
      (api_wallets, [api_wallets_create, api_wallets_list, api_wallets_primary, api_wallets_get, api_wallets_make_primary, api_wallets_entries]),
      (api_organization_wallets, [api_organization_wallets_create, api_organization_wallets_list, api_organization_wallets_get, api_organization_wallets_make_primary, api_organization_wallets_entries]),
      (api_transactions, [api_transactions_transfer, api_transactions_list, api_transactions_get]),
      (api_organization_transactions, [api_organization_transactions_list, api_organization_transactions_get]),
      (api_payments, [api_payments_initialize, api_payments_get, api_payments_verify]),
      (api_organization_payments, [api_organization_payments_initialize, api_organization_payments_get, api_organization_payments_verify]),
      (api_admin_payments, [api_admin_payments_list, api_admin_payments_get, api_admin_payments_release_now]),
      (api_admin_refunds, [api_admin_refunds_create, api_admin_refunds_list, api_admin_refunds_get, api_admin_refunds_retry]),
      (api_payouts, [api_payouts_add_destination, api_payouts_list_destinations, api_payouts_remove_destination, api_payouts_create, api_payouts_get]),
      (api_organization_payouts, [api_organization_payouts_add_destination, api_organization_payouts_list_destinations, api_organization_payouts_remove_destination, api_organization_payouts_create, api_organization_payouts_get]),
      (api_admin_payouts, [api_admin_payouts_list, api_admin_payouts_get, api_admin_payouts_sync]),
      (api_fx, [api_fx_list_rates, api_fx_set_rate, api_fx_create_quote, api_fx_get_quote]),
      (api_fee_quotes, [api_fee_quotes_quote]),
      (api_organization_fee_quotes, [api_organization_fee_quotes_quote]),
      (api_admin_fees, [api_admin_fees_list, api_admin_fees_set, api_admin_fees_retire]),
      (api_limits, [api_limits_mine]),
      (api_organization_limits, [api_organization_limits_list]),
      (api_admin_limits, [api_admin_limits_list, api_admin_limits_set, api_admin_limits_retire]),
      (api_organizations, [api_organizations_create, api_organizations_list, api_organizations_get, api_organizations_update, api_organizations_members, api_organizations_add_member, api_organizations_change_role, api_organizations_remove_member, api_organizations_transfer_ownership]),
      (api_api_keys, [api_api_keys_create, api_api_keys_list, api_api_keys_revoke]),
      (api_proposals, [api_proposals_create, api_proposals_list, api_proposals_get, api_proposals_approve, api_proposals_reject]),
      (api_webhook_endpoints, [api_webhook_endpoints_create, api_webhook_endpoints_list, api_webhook_endpoints_get, api_webhook_endpoints_update, api_webhook_endpoints_remove, api_webhook_endpoints_rotate, api_webhook_endpoints_test, api_webhook_endpoints_deliveries, api_webhook_endpoints_redeliver]),
      (api_webhooks, [api_webhooks_receive]),
      (api_admin_webhooks, [api_admin_webhooks_list, api_admin_webhooks_replay, api_admin_webhooks_queues]),
      (api_admin_reconciliation, [api_admin_reconciliation_start, api_admin_reconciliation_list_runs, api_admin_reconciliation_get_run, api_admin_reconciliation_list_items, api_admin_reconciliation_resolve]),
      (api_organization_audit_logs, [api_organization_audit_logs_list]),
      (api_admin_audit_logs, [api_admin_audit_logs_list]),
      (api_admin_me, [api_admin_me_me]),
      (api_admin_roles, [api_admin_roles_list]),
      (api_admin_overview, [api_admin_overview_overview]),
      (api_admin_users, [api_admin_users_search, api_admin_users_get, api_admin_users_suspend, api_admin_users_set_role, api_admin_users_reactivate]),
      (api_admin_organizations, [api_admin_organizations_search, api_admin_organizations_get, api_admin_organizations_suspend, api_admin_organizations_reactivate]),
      (api_admin_wallets, [api_admin_wallets_get, api_admin_wallets_freeze, api_admin_wallets_unfreeze]),
      (api_sandbox, [api_sandbox_fund_wallet, api_sandbox_complete_payment, api_sandbox_complete_payout]),
      (api_organization_sandbox, [api_organization_sandbox_fund_wallet, api_organization_sandbox_complete_payment, api_organization_sandbox_complete_payout]),
      (api_health, [api_health_live, api_health_ready]),
      (api_metrics, [api_metrics_scrape])]"

definition API_ROUTES :: "(controller_meta \<times> handler_meta) list" where
  "API_ROUTES = concat (map (\<lambda>(c, hs). map (Pair c) hs) API)"

section \<open>Who can call what\<close>

text \<open>The routes below an organization, and those of the operators.\<close>

definition of_organization :: "controller_meta \<Rightarrow> handler_meta \<Rightarrow> bool" where
  "of_organization c h \<longleftrightarrow> starts_with ''organizations/:organizationId'' (cm_path c) \<or>
     cm_path c = ''organizations'' \<and> starts_with '':organizationId'' (hm_path h)"

definition of_operators :: "controller_meta \<Rightarrow> bool" where
  "of_operators c \<longleftrightarrow> starts_with ''admin'' (cm_path c)"

text \<open>What anyone may call, and what lets the money of an organization out.\<close>

definition OPEN_CALLS :: "string list" where
  "OPEN_CALLS = [''auth.register'', ''auth.login'', ''auth.refresh'', ''auth.logout'', ''webhooks.receive'', ''health.check'',
     ''database.pingCheck'', ''redis.pingCheck'', ''metrics.render'']"

definition SPENDING_CALLS :: "string list" where
  "SPENDING_CALLS = [''payouts.request'', ''proposals.approve'', ''destinations.add'', ''sandbox.completePayout'']"

definition spends :: "handler_meta \<Rightarrow> bool" where
  "spends h \<longleftrightarrow> list_ex (\<lambda>x. x \<in> set SPENDING_CALLS) (hm_calls h)"

definition guarded :: "controller_meta \<times> handler_meta \<Rightarrow> bool" where
  "guarded ch =
     (let c = fst ch; h = snd ch; r = declared_route c h in
      (ro_public r \<longrightarrow> list_all (\<lambda>x. x \<in> set OPEN_CALLS) (hm_calls h)) \<and>
      (of_organization c h \<longrightarrow> ro_org r \<noteq> [] \<and> \<not> ro_public r) \<and>
      (of_operators c \<longrightarrow> ro_platform r \<noteq> None \<and> \<not> ro_public r) \<and>
      (ro_allow_api_key r \<longrightarrow> of_organization c h \<and> list_all (\<lambda>x. x \<in> set API_KEY_SCOPES) (ro_org r)) \<and>
      (of_organization c h \<and> spends h \<longrightarrow>
         list_all (\<lambda>x. x \<in> set [Create_Payouts, Decide_Proposals, Manage_Payout_Destinations]) (ro_org r)))"

lemma api_guarded: "list_all guarded API_ROUTES"
  by code_simp

lemma api_route_guarded: "(c, h) \<in> set API_ROUTES \<Longrightarrow> guarded (c, h)"
  using api_guarded by (simp add: list_all_iff)



text \<open>The organization of \<open>demo_joined\<close> with a key that may pay out.\<close>

definition demo_spender :: platform where
  "demo_spender = (case create_api_key (\<lambda>s. s) True system_context 5 ''0123abcd'' (drop 18 demo_key_text)
       \<lparr>ki_org = 0, ki_creator = 901, ki_creator_role = Org_Owner, ki_name = ''k'', ki_scopes = [Create_Payouts], ki_expires_at = None\<rparr>
       demo_joined of Inl e \<Rightarrow> demo_joined | Inr (k, p) \<Rightarrow> p)"

text \<open>
  C32. Money of an organization leaves it only by those who may decide that: whoever gets through
  to a route under an organization that pays out, approves a proposal, adds an account to pay to or
  completes a sandbox payout is an owner or admin of that very organization, which is active, or one of its API
  keys with the scope to create payouts, and a key does nothing of this but pay out to the accounts
  that are already there.
\<close>

theorem spending_needs_authority:
  assumes "(c, h) \<in> set API_ROUTES" and "authorize sha jwt now (declared_route c h) rq p = (Inr d, p1)"
    and "of_organization c h" and "spends h"
  shows "\<exists>g. organization_of_path (rw_organization rq) p = Some g \<and>
    (case cl_key d of
       Some k \<Rightarrow> pp_org k = og_id g \<and> Create_Payouts \<in> set (pp_scopes k) \<and> good_key sha now (the (rw_api_key rq)) p k
     | None \<Rightarrow> \<exists>u r m. cl_user d = Some (u, r) \<and> m \<in> set (pf_members p) \<and> mb_org m = og_id g \<and> mb_user m = u \<and>
         mb_role m \<in> {Org_Owner, Org_Admin} \<and> og_status g = Org_Active)"
proof -
  have g: "\<not> ro_public (declared_route c h)" "ro_org (declared_route c h) \<noteq> []"
      "set (ro_org (declared_route c h)) \<subseteq> {Create_Payouts, Decide_Proposals, Manage_Payout_Destinations}"
    using api_route_guarded [OF assms(1)] assms(3,4) by (auto simp: guarded_def Let_def list_all_iff)
  obtain b where b: "jwt_guard sha jwt now (declared_route c h) rq p = (Inr b, p1)" "cl_user d = cl_user b" "cl_key d = cl_key b"
    and org: "ro_org (declared_route c h) \<noteq> [] \<longrightarrow> (\<exists>g. organization_of_path (rw_organization rq) p = Some g \<and> org_granted (declared_route c h) d p g)"
    using authorize_Inr [OF assms(2) g(1)] by blast
  obtain org_row where o: "organization_of_path (rw_organization rq) p = Some org_row" "org_granted (declared_route c h) d p org_row"
    using org g(2) by blast
  show ?thesis
  proof (cases "rw_api_key rq")
    case (Some presented)
    from jwt_guard_key [OF b(1) g(1) Some] obtain k where k: "ro_allow_api_key (declared_route c h)" "cl_key d = Some k" "good_key sha now presented p k"
      using b(3) by auto
    have "set (ro_org (declared_route c h)) \<subseteq> set API_KEY_SCOPES"
      using api_route_guarded [OF assms(1)] k(1) by (auto simp: guarded_def Let_def list_all_iff)
    then have "set (ro_org (declared_route c h)) \<subseteq> {Create_Payouts}" using g(3) by (auto simp: API_KEY_SCOPES_def)
    then show ?thesis using o k Some by (auto simp: org_granted_def)
  next
    case None
    from jwt_guard_user [OF b(1) g(1) None] have "cl_key d = None" using b(3) by simp
    moreover have "role_has_permission role x \<Longrightarrow> x \<in> {Create_Payouts, Decide_Proposals, Manage_Payout_Destinations} \<Longrightarrow> role \<in> {Org_Owner, Org_Admin}"
      for role x by (cases role) (auto simp: role_has_permission_def READ_def)
    moreover have "\<not> set (ro_org (declared_route c h)) \<subseteq> {Read_Organization}" using g(2,3) by (cases "ro_org (declared_route c h)") auto
    then obtain u r m y where m: "cl_user d = Some (u, r)" "m \<in> set (pf_members p)" "mb_org m = og_id org_row" "mb_user m = u"
      "y \<in> set (ro_org (declared_route c h))" "role_has_permission (mb_role m) y" "og_status org_row = Org_Active"
      using o(2) \<open>cl_key d = None\<close> g(3) unfolding org_granted_def by (auto 4 4)
    ultimately have "mb_role m \<in> {Org_Owner, Org_Admin}" using g(3) by blast
    then show ?thesis using m o(1) \<open>cl_key d = None\<close> by auto
  qed
qed

theorem spending_needs_authority_witness:
  "\<exists>d p1 k. authorize (\<lambda>s. s) (\<lambda>t. None) 6 (declared_route api_organization_payouts api_organization_payouts_create) demo_key_request demo_spender =
     (Inr d, p1) \<and> cl_key d = Some k \<and> Create_Payouts \<in> set (pp_scopes k)"
proof -
  have "case authorize (\<lambda>s. s) (\<lambda>t. None) 6 (declared_route api_organization_payouts api_organization_payouts_create) demo_key_request demo_spender of
      (Inr d, p1) \<Rightarrow> cl_key d \<noteq> None | _ \<Rightarrow> False" by code_simp
  then obtain d p1 k where d: "authorize (\<lambda>s. s) (\<lambda>t. None) 6 (declared_route api_organization_payouts api_organization_payouts_create)
      demo_key_request demo_spender = (Inr d, p1)" "cl_key d = Some k" by (auto split: prod.splits sum.splits)
  have "list_ex (\<lambda>(c, h). c = api_organization_payouts \<and> h = api_organization_payouts_create) API_ROUTES" by code_simp
  then have "(api_organization_payouts, api_organization_payouts_create) \<in> set API_ROUTES" by (auto simp: list_ex_iff)
  moreover have "of_organization api_organization_payouts api_organization_payouts_create" "spends api_organization_payouts_create" by code_simp+
  ultimately show ?thesis using spending_needs_authority [OF _ d(1)] d by fastforce
qed

end
