(* ===== verification/Deployment.thy ===== *)
theory Deployment
  imports Paystack Stripe Flutterwave Paypal
begin

text \<open>
  \<open>src/config/payments.config.ts\<close>: how a deployment reads its payment providers from the environment,
  and refuses to start when test and live would mix, a secret is missing or a route leads nowhere
  (\<open>isSandboxMode\<close> is in \<open>app.config.ts\<close>, the check of the routes against the adapters in theory
  \<open>Providers\<close>). The library's \<open>@IsUrl\<close> and the parser that yields the host of a URL are parameters; the
  texts of the schema's complaints are left out.
\<close>

section \<open>The environment\<close>

definition KNOWN_PAYMENT_PROVIDERS :: "string list" where
  "KNOWN_PAYMENT_PROVIDERS = [''mock'', ''paystack'', ''stripe'', ''flutterwave'', ''paypal'']"

text \<open>The variables as texts, absent ones as \<open>None\<close>.\<close>

record payments_env =
  pe_providers :: "string option"
  pe_default :: "string option"
  pe_mock_secret :: "string option"
  pe_paystack_key :: "string option"
  pe_paystack_url :: "string option"
  pe_paystack_timeout :: "string option"
  pe_stripe_key :: "string option"
  pe_stripe_webhook_secret :: "string option"
  pe_stripe_url :: "string option"
  pe_stripe_timeout :: "string option"
  pe_stripe_tolerance :: "string option"
  pe_stripe_success_url :: "string option"
  pe_stripe_cancel_url :: "string option"
  pe_flutterwave_key :: "string option"
  pe_flutterwave_hash :: "string option"
  pe_flutterwave_url :: "string option"
  pe_flutterwave_timeout :: "string option"
  pe_flutterwave_redirect_url :: "string option"
  pe_paypal_client_id :: "string option"
  pe_paypal_client_secret :: "string option"
  pe_paypal_webhook_id :: "string option"
  pe_paypal_url :: "string option"
  pe_paypal_timeout :: "string option"
  pe_paypal_tolerance :: "string option"
  pe_paypal_return_url :: "string option"
  pe_paypal_cancel_url :: "string option"
  pe_routes :: "string option"
  pe_settlement_delay :: "string option"

text \<open>\<open>toList\<close>.\<close>

definition to_list :: "string \<Rightarrow> string list" where
  "to_list value = filter (\<lambda>item. item \<noteq> []) (map trim (split_on (CHR '','') value))"

definition provider_list :: "payments_env \<Rightarrow> string list" where
  "provider_list env = (case pe_providers env of None \<Rightarrow> [''mock''] | Some t \<Rightarrow> to_list t)"

text \<open>
  \<open>@Type(() => Number)\<close> and \<open>@IsInt()\<close>: a whole number, or no number that is accepted. Of what
  \<open>Number\<close> reads, only blanks and decimal digits with a sign are modelled (not \<open>1e4\<close>, \<open>0x10\<close> or \<open>5.0\<close>).
\<close>

definition env_int :: "int \<Rightarrow> string option \<Rightarrow> int option" where
  "env_int preset x = (case x of None \<Rightarrow> Some preset | Some t \<Rightarrow> if trim t = [] then Some 0 else whole_text (trim t))"

definition within :: "int \<Rightarrow> int \<Rightarrow> int option \<Rightarrow> bool" where
  "within lo hi x = (case x of None \<Rightarrow> False | Some i \<Rightarrow> lo \<le> i \<and> i \<le> hi)"

definition or_preset :: "string \<Rightarrow> string option \<Rightarrow> string" where
  "or_preset preset x = (case x of None \<Rightarrow> preset | Some t \<Rightarrow> t)"

definition paystack_url :: "payments_env \<Rightarrow> string" where
  "paystack_url env = or_preset ''https://api.paystack.co'' (pe_paystack_url env)"

definition stripe_url :: "payments_env \<Rightarrow> string" where
  "stripe_url env = or_preset ''https://api.stripe.com'' (pe_stripe_url env)"

definition flutterwave_url :: "payments_env \<Rightarrow> string" where
  "flutterwave_url env = or_preset ''https://api.flutterwave.com/v3'' (pe_flutterwave_url env)"

definition paypal_url :: "payments_env \<Rightarrow> string" where
  "paypal_url env = or_preset ''https://api-m.sandbox.paypal.com'' (pe_paypal_url env)"

section \<open>The schema\<close>

text \<open>A value of one of the prefixes and then some characters, as in \<open>^sk_(test|live)_[A-Za-z0-9]+$\<close>.\<close>

definition prefixed :: "string list \<Rightarrow> (char \<Rightarrow> bool) \<Rightarrow> string \<Rightarrow> bool" where
  "prefixed ps ok s \<longleftrightarrow>
     list_ex (\<lambda>p. starts_with p s \<and> drop (length p) s \<noteq> [] \<and> list_all ok (drop (length p) s)) ps"

definition paystack_key :: "string \<Rightarrow> bool" where
  "paystack_key s = prefixed [''sk_test_'', ''sk_live_''] is_alnum s"

definition stripe_key :: "string \<Rightarrow> bool" where
  "stripe_key s = prefixed [''sk_test_'', ''sk_live_'', ''rk_test_'', ''rk_live_''] is_alnum s"

definition stripe_webhook_key :: "string \<Rightarrow> bool" where
  "stripe_webhook_key s = prefixed [''whsec_''] (\<lambda>c. is_alnum c \<or> c \<in> set ''+/='') s"

text \<open>\<open>^FLWSECK(_TEST)?-[A-Za-z0-9]+(-[A-Za-z0-9]+)*-X$\<close>.\<close>

definition flutterwave_key :: "string \<Rightarrow> bool" where
  "flutterwave_key s =
     (case split_on (CHR ''-'') s of
        [] \<Rightarrow> False
      | kind # parts \<Rightarrow> kind \<in> set [''FLWSECK'', ''FLWSECK_TEST''] \<and> 2 \<le> length parts \<and> last parts = ''X'' \<and>
          list_all (\<lambda>w. w \<noteq> [] \<and> list_all is_alnum w) parts)"

definition is_upper :: "char \<Rightarrow> bool" where
  "is_upper c \<longleftrightarrow> CHR ''A'' \<le> c \<and> c \<le> CHR ''Z''"

definition is_lower :: "char \<Rightarrow> bool" where
  "is_lower c \<longleftrightarrow> CHR ''a'' \<le> c \<and> c \<le> CHR ''z''"

text \<open>\<open>^([A-Z]{3}:[a-z]+)(,[A-Z]{3}:[a-z]+)*$\<close>.\<close>

definition route_text :: "string \<Rightarrow> bool" where
  "route_text s =
     (length s \<ge> 5 \<and> list_all is_upper (take 3 s) \<and> s ! 3 = CHR '':'' \<and> list_all is_lower (drop 4 s))"

definition routes_text :: "string \<Rightarrow> bool" where
  "routes_text s = list_all route_text (split_on (CHR '','') s)"

definition optionally :: "('a \<Rightarrow> bool) \<Rightarrow> 'a option \<Rightarrow> bool" where
  "optionally P x = (case x of None \<Rightarrow> True | Some v \<Rightarrow> P v)"

definition schema_checks :: "(string \<Rightarrow> bool) \<Rightarrow> payments_env \<Rightarrow> (string \<times> bool) list" where
  "schema_checks is_url env =
    [(''PAYMENT_PROVIDERS'', provider_list env \<noteq> [] \<and> list_all (\<lambda>n. n \<in> set KNOWN_PAYMENT_PROVIDERS) (provider_list env)),
     (''DEFAULT_PAYMENT_PROVIDER'', optionally (\<lambda>n. n \<in> set KNOWN_PAYMENT_PROVIDERS) (pe_default env)),
     (''MOCK_PROVIDER_WEBHOOK_SECRET'', optionally (\<lambda>t. 16 \<le> length t) (pe_mock_secret env)),
     (''PAYSTACK_SECRET_KEY'', optionally paystack_key (pe_paystack_key env)),
     (''PAYSTACK_BASE_URL'', is_url (paystack_url env)),
     (''PAYSTACK_TIMEOUT_MS'', within 1000 60000 (env_int 10000 (pe_paystack_timeout env))),
     (''STRIPE_SECRET_KEY'', optionally stripe_key (pe_stripe_key env)),
     (''STRIPE_WEBHOOK_SECRET'', optionally stripe_webhook_key (pe_stripe_webhook_secret env)),
     (''STRIPE_BASE_URL'', is_url (stripe_url env)),
     (''STRIPE_TIMEOUT_MS'', within 1000 60000 (env_int 10000 (pe_stripe_timeout env))),
     (''STRIPE_WEBHOOK_TOLERANCE_SECONDS'', within 30 3600 (env_int 300 (pe_stripe_tolerance env))),
     (''STRIPE_SUCCESS_URL'', optionally is_url (pe_stripe_success_url env)),
     (''STRIPE_CANCEL_URL'', optionally is_url (pe_stripe_cancel_url env)),
     (''FLUTTERWAVE_SECRET_KEY'', optionally flutterwave_key (pe_flutterwave_key env)),
     (''FLUTTERWAVE_WEBHOOK_SECRET_HASH'', optionally (\<lambda>t. 16 \<le> length t) (pe_flutterwave_hash env)),
     (''FLUTTERWAVE_BASE_URL'', is_url (flutterwave_url env)),
     (''FLUTTERWAVE_TIMEOUT_MS'', within 1000 60000 (env_int 10000 (pe_flutterwave_timeout env))),
     (''FLUTTERWAVE_REDIRECT_URL'', optionally is_url (pe_flutterwave_redirect_url env)),
     (''PAYPAL_BASE_URL'', is_url (paypal_url env)),
     (''PAYPAL_TIMEOUT_MS'', within 1000 60000 (env_int 10000 (pe_paypal_timeout env))),
     (''PAYPAL_WEBHOOK_TOLERANCE_SECONDS'', within 30 3600 (env_int 300 (pe_paypal_tolerance env))),
     (''PAYPAL_RETURN_URL'', optionally is_url (pe_paypal_return_url env)),
     (''PAYPAL_CANCEL_URL'', optionally is_url (pe_paypal_cancel_url env)),
     (''PAYMENT_CURRENCY_ROUTES'', optionally routes_text (pe_routes env)),
     (''PAYMENT_SETTLEMENT_DELAY_SECONDS'', within 0 (90 * 24 * 3600) (env_int 0 (pe_settlement_delay env)))]"

section \<open>The rules\<close>

definition is_sandbox_mode :: "string option \<Rightarrow> bool" where
  "is_sandbox_mode sandbox = (sandbox = Some ''true'')"

text \<open>Real money can move: production, and not a sandbox.\<close>

definition is_live :: "string option \<Rightarrow> string option \<Rightarrow> bool" where
  "is_live node_env sandbox = (node_env = Some ''production'' \<and> \<not> is_sandbox_mode sandbox)"

definition complain :: "bool \<Rightarrow> string \<Rightarrow> string list" where
  "complain wrong message = (if wrong then [message] else [])"

text \<open>An absent or empty value.\<close>

definition missing :: "string option \<Rightarrow> bool" where
  "missing x \<longleftrightarrow> truthy x = None"

text \<open>\<open>[...new Set(list)]\<close> keeps the first of equal names.\<close>

definition enabled_providers :: "payments_env \<Rightarrow> string list" where
  "enabled_providers env = rev (remdups (rev (provider_list env)))"

definition default_provider :: "payments_env \<Rightarrow> string option" where
  "default_provider env =
     (case pe_default env of Some n \<Rightarrow> Some n | None \<Rightarrow> (case enabled_providers env of [] \<Rightarrow> None | n # _ \<Rightarrow> Some n))"

definition mock_rules :: "bool \<Rightarrow> payments_env \<Rightarrow> string list" where
  "mock_rules live_money env =
     (if ''mock'' \<in> set (enabled_providers env)
      then complain live_money ''PAYMENT_PROVIDERS: the mock provider must not be enabled in production (unless SANDBOX_MODE=true)'' @
        complain (missing (pe_mock_secret env)) ''MOCK_PROVIDER_WEBHOOK_SECRET is required when the mock provider is enabled''
      else [])"

text \<open>A secret key, with what tells its kind.\<close>

definition key_rules :: "bool \<Rightarrow> string \<Rightarrow> string \<Rightarrow> (string \<Rightarrow> bool) \<Rightarrow> (string \<Rightarrow> bool) \<Rightarrow> string option \<Rightarrow> string list" where
  "key_rules live_money name provider is_test is_real key =
     (case truthy key of
        None \<Rightarrow> [name @ '' is required when '' @ provider @ '' is enabled'']
      | Some k \<Rightarrow>
          if live_money \<and> is_test k then [name @ '': a test key must not be used in production'']
          else if \<not> live_money \<and> is_real k
          then [name @ '': a live key may only be used in production, never in a sandbox'']
          else [])"

definition paystack_rules :: "bool \<Rightarrow> payments_env \<Rightarrow> string list" where
  "paystack_rules live_money env =
     (if ''paystack'' \<in> set (enabled_providers env)
      then key_rules live_money ''PAYSTACK_SECRET_KEY'' ''Paystack'' (starts_with ''sk_test_'') (starts_with ''sk_live_'') (pe_paystack_key env)
      else [])"

definition stripe_rules :: "bool \<Rightarrow> payments_env \<Rightarrow> string list" where
  "stripe_rules live_money env =
     (if ''stripe'' \<in> set (enabled_providers env)
      then key_rules live_money ''STRIPE_SECRET_KEY'' ''Stripe'' (contains_text ''_test_'') (contains_text ''_live_'') (pe_stripe_key env) @
        complain (missing (pe_stripe_webhook_secret env)) ''STRIPE_WEBHOOK_SECRET is required when Stripe is enabled'' @
        complain (missing (pe_stripe_success_url env) \<or> missing (pe_stripe_cancel_url env))
          ''STRIPE_SUCCESS_URL and STRIPE_CANCEL_URL are required when Stripe is enabled''
      else [])"

definition flutterwave_rules :: "bool \<Rightarrow> payments_env \<Rightarrow> string list" where
  "flutterwave_rules live_money env =
     (if ''flutterwave'' \<in> set (enabled_providers env)
      then key_rules live_money ''FLUTTERWAVE_SECRET_KEY'' ''Flutterwave'' (starts_with ''FLWSECK_TEST-'')
          (\<lambda>k. \<not> starts_with ''FLWSECK_TEST-'' k) (pe_flutterwave_key env) @
        complain (missing (pe_flutterwave_hash env)) ''FLUTTERWAVE_WEBHOOK_SECRET_HASH is required when Flutterwave is enabled'' @
        complain (missing (pe_flutterwave_redirect_url env)) ''FLUTTERWAVE_REDIRECT_URL is required when Flutterwave is enabled''
      else [])"

definition paypal_rules :: "(string \<Rightarrow> string) \<Rightarrow> bool \<Rightarrow> payments_env \<Rightarrow> string list" where
  "paypal_rules host live_money env =
     (if ''paypal'' \<in> set (enabled_providers env)
      then complain (missing (pe_paypal_client_id env) \<or> missing (pe_paypal_client_secret env))
          ''PAYPAL_CLIENT_ID and PAYPAL_CLIENT_SECRET are required when PayPal is enabled'' @
        complain (missing (pe_paypal_webhook_id env)) ''PAYPAL_WEBHOOK_ID is required when PayPal is enabled'' @
        complain (missing (pe_paypal_return_url env) \<or> missing (pe_paypal_cancel_url env))
          ''PAYPAL_RETURN_URL and PAYPAL_CANCEL_URL are required when PayPal is enabled'' @
        complain (live_money \<and> contains_text ''sandbox'' (host (paypal_url env)))
          ''PAYPAL_BASE_URL: the sandbox API must not be used in production'' @
        complain (\<not> live_money \<and> \<not> contains_text ''sandbox'' (host (paypal_url env)))
          ''PAYPAL_BASE_URL: the live API may only be used in production, never in a sandbox''
      else [])"

text \<open>One route after the other: the complaints, and the table so far.\<close>

fun read_routes :: "string list \<Rightarrow> (string \<times> string) list \<Rightarrow> string list \<Rightarrow> string list \<times> (string \<times> string) list" where
  "read_routes names table [] = ([], table)"
| "read_routes names table (r # rs) =
     (let (currency, provider) = (case split_on (CHR '':'') r of c # p # _ \<Rightarrow> (c, p) | [c] \<Rightarrow> (c, []) | [] \<Rightarrow> ([], []));
          (wrong, table') =
            (if currency \<notin> set SUPPORTED_CURRENCIES then ([''PAYMENT_CURRENCY_ROUTES: unsupported currency '' @ currency], table)
             else if provider \<notin> set names
             then ([''PAYMENT_CURRENCY_ROUTES: '' @ currency @ '' routes to '' @ provider @ '', which is not in PAYMENT_PROVIDERS''], table)
             else if truthy (map_of table currency) \<noteq> None
             then ([''PAYMENT_CURRENCY_ROUTES: '' @ currency @ '' is routed twice''], table)
             else ([], table @ [(currency, provider)]));
          (others, table'') = read_routes names table' rs in
      (wrong @ others, table''))"

definition route_list :: "payments_env \<Rightarrow> string list" where
  "route_list env = filter (\<lambda>r. r \<noteq> []) (split_on (CHR '','') (or_preset [] (pe_routes env)))"

definition rule_violations :: "(string \<Rightarrow> string) \<Rightarrow> bool \<Rightarrow> payments_env \<Rightarrow> string list" where
  "rule_violations host live_money env =
     complain (case truthy (default_provider env) of None \<Rightarrow> True | Some n \<Rightarrow> n \<notin> set (enabled_providers env))
       ''DEFAULT_PAYMENT_PROVIDER must be one of PAYMENT_PROVIDERS'' @
     mock_rules live_money env @ paystack_rules live_money env @
     fst (read_routes (enabled_providers env) [] (route_list env)) @
     stripe_rules live_money env @ flutterwave_rules live_money env @ paypal_rules host live_money env"

section \<open>The configuration\<close>

record deployment =
  dp_payments :: payments_config
  dp_mock_secret :: string
  dp_paystack :: paystack_config
  dp_stripe :: stripe_config
  dp_flutterwave :: flutterwave_config
  dp_paypal :: paypal_config

definition strip_slashes :: "string \<Rightarrow> string" where
  "strip_slashes u = trim_end (\<lambda>c. c = CHR ''/'') u"

definition deployment_of :: "payments_env \<Rightarrow> deployment" where
  "deployment_of env =
     \<lparr>dp_payments = \<lparr>pg_enabled = enabled_providers env, pg_default = or_preset [] (default_provider env),
        pg_routes = snd (read_routes (enabled_providers env) [] (route_list env)),
        pg_settlement_delay_seconds = the (env_int 0 (pe_settlement_delay env))\<rparr>,
      dp_mock_secret = or_preset [] (pe_mock_secret env),
      dp_paystack = \<lparr>ps_secret_key = or_preset [] (pe_paystack_key env), ps_base_url = strip_slashes (paystack_url env),
        ps_timeout_ms = the (env_int 10000 (pe_paystack_timeout env))\<rparr>,
      dp_stripe = \<lparr>st_secret_key = or_preset [] (pe_stripe_key env), st_webhook_secret = or_preset [] (pe_stripe_webhook_secret env),
        st_base_url = strip_slashes (stripe_url env), st_timeout_ms = the (env_int 10000 (pe_stripe_timeout env)),
        st_tolerance_seconds = the (env_int 300 (pe_stripe_tolerance env)),
        st_success_url = or_preset [] (pe_stripe_success_url env), st_cancel_url = or_preset [] (pe_stripe_cancel_url env)\<rparr>,
      dp_flutterwave = \<lparr>fw_secret_key = or_preset [] (pe_flutterwave_key env), fw_base_url = strip_slashes (flutterwave_url env),
        fw_redirect_url = or_preset [] (pe_flutterwave_redirect_url env), fw_webhook_hash = or_preset [] (pe_flutterwave_hash env),
        fw_timeout_ms = the (env_int 10000 (pe_flutterwave_timeout env))\<rparr>,
      dp_paypal = \<lparr>pp_client_id = or_preset [] (pe_paypal_client_id env), pp_client_secret = or_preset [] (pe_paypal_client_secret env),
        pp_base_url = strip_slashes (paypal_url env), pp_webhook_id = or_preset [] (pe_paypal_webhook_id env),
        pp_return_url = or_preset [] (pe_paypal_return_url env), pp_cancel_url = or_preset [] (pe_paypal_cancel_url env),
        pp_tolerance_seconds = the (env_int 300 (pe_paypal_tolerance env)),
        pp_timeout_ms = the (env_int 10000 (pe_paypal_timeout env))\<rparr>\<rparr>"

text \<open>\<open>ConfigValidationError\<close> of the schema (the variables it refuses) or of the rules (their complaints).\<close>

datatype config_error = Schema_Violations "string list" | Rule_Violations "string list"

definition validate_config :: "(string \<times> bool) list \<Rightarrow> config_error + unit" where
  "validate_config checks =
     (let wrong = map fst (filter (\<lambda>(_, ok). \<not> ok) checks) in if wrong \<noteq> [] then Inl (Schema_Violations wrong) else Inr ())"

definition load_payments :: "(string \<Rightarrow> bool) \<Rightarrow> (string \<Rightarrow> string) \<Rightarrow> string option \<Rightarrow> string option \<Rightarrow> payments_env \<Rightarrow>
    config_error + deployment" where
  "load_payments is_url host node_env sandbox env =
     (case validate_config (schema_checks is_url env) of
        Inl e \<Rightarrow> Inl e
      | Inr _ \<Rightarrow>
          (let violations = rule_violations host (is_live node_env sandbox) env in
           if violations \<noteq> [] then Inl (Rule_Violations violations) else Inr (deployment_of env)))"

section \<open>What a deployment that starts is like\<close>

lemma load_payments_Inr:
  assumes "load_payments is_url host node_env sandbox env = Inr d"
  shows "list_all snd (schema_checks is_url env)" and "rule_violations host (is_live node_env sandbox) env = []" and "d = deployment_of env"
  using assms by (auto simp: load_payments_def validate_config_def Let_def filter_empty_conv list_all_iff split: if_splits)

lemma complain_Nil [simp]: "complain wrong message = [] \<longleftrightarrow> \<not> wrong"
  by (simp add: complain_def)

lemma key_rules_Nil:
  assumes "key_rules live_money name provider is_test is_real key = []"
  shows "\<exists>k. key = Some k \<and> k \<noteq> [] \<and> (live_money \<longrightarrow> \<not> is_test k) \<and> (\<not> live_money \<longrightarrow> \<not> is_real k)"
  using assms by (auto simp: key_rules_def truthy_def split: option.splits if_splits)

lemma not_missing: "\<not> missing x \<Longrightarrow> \<exists>t. x = Some t \<and> t \<noteq> []"
  by (auto simp: missing_def truthy_def split: if_splits)

lemma read_routes_sound:
  assumes "read_routes names table rs = ([], table')" and "[] \<notin> set names"
    and "\<forall>(c, n) \<in> set table. c \<in> set SUPPORTED_CURRENCIES \<and> n \<in> set names" and "distinct (map fst table)"
  shows "(\<forall>(c, n) \<in> set table'. c \<in> set SUPPORTED_CURRENCIES \<and> n \<in> set names) \<and> distinct (map fst table')"
  using assms
proof (induction rs arbitrary: table)
  case (Cons r rs)
  obtain c n where r: "(case split_on (CHR '':'') r of c # p # _ \<Rightarrow> (c, p) | [c] \<Rightarrow> (c, []) | [] \<Rightarrow> ([], [])) = (c, n)" by force
  have ok: "c \<in> set SUPPORTED_CURRENCIES" "n \<in> set names" "truthy (map_of table c) = None"
    and rest: "read_routes names (table @ [(c, n)]) rs = ([], table')"
    using Cons.prems(1) unfolding read_routes.simps Let_def r by (auto split: if_splits prod.splits)
  have "map_of table c = None"
  proof (rule ccontr)
    assume "map_of table c \<noteq> None"
    then obtain m where "map_of table c = Some m" by blast
    then show False using ok(3) Cons.prems(2,3) by (auto simp: truthy_def dest!: map_of_SomeD split: if_splits)
  qed
  then have "c \<notin> fst ` set table" by (simp add: map_of_eq_None_iff)
  then show ?case using Cons.IH [OF rest Cons.prems(2)] Cons.prems(3,4) ok(1,2) by auto
qed simp

lemma starts_with_append: "starts_with p s \<longleftrightarrow> (\<exists>t. s = p @ t)"
  by (metis append_eq_conv_conj append_take_drop_id starts_with_def)

lemma starts_contains: "starts_with (a @ p) s \<Longrightarrow> contains_text p s"
  unfolding starts_with_append contains_text_def list_ex_iff by (auto intro: bexI [of _ "length a"])

lemma prefixed_starts: "prefixed ps ok k \<Longrightarrow> \<exists>p \<in> set ps. starts_with p k"
  by (auto simp: prefixed_def list_ex_iff)

lemma known_nonempty: "list_all (\<lambda>n. n \<in> set KNOWN_PAYMENT_PROVIDERS) names \<Longrightarrow> [] \<notin> set names"
  by (auto simp: list_all_iff KNOWN_PAYMENT_PROVIDERS_def)

lemma paystack_kinds:
  assumes "paystack_rules live_money env = []" and "''paystack'' \<in> set (enabled_providers env)" and "optionally paystack_key (pe_paystack_key env)"
  shows "\<exists>k. pe_paystack_key env = Some k \<and> (live_money \<longleftrightarrow> starts_with ''sk_live_'' k)"
proof -
  have "key_rules live_money ''PAYSTACK_SECRET_KEY'' ''Paystack'' (starts_with ''sk_test_'') (starts_with ''sk_live_'') (pe_paystack_key env) = []"
    using assms(1,2) by (simp add: paystack_rules_def)
  from key_rules_Nil [OF this] obtain k where k: "pe_paystack_key env = Some k" "live_money \<longrightarrow> \<not> starts_with ''sk_test_'' k"
    "\<not> live_money \<longrightarrow> \<not> starts_with ''sk_live_'' k" by blast
  then have "prefixed [''sk_test_'', ''sk_live_''] is_alnum k" using assms(3) by (simp add: optionally_def paystack_key_def)
  from prefixed_starts [OF this] have "starts_with ''sk_test_'' k \<or> starts_with ''sk_live_'' k" by auto
  then show ?thesis using k by blast
qed

lemma stripe_kinds:
  assumes "stripe_rules live_money env = []" and "''stripe'' \<in> set (enabled_providers env)" and "optionally stripe_key (pe_stripe_key env)"
    and "optionally stripe_webhook_key (pe_stripe_webhook_secret env)"
  shows "\<exists>k w. pe_stripe_key env = Some k \<and> (live_money \<longleftrightarrow> contains_text ''_live_'' k) \<and>
    pe_stripe_webhook_secret env = Some w \<and> stripe_webhook_key w"
proof -
  have r: "key_rules live_money ''STRIPE_SECRET_KEY'' ''Stripe'' (contains_text ''_test_'') (contains_text ''_live_'') (pe_stripe_key env) = []"
    "\<not> missing (pe_stripe_webhook_secret env)"
    using assms(1,2) by (simp_all add: stripe_rules_def)
  from key_rules_Nil [OF r(1)] obtain k where k: "pe_stripe_key env = Some k" "live_money \<longrightarrow> \<not> contains_text ''_test_'' k"
    "\<not> live_money \<longrightarrow> \<not> contains_text ''_live_'' k" by blast
  have "contains_text ''_test_'' k \<or> contains_text ''_live_'' k"
    if "p \<in> set [''sk_test_'', ''sk_live_'', ''rk_test_'', ''rk_live_'']" "starts_with p k" for p
    using that starts_contains [of "''sk''" "''_test_''" k] starts_contains [of "''sk''" "''_live_''" k]
      starts_contains [of "''rk''" "''_test_''" k] starts_contains [of "''rk''" "''_live_''" k] by auto
  moreover have "prefixed [''sk_test_'', ''sk_live_'', ''rk_test_'', ''rk_live_''] is_alnum k"
    using assms(3) k(1) by (simp add: optionally_def stripe_key_def)
  ultimately have "contains_text ''_test_'' k \<or> contains_text ''_live_'' k" using prefixed_starts by blast
  then have "live_money \<longleftrightarrow> contains_text ''_live_'' k" using k(2,3) by blast
  then show ?thesis using k(1) not_missing [OF r(2)] assms(4) by (auto simp: optionally_def)
qed

lemma flutterwave_kinds:
  assumes "flutterwave_rules live_money env = []" and "''flutterwave'' \<in> set (enabled_providers env)"
    and "optionally (\<lambda>t. 16 \<le> length t) (pe_flutterwave_hash env)"
  shows "\<exists>k h. pe_flutterwave_key env = Some k \<and> (live_money \<longleftrightarrow> \<not> starts_with ''FLWSECK_TEST-'' k) \<and>
    pe_flutterwave_hash env = Some h \<and> 16 \<le> length h"
proof -
  have r: "key_rules live_money ''FLUTTERWAVE_SECRET_KEY'' ''Flutterwave'' (starts_with ''FLWSECK_TEST-'')
      (\<lambda>k. \<not> starts_with ''FLWSECK_TEST-'' k) (pe_flutterwave_key env) = []"
    "\<not> missing (pe_flutterwave_hash env)"
    using assms(1,2) by (simp_all add: flutterwave_rules_def)
  from key_rules_Nil [OF r(1)] not_missing [OF r(2)] show ?thesis using assms(3) by (auto simp: optionally_def)
qed

text \<open>
  C39. A deployment that starts keeps test and live apart and can check every webhook: its default and
  every routed provider are enabled and known, no currency is routed twice; with live money the mock
  provider is off and the enabled providers have live keys (PayPal a live host), without it they all
  have test keys; and every enabled provider has the secret that its webhooks are checked with.
\<close>

theorem deployments_keep_money_apart:
  assumes "load_payments is_url host node_env sandbox env = Inr d"
  shows "pg_default (dp_payments d) \<in> set (pg_enabled (dp_payments d)) \<and> set (pg_enabled (dp_payments d)) \<subseteq> set KNOWN_PAYMENT_PROVIDERS \<and>
    (\<forall>(c, n) \<in> set (pg_routes (dp_payments d)). c \<in> set SUPPORTED_CURRENCIES \<and> n \<in> set (pg_enabled (dp_payments d))) \<and>
    distinct (map fst (pg_routes (dp_payments d))) \<and>
    (\<forall>n \<in> set (pg_enabled (dp_payments d)).
       (n = ''mock'' \<longrightarrow> \<not> is_live node_env sandbox \<and> 16 \<le> length (dp_mock_secret d)) \<and>
       (n = ''paystack'' \<longrightarrow> (is_live node_env sandbox \<longleftrightarrow> starts_with ''sk_live_'' (ps_secret_key (dp_paystack d)))) \<and>
       (n = ''stripe'' \<longrightarrow> (is_live node_env sandbox \<longleftrightarrow> contains_text ''_live_'' (st_secret_key (dp_stripe d))) \<and>
          stripe_webhook_key (st_webhook_secret (dp_stripe d)) \<and> 30 \<le> st_tolerance_seconds (dp_stripe d)) \<and>
       (n = ''flutterwave'' \<longrightarrow> (is_live node_env sandbox \<longleftrightarrow> \<not> starts_with ''FLWSECK_TEST-'' (fw_secret_key (dp_flutterwave d))) \<and>
          16 \<le> length (fw_webhook_hash (dp_flutterwave d))) \<and>
       (n = ''paypal'' \<longrightarrow> (is_live node_env sandbox \<longleftrightarrow> \<not> contains_text ''sandbox'' (host (paypal_url env))) \<and>
          pp_webhook_id (dp_paypal d) \<noteq> []))"
    (is "?default \<and> ?known \<and> ?routes \<and> ?once \<and> (\<forall>n \<in> _. ?mock n \<and> ?paystack n \<and> ?stripe n \<and> ?flutterwave n \<and> ?paypal n)")
proof -
  note l = load_payments_Inr [OF assms]
  define live where "live = is_live node_env sandbox"
  have s: "list_all (\<lambda>n. n \<in> set KNOWN_PAYMENT_PROVIDERS) (provider_list env)" "optionally (\<lambda>t. 16 \<le> length t) (pe_mock_secret env)"
    "optionally paystack_key (pe_paystack_key env)" "optionally stripe_key (pe_stripe_key env)"
    "optionally stripe_webhook_key (pe_stripe_webhook_secret env)" "within 30 3600 (env_int 300 (pe_stripe_tolerance env))"
    "optionally (\<lambda>t. 16 \<le> length t) (pe_flutterwave_hash env)"
    using l(1) by (simp_all add: schema_checks_def)
  have v: "mock_rules live env = []" "paystack_rules live env = []" "stripe_rules live env = []" "flutterwave_rules live env = []"
    "paypal_rules host live env = []" "fst (read_routes (enabled_providers env) [] (route_list env)) = []"
    and default: "\<exists>n. default_provider env = Some n \<and> n \<in> set (enabled_providers env)"
    using l(2) by (auto simp: rule_violations_def live_def truthy_def split: option.splits if_splits)
  have en: "pg_enabled (dp_payments d) = enabled_providers env" "set (enabled_providers env) \<subseteq> set KNOWN_PAYMENT_PROVIDERS"
    using s(1) by (auto simp: l(3) deployment_of_def enabled_providers_def list_all_iff)
  have "[] \<notin> set (enabled_providers env)" using known_nonempty [OF s(1)] by (simp add: enabled_providers_def)
  moreover obtain table where "read_routes (enabled_providers env) [] (route_list env) = ([], table)" "pg_routes (dp_payments d) = table"
    using v(6) by (cases "read_routes (enabled_providers env) [] (route_list env)") (auto simp: l(3) deployment_of_def)
  ultimately have routes: ?routes ?once using read_routes_sound [of "enabled_providers env" "[]" "route_list env" table] by (auto simp: en(1))
  have ?default using default by (auto simp: l(3) deployment_of_def or_preset_def)
  moreover have ?known using en by simp
  moreover have "?mock n" if "n \<in> set (enabled_providers env)" for n
    using that v(1) s(2) by (auto simp: mock_rules_def live_def l(3) deployment_of_def or_preset_def optionally_def dest!: not_missing)
  moreover have "?paystack n" if "n \<in> set (enabled_providers env)" for n
    using that paystack_kinds [of live env] v(2) s(3) by (auto simp: live_def l(3) deployment_of_def or_preset_def)
  moreover have "?stripe n" if "n \<in> set (enabled_providers env)" for n
    using that stripe_kinds [of live env] v(3) s(4,5,6) by (auto simp: live_def l(3) deployment_of_def or_preset_def within_def split: option.splits)
  moreover have "?flutterwave n" if "n \<in> set (enabled_providers env)" for n
    using that flutterwave_kinds [of live env] v(4) s(7) by (auto simp: live_def l(3) deployment_of_def or_preset_def)
  moreover have "?paypal n" if "n \<in> set (enabled_providers env)" for n
    using that v(5) by (auto simp: paypal_rules_def live_def l(3) deployment_of_def or_preset_def dest!: not_missing)
  ultimately show ?thesis using routes en(1) by simp
qed

text \<open>A live deployment with Paystack alone, routed for naira.\<close>

definition demo_env :: payments_env where
  "demo_env = \<lparr>pe_providers = Some ''paystack, paystack'', pe_default = None, pe_mock_secret = None, pe_paystack_key = Some ''sk_live_a1'',
     pe_paystack_url = None, pe_paystack_timeout = Some ''5000'', pe_stripe_key = None, pe_stripe_webhook_secret = None, pe_stripe_url = None,
     pe_stripe_timeout = None, pe_stripe_tolerance = None, pe_stripe_success_url = None, pe_stripe_cancel_url = None,
     pe_flutterwave_key = None, pe_flutterwave_hash = None, pe_flutterwave_url = None, pe_flutterwave_timeout = None,
     pe_flutterwave_redirect_url = None, pe_paypal_client_id = None, pe_paypal_client_secret = None, pe_paypal_webhook_id = None,
     pe_paypal_url = None, pe_paypal_timeout = None, pe_paypal_tolerance = None, pe_paypal_return_url = None, pe_paypal_cancel_url = None,
     pe_routes = Some ''NGN:paystack'', pe_settlement_delay = None\<rparr>"

lemma demo_env_loads:
  "load_payments (\<lambda>_. True) (\<lambda>u. u) (Some ''production'') None demo_env = Inr (deployment_of demo_env)"
proof -
  have "list_all snd (schema_checks (\<lambda>_. True) demo_env)" by code_simp
  moreover have "rule_violations (\<lambda>u. u) (is_live (Some ''production'') None) demo_env = []" by code_simp
  ultimately show ?thesis by (auto simp: load_payments_def validate_config_def Let_def filter_empty_conv list_all_iff)
qed

theorem deployments_keep_money_apart_witness:
  "\<exists>d. load_payments (\<lambda>_. True) (\<lambda>u. u) (Some ''production'') None demo_env = Inr d \<and>
     ''paystack'' \<in> set (pg_enabled (dp_payments d)) \<and> starts_with ''sk_live_'' (ps_secret_key (dp_paystack d))"
proof -
  have "enabled_providers demo_env = [''paystack'']" by code_simp
  then have p: "''paystack'' \<in> set (pg_enabled (dp_payments (deployment_of demo_env)))" by (simp add: deployment_of_def)
  have "is_live (Some ''production'') None" by (simp add: is_live_def is_sandbox_mode_def)
  then show ?thesis using deployments_keep_money_apart [OF demo_env_loads] p demo_env_loads by blast
qed

end
