(* ===== verification/Problem_Details.thy ===== *)
theory Problem_Details
  imports Prelude
begin

text \<open>
  \<open>src/common/http\<close>: what a client sees of whatever was thrown (\<open>to-problem-details.ts\<close>, the filter that
  sends it). The exceptions of the modules with their codes are in theory \<open>App_Errors\<close>; here a thrown
  value is of one of the four kinds the code tells apart. The phrase of an HTTP status is the
  runtime's table, a parameter.
\<close>

section \<open>Thrown values\<close>

type_synonym field_error = "string \<times> string list"

text \<open>\<open>getResponse()\<close> of an \<open>HttpException\<close>: a text, an object with a \<open>message\<close> of texts or another value, or another object.\<close>

datatype http_body = Body_Text string | Body_Message string | Body_Messages "string list" | Body_Other

datatype thrown =
  App_Exception string string nat "field_error list option"
| Http_Exception nat http_body string
| Other_Error string "int option" bool
| Other_Value string

record problem_details =
  pb_type :: string
  pb_title :: string
  pb_status :: nat
  pb_detail :: string
  pb_instance :: string
  pb_code :: string
  pb_request_id :: "string option"
  pb_errors :: "field_error list option"

section \<open>Classification\<close>

definition CODES_BY_STATUS :: "(nat \<times> string) list" where
  "CODES_BY_STATUS =
     [(400, ''BAD_REQUEST''), (401, ''UNAUTHORIZED''), (403, ''FORBIDDEN''), (404, ''NOT_FOUND''), (405, ''METHOD_NOT_ALLOWED''),
      (409, ''CONFLICT''), (413, ''PAYLOAD_TOO_LARGE''), (415, ''UNSUPPORTED_MEDIA_TYPE''), (422, ''UNPROCESSABLE_ENTITY''),
      (429, ''RATE_LIMITED''), (500, ''INTERNAL_ERROR''), (503, ''SERVICE_UNAVAILABLE'')]"

definition INTERNAL_ERROR_DETAIL :: string where
  "INTERNAL_ERROR_DETAIL = ''An unexpected error occurred''"

definition code_for :: "nat \<Rightarrow> string" where
  "code_for status = (case map_of CODES_BY_STATUS status of Some c \<Rightarrow> c | None \<Rightarrow> ''HTTP_'' @ show_nat status)"

definition http_exception_detail :: "http_body \<Rightarrow> string \<Rightarrow> string" where
  "http_exception_detail body message =
     (case body of Body_Text t \<Rightarrow> t | Body_Message m \<Rightarrow> m | Body_Messages ms \<Rightarrow> join ''; '' ms | Body_Other \<Rightarrow> message)"

text \<open>\<open>isClientHttpError\<close>: an error marked as safe to show, with the status of a client error.\<close>

definition client_status :: "thrown \<Rightarrow> nat option" where
  "client_status t =
     (case t of Other_Error m (Some s) True \<Rightarrow> if 400 \<le> s \<and> s < 500 then Some (nat s) else None | _ \<Rightarrow> None)"

text \<open>Status, code, detail and the errors of fields.\<close>

definition classify_thrown :: "thrown \<Rightarrow> nat \<times> string \<times> string \<times> field_error list option" where
  "classify_thrown t =
     (case t of
        App_Exception code detail status errors \<Rightarrow> (status, code, detail, errors)
      | Http_Exception status body message \<Rightarrow>
          (status, code_for status, if status \<ge> 500 then INTERNAL_ERROR_DETAIL else http_exception_detail body message, None)
      | Other_Error message _ _ \<Rightarrow>
          (case client_status t of
             Some status \<Rightarrow> (status, code_for status, message, None)
           | None \<Rightarrow> (500, code_for 500, INTERNAL_ERROR_DETAIL, None))
      | Other_Value _ \<Rightarrow> (500, code_for 500, INTERNAL_ERROR_DETAIL, None))"

definition to_problem_details :: "(nat \<Rightarrow> string option) \<Rightarrow> thrown \<Rightarrow> string \<Rightarrow> string option \<Rightarrow> problem_details" where
  "to_problem_details phrase t path request_id =
     (case classify_thrown t of
        (status, code, detail, errors) \<Rightarrow>
          \<lparr>pb_type = ''about:blank'', pb_title = (case phrase status of Some p \<Rightarrow> p | None \<Rightarrow> ''Error''), pb_status = status,
           pb_detail = detail, pb_instance = path, pb_code = code,
           pb_request_id = (if request_id = Some [] then None else request_id), pb_errors = errors\<rparr>)"

section \<open>Internals stay inside\<close>

text \<open>What is meant for the client: an exception of the application, or an error of HTTP that is the client's.\<close>

definition client_facing :: "thrown \<Rightarrow> bool" where
  "client_facing t \<longleftrightarrow>
     (case t of App_Exception _ _ _ _ \<Rightarrow> True | Http_Exception status _ _ \<Rightarrow> status < 500 | _ \<Rightarrow> client_status t \<noteq> None)"

lemma code_for_500 [simp]: "code_for 500 = ''INTERNAL_ERROR''"
  by (simp add: code_for_def CODES_BY_STATUS_def)

text \<open>
  Of anything else a client learns the status, and nothing of the message, the stack or the value:
  two such values with the same status give the same answer.
\<close>

lemma internals_do_not_leak:
  assumes "\<not> client_facing t" and "\<not> client_facing t'" and "fst (classify_thrown t) = fst (classify_thrown t')"
  shows "to_problem_details phrase t path i = to_problem_details phrase t' path i" and "500 \<le> pb_status (to_problem_details phrase t path i)"
  using assms by (auto simp: client_facing_def classify_thrown_def to_problem_details_def split: thrown.splits)

lemma unexpected_is_500:
  assumes "\<not> client_facing t" and "\<forall>status body m. t \<noteq> Http_Exception status body m"
  shows "pb_status (to_problem_details phrase t path i) = 500" and "pb_code (to_problem_details phrase t path i) = ''INTERNAL_ERROR''"
    and "pb_detail (to_problem_details phrase t path i) = INTERNAL_ERROR_DETAIL"
  using assms by (auto simp: client_facing_def classify_thrown_def to_problem_details_def split: thrown.splits)

end
