(* ===== verification/Maintenance.thy ===== *)
theory Maintenance
  imports Reconciliation Refunds Sessions Outbox Idempotency
begin

text \<open>
  \<open>src/maintenance\<close>: the jobs of the maintenance queue (\<open>maintenance.processor.ts\<close>) over the tables of all
  modules, and how long finished rows are kept (\<open>maintenance.service.ts\<close>). When a job runs is the
  queue's business; here it is one function of the installation.
\<close>

record installation =
  in_platform :: platform
  in_keys :: key_table
  in_recon :: recon_db

text \<open>The database is that of the platform; \<open>in_recon\<close> holds the tables of reconciliation beside it.\<close>

definition recon_tables :: "installation \<Rightarrow> recon_db" where
  "recon_tables i = (in_recon i)\<lparr>rd_db := pf_db (in_platform i)\<rparr>"

definition with_recon :: "recon_db \<Rightarrow> installation \<Rightarrow> installation" where
  "with_recon d i = i\<lparr>in_recon := d, in_platform := (in_platform i)\<lparr>pf_db := rd_db d\<rparr>\<rparr>"

definition with_db :: "db \<Rightarrow> installation \<Rightarrow> installation" where
  "with_db s i = i\<lparr>in_platform := (in_platform i)\<lparr>pf_db := s\<rparr>\<rparr>"

section \<open>Retention (maintenance.service.ts)\<close>

definition REFRESH_TOKENS_DAYS :: int where
  "REFRESH_TOKENS_DAYS = 30"

definition OUTBOX_EVENTS_DAYS :: int where
  "OUTBOX_EVENTS_DAYS = 7"

record cleanup_result =
  cr_idempotency_keys :: nat
  cr_refresh_tokens :: nat
  cr_outbox_events :: nat

definition cleanup :: "int \<Rightarrow> installation \<Rightarrow> cleanup_result \<times> installation" where
  "cleanup now i =
     (case delete_expired now (in_keys i) of
        (n, keys) \<Rightarrow> (case delete_finished_tokens now REFRESH_TOKENS_DAYS (in_platform i) of
          (m, p) \<Rightarrow> (case delete_published now OUTBOX_EVENTS_DAYS (pf_db p) of
            (k, s) \<Rightarrow> (\<lparr>cr_idempotency_keys = n, cr_refresh_tokens = m, cr_outbox_events = k\<rparr>,
              i\<lparr>in_keys := keys, in_platform := p\<lparr>pf_db := s\<rparr>\<rparr>))))"

section \<open>The jobs (maintenance.processor.ts)\<close>

definition PAYOUT_STALE_AFTER_MS :: int where
  "PAYOUT_STALE_AFTER_MS = 10 * 60 * 1000"

definition REFUND_STALE_AFTER_MS :: int where
  "REFUND_STALE_AFTER_MS = 10 * 60 * 1000"

definition RECONCILIATION_JOB :: string where
  "RECONCILIATION_JOB = ''reconciliation''"

datatype job_result = Runs nat | Released nat | Synced_Rows nat | Cleaned cleanup_result

datatype job_failure = Recon_Failure recon_error | Service_Failure app_error

definition db_job :: "(nat \<Rightarrow> job_result) \<Rightarrow> nat run \<Rightarrow> installation \<Rightarrow> (job_failure + job_result) \<times> installation" where
  "db_job result job i =
     (case job (pf_db (in_platform i)) of
        (Inl e, s) \<Rightarrow> (Inl (Service_Failure e), with_db s i)
      | (Inr n, s) \<Rightarrow> (Inr (result n), with_db s i))"

definition recon_job :: "(recon_db \<Rightarrow> recon_error + nat \<times> recon_db) \<Rightarrow> installation \<Rightarrow> (job_failure + job_result) \<times> installation" where
  "recon_job job i =
     (case job (recon_tables i) of
        Inl e \<Rightarrow> (Inl (Recon_Failure e), i)
      | Inr (n, d) \<Rightarrow> (Inr (Runs n), with_recon d i))"

definition process_maintenance_job :: "registry \<Rightarrow> fx_config \<Rightarrow> (string \<Rightarrow> recon_capability option) \<Rightarrow> (recon_error \<Rightarrow> string) \<Rightarrow>
    int \<Rightarrow> string \<Rightarrow> uuid option \<Rightarrow> installation \<Rightarrow> (job_failure + job_result) \<times> installation" where
  "process_maintenance_job rg cfg caps text now name run i =
     (if name = RECONCILIATION_JOB \<and> run \<noteq> None
      then recon_job (\<lambda>d. bind_res (execute_run rg cfg caps text now (the run) d) (\<lambda>(r, d'). Inr (1, d'))) i
      else if name = ''reconciliation-daily''
      then recon_job (\<lambda>d. bind_res (run_scheduled rg cfg caps text now d) (\<lambda>(rs, d'). Inr (length rs, d'))) i
      else if name = ''settlement-release'' then db_job Released (release_due system_context now 100) i
      else if name = ''refunds-sync''
      then db_job Synced_Rows (\<lambda>s. case sync_stale_refunds rg now REFUND_STALE_AFTER_MS 50 s of (n, s') \<Rightarrow> (Inr n, s')) i
      else if name = ''payouts-sync'' then db_job Synced_Rows (sync_stale_payouts rg now PAYOUT_STALE_AFTER_MS 50) i
      else (case cleanup now i of (r, i') \<Rightarrow> (Inr (Cleaned r), i')))"

section \<open>What a cleanup may delete\<close>

text \<open>
  A cleanup takes no money with it and nothing that still matters: what it deletes of the keys has
  expired, a token it deletes can neither be exchanged nor give a reuse away, an event it deletes
  was published.
\<close>

lemma cleanup_keeps_what_matters:
  assumes "cleanup now i = (r, i')"
  shows "ledger (pf_db (in_platform i')) = ledger (pf_db (in_platform i))"
    and "k \<in> set (kt_keys (in_keys i)) \<Longrightarrow> now \<le> ik_expires_at k \<Longrightarrow> k \<in> set (kt_keys (in_keys i'))"
    and "t \<in> set (pf_tokens (in_platform i)) \<Longrightarrow> now - 30 * 86400000 \<le> rt_expires_at t \<Longrightarrow> rt_revoked_at t = None \<Longrightarrow> t \<in> set (pf_tokens (in_platform i'))"
    and "e \<in> set (outbox (pf_db (in_platform i))) \<Longrightarrow> ev_status e = Outbox_Pending \<Longrightarrow> e \<in> set (outbox (pf_db (in_platform i')))"
  using assms
  by (auto simp: cleanup_def delete_expired_def delete_finished_tokens_def delete_published_def Let_def REFRESH_TOKENS_DAYS_def OUTBOX_EVENTS_DAYS_def
      split: prod.splits option.splits)

text \<open>
  A daily check whose process died while it ran is not taken up again: its row, still running, stands
  in the way of a new one, and the job goes on with the next provider.
\<close>

lemma dead_run_is_skipped:
  assumes "x \<in> set (rd_runs d)" and "rn_trigger x = Trigger_Schedule" and "rn_provider x = None" and "rn_from x = t0" and "t0 < t1"
  shows "run_each rg cfg caps text now t0 t1 (None # ps) d = run_each rg cfg caps text now t0 t1 ps d"
proof -
  have "create_run rg caps now None t0 t1 Trigger_Schedule None d = Inr (None, d)"
    using assms by (auto simp: create_run_def truthy_def require_def run_taken_def list_ex_iff bind_res_def Let_def)
  then show ?thesis by (cases "run_each rg cfg caps text now t0 t1 ps d") (auto simp: bind_res_def)
qed

end
