(* ===== verification/Mock_Provider.thy ===== *)
theory Mock_Provider
  imports Paypal Paystack Outbound_Webhooks
begin

text \<open>
  \<open>src/payment-providers/mock/mock-payment.provider.ts\<close>: the provider of development and of sandbox
  deployments. It keeps its payments, refunds and payouts in memory, so every operation is a function
  of its state; how the next refunds and payouts behave is part of it. Random texts, the time and the
  HMAC are parameters.
\<close>

section \<open>State\<close>

record mock_payment =
  mp_reference :: string
  mp_provider_reference :: string
  mp_amount :: int
  mp_currency :: string
  mp_status :: provider_status
  mp_created_at :: int

record mock_payout =
  mo_reference :: string
  mo_provider_reference :: string
  mo_amount :: int
  mo_currency :: string
  mo_status :: payout_status
  mo_created_at :: int

record mock_refund =
  mr_provider_reference :: string
  mr_reference :: string
  mr_status :: provider_status

datatype refund_behaviour = Refund_Succeeds | Refund_Stays_Pending | Refund_Rejected | Refund_Unavailable | Refund_Lost | Refund_Unsure

datatype payout_behaviour = Payout_Succeeds | Payout_Stays_Pending | Payout_Rejected | Payout_Unavailable | Payout_Lost

text \<open>A \<open>Map\<close> keeps the order of insertion; setting a key that it has keeps its place.\<close>

record mock_state =
  mk_payments :: "(string \<times> mock_payment) list"
  mk_refunds :: "(string \<times> mock_refund) list"
  mk_refund_behaviour :: refund_behaviour
  mk_payouts :: "(string \<times> mock_payout) list"
  mk_payout_behaviour :: payout_behaviour
  mk_initiated :: "string list"

definition no_mock_state :: mock_state where
  "no_mock_state = \<lparr>mk_payments = [], mk_refunds = [], mk_refund_behaviour = Refund_Succeeds, mk_payouts = [],
     mk_payout_behaviour = Payout_Succeeds, mk_initiated = []\<rparr>"

definition map_put :: "string \<Rightarrow> 'v \<Rightarrow> (string \<times> 'v) list \<Rightarrow> (string \<times> 'v) list" where
  "map_put k v m = (if k \<in> fst ` set m then map (\<lambda>(q, w). if q = k then (q, v) else (q, w)) m else m @ [(k, v)])"

section \<open>Payments\<close>

definition mock_initialize :: "string \<Rightarrow> int \<Rightarrow> initialize_request \<Rightarrow> mock_state \<Rightarrow> checkout answer \<times> mock_state" where
  "mock_initialize hex now rq st =
     (let p = (case find (\<lambda>p. mp_reference p = ir_reference rq) (map snd (mk_payments st)) of
            Some p \<Rightarrow> p
          | None \<Rightarrow> \<lparr>mp_reference = ir_reference rq, mp_provider_reference = ''mock_'' @ hex, mp_amount = ir_amount rq,
              mp_currency = ir_currency rq, mp_status = Provider_Pending, mp_created_at = now\<rparr>) in
      (Inr \<lparr>co_provider_reference = mp_provider_reference p,
            co_authorization_url = ''https://checkout.mock-provider.test/pay/'' @ mp_provider_reference p\<rparr>,
       st\<lparr>mk_payments := map_put (mp_provider_reference p) p (mk_payments st)\<rparr>))"

definition mock_verify :: "mock_state \<Rightarrow> string \<Rightarrow> string \<Rightarrow> verification answer" where
  "mock_verify st reference provider_ref =
     (case map_of (mk_payments st) provider_ref of
        None \<Rightarrow> Inl (Provider_Failure ''Unknown mock payment'' False)
      | Some p \<Rightarrow>
          if mp_reference p \<noteq> reference then Inl (Provider_Failure ''Unknown mock payment'' False)
          else Inr \<lparr>vf_status = mp_status p, vf_provider_reference = mp_provider_reference p, vf_amount = mp_amount p,
            vf_currency = mp_currency p,
            vf_failure_reason = (if mp_status p = Provider_Failed then Some ''Card declined (mock)'' else None)\<rparr>)"

section \<open>Refunds\<close>

definition mock_refund_payment :: "string \<Rightarrow> refund_request \<Rightarrow> mock_state \<Rightarrow> refund_answer answer \<times> mock_state" where
  "mock_refund_payment hex rq st =
     (case mk_refund_behaviour st of
        Refund_Rejected \<Rightarrow> (Inl (Provider_Failure ''Refund declined (mock)'' False), st)
      | Refund_Unavailable \<Rightarrow> (Inl (Provider_Failure ''Mock provider timed out'' True), st)
      | b \<Rightarrow>
          (let r = \<lparr>mr_provider_reference = ''mock_refund_'' @ hex, mr_reference = rr_reference rq,
                 mr_status = (if b = Refund_Stays_Pending then Provider_Pending else Provider_Successful)\<rparr>;
               st' = st\<lparr>mk_refunds := map_put (mr_provider_reference r) r (mk_refunds st)\<rparr> in
           if b = Refund_Lost then (Inl (Provider_Failure ''Mock provider timed out'' True), st')
           else (Inr \<lparr>ra_provider_reference = mr_provider_reference r, ra_status = mr_status r\<rparr>, st')))"

definition mock_find_refund :: "mock_state \<Rightarrow> string \<Rightarrow> refund_answer option answer" where
  "mock_find_refund st reference =
     (if mk_refund_behaviour st = Refund_Unsure then Inl (Provider_Failure ''Mock provider cannot tell'' True)
      else Inr (map_option (\<lambda>r. \<lparr>ra_provider_reference = mr_provider_reference r, ra_status = mr_status r\<rparr>)
        (find (\<lambda>r. mr_reference r = reference) (map snd (mk_refunds st)))))"

definition refunds_made_for :: "mock_state \<Rightarrow> string \<Rightarrow> nat" where
  "refunds_made_for st reference = length (filter (\<lambda>r. mr_reference r = reference) (map snd (mk_refunds st)))"

definition mock_get_refund :: "mock_state \<Rightarrow> string \<Rightarrow> refund_answer answer" where
  "mock_get_refund st provider_ref =
     (case map_of (mk_refunds st) provider_ref of
        None \<Rightarrow> Inl (Provider_Failure ''Unknown mock refund'' False)
      | Some r \<Rightarrow> Inr \<lparr>ra_provider_reference = provider_ref, ra_status = mr_status r\<rparr>)"

section \<open>Payouts\<close>

definition mock_create_recipient :: "(string \<Rightarrow> string \<Rightarrow> string) \<Rightarrow> recipient_request \<Rightarrow> payout_recipient answer" where
  "mock_create_recipient hmac rq =
     (if cq_account_number rq = ''0000000000'' then Inl (Provider_Failure ''Could not resolve account (mock)'' False)
      else
        let i = take 16 (to_hex (hmac ''mock-recipient''
              (cq_recipient_currency rq @ '':'' @ cq_bank_code rq @ '':'' @ cq_account_number rq)));
            behaviour = (if ends_with ''0001'' (cq_account_number rq) then ''_rejects''
              else if ends_with ''0002'' (cq_account_number rq) then ''_pending'' else []) in
        Inr \<lparr>pr_reference = ''RCP_mock_'' @ i @ behaviour,
             pr_account_name = (case cq_account_name rq of None \<Rightarrow> ''Mock Account Holder'' | Some n \<Rightarrow> n),
             pr_bank_name = Some (''Mock Bank '' @ cq_bank_code rq)\<rparr>)"

definition mock_payout_result :: "mock_payout \<Rightarrow> payout_answer" where
  "mock_payout_result p =
     \<lparr>pa_provider_reference = mo_provider_reference p, pa_status = mo_status p,
      pa_failure_reason = (if mo_status p = Payout_Failed then Some ''Transfer failed (mock)'' else None)\<rparr>"

definition behaviour_for :: "mock_state \<Rightarrow> string \<Rightarrow> payout_behaviour" where
  "behaviour_for st recipient =
     (if ends_with ''_rejects'' recipient then Payout_Rejected
      else if ends_with ''_pending'' recipient then Payout_Stays_Pending
      else mk_payout_behaviour st)"

definition mock_initiate :: "string \<Rightarrow> int \<Rightarrow> payout_request \<Rightarrow> mock_state \<Rightarrow> payout_answer answer \<times> mock_state" where
  "mock_initiate hex now rq st =
     (let b = behaviour_for st (pq_recipient rq) in
      if b = Payout_Rejected then (Inl (Provider_Failure ''Insufficient provider balance (mock)'' False), st)
      else if b = Payout_Unavailable then (Inl (Provider_Failure ''Mock provider timed out'' True), st)
      else if map_of (mk_payouts st) (pq_reference rq) \<noteq> None
      then (Inl (Provider_Failure ''Duplicate transfer reference (mock)'' False), st)
      else
        let p = \<lparr>mo_reference = pq_reference rq, mo_provider_reference = ''TRF_mock_'' @ hex, mo_amount = pq_amount rq,
              mo_currency = pq_currency rq, mo_status = (if b = Payout_Stays_Pending then Payout_Pending else Payout_Successful),
              mo_created_at = now\<rparr>;
            st' = st\<lparr>mk_payouts := map_put (pq_reference rq) p (mk_payouts st), mk_initiated := mk_initiated st @ [pq_reference rq]\<rparr> in
        if b = Payout_Lost then (Inl (Provider_Failure ''Mock provider timed out'' True), st')
        else (Inr (mock_payout_result p), st'))"

definition mock_find_payout :: "mock_state \<Rightarrow> string \<Rightarrow> payout_answer option answer" where
  "mock_find_payout st reference = Inr (map_option mock_payout_result (map_of (mk_payouts st) reference))"

section \<open>Webhooks\<close>

definition MOCK_SIGNATURE_HEADER :: string where
  "MOCK_SIGNATURE_HEADER = ''x-mock-signature''"

definition mock_sign :: "(string \<Rightarrow> string \<Rightarrow> string) \<Rightarrow> string \<Rightarrow> string \<Rightarrow> string" where
  "mock_sign hmac secret raw = to_hex (hmac secret raw)"

definition mock_signed :: "(string \<Rightarrow> string \<Rightarrow> string) \<Rightarrow> string \<Rightarrow> string \<Rightarrow> headers \<Rightarrow> bool" where
  "mock_signed hmac secret raw hs =
     (case hs MOCK_SIGNATURE_HEADER of
        None \<Rightarrow> False
      | Some received \<Rightarrow> hex_text 64 received \<and> from_hex received = from_hex (mock_sign hmac secret raw))"

definition mock_event :: "js \<Rightarrow> parsed_event" where
  "mock_event body =
     (let event = text_of (js_prop ''event'' body); d = js_prop ''data'' body;
          kind = (case map_of PAYSTACK_EVENTS event of None \<Rightarrow> Unknown_Event | Some k \<Rightarrow> k) in
      \<lparr>pe_event_id = text_of (js_prop ''id'' body), pe_type = kind, pe_provider_type = event,
       pe_provider_reference =
         (if kind \<in> {Refund_Succeeded, Refund_Failed_Event, Payout_Succeeded, Payout_Failed_Event, Payout_Reversed_Event}
          then opt_text (opt_prop ''reference'' d) else opt_text (opt_prop ''provider_reference'' d))\<rparr>)"

definition mock_webhooks :: "web \<Rightarrow> (string \<Rightarrow> string \<Rightarrow> string) \<Rightarrow> string \<Rightarrow> headers webhook_capability" where
  "mock_webhooks wb hmac secret =
     \<lparr>wc_verify = mock_signed hmac secret,
      wc_parse = (\<lambda>raw. case wb_parse wb raw of
         None \<Rightarrow> None
       | Some body \<Rightarrow> if body = Js_Null then None else Some (mock_event body, js_json body))\<rparr>"

section \<open>Simulation\<close>

definition remember_payment :: "string \<Rightarrow> string \<Rightarrow> int \<Rightarrow> string \<Rightarrow> int \<Rightarrow> mock_state \<Rightarrow> mock_state" where
  "remember_payment reference provider_ref amount currency created st =
     (if map_of (mk_payments st) provider_ref \<noteq> None then st
      else st\<lparr>mk_payments := map_put provider_ref \<lparr>mp_reference = reference, mp_provider_reference = provider_ref, mp_amount = amount,
        mp_currency = currency, mp_status = Provider_Pending, mp_created_at = created\<rparr> (mk_payments st)\<rparr>)"

definition remember_payout :: "string \<Rightarrow> string \<Rightarrow> int \<Rightarrow> string \<Rightarrow> int \<Rightarrow> mock_state \<Rightarrow> mock_state" where
  "remember_payout reference provider_ref amount currency created st =
     (if map_of (mk_payouts st) reference \<noteq> None then st
      else st\<lparr>mk_payouts := map_put reference \<lparr>mo_reference = reference, mo_provider_reference = provider_ref, mo_amount = amount,
        mo_currency = currency, mo_status = Payout_Pending, mo_created_at = created\<rparr> (mk_payouts st)\<rparr>)"

definition forget_everything :: "mock_state \<Rightarrow> mock_state" where
  "forget_everything st = st\<lparr>mk_payments := [], mk_payouts := [], mk_refunds := []\<rparr>"

text \<open>The body of the webhook (\<open>JSON.stringify\<close>) with its signature.\<close>

definition mock_webhook :: "(string \<Rightarrow> string \<Rightarrow> string) \<Rightarrow> string \<Rightarrow> string \<Rightarrow> string \<Rightarrow> json_object \<Rightarrow> string \<times> string" where
  "mock_webhook hmac secret hex event d =
     (let raw = json_text (JObj [(''id'', JStr (''evt_'' @ hex)), (''event'', JStr event), (''data'', JObj d)]) in
      (raw, mock_sign hmac secret raw))"

definition simulate_outcome :: "(string \<Rightarrow> string \<Rightarrow> string) \<Rightarrow> string \<Rightarrow> string \<Rightarrow> string \<Rightarrow> bool \<Rightarrow> int option \<Rightarrow> string option \<Rightarrow>
    mock_state \<Rightarrow> (string \<times> string) answer \<times> mock_state" where
  "simulate_outcome hmac secret hex provider_ref successful amount currency st =
     (case map_of (mk_payments st) provider_ref of
        None \<Rightarrow> (Inl (Provider_Failure ''Unknown mock payment'' False), st)
      | Some old \<Rightarrow>
          (let p = old\<lparr>mp_status := (if successful then Provider_Successful else Provider_Failed),
                 mp_amount := (case amount of None \<Rightarrow> mp_amount old | Some a \<Rightarrow> a),
                 mp_currency := (case currency of None \<Rightarrow> mp_currency old | Some c \<Rightarrow> c)\<rparr> in
           (Inr (mock_webhook hmac secret hex (if successful then ''charge.success'' else ''charge.failed'')
              [(''reference'', JStr (mp_reference p)), (''provider_reference'', JStr (mp_provider_reference p)),
               (''amount'', JStr (show_int (mp_amount p))), (''currency'', JStr (mp_currency p))]),
            st\<lparr>mk_payments := map_put provider_ref p (mk_payments st)\<rparr>)))"

definition simulate_refund_outcome :: "(string \<Rightarrow> string \<Rightarrow> string) \<Rightarrow> string \<Rightarrow> string \<Rightarrow> string \<Rightarrow> bool \<Rightarrow>
    mock_state \<Rightarrow> (string \<times> string) answer \<times> mock_state" where
  "simulate_refund_outcome hmac secret hex provider_ref successful st =
     (case map_of (mk_refunds st) provider_ref of
        None \<Rightarrow> (Inl (Provider_Failure ''Unknown mock refund'' False), st)
      | Some r \<Rightarrow>
          (Inr (mock_webhook hmac secret hex (if successful then ''refund.processed'' else ''refund.failed'')
             [(''reference'', JStr (mr_reference r))]),
           st\<lparr>mk_refunds := map_put provider_ref (r\<lparr>mr_status := (if successful then Provider_Successful else Provider_Failed)\<rparr>)
             (mk_refunds st)\<rparr>))"

datatype payout_outcome = Outcome_Successful | Outcome_Failed | Outcome_Reversed

fun outcome_status :: "payout_outcome \<Rightarrow> payout_status" where
  "outcome_status Outcome_Successful = Payout_Successful"
| "outcome_status Outcome_Failed = Payout_Failed"
| "outcome_status Outcome_Reversed = Payout_Reversed"

fun outcome_event :: "payout_outcome \<Rightarrow> string" where
  "outcome_event Outcome_Successful = ''transfer.success''"
| "outcome_event Outcome_Failed = ''transfer.failed''"
| "outcome_event Outcome_Reversed = ''transfer.reversed''"

definition simulate_payout_outcome :: "(string \<Rightarrow> string \<Rightarrow> string) \<Rightarrow> string \<Rightarrow> string \<Rightarrow> string \<Rightarrow> payout_outcome \<Rightarrow>
    mock_state \<Rightarrow> (string \<times> string) answer \<times> mock_state" where
  "simulate_payout_outcome hmac secret hex reference outcome st =
     (case map_of (mk_payouts st) reference of
        None \<Rightarrow> (Inl (Provider_Failure ''Unknown mock payout'' False), st)
      | Some p \<Rightarrow>
          (Inr (mock_webhook hmac secret hex (outcome_event outcome)
             [(''reference'', JStr reference), (''provider_reference'', JStr (mo_provider_reference p))]),
           st\<lparr>mk_payouts := map_put reference (p\<lparr>mo_status := outcome_status outcome\<rparr>) (mk_payouts st)\<rparr>))"

text \<open>What tests and a developer may set, and a payment that only the provider knows of.\<close>

definition set_refund_behaviour :: "refund_behaviour \<Rightarrow> mock_state \<Rightarrow> mock_state" where
  "set_refund_behaviour b st = st\<lparr>mk_refund_behaviour := b\<rparr>"

definition set_payout_behaviour :: "payout_behaviour \<Rightarrow> mock_state \<Rightarrow> mock_state" where
  "set_payout_behaviour b st = st\<lparr>mk_payout_behaviour := b\<rparr>"

definition set_payment_status :: "string \<Rightarrow> provider_status \<Rightarrow> mock_state \<Rightarrow> unit answer \<times> mock_state" where
  "set_payment_status provider_ref status st =
     (case map_of (mk_payments st) provider_ref of
        None \<Rightarrow> (Inl (Provider_Failure ''Unknown mock payment'' False), st)
      | Some p \<Rightarrow> (Inr (), st\<lparr>mk_payments := map_put provider_ref (p\<lparr>mp_status := status\<rparr>) (mk_payments st)\<rparr>))"

definition record_external_payment :: "string \<Rightarrow> string \<Rightarrow> int \<Rightarrow> int \<Rightarrow> string \<Rightarrow> provider_status option \<Rightarrow>
    mock_state \<Rightarrow> string \<times> mock_state" where
  "record_external_payment hex hex' now amount currency status st =
     (let provider_ref = ''mock_'' @ hex in
      (provider_ref, st\<lparr>mk_payments := map_put provider_ref \<lparr>mp_reference = ''ext_'' @ hex', mp_provider_reference = provider_ref,
         mp_amount = amount, mp_currency = currency, mp_status = (case status of None \<Rightarrow> Provider_Successful | Some q \<Rightarrow> q),
         mp_created_at = now\<rparr> (mk_payments st)\<rparr>))"

section \<open>The provider\<close>

text \<open>What the mock answers in a state; the random text is that of the next call.\<close>

definition mock_provider :: "(string \<Rightarrow> string \<Rightarrow> string) \<Rightarrow> string \<Rightarrow> int \<Rightarrow> mock_state \<Rightarrow> payment_provider" where
  "mock_provider hmac hex now st =
     \<lparr>pv_name = ''mock'', pv_currencies = SUPPORTED_CURRENCIES,
      pv_initialize = (\<lambda>rq. fst (mock_initialize hex now rq st)), pv_verify = mock_verify st,
      pv_refund = (\<lambda>rq. fst (mock_refund_payment hex rq st)), pv_get_refund = mock_get_refund st,
      pv_find_refund = (\<lambda>_ reference. mock_find_refund st reference),
      pv_payouts = Some \<lparr>pc_currencies = SUPPORTED_CURRENCIES, pc_create_recipient = mock_create_recipient hmac,
        pc_create_email_recipient = None, pc_initiate = (\<lambda>rq. fst (mock_initiate hex now rq st)),
        pc_find = (\<lambda>reference _. mock_find_payout st reference)\<rparr>\<rparr>"

definition mock_payment_record :: "mock_payment \<Rightarrow> payment_record" where
  "mock_payment_record p =
     \<lparr>pm_provider_reference = mp_provider_reference p, pm_reference = Some (mp_reference p),
      pm_status = (case mp_status p of Provider_Pending \<Rightarrow> Record_Pending | Provider_Successful \<Rightarrow> Record_Successful | Provider_Failed \<Rightarrow> Record_Failed),
      pm_amount = mp_amount p, pm_currency = mp_currency p, pm_created_at = mp_created_at p\<rparr>"

definition mock_payout_record :: "mock_payout \<Rightarrow> payout_record" where
  "mock_payout_record p =
     \<lparr>pt_reference = mo_reference p, pt_provider_reference = mo_provider_reference p, pt_status = mo_status p,
      pt_amount = mo_amount p, pt_currency = mo_currency p, pt_created_at = mo_created_at p\<rparr>"

definition mock_reconciliation :: "mock_state \<Rightarrow> recon_capability" where
  "mock_reconciliation st =
     \<lparr>rc_list_payments = (\<lambda>a b. Inr (map mock_payment_record (filter (\<lambda>p. in_range a b (Some (mp_created_at p))) (map snd (mk_payments st))))),
      rc_list_payouts = Some (\<lambda>a b. Inr (map mock_payout_record (filter (\<lambda>p. in_range a b (Some (mo_created_at p))) (map snd (mk_payouts st)))))\<rparr>"

section \<open>What the mock shares with a provider\<close>

lemma map_of_replace:
  "map_of (map (\<lambda>(q, w). if q = k then (q, v) else (q, w)) m) q =
     (if q = k \<and> k \<in> fst ` set m then Some v else map_of m q)"
proof (induction m)
  case (Cons e m)
  then show ?case by (cases e; cases "fst e = k"; cases "q = k") simp_all
qed simp

lemma map_put_lookup: "map_of (map_put k v m) q = (if q = k then Some v else map_of m q)"
proof (cases "k \<in> fst ` set m")
  case False
  then have "map_of m k = None" by (simp add: map_of_eq_None_iff)
  then show ?thesis using False by (simp add: map_put_def map_add_def split: option.splits)
qed (simp add: map_put_def map_of_replace)

lemma map_put_keys: "fst ` set (map_put k v m) = insert k (fst ` set m)"
  by (auto simp: map_put_def image_iff split: if_splits) force+

text \<open>No reference is sent twice, as long as the mock remembers its payouts.\<close>

definition sent_once :: "mock_state \<Rightarrow> bool" where
  "sent_once st \<longleftrightarrow> distinct (mk_initiated st) \<and> set (mk_initiated st) \<subseteq> fst ` set (mk_payouts st)"

lemma initiate_sent_once:
  assumes "sent_once st"
  shows "sent_once (snd (mock_initiate hex now rq st))"
  using assms
  by (auto simp: mock_initiate_def Let_def sent_once_def map_put_keys map_of_eq_None_iff split: if_splits)

lemma simulate_payout_sent_once:
  "sent_once st \<Longrightarrow> sent_once (snd (simulate_payout_outcome hmac secret hex reference outcome st))"
  by (auto simp: simulate_payout_outcome_def sent_once_def map_put_keys split: option.splits)

lemma remember_payout_sent_once:
  "sent_once st \<Longrightarrow> sent_once (remember_payout reference provider_ref amount currency created st)"
  by (auto simp: remember_payout_def sent_once_def map_put_keys)

text \<open>
  A payout whose answer was lost is known to the mock, so that asking for it finds it and sending
  it again is refused.
\<close>

lemma lost_payout_is_found:
  assumes "behaviour_for st (pq_recipient rq) = Payout_Lost" and "map_of (mk_payouts st) (pq_reference rq) = None"
    and "mock_initiate hex now rq st = (r, st')"
  shows "r = Inl (Provider_Failure ''Mock provider timed out'' True)"
    and "mock_find_payout st' (pq_reference rq) =
      Inr (Some \<lparr>pa_provider_reference = ''TRF_mock_'' @ hex, pa_status = Payout_Successful, pa_failure_reason = None\<rparr>)"
  using assms
  by (auto simp: mock_initiate_def Let_def mock_find_payout_def map_put_lookup mock_payout_result_def simp del: map_option_eq_Some)

text \<open>The mock checks what it signs, and a payment is verified as its outcome was simulated.\<close>

lemma hex_text_to_hex: "hex_text (2 * length s) (to_hex s)"
proof (induction s)
  case (Cons c s)
  have "(of_char c :: nat) div 16 < 16" "(of_char c :: nat) mod 16 < 16"
    using less_mult_imp_div_less [of "of_char c :: nat" 16 16] of_char_less [of c] by simp_all
  then show ?case using Cons low_hex_digit by (simp add: hex_text_def)
qed (simp add: hex_text_def)

lemma mock_signed_iff:
  assumes "length (hmac secret raw) = 32" and "hs MOCK_SIGNATURE_HEADER = Some s"
  shows "mock_signed hmac secret raw hs \<longleftrightarrow> s = mock_sign hmac secret raw"
  using assms from_hex_eq [of 32 s] hex_text_to_hex [of "hmac secret raw"]
  by (auto simp: mock_signed_def mock_sign_def from_to_hex)

lemma simulated_is_verified:
  assumes "simulate_outcome hmac secret hex provider_ref successful amount currency st = (Inr w, st')"
    and "map_of (mk_payments st) provider_ref = Some p" and "mp_provider_reference p = provider_ref"
  shows "\<exists>v. mock_verify st' (mp_reference p) provider_ref = Inr v \<and>
    vf_status v = (if successful then Provider_Successful else Provider_Failed) \<and>
    vf_amount v = (case amount of None \<Rightarrow> mp_amount p | Some a \<Rightarrow> a)"
  using assms by (auto simp: simulate_outcome_def Let_def mock_verify_def map_put_lookup)

end
