(* ===== verification/Sandbox.thy ===== *)
theory Sandbox
  imports Mock_Provider Deployment
begin

text \<open>
  \<open>src/sandbox/sandbox.service.ts\<close>: the part of the provider and of the customer, played for payments
  and payouts of the mock provider. The state is that of the platform and of the mock; the simulated
  webhook goes through the real \<open>receive\<close>, and the row is then settled or synced at once. Funding a
  wallet (a payment started and completed in one call) is not modelled: the calls that start a
  checkout do not thread the memory of a provider.
\<close>

record sandbox_state =
  sb_platform :: platform
  sb_mock :: mock_state

datatype sandbox_error =
  Sandbox_Unavailable
| Not_Simulatable string
| Sandbox_Provider provider_failure
| Sandbox_Platform platform_error

type_synonym 'a sandbox_run = "sandbox_state \<Rightarrow> (sandbox_error + 'a) \<times> sandbox_state"

fun sandbox_problem :: "sandbox_error \<Rightarrow> problem option" where
  "sandbox_problem Sandbox_Unavailable = Some (''NOT_FOUND'', 404)"
| "sandbox_problem (Not_Simulatable d) = Some (''NOT_SIMULATABLE'', 409)"
| "sandbox_problem (Sandbox_Provider f) = None"
| "sandbox_problem (Sandbox_Platform e) = None"

text \<open>What the services see of the mock in a state of it.\<close>

definition registry_with_mock :: "(string \<Rightarrow> string \<Rightarrow> string) \<Rightarrow> int \<Rightarrow> mock_state \<Rightarrow> registry \<Rightarrow> registry" where
  "registry_with_mock hmac now m rg =
     rg\<lparr>rg_providers := map (\<lambda>p. if pv_name p = ''mock'' then mock_provider hmac [] now m else p) (rg_providers rg)\<rparr>"

definition mock_headers :: "string \<Rightarrow> headers" where
  "mock_headers signature = (\<lambda>name. if name = MOCK_SIGNATURE_HEADER then Some signature else None)"

definition receive_simulated :: "registry \<Rightarrow> web \<Rightarrow> (string \<Rightarrow> string \<Rightarrow> string) \<Rightarrow> string \<Rightarrow> int \<Rightarrow> string \<times> string \<Rightarrow> platform \<Rightarrow>
    (receive_result \<times> platform) pres" where
  "receive_simulated rg wb hmac secret now webhook p =
     receive rg (\<lambda>_. mock_webhooks wb hmac secret) now ''mock'' (Some (fst webhook)) (mock_headers (snd webhook)) p"

definition complete_mock_payment :: "registry \<Rightarrow> fx_config \<Rightarrow> web \<Rightarrow> (string \<Rightarrow> string \<Rightarrow> string) \<Rightarrow> string \<Rightarrow> string \<Rightarrow> int \<Rightarrow>
    owner \<Rightarrow> uuid \<Rightarrow> bool \<Rightarrow> int option \<Rightarrow> payment_view sandbox_run" where
  "complete_mock_payment rg cfg wb hmac secret hex now own i successful collected x =
     (if \<not> has_provider rg ''mock'' then (Inl Sandbox_Unavailable, x)
      else case get_owned_payment own i (pf_db (sb_platform x)) of
        Inl e \<Rightarrow> (Inl (Sandbox_Platform (App_Err e)), x)
      | Inr v \<Rightarrow>
          (let pay = vw_payment v; t = vw_transaction v in
           case (if p_provider pay = ''mock'' then truthy (p_provider_reference pay) else None) of
             None \<Rightarrow> (Inl (Not_Simulatable ''Only payments started with the mock provider can be simulated''), x)
           | Some pref \<Rightarrow>
               if t_status t \<noteq> Pending then (Inl (Not_Simulatable (''The payment is already '' @ txn_status_str (t_status t))), x)
               else
                 let m = remember_payment (t_reference t) pref (p_amount pay) (p_currency pay) (p_created_at pay) (sb_mock x) in
                 (case simulate_outcome hmac secret hex pref successful collected None m of
                    (Inl f, m') \<Rightarrow> (Inl (Sandbox_Provider f), x\<lparr>sb_mock := m'\<rparr>)
                  | (Inr webhook, m') \<Rightarrow>
                      (let rg' = registry_with_mock hmac now m' rg; y = x\<lparr>sb_mock := m'\<rparr> in
                       case receive_simulated rg' wb hmac secret now webhook (sb_platform x) of
                         Inl e \<Rightarrow> (Inl (Sandbox_Platform e), y)
                       | Inr (_, p) \<Rightarrow>
                           (case then_do (settle rg' cfg now pay) (\<lambda>_. reading (get_owned_payment own i)) (pf_db p) of
                              (Inl e, s) \<Rightarrow> (Inl (Sandbox_Platform (App_Err e)), y\<lparr>sb_platform := p\<lparr>pf_db := s\<rparr>\<rparr>)
                            | (Inr r, s) \<Rightarrow> (Inr r, y\<lparr>sb_platform := p\<lparr>pf_db := s\<rparr>\<rparr>))))))"

definition complete_mock_payout :: "registry \<Rightarrow> web \<Rightarrow> (string \<Rightarrow> string \<Rightarrow> string) \<Rightarrow> string \<Rightarrow> string \<Rightarrow> int \<Rightarrow>
    owner \<Rightarrow> uuid \<Rightarrow> payout_outcome \<Rightarrow> payout_view sandbox_run" where
  "complete_mock_payout rg wb hmac secret hex now own i outcome x =
     (if \<not> has_provider rg ''mock'' then (Inl Sandbox_Unavailable, x)
      else case get_owned_payout own i (pf_db (sb_platform x)) of
        Inl e \<Rightarrow> (Inl (Sandbox_Platform (App_Err e)), x)
      | Inr v \<Rightarrow>
          (let po = yv_payout v in
           if po_provider po \<noteq> ''mock'' then (Inl (Not_Simulatable ''Only payouts sent through the mock provider can be simulated''), x)
           else
             let m = (case truthy (po_provider_reference po) of
                    None \<Rightarrow> sb_mock x
                  | Some pref \<Rightarrow> remember_payout (po_reference po) pref (po_amount po) (po_currency po) (po_created_at po) (sb_mock x)) in
             (case simulate_payout_outcome hmac secret hex (po_reference po) outcome m of
                (Inl f, m') \<Rightarrow>
                  (Inl (Not_Simulatable ''The provider never received this payout (it was rejected or not sent)''), x\<lparr>sb_mock := m'\<rparr>)
              | (Inr webhook, m') \<Rightarrow>
                  (let rg' = registry_with_mock hmac now m' rg; y = x\<lparr>sb_mock := m'\<rparr> in
                   case receive_simulated rg' wb hmac secret now webhook (sb_platform x) of
                     Inl e \<Rightarrow> (Inl (Sandbox_Platform e), y)
                   | Inr (_, p) \<Rightarrow>
                       (case then_do (sync_payout rg' now (po_id po)) (\<lambda>_. reading (get_owned_payout own i)) (pf_db p) of
                          (Inl e, s) \<Rightarrow> (Inl (Sandbox_Platform (App_Err e)), y\<lparr>sb_platform := p\<lparr>pf_db := s\<rparr>\<rparr>)
                        | (Inr r, s) \<Rightarrow> (Inr r, y\<lparr>sb_platform := p\<lparr>pf_db := s\<rparr>\<rparr>))))))"

section \<open>Where it is closed, and what it sends\<close>

lemma live_has_no_mock:
  assumes "load_payments is_url host node_env sandbox env = Inr d" and "is_live node_env sandbox"
    and "start_providers (dp_payments d) available = Inr rg"
  shows "\<not> has_provider rg ''mock''"
proof -
  note l = load_payments_Inr [OF assms(1)]
  have "mock_rules True env = []" using l(2) assms(2) by (simp add: rule_violations_def)
  then have "''mock'' \<notin> set (pg_enabled (dp_payments d))" by (auto simp: mock_rules_def l(3) deployment_of_def split: if_splits)
  then show ?thesis
    using assms(3) by (auto simp: start_providers_def Let_def has_provider_def row_by_def find_Some_iff dest!: nth_mem split: if_splits)
qed

text \<open>Where real money can move there is no sandbox: nothing is simulated, whatever is asked.\<close>

lemma no_simulation_with_live_money:
  assumes "load_payments is_url host node_env sandbox env = Inr d" and "is_live node_env sandbox"
    and "start_providers (dp_payments d) available = Inr rg"
  shows "complete_mock_payment rg cfg wb hmac secret hex now own i successful collected x = (Inl Sandbox_Unavailable, x)"
    and "complete_mock_payout rg wb hmac secret hex now own i outcome x = (Inl Sandbox_Unavailable, x)"
  using live_has_no_mock [OF assms] by (simp_all add: complete_mock_payment_def complete_mock_payout_def)

text \<open>The signature of a simulated webhook is accepted where it is received.\<close>

lemma simulated_signature_accepted:
  assumes "length (hmac secret raw) = 32"
  shows "receive_simulated rg wb hmac secret now (raw, mock_sign hmac secret raw) p \<noteq> Inl (Webhook_Err Invalid_Webhook_Signature)"
proof -
  have "mock_signed hmac secret raw (mock_headers (mock_sign hmac secret raw))"
    using mock_signed_iff [of hmac secret raw, OF assms] by (simp add: mock_headers_def)
  then show ?thesis by (auto simp: receive_simulated_def receive_def mock_webhooks_def split: sum.splits option.splits if_splits prod.splits)
qed

end
