(* ===== verification/Spec2Isabelle.thy ===== *)
theory Spec2Isabelle
  imports Prelude App_Errors Money Posting Ledger Ledger_Laws Ledger_Funds Pagination
    Ledger_Reports Ledger_Interface Ledger_Theorems Fx_Math Entities Fx Transactions
    Wallets Wallet_Laws Wallet_Theorems Rule_Book Fees Limits Effects Transaction_Laws Transfers
    Service_Runs Providers Payments Settlement Refund_Math Refunds Payout_Destinations Payouts Moves Books Books_Steps Books_Rules
    Payment_Rows Payment_Books Settlement_Books Refund_Books Payout_Books Wallet_Books System Guarantees
    Idempotency Reconciliation Platform Sessions Organizations Access Access_Laws Outbox Webhooks Webhook_Laws
    Proposals Proposal_Laws Admin Outbound_Webhooks Provider_Http Paystack Paystack_Laws Stripe Flutterwave Paypal
    Notifications Routes Deployment Problem_Details Maintenance Mock_Provider Sandbox
begin

text \<open>
  A verification of the finstack payment backend: the TypeScript program under src/src (a NestJS
  application over PostgreSQL, with BullMQ queues and HTTP calls to payment providers). This theory
  imports the whole development and holds the properties that span its components.

  \<^bold>\<open>The program.\<close> Customers and organizations hold wallets; a wallet is three accounts (available,
  pending, reserved) of a double-entry ledger. Money comes in by payments through a provider, is
  settled into a wallet, perhaps after a conversion and less a fee, and is held for a while; it moves
  between users by transfers; it goes out by payouts and back by refunds. Every movement is one
  posting of the ledger inside one database transaction, which also writes the row of the operation,
  its outbox event and its audit record. A relay hands the events to queues, whose handlers send
  mail and signed webhooks; providers report back by webhooks, which are stored once and processed by
  asking the provider. Reconciliation compares the books with the providers' lists. Around this
  stand accounts and sessions, organizations with roles and API keys, idempotency keys, limits, fees
  and exchange rates, and proposals that a person approves.

  \<^bold>\<open>How the code is rendered.\<close> A table is a list of records in the order of insertion (the records
  of \<open>Entities\<close>, \<open>Platform\<close>, \<open>Ledger\<close> and of the later components), the database a record of
  tables. A service method is a function of the state before it to an error or a result and the
  state after it: \<open>'a res\<close> inside a database transaction, which rolls back on an error; a \<open>run\<close>
  (\<open>Service_Runs\<close>) for a request of several transactions, whose earlier transactions stay. The
  exceptions of the modules are the datatypes of \<open>App_Errors\<close>, with their HTTP status and code.
  Unique indexes, CHECK constraints and triggers are branches of the insertions and updates that
  can violate them. Where a service reads before the transaction that writes (a race), the function
  that ends in \<open>_at\<close> takes the state it read from as another argument. \<open>bigint\<close> amounts are \<open>int\<close>,
  checked against the width of their column where the code can overflow it; the CRC of a PayPal
  message is a 32-bit word.

  \<^bold>\<open>Theories, in the order of the code.\<close>
  \<^item> \<open>Prelude\<close>, \<open>App_Errors\<close>, \<open>Problem_Details\<close>: results, tables, strings and JSON; the exceptions (the errors.ts files) and
    the answer to whatever is thrown (common/http).
  \<^item> \<open>Money\<close>, \<open>Fx_Math\<close>, \<open>Refund_Math\<close>, \<open>Pagination\<close>: the pure arithmetic and keyset pages (common/money, fx/fx-math.ts,
    refunds/refund-math.ts, common/pagination).
  \<^item> \<open>Posting\<close>, \<open>Ledger\<close>, \<open>Ledger_Reports\<close>: ledger/posting.ts, ledger.service.ts and the triggers of the
    migrations. \<open>Ledger_Laws\<close>, \<open>Ledger_Funds\<close>, \<open>Ledger_Interface\<close>, \<open>Ledger_Theorems\<close>: the closed form of a posting,
    the overdraft checks, the contract the other services use, and the properties.
  \<^item> \<open>Entities\<close>, \<open>Transactions\<close>, \<open>Transaction_Laws\<close>: the rows and the state machine of transactions, with its trigger.
  \<^item> \<open>Wallets\<close>, \<open>Wallet_Laws\<close>, \<open>Wallet_Theorems\<close>: wallets.service.ts. \<open>Effects\<close>, \<open>Moves\<close>: what movements do to each balance.
  \<^item> \<open>Fx\<close>, \<open>Rule_Book\<close>, \<open>Fees\<close>, \<open>Limits\<close>, \<open>Transfers\<close>: rates, quotes and conversions, the rules and transfers.
  \<^item> \<open>Service_Runs\<close>, \<open>Providers\<close>, \<open>Payments\<close>, \<open>Settlement\<close>, \<open>Refunds\<close>, \<open>Payout_Destinations\<close>, \<open>Payouts\<close>: the services
    that talk to providers.
  \<^item> \<open>Books\<close>, \<open>Books_Steps\<close>, \<open>Books_Rules\<close>, \<open>Payment_Rows\<close>, \<open>Payment_Books\<close>, \<open>Settlement_Books\<close>, \<open>Refund_Books\<close>,
    \<open>Payout_Books\<close>, \<open>Wallet_Books\<close>: the invariant that ties every row to the balances, kept by every
    transaction. \<open>System\<close>, \<open>Guarantees\<close>: the step relation over all of them, its reachable states, and what holds there.
  \<^item> \<open>Idempotency\<close>, \<open>Reconciliation\<close>: idempotency/ and reconciliation/.
  \<^item> \<open>Platform\<close>, \<open>Sessions\<close>, \<open>Organizations\<close>, \<open>Access\<close>, \<open>Access_Laws\<close>, \<open>Routes\<close>, \<open>Admin\<close>: users/, auth/, organizations/,
    api-keys/, the guards, what every controller declares, and admin/.
  \<^item> \<open>Outbox\<close>, \<open>Webhooks\<close>, \<open>Webhook_Laws\<close>, \<open>Proposals\<close>, \<open>Proposal_Laws\<close>, \<open>Outbound_Webhooks\<close>, \<open>Notifications\<close>: the relay,
    inbound webhooks, proposals, webhooks and mail to customers.
  \<^item> \<open>Provider_Http\<close>, \<open>Paystack\<close>, \<open>Paystack_Laws\<close>, \<open>Stripe\<close>, \<open>Flutterwave\<close>, \<open>Paypal\<close>: the adapters of the providers, as
    values of the record \<open>payment_provider\<close> that the services take. \<open>Mock_Provider\<close>, \<open>Sandbox\<close>: the provider that is
    simulated in memory, and the service that plays the customer and the bank (payment-providers/mock, sandbox/).
  \<^item> \<open>Deployment\<close>, \<open>Maintenance\<close>: what a deployment must be configured with to start (config/payments.config.ts) and
    the periodic jobs over all tables (maintenance/).

  \<^bold>\<open>Interfaces.\<close> \<open>posting_ledger\<close> (\<open>Ledger_Interface\<close>) is what a service relies on when it posts; it is
  interpreted on \<open>post_within\<close> and on the ledger inside the database. \<open>keyset_list\<close> (\<open>Pagination\<close>) is a
  paginated list, interpreted on statements and the lists of transactions. \<open>rule_book\<close> (\<open>Rule_Book\<close>) is a
  table of rules with a history, interpreted on fees and limits. \<open>kept\<close> (\<open>Service_Runs\<close>) is a relation that
  every transaction of a run keeps, interpreted on the growth of the database.

  \<^bold>\<open>What is shown.\<close> In every reachable state the ledger balances, every hold is backed, every row is well
  typed, refunds stay within their payment, an audit finds nothing and a payout under way can be
  returned (\<open>Guarantees\<close>, \<open>ledger_reconciles\<close>); payouts refine a small state machine. Postings, reversals,
  transfers, conversions and idempotent requests happen once and move exactly what they say.
  Fees, limits and refunds in parts are exact. Organizations keep one owner in a sequential run, and
  lose it in a race (a finding); reuse of a token ends what its revocation sees of the session; an active admin remains unless a request
  has read its target too early, which can lose the last one (a finding); a claimed key keeps its claim; an
  authorized request has a grant, over the whole API. The relay drains, deliveries end and avoid
  internal addresses (a list of its own, which the masks of the code are shown to meet), events of PayPal are signed by a certificate its hosts, or
  their redirects, served, mails are sent exactly once, events of providers are processed once and a
  payment is credited only for what the provider collected. A deployment that starts keeps test and live keys apart,
  and with live money the sandbox is closed.

  \<^bold>\<open>Parameters.\<close> What is not code under src/ is an argument of the definitions: the network and \<open>JSON.parse\<close> (\<open>web\<close>),
  hashes, HMACs, RSA, JWTs and the password hash, random texts, the clock, DNS and the URL parser, the queue, the mail
  transport, the texts of exceptions of the runtime. Hypotheses about them (an HMAC has 64 bytes) stand in
  the statements, and every property with a hypothesis has a witness that evaluates it on concrete values.

  \<^bold>\<open>Bounds and fuel.\<close> No function has fuel; the download of a certificate stops, as \<open>fetch\<close> does, after 20 redirects. Loops over pages end by the page limit of the source (200), batches by the
  batch size, retries by the number of attempts of the job. Relations over runs are \<open>inductive\<close> and unbounded.

  \<^bold>\<open>Approximations.\<close> Times are numbers of milliseconds and identifiers are numbers, rendered by an injective
  text. An \<open>updatedAt\<close> column, foreign-key checks, the widths of text columns and the order of the keys of a
  jsonb value are left out. A database transaction takes effect at once (row locks and SERIALIZABLE retries are its
  atomicity); what runs between two transactions of a request is arbitrary. The quote that a late settlement asks for
  (payments/payment-settlement.service.ts) is saved on another connection, so in the code it outlives a rollback of the
  settlement, unused, while in the model it is gone; a system account, which the code ensures on its own connection,
  stays. Applying a webhook event is one step, while the code reads the event without a lock and writes its status by
  id after the transactions that apply it. The organization of a path is compared exactly with the ids, while the guard and PostgreSQL
  take upper-case letters in a UUID too. \<open>BigInt\<close> of a text takes decimal digits only, not blanks or the empty text. A field of a provider's answer that a result needs as a text, and that is none, is an exception at once. A number in a
  header is read in decimal digits only. \<open>Number\<close> is exact on the amounts it is used on below \<open>2 ^ 46\<close> major units.

  \<^bold>\<open>Not modelled.\<close> The decorators of request bodies (validation by class-validator) and the documentation of the API; the
  files of config/ other than that of the payments, whose values are records of the services that use them; funding a
  wallet in the sandbox; the command line and the MCP server (cli/), which are clients of the API; logging, metrics
  and health checks; the timers of the maintenance queue; the migrations other than their triggers and constraints.
\<close>

section \<open>The books and their audit\<close>

lemma reachable_ledger_checks: "reachable c s \<Longrightarrow> check_ledger s = []"
proof -
  assume "reachable c s"
  then have "ledger_inv (ledger s)" using reachable_books by (auto simp: books_def wallets_inv_def)
  then show ?thesis by (simp add: check_ledger_def ledger_inv_no_discrepancy trial_balance_equal)
qed

text \<open>
  C6. Whatever payments, refunds, payouts, transfers and wallets have gone through, a
  reconciliation run over the ledger that is still running completes with no issue, records no
  item, announces that there is none open, and changes nothing else of the database.
\<close>

theorem ledger_reconciles:
  assumes "reachable c (rd_db d)" and "get_run i d = Inr r" and "rn_status r = Run_Running" and "rn_provider r = None"
  shows "\<exists>r' d'. execute_run rg cfg caps txt now i d = Inr (r', d') \<and> rn_status r' = Run_Completed \<and>
    rs_issues (rn_summary r') = Some 0 \<and> rd_items d' = rd_items d \<and>
    rd_db d' = add_event now ''reconciliation.completed'' ''reconciliation_run'' i (recon_event r (summary_of None None [])) (rd_db d)"
proof -
  have r: "row_by rn_id i (rd_runs d) = Some r" using assms(2) by (auto simp: get_run_def the_or_def split: option.splits)
  then have i: "rn_id r = i" by (auto dest: row_by_Some)
  from r show ?thesis
    using assms by (simp add: execute_run_def reachable_ledger_checks [OF assms(1)] finish_run_def get_run_def row_by_set_row i the_or_def
        summary_of_def auto_resolved_def truthy_def)
qed

definition demo_audit :: recon_db where
  "demo_audit = \<lparr>rd_db = run_held, rd_runs = [\<lparr>rn_id = 0, rn_provider = None, rn_from = 0, rn_to = 5, rn_status = Run_Running,
     rn_trigger = Trigger_Schedule, rn_requested_by = None, rn_summary = no_summary, rn_error = None, rn_finished_at = None,
     rn_created_at = 5\<rparr>], rd_items = [], rd_next_id = 1\<rparr>"

theorem ledger_reconciles_witness:
  "\<exists>r' d'. execute_run demo_registry demo_fx_config (\<lambda>_. None) (\<lambda>_. '''') 40000 0 demo_audit = Inr (r', d') \<and> rs_issues (rn_summary r') = Some 0"
proof -
  have r: "reachable 30000 (rd_db demo_audit)" using run_steps(5) by (simp add: demo_audit_def)
  have "get_run 0 demo_audit = Inr (hd (rd_runs demo_audit))" by (simp add: demo_audit_def get_run_def the_or_def row_by_def)
  from ledger_reconciles [OF r this, of demo_registry demo_fx_config "\<lambda>_. None" "\<lambda>_. ''''" 40000] show ?thesis
    by (auto simp: demo_audit_def)
qed

end
